(* ===== verification/Prelude.thy ===== *)
theory Prelude
  imports Complex_Main
begin

text \<open>
  Shared vocabulary of the ArkClaw development: Python exceptions as values, the two
  result shapes the components use, finite floats, object identities, and the generic
  lemmas on sums, lists and first-maximum selection that the component proofs rest on.

  \<^item> \<open>'a res\<close> is the result of code that raises before it mutates anything, or that
    mutates nothing: \<open>Inl\<close> is the exception, \<open>Inr\<close> the value.
  \<^item> \<open>('a, 's) sres\<close> is the result of a method that may raise after it has mutated its
    object: the exception or value, together with the state the object is left in.
  \<^item> Python floats that the code uses as coordinates, durations and times are \<open>real\<close>:
    finite, and without rounding. Where the code itself tests \<^verbatim>\<open>math.isfinite\<close>, the
    argument is a \<open>pyfloat\<close>, which has the infinities and NaN.
  \<^item> \<^verbatim>\<open>object()\<close> tokens, which the code compares by identity only, are \<open>token\<close> numbers.
\<close>

section \<open>Exceptions and results\<close>

datatype metadata_failure =
    MetadataNotFound | MetadataConflict | MetadataReference | MetadataCorrupted | MetadataSchema
  | MetadataWrite

datatype py_error =
    ValueError string
  | TypeError string
  | KeyError
  | IndexError
  | RuntimeError string
  | AssertionError string
  | PetStateTransitionError
  | AnimationCompatibilityError
  | AnimationRegistryError string
  | TimeoutError
  | ContextBudgetError string
  | ProviderError string string
  | ProviderProfilePolicyError string
  | ProviderMetadataError metadata_failure string
  | ProviderProfileServiceError string
  | ProviderSettingsServiceError string string
  | ActiveTurnCoordinatorError string
  | SecretStoreError
  | OSError
  | AutostartOperationJournalError
  | AutostartBackendError string
  | StartupModeArgumentError
  | CancelledError

type_synonym 'a res = "py_error + 'a"
type_synonym ('a, 's) sres = "'a res \<times> 's"
type_synonym token = nat

named_theorems result_simps \<open>rewriting of results and their binds\<close>
named_theorems guard_defs \<open>the guard helpers of a component\<close>
named_theorems inv_intros \<open>operations keep the invariant of their component\<close>

definition ebind :: "'a res \<Rightarrow> ('a \<Rightarrow> 'b res) \<Rightarrow> 'b res" where
  "ebind r f = (case r of Inl e \<Rightarrow> Inl e | Inr v \<Rightarrow> f v)"

definition sbind :: "('a, 's) sres \<Rightarrow> ('a \<Rightarrow> 's \<Rightarrow> ('b, 's) sres) \<Rightarrow> ('b, 's) sres" where
  "sbind r f = (case r of (Inl e, s) \<Rightarrow> (Inl e, s) | (Inr v, s) \<Rightarrow> f v s)"

text \<open>A call inside a method whose object is in state \<open>s\<close>: its exception leaves \<open>s\<close>.\<close>

definition with_res :: "'a res \<Rightarrow> 's \<Rightarrow> ('a \<Rightarrow> ('b, 's) sres) \<Rightarrow> ('b, 's) sres" where
  "with_res r s f = (case r of Inl e \<Rightarrow> (Inl e, s) | Inr v \<Rightarrow> f v)"

definition is_ok :: "'a res \<Rightarrow> bool" where
  "is_ok r = (case r of Inl _ \<Rightarrow> False | Inr _ \<Rightarrow> True)"

text \<open>\<^verbatim>\<open>if cond: raise e\<close> in front of the rest of a body.\<close>

definition raise_if :: "bool \<Rightarrow> py_error \<Rightarrow> 'a res \<Rightarrow> 'a res" where
  "raise_if c e r = (if c then Inl e else r)"

lemma ebind_simps [simp, result_simps]:
  "ebind (Inl e) f = Inl e"
  "ebind (Inr v) f = f v"
  by (simp_all add: ebind_def)

lemma sbind_simps [simp, result_simps]:
  "sbind (Inl e, s) f = (Inl e, s)"
  "sbind (Inr v, s) f = f v s"
  by (simp_all add: sbind_def)

lemma with_res_simps [simp, result_simps]:
  "with_res (Inl e) s f = (Inl e, s)"
  "with_res (Inr v) s f = f v"
  by (simp_all add: with_res_def)

lemma is_ok_simps [simp, result_simps]:
  "\<not> is_ok (Inl e)"
  "is_ok (Inr v)"
  by (simp_all add: is_ok_def)

lemma raise_if_simps [simp, result_simps]:
  "raise_if True e r = Inl e"
  "raise_if False e r = r"
  by (simp_all add: raise_if_def)

lemma ebind_eq_Inr_iff [result_simps]:
  "ebind r f = Inr w \<longleftrightarrow> (\<exists>v. r = Inr v \<and> f v = Inr w)"
  by (cases r) auto

lemma ebind_eq_Inl_iff [result_simps]:
  "ebind r f = Inl e \<longleftrightarrow> r = Inl e \<or> (\<exists>v. r = Inr v \<and> f v = Inl e)"
  by (cases r) auto

lemma raise_if_eq_Inr_iff [simp, result_simps]:
  "raise_if c e r = Inr v \<longleftrightarrow> \<not> c \<and> r = Inr v"
  by (simp add: raise_if_def)

lemma raise_if_eq_Inl_iff [simp, result_simps]:
  "raise_if c e r = Inl x \<longleftrightarrow> c \<and> x = e \<or> \<not> c \<and> r = Inl x"
  by (auto simp: raise_if_def)

lemma with_res_eq_iff [result_simps]:
  "with_res r s f = x \<longleftrightarrow>
     (\<exists>e. r = Inl e \<and> x = (Inl e, s)) \<or> (\<exists>v. r = Inr v \<and> f v = x)"
  by (cases r) auto

lemma sbind_eq_Inr_iff [result_simps]:
  "sbind r f = (Inr v, s') \<longleftrightarrow> (\<exists>u s1. r = (Inr u, s1) \<and> f u s1 = (Inr v, s'))"
  by (cases r; cases "fst r") auto

lemma is_ok_iff: "is_ok r \<longleftrightarrow> (\<exists>v. r = Inr v)"
  by (cases r) auto

lemma is_ok_raise_if [simp]: "is_ok (raise_if c e r) \<longleftrightarrow> \<not> c \<and> is_ok r"
  by (simp add: raise_if_def)

lemma sbind_assoc:
  "sbind (sbind r f) g = sbind r (\<lambda>v s. sbind (f v s) g)"
  by (cases r; cases "fst r") auto

section \<open>Python sequence indexing\<close>

text \<open>\<^verbatim>\<open>xs[i]\<close>: a negative index counts from the end, anything else out of range raises.\<close>

definition py_index :: "'a list \<Rightarrow> int \<Rightarrow> 'a res" where
  "py_index xs i =
    (if 0 \<le> i \<and> i < int (length xs) then Inr (xs ! nat i)
     else if i < 0 \<and> - int (length xs) \<le> i then Inr (xs ! nat (int (length xs) + i))
     else Inl IndexError)"

lemma py_index_in [simp]: "0 \<le> i \<Longrightarrow> i < int (length xs) \<Longrightarrow> py_index xs i = Inr (xs ! nat i)"
  by (simp add: py_index_def)

section \<open>Floats the code tests for finiteness\<close>

datatype pyfloat = Finite real | PosInf | NegInf | NaN

fun isfinite :: "pyfloat \<Rightarrow> bool" where
  "isfinite (Finite _) = True"
| "isfinite _ = False"

fun float_value :: "pyfloat \<Rightarrow> real" where
  "float_value (Finite x) = x"
| "float_value _ = 0"

lemma isfinite_iff: "isfinite f \<longleftrightarrow> (\<exists>x. f = Finite x)"
  by (cases f) auto

section \<open>Strings\<close>

text \<open>
  \<^verbatim>\<open>str\<close> values are \<open>string\<close>s of the 256 characters HOL has; the code uses their length, equality,
  concatenation and \<^verbatim>\<open>strip()\<close> only. \<open>py_isspace\<close> is Python's whitespace among those characters.
\<close>

definition py_isspace :: "char \<Rightarrow> bool" where
  "py_isspace c \<longleftrightarrow> (of_char c :: nat) \<in> {9, 10, 11, 12, 13, 28, 29, 30, 31, 32, 133, 160}"

definition py_strip :: "string \<Rightarrow> string" where
  "py_strip s = rev (dropWhile py_isspace (rev (dropWhile py_isspace s)))"

definition blank :: "string \<Rightarrow> bool" where
  "blank s \<longleftrightarrow> py_strip s = []"

lemma blank_iff: "blank s \<longleftrightarrow> list_all py_isspace s"
proof -
  have "dropWhile py_isspace (rev t) = [] \<longleftrightarrow> list_all py_isspace t" for t
    by (simp add: list_all_iff)
  then have "blank s \<longleftrightarrow> list_all py_isspace (dropWhile py_isspace s)"
    by (simp add: blank_def py_strip_def)
  also have "\<dots> \<longleftrightarrow> list_all py_isspace s"
    by (induction s) auto
  finally show ?thesis .
qed

section \<open>First maximum and first minimum of a list\<close>

text \<open>
  Python's \<^verbatim>\<open>max(xs)\<close> with \<^verbatim>\<open>xs.index(m)\<close> and \<^verbatim>\<open>min(xs, key=f)\<close> both return the first
  element that attains the extremum. Both are only called on nonempty sequences.
\<close>

fun list_max :: "real list \<Rightarrow> real" where
  "list_max [] = 0"
| "list_max [x] = x"
| "list_max (x # y # xs) = max x (list_max (y # xs))"

fun index_of :: "'a list \<Rightarrow> 'a \<Rightarrow> nat" where
  "index_of [] v = 0"
| "index_of (x # xs) v = (if x = v then 0 else Suc (index_of xs v))"

fun min_by :: "('a \<Rightarrow> real) \<Rightarrow> 'a \<Rightarrow> 'a list \<Rightarrow> 'a" where
  "min_by f best [] = best"
| "min_by f best (x # xs) = min_by f (if f x < f best then x else best) xs"

lemma list_max_in: "xs \<noteq> [] \<Longrightarrow> list_max xs \<in> set xs"
  by (induction xs rule: list_max.induct) (auto simp: max_def)

lemma list_max_ge: "x \<in> set xs \<Longrightarrow> x \<le> list_max xs"
  by (induction xs rule: list_max.induct) (auto simp: le_max_iff_disj)

lemma index_of_less: "v \<in> set xs \<Longrightarrow> index_of xs v < length xs"
  by (induction xs) auto

lemma nth_index_of: "v \<in> set xs \<Longrightarrow> xs ! index_of xs v = v"
  by (induction xs) auto

lemma min_by_in: "min_by f best xs \<in> insert best (set xs)"
  by (induction xs arbitrary: best) (auto split: if_splits)

lemma min_by_le_best: "f (min_by f best xs) \<le> f best"
proof (induction xs arbitrary: best)
  case Nil
  then show ?case by simp
next
  case (Cons x xs)
  have "f (min_by f (if f x < f best then x else best) xs) \<le> f (if f x < f best then x else best)"
    by (rule Cons.IH)
  then show ?case by (simp split: if_splits)
qed

lemma min_by_le: "y \<in> insert best (set xs) \<Longrightarrow> f (min_by f best xs) \<le> f y"
proof (induction xs arbitrary: best)
  case Nil
  then show ?case by simp
next
  case (Cons x xs)
  let ?b = "if f x < f best then x else best"
  have b: "f ?b \<le> f x" "f ?b \<le> f best" by auto
  show ?case
  proof (cases "y \<in> set xs")
    case True
    then show ?thesis using Cons.IH [of ?b] by simp
  next
    case False
    with Cons.prems have "y = best \<or> y = x" by auto
    then show ?thesis using b min_by_le_best [of f ?b xs] by auto
  qed
qed

section \<open>Clamping\<close>

definition clamp :: "real \<Rightarrow> real \<Rightarrow> real \<Rightarrow> real" where
  "clamp lo hi x = min (max x lo) hi"

lemma clamp_range: "lo \<le> hi \<Longrightarrow> lo \<le> clamp lo hi x \<and> clamp lo hi x \<le> hi"
  by (auto simp: clamp_def)

lemma clamp_id: "lo \<le> x \<Longrightarrow> x \<le> hi \<Longrightarrow> clamp lo hi x = x"
  by (auto simp: clamp_def)

lemma clamp_nearest:
  assumes "lo \<le> y" "y \<le> hi"
  shows "\<bar>clamp lo hi x - x\<bar> \<le> \<bar>y - x\<bar>"
  using assms by (auto simp: clamp_def min_def max_def)

end
