(* ===== verification/Action_Sequence.thy ===== *)
theory Action_Sequence
  imports Prelude
begin

text \<open>
  The immutable action vocabulary of \<^verbatim>\<open>application/pet/pet_action_sequence.py\<close>: logical
  animation names, sequences of playback steps with their loop metadata, the standard
  sequence catalog and the validated logical-to-physical animation registry. Dataclasses
  are records; a \<^verbatim>\<open>__post_init__\<close> that validates is the \<open>mk_\<close> constructor of the record.
\<close>

section \<open>Vocabulary\<close>

datatype PetActionName =
    IDLE | BREATHING | BLINK | WALK_LEFT | WALK_RIGHT | RUN_LEFT | RUN_RIGHT
  | SIT_DOWN | SIT_IDLE | SLEEP_START | SLEEP_LOOP | SLEEP_END | WAVE | HAPPY | THINK
  | READ | TYPE | REMIND | CONFUSED | ANGRY | DRAG_START | DRAG_LOOP | DRAG_END
  | LANDING | RETURN_IDLE

definition all_PetActionName :: "PetActionName list" where
  "all_PetActionName =
    [PetActionName.IDLE, PetActionName.BREATHING, PetActionName.BLINK,
     PetActionName.WALK_LEFT, PetActionName.WALK_RIGHT, PetActionName.RUN_LEFT,
     PetActionName.RUN_RIGHT, PetActionName.SIT_DOWN, PetActionName.SIT_IDLE,
     PetActionName.SLEEP_START, PetActionName.SLEEP_LOOP, PetActionName.SLEEP_END,
     PetActionName.WAVE, PetActionName.HAPPY, PetActionName.THINK, PetActionName.READ,
     PetActionName.TYPE, PetActionName.REMIND, PetActionName.CONFUSED, PetActionName.ANGRY,
     PetActionName.DRAG_START, PetActionName.DRAG_LOOP, PetActionName.DRAG_END,
     PetActionName.LANDING, PetActionName.RETURN_IDLE]"

fun action_value :: "PetActionName \<Rightarrow> string" where
  "action_value PetActionName.IDLE = ''idle''"
| "action_value PetActionName.BREATHING = ''breathing''"
| "action_value PetActionName.BLINK = ''blink''"
| "action_value PetActionName.WALK_LEFT = ''walk_left''"
| "action_value PetActionName.WALK_RIGHT = ''walk_right''"
| "action_value PetActionName.RUN_LEFT = ''run_left''"
| "action_value PetActionName.RUN_RIGHT = ''run_right''"
| "action_value PetActionName.SIT_DOWN = ''sit_down''"
| "action_value PetActionName.SIT_IDLE = ''sit_idle''"
| "action_value PetActionName.SLEEP_START = ''sleep_start''"
| "action_value PetActionName.SLEEP_LOOP = ''sleep_loop''"
| "action_value PetActionName.SLEEP_END = ''sleep_end''"
| "action_value PetActionName.WAVE = ''wave''"
| "action_value PetActionName.HAPPY = ''happy''"
| "action_value PetActionName.THINK = ''think''"
| "action_value PetActionName.READ = ''read''"
| "action_value PetActionName.TYPE = ''type''"
| "action_value PetActionName.REMIND = ''remind''"
| "action_value PetActionName.CONFUSED = ''confused''"
| "action_value PetActionName.ANGRY = ''angry''"
| "action_value PetActionName.DRAG_START = ''drag_start''"
| "action_value PetActionName.DRAG_LOOP = ''drag_loop''"
| "action_value PetActionName.DRAG_END = ''drag_end''"
| "action_value PetActionName.LANDING = ''landing''"
| "action_value PetActionName.RETURN_IDLE = ''return_idle''"

datatype SequenceName =
    IDLE | BREATHING | BLINK | WALK_LEFT | WALK_RIGHT | RUN_LEFT | RUN_RIGHT | SIT | SLEEP
  | WAVE | HAPPY | THINK | READ | TYPE | REMIND | CONFUSED | ANGRY | DRAG_HOLD
  | DRAG_RELEASE | FALL_RECOVERY | LANDING | PRODUCTION_RELAX | PRODUCTION_MOVE_LEFT
  | PRODUCTION_MOVE_RIGHT | PRODUCTION_SIT | PRODUCTION_SLEEP | PRODUCTION_SPECIAL
  | PRODUCTION_INTERACT | PRODUCTION_MOTION_FALLBACK

datatype SequenceTerminal = COMPLETE | HOLD | IDLE

datatype InterruptClass =
    IDLE | NORMAL_ACTION | STRICT_ACTION | USER_INTERACTION | MOTION_SAFETY | SYSTEM_SHUTDOWN

text \<open>\<^verbatim>\<open>InterruptClass\<close> is an \<^verbatim>\<open>IntEnum\<close>: members compare by their integer value.\<close>

fun interrupt_value :: "InterruptClass \<Rightarrow> int" where
  "interrupt_value InterruptClass.IDLE = 0"
| "interrupt_value InterruptClass.NORMAL_ACTION = 100"
| "interrupt_value InterruptClass.STRICT_ACTION = 200"
| "interrupt_value InterruptClass.USER_INTERACTION = 300"
| "interrupt_value InterruptClass.MOTION_SAFETY = 400"
| "interrupt_value InterruptClass.SYSTEM_SHUTDOWN = 500"

lemma interrupt_value_inj: "interrupt_value a = interrupt_value b \<Longrightarrow> a = b"
  by (cases a; cases b) simp_all

instantiation InterruptClass :: linorder
begin

definition less_eq_InterruptClass :: "InterruptClass \<Rightarrow> InterruptClass \<Rightarrow> bool" where
  "less_eq_InterruptClass a b \<longleftrightarrow> interrupt_value a \<le> interrupt_value b"

definition less_InterruptClass :: "InterruptClass \<Rightarrow> InterruptClass \<Rightarrow> bool" where
  "less_InterruptClass a b \<longleftrightarrow> interrupt_value a < interrupt_value b"

instance
proof
  fix x y z :: InterruptClass
  show "(x < y) = (x \<le> y \<and> \<not> y \<le> x)"
    by (auto simp: less_eq_InterruptClass_def less_InterruptClass_def)
  show "x \<le> x" by (simp add: less_eq_InterruptClass_def)
  show "x \<le> z" if "x \<le> y" and "y \<le> z"
    using that by (simp add: less_eq_InterruptClass_def)
  show "x = y" if "x \<le> y" and "y \<le> x"
    using that by (simp add: less_eq_InterruptClass_def interrupt_value_inj)
  show "x \<le> y \<or> y \<le> x" by (auto simp: less_eq_InterruptClass_def)
qed

end

datatype PlaybackHealth = HEALTHY | DEGRADED | UNKNOWN

section \<open>Steps, sequences and catalog entries\<close>

record PetActionStep =
  step_action :: PetActionName
  step_loop :: bool
  step_speed :: real
  step_mix_seconds :: "real option"

definition mk_PetActionStep ::
    "PetActionName \<Rightarrow> bool \<Rightarrow> real \<Rightarrow> real option \<Rightarrow> PetActionStep res" where
  "mk_PetActionStep action loop speed mix_seconds =
    raise_if (speed \<le> 0) (ValueError ''speed must be positive'')
    (raise_if (case mix_seconds of None \<Rightarrow> False | Some m \<Rightarrow> m < 0)
       (ValueError ''mix_seconds must be non-negative'')
    (Inr \<lparr>step_action = action, step_loop = loop, step_speed = speed,
          step_mix_seconds = mix_seconds\<rparr>))"

record PetActionSequence =
  seq_steps :: "PetActionStep list"
  loop_index :: "int option"
  loop_exit_index :: "int option"
  seq_terminal :: SequenceTerminal

definition in_steps :: "PetActionStep list \<Rightarrow> int \<Rightarrow> bool" where
  "in_steps steps i \<longleftrightarrow> 0 \<le> i \<and> i < int (length steps)"

definition mk_PetActionSequence ::
    "PetActionStep list \<Rightarrow> int option \<Rightarrow> int option \<Rightarrow> SequenceTerminal
      \<Rightarrow> PetActionSequence res" where
  "mk_PetActionSequence steps li le term =
    (let s = \<lparr>seq_steps = steps, loop_index = li, loop_exit_index = le, seq_terminal = term\<rparr>
     in raise_if (steps = []) (ValueError ''a sequence must contain at least one step'')
        (case li of
           None \<Rightarrow> raise_if (le \<noteq> None) (ValueError ''a loop exit requires a loop'') (Inr s)
         | Some i \<Rightarrow>
             raise_if (\<not> in_steps steps i) (ValueError ''loop_index is out of range'')
             (raise_if (\<not> step_loop (steps ! nat i))
                (ValueError ''loop_index must identify a looping step'')
             (raise_if (case le of None \<Rightarrow> False | Some j \<Rightarrow> \<not> in_steps steps j)
                (ValueError ''loop_exit_index is out of range'')
             (Inr s)))))"

text \<open>\<^verbatim>\<open>PetActionSequence.then\<close>: \<^verbatim>\<open>dataclasses.replace\<close> validates the new sequence again.\<close>

definition then_step :: "PetActionSequence \<Rightarrow> PetActionStep \<Rightarrow> PetActionSequence res" where
  "then_step s step =
    mk_PetActionSequence (seq_steps s @ [step]) (loop_index s) (loop_exit_index s)
      (seq_terminal s)"

record SequenceCatalogEntry =
  entry_track :: int
  entry_sequence :: PetActionSequence
  entry_interruption_class :: InterruptClass
  entry_protected :: bool

definition mk_SequenceCatalogEntry ::
    "int \<Rightarrow> PetActionSequence \<Rightarrow> InterruptClass \<Rightarrow> bool \<Rightarrow> SequenceCatalogEntry res" where
  "mk_SequenceCatalogEntry track sequence cls protected =
    raise_if (track \<notin> {0, 1, 2}) (ValueError ''track must be 0, 1, or 2'')
    (raise_if (cls = InterruptClass.STRICT_ACTION \<and> \<not> protected)
       (ValueError ''strict actions must be protected'')
    (Inr \<lparr>entry_track = track, entry_sequence = sequence,
          entry_interruption_class = cls, entry_protected = protected\<rparr>))"

definition catalog_step :: "PetActionName \<Rightarrow> bool \<Rightarrow> PetActionStep res" where
  "catalog_step action loop = mk_PetActionStep action loop 1 (Some (12 / 100))"

fun collect_res :: "'a res list \<Rightarrow> 'a list res" where
  "collect_res [] = Inr []"
| "collect_res (r # rs) = ebind r (\<lambda>x. ebind (collect_res rs) (\<lambda>xs. Inr (x # xs)))"

definition catalog_entry ::
    "int \<Rightarrow> PetActionStep res list \<Rightarrow> InterruptClass \<Rightarrow> int option \<Rightarrow> int option
      \<Rightarrow> SequenceTerminal \<Rightarrow> bool \<Rightarrow> SequenceCatalogEntry res" where
  "catalog_entry track steps cls li le term protected =
    ebind (collect_res steps) (\<lambda>ss.
    ebind (mk_PetActionSequence ss li le term) (\<lambda>sequence.
    mk_SequenceCatalogEntry track sequence cls protected))"

abbreviation catalog_return_idle :: "PetActionStep res" where
  "catalog_return_idle \<equiv> catalog_step PetActionName.RETURN_IDLE False"

section \<open>The standard catalog\<close>

text \<open>
  \<^verbatim>\<open>SEQUENCE_CATALOG\<close> runs its validating constructors when the module is loaded:
  \<open>catalog_build\<close> keeps their exceptions, and \<open>SEQUENCE_CATALOG\<close> is the mapping that
  exists once the module has loaded.
\<close>

fun catalog_build :: "SequenceName \<Rightarrow> SequenceCatalogEntry res" where
  "catalog_build SequenceName.IDLE =
     catalog_entry 0 [catalog_step PetActionName.IDLE True]
       InterruptClass.IDLE (Some 0) None SequenceTerminal.HOLD False"
| "catalog_build SequenceName.BREATHING =
     catalog_entry 1 [catalog_step PetActionName.BREATHING True]
       InterruptClass.NORMAL_ACTION (Some 0) None SequenceTerminal.HOLD False"
| "catalog_build SequenceName.BLINK =
     catalog_entry 2 [catalog_step PetActionName.BLINK False]
       InterruptClass.NORMAL_ACTION None None SequenceTerminal.COMPLETE False"
| "catalog_build SequenceName.WALK_LEFT =
     catalog_entry 0 [catalog_step PetActionName.WALK_LEFT True, catalog_return_idle]
       InterruptClass.NORMAL_ACTION (Some 0) (Some 1) SequenceTerminal.IDLE False"
| "catalog_build SequenceName.WALK_RIGHT =
     catalog_entry 0 [catalog_step PetActionName.WALK_RIGHT True, catalog_return_idle]
       InterruptClass.NORMAL_ACTION (Some 0) (Some 1) SequenceTerminal.IDLE False"
| "catalog_build SequenceName.RUN_LEFT =
     catalog_entry 0 [catalog_step PetActionName.RUN_LEFT True, catalog_return_idle]
       InterruptClass.NORMAL_ACTION (Some 0) (Some 1) SequenceTerminal.IDLE False"
| "catalog_build SequenceName.RUN_RIGHT =
     catalog_entry 0 [catalog_step PetActionName.RUN_RIGHT True, catalog_return_idle]
       InterruptClass.NORMAL_ACTION (Some 0) (Some 1) SequenceTerminal.IDLE False"
| "catalog_build SequenceName.SIT =
     catalog_entry 0 [catalog_step PetActionName.SIT_DOWN False, catalog_step PetActionName.SIT_IDLE True, catalog_return_idle]
       InterruptClass.NORMAL_ACTION (Some 1) (Some 2) SequenceTerminal.IDLE False"
| "catalog_build SequenceName.SLEEP =
     catalog_entry 0 [catalog_step PetActionName.SLEEP_START False, catalog_step PetActionName.SLEEP_LOOP True, catalog_step PetActionName.SLEEP_END False, catalog_return_idle]
       InterruptClass.NORMAL_ACTION (Some 1) (Some 2) SequenceTerminal.IDLE False"
| "catalog_build SequenceName.WAVE =
     catalog_entry 0 [catalog_step PetActionName.WAVE False, catalog_return_idle]
       InterruptClass.STRICT_ACTION None None SequenceTerminal.IDLE True"
| "catalog_build SequenceName.HAPPY =
     catalog_entry 0 [catalog_step PetActionName.HAPPY False, catalog_return_idle]
       InterruptClass.STRICT_ACTION None None SequenceTerminal.IDLE True"
| "catalog_build SequenceName.THINK =
     catalog_entry 0 [catalog_step PetActionName.THINK False, catalog_return_idle]
       InterruptClass.NORMAL_ACTION None None SequenceTerminal.IDLE False"
| "catalog_build SequenceName.READ =
     catalog_entry 0 [catalog_step PetActionName.READ True, catalog_return_idle]
       InterruptClass.NORMAL_ACTION (Some 0) (Some 1) SequenceTerminal.IDLE False"
| "catalog_build SequenceName.TYPE =
     catalog_entry 0 [catalog_step PetActionName.TYPE True, catalog_return_idle]
       InterruptClass.NORMAL_ACTION (Some 0) (Some 1) SequenceTerminal.IDLE False"
| "catalog_build SequenceName.REMIND =
     catalog_entry 0 [catalog_step PetActionName.REMIND False, catalog_return_idle]
       InterruptClass.NORMAL_ACTION None None SequenceTerminal.IDLE False"
| "catalog_build SequenceName.CONFUSED =
     catalog_entry 0 [catalog_step PetActionName.CONFUSED False, catalog_return_idle]
       InterruptClass.STRICT_ACTION None None SequenceTerminal.IDLE True"
| "catalog_build SequenceName.ANGRY =
     catalog_entry 0 [catalog_step PetActionName.ANGRY False, catalog_return_idle]
       InterruptClass.STRICT_ACTION None None SequenceTerminal.IDLE True"
| "catalog_build SequenceName.DRAG_HOLD =
     catalog_entry 0 [catalog_step PetActionName.DRAG_START False, catalog_step PetActionName.DRAG_LOOP True]
       InterruptClass.USER_INTERACTION (Some 1) None SequenceTerminal.HOLD False"
| "catalog_build SequenceName.DRAG_RELEASE =
     catalog_entry 0 [catalog_step PetActionName.DRAG_END False]
       InterruptClass.USER_INTERACTION None None SequenceTerminal.HOLD False"
| "catalog_build SequenceName.FALL_RECOVERY =
     catalog_entry 0 [catalog_step PetActionName.DRAG_END False]
       InterruptClass.MOTION_SAFETY None None SequenceTerminal.HOLD False"
| "catalog_build SequenceName.LANDING =
     catalog_entry 0 [catalog_step PetActionName.LANDING False, catalog_return_idle]
       InterruptClass.MOTION_SAFETY None None SequenceTerminal.IDLE False"
| "catalog_build SequenceName.PRODUCTION_RELAX =
     catalog_entry 0 [catalog_step PetActionName.IDLE True]
       InterruptClass.NORMAL_ACTION (Some 0) None SequenceTerminal.HOLD False"
| "catalog_build SequenceName.PRODUCTION_MOTION_FALLBACK =
     catalog_entry 0 [catalog_step PetActionName.IDLE True]
       InterruptClass.USER_INTERACTION (Some 0) None SequenceTerminal.HOLD False"
| "catalog_build SequenceName.PRODUCTION_MOVE_LEFT =
     catalog_entry 0 [catalog_step PetActionName.WALK_LEFT True]
       InterruptClass.NORMAL_ACTION (Some 0) None SequenceTerminal.HOLD False"
| "catalog_build SequenceName.PRODUCTION_MOVE_RIGHT =
     catalog_entry 0 [catalog_step PetActionName.WALK_RIGHT True]
       InterruptClass.NORMAL_ACTION (Some 0) None SequenceTerminal.HOLD False"
| "catalog_build SequenceName.PRODUCTION_SIT =
     catalog_entry 0 [catalog_step PetActionName.SIT_IDLE True]
       InterruptClass.NORMAL_ACTION (Some 0) None SequenceTerminal.HOLD False"
| "catalog_build SequenceName.PRODUCTION_SLEEP =
     catalog_entry 0 [catalog_step PetActionName.SLEEP_LOOP True]
       InterruptClass.NORMAL_ACTION (Some 0) None SequenceTerminal.HOLD False"
| "catalog_build SequenceName.PRODUCTION_SPECIAL =
     catalog_entry 0 [catalog_step PetActionName.WAVE False]
       InterruptClass.STRICT_ACTION None None SequenceTerminal.COMPLETE True"
| "catalog_build SequenceName.PRODUCTION_INTERACT =
     catalog_entry 0 [catalog_step PetActionName.HAPPY False]
       InterruptClass.STRICT_ACTION None None SequenceTerminal.COMPLETE True"

definition SEQUENCE_CATALOG :: "SequenceName \<Rightarrow> SequenceCatalogEntry option" where
  "SEQUENCE_CATALOG n = (case catalog_build n of Inl _ \<Rightarrow> None | Inr e \<Rightarrow> Some e)"

section \<open>Animation registry\<close>

record AnimationBinding =
  binding_action :: PetActionName
  physical_name :: string
  binding_track :: int
  source_duration_seconds :: "real option"

definition mk_AnimationBinding ::
    "PetActionName \<Rightarrow> string \<Rightarrow> int \<Rightarrow> real option \<Rightarrow> AnimationBinding res" where
  "mk_AnimationBinding action pname track dur =
    raise_if (pname = []) (ValueError ''physical_name must not be empty'')
    (raise_if (track \<notin> {0, 1, 2}) (ValueError ''track must be 0, 1, or 2'')
    (raise_if (case dur of None \<Rightarrow> False | Some d \<Rightarrow> d \<le> 0)
       (ValueError ''source duration must be positive'')
    (Inr \<lparr>binding_action = action, physical_name = pname, binding_track = track,
          source_duration_seconds = dur\<rparr>)))"

definition expected_track :: "PetActionName \<Rightarrow> int" where
  "expected_track a =
    (if a = PetActionName.BREATHING then 1 else if a = PetActionName.BLINK then 2 else 0)"

type_synonym AnimationRegistry = "PetActionName \<Rightarrow> AnimationBinding option"

definition actions_by_physical :: "AnimationRegistry \<Rightarrow> string \<Rightarrow> PetActionName list" where
  "actions_by_physical m p =
    filter (\<lambda>a. case m a of None \<Rightarrow> False | Some b \<Rightarrow> physical_name b = p) all_PetActionName"

definition bound_list :: "AnimationRegistry \<Rightarrow> (PetActionName \<times> AnimationBinding) list" where
  "bound_list m =
    concat (map (\<lambda>a. case m a of None \<Rightarrow> [] | Some b \<Rightarrow> [(a, b)]) all_PetActionName)"

definition mk_AnimationRegistry :: "AnimationRegistry \<Rightarrow> AnimationRegistry res" where
  "mk_AnimationRegistry m =
    raise_if (\<not> list_all (\<lambda>a. m a \<noteq> None) all_PetActionName)
      (AnimationRegistryError ''registry must bind every logical action'')
    (raise_if (list_ex (\<lambda>(a, b). a \<noteq> binding_action b) (bound_list m))
      (AnimationRegistryError ''registry keys must match binding actions'')
    (raise_if
      (list_ex
        (\<lambda>(a, b).
          let actions = set (actions_by_physical m (physical_name b))
          in card actions > 1 \<and> actions \<noteq> {PetActionName.WALK_LEFT, PetActionName.WALK_RIGHT})
        (bound_list m))
      (AnimationRegistryError ''physical animation names must be unique'')
    (raise_if (list_ex (\<lambda>(a, b). binding_track b \<noteq> expected_track a) (bound_list m))
      (AnimationRegistryError ''animation binding has an invalid track'')
    (Inr m))))"

definition resolve :: "AnimationRegistry \<Rightarrow> PetActionName \<Rightarrow> AnimationBinding res" where
  "resolve reg a = (case reg a of None \<Rightarrow> Inl KeyError | Some b \<Rightarrow> Inr b)"

definition validate_loaded_names :: "AnimationRegistry \<Rightarrow> string list \<Rightarrow> unit res" where
  "validate_loaded_names reg loaded =
    raise_if (list_ex (\<lambda>(a, b). physical_name b \<notin> set loaded) (bound_list reg))
      (AnimationRegistryError ''a required animation is not loaded'') (Inr ())"

text \<open>\<^verbatim>\<open>any(...)\<close> over the steps stops at the first step that answers or raises.\<close>

fun any_step :: "(AnimationBinding \<Rightarrow> bool) \<Rightarrow> AnimationRegistry \<Rightarrow> PetActionStep list \<Rightarrow> bool res" where
  "any_step P reg [] = Inr False"
| "any_step P reg (s # ss) =
    ebind (resolve reg (step_action s)) (\<lambda>b. if P b then Inr True else any_step P reg ss)"

definition validate_track_sequence ::
    "AnimationRegistry \<Rightarrow> int \<Rightarrow> PetActionSequence \<Rightarrow> unit res" where
  "validate_track_sequence reg track s =
    raise_if (track \<notin> {0, 1, 2}) (AnimationRegistryError ''sequence track is invalid'')
    (ebind (any_step (\<lambda>b. binding_track b \<noteq> track) reg (seq_steps s)) (\<lambda>bad.
      raise_if bad (AnimationRegistryError ''sequence contains an action for another track'')
        (Inr ())))"

definition validate_sequence ::
    "AnimationRegistry \<Rightarrow> SequenceCatalogEntry \<Rightarrow> bool \<Rightarrow> unit res" where
  "validate_sequence reg e require_duration_metadata =
    ebind (validate_track_sequence reg (entry_track e) (entry_sequence e)) (\<lambda>_.
    if require_duration_metadata
    then ebind (any_step (\<lambda>b. source_duration_seconds b = None) reg
                 (seq_steps (entry_sequence e))) (\<lambda>missing.
           raise_if missing (AnimationRegistryError ''source duration metadata is required'')
             (Inr ()))
    else Inr ())"

fun bind_all ::
    "(PetActionName \<Rightarrow> AnimationBinding res) \<Rightarrow> PetActionName list \<Rightarrow> AnimationRegistry res" where
  "bind_all f [] = Inr Map.empty"
| "bind_all f (a # as) =
    ebind (f a) (\<lambda>b. ebind (bind_all f as) (\<lambda>m. Inr (m(a \<mapsto> b))))"

definition default_animation_registry :: "AnimationRegistry res" where
  "default_animation_registry =
    ebind (bind_all (\<lambda>a. mk_AnimationBinding a (action_value a) (expected_track a) None)
             all_PetActionName) mk_AnimationRegistry"

section \<open>Well-formed sequences and entries\<close>

definition seq_wf :: "PetActionSequence \<Rightarrow> bool" where
  "seq_wf s \<longleftrightarrow>
     seq_steps s \<noteq> [] \<and>
     (loop_index s = None \<longrightarrow> loop_exit_index s = None) \<and>
     (case loop_index s of None \<Rightarrow> True
      | Some i \<Rightarrow> in_steps (seq_steps s) i \<and> step_loop (seq_steps s ! nat i)) \<and>
     (case loop_exit_index s of None \<Rightarrow> True | Some j \<Rightarrow> in_steps (seq_steps s) j)"

definition step_wf :: "PetActionStep \<Rightarrow> bool" where
  "step_wf st \<longleftrightarrow> 0 < step_speed st \<and>
     (case step_mix_seconds st of None \<Rightarrow> True | Some m \<Rightarrow> 0 \<le> m)"

text \<open>
  What a catalog entry promises the runner and the controller: a valid track, valid
  steps that all live on that track, and a loop exit (if any) that lies behind the loop.
\<close>

definition entry_wf :: "SequenceCatalogEntry \<Rightarrow> bool" where
  "entry_wf e \<longleftrightarrow>
     entry_track e \<in> {0, 1, 2} \<and>
     seq_wf (entry_sequence e) \<and>
     (entry_interruption_class e = InterruptClass.STRICT_ACTION \<longrightarrow> entry_protected e) \<and>
     list_all (\<lambda>st. step_wf st \<and> expected_track (step_action st) = entry_track e)
       (seq_steps (entry_sequence e)) \<and>
     (case (loop_index (entry_sequence e), loop_exit_index (entry_sequence e)) of
        (Some i, Some j) \<Rightarrow> i < j | _ \<Rightarrow> True)"

lemma set_all_PetActionName [simp]: "set all_PetActionName = UNIV"
proof -
  have "a \<in> set all_PetActionName" for a
    by (cases a) (simp_all add: all_PetActionName_def)
  then show ?thesis by blast
qed

lemma distinct_all_PetActionName: "distinct all_PetActionName"
  by (simp add: all_PetActionName_def)

lemma list_all_PetActionName [simp]: "list_all P all_PetActionName \<longleftrightarrow> (\<forall>a. P a)"
  by (simp add: list_all_iff)

lemma mk_PetActionStep_iff:
  "mk_PetActionStep a l sp mx = Inr st \<longleftrightarrow>
     st = \<lparr>step_action = a, step_loop = l, step_speed = sp, step_mix_seconds = mx\<rparr> \<and> step_wf st"
  by (auto simp: mk_PetActionStep_def step_wf_def split: option.splits)

lemma mk_PetActionSequence_iff:
  "mk_PetActionSequence steps li le t = Inr s \<longleftrightarrow>
     s = \<lparr>seq_steps = steps, loop_index = li, loop_exit_index = le, seq_terminal = t\<rparr> \<and> seq_wf s"
  by (auto simp: mk_PetActionSequence_def seq_wf_def Let_def split: option.splits)

lemma in_steps_append: "in_steps xs i \<Longrightarrow> in_steps (xs @ ys) i"
  by (simp add: in_steps_def)

lemma nth_in_steps_append: "in_steps xs i \<Longrightarrow> (xs @ ys) ! nat i = xs ! nat i"
  by (auto simp: in_steps_def nth_append)

lemma seq_wf_append:
  "seq_wf s \<Longrightarrow> seq_wf (s\<lparr>seq_steps := seq_steps s @ [st]\<rparr>)"
  by (auto simp: seq_wf_def in_steps_append nth_in_steps_append split: option.splits)

lemma catalog_step_eq:
  "catalog_step a l =
     Inr \<lparr>step_action = a, step_loop = l, step_speed = 1, step_mix_seconds = Some (12 / 100)\<rparr>"
  by (simp add: catalog_step_def mk_PetActionStep_def)

lemmas catalog_eval =
  catalog_entry_def catalog_step_eq mk_PetActionSequence_def mk_SequenceCatalogEntry_def
  in_steps_def Let_def

lemma catalog_build_wf: "\<exists>e. catalog_build n = Inr e \<and> entry_wf e"
  by (cases n) (simp_all add: catalog_eval expected_track_def entry_wf_def seq_wf_def step_wf_def)

lemma SEQUENCE_CATALOG_Some: "SEQUENCE_CATALOG n = Some e \<longleftrightarrow> catalog_build n = Inr e"
  by (simp add: SEQUENCE_CATALOG_def split: sum.splits)

lemma SEQUENCE_CATALOG_total: "\<exists>e. SEQUENCE_CATALOG n = Some e"
  using catalog_build_wf [of n] by (auto simp: SEQUENCE_CATALOG_Some)

lemma SEQUENCE_CATALOG_wf: "SEQUENCE_CATALOG n = Some e \<Longrightarrow> entry_wf e"
  using catalog_build_wf [of n] by (auto simp: SEQUENCE_CATALOG_Some)

section \<open>The registry contract\<close>

definition registry_ok :: "AnimationRegistry \<Rightarrow> bool" where
  "registry_ok reg \<longleftrightarrow>
     (\<forall>a. reg a \<noteq> None) \<and>
     (\<forall>a b. reg a = Some b \<longrightarrow> binding_action b = a \<and> binding_track b = expected_track a) \<and>
     (\<forall>a a' b b'. reg a = Some b \<and> reg a' = Some b' \<and> physical_name b = physical_name b' \<and> a \<noteq> a'
        \<longrightarrow> {a, a'} = {PetActionName.WALK_LEFT, PetActionName.WALK_RIGHT})"

lemma set_bound_list: "(a, b) \<in> set (bound_list m) \<longleftrightarrow> m a = Some b"
proof
  assume "(a, b) \<in> set (bound_list m)"
  then show "m a = Some b"
    by (auto simp: bound_list_def split: option.splits)
next
  assume h: "m a = Some b"
  have "(a, b) \<in> set (case m a of None \<Rightarrow> [] | Some b \<Rightarrow> [(a, b)])"
    by (simp add: h)
  moreover have "a \<in> set all_PetActionName" by simp
  ultimately show "(a, b) \<in> set (bound_list m)"
    unfolding bound_list_def set_concat set_map by blast
qed

lemma set_actions_by_physical:
  "set (actions_by_physical m p) = {a. \<exists>b. m a = Some b \<and> physical_name b = p}"
  by (auto simp: actions_by_physical_def split: option.splits)

lemma list_ex_bound_list:
  "list_ex P (bound_list m) \<longleftrightarrow> (\<exists>a b. m a = Some b \<and> P (a, b))"
  by (auto simp: list_ex_iff set_bound_list) (use set_bound_list in blast)

lemma finite_PetActionName [simp]: "finite (A :: PetActionName set)"
  using finite_subset [of A "set all_PetActionName"] by (metis finite_set set_all_PetActionName subset_UNIV)

lemma card_gt_1_iff:
  "finite A \<Longrightarrow> card A > 1 \<longleftrightarrow> (\<exists>x y. x \<in> A \<and> y \<in> A \<and> x \<noteq> y)"
proof
  assume "finite A" "card A > 1"
  then show "\<exists>x y. x \<in> A \<and> y \<in> A \<and> x \<noteq> y"
    by (metis One_nat_def card_le_Suc0_iff_eq linorder_not_le)
next
  assume "finite A" "\<exists>x y. x \<in> A \<and> y \<in> A \<and> x \<noteq> y"
  then show "card A > 1"
    by (metis One_nat_def card_le_Suc0_iff_eq linorder_not_le)
qed

lemma two_subsets_eq_pair:
  assumes "p \<noteq> q"
  shows "((\<exists>x y. x \<in> A \<and> y \<in> A \<and> x \<noteq> y) \<longrightarrow> A = {p, q})
     \<longleftrightarrow> (\<forall>x y. x \<in> A \<and> y \<in> A \<and> x \<noteq> y \<longrightarrow> {x, y} = {p, q})"
  (is "?l \<longleftrightarrow> ?r")
proof
  assume ?l
  then show ?r by auto
next
  assume r: ?r
  show ?l
  proof
    assume "\<exists>x y. x \<in> A \<and> y \<in> A \<and> x \<noteq> y"
    then obtain x y where xy: "x \<in> A" "y \<in> A" "x \<noteq> y" by blast
    with r have "{x, y} = {p, q}" by blast
    with xy have "p \<in> A" "q \<in> A" by auto
    moreover have "z \<in> {p, q}" if "z \<in> A" for z
      using r that \<open>p \<in> A\<close> by (metis doubleton_eq_iff insertCI)
    ultimately show "A = {p, q}" by blast
  qed
qed

lemma group_pairs:
  "(\<forall>a b. m a = Some b \<longrightarrow>
      (\<forall>x y. (\<exists>c. m x = Some c \<and> f c = f b) \<and> (\<exists>c. m y = Some c \<and> f c = f b) \<and> x \<noteq> y \<longrightarrow> P x y))
   \<longleftrightarrow> (\<forall>a a' b b'. m a = Some b \<and> m a' = Some b' \<and> f b = f b' \<and> a \<noteq> a' \<longrightarrow> P a a')"
  (is "?l \<longleftrightarrow> ?r")
proof
  assume l: ?l
  show ?r
  proof (intro allI impI)
    fix a a' b b'
    assume h: "m a = Some b \<and> m a' = Some b' \<and> f b = f b' \<and> a \<noteq> a'"
    then have "f b' = f b" by simp
    with h l show "P a a'" by blast
  qed
next
  assume r: ?r
  show ?l
  proof (intro allI impI; elim conjE exE)
    fix a b x y c d
    assume "m x = Some c" "f c = f b" "m y = Some d" "f d = f b" "x \<noteq> y"
    with r [rule_format, of x c y d] show "P x y" by simp
  qed
qed

lemma mk_AnimationRegistry_iff:
  "mk_AnimationRegistry m = Inr m' \<longleftrightarrow> m' = m \<and> registry_ok m"
proof -
  let ?grp = "\<lambda>p. {a. \<exists>b. m a = Some b \<and> physical_name b = p}"
  have pair: "(card (?grp p) > 1 \<longrightarrow> ?grp p = {PetActionName.WALK_LEFT, PetActionName.WALK_RIGHT})
     \<longleftrightarrow> (\<forall>x y. x \<in> ?grp p \<and> y \<in> ?grp p \<and> x \<noteq> y
            \<longrightarrow> {x, y} = {PetActionName.WALK_LEFT, PetActionName.WALK_RIGHT})" for p
    using two_subsets_eq_pair [of PetActionName.WALK_LEFT PetActionName.WALK_RIGHT "?grp p"]
    by (simp add: card_gt_1_iff del: One_nat_def)
  have "mk_AnimationRegistry m = Inr m' \<longleftrightarrow> m' = m \<and> (\<forall>a. m a \<noteq> None)
      \<and> (\<forall>a b. m a = Some b \<longrightarrow> a = binding_action b)
      \<and> (\<forall>a b. m a = Some b \<longrightarrow> (card (?grp (physical_name b)) > 1 \<longrightarrow>
           ?grp (physical_name b) = {PetActionName.WALK_LEFT, PetActionName.WALK_RIGHT}))
      \<and> (\<forall>a b. m a = Some b \<longrightarrow> binding_track b = expected_track a)"
    unfolding mk_AnimationRegistry_def raise_if_eq_Inr_iff list_ex_bound_list Let_def
      set_actions_by_physical list_all_PetActionName split_conv sum.inject by blast
  also have "\<dots> \<longleftrightarrow> m' = m \<and> registry_ok m"
    unfolding pair mem_Collect_eq group_pairs registry_ok_def by blast
  finally show ?thesis .
qed

lemma resolve_ok:
  "registry_ok reg \<Longrightarrow> \<exists>b. resolve reg a = Inr b \<and> reg a = Some b \<and> binding_action b = a
     \<and> binding_track b = expected_track a"
  unfolding registry_ok_def resolve_def by (metis option.exhaust option.simps(5))

lemma any_step_registry_ok:
  assumes "registry_ok reg"
  shows "any_step P reg ss = Inr (\<exists>st \<in> set ss. \<exists>b. reg (step_action st) = Some b \<and> P b)"
proof (induction ss)
  case Nil
  then show ?case by simp
next
  case (Cons st ss)
  obtain b where "resolve reg (step_action st) = Inr b" "reg (step_action st) = Some b"
    using resolve_ok [OF assms] by blast
  with Cons.IH show ?case by auto
qed

lemma distinct_action_values: "distinct (map action_value all_PetActionName)"
  by (simp add: all_PetActionName_def)

lemma action_value_inj: "action_value a = action_value b \<Longrightarrow> a = b"
  using distinct_action_values unfolding distinct_map by (auto simp: inj_on_def)

lemma action_value_nonempty: "action_value a \<noteq> []"
  by (cases a) simp_all

lemma expected_track_cases: "expected_track a \<in> {0, 1, 2}"
  by (simp add: expected_track_def)

lemma bind_all_Inr:
  assumes "\<And>a. f a = Inr (g a)"
  shows "bind_all f as = Inr (\<lambda>a. if a \<in> set as then Some (g a) else None)"
  by (induction as) (auto simp: assms)

definition default_binding :: "PetActionName \<Rightarrow> AnimationBinding" where
  "default_binding a =
    \<lparr>binding_action = a, physical_name = action_value a, binding_track = expected_track a,
     source_duration_seconds = None\<rparr>"

lemma default_binding_sel [simp]:
  "binding_action (default_binding a) = a"
  "physical_name (default_binding a) = action_value a"
  "binding_track (default_binding a) = expected_track a"
  "source_duration_seconds (default_binding a) = None"
  by (simp_all add: default_binding_def)

lemma mk_default_binding:
  "mk_AnimationBinding a (action_value a) (expected_track a) None = Inr (default_binding a)"
  using expected_track_cases [of a]
  by (auto simp: mk_AnimationBinding_def default_binding_def action_value_nonempty)

lemma registry_ok_default: "registry_ok (\<lambda>a. Some (default_binding a))"
  by (auto simp: registry_ok_def default_binding_def dest: action_value_inj)

lemma default_animation_registry_eq:
  "default_animation_registry = Inr (\<lambda>a. Some (default_binding a))"
proof -
  have "bind_all (\<lambda>a. mk_AnimationBinding a (action_value a) (expected_track a) None)
          all_PetActionName = Inr (\<lambda>a. Some (default_binding a))"
    using bind_all_Inr [where f = "\<lambda>a. mk_AnimationBinding a (action_value a) (expected_track a) None"
        and g = default_binding and as = all_PetActionName, OF mk_default_binding] by simp
  then show ?thesis
    by (simp add: default_animation_registry_def mk_AnimationRegistry_iff registry_ok_default)
qed

section \<open>Properties\<close>

text \<open>
  Loading the module never raises, and every sequence name has a catalog entry that is
  well formed: its track is 0, 1 or 2, its loop index (if any) names a looping step, its
  loop exit lies in range and behind the loop, strict entries are protected, and every
  step is an action of the entry's own track with a positive speed.
\<close>

theorem catalog_complete_and_wf:
  "\<exists>e. catalog_build n = Inr e \<and> SEQUENCE_CATALOG n = Some e \<and> entry_wf e"
  using catalog_build_wf [of n] by (auto simp: SEQUENCE_CATALOG_Some)

text \<open>
  \<open>AnimationRegistry\<close> accepts exactly the mappings that satisfy the registry contract:
  every logical action is bound, under its own name and on its expected track, and two
  different actions share a physical animation only if they are the two walking
  directions. Construction never alters the mapping.
\<close>

theorem registry_constructor_exact:
  "mk_AnimationRegistry m = Inr m' \<longleftrightarrow> m' = m \<and> registry_ok m"
  by (rule mk_AnimationRegistry_iff)

text \<open>
  Appending a step to a valid sequence with \<open>then\<close> never raises, keeps the sequence
  valid, and changes nothing but the step list.
\<close>

theorem then_step_preserves_wf:
  assumes "seq_wf s"
  shows "then_step s st = Inr (s\<lparr>seq_steps := seq_steps s @ [st]\<rparr>)
         \<and> seq_wf (s\<lparr>seq_steps := seq_steps s @ [st]\<rparr>)"
proof -
  have eq: "s\<lparr>seq_steps := seq_steps s @ [st]\<rparr> =
      \<lparr>seq_steps = seq_steps s @ [st], loop_index = loop_index s,
       loop_exit_index = loop_exit_index s, seq_terminal = seq_terminal s\<rparr>"
    by (cases s) simp
  show ?thesis
    using seq_wf_append [OF assms, of st]
    by (simp add: then_step_def mk_PetActionSequence_iff eq)
qed

theorem then_step_preserves_wf_witness:
  "let st = \<lparr>step_action = PetActionName.WAVE, step_loop = False, step_speed = 1,
             step_mix_seconds = None\<rparr>;
       s = \<lparr>seq_steps = [st], loop_index = None, loop_exit_index = None,
            seq_terminal = SequenceTerminal.COMPLETE\<rparr>
   in seq_wf s \<and> then_step s st = Inr (s\<lparr>seq_steps := [st, st]\<rparr>)"
proof -
  let ?st = "\<lparr>step_action = PetActionName.WAVE, step_loop = False, step_speed = 1,
             step_mix_seconds = None\<rparr>"
  let ?s = "\<lparr>seq_steps = [?st], loop_index = None, loop_exit_index = None,
            seq_terminal = SequenceTerminal.COMPLETE\<rparr>"
  have h: "seq_wf ?s" by (simp add: seq_wf_def)
  show ?thesis using h then_step_preserves_wf [OF h, of ?st] by (simp add: Let_def)
qed

text \<open>
  The default registry loads, satisfies the registry contract and binds every action to
  its own case-sensitive name; but it carries no duration metadata, so every catalog
  sequence fails the duration check that the Track 0 controller demands.
\<close>

theorem default_registry_binds_identity:
  "\<exists>reg. default_animation_registry = Inr reg \<and> registry_ok reg
     \<and> (\<forall>a. resolve reg a = Inr (default_binding a) \<and> physical_name (default_binding a) = action_value a)
     \<and> (\<forall>n. validate_sequence reg (the (SEQUENCE_CATALOG n)) False = Inr ()
         \<and> validate_sequence reg (the (SEQUENCE_CATALOG n)) True
             = Inl (AnimationRegistryError ''source duration metadata is required''))"
proof -
  let ?reg = "\<lambda>a. Some (default_binding a)"
  have seq: "validate_sequence ?reg e False = Inr ()
      \<and> validate_sequence ?reg e True
          = Inl (AnimationRegistryError ''source duration metadata is required'')"
    if "SEQUENCE_CATALOG n = Some e" for n e
  proof -
    have wf: "entry_wf e" using that by (rule SEQUENCE_CATALOG_wf)
    then have "seq_steps (entry_sequence e) \<noteq> []" "entry_track e \<in> {0, 1, 2}"
      and "\<forall>st \<in> set (seq_steps (entry_sequence e)).
             binding_track (default_binding (step_action st)) = entry_track e"
      by (auto simp: entry_wf_def seq_wf_def list_all_iff)
    then show ?thesis
      by (auto simp: validate_sequence_def validate_track_sequence_def
          any_step_registry_ok [OF registry_ok_default] ex_in_conv)
  qed
  show ?thesis
    by (rule exI [of _ ?reg])
      (use seq SEQUENCE_CATALOG_total in \<open>fastforce simp: default_animation_registry_eq registry_ok_default resolve_def\<close>)
qed

end
