(* ===== verification/Layered_State.thy ===== *)
theory Layered_State
  imports Action_Sequence
begin

text \<open>
  The layered pet state of \<^verbatim>\<open>application/pet/pet_state.py\<close>: lifecycle, exclusive motion,
  composable behaviours and the exclusive idle activity, the validated immutable snapshot
  \<open>PetLayeredState\<close>, and the mutable \<open>PetLayeredStateMachine\<close>. The machine's private
  fields are the record \<open>PetLayeredStateMachine\<close>; every method tests its guards before it
  assigns, so a raise leaves the machine as it was and methods return \<open>'a res\<close>.
\<close>

section \<open>Vocabulary\<close>

datatype PetLifecycleState = ACTIVE | PAUSED | CLOSING

datatype PetMotionState =
    IDLE | WALKING_LEFT | WALKING_RIGHT | RUNNING_LEFT | RUNNING_RIGHT | DRAGGING | FALLING | LANDING

datatype PetBehaviorState = BREATHING | BLINKING | THINKING | REMINDING | DRAG_STRUGGLE

datatype PetActivityState =
    NONE | SITTING | SLEEPING | WAVING | HAPPY | THINKING | READING | TYPING | REMINDING
  | CONFUSED | ANGRY | SPECIAL | INTERACT

datatype PetFacing = LEFT | RIGHT

record PetLayeredState =
  lifecycle :: PetLifecycleState
  motion :: PetMotionState
  behaviors :: "PetBehaviorState set"
  facing :: PetFacing
  activity :: PetActivityState

section \<open>Legacy behaviour projection and validation\<close>

definition activity_from_legacy_behaviors ::
    "PetBehaviorState set \<Rightarrow> PetActivityState option res" where
  "activity_from_legacy_behaviors b =
    (let projected =
       (if PetBehaviorState.THINKING \<in> b then [PetActivityState.THINKING] else []) @
       (if PetBehaviorState.REMINDING \<in> b then [PetActivityState.REMINDING] else [])
     in raise_if (length projected > 1) PetStateTransitionError
        (Inr (if projected \<noteq> [] then Some (projected ! 0) else None)))"

definition legacy_behavior_for_activity :: "PetActivityState \<Rightarrow> PetBehaviorState option" where
  "legacy_behavior_for_activity a =
    (if a = PetActivityState.THINKING then Some PetBehaviorState.THINKING
     else if a = PetActivityState.REMINDING then Some PetBehaviorState.REMINDING
     else None)"

definition behaviors_for_activity :: "PetActivityState \<Rightarrow> PetBehaviorState set" where
  "behaviors_for_activity a =
    (case legacy_behavior_for_activity a of
       Some projection \<Rightarrow> {projection}
     | None \<Rightarrow> if a = PetActivityState.NONE then {PetBehaviorState.BREATHING} else {})"

definition validate_layered_state :: "PetLayeredState \<Rightarrow> unit res" where
  "validate_layered_state s =
    (let b = behaviors s; err = (Inl PetStateTransitionError :: unit res) in
     if lifecycle s \<noteq> PetLifecycleState.ACTIVE then
       (if b \<noteq> {} \<or> activity s \<noteq> PetActivityState.NONE then err else Inr ())
     else if motion s \<noteq> PetMotionState.IDLE \<and> activity s \<noteq> PetActivityState.NONE then err
     else if motion s = PetMotionState.DRAGGING then
       (if b \<noteq> {PetBehaviorState.DRAG_STRUGGLE} then err else Inr ())
     else if PetBehaviorState.DRAG_STRUGGLE \<in> b then err
     else if motion s \<in> {PetMotionState.FALLING, PetMotionState.LANDING} then
       (if b \<noteq> {} then err else Inr ())
     else if motion s \<in> {PetMotionState.WALKING_LEFT, PetMotionState.WALKING_RIGHT,
                          PetMotionState.RUNNING_LEFT, PetMotionState.RUNNING_RIGHT} then
       (if b - {PetBehaviorState.BLINKING} \<noteq> {} then err else Inr ())
     else if activity s = PetActivityState.REMINDING then
       (if b \<noteq> {PetBehaviorState.REMINDING} then err else Inr ())
     else if activity s = PetActivityState.THINKING then
       (if \<not> b \<subseteq> {PetBehaviorState.THINKING, PetBehaviorState.BLINKING}
           \<or> PetBehaviorState.THINKING \<notin> b then err else Inr ())
     else if activity s \<noteq> PetActivityState.NONE then
       (if b \<noteq> {} then err else Inr ())
     else if b - {PetBehaviorState.BREATHING, PetBehaviorState.BLINKING} \<noteq> {} then err
     else Inr ())"

text \<open>\<^verbatim>\<open>PetLayeredState(...)\<close> with its \<^verbatim>\<open>__post_init__\<close>.\<close>

definition mk_PetLayeredState ::
    "PetLifecycleState \<Rightarrow> PetMotionState \<Rightarrow> PetBehaviorState set \<Rightarrow> PetFacing
      \<Rightarrow> PetActivityState \<Rightarrow> PetLayeredState res" where
  "mk_PetLayeredState lc mo b fa act =
    ebind (activity_from_legacy_behaviors b) (\<lambda>legacy_activity.
    ebind
      (case legacy_activity of
         None \<Rightarrow> Inr act
       | Some la \<Rightarrow>
           if act = PetActivityState.NONE then Inr la
           else raise_if (la \<noteq> act) PetStateTransitionError (Inr act))
      (\<lambda>act'.
        let b' = (case legacy_behavior_for_activity act' of
                    None \<Rightarrow> b
                  | Some projection \<Rightarrow> if projection \<notin> b then b \<union> {projection} else b);
            s = \<lparr>lifecycle = lc, motion = mo, behaviors = b', facing = fa, activity = act'\<rparr>
        in ebind (validate_layered_state s) (\<lambda>_. Inr s)))"

section \<open>Priorities\<close>

fun lifecycle_priority :: "PetLifecycleState \<Rightarrow> int" where
  "lifecycle_priority PetLifecycleState.ACTIVE = 0"
| "lifecycle_priority PetLifecycleState.PAUSED = 90"
| "lifecycle_priority PetLifecycleState.CLOSING = 100"

fun motion_priority :: "PetMotionState \<Rightarrow> int" where
  "motion_priority PetMotionState.IDLE = 10"
| "motion_priority PetMotionState.WALKING_LEFT = 40"
| "motion_priority PetMotionState.WALKING_RIGHT = 40"
| "motion_priority PetMotionState.RUNNING_LEFT = 45"
| "motion_priority PetMotionState.RUNNING_RIGHT = 45"
| "motion_priority PetMotionState.DRAGGING = 80"
| "motion_priority PetMotionState.FALLING = 70"
| "motion_priority PetMotionState.LANDING = 70"

fun behavior_priority :: "PetBehaviorState \<Rightarrow> int" where
  "behavior_priority PetBehaviorState.BREATHING = 10"
| "behavior_priority PetBehaviorState.BLINKING = 10"
| "behavior_priority PetBehaviorState.THINKING = 20"
| "behavior_priority PetBehaviorState.REMINDING = 50"
| "behavior_priority PetBehaviorState.DRAG_STRUGGLE = 80"

fun activity_priority :: "PetActivityState \<Rightarrow> int" where
  "activity_priority PetActivityState.NONE = 0"
| "activity_priority PetActivityState.SITTING = 20"
| "activity_priority PetActivityState.SLEEPING = 20"
| "activity_priority PetActivityState.WAVING = 30"
| "activity_priority PetActivityState.HAPPY = 30"
| "activity_priority PetActivityState.THINKING = 20"
| "activity_priority PetActivityState.READING = 20"
| "activity_priority PetActivityState.TYPING = 20"
| "activity_priority PetActivityState.REMINDING = 50"
| "activity_priority PetActivityState.CONFUSED = 30"
| "activity_priority PetActivityState.ANGRY = 30"
| "activity_priority PetActivityState.SPECIAL = 30"
| "activity_priority PetActivityState.INTERACT = 30"

definition all_PetBehaviorState :: "PetBehaviorState list" where
  "all_PetBehaviorState =
    [PetBehaviorState.BREATHING, PetBehaviorState.BLINKING, PetBehaviorState.THINKING,
     PetBehaviorState.REMINDING, PetBehaviorState.DRAG_STRUGGLE]"

definition layered_state_priority :: "PetLayeredState \<Rightarrow> int" where
  "layered_state_priority s =
    fold max (map behavior_priority (filter (\<lambda>b. b \<in> behaviors s) all_PetBehaviorState))
      (max (max (lifecycle_priority (lifecycle s)) (motion_priority (motion s)))
        (activity_priority (activity s)))"

section \<open>Compatibility of semantic state and Track 0 action\<close>

fun idle_activity_actions :: "PetActivityState \<Rightarrow> PetActionName list" where
  "idle_activity_actions PetActivityState.NONE = [PetActionName.IDLE, PetActionName.RETURN_IDLE]"
| "idle_activity_actions PetActivityState.SITTING = [PetActionName.SIT_DOWN, PetActionName.SIT_IDLE]"
| "idle_activity_actions PetActivityState.SLEEPING =
     [PetActionName.SLEEP_START, PetActionName.SLEEP_LOOP, PetActionName.SLEEP_END]"
| "idle_activity_actions PetActivityState.SPECIAL = [PetActionName.WAVE]"
| "idle_activity_actions PetActivityState.INTERACT = [PetActionName.HAPPY]"
| "idle_activity_actions PetActivityState.WAVING = [PetActionName.WAVE]"
| "idle_activity_actions PetActivityState.HAPPY = [PetActionName.HAPPY]"
| "idle_activity_actions PetActivityState.THINKING = [PetActionName.THINK]"
| "idle_activity_actions PetActivityState.READING = [PetActionName.READ]"
| "idle_activity_actions PetActivityState.TYPING = [PetActionName.TYPE]"
| "idle_activity_actions PetActivityState.REMINDING = [PetActionName.REMIND]"
| "idle_activity_actions PetActivityState.CONFUSED = [PetActionName.CONFUSED]"
| "idle_activity_actions PetActivityState.ANGRY = [PetActionName.ANGRY]"

fun moving_actions :: "PetMotionState \<Rightarrow> PetActionName list" where
  "moving_actions PetMotionState.IDLE = []"
| "moving_actions PetMotionState.WALKING_LEFT = [PetActionName.WALK_LEFT]"
| "moving_actions PetMotionState.WALKING_RIGHT = [PetActionName.WALK_RIGHT]"
| "moving_actions PetMotionState.RUNNING_LEFT = [PetActionName.RUN_LEFT]"
| "moving_actions PetMotionState.RUNNING_RIGHT = [PetActionName.RUN_RIGHT]"
| "moving_actions PetMotionState.DRAGGING =
     [PetActionName.DRAG_START, PetActionName.DRAG_LOOP, PetActionName.IDLE]"
| "moving_actions PetMotionState.FALLING = [PetActionName.DRAG_END, PetActionName.IDLE]"
| "moving_actions PetMotionState.LANDING = [PetActionName.LANDING, PetActionName.IDLE]"

text \<open>\<^verbatim>\<open>STATE_ACTION_COMPATIBILITY.get(key, frozenset())\<close>: a missing key is the empty list.\<close>

definition STATE_ACTION_COMPATIBILITY ::
    "PetLifecycleState \<Rightarrow> PetMotionState \<Rightarrow> PetActivityState \<Rightarrow> PetActionName list" where
  "STATE_ACTION_COMPATIBILITY lc mo act =
    (if lc \<noteq> PetLifecycleState.ACTIVE then []
     else if mo = PetMotionState.IDLE then idle_activity_actions act
     else if act = PetActivityState.NONE then moving_actions mo
     else [])"

definition assert_animation_compatible ::
    "PetLayeredState \<Rightarrow> PetActionName option \<Rightarrow> PlaybackHealth \<Rightarrow> unit res" where
  "assert_animation_compatible s action health =
    ebind (validate_layered_state s) (\<lambda>_.
     if health \<noteq> PlaybackHealth.HEALTHY then
       (if action = None then Inr () else Inl AnimationCompatibilityError)
     else if lifecycle s \<noteq> PetLifecycleState.ACTIVE then
       (if action = None then Inr () else Inl AnimationCompatibilityError)
     else case action of
         None \<Rightarrow> Inl AnimationCompatibilityError
       | Some a \<Rightarrow>
           raise_if (a \<notin> set (STATE_ACTION_COMPATIBILITY (lifecycle s) (motion s) (activity s)))
             AnimationCompatibilityError (Inr ()))"

section \<open>The state machine\<close>

record PetLayeredStateMachine =
  sm_lifecycle :: PetLifecycleState
  sm_motion :: PetMotionState
  sm_behaviors :: "PetBehaviorState set"
  sm_facing :: PetFacing
  sm_activity :: PetActivityState
  sm_epoch :: int

definition new_state_machine :: "int \<Rightarrow> PetLayeredStateMachine res" where
  "new_state_machine initial_epoch =
    raise_if (initial_epoch < 0) (ValueError ''initial_epoch must be non-negative'')
    (Inr \<lparr>sm_lifecycle = PetLifecycleState.ACTIVE, sm_motion = PetMotionState.IDLE,
          sm_behaviors = {PetBehaviorState.BREATHING}, sm_facing = PetFacing.RIGHT,
          sm_activity = PetActivityState.NONE, sm_epoch = initial_epoch\<rparr>)"

definition snapshot :: "PetLayeredStateMachine \<Rightarrow> PetLayeredState res" where
  "snapshot m = mk_PetLayeredState (sm_lifecycle m) (sm_motion m) (sm_behaviors m) (sm_facing m)
     (sm_activity m)"

record ProposedStateTransition =
  source_state :: PetLayeredState
  target_state :: PetLayeredState
  source_epoch :: int
  target_epoch :: int
  mandatory_for_safety :: bool

text \<open>The keyword arguments of \<^verbatim>\<open>propose\<close>; \<open>None\<close> is an argument that is not given.\<close>

record propose_args =
  arg_lifecycle :: "PetLifecycleState option"
  arg_motion :: "PetMotionState option"
  arg_behaviors :: "PetBehaviorState set option"
  arg_facing :: "PetFacing option"
  arg_activity :: "PetActivityState option"
  arg_mandatory :: bool

definition no_args :: propose_args where
  "no_args = \<lparr>arg_lifecycle = None, arg_motion = None, arg_behaviors = None, arg_facing = None,
              arg_activity = None, arg_mandatory = False\<rparr>"

definition or_else :: "'a option \<Rightarrow> 'a \<Rightarrow> 'a" where
  "or_else x d = (case x of None \<Rightarrow> d | Some v \<Rightarrow> v)"

text \<open>The activity and behaviours that \<^verbatim>\<open>propose\<close> installs, by its four branches.\<close>

definition propose_target ::
    "PetLayeredState \<Rightarrow> propose_args \<Rightarrow> PetActivityState \<times> PetBehaviorState set" where
  "propose_target source a =
    (let target_lifecycle = or_else (arg_lifecycle a) (lifecycle source);
         target_motion = or_else (arg_motion a) (motion source);
         target_activity = or_else (arg_activity a) (activity source);
         target_behaviors = or_else (arg_behaviors a) (behaviors source)
     in if target_lifecycle \<noteq> PetLifecycleState.ACTIVE then (PetActivityState.NONE, {})
        else if arg_motion a \<noteq> None \<and> target_motion \<noteq> PetMotionState.IDLE then
          (PetActivityState.NONE,
           if target_motion = PetMotionState.DRAGGING then {PetBehaviorState.DRAG_STRUGGLE} else {})
        else if arg_activity a \<noteq> None then (target_activity, behaviors_for_activity target_activity)
        else if arg_motion a \<noteq> None \<and> target_motion = PetMotionState.IDLE then
          (PetActivityState.NONE, {PetBehaviorState.BREATHING})
        else (target_activity, target_behaviors))"

definition propose ::
    "PetLayeredStateMachine \<Rightarrow> propose_args \<Rightarrow> ProposedStateTransition res" where
  "propose m a =
    ebind (snapshot m) (\<lambda>source.
    ebind
      (mk_PetLayeredState (or_else (arg_lifecycle a) (lifecycle source))
        (or_else (arg_motion a) (motion source))
        (snd (propose_target source a))
        (or_else (arg_facing a) (facing source))
        (fst (propose_target source a)))
      (\<lambda>target.
        Inr \<lparr>source_state = source, target_state = target, source_epoch = sm_epoch m,
             target_epoch = sm_epoch m + 1, mandatory_for_safety = arg_mandatory a\<rparr>))"

definition install :: "PetLayeredState \<Rightarrow> PetLayeredStateMachine \<Rightarrow> PetLayeredStateMachine" where
  "install s m = m\<lparr>sm_lifecycle := lifecycle s, sm_motion := motion s,
     sm_behaviors := behaviors s, sm_facing := facing s, sm_activity := activity s\<rparr>"

definition bump_epoch :: "PetLayeredStateMachine \<Rightarrow> PetLayeredStateMachine" where
  "bump_epoch m = m\<lparr>sm_epoch := sm_epoch m + 1\<rparr>"

definition commit ::
    "PetLayeredStateMachine \<Rightarrow> ProposedStateTransition \<Rightarrow> PetLayeredStateMachine res" where
  "commit m p =
    raise_if (source_epoch p \<noteq> sm_epoch m) PetStateTransitionError
    (ebind (snapshot m) (\<lambda>now.
     raise_if (source_state p \<noteq> now \<or> target_epoch p \<noteq> source_epoch p + 1) PetStateTransitionError
     (Inr ((install (target_state p) m)\<lparr>sm_epoch := target_epoch p\<rparr>))))"

definition restore_default_behavior :: "PetLayeredStateMachine \<Rightarrow> PetLayeredStateMachine" where
  "restore_default_behavior m =
    m\<lparr>sm_activity := PetActivityState.NONE,
      sm_behaviors :=
        (if sm_lifecycle m = PetLifecycleState.ACTIVE \<and> sm_motion m = PetMotionState.IDLE
         then {PetBehaviorState.BREATHING} else {})\<rparr>"

definition set_plain ::
    "PetMotionState \<Rightarrow> PetLayeredStateMachine \<Rightarrow> PetLayeredStateMachine" where
  "set_plain mo m = m\<lparr>sm_motion := mo, sm_activity := PetActivityState.NONE, sm_behaviors := {}\<rparr>"

definition require_active :: "PetLayeredStateMachine \<Rightarrow> 'a res \<Rightarrow> 'a res" where
  "require_active m = raise_if (sm_lifecycle m \<noteq> PetLifecycleState.ACTIVE) PetStateTransitionError"

definition require_active_idle :: "PetLayeredStateMachine \<Rightarrow> 'a res \<Rightarrow> 'a res" where
  "require_active_idle m r =
    require_active m (raise_if (sm_motion m \<noteq> PetMotionState.IDLE) PetStateTransitionError r)"

definition require_motion :: "PetLayeredStateMachine \<Rightarrow> PetMotionState \<Rightarrow> 'a res \<Rightarrow> 'a res" where
  "require_motion m expected r =
    require_active m (raise_if (sm_motion m \<noteq> expected) PetStateTransitionError r)"

definition pause :: "PetLayeredStateMachine \<Rightarrow> PetLayeredStateMachine res" where
  "pause m =
    raise_if (sm_lifecycle m = PetLifecycleState.CLOSING) PetStateTransitionError
    (Inr (bump_epoch
      (set_plain
        (if sm_motion m = PetMotionState.DRAGGING then PetMotionState.IDLE else sm_motion m)
        (m\<lparr>sm_lifecycle := PetLifecycleState.PAUSED\<rparr>))))"

definition resume :: "PetLayeredStateMachine \<Rightarrow> PetLayeredStateMachine res" where
  "resume m =
    raise_if (sm_lifecycle m \<noteq> PetLifecycleState.PAUSED) PetStateTransitionError
    (Inr (bump_epoch (restore_default_behavior (m\<lparr>sm_lifecycle := PetLifecycleState.ACTIVE\<rparr>))))"

definition begin_closing :: "PetLayeredStateMachine \<Rightarrow> PetLayeredStateMachine res" where
  "begin_closing m =
    (if sm_lifecycle m = PetLifecycleState.CLOSING then Inr m
     else Inr (bump_epoch
       (set_plain PetMotionState.IDLE (m\<lparr>sm_lifecycle := PetLifecycleState.CLOSING\<rparr>))))"

definition recover_failed_close :: "PetLayeredStateMachine \<Rightarrow> PetLayeredStateMachine res" where
  "recover_failed_close m =
    raise_if (sm_lifecycle m \<noteq> PetLifecycleState.CLOSING) PetStateTransitionError
    (Inr (bump_epoch
      (set_plain PetMotionState.IDLE (m\<lparr>sm_lifecycle := PetLifecycleState.PAUSED\<rparr>))))"

definition start_dragging :: "PetLayeredStateMachine \<Rightarrow> PetLayeredStateMachine res" where
  "start_dragging m =
    raise_if (sm_lifecycle m = PetLifecycleState.CLOSING) PetStateTransitionError
    (Inr (bump_epoch
      (m\<lparr>sm_motion := PetMotionState.DRAGGING, sm_activity := PetActivityState.NONE,
         sm_behaviors := (if sm_lifecycle m = PetLifecycleState.ACTIVE
                          then {PetBehaviorState.DRAG_STRUGGLE} else {})\<rparr>)))"

definition release_drag :: "PetLayeredStateMachine \<Rightarrow> PetLayeredStateMachine res" where
  "release_drag m =
    (if sm_lifecycle m = PetLifecycleState.PAUSED \<and> sm_motion m = PetMotionState.DRAGGING
     then Inr (bump_epoch (set_plain PetMotionState.IDLE m))
     else require_motion m PetMotionState.DRAGGING
       (Inr (bump_epoch (set_plain PetMotionState.FALLING m))))"

definition start_falling :: "PetLayeredStateMachine \<Rightarrow> PetLayeredStateMachine res" where
  "start_falling m =
    require_active m
    (raise_if (sm_motion m = PetMotionState.DRAGGING) PetStateTransitionError
    (Inr (bump_epoch (set_plain PetMotionState.FALLING m))))"

definition land :: "PetLayeredStateMachine \<Rightarrow> PetLayeredStateMachine res" where
  "land m =
    require_motion m PetMotionState.FALLING
      (Inr (bump_epoch (set_plain PetMotionState.LANDING m)))"

definition finish_landing :: "PetLayeredStateMachine \<Rightarrow> PetLayeredStateMachine res" where
  "finish_landing m =
    require_motion m PetMotionState.LANDING
      (Inr (bump_epoch (restore_default_behavior (m\<lparr>sm_motion := PetMotionState.IDLE\<rparr>))))"

definition start_walking ::
    "PetFacing \<Rightarrow> PetLayeredStateMachine \<Rightarrow> PetLayeredStateMachine res" where
  "start_walking direction m =
    require_active m
    (raise_if (PetBehaviorState.REMINDING \<in> sm_behaviors m) PetStateTransitionError
    (raise_if (sm_motion m \<notin> {PetMotionState.IDLE, PetMotionState.WALKING_LEFT,
                               PetMotionState.WALKING_RIGHT}) PetStateTransitionError
    (Inr (bump_epoch
      (m\<lparr>sm_facing := direction,
         sm_motion := (if direction = PetFacing.LEFT then PetMotionState.WALKING_LEFT
                       else PetMotionState.WALKING_RIGHT),
         sm_activity := PetActivityState.NONE,
         sm_behaviors := sm_behaviors m - {PetBehaviorState.BREATHING}
           - {PetBehaviorState.THINKING} - {PetBehaviorState.REMINDING}\<rparr>)))))"

definition stop_walking :: "PetLayeredStateMachine \<Rightarrow> PetLayeredStateMachine res" where
  "stop_walking m =
    raise_if (sm_motion m \<notin> {PetMotionState.WALKING_LEFT, PetMotionState.WALKING_RIGHT})
      PetStateTransitionError
    (Inr (bump_epoch (restore_default_behavior (m\<lparr>sm_motion := PetMotionState.IDLE\<rparr>))))"

definition start_thinking :: "PetLayeredStateMachine \<Rightarrow> PetLayeredStateMachine res" where
  "start_thinking m =
    require_active_idle m
    (raise_if (sm_activity m = PetActivityState.REMINDING) PetStateTransitionError
    (Inr (bump_epoch (m\<lparr>sm_activity := PetActivityState.THINKING,
                        sm_behaviors := {PetBehaviorState.THINKING}\<rparr>))))"

definition finish_thinking :: "PetLayeredStateMachine \<Rightarrow> PetLayeredStateMachine res" where
  "finish_thinking m =
    raise_if (sm_activity m \<noteq> PetActivityState.THINKING) PetStateTransitionError
    (Inr (bump_epoch (restore_default_behavior m)))"

definition start_reminding :: "PetLayeredStateMachine \<Rightarrow> PetLayeredStateMachine res" where
  "start_reminding m =
    require_active m
    (raise_if (sm_motion m \<in> {PetMotionState.DRAGGING, PetMotionState.FALLING,
                              PetMotionState.LANDING}) PetStateTransitionError
    (Inr (bump_epoch (m\<lparr>sm_motion := PetMotionState.IDLE,
                        sm_activity := PetActivityState.REMINDING,
                        sm_behaviors := {PetBehaviorState.REMINDING}\<rparr>))))"

definition finish_reminding :: "PetLayeredStateMachine \<Rightarrow> PetLayeredStateMachine res" where
  "finish_reminding m =
    raise_if (sm_activity m \<noteq> PetActivityState.REMINDING) PetStateTransitionError
    (Inr (bump_epoch (restore_default_behavior m)))"

definition start_blinking :: "PetLayeredStateMachine \<Rightarrow> PetLayeredStateMachine res" where
  "start_blinking m =
    require_active m
    (if sm_motion m \<in> {PetMotionState.DRAGGING, PetMotionState.FALLING, PetMotionState.LANDING}
     then Inr m
     else if sm_activity m = PetActivityState.REMINDING then Inr m
     else if sm_activity m \<notin> {PetActivityState.NONE, PetActivityState.THINKING} then Inr m
     else if PetBehaviorState.BLINKING \<in> sm_behaviors m then Inr m
     else Inr (bump_epoch (m\<lparr>sm_behaviors := sm_behaviors m \<union> {PetBehaviorState.BLINKING}\<rparr>)))"

definition finish_blinking :: "PetLayeredStateMachine \<Rightarrow> PetLayeredStateMachine res" where
  "finish_blinking m =
    (if PetBehaviorState.BLINKING \<in> sm_behaviors m
     then Inr (bump_epoch (m\<lparr>sm_behaviors := sm_behaviors m - {PetBehaviorState.BLINKING}\<rparr>))
     else Inr m)"

section \<open>Canonical states\<close>

text \<open>
  The combinations that lifecycle and motion ownership permit, written out per layer:
  the abstract specification of \<open>validate_layered_state\<close>.
\<close>

definition idle_behaviors_ok :: "PetActivityState \<Rightarrow> PetBehaviorState set \<Rightarrow> bool" where
  "idle_behaviors_ok act b =
    (if act = PetActivityState.NONE then b \<subseteq> {PetBehaviorState.BREATHING, PetBehaviorState.BLINKING}
     else if act = PetActivityState.THINKING then
       PetBehaviorState.THINKING \<in> b \<and> b \<subseteq> {PetBehaviorState.THINKING, PetBehaviorState.BLINKING}
     else if act = PetActivityState.REMINDING then b = {PetBehaviorState.REMINDING}
     else b = {})"

fun motion_behaviors_ok ::
    "PetMotionState \<Rightarrow> PetActivityState \<Rightarrow> PetBehaviorState set \<Rightarrow> bool" where
  "motion_behaviors_ok PetMotionState.IDLE act b = idle_behaviors_ok act b"
| "motion_behaviors_ok PetMotionState.DRAGGING act b =
     (act = PetActivityState.NONE \<and> b = {PetBehaviorState.DRAG_STRUGGLE})"
| "motion_behaviors_ok PetMotionState.FALLING act b = (act = PetActivityState.NONE \<and> b = {})"
| "motion_behaviors_ok PetMotionState.LANDING act b = (act = PetActivityState.NONE \<and> b = {})"
| "motion_behaviors_ok mo act b =
     (act = PetActivityState.NONE \<and> b \<subseteq> {PetBehaviorState.BLINKING})"

definition layered_ok :: "PetLayeredState \<Rightarrow> bool" where
  "layered_ok s =
    (if lifecycle s = PetLifecycleState.ACTIVE
     then motion_behaviors_ok (motion s) (activity s) (behaviors s)
     else behaviors s = {} \<and> activity s = PetActivityState.NONE)"

lemma validate_layered_state_iff: "validate_layered_state s = Inr () \<longleftrightarrow> layered_ok s"
proof (cases "lifecycle s = PetLifecycleState.ACTIVE")
  case False
  then show ?thesis by (auto simp: validate_layered_state_def layered_ok_def Let_def)
next
  case True
  then show ?thesis
    by (cases "motion s")
      (auto simp: validate_layered_state_def layered_ok_def Let_def idle_behaviors_ok_def)
qed

lemma validate_layered_state_cases:
  "validate_layered_state s = (if layered_ok s then Inr () else Inl PetStateTransitionError)"
proof -
  have "validate_layered_state s = Inr () \<or> validate_layered_state s = Inl PetStateTransitionError"
    by (simp add: validate_layered_state_def Let_def)
  then show ?thesis by (auto simp: validate_layered_state_iff [symmetric])
qed

lemma layered_ok_legacy:
  assumes "layered_ok s"
  shows "activity_from_legacy_behaviors (behaviors s) =
      Inr (if activity s \<in> {PetActivityState.THINKING, PetActivityState.REMINDING}
           then Some (activity s) else None)"
  using assms
  by (cases "motion s")
    (auto simp: layered_ok_def activity_from_legacy_behaviors_def Let_def idle_behaviors_ok_def
      split: if_splits)

lemma layered_ok_projection:
  assumes "layered_ok s" and "legacy_behavior_for_activity (activity s) = Some b"
  shows "b \<in> behaviors s"
  using assms
  by (cases "motion s")
    (auto simp: layered_ok_def legacy_behavior_for_activity_def idle_behaviors_ok_def split: if_splits)

lemma mk_PetLayeredState_ok:
  assumes "layered_ok s"
  shows "mk_PetLayeredState (lifecycle s) (motion s) (behaviors s) (facing s) (activity s) = Inr s"
proof -
  have proj: "(case legacy_behavior_for_activity (activity s) of None \<Rightarrow> behaviors s
      | Some p \<Rightarrow> if p \<notin> behaviors s then behaviors s \<union> {p} else behaviors s) = behaviors s"
    using layered_ok_projection [OF assms] by (auto split: option.splits)
  have rec: "\<lparr>lifecycle = lifecycle s, motion = motion s, behaviors = behaviors s,
      facing = facing s, activity = activity s\<rparr> = s"
    by (cases s) simp
  have "validate_layered_state s = Inr ()"
    using assms by (simp add: validate_layered_state_iff)
  moreover have "(case (if activity s \<in> {PetActivityState.THINKING, PetActivityState.REMINDING}
        then Some (activity s) else None) of
       None \<Rightarrow> Inr (activity s)
     | Some la \<Rightarrow> if activity s = PetActivityState.NONE then Inr la
         else raise_if (la \<noteq> activity s) PetStateTransitionError (Inr (activity s)))
      = Inr (activity s)"
    by auto
  ultimately show ?thesis
    unfolding mk_PetLayeredState_def layered_ok_legacy [OF assms]
    by (simp only: Let_def proj rec ebind_simps)
qed

lemma mk_PetLayeredState_Inr:
  assumes "mk_PetLayeredState lc mo b fa act = Inr s"
  shows "layered_ok s \<and> lifecycle s = lc \<and> motion s = mo \<and> facing s = fa"
  using assms
  by (auto simp: mk_PetLayeredState_def Let_def ebind_eq_Inr_iff validate_layered_state_iff)

lemma mk_PetLayeredState_Inl:
  "mk_PetLayeredState lc mo b fa act = Inl e \<Longrightarrow> e = PetStateTransitionError"
  by (auto simp: mk_PetLayeredState_def Let_def ebind_eq_Inl_iff validate_layered_state_cases
      activity_from_legacy_behaviors_def raise_if_def split: if_splits option.splits)

section \<open>Machine invariant\<close>

definition raw_state :: "PetLayeredStateMachine \<Rightarrow> PetLayeredState" where
  "raw_state m = \<lparr>lifecycle = sm_lifecycle m, motion = sm_motion m, behaviors = sm_behaviors m,
     facing = sm_facing m, activity = sm_activity m\<rparr>"

definition sm_valid :: "PetLayeredStateMachine \<Rightarrow> bool" where
  "sm_valid m \<longleftrightarrow> layered_ok (raw_state m)"

text \<open>
  The one configuration outside the invariant that the operations can produce: an active
  machine that is dragging without the drag behaviour.
\<close>

definition drag_orphan :: "PetLayeredStateMachine \<Rightarrow> bool" where
  "drag_orphan m \<longleftrightarrow> sm_lifecycle m = PetLifecycleState.ACTIVE \<and>
     sm_motion m = PetMotionState.DRAGGING \<and> sm_behaviors m = {} \<and>
     sm_activity m = PetActivityState.NONE"

lemma raw_state_sel [simp]:
  "lifecycle (raw_state m) = sm_lifecycle m"
  "motion (raw_state m) = sm_motion m"
  "behaviors (raw_state m) = sm_behaviors m"
  "facing (raw_state m) = sm_facing m"
  "activity (raw_state m) = sm_activity m"
  by (simp_all add: raw_state_def)

lemma snapshot_valid: "sm_valid m \<Longrightarrow> snapshot m = Inr (raw_state m)"
  using mk_PetLayeredState_ok [of "raw_state m"] by (simp add: sm_valid_def snapshot_def)

lemma snapshot_orphan: "drag_orphan m \<Longrightarrow> snapshot m = Inl PetStateTransitionError"
  by (simp add: drag_orphan_def snapshot_def mk_PetLayeredState_def
      activity_from_legacy_behaviors_def legacy_behavior_for_activity_def
      validate_layered_state_def Let_def)

lemma snapshot_Inr:
  "snapshot m = Inr s \<Longrightarrow>
     layered_ok s \<and> lifecycle s = sm_lifecycle m \<and> motion s = sm_motion m \<and> facing s = sm_facing m"
  unfolding snapshot_def by (rule mk_PetLayeredState_Inr)

lemmas machine_defs =
  pause_def resume_def begin_closing_def recover_failed_close_def start_dragging_def
  release_drag_def start_falling_def land_def finish_landing_def start_walking_def
  stop_walking_def start_thinking_def finish_thinking_def start_reminding_def
  finish_reminding_def start_blinking_def finish_blinking_def

lemmas machine_helpers [guard_defs] =
  require_active_def require_active_idle_def require_motion_def bump_epoch_def set_plain_def
  restore_default_behavior_def

text \<open>
  An operation name per method, so that runs of the machine are explicit sequences.
  \<open>Transition\<close> is \<^verbatim>\<open>commit(propose(...))\<close>, the path the animation engine uses.
\<close>

datatype sm_op =
    Pause | Resume | BeginClosing | RecoverFailedClose | StartDragging | ReleaseDrag
  | StartFalling | Land | FinishLanding | StartWalking PetFacing | StopWalking | StartThinking
  | FinishThinking | StartReminding | FinishReminding | StartBlinking | FinishBlinking
  | Transition propose_args

fun sm_exec :: "sm_op \<Rightarrow> PetLayeredStateMachine \<Rightarrow> PetLayeredStateMachine res" where
  "sm_exec Pause m = pause m"
| "sm_exec Resume m = resume m"
| "sm_exec BeginClosing m = begin_closing m"
| "sm_exec RecoverFailedClose m = recover_failed_close m"
| "sm_exec StartDragging m = start_dragging m"
| "sm_exec ReleaseDrag m = release_drag m"
| "sm_exec StartFalling m = start_falling m"
| "sm_exec Land m = land m"
| "sm_exec FinishLanding m = finish_landing m"
| "sm_exec (StartWalking d) m = start_walking d m"
| "sm_exec StopWalking m = stop_walking m"
| "sm_exec StartThinking m = start_thinking m"
| "sm_exec FinishThinking m = finish_thinking m"
| "sm_exec StartReminding m = start_reminding m"
| "sm_exec FinishReminding m = finish_reminding m"
| "sm_exec StartBlinking m = start_blinking m"
| "sm_exec FinishBlinking m = finish_blinking m"
| "sm_exec (Transition a) m = ebind (propose m a) (commit m)"

text \<open>A run of the machine: an operation that raises leaves the machine as it was.\<close>

inductive sm_reach :: "PetLayeredStateMachine \<Rightarrow> PetLayeredStateMachine \<Rightarrow> bool" for m0 where
  reach_start: "sm_reach m0 m0"
| reach_step: "sm_reach m0 m \<Longrightarrow> sm_exec op m = Inr m' \<Longrightarrow> sm_reach m0 m'"

inductive_cases sm_reachE: "sm_reach m0 m"

lemma propose_Inr_iff:
  "propose m a = Inr p \<longleftrightarrow>
     (\<exists>source target. snapshot m = Inr source \<and>
        mk_PetLayeredState (or_else (arg_lifecycle a) (lifecycle source))
          (or_else (arg_motion a) (motion source)) (snd (propose_target source a))
          (or_else (arg_facing a) (facing source)) (fst (propose_target source a)) = Inr target \<and>
        p = \<lparr>source_state = source, target_state = target, source_epoch = sm_epoch m,
             target_epoch = sm_epoch m + 1, mandatory_for_safety = arg_mandatory a\<rparr>)"
  by (auto simp: propose_def ebind_eq_Inr_iff)

lemma propose_target_ok: "propose m a = Inr p \<Longrightarrow> layered_ok (target_state p)"
  by (auto simp: propose_Inr_iff dest: mk_PetLayeredState_Inr)

lemma raw_state_install [simp]:
  "raw_state (install s m) = s"
  "raw_state ((install s m)\<lparr>sm_epoch := e\<rparr>) = s"
  by (simp_all add: raw_state_def install_def)

lemma commit_propose:
  assumes "propose m a = Inr p"
  shows "commit m p = Inr ((install (target_state p) m)\<lparr>sm_epoch := sm_epoch m + 1\<rparr>)"
  using assms by (auto simp: propose_Inr_iff commit_def)

lemma commit_Inr:
  assumes "commit m p = Inr m'"
  shows "source_epoch p = sm_epoch m" "sm_epoch m' = sm_epoch m + 1" "raw_state m' = target_state p"
  using assms by (auto simp: commit_def ebind_eq_Inr_iff)

text \<open>
  Operations that establish a canonical state whatever state they start from, and
  operations that keep one.
\<close>

lemmas valid_simps = machine_helpers sm_valid_def layered_ok_def idle_behaviors_ok_def

lemma establish_valid:
  "pause m = Inr m' \<Longrightarrow> sm_valid m'"
  "recover_failed_close m = Inr m' \<Longrightarrow> sm_valid m'"
  "start_dragging m = Inr m' \<Longrightarrow> sm_valid m'"
  "release_drag m = Inr m' \<Longrightarrow> sm_valid m'"
  "start_falling m = Inr m' \<Longrightarrow> sm_valid m'"
  "land m = Inr m' \<Longrightarrow> sm_valid m'"
  "finish_landing m = Inr m' \<Longrightarrow> sm_valid m'"
  "stop_walking m = Inr m' \<Longrightarrow> sm_valid m'"
  "start_thinking m = Inr m' \<Longrightarrow> sm_valid m'"
  "start_reminding m = Inr m' \<Longrightarrow> sm_valid m'"
  by (auto simp: machine_defs valid_simps split: if_splits)

lemma commit_valid: "commit m p = Inr m' \<Longrightarrow> layered_ok (target_state p) \<Longrightarrow> sm_valid m'"
  by (simp add: sm_valid_def commit_Inr(3))

lemma begin_closing_valid:
  "sm_valid m \<or> sm_lifecycle m \<noteq> PetLifecycleState.CLOSING \<Longrightarrow> begin_closing m = Inr m' \<Longrightarrow> sm_valid m'"
  by (auto simp: machine_defs valid_simps split: if_splits)

lemma plain_valid:
  assumes "sm_motion m \<noteq> PetMotionState.DRAGGING"
  shows "sm_valid (restore_default_behavior m)"
  using assms by (cases "sm_motion m") (simp_all add: valid_simps)

lemma resume_valid:
  assumes "resume m = Inr m'" and "sm_motion m \<noteq> PetMotionState.DRAGGING"
  shows "sm_valid m'"
  using assms plain_valid [of "m\<lparr>sm_lifecycle := PetLifecycleState.ACTIVE\<rparr>"]
  by (auto simp: resume_def bump_epoch_def sm_valid_def layered_ok_def)

lemma resume_orphan:
  assumes "resume m = Inr m'" and "sm_motion m = PetMotionState.DRAGGING"
  shows "drag_orphan m'"
  using assms by (auto simp: resume_def machine_helpers drag_orphan_def)

lemma sm_valid_activity:
  assumes "sm_valid m" and "sm_activity m \<noteq> PetActivityState.NONE"
  shows "sm_lifecycle m = PetLifecycleState.ACTIVE" "sm_motion m = PetMotionState.IDLE"
  using assms by (cases "sm_motion m"; simp add: sm_valid_def layered_ok_def split: if_splits)+

lemma finish_activity_valid:
  assumes "sm_valid m"
  shows "finish_thinking m = Inr m' \<Longrightarrow> sm_valid m'" "finish_reminding m = Inr m' \<Longrightarrow> sm_valid m'"
proof -
  have "sm_valid (bump_epoch (restore_default_behavior m))"
    if "sm_activity m \<noteq> PetActivityState.NONE"
    using sm_valid_activity [OF assms that] by (simp add: valid_simps)
  then show "finish_thinking m = Inr m' \<Longrightarrow> sm_valid m'" "finish_reminding m = Inr m' \<Longrightarrow> sm_valid m'"
    by (auto simp: finish_thinking_def finish_reminding_def)
qed

lemma start_walking_valid:
  assumes "sm_valid m" and "start_walking d m = Inr m'"
  shows "sm_valid m'"
  using assms
  by (cases "sm_motion m")
    (auto simp: start_walking_def valid_simps split: if_splits)

lemma blinking_valid:
  assumes "sm_valid m"
  shows "start_blinking m = Inr m' \<Longrightarrow> sm_valid m'" "finish_blinking m = Inr m' \<Longrightarrow> sm_valid m'"
  using assms
  by (cases "sm_motion m";
      auto simp: start_blinking_def finish_blinking_def valid_simps split: if_splits)+

lemma orphan_exec:
  assumes "drag_orphan m" and "sm_exec op m = Inr m'"
  shows "sm_valid m' \<or> m' = m"
  using assms
  by (cases op)
    (auto simp: drag_orphan_def snapshot_orphan propose_def machine_defs valid_simps split: if_splits)

lemma valid_exec:
  assumes "sm_valid m" and "sm_exec op m = Inr m'"
  shows "sm_valid m' \<or> drag_orphan m' \<and> op = Resume \<and> sm_motion m = PetMotionState.DRAGGING"
proof (cases op)
  case Resume
  then show ?thesis using assms resume_valid resume_orphan by auto
next
  case (Transition a)
  with assms(2) obtain p where "propose m a = Inr p" "commit m p = Inr m'"
    by (auto simp: ebind_eq_Inr_iff)
  then show ?thesis using propose_target_ok commit_valid by blast
qed (use assms in \<open>simp, blast intro: establish_valid begin_closing_valid finish_activity_valid
       start_walking_valid blinking_valid\<close>)+

lemma sm_reach_inv:
  assumes "sm_reach m0 m" and "sm_valid m0"
  shows "sm_valid m \<or> drag_orphan m"
  using assms
proof (induction rule: sm_reach.induct)
  case reach_start
  then show ?case by simp
next
  case (reach_step m op m')
  then show ?case using valid_exec orphan_exec by blast
qed

section \<open>Epochs\<close>

lemma sm_exec_epoch:
  assumes "sm_exec op m = Inr m'"
  shows "m' = m \<or> sm_epoch m' = sm_epoch m + 1"
proof (cases op)
  case (Transition a)
  with assms show ?thesis by (auto simp: ebind_eq_Inr_iff dest: commit_Inr)
qed (use assms in \<open>auto simp: machine_defs machine_helpers split: if_splits\<close>)

lemma sm_reach_epoch:
  assumes "sm_reach m0 m"
  shows "m = m0 \<or> sm_epoch m0 < sm_epoch m"
  using assms
proof (induction rule: sm_reach.induct)
  case reach_start
  then show ?case by simp
next
  case (reach_step m op m')
  from sm_exec_epoch [OF reach_step.hyps(2)] reach_step.IH show ?case by auto
qed

section \<open>The contract of the state authority\<close>

text \<open>
  What the motion model and the animation engine rely on: a proposal commits against the
  machine it was made from, installs exactly its target, and is refused by every machine
  with another epoch.
\<close>

locale state_authority =
  fixes snap :: "'m \<Rightarrow> 's res"
    and epoch :: "'m \<Rightarrow> int"
    and make_prop :: "'m \<Rightarrow> 'a \<Rightarrow> 'p res"
    and comm :: "'m \<Rightarrow> 'p \<Rightarrow> 'm res"
    and target :: "'p \<Rightarrow> 's"
    and good :: "'m \<Rightarrow> bool"
  assumes commit_current: "make_prop m a = Inr p \<Longrightarrow>
      \<exists>m'. comm m p = Inr m' \<and> snap m' = Inr (target p) \<and> epoch m' = epoch m + 1 \<and> good m'"
    and commit_stale: "make_prop m a = Inr p \<Longrightarrow> epoch m' \<noteq> epoch m \<Longrightarrow>
      comm m' p = Inl PetStateTransitionError"
begin

lemma race_loser:
  assumes "make_prop m a = Inr p" and "make_prop m b = Inr q"
  shows "\<exists>m'. comm m p = Inr m' \<and> snap m' = Inr (target p) \<and> good m' \<and>
    comm m' q = Inl PetStateTransitionError"
proof -
  obtain m' where m': "comm m p = Inr m'" "snap m' = Inr (target p)" "epoch m' = epoch m + 1" "good m'"
    using commit_current [OF assms(1)] by blast
  then have "comm m' q = Inl PetStateTransitionError"
    by (intro commit_stale [OF assms(2)]) simp
  with m' show ?thesis by blast
qed

end

interpretation pet_states:
  state_authority snapshot sm_epoch propose commit target_state sm_valid
proof unfold_locales
  fix m :: PetLayeredStateMachine and a p
  assume h: "propose m a = Inr p"
  let ?m = "(install (target_state p) m)\<lparr>sm_epoch := sm_epoch m + 1\<rparr>"
  have "sm_valid ?m"
    by (simp add: sm_valid_def propose_target_ok [OF h])
  moreover from this have "snapshot ?m = Inr (target_state p)"
    by (simp add: snapshot_valid)
  ultimately show "\<exists>m'. commit m p = Inr m' \<and> snapshot m' = Inr (target_state p) \<and>
      sm_epoch m' = sm_epoch m + 1 \<and> sm_valid m'"
    using commit_propose [OF h] by auto
next
  fix m m' :: PetLayeredStateMachine and a p
  assume "propose m a = Inr p" and "sm_epoch m' \<noteq> sm_epoch m"
  then show "commit m' p = Inl PetStateTransitionError"
    by (auto simp: propose_Inr_iff commit_def)
qed

section \<open>Runs\<close>

fun sm_run :: "sm_op list \<Rightarrow> PetLayeredStateMachine \<Rightarrow> PetLayeredStateMachine" where
  "sm_run [] m = m"
| "sm_run (op # ops) m = sm_run ops (case sm_exec op m of Inl _ \<Rightarrow> m | Inr m' \<Rightarrow> m')"

text \<open>No operation of the run resumes the pet while it is being dragged.\<close>

fun drag_settled :: "sm_op list \<Rightarrow> PetLayeredStateMachine \<Rightarrow> bool" where
  "drag_settled [] m = True"
| "drag_settled (op # ops) m =
    (\<not> (op = Resume \<and> sm_motion m = PetMotionState.DRAGGING)
     \<and> drag_settled ops (case sm_exec op m of Inl _ \<Rightarrow> m | Inr m' \<Rightarrow> m'))"

lemma new_state_machine_valid: "new_state_machine e = Inr m \<Longrightarrow> sm_valid m"
  by (auto simp: new_state_machine_def valid_simps)

lemma sm_run_valid: "sm_valid m \<Longrightarrow> drag_settled ops m \<Longrightarrow> sm_valid (sm_run ops m)"
proof (induction ops arbitrary: m)
  case Nil
  then show ?case by simp
next
  case (Cons op ops)
  have "sm_valid (case sm_exec op m of Inl _ \<Rightarrow> m | Inr m' \<Rightarrow> m')"
    using Cons.prems valid_exec [of m op] by (auto split: sum.splits)
  with Cons show ?case by simp
qed

section \<open>Properties\<close>

text \<open>
  Starting from a fresh machine, whatever sequence of operations succeeds, the machine is
  either in a canonical state, which its snapshot returns unchanged, or in the single
  exceptional configuration \<open>drag_orphan\<close> (active and dragging without the drag behaviour),
  in which every snapshot raises \<open>PetStateTransitionError\<close>.
\<close>

theorem machine_reachable_states:
  assumes "new_state_machine e0 = Inr m0" and "sm_reach m0 m"
  shows "(layered_ok (raw_state m) \<and> snapshot m = Inr (raw_state m))
         \<or> (drag_orphan m \<and> snapshot m = Inl PetStateTransitionError)"
  using sm_reach_inv [OF assms(2) new_state_machine_valid [OF assms(1)]]
    snapshot_valid [of m] snapshot_orphan [of m]
  by (auto simp: sm_valid_def)

theorem machine_reachable_states_witness:
  "\<exists>m0 m. new_state_machine 0 = Inr m0 \<and> sm_reach m0 m \<and> sm_motion m = PetMotionState.FALLING
     \<and> ((layered_ok (raw_state m) \<and> snapshot m = Inr (raw_state m))
         \<or> (drag_orphan m \<and> snapshot m = Inl PetStateTransitionError))"
proof -
  obtain m0 where m0: "new_state_machine 0 = Inr m0" "sm_lifecycle m0 = PetLifecycleState.ACTIVE"
      "sm_motion m0 = PetMotionState.IDLE"
    by (simp add: new_state_machine_def)
  then obtain m where m: "sm_exec StartFalling m0 = Inr m" "sm_motion m = PetMotionState.FALLING"
    by (simp add: start_falling_def machine_helpers)
  have "sm_reach m0 m" using m(1) by (rule reach_step [OF reach_start])
  with m0 m show ?thesis using machine_reachable_states [OF m0(1)] by blast
qed

text \<open>
  A run of operations, raising or not, that never resumes the pet in the middle of a drag
  keeps a canonical machine canonical: its snapshot never raises.
\<close>

theorem machine_run_never_raises_on_snapshot:
  assumes "sm_valid m" and "drag_settled ops m"
  shows "snapshot (sm_run ops m) = Inr (raw_state (sm_run ops m))"
  by (rule snapshot_valid [OF sm_run_valid [OF assms]])

theorem machine_run_never_raises_on_snapshot_witness:
  "\<exists>m. new_state_machine 0 = Inr m \<and> drag_settled [StartDragging, ReleaseDrag, Land, Pause, Resume] m
     \<and> snapshot (sm_run [StartDragging, ReleaseDrag, Land, Pause, Resume] m)
       = Inr (raw_state (sm_run [StartDragging, ReleaseDrag, Land, Pause, Resume] m))"
proof -
  obtain m where m: "new_state_machine 0 = Inr m" by (simp add: new_state_machine_def)
  have v: "sm_valid m" by (rule new_state_machine_valid [OF m])
  have d: "drag_settled [StartDragging, ReleaseDrag, Land, Pause, Resume] m"
    using m by (auto simp: new_state_machine_def machine_defs machine_helpers)
  show ?thesis using m d machine_run_never_raises_on_snapshot [OF v d] by blast
qed

text \<open>
  The exceptional configuration is real: pausing, then starting a drag, then resuming
  leaves the machine in a state whose own snapshot raises, although every one of the three
  calls succeeds.
\<close>

theorem resume_while_dragging_breaks_snapshot:
  "\<exists>m0 m1 m2 m3. new_state_machine 0 = Inr m0 \<and> pause m0 = Inr m1 \<and> start_dragging m1 = Inr m2
     \<and> resume m2 = Inr m3 \<and> snapshot m2 = Inr (raw_state m2) \<and> snapshot m3 = Inl PetStateTransitionError"
proof -
  obtain m0 where m0: "new_state_machine 0 = Inr m0" "sm_lifecycle m0 = PetLifecycleState.ACTIVE"
    by (simp add: new_state_machine_def)
  obtain m1 where m1: "pause m0 = Inr m1" "sm_lifecycle m1 = PetLifecycleState.PAUSED"
    using m0 by (simp add: pause_def machine_helpers)
  obtain m2 where m2: "start_dragging m1 = Inr m2" "sm_lifecycle m2 = PetLifecycleState.PAUSED"
      "sm_motion m2 = PetMotionState.DRAGGING"
    using m1 by (simp add: start_dragging_def machine_helpers)
  obtain m3 where m3: "resume m2 = Inr m3" using m2 by (simp add: resume_def)
  have "snapshot m2 = Inr (raw_state m2)" by (rule snapshot_valid [OF establish_valid(3) [OF m2(1)]])
  moreover have "snapshot m3 = Inl PetStateTransitionError"
    by (rule snapshot_orphan [OF resume_orphan [OF m3 m2(3)]])
  ultimately show ?thesis using m0(1) m1(1) m2(1) m3 by blast
qed

text \<open>
  C29. Of two proposals made from the same machine, committing the first installs exactly its
  target state at the next epoch and makes the second one fail: no transition is lost or
  applied to a state it was not validated for.
\<close>

theorem concurrent_proposals_one_commits:
  assumes "propose m a = Inr p" and "propose m b = Inr q"
  shows "\<exists>m'. commit m p = Inr m' \<and> snapshot m' = Inr (target_state p) \<and> sm_valid m' \<and>
           commit m' q = Inl PetStateTransitionError"
  by (rule pet_states.race_loser [OF assms])

theorem concurrent_proposals_one_commits_witness:
  "\<exists>m p q m'. new_state_machine 0 = Inr m
     \<and> propose m (no_args\<lparr>arg_motion := Some PetMotionState.FALLING\<rparr>) = Inr p
     \<and> propose m (no_args\<lparr>arg_lifecycle := Some PetLifecycleState.PAUSED\<rparr>) = Inr q
     \<and> commit m p = Inr m' \<and> snapshot m' = Inr (target_state p) \<and> sm_valid m'
     \<and> commit m' q = Inl PetStateTransitionError"
proof -
  obtain m where m: "new_state_machine 0 = Inr m" by (simp add: new_state_machine_def)
  have snap: "snapshot m = Inr (raw_state m)"
    by (rule snapshot_valid [OF new_state_machine_valid [OF m]])
  have ok: "\<And>mo fa. mk_PetLayeredState PetLifecycleState.ACTIVE PetMotionState.FALLING {} fa PetActivityState.NONE
        = Inr \<lparr>lifecycle = PetLifecycleState.ACTIVE, motion = PetMotionState.FALLING, behaviors = {}, facing = fa,
               activity = PetActivityState.NONE\<rparr>"
    "\<And>mo fa. mk_PetLayeredState PetLifecycleState.PAUSED mo {} fa PetActivityState.NONE
        = Inr \<lparr>lifecycle = PetLifecycleState.PAUSED, motion = mo, behaviors = {}, facing = fa,
               activity = PetActivityState.NONE\<rparr>"
    by (simp_all add: mk_PetLayeredState_def activity_from_legacy_behaviors_def Let_def
        legacy_behavior_for_activity_def validate_layered_state_def)
  obtain p where p: "propose m (no_args\<lparr>arg_motion := Some PetMotionState.FALLING\<rparr>) = Inr p"
    using m snap ok(1)
    by (auto simp: propose_def propose_target_def no_args_def or_else_def new_state_machine_def Let_def)
  obtain q where q: "propose m (no_args\<lparr>arg_lifecycle := Some PetLifecycleState.PAUSED\<rparr>) = Inr q"
    using m snap ok(2)
    by (auto simp: propose_def propose_target_def no_args_def or_else_def new_state_machine_def Let_def)
  show ?thesis using m p q concurrent_proposals_one_commits [OF p q] by blast
qed

text \<open>
  \<open>validate_layered_state\<close> accepts exactly the canonical combinations of the layer table
  \<open>layered_ok\<close> and answers every other state with \<open>PetStateTransitionError\<close>.
\<close>

theorem validate_layered_state_exact:
  "validate_layered_state s = (if layered_ok s then Inr () else Inl PetStateTransitionError)"
  by (rule validate_layered_state_cases)

lemma compatible_actions_track0:
  "a \<in> set (STATE_ACTION_COMPATIBILITY lc mo act) \<Longrightarrow> expected_track a = 0"
  by (cases mo; cases act) (auto simp: STATE_ACTION_COMPATIBILITY_def expected_track_def split: if_splits)

lemma compatible_actions_exist:
  assumes "layered_ok s" and "lifecycle s = PetLifecycleState.ACTIVE"
  shows "STATE_ACTION_COMPATIBILITY (lifecycle s) (motion s) (activity s) \<noteq> []"
  using assms
  by (cases "motion s"; cases "activity s")
    (auto simp: STATE_ACTION_COMPATIBILITY_def layered_ok_def)

lemma assert_compatible_iff:
  "assert_animation_compatible s action health = Inr () \<longleftrightarrow>
     layered_ok s \<and>
     (if health = PlaybackHealth.HEALTHY \<and> lifecycle s = PetLifecycleState.ACTIVE
      then \<exists>a. action = Some a \<and>
             a \<in> set (STATE_ACTION_COMPATIBILITY (lifecycle s) (motion s) (activity s))
      else action = None)"
  by (cases action)
    (auto simp: assert_animation_compatible_def validate_layered_state_cases)

text \<open>
  The compatibility table never dead-ends and never leaves Track 0: for every canonical
  state and every renderer health some desired action is accepted, and an accepted action
  is one of Track 0, in an active state with a healthy renderer.
\<close>

theorem compatibility_total_and_track0:
  "(\<exists>action. assert_animation_compatible s action health = Inr ()) = layered_ok s
   \<and> (assert_animation_compatible s (Some a) health = Inr () \<longrightarrow>
        expected_track a = 0 \<and> health = PlaybackHealth.HEALTHY
        \<and> lifecycle s = PetLifecycleState.ACTIVE \<and> layered_ok s)"
proof (intro conjI iffI impI)
  assume "layered_ok s"
  then show "\<exists>action. assert_animation_compatible s action health = Inr ()"
    using compatible_actions_exist [of s] unfolding assert_compatible_iff
    by (metis list.set_intros(1) neq_Nil_conv)
qed (auto simp: assert_compatible_iff compatible_actions_track0 split: if_splits)

theorem compatibility_total_and_track0_witness:
  "\<exists>s. assert_animation_compatible s (Some PetActionName.DRAG_END) PlaybackHealth.HEALTHY = Inr ()
     \<and> expected_track PetActionName.DRAG_END = 0 \<and> layered_ok s"
proof -
  let ?s = "\<lparr>lifecycle = PetLifecycleState.ACTIVE, motion = PetMotionState.FALLING, behaviors = {},
             facing = PetFacing.LEFT, activity = PetActivityState.NONE\<rparr>"
  have "assert_animation_compatible ?s (Some PetActionName.DRAG_END) PlaybackHealth.HEALTHY = Inr ()"
    by (simp add: assert_compatible_iff layered_ok_def STATE_ACTION_COMPATIBILITY_def)
  then show ?thesis using compatibility_total_and_track0 [of ?s PlaybackHealth.HEALTHY] by blast
qed

end
