(* ===== verification/Production_Actions.thy ===== *)
theory Production_Actions
  imports Layered_State
begin

text \<open>
  The production action vocabulary of \<^verbatim>\<open>application/pet/pet_production_actions.py\<close>: actions,
  the authority rule between an action's origin and its source, intents, and the semantic
  target that each action asks the state authority for.
\<close>

datatype ProductionAction = RELAX | MOVE_LEFT | MOVE_RIGHT | SIT | SLEEP | SPECIAL | INTERACT

datatype ActionOrigin = SYSTEM | EXPLICIT | AUTONOMOUS

datatype ActionSource = TRAY | USER | AGENT | SCHEDULER | MOTION | LIFECYCLE

datatype AutonomousExecutionMode = AUTONOMOUS | EXPLICIT_HOLD | SUSPENDED

definition all_ProductionAction :: "ProductionAction list" where
  "all_ProductionAction =
    [ProductionAction.RELAX, ProductionAction.MOVE_LEFT, ProductionAction.MOVE_RIGHT,
     ProductionAction.SIT, ProductionAction.SLEEP, ProductionAction.SPECIAL,
     ProductionAction.INTERACT]"

fun sources_by_origin :: "ActionOrigin \<Rightarrow> ActionSource set" where
  "sources_by_origin ActionOrigin.SYSTEM = {ActionSource.MOTION, ActionSource.LIFECYCLE}"
| "sources_by_origin ActionOrigin.EXPLICIT =
     {ActionSource.TRAY, ActionSource.USER, ActionSource.AGENT}"
| "sources_by_origin ActionOrigin.AUTONOMOUS = {ActionSource.SCHEDULER}"

definition validate_action_authority :: "ActionOrigin \<Rightarrow> ActionSource \<Rightarrow> unit res" where
  "validate_action_authority origin source =
    raise_if (source \<notin> sources_by_origin origin)
      (ValueError ''action origin and source are incompatible'') (Inr ())"

record ActionIntent =
  intent_action :: ProductionAction
  intent_origin :: ActionOrigin
  intent_source :: ActionSource
  intent_token :: token

text \<open>\<^verbatim>\<open>request_token\<close> may be \<^verbatim>\<open>None\<close> on entry; the constructor refuses that.\<close>

definition mk_ActionIntent ::
    "ProductionAction \<Rightarrow> ActionOrigin \<Rightarrow> ActionSource \<Rightarrow> token option \<Rightarrow> ActionIntent res" where
  "mk_ActionIntent action origin source tok =
    ebind (validate_action_authority origin source) (\<lambda>_.
    case tok of
      None \<Rightarrow> Inl (ValueError ''request_token must not be None'')
    | Some t \<Rightarrow> Inr \<lparr>intent_action = action, intent_origin = origin, intent_source = source,
                    intent_token = t\<rparr>)"

record PendingExplicitIntent =
  pending_action :: ProductionAction
  pending_source :: ActionSource
  pending_token :: token

definition mk_PendingExplicitIntent ::
    "ProductionAction \<Rightarrow> ActionSource \<Rightarrow> token option \<Rightarrow> PendingExplicitIntent res" where
  "mk_PendingExplicitIntent action source tok =
    raise_if (source \<notin> sources_by_origin ActionOrigin.EXPLICIT)
      (ValueError ''pending action requires an explicit source'')
    (case tok of
       None \<Rightarrow> Inl (ValueError ''request_token must not be None'')
     | Some t \<Rightarrow> Inr \<lparr>pending_action = action, pending_source = source, pending_token = t\<rparr>)"

definition pending_intent :: "PendingExplicitIntent \<Rightarrow> ActionIntent res" where
  "pending_intent p =
    mk_ActionIntent (pending_action p) ActionOrigin.EXPLICIT (pending_source p)
      (Some (pending_token p))"

record SemanticActionTarget =
  target_motion :: PetMotionState
  target_activity :: PetActivityState
  target_facing :: "PetFacing option"

fun semantic_target :: "ProductionAction \<Rightarrow> SemanticActionTarget" where
  "semantic_target ProductionAction.RELAX =
     \<lparr>target_motion = PetMotionState.IDLE, target_activity = PetActivityState.NONE,
      target_facing = None\<rparr>"
| "semantic_target ProductionAction.MOVE_LEFT =
     \<lparr>target_motion = PetMotionState.WALKING_LEFT, target_activity = PetActivityState.NONE,
      target_facing = Some PetFacing.LEFT\<rparr>"
| "semantic_target ProductionAction.MOVE_RIGHT =
     \<lparr>target_motion = PetMotionState.WALKING_RIGHT, target_activity = PetActivityState.NONE,
      target_facing = Some PetFacing.RIGHT\<rparr>"
| "semantic_target ProductionAction.SIT =
     \<lparr>target_motion = PetMotionState.IDLE, target_activity = PetActivityState.SITTING,
      target_facing = None\<rparr>"
| "semantic_target ProductionAction.SLEEP =
     \<lparr>target_motion = PetMotionState.IDLE, target_activity = PetActivityState.SLEEPING,
      target_facing = None\<rparr>"
| "semantic_target ProductionAction.SPECIAL =
     \<lparr>target_motion = PetMotionState.IDLE, target_activity = PetActivityState.SPECIAL,
      target_facing = None\<rparr>"
| "semantic_target ProductionAction.INTERACT =
     \<lparr>target_motion = PetMotionState.IDLE, target_activity = PetActivityState.INTERACT,
      target_facing = None\<rparr>"

definition can_resume_autonomous :: "bool \<Rightarrow> ProductionAction set \<Rightarrow> bool" where
  "can_resume_autonomous closing available \<longleftrightarrow> \<not> closing \<and> ProductionAction.RELAX \<in> available"

section \<open>Lemmas\<close>

lemma set_all_ProductionAction [simp]: "set all_ProductionAction = UNIV"
proof -
  have "a \<in> set all_ProductionAction" for a
    by (cases a) (simp_all add: all_ProductionAction_def)
  then show ?thesis by blast
qed

text \<open>A source has authority for at most one origin, so an intent's origin is determined.\<close>

lemma sources_disjoint:
  "s \<in> sources_by_origin o1 \<Longrightarrow> s \<in> sources_by_origin o2 \<Longrightarrow> o1 = o2"
  by (cases o1; cases o2) auto

lemma mk_ActionIntent_Inr_iff:
  "mk_ActionIntent a og sr t = Inr i \<longleftrightarrow>
     sr \<in> sources_by_origin og \<and>
     (\<exists>k. t = Some k \<and> i = \<lparr>intent_action = a, intent_origin = og, intent_source = sr, intent_token = k\<rparr>)"
  by (auto simp: mk_ActionIntent_def validate_action_authority_def raise_if_def split: option.splits)

lemma pending_intent_ok:
  "mk_PendingExplicitIntent a sr t = Inr p \<Longrightarrow>
     \<exists>i. pending_intent p = Inr i \<and> intent_action i = a \<and> intent_origin i = ActionOrigin.EXPLICIT
       \<and> intent_source i = sr \<and> Some (intent_token i) = t"
  by (auto simp: mk_PendingExplicitIntent_def pending_intent_def mk_ActionIntent_Inr_iff
      split: option.splits)

text \<open>The state that a production action asks for, as the machine proposes it.\<close>

definition target_args :: "SemanticActionTarget \<Rightarrow> PetFacing option \<Rightarrow> propose_args" where
  "target_args t override =
    no_args\<lparr>arg_motion := Some (target_motion t), arg_activity := Some (target_activity t),
      arg_facing := (case override of None \<Rightarrow> target_facing t | Some f \<Rightarrow> Some f)\<rparr>"

definition target_layered :: "ProductionAction \<Rightarrow> PetFacing \<Rightarrow> PetLayeredState" where
  "target_layered a f =
    \<lparr>lifecycle = PetLifecycleState.ACTIVE, motion = target_motion (semantic_target a),
     behaviors = (if a = ProductionAction.RELAX then {PetBehaviorState.BREATHING} else {}),
     facing = f, activity = target_activity (semantic_target a)\<rparr>"

lemma target_layered_ok: "layered_ok (target_layered a f)"
  by (cases a) (simp_all add: target_layered_def layered_ok_def idle_behaviors_ok_def)

lemma propose_semantic_target:
  assumes "sm_valid m" and "sm_lifecycle m = PetLifecycleState.ACTIVE"
  shows "\<exists>p. propose m (target_args (semantic_target a) ov) = Inr p
    \<and> target_state p = target_layered a
        (case ov of Some f \<Rightarrow> f | None \<Rightarrow> or_else (target_facing (semantic_target a)) (sm_facing m))
    \<and> target_epoch p = sm_epoch m + 1"
proof -
  let ?f = "case ov of Some f \<Rightarrow> f | None \<Rightarrow> or_else (target_facing (semantic_target a)) (sm_facing m)"
  let ?args = "target_args (semantic_target a) ov"
  have snap: "snapshot m = Inr (raw_state m)" by (rule snapshot_valid [OF assms(1)])
  have tgt: "propose_target (raw_state m) ?args
      = (activity (target_layered a ?f), behaviors (target_layered a ?f))"
    using assms(2)
    by (cases a) (simp_all add: propose_target_def target_args_def no_args_def or_else_def Let_def
        target_layered_def behaviors_for_activity_def legacy_behavior_for_activity_def)
  have fa: "or_else (arg_facing ?args) (sm_facing m) = ?f"
    by (simp add: target_args_def no_args_def or_else_def split: option.splits)
  have "mk_PetLayeredState PetLifecycleState.ACTIVE (target_motion (semantic_target a))
      (behaviors (target_layered a ?f)) ?f (activity (target_layered a ?f)) = Inr (target_layered a ?f)"
    using mk_PetLayeredState_ok [OF target_layered_ok [of a ?f]] by (simp add: target_layered_def)
  moreover have "or_else (arg_lifecycle ?args) (lifecycle (raw_state m)) = PetLifecycleState.ACTIVE"
    "or_else (arg_motion ?args) (motion (raw_state m)) = target_motion (semantic_target a)"
    using assms(2) by (simp_all add: target_args_def no_args_def or_else_def)
  ultimately show ?thesis
    unfolding propose_Inr_iff using snap tgt fa by auto
qed

section \<open>Properties\<close>

text \<open>
  From every active canonical machine every production action can be proposed: the
  proposal never raises, targets exactly the action's motion and activity with the facing
  that the action (or an override) asks for, and carries the next epoch.
\<close>

theorem production_action_always_proposable:
  assumes "sm_valid m" and "sm_lifecycle m = PetLifecycleState.ACTIVE"
  shows "\<exists>p. propose m (target_args (semantic_target a) None) = Inr p
    \<and> layered_ok (target_state p)
    \<and> motion (target_state p) = target_motion (semantic_target a)
    \<and> activity (target_state p) = target_activity (semantic_target a)
    \<and> facing (target_state p) = or_else (target_facing (semantic_target a)) (sm_facing m)
    \<and> target_epoch p = sm_epoch m + 1"
  using propose_semantic_target [OF assms, of a None]
  by (auto simp: target_layered_ok) (auto simp: target_layered_def)

theorem production_action_always_proposable_witness:
  "\<exists>m p. new_state_machine 7 = Inr m
     \<and> propose m (target_args (semantic_target ProductionAction.MOVE_LEFT) None) = Inr p
     \<and> motion (target_state p) = PetMotionState.WALKING_LEFT \<and> target_epoch p = 8"
proof -
  obtain m where m: "new_state_machine 7 = Inr m" "sm_lifecycle m = PetLifecycleState.ACTIVE" "sm_epoch m = 7"
    by (simp add: new_state_machine_def)
  show ?thesis
    using m production_action_always_proposable
      [OF new_state_machine_valid [OF m(1)] m(2), of ProductionAction.MOVE_LEFT] by auto
qed

end
