(* ===== verification/Track0_Arbiter.thy ===== *)
theory Track0_Arbiter
  imports Action_Sequence Production_Actions
begin

text \<open>
  Arbitration of Track 0 requests, from \<^verbatim>\<open>application/pet/pet_track0.py\<close>: the request and
  decision vocabulary and the priority matrix of \<^verbatim>\<open>PetActionArbiter\<close>. The contract its
  clients rely on is the locale \<open>priority_arbiter\<close>, interpreted on the matrix.
\<close>

section \<open>Vocabulary\<close>

datatype CancelReason =
    USER_INTERRUPT | SYSTEM_SHUTDOWN | MOTION_OVERRIDE | PAUSE | RENDERER_FAILURE
  | CALLBACK_TIMEOUT

datatype CancellationMode = GRACEFUL_EXIT | IMMEDIATE_CLEAR | REPLACE

datatype ActionOutcome =
    ACCEPTED | REJECTED_PRIORITY | REJECTED_DUPLICATE | REJECTED_INCOMPATIBLE_STATE
  | STALE_COMPLETION | INVALID_SEQUENCE | REGISTRY_MISMATCH | PLAYER_FAILURE
  | CALLBACK_TIMEOUT | CLEARED | PLAYBACK_DEGRADED | RENDERER_STATE_UNKNOWN
  | SEQUENCING_DISABLED_CAPABILITY | LEGACY_DIRECT

record ActionRequest =
  sequence_name :: SequenceName
  interruption_class :: InterruptClass
  protected :: bool
  request_token :: token
  semantic_epoch :: int
  input_session_token :: "token option"
  req_origin :: ActionOrigin
  req_source :: ActionSource

definition mk_ActionRequest ::
    "SequenceName \<Rightarrow> InterruptClass \<Rightarrow> bool \<Rightarrow> token \<Rightarrow> int \<Rightarrow> token option \<Rightarrow> ActionOrigin
      \<Rightarrow> ActionSource \<Rightarrow> ActionRequest res" where
  "mk_ActionRequest name cls prot tok epoch session origin source =
    ebind (validate_action_authority origin source) (\<lambda>_.
    raise_if (epoch < 0) (ValueError ''semantic_epoch must be non-negative'')
    (raise_if (cls = InterruptClass.STRICT_ACTION \<and> \<not> prot)
       (ValueError ''strict requests must be protected'')
    (raise_if (cls = InterruptClass.USER_INTERACTION \<and> session = None)
       (ValueError ''user interaction requests require an input session'')
    (Inr \<lparr>sequence_name = name, interruption_class = cls, protected = prot,
          request_token = tok, semantic_epoch = epoch, input_session_token = session,
          req_origin = origin, req_source = source\<rparr>))))"

record ArbitrationContext =
  incoming_mode :: CancellationMode
  runner_authorized_continuation :: bool
  playback_health :: PlaybackHealth
  confirmed_semantic_epoch :: "int option"
  active_action_compatible :: bool

definition default_context :: ArbitrationContext where
  "default_context =
    \<lparr>incoming_mode = CancellationMode.REPLACE, runner_authorized_continuation = False,
     playback_health = PlaybackHealth.HEALTHY, confirmed_semantic_epoch = None,
     active_action_compatible = True\<rparr>"

record ArbitrationDecision =
  outcome :: ActionOutcome
  mode :: "CancellationMode option"

abbreviation decision :: "ActionOutcome \<Rightarrow> CancellationMode option \<Rightarrow> ArbitrationDecision" where
  "decision oc md \<equiv> \<lparr>outcome = oc, mode = md\<rparr>"

section \<open>The matrix\<close>

definition decide_motion_safety ::
    "ActionRequest \<Rightarrow> ActionRequest \<Rightarrow> ArbitrationContext \<Rightarrow> ArbitrationDecision" where
  "decide_motion_safety incoming active context =
    (let active_is_stale =
           (playback_health context \<noteq> PlaybackHealth.HEALTHY
            \<or> confirmed_semantic_epoch context \<noteq> Some (semantic_epoch active)
            \<or> \<not> active_action_compatible context);
         proposed_epoch_is_new = (semantic_epoch incoming \<noteq> semantic_epoch active)
     in if active_is_stale \<or> proposed_epoch_is_new
        then decision ActionOutcome.ACCEPTED (Some CancellationMode.REPLACE)
        else decision ActionOutcome.REJECTED_DUPLICATE None)"

definition decide_user_interaction :: "ActionRequest \<Rightarrow> ActionRequest \<Rightarrow> ArbitrationDecision" where
  "decide_user_interaction incoming active =
    (if input_session_token incoming \<noteq> input_session_token active
     then decision ActionOutcome.ACCEPTED (Some CancellationMode.REPLACE)
     else if sequence_name incoming = sequence_name active
     then decision ActionOutcome.REJECTED_DUPLICATE None
     else if sequence_name active = SequenceName.DRAG_HOLD
             \<and> sequence_name incoming = SequenceName.DRAG_RELEASE
     then decision ActionOutcome.ACCEPTED (Some CancellationMode.REPLACE)
     else decision ActionOutcome.REJECTED_PRIORITY None)"

definition decide_equal_class ::
    "ActionRequest \<Rightarrow> ActionRequest \<Rightarrow> ArbitrationContext \<Rightarrow> ArbitrationDecision res" where
  "decide_equal_class incoming active context =
    (let cls = interruption_class incoming in
     if cls = InterruptClass.MOTION_SAFETY
     then Inr (decide_motion_safety incoming active context)
     else if cls = InterruptClass.USER_INTERACTION
     then Inr (decide_user_interaction incoming active)
     else if cls = InterruptClass.STRICT_ACTION
     then Inr (decision ActionOutcome.REJECTED_PRIORITY None)
     else if cls = InterruptClass.NORMAL_ACTION then
       (if req_origin incoming = ActionOrigin.EXPLICIT \<and> req_origin active = ActionOrigin.AUTONOMOUS
        then Inr (decision ActionOutcome.ACCEPTED (Some CancellationMode.REPLACE))
        else if req_origin incoming = ActionOrigin.AUTONOMOUS
                \<and> req_origin active = ActionOrigin.EXPLICIT
        then Inr (decision ActionOutcome.REJECTED_PRIORITY None)
        else if sequence_name incoming \<noteq> sequence_name active \<and> \<not> protected active
        then Inr (decision ActionOutcome.ACCEPTED (Some CancellationMode.REPLACE))
        else Inr (decision ActionOutcome.REJECTED_PRIORITY None))
     else if cls = InterruptClass.IDLE
     then Inr (decision ActionOutcome.REJECTED_DUPLICATE None)
     else if cls = InterruptClass.SYSTEM_SHUTDOWN
     then Inr (decision ActionOutcome.ACCEPTED None)
     else Inl (AssertionError ''unhandled interrupt class''))"

definition decide ::
    "ActionRequest \<Rightarrow> ActionRequest option \<Rightarrow> ArbitrationContext \<Rightarrow> ArbitrationDecision res" where
  "decide incoming active_opt context =
    (case active_opt of
       None \<Rightarrow> Inr (decision ActionOutcome.ACCEPTED None)
     | Some active \<Rightarrow>
         if interruption_class incoming = InterruptClass.SYSTEM_SHUTDOWN
         then Inr (decision ActionOutcome.ACCEPTED
                (if interruption_class active = InterruptClass.SYSTEM_SHUTDOWN then None
                 else Some CancellationMode.IMMEDIATE_CLEAR))
         else if interruption_class incoming > interruption_class active
         then Inr (decision ActionOutcome.ACCEPTED (Some (incoming_mode context)))
         else if interruption_class incoming < interruption_class active
         then Inr (decision ActionOutcome.REJECTED_PRIORITY None)
         else if runner_authorized_continuation context
         then Inr (decision ActionOutcome.ACCEPTED None)
         else if sequence_name incoming = sequence_name active
                 \<and> request_token incoming = request_token active
         then Inr (decision ActionOutcome.REJECTED_DUPLICATE None)
         else decide_equal_class incoming active context)"

section \<open>The contract of an arbiter\<close>

text \<open>
  A run of an arbiter: each request is decided against the request that is active then, and
  becomes the active one exactly when it is accepted.
\<close>

type_synonym arbiter = "ActionRequest \<Rightarrow> ActionRequest option \<Rightarrow> ArbitrationContext \<Rightarrow> ArbitrationDecision res"

definition arbitration_step ::
    "arbiter \<Rightarrow> ActionRequest \<times> ArbitrationContext \<Rightarrow> ActionRequest option \<Rightarrow> ActionRequest option" where
  "arbitration_step dec rc active =
    (case dec (fst rc) active (snd rc) of
       Inr d \<Rightarrow> if outcome d = ActionOutcome.ACCEPTED then Some (fst rc) else active
     | Inl _ \<Rightarrow> active)"

definition arbitration_run ::
    "arbiter \<Rightarrow> (ActionRequest \<times> ArbitrationContext) list \<Rightarrow> ActionRequest option \<Rightarrow> ActionRequest option" where
  "arbitration_run dec rcs active = fold (arbitration_step dec) rcs active"

locale priority_arbiter =
  fixes dec :: arbiter
  assumes total: "is_ok (dec r active ctx)"
    and idle: "dec r None ctx = Inr (decision ActionOutcome.ACCEPTED None)"
    and higher: "interruption_class a < interruption_class r \<Longrightarrow>
      \<exists>md. dec r (Some a) ctx = Inr (decision ActionOutcome.ACCEPTED (Some md))"
    and lower: "interruption_class r < interruption_class a \<Longrightarrow>
      dec r (Some a) ctx = Inr (decision ActionOutcome.REJECTED_PRIORITY None)"
begin

lemma accepted_class:
  assumes "dec r (Some a) ctx = Inr d" and "outcome d = ActionOutcome.ACCEPTED"
  shows "interruption_class a \<le> interruption_class r"
  using lower [of r a ctx] assms by (force simp: not_less [symmetric])

lemma step_some: "\<exists>a'. arbitration_step dec rc (Some a) = Some a'"
  by (auto simp: arbitration_step_def split: sum.splits)

lemma step_class:
  "arbitration_step dec (r, ctx) (Some a) = Some a' \<Longrightarrow>
    interruption_class a' = max (interruption_class a) (interruption_class r)"
  using higher [of a r ctx] lower [of r a ctx] accepted_class [of r a ctx]
  by (cases "interruption_class a" "interruption_class r" rule: linorder_cases)
    (auto simp: arbitration_step_def max_def split: sum.splits if_splits)

lemma run_class:
  "\<exists>a'. arbitration_run dec rcs (Some a) = Some a' \<and>
     interruption_class a' = fold (\<lambda>rc. max (interruption_class (fst rc))) rcs (interruption_class a)"
proof (induction rcs arbitrary: a)
  case Nil
  then show ?case by (simp add: arbitration_run_def)
next
  case (Cons rc rcs)
  obtain a1 where a1: "arbitration_step dec rc (Some a) = Some a1" using step_some by blast
  then have "interruption_class a1 = max (interruption_class (fst rc)) (interruption_class a)"
    using step_class [of "fst rc" "snd rc" a a1] by (simp add: max.commute)
  with Cons.IH [of a1] a1 show ?case by (simp add: arbitration_run_def)
qed

lemma first_step: "arbitration_step dec rc None = Some (fst rc)"
  by (simp add: arbitration_step_def idle)

lemma run_from_idle:
  assumes "rcs \<noteq> []"
  shows "\<exists>a'. arbitration_run dec rcs None = Some a' \<and>
    interruption_class a' = Max ((interruption_class \<circ> fst) ` set rcs)"
proof (cases rcs)
  case (Cons rc rest)
  have fold_Max: "fold (\<lambda>rc. max (interruption_class (fst rc))) xs k
      = Max (insert k ((interruption_class \<circ> fst) ` set xs))" for k and xs :: "(ActionRequest \<times> ArbitrationContext) list"
    using Max.set_eq_fold [of k "map (interruption_class \<circ> fst) xs"] by (simp add: fold_map comp_def)
  from run_class [of rest "fst rc"] show ?thesis
    by (simp add: Cons arbitration_run_def first_step fold_Max)
qed (use assms in simp)

end

lemma decide_equal_class_total: "is_ok (decide_equal_class r a ctx)"
  by (cases "interruption_class r") (simp_all add: decide_equal_class_def)

interpretation track0_arbiter: priority_arbiter decide
proof unfold_locales
  fix r active ctx
  show "is_ok (decide r active ctx)"
    using decide_equal_class_total by (simp add: decide_def split: option.splits)
  show "decide r None ctx = Inr (decision ActionOutcome.ACCEPTED None)"
    by (simp add: decide_def)
next
  fix r a :: ActionRequest and ctx
  assume lt: "interruption_class a < interruption_class r"
  then show "\<exists>md. decide r (Some a) ctx = Inr (decision ActionOutcome.ACCEPTED (Some md))"
    by (auto simp: decide_def)
next
  fix r a :: ActionRequest and ctx
  assume "interruption_class r < interruption_class a"
  then show "decide r (Some a) ctx = Inr (decision ActionOutcome.REJECTED_PRIORITY None)"
    by (cases "interruption_class a"; cases "interruption_class r")
      (simp_all add: decide_def less_InterruptClass_def)
qed

section \<open>Properties\<close>

text \<open>
  C27. Arbitration keeps the highest interruption class: whatever requests arrive in whatever
  contexts at an idle track, no decision raises, and the request that is active in the end
  has the greatest interruption class among all requests that arrived.
\<close>

theorem arbitration_keeps_highest_class:
  assumes "rcs \<noteq> []"
  shows "(\<forall>r active ctx. is_ok (decide r active ctx)) \<and>
    (\<exists>a. arbitration_run decide rcs None = Some a \<and>
       interruption_class a = Max ((interruption_class \<circ> fst) ` set rcs))"
  using track0_arbiter.run_from_idle [OF assms] track0_arbiter.total by blast

definition sample_request :: "SequenceName \<Rightarrow> InterruptClass \<Rightarrow> ActionOrigin \<Rightarrow> token \<Rightarrow> ActionRequest" where
  "sample_request n c og t =
    \<lparr>sequence_name = n, interruption_class = c, protected = (c = InterruptClass.STRICT_ACTION),
     request_token = t, semantic_epoch = 0, input_session_token = None, req_origin = og,
     req_source = (if og = ActionOrigin.AUTONOMOUS then ActionSource.SCHEDULER
                   else if og = ActionOrigin.EXPLICIT then ActionSource.USER
                   else ActionSource.LIFECYCLE)\<rparr>"

theorem arbitration_keeps_highest_class_witness:
  "\<exists>a. arbitration_run decide
     [(sample_request SequenceName.PRODUCTION_RELAX InterruptClass.NORMAL_ACTION ActionOrigin.AUTONOMOUS 1, default_context),
      (sample_request SequenceName.WAVE InterruptClass.STRICT_ACTION ActionOrigin.EXPLICIT 2, default_context),
      (sample_request SequenceName.SIT InterruptClass.NORMAL_ACTION ActionOrigin.EXPLICIT 3, default_context)] None
      = Some a \<and> interruption_class a = InterruptClass.STRICT_ACTION"
  using arbitration_keeps_highest_class [of
     "[(sample_request SequenceName.PRODUCTION_RELAX InterruptClass.NORMAL_ACTION ActionOrigin.AUTONOMOUS 1, default_context),
      (sample_request SequenceName.WAVE InterruptClass.STRICT_ACTION ActionOrigin.EXPLICIT 2, default_context),
      (sample_request SequenceName.SIT InterruptClass.NORMAL_ACTION ActionOrigin.EXPLICIT 3, default_context)]"]
  by (simp add: sample_request_def max_def less_eq_InterruptClass_def)

text \<open>
  Inside one class, unless the runner itself asks to continue: the active request
  resubmitted is a duplicate (a shutdown apart, which is always accepted), a protected
  strict action is never displaced by another, an autonomous action never displaces an
  explicit one, and an explicit action always displaces an autonomous one.
\<close>

theorem equal_class_protection:
  assumes "\<not> runner_authorized_continuation ctx"
    and "interruption_class r = interruption_class a"
  shows "(interruption_class r \<noteq> InterruptClass.SYSTEM_SHUTDOWN \<longrightarrow>
       sequence_name r = sequence_name a \<longrightarrow> request_token r = request_token a \<longrightarrow>
       decide r (Some a) ctx = Inr (decision ActionOutcome.REJECTED_DUPLICATE None)) \<and>
    (interruption_class r = InterruptClass.STRICT_ACTION \<longrightarrow>
       (\<exists>oc. decide r (Some a) ctx = Inr (decision oc None) \<and> oc \<noteq> ActionOutcome.ACCEPTED)) \<and>
    (interruption_class r = InterruptClass.NORMAL_ACTION \<longrightarrow>
       request_token r \<noteq> request_token a \<longrightarrow>
       (req_origin r = ActionOrigin.AUTONOMOUS \<and> req_origin a = ActionOrigin.EXPLICIT \<longrightarrow>
          decide r (Some a) ctx = Inr (decision ActionOutcome.REJECTED_PRIORITY None)) \<and>
       (req_origin r = ActionOrigin.EXPLICIT \<and> req_origin a = ActionOrigin.AUTONOMOUS \<longrightarrow>
          decide r (Some a) ctx
            = Inr (decision ActionOutcome.ACCEPTED (Some CancellationMode.REPLACE))))"
  using assms by (auto simp: decide_def decide_equal_class_def)

theorem equal_class_protection_witness:
  "decide (sample_request SequenceName.PRODUCTION_SIT InterruptClass.NORMAL_ACTION ActionOrigin.AUTONOMOUS 1)
     (Some (sample_request SequenceName.PRODUCTION_RELAX InterruptClass.NORMAL_ACTION ActionOrigin.EXPLICIT 2))
     default_context = Inr (decision ActionOutcome.REJECTED_PRIORITY None)"
  using equal_class_protection [of default_context
     "sample_request SequenceName.PRODUCTION_SIT InterruptClass.NORMAL_ACTION ActionOrigin.AUTONOMOUS 1"
     "sample_request SequenceName.PRODUCTION_RELAX InterruptClass.NORMAL_ACTION ActionOrigin.EXPLICIT 2"]
  by (simp add: sample_request_def default_context_def)

end
