(* ===== verification/Track0_Runner.thy ===== *)
theory Track0_Runner
  imports Track0_Arbiter
begin

text \<open>
  The sequence runner of \<^verbatim>\<open>application/pet/pet_track0.py\<close>: progress through one immutable
  sequence, driven only by player callbacks that carry the identity of the playback the
  player confirmed. The contract the controller relies on is the locale \<open>step_runner\<close>,
  interpreted on the runner's operations.
\<close>

section \<open>State and events\<close>

record ConfirmedPlaybackEpoch =
  ce_generation :: int
  ce_logical_action :: PetActionName
  ce_physical_name :: string
  ce_playback_token :: token

definition mk_ConfirmedPlaybackEpoch ::
    "int \<Rightarrow> PetActionName \<Rightarrow> string \<Rightarrow> token \<Rightarrow> ConfirmedPlaybackEpoch res" where
  "mk_ConfirmedPlaybackEpoch g a p t =
    raise_if (g < 0) (ValueError ''generation must be non-negative'')
    (raise_if (p = []) (ValueError ''physical_name must not be empty'')
    (Inr \<lparr>ce_generation = g, ce_logical_action = a, ce_physical_name = p, ce_playback_token = t\<rparr>))"

record PlaybackEvent =
  ev_generation :: int
  ev_logical_action :: PetActionName
  ev_physical_name :: string
  ev_playback_token :: token
  ev_loop_boundary :: bool
  ev_boundary_index :: "int option"

record RunnerDirective =
  d_outcome :: ActionOutcome
  d_next_index :: "int option"
  d_step :: "PetActionStep option"
  d_terminal :: "SequenceTerminal option"

abbreviation bare_directive :: "ActionOutcome \<Rightarrow> RunnerDirective" where
  "bare_directive oc \<equiv> \<lparr>d_outcome = oc, d_next_index = None, d_step = None, d_terminal = None\<rparr>"

record PetSequenceRunner =
  rn_sequence :: "PetActionSequence option"
  rn_current_index :: "int option"
  rn_pending_graceful_exit :: bool
  rn_confirmed_epoch :: "ConfirmedPlaybackEpoch option"

definition new_runner :: PetSequenceRunner where
  "new_runner =
    \<lparr>rn_sequence = None, rn_current_index = None, rn_pending_graceful_exit = False,
     rn_confirmed_epoch = None\<rparr>"

section \<open>Operations\<close>

definition require_sequence :: "PetSequenceRunner \<Rightarrow> PetActionSequence res" where
  "require_sequence r =
    (case rn_sequence r of None \<Rightarrow> Inl (RuntimeError ''no active sequence'') | Some s \<Rightarrow> Inr s)"

definition require_current_index :: "PetSequenceRunner \<Rightarrow> int res" where
  "require_current_index r =
    (case rn_current_index r of
       None \<Rightarrow> Inl (RuntimeError ''no active sequence step'') | Some i \<Rightarrow> Inr i)"

definition current_step :: "PetSequenceRunner \<Rightarrow> PetActionStep res" where
  "current_step r =
    ebind (require_sequence r) (\<lambda>s.
    ebind (require_current_index r) (\<lambda>i. py_index (seq_steps s) i))"

definition advance_directive :: "int \<Rightarrow> PetSequenceRunner \<Rightarrow> RunnerDirective res" where
  "advance_directive index r =
    ebind (require_sequence r) (\<lambda>s.
    ebind (py_index (seq_steps s) index) (\<lambda>st.
    Inr \<lparr>d_outcome = ActionOutcome.ACCEPTED, d_next_index = Some index, d_step = Some st,
         d_terminal = None\<rparr>))"

definition runner_reset :: "PetSequenceRunner \<Rightarrow> PetSequenceRunner" where
  "runner_reset r =
    r\<lparr>rn_sequence := None, rn_current_index := None, rn_pending_graceful_exit := False,
      rn_confirmed_epoch := None\<rparr>"

definition runner_start ::
    "PetActionSequence \<Rightarrow> PetSequenceRunner \<Rightarrow> (RunnerDirective, PetSequenceRunner) sres" where
  "runner_start sequence r =
    (let r1 = r\<lparr>rn_sequence := Some sequence, rn_current_index := Some 0,
                rn_pending_graceful_exit := False, rn_confirmed_epoch := None\<rparr>
     in with_res (advance_directive 0 r1) r1 (\<lambda>d. (Inr d, r1)))"

definition accept_playback ::
    "int \<Rightarrow> PetActionName \<Rightarrow> string \<Rightarrow> token \<Rightarrow> PetSequenceRunner
      \<Rightarrow> (ConfirmedPlaybackEpoch, PetSequenceRunner) sres" where
  "accept_playback gen action pname tok r =
    with_res (current_step r) r (\<lambda>st.
    if action \<noteq> step_action st
    then (Inl (ValueError ''playback action does not match the current step''), r)
    else with_res (mk_ConfirmedPlaybackEpoch gen action pname tok) r (\<lambda>epoch.
         (Inr epoch, r\<lparr>rn_confirmed_epoch := Some epoch\<rparr>)))"

definition event_matches_current_epoch :: "PlaybackEvent \<Rightarrow> PetSequenceRunner \<Rightarrow> bool res" where
  "event_matches_current_epoch ev r =
    (case rn_confirmed_epoch r of
       None \<Rightarrow> Inr False
     | Some epoch \<Rightarrow>
         (case current_step r of
            Inl (RuntimeError _) \<Rightarrow> Inr False
          | Inl e \<Rightarrow> Inl e
          | Inr st \<Rightarrow>
              Inr (ev_generation ev = ce_generation epoch
                   \<and> ev_logical_action ev = ce_logical_action epoch
                   \<and> ev_logical_action ev = step_action st
                   \<and> ev_physical_name ev = ce_physical_name epoch
                   \<and> ev_playback_token ev = ce_playback_token epoch)))"

text \<open>The looping branch and the one-shot branch of \<^verbatim>\<open>handle_completion\<close>.\<close>

definition loop_completion ::
    "PlaybackEvent \<Rightarrow> PetActionSequence \<Rightarrow> PetSequenceRunner
      \<Rightarrow> (RunnerDirective option, PetSequenceRunner) sres" where
  "loop_completion ev s r =
    (if \<not> ev_loop_boundary ev then (Inr (Some (bare_directive ActionOutcome.STALE_COMPLETION)), r)
     else if \<not> rn_pending_graceful_exit r then (Inr None, r)
     else case loop_exit_index s of
            None \<Rightarrow> (Inr (Some (bare_directive ActionOutcome.INVALID_SEQUENCE)), r)
          | Some exit_index \<Rightarrow>
              let r1 = r\<lparr>rn_current_index := Some exit_index, rn_pending_graceful_exit := False,
                         rn_confirmed_epoch := None\<rparr>
              in with_res (advance_directive exit_index r1) r1 (\<lambda>d. (Inr (Some d), r1)))"

definition oneshot_completion ::
    "PlaybackEvent \<Rightarrow> PetActionSequence \<Rightarrow> int \<Rightarrow> PetSequenceRunner
      \<Rightarrow> (RunnerDirective option, PetSequenceRunner) sres" where
  "oneshot_completion ev s i r =
    (if ev_loop_boundary ev then (Inr (Some (bare_directive ActionOutcome.STALE_COMPLETION)), r)
     else let next_index = i + 1; r1 = r\<lparr>rn_confirmed_epoch := None\<rparr>
          in if next_index < int (length (seq_steps s))
             then let r2 = r1\<lparr>rn_current_index := Some next_index\<rparr>
                  in with_res (advance_directive next_index r2) r2 (\<lambda>d. (Inr (Some d), r2))
             else (Inr (Some \<lparr>d_outcome = ActionOutcome.ACCEPTED, d_next_index = None, d_step = None,
                              d_terminal = Some (seq_terminal s)\<rparr>), runner_reset r1))"

definition runner_handle_completion ::
    "PlaybackEvent \<Rightarrow> PetSequenceRunner \<Rightarrow> (RunnerDirective option, PetSequenceRunner) sres" where
  "runner_handle_completion ev r =
    with_res (event_matches_current_epoch ev r) r (\<lambda>matches.
    if \<not> matches then (Inr (Some (bare_directive ActionOutcome.STALE_COMPLETION)), r)
    else with_res (require_sequence r) r (\<lambda>s.
         with_res (require_current_index r) r (\<lambda>i.
         with_res (py_index (seq_steps s) i) r (\<lambda>st.
         if step_loop st then loop_completion ev s r else oneshot_completion ev s i r))))"

definition request_graceful_exit :: "PetSequenceRunner \<Rightarrow> ActionOutcome \<times> PetSequenceRunner" where
  "request_graceful_exit r =
    (case (rn_sequence r, rn_current_index r) of
       (Some s, Some i) \<Rightarrow>
         (case (loop_index s, loop_exit_index s) of
            (Some li, Some le) \<Rightarrow>
              if i > li then (ActionOutcome.INVALID_SEQUENCE, r)
              else if rn_pending_graceful_exit r then (ActionOutcome.REJECTED_DUPLICATE, r)
              else (ActionOutcome.ACCEPTED, r\<lparr>rn_pending_graceful_exit := True\<rparr>)
          | _ \<Rightarrow> (ActionOutcome.INVALID_SEQUENCE, r))
     | _ \<Rightarrow> (ActionOutcome.INVALID_SEQUENCE, r))"

section \<open>Invariant\<close>

definition epoch_ok :: "ConfirmedPlaybackEpoch \<Rightarrow> bool" where
  "epoch_ok e \<longleftrightarrow> 0 \<le> ce_generation e \<and> ce_physical_name e \<noteq> []"

definition runner_idle :: "PetSequenceRunner \<Rightarrow> bool" where
  "runner_idle r \<longleftrightarrow> rn_sequence r = None \<and> rn_current_index r = None \<and>
     \<not> rn_pending_graceful_exit r \<and> rn_confirmed_epoch r = None"

text \<open>The runner is at step \<open>i\<close> of the well-formed sequence \<open>s\<close>.\<close>

definition runner_at :: "PetActionSequence \<Rightarrow> int \<Rightarrow> PetSequenceRunner \<Rightarrow> bool" where
  "runner_at s i r \<longleftrightarrow> rn_sequence r = Some s \<and> rn_current_index r = Some i \<and> seq_wf s \<and>
     in_steps (seq_steps s) i \<and>
     (rn_pending_graceful_exit r \<longrightarrow>
        (\<exists>li le. loop_index s = Some li \<and> loop_exit_index s = Some le \<and> i \<le> li)) \<and>
     (case rn_confirmed_epoch r of None \<Rightarrow> True
      | Some e \<Rightarrow> epoch_ok e \<and> ce_logical_action e = step_action (seq_steps s ! nat i))"

definition runner_inv :: "PetSequenceRunner \<Rightarrow> bool" where
  "runner_inv r \<longleftrightarrow> runner_idle r \<or> (\<exists>s i. runner_at s i r)"

text \<open>The event that reports the end, or a loop boundary, of a confirmed playback.\<close>

definition event_of :: "ConfirmedPlaybackEpoch \<Rightarrow> bool \<Rightarrow> int option \<Rightarrow> PlaybackEvent" where
  "event_of e lb bi =
    \<lparr>ev_generation = ce_generation e, ev_logical_action = ce_logical_action e,
     ev_physical_name = ce_physical_name e, ev_playback_token = ce_playback_token e,
     ev_loop_boundary = lb, ev_boundary_index = bi\<rparr>"

definition event_is_for :: "PlaybackEvent \<Rightarrow> ConfirmedPlaybackEpoch \<Rightarrow> bool" where
  "event_is_for ev e \<longleftrightarrow>
     ev_generation ev = ce_generation e \<and> ev_logical_action ev = ce_logical_action e \<and>
     ev_physical_name ev = ce_physical_name e \<and> ev_playback_token ev = ce_playback_token e"

lemma event_of_is_for [simp]: "event_is_for (event_of e lb bi) e'
    \<longleftrightarrow> e' = e"
  by (cases e; cases e') (auto simp: event_is_for_def event_of_def)

lemma runner_idle_new: "runner_idle new_runner"
  by (simp add: runner_idle_def new_runner_def)

lemma runner_reset_eq [simp]: "runner_reset r = new_runner"
  by (simp add: runner_reset_def new_runner_def)

lemma runner_idle_iff: "runner_idle r \<longleftrightarrow> r = new_runner"
  by (cases r) (simp add: runner_idle_def new_runner_def)

lemma runner_at_step:
  "runner_at s i r \<Longrightarrow> current_step r = Inr (seq_steps s ! nat i)"
  by (simp add: runner_at_def current_step_def require_sequence_def require_current_index_def
      in_steps_def)

lemma event_matches_at:
  assumes "runner_at s i r"
  shows "event_matches_current_epoch ev r
    = Inr (case rn_confirmed_epoch r of None \<Rightarrow> False | Some e \<Rightarrow> event_is_for ev e)"
  using assms runner_at_step [OF assms]
  by (auto simp: event_matches_current_epoch_def event_is_for_def runner_at_def split: option.splits)

lemma advance_at:
  "rn_sequence r = Some s \<Longrightarrow> in_steps (seq_steps s) i \<Longrightarrow>
    advance_directive i r = Inr \<lparr>d_outcome = ActionOutcome.ACCEPTED, d_next_index = Some i,
      d_step = Some (seq_steps s ! nat i), d_terminal = None\<rparr>"
  by (simp add: advance_directive_def require_sequence_def in_steps_def)

lemma runner_start_at:
  assumes "seq_wf s"
  obtains r' where "runner_start s r = (Inr \<lparr>d_outcome = ActionOutcome.ACCEPTED,
      d_next_index = Some 0, d_step = Some (seq_steps s ! 0), d_terminal = None\<rparr>, r')"
    and "runner_at s 0 r'" and "rn_confirmed_epoch r' = None" and "\<not> rn_pending_graceful_exit r'"
proof -
  have "in_steps (seq_steps s) 0" using assms by (simp add: seq_wf_def in_steps_def)
  with assms show thesis
    by (intro that) (auto simp: runner_start_def advance_at runner_at_def Let_def)
qed

lemma accept_at:
  fixes t :: token
  assumes "runner_at s i r" and "step_action (seq_steps s ! nat i) = a" and "0 \<le> g" and "p \<noteq> []"
  defines "e \<equiv> \<lparr>ce_generation = g, ce_logical_action = a, ce_physical_name = p, ce_playback_token = t\<rparr>"
  shows "accept_playback g a p t r = (Inr e, r\<lparr>rn_confirmed_epoch := Some e\<rparr>)"
    and "runner_at s i (r\<lparr>rn_confirmed_epoch := Some e\<rparr>)"
  using assms runner_at_step [OF assms(1)]
  by (auto simp: accept_playback_def mk_ConfirmedPlaybackEpoch_def runner_at_def epoch_ok_def)

abbreviation play_step :: "PetActionSequence \<Rightarrow> int \<Rightarrow> RunnerDirective" where
  "play_step s i \<equiv> \<lparr>d_outcome = ActionOutcome.ACCEPTED, d_next_index = Some i,
     d_step = Some (seq_steps s ! nat i), d_terminal = None\<rparr>"

abbreviation finish_with :: "SequenceTerminal \<Rightarrow> RunnerDirective" where
  "finish_with t \<equiv> \<lparr>d_outcome = ActionOutcome.ACCEPTED, d_next_index = None, d_step = None,
     d_terminal = Some t\<rparr>"

definition moved_to :: "int \<Rightarrow> PetSequenceRunner \<Rightarrow> PetSequenceRunner" where
  "moved_to i r = r\<lparr>rn_current_index := Some i, rn_confirmed_epoch := None\<rparr>"

lemma moved_to_alt: "r\<lparr>rn_confirmed_epoch := None, rn_current_index := Some i\<rparr> = moved_to i r"
  by (cases r) (simp add: moved_to_def)

text \<open>What one callback does at step \<open>i\<close>, on every branch; none of them raises.\<close>

definition relevant :: "PlaybackEvent \<Rightarrow> PetActionStep \<Rightarrow> PetSequenceRunner \<Rightarrow> bool" where
  "relevant ev st r \<longleftrightarrow> ev_loop_boundary ev = step_loop st \<and>
     (\<exists>e. rn_confirmed_epoch r = Some e \<and> event_is_for ev e)"

lemma completion_stale:
  assumes "runner_at s i r" and "\<not> relevant ev (seq_steps s ! nat i) r"
  shows "runner_handle_completion ev r = (Inr (Some (bare_directive ActionOutcome.STALE_COMPLETION)), r)"
  using assms
  by (auto simp: runner_handle_completion_def event_matches_at [OF assms(1)] relevant_def
      require_sequence_def require_current_index_def runner_at_def in_steps_def
      loop_completion_def oneshot_completion_def split: option.splits)

lemma completion_loop:
  assumes at: "runner_at s i r" and rel: "relevant ev (seq_steps s ! nat i) r"
    and loop: "step_loop (seq_steps s ! nat i)"
  shows "\<not> rn_pending_graceful_exit r \<Longrightarrow> runner_handle_completion ev r = (Inr None, r)"
    and "rn_pending_graceful_exit r \<Longrightarrow> loop_exit_index s = Some j \<Longrightarrow>
      runner_handle_completion ev r =
        (Inr (Some (play_step s j)), (moved_to j r)\<lparr>rn_pending_graceful_exit := False\<rparr>)"
proof -
  have h: "runner_handle_completion ev r = loop_completion ev s r" and lb: "ev_loop_boundary ev"
    using assms by (auto simp: runner_handle_completion_def event_matches_at [OF at] relevant_def
        require_sequence_def require_current_index_def runner_at_def in_steps_def)
  have s: "rn_sequence r = Some s" using at by (simp add: runner_at_def)
  show "runner_handle_completion ev r = (Inr None, r)" if "\<not> rn_pending_graceful_exit r"
    using that lb by (simp add: h loop_completion_def)
  show "runner_handle_completion ev r =
      (Inr (Some (play_step s j)), (moved_to j r)\<lparr>rn_pending_graceful_exit := False\<rparr>)"
    if p: "rn_pending_graceful_exit r" and j: "loop_exit_index s = Some j"
  proof -
    have "in_steps (seq_steps s) j" using at j by (simp add: runner_at_def seq_wf_def)
    then show ?thesis using s lb p j by (simp add: h loop_completion_def advance_at Let_def moved_to_def)
  qed
qed

lemma completion_oneshot:
  assumes at: "runner_at s i r" and rel: "relevant ev (seq_steps s ! nat i) r"
    and loop: "\<not> step_loop (seq_steps s ! nat i)"
  shows "runner_handle_completion ev r =
    (if i + 1 < int (length (seq_steps s)) then (Inr (Some (play_step s (i + 1))), moved_to (i + 1) r)
     else (Inr (Some (finish_with (seq_terminal s))), new_runner))"
proof -
  have h: "runner_handle_completion ev r = oneshot_completion ev s i r" and lb: "\<not> ev_loop_boundary ev"
    using assms by (auto simp: runner_handle_completion_def event_matches_at [OF at] relevant_def
        require_sequence_def require_current_index_def runner_at_def in_steps_def)
  have "rn_sequence r = Some s" "0 \<le> i" using at by (simp_all add: runner_at_def in_steps_def)
  then show ?thesis
    using lb advance_at [of "moved_to (i + 1) r" s "i + 1"]
    by (auto simp: h oneshot_completion_def moved_to_alt in_steps_def Let_def) (simp add: moved_to_def)
qed

lemma runner_at_exit:
  assumes "runner_at s i r" and "loop_exit_index s = Some j"
  shows "runner_at s j ((moved_to j r)\<lparr>rn_pending_graceful_exit := False\<rparr>)"
  using assms by (auto simp: runner_at_def moved_to_def seq_wf_def)

lemma runner_at_next:
  assumes at: "runner_at s i r" and "\<not> step_loop (seq_steps s ! nat i)"
    and "i + 1 < int (length (seq_steps s))"
  shows "runner_at s (i + 1) (moved_to (i + 1) r)"
proof -
  have "i \<noteq> li" if "loop_index s = Some li" for li
    using assms(1,2) that by (auto simp: runner_at_def seq_wf_def)
  then show ?thesis using assms by (force simp: runner_at_def moved_to_def in_steps_def)
qed

lemma graceful_exit_at:
  assumes "runner_at s i r" and "request_graceful_exit r = (oc, r')"
  shows "runner_at s i r'" and "oc = ActionOutcome.ACCEPTED \<longleftrightarrow> rn_pending_graceful_exit r' \<and> \<not> rn_pending_graceful_exit r"
    and "oc \<noteq> ActionOutcome.ACCEPTED \<Longrightarrow> r' = r"
    and "oc = ActionOutcome.ACCEPTED \<Longrightarrow> r' = r\<lparr>rn_pending_graceful_exit := True\<rparr>"
  using assms by (auto simp: request_graceful_exit_def runner_at_def split: option.splits if_splits)

lemma graceful_exit_idle [simp]:
  "request_graceful_exit new_runner = (ActionOutcome.INVALID_SEQUENCE, new_runner)"
  by (simp add: request_graceful_exit_def new_runner_def)

lemma completion_idle [simp]:
  "runner_handle_completion ev new_runner = (Inr (Some (bare_directive ActionOutcome.STALE_COMPLETION)), new_runner)"
  by (simp add: runner_handle_completion_def event_matches_current_epoch_def new_runner_def)

section \<open>The contract of a runner\<close>

text \<open>
  A cooperative player: it confirms the current step with a fresh generation and reports its
  end (or, for a looping step, a loop boundary), until the runner names a terminal or the
  callback budget \<open>n\<close> is spent.
\<close>

fun drive ::
    "('r \<Rightarrow> PetActionStep res) \<Rightarrow>
     (int \<Rightarrow> PetActionName \<Rightarrow> string \<Rightarrow> token \<Rightarrow> 'r \<Rightarrow> (ConfirmedPlaybackEpoch, 'r) sres) \<Rightarrow>
     (PlaybackEvent \<Rightarrow> 'r \<Rightarrow> (RunnerDirective option, 'r) sres) \<Rightarrow>
     nat \<Rightarrow> int \<Rightarrow> 'r \<Rightarrow> SequenceTerminal option \<times> 'r" where
  "drive cur acc com 0 g r = (None, r)"
| "drive cur acc com (Suc n) g r =
    (case cur r of
       Inl _ \<Rightarrow> (None, r)
     | Inr st \<Rightarrow>
       (case acc g (step_action st) (action_value (step_action st)) (nat g) r of
          (Inl _, r1) \<Rightarrow> (None, r1)
        | (Inr e, r1) \<Rightarrow>
          (case com (event_of e (step_loop st) None) r1 of
             (Inl _, r2) \<Rightarrow> (None, r2)
           | (Inr None, r2) \<Rightarrow> drive cur acc com n (g + 1) r2
           | (Inr (Some d), r2) \<Rightarrow>
             (case d_terminal d of
                Some t \<Rightarrow> (Some t, r2)
              | None \<Rightarrow> drive cur acc com n (g + 1) r2))))"

text \<open>The only looping step is the loop, and its exit (if any) lies behind it.\<close>

definition single_loop :: "PetActionSequence \<Rightarrow> bool" where
  "single_loop s \<longleftrightarrow>
     (\<forall>k < length (seq_steps s). step_loop (seq_steps s ! k) \<longrightarrow> loop_index s = Some (int k)) \<and>
     (\<forall>li le. loop_index s = Some li \<longrightarrow> loop_exit_index s = Some le \<longrightarrow> li < le)"

lemma catalog_single_loop: "catalog_build n = Inr e \<Longrightarrow> single_loop (entry_sequence e)"
  by (cases n) (auto simp: catalog_eval single_loop_def less_Suc_eq)

locale step_runner =
  fixes at_step :: "PetActionSequence \<Rightarrow> int \<Rightarrow> 'r \<Rightarrow> bool"
    and pending :: "'r \<Rightarrow> bool"
    and confirmed :: "'r \<Rightarrow> ConfirmedPlaybackEpoch option"
    and idle :: 'r
    and cur :: "'r \<Rightarrow> PetActionStep res"
    and start :: "PetActionSequence \<Rightarrow> 'r \<Rightarrow> (RunnerDirective, 'r) sres"
    and acc :: "int \<Rightarrow> PetActionName \<Rightarrow> string \<Rightarrow> token \<Rightarrow> 'r \<Rightarrow> (ConfirmedPlaybackEpoch, 'r) sres"
    and com :: "PlaybackEvent \<Rightarrow> 'r \<Rightarrow> (RunnerDirective option, 'r) sres"
  assumes at_step: "at_step s i r \<Longrightarrow> seq_wf s \<and> in_steps (seq_steps s) i \<and> cur r = Inr (seq_steps s ! nat i)"
    and start: "seq_wf s \<Longrightarrow> \<exists>r'. start s r = (Inr (play_step s 0), r') \<and> at_step s 0 r' \<and> \<not> pending r'"
    and accept: "at_step s i r \<Longrightarrow> 0 \<le> g \<Longrightarrow> p \<noteq> [] \<Longrightarrow>
      \<exists>e r'. acc g (step_action (seq_steps s ! nat i)) p t r = (Inr e, r') \<and> at_step s i r' \<and>
        pending r' = pending r \<and> confirmed r' = Some e"
    and boundary: "at_step s i r \<Longrightarrow> confirmed r = Some e \<Longrightarrow> step_loop (seq_steps s ! nat i) \<Longrightarrow>
      pending r \<Longrightarrow> loop_exit_index s = Some j \<Longrightarrow>
      \<exists>r'. com (event_of e True b) r = (Inr (Some (play_step s j)), r') \<and> at_step s j r' \<and> \<not> pending r'"
    and completion: "at_step s i r \<Longrightarrow> confirmed r = Some e \<Longrightarrow> \<not> step_loop (seq_steps s ! nat i) \<Longrightarrow>
      i + 1 < int (length (seq_steps s)) \<Longrightarrow>
      \<exists>r'. com (event_of e False b) r = (Inr (Some (play_step s (i + 1))), r') \<and> at_step s (i + 1) r' \<and>
        pending r' = pending r"
    and last_completion: "at_step s i r \<Longrightarrow> confirmed r = Some e \<Longrightarrow> \<not> step_loop (seq_steps s ! nat i) \<Longrightarrow>
      i + 1 = int (length (seq_steps s)) \<Longrightarrow>
      com (event_of e False b) r = (Inr (Some (finish_with (seq_terminal s))), idle)"
begin

text \<open>Behind the loop, or with the exit armed, every callback brings the runner closer to the end.\<close>

lemma drive_finishes:
  assumes "at_step s i r" and "single_loop s" and "0 \<le> g"
    and "\<forall>li. loop_index s = Some li \<longrightarrow> li < i \<or> pending r \<and> i \<le> li \<and> loop_exit_index s \<noteq> None"
    and "int (length (seq_steps s)) - i \<le> int n"
  shows "drive cur acc com n g r = (Some (seq_terminal s), idle)"
  using assms
proof (induction n arbitrary: i r g)
  case 0
  then show ?case using at_step [OF 0(1)] by (simp add: in_steps_def)
next
  case (Suc n)
  let ?st = "seq_steps s ! nat i"
  note at = at_step [OF Suc.prems(1)]
  obtain e r1 where acc: "acc g (step_action ?st) (action_value (step_action ?st)) (nat g) r = (Inr e, r1)"
      and at1: "at_step s i r1" and r1: "pending r1 = pending r" "confirmed r1 = Some e"
    using accept [OF Suc.prems(1,3), of "action_value (step_action ?st)" "nat g"] action_value_nonempty
    by blast
  note unfold_drive = at acc
  show ?case
  proof (cases "step_loop ?st")
    case True
    with at Suc.prems(2) have li: "loop_index s = Some i"
      by (auto simp: single_loop_def in_steps_def dest!: spec [of _ "nat i"])
    with Suc.prems(4) obtain j where j: "pending r" "loop_exit_index s = Some j" by auto
    then have "i < j" using Suc.prems(2) li by (auto simp: single_loop_def)
    obtain r2 where r2: "com (event_of e True None) r1 = (Inr (Some (play_step s j)), r2)"
        "at_step s j r2" using boundary [OF at1 r1(2) True] j r1(1) by blast
    have "drive cur acc com n (g + 1) r2 = (Some (seq_terminal s), idle)"
      by (rule Suc.IH [OF r2(2) Suc.prems(2)]) (use Suc.prems(3,5) li \<open>i < j\<close> in auto)
    with r2 True show ?thesis by (simp add: unfold_drive)
  next
    case False
    show ?thesis
    proof (cases "i + 1 < int (length (seq_steps s))")
      case True
      obtain r2 where r2: "com (event_of e False None) r1 = (Inr (Some (play_step s (i + 1))), r2)"
          "at_step s (i + 1) r2" "pending r2 = pending r"
        using completion [OF at1 r1(2) False True] r1(1) by auto
      have "i \<noteq> li" if "loop_index s = Some li" for li
        using at False that by (auto simp: seq_wf_def)
      then have "\<forall>li. loop_index s = Some li \<longrightarrow>
          li < i + 1 \<or> pending r2 \<and> i + 1 \<le> li \<and> loop_exit_index s \<noteq> None"
        using Suc.prems(4) r2(3) by force
      then have "drive cur acc com n (g + 1) r2 = (Some (seq_terminal s), idle)"
        by (intro Suc.IH [OF r2(2) Suc.prems(2)]) (use Suc.prems(3,5) in auto)
      with r2(1) False show ?thesis by (simp add: unfold_drive)
    next
      case last: False
      with at have "i + 1 = int (length (seq_steps s))" by (auto simp: in_steps_def)
      from last_completion [OF at1 r1(2) False this] False show ?thesis by (simp add: unfold_drive)
    qed
  qed
qed

end

interpretation track0_runner:
  step_runner runner_at rn_pending_graceful_exit rn_confirmed_epoch new_runner current_step
    runner_start accept_playback runner_handle_completion
proof (unfold_locales, goal_cases)
  case (1 s i r)
  then show ?case using runner_at_step [OF 1] by (simp add: runner_at_def)
next
  case (2 s r)
  then obtain r' where "runner_start s r = (Inr \<lparr>d_outcome = ActionOutcome.ACCEPTED,
      d_next_index = Some 0, d_step = Some (seq_steps s ! 0), d_terminal = None\<rparr>, r')"
    and "runner_at s 0 r'" and "\<not> rn_pending_graceful_exit r'" by (rule runner_start_at)
  then show ?case by simp
next
  case (3 s i r g p t)
  from accept_at [OF 3(1) refl 3(2,3), of t] show ?case by auto
next
  case (4 s i r e j b)
  then have "relevant (event_of e True b) (seq_steps s ! nat i) r"
    by (simp add: relevant_def) (simp add: event_of_def)
  from completion_loop(2) [OF 4(1) this 4(3,4,5)] runner_at_exit [OF 4(1,5)] show ?case by simp
next
  case (5 s i r e b)
  then have "relevant (event_of e False b) (seq_steps s ! nat i) r"
    by (simp add: relevant_def) (simp add: event_of_def)
  from completion_oneshot [OF 5(1) this 5(3)] runner_at_next [OF 5(1,3,4)] 5(4) show ?case
    by (simp add: moved_to_def)
next
  case (6 s i r e b)
  then have "relevant (event_of e False b) (seq_steps s ! nat i) r"
    by (simp add: relevant_def) (simp add: event_of_def)
  from completion_oneshot [OF 6(1) this 6(3)] 6(4) show ?case by simp
qed

section \<open>Properties\<close>

text \<open>
  C28. Every catalog sequence that has no loop finishes, and every catalog sequence whose loop
  has an exit finishes once a graceful exit is requested: with a player that confirms each
  step and reports its end, the runner names the sequence's terminal and is idle again after
  at most as many callbacks as the sequence has steps. No operation raises on the way.
\<close>

theorem runner_reaches_terminal:
  assumes "SEQUENCE_CATALOG n = Some e" and "0 \<le> g"
    and "loop_index (entry_sequence e) = None \<or> loop_exit_index (entry_sequence e) \<noteq> None"
  shows "\<exists>r1. runner_start (entry_sequence e) r = (Inr (play_step (entry_sequence e) 0), r1) \<and>
    drive current_step accept_playback runner_handle_completion
      (length (seq_steps (entry_sequence e))) g
      (if loop_index (entry_sequence e) = None then r1 else snd (request_graceful_exit r1))
    = (Some (seq_terminal (entry_sequence e)), new_runner)"
proof -
  let ?s = "entry_sequence e"
  have wf: "seq_wf ?s" using SEQUENCE_CATALOG_wf [OF assms(1)] by (simp add: entry_wf_def)
  have one: "single_loop ?s"
    using assms(1) by (auto simp: SEQUENCE_CATALOG_Some intro: catalog_single_loop)
  obtain r1 where r1: "runner_start ?s r = (Inr (play_step ?s 0), r1)" "runner_at ?s 0 r1"
      "\<not> rn_pending_graceful_exit r1"
    using track0_runner.start [OF wf] by blast
  let ?r = "if loop_index ?s = None then r1 else snd (request_graceful_exit r1)"
  have "runner_at ?s 0 ?r"
    using r1(2) graceful_exit_at(1) [OF r1(2), of "fst (request_graceful_exit r1)"] by simp
  moreover have "\<forall>li. loop_index ?s = Some li \<longrightarrow>
      li < 0 \<or> rn_pending_graceful_exit ?r \<and> 0 \<le> li \<and> loop_exit_index ?s \<noteq> None"
    using assms(3) r1(2,3) wf
    by (auto simp: request_graceful_exit_def runner_at_def seq_wf_def in_steps_def)
  ultimately show ?thesis
    using track0_runner.drive_finishes [OF _ one assms(2), of 0 ?r] r1(1) by auto
qed

theorem runner_reaches_terminal_witness:
  "\<exists>s r1. runner_start s new_runner = (Inr (play_step s 0), r1) \<and> length (seq_steps s) = 4 \<and>
    drive current_step accept_playback runner_handle_completion 4 7
      (if loop_index s = None then r1 else snd (request_graceful_exit r1))
    = (Some SequenceTerminal.IDLE, new_runner)"
proof -
  obtain e where e: "catalog_build SequenceName.SLEEP = Inr e" using catalog_build_wf by blast
  then have s: "length (seq_steps (entry_sequence e)) = 4"
      "seq_terminal (entry_sequence e) = SequenceTerminal.IDLE"
      "loop_exit_index (entry_sequence e) = Some 2"
    by (auto simp: catalog_eval)
  show ?thesis
    using runner_reaches_terminal [of SequenceName.SLEEP e 7 new_runner] e s
    by (intro exI [of _ "entry_sequence e"]) (simp add: SEQUENCE_CATALOG_Some del: catalog_build.simps split del: if_split)
qed

end
