(* ===== verification/Track0_Controller.thy ===== *)
theory Track0_Controller
  imports Track0_Runner
begin

text \<open>
  The Track 0 controller of \<^verbatim>\<open>application/pet/pet_track0.py\<close>: the transaction coordinator
  between arbiter, runner and the animation player, with its watchdog.

  The player is a protocol of the program that several renderers implement; it is the
  parameter \<open>P\<close>, an \<open>AnimationPlayer\<close> record of operations on an arbitrary player state \<open>'p\<close>,
  whose \<^verbatim>\<open>play\<close> and \<^verbatim>\<open>clear\<close> may raise and may change that state either way. The clock is
  the argument \<open>now\<close>: no operation reads it more than once.
\<close>

section \<open>Player and watchdog policy\<close>

record AnimationPlayerCapabilities =
  completion_callbacks :: bool
  loop_boundary_callbacks :: bool
  duration_metadata :: bool
  liveness_reporting :: bool

definition sequencing_enabled :: "AnimationPlayerCapabilities \<Rightarrow> bool" where
  "sequencing_enabled c \<longleftrightarrow>
     completion_callbacks c \<and> loop_boundary_callbacks c \<and> duration_metadata c
     \<and> liveness_reporting c"

record WatchdogPolicy =
  tolerance_ratio :: real
  minimum_tolerance_seconds :: real
  maximum_tolerance_seconds :: real

definition mk_WatchdogPolicy :: "real \<Rightarrow> real \<Rightarrow> real \<Rightarrow> WatchdogPolicy res" where
  "mk_WatchdogPolicy ratio mn mx =
    raise_if (ratio < 0) (ValueError ''tolerance_ratio must be non-negative'')
    (raise_if (mn < 0) (ValueError ''minimum tolerance must be non-negative'')
    (raise_if (mx < mn) (ValueError ''watchdog tolerance bounds are invalid'')
    (Inr \<lparr>tolerance_ratio = ratio, minimum_tolerance_seconds = mn,
          maximum_tolerance_seconds = mx\<rparr>)))"

definition default_watchdog_policy :: WatchdogPolicy where
  "default_watchdog_policy =
    \<lparr>tolerance_ratio = 25 / 100, minimum_tolerance_seconds = 25 / 100,
     maximum_tolerance_seconds = 1\<rparr>"

definition deadline :: "WatchdogPolicy \<Rightarrow> real \<Rightarrow> real \<Rightarrow> real \<Rightarrow> real res" where
  "deadline w start source_duration speed =
    raise_if (source_duration \<le> 0) (ValueError ''source_duration must be positive'')
    (raise_if (speed \<le> 0) (ValueError ''speed must be positive'')
    (let effective_duration = source_duration / speed;
         tolerance = min (maximum_tolerance_seconds w)
                       (max (minimum_tolerance_seconds w) (tolerance_ratio w * effective_duration))
     in Inr (start + effective_duration + tolerance)))"

record PlaybackRequest =
  pr_generation :: int
  pr_track :: int
  pr_logical_action :: PetActionName
  pr_physical_name :: string
  pr_loop :: bool
  pr_speed :: real
  pr_mix_seconds :: real

definition mk_PlaybackRequest ::
    "int \<Rightarrow> int \<Rightarrow> PetActionName \<Rightarrow> string \<Rightarrow> bool \<Rightarrow> real \<Rightarrow> real \<Rightarrow> PlaybackRequest res" where
  "mk_PlaybackRequest g track a p l speed mix =
    raise_if (g < 0) (ValueError ''generation must be non-negative'')
    (raise_if (track \<notin> {0, 1, 2}) (ValueError ''track must be 0, 1, or 2'')
    (raise_if (p = []) (ValueError ''physical_name must not be empty'')
    (raise_if (speed \<le> 0) (ValueError ''speed must be positive'')
    (raise_if (mix < 0) (ValueError ''mix_seconds must be non-negative'')
    (Inr \<lparr>pr_generation = g, pr_track = track, pr_logical_action = a, pr_physical_name = p,
          pr_loop = l, pr_speed = speed, pr_mix_seconds = mix\<rparr>)))))"

record 'p AnimationPlayer =
  capabilities :: "'p \<Rightarrow> AnimationPlayerCapabilities"
  player_play :: "PlaybackRequest \<Rightarrow> 'p \<Rightarrow> (token, 'p) sres"
  player_clear :: "int \<Rightarrow> real \<Rightarrow> 'p \<Rightarrow> (unit, 'p) sres"

section \<open>Controller state\<close>

record Track0PlaybackState =
  desired_action :: "PetActionName option"
  confirmed_epoch :: "ConfirmedPlaybackEpoch option"
  health :: PlaybackHealth

abbreviation idle_playback :: "PlaybackHealth \<Rightarrow> Track0PlaybackState" where
  "idle_playback h \<equiv> \<lparr>desired_action = None, confirmed_epoch = None, health = h\<rparr>"

record ControllerPreflight =
  pf_outcome :: ActionOutcome
  pf_entry :: "SequenceCatalogEntry option"

record 'p PetTrack0Controller =
  ct_player :: 'p
  ct_registry :: AnimationRegistry
  ct_runner :: PetSequenceRunner
  ct_watchdog_policy :: WatchdogPolicy
  ct_watchdog_deadline :: "real option"
  ct_generation :: int
  ct_active_request :: "ActionRequest option"
  ct_state :: Track0PlaybackState

definition new_controller ::
    "'p \<Rightarrow> AnimationRegistry \<Rightarrow> PetSequenceRunner \<Rightarrow> WatchdogPolicy \<Rightarrow> 'p PetTrack0Controller" where
  "new_controller p reg r w =
    \<lparr>ct_player = p, ct_registry = reg, ct_runner = r, ct_watchdog_policy = w,
     ct_watchdog_deadline = None, ct_generation = 0, ct_active_request = None,
     ct_state = idle_playback PlaybackHealth.HEALTHY\<rparr>"

section \<open>Operations\<close>

definition allocate_generation :: "'p PetTrack0Controller \<Rightarrow> int \<times> 'p PetTrack0Controller" where
  "allocate_generation c =
    (ct_generation c + 1, c\<lparr>ct_generation := ct_generation c + 1\<rparr>)"

definition preflight ::
    "'p AnimationPlayer \<Rightarrow> ActionRequest \<Rightarrow> 'p PetTrack0Controller \<Rightarrow> ControllerPreflight res" where
  "preflight P request c =
    (case SEQUENCE_CATALOG (sequence_name request) of
       None \<Rightarrow> Inr \<lparr>pf_outcome = ActionOutcome.INVALID_SEQUENCE, pf_entry = None\<rparr>
     | Some e \<Rightarrow>
         if entry_track e \<noteq> 0
         then Inr \<lparr>pf_outcome = ActionOutcome.INVALID_SEQUENCE, pf_entry = None\<rparr>
         else if interruption_class request \<noteq> entry_interruption_class e
                 \<or> protected request \<noteq> entry_protected e
         then Inr \<lparr>pf_outcome = ActionOutcome.INVALID_SEQUENCE, pf_entry = None\<rparr>
         else if \<not> sequencing_enabled (capabilities P (ct_player c))
         then Inr \<lparr>pf_outcome = ActionOutcome.SEQUENCING_DISABLED_CAPABILITY, pf_entry = None\<rparr>
         else case validate_sequence (ct_registry c) e True of
                Inl (AnimationRegistryError _) \<Rightarrow>
                  Inr \<lparr>pf_outcome = ActionOutcome.REGISTRY_MISMATCH, pf_entry = None\<rparr>
              | Inl err \<Rightarrow> Inl err
              | Inr _ \<Rightarrow> Inr \<lparr>pf_outcome = ActionOutcome.ACCEPTED, pf_entry = Some e\<rparr>)"

definition arbitrate ::
    "ActionRequest \<Rightarrow> ArbitrationContext \<Rightarrow> 'p PetTrack0Controller \<Rightarrow> ArbitrationDecision res" where
  "arbitrate request context c = decide request (ct_active_request c) context"

definition deadline_for_step ::
    "real \<Rightarrow> PetActionStep \<Rightarrow> 'p PetTrack0Controller \<Rightarrow> real res" where
  "deadline_for_step now st c =
    ebind (resolve (ct_registry c) (step_action st)) (\<lambda>b.
    case source_duration_seconds b of
      None \<Rightarrow> Inl (RuntimeError ''preflighted playback is missing duration metadata'')
    | Some d \<Rightarrow> deadline (ct_watchdog_policy c) now d (step_speed st))"

definition arm_after_successful_play ::
    "real \<Rightarrow> PetActionStep \<Rightarrow> 'p PetTrack0Controller \<Rightarrow> (unit, 'p PetTrack0Controller) sres" where
  "arm_after_successful_play now st c =
    (if step_loop st then (Inr (), c\<lparr>ct_watchdog_deadline := None\<rparr>)
     else with_res (deadline_for_step now st c) c (\<lambda>d.
          (Inr (), c\<lparr>ct_watchdog_deadline := Some d\<rparr>)))"

definition arm_current_loop_boundary_watchdog ::
    "real \<Rightarrow> 'p PetTrack0Controller \<Rightarrow> (unit, 'p PetTrack0Controller) sres" where
  "arm_current_loop_boundary_watchdog now c =
    (case (rn_sequence (ct_runner c), rn_current_index (ct_runner c)) of
       (Some s, Some i) \<Rightarrow>
         with_res (py_index (seq_steps s) i) c (\<lambda>st.
         if \<not> step_loop st then (Inr (), c\<lparr>ct_watchdog_deadline := None\<rparr>)
         else with_res (deadline_for_step now st c) c (\<lambda>d.
              (Inr (), c\<lparr>ct_watchdog_deadline := Some d\<rparr>)))
     | _ \<Rightarrow> (Inr (), c\<lparr>ct_watchdog_deadline := None\<rparr>))"

text \<open>
  \<^verbatim>\<open>try: self._player.clear(0, 0.0) except Exception\<close>, which four methods share: whether it
  returned normally, and the controller with the player it left.
\<close>

definition try_clear ::
    "'p AnimationPlayer \<Rightarrow> 'p PetTrack0Controller \<Rightarrow> bool \<times> 'p PetTrack0Controller" where
  "try_clear P c =
    (case player_clear P 0 0 (ct_player c) of
       (r, p') \<Rightarrow> (is_ok r, c\<lparr>ct_player := p'\<rparr>))"

text \<open>The common tail: the runner is reset and nothing is active.\<close>

definition drop_playback :: "PlaybackHealth \<Rightarrow> 'p PetTrack0Controller \<Rightarrow> 'p PetTrack0Controller" where
  "drop_playback h c =
    c\<lparr>ct_runner := runner_reset (ct_runner c), ct_active_request := None,
      ct_state := idle_playback h\<rparr>"

definition contain_failed_play ::
    "'p AnimationPlayer \<Rightarrow> 'p PetTrack0Controller \<Rightarrow> ActionOutcome \<times> 'p PetTrack0Controller" where
  "contain_failed_play P c =
    (let c1 = snd (allocate_generation (c\<lparr>ct_watchdog_deadline := None\<rparr>));
         (ok, c2) = try_clear P c1
     in if ok then (ActionOutcome.PLAYBACK_DEGRADED, drop_playback PlaybackHealth.DEGRADED c2)
        else (ActionOutcome.RENDERER_STATE_UNKNOWN, drop_playback PlaybackHealth.UNKNOWN c2))"

definition contain_preflight_failure ::
    "'p AnimationPlayer \<Rightarrow> CancelReason \<Rightarrow> 'p PetTrack0Controller
      \<Rightarrow> ActionOutcome \<times> 'p PetTrack0Controller" where
  "contain_preflight_failure P reason c =
    (let c1 = snd (allocate_generation (c\<lparr>ct_watchdog_deadline := None\<rparr>));
         (ok, c2) = try_clear P c1
     in if ok then (ActionOutcome.PLAYBACK_DEGRADED, drop_playback PlaybackHealth.DEGRADED c2)
        else (ActionOutcome.RENDERER_STATE_UNKNOWN, drop_playback PlaybackHealth.UNKNOWN c2))"

definition clear ::
    "'p AnimationPlayer \<Rightarrow> CancelReason \<Rightarrow> 'p PetTrack0Controller
      \<Rightarrow> ActionOutcome \<times> 'p PetTrack0Controller" where
  "clear P reason c =
    (let prior_health = health (ct_state c);
         c1 = snd (allocate_generation (c\<lparr>ct_watchdog_deadline := None\<rparr>));
         (ok, c2) = try_clear P c1
     in if ok then (ActionOutcome.CLEARED, drop_playback prior_health c2)
        else (ActionOutcome.RENDERER_STATE_UNKNOWN, drop_playback PlaybackHealth.UNKNOWN c2))"

text \<open>
  \<^verbatim>\<open>try: token = player.play(...); epoch = runner.accept_playback(...) except Exception\<close>:
  the confirmed epoch, or nothing when either call raised.
\<close>

definition try_play ::
    "'p AnimationPlayer \<Rightarrow> PlaybackRequest \<Rightarrow> 'p PetTrack0Controller
      \<Rightarrow> ConfirmedPlaybackEpoch option \<times> 'p PetTrack0Controller" where
  "try_play P pr c =
    (case player_play P pr (ct_player c) of
       (Inl _, p') \<Rightarrow> (None, c\<lparr>ct_player := p'\<rparr>)
     | (Inr tok, p') \<Rightarrow>
         (case accept_playback (pr_generation pr) (pr_logical_action pr) (pr_physical_name pr) tok
                 (ct_runner c) of
            (Inl _, r') \<Rightarrow> (None, c\<lparr>ct_player := p', ct_runner := r'\<rparr>)
          | (Inr epoch, r') \<Rightarrow> (Some epoch, c\<lparr>ct_player := p', ct_runner := r'\<rparr>)))"

definition play_directive ::
    "'p AnimationPlayer \<Rightarrow> real \<Rightarrow> ActionRequest \<Rightarrow> RunnerDirective \<Rightarrow> 'p PetTrack0Controller
      \<Rightarrow> (ActionOutcome, 'p PetTrack0Controller) sres" where
  "play_directive P now request d c =
    (case d_step d of
       None \<Rightarrow> (Inr ActionOutcome.INVALID_SEQUENCE, c)
     | Some st \<Rightarrow>
       if d_outcome d \<noteq> ActionOutcome.ACCEPTED then (Inr ActionOutcome.INVALID_SEQUENCE, c)
       else case resolve (ct_registry c) (step_action st) of
         Inl KeyError \<Rightarrow>
           (Inr ActionOutcome.REGISTRY_MISMATCH, c\<lparr>ct_runner := runner_reset (ct_runner c)\<rparr>)
       | Inl err \<Rightarrow> (Inl err, c)
       | Inr b \<Rightarrow>
         (let (gen, c1) = allocate_generation c in
          with_res (mk_PlaybackRequest gen (binding_track b) (step_action st) (physical_name b)
                      (step_loop st) (step_speed st)
                      (case step_mix_seconds st of None \<Rightarrow> 0 | Some m \<Rightarrow> m)) c1 (\<lambda>pr.
          case try_play P pr c1 of
            (None, c2) \<Rightarrow> (case contain_failed_play P c2 of (oc, c3) \<Rightarrow> (Inr oc, c3))
          | (Some epoch, c2) \<Rightarrow>
              sbind (arm_after_successful_play now st
                       (c2\<lparr>ct_active_request := Some request,
                           ct_state := \<lparr>desired_action = Some (step_action st),
                                        confirmed_epoch = Some epoch,
                                        health = PlaybackHealth.HEALTHY\<rparr>\<rparr>))
                (\<lambda>_ c3. (Inr ActionOutcome.ACCEPTED, c3)))))"

definition play ::
    "'p AnimationPlayer \<Rightarrow> real \<Rightarrow> ActionRequest \<Rightarrow> 'p PetTrack0Controller
      \<Rightarrow> (ActionOutcome, 'p PetTrack0Controller) sres" where
  "play P now request c =
    (if ct_active_request c \<noteq> None then (Inr ActionOutcome.REJECTED_PRIORITY, c)
     else with_res (preflight P request c) c (\<lambda>pf.
     if pf_outcome pf \<noteq> ActionOutcome.ACCEPTED then (Inr (pf_outcome pf), c)
     else case pf_entry pf of
            None \<Rightarrow> (Inr ActionOutcome.INVALID_SEQUENCE, c)
          | Some e \<Rightarrow>
              (case runner_start (entry_sequence e) (ct_runner c) of
                 (Inl err, r') \<Rightarrow> (Inl err, c\<lparr>ct_runner := r'\<rparr>)
               | (Inr d, r') \<Rightarrow> play_directive P now request d (c\<lparr>ct_runner := r'\<rparr>))))"

definition cancel_graceful ::
    "real \<Rightarrow> 'p PetTrack0Controller \<Rightarrow> (ActionOutcome, 'p PetTrack0Controller) sres" where
  "cancel_graceful now c =
    (let (oc, r') = request_graceful_exit (ct_runner c); c1 = c\<lparr>ct_runner := r'\<rparr>
     in if oc = ActionOutcome.ACCEPTED
        then sbind (arm_current_loop_boundary_watchdog now c1) (\<lambda>_ c2. (Inr oc, c2))
        else (Inr oc, c1))"

definition cancel_replace ::
    "'p AnimationPlayer \<Rightarrow> real \<Rightarrow> ActionRequest option \<Rightarrow> 'p PetTrack0Controller
      \<Rightarrow> (ActionOutcome, 'p PetTrack0Controller) sres" where
  "cancel_replace P now replacement c =
    (case replacement of
       None \<Rightarrow> (Inr ActionOutcome.INVALID_SEQUENCE, c)
     | Some req \<Rightarrow>
         with_res (preflight P req c) c (\<lambda>pf.
         if pf_outcome pf \<noteq> ActionOutcome.ACCEPTED then (Inr (pf_outcome pf), c)
         else play P now req
                (drop_playback (health (ct_state c)) (c\<lparr>ct_watchdog_deadline := None\<rparr>))))"

fun cancel ::
    "'p AnimationPlayer \<Rightarrow> real \<Rightarrow> CancelReason \<Rightarrow> CancellationMode \<Rightarrow> ActionRequest option
      \<Rightarrow> 'p PetTrack0Controller \<Rightarrow> (ActionOutcome, 'p PetTrack0Controller) sres" where
  "cancel P now reason CancellationMode.GRACEFUL_EXIT replacement c = cancel_graceful now c"
| "cancel P now reason CancellationMode.IMMEDIATE_CLEAR replacement c =
     (case clear P reason c of (oc, c') \<Rightarrow> (Inr oc, c'))"
| "cancel P now reason CancellationMode.REPLACE replacement c = cancel_replace P now replacement c"

definition adopt_active_playback ::
    "'p AnimationPlayer \<Rightarrow> ActionRequest \<Rightarrow> 'p PetTrack0Controller
      \<Rightarrow> (ActionOutcome, 'p PetTrack0Controller) sres" where
  "adopt_active_playback P request c =
    with_res (preflight P request c) c (\<lambda>pf.
    if pf_outcome pf \<noteq> ActionOutcome.ACCEPTED then (Inr (pf_outcome pf), c)
    else case (ct_active_request c, pf_entry pf, confirmed_epoch (ct_state c),
               rn_sequence (ct_runner c), rn_current_index (ct_runner c)) of
      (Some _, Some e, Some confirmed, Some s, Some i) \<Rightarrow>
        if length (seq_steps (entry_sequence e)) \<noteq> 1
        then (Inr ActionOutcome.REJECTED_INCOMPATIBLE_STATE, c)
        else with_res (py_index (seq_steps s) i) c (\<lambda>cur.
             with_res (py_index (seq_steps (entry_sequence e)) 0) c (\<lambda>adopted.
             case resolve (ct_registry c) (step_action adopted) of
               Inl KeyError \<Rightarrow> (Inr ActionOutcome.REGISTRY_MISMATCH, c)
             | Inl err \<Rightarrow> (Inl err, c)
             | Inr b \<Rightarrow>
                 if step_action cur \<noteq> step_action adopted \<or> step_loop cur \<noteq> step_loop adopted
                    \<or> ce_logical_action confirmed \<noteq> step_action adopted
                    \<or> ce_physical_name confirmed \<noteq> physical_name b
                 then (Inr ActionOutcome.REJECTED_INCOMPATIBLE_STATE, c)
                 else (Inr ActionOutcome.ACCEPTED, c\<lparr>ct_active_request := Some request\<rparr>)))
    | _ \<Rightarrow> (Inr ActionOutcome.REJECTED_INCOMPATIBLE_STATE, c))"

definition finish_terminal :: "SequenceTerminal option \<Rightarrow> 'p PetTrack0Controller \<Rightarrow> 'p PetTrack0Controller" where
  "finish_terminal t c =
    (let c1 = c\<lparr>ct_watchdog_deadline := None\<rparr>
     in if t \<in> {Some SequenceTerminal.COMPLETE, Some SequenceTerminal.IDLE}
        then c1\<lparr>ct_active_request := None, ct_state := idle_playback PlaybackHealth.HEALTHY\<rparr>
        else c1)"

definition handle_completion ::
    "'p AnimationPlayer \<Rightarrow> real \<Rightarrow> PlaybackEvent \<Rightarrow> ActionRequest option \<Rightarrow> 'p PetTrack0Controller
      \<Rightarrow> (ActionOutcome, 'p PetTrack0Controller) sres" where
  "handle_completion P now ev continuation_request c =
    (case runner_handle_completion ev (ct_runner c) of
       (Inl err, r') \<Rightarrow> (Inl err, c\<lparr>ct_runner := r'\<rparr>)
     | (Inr None, r') \<Rightarrow> (Inr ActionOutcome.ACCEPTED, c\<lparr>ct_runner := r'\<rparr>)
     | (Inr (Some d), r') \<Rightarrow>
         let c1 = c\<lparr>ct_runner := r'\<rparr> in
         if d_outcome d \<noteq> ActionOutcome.ACCEPTED then (Inr (d_outcome d), c1)
         else if d_step d = None then (Inr ActionOutcome.ACCEPTED, finish_terminal (d_terminal d) c1)
         else case (case continuation_request of Some q \<Rightarrow> Some q | None \<Rightarrow> ct_active_request c1) of
                None \<Rightarrow> (Inr ActionOutcome.INVALID_SEQUENCE, c1)
              | Some q \<Rightarrow> play_directive P now q d c1)"

definition poll_watchdog ::
    "'p AnimationPlayer \<Rightarrow> real \<Rightarrow> 'p PetTrack0Controller
      \<Rightarrow> ActionOutcome option \<times> 'p PetTrack0Controller" where
  "poll_watchdog P now c =
    (case ct_watchdog_deadline c of
       None \<Rightarrow> (None, c)
     | Some dl \<Rightarrow>
         if now < dl then (None, c)
         else let c1 = snd (allocate_generation (c\<lparr>ct_watchdog_deadline := None\<rparr>));
                  (ok, c2) = try_clear P c1
              in (Some ActionOutcome.CALLBACK_TIMEOUT,
                  drop_playback (if ok then PlaybackHealth.DEGRADED else PlaybackHealth.UNKNOWN) c2))"

section \<open>Invariant\<close>

definition policy_ok :: "WatchdogPolicy \<Rightarrow> bool" where
  "policy_ok w \<longleftrightarrow> 0 \<le> tolerance_ratio w \<and> 0 \<le> minimum_tolerance_seconds w \<and>
     minimum_tolerance_seconds w \<le> maximum_tolerance_seconds w"

text \<open>What \<^verbatim>\<open>AnimationBinding\<close> validates about every binding of a registry.\<close>

definition bindings_ok :: "AnimationRegistry \<Rightarrow> bool" where
  "bindings_ok reg \<longleftrightarrow> (\<forall>a b. reg a = Some b \<longrightarrow> physical_name b \<noteq> [] \<and>
     (\<forall>d. source_duration_seconds b = Some d \<longrightarrow> 0 < d))"

definition static_ok :: "'p PetTrack0Controller \<Rightarrow> bool" where
  "static_ok c \<longleftrightarrow> registry_ok (ct_registry c) \<and> bindings_ok (ct_registry c) \<and>
     policy_ok (ct_watchdog_policy c) \<and> 0 \<le> ct_generation c"

text \<open>A sequence the preflight check let through: each step has a source duration.\<close>

definition timed :: "AnimationRegistry \<Rightarrow> PetActionSequence \<Rightarrow> bool" where
  "timed reg s \<longleftrightarrow> seq_wf s \<and> (\<forall>st \<in> set (seq_steps s). step_wf st \<and>
     (\<exists>b d. reg (step_action st) = Some b \<and> source_duration_seconds b = Some d))"

definition playing_at :: "PetActionSequence \<Rightarrow> int \<Rightarrow> ConfirmedPlaybackEpoch \<Rightarrow> 'p PetTrack0Controller \<Rightarrow> bool" where
  "playing_at s i e c \<longleftrightarrow> runner_at s i (ct_runner c) \<and> timed (ct_registry c) s \<and>
     rn_confirmed_epoch (ct_runner c) = Some e"

definition ctrl_inv :: "'p PetTrack0Controller \<Rightarrow> bool" where
  "ctrl_inv c \<longleftrightarrow> static_ok c \<and>
     (case ct_active_request c of
        None \<Rightarrow> ct_runner c = new_runner \<and> desired_action (ct_state c) = None \<and>
          confirmed_epoch (ct_state c) = None \<and> ct_watchdog_deadline c = None
      | Some _ \<Rightarrow> \<exists>e. confirmed_epoch (ct_state c) = Some e \<and> ce_generation e = ct_generation c \<and>
          epoch_ok e \<and> desired_action (ct_state c) = Some (ce_logical_action e) \<and>
          health (ct_state c) = PlaybackHealth.HEALTHY \<and>
          (ct_runner c = new_runner \<and> ct_watchdog_deadline c = None \<or>
           (\<exists>s i. playing_at s i e c)))"

lemma ctrl_inv_static: "ctrl_inv c \<Longrightarrow> static_ok c"
  by (simp add: ctrl_inv_def)

lemma ctrl_inv_runner: "ctrl_inv c \<Longrightarrow> runner_inv (ct_runner c)"
  by (auto simp: ctrl_inv_def runner_inv_def runner_idle_iff playing_at_def split: option.splits)

lemma new_controller_inv:
  "registry_ok reg \<Longrightarrow> bindings_ok reg \<Longrightarrow> policy_ok w \<Longrightarrow> ctrl_inv (new_controller p reg new_runner w)"
  by (simp add: ctrl_inv_def static_ok_def new_controller_def)

lemma mk_WatchdogPolicy_iff:
  "mk_WatchdogPolicy r mn mx = Inr w \<longleftrightarrow>
     w = \<lparr>tolerance_ratio = r, minimum_tolerance_seconds = mn, maximum_tolerance_seconds = mx\<rparr> \<and> policy_ok w"
  by (auto simp: mk_WatchdogPolicy_def policy_ok_def)

lemma deadline_eq:
  "0 < d \<Longrightarrow> 0 < sp \<Longrightarrow> deadline w t d sp = Inr (t + d / sp +
     min (maximum_tolerance_seconds w)
       (max (minimum_tolerance_seconds w) (tolerance_ratio w * (d / sp))))"
  by (simp add: deadline_def Let_def)

lemma timed_step:
  assumes "timed reg s" and "in_steps (seq_steps s) i"
  obtains b d where "reg (step_action (seq_steps s ! nat i)) = Some b"
    and "source_duration_seconds b = Some d" and "step_wf (seq_steps s ! nat i)"
proof -
  have "seq_steps s ! nat i \<in> set (seq_steps s)"
    using assms(2) by (auto simp: in_steps_def intro!: nth_mem)
  with assms(1) that show thesis unfolding timed_def by blast
qed

lemma deadline_for_step_ok:
  assumes "static_ok c" and "timed (ct_registry c) s" and "in_steps (seq_steps s) i"
  obtains t where "deadline_for_step now (seq_steps s ! nat i) c = Inr t" and "now < t"
proof -
  obtain b d where b: "ct_registry c (step_action (seq_steps s ! nat i)) = Some b"
      "source_duration_seconds b = Some d" "step_wf (seq_steps s ! nat i)"
    by (rule timed_step [OF assms(2,3)])
  then have pos: "0 < d" "0 < step_speed (seq_steps s ! nat i)"
    using assms(1) by (auto simp: static_ok_def bindings_ok_def step_wf_def)
  have "0 \<le> min (maximum_tolerance_seconds (ct_watchdog_policy c))
      (max (minimum_tolerance_seconds (ct_watchdog_policy c)) x)" for x
    using assms(1) by (auto simp: static_ok_def policy_ok_def le_max_iff_disj)
  moreover have "0 < d / step_speed (seq_steps s ! nat i)" using pos by simp
  ultimately show thesis
    using pos b by (intro that)
      (auto simp: deadline_for_step_def resolve_def deadline_eq add_pos_nonneg add.assoc)
qed

lemma preflight_cases:
  assumes "static_ok c"
  obtains (accepted) e where "preflight P q c = Inr \<lparr>pf_outcome = ActionOutcome.ACCEPTED, pf_entry = Some e\<rparr>"
      and "SEQUENCE_CATALOG (sequence_name q) = Some e" and "timed (ct_registry c) (entry_sequence e)"
  | (refused) oc where "preflight P q c = Inr \<lparr>pf_outcome = oc, pf_entry = None\<rparr>"
      and "oc \<noteq> ActionOutcome.ACCEPTED"
proof -
  obtain e where e: "SEQUENCE_CATALOG (sequence_name q) = Some e" using SEQUENCE_CATALOG_total by blast
  have wf: "entry_wf e" by (rule SEQUENCE_CATALOG_wf [OF e])
  have reg: "registry_ok (ct_registry c)" using assms by (simp add: static_ok_def)
  note any = any_step_registry_ok [OF reg]
  have "timed (ct_registry c) (entry_sequence e)"
    if "\<forall>st \<in> set (seq_steps (entry_sequence e)). \<forall>b. ct_registry c (step_action st) = Some b
        \<longrightarrow> source_duration_seconds b \<noteq> None"
    using that wf reg unfolding timed_def entry_wf_def registry_ok_def list_all_iff by (meson not_None_eq)
  then show thesis
    using e accepted refused
    by (fastforce simp: preflight_def validate_sequence_def validate_track_sequence_def any raise_if_def
        split: if_splits)
qed

section \<open>Each operation returns and keeps the invariant\<close>

text \<open>
  The abstraction of a controller: the generation counter, who owns the track, and the
  generation of the playback it waits for. \<open>slot_step\<close> is all an operation may do to it.
\<close>

record slot =
  slot_generation :: int
  slot_owner :: "ActionRequest option"
  slot_epoch :: "int option"

definition slot_of :: "'p PetTrack0Controller \<Rightarrow> slot" where
  "slot_of c =
    \<lparr>slot_generation = ct_generation c, slot_owner = ct_active_request c,
     slot_epoch = map_option ce_generation (confirmed_epoch (ct_state c))\<rparr>"

inductive slot_step :: "slot \<Rightarrow> slot \<Rightarrow> bool" where
  keep: "slot_step s s"
| adopt: "slot_owner s = Some q \<Longrightarrow> slot_step s (s\<lparr>slot_owner := Some q'\<rparr>)"
| start: "slot_generation s < g \<Longrightarrow>
    slot_step s \<lparr>slot_generation = g, slot_owner = Some q, slot_epoch = Some g\<rparr>"
| release: "slot_generation s \<le> g \<Longrightarrow>
    slot_step s \<lparr>slot_generation = g, slot_owner = None, slot_epoch = None\<rparr>"

inductive_cases slot_stepE: "slot_step s s'"

text \<open>The contract of one operation: it returns, keeps the invariant, and is a slot step.\<close>

definition good_result ::
    "'p PetTrack0Controller \<Rightarrow> (ActionOutcome, 'p PetTrack0Controller) sres \<Rightarrow> bool" where
  "good_result c res \<longleftrightarrow>
     (\<exists>oc c'. res = (Inr oc, c') \<and> ctrl_inv c' \<and> slot_step (slot_of c) (slot_of c'))"

lemma good_unchanged: "ctrl_inv c \<Longrightarrow> good_result c (Inr oc, c)"
  by (auto simp: good_result_def intro: slot_step.keep)

lemma dropped_inv:
  assumes "static_ok c" and "ct_generation c \<le> g"
  shows "ctrl_inv (drop_playback h (c\<lparr>ct_watchdog_deadline := None, ct_generation := g, ct_player := p\<rparr>))"
    and "slot_step (slot_of c)
      (slot_of (drop_playback h (c\<lparr>ct_watchdog_deadline := None, ct_generation := g, ct_player := p\<rparr>)))"
  using assms by (auto simp: ctrl_inv_def static_ok_def drop_playback_def slot_of_def
      intro!: slot_step.release)

text \<open>Five operations end in the same way: invalidate, clear the player, drop the playback.\<close>

lemma try_clear_eq:
  "try_clear P (snd (allocate_generation (c\<lparr>ct_watchdog_deadline := None\<rparr>))) =
     (is_ok (fst (player_clear P 0 0 (ct_player c))),
      c\<lparr>ct_watchdog_deadline := None, ct_generation := ct_generation c + 1,
        ct_player := snd (player_clear P 0 0 (ct_player c))\<rparr>)"
  by (simp add: try_clear_def allocate_generation_def case_prod_beta)

lemma good_dropped:
  assumes "static_ok c"
  shows "good_result c (Inr oc, drop_playback h (c\<lparr>ct_watchdog_deadline := None,
      ct_generation := ct_generation c + 1, ct_player := p\<rparr>))"
  using dropped_inv [OF assms, of "ct_generation c + 1"] by (auto simp: good_result_def)

lemma contain_good:
  assumes "static_ok c"
  shows "good_result c (apfst Inr (contain_failed_play P c))"
    and "good_result c (apfst Inr (contain_preflight_failure P reason c))"
    and "good_result c (apfst Inr (clear P reason c))"
  using good_dropped [OF assms]
  by (simp_all add: contain_failed_play_def contain_preflight_failure_def clear_def try_clear_eq Let_def)

text \<open>
  Playing a step: the runner is at the step, and the old owner no longer matters. Either the
  player confirmed the step under a fresh generation, or the failure was contained.
\<close>

definition ready_at :: "PetActionSequence \<Rightarrow> int \<Rightarrow> 'p PetTrack0Controller \<Rightarrow> bool" where
  "ready_at s i c \<longleftrightarrow> static_ok c \<and> runner_at s i (ct_runner c) \<and> timed (ct_registry c) s"

definition started ::
    "real \<Rightarrow> PetActionSequence \<Rightarrow> int \<Rightarrow> ActionRequest \<Rightarrow> 'p PetTrack0Controller
      \<Rightarrow> 'p PetTrack0Controller \<Rightarrow> bool" where
  "started now s i q c c' \<longleftrightarrow> ctrl_inv c' \<and> ct_generation c' = ct_generation c + 1 \<and>
     ct_active_request c' = Some q \<and> (\<exists>e. playing_at s i e c') \<and>
     (if step_loop (seq_steps s ! nat i) then ct_watchdog_deadline c' = None
      else \<exists>t. deadline_for_step now (seq_steps s ! nat i) c = Inr t \<and> ct_watchdog_deadline c' = Some t)"

lemma deadline_for_step_static:
  "ct_registry c' = ct_registry c \<Longrightarrow> ct_watchdog_policy c' = ct_watchdog_policy c \<Longrightarrow>
    deadline_for_step now st c' = deadline_for_step now st c"
  by (simp add: deadline_for_step_def cong: option.case_cong)

lemma mk_PlaybackRequest_step:
  assumes "static_ok c" and "step_wf st" and "ct_registry c (step_action st) = Some b"
  shows "\<exists>pr. mk_PlaybackRequest (ct_generation c + 1) (binding_track b) (step_action st)
      (physical_name b) (step_loop st) (step_speed st)
      (case step_mix_seconds st of None \<Rightarrow> 0 | Some m \<Rightarrow> m) = Inr pr \<and>
    pr_generation pr = ct_generation c + 1 \<and> pr_logical_action pr = step_action st \<and>
    pr_physical_name pr = physical_name b \<and> physical_name b \<noteq> []"
proof -
  have "binding_track b \<in> {0, 1, 2}"
    using assms(1,3) expected_track_cases by (auto simp: static_ok_def registry_ok_def)
  moreover have "physical_name b \<noteq> []"
    using assms(1,3) by (auto simp: static_ok_def bindings_ok_def)
  ultimately show ?thesis
    using assms(1,2)
    by (auto simp: mk_PlaybackRequest_def static_ok_def step_wf_def split: option.splits)
qed

lemma playing_started:
  fixes tok :: token and p :: 'p and q :: ActionRequest and c :: "'p PetTrack0Controller"
  assumes "ready_at s i c" and "physical_name b \<noteq> []"
    and "st = seq_steps s ! nat i"
  defines "e \<equiv> \<lparr>ce_generation = ct_generation c + 1, ce_logical_action = step_action st,
     ce_physical_name = physical_name b, ce_playback_token = tok\<rparr>"
  defines "c2 \<equiv> c\<lparr>ct_generation := ct_generation c + 1, ct_player := p,
     ct_runner := (ct_runner c)\<lparr>rn_confirmed_epoch := Some e\<rparr>,
     ct_active_request := Some q, ct_state := \<lparr>desired_action = Some (step_action st),
       confirmed_epoch = Some e, health = PlaybackHealth.HEALTHY\<rparr>\<rparr>"
  shows "\<exists>c'. arm_after_successful_play now st c2 = (Inr (), c') \<and> started now s i q c c' \<and>
    slot_step (slot_of c) (slot_of c') \<and> ct_player c' = p \<and> ct_runner c' = ct_runner c2"
proof -
  have c: "static_ok c" "runner_at s i (ct_runner c)" "timed (ct_registry c) s"
    using assms(1) by (simp_all add: ready_at_def)
  have "0 \<le> ct_generation c + 1" using c(1) by (simp add: static_ok_def)
  from accept_at(2) [OF c(2) assms(3) [symmetric, THEN arg_cong, of step_action] this assms(2), of tok]
  have at: "runner_at s i ((ct_runner c)\<lparr>rn_confirmed_epoch := Some e\<rparr>)" by (simp add: e_def)
  have st2: "static_ok c2" and t2: "timed (ct_registry c2) s"
    using c by (simp_all add: c2_def static_ok_def)
  have in_s: "in_steps (seq_steps s) i" using c(2) by (simp add: runner_at_def)
  obtain t where t: "deadline_for_step now st c2 = Inr t"
    using deadline_for_step_ok [OF st2 t2 in_s] assms(3) by metis
  have "deadline_for_step now st c2 = deadline_for_step now st c"
    by (rule deadline_for_step_static) (simp_all add: c2_def)
  with t have t0: "deadline_for_step now st c = Inr t" by simp
  have "playing_at s i e (c2\<lparr>ct_watchdog_deadline := dl\<rparr>)" for dl
    using at c(3) by (simp add: playing_at_def c2_def)
  then have inv2: "ctrl_inv (c2\<lparr>ct_watchdog_deadline := dl\<rparr>)"
      "\<exists>e. playing_at s i e (c2\<lparr>ct_watchdog_deadline := dl\<rparr>)" for dl
    using st2 assms(2) by (auto simp: ctrl_inv_def static_ok_def c2_def e_def epoch_ok_def)
  moreover have "slot_step (slot_of c) (slot_of (c2\<lparr>ct_watchdog_deadline := dl\<rparr>))" for dl
    by (auto simp: slot_of_def c2_def e_def intro: slot_step.start)
  ultimately show ?thesis
    using inv2 assms(3) t t0 by (auto simp: arm_after_successful_play_def started_def c2_def)
qed

lemma play_directive_result:
  assumes "ready_at s i c"
  shows "(\<exists>c'. play_directive P now q (play_step s i) c = (Inr ActionOutcome.ACCEPTED, c') \<and>
      started now s i q c c' \<and> slot_step (slot_of c) (slot_of c') \<and>
      rn_pending_graceful_exit (ct_runner c') = rn_pending_graceful_exit (ct_runner c)) \<or>
    (\<exists>oc c'. play_directive P now q (play_step s i) c = (Inr oc, c') \<and>
      oc \<in> {ActionOutcome.PLAYBACK_DEGRADED, ActionOutcome.RENDERER_STATE_UNKNOWN} \<and>
      ctrl_inv c' \<and> ct_active_request c' = None \<and> slot_step (slot_of c) (slot_of c') \<and>
      health (ct_state c') \<noteq> PlaybackHealth.HEALTHY \<and>
      (\<exists>pr err p'. player_play P pr (ct_player c) = (Inl err, p')))"
proof -
  let ?st = "seq_steps s ! nat i"
  have c: "static_ok c" "runner_at s i (ct_runner c)" "timed (ct_registry c) s"
    using assms by (simp_all add: ready_at_def)
  have in_s: "in_steps (seq_steps s) i" using c(2) by (simp add: runner_at_def)
  obtain b where b: "ct_registry c (step_action ?st) = Some b" and wf: "step_wf ?st"
    by (rule timed_step [OF c(3) in_s])
  obtain pr where pr: "mk_PlaybackRequest (ct_generation c + 1) (binding_track b) (step_action ?st)
      (physical_name b) (step_loop ?st) (step_speed ?st)
      (case step_mix_seconds ?st of None \<Rightarrow> 0 | Some m \<Rightarrow> m) = Inr pr"
      "pr_generation pr = ct_generation c + 1" "pr_logical_action pr = step_action ?st"
      "pr_physical_name pr = physical_name b" "physical_name b \<noteq> []"
    using mk_PlaybackRequest_step [OF c(1) wf b] by blast
  have gen: "0 \<le> ct_generation c + 1" using c(1) by (simp add: static_ok_def)
  show ?thesis
  proof (cases "player_play P pr (ct_player c)")
    case (Pair res p')
    show ?thesis
    proof (cases res)
      case (Inl err)
      let ?c2 = "c\<lparr>ct_generation := ct_generation c + 1, ct_player := p'\<rparr>"
      have "static_ok ?c2" using c(1) by (simp add: static_ok_def)
      obtain oc c' where cf: "contain_failed_play P ?c2 = (oc, c')" by fastforce
      have "oc \<in> {ActionOutcome.PLAYBACK_DEGRADED, ActionOutcome.RENDERER_STATE_UNKNOWN} \<and>
          ctrl_inv c' \<and> ct_active_request c' = None \<and> slot_step (slot_of c) (slot_of c') \<and>
          health (ct_state c') \<noteq> PlaybackHealth.HEALTHY"
        using cf c(1) by (auto simp: contain_failed_play_def try_clear_eq Let_def drop_playback_def
            ctrl_inv_def static_ok_def slot_of_def split: if_splits intro!: slot_step.release)
      moreover have "play_directive P now q (play_step s i) c = (Inr oc, c')"
        using b pr Pair Inl cf
        by (simp add: play_directive_def resolve_def allocate_generation_def try_play_def)
      moreover have "\<exists>pr err p'. player_play P pr (ct_player c) = (Inl err, p')" using Pair Inl by blast
      ultimately show ?thesis by blast
    next
      case (Inr tok)
      note acc = accept_at(1) [OF c(2) refl gen pr(5), of tok]
      from playing_started [OF assms pr(5) refl, where tok = tok and p = p' and q = q and now = now]
      show ?thesis
        using b pr Pair Inr acc
        by (auto simp: play_directive_def resolve_def allocate_generation_def try_play_def)
    qed
  qed
qed

lemma play_directive_good:
  "ready_at s i c \<Longrightarrow> good_result c (play_directive P now q (play_step s i) c)"
  using play_directive_result [of s i c P now q] by (auto simp: good_result_def started_def)

lemma good_from_runner: "good_result (c\<lparr>ct_runner := r\<rparr>) res = good_result c res"
  by (simp add: good_result_def slot_of_def)

lemma play_good:
  assumes "ctrl_inv c"
  shows "good_result c (play P now q c)"
proof (cases "ct_active_request c")
  case None
  note st = ctrl_inv_static [OF assms]
  from st show ?thesis
  proof (cases rule: preflight_cases [where P = P and q = q])
    case (accepted e)
    then have "seq_wf (entry_sequence e)" by (simp add: timed_def)
    then obtain r' where r': "runner_start (entry_sequence e) (ct_runner c)
        = (Inr (play_step (entry_sequence e) 0), r')" "runner_at (entry_sequence e) 0 r'"
      using track0_runner.start by blast
    then have "ready_at (entry_sequence e) 0 (c\<lparr>ct_runner := r'\<rparr>)"
      using st accepted(3) by (simp add: ready_at_def static_ok_def)
    from play_directive_good [OF this] show ?thesis
      using None accepted(1) r'(1) by (simp add: play_def good_from_runner)
  next
    case (refused oc)
    with None good_unchanged [OF assms] show ?thesis by (simp add: play_def)
  qed
qed (simp add: play_def good_unchanged [OF assms])

lemma slot_step_after_release:
  assumes "slot_step \<lparr>slot_generation = g, slot_owner = None, slot_epoch = None\<rparr> s'"
    and "slot_generation s \<le> g"
  shows "slot_step s s'"
  using assms by (cases rule: slot_step.cases) (auto intro!: slot_step.start slot_step.release)

lemma cancel_replace_good:
  assumes "ctrl_inv c"
  shows "good_result c (cancel_replace P now rep c)"
proof (cases rep)
  case (Some q)
  note st = ctrl_inv_static [OF assms]
  let ?c1 = "drop_playback (health (ct_state c)) (c\<lparr>ct_watchdog_deadline := None\<rparr>)"
  have inv1: "ctrl_inv ?c1" using st by (simp add: ctrl_inv_def static_ok_def drop_playback_def)
  have good: "good_result c (play P now q ?c1)"
    using play_good [OF inv1, of P now q]
    by (auto simp: good_result_def slot_of_def drop_playback_def elim!: slot_step_after_release)
  show ?thesis
    by (rule preflight_cases [OF st, of P q])
      (use good good_unchanged [OF assms] in \<open>simp_all add: cancel_replace_def Some\<close>)
qed (simp add: cancel_replace_def good_unchanged [OF assms])

lemma adopt_good:
  assumes "ctrl_inv c"
  shows "good_result c (adopt_active_playback P q c)"
proof -
  note st = ctrl_inv_static [OF assms]
  have adopted: "good_result c (Inr oc, c\<lparr>ct_active_request := Some q\<rparr>)"
    if "ct_active_request c = Some a" for oc a
    using assms that slot_step.adopt [of "slot_of c" a q]
    by (auto simp: good_result_def ctrl_inv_def static_ok_def slot_of_def playing_at_def)
  from st show ?thesis
  proof (cases rule: preflight_cases [where P = P and q = q])
    case (accepted e)
    have res: "\<exists>b. resolve (ct_registry c) a = Inr b" for a
      using st resolve_ok by (auto simp: static_ok_def)
    have at: "py_index (seq_steps s) i = Inr (seq_steps s ! nat i)"
      if "rn_sequence (ct_runner c) = Some s" "rn_current_index (ct_runner c) = Some i" for s i
      using ctrl_inv_runner [OF assms] that
      by (auto simp: runner_inv_def runner_idle_def runner_at_def in_steps_def)
    show ?thesis
    proof (cases "\<exists>a co s i. ct_active_request c = Some a \<and> confirmed_epoch (ct_state c) = Some co \<and>
        rn_sequence (ct_runner c) = Some s \<and> rn_current_index (ct_runner c) = Some i \<and>
        length (seq_steps (entry_sequence e)) = 1")
      case True
      then obtain a co s i where h: "ct_active_request c = Some a" "confirmed_epoch (ct_state c) = Some co"
          "rn_sequence (ct_runner c) = Some s" "rn_current_index (ct_runner c) = Some i"
          "length (seq_steps (entry_sequence e)) = 1" by blast
      then show ?thesis
        using accepted(1) at [OF h(3,4)] res [of "step_action (seq_steps (entry_sequence e) ! 0)"]
          good_unchanged [OF assms] adopted [OF h(1)]
        by (auto simp: adopt_active_playback_def)
    next
      case False
      then show ?thesis
        using accepted(1) good_unchanged [OF assms]
        by (auto simp: adopt_active_playback_def split: option.splits)
    qed
  next
    case (refused oc)
    with good_unchanged [OF assms] show ?thesis by (simp add: adopt_active_playback_def)
  qed
qed

lemma cancel_graceful_good:
  assumes "ctrl_inv c"
  shows "good_result c (cancel_graceful now c)"
proof (cases "ct_runner c = new_runner")
  case True
  then have same: "c\<lparr>ct_runner := new_runner\<rparr> = c" by (cases c) simp
  show ?thesis using good_unchanged [OF assms] by (simp add: cancel_graceful_def True same)
next
  case False
  with assms obtain s i e q where q: "ct_active_request c = Some q" and e: "playing_at s i e c"
      "confirmed_epoch (ct_state c) = Some e" "ce_generation e = ct_generation c" "epoch_ok e"
      "desired_action (ct_state c) = Some (ce_logical_action e)"
      "health (ct_state c) = PlaybackHealth.HEALTHY" and st: "static_ok c"
    by (auto simp: ctrl_inv_def split: option.splits)
  have at: "runner_at s i (ct_runner c)" and tm: "timed (ct_registry c) s"
      and conf: "rn_confirmed_epoch (ct_runner c) = Some e"
    using e(1) by (simp_all add: playing_at_def)
  obtain oc r' where ex: "request_graceful_exit (ct_runner c) = (oc, r')" by fastforce
  show ?thesis
  proof (cases "oc = ActionOutcome.ACCEPTED")
    case True
    note r' = graceful_exit_at(1,4) [OF at ex]
    let ?c1 = "c\<lparr>ct_runner := r'\<rparr>"
    have "playing_at s i e (?c1\<lparr>ct_watchdog_deadline := dl\<rparr>)" for dl
      using r'(1) r'(2) [OF True] tm conf by (simp add: playing_at_def)
    then have inv: "ctrl_inv (?c1\<lparr>ct_watchdog_deadline := dl\<rparr>)" for dl
      using q e st by (auto simp: ctrl_inv_def static_ok_def)
    have slot: "slot_of (?c1\<lparr>ct_watchdog_deadline := dl\<rparr>) = slot_of c" for dl
      by (simp add: slot_of_def)
    have "static_ok ?c1" "timed (ct_registry ?c1) s" "in_steps (seq_steps s) i"
      using st tm at by (simp_all add: static_ok_def runner_at_def)
    then obtain t where "deadline_for_step now (seq_steps s ! nat i) ?c1 = Inr t"
      by (rule deadline_for_step_ok)
    moreover have "rn_sequence r' = Some s" "rn_current_index r' = Some i"
        "py_index (seq_steps s) i = Inr (seq_steps s ! nat i)"
      using r'(1) by (simp_all add: runner_at_def in_steps_def)
    ultimately show ?thesis
      using inv slot ex True
      by (auto simp: cancel_graceful_def arm_current_loop_boundary_watchdog_def good_result_def
          slot_step.keep Let_def)
  next
    case False
    then have "r' = ct_runner c" by (rule graceful_exit_at(3) [OF at ex])
    then have same: "c\<lparr>ct_runner := r'\<rparr> = c" by (cases c) simp
    show ?thesis using good_unchanged [OF assms] False by (simp add: cancel_graceful_def ex same)
  qed
qed

lemma cancel_good: "ctrl_inv c \<Longrightarrow> good_result c (cancel P now reason md rep c)"
  using contain_good(3) [of c P reason] cancel_replace_good cancel_graceful_good
  by (cases md) (auto simp: ctrl_inv_static case_prod_beta apfst_def map_prod_def)

lemma finish_terminal_good:
  assumes "ctrl_inv c" and "runner_at s i (ct_runner c)"
  shows "good_result c (Inr oc, finish_terminal t (c\<lparr>ct_runner := new_runner\<rparr>))"
proof -
  have ne: "ct_runner c \<noteq> new_runner" using assms(2) by (auto simp: runner_at_def new_runner_def)
  with assms(1) have "ctrl_inv (finish_terminal t (c\<lparr>ct_runner := new_runner\<rparr>))"
    by (auto simp: ctrl_inv_def finish_terminal_def static_ok_def Let_def split: option.splits)
  moreover have "slot_step (slot_of c) (slot_of (finish_terminal t (c\<lparr>ct_runner := new_runner\<rparr>)))"
    by (auto simp: slot_of_def finish_terminal_def Let_def
        intro!: slot_step.release slot_step.keep)
  ultimately show ?thesis by (auto simp: good_result_def)
qed

lemma stale_unchanged:
  assumes "ctrl_inv c"
    and "\<forall>e. confirmed_epoch (ct_state c) = Some e \<longrightarrow> \<not> event_is_for ev e"
  shows "handle_completion P now ev cont c = (Inr ActionOutcome.STALE_COMPLETION, c)"
proof -
  have same: "c\<lparr>ct_runner := ct_runner c\<rparr> = c" by (cases c) simp
  have "runner_handle_completion ev (ct_runner c)
      = (Inr (Some (bare_directive ActionOutcome.STALE_COMPLETION)), ct_runner c)"
  proof (cases "ct_runner c = new_runner")
    case False
    with assms obtain s i e where e: "playing_at s i e c" "confirmed_epoch (ct_state c) = Some e"
      by (auto simp: ctrl_inv_def split: option.splits)
    then have "\<not> relevant ev (seq_steps s ! nat i) (ct_runner c)"
      using assms(2) by (auto simp: relevant_def playing_at_def)
    with e(1) show ?thesis by (intro completion_stale) (simp_all add: playing_at_def)
  qed simp
  then show ?thesis by (simp add: handle_completion_def same)
qed

lemma handle_completion_advance:
  "runner_handle_completion ev (ct_runner c) = (Inr (Some (play_step s j)), r') \<Longrightarrow>
    ct_active_request c = Some q \<Longrightarrow>
    handle_completion P now ev cont c =
      play_directive P now (case cont of Some q' \<Rightarrow> q' | None \<Rightarrow> q) (play_step s j) (c\<lparr>ct_runner := r'\<rparr>)"
  by (cases cont) (simp_all add: handle_completion_def Let_def)

lemma handle_completion_good:
  assumes "ctrl_inv c"
  shows "good_result c (handle_completion P now ev cont c)"
proof (cases "\<exists>s i e. playing_at s i e c \<and> relevant ev (seq_steps s ! nat i) (ct_runner c)")
  case True
  then obtain s i e where pl: "playing_at s i e c" and rel: "relevant ev (seq_steps s ! nat i) (ct_runner c)"
    by blast
  then have at: "runner_at s i (ct_runner c)" and tm: "timed (ct_registry c) s"
    by (simp_all add: playing_at_def)
  have same: "c\<lparr>ct_runner := ct_runner c\<rparr> = c" by (cases c) simp
  have st: "static_ok c" by (rule ctrl_inv_static [OF assms])
  obtain q where q: "ct_active_request c = Some q"
    using assms at by (auto simp: ctrl_inv_def runner_at_def new_runner_def split: option.splits)
  have go: "good_result c (handle_completion P now ev cont c)"
    if "runner_handle_completion ev (ct_runner c) = (Inr (Some (play_step s j)), r)" "runner_at s j r" for j r
    using that(2) st tm play_directive_good [of s j "c\<lparr>ct_runner := r\<rparr>" P now]
    by (simp add: handle_completion_advance [OF that(1) q] ready_at_def static_ok_def good_from_runner)
  show ?thesis
  proof (cases "step_loop (seq_steps s ! nat i)")
    case loop: True
    show ?thesis
    proof (cases "rn_pending_graceful_exit (ct_runner c)")
      case True
      then obtain j where j: "loop_exit_index s = Some j" using at by (auto simp: runner_at_def)
      show ?thesis by (rule go [OF completion_loop(2) [OF at rel loop True j] runner_at_exit [OF at j]])
    next
      case False
      from completion_loop(1) [OF at rel loop False] good_unchanged [OF assms] same
      show ?thesis by (simp add: handle_completion_def)
    qed
  next
    case False
    show ?thesis
    proof (cases "i + 1 < int (length (seq_steps s))")
      case True
      with completion_oneshot [OF at rel False] show ?thesis
        by (intro go [OF _ runner_at_next [OF at False]]) simp_all
    next
      case last: False
      with completion_oneshot [OF at rel False] finish_terminal_good [OF assms at] show ?thesis
        by (simp add: handle_completion_def Let_def)
    qed
  qed
next
  case False
  have same: "c\<lparr>ct_runner := ct_runner c\<rparr> = c" by (cases c) simp
  have "runner_handle_completion ev (ct_runner c)
      = (Inr (Some (bare_directive ActionOutcome.STALE_COMPLETION)), ct_runner c)"
  proof (cases "ct_runner c = new_runner")
    case nn: False
    with assms obtain s i e where e: "playing_at s i e c"
      by (auto simp: ctrl_inv_def split: option.splits)
    with False show ?thesis by (intro completion_stale) (auto simp: playing_at_def)
  qed simp
  then show ?thesis using good_unchanged [OF assms] by (simp add: handle_completion_def same)
qed

lemma poll_good:
  assumes "ctrl_inv c" and "poll_watchdog P now c = (oc, c')"
  shows "ctrl_inv c' \<and> slot_step (slot_of c) (slot_of c')"
  using assms dropped_inv [OF ctrl_inv_static [OF assms(1)], of "ct_generation c + 1"]
  by (auto simp: poll_watchdog_def try_clear_eq slot_step.keep Let_def split: option.splits if_splits)

section \<open>Runs of a controller\<close>

datatype track0_op =
    OpPlay ActionRequest
  | OpCancel CancelReason CancellationMode "ActionRequest option"
  | OpClear CancelReason
  | OpAdopt ActionRequest
  | OpContain CancelReason
  | OpCompletion PlaybackEvent "ActionRequest option"
  | OpPoll

fun track0_exec ::
    "'p AnimationPlayer \<Rightarrow> real \<Rightarrow> track0_op \<Rightarrow> 'p PetTrack0Controller
      \<Rightarrow> (ActionOutcome option, 'p PetTrack0Controller) sres" where
  "track0_exec P now (OpPlay q) c = apfst (map_sum id Some) (play P now q c)"
| "track0_exec P now (OpCancel reason md rep) c = apfst (map_sum id Some) (cancel P now reason md rep c)"
| "track0_exec P now (OpClear reason) c = apfst (Inr \<circ> Some) (clear P reason c)"
| "track0_exec P now (OpAdopt q) c = apfst (map_sum id Some) (adopt_active_playback P q c)"
| "track0_exec P now (OpContain reason) c = apfst (Inr \<circ> Some) (contain_preflight_failure P reason c)"
| "track0_exec P now (OpCompletion ev cont) c =
     apfst (map_sum id Some) (handle_completion P now ev cont c)"
| "track0_exec P now OpPoll c = apfst Inr (poll_watchdog P now c)"

definition track0_run ::
    "'p AnimationPlayer \<Rightarrow> (real \<times> track0_op) list \<Rightarrow> 'p PetTrack0Controller \<Rightarrow> 'p PetTrack0Controller" where
  "track0_run P ops c = fold (\<lambda>(now, op) c. snd (track0_exec P now op c)) ops c"

lemma good_exec:
  "good_result c res \<Longrightarrow> is_ok (fst (apfst (map_sum id Some) res)) \<and>
     ctrl_inv (snd (apfst (map_sum id Some) res)) \<and>
     slot_step (slot_of c) (slot_of (snd (apfst (map_sum id Some) res)))"
  by (auto simp: good_result_def)

lemma good_exec_total:
  "good_result c (apfst Inr res) \<Longrightarrow> ctrl_inv (snd res) \<and> slot_step (slot_of c) (slot_of (snd res))"
  by (cases res) (auto simp: good_result_def)

lemma track0_exec_good:
  assumes "ctrl_inv c"
  shows "is_ok (fst (track0_exec P now op c)) \<and> ctrl_inv (snd (track0_exec P now op c)) \<and>
    slot_step (slot_of c) (slot_of (snd (track0_exec P now op c)))"
proof (cases op)
  case OpPoll
  with poll_good [OF assms, of P now] show ?thesis by (cases "poll_watchdog P now c") auto
next
  case (OpClear reason)
  with good_exec_total [OF contain_good(3) [OF ctrl_inv_static [OF assms], of P reason]]
  show ?thesis by (simp add: apfst_def map_prod_def case_prod_beta)
next
  case (OpContain reason)
  with good_exec_total [OF contain_good(2) [OF ctrl_inv_static [OF assms], of P reason]]
  show ?thesis by (simp add: apfst_def map_prod_def case_prod_beta)
qed (use good_exec [OF play_good [OF assms]] good_exec [OF cancel_good [OF assms]]
      good_exec [OF adopt_good [OF assms]] good_exec [OF handle_completion_good [OF assms]]
     in \<open>simp_all only: track0_exec.simps\<close>)

lemma track0_run_good:
  assumes "ctrl_inv c"
  shows "ctrl_inv (track0_run P ops c) \<and> slot_step\<^sup>*\<^sup>* (slot_of c) (slot_of (track0_run P ops c))"
  using assms
proof (induction ops arbitrary: c)
  case (Cons op ops)
  note ex = track0_exec_good [OF Cons.prems, of P "fst op" "snd op"]
  let ?c = "snd (track0_exec P (fst op) (snd op) c)"
  have "track0_run P (op # ops) c = track0_run P ops ?c"
    by (simp add: track0_run_def case_prod_beta)
  with Cons.IH [of ?c] ex show ?case by (auto intro: converse_rtranclp_into_rtranclp)
qed (simp add: track0_run_def)

text \<open>A generation that has been allocated and is not the current epoch stays dead.\<close>

definition dead_generation :: "int \<Rightarrow> slot \<Rightarrow> bool" where
  "dead_generation g s \<longleftrightarrow> g \<le> slot_generation s \<and> slot_epoch s \<noteq> Some g"

lemma dead_generation_step: "slot_step s s' \<Longrightarrow> dead_generation g s \<Longrightarrow> dead_generation g s'"
  by (auto simp: dead_generation_def elim!: slot_stepE)

lemma dead_generation_run: "slot_step\<^sup>*\<^sup>* s s' \<Longrightarrow> dead_generation g s \<Longrightarrow> dead_generation g s'"
  by (induction rule: rtranclp_induct) (auto intro: dead_generation_step)

lemma slot_generation_mono: "slot_step\<^sup>*\<^sup>* s s' \<Longrightarrow> slot_generation s \<le> slot_generation s'"
  by (induction rule: rtranclp_induct) (auto elim!: slot_stepE)

section \<open>Properties\<close>

text \<open>
  C1. The controller refines the abstract Track 0 slot. From a valid controller and for every
  player, whatever its calls return or raise, every operation returns a value, leaves a valid
  controller, and changes the slot in one of four ways only: not at all, a new owner for the
  same playback, a new playback under a greater generation, or release of the track.
\<close>

theorem controller_refines_slot:
  assumes "ctrl_inv c"
  shows "is_ok (fst (track0_exec P now op c)) \<and> ctrl_inv (snd (track0_exec P now op c)) \<and>
    slot_step (slot_of c) (slot_of (snd (track0_exec P now op c)))"
  by (rule track0_exec_good [OF assms])

text \<open>
  C12. Callbacks of a playback that is over are ignored for ever. Once the generation of an event
  has been allocated and is no longer the generation the controller waits for, then after any
  further run of operations, with any player behaviour, that event is reported as stale and
  changes nothing at all.
\<close>

theorem finished_playback_never_returns:
  assumes "ctrl_inv c" and "ev_generation ev \<le> ct_generation c"
    and "\<forall>e. confirmed_epoch (ct_state c) = Some e \<longrightarrow> ce_generation e \<noteq> ev_generation ev"
  shows "handle_completion P now ev cont (track0_run P ops c)
    = (Inr ActionOutcome.STALE_COMPLETION, track0_run P ops c)"
proof -
  let ?c = "track0_run P ops c"
  have run: "ctrl_inv ?c" "slot_step\<^sup>*\<^sup>* (slot_of c) (slot_of ?c)"
    using track0_run_good [OF assms(1)] by blast+
  have "dead_generation (ev_generation ev) (slot_of c)"
    using assms(2,3) by (auto simp: dead_generation_def slot_of_def)
  from dead_generation_run [OF run(2) this]
  have "\<forall>e. confirmed_epoch (ct_state ?c) = Some e \<longrightarrow> \<not> event_is_for ev e"
    by (auto simp: dead_generation_def slot_of_def event_is_for_def)
  then show ?thesis by (rule stale_unchanged [OF run(1)])
qed

lemma play_accepted:
  assumes "ctrl_inv c" and "play P now q c = (Inr ActionOutcome.ACCEPTED, c')"
    and "SEQUENCE_CATALOG (sequence_name q) = Some e"
  shows "started now (entry_sequence e) 0 q c c' \<and> \<not> rn_pending_graceful_exit (ct_runner c')"
proof -
  have none: "ct_active_request c = None" using assms(2) by (auto simp: play_def split: if_splits)
  note st = ctrl_inv_static [OF assms(1)]
  from st show ?thesis
  proof (cases rule: preflight_cases [where P = P and q = q])
    case (accepted e')
    with assms(3) have e': "e' = e" by simp
    with accepted have "seq_wf (entry_sequence e)" by (simp add: timed_def)
    then obtain r' where r': "runner_start (entry_sequence e) (ct_runner c)
        = (Inr (play_step (entry_sequence e) 0), r')" "runner_at (entry_sequence e) 0 r'"
        "\<not> rn_pending_graceful_exit r'"
      using track0_runner.start by blast
    then have ready: "ready_at (entry_sequence e) 0 (c\<lparr>ct_runner := r'\<rparr>)"
      using st accepted(3) e' by (simp add: ready_at_def static_ok_def)
    have "play P now q c = play_directive P now q (play_step (entry_sequence e) 0) (c\<lparr>ct_runner := r'\<rparr>)"
      using none accepted(1) r'(1) e' by (simp add: play_def)
    with play_directive_result [OF ready, of P now q] assms(2) r'(3) show ?thesis
      by (auto simp: started_def deadline_for_step_static [of "c\<lparr>ct_runner := r'\<rparr>" c])
  next
    case (refused oc)
    with assms(2) none show ?thesis by (simp add: play_def)
  qed
qed

text \<open>
  C34. The watchdog bounds every wait. When a sequence whose first step plays once has been
  started, the deadline lies between the effective duration plus the minimum tolerance and
  the effective duration plus the maximum tolerance after the start; a poll before the
  deadline changes nothing, and a poll at or after it reports the timeout, invalidates the
  playback's generation and leaves an unowned, unhealthy, valid controller.
\<close>

theorem watchdog_bounds_waiting:
  assumes "ctrl_inv c" and "play P now q c = (Inr ActionOutcome.ACCEPTED, c')"
    and "SEQUENCE_CATALOG (sequence_name q) = Some e"
    and "st = seq_steps (entry_sequence e) ! 0" and "\<not> step_loop st"
    and "ct_registry c (step_action st) = Some b" and "source_duration_seconds b = Some d"
  shows "\<exists>t. ct_watchdog_deadline c' = Some t \<and>
    now + d / step_speed st + minimum_tolerance_seconds (ct_watchdog_policy c) \<le> t \<and>
    t \<le> now + d / step_speed st + maximum_tolerance_seconds (ct_watchdog_policy c) \<and>
    (\<forall>u < t. poll_watchdog P u c' = (None, c')) \<and>
    (\<forall>u \<ge> t. \<exists>c''. poll_watchdog P u c' = (Some ActionOutcome.CALLBACK_TIMEOUT, c'') \<and>
       ctrl_inv c'' \<and> ct_active_request c'' = None \<and> ct_generation c'' = ct_generation c' + 1 \<and>
       health (ct_state c'') \<in> {PlaybackHealth.DEGRADED, PlaybackHealth.UNKNOWN})"
proof -
  have st: "started now (entry_sequence e) 0 q c c'"
    using play_accepted [OF assms(1-3)] by blast
  then obtain t where t: "deadline_for_step now st c = Inr t" "ct_watchdog_deadline c' = Some t"
      and inv: "ctrl_inv c'" using assms(4,5) by (auto simp: started_def)
  have "entry_wf e" by (rule SEQUENCE_CATALOG_wf [OF assms(3)])
  then have "0 < step_speed st" using assms(4) by (auto simp: entry_wf_def seq_wf_def list_all_iff step_wf_def)
  moreover have "0 < d" and pol: "policy_ok (ct_watchdog_policy c)"
    using ctrl_inv_static [OF assms(1)] assms(6,7) by (auto simp: static_ok_def bindings_ok_def)
  ultimately have "t = now + d / step_speed st + min (maximum_tolerance_seconds (ct_watchdog_policy c))
      (max (minimum_tolerance_seconds (ct_watchdog_policy c))
        (tolerance_ratio (ct_watchdog_policy c) * (d / step_speed st)))"
    using t(1) assms(6,7) by (simp add: deadline_for_step_def resolve_def deadline_eq)
  with pol have "now + d / step_speed st + minimum_tolerance_seconds (ct_watchdog_policy c) \<le> t"
      "t \<le> now + d / step_speed st + maximum_tolerance_seconds (ct_watchdog_policy c)"
    by (auto simp: policy_ok_def)
  moreover have "\<exists>c''. poll_watchdog P u c' = (Some ActionOutcome.CALLBACK_TIMEOUT, c'') \<and>
       ctrl_inv c'' \<and> ct_active_request c'' = None \<and> ct_generation c'' = ct_generation c' + 1 \<and>
       health (ct_state c'') \<in> {PlaybackHealth.DEGRADED, PlaybackHealth.UNKNOWN}" if "t \<le> u" for u
    using that t(2) dropped_inv(1) [OF ctrl_inv_static [OF inv], of "ct_generation c' + 1"]
    by (simp add: poll_watchdog_def try_clear_eq Let_def) (simp add: drop_playback_def)
  ultimately show ?thesis using t(2) by (auto simp: poll_watchdog_def)
qed

text \<open>
  A graceful exit that is requested while a step before the loop is still playing disarms
  the watchdog of that step and arms no other: if the player's callback never comes, no later
  poll ever releases the track.
\<close>

theorem graceful_exit_disarms_watchdog:
  assumes "ctrl_inv c" and "playing_at s i e c" and "\<not> step_loop (seq_steps s ! nat i)"
    and "fst (request_graceful_exit (ct_runner c)) = ActionOutcome.ACCEPTED"
  shows "\<exists>c'. cancel P now reason CancellationMode.GRACEFUL_EXIT rep c = (Inr ActionOutcome.ACCEPTED, c') \<and>
    ct_active_request c' = ct_active_request c \<and> ct_active_request c' \<noteq> None \<and>
    (\<forall>u. poll_watchdog P u c' = (None, c'))"
proof -
  obtain r' where ex: "request_graceful_exit (ct_runner c) = (ActionOutcome.ACCEPTED, r')"
    using assms(4) by (cases "request_graceful_exit (ct_runner c)") simp
  have at: "runner_at s i (ct_runner c)" using assms(2) by (simp add: playing_at_def)
  have "runner_at s i r'" by (rule graceful_exit_at(1) [OF at ex])
  then have "rn_sequence r' = Some s" "rn_current_index r' = Some i"
      "py_index (seq_steps s) i = Inr (seq_steps s ! nat i)"
    by (simp_all add: runner_at_def in_steps_def)
  moreover have "ct_active_request c \<noteq> None"
    using assms(1) at by (auto simp: ctrl_inv_def runner_at_def new_runner_def split: option.splits)
  ultimately show ?thesis
    using ex assms(3)
    by (simp add: cancel_graceful_def arm_current_loop_boundary_watchdog_def poll_watchdog_def Let_def)
qed

section \<open>Witnesses\<close>

text \<open>A player that always succeeds and counts its tokens, and a registry with durations.\<close>

definition sample_player :: "nat AnimationPlayer" where
  "sample_player =
    \<lparr>capabilities = (\<lambda>_. \<lparr>completion_callbacks = True, loop_boundary_callbacks = True,
       duration_metadata = True, liveness_reporting = True\<rparr>),
     player_play = (\<lambda>pr n. (Inr n, n + 1)), player_clear = (\<lambda>t m n. (Inr (), n))\<rparr>"

definition sample_registry :: AnimationRegistry where
  "sample_registry a = Some ((default_binding a)\<lparr>source_duration_seconds := Some 2\<rparr>)"

definition sample_controller :: "nat PetTrack0Controller" where
  "sample_controller = new_controller 0 sample_registry new_runner default_watchdog_policy"

definition sample_sit :: ActionRequest where
  "sample_sit = sample_request SequenceName.SIT InterruptClass.NORMAL_ACTION ActionOrigin.EXPLICIT 1"

lemma sample_registry_ok: "registry_ok sample_registry" "bindings_ok sample_registry"
  by (auto simp: registry_ok_def bindings_ok_def sample_registry_def action_value_nonempty
      dest: action_value_inj)

lemma sample_controller_inv: "ctrl_inv sample_controller"
  unfolding sample_controller_def
  by (rule new_controller_inv [OF sample_registry_ok]) (simp add: policy_ok_def default_watchdog_policy_def)

lemma catalog_sit:
  "\<exists>e. SEQUENCE_CATALOG SequenceName.SIT = Some e \<and> entry_track e = 0 \<and>
     entry_interruption_class e = InterruptClass.NORMAL_ACTION \<and> \<not> entry_protected e \<and>
     loop_index (entry_sequence e) = Some 1 \<and> loop_exit_index (entry_sequence e) = Some 2 \<and>
     step_speed (seq_steps (entry_sequence e) ! 0) = 1 \<and> \<not> step_loop (seq_steps (entry_sequence e) ! 0) \<and>
     (\<forall>st \<in> set (seq_steps (entry_sequence e)). expected_track (step_action st) = 0)"
  by (simp add: SEQUENCE_CATALOG_def catalog_eval expected_track_def)

lemma sample_preflight:
  assumes "SEQUENCE_CATALOG SequenceName.SIT = Some e"
  shows "preflight sample_player sample_sit sample_controller
    = Inr \<lparr>pf_outcome = ActionOutcome.ACCEPTED, pf_entry = Some e\<rparr>"
proof -
  have e: "entry_track e = 0" "entry_interruption_class e = InterruptClass.NORMAL_ACTION"
      "\<not> entry_protected e" "\<forall>st \<in> set (seq_steps (entry_sequence e)). expected_track (step_action st) = 0"
    using catalog_sit assms by auto
  show ?thesis
    using e assms
    by (auto simp: preflight_def sample_sit_def sample_request_def sample_player_def sequencing_enabled_def
        validate_sequence_def validate_track_sequence_def sample_controller_def new_controller_def
        any_step_registry_ok [OF sample_registry_ok(1)] sample_registry_def)
qed

lemma sample_play:
  "\<exists>c'. play sample_player now sample_sit sample_controller = (Inr ActionOutcome.ACCEPTED, c')"
proof -
  obtain e where e: "SEQUENCE_CATALOG SequenceName.SIT = Some e" using catalog_sit by blast
  have wf: "seq_wf (entry_sequence e)" using SEQUENCE_CATALOG_wf [OF e] by (simp add: entry_wf_def)
  have st: "static_ok sample_controller" by (rule ctrl_inv_static [OF sample_controller_inv])
  obtain r' where r': "runner_start (entry_sequence e) (ct_runner sample_controller)
      = (Inr (play_step (entry_sequence e) 0), r')" "runner_at (entry_sequence e) 0 r'"
    using track0_runner.start [OF wf] by blast
  have "timed (ct_registry sample_controller) (entry_sequence e)"
    using SEQUENCE_CATALOG_wf [OF e]
    by (auto simp: timed_def entry_wf_def list_all_iff sample_controller_def new_controller_def sample_registry_def)
  then have "ready_at (entry_sequence e) 0 (sample_controller\<lparr>ct_runner := r'\<rparr>)"
    using st r'(2) by (simp add: ready_at_def static_ok_def)
  moreover have "play sample_player now sample_sit sample_controller =
      play_directive sample_player now sample_sit (play_step (entry_sequence e) 0) (sample_controller\<lparr>ct_runner := r'\<rparr>)"
    using sample_preflight [OF e] r'(1) by (simp add: play_def) (simp add: sample_controller_def new_controller_def)
  moreover have "player_play sample_player pr p \<noteq> (Inl err, p')" for pr p err p'
    by (simp add: sample_player_def)
  ultimately show ?thesis
    using play_directive_result [of "entry_sequence e" 0 "sample_controller\<lparr>ct_runner := r'\<rparr>" sample_player now sample_sit]
    by auto
qed

lemma sample_playing:
  assumes "play sample_player now sample_sit sample_controller = (Inr ActionOutcome.ACCEPTED, c')"
    and "SEQUENCE_CATALOG SequenceName.SIT = Some e"
  shows "started now (entry_sequence e) 0 sample_sit sample_controller c' \<and>
    \<not> rn_pending_graceful_exit (ct_runner c')"
  by (rule play_accepted [OF sample_controller_inv assms(1)]) (simp add: sample_sit_def sample_request_def assms(2))

theorem controller_refines_slot_witness:
  "ctrl_inv (snd (track0_exec sample_player 5 (OpPlay sample_sit) sample_controller)) \<and>
   slot_step (slot_of sample_controller)
     (slot_of (snd (track0_exec sample_player 5 (OpPlay sample_sit) sample_controller)))"
  using controller_refines_slot [OF sample_controller_inv, of sample_player 5 "OpPlay sample_sit"] by blast

theorem finished_playback_never_returns_witness:
  "handle_completion sample_player 9
     \<lparr>ev_generation = 0, ev_logical_action = PetActionName.SIT_DOWN, ev_physical_name = ''sit_down'',
      ev_playback_token = 0, ev_loop_boundary = False, ev_boundary_index = None\<rparr> None
     (track0_run sample_player [(5, OpPlay sample_sit)] sample_controller)
   = (Inr ActionOutcome.STALE_COMPLETION, track0_run sample_player [(5, OpPlay sample_sit)] sample_controller)"
  by (rule finished_playback_never_returns [OF sample_controller_inv])
    (simp_all add: sample_controller_def new_controller_def)

theorem watchdog_bounds_waiting_witness:
  "\<exists>c' t. play sample_player 5 sample_sit sample_controller = (Inr ActionOutcome.ACCEPTED, c') \<and>
     ct_watchdog_deadline c' = Some t \<and> 5 + 2 / 1 + 25 / 100 \<le> t \<and> t \<le> 5 + 2 / 1 + 1 \<and>
     fst (poll_watchdog sample_player 8 c') = Some ActionOutcome.CALLBACK_TIMEOUT"
proof -
  obtain c' where c': "play sample_player 5 sample_sit sample_controller = (Inr ActionOutcome.ACCEPTED, c')"
    using sample_play by blast
  obtain e where e: "SEQUENCE_CATALOG (sequence_name sample_sit) = Some e"
      "step_speed (seq_steps (entry_sequence e) ! 0) = 1" "\<not> step_loop (seq_steps (entry_sequence e) ! 0)"
    using catalog_sit by (auto simp: sample_sit_def sample_request_def)
  from watchdog_bounds_waiting [OF sample_controller_inv c' e(1) refl e(3), where d = 2]
  obtain t where t: "ct_watchdog_deadline c' = Some t" "5 + 2 / 1 + 25 / 100 \<le> t" "t \<le> 5 + 2 / 1 + 1"
      "\<exists>c''. poll_watchdog sample_player 8 c' = (Some ActionOutcome.CALLBACK_TIMEOUT, c'')"
    by (auto simp: e(2) sample_controller_def new_controller_def sample_registry_def
        default_watchdog_policy_def dest!: spec [of _ 8])
  with c' show ?thesis by (intro exI [of _ c'] exI [of _ t]) auto
qed

theorem graceful_exit_disarms_watchdog_witness:
  "\<exists>c c'. play sample_player 5 sample_sit sample_controller = (Inr ActionOutcome.ACCEPTED, c) \<and>
     ct_watchdog_deadline c \<noteq> None \<and>
     cancel sample_player 6 CancelReason.USER_INTERRUPT CancellationMode.GRACEFUL_EXIT None c
       = (Inr ActionOutcome.ACCEPTED, c') \<and>
     ct_active_request c' \<noteq> None \<and> (\<forall>u. poll_watchdog sample_player u c' = (None, c'))"
proof -
  obtain c where c: "play sample_player 5 sample_sit sample_controller = (Inr ActionOutcome.ACCEPTED, c)"
    using sample_play by blast
  obtain e where e: "SEQUENCE_CATALOG SequenceName.SIT = Some e" "loop_index (entry_sequence e) = Some 1"
      "loop_exit_index (entry_sequence e) = Some 2" "\<not> step_loop (seq_steps (entry_sequence e) ! 0)"
    using catalog_sit by blast
  from sample_playing [OF c e(1)] e(4) obtain ep where
      st: "ctrl_inv c" "playing_at (entry_sequence e) 0 ep c" "ct_watchdog_deadline c \<noteq> None"
    by (auto simp: started_def)
  have "\<not> rn_pending_graceful_exit (ct_runner c)" using sample_playing [OF c e(1)] by blast
  with st(2) e(2,3) have "fst (request_graceful_exit (ct_runner c)) = ActionOutcome.ACCEPTED"
    by (simp add: request_graceful_exit_def playing_at_def runner_at_def)
  with graceful_exit_disarms_watchdog [OF st(1,2), of sample_player 6 CancelReason.USER_INTERRUPT None] e(4)
  show ?thesis using c st(3) by (auto simp del: cancel.simps)
qed

end
