(* ===== verification/Scheduler.thy ===== *)
theory Scheduler
  imports Production_Actions
begin

text \<open>
  The autonomous action scheduler of \<^verbatim>\<open>application/pet/pet_autonomous_scheduler.py\<close>: immutable
  scheduler state, evaluation of loop-boundary events, and the weighted choice of the next
  state. The random generator is a \<^verbatim>\<open>RandomSource\<close> protocol that the standard library's
  \<^verbatim>\<open>random.Random\<close> implements; it is the parameter \<open>R\<close>, operations on an arbitrary generator
  state \<open>'r\<close>, with the documented ranges of its two methods as the hypothesis
  \<open>random_source_ok\<close>. \<^verbatim>\<open>object()\<close>, a new identity, is the argument \<open>fresh\<close>.
\<close>

section \<open>Vocabulary and tables\<close>

record 'r RandomSource =
  uniform :: "real \<Rightarrow> real \<Rightarrow> 'r \<Rightarrow> real \<times> 'r"
  randrange :: "int \<Rightarrow> 'r \<Rightarrow> int \<times> 'r"

definition random_source_ok :: "'r RandomSource \<Rightarrow> bool" where
  "random_source_ok R \<longleftrightarrow>
     (\<forall>a b r. a \<le> b \<longrightarrow> a \<le> fst (uniform R a b r) \<and> fst (uniform R a b r) \<le> b) \<and>
     (\<forall>n r. 0 < n \<longrightarrow> 0 \<le> fst (randrange R n r) \<and> fst (randrange R n r) < n)"

datatype AutonomousState = RELAX | SIT | SLEEP | MOVE_LEFT | MOVE_RIGHT | SPECIAL

fun action_by_state :: "AutonomousState \<Rightarrow> ProductionAction" where
  "action_by_state AutonomousState.RELAX = ProductionAction.RELAX"
| "action_by_state AutonomousState.SIT = ProductionAction.SIT"
| "action_by_state AutonomousState.SLEEP = ProductionAction.SLEEP"
| "action_by_state AutonomousState.MOVE_LEFT = ProductionAction.MOVE_LEFT"
| "action_by_state AutonomousState.MOVE_RIGHT = ProductionAction.MOVE_RIGHT"
| "action_by_state AutonomousState.SPECIAL = ProductionAction.SPECIAL"

definition all_AutonomousState :: "AutonomousState list" where
  "all_AutonomousState =
    [AutonomousState.RELAX, AutonomousState.SIT, AutonomousState.SLEEP, AutonomousState.MOVE_LEFT,
     AutonomousState.MOVE_RIGHT, AutonomousState.SPECIAL]"

text \<open>\<^verbatim>\<open>_STATE_BY_ACTION\<close> inverts \<^verbatim>\<open>_ACTION_BY_STATE\<close>; a missing key raises.\<close>

definition autonomous_state_for_action :: "ProductionAction \<Rightarrow> AutonomousState res" where
  "autonomous_state_for_action a =
    (case map_of (map (\<lambda>s. (action_by_state s, s)) all_AutonomousState) a of
       None \<Rightarrow> Inl KeyError | Some s \<Rightarrow> Inr s)"

fun weights :: "AutonomousState \<Rightarrow> (AutonomousState \<times> int) list option" where
  "weights AutonomousState.RELAX = Some
     [(AutonomousState.RELAX, 41), (AutonomousState.SIT, 20), (AutonomousState.SLEEP, 10),
      (AutonomousState.MOVE_LEFT, 12), (AutonomousState.MOVE_RIGHT, 12), (AutonomousState.SPECIAL, 5)]"
| "weights AutonomousState.SIT = Some
     [(AutonomousState.RELAX, 35), (AutonomousState.SIT, 40), (AutonomousState.SLEEP, 20),
      (AutonomousState.MOVE_LEFT, 2), (AutonomousState.MOVE_RIGHT, 3), (AutonomousState.SPECIAL, 0)]"
| "weights AutonomousState.SLEEP = Some
     [(AutonomousState.RELAX, 10), (AutonomousState.SIT, 15), (AutonomousState.SLEEP, 75),
      (AutonomousState.MOVE_LEFT, 0), (AutonomousState.MOVE_RIGHT, 0), (AutonomousState.SPECIAL, 0)]"
| "weights AutonomousState.MOVE_LEFT = Some
     [(AutonomousState.RELAX, 45), (AutonomousState.SIT, 10), (AutonomousState.SLEEP, 0),
      (AutonomousState.MOVE_LEFT, 25), (AutonomousState.MOVE_RIGHT, 20), (AutonomousState.SPECIAL, 0)]"
| "weights AutonomousState.MOVE_RIGHT = Some
     [(AutonomousState.RELAX, 45), (AutonomousState.SIT, 10), (AutonomousState.SLEEP, 0),
      (AutonomousState.MOVE_LEFT, 20), (AutonomousState.MOVE_RIGHT, 25), (AutonomousState.SPECIAL, 0)]"
| "weights AutonomousState.SPECIAL = None"

fun dwell_ranges :: "AutonomousState \<Rightarrow> (real \<times> real) option" where
  "dwell_ranges AutonomousState.RELAX = Some (8, 20)"
| "dwell_ranges AutonomousState.MOVE_LEFT = Some (4, 10)"
| "dwell_ranges AutonomousState.MOVE_RIGHT = Some (4, 10)"
| "dwell_ranges AutonomousState.SIT = Some (15, 35)"
| "dwell_ranges AutonomousState.SLEEP = Some (30, 90)"
| "dwell_ranges AutonomousState.SPECIAL = None"

record AutonomousSchedulerState =
  last_committed_state :: AutonomousState
  entered_at :: real
  eligibility_started_at :: real
  dwell_target_seconds :: "real option"
  playback_generation :: "int option"
  as_playback_token :: "token option"
  last_consumed_boundary_index :: int
  proposal_eligible :: bool
  consecutive_stays :: int

record AutonomousBoundaryEvent =
  be_generation :: int
  be_playback_token :: token
  be_boundary_index :: int
  be_observed_at :: real

definition mk_AutonomousBoundaryEvent ::
    "int \<Rightarrow> token \<Rightarrow> int \<Rightarrow> pyfloat \<Rightarrow> AutonomousBoundaryEvent res" where
  "mk_AutonomousBoundaryEvent g t i obs =
    raise_if (g < 0 \<or> i \<le> 0) (ValueError ''boundary identity is invalid'')
    (raise_if (\<not> isfinite obs) (ValueError ''boundary time must be finite'')
    (Inr \<lparr>be_generation = g, be_playback_token = t, be_boundary_index = i,
          be_observed_at = float_value obs\<rparr>))"

record AutonomousRuntimeSnapshot =
  rs_now :: real
  execution_mode :: AutonomousExecutionMode
  rs_capabilities :: "ProductionAction set"

definition mk_AutonomousRuntimeSnapshot ::
    "pyfloat \<Rightarrow> AutonomousExecutionMode \<Rightarrow> ProductionAction set \<Rightarrow> AutonomousRuntimeSnapshot res" where
  "mk_AutonomousRuntimeSnapshot n m caps =
    raise_if (\<not> isfinite n) (ValueError ''runtime time must be finite'')
    (Inr \<lparr>rs_now = float_value n, execution_mode = m, rs_capabilities = caps\<rparr>)"

record AutonomousSchedulerDecision =
  sd_state :: AutonomousSchedulerState
  proposed_state :: "AutonomousState option"
  sd_intent :: "ActionIntent option"
  stay :: bool

definition mk_AutonomousSchedulerDecision ::
    "AutonomousSchedulerState \<Rightarrow> AutonomousState option \<Rightarrow> ActionIntent option \<Rightarrow> bool
      \<Rightarrow> AutonomousSchedulerDecision res" where
  "mk_AutonomousSchedulerDecision s p i st =
    raise_if ((p = None) \<noteq> (i = None)) (ValueError ''proposal and intent must be present together'')
    (raise_if (st \<and> i \<noteq> None) (ValueError ''STAY cannot carry an intent'')
    (Inr \<lparr>sd_state = s, proposed_state = p, sd_intent = i, stay = st\<rparr>))"

section \<open>Operations\<close>

definition sample_dwell :: "'r RandomSource \<Rightarrow> AutonomousState \<Rightarrow> 'r \<Rightarrow> real option \<times> 'r" where
  "sample_dwell R s r =
    (case dwell_ranges s of
       None \<Rightarrow> (None, r)
     | Some (lo, hi) \<Rightarrow> (case uniform R lo hi r of (d, r') \<Rightarrow> (Some d, r')))"

text \<open>The loop over the cumulated weights; it raises when no destination covers the ticket.\<close>

fun pick_ticket :: "int \<Rightarrow> int \<Rightarrow> (AutonomousState \<times> int) list \<Rightarrow> AutonomousState res" where
  "pick_ticket ticket cumulative [] = Inl (AssertionError ''weighted selection did not resolve'')"
| "pick_ticket ticket cumulative ((destination, weight) # rest) =
    (if ticket < cumulative + weight then Inr destination
     else pick_ticket ticket (cumulative + weight) rest)"

definition available ::
    "AutonomousState \<Rightarrow> ProductionAction set \<Rightarrow> bool \<Rightarrow> (AutonomousState \<times> int) list
      \<Rightarrow> (AutonomousState \<times> int) list" where
  "available current caps exclude_stay row =
    filter (\<lambda>(destination, weight).
      weight > 0 \<and> action_by_state destination \<in> caps \<and> (\<not> exclude_stay \<or> destination \<noteq> current)) row"

definition select_destination ::
    "'r RandomSource \<Rightarrow> AutonomousState \<Rightarrow> ProductionAction set \<Rightarrow> bool \<Rightarrow> 'r
      \<Rightarrow> (AutonomousState option, 'r) sres" where
  "select_destination R current caps exclude_stay r =
    (case weights current of
       None \<Rightarrow> (Inr None, r)
     | Some row \<Rightarrow>
         let avail = available current caps exclude_stay row;
             total = sum_list (map snd avail)
         in if total \<le> 0
            then (Inr (if ProductionAction.RELAX \<in> caps then Some AutonomousState.RELAX else None), r)
            else case randrange R total r of
                   (ticket, r') \<Rightarrow> (ebind (pick_ticket ticket 0 avail) (\<lambda>d. Inr (Some d)), r'))"

definition enter ::
    "'r RandomSource \<Rightarrow> AutonomousState \<Rightarrow> pyfloat \<Rightarrow> int option \<Rightarrow> token option \<Rightarrow> 'r
      \<Rightarrow> (AutonomousSchedulerState, 'r) sres" where
  "enter R s when gen tok r =
    (if \<not> isfinite when then (Inl (ValueError ''entry time must be finite''), r)
     else if (case gen of None \<Rightarrow> False | Some g \<Rightarrow> g < 0)
     then (Inl (ValueError ''playback generation must be non-negative''), r)
     else case sample_dwell R s r of
            (dwell, r') \<Rightarrow>
              (Inr \<lparr>last_committed_state = s, entered_at = float_value when,
                    eligibility_started_at = float_value when, dwell_target_seconds = dwell,
                    playback_generation = gen, as_playback_token = tok,
                    last_consumed_boundary_index = 0, proposal_eligible = False,
                    consecutive_stays = 0\<rparr>, r'))"

definition matches_new_boundary ::
    "AutonomousSchedulerState \<Rightarrow> AutonomousBoundaryEvent \<Rightarrow> bool" where
  "matches_new_boundary s ev \<longleftrightarrow>
     Some (be_generation ev) = playback_generation s
     \<and> Some (be_playback_token ev) = as_playback_token s
     \<and> be_boundary_index ev > last_consumed_boundary_index s"

definition liveness_due :: "AutonomousSchedulerState \<Rightarrow> AutonomousBoundaryEvent \<Rightarrow> bool" where
  "liveness_due s ev \<longleftrightarrow> last_committed_state s = AutonomousState.RELAX
     \<and> be_observed_at ev \<ge> eligibility_started_at s + 60"

definition decide_boundary ::
    "'r RandomSource \<Rightarrow> AutonomousSchedulerState \<Rightarrow> AutonomousRuntimeSnapshot
      \<Rightarrow> AutonomousBoundaryEvent \<Rightarrow> token \<Rightarrow> 'r \<Rightarrow> (AutonomousSchedulerDecision, 'r) sres" where
  "decide_boundary R s snap ev fresh r =
    (let consumed = s\<lparr>last_consumed_boundary_index := be_boundary_index ev,
                      proposal_eligible := False\<rparr>;
         next_after_two_stays = (consecutive_stays s \<ge> 2);
         nothing = (mk_AutonomousSchedulerDecision consumed None None False, r)
     in case dwell_target_seconds s of
          None \<Rightarrow> nothing
        | Some dwell \<Rightarrow>
          if \<not> liveness_due s ev \<and> \<not> next_after_two_stays \<and> be_observed_at ev < entered_at s + dwell
          then nothing
          else sbind (select_destination R (last_committed_state s) (rs_capabilities snap)
                        (next_after_two_stays \<or> liveness_due s ev) r) (\<lambda>dest r1.
          case dest of
            None \<Rightarrow> (mk_AutonomousSchedulerDecision consumed None None False, r1)
          | Some d \<Rightarrow>
            if d = last_committed_state s
            then (case sample_dwell R d r1 of
                    (nd, r2) \<Rightarrow>
                      (mk_AutonomousSchedulerDecision
                         (consumed\<lparr>entered_at := be_observed_at ev, dwell_target_seconds := nd,
                                   consecutive_stays := consecutive_stays s + 1\<rparr>)
                         None None True, r2))
            else with_res (mk_ActionIntent (action_by_state d) ActionOrigin.AUTONOMOUS
                             ActionSource.SCHEDULER (Some fresh)) r1 (\<lambda>intent.
                 (mk_AutonomousSchedulerDecision (consumed\<lparr>proposal_eligible := True\<rparr>) (Some d)
                    (Some intent) False, r1))))"

definition evaluate ::
    "'r RandomSource \<Rightarrow> AutonomousSchedulerState \<Rightarrow> AutonomousRuntimeSnapshot
      \<Rightarrow> AutonomousBoundaryEvent option \<Rightarrow> token \<Rightarrow> 'r \<Rightarrow> (AutonomousSchedulerDecision, 'r) sres" where
  "evaluate R s snap event fresh r =
    (if execution_mode snap \<noteq> AutonomousExecutionMode.AUTONOMOUS
     then (mk_AutonomousSchedulerDecision (s\<lparr>proposal_eligible := False\<rparr>) None None False, r)
     else case event of
            None \<Rightarrow> (mk_AutonomousSchedulerDecision s None None False, r)
          | Some ev \<Rightarrow>
              if \<not> matches_new_boundary s ev
              then (mk_AutonomousSchedulerDecision s None None False, r)
              else decide_boundary R s snap ev fresh r)"

definition commit_accepted ::
    "'r RandomSource \<Rightarrow> AutonomousSchedulerDecision \<Rightarrow> pyfloat \<Rightarrow> int \<Rightarrow> token \<Rightarrow> 'r
      \<Rightarrow> (AutonomousSchedulerState, 'r) sres" where
  "commit_accepted R d when gen tok r =
    (case (proposed_state d, sd_intent d) of
       (Some destination, Some _) \<Rightarrow> enter R destination when (Some gen) (Some tok) r
     | _ \<Rightarrow> (Inl (ValueError ''decision has no proposed destination''), r))"

definition reject ::
    "'r RandomSource \<Rightarrow> AutonomousSchedulerDecision \<Rightarrow> pyfloat \<Rightarrow> 'r
      \<Rightarrow> (AutonomousSchedulerState, 'r) sres" where
  "reject R d when r =
    (if proposed_state d = None then (Inl (ValueError ''decision has no proposed destination''), r)
     else if \<not> isfinite when then (Inl (ValueError ''rejection time must be finite''), r)
     else case sample_dwell R (last_committed_state (sd_state d)) r of
            (nd, r') \<Rightarrow>
              (Inr ((sd_state d)\<lparr>entered_at := float_value when, dwell_target_seconds := nd,
                                 proposal_eligible := False\<rparr>), r'))"

section \<open>Weighted selection\<close>

lemma weights_distinct: "weights c = Some row \<Longrightarrow> distinct (map fst row)"
  by (cases c) auto

lemma weights_nonneg: "weights c = Some row \<Longrightarrow> (d, w) \<in> set row \<Longrightarrow> 0 \<le> w"
  by (cases c) auto

lemma available_subset:
  "(d, w) \<in> set (available c caps ex row) \<longleftrightarrow>
     (d, w) \<in> set row \<and> 0 < w \<and> action_by_state d \<in> caps \<and> (\<not> ex \<or> d \<noteq> c)"
  by (auto simp: available_def)

lemma available_distinct: "distinct (map fst row) \<Longrightarrow> distinct (map fst (available c caps ex row))"
  by (simp add: available_def distinct_map_filter)

lemma pick_ticket_Inr:
  "cum \<le> ticket \<Longrightarrow> ticket < cum + sum_list (map snd xs) \<Longrightarrow>
    \<exists>d w. pick_ticket ticket cum xs = Inr d \<and> (d, w) \<in> set xs"
proof (induction xs arbitrary: cum)
  case (Cons x xs)
  show ?case
  proof (cases "ticket < cum + snd x")
    case True
    then show ?thesis by (cases x) auto
  next
    case False
    with Cons.prems Cons.IH [of "cum + snd x"] have
      "\<exists>d w. pick_ticket ticket (cum + snd x) xs = Inr d \<and> (d, w) \<in> set xs" by (simp add: add.assoc)
    with False show ?thesis by (cases x) auto
  qed
qed (simp add: not_less)

text \<open>The tickets of a destination: as many as its weight, one block of the ticket range.\<close>

definition tickets :: "AutonomousState \<Rightarrow> int \<Rightarrow> (AutonomousState \<times> int) list \<Rightarrow> int set" where
  "tickets d cum xs = {t. cum \<le> t \<and> t < cum + sum_list (map snd xs) \<and> pick_ticket t cum xs = Inr d}"

lemma pick_ticket_in: "pick_ticket t cum xs = Inr d \<Longrightarrow> d \<in> fst ` set xs"
  by (induction t cum xs rule: pick_ticket.induct) (auto split: if_splits)

lemma tickets_Cons:
  assumes "0 \<le> w" and "0 \<le> sum_list (map snd xs)"
  shows "tickets d cum ((e, w) # xs) = (if d = e then {cum..<cum + w} else {}) \<union> tickets d (cum + w) xs"
  using assms by (auto simp: tickets_def)

lemma sum_weights_nonneg: "\<forall>(d, w) \<in> set xs. 0 \<le> w \<Longrightarrow> 0 \<le> sum_list (map snd xs)" for xs :: "('a \<times> int) list"
  by (intro sum_list_nonneg) fastforce

lemma tickets_empty: "d \<notin> fst ` set xs \<Longrightarrow> tickets d cum xs = {}"
  using pick_ticket_in by (auto simp: tickets_def)

lemma card_tickets:
  assumes "\<forall>(d, w) \<in> set xs. 0 \<le> w" and "distinct (map fst xs)" and "(d, w) \<in> set xs"
  shows "int (card (tickets d cum xs)) = w"
  using assms
proof (induction xs arbitrary: cum)
  case (Cons x xs)
  obtain e v where x: "x = (e, v)" by fastforce
  have nn: "0 \<le> v" "0 \<le> sum_list (map snd xs)"
    using Cons.prems(1) x by (auto intro!: sum_weights_nonneg)
  show ?case
  proof (cases "d = e")
    case True
    have "d \<notin> fst ` set xs" using Cons.prems(2) x True by auto
    moreover from this have "w = v" using Cons.prems(3) x True by force
    ultimately show ?thesis using nn True by (simp add: x tickets_Cons tickets_empty)
  next
    case False
    then have "int (card (tickets d (cum + v) xs)) = w"
      using Cons.IH Cons.prems x by auto
    with False nn show ?thesis by (simp add: x tickets_Cons)
  qed
qed simp

lemma select_destination_ok:
  assumes "random_source_ok R"
  obtains dest r' where "select_destination R c caps ex r = (Inr dest, r')"
    and "\<forall>d. dest = Some d \<longrightarrow> action_by_state d \<in> caps"
    and "\<forall>row. weights c = Some row \<longrightarrow> available c caps ex row \<noteq> [] \<longrightarrow>
      (\<exists>d w. dest = Some d \<and> (d, w) \<in> set (available c caps ex row))"
proof (cases "weights c")
  case None
  then show thesis by (intro that [of None r]) (simp_all add: select_destination_def)
next
  case (Some row)
  let ?av = "available c caps ex row"
  let ?tot = "sum_list (map snd ?av)"
  show thesis
  proof (cases "?tot \<le> 0")
    case True
    have "?av = []"
    proof (rule ccontr)
      assume "?av \<noteq> []"
      then obtain d w xs where av: "?av = (d, w) # xs" by (cases ?av) auto
      then have "0 < w" using available_subset [of d w c caps ex row] by simp
      moreover have "0 \<le> sum_list (map snd xs)"
      proof (rule sum_weights_nonneg, clarify)
        fix a b
        assume "(a, b) \<in> set xs"
        then have "(a, b) \<in> set ?av" by (simp add: av)
        then show "0 \<le> b" by (simp only: available_subset) simp
      qed
      ultimately show False using True av by simp
    qed
    with Some True show thesis
      by (intro that [of "if ProductionAction.RELAX \<in> caps then Some AutonomousState.RELAX else None" r])
        (simp_all add: select_destination_def split: if_splits)
  next
    case False
    obtain t r' where t: "randrange R ?tot r = (t, r')" by fastforce
    have "0 \<le> t" "t < ?tot" using assms False t unfolding random_source_ok_def by (metis fst_conv not_le)+
    then obtain d w where d: "pick_ticket t 0 ?av = Inr d" "(d, w) \<in> set ?av"
      using pick_ticket_Inr [of 0 t ?av] by auto
    with Some False t show thesis
      by (intro that [of "Some d" r']) (auto simp: select_destination_def available_subset Let_def)
  qed
qed

section \<open>Invariant\<close>

definition dwell_ok :: "AutonomousState \<Rightarrow> real option \<Rightarrow> bool" where
  "dwell_ok s d \<longleftrightarrow>
     (case (dwell_ranges s, d) of
        (None, None) \<Rightarrow> True
      | (Some (lo, hi), Some x) \<Rightarrow> lo \<le> x \<and> x \<le> hi
      | _ \<Rightarrow> False)"

definition sched_ok :: "AutonomousSchedulerState \<Rightarrow> bool" where
  "sched_ok s \<longleftrightarrow> dwell_ok (last_committed_state s) (dwell_target_seconds s) \<and>
     0 \<le> last_consumed_boundary_index s \<and> 0 \<le> consecutive_stays s \<and>
     (case playback_generation s of None \<Rightarrow> True | Some g \<Rightarrow> 0 \<le> g)"

lemma sample_dwell_ok:
  assumes "random_source_ok R"
  obtains d r' where "sample_dwell R s r = (d, r')" and "dwell_ok s d"
proof -
  have u: "a \<le> b \<Longrightarrow> a \<le> fst (uniform R a b r) \<and> fst (uniform R a b r) \<le> b" for a b
    using assms unfolding random_source_ok_def by blast
  have "dwell_ok s (fst (sample_dwell R s r))"
    using u by (cases s) (auto simp: sample_dwell_def dwell_ok_def case_prod_beta)
  then show thesis by (intro that [of "fst (sample_dwell R s r)" "snd (sample_dwell R s r)"]) simp_all
qed

lemma enter_ok:
  assumes "random_source_ok R" and "isfinite when" and "case gen of None \<Rightarrow> True | Some g \<Rightarrow> 0 \<le> g"
  obtains s' r' where "enter R s when gen tok r = (Inr s', r')" and "sched_ok s'"
    and "last_committed_state s' = s" and "consecutive_stays s' = 0"
    and "playback_generation s' = gen" and "as_playback_token s' = tok"
    and "last_consumed_boundary_index s' = 0"
proof -
  obtain d r' where d: "sample_dwell R s r = (d, r')" "dwell_ok s d" by (rule sample_dwell_ok [OF assms(1)])
  have "\<not> (case gen of None \<Rightarrow> False | Some g \<Rightarrow> g < 0)" using assms(3) by (auto split: option.splits)
  with d assms(2,3) show thesis by (intro that, simp add: enter_def) (simp_all add: sched_ok_def)
qed

lemma mk_decision [simp]:
  "mk_AutonomousSchedulerDecision s None None b = Inr \<lparr>sd_state = s, proposed_state = None, sd_intent = None, stay = b\<rparr>"
  "mk_AutonomousSchedulerDecision s (Some d) (Some i) False
     = Inr \<lparr>sd_state = s, proposed_state = Some d, sd_intent = Some i, stay = False\<rparr>"
  by (simp_all add: mk_AutonomousSchedulerDecision_def)

lemma mk_scheduler_intent [simp]:
  "mk_ActionIntent a ActionOrigin.AUTONOMOUS ActionSource.SCHEDULER (Some t)
     = Inr \<lparr>intent_action = a, intent_origin = ActionOrigin.AUTONOMOUS,
            intent_source = ActionSource.SCHEDULER, intent_token = t\<rparr>"
  by (simp add: mk_ActionIntent_def validate_action_authority_def)

text \<open>When the dwell time no longer holds the state back.\<close>

definition dwell_over :: "AutonomousSchedulerState \<Rightarrow> AutonomousBoundaryEvent \<Rightarrow> bool" where
  "dwell_over s ev \<longleftrightarrow>
     (\<exists>dwell. dwell_target_seconds s = Some dwell \<and>
       (liveness_due s ev \<or> consecutive_stays s \<ge> 2 \<or> entered_at s + dwell \<le> be_observed_at ev))"

definition forced_move :: "AutonomousSchedulerState \<Rightarrow> AutonomousBoundaryEvent \<Rightarrow> bool" where
  "forced_move s ev \<longleftrightarrow> consecutive_stays s \<ge> 2 \<or> liveness_due s ev"

text \<open>The contract of one evaluation of a matching boundary.\<close>

definition boundary_contract ::
    "AutonomousSchedulerState \<Rightarrow> ProductionAction set \<Rightarrow> AutonomousBoundaryEvent \<Rightarrow> token
      \<Rightarrow> AutonomousSchedulerDecision \<Rightarrow> bool" where
  "boundary_contract s caps ev fresh d \<longleftrightarrow>
     sched_ok (sd_state d) \<and>
     last_committed_state (sd_state d) = last_committed_state s \<and>
     playback_generation (sd_state d) = playback_generation s \<and>
     as_playback_token (sd_state d) = as_playback_token s \<and>
     last_consumed_boundary_index (sd_state d) = be_boundary_index ev \<and>
     (case proposed_state d of
        None \<Rightarrow> sd_intent d = None \<and> \<not> proposal_eligible (sd_state d)
      | Some p \<Rightarrow> dwell_over s ev \<and> p \<noteq> last_committed_state s \<and> action_by_state p \<in> caps \<and>
          proposal_eligible (sd_state d) \<and> \<not> stay d \<and>
          sd_intent d = Some \<lparr>intent_action = action_by_state p, intent_origin = ActionOrigin.AUTONOMOUS,
            intent_source = ActionSource.SCHEDULER, intent_token = fresh\<rparr>)"

lemma consumed_ok:
  "sched_ok s \<Longrightarrow> matches_new_boundary s ev \<Longrightarrow>
    sched_ok (s\<lparr>last_consumed_boundary_index := be_boundary_index ev, proposal_eligible := b\<rparr>)"
  by (auto simp: sched_ok_def matches_new_boundary_def)

lemma decide_boundary_contract:
  assumes R: "random_source_ok R" and s: "sched_ok s" and ev: "matches_new_boundary s ev"
  shows "\<exists>d r'. decide_boundary R s snap ev fresh r = (Inr d, r') \<and>
    boundary_contract s (rs_capabilities snap) ev fresh d"
proof (cases "dwell_over s ev")
  case False
  then show ?thesis
    using consumed_ok [OF s ev]
    by (auto simp: decide_boundary_def dwell_over_def boundary_contract_def Let_def split: option.splits)
next
  case True
  let ?ex = "2 \<le> consecutive_stays s \<or> liveness_due s ev"
  obtain dest r1 where sel: "select_destination R (last_committed_state s) (rs_capabilities snap) ?ex r
      = (Inr dest, r1)" "\<forall>d. dest = Some d \<longrightarrow> action_by_state d \<in> rs_capabilities snap"
    by (rule select_destination_ok [OF R])
  obtain nd r2 where nd: "sample_dwell R (last_committed_state s) r1 = (nd, r2)"
      "dwell_ok (last_committed_state s) nd" by (rule sample_dwell_ok [OF R])
  have db: "decide_boundary R s snap ev fresh r =
      (let consumed = s\<lparr>last_consumed_boundary_index := be_boundary_index ev, proposal_eligible := False\<rparr>
       in case dest of
            None \<Rightarrow> (mk_AutonomousSchedulerDecision consumed None None False, r1)
          | Some d \<Rightarrow> if d = last_committed_state s
              then (mk_AutonomousSchedulerDecision
                     (consumed\<lparr>entered_at := be_observed_at ev, dwell_target_seconds := nd,
                        consecutive_stays := consecutive_stays s + 1\<rparr>) None None True, r2)
              else (mk_AutonomousSchedulerDecision (consumed\<lparr>proposal_eligible := True\<rparr>) (Some d)
                     (Some \<lparr>intent_action = action_by_state d, intent_origin = ActionOrigin.AUTONOMOUS,
                        intent_source = ActionSource.SCHEDULER, intent_token = fresh\<rparr>) False, r1))"
    using True sel(1) nd(1)
    by (cases dest) (auto simp: decide_boundary_def dwell_over_def Let_def)
  have moved: "sched_ok (s\<lparr>last_consumed_boundary_index := be_boundary_index ev, proposal_eligible := False,
      entered_at := be_observed_at ev, dwell_target_seconds := nd, consecutive_stays := consecutive_stays s + 1\<rparr>)"
    using s ev nd(2) by (auto simp: sched_ok_def matches_new_boundary_def)
  show ?thesis
    using sel(2) True moved consumed_ok [OF s ev]
    by (cases dest) (auto simp: db boundary_contract_def Let_def)
qed

lemma decide_boundary_forced:
  assumes R: "random_source_ok R" and s: "sched_ok s" and ev: "matches_new_boundary s ev"
    and f: "forced_move s ev" and row: "weights (last_committed_state s) = Some row"
    and other: "(d, w) \<in> set row" "0 < w" "d \<noteq> last_committed_state s" "action_by_state d \<in> rs_capabilities snap"
  shows "\<exists>dec r'. decide_boundary R s snap ev fresh r = (Inr dec, r') \<and> proposed_state dec \<noteq> None"
proof -
  let ?c = "last_committed_state s"
  have "(d, w) \<in> set (available ?c (rs_capabilities snap) True row)"
    using other by (simp add: available_subset)
  then have ne: "available ?c (rs_capabilities snap) True row \<noteq> []" by auto
  obtain dest r1 where sel: "select_destination R ?c (rs_capabilities snap) True r = (Inr dest, r1)"
      "\<forall>row. weights ?c = Some row \<longrightarrow> available ?c (rs_capabilities snap) True row \<noteq> [] \<longrightarrow>
        (\<exists>d w. dest = Some d \<and> (d, w) \<in> set (available ?c (rs_capabilities snap) True row))"
    by (rule select_destination_ok [OF R])
  then obtain p v where "dest = Some p" "(p, v) \<in> set (available ?c (rs_capabilities snap) True row)"
    using row ne by blast
  then have p: "dest = Some p" "p \<noteq> ?c" by (simp_all add: available_subset)
  obtain dwell where "dwell_target_seconds s = Some dwell"
    using s row by (cases ?c) (auto simp: sched_ok_def dwell_ok_def split: option.splits)
  moreover have "(2 \<le> consecutive_stays s \<or> liveness_due s ev) = True" using f by (simp add: forced_move_def)
  ultimately show ?thesis
    using sel(1) p f by (auto simp: decide_boundary_def forced_move_def Let_def)
qed

text \<open>What a caller of the scheduler uses of one evaluation, whatever the mode and the event.\<close>

lemma evaluate_usable:
  assumes "random_source_ok R" and "sched_ok s"
  obtains d r' where "evaluate R s snap event fresh r = (Inr d, r')" and "sched_ok (sd_state d)"
    and "\<And>i. sd_intent d = Some i \<Longrightarrow> \<exists>p. proposed_state d = Some p \<and> intent_action i = action_by_state p \<and>
      intent_origin i = ActionOrigin.AUTONOMOUS \<and> intent_source i = ActionSource.SCHEDULER"
proof (cases "execution_mode snap = AutonomousExecutionMode.AUTONOMOUS \<and>
    (\<exists>ev. event = Some ev \<and> matches_new_boundary s ev)")
  case True
  then obtain ev where ev: "event = Some ev" "matches_new_boundary s ev"
      and auto: "execution_mode snap = AutonomousExecutionMode.AUTONOMOUS" by blast
  obtain d r' where d: "decide_boundary R s snap ev fresh r = (Inr d, r')"
      "boundary_contract s (rs_capabilities snap) ev fresh d"
    using decide_boundary_contract [OF assms ev(2)] by blast
  with ev auto show thesis
    by (intro that [of d r']) (auto simp: evaluate_def boundary_contract_def split: option.splits)
next
  case False
  let ?s = "if execution_mode snap = AutonomousExecutionMode.AUTONOMOUS then s else s\<lparr>proposal_eligible := False\<rparr>"
  have "sched_ok ?s" using assms(2) by (simp add: sched_ok_def)
  with False show thesis
    by (intro that [of "\<lparr>sd_state = ?s, proposed_state = None, sd_intent = None, stay = False\<rparr>" r])
      (auto simp: evaluate_def split: option.splits)
qed

section \<open>Properties\<close>

definition sample_rng :: "nat RandomSource" where
  "sample_rng = \<lparr>uniform = (\<lambda>a b n. (a, n + 1)), randrange = (\<lambda>k n. (int n mod k, n + 1))\<rparr>"

lemma sample_rng_ok: "random_source_ok sample_rng"
  by (simp add: random_source_ok_def sample_rng_def)

definition sample_scheduler :: "AutonomousState \<Rightarrow> AutonomousSchedulerState" where
  "sample_scheduler s =
    \<lparr>last_committed_state = s, entered_at = 0, eligibility_started_at = 0,
     dwell_target_seconds = Some 9, playback_generation = Some 3, as_playback_token = Some 7,
     last_consumed_boundary_index = 0, proposal_eligible = False, consecutive_stays = 2\<rparr>"

definition sample_boundary :: AutonomousBoundaryEvent where
  "sample_boundary = \<lparr>be_generation = 3, be_playback_token = 7, be_boundary_index = 1, be_observed_at = 5\<rparr>"

lemma sample_scheduler_ok: "sched_ok (sample_scheduler AutonomousState.RELAX)"
  by (simp add: sched_ok_def sample_scheduler_def dwell_ok_def)

lemma sample_matches: "matches_new_boundary (sample_scheduler s) sample_boundary"
  by (simp add: matches_new_boundary_def sample_scheduler_def sample_boundary_def)

text \<open>
  C30. Evaluation of a valid scheduler state never raises, for any generator with the documented
  ranges. It never changes the committed state or the playback it watches; a proposal is made
  only in autonomous mode, for a boundary of the watched playback that was not consumed before,
  once the dwell time has passed or, also before that, as a forced move (after two consecutive stays,
  or sixty seconds of relaxing), never for the current state, only for an action the runtime is
  capable of, and always with the scheduler's own authority. The boundary is then consumed: the same
  event evaluated again changes nothing and proposes nothing. (The design document asks for the dwell
  time to have passed in every case.)
\<close>

theorem evaluate_sound:
  assumes "random_source_ok R" and "sched_ok s"
  shows "\<exists>d r'. evaluate R s snap event fresh r = (Inr d, r') \<and> sched_ok (sd_state d) \<and>
    last_committed_state (sd_state d) = last_committed_state s \<and>
    (\<forall>p. proposed_state d = Some p \<longrightarrow>
       execution_mode snap = AutonomousExecutionMode.AUTONOMOUS \<and>
       (\<exists>ev. event = Some ev \<and> matches_new_boundary s ev \<and>
          boundary_contract s (rs_capabilities snap) ev fresh d)) \<and>
    (\<forall>ev f r2. event = Some ev \<longrightarrow> execution_mode snap = AutonomousExecutionMode.AUTONOMOUS \<longrightarrow>
       evaluate R (sd_state d) snap event f r2
         = (Inr \<lparr>sd_state = sd_state d, proposed_state = None, sd_intent = None, stay = False\<rparr>, r2))"
proof (cases "execution_mode snap = AutonomousExecutionMode.AUTONOMOUS \<and>
    (\<exists>ev. event = Some ev \<and> matches_new_boundary s ev)")
  case True
  then obtain ev where ev: "event = Some ev" "matches_new_boundary s ev"
      and auto: "execution_mode snap = AutonomousExecutionMode.AUTONOMOUS" by blast
  obtain d r' where d: "decide_boundary R s snap ev fresh r = (Inr d, r')"
      "boundary_contract s (rs_capabilities snap) ev fresh d"
    using decide_boundary_contract [OF assms ev(2)] by blast
  then have "\<not> matches_new_boundary (sd_state d) ev"
    by (simp add: boundary_contract_def matches_new_boundary_def)
  with d ev auto show ?thesis by (auto simp: evaluate_def boundary_contract_def)
next
  case False
  have "sched_ok (s\<lparr>proposal_eligible := False\<rparr>)" using assms(2) by (simp add: sched_ok_def)
  with False assms(2) show ?thesis by (auto simp: evaluate_def split: option.splits)
qed

theorem evaluate_sound_witness:
  "\<exists>d r'. evaluate sample_rng (sample_scheduler AutonomousState.RELAX)
     \<lparr>rs_now = 5, execution_mode = AutonomousExecutionMode.AUTONOMOUS, rs_capabilities = UNIV\<rparr>
     (Some sample_boundary) 11 0 = (Inr d, r') \<and> sched_ok (sd_state d)"
  using evaluate_sound [OF sample_rng_ok sample_scheduler_ok] by blast

text \<open>
  Liveness: after two consecutive stays, or after sixty seconds of relaxing, a new boundary of
  the watched playback in autonomous mode always leads to a proposal of another state, whenever
  the runtime is capable of at least one other destination with a positive weight.
\<close>

theorem scheduler_forced_move:
  assumes "random_source_ok R" and "sched_ok s" and "matches_new_boundary s ev"
    and "execution_mode snap = AutonomousExecutionMode.AUTONOMOUS"
    and "consecutive_stays s \<ge> 2 \<or> liveness_due s ev"
    and "weights (last_committed_state s) = Some row" and "(d, w) \<in> set row" and "0 < w"
    and "d \<noteq> last_committed_state s" and "action_by_state d \<in> rs_capabilities snap"
  shows "\<exists>dec r' p. evaluate R s snap (Some ev) fresh r = (Inr dec, r') \<and>
    proposed_state dec = Some p \<and> p \<noteq> last_committed_state s"
proof -
  have "forced_move s ev" using assms(5) by (simp add: forced_move_def)
  from decide_boundary_forced [OF assms(1-3) this assms(6-10)] obtain dec r' where
      dec: "decide_boundary R s snap ev fresh r = (Inr dec, r')" "proposed_state dec \<noteq> None" by blast
  moreover have "boundary_contract s (rs_capabilities snap) ev fresh dec"
    using decide_boundary_contract [OF assms(1-3), of snap fresh r] dec(1) by auto
  ultimately show ?thesis
    using assms(3,4) by (auto simp: evaluate_def boundary_contract_def)
qed

theorem scheduler_forced_move_witness:
  "\<exists>dec r' p. evaluate sample_rng (sample_scheduler AutonomousState.RELAX)
     \<lparr>rs_now = 5, execution_mode = AutonomousExecutionMode.AUTONOMOUS, rs_capabilities = {ProductionAction.SIT}\<rparr>
     (Some sample_boundary) 11 0 = (Inr dec, r') \<and> proposed_state dec = Some p \<and> p \<noteq> AutonomousState.RELAX"
  using scheduler_forced_move [OF sample_rng_ok sample_scheduler_ok sample_matches, of
      "\<lparr>rs_now = 5, execution_mode = AutonomousExecutionMode.AUTONOMOUS, rs_capabilities = {ProductionAction.SIT}\<rparr>"
      _ AutonomousState.SIT 20 11 0]
  by (simp add: sample_scheduler_def)

text \<open>
  The weighted choice is exact. Of the tickets the generator may draw for a row of the weight
  table, after the filter on capabilities, exactly as many select a destination as its weight says;
  every ticket selects one, so the loop never falls through to its assertion.
\<close>

theorem weighted_choice_exact:
  assumes "weights c = Some row" and "av = available c caps ex row" and "tot = sum_list (map snd av)"
  shows "(\<forall>d w. (d, w) \<in> set av \<longrightarrow>
       int (card {t. 0 \<le> t \<and> t < tot \<and> pick_ticket t 0 av = Inr d}) = w) \<and>
    (\<forall>t. 0 \<le> t \<and> t < tot \<longrightarrow> is_ok (pick_ticket t 0 av))"
proof (intro conjI allI impI)
  fix d w
  assume "(d, w) \<in> set av"
  moreover have "\<forall>(d, w) \<in> set av. 0 \<le> w" by (auto simp: assms(2) available_subset)
  moreover have "distinct (map fst av)"
    unfolding assms(2) by (rule available_distinct [OF weights_distinct [OF assms(1)]])
  ultimately have "int (card (tickets d 0 av)) = w" by (intro card_tickets)
  then show "int (card {t. 0 \<le> t \<and> t < tot \<and> pick_ticket t 0 av = Inr d}) = w"
    by (simp add: tickets_def assms(3))
next
  fix t
  assume "0 \<le> t \<and> t < tot"
  then show "is_ok (pick_ticket t 0 av)"
    using pick_ticket_Inr [of 0 t av] assms(3) by (auto simp: is_ok_iff)
qed

theorem weighted_choice_exact_witness:
  "int (card {t. 0 \<le> t \<and> t < 100 \<and>
     pick_ticket t 0 (available AutonomousState.RELAX UNIV False
       [(AutonomousState.RELAX, 41), (AutonomousState.SIT, 20), (AutonomousState.SLEEP, 10),
        (AutonomousState.MOVE_LEFT, 12), (AutonomousState.MOVE_RIGHT, 12), (AutonomousState.SPECIAL, 5)])
     = Inr AutonomousState.SIT}) = 20"
  using weighted_choice_exact [OF weights.simps(1) refl refl, of UNIV False]
  by (simp add: available_def)

end
