(* ===== verification/Geometry.thy ===== *)
theory Geometry
  imports Prelude
begin

text \<open>
  Pure geometry of \<^verbatim>\<open>application/pet/pet_geometry.py\<close>: points, sizes and rectangles with
  their validating constructors, the two clamping functions, and the choice of the
  display workspace by overlap and then by distance. Coordinates are reals. The locale
  \<open>workspace_geometry\<close> is the contract the motion model relies on.
\<close>

record Point =
  px :: real
  py :: real

record Size =
  width :: real
  height :: real

record Rect =
  rx :: real
  ry :: real
  rwidth :: real
  rheight :: real

definition size_ok :: "Size \<Rightarrow> bool" where
  "size_ok s \<longleftrightarrow> 0 < width s \<and> 0 < height s"

definition rect_ok :: "Rect \<Rightarrow> bool" where
  "rect_ok r \<longleftrightarrow> 0 < rwidth r \<and> 0 < rheight r"

definition mk_Size :: "real \<Rightarrow> real \<Rightarrow> Size res" where
  "mk_Size w h =
    raise_if (w \<le> 0 \<or> h \<le> 0) (ValueError ''Window dimensions must be positive.'')
    (Inr \<lparr>width = w, height = h\<rparr>)"

definition mk_Rect :: "real \<Rightarrow> real \<Rightarrow> real \<Rightarrow> real \<Rightarrow> Rect res" where
  "mk_Rect x y w h =
    raise_if (w \<le> 0 \<or> h \<le> 0) (ValueError ''Workspace dimensions must be positive.'')
    (Inr \<lparr>rx = x, ry = y, rwidth = w, rheight = h\<rparr>)"

definition right :: "Rect \<Rightarrow> real" where
  "right r = rx r + rwidth r"

definition bottom :: "Rect \<Rightarrow> real" where
  "bottom r = ry r + rheight r"

definition center :: "Rect \<Rightarrow> Point" where
  "center r = \<lparr>px = rx r + rwidth r / 2, py = ry r + rheight r / 2\<rparr>"

definition physical_to_logical_rect :: "Rect \<Rightarrow> real \<Rightarrow> Rect res" where
  "physical_to_logical_rect r scale_factor =
    raise_if (scale_factor \<le> 0) (ValueError ''The display scale factor must be positive.'')
    (mk_Rect (rx r / scale_factor) (ry r / scale_factor)
       (rwidth r / scale_factor) (rheight r / scale_factor))"

definition clamp_window_position :: "Point \<Rightarrow> Size \<Rightarrow> Rect \<Rightarrow> Point" where
  "clamp_window_position p win ws =
    (let max_x = max (rx ws) (right ws - width win);
         max_y = max (ry ws) (bottom ws - height win)
     in \<lparr>px = min (max (px p) (rx ws)) max_x, py = min (max (py p) (ry ws)) max_y\<rparr>)"

definition clamp_drag_position :: "Point \<Rightarrow> Size \<Rightarrow> Rect \<Rightarrow> real \<Rightarrow> Point res" where
  "clamp_drag_position p win ws recoverable_strip =
    raise_if (recoverable_strip \<le> 0 \<or> recoverable_strip > width win)
      (ValueError ''Recoverable drag strip is invalid.'')
    (let minimum_x = rx ws - (width win - recoverable_strip);
         maximum_x = right ws - recoverable_strip
     in Inr \<lparr>px = min (max (px p) minimum_x) maximum_x, py = py p\<rparr>)"

definition overlap_area :: "Rect \<Rightarrow> Rect \<Rightarrow> real" where
  "overlap_area a b =
    max 0 (min (right a) (right b) - max (rx a) (rx b)) *
    max 0 (min (bottom a) (bottom b) - max (ry a) (ry b))"

definition hypot :: "real \<Rightarrow> real \<Rightarrow> real" where
  "hypot x y = sqrt (x\<^sup>2 + y\<^sup>2)"

definition center_distance :: "Rect \<Rightarrow> Rect \<Rightarrow> real" where
  "center_distance a b = hypot (px (center a) - px (center b)) (py (center a) - py (center b))"

definition select_workspace :: "Point \<Rightarrow> Size \<Rightarrow> Rect list \<Rightarrow> Rect res" where
  "select_workspace p win workspaces =
    (case workspaces of
       [] \<Rightarrow> Inl (ValueError ''At least one display workspace is required.'')
     | w # ws \<Rightarrow>
        ebind (mk_Rect (px p) (py p) (width win) (height win)) (\<lambda>window.
         let overlaps = map (overlap_area window) workspaces;
             greatest = list_max overlaps
         in if greatest > 0 then Inr (workspaces ! index_of overlaps greatest)
            else Inr (min_by (center_distance window) w ws)))"

section \<open>Containment\<close>

definition fits :: "Size \<Rightarrow> Rect \<Rightarrow> bool" where
  "fits win ws \<longleftrightarrow> width win \<le> rwidth ws \<and> height win \<le> rheight ws"

definition inside :: "Point \<Rightarrow> Size \<Rightarrow> Rect \<Rightarrow> bool" where
  "inside p win ws \<longleftrightarrow>
     rx ws \<le> px p \<and> px p + width win \<le> right ws \<and> ry ws \<le> py p \<and> py p + height win \<le> bottom ws"

lemma clamp_window_position_eq:
  "clamp_window_position p win ws =
    \<lparr>px = clamp (rx ws) (max (rx ws) (right ws - width win)) (px p),
     py = clamp (ry ws) (max (ry ws) (bottom ws - height win)) (py p)\<rparr>"
  by (simp add: clamp_window_position_def clamp_def Let_def)

lemma clamp_window_inside:
  "fits win ws \<Longrightarrow> inside (clamp_window_position p win ws) win ws"
  by (auto simp: clamp_window_position_def inside_def fits_def right_def bottom_def Let_def)

lemma clamp_window_id:
  "inside p win ws \<Longrightarrow> clamp_window_position p win ws = p"
  by (cases p) (auto simp: clamp_window_position_def inside_def Let_def min_def max_def)

lemma clamp_window_idem:
  "clamp_window_position (clamp_window_position p win ws) win ws = clamp_window_position p win ws"
  by (simp add: clamp_window_position_def Let_def)

lemma clamp_window_origin:
  "rx ws \<le> px (clamp_window_position p win ws)" "ry ws \<le> py (clamp_window_position p win ws)"
  by (simp_all add: clamp_window_position_def Let_def)

lemma clamp_window_ground:
  "py (clamp_window_position p win ws) \<le> max (ry ws) (bottom ws - height win)"
  by (simp add: clamp_window_position_def Let_def)

lemma overlap_area_nonneg: "0 \<le> overlap_area a b"
  by (simp add: overlap_area_def)

lemma select_workspace_Inr_iff:
  "is_ok (select_workspace p win ws) \<longleftrightarrow> ws \<noteq> [] \<and> size_ok win"
  by (auto simp: select_workspace_def mk_Rect_def size_ok_def is_ok_iff Let_def raise_if_def
      split: list.splits)

lemma select_workspace_props:
  assumes "select_workspace p win ws = Inr r"
  defines "window \<equiv> \<lparr>rx = px p, ry = py p, rwidth = width win, rheight = height win\<rparr>"
  shows "r \<in> set ws"
    and "\<And>w. w \<in> set ws \<Longrightarrow> overlap_area window w \<le> overlap_area window r"
    and "\<And>w. w \<in> set ws \<Longrightarrow> overlap_area window r = 0 \<Longrightarrow>
           center_distance window r \<le> center_distance window w"
proof -
  obtain w0 ws' where ws: "ws = w0 # ws'"
    using assms(1) by (cases ws) (simp_all add: select_workspace_def)
  let ?ov = "map (overlap_area window) ws"
  let ?g = "list_max ?ov"
  have r: "r = (if ?g > 0 then ws ! index_of ?ov ?g
                else min_by (center_distance window) w0 ws')"
    using assms(1) ws
    by (auto simp: select_workspace_def mk_Rect_def window_def Let_def raise_if_def split: if_splits)
  have g_in: "?g \<in> set ?ov" using ws by (intro list_max_in) simp
  have g_ge: "overlap_area window w \<le> ?g" if "w \<in> set ws" for w
    using that by (intro list_max_ge) auto
  have idx: "index_of ?ov ?g < length ws" using index_of_less [OF g_in] by simp
  have at: "overlap_area window (ws ! index_of ?ov ?g) = ?g"
    using nth_index_of [OF g_in] idx by simp
  have mem: "min_by (center_distance window) w0 ws' \<in> set ws"
    using min_by_in [of "center_distance window" w0 ws'] ws by simp
  show "r \<in> set ws" using r idx mem by auto
  show "overlap_area window w \<le> overlap_area window r" if "w \<in> set ws" for w
  proof (cases "?g > 0")
    case True
    then show ?thesis using r at g_ge [OF that] by simp
  next
    case False
    then have "overlap_area window w \<le> 0" using g_ge [OF that] by simp
    then show ?thesis using overlap_area_nonneg [of window r] by linarith
  qed
  show "center_distance window r \<le> center_distance window w"
    if "w \<in> set ws" and "overlap_area window r = 0" for w
  proof (cases "?g > 0")
    case True
    then show ?thesis using r at that(2) by simp
  next
    case False
    then show ?thesis using r that(1) ws min_by_le [of w w0 ws' "center_distance window"] by simp
  qed
qed

section \<open>Contract used by the motion model\<close>

locale workspace_geometry =
  fixes select :: "Point \<Rightarrow> Size \<Rightarrow> Rect list \<Rightarrow> Rect res"
    and clamp_win :: "Point \<Rightarrow> Size \<Rightarrow> Rect \<Rightarrow> Point"
  assumes select_ok: "ws \<noteq> [] \<Longrightarrow> size_ok win \<Longrightarrow> \<exists>r. select p win ws = Inr r \<and> r \<in> set ws"
    and clamp_inside: "fits win r \<Longrightarrow> inside (clamp_win p win r) win r"
    and clamp_fixed: "inside p win r \<Longrightarrow> clamp_win p win r = p"
begin

lemma placed_inside:
  assumes "ws \<noteq> []" and "size_ok win" and "\<forall>r \<in> set ws. fits win r"
  shows "\<exists>r. select p win ws = Inr r \<and> r \<in> set ws \<and> inside (clamp_win p win r) win r
    \<and> clamp_win (clamp_win p win r) win r = clamp_win p win r"
proof -
  obtain r where r: "select p win ws = Inr r" "r \<in> set ws" using select_ok assms by blast
  with assms(3) have "inside (clamp_win p win r) win r" by (intro clamp_inside) blast
  with r show ?thesis using clamp_fixed by blast
qed

end

interpretation pet_geometry: workspace_geometry select_workspace clamp_window_position
proof unfold_locales
  fix p win and ws :: "Rect list"
  assume "ws \<noteq> []" "size_ok win"
  then obtain r where "select_workspace p win ws = Inr r"
    using select_workspace_Inr_iff [of p win ws] by (auto simp: is_ok_iff)
  then show "\<exists>r. select_workspace p win ws = Inr r \<and> r \<in> set ws"
    using select_workspace_props(1) by blast
qed (auto intro: clamp_window_inside clamp_window_id)

section \<open>Properties\<close>

text \<open>
  \<open>select_workspace\<close> returns one of the given displays; no display overlaps the window
  more, and when nothing overlaps it no display has a nearer centre. It raises exactly
  when there is no display or the window size is not positive.
\<close>

theorem select_workspace_optimal:
  "(is_ok (select_workspace p win ws) \<longleftrightarrow> ws \<noteq> [] \<and> 0 < width win \<and> 0 < height win) \<and>
   (\<forall>r. select_workspace p win ws = Inr r \<longrightarrow>
      (let window = \<lparr>rx = px p, ry = py p, rwidth = width win, rheight = height win\<rparr> in
       r \<in> set ws \<and>
       (\<forall>w \<in> set ws. overlap_area window w \<le> overlap_area window r) \<and>
       (overlap_area window r = 0 \<longrightarrow>
         (\<forall>w \<in> set ws. center_distance window r \<le> center_distance window w))))"
  using select_workspace_Inr_iff [of p win ws] select_workspace_props [of p win ws]
  by (auto simp: size_ok_def Let_def)

theorem select_workspace_optimal_witness:
  "let p = \<lparr>px = 90, py = 10\<rparr>; win = \<lparr>width = 20, height = 20\<rparr>;
       a = \<lparr>rx = 0, ry = 0, rwidth = 95, rheight = 100\<rparr>;
       b = \<lparr>rx = 95, ry = 0, rwidth = 100, rheight = 100\<rparr>
   in select_workspace p win [a, b] = Inr b \<and> b \<in> set [a, b]"
proof -
  let ?p = "\<lparr>px = 90, py = 10\<rparr>" and ?win = "\<lparr>width = 20, height = 20\<rparr>"
  let ?a = "\<lparr>rx = 0, ry = 0, rwidth = 95, rheight = 100\<rparr>"
  let ?b = "\<lparr>rx = 95, ry = 0, rwidth = 100, rheight = 100\<rparr>"
  have "select_workspace ?p ?win [?a, ?b] = Inr ?b"
    by (simp add: select_workspace_def mk_Rect_def overlap_area_def right_def bottom_def Let_def)
  then show ?thesis
    using select_workspace_optimal [of ?p ?win "[?a, ?b]"] by (simp add: Let_def)
qed

text \<open>
  When the window fits the display, \<open>clamp_window_position\<close> puts the whole window inside
  it, leaves a window that already is inside where it is, and moves each coordinate by no
  more than any other position inside the display would need.
\<close>

theorem clamp_window_position_inside_nearest:
  assumes "fits win ws"
  shows "inside (clamp_window_position p win ws) win ws
    \<and> (inside p win ws \<longrightarrow> clamp_window_position p win ws = p)
    \<and> (\<forall>q. inside q win ws \<longrightarrow>
         \<bar>px (clamp_window_position p win ws) - px p\<bar> \<le> \<bar>px q - px p\<bar> \<and>
         \<bar>py (clamp_window_position p win ws) - py p\<bar> \<le> \<bar>py q - py p\<bar>)"
proof (intro conjI allI impI)
  fix q
  assume q: "inside q win ws"
  show "\<bar>px (clamp_window_position p win ws) - px p\<bar> \<le> \<bar>px q - px p\<bar>"
    unfolding clamp_window_position_eq
    using q by (simp, intro clamp_nearest) (auto simp: inside_def)
  show "\<bar>py (clamp_window_position p win ws) - py p\<bar> \<le> \<bar>py q - py p\<bar>"
    unfolding clamp_window_position_eq
    using q by (simp, intro clamp_nearest) (auto simp: inside_def)
qed (use assms in \<open>auto intro: clamp_window_inside clamp_window_id\<close>)

theorem clamp_window_position_inside_nearest_witness:
  "let win = \<lparr>width = 20, height = 20\<rparr>; ws = \<lparr>rx = 0, ry = 0, rwidth = 100, rheight = 100\<rparr>
   in fits win ws \<and> inside (clamp_window_position \<lparr>px = 500, py = -3\<rparr> win ws) win ws"
proof -
  have h: "fits \<lparr>width = 20, height = 20\<rparr> \<lparr>rx = 0, ry = 0, rwidth = 100, rheight = 100\<rparr>"
    by (simp add: fits_def)
  show ?thesis using h clamp_window_position_inside_nearest [OF h, of "\<lparr>px = 500, py = -3\<rparr>"]
    by (simp add: Let_def)
qed

text \<open>
  While dragging, the window stays recoverable: with a valid strip the horizontal overlap
  of the window with the display is at least the strip wide (or as wide as the display
  allows), and the vertical coordinate is never touched; an invalid strip raises.
\<close>

theorem clamp_drag_position_recoverable:
  assumes "0 < strip" and "strip \<le> width win" and "strip \<le> rwidth ws"
  shows "\<exists>q. clamp_drag_position p win ws strip = Inr q \<and> py q = py p
    \<and> strip \<le> min (px q + width win) (right ws) - max (px q) (rx ws)"
  using assms
  by (auto simp: clamp_drag_position_def right_def Let_def min_def max_def)

theorem clamp_drag_position_recoverable_witness:
  "let win = \<lparr>width = 40, height = 40\<rparr>; ws = \<lparr>rx = 0, ry = 0, rwidth = 100, rheight = 100\<rparr>
   in \<exists>q. clamp_drag_position \<lparr>px = 900, py = -70\<rparr> win ws 16 = Inr q \<and> py q = -70
        \<and> 16 \<le> min (px q + width win) (right ws) - max (px q) (rx ws)"
  using clamp_drag_position_recoverable [of 16 "\<lparr>width = 40, height = 40\<rparr>"
      "\<lparr>rx = 0, ry = 0, rwidth = 100, rheight = 100\<rparr>" "\<lparr>px = 900, py = -70\<rparr>"]
  by (simp add: Let_def)

end
