(* ===== verification/Motion.thy ===== *)
theory Motion
  imports Layered_State Geometry
begin

text \<open>
  The motion model of \<^verbatim>\<open>application/pet/pet_motion.py\<close>: position, velocities, landing timer
  and the layered state machine it drives. A method returns its result together with the
  model it leaves behind, because several methods assign before a later call can raise.
  \<^verbatim>\<open>self.state\<close> is a snapshot of the state machine and raises when that snapshot does.
\<close>

section \<open>State\<close>

record PetMotionConfig =
  gravity :: real
  landing_duration_seconds :: real
  walking_stride_pixels :: real
  walking_cycle_seconds :: real

definition mk_PetMotionConfig :: "real \<Rightarrow> real \<Rightarrow> real \<Rightarrow> real \<Rightarrow> PetMotionConfig res" where
  "mk_PetMotionConfig g ld stride cycle =
    raise_if (g \<le> 0 \<or> ld < 0 \<or> stride \<le> 0 \<or> cycle \<le> 0)
      (ValueError ''Pet motion configuration is invalid.'')
    (Inr \<lparr>gravity = g, landing_duration_seconds = ld, walking_stride_pixels = stride,
          walking_cycle_seconds = cycle\<rparr>)"

definition default_motion_config :: PetMotionConfig where
  "default_motion_config =
    \<lparr>gravity = 1800, landing_duration_seconds = 18 / 100, walking_stride_pixels = 24,
     walking_cycle_seconds = 8 / 10\<rparr>"

definition walking_speed :: "PetMotionConfig \<Rightarrow> real" where
  "walking_speed c = walking_stride_pixels c / walking_cycle_seconds c"

record PetMotionModel =
  mm_position :: Point
  mm_window_size :: Size
  mm_config :: PetMotionConfig
  mm_states :: PetLayeredStateMachine
  mm_vertical_velocity :: real
  mm_horizontal_velocity :: real
  mm_landing_elapsed :: real
  mm_pending_direction_turn :: "PetFacing option"

record PetMotionSnapshot =
  ms_state :: PetLayeredState
  ms_position :: Point
  ms_vertical_velocity :: real
  ms_horizontal_velocity :: real

definition new_motion_model ::
    "Point \<Rightarrow> Size \<Rightarrow> PetMotionConfig \<Rightarrow> PetLayeredStateMachine \<Rightarrow> PetMotionModel" where
  "new_motion_model p win c st =
    \<lparr>mm_position = p, mm_window_size = win, mm_config = c, mm_states = st,
     mm_vertical_velocity = 0, mm_horizontal_velocity = 0, mm_landing_elapsed = 0,
     mm_pending_direction_turn = None\<rparr>"

definition mstate :: "PetMotionModel \<Rightarrow> PetLayeredState res" where
  "mstate m = snapshot (mm_states m)"

definition msnapshot :: "PetMotionModel \<Rightarrow> (PetMotionSnapshot, PetMotionModel) sres" where
  "msnapshot m =
    with_res (mstate m) m (\<lambda>s.
      (Inr \<lparr>ms_state = s, ms_position = mm_position m,
            ms_vertical_velocity = mm_vertical_velocity m,
            ms_horizontal_velocity = mm_horizontal_velocity m\<rparr>, m))"

definition accepts_interaction :: "PetMotionModel \<Rightarrow> bool res" where
  "accepts_interaction m =
    ebind (mstate m) (\<lambda>s. Inr (lifecycle s \<noteq> PetLifecycleState.CLOSING))"

definition ground_y :: "Rect \<Rightarrow> Size \<Rightarrow> real" where
  "ground_y ws win = max (ry ws) (bottom ws - height win)"

section \<open>Operations\<close>

definition commit_state_transition ::
    "ProposedStateTransition \<Rightarrow> PetMotionModel \<Rightarrow> (unit, PetMotionModel) sres" where
  "commit_state_transition p m =
    with_res (commit (mm_states m) p) m (\<lambda>st.
      let target = target_state p;
          speed = walking_speed (mm_config m);
          m1 = m\<lparr>mm_states := st,
                 mm_horizontal_velocity :=
                   (if motion target = PetMotionState.WALKING_LEFT then - speed
                    else if motion target = PetMotionState.WALKING_RIGHT then speed
                    else 0)\<rparr>
      in (Inr (),
          if lifecycle target \<noteq> PetLifecycleState.ACTIVE
             \<or> motion target \<in> {PetMotionState.DRAGGING, PetMotionState.FALLING}
          then m1\<lparr>mm_vertical_velocity := 0, mm_landing_elapsed := 0\<rparr> else m1))"

definition motion_start_dragging :: "PetMotionModel \<Rightarrow> (unit, PetMotionModel) sres" where
  "motion_start_dragging m =
    with_res (accepts_interaction m) m (\<lambda>ok.
    if \<not> ok then (Inl PetStateTransitionError, m)
    else with_res (start_dragging (mm_states m)) m (\<lambda>st.
      (Inr (), m\<lparr>mm_states := st, mm_vertical_velocity := 0, mm_horizontal_velocity := 0,
                 mm_landing_elapsed := 0\<rparr>)))"

definition drag_to ::
    "Point \<Rightarrow> Rect list \<Rightarrow> PetMotionModel \<Rightarrow> (PetMotionSnapshot, PetMotionModel) sres" where
  "drag_to p workspaces m =
    with_res (mstate m) m (\<lambda>s.
    if motion s \<noteq> PetMotionState.DRAGGING then (Inl PetStateTransitionError, m)
    else with_res (select_workspace p (mm_window_size m) workspaces) m (\<lambda>ws.
      with_res (clamp_drag_position p (mm_window_size m) ws 16) m (\<lambda>q.
      msnapshot (m\<lparr>mm_position := q\<rparr>))))"

text \<open>The position a drag is released at, when the caller supplies the displays.\<close>

definition release_position :: "Rect \<Rightarrow> PetLayeredState \<Rightarrow> PetMotionModel \<Rightarrow> Point" where
  "release_position ws s m =
    (let p = mm_position m; win = mm_window_size m;
         maximum_x = max (rx ws) (right ws - width win);
         released_x = min (max (px p) (rx ws)) maximum_x
     in if lifecycle s = PetLifecycleState.PAUSED
        then clamp_window_position \<lparr>px = released_x, py = py p\<rparr> win ws
        else \<lparr>px = released_x,
              py = (if py p + height win \<ge> bottom ws then ground_y ws win else py p)\<rparr>)"

definition finish_release ::
    "Rect option \<Rightarrow> PetMotionModel \<Rightarrow> (PetMotionSnapshot, PetMotionModel) sres" where
  "finish_release ws m =
    with_res (release_drag (mm_states m)) m (\<lambda>st.
    let m2 = m\<lparr>mm_states := st, mm_vertical_velocity := 0, mm_horizontal_velocity := 0,
               mm_landing_elapsed := 0\<rparr>
    in case ws of
         None \<Rightarrow> msnapshot m2
       | Some w \<Rightarrow>
           with_res (mstate m2) m2 (\<lambda>s.
           if lifecycle s = PetLifecycleState.ACTIVE
              \<and> py (mm_position m2) + height (mm_window_size m2) \<ge> bottom w
           then with_res (land (mm_states m2)) m2 (\<lambda>st'. msnapshot (m2\<lparr>mm_states := st'\<rparr>))
           else msnapshot m2))"

definition motion_release_drag ::
    "Rect list option \<Rightarrow> PetMotionModel \<Rightarrow> (PetMotionSnapshot, PetMotionModel) sres" where
  "motion_release_drag workspaces m =
    (case workspaces of
       None \<Rightarrow> finish_release None m
     | Some wss \<Rightarrow>
         with_res (select_workspace (mm_position m) (mm_window_size m) wss) m (\<lambda>ws.
         with_res (mstate m) m (\<lambda>s.
         finish_release (Some ws) (m\<lparr>mm_position := release_position ws s m\<rparr>))))"

definition motion_start_falling :: "PetMotionModel \<Rightarrow> (unit, PetMotionModel) sres" where
  "motion_start_falling m =
    with_res (start_falling (mm_states m)) m (\<lambda>st.
      (Inr (), m\<lparr>mm_states := st, mm_vertical_velocity := 0, mm_horizontal_velocity := 0\<rparr>))"

definition motion_pause :: "PetMotionModel \<Rightarrow> (unit, PetMotionModel) sres" where
  "motion_pause m =
    with_res (pause (mm_states m)) m (\<lambda>st.
      (Inr (), m\<lparr>mm_states := st, mm_vertical_velocity := 0, mm_horizontal_velocity := 0\<rparr>))"

definition motion_resume :: "PetMotionModel \<Rightarrow> (unit, PetMotionModel) sres" where
  "motion_resume m =
    with_res (resume (mm_states m)) m (\<lambda>st. (Inr (), m\<lparr>mm_states := st\<rparr>))"

definition motion_begin_closing :: "PetMotionModel \<Rightarrow> (unit, PetMotionModel) sres" where
  "motion_begin_closing m =
    with_res (begin_closing (mm_states m)) m (\<lambda>st.
      (Inr (), m\<lparr>mm_states := st, mm_vertical_velocity := 0, mm_horizontal_velocity := 0\<rparr>))"

definition motion_recover_failed_close :: "PetMotionModel \<Rightarrow> (unit, PetMotionModel) sres" where
  "motion_recover_failed_close m =
    with_res (recover_failed_close (mm_states m)) m (\<lambda>st. (Inr (), m\<lparr>mm_states := st\<rparr>))"

definition motion_start_walking ::
    "PetFacing \<Rightarrow> PetMotionModel \<Rightarrow> (unit, PetMotionModel) sres" where
  "motion_start_walking direction m =
    with_res (start_walking direction (mm_states m)) m (\<lambda>st.
      (Inr (), m\<lparr>mm_states := st,
                 mm_horizontal_velocity :=
                   (if direction = PetFacing.LEFT then - walking_speed (mm_config m)
                    else walking_speed (mm_config m))\<rparr>))"

definition motion_stop_walking :: "PetMotionModel \<Rightarrow> (unit, PetMotionModel) sres" where
  "motion_stop_walking m =
    with_res (stop_walking (mm_states m)) m (\<lambda>st.
      (Inr (), m\<lparr>mm_states := st, mm_horizontal_velocity := 0\<rparr>))"

definition take_pending_direction_turn :: "PetMotionModel \<Rightarrow> PetFacing option \<times> PetMotionModel" where
  "take_pending_direction_turn m =
    (mm_pending_direction_turn m, m\<lparr>mm_pending_direction_turn := None\<rparr>)"

definition constrain ::
    "Rect list \<Rightarrow> PetMotionModel \<Rightarrow> (PetMotionSnapshot, PetMotionModel) sres" where
  "constrain workspaces m =
    with_res (select_workspace (mm_position m) (mm_window_size m) workspaces) m (\<lambda>ws.
    let clamped = clamp_window_position (mm_position m) (mm_window_size m) ws
    in with_res (mstate m) m (\<lambda>s.
       msnapshot (m\<lparr>mm_position :=
         (if lifecycle s = PetLifecycleState.ACTIVE \<and> motion s = PetMotionState.IDLE
          then \<lparr>px = px clamped, py = ground_y ws (mm_window_size m)\<rparr>
          else clamped)\<rparr>)))"

text \<open>\<^verbatim>\<open>math.isclose\<close> with its default relative tolerance \<open>1e-9\<close> and no absolute one.\<close>

definition isclose :: "real \<Rightarrow> real \<Rightarrow> bool" where
  "isclose a b \<longleftrightarrow> a = b \<or> \<bar>a - b\<bar> \<le> max \<bar>a\<bar> \<bar>b\<bar> / 1000000000"

definition place_for_render_layout ::
    "pyfloat \<Rightarrow> pyfloat \<Rightarrow> Rect \<Rightarrow> PetMotionModel \<Rightarrow> (PetMotionSnapshot, PetMotionModel) sres" where
  "place_for_render_layout x y ws m =
    with_res (mstate m) m (\<lambda>s.
    if lifecycle s \<noteq> PetLifecycleState.ACTIVE \<or> motion s \<noteq> PetMotionState.IDLE
    then (Inl PetStateTransitionError, m)
    else if \<not> (isfinite x \<and> isfinite y)
    then (Inl (ValueError ''Render-layout position must be finite.''), m)
    else let p = \<lparr>px = float_value x, py = float_value y\<rparr>; win = mm_window_size m in
    if \<not> isclose (py p) (py (mm_position m))
    then (Inl (ValueError ''Render-layout placement must not change the vertical position.''), m)
    else if \<not> (px p \<ge> rx ws \<and> px p + width win \<le> right ws
               \<and> py p \<ge> ry ws \<and> py p + height win \<le> bottom ws)
    then (Inl (ValueError ''Render-layout placement must keep the window inside the workspace.''), m)
    else msnapshot (m\<lparr>mm_position := p\<rparr>))"

definition restore_position ::
    "Point \<Rightarrow> Rect list \<Rightarrow> PetMotionModel \<Rightarrow> (PetMotionSnapshot, PetMotionModel) sres" where
  "restore_position p workspaces m =
    with_res (select_workspace p (mm_window_size m) workspaces) m (\<lambda>ws.
    msnapshot (m\<lparr>mm_position := \<lparr>px = px (clamp_window_position p (mm_window_size m) ws),
                                  py = ground_y ws (mm_window_size m)\<rparr>,
                 mm_vertical_velocity := 0, mm_horizontal_velocity := 0,
                 mm_landing_elapsed := 0\<rparr>))"

definition update_walking ::
    "real \<Rightarrow> Rect list \<Rightarrow> PetMotionModel \<Rightarrow> (PetMotionSnapshot, PetMotionModel) sres" where
  "update_walking elapsed workspaces m =
    with_res (select_workspace (mm_position m) (mm_window_size m) workspaces) m (\<lambda>ws.
    with_res (mstate m) m (\<lambda>s.
    let moving_left = (motion s = PetMotionState.WALKING_LEFT);
        candidate = \<lparr>px = px (mm_position m) + mm_horizontal_velocity m * elapsed,
                     py = py (mm_position m)\<rparr>;
        clamped = clamp_window_position candidate (mm_window_size m) ws;
        m1 = m\<lparr>mm_position := clamped\<rparr>
    in msnapshot
         (if px clamped \<noteq> px candidate
          then m1\<lparr>mm_horizontal_velocity := 0,
                  mm_pending_direction_turn :=
                    Some (if moving_left then PetFacing.RIGHT else PetFacing.LEFT)\<rparr>
          else m1)))"

definition update_landing ::
    "real \<Rightarrow> PetMotionModel \<Rightarrow> (PetMotionSnapshot, PetMotionModel) sres" where
  "update_landing elapsed m =
    (let m1 = m\<lparr>mm_landing_elapsed := mm_landing_elapsed m + elapsed\<rparr>
     in if mm_landing_elapsed m1 \<ge> landing_duration_seconds (mm_config m1)
        then with_res (finish_landing (mm_states m1)) m1 (\<lambda>st.
               msnapshot (m1\<lparr>mm_states := st, mm_landing_elapsed := 0\<rparr>))
        else msnapshot m1)"

definition update_falling ::
    "real \<Rightarrow> Rect list \<Rightarrow> PetMotionModel \<Rightarrow> (PetMotionSnapshot, PetMotionModel) sres" where
  "update_falling elapsed workspaces m =
    with_res (select_workspace (mm_position m) (mm_window_size m) workspaces) m (\<lambda>ws.
    let vv = mm_vertical_velocity m + gravity (mm_config m) * elapsed;
        candidate = \<lparr>px = px (mm_position m), py = py (mm_position m) + vv * elapsed\<rparr>;
        clamped = clamp_window_position candidate (mm_window_size m) ws;
        ground = ground_y ws (mm_window_size m);
        m1 = m\<lparr>mm_vertical_velocity := vv, mm_position := clamped\<rparr>
    in if py candidate \<ge> ground
       then let m2 = m1\<lparr>mm_position := \<lparr>px = px clamped, py = ground\<rparr>,
                        mm_vertical_velocity := 0, mm_landing_elapsed := 0\<rparr>
            in with_res (land (mm_states m2)) m2 (\<lambda>st. msnapshot (m2\<lparr>mm_states := st\<rparr>))
       else msnapshot m1)"

definition update ::
    "real \<Rightarrow> Rect list \<Rightarrow> PetMotionModel \<Rightarrow> (PetMotionSnapshot, PetMotionModel) sres" where
  "update elapsed workspaces m =
    (if elapsed < 0 then (Inl (ValueError ''Elapsed time must not be negative.''), m)
     else with_res (mstate m) m (\<lambda>s.
       if lifecycle s \<noteq> PetLifecycleState.ACTIVE then constrain workspaces m
       else if motion s = PetMotionState.IDLE then constrain workspaces m
       else if motion s = PetMotionState.DRAGGING then msnapshot m
       else if motion s \<in> {PetMotionState.WALKING_LEFT, PetMotionState.WALKING_RIGHT}
       then update_walking elapsed workspaces m
       else if motion s = PetMotionState.LANDING then update_landing elapsed m
       else update_falling elapsed workspaces m))"

section \<open>Invariant\<close>

definition config_ok :: "PetMotionConfig \<Rightarrow> bool" where
  "config_ok c \<longleftrightarrow> 0 < gravity c \<and> 0 \<le> landing_duration_seconds c \<and>
     0 < walking_stride_pixels c \<and> 0 < walking_cycle_seconds c"

definition motion_inv :: "PetMotionModel \<Rightarrow> bool" where
  "motion_inv m \<longleftrightarrow> sm_valid (mm_states m) \<and> size_ok (mm_window_size m) \<and>
     config_ok (mm_config m) \<and> 0 \<le> mm_vertical_velocity m \<and> 0 \<le> mm_landing_elapsed m"

abbreviation lifecycle_of :: "PetMotionModel \<Rightarrow> PetLifecycleState" where
  "lifecycle_of m \<equiv> sm_lifecycle (mm_states m)"

abbreviation motion_of :: "PetMotionModel \<Rightarrow> PetMotionState" where
  "motion_of m \<equiv> sm_motion (mm_states m)"

definition snapshot_of :: "PetMotionModel \<Rightarrow> PetMotionSnapshot" where
  "snapshot_of m =
    \<lparr>ms_state = raw_state (mm_states m), ms_position = mm_position m,
     ms_vertical_velocity = mm_vertical_velocity m,
     ms_horizontal_velocity = mm_horizontal_velocity m\<rparr>"

lemma mk_PetMotionConfig_iff:
  "mk_PetMotionConfig g ld st cy = Inr c \<longleftrightarrow>
     c = \<lparr>gravity = g, landing_duration_seconds = ld, walking_stride_pixels = st,
          walking_cycle_seconds = cy\<rparr> \<and> config_ok c"
  by (auto simp: mk_PetMotionConfig_def config_ok_def)

lemma mstate_valid [simp]: "sm_valid (mm_states m) \<Longrightarrow> mstate m = Inr (raw_state (mm_states m))"
  by (simp add: mstate_def snapshot_valid)

lemma msnapshot_valid [simp]: "sm_valid (mm_states m) \<Longrightarrow> msnapshot m = (Inr (snapshot_of m), m)"
  by (simp add: msnapshot_def snapshot_of_def)

lemma motion_inv_valid: "motion_inv m \<Longrightarrow> sm_valid (mm_states m)"
  by (simp add: motion_inv_def)

lemma select_for_model:
  assumes "motion_inv m" and "wss \<noteq> []"
  obtains ws where "select_workspace p (mm_window_size m) wss = Inr ws" and "ws \<in> set wss"
  using pet_geometry.select_ok [OF assms(2)] assms(1) by (auto simp: motion_inv_def)

text \<open>
  The summary of one \<open>update\<close> that the later proofs use: it returns, its snapshot is the
  new model's, the invariant holds, and only the listed motion changes happen.
\<close>

definition update_summary :: "PetMotionModel \<Rightarrow> (PetMotionSnapshot, PetMotionModel) sres \<Rightarrow> bool" where
  "update_summary m r \<longleftrightarrow>
     (\<exists>m'. r = (Inr (snapshot_of m'), m') \<and> motion_inv m' \<and>
        mm_window_size m' = mm_window_size m \<and> mm_config m' = mm_config m \<and>
        lifecycle_of m' = lifecycle_of m \<and>
        (motion_of m' = motion_of m \<or>
         motion_of m = PetMotionState.FALLING \<and> motion_of m' = PetMotionState.LANDING \<or>
         motion_of m = PetMotionState.LANDING \<and> motion_of m' = PetMotionState.IDLE))"

lemma constrain_eq:
  assumes "motion_inv m" and "select_workspace (mm_position m) (mm_window_size m) wss = Inr ws"
  defines "c \<equiv> clamp_window_position (mm_position m) (mm_window_size m) ws"
  defines "m' \<equiv> m\<lparr>mm_position :=
      (if lifecycle_of m = PetLifecycleState.ACTIVE \<and> motion_of m = PetMotionState.IDLE
       then \<lparr>px = px c, py = ground_y ws (mm_window_size m)\<rparr> else c)\<rparr>"
  shows "constrain wss m = (Inr (snapshot_of m'), m')"
  using assms(1,2) by (simp add: constrain_def c_def m'_def motion_inv_def Let_def)

lemma constrain_summary:
  assumes "motion_inv m" and "wss \<noteq> []"
  shows "update_summary m (constrain wss m)"
proof -
  obtain ws where "select_workspace (mm_position m) (mm_window_size m) wss = Inr ws"
    by (rule select_for_model [OF assms])
  from constrain_eq [OF assms(1) this] show ?thesis
    using assms(1) by (auto simp: update_summary_def motion_inv_def)
qed

lemma walking_summary:
  assumes "motion_inv m" and "wss \<noteq> []"
  shows "update_summary m (update_walking dt wss m)"
proof -
  obtain ws where "select_workspace (mm_position m) (mm_window_size m) wss = Inr ws"
    by (rule select_for_model [OF assms])
  then show ?thesis
    using assms(1) by (auto simp: update_summary_def update_walking_def motion_inv_def Let_def)
qed

lemma landing_summary:
  assumes "motion_inv m" and "0 \<le> dt" and "lifecycle_of m = PetLifecycleState.ACTIVE"
    and "motion_of m = PetMotionState.LANDING"
  shows "update_summary m (update_landing dt m)"
proof -
  obtain st where st: "finish_landing (mm_states m) = Inr st" "sm_lifecycle st = lifecycle_of m"
      "sm_motion st = PetMotionState.IDLE"
    using assms by (simp add: finish_landing_def machine_helpers)
  have "sm_valid st" by (rule establish_valid(7) [OF st(1)])
  with st show ?thesis
    using assms by (auto simp: update_summary_def update_landing_def motion_inv_def Let_def)
qed

lemma land_ok:
  assumes "lifecycle_of m = PetLifecycleState.ACTIVE" and "motion_of m = PetMotionState.FALLING"
  obtains st where "land (mm_states m) = Inr st" and "sm_lifecycle st = PetLifecycleState.ACTIVE"
    and "sm_motion st = PetMotionState.LANDING" and "sm_valid st"
proof -
  obtain st where st: "land (mm_states m) = Inr st" "sm_lifecycle st = PetLifecycleState.ACTIVE"
      "sm_motion st = PetMotionState.LANDING"
    using assms by (simp add: land_def machine_helpers)
  with establish_valid(6) [OF st(1)] show thesis by (intro that) simp_all
qed

text \<open>One fall step against the selected display, in closed form.\<close>

definition fall_velocity :: "real \<Rightarrow> PetMotionModel \<Rightarrow> real" where
  "fall_velocity dt m = mm_vertical_velocity m + gravity (mm_config m) * dt"

lemma falling_cases:
  assumes "motion_inv m" and "0 \<le> dt" and "lifecycle_of m = PetLifecycleState.ACTIVE"
    and "motion_of m = PetMotionState.FALLING"
    and "select_workspace (mm_position m) (mm_window_size m) wss = Inr ws"
  defines "y' \<equiv> py (mm_position m) + fall_velocity dt m * dt"
  defines "c \<equiv> clamp_window_position \<lparr>px = px (mm_position m), py = y'\<rparr> (mm_window_size m) ws"
  shows "\<exists>m'. update_falling dt wss m = (Inr (snapshot_of m'), m') \<and> motion_inv m' \<and>
     mm_window_size m' = mm_window_size m \<and> mm_config m' = mm_config m \<and>
     lifecycle_of m' = PetLifecycleState.ACTIVE \<and>
     (if ground_y ws (mm_window_size m) \<le> y'
      then motion_of m' = PetMotionState.LANDING \<and>
           mm_position m' = \<lparr>px = px c, py = ground_y ws (mm_window_size m)\<rparr> \<and>
           mm_vertical_velocity m' = 0
      else motion_of m' = PetMotionState.FALLING \<and> mm_position m' = c \<and>
           mm_vertical_velocity m' = fall_velocity dt m)"
proof -
  obtain st where st: "land (mm_states m) = Inr st" "sm_lifecycle st = PetLifecycleState.ACTIVE"
      "sm_motion st = PetMotionState.LANDING" "sm_valid st"
    by (rule land_ok [OF assms(3,4)])
  have "0 \<le> fall_velocity dt m"
    using assms(1,2) by (simp add: fall_velocity_def motion_inv_def config_ok_def)
  then show ?thesis
    using assms(1,3,4,5) st
    by (auto simp: update_falling_def motion_inv_def Let_def fall_velocity_def y'_def c_def)
qed

lemma update_dispatch:
  assumes "motion_inv m" and "0 \<le> dt"
  shows "update dt wss m =
    (if lifecycle_of m \<noteq> PetLifecycleState.ACTIVE \<or> motion_of m = PetMotionState.IDLE
     then constrain wss m
     else if motion_of m = PetMotionState.DRAGGING then (Inr (snapshot_of m), m)
     else if motion_of m \<in> {PetMotionState.WALKING_LEFT, PetMotionState.WALKING_RIGHT}
     then update_walking dt wss m
     else if motion_of m = PetMotionState.LANDING then update_landing dt m
     else update_falling dt wss m)"
  using assms by (auto simp: update_def motion_inv_def)

definition steady_motion :: "PetMotionModel \<Rightarrow> bool" where
  "steady_motion m \<longleftrightarrow>
     \<not> (lifecycle_of m = PetLifecycleState.ACTIVE \<and>
        motion_of m \<in> {PetMotionState.RUNNING_LEFT, PetMotionState.RUNNING_RIGHT})"

lemma update_summary_refl: "motion_inv m \<Longrightarrow> update_summary m (Inr (snapshot_of m), m)"
  by (auto simp: update_summary_def)

lemma update_ok:
  assumes "motion_inv m" and "0 \<le> dt" and "wss \<noteq> []" and "steady_motion m"
  shows "update_summary m (update dt wss m)"
proof (cases "lifecycle_of m \<noteq> PetLifecycleState.ACTIVE \<or> motion_of m = PetMotionState.IDLE")
  case True
  then show ?thesis using assms constrain_summary by (simp add: update_dispatch)
next
  case False
  obtain ws where ws: "select_workspace (mm_position m) (mm_window_size m) wss = Inr ws"
    by (rule select_for_model [OF assms(1,3)])
  show ?thesis
  proof (cases "motion_of m = PetMotionState.FALLING")
    case True
    with False have "lifecycle_of m = PetLifecycleState.ACTIVE" by simp
    from falling_cases [OF assms(1,2) this True ws] show ?thesis
      using False True assms
      by (auto simp: update_dispatch update_summary_def split: if_splits)
  next
    case notfalling: False
    then show ?thesis
      using False assms walking_summary landing_summary update_summary_refl
      by (cases "motion_of m") (auto simp: update_dispatch steady_motion_def)
  qed
qed

section \<open>Staying on screen\<close>

lemma ground_y_fits: "fits win ws \<Longrightarrow> ground_y ws win = bottom ws - height win"
  by (simp add: ground_y_def fits_def bottom_def)

lemma grounded_inside:
  "fits win ws \<Longrightarrow> inside \<lparr>px = px (clamp_window_position p win ws), py = ground_y ws win\<rparr> win ws"
  using clamp_window_inside [of win ws p] by (auto simp: inside_def ground_y_fits bottom_def fits_def)

lemma update_inside:
  assumes "motion_inv m" and "0 \<le> dt" and "wss \<noteq> []" and "steady_motion m"
    and fit: "\<forall>ws \<in> set wss. fits (mm_window_size m) ws"
    and "lifecycle_of m \<noteq> PetLifecycleState.ACTIVE \<or>
         motion_of m \<notin> {PetMotionState.DRAGGING, PetMotionState.LANDING}"
  shows "\<exists>ws \<in> set wss. inside (mm_position (snd (update dt wss m))) (mm_window_size m) ws"
proof -
  obtain ws where ws: "select_workspace (mm_position m) (mm_window_size m) wss = Inr ws" "ws \<in> set wss"
    by (rule select_for_model [OF assms(1,3)])
  have f: "fits (mm_window_size m) ws" using fit ws(2) by blast
  show ?thesis
  proof (cases "lifecycle_of m \<noteq> PetLifecycleState.ACTIVE \<or> motion_of m = PetMotionState.IDLE")
    case True
    then have "inside (mm_position (snd (update dt wss m))) (mm_window_size m) ws"
      using constrain_eq [OF assms(1) ws(1)] grounded_inside [OF f] clamp_window_inside [OF f]
      by (simp add: update_dispatch [OF assms(1,2)])
    with ws(2) show ?thesis by blast
  next
    case act: False
    have "inside (mm_position (snd (update dt wss m))) (mm_window_size m) ws"
    proof (cases "motion_of m = PetMotionState.FALLING")
      case True
      with act have "lifecycle_of m = PetLifecycleState.ACTIVE" by simp
      from falling_cases [OF assms(1,2) this True ws(1)] show ?thesis
        using act True grounded_inside [OF f] clamp_window_inside [OF f]
        by (auto simp: update_dispatch [OF assms(1,2)] split: if_splits)
    next
      case False
      then have "motion_of m \<in> {PetMotionState.WALKING_LEFT, PetMotionState.WALKING_RIGHT}"
        using act assms(4,6) by (cases "motion_of m") (auto simp: steady_motion_def)
      then show ?thesis
        using act ws(1) assms(1) clamp_window_inside [OF f]
        by (auto simp: update_dispatch [OF assms(1,2)] update_walking_def motion_inv_def Let_def)
    qed
    with ws(2) show ?thesis by blast
  qed
qed

section \<open>Falls end\<close>

fun update_n :: "nat \<Rightarrow> real \<Rightarrow> Rect list \<Rightarrow> PetMotionModel \<Rightarrow> PetMotionModel" where
  "update_n 0 dt wss m = m"
| "update_n (Suc n) dt wss m = update_n n dt wss (snd (update dt wss m))"

lemma update_n_add: "update_n (i + j) dt wss m = update_n j dt wss (update_n i dt wss m)"
  by (induction i arbitrary: m) simp_all

lemma select_single:
  "size_ok win \<Longrightarrow> select_workspace p win [ws] = Inr ws"
  using select_workspace_props(1) [of p win "[ws]"] select_workspace_Inr_iff [of p win "[ws]"]
  by (auto simp: is_ok_iff)

definition landed :: "Rect \<Rightarrow> PetMotionModel \<Rightarrow> PetMotionModel \<Rightarrow> bool" where
  "landed ws m m' \<longleftrightarrow> motion_inv m' \<and> lifecycle_of m' = PetLifecycleState.ACTIVE \<and>
     motion_of m' = PetMotionState.LANDING \<and> py (mm_position m') = ground_y ws (mm_window_size m) \<and>
     mm_window_size m' = mm_window_size m \<and> mm_config m' = mm_config m"

lemma clamp_window_py_ge:
  "py p < ground_y ws win \<Longrightarrow> py p \<le> py (clamp_window_position p win ws)"
  by (simp add: clamp_window_position_def ground_y_def Let_def)

lemma fall_step:
  fixes ws :: Rect
  assumes "motion_inv m" and "0 < dt" and "lifecycle_of m = PetLifecycleState.ACTIVE"
    and "motion_of m = PetMotionState.FALLING"
  defines "m' \<equiv> snd (update dt [ws] m)"
  shows "landed ws m m' \<or>
    (motion_inv m' \<and> lifecycle_of m' = PetLifecycleState.ACTIVE \<and>
     motion_of m' = PetMotionState.FALLING \<and>
     mm_window_size m' = mm_window_size m \<and> mm_config m' = mm_config m \<and>
     py (mm_position m) < ground_y ws (mm_window_size m) \<and>
     py (mm_position m') \<ge> py (mm_position m) + gravity (mm_config m) * dt\<^sup>2)"
proof -
  have sel: "select_workspace (mm_position m) (mm_window_size m) [ws] = Inr ws"
    using assms(1) by (intro select_single) (simp add: motion_inv_def)
  have "0 \<le> mm_vertical_velocity m * dt" and g: "0 \<le> gravity (mm_config m) * dt\<^sup>2"
    using assms(1,2) by (auto simp: motion_inv_def config_ok_def)
  then have y': "py (mm_position m) + fall_velocity dt m * dt
      \<ge> py (mm_position m) + gravity (mm_config m) * dt\<^sup>2"
    by (simp add: fall_velocity_def algebra_simps power2_eq_square)
  let ?y = "py (mm_position m) + fall_velocity dt m * dt"
  let ?c = "clamp_window_position \<lparr>px = px (mm_position m), py = ?y\<rparr> (mm_window_size m) ws"
  have "update dt [ws] m = update_falling dt [ws] m"
    using assms(1-4) by (simp add: update_dispatch)
  with falling_cases [OF assms(1) _ assms(3,4) sel, of dt] assms(2)
  have m': "motion_inv m'" "mm_window_size m' = mm_window_size m" "mm_config m' = mm_config m"
      "lifecycle_of m' = PetLifecycleState.ACTIVE"
      "if ground_y ws (mm_window_size m) \<le> ?y
       then motion_of m' = PetMotionState.LANDING \<and>
            mm_position m' = \<lparr>px = px ?c, py = ground_y ws (mm_window_size m)\<rparr>
       else motion_of m' = PetMotionState.FALLING \<and> mm_position m' = ?c"
    unfolding m'_def by (auto split: if_splits)
  show ?thesis
  proof (cases "ground_y ws (mm_window_size m) \<le> ?y")
    case True
    with m' show ?thesis by (simp add: landed_def)
  next
    case False
    then have "?y \<le> py ?c" using clamp_window_py_ge [of "\<lparr>px = px (mm_position m), py = ?y\<rparr>"] by simp
    with False m' y' g show ?thesis by simp
  qed
qed

lemma fall_lands:
  assumes "motion_inv m" and "0 < dt" and "lifecycle_of m = PetLifecycleState.ACTIVE"
    and "motion_of m = PetMotionState.FALLING"
    and "ground_y ws (mm_window_size m) - py (mm_position m) \<le> real k * (gravity (mm_config m) * dt\<^sup>2)"
  shows "\<exists>n \<le> Suc k. landed ws m (update_n n dt [ws] m)"
  using assms
proof (induction k arbitrary: m)
  case 0
  from fall_step [OF 0(1-4), of ws] 0(5) have "landed ws m (update_n 1 dt [ws] m)" by auto
  then show ?case by (intro exI [of _ 1]) simp
next
  case (Suc k)
  let ?m = "snd (update dt [ws] m)"
  from fall_step [OF Suc.prems(1-4), of ws] show ?case
  proof
    assume "landed ws m ?m"
    then have "landed ws m (update_n 1 dt [ws] m)" by simp
    then show ?case by (intro exI [of _ 1]) simp
  next
    assume h: "motion_inv ?m \<and> lifecycle_of ?m = PetLifecycleState.ACTIVE \<and>
      motion_of ?m = PetMotionState.FALLING \<and>
      mm_window_size ?m = mm_window_size m \<and> mm_config ?m = mm_config m \<and>
      py (mm_position m) < ground_y ws (mm_window_size m) \<and>
      py (mm_position ?m) \<ge> py (mm_position m) + gravity (mm_config m) * dt\<^sup>2"
    then have "ground_y ws (mm_window_size ?m) - py (mm_position ?m)
        \<le> real k * (gravity (mm_config ?m) * dt\<^sup>2)"
      using Suc.prems(5) by (simp add: algebra_simps)
    with Suc.IH [of ?m] h Suc.prems(2) obtain n where
        n: "n \<le> Suc k" "landed ws ?m (update_n n dt [ws] ?m)" by blast
    then have "landed ws m (update_n (Suc n) dt [ws] m)" using h by (simp add: landed_def)
    then show ?case using n(1) by (intro exI [of _ "Suc n"]) simp
  qed
qed

definition settled :: "PetMotionModel \<Rightarrow> PetMotionModel \<Rightarrow> bool" where
  "settled m m' \<longleftrightarrow> motion_inv m' \<and> motion_of m' = PetMotionState.IDLE \<and>
     mm_position m' = mm_position m"

lemma landing_step:
  fixes wss :: "Rect list"
  assumes "motion_inv m" and "0 < dt" and "lifecycle_of m = PetLifecycleState.ACTIVE"
    and "motion_of m = PetMotionState.LANDING"
  defines "m' \<equiv> snd (update dt wss m)"
  shows "settled m m' \<or>
    (motion_inv m' \<and> lifecycle_of m' = PetLifecycleState.ACTIVE \<and>
     motion_of m' = PetMotionState.LANDING \<and> mm_position m' = mm_position m \<and>
     mm_config m' = mm_config m \<and>
     mm_landing_elapsed m < landing_duration_seconds (mm_config m) \<and>
     mm_landing_elapsed m' = mm_landing_elapsed m + dt)"
proof -
  have u: "update dt wss m = update_landing dt m"
    using assms(1-4) by (simp add: update_dispatch)
  obtain st where st: "finish_landing (mm_states m) = Inr st" "sm_motion st = PetMotionState.IDLE"
    using assms(3,4) by (simp add: finish_landing_def machine_helpers)
  have "sm_valid st" by (rule establish_valid(7) [OF st(1)])
  then show ?thesis
    using assms(1-4) st unfolding m'_def u settled_def
    by (auto simp: update_landing_def motion_inv_def Let_def)
qed

lemma landing_ends:
  assumes "motion_inv m" and "0 < dt" and "lifecycle_of m = PetLifecycleState.ACTIVE"
    and "motion_of m = PetMotionState.LANDING"
    and "landing_duration_seconds (mm_config m) - mm_landing_elapsed m \<le> real k * dt"
  shows "\<exists>n \<le> Suc k. settled m (update_n n dt wss m)"
  using assms
proof (induction k arbitrary: m)
  case 0
  from landing_step [OF 0(1-4), of wss] 0(5) have "settled m (update_n 1 dt wss m)" by auto
  then show ?case by (intro exI [of _ 1]) simp
next
  case (Suc k)
  let ?m = "snd (update dt wss m)"
  from landing_step [OF Suc.prems(1-4), of wss] show ?case
  proof
    assume "settled m ?m"
    then have "settled m (update_n 1 dt wss m)" by simp
    then show ?case by (intro exI [of _ 1]) simp
  next
    assume h: "motion_inv ?m \<and> lifecycle_of ?m = PetLifecycleState.ACTIVE \<and>
      motion_of ?m = PetMotionState.LANDING \<and> mm_position ?m = mm_position m \<and>
      mm_config ?m = mm_config m \<and>
      mm_landing_elapsed m < landing_duration_seconds (mm_config m) \<and>
      mm_landing_elapsed ?m = mm_landing_elapsed m + dt"
    then have "landing_duration_seconds (mm_config ?m) - mm_landing_elapsed ?m \<le> real k * dt"
      using Suc.prems(5) by (simp add: algebra_simps)
    with Suc.IH [of ?m] h Suc.prems(2) obtain n where
        n: "n \<le> Suc k" "settled ?m (update_n n dt wss ?m)" by blast
    then have "settled m (update_n (Suc n) dt wss m)" using h by (simp add: settled_def)
    then show ?case using n(1) by (intro exI [of _ "Suc n"]) simp
  qed
qed

section \<open>Every operation keeps the invariant, raising or not\<close>

datatype motion_op =
    MStartDragging | MDragTo Point "Rect list" | MReleaseDrag "Rect list option" | MStartFalling
  | MPause | MResume | MBeginClosing | MRecoverFailedClose | MStartWalking PetFacing
  | MStopWalking | MTakeTurn | MConstrain "Rect list" | MPlace pyfloat pyfloat Rect
  | MRestore Point "Rect list" | MUpdate real "Rect list" | MTransition propose_args

fun motion_exec :: "motion_op \<Rightarrow> PetMotionModel \<Rightarrow> PetMotionModel" where
  "motion_exec MStartDragging m = snd (motion_start_dragging m)"
| "motion_exec (MDragTo p wss) m = snd (drag_to p wss m)"
| "motion_exec (MReleaseDrag wss) m = snd (motion_release_drag wss m)"
| "motion_exec MStartFalling m = snd (motion_start_falling m)"
| "motion_exec MPause m = snd (motion_pause m)"
| "motion_exec MResume m = snd (motion_resume m)"
| "motion_exec MBeginClosing m = snd (motion_begin_closing m)"
| "motion_exec MRecoverFailedClose m = snd (motion_recover_failed_close m)"
| "motion_exec (MStartWalking d) m = snd (motion_start_walking d m)"
| "motion_exec MStopWalking m = snd (motion_stop_walking m)"
| "motion_exec MTakeTurn m = snd (take_pending_direction_turn m)"
| "motion_exec (MConstrain wss) m = snd (constrain wss m)"
| "motion_exec (MPlace x y ws) m = snd (place_for_render_layout x y ws m)"
| "motion_exec (MRestore p wss) m = snd (restore_position p wss m)"
| "motion_exec (MUpdate dt wss) m = snd (update dt wss m)"
| "motion_exec (MTransition a) m =
     (case propose (mm_states m) a of Inl _ \<Rightarrow> m | Inr p \<Rightarrow> snd (commit_state_transition p m))"

lemma snd_msnapshot [simp]: "snd (msnapshot m) = m"
  by (cases "mstate m") (simp_all add: msnapshot_def)

lemma inv_with_res:
  "motion_inv s \<Longrightarrow> (\<And>v. r = Inr v \<Longrightarrow> motion_inv (snd (f v))) \<Longrightarrow> motion_inv (snd (with_res r s f))"
  by (cases r) simp_all

lemma motion_inv_position [simp]: "motion_inv (m\<lparr>mm_position := q\<rparr>) = motion_inv m"
  by (simp add: motion_inv_def)

lemma motion_inv_states:
  "motion_inv m \<Longrightarrow> sm_valid st \<Longrightarrow> motion_inv (m\<lparr>mm_states := st\<rparr>)"
  by (simp add: motion_inv_def)

lemma motion_inv_stop:
  "motion_inv m \<Longrightarrow> sm_valid st \<Longrightarrow> motion_inv
     (m\<lparr>mm_states := st, mm_vertical_velocity := 0, mm_horizontal_velocity := 0, mm_landing_elapsed := 0\<rparr>)"
  "motion_inv m \<Longrightarrow> sm_valid st \<Longrightarrow> motion_inv
     (m\<lparr>mm_states := st, mm_vertical_velocity := 0, mm_horizontal_velocity := 0\<rparr>)"
  "motion_inv m \<Longrightarrow> sm_valid st \<Longrightarrow> motion_inv (m\<lparr>mm_states := st, mm_horizontal_velocity := h\<rparr>)"
  "motion_inv m \<Longrightarrow> motion_inv (m\<lparr>mm_horizontal_velocity := h, mm_pending_direction_turn := t\<rparr>)"
  "motion_inv m \<Longrightarrow> motion_inv
     (m\<lparr>mm_vertical_velocity := 0, mm_horizontal_velocity := 0, mm_landing_elapsed := 0\<rparr>)"
  by (simp_all add: motion_inv_def)

lemmas inv_rules = inv_with_res motion_inv_stop motion_inv_states

lemma finish_release_inv: "motion_inv m \<Longrightarrow> motion_inv (snd (finish_release ws m))"
  unfolding finish_release_def Let_def
  by (intro inv_with_res; cases ws)
    (auto intro!: inv_rules; blast intro: establish_valid)+

lemma release_drag_inv: "motion_inv m \<Longrightarrow> motion_inv (snd (motion_release_drag wss m))"
  unfolding motion_release_drag_def
  by (cases wss) (auto intro!: inv_with_res finish_release_inv)

lemma state_change_inv:
  assumes "motion_inv m"
  shows "motion_inv (snd (motion_start_dragging m))" "motion_inv (snd (motion_start_falling m))"
    "motion_inv (snd (motion_pause m))" "motion_inv (snd (motion_begin_closing m))"
    "motion_inv (snd (motion_recover_failed_close m))" "motion_inv (snd (motion_start_walking d m))"
    "motion_inv (snd (motion_stop_walking m))"
  unfolding motion_start_dragging_def motion_start_falling_def motion_pause_def
    motion_begin_closing_def motion_recover_failed_close_def motion_start_walking_def
    motion_stop_walking_def
  using assms motion_inv_valid [OF assms]
  by (auto intro!: inv_rules; blast intro: establish_valid start_walking_valid begin_closing_valid)+

lemma placement_inv:
  assumes "motion_inv m"
  shows "motion_inv (snd (drag_to p wss m))" "motion_inv (snd (constrain wss m))"
    "motion_inv (snd (place_for_render_layout x y ws m))" "motion_inv (snd (restore_position p wss m))"
  unfolding drag_to_def constrain_def place_for_render_layout_def restore_position_def Let_def
  using assms by (auto intro!: inv_with_res) (simp add: motion_inv_def)

lemma update_walking_inv: "motion_inv m \<Longrightarrow> motion_inv (snd (update_walking dt wss m))"
  unfolding update_walking_def Let_def by (auto intro!: inv_rules)

lemma update_landing_inv:
  assumes "motion_inv m" and "0 \<le> dt"
  shows "motion_inv (snd (update_landing dt m))"
proof -
  have "motion_inv (m\<lparr>mm_landing_elapsed := mm_landing_elapsed m + dt\<rparr>)"
    using assms by (simp add: motion_inv_def)
  moreover have "motion_inv (m\<lparr>mm_states := st, mm_landing_elapsed := 0\<rparr>)" if "sm_valid st" for st
    using assms that by (simp add: motion_inv_def)
  ultimately show ?thesis
    unfolding update_landing_def Let_def
    by (auto intro!: inv_with_res) (blast intro: establish_valid)
qed

lemma update_falling_inv:
  assumes "motion_inv m" and "0 \<le> dt"
  shows "motion_inv (snd (update_falling dt wss m))"
proof -
  have "0 \<le> mm_vertical_velocity m + gravity (mm_config m) * dt"
    using assms by (simp add: motion_inv_def config_ok_def)
  then have a: "motion_inv (m\<lparr>mm_vertical_velocity := mm_vertical_velocity m + gravity (mm_config m) * dt,
      mm_position := q\<rparr>)" for q
    using assms(1) by (simp add: motion_inv_def)
  have b: "motion_inv (m\<lparr>mm_position := q, mm_vertical_velocity := 0, mm_landing_elapsed := 0\<rparr>)" for q
    using assms(1) by (simp add: motion_inv_def)
  show ?thesis
    unfolding update_falling_def Let_def
    using assms(1) a b by (auto intro!: inv_with_res motion_inv_states) (blast intro: establish_valid)
qed

lemma update_inv: "motion_inv m \<Longrightarrow> motion_inv (snd (update dt wss m))"
  unfolding update_def
  by (auto intro!: inv_with_res placement_inv update_walking_inv update_landing_inv update_falling_inv)

lemma transition_inv:
  assumes "motion_inv m" and "propose (mm_states m) a = Inr p"
  shows "motion_inv (snd (commit_state_transition p m))"
  unfolding commit_state_transition_def Let_def
proof (intro inv_with_res)
  fix st
  assume "commit (mm_states m) p = Inr st"
  then have "sm_valid st" using commit_valid propose_target_ok [OF assms(2)] by blast
  then show "motion_inv (snd (Inr (), if lifecycle (target_state p) \<noteq> PetLifecycleState.ACTIVE \<or>
        motion (target_state p) \<in> {PetMotionState.DRAGGING, PetMotionState.FALLING}
      then m\<lparr>mm_states := st, mm_horizontal_velocity :=
            (if motion (target_state p) = PetMotionState.WALKING_LEFT then - walking_speed (mm_config m)
             else if motion (target_state p) = PetMotionState.WALKING_RIGHT then walking_speed (mm_config m)
             else 0), mm_vertical_velocity := 0, mm_landing_elapsed := 0\<rparr>
      else m\<lparr>mm_states := st, mm_horizontal_velocity :=
            (if motion (target_state p) = PetMotionState.WALKING_LEFT then - walking_speed (mm_config m)
             else if motion (target_state p) = PetMotionState.WALKING_RIGHT then walking_speed (mm_config m)
             else 0)\<rparr>))"
    using assms(1) by (simp add: motion_inv_def)
qed (rule assms(1))

lemma motion_exec_inv:
  assumes "motion_inv m" and "\<not> (op = MResume \<and> motion_of m = PetMotionState.DRAGGING)"
  shows "motion_inv (motion_exec op m)"
proof (cases op)
  case MResume
  with assms show ?thesis
    by (auto simp: motion_resume_def intro!: inv_rules dest: resume_valid)
next
  case MTakeTurn
  with assms show ?thesis by (simp add: take_pending_direction_turn_def motion_inv_def)
next
  case (MTransition a)
  with assms show ?thesis by (auto simp: transition_inv split: sum.splits)
qed (use assms in \<open>simp_all add: state_change_inv placement_inv release_drag_inv update_inv\<close>)

lemma motion_inv_new:
  assumes "new_state_machine e = Inr st" and "size_ok win" and "config_ok c"
  shows "motion_inv (new_motion_model p win c st)"
  using assms new_state_machine_valid [OF assms(1)] by (simp add: new_motion_model_def motion_inv_def)

lemma default_motion_config_ok: "config_ok default_motion_config"
  by (simp add: config_ok_def default_motion_config_def)

lemma update_keeps_steady:
  assumes "motion_inv m" and "0 \<le> dt" and "wss \<noteq> []" and "steady_motion m"
  shows "motion_inv (snd (update dt wss m)) \<and> steady_motion (snd (update dt wss m)) \<and>
    is_ok (fst (update dt wss m))"
  using update_ok [OF assms] assms(4) by (auto simp: update_summary_def steady_motion_def)

lemma update_n_steady:
  assumes "motion_inv m" and "0 \<le> dt" and "wss \<noteq> []" and "steady_motion m"
  shows "motion_inv (update_n n dt wss m) \<and> steady_motion (update_n n dt wss m)"
  using assms
proof (induction n arbitrary: m)
  case (Suc n)
  from update_keeps_steady [OF Suc.prems] Suc.IH Suc.prems(2,3) show ?case by simp
qed simp

text \<open>The number of frames a fall may take before the landing state, and the landing itself.\<close>

definition fall_frames :: "real \<Rightarrow> Rect \<Rightarrow> PetMotionModel \<Rightarrow> nat" where
  "fall_frames dt ws m =
    nat \<lceil>(ground_y ws (mm_window_size m) - py (mm_position m)) / (gravity (mm_config m) * dt\<^sup>2)\<rceil>"

definition landing_frames :: "real \<Rightarrow> PetMotionModel \<Rightarrow> nat" where
  "landing_frames dt m = nat \<lceil>landing_duration_seconds (mm_config m) / dt\<rceil>"

lemma le_nat_ceiling_mult: "0 < (d::real) \<Longrightarrow> x \<le> real (nat \<lceil>x / d\<rceil>) * d"
  by (metis mult.commute pos_divide_le_eq real_nat_ceiling_ge)

lemma fall_settles_bound:
  assumes "motion_inv m" and "0 < dt" and "lifecycle_of m = PetLifecycleState.ACTIVE"
    and "motion_of m = PetMotionState.FALLING"
  shows "\<exists>n \<le> fall_frames dt ws m + landing_frames dt m + 2.
     motion_of (update_n n dt [ws] m) = PetMotionState.IDLE \<and>
     py (mm_position (update_n n dt [ws] m)) = ground_y ws (mm_window_size m)"
proof -
  have "0 < gravity (mm_config m) * dt\<^sup>2" using assms(1,2) by (simp add: motion_inv_def config_ok_def)
  from fall_lands [OF assms le_nat_ceiling_mult [OF this], of ws]
  obtain i where i: "i \<le> Suc (fall_frames dt ws m)" "landed ws m (update_n i dt [ws] m)"
    by (auto simp: fall_frames_def)
  let ?l = "update_n i dt [ws] m"
  have l: "motion_inv ?l" "lifecycle_of ?l = PetLifecycleState.ACTIVE"
      "motion_of ?l = PetMotionState.LANDING" "mm_config ?l = mm_config m"
      "py (mm_position ?l) = ground_y ws (mm_window_size m)"
    using i(2) by (simp_all add: landed_def)
  have "landing_duration_seconds (mm_config ?l) - mm_landing_elapsed ?l
      \<le> real (landing_frames dt m) * dt"
    using le_nat_ceiling_mult [OF assms(2), of "landing_duration_seconds (mm_config m)"] l(1,4)
    by (simp add: landing_frames_def motion_inv_def)
  from landing_ends [OF l(1) assms(2) l(2,3) this, of "[ws]"]
  obtain j where "j \<le> Suc (landing_frames dt m)" "settled ?l (update_n j dt [ws] ?l)" by blast
  with i(1) l(5) show ?thesis
    by (intro exI [of _ "i + j"]) (simp add: update_n_add settled_def)
qed

section \<open>Properties\<close>

text \<open>A model used by the witnesses: a 100 by 80 window above a 1920 by 1040 work area.\<close>

definition sample_workspace :: Rect where
  "sample_workspace = \<lparr>rx = 0, ry = 0, rwidth = 1920, rheight = 1040\<rparr>"

definition sample_model :: "PetMotionState \<Rightarrow> PetMotionModel" where
  "sample_model mo =
    \<lparr>mm_position = \<lparr>px = 50, py = 10\<rparr>, mm_window_size = \<lparr>width = 100, height = 80\<rparr>,
     mm_config = default_motion_config,
     mm_states = \<lparr>sm_lifecycle = PetLifecycleState.ACTIVE, sm_motion = mo,
       sm_behaviors = (if mo = PetMotionState.DRAGGING then {PetBehaviorState.DRAG_STRUGGLE} else {}),
       sm_facing = PetFacing.RIGHT,
       sm_activity = PetActivityState.NONE, sm_epoch = 0\<rparr>,
     mm_vertical_velocity = 0, mm_horizontal_velocity = 0, mm_landing_elapsed = 0,
     mm_pending_direction_turn = None\<rparr>"

lemma sample_model_simps [simp]:
  "lifecycle_of (sample_model mo) = PetLifecycleState.ACTIVE"
  "motion_of (sample_model mo) = mo"
  "mm_window_size (sample_model mo) = \<lparr>width = 100, height = 80\<rparr>"
  "mm_config (sample_model mo) = default_motion_config"
  "mm_position (sample_model mo) = \<lparr>px = 50, py = 10\<rparr>"
  by (simp_all add: sample_model_def)

lemma sample_model_inv:
  "mo \<in> {PetMotionState.DRAGGING, PetMotionState.FALLING, PetMotionState.WALKING_LEFT}
    \<Longrightarrow> motion_inv (sample_model mo)"
  by (auto simp: motion_inv_def sm_valid_def layered_ok_def raw_state_def sample_model_def
      size_ok_def default_motion_config_ok)

lemma sample_fits: "fits \<lparr>width = 100, height = 80\<rparr> sample_workspace"
  by (simp add: fits_def sample_workspace_def)

text \<open>
  One \<^verbatim>\<open>update\<close> of a valid model with a nonnegative elapsed time and at least one display
  never raises: it returns the snapshot of the model it leaves, which is valid again, keeps
  lifecycle, window size and configuration, and changes the motion only from falling to
  landing or from landing to idle. The running motions are excluded: the code has no branch
  for them.
\<close>

theorem motion_update_total:
  assumes "motion_inv m" and "0 \<le> dt" and "wss \<noteq> []" and "steady_motion m"
  shows "\<exists>m'. update dt wss m = (Inr (snapshot_of m'), m') \<and> motion_inv m' \<and>
    mm_window_size m' = mm_window_size m \<and> mm_config m' = mm_config m \<and>
    lifecycle_of m' = lifecycle_of m \<and>
    (motion_of m' = motion_of m \<or>
     motion_of m = PetMotionState.FALLING \<and> motion_of m' = PetMotionState.LANDING \<or>
     motion_of m = PetMotionState.LANDING \<and> motion_of m' = PetMotionState.IDLE)"
  using update_ok [OF assms] by (simp add: update_summary_def)

theorem motion_update_total_witness:
  "\<exists>m'. update (1 / 10) [sample_workspace] (sample_model PetMotionState.WALKING_LEFT)
      = (Inr (snapshot_of m'), m') \<and> motion_inv m'"
  using motion_update_total [of "sample_model PetMotionState.WALKING_LEFT" "1 / 10" "[sample_workspace]"]
    sample_model_inv by (auto simp: steady_motion_def)

text \<open>
  When every display is at least as large as the window, an \<^verbatim>\<open>update\<close> of a paused, closing,
  idle, walking or falling model leaves the whole window inside one of the displays.
\<close>

theorem motion_update_on_screen:
  assumes "motion_inv m" and "0 \<le> dt" and "wss \<noteq> []" and "steady_motion m"
    and "\<forall>ws \<in> set wss. fits (mm_window_size m) ws"
    and "lifecycle_of m \<noteq> PetLifecycleState.ACTIVE \<or>
         motion_of m \<notin> {PetMotionState.DRAGGING, PetMotionState.LANDING}"
  shows "\<exists>ws \<in> set wss. inside (mm_position (snd (update dt wss m))) (mm_window_size m) ws"
  by (rule update_inside [OF assms])

theorem motion_update_on_screen_witness:
  "inside (mm_position (snd (update 9 [sample_workspace] (sample_model PetMotionState.FALLING))))
     \<lparr>width = 100, height = 80\<rparr> sample_workspace"
  using motion_update_on_screen [of "sample_model PetMotionState.FALLING" 9 "[sample_workspace]"]
    sample_model_inv sample_fits by (auto simp: steady_motion_def)

text \<open>
  C31. A fall ends. A falling pet over one display, updated with a fixed positive frame time,
  is standing idle on the ground of that display after a number of frames that is bounded by
  the height of the fall, the gravity, the landing duration and the frame time; no update on
  the way raises.
\<close>

theorem fall_settles:
  assumes "motion_inv m" and "0 < dt" and "lifecycle_of m = PetLifecycleState.ACTIVE"
    and "motion_of m = PetMotionState.FALLING"
  shows "(\<exists>n \<le> fall_frames dt ws m + landing_frames dt m + 2.
      motion_of (update_n n dt [ws] m) = PetMotionState.IDLE \<and>
      py (mm_position (update_n n dt [ws] m)) = ground_y ws (mm_window_size m)) \<and>
    (\<forall>i. is_ok (fst (update dt [ws] (update_n i dt [ws] m))))"
proof (intro conjI allI)
  fix i
  have "steady_motion m" using assms(4) by (simp add: steady_motion_def)
  from update_n_steady [OF assms(1) _ _ this, of dt "[ws]" i] assms(2)
  show "is_ok (fst (update dt [ws] (update_n i dt [ws] m)))"
    by (intro update_keeps_steady [THEN conjunct2, THEN conjunct2]) simp_all
qed (rule fall_settles_bound [OF assms])

theorem fall_settles_witness:
  "\<exists>n \<le> 57. motion_of (update_n n (1 / 10) [sample_workspace] (sample_model PetMotionState.FALLING))
      = PetMotionState.IDLE"
proof -
  have "fall_frames (1 / 10) sample_workspace (sample_model PetMotionState.FALLING) = 53"
    by (simp add: fall_frames_def ground_y_def bottom_def sample_workspace_def
        default_motion_config_def power2_eq_square)
  moreover have "landing_frames (1 / 10) (sample_model PetMotionState.FALLING) = 2"
    by (simp add: landing_frames_def default_motion_config_def)
  moreover have "motion_inv (sample_model PetMotionState.FALLING)" by (simp add: sample_model_inv)
  ultimately have "\<exists>n \<le> 53 + 2 + 2.
      motion_of (update_n n (1 / 10) [sample_workspace] (sample_model PetMotionState.FALLING))
        = PetMotionState.IDLE"
    using fall_settles [THEN conjunct1, of "sample_model PetMotionState.FALLING" "1 / 10" sample_workspace]
    by (metis sample_model_simps(1,2) zero_less_divide_1_iff zero_less_numeral)
  then show ?thesis by simp
qed

text \<open>
  Whatever sequence of operations is applied to a motion model, in any order, with any
  arguments, and whether or not the operations raise, the model stays valid, provided it is
  not resumed in the middle of a drag: its layered state satisfies the state matrix, the
  window size and the configuration stay admissible, and neither the fall velocity nor the
  landing clock is ever negative.
\<close>

theorem motion_run_invariant:
  assumes "motion_inv m"
    and "\<forall>i < length ops. \<not> (ops ! i = MResume \<and>
           motion_of (fold motion_exec (take i ops) m) = PetMotionState.DRAGGING)"
  shows "motion_inv (fold motion_exec ops m)"
  using assms
proof (induction ops rule: rev_induct)
  case (snoc op ops)
  then have "\<not> (op = MResume \<and> motion_of (fold motion_exec ops m) = PetMotionState.DRAGGING)"
    by (metis append_eq_conv_conj length_append_singleton lessI nth_append_length)
  moreover have "motion_inv (fold motion_exec ops m)"
  proof (rule snoc.IH [OF snoc.prems(1)], intro allI impI)
    fix i
    assume "i < length ops"
    then show "\<not> (ops ! i = MResume \<and>
        motion_of (fold motion_exec (take i ops) m) = PetMotionState.DRAGGING)"
      using snoc.prems(2) [rule_format, of i] by (simp add: nth_append)
  qed
  ultimately show ?case using motion_exec_inv by simp
qed simp

theorem motion_run_invariant_witness:
  "motion_inv (fold motion_exec
     [MReleaseDrag (Some [sample_workspace]), MUpdate (1 / 10) [sample_workspace], MPause, MPause]
     (sample_model PetMotionState.DRAGGING))"
proof -
  let ?ops = "[MReleaseDrag (Some [sample_workspace]), MUpdate (1 / 10) [sample_workspace], MPause, MPause]"
  have "MResume \<notin> set ?ops" by simp
  then have "\<forall>i < length ?ops. ?ops ! i \<noteq> MResume" by (metis nth_mem)
  then show ?thesis by (intro motion_run_invariant) (simp_all add: sample_model_inv del: fold.simps)
qed

end
