(* ===== verification/Animation_Engine.thy ===== *)
theory Animation_Engine
  imports Track0_Controller Scheduler Motion
begin

text \<open>
  The animation engine of \<^verbatim>\<open>application/pet/pet_animation.py\<close>, the object that joins the motion
  model, the Track 0 controller and the autonomous scheduler: its events, its state and its
  transactions. A transaction proposes a semantic state, arbitrates the request that goes with it,
  commits the state and hands the request to Track 0. The frame clock and the visual parameters
  are in the theory \<open>Animation_Frame\<close>.

  The player, the random generator and the clock are parameters, bundled in \<open>engine_env\<close>. The clock
  is the sequence of its readings: every call that may read it is given the reading of its turn,
  and \<open>en_ticks\<close> counts them. \<open>en_fresh\<close> is the next identity that \<^verbatim>\<open>object()\<close> returns. The
  scheduler object has no state of its own, so \<open>en_has_scheduler\<close> says whether there is one.
\<close>

section \<open>Vocabulary\<close>

fun production_sequence :: "ProductionAction \<Rightarrow> SequenceName" where
  "production_sequence ProductionAction.RELAX = SequenceName.PRODUCTION_RELAX"
| "production_sequence ProductionAction.MOVE_LEFT = SequenceName.PRODUCTION_MOVE_LEFT"
| "production_sequence ProductionAction.MOVE_RIGHT = SequenceName.PRODUCTION_MOVE_RIGHT"
| "production_sequence ProductionAction.SIT = SequenceName.PRODUCTION_SIT"
| "production_sequence ProductionAction.SLEEP = SequenceName.PRODUCTION_SLEEP"
| "production_sequence ProductionAction.SPECIAL = SequenceName.PRODUCTION_SPECIAL"
| "production_sequence ProductionAction.INTERACT = SequenceName.PRODUCTION_INTERACT"

definition production_loop_actions :: "ProductionAction set" where
  "production_loop_actions =
    {ProductionAction.RELAX, ProductionAction.MOVE_LEFT, ProductionAction.MOVE_RIGHT,
     ProductionAction.SIT, ProductionAction.SLEEP}"

definition production_protected_actions :: "ProductionAction set" where
  "production_protected_actions = {ProductionAction.SPECIAL, ProductionAction.INTERACT}"

text \<open>\<^verbatim>\<open>production_track0_action\<close> of \<^verbatim>\<open>pet_role_pack.py\<close>.\<close>

fun production_track0_action :: "ProductionAction \<Rightarrow> PetActionName" where
  "production_track0_action ProductionAction.RELAX = PetActionName.IDLE"
| "production_track0_action ProductionAction.MOVE_LEFT = PetActionName.WALK_LEFT"
| "production_track0_action ProductionAction.MOVE_RIGHT = PetActionName.WALK_RIGHT"
| "production_track0_action ProductionAction.SIT = PetActionName.SIT_IDLE"
| "production_track0_action ProductionAction.SLEEP = PetActionName.SLEEP_LOOP"
| "production_track0_action ProductionAction.SPECIAL = PetActionName.WAVE"
| "production_track0_action ProductionAction.INTERACT = PetActionName.HAPPY"

datatype PetAnimationEventType =
    START_READING | START_FALLING | START_WALKING | START_THINKING | START_REMINDING
  | START_DRAGGING | RELEASE_DRAG | PAUSE | RESUME | BEGIN_CLOSING

definition mandatory_interruption_events :: "PetAnimationEventType set" where
  "mandatory_interruption_events =
    {PetAnimationEventType.START_FALLING, PetAnimationEventType.START_DRAGGING,
     PetAnimationEventType.PAUSE, PetAnimationEventType.BEGIN_CLOSING}"

record PetAnimationEvent =
  ae_type :: PetAnimationEventType
  ae_token :: token
  ae_facing :: "PetFacing option"
  ae_session :: "token option"

text \<open>
  The event constructors: \<^verbatim>\<open>start_walking\<close> has a direction, the two drag events have an input
  session, the other seven have neither. \<^verbatim>\<open>start_falling\<close> called without a token makes a fresh
  one, which is the caller's \<open>t\<close> here.
\<close>

definition plain_event :: "PetAnimationEventType \<Rightarrow> token \<Rightarrow> PetAnimationEvent" where
  "plain_event ty t = \<lparr>ae_type = ty, ae_token = t, ae_facing = None, ae_session = None\<rparr>"

definition walking_event :: "PetFacing \<Rightarrow> token \<Rightarrow> PetAnimationEvent" where
  "walking_event d t =
    \<lparr>ae_type = PetAnimationEventType.START_WALKING, ae_token = t, ae_facing = Some d,
     ae_session = None\<rparr>"

definition dragging_event :: "token \<Rightarrow> token \<Rightarrow> PetAnimationEvent" where
  "dragging_event t session =
    \<lparr>ae_type = PetAnimationEventType.START_DRAGGING, ae_token = t, ae_facing = None,
     ae_session = Some session\<rparr>"

definition release_event :: "token \<Rightarrow> token \<Rightarrow> PetAnimationEvent" where
  "release_event t session =
    \<lparr>ae_type = PetAnimationEventType.RELEASE_DRAG, ae_token = t, ae_facing = None,
     ae_session = Some session\<rparr>"

record PetAnimationConfig =
  maximum_delta_seconds :: real
  breathing_cycle_seconds :: real
  blinking_duration_seconds :: real
  blinking_interval_min_seconds :: real
  blinking_interval_max_seconds :: real
  walking_duration_seconds :: real
  thinking_duration_seconds :: real
  reminder_duration_seconds :: real
  random_action_interval_min_seconds :: real
  random_action_interval_max_seconds :: real

definition default_animation_config :: PetAnimationConfig where
  "default_animation_config =
    \<lparr>maximum_delta_seconds = 1 / 10, breathing_cycle_seconds = 24 / 10,
     blinking_duration_seconds = 14 / 100, blinking_interval_min_seconds = 2,
     blinking_interval_max_seconds = 5, walking_duration_seconds = 24 / 10,
     thinking_duration_seconds = 12 / 10, reminder_duration_seconds = 9 / 10,
     random_action_interval_min_seconds = 4, random_action_interval_max_seconds = 8\<rparr>"

definition config_positive :: "PetAnimationConfig \<Rightarrow> real list" where
  "config_positive c =
    [maximum_delta_seconds c, breathing_cycle_seconds c, blinking_duration_seconds c,
     blinking_interval_min_seconds c, blinking_interval_max_seconds c, walking_duration_seconds c,
     thinking_duration_seconds c, reminder_duration_seconds c,
     random_action_interval_min_seconds c, random_action_interval_max_seconds c]"

text \<open>\<^verbatim>\<open>PetAnimationConfig.__post_init__\<close> on a record whose fields are set.\<close>

definition mk_PetAnimationConfig :: "PetAnimationConfig \<Rightarrow> PetAnimationConfig res" where
  "mk_PetAnimationConfig c =
    raise_if (list_ex (\<lambda>v. v \<le> 0) (config_positive c))
      (ValueError ''Pet animation timing must be positive.'')
    (raise_if
      (blinking_interval_min_seconds c > blinking_interval_max_seconds c
       \<or> random_action_interval_min_seconds c > random_action_interval_max_seconds c)
      (ValueError ''Pet animation interval bounds are invalid.'')
    (Inr c))"

section \<open>State\<close>

record ('p, 'r) engine_env =
  env_player :: "'p AnimationPlayer"
  env_random :: "'r RandomSource"
  env_clock :: "nat \<Rightarrow> real"

record ('p, 'r) PetAnimationEngine =
  en_motion :: PetMotionModel
  en_rng :: 'r
  en_config :: PetAnimationConfig
  en_track0 :: "'p PetTrack0Controller option"
  en_has_scheduler :: bool
  en_scheduler_state :: "AutonomousSchedulerState option"
  en_resume_action :: "ProductionAction option"
  en_execution_mode :: AutonomousExecutionMode
  en_pending :: "PendingExplicitIntent option"
  en_resume_after_protected :: bool
  en_active_action :: "ProductionAction option"
  en_animation_time :: real
  en_blink_elapsed :: real
  en_action_remaining :: real
  en_next_blink :: real
  en_next_random_action :: real
  en_last_applied_delta :: real
  en_drag_session :: "token option"
  en_relax_fallback :: bool
  en_fresh :: token
  en_ticks :: nat

definition new_interval ::
    "'r RandomSource \<Rightarrow> real \<Rightarrow> real \<Rightarrow> 'r \<Rightarrow> real \<times> 'r" where
  "new_interval R lo hi r = uniform R lo hi r"

text \<open>The constructor; it draws the first blink interval, then the first random-action interval.\<close>

definition new_engine ::
    "('p, 'r) engine_env \<Rightarrow> PetMotionModel \<Rightarrow> 'r \<Rightarrow> PetAnimationConfig \<Rightarrow> 'p PetTrack0Controller option
      \<Rightarrow> bool \<Rightarrow> bool \<Rightarrow> ('p, 'r) PetAnimationEngine" where
  "new_engine E m r cfg t0 sched fallback =
    (let (blink, r1) = new_interval (env_random E) (blinking_interval_min_seconds cfg)
           (blinking_interval_max_seconds cfg) r;
         (action, r2) = new_interval (env_random E) (random_action_interval_min_seconds cfg)
           (random_action_interval_max_seconds cfg) r1
     in \<lparr>en_motion = m, en_rng = r2, en_config = cfg, en_track0 = t0, en_has_scheduler = sched,
         en_scheduler_state = None, en_resume_action = None,
         en_execution_mode = AutonomousExecutionMode.AUTONOMOUS, en_pending = None,
         en_resume_after_protected = False, en_active_action = None, en_animation_time = 0,
         en_blink_elapsed = 0, en_action_remaining = 0, en_next_blink = blink,
         en_next_random_action = action, en_last_applied_delta = 0, en_drag_session = None,
         en_relax_fallback = fallback, en_fresh = 0, en_ticks = 0\<rparr>)"

section \<open>Calls into the parts\<close>

definition on_motion ::
    "(PetMotionModel \<Rightarrow> ('a, PetMotionModel) sres) \<Rightarrow> ('p, 'r) PetAnimationEngine
      \<Rightarrow> ('a, ('p, 'r) PetAnimationEngine) sres" where
  "on_motion f e = (case f (en_motion e) of (res, m) \<Rightarrow> (res, e\<lparr>en_motion := m\<rparr>))"

text \<open>A call on the controller that may read its clock.\<close>

definition on_track0 ::
    "('p, 'r) engine_env \<Rightarrow> (real \<Rightarrow> 'p PetTrack0Controller \<Rightarrow> ('a, 'p PetTrack0Controller) sres)
      \<Rightarrow> 'p PetTrack0Controller \<Rightarrow> ('p, 'r) PetAnimationEngine
      \<Rightarrow> ('a, ('p, 'r) PetAnimationEngine) sres" where
  "on_track0 E f c e =
    (case f (env_clock E (en_ticks e)) c of
       (res, c') \<Rightarrow> (res, e\<lparr>en_track0 := Some c', en_ticks := Suc (en_ticks e)\<rparr>))"

definition track0_clear ::
    "('p, 'r) engine_env \<Rightarrow> CancelReason \<Rightarrow> 'p PetTrack0Controller \<Rightarrow> ('p, 'r) PetAnimationEngine
      \<Rightarrow> ActionOutcome \<times> ('p, 'r) PetAnimationEngine" where
  "track0_clear E reason c e =
    (case clear (env_player E) reason c of (oc, c') \<Rightarrow> (oc, e\<lparr>en_track0 := Some c'\<rparr>))"

definition new_object :: "('p, 'r) PetAnimationEngine \<Rightarrow> token \<times> ('p, 'r) PetAnimationEngine" where
  "new_object e = (en_fresh e, e\<lparr>en_fresh := Suc (en_fresh e)\<rparr>)"

definition confirmed_of :: "('p, 'r) PetAnimationEngine \<Rightarrow> ConfirmedPlaybackEpoch option" where
  "confirmed_of e =
    (case en_track0 e of None \<Rightarrow> None | Some c \<Rightarrow> confirmed_epoch (ct_state c))"

definition production_sequencing_enabled ::
    "('p, 'r) engine_env \<Rightarrow> ('p, 'r) PetAnimationEngine \<Rightarrow> bool" where
  "production_sequencing_enabled E e =
    (case en_track0 e of
       None \<Rightarrow> False
     | Some c \<Rightarrow> sequencing_enabled (capabilities (env_player E) (ct_player c)))"

definition active_request_is_protected :: "('p, 'r) PetAnimationEngine \<Rightarrow> bool" where
  "active_request_is_protected e =
    (case en_track0 e of
       None \<Rightarrow> False
     | Some c \<Rightarrow> (case ct_active_request c of None \<Rightarrow> False | Some q \<Rightarrow> protected q))"

definition clear_protected_continuation ::
    "('p, 'r) PetAnimationEngine \<Rightarrow> ('p, 'r) PetAnimationEngine" where
  "clear_protected_continuation e = e\<lparr>en_pending := None, en_resume_after_protected := False\<rparr>"

definition suspend :: "('p, 'r) PetAnimationEngine \<Rightarrow> ('p, 'r) PetAnimationEngine" where
  "suspend e = e\<lparr>en_execution_mode := AutonomousExecutionMode.SUSPENDED\<rparr>"

definition active_playback_is_compatible :: "('p, 'r) PetAnimationEngine \<Rightarrow> bool res" where
  "active_playback_is_compatible e =
    (case en_track0 e of
       None \<Rightarrow> Inr True
     | Some c \<Rightarrow>
         ebind (mstate (en_motion e)) (\<lambda>s.
         case assert_animation_compatible s (desired_action (ct_state c)) (health (ct_state c)) of
           Inr _ \<Rightarrow> Inr True
         | Inl AnimationCompatibilityError \<Rightarrow> Inr False
         | Inl err \<Rightarrow> Inl err))"

definition assert_transaction_compatible :: "('p, 'r) PetAnimationEngine \<Rightarrow> unit res" where
  "assert_transaction_compatible e =
    (case en_track0 e of
       None \<Rightarrow> Inr ()
     | Some c \<Rightarrow>
         ebind (mstate (en_motion e)) (\<lambda>s.
         assert_animation_compatible s (desired_action (ct_state c)) (health (ct_state c))))"

text \<open>\<^verbatim>\<open>self._assert_transaction_compatible(); return outcome\<close>, which ends most transactions.\<close>

definition checked ::
    "ActionOutcome \<Rightarrow> ('p, 'r) PetAnimationEngine \<Rightarrow> (ActionOutcome, ('p, 'r) PetAnimationEngine) sres" where
  "checked oc e = with_res (assert_transaction_compatible e) e (\<lambda>_. (Inr oc, e))"

text \<open>Committing the semantic target of an action that needs no playback of its own.\<close>

definition commit_semantic ::
    "ProductionAction \<Rightarrow> ('p, 'r) PetAnimationEngine \<Rightarrow> (unit, ('p, 'r) PetAnimationEngine) sres" where
  "commit_semantic a e =
    with_res (propose (mm_states (en_motion e)) (target_args (semantic_target a) None)) e (\<lambda>p.
    on_motion (commit_state_transition p) e)"

section \<open>Production transactions\<close>

text \<open>The context both transaction kinds arbitrate in.\<close>

definition arbitration_context ::
    "'p PetTrack0Controller \<Rightarrow> ('p, 'r) PetAnimationEngine \<Rightarrow> ArbitrationContext res" where
  "arbitration_context c e =
    ebind (active_playback_is_compatible e) (\<lambda>compatible.
    Inr \<lparr>incoming_mode = CancellationMode.REPLACE, runner_authorized_continuation = False,
         playback_health = health (ct_state c),
         confirmed_semantic_epoch =
           (case ct_active_request c of
              None \<Rightarrow> None
            | Some q \<Rightarrow> if confirmed_epoch (ct_state c) \<noteq> None then Some (semantic_epoch q) else None),
         active_action_compatible = compatible\<rparr>)"

text \<open>Both kinds end in the same hand-over: play on a free track, keep, or replace.\<close>

definition start_or_replace ::
    "('p, 'r) engine_env \<Rightarrow> CancelReason \<Rightarrow> ActionRequest \<Rightarrow> CancellationMode option
      \<Rightarrow> 'p PetTrack0Controller \<Rightarrow> ('p, 'r) PetAnimationEngine
      \<Rightarrow> (ActionOutcome, ('p, 'r) PetAnimationEngine) sres" where
  "start_or_replace E reason q md c e =
    (if ct_active_request c = None then on_track0 E (\<lambda>now. play (env_player E) now q) c e
     else case md of
            None \<Rightarrow> (Inr ActionOutcome.ACCEPTED, e)
          | Some m \<Rightarrow> on_track0 E (\<lambda>now. cancel (env_player E) now reason m (Some q)) c e)"

text \<open>The end of a production transaction, by the outcome of the hand-over.\<close>

definition submit_finish ::
    "ActionIntent \<Rightarrow> ActionOutcome \<Rightarrow> ('p, 'r) PetAnimationEngine
      \<Rightarrow> (ActionOutcome, ('p, 'r) PetAnimationEngine) sres" where
  "submit_finish intent oc e =
    (let a = intent_action intent in
     if oc \<noteq> ActionOutcome.ACCEPTED then
       let e1 = (suspend e)\<lparr>en_active_action := None\<rparr> in
       sbind (if a \<in> {ProductionAction.MOVE_LEFT, ProductionAction.MOVE_RIGHT}
              then commit_semantic ProductionAction.RELAX e1 else (Inr (), e1))
         (\<lambda>_ e2. checked oc e2)
     else
       let e1 = e\<lparr>en_active_action := Some a\<rparr> in
       checked oc
         (if a \<in> production_protected_actions then suspend e1
          else if intent_origin intent = ActionOrigin.EXPLICIT
          then e1\<lparr>en_execution_mode := AutonomousExecutionMode.EXPLICIT_HOLD\<rparr>
          else e1\<lparr>en_execution_mode := AutonomousExecutionMode.AUTONOMOUS,
                  en_resume_action := Some a\<rparr>))"

text \<open>The transaction proper, behind the guards of \<^verbatim>\<open>_submit_production_intent\<close>.\<close>

definition submit_transaction ::
    "('p, 'r) engine_env \<Rightarrow> ActionIntent \<Rightarrow> PetFacing option \<Rightarrow> bool \<Rightarrow> 'p PetTrack0Controller
      \<Rightarrow> ('p, 'r) PetAnimationEngine \<Rightarrow> (ActionOutcome, ('p, 'r) PetAnimationEngine) sres" where
  "submit_transaction E intent facing_override direct c e =
    (let a = intent_action intent; name = production_sequence a in
     with_res (propose (mm_states (en_motion e)) (target_args (semantic_target a) facing_override)) e (\<lambda>p.
     case SEQUENCE_CATALOG name of
       None \<Rightarrow> (Inl KeyError, e)
     | Some entry \<Rightarrow>
       with_res (mk_ActionRequest name (entry_interruption_class entry) (entry_protected entry)
                   (intent_token intent) (target_epoch p) None (intent_origin intent)
                   (intent_source intent)) e (\<lambda>q.
       case assert_animation_compatible (target_state p) (Some (production_track0_action a))
              (health (ct_state c)) of
         Inl AnimationCompatibilityError \<Rightarrow> (Inr ActionOutcome.REJECTED_INCOMPATIBLE_STATE, e)
       | Inl err \<Rightarrow> (Inl err, e)
       | Inr _ \<Rightarrow>
         with_res (preflight (env_player E) q c) e (\<lambda>pf.
         if pf_outcome pf \<noteq> ActionOutcome.ACCEPTED then (Inr (pf_outcome pf), e)
         else with_res
           (if direct then Inr (decision ActionOutcome.ACCEPTED (Some CancellationMode.REPLACE))
            else ebind (arbitration_context c e) (\<lambda>ctx. arbitrate q ctx c)) e (\<lambda>d.
         if outcome d \<noteq> ActionOutcome.ACCEPTED then (Inr (outcome d), e)
         else sbind
           (on_motion (commit_state_transition p)
             (if intent_origin intent = ActionOrigin.EXPLICIT then clear_protected_continuation e else e))
           (\<lambda>_ e1.
         sbind (start_or_replace E CancelReason.USER_INTERRUPT q (mode d) c e1)
           (\<lambda>oc e2. submit_finish intent oc e2)))))))"

definition submit_production_intent ::
    "('p, 'r) engine_env \<Rightarrow> ActionIntent \<Rightarrow> PetFacing option \<Rightarrow> ('p, 'r) PetAnimationEngine
      \<Rightarrow> (ActionOutcome, ('p, 'r) PetAnimationEngine) sres" where
  "submit_production_intent E intent facing_override e =
    (case en_track0 e of
       None \<Rightarrow> (Inr ActionOutcome.LEGACY_DIRECT, e)
     | Some c \<Rightarrow>
       let prot = active_request_is_protected e;
           same = (en_active_action e = Some (intent_action intent)
                   \<and> confirmed_epoch (ct_state c) \<noteq> None);
           direct = (prot \<and> intent_origin intent = ActionOrigin.EXPLICIT
                     \<and> intent_source intent \<in> {ActionSource.USER, ActionSource.TRAY})
       in if direct \<and> same then (Inr ActionOutcome.ACCEPTED, clear_protected_continuation e)
          else if prot \<and> \<not> direct then
            (if intent_origin intent \<noteq> ActionOrigin.EXPLICIT
             then (Inr ActionOutcome.REJECTED_PRIORITY, e)
             else with_res (mk_PendingExplicitIntent (intent_action intent) (intent_source intent)
                              (Some (intent_token intent))) e (\<lambda>pending.
                  (Inr ActionOutcome.ACCEPTED,
                   suspend (e\<lparr>en_pending := Some pending, en_resume_after_protected := False\<rparr>))))
          else if intent_origin intent = ActionOrigin.EXPLICIT
                  \<and> intent_action intent \<in> production_loop_actions
                  \<and> en_execution_mode e = AutonomousExecutionMode.EXPLICIT_HOLD \<and> same
          then (Inr ActionOutcome.ACCEPTED, e\<lparr>en_resume_after_protected := False\<rparr>)
          else submit_transaction E intent facing_override direct c e)"

definition activate_autonomous ::
    "('p, 'r) engine_env \<Rightarrow> ProductionAction \<Rightarrow> ('p, 'r) PetAnimationEngine
      \<Rightarrow> (unit, ('p, 'r) PetAnimationEngine) sres" where
  "activate_autonomous E a e =
    (case confirmed_of e of
       None \<Rightarrow> (Inr (), (suspend e)\<lparr>en_scheduler_state := None\<rparr>)
     | Some confirmed \<Rightarrow>
       let e1 = e\<lparr>en_execution_mode := AutonomousExecutionMode.AUTONOMOUS\<rparr>;
           e2 = (if a \<notin> production_protected_actions then e1\<lparr>en_resume_action := Some a\<rparr> else e1)
       in if \<not> en_has_scheduler e then (Inr (), e2\<lparr>en_scheduler_state := None\<rparr>)
          else with_res (autonomous_state_for_action a) e2 (\<lambda>st.
               case enter (env_random E) st (Finite (env_clock E (en_ticks e2)))
                      (Some (ce_generation confirmed)) (Some (ce_playback_token confirmed))
                      (en_rng e2) of
                 (Inl err, r) \<Rightarrow> (Inl err, e2\<lparr>en_rng := r, en_ticks := Suc (en_ticks e2)\<rparr>)
               | (Inr s, r) \<Rightarrow>
                   (Inr (), e2\<lparr>en_rng := r, en_ticks := Suc (en_ticks e2),
                               en_scheduler_state := Some s\<rparr>)))"

text \<open>\<^verbatim>\<open>ActionIntent(action, origin, source, object())\<close> and its submission.\<close>

definition submit_new ::
    "('p, 'r) engine_env \<Rightarrow> ProductionAction \<Rightarrow> ActionOrigin \<Rightarrow> ActionSource \<Rightarrow> PetFacing option
      \<Rightarrow> ('p, 'r) PetAnimationEngine \<Rightarrow> (ActionOutcome, ('p, 'r) PetAnimationEngine) sres" where
  "submit_new E a origin source facing_override e =
    (let (t, e1) = new_object e
     in with_res (mk_ActionIntent a origin source (Some t)) e1 (\<lambda>intent.
        submit_production_intent E intent facing_override e1))"

definition request_action ::
    "('p, 'r) engine_env \<Rightarrow> ProductionAction \<Rightarrow> ActionSource \<Rightarrow> ('p, 'r) PetAnimationEngine
      \<Rightarrow> (ActionOutcome, ('p, 'r) PetAnimationEngine) sres" where
  "request_action E a source e = submit_new E a ActionOrigin.EXPLICIT source None e"

text \<open>Submitting for the scheduler, and starting its dwell when the submission is accepted.\<close>

definition submit_and_activate ::
    "('p, 'r) engine_env \<Rightarrow> ProductionAction \<Rightarrow> PetFacing option \<Rightarrow> ('p, 'r) PetAnimationEngine
      \<Rightarrow> (ActionOutcome, ('p, 'r) PetAnimationEngine) sres" where
  "submit_and_activate E a facing_override e =
    sbind (submit_new E a ActionOrigin.AUTONOMOUS ActionSource.SCHEDULER facing_override e) (\<lambda>oc e1.
    if oc = ActionOutcome.ACCEPTED
    then sbind (activate_autonomous E a e1) (\<lambda>_ e2. (Inr oc, e2))
    else (Inr oc, suspend e1))"

definition recover_autonomous_relax ::
    "('p, 'r) engine_env \<Rightarrow> PetFacing option \<Rightarrow> ('p, 'r) PetAnimationEngine
      \<Rightarrow> (ActionOutcome, ('p, 'r) PetAnimationEngine) sres" where
  "recover_autonomous_relax E fc e = submit_and_activate E ProductionAction.RELAX fc e"

definition start_autonomous ::
    "('p, 'r) engine_env \<Rightarrow> ('p, 'r) PetAnimationEngine
      \<Rightarrow> (ActionOutcome, ('p, 'r) PetAnimationEngine) sres" where
  "start_autonomous E e =
    (case en_track0 e of
       None \<Rightarrow> (Inr ActionOutcome.LEGACY_DIRECT, e)
     | Some c \<Rightarrow>
         if ct_active_request c \<noteq> None then (Inr ActionOutcome.REJECTED_DUPLICATE, e)
         else recover_autonomous_relax E None e)"

definition resume_autonomous ::
    "('p, 'r) engine_env \<Rightarrow> ActionSource \<Rightarrow> ('p, 'r) PetAnimationEngine
      \<Rightarrow> (ActionOutcome, ('p, 'r) PetAnimationEngine) sres" where
  "resume_autonomous E source e =
    (case en_track0 e of
       None \<Rightarrow> (Inr ActionOutcome.LEGACY_DIRECT, e)
     | Some c \<Rightarrow>
       let resume_action = en_resume_action e;
           e1 = (suspend (clear_protected_continuation e))\<lparr>en_active_action := None\<rparr>;
           (cleared, e2) =
             (if ct_active_request c \<noteq> None then track0_clear E CancelReason.USER_INTERRUPT c e1
              else (ActionOutcome.CLEARED, e1))
       in if cleared \<noteq> ActionOutcome.CLEARED then checked cleared e2
          else case resume_action of
                 None \<Rightarrow> start_autonomous E e2
               | Some a \<Rightarrow> submit_and_activate E a None e2)"

definition contain_renderer_failure ::
    "('p, 'r) engine_env \<Rightarrow> ('p, 'r) PetAnimationEngine
      \<Rightarrow> (ActionOutcome, ('p, 'r) PetAnimationEngine) sres" where
  "contain_renderer_failure E e =
    (let e1 = (suspend (clear_protected_continuation e))\<lparr>en_active_action := None\<rparr>
     in sbind (commit_semantic ProductionAction.RELAX e1) (\<lambda>_ e2.
        case en_track0 e2 of
          None \<Rightarrow> (Inr ActionOutcome.LEGACY_DIRECT, e2)
        | Some c \<Rightarrow> apfst Inr (track0_clear E CancelReason.RENDERER_FAILURE c e2)))"

section \<open>Events\<close>

text \<open>What each event proposes, the sequence it wants and the reason it cancels with.\<close>

fun event_plan ::
    "bool \<Rightarrow> PetAnimationEventType \<Rightarrow> PetFacing option
      \<Rightarrow> (propose_args \<times> SequenceName option \<times> CancelReason) res" where
  "event_plan fallback PetAnimationEventType.START_READING fc =
     Inr (no_args\<lparr>arg_activity := Some PetActivityState.READING\<rparr>,
          Some SequenceName.READ, CancelReason.USER_INTERRUPT)"
| "event_plan fallback PetAnimationEventType.START_FALLING fc =
     Inr (no_args\<lparr>arg_motion := Some PetMotionState.FALLING, arg_mandatory := True\<rparr>,
          Some SequenceName.FALL_RECOVERY, CancelReason.MOTION_OVERRIDE)"
| "event_plan fallback PetAnimationEventType.START_WALKING fc =
     (case fc of
        None \<Rightarrow> Inl (ValueError ''walking event requires a facing direction'')
      | Some d \<Rightarrow>
          Inr (no_args\<lparr>arg_motion :=
                   Some (if d = PetFacing.LEFT then PetMotionState.WALKING_LEFT
                         else PetMotionState.WALKING_RIGHT),
                 arg_facing := Some d\<rparr>,
               Some (if d = PetFacing.LEFT then SequenceName.WALK_LEFT else SequenceName.WALK_RIGHT),
               CancelReason.USER_INTERRUPT))"
| "event_plan fallback PetAnimationEventType.START_THINKING fc =
     Inr (no_args\<lparr>arg_motion := Some PetMotionState.IDLE,
            arg_activity := Some PetActivityState.THINKING\<rparr>,
          Some SequenceName.THINK, CancelReason.USER_INTERRUPT)"
| "event_plan fallback PetAnimationEventType.START_REMINDING fc =
     Inr (no_args\<lparr>arg_motion := Some PetMotionState.IDLE,
            arg_activity := Some PetActivityState.REMINDING\<rparr>,
          Some SequenceName.REMIND, CancelReason.USER_INTERRUPT)"
| "event_plan fallback PetAnimationEventType.START_DRAGGING fc =
     Inr (no_args\<lparr>arg_motion := Some PetMotionState.DRAGGING\<rparr>,
          Some (if fallback then SequenceName.PRODUCTION_MOTION_FALLBACK else SequenceName.DRAG_HOLD),
          CancelReason.USER_INTERRUPT)"
| "event_plan fallback PetAnimationEventType.RELEASE_DRAG fc =
     Inr (no_args\<lparr>arg_motion := Some PetMotionState.FALLING\<rparr>,
          Some SequenceName.DRAG_RELEASE, CancelReason.MOTION_OVERRIDE)"
| "event_plan fallback PetAnimationEventType.PAUSE fc =
     Inr (no_args\<lparr>arg_lifecycle := Some PetLifecycleState.PAUSED, arg_mandatory := True\<rparr>,
          None, CancelReason.PAUSE)"
| "event_plan fallback PetAnimationEventType.RESUME fc =
     Inr (no_args\<lparr>arg_lifecycle := Some PetLifecycleState.ACTIVE,
            arg_motion := Some PetMotionState.IDLE, arg_activity := Some PetActivityState.NONE\<rparr>,
          Some SequenceName.PRODUCTION_RELAX, CancelReason.USER_INTERRUPT)"
| "event_plan fallback PetAnimationEventType.BEGIN_CLOSING fc =
     Inr (no_args\<lparr>arg_lifecycle := Some PetLifecycleState.CLOSING, arg_mandatory := True\<rparr>,
          None, CancelReason.SYSTEM_SHUTDOWN)"

definition propose_event ::
    "PetAnimationEvent \<Rightarrow> ('p, 'r) PetAnimationEngine
      \<Rightarrow> (ProposedStateTransition \<times> SequenceName option \<times> CancelReason) res" where
  "propose_event ev e =
    ebind (event_plan (en_relax_fallback e) (ae_type ev) (ae_facing ev)) (\<lambda>(args, name, reason).
    ebind (propose (mm_states (en_motion e)) args) (\<lambda>p. Inr (p, name, reason)))"

definition event_origin :: "PetAnimationEvent \<Rightarrow> ActionOrigin" where
  "event_origin ev =
    (if ae_type ev \<in> {PetAnimationEventType.START_FALLING, PetAnimationEventType.PAUSE,
                       PetAnimationEventType.RESUME, PetAnimationEventType.BEGIN_CLOSING}
     then ActionOrigin.SYSTEM else ActionOrigin.EXPLICIT)"

definition event_source :: "PetAnimationEvent \<Rightarrow> ActionSource" where
  "event_source ev =
    (if ae_type ev = PetAnimationEventType.START_FALLING then ActionSource.MOTION
     else if ae_type ev \<in> {PetAnimationEventType.PAUSE, PetAnimationEventType.RESUME,
                            PetAnimationEventType.BEGIN_CLOSING}
     then ActionSource.LIFECYCLE
     else ActionSource.USER)"

definition contain_mandatory_proposal ::
    "('p, 'r) engine_env \<Rightarrow> ProposedStateTransition \<Rightarrow> CancelReason \<Rightarrow> ('p, 'r) PetAnimationEngine
      \<Rightarrow> (ActionOutcome, ('p, 'r) PetAnimationEngine) sres" where
  "contain_mandatory_proposal E p reason e =
    (case en_track0 e of
       None \<Rightarrow> (Inr ActionOutcome.LEGACY_DIRECT, e)
     | Some c \<Rightarrow>
         sbind (on_motion (commit_state_transition p) e) (\<lambda>_ e1.
         case contain_preflight_failure (env_player E) reason c of
           (oc, c') \<Rightarrow> checked oc (e1\<lparr>en_track0 := Some c'\<rparr>)))"

text \<open>The end of an event's transaction: a resume starts the scheduler again.\<close>

definition event_finish ::
    "('p, 'r) engine_env \<Rightarrow> PetAnimationEvent \<Rightarrow> ActionOutcome \<Rightarrow> ('p, 'r) PetAnimationEngine
      \<Rightarrow> (ActionOutcome, ('p, 'r) PetAnimationEngine) sres" where
  "event_finish E ev oc e =
    sbind
      (if ae_type ev = PetAnimationEventType.RESUME then
         (if oc = ActionOutcome.ACCEPTED
          then activate_autonomous E ProductionAction.RELAX
                 (e\<lparr>en_active_action := Some ProductionAction.RELAX\<rparr>)
          else (Inr (), suspend e))
       else (Inr (), e))
      (\<lambda>_ e1. checked oc e1)"

definition event_transaction ::
    "('p, 'r) engine_env \<Rightarrow> PetAnimationEvent \<Rightarrow> ProposedStateTransition \<Rightarrow> SequenceName
      \<Rightarrow> CancelReason \<Rightarrow> 'p PetTrack0Controller \<Rightarrow> ('p, 'r) PetAnimationEngine
      \<Rightarrow> (ActionOutcome, ('p, 'r) PetAnimationEngine) sres" where
  "event_transaction E ev p name reason c e =
    (case SEQUENCE_CATALOG name of
       None \<Rightarrow> (Inl KeyError, e)
     | Some entry \<Rightarrow>
       with_res (mk_ActionRequest name (entry_interruption_class entry) (entry_protected entry)
                   (ae_token ev) (target_epoch p) (ae_session ev) (event_origin ev)
                   (event_source ev)) e (\<lambda>q.
       with_res (py_index (seq_steps (entry_sequence entry)) 0) e (\<lambda>st.
       case assert_animation_compatible (target_state p) (Some (step_action st))
              (health (ct_state c)) of
         Inl AnimationCompatibilityError \<Rightarrow>
           if mandatory_for_safety p then contain_mandatory_proposal E p reason e
           else (Inr ActionOutcome.REJECTED_INCOMPATIBLE_STATE, e)
       | Inl err \<Rightarrow> (Inl err, e)
       | Inr _ \<Rightarrow>
         with_res (preflight (env_player E) q c) e (\<lambda>pf.
         if pf_outcome pf \<noteq> ActionOutcome.ACCEPTED then
           (if \<not> mandatory_for_safety p then (Inr (pf_outcome pf), e)
            else contain_mandatory_proposal E p reason e)
         else with_res (ebind (arbitration_context c e) (\<lambda>ctx. arbitrate q ctx c)) e (\<lambda>d.
         if outcome d \<noteq> ActionOutcome.ACCEPTED then (Inr (outcome d), e)
         else sbind (on_motion (commit_state_transition p) e) (\<lambda>_ e1.
              sbind (start_or_replace E reason q (mode d) c e1)
                (\<lambda>oc e2. event_finish E ev oc e2)))))))"

definition handle_event ::
    "('p, 'r) engine_env \<Rightarrow> PetAnimationEvent \<Rightarrow> ('p, 'r) PetAnimationEngine
      \<Rightarrow> (ActionOutcome, ('p, 'r) PetAnimationEngine) sres" where
  "handle_event E ev e0 =
    (let e = (if ae_type ev \<in> mandatory_interruption_events
              then (suspend (clear_protected_continuation e0))\<lparr>en_active_action := None\<rparr> else e0)
     in case en_track0 e of
          None \<Rightarrow> (Inr ActionOutcome.LEGACY_DIRECT, e)
        | Some c \<Rightarrow>
          with_res (propose_event ev e) e (\<lambda>(p, name_opt, reason).
          case name_opt of
            None \<Rightarrow>
              sbind (on_motion (commit_state_transition p) e) (\<lambda>_ e1.
              case track0_clear E reason c e1 of (oc, e2) \<Rightarrow> checked oc e2)
          | Some name \<Rightarrow> event_transaction E ev p name reason c e))"

definition engine_request_graceful_exit ::
    "('p, 'r) engine_env \<Rightarrow> ('p, 'r) PetAnimationEngine
      \<Rightarrow> (ActionOutcome, ('p, 'r) PetAnimationEngine) sres" where
  "engine_request_graceful_exit E e =
    (case en_track0 e of
       None \<Rightarrow> (Inr ActionOutcome.LEGACY_DIRECT, e)
     | Some c \<Rightarrow>
         if \<not> production_sequencing_enabled E e then (Inr ActionOutcome.LEGACY_DIRECT, e)
         else on_track0 E (\<lambda>now. cancel (env_player E) now CancelReason.USER_INTERRUPT
                CancellationMode.GRACEFUL_EXIT None) c e)"

section \<open>Renderer callbacks\<close>

definition callback_matches_snapshot ::
    "PlaybackEvent \<Rightarrow> 'p PetTrack0Controller \<Rightarrow> bool res" where
  "callback_matches_snapshot ev c =
    (case (rn_confirmed_epoch (ct_runner c), rn_sequence (ct_runner c), rn_current_index (ct_runner c)) of
       (Some confirmed, Some s, Some i) \<Rightarrow>
         ebind (py_index (seq_steps s) i) (\<lambda>st.
         Inr (ev_generation ev = ce_generation confirmed
              \<and> ev_logical_action ev = ce_logical_action confirmed
              \<and> ev_logical_action ev = step_action st
              \<and> ev_physical_name ev = ce_physical_name confirmed
              \<and> ev_playback_token ev = ce_playback_token confirmed))
     | _ \<Rightarrow> Inr False)"

definition next_action_for_callback ::
    "PlaybackEvent \<Rightarrow> 'p PetTrack0Controller \<Rightarrow> PetActionName option res" where
  "next_action_for_callback ev c =
    (case (rn_sequence (ct_runner c), rn_current_index (ct_runner c)) of
       (Some s, Some i) \<Rightarrow>
         ebind (py_index (seq_steps s) i) (\<lambda>st.
         if step_loop st then
           (if \<not> ev_loop_boundary ev \<or> \<not> rn_pending_graceful_exit (ct_runner c) then Inr None
            else case loop_exit_index s of
                   None \<Rightarrow> Inr None
                 | Some j \<Rightarrow> ebind (py_index (seq_steps s) j) (\<lambda>st'. Inr (Some (step_action st'))))
         else if ev_loop_boundary ev then Inr None
         else if i + 1 \<ge> int (length (seq_steps s)) then Inr None
         else ebind (py_index (seq_steps s) (i + 1)) (\<lambda>st'. Inr (Some (step_action st'))))
     | _ \<Rightarrow> Inr None)"

definition callback_reaches_idle_terminal ::
    "PlaybackEvent \<Rightarrow> 'p PetTrack0Controller \<Rightarrow> bool res" where
  "callback_reaches_idle_terminal ev c =
    (case (rn_sequence (ct_runner c), rn_current_index (ct_runner c)) of
       (Some s, Some i) \<Rightarrow>
         ebind (py_index (seq_steps s) i) (\<lambda>st.
         Inr (\<not> step_loop st \<and> \<not> ev_loop_boundary ev \<and> i + 1 = int (length (seq_steps s))
              \<and> seq_terminal s = SequenceTerminal.IDLE))
     | _ \<Rightarrow> Inr False)"

definition start_idle_after_terminal ::
    "('p, 'r) engine_env \<Rightarrow> ('p, 'r) PetAnimationEngine
      \<Rightarrow> (ActionOutcome, ('p, 'r) PetAnimationEngine) sres" where
  "start_idle_after_terminal E e =
    (case en_track0 e of
       None \<Rightarrow> (Inr ActionOutcome.LEGACY_DIRECT, e)
     | Some c \<Rightarrow>
       (case SEQUENCE_CATALOG SequenceName.IDLE of
          None \<Rightarrow> (Inl KeyError, e)
        | Some entry \<Rightarrow>
          let (t, e1) = new_object e in
          with_res (mk_ActionRequest SequenceName.IDLE (entry_interruption_class entry)
                      (entry_protected entry) t (sm_epoch (mm_states (en_motion e1))) None
                      ActionOrigin.SYSTEM ActionSource.LIFECYCLE) e1 (\<lambda>q.
          with_res (preflight (env_player E) q c) e1 (\<lambda>pf.
          if pf_outcome pf \<noteq> ActionOutcome.ACCEPTED
          then (case contain_preflight_failure (env_player E) CancelReason.RENDERER_FAILURE c of
                  (oc, c') \<Rightarrow> (Inr oc, e1\<lparr>en_track0 := Some c'\<rparr>))
          else on_track0 E (\<lambda>now. play (env_player E) now q) c e1))))"

text \<open>
  \<^verbatim>\<open>_handle_autonomous_boundary\<close>: nothing when there is no scheduler, no scheduler state or no
  boundary index, else the outcome of the boundary.
\<close>

definition boundary_commit ::
    "('p, 'r) engine_env \<Rightarrow> AutonomousSchedulerDecision \<Rightarrow> real \<Rightarrow> ActionOutcome
      \<Rightarrow> ('p, 'r) PetAnimationEngine \<Rightarrow> (ActionOutcome option, ('p, 'r) PetAnimationEngine) sres" where
  "boundary_commit E d now oc e =
    (case (case confirmed_of e of
             Some confirmed \<Rightarrow>
               if oc = ActionOutcome.ACCEPTED
               then commit_accepted (env_random E) d (Finite now) (ce_generation confirmed)
                      (ce_playback_token confirmed) (en_rng e)
               else reject (env_random E) d (Finite now) (en_rng e)
           | None \<Rightarrow> reject (env_random E) d (Finite now) (en_rng e)) of
       (Inl err, r) \<Rightarrow> (Inl err, e\<lparr>en_rng := r\<rparr>)
     | (Inr s, r) \<Rightarrow> (Inr (Some oc), e\<lparr>en_rng := r, en_scheduler_state := Some s\<rparr>))"

definition boundary_continue ::
    "('p, 'r) engine_env \<Rightarrow> PlaybackEvent \<Rightarrow> real \<Rightarrow> 'p PetTrack0Controller \<Rightarrow> AutonomousSchedulerDecision
      \<Rightarrow> ('p, 'r) PetAnimationEngine \<Rightarrow> (ActionOutcome option, ('p, 'r) PetAnimationEngine) sres" where
  "boundary_continue E ev now c d e =
    (case sd_intent d of
       None \<Rightarrow> sbind (on_track0 E (\<lambda>now'. handle_completion (env_player E) now' ev None) c e)
                (\<lambda>oc e1. (Inr (Some oc), e1))
     | Some intent \<Rightarrow>
         sbind (submit_production_intent E intent None e) (\<lambda>oc e1. boundary_commit E d now oc e1))"

definition boundary_evaluate ::
    "('p, 'r) engine_env \<Rightarrow> PlaybackEvent \<Rightarrow> real \<Rightarrow> 'p PetTrack0Controller \<Rightarrow> AutonomousSchedulerState
      \<Rightarrow> AutonomousRuntimeSnapshot \<Rightarrow> AutonomousBoundaryEvent
      \<Rightarrow> ('p, 'r) PetAnimationEngine \<Rightarrow> (ActionOutcome option, ('p, 'r) PetAnimationEngine) sres" where
  "boundary_evaluate E ev now c s snap be e =
    (let (fresh, e1) = new_object e in
     case evaluate (env_random E) s snap (Some be) fresh (en_rng e1) of
       (Inl err, r) \<Rightarrow> (Inl err, e1\<lparr>en_rng := r\<rparr>)
     | (Inr d, r) \<Rightarrow>
         boundary_continue E ev now c d (e1\<lparr>en_rng := r, en_scheduler_state := Some (sd_state d)\<rparr>))"

definition handle_autonomous_boundary ::
    "('p, 'r) engine_env \<Rightarrow> PlaybackEvent \<Rightarrow> ('p, 'r) PetAnimationEngine
      \<Rightarrow> (ActionOutcome option, ('p, 'r) PetAnimationEngine) sres" where
  "handle_autonomous_boundary E ev e =
    (case (en_scheduler_state e, en_track0 e, ev_boundary_index ev) of
       (Some s, Some c, Some bi) \<Rightarrow>
         if \<not> en_has_scheduler e then (Inr None, e)
         else
         let now = env_clock E (en_ticks e);
             e1 = e\<lparr>en_ticks := Suc (en_ticks e)\<rparr> in
         with_res (mk_AutonomousRuntimeSnapshot (Finite now) (en_execution_mode e1) UNIV) e1 (\<lambda>snap.
         with_res (mk_AutonomousBoundaryEvent (ev_generation ev) (ev_playback_token ev) bi
                     (Finite now)) e1 (\<lambda>be. boundary_evaluate E ev now c s snap be e1))
     | _ \<Rightarrow> (Inr None, e))"

text \<open>What follows the runner's step: the pending explicit action or Relax, then the idle loop.\<close>

definition after_protected ::
    "('p, 'r) engine_env \<Rightarrow> PetFacing option \<Rightarrow> ('p, 'r) PetAnimationEngine
      \<Rightarrow> (ActionOutcome, ('p, 'r) PetAnimationEngine) sres" where
  "after_protected E fc e =
    (let e1 = (clear_protected_continuation e)\<lparr>en_active_action := None\<rparr>
     in case en_pending e of
          Some pending \<Rightarrow>
            with_res (pending_intent pending) e1 (\<lambda>intent. submit_production_intent E intent None e1)
        | None \<Rightarrow> recover_autonomous_relax E fc e1)"

definition after_recovery ::
    "('p, 'r) engine_env \<Rightarrow> ('p, 'r) PetAnimationEngine
      \<Rightarrow> (ActionOutcome, ('p, 'r) PetAnimationEngine) sres" where
  "after_recovery E e =
    (case en_track0 e of
       None \<Rightarrow> (Inr ActionOutcome.LEGACY_DIRECT, e)
     | Some c \<Rightarrow>
         (case track0_clear E CancelReason.MOTION_OVERRIDE c e of
            (oc, e1) \<Rightarrow>
              if oc = ActionOutcome.CLEARED then recover_autonomous_relax E None e1
              else (Inr oc, suspend e1)))"

definition finish_callback ::
    "('p, 'r) engine_env \<Rightarrow> PlaybackEvent \<Rightarrow> ActionRequest option \<Rightarrow> bool \<Rightarrow> PetFacing option \<Rightarrow> bool
      \<Rightarrow> 'p PetTrack0Controller \<Rightarrow> ('p, 'r) PetAnimationEngine
      \<Rightarrow> (ActionOutcome, ('p, 'r) PetAnimationEngine) sres" where
  "finish_callback E ev cont prot fc recovery c e =
    with_res (callback_reaches_idle_terminal ev c) e (\<lambda>idle.
    sbind (on_track0 E (\<lambda>now. handle_completion (env_player E) now ev cont) c e) (\<lambda>oc e1.
    sbind (if oc = ActionOutcome.ACCEPTED \<and> prot then after_protected E fc e1
           else if oc = ActionOutcome.ACCEPTED \<and> recovery then after_recovery E e1
           else (Inr oc, e1)) (\<lambda>oc2 e2.
    sbind (if oc2 = ActionOutcome.ACCEPTED \<and> idle then start_idle_after_terminal E e2
           else (Inr oc2, e2)) (\<lambda>oc3 e3.
    checked oc3 e3))))"

text \<open>\<^verbatim>\<open>dataclasses.replace(active, semantic_epoch=...)\<close> validates the request again.\<close>

definition replace_epoch :: "ActionRequest \<Rightarrow> int \<Rightarrow> ActionRequest res" where
  "replace_epoch q epoch =
    mk_ActionRequest (sequence_name q) (interruption_class q) (protected q) (request_token q) epoch
      (input_session_token q) (req_origin q) (req_source q)"

definition return_idle_args :: propose_args where
  "return_idle_args =
    no_args\<lparr>arg_motion := Some PetMotionState.IDLE, arg_activity := Some PetActivityState.NONE\<rparr>"

definition matched_callback ::
    "('p, 'r) engine_env \<Rightarrow> PlaybackEvent \<Rightarrow> PetFacing option \<Rightarrow> 'p PetTrack0Controller
      \<Rightarrow> ('p, 'r) PetAnimationEngine \<Rightarrow> (ActionOutcome, ('p, 'r) PetAnimationEngine) sres" where
  "matched_callback E ev special_completion_facing c e =
    (let prot = (\<not> ev_loop_boundary ev
                 \<and> (\<exists>a \<in> production_protected_actions. en_active_action e = Some a)
                 \<and> active_request_is_protected e);
         fc = (if prot \<and> en_active_action e = Some ProductionAction.SPECIAL
               then special_completion_facing else None);
         recovery = (\<not> ev_loop_boundary ev
                     \<and> (case ct_active_request c of
                          None \<Rightarrow> False
                        | Some q \<Rightarrow> sequence_name q \<in> {SequenceName.DRAG_RELEASE,
                                     SequenceName.FALL_RECOVERY, SequenceName.LANDING}))
     in with_res (next_action_for_callback ev c) e (\<lambda>next_action.
        if next_action = Some PetActionName.RETURN_IDLE then
          with_res (propose (mm_states (en_motion e)) return_idle_args) e (\<lambda>p.
          with_res (assert_animation_compatible (target_state p) next_action (health (ct_state c))) e (\<lambda>_.
          case ct_active_request c of
            None \<Rightarrow> (Inr ActionOutcome.INVALID_SEQUENCE, e)
          | Some q \<Rightarrow>
              with_res (replace_epoch q (target_epoch p)) e (\<lambda>q'.
              sbind (on_motion (commit_state_transition p) e) (\<lambda>_ e1.
              finish_callback E ev (Some q') prot fc recovery c e1))))
        else finish_callback E ev None prot fc recovery c e))"

definition handle_playback_event ::
    "('p, 'r) engine_env \<Rightarrow> PlaybackEvent \<Rightarrow> PetFacing option \<Rightarrow> ('p, 'r) PetAnimationEngine
      \<Rightarrow> (ActionOutcome, ('p, 'r) PetAnimationEngine) sres" where
  "handle_playback_event E ev special_completion_facing e =
    (case en_track0 e of
       None \<Rightarrow> (Inr ActionOutcome.LEGACY_DIRECT, e)
     | Some c \<Rightarrow>
       with_res (callback_matches_snapshot ev c) e (\<lambda>matches.
       if \<not> matches
       then sbind (on_track0 E (\<lambda>now. handle_completion (env_player E) now ev None) c e) checked
       else sbind (if ev_loop_boundary ev \<and> ev_boundary_index ev \<noteq> None
                   then handle_autonomous_boundary E ev e else (Inr None, e)) (\<lambda>handled e1.
            case handled of
              Some oc \<Rightarrow> checked oc e1
            | None \<Rightarrow> matched_callback E ev special_completion_facing c e1)))"

end
