(* ===== verification/Engine_Transactions.thy ===== *)
theory Engine_Transactions
  imports Animation_Engine
begin

text \<open>
  What the transactions of the animation engine guarantee. The hand-over to Track 0 has two ends
  only: the request owns the track and the player has confirmed its first step, or the track is
  free and marked unhealthy. Every submission, event and callback is analysed over these two.
\<close>

section \<open>Requests\<close>

text \<open>What \<^verbatim>\<open>ActionRequest.__post_init__\<close> validates.\<close>

definition request_ok :: "ActionRequest \<Rightarrow> bool" where
  "request_ok q \<longleftrightarrow> req_source q \<in> sources_by_origin (req_origin q) \<and> 0 \<le> semantic_epoch q \<and>
     (interruption_class q = InterruptClass.STRICT_ACTION \<longrightarrow> protected q) \<and>
     (interruption_class q = InterruptClass.USER_INTERACTION \<longrightarrow> input_session_token q \<noteq> None)"

lemma mk_ActionRequest_iff:
  "mk_ActionRequest n cls prot t ep ses og sr = Inr q \<longleftrightarrow>
     q = \<lparr>sequence_name = n, interruption_class = cls, protected = prot, request_token = t,
          semantic_epoch = ep, input_session_token = ses, req_origin = og, req_source = sr\<rparr> \<and> request_ok q"
  by (auto simp: mk_ActionRequest_def validate_action_authority_def request_ok_def ebind_eq_Inr_iff)

section \<open>Hand-over\<close>

definition owned :: "ActionRequest \<Rightarrow> PetActionName \<Rightarrow> 'p PetTrack0Controller \<Rightarrow> bool" where
  "owned q a c \<longleftrightarrow> ctrl_inv c \<and> ct_active_request c = Some q \<and> desired_action (ct_state c) = Some a \<and>
     health (ct_state c) = PlaybackHealth.HEALTHY \<and>
     (\<exists>ep. confirmed_epoch (ct_state c) = Some ep \<and> 0 \<le> ce_generation ep)"

definition released :: "'p PetTrack0Controller \<Rightarrow> bool" where
  "released c \<longleftrightarrow> ctrl_inv c \<and> ct_active_request c = None \<and>
     health (ct_state c) \<noteq> PlaybackHealth.HEALTHY"

definition failure_outcomes :: "ActionOutcome set" where
  "failure_outcomes = {ActionOutcome.PLAYBACK_DEGRADED, ActionOutcome.RENDERER_STATE_UNKNOWN}"

text \<open>The two ends of handing \<open>q\<close> over, with first action \<open>a\<close>.\<close>

definition handover :: "ActionRequest \<Rightarrow> PetActionName \<Rightarrow> ActionOutcome \<Rightarrow> 'p PetTrack0Controller \<Rightarrow> bool" where
  "handover q a oc c \<longleftrightarrow>
     oc = ActionOutcome.ACCEPTED \<and> owned q a c \<or> oc \<in> failure_outcomes \<and> released c"

definition first_action :: "SequenceCatalogEntry \<Rightarrow> PetActionName" where
  "first_action entry = step_action (seq_steps (entry_sequence entry) ! 0)"

lemma released_state:
  "released c \<Longrightarrow> desired_action (ct_state c) = None \<and> confirmed_epoch (ct_state c) = None"
  by (auto simp: released_def ctrl_inv_def)

lemma started_owned:
  assumes "started now s i q c c'"
  shows "owned q (step_action (seq_steps s ! nat i)) c'"
proof -
  from assms obtain ep where ep: "playing_at s i ep c'" and inv: "ctrl_inv c'"
      and q: "ct_active_request c' = Some q" by (auto simp: started_def)
  have at: "runner_at s i (ct_runner c')" "rn_confirmed_epoch (ct_runner c') = Some ep"
    using ep by (simp_all add: playing_at_def)
  then have ne: "ct_runner c' \<noteq> new_runner" by (auto simp: new_runner_def)
  from inv q ne at(2) have "confirmed_epoch (ct_state c') = Some ep"
      "desired_action (ct_state c') = Some (ce_logical_action ep)"
      "health (ct_state c') = PlaybackHealth.HEALTHY" "epoch_ok ep"
    by (auto simp: ctrl_inv_def playing_at_def)
  moreover have "ce_logical_action ep = step_action (seq_steps s ! nat i)"
    using at by (simp add: runner_at_def)
  ultimately show ?thesis using inv q by (simp add: owned_def epoch_ok_def)
qed

lemma play_handover:
  assumes "ctrl_inv c" and "ct_active_request c = None"
    and "preflight P q c = Inr \<lparr>pf_outcome = ActionOutcome.ACCEPTED, pf_entry = Some entry\<rparr>"
  obtains oc c' where "play P now q c = (Inr oc, c')" and "handover q (first_action entry) oc c'"
proof -
  note st = ctrl_inv_static [OF assms(1)]
  have tm: "timed (ct_registry c) (entry_sequence entry)"
    using st by (cases rule: preflight_cases [where P = P and q = q]) (use assms(3) in auto)
  then have "seq_wf (entry_sequence entry)" by (simp add: timed_def)
  then obtain r' where r': "runner_start (entry_sequence entry) (ct_runner c)
      = (Inr (play_step (entry_sequence entry) 0), r')" "runner_at (entry_sequence entry) 0 r'"
    using track0_runner.start by blast
  let ?c = "c\<lparr>ct_runner := r'\<rparr>"
  have ready: "ready_at (entry_sequence entry) 0 ?c"
    using st tm r'(2) by (simp add: ready_at_def static_ok_def)
  have eq: "play P now q c = play_directive P now q (play_step (entry_sequence entry) 0) ?c"
    using assms(2,3) r'(1) by (simp add: play_def)
  from play_directive_result [OF ready, of P now q] show thesis
  proof
    assume "\<exists>c'. play_directive P now q (play_step (entry_sequence entry) 0) ?c = (Inr ActionOutcome.ACCEPTED, c') \<and>
      started now (entry_sequence entry) 0 q ?c c' \<and> slot_step (slot_of ?c) (slot_of c') \<and>
      rn_pending_graceful_exit (ct_runner c') = rn_pending_graceful_exit (ct_runner ?c)"
    then show thesis using eq started_owned that by (fastforce simp: handover_def first_action_def)
  qed (use eq that in \<open>auto simp: handover_def released_def failure_outcomes_def\<close>)
qed

lemma drop_playback_sel:
  "ct_registry (drop_playback h (c\<lparr>ct_watchdog_deadline := w\<rparr>)) = ct_registry c"
  "ct_player (drop_playback h (c\<lparr>ct_watchdog_deadline := w\<rparr>)) = ct_player c"
  by (simp_all add: drop_playback_def)

lemma preflight_dropped [simp]:
  "preflight P q (drop_playback h (c\<lparr>ct_watchdog_deadline := w\<rparr>)) = preflight P q c"
  unfolding preflight_def drop_playback_sel ..

lemma replace_handover:
  assumes "ctrl_inv c"
    and "preflight P q c = Inr \<lparr>pf_outcome = ActionOutcome.ACCEPTED, pf_entry = Some entry\<rparr>"
  obtains oc c' where "cancel P now reason CancellationMode.REPLACE (Some q) c = (Inr oc, c')"
    and "handover q (first_action entry) oc c'"
proof -
  let ?c = "drop_playback (health (ct_state c)) (c\<lparr>ct_watchdog_deadline := None\<rparr>)"
  have "ctrl_inv ?c" "ct_active_request ?c = None"
    using ctrl_inv_static [OF assms(1)] by (simp_all add: ctrl_inv_def static_ok_def drop_playback_def)
  moreover have "preflight P q ?c = Inr \<lparr>pf_outcome = ActionOutcome.ACCEPTED, pf_entry = Some entry\<rparr>"
    using assms(2) by simp
  ultimately obtain oc c' where "play P now q ?c = (Inr oc, c')" "handover q (first_action entry) oc c'"
    by (rule play_handover)
  with assms(2) show thesis by (intro that) (simp_all add: cancel_replace_def)
qed

text \<open>The engine with another controller, one clock reading later.\<close>

abbreviation with_track0 ::
    "'p PetTrack0Controller \<Rightarrow> ('p, 'r) PetAnimationEngine \<Rightarrow> ('p, 'r) PetAnimationEngine" where
  "with_track0 c e \<equiv> e\<lparr>en_track0 := Some c, en_ticks := Suc (en_ticks e)\<rparr>"

lemma start_or_replace_handover:
  assumes "ctrl_inv c" and "ct_active_request c \<noteq> None \<Longrightarrow> md = Some CancellationMode.REPLACE"
    and "preflight (env_player E) q c = Inr \<lparr>pf_outcome = ActionOutcome.ACCEPTED, pf_entry = Some entry\<rparr>"
  obtains oc c' where "start_or_replace E reason q md c e = (Inr oc, with_track0 c' e)"
    and "handover q (first_action entry) oc c'"
proof (cases "ct_active_request c")
  case None
  obtain oc c' where "play (env_player E) (env_clock E (en_ticks e)) q c = (Inr oc, c')"
      "handover q (first_action entry) oc c'"
    by (rule play_handover [OF assms(1) None assms(3)])
  with None show thesis by (intro that) (simp_all add: start_or_replace_def on_track0_def)
next
  case (Some a)
  obtain oc c' where "cancel (env_player E) (env_clock E (en_ticks e)) reason CancellationMode.REPLACE
        (Some q) c = (Inr oc, c')" "handover q (first_action entry) oc c'"
    by (rule replace_handover [OF assms(1,3)])
  with Some assms(2) show thesis by (intro that) (simp_all add: start_or_replace_def on_track0_def)
qed

lemma preflight_outcome:
  assumes "preflight P q c = Inr \<lparr>pf_outcome = oc, pf_entry = None\<rparr>"
  shows "oc \<in> {ActionOutcome.INVALID_SEQUENCE, ActionOutcome.SEQUENCING_DISABLED_CAPABILITY,
    ActionOutcome.REGISTRY_MISMATCH}"
  using assms
  by (auto simp: preflight_def split: option.splits if_splits sum.splits py_error.splits)

section \<open>Arbitration inside a transaction\<close>

lemma compatible_cases:
  assumes "layered_ok s"
  shows "assert_animation_compatible s a h = Inr () \<or>
    assert_animation_compatible s a h = Inl AnimationCompatibilityError"
  using assms
  by (auto simp: assert_animation_compatible_def validate_layered_state_cases raise_if_def split: option.splits)

lemma motion_layered: "motion_inv m \<Longrightarrow> layered_ok (raw_state (mm_states m))"
  by (simp add: motion_inv_def sm_valid_def)

lemma arbitration_context_ok:
  assumes "motion_inv (en_motion e)"
  obtains ctx where "arbitration_context c e = Inr ctx" and "incoming_mode ctx = CancellationMode.REPLACE"
    and "\<not> runner_authorized_continuation ctx"
proof -
  have "\<exists>b. active_playback_is_compatible e = Inr b"
  proof (cases "en_track0 e")
    case (Some c')
    with compatible_cases [OF motion_layered [OF assms], of "desired_action (ct_state c')" "health (ct_state c')"]
    show ?thesis using motion_inv_valid [OF assms] by (auto simp: active_playback_is_compatible_def)
  qed (auto simp: active_playback_is_compatible_def)
  then show thesis using that by (auto simp: arbitration_context_def)
qed

lemma arbitrate_mode:
  assumes "interruption_class q \<noteq> InterruptClass.SYSTEM_SHUTDOWN"
    and "incoming_mode ctx = CancellationMode.REPLACE" and "\<not> runner_authorized_continuation ctx"
  obtains d where "arbitrate q ctx c = Inr d"
    and "outcome d = ActionOutcome.ACCEPTED \<Longrightarrow> ct_active_request c \<noteq> None \<Longrightarrow> mode d = Some CancellationMode.REPLACE"
    and "outcome d \<in> {ActionOutcome.ACCEPTED, ActionOutcome.REJECTED_PRIORITY, ActionOutcome.REJECTED_DUPLICATE}"
proof -
  obtain d where d: "arbitrate q ctx c = Inr d"
    using track0_arbiter.total [of q "ct_active_request c" ctx] by (auto simp: arbitrate_def is_ok_iff)
  show thesis
  proof (rule that [OF d])
    show "mode d = Some CancellationMode.REPLACE"
      if "outcome d = ActionOutcome.ACCEPTED" "ct_active_request c \<noteq> None"
      using that d assms
      by (auto simp: arbitrate_def decide_def decide_equal_class_def decide_motion_safety_def
          decide_user_interaction_def Let_def split: if_splits)
    show "outcome d \<in> {ActionOutcome.ACCEPTED, ActionOutcome.REJECTED_PRIORITY, ActionOutcome.REJECTED_DUPLICATE}"
      using d assms
      by (auto simp: arbitrate_def decide_def decide_equal_class_def decide_motion_safety_def
          decide_user_interaction_def Let_def split: if_splits option.splits)
  qed
qed

section \<open>Proposals and commits\<close>

lemma commit_motion:
  assumes "motion_inv m" and "propose (mm_states m) args = Inr p"
  obtains m' where "commit_state_transition p m = (Inr (), m')" and "motion_inv m'"
    and "raw_state (mm_states m') = target_state p"
    and "sm_epoch (mm_states m') = sm_epoch (mm_states m) + 1"
    and "mm_window_size m' = mm_window_size m" and "mm_config m' = mm_config m"
    and "mm_position m' = mm_position m"
    and "motion (target_state p) \<notin> {PetMotionState.WALKING_LEFT, PetMotionState.WALKING_RIGHT} \<Longrightarrow>
      mm_horizontal_velocity m' = 0"
proof -
  let ?st = "(install (target_state p) (mm_states m))\<lparr>sm_epoch := sm_epoch (mm_states m) + 1\<rparr>"
  have st: "commit (mm_states m) p = Inr ?st" by (rule commit_propose [OF assms(2)])
  have ok: "sm_valid ?st" by (simp add: sm_valid_def propose_target_ok [OF assms(2)])
  show thesis
    using assms(1) st ok
    by (intro that, simp add: commit_state_transition_def Let_def)
      (auto simp: motion_inv_def)
qed

lemma propose_inactive:
  assumes "sm_valid m" and "or_else (arg_lifecycle args) (sm_lifecycle m) \<noteq> PetLifecycleState.ACTIVE"
  obtains p where "propose m args = Inr p" and "target_epoch p = sm_epoch m + 1"
    and "mandatory_for_safety p = arg_mandatory args"
    and "target_state p = \<lparr>lifecycle = or_else (arg_lifecycle args) (sm_lifecycle m),
      motion = or_else (arg_motion args) (sm_motion m), behaviors = {},
      facing = or_else (arg_facing args) (sm_facing m), activity = PetActivityState.NONE\<rparr>"
proof -
  have pt: "propose_target (raw_state m) args = (PetActivityState.NONE, {})"
    using assms(2) by (simp add: propose_target_def Let_def)
  have mk: "mk_PetLayeredState lc mo {} fa PetActivityState.NONE
      = Inr \<lparr>lifecycle = lc, motion = mo, behaviors = {}, facing = fa, activity = PetActivityState.NONE\<rparr>"
    if "lc \<noteq> PetLifecycleState.ACTIVE" for lc mo fa
    using mk_PetLayeredState_ok [of "\<lparr>lifecycle = lc, motion = mo, behaviors = {}, facing = fa,
      activity = PetActivityState.NONE\<rparr>"] that by (simp add: layered_ok_def)
  show thesis
    using assms snapshot_valid [OF assms(1)] pt mk [OF assms(2)]
    by (intro that, simp add: propose_def) simp_all
qed

lemma propose_production:
  assumes "sm_valid m"
  obtains p where "propose m (target_args (semantic_target a) ov) = Inr p"
    and "target_epoch p = sm_epoch m + 1" and "lifecycle (target_state p) = sm_lifecycle m"
    and "layered_ok (target_state p)" and "motion (target_state p) = target_motion (semantic_target a)"
    and "sm_lifecycle m = PetLifecycleState.ACTIVE \<Longrightarrow> \<exists>f. target_state p = target_layered a f"
proof (cases "sm_lifecycle m = PetLifecycleState.ACTIVE")
  case True
  from propose_semantic_target [OF assms True, of a ov] obtain p f where
      "propose m (target_args (semantic_target a) ov) = Inr p" "target_state p = target_layered a f"
      "target_epoch p = sm_epoch m + 1" by blast
  then show thesis using True target_layered_ok [of a f] by (intro that) (auto simp: target_layered_def)
next
  case False
  have args: "arg_lifecycle (target_args (semantic_target a) ov) = None"
      "arg_motion (target_args (semantic_target a) ov) = Some (target_motion (semantic_target a))"
    by (simp_all add: target_args_def no_args_def)
  obtain p where p: "propose m (target_args (semantic_target a) ov) = Inr p"
      "target_epoch p = sm_epoch m + 1" "lifecycle (target_state p) = sm_lifecycle m"
      "motion (target_state p) = target_motion (semantic_target a)"
    by (rule propose_inactive [OF assms, of "target_args (semantic_target a) ov"])
      (use False args in \<open>auto simp: or_else_def\<close>)
  with False propose_target_ok [OF p(1)] show thesis by (intro that) auto
qed

lemma production_catalog:
  obtains entry where "SEQUENCE_CATALOG (production_sequence a) = Some entry"
    and "entry_interruption_class entry = (if a \<in> production_protected_actions
      then InterruptClass.STRICT_ACTION else InterruptClass.NORMAL_ACTION)"
    and "entry_protected entry = (a \<in> production_protected_actions)"
    and "first_action entry = production_track0_action a"
proof -
  have "\<exists>entry. SEQUENCE_CATALOG (production_sequence a) = Some entry \<and>
      entry_interruption_class entry = (if a \<in> production_protected_actions
        then InterruptClass.STRICT_ACTION else InterruptClass.NORMAL_ACTION) \<and>
      entry_protected entry = (a \<in> production_protected_actions) \<and>
      first_action entry = production_track0_action a"
    by (cases a) (simp_all add: SEQUENCE_CATALOG_def catalog_eval production_protected_actions_def first_action_def)
  then show thesis using that by blast
qed

lemma target_compatible:
  "assert_animation_compatible (target_layered a f) (Some (production_track0_action a)) PlaybackHealth.HEALTHY = Inr ()"
  using target_layered_ok [of a f]
  by (cases a) (simp_all add: assert_compatible_iff target_layered_def STATE_ACTION_COMPATIBILITY_def)

lemma incompatible_unhealthy:
  assumes "layered_ok s" and "h \<noteq> PlaybackHealth.HEALTHY \<or> lifecycle s \<noteq> PetLifecycleState.ACTIVE"
  shows "assert_animation_compatible s (Some a) h = Inl AnimationCompatibilityError"
  using compatible_cases [OF assms(1), of "Some a" h] assms(2) by (auto simp: assert_compatible_iff)

section \<open>Invariant of the engine\<close>

text \<open>A request that owns the track belongs to a state that was committed, and is no shutdown.\<close>

definition owner_ok :: "int \<Rightarrow> ActionRequest \<Rightarrow> bool" where
  "owner_ok ep q \<longleftrightarrow> request_ok q \<and> semantic_epoch q \<le> ep \<and>
     interruption_class q \<noteq> InterruptClass.SYSTEM_SHUTDOWN"

definition track0_inv :: "int \<Rightarrow> 'p PetTrack0Controller \<Rightarrow> bool" where
  "track0_inv ep c \<longleftrightarrow> ctrl_inv c \<and> pred_option (owner_ok ep) (ct_active_request c)"

lemma track0_inv_mono: "track0_inv ep c \<Longrightarrow> ep \<le> ep' \<Longrightarrow> track0_inv ep' c"
  by (cases "ct_active_request c") (auto simp: track0_inv_def owner_ok_def)

lemma track0_inv_idle: "ctrl_inv c \<Longrightarrow> ct_active_request c = None \<Longrightarrow> track0_inv ep c"
  by (simp add: track0_inv_def)

lemma track0_inv_ctrl: "track0_inv ep c \<Longrightarrow> ctrl_inv c"
  by (simp add: track0_inv_def)

definition not_running :: "PetMotionModel \<Rightarrow> bool" where
  "not_running m \<longleftrightarrow> motion_of m \<notin> {PetMotionState.RUNNING_LEFT, PetMotionState.RUNNING_RIGHT}"

definition body_inv :: "PetMotionModel \<Rightarrow> bool" where
  "body_inv m \<longleftrightarrow> motion_inv m \<and> not_running m \<and> 0 \<le> sm_epoch (mm_states m)"

definition engine_inv :: "('p, 'r) PetAnimationEngine \<Rightarrow> bool" where
  "engine_inv e \<longleftrightarrow> body_inv (en_motion e) \<and>
     pred_option (track0_inv (sm_epoch (mm_states (en_motion e)))) (en_track0 e) \<and>
     pred_option (\<lambda>p. pending_source p \<in> sources_by_origin ActionOrigin.EXPLICIT) (en_pending e) \<and>
     pred_option sched_ok (en_scheduler_state e) \<and>
     pred_option (\<lambda>a. a \<notin> production_protected_actions) (en_resume_action e)"

text \<open>One operation keeps the invariant and never exchanges what the engine was built with.\<close>

definition keeps :: "('p, 'r) PetAnimationEngine \<Rightarrow> ('p, 'r) PetAnimationEngine \<Rightarrow> bool" where
  "keeps e e' \<longleftrightarrow> engine_inv e' \<and> en_config e' = en_config e \<and>
     en_relax_fallback e' = en_relax_fallback e \<and> en_has_scheduler e' = en_has_scheduler e \<and>
     (en_track0 e' = None \<longleftrightarrow> en_track0 e = None) \<and>
     mm_window_size (en_motion e') = mm_window_size (en_motion e) \<and>
     mm_config (en_motion e') = mm_config (en_motion e) \<and>
     sm_epoch (mm_states (en_motion e)) \<le> sm_epoch (mm_states (en_motion e'))"

lemma keeps_inv: "keeps e e' \<Longrightarrow> engine_inv e'"
  by (simp add: keeps_def)

lemma keeps_refl: "engine_inv e \<Longrightarrow> keeps e e"
  by (simp add: keeps_def)

lemma keeps_trans: "keeps e e1 \<Longrightarrow> keeps e1 e2 \<Longrightarrow> keeps e e2"
  by (simp add: keeps_def)

lemma keeps_sbind:
  assumes "keeps e (snd r)" and "\<And>v e1. r = (Inr v, e1) \<Longrightarrow> engine_inv e1 \<Longrightarrow> keeps e1 (snd (f v e1))"
  shows "keeps e (snd (sbind r f))"
proof (cases r)
  case (Pair x e1)
  show ?thesis
  proof (cases x)
    case (Inr v)
    with assms Pair have "keeps e e1" "keeps e1 (snd (f v e1))" by (auto dest: keeps_inv)
    then show ?thesis using Pair Inr by (auto intro: keeps_trans)
  qed (use assms(1) Pair in simp)
qed

lemma keeps_with_res:
  "keeps e e1 \<Longrightarrow> (\<And>v. r = Inr v \<Longrightarrow> keeps e (snd (f v))) \<Longrightarrow> keeps e (snd (with_res r e1 f))"
  by (cases r) simp_all

text \<open>Fields that neither the invariant nor the frame of \<open>keeps\<close> speaks about.\<close>

lemma keeps_plain [simp]:
  "keeps e (e'\<lparr>en_active_action := a\<rparr>) = keeps e e'"
  "keeps e (e'\<lparr>en_execution_mode := md\<rparr>) = keeps e e'"
  "keeps e (e'\<lparr>en_resume_after_protected := b\<rparr>) = keeps e e'"
  "keeps e (e'\<lparr>en_ticks := n\<rparr>) = keeps e e'"
  "keeps e (e'\<lparr>en_fresh := n\<rparr>) = keeps e e'"
  "keeps e (e'\<lparr>en_rng := r\<rparr>) = keeps e e'"
  "keeps e (e'\<lparr>en_drag_session := d\<rparr>) = keeps e e'"
  "keeps e (e'\<lparr>en_animation_time := x\<rparr>) = keeps e e'"
  "keeps e (e'\<lparr>en_blink_elapsed := x\<rparr>) = keeps e e'"
  "keeps e (e'\<lparr>en_action_remaining := x\<rparr>) = keeps e e'"
  "keeps e (e'\<lparr>en_next_blink := x\<rparr>) = keeps e e'"
  "keeps e (e'\<lparr>en_next_random_action := x\<rparr>) = keeps e e'"
  "keeps e (e'\<lparr>en_last_applied_delta := x\<rparr>) = keeps e e'"
  "keeps e (suspend e') = keeps e e'"
  by (simp_all add: keeps_def engine_inv_def suspend_def)

lemma keeps_clear [simp]: "engine_inv e \<Longrightarrow> keeps e (clear_protected_continuation e)"
  by (simp add: keeps_def engine_inv_def clear_protected_continuation_def)

lemma engine_inv_plain [simp]:
  "engine_inv (e\<lparr>en_active_action := a\<rparr>) = engine_inv e"
  "engine_inv (e\<lparr>en_execution_mode := md\<rparr>) = engine_inv e"
  "engine_inv (e\<lparr>en_resume_after_protected := b\<rparr>) = engine_inv e"
  "engine_inv (e\<lparr>en_ticks := n\<rparr>) = engine_inv e"
  "engine_inv (e\<lparr>en_fresh := n\<rparr>) = engine_inv e"
  "engine_inv (e\<lparr>en_rng := r\<rparr>) = engine_inv e"
  "engine_inv (suspend e) = engine_inv e"
  "engine_inv e \<Longrightarrow> engine_inv (clear_protected_continuation e)"
  by (simp_all add: engine_inv_def suspend_def clear_protected_continuation_def)

lemma engine_sel [simp]:
  "en_track0 (suspend e) = en_track0 e" "en_track0 (clear_protected_continuation e) = en_track0 e"
  "en_motion (suspend e) = en_motion e" "en_motion (clear_protected_continuation e) = en_motion e"
  "en_active_action (suspend e) = en_active_action e"
  "en_active_action (clear_protected_continuation e) = en_active_action e"
  "en_execution_mode (suspend e) = AutonomousExecutionMode.SUSPENDED"
  by (simp_all add: suspend_def clear_protected_continuation_def)

lemma engine_inv_motion: "engine_inv e \<Longrightarrow> motion_inv (en_motion e)"
  by (simp add: engine_inv_def body_inv_def)

lemma engine_inv_valid: "engine_inv e \<Longrightarrow> sm_valid (mm_states (en_motion e))"
  by (rule motion_inv_valid [OF engine_inv_motion])

lemma engine_inv_track0: "engine_inv e \<Longrightarrow> en_track0 e = Some c \<Longrightarrow>
    track0_inv (sm_epoch (mm_states (en_motion e))) c"
  by (simp add: engine_inv_def)

lemma engine_inv_ctrl: "engine_inv e \<Longrightarrow> en_track0 e = Some c \<Longrightarrow> ctrl_inv c"
  by (rule track0_inv_ctrl [OF engine_inv_track0])

lemma handover_inv: "handover q a oc c \<Longrightarrow> owner_ok ep q \<Longrightarrow> track0_inv ep c"
  by (auto simp: handover_def owned_def released_def track0_inv_def)

lemma keeps_track0:
  assumes "engine_inv e" and "track0_inv (sm_epoch (mm_states (en_motion e))) c'"
    and "en_track0 e \<noteq> None"
  shows "keeps e (e\<lparr>en_track0 := Some c'\<rparr>)" "keeps e (with_track0 c' e)"
  using assms by (simp_all add: keeps_def engine_inv_def)

lemma keeps_motion:
  assumes "engine_inv e" and "body_inv m'" and "mm_window_size m' = mm_window_size (en_motion e)"
    and "mm_config m' = mm_config (en_motion e)"
    and "sm_epoch (mm_states (en_motion e)) \<le> sm_epoch (mm_states m')"
  shows "keeps e (e\<lparr>en_motion := m'\<rparr>)"
proof -
  have "pred_option (track0_inv (sm_epoch (mm_states m'))) (en_track0 e)"
    using assms(1,5) by (cases "en_track0 e") (auto simp: engine_inv_def intro: track0_inv_mono)
  then show ?thesis using assms by (simp add: keeps_def engine_inv_def)
qed

definition compatible :: "('p, 'r) PetAnimationEngine \<Rightarrow> bool" where
  "compatible e \<longleftrightarrow> assert_transaction_compatible e = Inr ()"

lemma checked_compatible: "compatible e \<Longrightarrow> checked oc e = (Inr oc, e)"
  by (simp add: checked_def compatible_def)

lemma keeps_checked: "keeps e e' \<Longrightarrow> keeps e (snd (checked oc e'))"
  by (simp add: checked_def keeps_with_res)

lemma compatible_iff:
  assumes "engine_inv e" and "en_track0 e = Some c"
  shows "compatible e \<longleftrightarrow> assert_animation_compatible (raw_state (mm_states (en_motion e)))
    (desired_action (ct_state c)) (health (ct_state c)) = Inr ()"
  using assms(2) engine_inv_valid [OF assms(1)] by (simp add: compatible_def assert_transaction_compatible_def)

lemma compatible_released:
  assumes "engine_inv e" and "en_track0 e = Some c" and "released c"
  shows "compatible e"
  using assms released_state [OF assms(3)] motion_layered [OF engine_inv_motion [OF assms(1)]]
  by (simp add: compatible_iff assert_compatible_iff released_def)

text \<open>A committed proposal inside the engine.\<close>

definition no_running_args :: "propose_args \<Rightarrow> bool" where
  "no_running_args args \<longleftrightarrow>
     arg_motion args \<notin> {Some PetMotionState.RUNNING_LEFT, Some PetMotionState.RUNNING_RIGHT}"

lemma propose_motion: "propose m args = Inr p \<Longrightarrow> motion (target_state p) = or_else (arg_motion args) (sm_motion m)"
  by (auto simp: propose_Inr_iff dest!: mk_PetLayeredState_Inr) (simp add: snapshot_Inr)

lemma commit_engine:
  assumes "engine_inv e" and "propose (mm_states (en_motion e)) args = Inr p" and "no_running_args args"
  obtains m' where "on_motion (commit_state_transition p) e = (Inr (), e\<lparr>en_motion := m'\<rparr>)"
    and "body_inv m'" and "keeps e (e\<lparr>en_motion := m'\<rparr>)"
    and "raw_state (mm_states m') = target_state p"
    and "sm_epoch (mm_states m') = target_epoch p"
    and "motion (target_state p) \<notin> {PetMotionState.WALKING_LEFT, PetMotionState.WALKING_RIGHT} \<Longrightarrow>
      mm_horizontal_velocity m' = 0"
proof -
  obtain m' where m': "commit_state_transition p (en_motion e) = (Inr (), m')" "motion_inv m'"
      "raw_state (mm_states m') = target_state p"
      "sm_epoch (mm_states m') = sm_epoch (mm_states (en_motion e)) + 1"
      "mm_window_size m' = mm_window_size (en_motion e)" "mm_config m' = mm_config (en_motion e)"
      "motion (target_state p) \<notin> {PetMotionState.WALKING_LEFT, PetMotionState.WALKING_RIGHT} \<longrightarrow>
        mm_horizontal_velocity m' = 0"
    by (rule commit_motion [OF engine_inv_motion [OF assms(1)] assms(2)]) blast
  have "motion_of m' = motion (target_state p)" using m'(3) raw_state_sel(2) by metis
  with propose_motion [OF assms(2)] assms(1,3) have nr: "not_running m'"
    by (auto simp: not_running_def engine_inv_def body_inv_def no_running_args_def or_else_def split: option.splits)
  then have body: "body_inv m'" using m'(2,4) assms(1) by (simp add: body_inv_def engine_inv_def)
  have "keeps e (e\<lparr>en_motion := m'\<rparr>)" by (rule keeps_motion [OF assms(1) body]) (use m' in simp_all)
  moreover have "target_epoch p = sm_epoch (mm_states (en_motion e)) + 1"
    using assms(2) by (auto simp: propose_Inr_iff)
  ultimately show thesis
    using m' body by (intro that [of m']) (simp_all add: on_motion_def)
qed

lemma no_running_target: "no_running_args (target_args (semantic_target a) ov)"
  by (cases a) (simp_all add: no_running_args_def target_args_def no_args_def)

lemma commit_semantic_result:
  assumes "engine_inv e"
  obtains m' where "commit_semantic a e = (Inr (), e\<lparr>en_motion := m'\<rparr>)"
    and "keeps e (e\<lparr>en_motion := m'\<rparr>)" and "motion_of m' = target_motion (semantic_target a)"
    and "lifecycle_of m' = lifecycle_of (en_motion e)"
    and "a \<notin> {ProductionAction.MOVE_LEFT, ProductionAction.MOVE_RIGHT} \<Longrightarrow> mm_horizontal_velocity m' = 0"
proof -
  obtain p where p: "propose (mm_states (en_motion e)) (target_args (semantic_target a) None) = Inr p"
      "lifecycle (target_state p) = lifecycle_of (en_motion e)"
      "motion (target_state p) = target_motion (semantic_target a)"
    by (rule propose_production [OF engine_inv_valid [OF assms]])
  obtain m' where m': "on_motion (commit_state_transition p) e = (Inr (), e\<lparr>en_motion := m'\<rparr>)"
      "keeps e (e\<lparr>en_motion := m'\<rparr>)" "raw_state (mm_states m') = target_state p"
      "motion (target_state p) \<notin> {PetMotionState.WALKING_LEFT, PetMotionState.WALKING_RIGHT} \<longrightarrow>
        mm_horizontal_velocity m' = 0"
    by (rule commit_engine [OF assms p(1) no_running_target]) blast
  from m'(4) p(3) have "mm_horizontal_velocity m' = 0"
    if "a \<notin> {ProductionAction.MOVE_LEFT, ProductionAction.MOVE_RIGHT}"
    using that by (cases a) auto
  moreover have "motion_of m' = motion (target_state p)" "lifecycle_of m' = lifecycle (target_state p)"
    using m'(3) raw_state_sel(1,2) by metis+
  ultimately show thesis using p m'(1,2) by (intro that [of m']) (simp_all add: commit_semantic_def)
qed

section \<open>Submissions\<close>

text \<open>The three ends of a submission: the action plays, it stopped everything, or nothing happened.\<close>

definition plays :: "ActionIntent \<Rightarrow> ('p, 'r) PetAnimationEngine \<Rightarrow> bool" where
  "plays i e \<longleftrightarrow> (\<exists>c q f. en_track0 e = Some c \<and> owned q (production_track0_action (intent_action i)) c \<and>
     raw_state (mm_states (en_motion e)) = target_layered (intent_action i) f \<and>
     sequence_name q = production_sequence (intent_action i) \<and>
     request_token q = intent_token i \<and> req_origin q = intent_origin i \<and>
     semantic_epoch q = sm_epoch (mm_states (en_motion e)) \<and>
     en_active_action e = Some (intent_action i) \<and> compatible e)"

definition stopped :: "('p, 'r) PetAnimationEngine \<Rightarrow> bool" where
  "stopped e \<longleftrightarrow> (\<exists>c. en_track0 e = Some c \<and> released c) \<and> en_active_action e = None \<and>
     en_execution_mode e = AutonomousExecutionMode.SUSPENDED \<and>
     mm_horizontal_velocity (en_motion e) = 0 \<and> compatible e"

lemma submit_finish_failed:
  assumes "engine_inv e" and "en_track0 e = Some c" and "released c" and "oc \<in> failure_outcomes"
    and "intent_action i \<notin> {ProductionAction.MOVE_LEFT, ProductionAction.MOVE_RIGHT} \<Longrightarrow>
      mm_horizontal_velocity (en_motion e) = 0"
  shows "\<exists>e'. submit_finish i oc e = (Inr oc, e') \<and> keeps e e' \<and> stopped e'"
proof -
  let ?e1 = "(suspend e)\<lparr>en_active_action := None\<rparr>"
  have inv1: "engine_inv ?e1" and k1: "keeps e ?e1" using assms(1) keeps_refl by simp_all
  have oc: "oc \<noteq> ActionOutcome.ACCEPTED" using assms(4) by (auto simp: failure_outcomes_def)
  have stop: "checked oc e' = (Inr oc, e') \<and> stopped e'"
    if "keeps ?e1 e'" "en_track0 e' = Some c" "mm_horizontal_velocity (en_motion e') = 0"
      "en_active_action e' = None" "en_execution_mode e' = AutonomousExecutionMode.SUSPENDED" for e'
    using that compatible_released [OF keeps_inv [OF that(1)] that(2) assms(3)] assms(3)
    by (auto simp: stopped_def checked_compatible)
  show ?thesis
  proof (cases "intent_action i \<in> {ProductionAction.MOVE_LEFT, ProductionAction.MOVE_RIGHT}")
    case True
    obtain m' where m': "commit_semantic ProductionAction.RELAX ?e1 = (Inr (), ?e1\<lparr>en_motion := m'\<rparr>)"
        "keeps ?e1 (?e1\<lparr>en_motion := m'\<rparr>)" "mm_horizontal_velocity m' = 0"
      by (rule commit_semantic_result [OF inv1, of ProductionAction.RELAX]) simp
    then show ?thesis
      using True oc stop [of "?e1\<lparr>en_motion := m'\<rparr>"] assms(2) keeps_trans [OF k1 m'(2)]
      by (auto simp: submit_finish_def Let_def)
  next
    case False
    then show ?thesis
      using oc stop [of ?e1] keeps_refl [OF inv1] k1 assms(2,5)
      by (auto simp: submit_finish_def Let_def)
  qed
qed

lemma submit_finish_accepted:
  assumes "engine_inv e" and "en_track0 e = Some c"
    and "owned q (production_track0_action (intent_action i)) c"
    and "raw_state (mm_states (en_motion e)) = target_layered (intent_action i) f"
  shows "\<exists>e'. submit_finish i ActionOutcome.ACCEPTED e = (Inr ActionOutcome.ACCEPTED, e') \<and> keeps e e' \<and>
    en_motion e' = en_motion e \<and> en_track0 e' = Some c \<and>
    en_active_action e' = Some (intent_action i) \<and> compatible e'"
proof -
  let ?e1 = "e\<lparr>en_active_action := Some (intent_action i)\<rparr>"
  let ?e2 = "if intent_action i \<in> production_protected_actions then suspend ?e1
     else if intent_origin i = ActionOrigin.EXPLICIT
     then ?e1\<lparr>en_execution_mode := AutonomousExecutionMode.EXPLICIT_HOLD\<rparr>
     else ?e1\<lparr>en_execution_mode := AutonomousExecutionMode.AUTONOMOUS,
              en_resume_action := Some (intent_action i)\<rparr>"
  have k: "keeps e ?e2" using assms(1) by (simp add: keeps_def engine_inv_def suspend_def)
  have sel: "en_motion ?e2 = en_motion e" "en_track0 ?e2 = Some c"
      "en_active_action ?e2 = Some (intent_action i)"
    using assms(2) by simp_all
  have "compatible ?e2"
    using assms(3,4) target_compatible [of "intent_action i" f]
    by (simp add: compatible_iff [OF keeps_inv [OF k] sel(2)] sel(1) owned_def)
  then show ?thesis
    using k sel by (simp add: submit_finish_def Let_def checked_compatible)
qed

lemma arbitration_core:
  assumes "engine_inv e" and "interruption_class q \<noteq> InterruptClass.SYSTEM_SHUTDOWN"
  obtains d where "ebind (arbitration_context c e) (\<lambda>ctx. arbitrate q ctx c) = Inr d"
    and "outcome d = ActionOutcome.ACCEPTED \<Longrightarrow> ct_active_request c \<noteq> None \<Longrightarrow> mode d = Some CancellationMode.REPLACE"
    and "outcome d \<in> {ActionOutcome.ACCEPTED, ActionOutcome.REJECTED_PRIORITY, ActionOutcome.REJECTED_DUPLICATE}"
proof -
  obtain ctx where ctx: "arbitration_context c e = Inr ctx" "incoming_mode ctx = CancellationMode.REPLACE"
      "\<not> runner_authorized_continuation ctx"
    by (rule arbitration_context_ok [OF engine_inv_motion [OF assms(1)]])
  obtain d where "arbitrate q ctx c = Inr d"
      "outcome d = ActionOutcome.ACCEPTED \<longrightarrow> ct_active_request c \<noteq> None \<longrightarrow> mode d = Some CancellationMode.REPLACE"
      "outcome d \<in> {ActionOutcome.ACCEPTED, ActionOutcome.REJECTED_PRIORITY, ActionOutcome.REJECTED_DUPLICATE}"
    by (rule arbitrate_mode [OF assms(2) ctx(2,3)]) blast
  with ctx(1) show thesis by (intro that [of d]) simp_all
qed

text \<open>The second half of every transaction: commit the proposal, hand the request over.\<close>

lemma transaction_core:
  assumes "engine_inv e" and "en_track0 e = Some c" and "propose (mm_states (en_motion e)) args = Inr p"
    and "no_running_args args" and "owner_ok (target_epoch p) q"
    and "preflight (env_player E) q c = Inr \<lparr>pf_outcome = ActionOutcome.ACCEPTED, pf_entry = Some entry\<rparr>"
    and "ct_active_request c \<noteq> None \<Longrightarrow> md = Some CancellationMode.REPLACE"
  obtains oc c' m' where "\<And>k. sbind (on_motion (commit_state_transition p) e)
      (\<lambda>_ e1. sbind (start_or_replace E reason q md c e1) k) = k oc (with_track0 c' (e\<lparr>en_motion := m'\<rparr>))"
    and "handover q (first_action entry) oc c'" and "keeps e (with_track0 c' (e\<lparr>en_motion := m'\<rparr>))"
    and "raw_state (mm_states m') = target_state p" and "sm_epoch (mm_states m') = target_epoch p"
    and "motion (target_state p) \<notin> {PetMotionState.WALKING_LEFT, PetMotionState.WALKING_RIGHT} \<Longrightarrow>
      mm_horizontal_velocity m' = 0"
proof -
  have ci: "ctrl_inv c" by (rule engine_inv_ctrl [OF assms(1,2)])
  obtain m' where m': "on_motion (commit_state_transition p) e = (Inr (), e\<lparr>en_motion := m'\<rparr>)"
      "keeps e (e\<lparr>en_motion := m'\<rparr>)" "raw_state (mm_states m') = target_state p"
      "sm_epoch (mm_states m') = target_epoch p"
      "motion (target_state p) \<notin> {PetMotionState.WALKING_LEFT, PetMotionState.WALKING_RIGHT} \<longrightarrow>
        mm_horizontal_velocity m' = 0"
    by (rule commit_engine [OF assms(1,3,4)]) blast
  let ?e1 = "e\<lparr>en_motion := m'\<rparr>"
  obtain oc c' where h: "start_or_replace E reason q md c ?e1 = (Inr oc, with_track0 c' ?e1)"
      "handover q (first_action entry) oc c'"
    using start_or_replace_handover [OF ci assms(7,6)] by metis
  have "keeps e (with_track0 c' ?e1)"
    using m'(2,4) keeps_track0(2) [OF keeps_inv [OF m'(2)], of c'] handover_inv [OF h(2) assms(5)] assms(2)
    by (auto intro: keeps_trans)
  then show thesis using m' h by (intro that [where oc = oc and c' = c' and m' = m']) simp_all
qed

text \<open>The request of a production intent.\<close>

definition production_request :: "ActionIntent \<Rightarrow> int \<Rightarrow> ActionRequest" where
  "production_request i ep =
    (let prot = (intent_action i \<in> production_protected_actions) in
     \<lparr>sequence_name = production_sequence (intent_action i),
      interruption_class = (if prot then InterruptClass.STRICT_ACTION else InterruptClass.NORMAL_ACTION),
      protected = prot, request_token = intent_token i, semantic_epoch = ep,
      input_session_token = None, req_origin = intent_origin i, req_source = intent_source i\<rparr>)"

lemma production_request_ok:
  "intent_source i \<in> sources_by_origin (intent_origin i) \<Longrightarrow> 0 \<le> ep \<Longrightarrow> owner_ok ep (production_request i ep)"
  by (simp add: production_request_def owner_ok_def request_ok_def Let_def)

lemma submit_outcome:
  assumes inv: "engine_inv e" and t0: "en_track0 e = Some c"
    and auth: "intent_source i \<in> sources_by_origin (intent_origin i)"
    and p: "propose (mm_states (en_motion e)) (target_args (semantic_target (intent_action i)) ov) = Inr p"
      "motion (target_state p) = target_motion (semantic_target (intent_action i))"
      "target_state p = target_layered (intent_action i) f"
    and q: "q = production_request i (target_epoch p)" and qok: "owner_ok (target_epoch p) q"
    and pf: "preflight (env_player E) q c = Inr \<lparr>pf_outcome = ActionOutcome.ACCEPTED, pf_entry = Some entry\<rparr>"
    and first: "first_action entry = production_track0_action (intent_action i)"
    and md: "ct_active_request c \<noteq> None \<Longrightarrow> md = Some CancellationMode.REPLACE"
  shows "\<exists>oc e'. sbind (on_motion (commit_state_transition p) e)
      (\<lambda>_ e1. sbind (start_or_replace E reason q md c e1) (\<lambda>oc e2. submit_finish i oc e2)) = (Inr oc, e') \<and>
    keeps e e' \<and> (oc = ActionOutcome.ACCEPTED \<and> plays i e' \<or> oc \<in> failure_outcomes \<and> stopped e')"
proof -
  let ?a = "intent_action i"
  obtain oc c' m' where h: "sbind (on_motion (commit_state_transition p) e)
      (\<lambda>_ e1. sbind (start_or_replace E reason q md c e1) (submit_finish i))
        = submit_finish i oc (with_track0 c' (e\<lparr>en_motion := m'\<rparr>))"
      and ho: "handover q (first_action entry) oc c'" and k2: "keeps e (with_track0 c' (e\<lparr>en_motion := m'\<rparr>))"
      and m': "raw_state (mm_states m') = target_state p" "sm_epoch (mm_states m') = target_epoch p"
      "motion (target_state p) \<notin> {PetMotionState.WALKING_LEFT, PetMotionState.WALKING_RIGHT} \<longrightarrow>
        mm_horizontal_velocity m' = 0"
    by (rule transaction_core [OF inv t0 p(1) no_running_target qok pf md]) blast+
  let ?e2 = "with_track0 c' (e\<lparr>en_motion := m'\<rparr>)"
  note inv2 = keeps_inv [OF k2]
  have raw2: "raw_state (mm_states (en_motion ?e2)) = target_layered ?a f" using m'(1) p(3) by simp
  from ho show ?thesis unfolding handover_def first
  proof
    assume ok: "oc = ActionOutcome.ACCEPTED \<and> owned q (production_track0_action ?a) c'"
    from submit_finish_accepted [OF inv2 _ conjunct2 [OF ok] raw2] obtain e' where
        e': "submit_finish i ActionOutcome.ACCEPTED ?e2 = (Inr ActionOutcome.ACCEPTED, e')" "keeps ?e2 e'"
        "en_motion e' = en_motion ?e2" "en_track0 e' = Some c'"
        "en_active_action e' = Some ?a" "compatible e'" by auto
    have "plays i e'"
      unfolding plays_def using e' ok raw2 m'(2)
      by (intro exI [of _ c'] exI [of _ q] exI [of _ f]) (simp add: q production_request_def Let_def)
    then show ?thesis using h e'(1) ok keeps_trans [OF k2 e'(2)] by auto
  next
    assume fail: "oc \<in> failure_outcomes \<and> released c'"
    have vel: "mm_horizontal_velocity (en_motion ?e2) = 0"
      if "?a \<notin> {ProductionAction.MOVE_LEFT, ProductionAction.MOVE_RIGHT}"
      using that m'(3) p(2) by (cases ?a) auto
    from submit_finish_failed [OF inv2 _ conjunct2 [OF fail] conjunct1 [OF fail] vel] obtain e' where
        "submit_finish i oc ?e2 = (Inr oc, e')" "keeps ?e2 e'" "stopped e'" by auto
    then show ?thesis using h fail keeps_trans [OF k2] by auto
  qed
qed

text \<open>The three ends of the transaction, none of them an exception.\<close>

definition submit_ends ::
    "ActionIntent \<Rightarrow> ('p, 'r) PetAnimationEngine \<Rightarrow> (ActionOutcome, ('p, 'r) PetAnimationEngine) sres \<Rightarrow> bool" where
  "submit_ends i e res \<longleftrightarrow> (\<exists>oc e'. res = (Inr oc, e') \<and> keeps e e' \<and>
    (oc \<notin> insert ActionOutcome.ACCEPTED failure_outcomes \<and> e' = e \<or>
     oc = ActionOutcome.ACCEPTED \<and> plays i e' \<or> oc \<in> failure_outcomes \<and> stopped e'))"

lemma submit_ends_refused:
  "engine_inv e \<Longrightarrow> oc \<notin> insert ActionOutcome.ACCEPTED failure_outcomes \<Longrightarrow> submit_ends i e (Inr oc, e)"
  by (auto simp: submit_ends_def keeps_refl)

lemma submit_transaction_ends:
  assumes inv: "engine_inv e" and t0: "en_track0 e = Some c"
    and auth: "intent_source i \<in> sources_by_origin (intent_origin i)"
  shows "submit_ends i e (submit_transaction E i ov direct c e)"
proof -
  let ?a = "intent_action i"
  let ?m = "mm_states (en_motion e)"
  have ci: "ctrl_inv c" by (rule engine_inv_ctrl [OF inv t0])
  obtain p where p: "propose ?m (target_args (semantic_target ?a) ov) = Inr p"
      "target_epoch p = sm_epoch ?m + 1" "lifecycle (target_state p) = sm_lifecycle ?m"
      "layered_ok (target_state p)" "motion (target_state p) = target_motion (semantic_target ?a)"
      "sm_lifecycle ?m = PetLifecycleState.ACTIVE \<longrightarrow> (\<exists>f. target_state p = target_layered ?a f)"
    by (rule propose_production [OF engine_inv_valid [OF inv]]) blast
  obtain entry where entry: "SEQUENCE_CATALOG (production_sequence ?a) = Some entry"
      "entry_interruption_class entry = (if ?a \<in> production_protected_actions
        then InterruptClass.STRICT_ACTION else InterruptClass.NORMAL_ACTION)"
      "entry_protected entry = (?a \<in> production_protected_actions)"
      "first_action entry = production_track0_action ?a"
    by (rule production_catalog)
  define q where "q = production_request i (target_epoch p)"
  have qok: "owner_ok (target_epoch p) q"
    using p(2) inv by (simp add: q_def production_request_ok [OF auth] engine_inv_def body_inv_def)
  have mk: "mk_ActionRequest (production_sequence ?a) (entry_interruption_class entry) (entry_protected entry)
      (intent_token i) (target_epoch p) None (intent_origin i) (intent_source i) = Inr q"
    using qok entry(2,3) by (simp add: mk_ActionRequest_iff owner_ok_def q_def production_request_def Let_def)
  note go = submit_transaction_def [of E i ov direct c e] p(1) entry(1) mk Let_def
  show ?thesis
  proof (cases "assert_animation_compatible (target_state p) (Some (production_track0_action ?a)) (health (ct_state c))")
    case (Inl err)
    with compatible_cases [OF p(4), of "Some (production_track0_action ?a)" "health (ct_state c)"]
    show ?thesis
      using submit_ends_refused [OF inv, of ActionOutcome.REJECTED_INCOMPATIBLE_STATE i]
      by (auto simp: go failure_outcomes_def)
  next
    case (Inr u)
    then have "sm_lifecycle ?m = PetLifecycleState.ACTIVE"
      using incompatible_unhealthy [OF p(4), of "health (ct_state c)" "production_track0_action ?a"] p(3) by auto
    then obtain f where f: "target_state p = target_layered ?a f" using p(6) by blast
    show ?thesis
    proof (cases rule: preflight_cases [OF ctrl_inv_static [OF ci], of "env_player E" q])
      case (2 oc)
      have "oc \<notin> failure_outcomes" using preflight_outcome [OF 2(1)] by (auto simp: failure_outcomes_def)
      with 2 Inr show ?thesis by (simp add: go submit_ends_refused [OF inv])
    next
      case (1 e')
      then have pf: "preflight (env_player E) q c = Inr \<lparr>pf_outcome = ActionOutcome.ACCEPTED, pf_entry = Some entry\<rparr>"
        using entry(1) by (simp add: q_def production_request_def Let_def)
      have cls: "interruption_class q \<noteq> InterruptClass.SYSTEM_SHUTDOWN"
        by (simp add: q_def production_request_def Let_def)
      obtain d where d: "(if direct then Inr (decision ActionOutcome.ACCEPTED (Some CancellationMode.REPLACE))
          else ebind (arbitration_context c e) (\<lambda>ctx. arbitrate q ctx c)) = Inr d"
          "outcome d = ActionOutcome.ACCEPTED \<longrightarrow> ct_active_request c \<noteq> None \<longrightarrow> mode d = Some CancellationMode.REPLACE"
          "outcome d \<in> {ActionOutcome.ACCEPTED, ActionOutcome.REJECTED_PRIORITY, ActionOutcome.REJECTED_DUPLICATE}"
      proof (cases direct)
        case True
        then show thesis by (intro that [of "decision ActionOutcome.ACCEPTED (Some CancellationMode.REPLACE)"]) simp_all
      next
        case False
        obtain d where "ebind (arbitration_context c e) (\<lambda>ctx. arbitrate q ctx c) = Inr d"
            "outcome d = ActionOutcome.ACCEPTED \<longrightarrow> ct_active_request c \<noteq> None \<longrightarrow> mode d = Some CancellationMode.REPLACE"
            "outcome d \<in> {ActionOutcome.ACCEPTED, ActionOutcome.REJECTED_PRIORITY, ActionOutcome.REJECTED_DUPLICATE}"
          by (rule arbitration_core [OF inv cls, of c]) blast
        with False show thesis by (intro that [of d]) simp_all
      qed
      show ?thesis
      proof (cases "outcome d = ActionOutcome.ACCEPTED")
        case False
        then have "outcome d \<notin> insert ActionOutcome.ACCEPTED failure_outcomes"
          using d(3) by (auto simp: failure_outcomes_def)
        with False d(1) pf Inr show ?thesis by (simp add: go submit_ends_refused [OF inv])
      next
        case True
        let ?e0 = "if intent_origin i = ActionOrigin.EXPLICIT then clear_protected_continuation e else e"
        have e0: "engine_inv ?e0" "keeps e ?e0" "en_motion ?e0 = en_motion e" "en_track0 ?e0 = Some c"
          using inv keeps_refl [OF inv] t0 by simp_all
        have run: "submit_transaction E i ov direct c e = sbind (on_motion (commit_state_transition p) ?e0)
            (\<lambda>_ e1. sbind (start_or_replace E CancelReason.USER_INTERRUPT q (mode d) c e1)
              (\<lambda>oc e2. submit_finish i oc e2))"
          using Inr pf d(1) True by (simp add: go)
        have "ct_active_request c \<noteq> None \<Longrightarrow> mode d = Some CancellationMode.REPLACE" using True d(2) by blast
        from submit_outcome [OF e0(1,4) auth p(1) [folded e0(3)] p(5) f q_def qok pf entry(4) this]
        show ?thesis
          unfolding submit_ends_def run using keeps_trans [OF e0(2)] by metis
      qed
    qed
  qed
qed

definition deferred :: "('p, 'r) PetAnimationEngine \<Rightarrow> ('p, 'r) PetAnimationEngine \<Rightarrow> bool" where
  "deferred e e' \<longleftrightarrow> en_motion e' = en_motion e \<and> en_track0 e' = en_track0 e \<and>
     en_active_action e' = en_active_action e"

lemma submit_cases:
  assumes "engine_inv e" and "intent_source i \<in> sources_by_origin (intent_origin i)"
  obtains (legacy) "en_track0 e = None"
      and "submit_production_intent E i ov e = (Inr ActionOutcome.LEGACY_DIRECT, e)"
  | (deferred) e' where "submit_production_intent E i ov e = (Inr ActionOutcome.ACCEPTED, e')"
      and "keeps e e'" and "deferred e e'" and "en_track0 e \<noteq> None"
  | (ends) "en_track0 e \<noteq> None" and "submit_ends i e (submit_production_intent E i ov e)"
proof (cases "en_track0 e")
  case (Some c)
  let ?prot = "active_request_is_protected e"
  let ?same = "en_active_action e = Some (intent_action i) \<and> confirmed_epoch (ct_state c) \<noteq> None"
  let ?direct = "?prot \<and> intent_origin i = ActionOrigin.EXPLICIT \<and>
      intent_source i \<in> {ActionSource.USER, ActionSource.TRAY}"
  note sub = submit_production_intent_def [of E i ov e] Some Let_def
  have put_off: thesis if "submit_production_intent E i ov e = (Inr ActionOutcome.ACCEPTED, e')"
      "keeps e e'" "deferred e e'" for e'
    using that Some deferred by blast
  show thesis
  proof (cases "?direct \<and> ?same \<or> \<not> ?prot \<and> intent_origin i = ActionOrigin.EXPLICIT \<and>
      intent_action i \<in> production_loop_actions \<and>
      en_execution_mode e = AutonomousExecutionMode.EXPLICIT_HOLD \<and> ?same")
    case True
    then show thesis
      using assms(1) keeps_refl [OF assms(1)]
      by (intro put_off [of "if ?prot then clear_protected_continuation e else e\<lparr>en_resume_after_protected := False\<rparr>"])
        (auto simp: sub deferred_def)
  next
    case free: False
    show thesis
    proof (cases "?prot \<and> \<not> ?direct")
      case wait: True
      show thesis
      proof (cases "intent_origin i = ActionOrigin.EXPLICIT")
        case True
        then obtain pend where pend: "mk_PendingExplicitIntent (intent_action i) (intent_source i)
            (Some (intent_token i)) = Inr pend" "pending_source pend = intent_source i"
          using assms(2) by (simp add: mk_PendingExplicitIntent_def)
        let ?e' = "suspend (e\<lparr>en_pending := Some pend, en_resume_after_protected := False\<rparr>)"
        have "keeps e ?e'" using assms pend(2) True by (simp add: keeps_def engine_inv_def suspend_def)
        then show thesis
          using True wait free pend(1)
          by (intro put_off [of ?e']) (auto simp: sub deferred_def suspend_def)
      next
        case False
        then show thesis
          using wait Some submit_ends_refused [OF assms(1), of ActionOutcome.REJECTED_PRIORITY i]
          by (intro ends) (auto simp: sub failure_outcomes_def)
      qed
    next
      case False
      then have "submit_production_intent E i ov e = submit_transaction E i ov ?direct c e"
        using free by (auto simp: sub)
      then show thesis
        using submit_transaction_ends [OF assms(1) Some assms(2)] Some by (intro ends) simp_all
    qed
  qed
qed (use legacy in \<open>simp add: submit_production_intent_def\<close>)

text \<open>An operation that cannot raise here, and keeps the invariant.\<close>

definition returns :: "('p, 'r) PetAnimationEngine \<Rightarrow> ('a, ('p, 'r) PetAnimationEngine) sres \<Rightarrow> bool" where
  "returns e res \<longleftrightarrow> (\<exists>v e'. res = (Inr v, e') \<and> keeps e e')"

lemma returnsE:
  assumes "returns e res"
  obtains v e' where "res = (Inr v, e')" and "keeps e e'"
  using assms by (auto simp: returns_def)

lemma returns_keeps: "returns e res \<Longrightarrow> keeps e (snd res)"
  by (auto simp: returns_def)

lemma returns_Inr [simp]: "returns e (Inr v, e') = keeps e e'"
  by (simp add: returns_def)

lemma returns_sbind:
  assumes "returns e r" and "\<And>v e1. r = (Inr v, e1) \<Longrightarrow> engine_inv e1 \<Longrightarrow> returns e1 (f v e1)"
  shows "returns e (sbind r f)"
proof (rule returnsE [OF assms(1)])
  fix v e1
  assume r: "r = (Inr v, e1)" "keeps e e1"
  from assms(2) [OF r(1) keeps_inv [OF r(2)]] show ?thesis
    by (rule returnsE) (use r keeps_trans [OF r(2)] in simp)
qed

lemma returns_trans: "keeps e e1 \<Longrightarrow> returns e1 res \<Longrightarrow> returns e res"
  by (auto simp: returns_def intro: keeps_trans)

lemma submit_returns:
  assumes "engine_inv e" and "intent_source i \<in> sources_by_origin (intent_origin i)"
  shows "returns e (submit_production_intent E i ov e)"
  by (rule submit_cases [OF assms, of E ov])
    (use keeps_refl [OF assms(1)] in \<open>auto simp: returns_def submit_ends_def\<close>)

lemma submit_new_returns:
  assumes "engine_inv e" and "sr \<in> sources_by_origin og"
  shows "returns e (submit_new E a og sr ov e)"
proof -
  let ?e = "e\<lparr>en_fresh := Suc (en_fresh e)\<rparr>"
  have inv: "engine_inv ?e" and k: "keeps e ?e" using assms(1) keeps_refl [OF assms(1)] by simp_all
  have mk: "mk_ActionIntent a og sr (Some (en_fresh e)) = Inr \<lparr>intent_action = a, intent_origin = og,
      intent_source = sr, intent_token = en_fresh e\<rparr>"
    using assms(2) by (simp add: mk_ActionIntent_Inr_iff)
  show ?thesis
    using returns_trans [OF k submit_returns [OF inv]] mk assms(2)
    by (simp add: submit_new_def new_object_def)
qed

lemma confirmed_generation:
  assumes "engine_inv e" and "confirmed_of e = Some ep"
  shows "0 \<le> ce_generation ep"
  using assms
  by (auto simp: confirmed_of_def engine_inv_def track0_inv_def ctrl_inv_def epoch_ok_def split: option.splits)

lemma autonomous_state_ok:
  "a \<noteq> ProductionAction.INTERACT \<Longrightarrow> \<exists>st. autonomous_state_for_action a = Inr st"
  by (cases a) (simp_all add: autonomous_state_for_action_def all_AutonomousState_def)

lemma activate_result:
  assumes "random_source_ok (env_random E)" and "engine_inv e" and "a \<notin> production_protected_actions"
  obtains e' where "activate_autonomous E a e = (Inr (), e')" and "keeps e e'"
    and "en_motion e' = en_motion e" and "en_track0 e' = en_track0 e"
    and "en_active_action e' = en_active_action e"
proof (cases "confirmed_of e")
  case None
  then show thesis
    using assms(2)
    by (intro that, simp add: activate_autonomous_def) (simp_all add: keeps_def engine_inv_def suspend_def)
next
  case (Some ep)
  obtain st where st: "autonomous_state_for_action a = Inr st"
    using autonomous_state_ok [of a] assms(3) by (auto simp: production_protected_actions_def)
  obtain s r where s: "enter (env_random E) st (Finite (env_clock E (en_ticks e))) (Some (ce_generation ep))
      (Some (ce_playback_token ep)) (en_rng e) = (Inr s, r)" "sched_ok s"
    using enter_ok [OF assms(1), of "Finite (env_clock E (en_ticks e))" "Some (ce_generation ep)"]
      confirmed_generation [OF assms(2) Some] by (metis isfinite.simps(1) option.simps(5))
  show thesis
  proof (cases "en_has_scheduler e")
    case True
    then show thesis
      using Some st s assms(2,3)
      by (intro that, simp add: activate_autonomous_def Let_def) (simp_all add: keeps_def engine_inv_def)
  next
    case False
    then show thesis
      using Some assms(2,3)
      by (intro that, simp add: activate_autonomous_def Let_def) (simp_all add: keeps_def engine_inv_def)
  qed
qed

lemma submit_and_activate_returns:
  fixes e :: "('p, 'r) PetAnimationEngine"
  assumes "random_source_ok (env_random E)" and "engine_inv e" and "a \<notin> production_protected_actions"
  shows "returns e (submit_and_activate E a ov e)"
  unfolding submit_and_activate_def
proof (rule returns_sbind [OF submit_new_returns [OF assms(2)]])
  fix oc and e1 :: "('p, 'r) PetAnimationEngine"
  assume inv1: "engine_inv e1"
  obtain e2 where "activate_autonomous E a e1 = (Inr (), e2)" "keeps e1 e2"
    by (rule activate_result [OF assms(1) inv1 assms(3)])
  then show "returns e1 (if oc = ActionOutcome.ACCEPTED then sbind (activate_autonomous E a e1) (\<lambda>_ e2. (Inr oc, e2))
      else (Inr oc, suspend e1))"
    using keeps_refl [OF inv1] by simp
qed simp

lemma recover_relax_returns:
  "random_source_ok (env_random E) \<Longrightarrow> engine_inv e \<Longrightarrow> returns e (recover_autonomous_relax E fc e)"
  unfolding recover_autonomous_relax_def
  by (rule submit_and_activate_returns) (simp_all add: production_protected_actions_def)

lemma start_autonomous_returns:
  "random_source_ok (env_random E) \<Longrightarrow> engine_inv e \<Longrightarrow> returns e (start_autonomous E e)"
  by (auto simp: start_autonomous_def recover_relax_returns keeps_refl split: option.splits)

section \<open>Releasing the track\<close>

lemma dropped_track:
  assumes "ctrl_inv c"
  shows "ctrl_inv (drop_playback h (c\<lparr>ct_watchdog_deadline := None, ct_generation := ct_generation c + 1,
      ct_player := p\<rparr>))"
  using dropped_inv(1) [OF ctrl_inv_static [OF assms], of "ct_generation c + 1" h p] by simp

lemma clear_result:
  assumes "ctrl_inv c"
  obtains oc c' where "clear P reason c = (oc, c')" and "ctrl_inv c'" and "ct_active_request c' = None"
    and "oc = ActionOutcome.CLEARED \<and> health (ct_state c') = health (ct_state c) \<or>
         oc = ActionOutcome.RENDERER_STATE_UNKNOWN \<and> released c'"
proof -
  let ?c = "c\<lparr>ct_watchdog_deadline := None, ct_generation := ct_generation c + 1,
      ct_player := snd (player_clear P 0 0 (ct_player c))\<rparr>"
  let ?ok = "is_ok (fst (player_clear P 0 0 (ct_player c)))"
  let ?h = "if ?ok then health (ct_state c) else PlaybackHealth.UNKNOWN"
  have eq: "clear P reason c = ((if ?ok then ActionOutcome.CLEARED else ActionOutcome.RENDERER_STATE_UNKNOWN),
      drop_playback ?h ?c)"
    by (simp add: clear_def try_clear_eq Let_def)
  have inv: "ctrl_inv (drop_playback ?h ?c)" by (rule dropped_track [OF assms])
  show thesis
    by (rule that [OF eq inv]) (use inv in \<open>auto simp: drop_playback_def released_def\<close>)
qed

lemma contain_result:
  assumes "ctrl_inv c"
  obtains oc c' where "contain_preflight_failure P reason c = (oc, c')" and "released c'"
    and "oc \<in> failure_outcomes"
proof -
  let ?c = "c\<lparr>ct_watchdog_deadline := None, ct_generation := ct_generation c + 1,
      ct_player := snd (player_clear P 0 0 (ct_player c))\<rparr>"
  let ?ok = "is_ok (fst (player_clear P 0 0 (ct_player c)))"
  let ?h = "if ?ok then PlaybackHealth.DEGRADED else PlaybackHealth.UNKNOWN"
  have eq: "contain_preflight_failure P reason c = ((if ?ok then ActionOutcome.PLAYBACK_DEGRADED
      else ActionOutcome.RENDERER_STATE_UNKNOWN), drop_playback ?h ?c)"
    by (simp add: contain_preflight_failure_def try_clear_eq Let_def)
  have inv: "ctrl_inv (drop_playback ?h ?c)" by (rule dropped_track [OF assms])
  show thesis
    by (rule that [OF eq]) (use inv in \<open>auto simp: drop_playback_def released_def failure_outcomes_def\<close>)
qed

lemma released_inv: "released c \<Longrightarrow> track0_inv ep c"
  by (simp add: released_def track0_inv_def)

lemma track0_clear_result:
  assumes "engine_inv e" and "en_track0 e = Some c"
  obtains oc c' where "track0_clear E reason c e = (oc, e\<lparr>en_track0 := Some c'\<rparr>)"
    and "keeps e (e\<lparr>en_track0 := Some c'\<rparr>)" and "ct_active_request c' = None" and "ctrl_inv c'"
    and "oc = ActionOutcome.CLEARED \<and> health (ct_state c') = health (ct_state c) \<or>
         oc = ActionOutcome.RENDERER_STATE_UNKNOWN \<and> released c'"
proof -
  have "ctrl_inv c" by (rule engine_inv_ctrl [OF assms])
  then obtain oc c' where c': "clear (env_player E) reason c = (oc, c')" "ctrl_inv c'" "ct_active_request c' = None"
      "oc = ActionOutcome.CLEARED \<and> health (ct_state c') = health (ct_state c) \<or>
       oc = ActionOutcome.RENDERER_STATE_UNKNOWN \<and> released c'"
    by (rule clear_result)
  then show thesis
    using keeps_track0(1) [OF assms(1) track0_inv_idle [OF c'(2,3)]] assms(2) by (intro that [of oc c']) (simp_all add: track0_clear_def)
qed

lemma resume_autonomous_returns:
  assumes "random_source_ok (env_random E)" and "engine_inv e"
  shows "returns e (resume_autonomous E sr e)"
proof (cases "en_track0 e")
  case (Some c)
  let ?e1 = "(suspend (clear_protected_continuation e))\<lparr>en_active_action := None\<rparr>"
  have k1: "keeps e ?e1" using assms(2) by simp
  have "en_track0 ?e1 = Some c" using Some by simp
  then obtain oc c' where cl: "track0_clear E CancelReason.USER_INTERRUPT c ?e1 = (oc, ?e1\<lparr>en_track0 := Some c'\<rparr>)"
      "keeps ?e1 (?e1\<lparr>en_track0 := Some c'\<rparr>)"
      "oc = ActionOutcome.CLEARED \<or> oc = ActionOutcome.RENDERER_STATE_UNKNOWN \<and> released c'"
    by (rule track0_clear_result [OF keeps_inv [OF k1]]) blast
  define e2 where "e2 = (if ct_active_request c \<noteq> None then ?e1\<lparr>en_track0 := Some c'\<rparr> else ?e1)"
  have k2: "keeps e e2" using k1 keeps_trans [OF k1 cl(2)] by (simp add: e2_def)
  have go: "returns e (case en_resume_action e of None \<Rightarrow> start_autonomous E e2
      | Some a \<Rightarrow> submit_and_activate E a None e2)"
    using returns_trans [OF k2 start_autonomous_returns [OF assms(1) keeps_inv [OF k2]]]
      returns_trans [OF k2 submit_and_activate_returns [OF assms(1) keeps_inv [OF k2]]] assms(2)
    by (auto simp: engine_inv_def split: option.splits)
  have "returns e (checked ActionOutcome.RENDERER_STATE_UNKNOWN (?e1\<lparr>en_track0 := Some c'\<rparr>))" if "released c'"
    using keeps_trans [OF k1 cl(2)] compatible_released [OF keeps_inv [OF cl(2)] _ that]
    by (simp add: checked_compatible)
  then show ?thesis
    using go cl(1,3) Some
    by (cases "en_resume_action e") (auto simp: resume_autonomous_def e2_def Let_def split: if_splits)
qed (simp add: resume_autonomous_def keeps_refl assms(2))

lemma contain_renderer_failure_returns:
  assumes "engine_inv e"
  shows "returns e (contain_renderer_failure E e)"
proof -
  let ?e1 = "(suspend (clear_protected_continuation e))\<lparr>en_active_action := None\<rparr>"
  have k1: "keeps e ?e1" using assms by simp
  obtain m' where m': "commit_semantic ProductionAction.RELAX ?e1 = (Inr (), ?e1\<lparr>en_motion := m'\<rparr>)"
      "keeps ?e1 (?e1\<lparr>en_motion := m'\<rparr>)"
    by (rule commit_semantic_result [OF keeps_inv [OF k1]])
  let ?e2 = "?e1\<lparr>en_motion := m'\<rparr>"
  note k2 = keeps_trans [OF k1 m'(2)]
  show ?thesis
  proof (cases "en_track0 e")
    case (Some c)
    then have "en_track0 ?e2 = Some c" by simp
    then obtain oc c' where "track0_clear E CancelReason.RENDERER_FAILURE c ?e2 = (oc, ?e2\<lparr>en_track0 := Some c'\<rparr>)"
        "keeps ?e2 (?e2\<lparr>en_track0 := Some c'\<rparr>)"
      by (rule track0_clear_result [OF keeps_inv [OF k2]])
    then show ?thesis
      using m'(1) Some keeps_trans [OF k2] by (simp add: contain_renderer_failure_def Let_def)
  qed (use m'(1) k2 in \<open>simp add: contain_renderer_failure_def Let_def\<close>)
qed

end
