(* ===== verification/Engine_Events.thy ===== *)
theory Engine_Events
  imports Engine_Transactions
begin

text \<open>
  The event transactions and the renderer callbacks of the animation engine: what an event may do
  to the engine, which events can never be lost, and that every callback keeps the invariant.
\<close>

section \<open>Event transactions\<close>

lemma catalog_class:
  "SEQUENCE_CATALOG n = Some entry \<Longrightarrow> entry_interruption_class entry \<noteq> InterruptClass.SYSTEM_SHUTDOWN"
  by (cases n) (auto simp: SEQUENCE_CATALOG_def catalog_eval)

lemma catalog_first:
  assumes "SEQUENCE_CATALOG n = Some entry"
  shows "\<exists>st. py_index (seq_steps (entry_sequence entry)) 0 = Inr st \<and> step_action st = first_action entry"
  using SEQUENCE_CATALOG_wf [OF assms]
  by (auto simp: entry_wf_def seq_wf_def first_action_def py_index_def)

lemma event_authority: "event_source ev \<in> sources_by_origin (event_origin ev)"
  by (simp add: event_source_def event_origin_def)

lemma event_plan_args: "event_plan fb ty fc = Inr (args, name, reason) \<Longrightarrow> no_running_args args"
  by (cases ty) (auto simp: no_running_args_def no_args_def split: option.splits if_splits)

definition event_request ::
    "PetAnimationEvent \<Rightarrow> SequenceName \<Rightarrow> SequenceCatalogEntry \<Rightarrow> int \<Rightarrow> ActionRequest" where
  "event_request ev name entry ep =
    \<lparr>sequence_name = name, interruption_class = entry_interruption_class entry,
     protected = entry_protected entry, request_token = ae_token ev, semantic_epoch = ep,
     input_session_token = ae_session ev, req_origin = event_origin ev, req_source = event_source ev\<rparr>"

text \<open>The proposal is committed, and the track is owned by a confirmed playback or released.\<close>

definition event_committed :: "ProposedStateTransition \<Rightarrow> ('p, 'r) PetAnimationEngine \<Rightarrow> bool" where
  "event_committed p e \<longleftrightarrow> raw_state (mm_states (en_motion e)) = target_state p \<and>
     sm_epoch (mm_states (en_motion e)) = target_epoch p \<and> compatible e \<and>
     (\<exists>c. en_track0 e = Some c \<and> (released c \<or> (\<exists>q a. owned q a c)))"

text \<open>
  How a committed event leaves the track: the event's request owns it with its first step confirmed, or
  the track is released and the outcome says so. Only \<^verbatim>\<open>RESUME\<close> touches the autonomy.
\<close>

definition event_settled ::
    "PetAnimationEvent \<Rightarrow> ActionRequest \<Rightarrow> PetActionName \<Rightarrow> ActionOutcome \<Rightarrow> ('p, 'r) PetAnimationEngine
      \<Rightarrow> ('p, 'r) PetAnimationEngine \<Rightarrow> bool" where
  "event_settled ev q a oc e e' \<longleftrightarrow> (\<exists>c'. en_track0 e' = Some c' \<and> handover q a oc c') \<and>
     (ae_type ev \<noteq> PetAnimationEventType.RESUME \<longrightarrow> en_execution_mode e' = en_execution_mode e \<and>
        en_pending e' = en_pending e \<and> en_active_action e' = en_active_action e)"

lemma compatible_cong:
  "en_motion e' = en_motion e \<Longrightarrow> en_track0 e' = en_track0 e \<Longrightarrow> compatible e' = compatible e"
  by (simp add: compatible_def assert_transaction_compatible_def cong: option.case_cong)

lemma contain_mandatory_result:
  assumes "engine_inv e" and "en_track0 e = Some c" and "propose (mm_states (en_motion e)) args = Inr p"
    and "no_running_args args"
  obtains oc e' where "contain_mandatory_proposal E p reason e = (Inr oc, e')" and "keeps e e'"
    and "event_committed p e'" and "oc \<in> failure_outcomes" and "event_settled ev q a oc e e'"
proof -
  obtain m' where m': "on_motion (commit_state_transition p) e = (Inr (), e\<lparr>en_motion := m'\<rparr>)"
      "keeps e (e\<lparr>en_motion := m'\<rparr>)" "raw_state (mm_states m') = target_state p"
      "sm_epoch (mm_states m') = target_epoch p"
    by (rule commit_engine [OF assms(1,3,4)])
  let ?e1 = "e\<lparr>en_motion := m'\<rparr>"
  obtain oc c' where c': "contain_preflight_failure (env_player E) reason c = (oc, c')" "released c'"
      "oc \<in> failure_outcomes"
    by (rule contain_result [OF engine_inv_ctrl [OF assms(1,2)]])
  let ?e2 = "?e1\<lparr>en_track0 := Some c'\<rparr>"
  have k2: "keeps e ?e2"
    using m'(2) keeps_track0(1) [OF keeps_inv [OF m'(2)] released_inv [OF c'(2)]] assms(2)
    by (auto intro: keeps_trans)
  have "compatible ?e2" by (rule compatible_released [OF keeps_inv [OF k2] _ c'(2)]) simp
  then show thesis
    using m' c' k2 assms(2)
    by (intro that [of oc ?e2])
      (simp_all add: contain_mandatory_proposal_def checked_compatible event_committed_def event_settled_def
        handover_def)
qed

lemma event_finish_result:
  assumes "random_source_ok (env_random E)" and "engine_inv e" and "compatible e"
  obtains e' where "event_finish E ev oc e = (Inr oc, e')" and "keeps e e'"
    and "en_motion e' = en_motion e" and "en_track0 e' = en_track0 e"
    and "ae_type ev \<noteq> PetAnimationEventType.RESUME \<Longrightarrow> e' = e"
proof -
  let ?e = "e\<lparr>en_active_action := Some ProductionAction.RELAX\<rparr>"
  have inv: "engine_inv ?e" using assms(2) by simp
  obtain e1 where e1: "activate_autonomous E ProductionAction.RELAX ?e = (Inr (), e1)" "keeps ?e e1"
      "en_motion e1 = en_motion e" "en_track0 e1 = en_track0 e"
    by (rule activate_result [OF assms(1) inv, of ProductionAction.RELAX])
      (simp_all add: production_protected_actions_def)
  have k: "keeps e e1" using e1(2) by (simp add: keeps_def)
  have "\<exists>e'. event_finish E ev oc e = (Inr oc, e') \<and> keeps e e' \<and> en_motion e' = en_motion e \<and> en_track0 e' = en_track0 e \<and>
      (ae_type ev \<noteq> PetAnimationEventType.RESUME \<longrightarrow> e' = e)"
    using e1 k assms(3) keeps_refl [OF assms(2)] compatible_cong [OF e1(3,4)] compatible_cong [of "suspend e" e]
    by (auto simp: event_finish_def checked_compatible)
  then show thesis using that by blast
qed

text \<open>Committing an event's proposal and handing its request over.\<close>

lemma event_handover:
  assumes R: "random_source_ok (env_random E)" and inv: "engine_inv e" and t0: "en_track0 e = Some c"
    and p: "propose (mm_states (en_motion e)) args = Inr p" and nr: "no_running_args args"
    and ok: "owner_ok (target_epoch p) q"
    and pf: "preflight (env_player E) q c = Inr \<lparr>pf_outcome = ActionOutcome.ACCEPTED, pf_entry = Some entry\<rparr>"
    and md: "ct_active_request c \<noteq> None \<Longrightarrow> md = Some CancellationMode.REPLACE"
    and comp: "assert_animation_compatible (target_state p) (Some (first_action entry)) (health (ct_state c)) = Inr u"
  shows "\<exists>oc e'. sbind (on_motion (commit_state_transition p) e)
      (\<lambda>_ e1. sbind (start_or_replace E reason q md c e1) (event_finish E ev)) = (Inr oc, e') \<and>
    keeps e e' \<and> event_committed p e' \<and> oc \<in> insert ActionOutcome.ACCEPTED failure_outcomes \<and>
    event_settled ev q (first_action entry) oc e e'"
proof -
  obtain oc c' m' where h: "sbind (on_motion (commit_state_transition p) e)
      (\<lambda>_ e1. sbind (start_or_replace E reason q md c e1) (event_finish E ev))
        = event_finish E ev oc (with_track0 c' (e\<lparr>en_motion := m'\<rparr>))"
      and ho: "handover q (first_action entry) oc c'" and k2: "keeps e (with_track0 c' (e\<lparr>en_motion := m'\<rparr>))"
      and m': "raw_state (mm_states m') = target_state p" "sm_epoch (mm_states m') = target_epoch p"
    by (rule transaction_core [OF inv t0 p nr ok pf md]) blast+
  let ?e2 = "with_track0 c' (e\<lparr>en_motion := m'\<rparr>)"
  have healthy: "health (ct_state c) = PlaybackHealth.HEALTHY"
    using comp by (auto simp: assert_compatible_iff split: if_splits)
  have c2: "compatible ?e2"
    using ho unfolding handover_def
  proof
    assume "oc = ActionOutcome.ACCEPTED \<and> owned q (first_action entry) c'"
    then show ?thesis
      using comp healthy m'(1) by (subst compatible_iff [OF keeps_inv [OF k2]]) (auto simp: owned_def)
  qed (use compatible_released [OF keeps_inv [OF k2]] in auto)
  obtain e' where e': "event_finish E ev oc ?e2 = (Inr oc, e')" "keeps ?e2 e'" "en_motion e' = en_motion ?e2"
      "en_track0 e' = en_track0 ?e2" "ae_type ev \<noteq> PetAnimationEventType.RESUME \<Longrightarrow> e' = ?e2"
    by (rule event_finish_result [OF R keeps_inv [OF k2] c2, where ev = ev and oc = oc]) blast
  have "event_committed p e'"
    using e'(3,4) m' ho c2 compatible_cong [OF e'(3,4)] by (auto simp: event_committed_def handover_def)
  moreover have "event_settled ev q (first_action entry) oc e e'"
    using ho e'(4,5) by (auto simp: event_settled_def)
  ultimately show ?thesis
    using h e'(1) keeps_trans [OF k2 e'(2)] ho by (auto simp: handover_def)
qed

text \<open>The four ends of an event's transaction.\<close>

lemma event_transaction_cases:
  assumes R: "random_source_ok (env_random E)" and inv: "engine_inv e" and t0: "en_track0 e = Some c"
    and p: "propose (mm_states (en_motion e)) args = Inr p" and nr: "no_running_args args"
    and entry: "SEQUENCE_CATALOG name = Some entry"
  obtains (invalid) err where "event_transaction E ev p name reason c e = (Inl err, e)"
      and "entry_interruption_class entry = InterruptClass.USER_INTERACTION" and "ae_session ev = None"
  | (refused) oc where "event_transaction E ev p name reason c e = (Inr oc, e)"
      and "oc \<notin> insert ActionOutcome.ACCEPTED failure_outcomes" and "\<not> mandatory_for_safety p"
      and "\<not> (assert_animation_compatible (target_state p) (Some (first_action entry)) (health (ct_state c)) = Inr () \<and>
        preflight (env_player E) (event_request ev name entry (target_epoch p)) c
          = Inr \<lparr>pf_outcome = ActionOutcome.ACCEPTED, pf_entry = Some entry\<rparr>)"
  | (outranked) ctx d where "event_transaction E ev p name reason c e = (Inr (outcome d), e)"
      and "outcome d \<in> {ActionOutcome.REJECTED_PRIORITY, ActionOutcome.REJECTED_DUPLICATE}"
      and "decide (event_request ev name entry (target_epoch p)) (ct_active_request c) ctx = Inr d"
      and "\<not> runner_authorized_continuation ctx"
  | (committed) oc e' where "event_transaction E ev p name reason c e = (Inr oc, e')" and "keeps e e'"
      and "event_committed p e'" and "oc \<in> insert ActionOutcome.ACCEPTED failure_outcomes"
      and "event_settled ev (event_request ev name entry (target_epoch p)) (first_action entry) oc e e'"
proof -
  let ?q = "event_request ev name entry (target_epoch p)"
  note ci = engine_inv_ctrl [OF inv t0]
  have lok: "layered_ok (target_state p)" by (rule propose_target_ok [OF p])
  have ep: "0 \<le> target_epoch p"
    using p inv by (auto simp: propose_Inr_iff engine_inv_def body_inv_def)
  have wf: "entry_interruption_class entry = InterruptClass.STRICT_ACTION \<Longrightarrow> entry_protected entry"
    using SEQUENCE_CATALOG_wf [OF entry] by (simp add: entry_wf_def)
  obtain st where st: "py_index (seq_steps (entry_sequence entry)) 0 = Inr st"
      "step_action st = first_action entry"
    using catalog_first [OF entry] by blast
  obtain oc0 e0 where ct: "contain_mandatory_proposal E p reason e = (Inr oc0, e0)" "keeps e e0"
      "event_committed p e0" "oc0 \<in> failure_outcomes" "event_settled ev ?q (first_action entry) oc0 e e0"
    by (rule contain_mandatory_result [OF inv t0 p nr])
  show thesis
  proof (cases "request_ok ?q")
    case False
    then have us: "entry_interruption_class entry = InterruptClass.USER_INTERACTION" "ae_session ev = None"
      using wf ep event_authority by (auto simp: request_ok_def event_request_def)
    from False obtain err where "mk_ActionRequest name (entry_interruption_class entry) (entry_protected entry)
        (ae_token ev) (target_epoch p) (ae_session ev) (event_origin ev) (event_source ev) = Inl err"
      by (cases "mk_ActionRequest name (entry_interruption_class entry) (entry_protected entry)
        (ae_token ev) (target_epoch p) (ae_session ev) (event_origin ev) (event_source ev)")
        (auto simp: mk_ActionRequest_iff event_request_def)
    then have "event_transaction E ev p name reason c e = (Inl err, e)"
      by (simp add: event_transaction_def entry)
    then show thesis using us by (rule invalid)
  next
    case qok: True
    then have mk: "mk_ActionRequest name (entry_interruption_class entry) (entry_protected entry)
        (ae_token ev) (target_epoch p) (ae_session ev) (event_origin ev) (event_source ev) = Inr ?q"
      by (simp add: mk_ActionRequest_iff event_request_def)
    note go = event_transaction_def [of E ev p name reason c e] entry mk st
    have ct': thesis if "event_transaction E ev p name reason c e = contain_mandatory_proposal E p reason e"
      using that ct by (intro committed [of oc0 e0]) simp_all
    show thesis
    proof (cases "assert_animation_compatible (target_state p) (Some (first_action entry)) (health (ct_state c))")
      case (Inl err)
      with compatible_cases [OF lok, of "Some (first_action entry)" "health (ct_state c)"]
      have res: "event_transaction E ev p name reason c e = (if mandatory_for_safety p
          then contain_mandatory_proposal E p reason e else (Inr ActionOutcome.REJECTED_INCOMPATIBLE_STATE, e))"
        by (auto simp: go)
      show thesis
        using res ct' Inl refused [of ActionOutcome.REJECTED_INCOMPATIBLE_STATE]
        by (cases "mandatory_for_safety p") (simp_all add: failure_outcomes_def)
    next
      case (Inr u)
      show thesis
      proof (cases rule: preflight_cases [OF ctrl_inv_static [OF ci], of "env_player E" ?q])
        case (2 oc)
        then have res: "event_transaction E ev p name reason c e = (if \<not> mandatory_for_safety p
            then (Inr oc, e) else contain_mandatory_proposal E p reason e)"
          using Inr by (simp add: go)
        have "oc \<notin> insert ActionOutcome.ACCEPTED failure_outcomes"
          using 2 preflight_outcome [OF 2(1)] by (auto simp: failure_outcomes_def)
        then show thesis
          using res ct' 2(1) refused [of oc] by (cases "mandatory_for_safety p") simp_all
      next
        case (1 en)
        then have pf: "preflight (env_player E) ?q c = Inr \<lparr>pf_outcome = ActionOutcome.ACCEPTED, pf_entry = Some entry\<rparr>"
          using entry by (simp add: event_request_def)
        have cls: "interruption_class ?q \<noteq> InterruptClass.SYSTEM_SHUTDOWN"
          using catalog_class [OF entry] by (simp add: event_request_def)
        obtain ctx where ctx: "arbitration_context c e = Inr ctx" "incoming_mode ctx = CancellationMode.REPLACE"
            "\<not> runner_authorized_continuation ctx"
          by (rule arbitration_context_ok [OF engine_inv_motion [OF inv]])
        obtain d where d: "arbitrate ?q ctx c = Inr d"
            "outcome d = ActionOutcome.ACCEPTED \<longrightarrow> ct_active_request c \<noteq> None \<longrightarrow> mode d = Some CancellationMode.REPLACE"
            "outcome d \<in> {ActionOutcome.ACCEPTED, ActionOutcome.REJECTED_PRIORITY, ActionOutcome.REJECTED_DUPLICATE}"
          by (rule arbitrate_mode [OF cls ctx(2,3)]) blast
        show thesis
        proof (cases "outcome d = ActionOutcome.ACCEPTED")
          case False
          then show thesis
            using Inr pf ctx d by (intro outranked [of d ctx]) (auto simp: go arbitrate_def)
        next
          case True
          have ok: "owner_ok (target_epoch p) ?q" using qok cls by (simp add: owner_ok_def event_request_def)
          have run: "event_transaction E ev p name reason c e = sbind (on_motion (commit_state_transition p) e)
              (\<lambda>_ e1. sbind (start_or_replace E reason ?q (mode d) c e1) (event_finish E ev))"
            using Inr pf ctx(1) d(1) True by (simp add: go)
          have md: "ct_active_request c \<noteq> None \<Longrightarrow> mode d = Some CancellationMode.REPLACE" using True d(2) by blast
          from event_handover [OF R inv t0 p nr ok pf md Inr, of reason ev] show thesis
            using run committed by metis
        qed
      qed
    qed
  qed
qed

section \<open>Events keep the invariant\<close>

definition interrupted :: "PetAnimationEvent \<Rightarrow> ('p, 'r) PetAnimationEngine \<Rightarrow> ('p, 'r) PetAnimationEngine" where
  "interrupted ev e =
    (if ae_type ev \<in> mandatory_interruption_events
     then (suspend (clear_protected_continuation e))\<lparr>en_active_action := None\<rparr> else e)"

lemma interrupted_keeps: "engine_inv e \<Longrightarrow> keeps e (interrupted ev e)"
  by (simp add: interrupted_def keeps_refl)

lemma interrupted_sel [simp]:
  "en_motion (interrupted ev e) = en_motion e" "en_track0 (interrupted ev e) = en_track0 e"
  by (simp_all add: interrupted_def)

lemma handle_event_unfold:
  "handle_event E ev e0 =
    (case en_track0 e0 of
       None \<Rightarrow> (Inr ActionOutcome.LEGACY_DIRECT, interrupted ev e0)
     | Some c \<Rightarrow>
         with_res (propose_event ev (interrupted ev e0)) (interrupted ev e0) (\<lambda>(p, name_opt, reason).
         case name_opt of
           None \<Rightarrow>
             sbind (on_motion (commit_state_transition p) (interrupted ev e0)) (\<lambda>_ e1.
             case track0_clear E reason c e1 of (oc, e2) \<Rightarrow> checked oc e2)
         | Some name \<Rightarrow> event_transaction E ev p name reason c (interrupted ev e0)))"
  unfolding handle_event_def Let_def interrupted_def [symmetric] interrupted_sel ..

lemma propose_eventE:
  assumes "propose_event ev e = Inr (p, name, reason)"
  obtains args where "event_plan (en_relax_fallback e) (ae_type ev) (ae_facing ev) = Inr (args, name, reason)"
    and "propose (mm_states (en_motion e)) args = Inr p" and "no_running_args args"
  using assms event_plan_args by (fastforce simp: propose_event_def ebind_eq_Inr_iff)

lemma handle_event_keeps:
  assumes R: "random_source_ok (env_random E)" and "engine_inv e0"
  shows "keeps e0 (snd (handle_event E ev e0))"
proof -
  let ?e = "interrupted ev e0"
  note k = interrupted_keeps [OF assms(2), of ev]
  note inv = keeps_inv [OF k]
  show ?thesis
  proof (cases "en_track0 e0")
    case None
    then show ?thesis using k by (simp add: handle_event_unfold)
  next
    case (Some c)
    then have t0: "en_track0 ?e = Some c" by simp
    have tr: "keeps ?e (snd (case name_opt of
            None \<Rightarrow> sbind (on_motion (commit_state_transition p) ?e) (\<lambda>_ e1.
              case track0_clear E reason c e1 of (oc, e2) \<Rightarrow> checked oc e2)
          | Some name \<Rightarrow> event_transaction E ev p name reason c ?e))"
      if pe: "propose_event ev ?e = Inr (p, name_opt, reason)" for p name_opt reason
    proof -
      obtain args where p: "propose (mm_states (en_motion ?e)) args = Inr p" and nr: "no_running_args args"
        by (rule propose_eventE [OF pe])
      show ?thesis
      proof (cases name_opt)
        case None
        obtain m' where m': "on_motion (commit_state_transition p) ?e = (Inr (), ?e\<lparr>en_motion := m'\<rparr>)"
            "keeps ?e (?e\<lparr>en_motion := m'\<rparr>)"
          by (rule commit_engine [OF inv p nr])
        obtain oc c' where "track0_clear E reason c (?e\<lparr>en_motion := m'\<rparr>) = (oc, ?e\<lparr>en_motion := m', en_track0 := Some c'\<rparr>)"
            "keeps (?e\<lparr>en_motion := m'\<rparr>) (?e\<lparr>en_motion := m', en_track0 := Some c'\<rparr>)"
          by (rule track0_clear_result [OF keeps_inv [OF m'(2)], of c]) (use t0 in auto)
        then show ?thesis
          using None m' keeps_checked [OF keeps_trans [OF m'(2)]] by simp
      next
        case (Some name)
        obtain entry where "SEQUENCE_CATALOG name = Some entry" using SEQUENCE_CATALOG_total by blast
        from event_transaction_cases [OF R inv t0 p nr this, where ev = ev and reason = reason]
        show ?thesis using keeps_refl [OF inv] by cases (simp_all add: Some)
      qed
    qed
    show ?thesis
      unfolding handle_event_unfold Some
      by (simp, rule keeps_with_res [OF k]) (use tr keeps_trans [OF k] in auto)
  qed
qed

section \<open>Events that cannot be lost\<close>

lemma compatible_inactive:
  assumes "engine_inv e" and "en_track0 e = Some c" and "ct_active_request c = None"
    and "lifecycle_of (en_motion e) \<noteq> PetLifecycleState.ACTIVE"
  shows "compatible e"
  using assms motion_layered [OF engine_inv_motion [OF assms(1)]] engine_inv_ctrl [OF assms(1,2)]
  by (auto simp: compatible_iff assert_compatible_iff ctrl_inv_def)

lemma lifecycle_event:
  assumes "engine_inv e0" and "en_track0 e0 = Some c"
    and "ae_type ev = PetAnimationEventType.PAUSE \<and> lc = PetLifecycleState.PAUSED \<or>
         ae_type ev = PetAnimationEventType.BEGIN_CLOSING \<and> lc = PetLifecycleState.CLOSING"
  shows "\<exists>oc e' c'. handle_event E ev e0 = (Inr oc, e') \<and> keeps e0 e' \<and>
    lifecycle_of (en_motion e') = lc \<and> en_track0 e' = Some c' \<and> ct_active_request c' = None \<and>
    en_execution_mode e' = AutonomousExecutionMode.SUSPENDED \<and> en_pending e' = None \<and>
    en_active_action e' = None \<and> sm_epoch (mm_states (en_motion e')) = sm_epoch (mm_states (en_motion e0)) + 1 \<and>
    (oc = ActionOutcome.CLEARED \<or> oc = ActionOutcome.RENDERER_STATE_UNKNOWN \<and> released c')"
proof -
  let ?e = "interrupted ev e0"
  note k = interrupted_keeps [OF assms(1), of ev]
  note inv = keeps_inv [OF k]
  obtain args reason where plan: "event_plan (en_relax_fallback ?e) (ae_type ev) (ae_facing ev) = Inr (args, None, reason)"
      and lc: "arg_lifecycle args = Some lc" and nr: "no_running_args args"
    using assms(3) by (auto simp: no_args_def no_running_args_def)
  have lc_na: "lc \<noteq> PetLifecycleState.ACTIVE" using assms(3) by auto
  obtain p where p: "propose (mm_states (en_motion ?e)) args = Inr p"
      "target_epoch p = sm_epoch (mm_states (en_motion ?e)) + 1" "lifecycle (target_state p) = lc"
    by (rule propose_inactive [OF engine_inv_valid [OF inv], of args]) (use lc lc_na in \<open>auto simp: or_else_def\<close>)
  obtain m' where m': "on_motion (commit_state_transition p) ?e = (Inr (), ?e\<lparr>en_motion := m'\<rparr>)"
      "keeps ?e (?e\<lparr>en_motion := m'\<rparr>)" "raw_state (mm_states m') = target_state p"
      "sm_epoch (mm_states m') = target_epoch p"
    by (rule commit_engine [OF inv p(1) nr])
  obtain oc c' where c': "track0_clear E reason c (?e\<lparr>en_motion := m'\<rparr>) = (oc, ?e\<lparr>en_motion := m', en_track0 := Some c'\<rparr>)"
      "keeps (?e\<lparr>en_motion := m'\<rparr>) (?e\<lparr>en_motion := m', en_track0 := Some c'\<rparr>)" "ct_active_request c' = None"
      "oc = ActionOutcome.CLEARED \<or> oc = ActionOutcome.RENDERER_STATE_UNKNOWN \<and> released c'"
    by (rule track0_clear_result [OF keeps_inv [OF m'(2)], of c]) (use assms(2) in auto)
  let ?e2 = "?e\<lparr>en_motion := m', en_track0 := Some c'\<rparr>"
  have lc2: "lifecycle_of m' = lc" using m'(3) p(3) raw_state_sel(1) by metis
  have "compatible ?e2" by (rule compatible_inactive [OF keeps_inv [OF c'(2)] _ c'(3)]) (use lc2 lc_na in auto)
  then have "handle_event E ev e0 = (Inr oc, ?e2)"
    using plan p(1) m'(1) c'(1) assms(2)
    by (simp add: handle_event_unfold propose_event_def checked_compatible)
  moreover have "keeps e0 ?e2" using k m'(2) c'(2) keeps_trans by blast
  moreover have "ae_type ev \<in> mandatory_interruption_events"
    using assms(3) by (auto simp: mandatory_interruption_events_def)
  ultimately show ?thesis
    using lc2 c'(3,4) m'(4) p(2)
    by (intro exI [of _ oc] exI [of _ ?e2] exI [of _ c']) (simp add: interrupted_def suspend_def clear_protected_continuation_def)
qed

lemma motion_safety_wins:
  assumes "interruption_class q = InterruptClass.MOTION_SAFETY"
    and "\<And>a. active = Some a \<Longrightarrow> owner_ok (semantic_epoch q - 1) a"
    and "\<not> runner_authorized_continuation ctx" and "decide q active ctx = Inr d"
  shows "outcome d = ActionOutcome.ACCEPTED \<or> outcome d = ActionOutcome.REJECTED_DUPLICATE \<and>
    (\<exists>a. active = Some a \<and> sequence_name a = sequence_name q \<and> request_token a = request_token q)"
proof (cases active)
  case (Some a)
  have "interruption_class a \<noteq> InterruptClass.SYSTEM_SHUTDOWN" "semantic_epoch q \<noteq> semantic_epoch a"
    using assms(2) [OF Some] by (auto simp: owner_ok_def)
  then show ?thesis
    using assms(1,3,4) Some
    by (cases "interruption_class a")
      (auto simp: decide_def less_InterruptClass_def decide_equal_class_def decide_motion_safety_def Let_def split: if_splits)
qed (use assms in \<open>auto simp: decide_def\<close>)

lemma or_else_simps: "or_else (Some v) d = v" "or_else None d = d"
  by (simp_all add: or_else_def)

lemma propose_falling:
  assumes "sm_valid m"
    and "arg_motion args = Some PetMotionState.FALLING" and "arg_lifecycle args = None"
  obtains p where "propose m args = Inr p" and "target_epoch p = sm_epoch m + 1"
    and "mandatory_for_safety p = arg_mandatory args"
    and "motion (target_state p) = PetMotionState.FALLING" and "lifecycle (target_state p) = sm_lifecycle m"
proof -
  let ?s = "\<lparr>lifecycle = sm_lifecycle m, motion = PetMotionState.FALLING, behaviors = {},
     facing = or_else (arg_facing args) (sm_facing m), activity = PetActivityState.NONE\<rparr>"
  have "mk_PetLayeredState (sm_lifecycle m) PetMotionState.FALLING {} (facing ?s) PetActivityState.NONE = Inr ?s"
    using mk_PetLayeredState_ok [of ?s] by (simp add: layered_ok_def)
  moreover have "propose_target (raw_state m) args = (PetActivityState.NONE, {})"
    using assms(2,3) by (simp add: propose_target_def or_else_simps Let_def)
  ultimately show thesis
    using assms snapshot_valid [OF assms(1)]
    by (intro that, simp add: propose_def or_else_simps) simp_all
qed

text \<open>
  A fall is committed whatever was playing; only the very request that owns the track is not
  repeated. A pet that is not active falls too, but then no action fits it and the track is released.
\<close>

definition fall_committed ::
    "nat \<Rightarrow> ActionOutcome \<Rightarrow> ('p, 'r) PetAnimationEngine \<Rightarrow> ('p, 'r) PetAnimationEngine \<Rightarrow> bool" where
  "fall_committed t oc e e' \<longleftrightarrow>
     motion_of (en_motion e') = PetMotionState.FALLING \<and> lifecycle_of (en_motion e') = lifecycle_of (en_motion e) \<and>
     sm_epoch (mm_states (en_motion e')) = sm_epoch (mm_states (en_motion e)) + 1 \<and> compatible e' \<and>
     (\<exists>c'. en_track0 e' = Some c' \<and>
        (oc = ActionOutcome.ACCEPTED \<and> (\<exists>q a. owned q a c' \<and>
           sequence_name q = SequenceName.FALL_RECOVERY \<and> request_token q = t) \<or>
         oc \<in> failure_outcomes \<and> released c'))"

lemma falling_event:
  assumes "random_source_ok (env_random E)" and "engine_inv e0" and "en_track0 e0 = Some c"
    and "ae_type ev = PetAnimationEventType.START_FALLING"
  shows "\<exists>oc e'. handle_event E ev e0 = (Inr oc, e') \<and> keeps e0 e' \<and>
    en_execution_mode e' = AutonomousExecutionMode.SUSPENDED \<and> en_pending e' = None \<and> en_active_action e' = None \<and>
    (if oc = ActionOutcome.REJECTED_DUPLICATE
     then en_motion e' = en_motion e0 \<and> en_track0 e' = Some c \<and> (\<exists>q. ct_active_request c = Some q \<and>
       sequence_name q = SequenceName.FALL_RECOVERY \<and> request_token q = ae_token ev)
     else fall_committed (ae_token ev) oc e0 e')"
proof -
  let ?e = "interrupted ev e0"
  note k = interrupted_keeps [OF assms(2), of ev]
  note inv = keeps_inv [OF k]
  have stopped: "en_execution_mode ?e = AutonomousExecutionMode.SUSPENDED" "en_pending ?e = None" "en_active_action ?e = None"
    using assms(4) by (simp_all add: interrupted_def mandatory_interruption_events_def suspend_def clear_protected_continuation_def)
  let ?args = "no_args\<lparr>arg_motion := Some PetMotionState.FALLING, arg_mandatory := True\<rparr>"
  have nr: "no_running_args ?args" by (simp add: no_running_args_def)
  obtain p where p: "propose (mm_states (en_motion ?e)) ?args = Inr p"
      "target_epoch p = sm_epoch (mm_states (en_motion ?e)) + 1" "mandatory_for_safety p"
      "motion (target_state p) = PetMotionState.FALLING" "lifecycle (target_state p) = lifecycle_of (en_motion e0)"
    by (rule propose_falling [OF engine_inv_valid [OF inv], of ?args]) (auto simp: no_args_def)
  obtain entry where entry: "SEQUENCE_CATALOG SequenceName.FALL_RECOVERY = Some entry"
      "entry_interruption_class entry = InterruptClass.MOTION_SAFETY"
    by (simp add: SEQUENCE_CATALOG_def catalog_eval)
  let ?q = "event_request ev SequenceName.FALL_RECOVERY entry (target_epoch p)"
  have q: "interruption_class ?q = InterruptClass.MOTION_SAFETY" "sequence_name ?q = SequenceName.FALL_RECOVERY"
      "request_token ?q = ae_token ev" using entry(2) by (simp_all add: event_request_def)
  have t0: "en_track0 ?e = Some c" using assms(3) by simp
  have run: "handle_event E ev e0 = event_transaction E ev p SequenceName.FALL_RECOVERY CancelReason.MOTION_OVERRIDE c ?e"
    using p(1) assms(3,4) by (simp add: handle_event_unfold propose_event_def)
  have owner: "owner_ok (semantic_epoch ?q - 1) a" if "ct_active_request c = Some a" for a
    using that engine_inv_track0 [OF inv t0] p(2) by (simp add: event_request_def track0_inv_def)
  from assms(1) inv t0 p(1) nr entry(1) show ?thesis
  proof (cases rule: event_transaction_cases [where ev = ev and reason = CancelReason.MOTION_OVERRIDE])
    case (outranked ctx d)
    from motion_safety_wins [OF q(1) owner outranked(4,3)] outranked(2)
    have "outcome d = ActionOutcome.REJECTED_DUPLICATE"
      "\<exists>a. ct_active_request c = Some a \<and> sequence_name a = SequenceName.FALL_RECOVERY \<and> request_token a = ae_token ev"
      using q(2,3) by auto
    then show ?thesis using run outranked(1) k stopped t0 by auto
  next
    case (committed oc e')
    have "motion_of (en_motion e') = PetMotionState.FALLING" "lifecycle_of (en_motion e') = lifecycle_of (en_motion e0)"
      using committed(3) p(4,5) raw_state_sel(1,2) unfolding event_committed_def by metis+
    moreover have "sm_epoch (mm_states (en_motion e')) = sm_epoch (mm_states (en_motion e0)) + 1" "compatible e'"
      using committed(3) p(2) by (simp_all add: event_committed_def)
    ultimately have "fall_committed (ae_token ev) oc e0 e'"
      using committed(5) q(2,3) by (auto simp: fall_committed_def event_settled_def handover_def)
    moreover have "oc \<noteq> ActionOutcome.REJECTED_DUPLICATE" using committed(4) by (auto simp: failure_outcomes_def)
    moreover have "en_execution_mode e' = AutonomousExecutionMode.SUSPENDED" "en_pending e' = None" "en_active_action e' = None"
      using committed(5) assms(4) stopped by (simp_all add: event_settled_def)
    ultimately show ?thesis using run committed(1) keeps_trans [OF k committed(2)] by auto
  qed (use entry(2) p(3) in auto)
qed

section \<open>Callbacks keep the invariant\<close>

lemma play_directive_owner:
  "ct_active_request (snd (play_directive P now q d c)) \<in> {ct_active_request c, Some q, None}"
proof (cases "d_step d")
  case (Some st)
  have arm: "ct_active_request (snd (arm_after_successful_play now st c')) = ct_active_request c'" for c'
    by (cases "deadline_for_step now st c'") (simp_all add: arm_after_successful_play_def)
  have fail: "ct_active_request (snd (contain_failed_play P c')) = None" for c'
    by (simp add: contain_failed_play_def drop_playback_def try_clear_def Let_def split: prod.splits)
  show ?thesis
  proof (cases "d_outcome d = ActionOutcome.ACCEPTED")
    case True
    show ?thesis
    proof (cases "resolve (ct_registry c) (step_action st)")
      case (Inl err)
      then show ?thesis using Some True by (cases err) (simp_all add: play_directive_def)
    next
      case (Inr b)
      let ?c1 = "c\<lparr>ct_generation := ct_generation c + 1\<rparr>"
      have "ct_active_request (snd (case try_play P pr ?c1 of
          (None, c2) \<Rightarrow> (case contain_failed_play P c2 of (oc, c3) \<Rightarrow> (Inr oc, c3))
        | (Some epoch, c2) \<Rightarrow> sbind (arm_after_successful_play now st
            (c2\<lparr>ct_active_request := Some q, ct_state := \<lparr>desired_action = Some (step_action st),
              confirmed_epoch = Some epoch, health = PlaybackHealth.HEALTHY\<rparr>\<rparr>))
            (\<lambda>_ c3. (Inr ActionOutcome.ACCEPTED, c3)))) \<in> {Some q, None}" for pr
      proof (cases "try_play P pr ?c1")
        case (Pair x c2)
        show ?thesis
        proof (cases x)
          case None
          with Pair fail [of c2] show ?thesis by (simp add: case_prod_beta)
        next
          case (Some epoch)
          let ?c3 = "c2\<lparr>ct_active_request := Some q, ct_state := \<lparr>desired_action = Some (step_action st),
              confirmed_epoch = Some epoch, health = PlaybackHealth.HEALTHY\<rparr>\<rparr>"
          obtain r c4 where r: "arm_after_successful_play now st ?c3 = (r, c4)" by fastforce
          then have "ct_active_request c4 = Some q" using arm [of ?c3] by simp
          with Pair Some r show ?thesis by (cases r) simp_all
        qed
      qed
      then show ?thesis
        using Some True Inr
        by (auto simp: play_directive_def allocate_generation_def with_res_def split: sum.splits)
    qed
  qed (simp add: play_directive_def Some)
qed (simp add: play_directive_def)

lemma completion_owner:
  "ct_active_request (snd (handle_completion P now ev cont c)) \<in> {ct_active_request c, cont, None}"
proof -
  have dir: "ct_active_request (snd (play_directive P now q d (c\<lparr>ct_runner := r'\<rparr>))) \<in>
      {ct_active_request c, Some q, None}" for q d r'
    using play_directive_owner [of P now q d "c\<lparr>ct_runner := r'\<rparr>"] by simp
  obtain x r' where "runner_handle_completion ev (ct_runner c) = (x, r')" by fastforce
  then show ?thesis
    using dir
    by (auto simp: handle_completion_def finish_terminal_def Let_def split: sum.splits option.splits)
      (metis option.inject option.distinct(1))+
qed

lemma play_owner: "ct_active_request (snd (play P now q c)) \<in> {ct_active_request c, Some q, None}"
proof -
  have dir: "ct_active_request (snd (play_directive P now q d (c\<lparr>ct_runner := r'\<rparr>))) \<in>
      {ct_active_request c, Some q, None}" for d r'
    using play_directive_owner [of P now q d "c\<lparr>ct_runner := r'\<rparr>"] by simp
  show ?thesis
    using dir
    by (auto simp: play_def with_res_def split: sum.splits option.splits prod.splits)
      (metis option.inject option.distinct(1))
qed

lemma completion_inv:
  assumes "track0_inv ep c" and "pred_option (owner_ok ep) cont"
  obtains oc c' where "handle_completion P now ev cont c = (Inr oc, c')" and "track0_inv ep c'"
proof -
  obtain oc c' where c': "handle_completion P now ev cont c = (Inr oc, c')" "ctrl_inv c'"
    using handle_completion_good [OF track0_inv_ctrl [OF assms(1)], of P now ev cont] by (auto simp: good_result_def)
  with completion_owner [of P now ev cont c] assms have "track0_inv ep c'"
    by (auto simp: track0_inv_def)
  with c'(1) that show thesis by blast
qed

lemma completion_engine:
  assumes "engine_inv e" and "en_track0 e = Some c"
    and "pred_option (owner_ok (sm_epoch (mm_states (en_motion e)))) cont"
  obtains oc c' where "on_track0 E (\<lambda>now. handle_completion (env_player E) now ev cont) c e = (Inr oc, with_track0 c' e)"
    and "keeps e (with_track0 c' e)"
proof -
  obtain oc c' where "handle_completion (env_player E) (env_clock E (en_ticks e)) ev cont c = (Inr oc, c')"
      "track0_inv (sm_epoch (mm_states (en_motion e))) c'"
    by (rule completion_inv [OF engine_inv_track0 [OF assms(1,2)] assms(3)])
  then show thesis
    using keeps_track0(2) [OF assms(1)] assms(2) by (intro that [of oc c']) (simp_all add: on_track0_def)
qed

lemma start_idle_keeps:
  assumes "engine_inv e"
  shows "keeps e (snd (start_idle_after_terminal E e))"
proof (cases "en_track0 e")
  case (Some c)
  let ?ep = "sm_epoch (mm_states (en_motion e))"
  let ?e1 = "e\<lparr>en_fresh := Suc (en_fresh e)\<rparr>"
  obtain entry where entry: "SEQUENCE_CATALOG SequenceName.IDLE = Some entry"
      "entry_interruption_class entry = InterruptClass.IDLE" "\<not> entry_protected entry"
    by (simp add: SEQUENCE_CATALOG_def catalog_eval)
  let ?q = "\<lparr>sequence_name = SequenceName.IDLE, interruption_class = InterruptClass.IDLE, protected = False,
     request_token = en_fresh e, semantic_epoch = ?ep, input_session_token = None,
     req_origin = ActionOrigin.SYSTEM, req_source = ActionSource.LIFECYCLE\<rparr>"
  have q: "owner_ok ?ep ?q" using assms by (simp add: owner_ok_def request_ok_def engine_inv_def body_inv_def)
  then have mk: "mk_ActionRequest SequenceName.IDLE InterruptClass.IDLE False (en_fresh e) ?ep None
      ActionOrigin.SYSTEM ActionSource.LIFECYCLE = Inr ?q"
    by (simp add: mk_ActionRequest_iff owner_ok_def)
  have k1: "keeps e ?e1" using keeps_refl [OF assms] by simp
  have inv1: "engine_inv ?e1" by (rule keeps_inv [OF k1])
  have upd: "keeps e (?e1\<lparr>en_track0 := Some c', en_ticks := n\<rparr>)" if "track0_inv ?ep c'" for c' n
    using keeps_trans [OF k1 keeps_track0(1) [OF inv1, of c']] that Some by simp
  obtain oc0 c0 where c0: "contain_preflight_failure (env_player E) CancelReason.RENDERER_FAILURE c = (oc0, c0)" "released c0"
    by (rule contain_result [OF engine_inv_ctrl [OF assms Some]])
  have "track0_inv ?ep (snd (play (env_player E) now ?q c))" for now
    using play_owner [of "env_player E" now ?q c] play_good [OF engine_inv_ctrl [OF assms Some], of "env_player E" now ?q]
      engine_inv_track0 [OF assms Some] q
    by (auto simp: track0_inv_def good_result_def)
  then have "keeps e (snd (on_track0 E (\<lambda>now. play (env_player E) now ?q) c ?e1))"
    using upd by (simp add: on_track0_def case_prod_beta)
  moreover have "keeps e (?e1\<lparr>en_track0 := Some c0\<rparr>)" using upd [OF released_inv [OF c0(2)], of "en_ticks e"] by simp
  ultimately show ?thesis
    using c0(1) k1 mk entry Some
    by (auto simp: start_idle_after_terminal_def new_object_def intro!: keeps_with_res)
qed (simp add: start_idle_after_terminal_def keeps_refl assms)

lemma reject_ok:
  assumes "random_source_ok R" and "sched_ok (sd_state d)"
  shows "case reject R d (Finite now) r of (Inl _, _) \<Rightarrow> True | (Inr s, _) \<Rightarrow> sched_ok s"
proof -
  obtain dw r' where "sample_dwell R (last_committed_state (sd_state d)) r = (dw, r')"
      "dwell_ok (last_committed_state (sd_state d)) dw"
    by (rule sample_dwell_ok [OF assms(1)])
  then show ?thesis using assms(2) by (simp add: reject_def sched_ok_def)
qed

lemma commit_accepted_ok:
  assumes "random_source_ok R" and "0 \<le> g"
  shows "case commit_accepted R d (Finite now) g t r of (Inl _, _) \<Rightarrow> True | (Inr s, _) \<Rightarrow> sched_ok s"
proof -
  have "case enter R st (Finite now) (Some g) (Some t) r of (Inl _, _) \<Rightarrow> True | (Inr s, _) \<Rightarrow> sched_ok s" for st
  proof -
    obtain s' r' where "enter R st (Finite now) (Some g) (Some t) r = (Inr s', r')" "sched_ok s'"
      by (rule enter_ok [OF assms(1), of "Finite now" "Some g"]) (use assms(2) in auto)
    then show ?thesis by simp
  qed
  then show ?thesis by (simp add: commit_accepted_def split: option.splits)
qed

lemma boundary_commit_keeps:
  assumes "random_source_ok (env_random E)" and "engine_inv e" and "sched_ok (sd_state d)"
  shows "keeps e (snd (boundary_commit E d now oc e))"
proof -
  define res where "res = (case confirmed_of e of
      Some confirmed \<Rightarrow> if oc = ActionOutcome.ACCEPTED
        then commit_accepted (env_random E) d (Finite now) (ce_generation confirmed)
               (ce_playback_token confirmed) (en_rng e)
        else reject (env_random E) d (Finite now) (en_rng e)
    | None \<Rightarrow> reject (env_random E) d (Finite now) (en_rng e))"
  have "case res of (Inl _, _) \<Rightarrow> True | (Inr s, _) \<Rightarrow> sched_ok s"
    using reject_ok [OF assms(1,3)] commit_accepted_ok [OF assms(1) confirmed_generation [OF assms(2)]]
    by (auto simp: res_def split: option.splits)
  then show ?thesis
    using assms(2) unfolding boundary_commit_def res_def [symmetric]
    by (auto simp: keeps_def engine_inv_def split: prod.splits sum.splits)
qed

lemma boundary_continue_keeps:
  assumes R: "random_source_ok (env_random E)" and inv: "engine_inv e" and "en_track0 e = Some c"
    and "sched_ok (sd_state d)"
    and "\<And>i. sd_intent d = Some i \<Longrightarrow> intent_origin i = ActionOrigin.AUTONOMOUS \<and> intent_source i = ActionSource.SCHEDULER"
  shows "keeps e (snd (boundary_continue E ev now c d e))"
proof (cases "sd_intent d")
  case None
  obtain oc c' where "on_track0 E (\<lambda>now'. handle_completion (env_player E) now' ev None) c e
      = (Inr oc, with_track0 c' e)" "keeps e (with_track0 c' e)"
    by (rule completion_engine [OF inv assms(3), of None]) simp_all
  then show ?thesis using None by (simp add: boundary_continue_def)
next
  case (Some i)
  have "keeps e (snd (sbind (submit_production_intent E i None e) (boundary_commit E d now)))"
  proof (rule keeps_sbind)
    show "keeps e (snd (submit_production_intent E i None e))"
      using returns_keeps [OF submit_returns [OF inv]] assms(5) [OF Some] by auto
  qed (rule boundary_commit_keeps [OF R _ assms(4)])
  then show ?thesis using Some by (simp add: boundary_continue_def)
qed

lemma boundary_evaluate_keeps:
  assumes R: "random_source_ok (env_random E)" and inv: "engine_inv e" and c: "en_track0 e = Some c"
    and sok: "sched_ok s"
  shows "keeps e (snd (boundary_evaluate E ev now c s snap be e))"
proof -
  obtain d r where d: "evaluate (env_random E) s snap (Some be) (en_fresh e) (en_rng e) = (Inr d, r)"
      "sched_ok (sd_state d)"
      "\<And>i. sd_intent d = Some i \<Longrightarrow> \<exists>p. proposed_state d = Some p \<and> intent_action i = action_by_state p \<and>
        intent_origin i = ActionOrigin.AUTONOMOUS \<and> intent_source i = ActionSource.SCHEDULER"
    by (rule evaluate_usable [OF R sok]) blast
  let ?e1 = "e\<lparr>en_fresh := Suc (en_fresh e), en_rng := r, en_scheduler_state := Some (sd_state d)\<rparr>"
  have k1: "keeps e ?e1" using inv d(2) by (simp add: keeps_def engine_inv_def)
  have "keeps ?e1 (snd (boundary_continue E ev now c d ?e1))"
    using d(3) c by (intro boundary_continue_keeps [OF R keeps_inv [OF k1] _ d(2)]) auto
  then show ?thesis
    using keeps_trans [OF k1] d(1) by (simp add: boundary_evaluate_def new_object_def)
qed

lemma boundary_keeps:
  assumes R: "random_source_ok (env_random E)" and inv: "engine_inv e"
  shows "keeps e (snd (handle_autonomous_boundary E ev e))"
proof (cases "\<exists>s c bi. en_scheduler_state e = Some s \<and> en_track0 e = Some c \<and> ev_boundary_index ev = Some bi
    \<and> en_has_scheduler e")
  case True
  then obtain s c bi where h: "en_scheduler_state e = Some s" "en_track0 e = Some c"
      "ev_boundary_index ev = Some bi" "en_has_scheduler e" by blast
  let ?e1 = "e\<lparr>en_ticks := Suc (en_ticks e)\<rparr>"
  have k: "keeps e ?e1" using inv by (simp add: keeps_def engine_inv_def)
  have "sched_ok s" using inv h(1) by (simp add: engine_inv_def)
  then have "keeps e (snd (boundary_evaluate E ev now c s snap be ?e1))" for now snap be
    using keeps_trans [OF k boundary_evaluate_keeps [OF R keeps_inv [OF k]]] h(2) by simp
  then show ?thesis
    using h k by (auto simp: handle_autonomous_boundary_def Let_def intro!: keeps_with_res)
qed (use keeps_refl [OF inv] in \<open>auto simp: handle_autonomous_boundary_def split: option.splits\<close>)

text \<open>A boundary that the scheduler does not handle leaves the engine as it was.\<close>

lemma boundary_continue_handled: "boundary_continue E ev now c d e \<noteq> (Inr None, e1)"
  by (auto simp: boundary_continue_def boundary_commit_def sbind_def split: prod.splits sum.splits option.splits)

lemma boundary_none:
  assumes "handle_autonomous_boundary E ev e = (Inr None, e1)"
  shows "e1 = e"
  using assms
  by (auto simp: boundary_continue_handled handle_autonomous_boundary_def boundary_evaluate_def Let_def new_object_def with_res_def
      split: option.splits if_splits sum.splits prod.splits)

lemma after_protected_keeps:
  assumes "random_source_ok (env_random E)" and "engine_inv e"
  shows "keeps e (snd (after_protected E fc e))"
proof -
  let ?e1 = "(clear_protected_continuation e)\<lparr>en_active_action := None\<rparr>"
  have k1: "keeps e ?e1" using assms(2) by simp
  have "keeps e (snd (with_res (pending_intent p) ?e1 (\<lambda>i. submit_production_intent E i None ?e1)))" for p
  proof (rule keeps_with_res [OF k1])
    fix i
    assume "pending_intent p = Inr i"
    then have "intent_source i \<in> sources_by_origin (intent_origin i)"
      by (auto simp: pending_intent_def mk_ActionIntent_Inr_iff)
    then show "keeps e (snd (submit_production_intent E i None ?e1))"
      using returns_keeps [OF returns_trans [OF k1 submit_returns [OF keeps_inv [OF k1]]]] by blast
  qed
  moreover have "keeps e (snd (recover_autonomous_relax E fc ?e1))"
    by (rule returns_keeps [OF returns_trans [OF k1 recover_relax_returns [OF assms(1) keeps_inv [OF k1]]]])
  ultimately show ?thesis by (simp add: after_protected_def Let_def split: option.splits)
qed

lemma after_recovery_keeps:
  assumes "random_source_ok (env_random E)" and "engine_inv e"
  shows "keeps e (snd (after_recovery E e))"
proof (cases "en_track0 e")
  case (Some c)
  obtain oc c' where c': "track0_clear E CancelReason.MOTION_OVERRIDE c e = (oc, e\<lparr>en_track0 := Some c'\<rparr>)"
      "keeps e (e\<lparr>en_track0 := Some c'\<rparr>)"
    by (rule track0_clear_result [OF assms(2) Some])
  from returns_keeps [OF returns_trans [OF c'(2) recover_relax_returns [OF assms(1) keeps_inv [OF c'(2)]]]]
  show ?thesis using c' Some by (simp add: after_recovery_def)
qed (simp add: after_recovery_def keeps_refl assms(2))

lemma finish_callback_keeps:
  assumes "random_source_ok (env_random E)" and "engine_inv e" and "en_track0 e = Some c"
    and "pred_option (owner_ok (sm_epoch (mm_states (en_motion e)))) cont"
  shows "keeps e (snd (finish_callback E ev cont prot fc recovery c e))"
proof -
  obtain oc c' where "on_track0 E (\<lambda>now. handle_completion (env_player E) now ev cont) c e = (Inr oc, with_track0 c' e)"
      "keeps e (with_track0 c' e)"
    by (rule completion_engine [OF assms(2-4)])
  then have "keeps e (snd (on_track0 E (\<lambda>now. handle_completion (env_player E) now ev cont) c e))" by simp
  then show ?thesis
    unfolding finish_callback_def
    by (intro keeps_with_res keeps_sbind keeps_refl assms(2))
      (auto intro: after_protected_keeps after_recovery_keeps start_idle_keeps keeps_checked keeps_refl assms(1))
qed

lemma matched_callback_keeps:
  assumes "random_source_ok (env_random E)" and "engine_inv e" and "en_track0 e = Some c"
  shows "keeps e (snd (matched_callback E ev fc c e))"
proof -
  have ret: "keeps e (snd (with_res (replace_epoch q (target_epoch p)) e (\<lambda>q'.
      sbind (on_motion (commit_state_transition p) e) (\<lambda>_ e1. finish_callback E ev (Some q') prot fc' recovery c e1))))"
    if p: "propose (mm_states (en_motion e)) return_idle_args = Inr p" and q: "ct_active_request c = Some q"
    for p q prot fc' recovery
  proof (rule keeps_with_res [OF keeps_refl [OF assms(2)]])
    fix q'
    assume q': "replace_epoch q (target_epoch p) = Inr q'"
    have nr: "no_running_args return_idle_args" by (simp add: no_running_args_def return_idle_args_def)
    obtain m' where m': "on_motion (commit_state_transition p) e = (Inr (), e\<lparr>en_motion := m'\<rparr>)"
        "keeps e (e\<lparr>en_motion := m'\<rparr>)" "sm_epoch (mm_states m') = target_epoch p"
      by (rule commit_engine [OF assms(2) p nr])
    have "owner_ok (target_epoch p) q'"
      using q' engine_inv_track0 [OF assms(2,3)] q
      by (auto simp: replace_epoch_def mk_ActionRequest_iff owner_ok_def track0_inv_def)
    then have "keeps (e\<lparr>en_motion := m'\<rparr>) (snd (finish_callback E ev (Some q') prot fc' recovery c (e\<lparr>en_motion := m'\<rparr>)))"
      using finish_callback_keeps [OF assms(1) keeps_inv [OF m'(2)], of c "Some q'"] assms(3) m'(3) by simp
    then show "keeps e (snd (sbind (on_motion (commit_state_transition p) e)
        (\<lambda>_ e1. finish_callback E ev (Some q') prot fc' recovery c e1)))"
      using m'(1,2) keeps_trans by auto
  qed
  show ?thesis
    unfolding matched_callback_def Let_def
    by (intro keeps_with_res keeps_refl assms(2))
      (auto simp: keeps_refl assms(2) split: option.splits
        intro!: keeps_with_res finish_callback_keeps [OF assms] ret)
qed

lemma handle_playback_event_keeps:
  assumes "random_source_ok (env_random E)" and "engine_inv e"
  shows "keeps e (snd (handle_playback_event E ev fc e))"
proof (cases "en_track0 e")
  case (Some c)
  note k = keeps_refl [OF assms(2)]
  obtain oc c' where st: "on_track0 E (\<lambda>now. handle_completion (env_player E) now ev None) c e = (Inr oc, with_track0 c' e)"
      "keeps e (with_track0 c' e)"
    by (rule completion_engine [OF assms(2) Some, of None]) simp
  have "keeps e (snd (sbind (if ev_loop_boundary ev \<and> ev_boundary_index ev \<noteq> None
      then handle_autonomous_boundary E ev e else (Inr None, e)) (\<lambda>handled e1.
      case handled of Some oc \<Rightarrow> checked oc e1 | None \<Rightarrow> matched_callback E ev fc c e1)))"
  proof (rule keeps_sbind)
    show "keeps e (snd (if ev_loop_boundary ev \<and> ev_boundary_index ev \<noteq> None
        then handle_autonomous_boundary E ev e else (Inr None, e)))"
      using boundary_keeps [OF assms] k by simp
    fix handled e1
    assume r: "(if ev_loop_boundary ev \<and> ev_boundary_index ev \<noteq> None
        then handle_autonomous_boundary E ev e else (Inr None, e)) = (Inr handled, e1)" and inv1: "engine_inv e1"
    show "keeps e1 (snd (case handled of Some oc \<Rightarrow> checked oc e1 | None \<Rightarrow> matched_callback E ev fc c e1))"
    proof (cases handled)
      case None
      then have "e1 = e" using r boundary_none [of E ev e e1] by (auto split: if_splits)
      then show ?thesis using None matched_callback_keeps [OF assms Some] by simp
    qed (simp add: keeps_checked keeps_refl inv1)
  qed
  then show ?thesis
    using st k Some keeps_checked [OF st(2)]
    by (auto simp: handle_playback_event_def intro!: keeps_with_res)
qed (simp add: handle_playback_event_def keeps_refl assms(2))

end
