(* ===== verification/Animation_Frame.thy ===== *)
theory Animation_Frame
  imports Engine_Events
begin

text \<open>
  The rest of the animation engine of \<^verbatim>\<open>application/pet/pet_animation.py\<close>: the public requests that
  choose between a Track 0 transaction and the plain motion model, the frame clock \<^verbatim>\<open>advance\<close> with
  its timers, and the frame a renderer draws. Every request works in both configurations, with
  Track 0 sequencing and without; \<open>production_sequencing_enabled\<close> decides at each call.

  The invariant of the theory \<open>Engine_Transactions\<close> is kept by all of them, and a frame is always
  normalised: progress, breathing, eyes and pulses stay in their ranges.
\<close>

section \<open>Frames\<close>

record PetAnimationIntent =
  pi_base_action :: PetMotionState
  pi_facing :: PetFacing
  pi_loop :: bool
  pi_progress :: real
  pi_overlays :: "PetBehaviorState set"

definition mk_PetAnimationIntent ::
    "PetMotionState \<Rightarrow> PetFacing \<Rightarrow> bool \<Rightarrow> real \<Rightarrow> PetBehaviorState set \<Rightarrow> PetAnimationIntent res" where
  "mk_PetAnimationIntent mo fc lp progress overlays =
    raise_if (\<not> (0 \<le> progress \<and> progress \<le> 1)) (ValueError ''Animation progress must be normalized.'')
    (Inr \<lparr>pi_base_action = mo, pi_facing = fc, pi_loop = lp, pi_progress = progress,
          pi_overlays = overlays\<rparr>)"

record PetVisualParameters =
  breathing_amount :: real
  eye_openness :: real
  body_wiggle :: real
  thinking_tilt :: real
  reminder_pulse :: real

record PetRenderFrame =
  fr_state :: PetLayeredState
  fr_animation_time :: real
  fr_window_size :: Size
  fr_intent :: PetAnimationIntent
  fr_visual :: PetVisualParameters

record PetAnimationSnapshot =
  as_motion :: PetMotionSnapshot
  as_frame :: PetRenderFrame
  applied_delta_seconds :: real

text \<open>Python's \<^verbatim>\<open>%\<close> on floats with a positive divisor.\<close>

definition fmod :: "real \<Rightarrow> real \<Rightarrow> real" where
  "fmod x p = x - p * of_int \<lfloor>x / p\<rfloor>"

definition tau :: real where
  "tau = 2 * pi"

definition base_progress :: "PetMotionState \<Rightarrow> ('p, 'r) PetAnimationEngine \<Rightarrow> real" where
  "base_progress mo e =
    (let period = (if mo \<in> {PetMotionState.WALKING_LEFT, PetMotionState.WALKING_RIGHT}
                   then walking_cycle_seconds (mm_config (en_motion e))
                   else breathing_cycle_seconds (en_config e))
     in fmod (en_animation_time e) period / period)"

definition visual_parameters ::
    "PetLayeredState \<Rightarrow> real \<Rightarrow> ('p, 'r) PetAnimationEngine \<Rightarrow> PetVisualParameters" where
  "visual_parameters s progress e =
    \<lparr>breathing_amount =
       (if PetBehaviorState.BREATHING \<in> behaviors s then (1 - cos (progress * tau)) / 2 else 0),
     eye_openness =
       (if PetBehaviorState.BLINKING \<in> behaviors s
        then \<bar>2 * min 1 (en_blink_elapsed e / blinking_duration_seconds (en_config e)) - 1\<bar>
        else 1),
     body_wiggle =
       (if PetBehaviorState.DRAG_STRUGGLE \<in> behaviors s then sin (en_animation_time e * tau * 5) else 0),
     thinking_tilt =
       (if PetBehaviorState.THINKING \<in> behaviors s then sin (en_animation_time e * tau * (8 / 10)) else 0),
     reminder_pulse =
       (if PetBehaviorState.REMINDING \<in> behaviors s
        then (1 - cos (en_animation_time e * tau * 3)) / 2 else 0)\<rparr>"

definition frame :: "('p, 'r) PetAnimationEngine \<Rightarrow> PetRenderFrame res" where
  "frame e =
    ebind (mstate (en_motion e)) (\<lambda>s.
    let progress = base_progress (motion s) e in
    ebind (mk_PetAnimationIntent (motion s) (facing s)
             (motion s \<in> {PetMotionState.IDLE, PetMotionState.WALKING_LEFT, PetMotionState.WALKING_RIGHT})
             progress (behaviors s)) (\<lambda>intent.
    Inr \<lparr>fr_state = s, fr_animation_time = en_animation_time e,
         fr_window_size = mm_window_size (en_motion e), fr_intent = intent,
         fr_visual = visual_parameters s progress e\<rparr>))"

definition animation_snapshot ::
    "PetMotionSnapshot \<Rightarrow> ('p, 'r) PetAnimationEngine
      \<Rightarrow> (PetAnimationSnapshot, ('p, 'r) PetAnimationEngine) sres" where
  "animation_snapshot ms e =
    with_res (frame e) e (\<lambda>f.
      (Inr \<lparr>as_motion = ms, as_frame = f, applied_delta_seconds = en_last_applied_delta e\<rparr>, e))"

section \<open>Requests\<close>

text \<open>A call on the state machine that the motion model holds, and one that makes a new token.\<close>

definition on_states ::
    "(PetLayeredStateMachine \<Rightarrow> PetLayeredStateMachine res) \<Rightarrow> ('p, 'r) PetAnimationEngine
      \<Rightarrow> (unit, ('p, 'r) PetAnimationEngine) sres" where
  "on_states f e =
    with_res (f (mm_states (en_motion e))) e (\<lambda>st.
      (Inr (), e\<lparr>en_motion := (en_motion e)\<lparr>mm_states := st\<rparr>\<rparr>))"

definition handle_new_event ::
    "('p, 'r) engine_env \<Rightarrow> (token \<Rightarrow> PetAnimationEvent) \<Rightarrow> ('p, 'r) PetAnimationEngine
      \<Rightarrow> (ActionOutcome, ('p, 'r) PetAnimationEngine) sres" where
  "handle_new_event E mk e = (let (t, e1) = new_object e in handle_event E (mk t) e1)"

text \<open>The end of a request that the motion model served alone.\<close>

definition legacy_direct ::
    "('a, ('p, 'r) PetAnimationEngine) sres \<Rightarrow> (('p, 'r) PetAnimationEngine \<Rightarrow> ('p, 'r) PetAnimationEngine)
      \<Rightarrow> (ActionOutcome, ('p, 'r) PetAnimationEngine) sres" where
  "legacy_direct r f = sbind r (\<lambda>_ e1. (Inr ActionOutcome.LEGACY_DIRECT, f e1))"

definition request_walk ::
    "('p, 'r) engine_env \<Rightarrow> PetFacing \<Rightarrow> ('p, 'r) PetAnimationEngine
      \<Rightarrow> (ActionOutcome, ('p, 'r) PetAnimationEngine) sres" where
  "request_walk E direction e =
    (if production_sequencing_enabled E e then handle_new_event E (walking_event direction) e
     else legacy_direct (on_motion (motion_start_walking direction) e)
       (\<lambda>e1. e1\<lparr>en_action_remaining := walking_duration_seconds (en_config e1)\<rparr>))"

definition request_thinking_animation ::
    "('p, 'r) engine_env \<Rightarrow> ('p, 'r) PetAnimationEngine
      \<Rightarrow> (ActionOutcome, ('p, 'r) PetAnimationEngine) sres" where
  "request_thinking_animation E e =
    (if production_sequencing_enabled E e
     then handle_new_event E (plain_event PetAnimationEventType.START_THINKING) e
     else with_res (mstate (en_motion e)) e (\<lambda>s.
       legacy_direct
         (sbind (if motion s \<in> {PetMotionState.WALKING_LEFT, PetMotionState.WALKING_RIGHT}
                 then on_motion motion_stop_walking e else (Inr (), e))
           (\<lambda>_ e1. on_states start_thinking e1))
         (\<lambda>e1. e1\<lparr>en_action_remaining := thinking_duration_seconds (en_config e1)\<rparr>)))"

definition request_reminder_animation ::
    "('p, 'r) engine_env \<Rightarrow> ('p, 'r) PetAnimationEngine
      \<Rightarrow> (ActionOutcome, ('p, 'r) PetAnimationEngine) sres" where
  "request_reminder_animation E e =
    (if production_sequencing_enabled E e
     then handle_new_event E (plain_event PetAnimationEventType.START_REMINDING) e
     else legacy_direct (on_states start_reminding e)
       (\<lambda>e1. e1\<lparr>en_action_remaining := reminder_duration_seconds (en_config e1)\<rparr>))"

definition engine_start_dragging ::
    "('p, 'r) engine_env \<Rightarrow> ('p, 'r) PetAnimationEngine
      \<Rightarrow> (ActionOutcome, ('p, 'r) PetAnimationEngine) sres" where
  "engine_start_dragging E e =
    (if production_sequencing_enabled E e then
       let (session, e1) = new_object e in
       sbind (handle_new_event E (\<lambda>t. dragging_event t session) e1) (\<lambda>oc e2.
       (Inr oc,
        if oc = ActionOutcome.ACCEPTED
        then e2\<lparr>en_drag_session := Some session, en_action_remaining := 0\<rparr> else e2))
     else legacy_direct (on_motion motion_start_dragging (e\<lparr>en_action_remaining := 0\<rparr>)) id)"

text \<open>Relax is playing and confirmed, so the fallback recovery may keep it.\<close>

definition relax_confirmed :: "'p PetTrack0Controller \<Rightarrow> bool" where
  "relax_confirmed c \<longleftrightarrow> health (ct_state c) = PlaybackHealth.HEALTHY \<and>
     confirmed_epoch (ct_state c) \<noteq> None \<and> desired_action (ct_state c) = Some PetActionName.IDLE"

definition engine_release_drag ::
    "('p, 'r) engine_env \<Rightarrow> Rect list option \<Rightarrow> ('p, 'r) PetAnimationEngine
      \<Rightarrow> (ActionOutcome, ('p, 'r) PetAnimationEngine) sres" where
  "engine_release_drag E workspaces e =
    (if production_sequencing_enabled E e then
       (case en_drag_session e of
          None \<Rightarrow> (Inl PetStateTransitionError, e)
        | Some session \<Rightarrow>
          if en_relax_fallback e then
            sbind (on_motion (motion_release_drag workspaces)
                     ((suspend e)\<lparr>en_drag_session := None, en_active_action := None\<rparr>)) (\<lambda>_ e1.
            case en_track0 e1 of
              None \<Rightarrow> (Inr ActionOutcome.PLAYBACK_DEGRADED, e1)
            | Some c \<Rightarrow>
                if \<not> relax_confirmed c then (Inr ActionOutcome.PLAYBACK_DEGRADED, e1)
                else checked ActionOutcome.ACCEPTED e1)
          else
            sbind (handle_new_event E (\<lambda>t. release_event t session) e) (\<lambda>oc e1.
            (Inr oc, if oc = ActionOutcome.ACCEPTED then e1\<lparr>en_drag_session := None\<rparr> else e1)))
     else legacy_direct (on_motion (motion_release_drag None) e) id)"

definition finish_relax_motion_recovery ::
    "('p, 'r) engine_env \<Rightarrow> ('p, 'r) PetAnimationEngine
      \<Rightarrow> (ActionOutcome, ('p, 'r) PetAnimationEngine) sres" where
  "finish_relax_motion_recovery E e =
    (case en_track0 e of
       None \<Rightarrow> (Inr ActionOutcome.LEGACY_DIRECT, e)
     | Some c \<Rightarrow>
       if \<not> relax_confirmed c then (Inr ActionOutcome.PLAYBACK_DEGRADED, suspend e)
       else case SEQUENCE_CATALOG SequenceName.PRODUCTION_RELAX of
         None \<Rightarrow> (Inl KeyError, e)
       | Some entry \<Rightarrow>
         let (t, e1) = new_object e in
         with_res (mk_ActionRequest SequenceName.PRODUCTION_RELAX (entry_interruption_class entry)
                     (entry_protected entry) t (sm_epoch (mm_states (en_motion e1))) None
                     ActionOrigin.AUTONOMOUS ActionSource.SCHEDULER) e1 (\<lambda>q.
         case adopt_active_playback (env_player E) q c of
           (Inl err, c') \<Rightarrow> (Inl err, e1\<lparr>en_track0 := Some c'\<rparr>)
         | (Inr adopted, c') \<Rightarrow>
             if adopted \<noteq> ActionOutcome.ACCEPTED
             then (Inr adopted, suspend (e1\<lparr>en_track0 := Some c'\<rparr>))
             else sbind (activate_autonomous E ProductionAction.RELAX
                    (e1\<lparr>en_track0 := Some c', en_active_action := Some ProductionAction.RELAX\<rparr>))
                  (\<lambda>_ e2. checked ActionOutcome.ACCEPTED e2)))"

definition engine_pause ::
    "('p, 'r) engine_env \<Rightarrow> ('p, 'r) PetAnimationEngine
      \<Rightarrow> (ActionOutcome, ('p, 'r) PetAnimationEngine) sres" where
  "engine_pause E e =
    (if production_sequencing_enabled E e
     then handle_new_event E (plain_event PetAnimationEventType.PAUSE) e
     else legacy_direct (on_motion motion_pause e) id)"

definition engine_resume ::
    "('p, 'r) engine_env \<Rightarrow> ('p, 'r) PetAnimationEngine
      \<Rightarrow> (ActionOutcome, ('p, 'r) PetAnimationEngine) sres" where
  "engine_resume E e =
    (if production_sequencing_enabled E e
     then handle_new_event E (plain_event PetAnimationEventType.RESUME) e
     else legacy_direct (on_motion motion_resume e) id)"

definition engine_begin_closing ::
    "('p, 'r) engine_env \<Rightarrow> ('p, 'r) PetAnimationEngine
      \<Rightarrow> (ActionOutcome, ('p, 'r) PetAnimationEngine) sres" where
  "engine_begin_closing E e =
    (let e1 = e\<lparr>en_action_remaining := 0\<rparr>
     in if production_sequencing_enabled E e
        then handle_new_event E (plain_event PetAnimationEventType.BEGIN_CLOSING) e1
        else legacy_direct (on_motion motion_begin_closing e1) id)"

definition engine_recover_failed_close ::
    "('p, 'r) PetAnimationEngine \<Rightarrow> (unit, ('p, 'r) PetAnimationEngine) sres" where
  "engine_recover_failed_close e = on_motion motion_recover_failed_close e"

section \<open>The frame clock\<close>

definition new_blink_interval ::
    "('p, 'r) engine_env \<Rightarrow> ('p, 'r) PetAnimationEngine \<Rightarrow> ('p, 'r) PetAnimationEngine" where
  "new_blink_interval E e =
    (case new_interval (env_random E) (blinking_interval_min_seconds (en_config e))
            (blinking_interval_max_seconds (en_config e)) (en_rng e) of
       (d, r) \<Rightarrow> e\<lparr>en_next_blink := d, en_rng := r\<rparr>)"

definition new_random_action_interval ::
    "('p, 'r) engine_env \<Rightarrow> ('p, 'r) PetAnimationEngine \<Rightarrow> ('p, 'r) PetAnimationEngine" where
  "new_random_action_interval E e =
    (case new_interval (env_random E) (random_action_interval_min_seconds (en_config e))
            (random_action_interval_max_seconds (en_config e)) (en_rng e) of
       (d, r) \<Rightarrow> e\<lparr>en_next_random_action := d, en_rng := r\<rparr>)"

text \<open>What ends when the timer of the current action runs out; the caller catches its error.\<close>

definition finish_action ::
    "PetLayeredState \<Rightarrow> ('p, 'r) PetAnimationEngine \<Rightarrow> (unit, ('p, 'r) PetAnimationEngine) sres" where
  "finish_action s e =
    (if motion s \<in> {PetMotionState.WALKING_LEFT, PetMotionState.WALKING_RIGHT}
     then on_motion motion_stop_walking e
     else if PetBehaviorState.THINKING \<in> behaviors s then on_states finish_thinking e
     else if PetBehaviorState.REMINDING \<in> behaviors s then on_states finish_reminding e
     else (Inr (), e))"

definition advance_action ::
    "('p, 'r) engine_env \<Rightarrow> real \<Rightarrow> ('p, 'r) PetAnimationEngine
      \<Rightarrow> (unit, ('p, 'r) PetAnimationEngine) sres" where
  "advance_action E elapsed e =
    (if en_action_remaining e \<le> 0 then (Inr (), e)
     else
       let e1 = e\<lparr>en_action_remaining := max 0 (en_action_remaining e - elapsed)\<rparr>
       in if en_action_remaining e1 > 0 then (Inr (), e1)
          else with_res (mstate (en_motion e1)) e1 (\<lambda>s.
               case finish_action s e1 of
                 (Inl PetStateTransitionError, e2) \<Rightarrow> (Inr (), e2)
               | (Inl err, e2) \<Rightarrow> (Inl err, e2)
               | (Inr _, e2) \<Rightarrow> (Inr (), new_random_action_interval E e2)))"

definition advance_blink ::
    "('p, 'r) engine_env \<Rightarrow> real \<Rightarrow> ('p, 'r) PetAnimationEngine
      \<Rightarrow> (unit, ('p, 'r) PetAnimationEngine) sres" where
  "advance_blink E elapsed e =
    with_res (mstate (en_motion e)) e (\<lambda>s.
    if PetBehaviorState.BLINKING \<in> behaviors s then
      let e1 = e\<lparr>en_blink_elapsed := en_blink_elapsed e + elapsed\<rparr>
      in if en_blink_elapsed e1 \<ge> blinking_duration_seconds (en_config e1)
         then sbind (on_states finish_blinking e1) (\<lambda>_ e2.
              (Inr (), new_blink_interval E (e2\<lparr>en_blink_elapsed := 0\<rparr>)))
         else (Inr (), e1)
    else
      let e1 = e\<lparr>en_next_blink := en_next_blink e - elapsed\<rparr>
      in if en_next_blink e1 \<le> 0
         then sbind (on_states start_blinking e1) (\<lambda>_ e2.
              with_res (mstate (en_motion e2)) e2 (\<lambda>s2.
              (Inr (), if PetBehaviorState.BLINKING \<in> behaviors s2 then e2\<lparr>en_blink_elapsed := 0\<rparr>
                       else new_blink_interval E e2)))
         else (Inr (), e1))"

definition advance_random_action ::
    "('p, 'r) engine_env \<Rightarrow> real \<Rightarrow> ('p, 'r) PetAnimationEngine
      \<Rightarrow> (unit, ('p, 'r) PetAnimationEngine) sres" where
  "advance_random_action E elapsed e =
    with_res (mstate (en_motion e)) e (\<lambda>s.
    if en_action_remaining e > 0 \<or> motion s \<noteq> PetMotionState.IDLE
       \<or> behaviors s \<noteq> {PetBehaviorState.BREATHING}
    then (Inr (), e)
    else
      let e1 = e\<lparr>en_next_random_action := en_next_random_action e - elapsed\<rparr>
      in if en_next_random_action e1 > 0 then (Inr (), e1)
         else case randrange (env_random E) 3 (en_rng e1) of
           (selection, r) \<Rightarrow>
             sbind
               (let e2 = e1\<lparr>en_rng := r\<rparr>
                in if selection = 0 then request_walk E PetFacing.LEFT e2
                   else if selection = 1 then request_walk E PetFacing.RIGHT e2
                   else request_thinking_animation E e2)
               (\<lambda>_ e3. (Inr (), e3)))"

definition recover_explicit_boundary ::
    "('p, 'r) engine_env \<Rightarrow> ('p, 'r) PetAnimationEngine
      \<Rightarrow> (ActionOutcome, ('p, 'r) PetAnimationEngine) sres" where
  "recover_explicit_boundary E e =
    (let e1 = (suspend (clear_protected_continuation e))\<lparr>en_active_action := None\<rparr>
     in case en_track0 e1 of
          None \<Rightarrow> (Inr ActionOutcome.LEGACY_DIRECT, e1)
        | Some c \<Rightarrow>
            (case track0_clear E CancelReason.MOTION_OVERRIDE c e1 of
               (cleared, e2) \<Rightarrow>
                 if cleared \<noteq> ActionOutcome.CLEARED then (Inr cleared, e2)
                 else recover_autonomous_relax E None e2))"

definition commit_workspace_boundary_turn ::
    "('p, 'r) engine_env \<Rightarrow> PetFacing \<Rightarrow> ('p, 'r) PetAnimationEngine
      \<Rightarrow> (unit, ('p, 'r) PetAnimationEngine) sres" where
  "commit_workspace_boundary_turn E direction e =
    (let a = (if direction = PetFacing.LEFT then ProductionAction.MOVE_LEFT
              else ProductionAction.MOVE_RIGHT)
     in sbind (submit_new E a ActionOrigin.SYSTEM ActionSource.MOTION None
                 (suspend (clear_protected_continuation e))) (\<lambda>oc e1.
        if oc = ActionOutcome.ACCEPTED then activate_autonomous E a e1 else (Inr (), e1)))"

text \<open>The turn a walk asks for at the edge of its workspace.\<close>

definition boundary_turn ::
    "('p, 'r) engine_env \<Rightarrow> PetFacing \<Rightarrow> ('p, 'r) PetAnimationEngine
      \<Rightarrow> (unit, ('p, 'r) PetAnimationEngine) sres" where
  "boundary_turn E direction e =
    (if en_active_action e \<in> {Some ProductionAction.MOVE_LEFT, Some ProductionAction.MOVE_RIGHT} then
       (if en_execution_mode e = AutonomousExecutionMode.EXPLICIT_HOLD
        then sbind (recover_explicit_boundary E e) (\<lambda>_ e1. (Inr (), e1))
        else commit_workspace_boundary_turn E direction e)
     else on_motion (motion_start_walking direction) e)"

text \<open>
  One frame of an active pet, in the steps of \<^verbatim>\<open>advance\<close>: timers, motion, the recovery of a landing,
  the pending turn, and the snapshot.
\<close>

definition advance_timers ::
    "('p, 'r) engine_env \<Rightarrow> real \<Rightarrow> ('p, 'r) PetAnimationEngine
      \<Rightarrow> (unit, ('p, 'r) PetAnimationEngine) sres" where
  "advance_timers E applied e =
    sbind (advance_action E applied e) (\<lambda>_ e1.
    sbind (advance_blink E applied e1) (\<lambda>_ e2.
    advance_random_action E applied e2))"

definition advance_motion ::
    "('p, 'r) engine_env \<Rightarrow> real \<Rightarrow> Rect list \<Rightarrow> ('p, 'r) PetAnimationEngine
      \<Rightarrow> (PetMotionSnapshot, ('p, 'r) PetAnimationEngine) sres" where
  "advance_motion E applied workspaces e =
    with_res (mstate (en_motion e)) e (\<lambda>previous.
    sbind (on_motion (update applied workspaces) e) (\<lambda>ms e1.
    if en_relax_fallback e1 \<and> motion previous = PetMotionState.LANDING
       \<and> motion (ms_state ms) = PetMotionState.IDLE
    then sbind (finish_relax_motion_recovery E e1) (\<lambda>_ e2. on_motion msnapshot e2)
    else (Inr ms, e1)))"

definition advance_turn ::
    "('p, 'r) engine_env \<Rightarrow> PetMotionSnapshot \<Rightarrow> ('p, 'r) PetAnimationEngine
      \<Rightarrow> (PetMotionSnapshot, ('p, 'r) PetAnimationEngine) sres" where
  "advance_turn E ms e =
    (case take_pending_direction_turn (en_motion e) of
       (turn, m) \<Rightarrow>
         let e1 = e\<lparr>en_motion := m\<rparr>
         in case turn of
              None \<Rightarrow> (Inr ms, e1)
            | Some d \<Rightarrow> sbind (boundary_turn E d e1) (\<lambda>_ e2. on_motion msnapshot e2))"

definition advance ::
    "('p, 'r) engine_env \<Rightarrow> real \<Rightarrow> Rect list \<Rightarrow> ('p, 'r) PetAnimationEngine
      \<Rightarrow> (PetAnimationSnapshot, ('p, 'r) PetAnimationEngine) sres" where
  "advance E elapsed workspaces e =
    (if elapsed < 0 then (Inl (ValueError ''Elapsed animation time must not be negative.''), e)
     else with_res (mstate (en_motion e)) e (\<lambda>s.
       if lifecycle s \<noteq> PetLifecycleState.ACTIVE
       then sbind (on_motion (update 0 workspaces) (e\<lparr>en_last_applied_delta := 0\<rparr>)) animation_snapshot
       else
         let applied = min elapsed (maximum_delta_seconds (en_config e));
             e1 = e\<lparr>en_last_applied_delta := applied,
                    en_animation_time := en_animation_time e + applied\<rparr>
         in sbind (advance_timers E applied e1) (\<lambda>_ e2.
            sbind (advance_motion E applied workspaces e2) (\<lambda>ms e3.
            sbind (advance_turn E ms e3) animation_snapshot))))"

section \<open>The motion model inside the engine\<close>

text \<open>No operation of the state machine lowers the epoch or starts a run.\<close>

definition quiet :: "PetLayeredStateMachine \<Rightarrow> PetLayeredStateMachine \<Rightarrow> bool" where
  "quiet st st' \<longleftrightarrow> sm_epoch st \<le> sm_epoch st' \<and>
     (sm_motion st' \<in> {PetMotionState.RUNNING_LEFT, PetMotionState.RUNNING_RIGHT} \<longrightarrow>
      sm_motion st \<in> {PetMotionState.RUNNING_LEFT, PetMotionState.RUNNING_RIGHT})"

lemma quiet_exec:
  assumes "sm_exec op st = Inr st'" and "\<And>a. op \<noteq> Transition a"
  shows "quiet st st'"
  using assms by (cases op) (auto simp: quiet_def machine_defs machine_helpers split: if_splits)

lemmas quiet_ops =
  quiet_exec [of Pause, simplified] quiet_exec [of Resume, simplified]
  quiet_exec [of BeginClosing, simplified] quiet_exec [of RecoverFailedClose, simplified]
  quiet_exec [of StartDragging, simplified] quiet_exec [of ReleaseDrag, simplified]
  quiet_exec [of Land, simplified] quiet_exec [of FinishLanding, simplified]
  quiet_exec [of "StartWalking d" for d, simplified] quiet_exec [of StopWalking, simplified]
  quiet_exec [of StartThinking, simplified] quiet_exec [of FinishThinking, simplified]
  quiet_exec [of StartReminding, simplified] quiet_exec [of FinishReminding, simplified]
  quiet_exec [of StartBlinking, simplified] quiet_exec [of FinishBlinking, simplified]

lemma quiet_refl [simp]: "quiet st st"
  by (simp add: quiet_def)

lemma quiet_trans: "quiet a b \<Longrightarrow> quiet b c \<Longrightarrow> quiet a c"
  by (auto simp: quiet_def)

definition body_frame :: "PetMotionModel \<Rightarrow> PetMotionModel \<Rightarrow> bool" where
  "body_frame m m' \<longleftrightarrow> mm_window_size m' = mm_window_size m \<and> mm_config m' = mm_config m \<and>
     quiet (mm_states m) (mm_states m')"

lemma frame_with_res:
  "body_frame m m1 \<Longrightarrow> (\<And>v. r = Inr v \<Longrightarrow> body_frame m (snd (f v))) \<Longrightarrow> body_frame m (snd (with_res r m1 f))"
  by (cases r) simp_all

lemma body_frame_refl [simp]: "body_frame m m"
  by (simp add: body_frame_def)

lemma body_frame_upd [simp]:
  "body_frame m (m'\<lparr>mm_position := p\<rparr>) = body_frame m m'"
  "body_frame m (m'\<lparr>mm_vertical_velocity := x\<rparr>) = body_frame m m'"
  "body_frame m (m'\<lparr>mm_horizontal_velocity := x\<rparr>) = body_frame m m'"
  "body_frame m (m'\<lparr>mm_landing_elapsed := x\<rparr>) = body_frame m m'"
  "body_frame m (m'\<lparr>mm_pending_direction_turn := t\<rparr>) = body_frame m m'"
  "body_frame m (m'\<lparr>mm_states := st\<rparr>) \<longleftrightarrow> mm_window_size m' = mm_window_size m \<and>
     mm_config m' = mm_config m \<and> quiet (mm_states m) st"
  by (simp_all add: body_frame_def)

lemma state_change_frame:
  "body_frame m (snd (motion_start_dragging m))" "body_frame m (snd (motion_pause m))"
  "body_frame m (snd (motion_resume m))" "body_frame m (snd (motion_begin_closing m))"
  "body_frame m (snd (motion_recover_failed_close m))" "body_frame m (snd (motion_start_walking d m))"
  "body_frame m (snd (motion_stop_walking m))"
  unfolding motion_start_dragging_def motion_pause_def motion_resume_def motion_begin_closing_def
    motion_recover_failed_close_def motion_start_walking_def motion_stop_walking_def
  by (auto intro!: frame_with_res simp: quiet_ops)

lemma body_frame_start: "body_frame (m\<lparr>mm_position := p\<rparr>) m' = body_frame m m'"
  by (simp add: body_frame_def)

lemma finish_release_frame: "body_frame m (snd (finish_release ws m))"
proof (cases "release_drag (mm_states m)")
  case (Inr st)
  then have "quiet (mm_states m) st" by (simp add: quiet_ops)
  moreover from this have "land st = Inr st' \<Longrightarrow> quiet (mm_states m) st'" for st'
    using quiet_trans quiet_ops(7) by blast
  ultimately show ?thesis
    using Inr by (cases ws) (auto simp: finish_release_def Let_def intro!: frame_with_res)
qed (simp add: finish_release_def)

lemma release_frame: "body_frame m (snd (motion_release_drag wss m))"
  unfolding motion_release_drag_def
  using finish_release_frame [of m] finish_release_frame [of "m\<lparr>mm_position := p\<rparr>" for p, unfolded body_frame_start]
  by (cases wss) (auto intro!: frame_with_res)

lemma update_frame: "body_frame m (snd (update dt wss m))"
proof -
  have "body_frame m (snd (constrain wss m))" "body_frame m (snd (update_walking dt wss m))"
    "body_frame m (snd (update_landing dt m))" "body_frame m (snd (update_falling dt wss m))"
    unfolding constrain_def update_walking_def update_landing_def update_falling_def Let_def
    by (auto intro!: frame_with_res simp: quiet_ops)
  then show ?thesis unfolding update_def by (auto intro!: frame_with_res)
qed

lemma keeps_on_motion:
  assumes "engine_inv e" and "motion_inv (snd (f (en_motion e)))" and "body_frame (en_motion e) (snd (f (en_motion e)))"
  shows "keeps e (snd (on_motion f e))"
proof -
  obtain r m' where m': "f (en_motion e) = (r, m')" by fastforce
  have "keeps e (e\<lparr>en_motion := m'\<rparr>)"
  proof (rule keeps_motion [OF assms(1)])
    show "body_inv m'" using assms m' by (auto simp: engine_inv_def body_inv_def body_frame_def quiet_def not_running_def)
  qed (use assms(3) m' in \<open>simp_all add: body_frame_def quiet_def\<close>)
  then show ?thesis using m' by (simp add: on_motion_def)
qed

lemma keeps_on_motion_ops:
  assumes "engine_inv e"
  shows "keeps e (snd (on_motion motion_start_dragging e))" "keeps e (snd (on_motion motion_pause e))"
    "keeps e (snd (on_motion motion_begin_closing e))" "keeps e (snd (on_motion motion_recover_failed_close e))"
    "keeps e (snd (on_motion (motion_start_walking d) e))" "keeps e (snd (on_motion motion_stop_walking e))"
    "keeps e (snd (on_motion (motion_release_drag w) e))" "keeps e (snd (on_motion (update dt wss) e))"
    "keeps e (snd (on_motion msnapshot e))"
    "motion_of (en_motion e) \<noteq> PetMotionState.DRAGGING \<Longrightarrow> keeps e (snd (on_motion motion_resume e))"
proof -
  note m = engine_inv_motion [OF assms]
  have res: "motion_inv (snd (motion_resume (en_motion e)))" if "motion_of (en_motion e) \<noteq> PetMotionState.DRAGGING"
    using motion_exec_inv [OF m, of MResume] that by simp
  show "keeps e (snd (on_motion msnapshot e))"
    by (rule keeps_on_motion [OF assms]) (simp_all add: m)
  show "motion_of (en_motion e) \<noteq> PetMotionState.DRAGGING \<Longrightarrow> keeps e (snd (on_motion motion_resume e))"
    by (rule keeps_on_motion [OF assms]) (simp_all add: res state_change_frame)
qed (auto intro!: keeps_on_motion [OF assms] state_change_frame release_frame update_frame
      state_change_inv release_drag_inv update_inv simp: engine_inv_motion [OF assms])

lemma keeps_on_states:
  assumes "engine_inv e" and "\<And>st. f (mm_states (en_motion e)) = Inr st \<Longrightarrow>
    sm_valid st \<and> quiet (mm_states (en_motion e)) st"
  shows "keeps e (snd (on_states f e))"
  unfolding on_states_def
proof (rule keeps_with_res [OF keeps_refl [OF assms(1)]])
  fix st
  assume st: "f (mm_states (en_motion e)) = Inr st"
  have "keeps e (e\<lparr>en_motion := (en_motion e)\<lparr>mm_states := st\<rparr>\<rparr>)"
  proof (rule keeps_motion [OF assms(1)])
    show "body_inv ((en_motion e)\<lparr>mm_states := st\<rparr>)"
      using assms(1) assms(2) [OF st]
      by (auto simp: engine_inv_def body_inv_def motion_inv_def quiet_def not_running_def)
  qed (use assms(2) [OF st] in \<open>simp_all add: quiet_def\<close>)
  then show "keeps e (snd (Inr (), e\<lparr>en_motion := (en_motion e)\<lparr>mm_states := st\<rparr>\<rparr>))" by simp
qed

lemma keeps_on_states_ops:
  assumes "engine_inv e"
  shows "keeps e (snd (on_states start_thinking e))" "keeps e (snd (on_states finish_thinking e))"
    "keeps e (snd (on_states start_reminding e))" "keeps e (snd (on_states finish_reminding e))"
    "keeps e (snd (on_states start_blinking e))" "keeps e (snd (on_states finish_blinking e))"
  using engine_inv_valid [OF assms]
  by (auto intro!: keeps_on_states [OF assms] simp: quiet_ops
      intro: establish_valid finish_activity_valid blinking_valid)

section \<open>Every request and every frame keeps the invariant\<close>

lemma keeps_legacy:
  assumes "keeps e (snd r)" and "\<And>e1. keeps e e1 \<Longrightarrow> keeps e (f e1)"
  shows "keeps e (snd (legacy_direct r f))"
  using assms by (auto simp: legacy_direct_def sbind_def split: prod.splits sum.splits)

lemma handle_new_event_keeps:
  assumes "random_source_ok (env_random E)" and "engine_inv e"
  shows "keeps e (snd (handle_new_event E mk e))"
proof -
  have k: "keeps e (e\<lparr>en_fresh := Suc (en_fresh e)\<rparr>)" using keeps_refl [OF assms(2)] by simp
  show ?thesis
    using keeps_trans [OF k handle_event_keeps [OF assms(1) keeps_inv [OF k]]]
    by (simp add: handle_new_event_def new_object_def)
qed

lemma keeps_intervals [simp]:
  "keeps e (new_blink_interval E e') = keeps e e'" "keeps e (new_random_action_interval E e') = keeps e e'"
  by (simp_all add: new_blink_interval_def new_random_action_interval_def split: prod.splits)

lemma motion_requests_keep:
  assumes "random_source_ok (env_random E)" and "engine_inv e"
  shows "keeps e (snd (request_walk E d e))" "keeps e (snd (request_reminder_animation E e))"
    "keeps e (snd (engine_pause E e))"
    "production_sequencing_enabled E e \<or> motion_of (en_motion e) \<noteq> PetMotionState.DRAGGING \<Longrightarrow>
     keeps e (snd (engine_resume E e))"
    "keeps e (snd (engine_recover_failed_close e))"
  unfolding request_walk_def request_reminder_animation_def engine_pause_def engine_resume_def
    engine_recover_failed_close_def
  by (auto intro!: keeps_legacy handle_new_event_keeps keeps_on_motion_ops keeps_on_states_ops assms)

lemma thinking_keeps:
  assumes "random_source_ok (env_random E)" and "engine_inv e"
  shows "keeps e (snd (request_thinking_animation E e))"
  unfolding request_thinking_animation_def
  by (auto intro!: keeps_legacy handle_new_event_keeps keeps_with_res keeps_sbind keeps_on_motion_ops
      keeps_on_states_ops keeps_refl assms)

lemma dragging_keeps:
  assumes "random_source_ok (env_random E)" and "engine_inv e"
  shows "keeps e (snd (engine_start_dragging E e))"
proof -
  have k: "keeps e (e\<lparr>en_fresh := n\<rparr>)" "keeps e (e\<lparr>en_action_remaining := 0\<rparr>)" for n
    using keeps_refl [OF assms(2)] by simp_all
  have "keeps e (snd (handle_new_event E mk (e\<lparr>en_fresh := n\<rparr>)))" for mk n
    by (rule keeps_trans [OF k(1) handle_new_event_keeps [OF assms(1) keeps_inv [OF k(1)]]])
  moreover have "keeps e (snd (on_motion motion_start_dragging (e\<lparr>en_action_remaining := 0\<rparr>)))"
    by (rule keeps_trans [OF k(2) keeps_on_motion_ops(1) [OF keeps_inv [OF k(2)]]])
  ultimately show ?thesis
    unfolding engine_start_dragging_def new_object_def
    by (auto intro!: keeps_legacy keeps_sbind keeps_refl)
qed

lemma release_keeps:
  assumes "random_source_ok (env_random E)" and "engine_inv e"
  shows "keeps e (snd (engine_release_drag E wss e))"
proof -
  let ?e = "(suspend e)\<lparr>en_drag_session := None, en_active_action := None\<rparr>"
  have k: "keeps e ?e" using keeps_refl [OF assms(2)] by simp
  have "keeps e (snd (on_motion (motion_release_drag w) ?e))" for w
    by (rule keeps_trans [OF k keeps_on_motion_ops(7) [OF keeps_inv [OF k]]])
  then show ?thesis
    unfolding engine_release_drag_def
    by (auto intro!: keeps_legacy keeps_sbind keeps_refl keeps_checked keeps_on_motion_ops
        handle_new_event_keeps assms split: option.splits)
qed

lemma closing_keeps:
  assumes "random_source_ok (env_random E)" and "engine_inv e"
  shows "keeps e (snd (engine_begin_closing E e))"
proof -
  have k: "keeps e (e\<lparr>en_action_remaining := 0\<rparr>)" using keeps_refl [OF assms(2)] by simp
  note inv = keeps_inv [OF k]
  show ?thesis
    unfolding engine_begin_closing_def Let_def
    by (auto intro!: keeps_legacy keeps_trans [OF k handle_new_event_keeps [OF assms(1) inv]]
        keeps_trans [OF k keeps_on_motion_ops(3) [OF inv]])
qed

lemma exit_keeps:
  assumes "engine_inv e"
  shows "keeps e (snd (engine_request_graceful_exit E e))"
proof (cases "en_track0 e")
  case (Some c)
  have "track0_inv (sm_epoch (mm_states (en_motion e)))
      (snd (cancel (env_player E) now CancelReason.USER_INTERRUPT CancellationMode.GRACEFUL_EXIT None c))" for now
  proof -
    let ?r = "cancel_graceful now c"
    have "good_result c ?r" by (rule cancel_graceful_good [OF engine_inv_ctrl [OF assms Some]])
    moreover have "ct_active_request (snd ?r) \<in> {ct_active_request c, None}"
      by (auto simp: cancel_graceful_def arm_current_loop_boundary_watchdog_def with_res_def sbind_def Let_def split: prod.splits sum.splits option.splits if_splits)
    ultimately show ?thesis
      using engine_inv_track0 [OF assms Some] by (auto simp: good_result_def track0_inv_def)
  qed
  from this [of "env_clock E (en_ticks e)"] show ?thesis
    using Some assms keeps_track0(2) [OF assms]
    by (auto simp: engine_request_graceful_exit_def on_track0_def keeps_refl split: prod.splits)
qed (simp add: engine_request_graceful_exit_def keeps_refl assms)

lemma adopt_inv:
  assumes "track0_inv ep c" and "owner_ok ep q"
  obtains oc c' where "adopt_active_playback P q c = (Inr oc, c')" and "track0_inv ep c'"
    and "ct_state c' = ct_state c" and "ct_active_request c \<noteq> None \<Longrightarrow> ct_active_request c' \<noteq> None"
proof -
  obtain oc c' where c': "adopt_active_playback P q c = (Inr oc, c')" "ctrl_inv c'"
    using adopt_good [OF track0_inv_ctrl [OF assms(1)], of P q] by (auto simp: good_result_def)
  have "c' = c \<or> c' = c\<lparr>ct_active_request := Some q\<rparr>"
    using c'(1) by (auto simp: adopt_active_playback_def with_res_def split: sum.splits option.splits if_splits py_error.splits)
  then show thesis using assms c' by (intro that [OF c'(1)]) (auto simp: track0_inv_def)
qed

text \<open>Adopting the running Relax changes its owner only, so compatibility stays what it was.\<close>

lemma adopt_relax:
  assumes R: "random_source_ok (env_random E)" and inv: "engine_inv e" and c: "en_track0 e = Some c"
    and ok: "owner_ok (sm_epoch (mm_states (en_motion e))) q" and e1: "e1 = e\<lparr>en_fresh := n\<rparr>"
  obtains oc c' where "adopt_active_playback (env_player E) q c = (Inr oc, c')"
    and "keeps e (e1\<lparr>en_track0 := Some c'\<rparr>)"
    and "\<exists>e2. activate_autonomous E ProductionAction.RELAX
        (e1\<lparr>en_track0 := Some c', en_active_action := Some ProductionAction.RELAX\<rparr>) = (Inr (), e2) \<and>
      keeps e e2 \<and> compatible e2 = compatible e"
proof -
  obtain oc c' where c': "adopt_active_playback (env_player E) q c = (Inr oc, c')"
      "track0_inv (sm_epoch (mm_states (en_motion e))) c'" "ct_state c' = ct_state c"
    by (rule adopt_inv [OF engine_inv_track0 [OF inv c] ok])
  let ?e = "e1\<lparr>en_track0 := Some c', en_active_action := Some ProductionAction.RELAX\<rparr>"
  have k: "keeps e (e1\<lparr>en_track0 := Some c'\<rparr>)"
    using keeps_track0(1) [OF inv c'(2)] c e1 by (simp add: keeps_def engine_inv_def)
  then have k2: "keeps e ?e" by simp
  obtain e2 where e2: "activate_autonomous E ProductionAction.RELAX ?e = (Inr (), e2)" "keeps ?e e2"
      "en_motion e2 = en_motion ?e" "en_track0 e2 = en_track0 ?e"
    by (rule activate_result [OF R keeps_inv [OF k2], of ProductionAction.RELAX])
      (simp add: production_protected_actions_def)
  have "compatible e2 = compatible e"
    using e2(3,4) c'(3) c e1 by (simp add: compatible_def assert_transaction_compatible_def)
  then show thesis using that [OF c'(1) k] e2(1) keeps_trans [OF k2 e2(2)] by blast
qed

lemma relax_recovery_result:
  assumes R: "random_source_ok (env_random E)" and inv: "engine_inv e"
  shows "keeps e (snd (finish_relax_motion_recovery E e)) \<and>
    (compatible e \<longrightarrow> returns e (finish_relax_motion_recovery E e))"
proof (cases "\<exists>c. en_track0 e = Some c \<and> relax_confirmed c")
  case True
  then obtain c where c: "en_track0 e = Some c" "relax_confirmed c" by blast
  let ?ep = "sm_epoch (mm_states (en_motion e))" and ?e1 = "e\<lparr>en_fresh := Suc (en_fresh e)\<rparr>"
  obtain entry where entry: "SEQUENCE_CATALOG SequenceName.PRODUCTION_RELAX = Some entry"
    using SEQUENCE_CATALOG_total by blast
  have "0 \<le> ?ep" using inv by (simp add: engine_inv_def body_inv_def)
  moreover have "entry_interruption_class entry \<notin> {InterruptClass.STRICT_ACTION, InterruptClass.USER_INTERACTION}"
    using entry by (auto simp: SEQUENCE_CATALOG_def catalog_eval)
  ultimately obtain q where q: "mk_ActionRequest SequenceName.PRODUCTION_RELAX (entry_interruption_class entry)
      (entry_protected entry) (en_fresh e) ?ep None ActionOrigin.AUTONOMOUS ActionSource.SCHEDULER = Inr q"
    by (simp add: mk_ActionRequest_iff request_ok_def)
  then have "owner_ok ?ep q" using catalog_class [OF entry] by (auto simp: mk_ActionRequest_iff owner_ok_def)
  then obtain oc c' where adopt: "adopt_active_playback (env_player E) q c = (Inr oc, c')"
      "keeps e (?e1\<lparr>en_track0 := Some c'\<rparr>)"
      "\<exists>e2. activate_autonomous E ProductionAction.RELAX
        (?e1\<lparr>en_track0 := Some c', en_active_action := Some ProductionAction.RELAX\<rparr>) = (Inr (), e2) \<and>
      keeps e e2 \<and> compatible e2 = compatible e"
    by (rule adopt_relax [OF R inv c(1) _ refl])
  then show ?thesis
    using c entry q by (auto simp: finish_relax_motion_recovery_def new_object_def checked_compatible keeps_checked)
next
  case False
  then show ?thesis
    using keeps_refl [OF inv] by (auto simp: finish_relax_motion_recovery_def split: option.splits)
qed

lemma explicit_boundary_returns:
  assumes "random_source_ok (env_random E)" and "engine_inv e"
  shows "returns e (recover_explicit_boundary E e)"
proof -
  let ?e1 = "(suspend (clear_protected_continuation e))\<lparr>en_active_action := None\<rparr>"
  have k1: "keeps e ?e1" using assms(2) by simp
  show ?thesis
  proof (cases "en_track0 e")
    case (Some c)
    obtain oc c' where c': "track0_clear E CancelReason.MOTION_OVERRIDE c ?e1 = (oc, ?e1\<lparr>en_track0 := Some c'\<rparr>)"
        "keeps ?e1 (?e1\<lparr>en_track0 := Some c'\<rparr>)"
      by (rule track0_clear_result [OF keeps_inv [OF k1]]) (simp add: Some)
    note k2 = keeps_trans [OF k1 c'(2)]
    have "returns e (recover_autonomous_relax E None (?e1\<lparr>en_track0 := Some c'\<rparr>))"
      by (rule returns_trans [OF k2 recover_relax_returns [OF assms(1) keeps_inv [OF k2]]])
    then show ?thesis using c'(1) k2 Some by (simp add: recover_explicit_boundary_def Let_def)
  qed (use k1 in \<open>simp add: recover_explicit_boundary_def Let_def\<close>)
qed

lemma workspace_turn_returns:
  fixes e :: "('p, 'r) PetAnimationEngine"
  assumes "random_source_ok (env_random E)" and "engine_inv e"
  shows "returns e (commit_workspace_boundary_turn E d e)"
proof -
  let ?e1 = "suspend (clear_protected_continuation e)"
  let ?a = "if d = PetFacing.LEFT then ProductionAction.MOVE_LEFT else ProductionAction.MOVE_RIGHT"
  have k1: "keeps e ?e1" using assms(2) by simp
  have "returns e (submit_new E ?a ActionOrigin.SYSTEM ActionSource.MOTION None ?e1)"
    by (rule returns_trans [OF k1 submit_new_returns [OF keeps_inv [OF k1]]]) simp
  moreover have "returns e1 (activate_autonomous E ?a e1)" if inv: "engine_inv e1" for e1 :: "('p, 'r) PetAnimationEngine"
  proof -
    obtain e2 where "activate_autonomous E ?a e1 = (Inr (), e2)" "keeps e1 e2"
      by (rule activate_result [OF assms(1) inv, of ?a]) (simp add: production_protected_actions_def)
    then show ?thesis by simp
  qed
  ultimately show ?thesis
    unfolding commit_workspace_boundary_turn_def Let_def
    by (intro returns_sbind) (auto simp: keeps_refl)
qed

lemma turn_keeps:
  assumes "random_source_ok (env_random E)" and "engine_inv e"
  shows "keeps e (snd (boundary_turn E d e))"
  unfolding boundary_turn_def
  by (auto intro!: keeps_sbind keeps_on_motion_ops returns_keeps [OF explicit_boundary_returns]
      returns_keeps [OF workspace_turn_returns] keeps_refl assms)

lemma advance_action_keeps:
  assumes "engine_inv e"
  shows "keeps e (snd (advance_action E dt e))"
proof -
  let ?e1 = "e\<lparr>en_action_remaining := max 0 (en_action_remaining e - dt)\<rparr>"
  have k1: "keeps e ?e1" using keeps_refl [OF assms] by simp
  note inv1 = keeps_inv [OF k1]
  have "keeps e (snd (finish_action s ?e1))" for s
    unfolding finish_action_def
    using k1 by (auto intro!: keeps_trans [OF k1] keeps_on_motion_ops [OF inv1] keeps_on_states_ops [OF inv1])
  then have "keeps e e2" if "finish_action s ?e1 = (r, e2)" for s r e2
    using that by (metis snd_conv)
  then show ?thesis
    using k1 keeps_refl [OF assms]
    by (auto simp: advance_action_def Let_def intro!: keeps_with_res split: prod.splits sum.splits py_error.splits)
qed

lemma advance_blink_keeps:
  assumes "engine_inv e"
  shows "keeps e (snd (advance_blink E dt e))"
proof -
  let ?e1 = "e\<lparr>en_blink_elapsed := en_blink_elapsed e + dt\<rparr>" and ?e2 = "e\<lparr>en_next_blink := en_next_blink e - dt\<rparr>"
  have k: "keeps e ?e1" "keeps e ?e2" using keeps_refl [OF assms] by simp_all
  have "keeps e (snd (on_states finish_blinking ?e1))" "keeps e (snd (on_states start_blinking ?e2))"
    using keeps_trans [OF k(1) keeps_on_states_ops(6) [OF keeps_inv [OF k(1)]]]
      keeps_trans [OF k(2) keeps_on_states_ops(5) [OF keeps_inv [OF k(2)]]] by blast+
  then show ?thesis
    unfolding advance_blink_def Let_def
    using k keeps_refl [OF assms] by (auto intro!: keeps_with_res keeps_sbind keeps_refl)
qed

lemma advance_random_keeps:
  assumes "random_source_ok (env_random E)" and "engine_inv e"
  shows "keeps e (snd (advance_random_action E dt e))"
proof -
  have k: "keeps e (e\<lparr>en_next_random_action := x\<rparr>)" "keeps e (e\<lparr>en_next_random_action := x, en_rng := r\<rparr>)" for x r
    using keeps_refl [OF assms(2)] by simp_all
  note inv = keeps_inv [OF k(2)]
  have "keeps e (snd (request_walk E d (e\<lparr>en_next_random_action := x, en_rng := r\<rparr>)))"
    "keeps e (snd (request_thinking_animation E (e\<lparr>en_next_random_action := x, en_rng := r\<rparr>)))" for d x r
    using keeps_trans [OF k(2) motion_requests_keep(1) [OF assms(1) inv]]
      keeps_trans [OF k(2) thinking_keeps [OF assms(1) inv]] by blast+
  then show ?thesis
    unfolding advance_random_action_def Let_def
    using k keeps_refl [OF assms(2)] by (auto intro!: keeps_with_res keeps_sbind keeps_refl split: prod.splits)
qed

lemma advance_steps_keep:
  assumes "random_source_ok (env_random E)" and "engine_inv e"
  shows "keeps e (snd (advance_timers E dt e))" "keeps e (snd (advance_motion E dt wss e))"
    "keeps e (snd (advance_turn E ms e))"
proof -
  show "keeps e (snd (advance_timers E dt e))"
    unfolding advance_timers_def
    by (auto intro!: keeps_sbind advance_action_keeps advance_blink_keeps advance_random_keeps assms)
  show "keeps e (snd (advance_motion E dt wss e))"
    unfolding advance_motion_def
    by (auto intro!: keeps_with_res keeps_sbind keeps_on_motion_ops keeps_refl assms
        relax_recovery_result [THEN conjunct1])
  let ?e = "e\<lparr>en_motion := (en_motion e)\<lparr>mm_pending_direction_turn := None\<rparr>\<rparr>"
  have k: "keeps e ?e" using assms(2) by (simp add: keeps_def engine_inv_def body_inv_def motion_inv_def not_running_def)
  note inv = keeps_inv [OF k]
  show "keeps e (snd (advance_turn E ms e))"
    unfolding advance_turn_def take_pending_direction_turn_def Let_def
    using k by (auto split: option.splits intro!: keeps_sbind keeps_on_motion_ops
        keeps_trans [OF k turn_keeps [OF assms(1) inv]])
qed

lemma snd_animation_snapshot [simp]: "snd (animation_snapshot ms e) = e"
  by (cases "frame e") (simp_all add: animation_snapshot_def)

lemma advance_keeps:
  assumes "random_source_ok (env_random E)" and "engine_inv e"
  shows "keeps e (snd (advance E dt wss e))"
proof -
  have k: "keeps e (e\<lparr>en_last_applied_delta := x\<rparr>)" "keeps e (e\<lparr>en_last_applied_delta := x, en_animation_time := y\<rparr>)"
    for x y using keeps_refl [OF assms(2)] by simp_all
  note inv = keeps_inv [OF k(1)] keeps_inv [OF k(2)]
  have "keeps e (snd (on_motion (update d wss) (e\<lparr>en_last_applied_delta := x\<rparr>)))" for d x
    by (rule keeps_trans [OF k(1) keeps_on_motion_ops(8) [OF inv(1)]])
  moreover have "keeps e (snd (advance_timers E d (e\<lparr>en_last_applied_delta := x, en_animation_time := y\<rparr>)))" for d x y
    by (rule keeps_trans [OF k(2) advance_steps_keep(1) [OF assms(1) inv(2)]])
  ultimately show ?thesis
    unfolding advance_def Let_def
    by (auto intro!: keeps_with_res keeps_sbind advance_steps_keep keeps_refl assms)
qed

end
