(* ===== verification/Engine_Clock.thy ===== *)
theory Engine_Clock
  imports Animation_Frame
begin

text \<open>
  The frame clock of the animation engine: no transaction touches its timers, and every frame of a
  well-formed engine returns a normalised snapshot. The invariant \<open>ready\<close> adds to \<open>engine_inv\<close> a
  validated configuration, a non-negative blink timer and an empty turn request; all operations of
  the engine keep it.
\<close>

section \<open>Transactions leave the timers alone\<close>

definition timers :: "('p, 'r) PetAnimationEngine \<Rightarrow> real \<times> real \<times> real \<times> real \<times> real \<times> real \<times> PetFacing option" where
  "timers e = (en_animation_time e, en_blink_elapsed e, en_action_remaining e, en_next_blink e,
     en_next_random_action e, en_last_applied_delta e, mm_pending_direction_turn (en_motion e))"

text \<open>A result whose state has the timers \<open>t\<close>.\<close>

definition timed_as ::
    "real \<times> real \<times> real \<times> real \<times> real \<times> real \<times> PetFacing option
      \<Rightarrow> ('a, ('p, 'r) PetAnimationEngine) sres \<Rightarrow> bool" where
  "timed_as t r \<longleftrightarrow> timers (snd r) = t"

named_theorems timing

lemma timed_pair [simp]: "timed_as t (r, e) \<longleftrightarrow> timers e = t"
  by (simp add: timed_as_def)

lemma timed_sbind:
  assumes "timed_as t r" and "\<And>v e1. timers e1 = t \<Longrightarrow> timed_as t (f v e1)"
  shows "timed_as t (sbind r f)"
  using assms by (auto simp: timed_as_def sbind_def split: prod.splits sum.splits)

lemma timed_with_res: "timers e = t \<Longrightarrow> (\<And>v. timed_as t (f v)) \<Longrightarrow> timed_as t (with_res r e f)"
  by (cases r) simp_all

lemma timers_plain [simp]:
  "timers (e\<lparr>en_active_action := a\<rparr>) = timers e" "timers (e\<lparr>en_execution_mode := md\<rparr>) = timers e"
  "timers (e\<lparr>en_resume_after_protected := b\<rparr>) = timers e" "timers (e\<lparr>en_ticks := n\<rparr>) = timers e"
  "timers (e\<lparr>en_fresh := n\<rparr>) = timers e" "timers (e\<lparr>en_rng := r\<rparr>) = timers e"
  "timers (e\<lparr>en_drag_session := d\<rparr>) = timers e" "timers (e\<lparr>en_track0 := c\<rparr>) = timers e"
  "timers (e\<lparr>en_scheduler_state := s\<rparr>) = timers e" "timers (e\<lparr>en_resume_action := ra\<rparr>) = timers e"
  "timers (e\<lparr>en_pending := p\<rparr>) = timers e" "timers (suspend e) = timers e"
  "timers (clear_protected_continuation e) = timers e"
  by (simp_all add: timers_def suspend_def clear_protected_continuation_def)

lemma timed_on_motion [timing]:
  assumes "timers e = t"
    and "mm_pending_direction_turn (snd (f (en_motion e))) = mm_pending_direction_turn (en_motion e)"
  shows "timed_as t (on_motion f e)"
  using assms by (auto simp: timers_def timed_as_def on_motion_def split: prod.splits)

lemma commit_pending [simp]:
  "mm_pending_direction_turn (snd (commit_state_transition p m)) = mm_pending_direction_turn m"
  by (cases "commit (mm_states m) p") (simp_all add: commit_state_transition_def Let_def)

lemma timed_on_track0 [timing]: "timers e = t \<Longrightarrow> timed_as t (on_track0 E f c e)"
  by (simp add: on_track0_def split: prod.splits)

lemma timed_checked [timing]: "timers e = t \<Longrightarrow> timed_as t (checked oc e)"
  unfolding checked_def by (intro timed_with_res) simp_all

lemma timed_clear: "track0_clear E reason c e = (oc, e') \<Longrightarrow> timers e' = timers e"
  by (auto simp: track0_clear_def split: prod.splits)

lemmas timed_rules = timed_sbind timed_with_res

lemma timed_commit_semantic [timing]: "timers e = t \<Longrightarrow> timed_as t (commit_semantic a e)"
  unfolding commit_semantic_def by (auto intro!: timed_rules timing)

lemma timed_start_or_replace [timing]: "timers e = t \<Longrightarrow> timed_as t (start_or_replace E reason q md c e)"
  by (auto simp: start_or_replace_def intro!: timing split: option.splits)

lemma timed_submit_finish [timing]: "timers e = t \<Longrightarrow> timed_as t (submit_finish i oc e)"
  unfolding submit_finish_def Let_def by (auto intro!: timed_rules timing)

lemma timed_submit_transaction [timing]: "timers e = t \<Longrightarrow> timed_as t (submit_transaction E i ov direct c e)"
  unfolding submit_transaction_def Let_def
  by (auto intro!: timed_rules timing split: option.splits sum.splits py_error.splits)

lemma timed_submit [timing]: "timers e = t \<Longrightarrow> timed_as t (submit_production_intent E i ov e)"
  unfolding submit_production_intent_def Let_def
  by (auto intro!: timed_rules timing split: option.splits)

lemma timed_activate [timing]: "timers e = t \<Longrightarrow> timed_as t (activate_autonomous E a e)"
  unfolding activate_autonomous_def Let_def
  by (auto intro!: timed_rules split: option.splits prod.splits sum.splits)

lemma timed_submit_new [timing]: "timers e = t \<Longrightarrow> timed_as t (submit_new E a og sr ov e)"
  by (auto simp: submit_new_def new_object_def intro!: timed_rules timing)

lemma timed_submit_and_activate [timing]:
  "timers e = t \<Longrightarrow> timed_as t (submit_and_activate E a ov e)"
  "timers e = t \<Longrightarrow> timed_as t (recover_autonomous_relax E ov e)"
  unfolding recover_autonomous_relax_def submit_and_activate_def by (auto intro!: timed_rules timing)

lemma timed_start_autonomous [timing]: "timers e = t \<Longrightarrow> timed_as t (start_autonomous E e)"
  by (auto simp: start_autonomous_def intro!: timing split: option.splits)

lemma timed_resume_autonomous [timing]: "timers e = t \<Longrightarrow> timed_as t (resume_autonomous E sr e)"
  by (auto simp: resume_autonomous_def Let_def dest!: timed_clear intro!: timing
      split: option.splits prod.splits if_splits)

lemma timed_contain_failure [timing]: "timers e = t \<Longrightarrow> timed_as t (contain_renderer_failure E e)"
  unfolding contain_renderer_failure_def Let_def
  by (auto simp: apfst_def map_prod_def dest!: timed_clear intro!: timed_rules timing
      split: option.splits prod.splits)

lemma timed_event_transaction [timing]:
  fixes e :: "('p, 'r) PetAnimationEngine"
  shows "timers e = t \<Longrightarrow> timed_as t (event_transaction E ev p name reason c e)"
proof -
  assume t: "timers e = t"
  have contain: "timed_as t (contain_mandatory_proposal E p reason e)"
    using t unfolding contain_mandatory_proposal_def
    by (auto intro!: timed_rules timing split: option.splits prod.splits)
  have finish: "timed_as t (event_finish E ev oc e1)" if "timers e1 = t" for oc and e1 :: "('p, 'r) PetAnimationEngine"
    using that unfolding event_finish_def by (auto intro!: timed_rules timing)
  show ?thesis
    unfolding event_transaction_def
    using t contain finish
    by (auto intro!: timed_rules timing split: option.splits sum.splits py_error.splits)
qed

lemma timed_handle_event [timing]: "timers e = t \<Longrightarrow> timed_as t (handle_event E ev e)"
  unfolding handle_event_def Let_def
  by (auto intro!: timed_rules timing dest!: timed_clear split: option.splits prod.splits)

lemma timed_graceful_exit [timing]: "timers e = t \<Longrightarrow> timed_as t (engine_request_graceful_exit E e)"
  by (auto simp: engine_request_graceful_exit_def intro!: timing split: option.splits)

lemma timed_new_event [timing]: "timers e = t \<Longrightarrow> timed_as t (handle_new_event E mk e)"
  by (auto simp: handle_new_event_def new_object_def intro!: timing)

lemma timed_start_idle [timing]: "timers e = t \<Longrightarrow> timed_as t (start_idle_after_terminal E e)"
  by (auto simp: start_idle_after_terminal_def new_object_def intro!: timed_rules timing
      split: option.splits prod.splits)

lemma timed_boundary_commit [timing]: "timers e = t \<Longrightarrow> timed_as t (boundary_commit E d now oc e)"
  unfolding boundary_commit_def by (auto split: prod.splits sum.splits)

lemma timed_boundary_continue [timing]: "timers e = t \<Longrightarrow> timed_as t (boundary_continue E ev now c d e)"
  unfolding boundary_continue_def by (auto intro!: timed_rules timing split: option.splits)

lemma timed_boundary_evaluate [timing]: "timers e = t \<Longrightarrow> timed_as t (boundary_evaluate E ev now c s snap be e)"
  unfolding boundary_evaluate_def new_object_def by (auto intro!: timing split: prod.splits sum.splits)

lemma timed_boundary [timing]: "timers e = t \<Longrightarrow> timed_as t (handle_autonomous_boundary E ev e)"
  unfolding handle_autonomous_boundary_def Let_def by (auto intro!: timed_rules timing split: option.splits)

lemma timed_after_protected [timing]: "timers e = t \<Longrightarrow> timed_as t (after_protected E fc e)"
  unfolding after_protected_def Let_def by (auto intro!: timed_rules timing split: option.splits)

lemma timed_after_recovery [timing]: "timers e = t \<Longrightarrow> timed_as t (after_recovery E e)"
  unfolding after_recovery_def by (auto intro!: timing dest!: timed_clear split: option.splits prod.splits)

lemma timed_finish_callback [timing]:
  "timers e = t \<Longrightarrow> timed_as t (finish_callback E ev cont prot fc recovery c e)"
  unfolding finish_callback_def by (auto intro!: timed_rules timing)

lemma timed_matched_callback [timing]: "timers e = t \<Longrightarrow> timed_as t (matched_callback E ev fc c e)"
  unfolding matched_callback_def Let_def by (auto intro!: timed_rules timing split: option.splits)

lemma timed_playback_event [timing]: "timers e = t \<Longrightarrow> timed_as t (handle_playback_event E ev fc e)"
  unfolding handle_playback_event_def by (auto intro!: timed_rules timing split: option.splits)

lemma timed_boundary_turns [timing]:
  "timers e = t \<Longrightarrow> timed_as t (recover_explicit_boundary E e)"
  "timers e = t \<Longrightarrow> timed_as t (commit_workspace_boundary_turn E d e)"
  "timers e = t \<Longrightarrow> timed_as t (finish_relax_motion_recovery E e)"
proof -
  show "timers e = t \<Longrightarrow> timed_as t (recover_explicit_boundary E e)"
    by (auto simp: recover_explicit_boundary_def Let_def dest!: timed_clear intro!: timing
        split: option.splits prod.splits)
  show "timers e = t \<Longrightarrow> timed_as t (commit_workspace_boundary_turn E d e)"
    by (auto simp: commit_workspace_boundary_turn_def Let_def intro!: timed_rules timing)
  show "timers e = t \<Longrightarrow> timed_as t (finish_relax_motion_recovery E e)"
    unfolding finish_relax_motion_recovery_def new_object_def Let_def
    by (auto intro!: timed_rules timing split: option.splits prod.splits sum.splits)
qed

text \<open>The motion operations that cannot ask for a turn.\<close>

lemma motion_pending [simp]:
  "mm_pending_direction_turn (snd (motion_start_walking d m)) = mm_pending_direction_turn m"
  "mm_pending_direction_turn (snd (motion_stop_walking m)) = mm_pending_direction_turn m"
  "mm_pending_direction_turn (snd (motion_start_dragging m)) = mm_pending_direction_turn m"
  "mm_pending_direction_turn (snd (motion_pause m)) = mm_pending_direction_turn m"
  "mm_pending_direction_turn (snd (motion_resume m)) = mm_pending_direction_turn m"
  "mm_pending_direction_turn (snd (motion_begin_closing m)) = mm_pending_direction_turn m"
  "mm_pending_direction_turn (snd (motion_recover_failed_close m)) = mm_pending_direction_turn m"
  by (auto simp: motion_start_walking_def motion_stop_walking_def motion_start_dragging_def
      motion_pause_def motion_resume_def motion_begin_closing_def motion_recover_failed_close_def
      with_res_def split: sum.splits)

lemma release_pending [simp]:
  "mm_pending_direction_turn (snd (motion_release_drag wss m)) = mm_pending_direction_turn m"
proof -
  have "mm_pending_direction_turn (snd (finish_release ws m)) = mm_pending_direction_turn m" for ws m
    by (auto simp: finish_release_def Let_def with_res_def split: sum.splits option.splits)
  then show ?thesis by (auto simp: motion_release_drag_def with_res_def split: sum.splits option.splits)
qed

lemma placement_pending [simp]:
  "mm_pending_direction_turn (snd (drag_to p wss m)) = mm_pending_direction_turn m"
  "mm_pending_direction_turn (snd (constrain wss m)) = mm_pending_direction_turn m"
  "mm_pending_direction_turn (snd (place_for_render_layout x y ws m)) = mm_pending_direction_turn m"
  "mm_pending_direction_turn (snd (restore_position p wss m)) = mm_pending_direction_turn m"
  by (auto simp: drag_to_def constrain_def place_for_render_layout_def restore_position_def Let_def
      with_res_def split: sum.splits)

lemma timed_on_states [timing]: "timers e = t \<Longrightarrow> timed_as t (on_states f e)"
  by (cases "f (mm_states (en_motion e))") (auto simp: on_states_def timers_def)

section \<open>Frames are normalised\<close>

definition unit_range :: "real \<Rightarrow> bool" where
  "unit_range x \<longleftrightarrow> 0 \<le> x \<and> x \<le> 1"

definition normalised :: "PetRenderFrame \<Rightarrow> bool" where
  "normalised f \<longleftrightarrow> 0 \<le> pi_progress (fr_intent f) \<and> pi_progress (fr_intent f) < 1 \<and>
     unit_range (breathing_amount (fr_visual f)) \<and> unit_range (eye_openness (fr_visual f)) \<and>
     \<bar>body_wiggle (fr_visual f)\<bar> \<le> 1 \<and> \<bar>thinking_tilt (fr_visual f)\<bar> \<le> 1 \<and>
     unit_range (reminder_pulse (fr_visual f)) \<and>
     pi_base_action (fr_intent f) = motion (fr_state f) \<and> pi_overlays (fr_intent f) = behaviors (fr_state f)"

lemma fmod_range:
  assumes "0 < p"
  shows "0 \<le> fmod x p / p" "fmod x p / p < 1"
proof -
  have "fmod x p / p = x / p - of_int \<lfloor>x / p\<rfloor>"
    using assms by (simp add: fmod_def diff_divide_distrib)
  then show "0 \<le> fmod x p / p" "fmod x p / p < 1" by linarith+
qed

lemma half_cos: "unit_range ((1 - cos x) / 2)"
  using cos_le_one [of x] cos_ge_minus_one [of x] by (simp add: unit_range_def)

lemma config_ok_iff:
  "mk_PetAnimationConfig cfg = Inr cfg \<longleftrightarrow> (\<forall>v \<in> set (config_positive cfg). 0 < v) \<and>
     blinking_interval_min_seconds cfg \<le> blinking_interval_max_seconds cfg \<and>
     random_action_interval_min_seconds cfg \<le> random_action_interval_max_seconds cfg"
proof -
  have "list_ex (\<lambda>v. v \<le> 0) (config_positive cfg) \<longleftrightarrow> \<not> (\<forall>v \<in> set (config_positive cfg). 0 < v)"
    by (simp add: list_ex_iff not_less)
  then show ?thesis unfolding mk_PetAnimationConfig_def raise_if_def by (auto simp: not_le not_less)
qed

definition ready :: "('p, 'r) PetAnimationEngine \<Rightarrow> bool" where
  "ready e \<longleftrightarrow> engine_inv e \<and> mk_PetAnimationConfig (en_config e) = Inr (en_config e) \<and>
     0 \<le> en_blink_elapsed e \<and> mm_pending_direction_turn (en_motion e) = None"

lemma frame_normalised:
  assumes "engine_inv e" and "mk_PetAnimationConfig (en_config e) = Inr (en_config e)"
    and "0 \<le> en_blink_elapsed e"
  obtains f where "frame e = Inr f" and "normalised f" and "fr_state f = raw_state (mm_states (en_motion e))"
    and "fr_animation_time f = en_animation_time e"
proof -
  let ?s = "raw_state (mm_states (en_motion e))" and ?p = "base_progress (motion_of (en_motion e)) e"
  have pos: "0 < breathing_cycle_seconds (en_config e)" "0 < blinking_duration_seconds (en_config e)"
    using assms(2) by (simp_all add: config_ok_iff config_positive_def)
  have "0 < walking_cycle_seconds (mm_config (en_motion e))"
    using engine_inv_motion [OF assms(1)] by (simp add: motion_inv_def config_ok_def)
  then have progress: "0 \<le> ?p" "?p < 1"
    using fmod_range pos(1) by (simp_all add: base_progress_def Let_def)
  have "0 \<le> en_blink_elapsed e / blinking_duration_seconds (en_config e)" using assms(3) pos(2) by simp
  then have eye: "unit_range \<bar>2 * min 1 (en_blink_elapsed e / blinking_duration_seconds (en_config e)) - 1\<bar>"
    unfolding unit_range_def by linarith
  have "mk_PetAnimationIntent mo fc lp ?p ov =
      Inr \<lparr>pi_base_action = mo, pi_facing = fc, pi_loop = lp, pi_progress = ?p, pi_overlays = ov\<rparr>" for mo fc lp ov
    using progress by (simp add: mk_PetAnimationIntent_def)
  moreover have "unit_range 0" "unit_range 1" by (simp_all add: unit_range_def)
  ultimately show thesis
    using engine_inv_valid [OF assms(1)] progress eye half_cos
    by (intro that, simp add: frame_def Let_def)
      (simp_all add: normalised_def visual_parameters_def abs_sin_le_one)
qed

lemma snapshot_ready:
  assumes "ready e"
  obtains f where "animation_snapshot ms e
      = (Inr \<lparr>as_motion = ms, as_frame = f, applied_delta_seconds = en_last_applied_delta e\<rparr>, e)"
    and "normalised f" and "fr_animation_time f = en_animation_time e"
    and "fr_state f = raw_state (mm_states (en_motion e))"
proof -
  have "engine_inv e" "mk_PetAnimationConfig (en_config e) = Inr (en_config e)" "0 \<le> en_blink_elapsed e"
    using assms by (simp_all add: ready_def)
  from frame_normalised [OF this] obtain f where "frame e = Inr f" "normalised f"
      "fr_animation_time f = en_animation_time e" "fr_state f = raw_state (mm_states (en_motion e))" by metis
  then show thesis by (intro that) (simp_all add: animation_snapshot_def)
qed

section \<open>Every frame returns\<close>

text \<open>
  A step inside a frame returns, keeps the invariant and leaves the frame's time, its delta and the
  turn request alone.
\<close>

definition tick :: "('p, 'r) PetAnimationEngine \<Rightarrow> ('p, 'r) PetAnimationEngine \<Rightarrow> bool" where
  "tick e e' \<longleftrightarrow> keeps e e' \<and> en_animation_time e' = en_animation_time e \<and>
     en_last_applied_delta e' = en_last_applied_delta e \<and> (0 \<le> en_blink_elapsed e \<longrightarrow> 0 \<le> en_blink_elapsed e') \<and>
     mm_pending_direction_turn (en_motion e') = mm_pending_direction_turn (en_motion e)"

definition ticks :: "('p, 'r) PetAnimationEngine \<Rightarrow> ('a, ('p, 'r) PetAnimationEngine) sres \<Rightarrow> bool" where
  "ticks e r \<longleftrightarrow> (\<exists>v e'. r = (Inr v, e') \<and> tick e e')"

lemma tick_inv: "tick e e' \<Longrightarrow> engine_inv e'"
  by (auto simp: tick_def dest: keeps_inv)

lemma tick_refl: "engine_inv e \<Longrightarrow> tick e e"
  by (simp add: tick_def keeps_refl)

lemma tick_trans: "tick e e1 \<Longrightarrow> tick e1 e2 \<Longrightarrow> tick e e2"
  using keeps_trans by (auto simp: tick_def)

lemma ticks_Inr [simp]: "ticks e (Inr v, e') \<longleftrightarrow> tick e e'"
  by (simp add: ticks_def)

lemma ticks_sbind:
  assumes "ticks e r" and "\<And>v e1. r = (Inr v, e1) \<Longrightarrow> tick e e1 \<Longrightarrow> ticks e1 (f v e1)"
  shows "ticks e (sbind r f)"
proof -
  from assms(1) obtain v e1 where "r = (Inr v, e1)" "tick e e1" by (auto simp: ticks_def)
  with assms(2) [OF this] show ?thesis using tick_trans by (auto simp: ticks_def)
qed

lemma ticks_trans: "tick e e1 \<Longrightarrow> ticks e1 r \<Longrightarrow> ticks e r"
  using tick_trans by (auto simp: ticks_def)

lemma ticks_transaction: "returns e r \<Longrightarrow> timed_as (timers e) r \<Longrightarrow> ticks e r"
  by (auto simp: returns_def ticks_def tick_def timers_def)

lemma tick_timers [simp]:
  "tick e (e'\<lparr>en_action_remaining := x\<rparr>) = tick e e'" "tick e (e'\<lparr>en_next_blink := x\<rparr>) = tick e e'"
  "tick e (e'\<lparr>en_next_random_action := x\<rparr>) = tick e e'" "tick e (e'\<lparr>en_rng := r\<rparr>) = tick e e'"
  "tick e (new_random_action_interval E e') = tick e e'" "tick e (new_blink_interval E e') = tick e e'"
  by (simp_all add: tick_def new_random_action_interval_def new_blink_interval_def split: prod.splits)

text \<open>Operations on the motion model that return, as ticks.\<close>

lemma ticks_on_motion:
  assumes "keeps e (snd (on_motion f e))" and "f (en_motion e) = (Inr v, m')"
    and "mm_pending_direction_turn (snd (f (en_motion e))) = mm_pending_direction_turn (en_motion e)"
  shows "ticks e (on_motion f e)"
  using assms by (simp add: on_motion_def tick_def)

lemma ticks_on_states:
  assumes "keeps e (snd (on_states f e))" and "f (mm_states (en_motion e)) = Inr st"
  shows "ticks e (on_states f e)"
  using assms by (simp add: on_states_def tick_def)

lemma finish_action_result:
  assumes "engine_inv e"
  shows "finish_action (raw_state (mm_states (en_motion e))) e = (Inl PetStateTransitionError, e) \<or>
    (\<exists>e1. finish_action (raw_state (mm_states (en_motion e))) e = (Inr (), e1) \<and> tick e e1 \<and>
       lifecycle_of (en_motion e1) = lifecycle_of (en_motion e))"
proof -
  have stop: "motion_stop_walking m = (Inl PetStateTransitionError, m) \<or>
      (\<exists>m'. motion_stop_walking m = (Inr (), m') \<and> lifecycle_of m' = lifecycle_of m)" for m
    by (auto simp: motion_stop_walking_def stop_walking_def raise_if_def machine_helpers)
  have finish: "f st = Inl PetStateTransitionError \<or> (\<exists>st'. f st = Inr st' \<and> sm_lifecycle st' = sm_lifecycle st)"
    if "f = finish_thinking \<or> f = finish_reminding" for f st
    using that by (auto simp: finish_thinking_def finish_reminding_def raise_if_def machine_helpers)
  have on_st: "on_states f e = (Inl PetStateTransitionError, e) \<or>
      (\<exists>e1. on_states f e = (Inr (), e1) \<and> tick e e1 \<and> lifecycle_of (en_motion e1) = lifecycle_of (en_motion e))"
    if "f = finish_thinking \<or> f = finish_reminding" for f
  proof -
    have "keeps e (snd (on_states f e))" using that keeps_on_states_ops(2,4) [OF assms] by auto
    then show ?thesis
      using finish [OF that, of "mm_states (en_motion e)"] ticks_on_states [of e f] by (auto simp: on_states_def)
  qed
  have "on_motion motion_stop_walking e = (Inl PetStateTransitionError, e) \<or>
      (\<exists>e1. on_motion motion_stop_walking e = (Inr (), e1) \<and> tick e e1 \<and>
         lifecycle_of (en_motion e1) = lifecycle_of (en_motion e))"
  proof (rule disjE [OF stop [of "en_motion e"]])
    assume "\<exists>m'. motion_stop_walking (en_motion e) = (Inr (), m') \<and> lifecycle_of m' = lifecycle_of (en_motion e)"
    then obtain m' where m': "motion_stop_walking (en_motion e) = (Inr (), m')" "lifecycle_of m' = lifecycle_of (en_motion e)"
      by blast
    have "ticks e (on_motion motion_stop_walking e)"
      by (rule ticks_on_motion [OF keeps_on_motion_ops(6) [OF assms] m'(1)]) simp
    then show ?thesis using m' by (simp add: on_motion_def)
  qed (simp add: on_motion_def)
  then show ?thesis using on_st tick_refl [OF assms] by (auto simp: finish_action_def)
qed

lemma advance_action_ticks:
  assumes "engine_inv e"
  obtains e1 where "advance_action E dt e = (Inr (), e1)" and "tick e e1"
    and "lifecycle_of (en_motion e1) = lifecycle_of (en_motion e)"
proof -
  let ?e1 = "e\<lparr>en_action_remaining := max 0 (en_action_remaining e - dt)\<rparr>"
  have t: "tick e ?e1" using tick_refl [OF assms] by simp
  note inv = tick_inv [OF t]
  have "\<exists>e1. advance_action E dt e = (Inr (), e1) \<and> tick e e1 \<and> lifecycle_of (en_motion e1) = lifecycle_of (en_motion e)"
    using finish_action_result [OF inv] engine_inv_valid [OF inv] t tick_refl [OF assms] tick_trans [OF t]
    by (auto simp: advance_action_def Let_def new_random_action_interval_def split: prod.splits)
  then show thesis using that by blast
qed

lemma advance_blink_ticks:
  assumes "engine_inv e" and "lifecycle_of (en_motion e) = PetLifecycleState.ACTIVE" and "0 \<le> dt"
  shows "ticks e (advance_blink E dt e)"
proof -
  let ?e1 = "e\<lparr>en_blink_elapsed := en_blink_elapsed e + dt\<rparr>" and ?e2 = "e\<lparr>en_next_blink := en_next_blink e - dt\<rparr>"
  have t: "tick e ?e1" "tick e ?e2" using keeps_refl [OF assms(1)] assms(3) by (simp_all add: tick_def)
  have "\<exists>st. finish_blinking (mm_states (en_motion e)) = Inr st" by (simp add: finish_blinking_def)
  then have fin: "ticks e (on_states finish_blinking ?e1)"
    using ticks_trans [OF t(1) ticks_on_states [OF keeps_on_states_ops(6) [OF tick_inv [OF t(1)]]]] by auto
  have "\<exists>st. start_blinking (mm_states (en_motion e)) = Inr st"
    using assms(2) by (auto simp: start_blinking_def require_active_def raise_if_def)
  then have start: "ticks e (on_states start_blinking ?e2)"
    using ticks_trans [OF t(2) ticks_on_states [OF keeps_on_states_ops(5) [OF tick_inv [OF t(2)]]]] by auto
  have reset: "tick e3 (e3\<lparr>en_blink_elapsed := 0\<rparr>)" if "tick e e3" for e3
    using tick_refl [OF tick_inv [OF that]] by (simp add: tick_def)
  show ?thesis
    unfolding advance_blink_def Let_def
    using t engine_inv_valid [OF assms(1)]
    by (auto intro!: ticks_sbind fin start reset tick_refl simp: engine_inv_valid [OF tick_inv] tick_inv)
qed

text \<open>A proposed event whose sequence needs no input session returns.\<close>

lemma handle_event_returns:
  assumes R: "random_source_ok (env_random E)" and inv: "engine_inv e" and c: "en_track0 e = Some c"
    and ty: "ae_type ev \<notin> mandatory_interruption_events"
    and plan: "event_plan (en_relax_fallback e) (ae_type ev) (ae_facing ev) = Inr (args, Some name, reason)"
    and p: "propose (mm_states (en_motion e)) args = Inr p"
    and cls: "\<And>entry. SEQUENCE_CATALOG name = Some entry \<Longrightarrow>
      entry_interruption_class entry \<noteq> InterruptClass.USER_INTERACTION"
  shows "returns e (handle_event E ev e)"
proof -
  have int: "interrupted ev e = e" using ty by (simp add: interrupted_def)
  obtain entry where entry: "SEQUENCE_CATALOG name = Some entry" using SEQUENCE_CATALOG_total by blast
  have run: "handle_event E ev e = event_transaction E ev p name reason c e"
    using plan p c by (simp add: handle_event_unfold int propose_event_def)
  from R inv c p event_plan_args [OF plan] entry show ?thesis
    by (cases rule: event_transaction_cases [where ev = ev and reason = reason])
      (use cls [OF entry] run keeps_refl [OF inv] in auto)
qed

lemma idle_breathing_propose:
  assumes "sm_valid m" and "sm_lifecycle m = PetLifecycleState.ACTIVE" and "sm_motion m = PetMotionState.IDLE"
    and "sm_behaviors m = {PetBehaviorState.BREATHING}"
    and "event_plan fb ty fc = Inr (args, name, reason)"
    and "ty \<in> {PetAnimationEventType.START_WALKING, PetAnimationEventType.START_THINKING}"
  shows "\<exists>p. propose m args = Inr p"
proof -
  have act: "sm_activity m = PetActivityState.NONE"
    using assms(1-4) by (auto simp: sm_valid_def layered_ok_def idle_behaviors_ok_def split: if_splits)
  have "\<exists>s. mk_PetLayeredState PetLifecycleState.ACTIVE mo b f a = Inr s" if "motion_behaviors_ok mo a b" for mo a b f
    using mk_PetLayeredState_ok [of "\<lparr>lifecycle = PetLifecycleState.ACTIVE, motion = mo, behaviors = b, facing = f, activity = a\<rparr>"]
      that by (auto simp: layered_ok_def)
  then show ?thesis
    using assms act snapshot_valid [OF assms(1)]
    by (auto simp: propose_def propose_target_def or_else_simps no_args_def behaviors_for_activity_def
        legacy_behavior_for_activity_def idle_behaviors_ok_def Let_def ebind_eq_Inr_iff
        split: option.splits if_splits)
qed

definition idle_breathing :: "PetMotionModel \<Rightarrow> bool" where
  "idle_breathing m \<longleftrightarrow> lifecycle_of m = PetLifecycleState.ACTIVE \<and> motion_of m = PetMotionState.IDLE \<and>
     sm_behaviors (mm_states m) = {PetBehaviorState.BREATHING}"

lemma idle_event_ticks:
  assumes R: "random_source_ok (env_random E)" and inv: "engine_inv e" and seq: "production_sequencing_enabled E e"
    and idle: "idle_breathing (en_motion e)"
    and mk: "mk = walking_event d \<or> mk = plain_event PetAnimationEventType.START_THINKING"
  shows "ticks e (handle_new_event E mk e)"
proof -
  let ?e = "e\<lparr>en_fresh := Suc (en_fresh e)\<rparr>" and ?ev = "mk (en_fresh e)"
  have k: "keeps e ?e" using keeps_refl [OF inv] by simp
  obtain c where c: "en_track0 ?e = Some c"
    using seq by (auto simp: production_sequencing_enabled_def split: option.splits)
  have ty: "ae_type ?ev \<in> {PetAnimationEventType.START_WALKING, PetAnimationEventType.START_THINKING}"
    using mk by (auto simp: walking_event_def plain_event_def)
  obtain args name reason where plan:
      "event_plan (en_relax_fallback ?e) (ae_type ?ev) (ae_facing ?ev) = Inr (args, Some name, reason)"
      "name \<in> {SequenceName.WALK_LEFT, SequenceName.WALK_RIGHT, SequenceName.THINK}"
    using mk by (auto simp: walking_event_def plain_event_def)
  obtain p where p: "propose (mm_states (en_motion ?e)) args = Inr p"
    using idle_breathing_propose [OF _ _ _ _ plan(1) ty, of "mm_states (en_motion ?e)"] idle engine_inv_valid [OF inv]
    by (auto simp: idle_breathing_def)
  have "entry_interruption_class entry \<noteq> InterruptClass.USER_INTERACTION" if "SEQUENCE_CATALOG name = Some entry" for entry
    using that plan(2) by (auto simp: SEQUENCE_CATALOG_def catalog_eval)
  then have "returns e (handle_event E ?ev ?e)"
    using returns_trans [OF k handle_event_returns [OF R keeps_inv [OF k] c _ plan(1) p]] ty
    by (auto simp: mandatory_interruption_events_def)
  then show ?thesis
    by (intro ticks_transaction timing) (simp_all add: handle_new_event_def new_object_def)
qed

lemma idle_request_ticks:
  assumes R: "random_source_ok (env_random E)" and inv: "engine_inv e" and idle: "idle_breathing (en_motion e)"
  shows "ticks e (request_walk E d e)" "ticks e (request_thinking_animation E e)"
proof -
  let ?m = "en_motion e"
  have act: "sm_activity (mm_states ?m) \<noteq> PetActivityState.REMINDING"
    using engine_inv_valid [OF inv] idle
    by (auto simp: idle_breathing_def sm_valid_def layered_ok_def idle_behaviors_ok_def split: if_splits)
  have "\<exists>m'. motion_start_walking d ?m = (Inr (), m')" "\<exists>st. start_thinking (mm_states ?m) = Inr st"
    using idle act by (auto simp: idle_breathing_def motion_start_walking_def start_walking_def start_thinking_def
        require_active_def require_active_idle_def raise_if_def)
  then have "ticks e (on_motion (motion_start_walking d) e)" "ticks e (on_states start_thinking e)"
    using ticks_on_motion [OF keeps_on_motion_ops(5) [OF inv] _ motion_pending(1), of d]
      ticks_on_states [OF keeps_on_states_ops(1) [OF inv]] by auto
  then have "ticks e (legacy_direct (on_motion (motion_start_walking d) e) (\<lambda>e1. e1\<lparr>en_action_remaining := g e1\<rparr>))"
    "ticks e (legacy_direct (on_states start_thinking e) (\<lambda>e1. e1\<lparr>en_action_remaining := g e1\<rparr>))" for g
    unfolding legacy_direct_def by (auto intro!: ticks_sbind tick_refl tick_inv)
  then show "ticks e (request_walk E d e)" "ticks e (request_thinking_animation E e)"
    using idle idle_event_ticks [OF R inv _ idle] engine_inv_valid [OF inv]
    by (auto simp: request_walk_def request_thinking_animation_def idle_breathing_def)
qed

lemma advance_random_ticks:
  assumes "random_source_ok (env_random E)" and "engine_inv e"
  shows "ticks e (advance_random_action E dt e)"
proof (cases "idle_breathing (en_motion e)")
  case True
  let ?e = "\<lambda>x r. e\<lparr>en_next_random_action := x, en_rng := r\<rparr>"
  have t: "tick e (?e x r)" for x r using tick_refl [OF assms(2)] by simp
  have "ticks e (request_walk E d (?e x r))" "ticks e (request_thinking_animation E (?e x r))" for d x r
    using ticks_trans [OF t idle_request_ticks(1) [OF assms(1) tick_inv [OF t]]]
      ticks_trans [OF t idle_request_ticks(2) [OF assms(1) tick_inv [OF t]]] True by auto
  then show ?thesis
    unfolding advance_random_action_def Let_def
    using engine_inv_valid [OF assms(2)] tick_refl [OF assms(2)]
    by (auto intro!: ticks_sbind tick_refl tick_inv split: prod.splits)
next
  case False
  have "lifecycle_of (en_motion e) = PetLifecycleState.ACTIVE"
    if "sm_behaviors (mm_states (en_motion e)) = {PetBehaviorState.BREATHING}"
    using that engine_inv_valid [OF assms(2)] by (auto simp: sm_valid_def layered_ok_def split: if_splits)
  with False show ?thesis
    using engine_inv_valid [OF assms(2)] tick_refl [OF assms(2)]
    by (auto simp: advance_random_action_def idle_breathing_def)
qed

lemma advance_timers_ticks:
  assumes "random_source_ok (env_random E)" and "engine_inv e" and "lifecycle_of (en_motion e) = PetLifecycleState.ACTIVE"
    and "0 \<le> dt"
  shows "ticks e (advance_timers E dt e)"
proof -
  obtain e1 where e1: "advance_action E dt e = (Inr (), e1)" "tick e e1"
      "lifecycle_of (en_motion e1) = lifecycle_of (en_motion e)"
    by (rule advance_action_ticks [OF assms(2)])
  have "ticks e1 (sbind (advance_blink E dt e1) (\<lambda>_. advance_random_action E dt))"
    using advance_blink_ticks [OF tick_inv [OF e1(2)] _ assms(4)] e1(3) assms(3)
    by (auto intro!: ticks_sbind advance_random_ticks [OF assms(1)] tick_inv)
  then show ?thesis using ticks_trans [OF e1(2)] e1(1) by (simp add: advance_timers_def)
qed

text \<open>
  A turn is asked for by the walking branch of \<^verbatim>\<open>update\<close> only, and taken in the same frame, so the
  pet is still walking when the engine turns it.
\<close>

definition walking :: "PetMotionModel \<Rightarrow> bool" where
  "walking m \<longleftrightarrow> lifecycle_of m = PetLifecycleState.ACTIVE \<and>
     motion_of m \<in> {PetMotionState.WALKING_LEFT, PetMotionState.WALKING_RIGHT}"

lemma update_turn:
  assumes "motion_inv m" and "mm_pending_direction_turn m = None"
  shows "mm_pending_direction_turn (snd (update dt wss m)) = None \<or> walking (snd (update dt wss m))"
proof -
  have "mm_pending_direction_turn (snd (update_landing dt m)) = mm_pending_direction_turn m"
    "mm_pending_direction_turn (snd (update_falling dt wss m)) = mm_pending_direction_turn m"
    by (auto simp: update_landing_def update_falling_def Let_def with_res_def split: sum.splits)
  moreover have "mm_states (snd (update_walking dt wss m)) = mm_states m"
    by (auto simp: update_walking_def Let_def with_res_def split: sum.splits)
  ultimately show ?thesis
    using assms motion_inv_valid [OF assms(1)] by (auto simp: update_def walking_def)
qed

lemma walking_turn_ticks:
  assumes "random_source_ok (env_random E)" and "engine_inv e" and "walking (en_motion e)"
  shows "ticks e (boundary_turn E d e)"
proof -
  have "PetBehaviorState.REMINDING \<notin> sm_behaviors (mm_states (en_motion e))"
    using assms(3) engine_inv_valid [OF assms(2)] by (auto simp: walking_def sm_valid_def layered_ok_def)
  then have "\<exists>m'. motion_start_walking d (en_motion e) = (Inr (), m')"
    using assms(3) by (auto simp: walking_def motion_start_walking_def start_walking_def require_active_def raise_if_def)
  then have "ticks e (on_motion (motion_start_walking d) e)"
    using ticks_on_motion [OF keeps_on_motion_ops(5) [OF assms(2)] _ motion_pending(1), of d] by blast
  moreover have "ticks e (recover_explicit_boundary E e)" "ticks e (commit_workspace_boundary_turn E d e)"
    by (auto intro!: ticks_transaction explicit_boundary_returns workspace_turn_returns timing assms)
  ultimately show ?thesis
    unfolding boundary_turn_def by (auto intro!: ticks_sbind tick_refl tick_inv)
qed

lemma landing_finished:
  assumes "motion_inv m" and "0 \<le> dt" and "motion_of m = PetMotionState.LANDING"
    and "update dt wss m = (r, m')" and "motion_of m' = PetMotionState.IDLE"
  shows "lifecycle_of m' = PetLifecycleState.ACTIVE" "sm_activity (mm_states m') = PetActivityState.NONE"
proof -
  have "mm_states (snd (constrain wss m)) = mm_states m"
    by (auto simp: constrain_def Let_def with_res_def split: sum.splits)
  then have act: "lifecycle_of m = PetLifecycleState.ACTIVE" and up: "update_landing dt m = (r, m')"
    using assms update_dispatch [OF assms(1,2), of wss] by (auto split: if_splits)
  from up assms(3,5) act show "lifecycle_of m' = PetLifecycleState.ACTIVE"
      "sm_activity (mm_states m') = PetActivityState.NONE"
    by (auto simp: update_landing_def Let_def finish_landing_def require_motion_def require_active_def raise_if_def
        machine_helpers msnapshot_def with_res_def split: if_splits sum.splits)
qed

lemma relax_compatible:
  assumes "engine_inv e" and "en_track0 e = Some c" and "relax_confirmed c"
    and "lifecycle_of (en_motion e) = PetLifecycleState.ACTIVE" and "motion_of (en_motion e) = PetMotionState.IDLE"
    and "sm_activity (mm_states (en_motion e)) = PetActivityState.NONE"
  shows "compatible e"
  using assms(3-6) motion_layered [OF engine_inv_motion [OF assms(1)]]
  by (simp add: compatible_iff [OF assms(1,2)] assert_compatible_iff relax_confirmed_def STATE_ACTION_COMPATIBILITY_def)

lemma relax_recovery_ticks:
  assumes "random_source_ok (env_random E)" and "engine_inv e"
    and "lifecycle_of (en_motion e) = PetLifecycleState.ACTIVE" and "motion_of (en_motion e) = PetMotionState.IDLE"
    and "sm_activity (mm_states (en_motion e)) = PetActivityState.NONE"
  shows "ticks e (finish_relax_motion_recovery E e)"
proof (cases "\<exists>c. en_track0 e = Some c \<and> relax_confirmed c")
  case True
  then have "compatible e" using relax_compatible [OF assms(2) _ _ assms(3-5)] by blast
  then show ?thesis
    using relax_recovery_result [OF assms(1,2)] by (auto intro!: ticks_transaction timing)
next
  case False
  then have "returns e (finish_relax_motion_recovery E e)"
    using keeps_refl [OF assms(2)] by (auto simp: finish_relax_motion_recovery_def split: option.splits)
  then show ?thesis by (intro ticks_transaction timing) simp_all
qed

lemma msnapshot_ticks: "engine_inv e \<Longrightarrow> ticks e (on_motion msnapshot e)"
  using engine_inv_valid [of e] tick_refl [of e] by (simp add: on_motion_def)

lemma advance_motion_result:
  assumes "random_source_ok (env_random E)" and "engine_inv e" and "mm_pending_direction_turn (en_motion e) = None"
    and "0 \<le> dt" and "wss \<noteq> []"
  obtains ms e1 where "advance_motion E dt wss e = (Inr ms, e1)" and "keeps e e1"
    and "en_animation_time e1 = en_animation_time e" and "en_last_applied_delta e1 = en_last_applied_delta e"
    and "0 \<le> en_blink_elapsed e \<Longrightarrow> 0 \<le> en_blink_elapsed e1"
    and "mm_pending_direction_turn (en_motion e1) = None \<or> walking (en_motion e1)"
proof -
  note m = engine_inv_motion [OF assms(2)]
  have "steady_motion (en_motion e)"
    using assms(2) by (simp add: engine_inv_def body_inv_def not_running_def steady_motion_def)
  then obtain m' where m': "update dt wss (en_motion e) = (Inr (snapshot_of m'), m')" "motion_inv m'"
    using update_ok [OF m assms(4,5)] by (auto simp: update_summary_def)
  let ?e1 = "e\<lparr>en_motion := m'\<rparr>"
  have up: "on_motion (update dt wss) e = (Inr (snapshot_of m'), ?e1)" using m'(1) by (simp add: on_motion_def)
  have k: "keeps e ?e1" using keeps_on_motion_ops(8) [OF assms(2), of dt wss] up by simp
  have turn: "mm_pending_direction_turn m' = None \<or> walking m'"
    using update_turn [OF m assms(3), of dt wss] m'(1) by simp
  have valid: "sm_valid (mm_states (en_motion e))" by (rule engine_inv_valid [OF assms(2)])
  show thesis
  proof (cases "en_relax_fallback e \<and> motion_of (en_motion e) = PetMotionState.LANDING \<and> motion_of m' = PetMotionState.IDLE")
    case True
    have "ticks ?e1 (finish_relax_motion_recovery E ?e1)"
      using relax_recovery_ticks [OF assms(1) keeps_inv [OF k]] landing_finished [OF m assms(4) _ m'(1)] True by simp
    then have "ticks ?e1 (sbind (finish_relax_motion_recovery E ?e1) (\<lambda>_. on_motion msnapshot))"
      by (auto intro!: ticks_sbind msnapshot_ticks tick_inv)
    then obtain ms e2 where e2: "sbind (finish_relax_motion_recovery E ?e1) (\<lambda>_. on_motion msnapshot) = (Inr ms, e2)"
        "tick ?e1 e2" by (auto simp: ticks_def)
    have "\<not> walking m'" using True by (simp add: walking_def)
    then show thesis
      using that [of ms e2] e2 True up valid turn keeps_trans [OF k]
      by (auto simp: advance_motion_def snapshot_of_def tick_def)
  next
    case False
    then show thesis
      using that [of "snapshot_of m'" ?e1] up valid turn k by (auto simp: advance_motion_def snapshot_of_def)
  qed
qed

lemma advance_turn_result:
  assumes "random_source_ok (env_random E)" and "engine_inv e"
    and "mm_pending_direction_turn (en_motion e) = None \<or> walking (en_motion e)"
  obtains ms' e1 where "advance_turn E ms e = (Inr ms', e1)" and "keeps e e1"
    and "en_animation_time e1 = en_animation_time e" and "en_last_applied_delta e1 = en_last_applied_delta e"
    and "0 \<le> en_blink_elapsed e \<Longrightarrow> 0 \<le> en_blink_elapsed e1"
    and "mm_pending_direction_turn (en_motion e1) = None"
proof -
  let ?e = "e\<lparr>en_motion := (en_motion e)\<lparr>mm_pending_direction_turn := None\<rparr>\<rparr>"
  have k: "keeps e ?e" using assms(2) by (simp add: keeps_def engine_inv_def body_inv_def motion_inv_def not_running_def)
  show thesis
  proof (cases "mm_pending_direction_turn (en_motion e)")
    case None
    then show thesis
      using that [of ms ?e] k by (simp add: advance_turn_def take_pending_direction_turn_def)
  next
    case (Some d)
    with assms(3) have "walking (en_motion ?e)" by (simp add: walking_def)
    from walking_turn_ticks [OF assms(1) keeps_inv [OF k] this, of d]
    have "ticks ?e (sbind (boundary_turn E d ?e) (\<lambda>_. on_motion msnapshot))"
      by (auto intro!: ticks_sbind msnapshot_ticks tick_inv)
    then obtain ms' e1 where "sbind (boundary_turn E d ?e) (\<lambda>_. on_motion msnapshot) = (Inr ms', e1)" "tick ?e e1"
      by (auto simp: ticks_def)
    then show thesis
      using that [of ms' e1] Some keeps_trans [OF k]
      by (simp add: advance_turn_def take_pending_direction_turn_def tick_def)
  qed
qed

text \<open>What a frame shows: its time moved by the delta, which is bounded; everything is in range.\<close>

definition good_frame ::
    "real \<Rightarrow> ('p, 'r) PetAnimationEngine \<Rightarrow> PetAnimationSnapshot \<Rightarrow> ('p, 'r) PetAnimationEngine \<Rightarrow> bool" where
  "good_frame elapsed e snap e' \<longleftrightarrow> normalised (as_frame snap) \<and>
     applied_delta_seconds snap =
       (if lifecycle_of (en_motion e) = PetLifecycleState.ACTIVE
        then min elapsed (maximum_delta_seconds (en_config e)) else 0) \<and>
     fr_animation_time (as_frame snap) = en_animation_time e + applied_delta_seconds snap \<and>
     fr_state (as_frame snap) = raw_state (mm_states (en_motion e')) \<and>
     en_animation_time e' = fr_animation_time (as_frame snap)"

lemma ready_keeps:
  assumes "ready e" and "keeps e e'" and "0 \<le> en_blink_elapsed e'" and "mm_pending_direction_turn (en_motion e') = None"
  shows "ready e'"
  using assms by (auto simp: ready_def keeps_def)

lemma advance_paused:
  assumes "ready e" and "0 \<le> elapsed" and "wss \<noteq> []" and "lifecycle_of (en_motion e) \<noteq> PetLifecycleState.ACTIVE"
  shows "\<exists>snap e'. advance E elapsed wss e = (Inr snap, e') \<and> ready e' \<and> keeps e e' \<and> good_frame elapsed e snap e'"
proof -
  let ?e = "e\<lparr>en_last_applied_delta := 0\<rparr>"
  have inv: "engine_inv e" using assms(1) by (simp add: ready_def)
  have k: "keeps e ?e" using keeps_refl [OF inv] by simp
  note m = engine_inv_motion [OF inv]
  obtain m' where m': "update 0 wss (en_motion e) = (Inr (snapshot_of m'), m')"
    using update_ok [OF m _ assms(3), of 0] assms(4) by (auto simp: update_summary_def steady_motion_def)
  then have up: "on_motion (update 0 wss) ?e = (Inr (snapshot_of m'), ?e\<lparr>en_motion := m'\<rparr>)"
    by (simp add: on_motion_def)
  have k2: "keeps e (?e\<lparr>en_motion := m'\<rparr>)"
    using keeps_trans [OF k keeps_on_motion_ops(8) [OF keeps_inv [OF k], of 0 wss]] up by simp
  have "mm_states m' = mm_states (en_motion e)"
    using m' update_dispatch [OF m, of 0 wss] assms(4)
    by (auto simp: constrain_def Let_def msnapshot_def with_res_def split: sum.splits)
  then have "\<not> walking m'" using assms(4) by (simp add: walking_def)
  then have rd: "ready (?e\<lparr>en_motion := m'\<rparr>)"
    using ready_keeps [OF assms(1) k2] assms(1) update_turn [OF m, of 0 wss] m' by (auto simp: ready_def)
  obtain f where f: "animation_snapshot (snapshot_of m') (?e\<lparr>en_motion := m'\<rparr>)
        = (Inr \<lparr>as_motion = snapshot_of m', as_frame = f, applied_delta_seconds = en_last_applied_delta (?e\<lparr>en_motion := m'\<rparr>)\<rparr>,
           ?e\<lparr>en_motion := m'\<rparr>)" "normalised f"
      "fr_animation_time f = en_animation_time (?e\<lparr>en_motion := m'\<rparr>)"
      "fr_state f = raw_state (mm_states (en_motion (?e\<lparr>en_motion := m'\<rparr>)))"
    by (rule snapshot_ready [OF rd])
  then show ?thesis
    using up rd k2 assms(2,4) engine_inv_valid [OF inv] by (auto simp: advance_def good_frame_def)
qed

lemma advance_active:
  assumes "random_source_ok (env_random E)" and "ready e" and "0 \<le> elapsed" and "wss \<noteq> []"
    and "lifecycle_of (en_motion e) = PetLifecycleState.ACTIVE"
  shows "\<exists>snap e'. advance E elapsed wss e = (Inr snap, e') \<and> ready e' \<and> keeps e e' \<and> good_frame elapsed e snap e'"
proof -
  let ?dt = "min elapsed (maximum_delta_seconds (en_config e))"
  let ?e = "e\<lparr>en_last_applied_delta := ?dt, en_animation_time := en_animation_time e + ?dt\<rparr>"
  have inv: "engine_inv e" and blink: "0 \<le> en_blink_elapsed e" and pend: "mm_pending_direction_turn (en_motion e) = None"
    using assms(2) by (simp_all add: ready_def)
  have dt: "0 \<le> ?dt" using assms(2,3) by (auto simp: ready_def config_ok_iff config_positive_def)
  have k: "keeps e ?e" using keeps_refl [OF inv] by simp
  have "ticks ?e (advance_timers E ?dt ?e)"
    by (rule advance_timers_ticks [OF assms(1) keeps_inv [OF k] _ dt]) (simp add: assms(5))
  then obtain u e1 where e1: "advance_timers E ?dt ?e = (Inr u, e1)" "tick ?e e1" by (auto simp: ticks_def)
  obtain ms e2 where e2: "advance_motion E ?dt wss e1 = (Inr ms, e2)" "keeps e1 e2"
      "en_animation_time e2 = en_animation_time e1" "en_last_applied_delta e2 = en_last_applied_delta e1"
      "0 \<le> en_blink_elapsed e1 \<longrightarrow> 0 \<le> en_blink_elapsed e2"
      "mm_pending_direction_turn (en_motion e2) = None \<or> walking (en_motion e2)"
    by (rule advance_motion_result [OF assms(1) tick_inv [OF e1(2)] _ dt assms(4)])
      (use e1(2) pend in \<open>auto simp: tick_def\<close>)
  obtain ms' e3 where e3: "advance_turn E ms e2 = (Inr ms', e3)" "keeps e2 e3"
      "en_animation_time e3 = en_animation_time e2" "en_last_applied_delta e3 = en_last_applied_delta e2"
      "0 \<le> en_blink_elapsed e2 \<longrightarrow> 0 \<le> en_blink_elapsed e3" "mm_pending_direction_turn (en_motion e3) = None"
    by (rule advance_turn_result [OF assms(1) keeps_inv [OF e2(2)] e2(6), of ms]) blast
  have k3: "keeps e e3" using k e1(2) e2(2) e3(2) keeps_trans unfolding tick_def by blast
  have rd: "ready e3"
    using ready_keeps [OF assms(2) k3] e1(2) e2(5) e3(5,6) blink by (simp add: tick_def)
  obtain f where f: "animation_snapshot ms' e3
        = (Inr \<lparr>as_motion = ms', as_frame = f, applied_delta_seconds = en_last_applied_delta e3\<rparr>, e3)"
      "normalised f" "fr_animation_time f = en_animation_time e3" "fr_state f = raw_state (mm_states (en_motion e3))"
    by (rule snapshot_ready [OF rd])
  have "advance E elapsed wss e = animation_snapshot ms' e3"
    using assms(3,5) engine_inv_valid [OF inv] e1(1) e2(1) e3(1) by (simp add: advance_def Let_def)
  then show ?thesis
    using f rd k3 e1(2) e2(3,4) e3(3,4) assms(5) by (auto simp: good_frame_def tick_def)
qed

end
