(* ===== verification/Engine_Run.thy ===== *)
theory Engine_Run
  imports Engine_Clock
begin

text \<open>
  Runs of the animation engine: every public operation of \<^verbatim>\<open>PetAnimationEngine\<close>, and every operation
  that the pet window calls on the motion model it exposes, in any order, with whatever arguments,
  raising or not. Then the properties of the whole engine.
\<close>

section \<open>Runs\<close>

datatype engine_op =
    ERequestAction ProductionAction ActionSource | EResumeAutonomous ActionSource | EStartAutonomous
  | EContainFailure | EEvent PetAnimationEvent | EPlayback PlaybackEvent "PetFacing option" | EGracefulExit
  | EAdvance real "Rect list" | EWalk PetFacing | EThink | ERemind | EStartDragging
  | EReleaseDrag "Rect list option" | EPause | EResume | EBeginClosing | ERecoverFailedClose
  | EDragTo Point "Rect list" | EConstrain "Rect list" | ERestore Point "Rect list" | EPlace pyfloat pyfloat Rect

fun engine_exec ::
    "('p, 'r) engine_env \<Rightarrow> engine_op \<Rightarrow> ('p, 'r) PetAnimationEngine \<Rightarrow> ('p, 'r) PetAnimationEngine" where
  "engine_exec E (ERequestAction a source) e = snd (request_action E a source e)"
| "engine_exec E (EResumeAutonomous source) e = snd (resume_autonomous E source e)"
| "engine_exec E EStartAutonomous e = snd (start_autonomous E e)"
| "engine_exec E EContainFailure e = snd (contain_renderer_failure E e)"
| "engine_exec E (EEvent ev) e = snd (handle_event E ev e)"
| "engine_exec E (EPlayback ev fc) e = snd (handle_playback_event E ev fc e)"
| "engine_exec E EGracefulExit e = snd (engine_request_graceful_exit E e)"
| "engine_exec E (EAdvance dt wss) e = snd (advance E dt wss e)"
| "engine_exec E (EWalk d) e = snd (request_walk E d e)"
| "engine_exec E EThink e = snd (request_thinking_animation E e)"
| "engine_exec E ERemind e = snd (request_reminder_animation E e)"
| "engine_exec E EStartDragging e = snd (engine_start_dragging E e)"
| "engine_exec E (EReleaseDrag wss) e = snd (engine_release_drag E wss e)"
| "engine_exec E EPause e = snd (engine_pause E e)"
| "engine_exec E EResume e = snd (engine_resume E e)"
| "engine_exec E EBeginClosing e = snd (engine_begin_closing E e)"
| "engine_exec E ERecoverFailedClose e = snd (engine_recover_failed_close e)"
| "engine_exec E (EDragTo p wss) e = snd (on_motion (drag_to p wss) e)"
| "engine_exec E (EConstrain wss) e = snd (on_motion (constrain wss) e)"
| "engine_exec E (ERestore p wss) e = snd (on_motion (restore_position p wss) e)"
| "engine_exec E (EPlace x y ws) e = snd (on_motion (place_for_render_layout x y ws) e)"

text \<open>
  The two uses a caller must avoid: resuming the plain motion model in the middle of a drag, which
  leaves a state without a snapshot, and a frame of negative length or without a display.
\<close>

definition well_used :: "('p, 'r) engine_env \<Rightarrow> engine_op \<Rightarrow> ('p, 'r) PetAnimationEngine \<Rightarrow> bool" where
  "well_used E op e \<longleftrightarrow>
     (case op of
        EResume \<Rightarrow> production_sequencing_enabled E e \<or> motion_of (en_motion e) \<noteq> PetMotionState.DRAGGING
      | EAdvance dt wss \<Rightarrow> 0 \<le> dt \<and> wss \<noteq> []
      | _ \<Rightarrow> True)"

inductive engine_reach ::
    "('p, 'r) engine_env \<Rightarrow> ('p, 'r) PetAnimationEngine \<Rightarrow> ('p, 'r) PetAnimationEngine \<Rightarrow> bool" for E e0 where
  run_start: "engine_reach E e0 e0"
| run_step: "engine_reach E e0 e \<Longrightarrow> well_used E op e \<Longrightarrow> engine_reach E e0 (engine_exec E op e)"

inductive_cases engine_reachE: "engine_reach E e0 e"

lemma request_action_keeps:
  assumes "engine_inv e"
  shows "keeps e (snd (request_action E a sr e))"
proof (cases "sr \<in> sources_by_origin ActionOrigin.EXPLICIT")
  case True
  then show ?thesis
    unfolding request_action_def by (rule returns_keeps [OF submit_new_returns [OF assms]])
next
  case False
  then have "\<exists>err. mk_ActionIntent a ActionOrigin.EXPLICIT sr (Some t) = Inl err" for t
    using mk_ActionIntent_Inr_iff [of a ActionOrigin.EXPLICIT sr "Some t"]
    by (cases "mk_ActionIntent a ActionOrigin.EXPLICIT sr (Some t)") auto
  then obtain err where "mk_ActionIntent a ActionOrigin.EXPLICIT sr (Some (en_fresh e)) = Inl err" by blast
  then show ?thesis using keeps_refl [OF assms] by (simp add: request_action_def submit_new_def new_object_def)
qed

lemma placement_frame:
  "body_frame m (snd (drag_to p wss m))" "body_frame m (snd (constrain wss m))"
  "body_frame m (snd (place_for_render_layout x y ws m))" "body_frame m (snd (restore_position p wss m))"
  unfolding drag_to_def constrain_def place_for_render_layout_def restore_position_def Let_def
  by (auto intro!: frame_with_res)

lemma exec_keeps:
  assumes "random_source_ok (env_random E)" and "engine_inv e" and "well_used E op e"
  shows "keeps e (engine_exec E op e)"
proof (cases op)
  case EResume
  then show ?thesis using assms by (auto simp: well_used_def intro: motion_requests_keep)
qed (use assms in \<open>auto intro!: request_action_keeps returns_keeps [OF resume_autonomous_returns]
    returns_keeps [OF start_autonomous_returns] returns_keeps [OF contain_renderer_failure_returns]
    handle_event_keeps handle_playback_event_keeps exit_keeps advance_keeps motion_requests_keep
    thinking_keeps dragging_keeps release_keeps closing_keeps keeps_on_motion placement_frame placement_inv
    engine_inv_motion\<close>)

text \<open>Only a frame moves the timers that \<open>ready\<close> speaks about.\<close>

lemma timed_requests [timing]:
  assumes "timers e = t"
  shows "timed_as t (request_action E a sr e)" "timed_as t (engine_pause E e)"
    "timed_as t (engine_resume E e)" "timed_as t (engine_recover_failed_close e)"
    "timed_as t (engine_release_drag E w e)" "timed_as t (on_motion (drag_to p wss) e)"
    "timed_as t (on_motion (constrain wss) e)" "timed_as t (on_motion (restore_position p wss) e)"
    "timed_as t (on_motion (place_for_render_layout x y ws) e)"
  using assms
  unfolding request_action_def engine_pause_def engine_resume_def engine_recover_failed_close_def
    engine_release_drag_def legacy_direct_def
  by (auto intro!: timed_rules timing split: option.splits)

text \<open>The requests that set the action timer leave the blink timer and the turn alone.\<close>

definition quiet_timers :: "('p, 'r) PetAnimationEngine \<Rightarrow> ('a, ('p, 'r) PetAnimationEngine) sres \<Rightarrow> bool" where
  "quiet_timers e r \<longleftrightarrow> en_blink_elapsed (snd r) = en_blink_elapsed e \<and>
     mm_pending_direction_turn (en_motion (snd r)) = mm_pending_direction_turn (en_motion e)"

lemma quiet_pair [simp]: "quiet_timers e (r, e') \<longleftrightarrow> en_blink_elapsed e' = en_blink_elapsed e \<and>
    mm_pending_direction_turn (en_motion e') = mm_pending_direction_turn (en_motion e)"
  by (simp add: quiet_timers_def)

lemma quiet_timed: "timed_as (timers e) r \<Longrightarrow> quiet_timers e r"
  by (auto simp: quiet_timers_def timed_as_def timers_def)

lemma quiet_sbind:
  assumes "quiet_timers e r" and "\<And>v e1. quiet_timers e1 (f v e1)"
  shows "quiet_timers e (sbind r f)"
  using assms by (auto simp: quiet_timers_def sbind_def split: prod.splits sum.splits)

lemma quiet_with_res: "(\<And>v. quiet_timers e (f v)) \<Longrightarrow> quiet_timers e (with_res r e f)"
  by (cases r) (simp_all add: quiet_timers_def)

lemma quiet_legacy:
  "timed_as (timers e) r \<Longrightarrow> quiet_timers e (legacy_direct r (\<lambda>e1. e1\<lparr>en_action_remaining := g e1\<rparr>))"
  unfolding legacy_direct_def by (rule quiet_sbind [OF quiet_timed]) (simp_all add: quiet_timers_def)

lemma quiet_requests:
  "quiet_timers e (request_walk E d e)" "quiet_timers e (request_thinking_animation E e)"
  "quiet_timers e (request_reminder_animation E e)"
proof -
  have ev: "quiet_timers e (handle_new_event E mk e)" for mk
    by (intro quiet_timed timing) simp
  show "quiet_timers e (request_walk E d e)" "quiet_timers e (request_reminder_animation E e)"
    unfolding request_walk_def request_reminder_animation_def
    by (auto simp: ev intro!: quiet_legacy timing)
  show "quiet_timers e (request_thinking_animation E e)"
    unfolding request_thinking_animation_def
    by (auto simp: ev intro!: quiet_with_res quiet_legacy timed_rules timing)
qed

lemma quiet_drag: "quiet_timers e (engine_start_dragging E e)" "quiet_timers e (engine_begin_closing E e)"
proof -
  have ev: "timed_as (timers e) (handle_new_event E mk (e\<lparr>en_fresh := n\<rparr>))" for mk n
    by (intro timing) simp
  have start: "quiet_timers e r" if "timed_as (timers (e\<lparr>en_action_remaining := 0\<rparr>)) r" for r :: "('c, _) sres"
    using that by (auto simp: quiet_timers_def timed_as_def timers_def)
  have legacy: "quiet_timers e (legacy_direct (on_motion motion_start_dragging (e\<lparr>en_action_remaining := 0\<rparr>)) id)"
    unfolding legacy_direct_def by (rule start) (auto intro!: timed_rules timing)
  show "quiet_timers e (engine_start_dragging E e)"
    unfolding engine_start_dragging_def new_object_def
    by (auto simp: legacy intro!: quiet_sbind quiet_timed [OF ev])
  show "quiet_timers e (engine_begin_closing E e)"
    unfolding engine_begin_closing_def Let_def legacy_direct_def
    by (auto intro!: start timed_rules timing)
qed

lemma exec_ready:
  assumes "random_source_ok (env_random E)" and "ready e" and "well_used E op e"
  shows "ready (engine_exec E op e)"
proof -
  have inv: "engine_inv e" using assms(2) by (simp add: ready_def)
  have quiet: "ready (snd r)" if "quiet_timers e r" "keeps e (snd r)" for r :: "('c, _) sres"
    using ready_keeps [OF assms(2) that(2)] that(1) assms(2) by (simp add: quiet_timers_def ready_def)
  note k = exec_keeps [OF assms(1) inv assms(3)]
  show ?thesis
  proof (cases op)
    case (EAdvance dt wss)
    then show ?thesis
      using advance_active [OF assms(1,2), of dt wss] advance_paused [OF assms(2), of dt wss E] assms(3)
      by (fastforce simp: well_used_def)
  qed (use k in \<open>auto intro!: quiet quiet_requests quiet_drag intro: quiet_timed timing\<close>)
qed

end
