(* ===== verification/Engine_Failure.thy ===== *)
theory Engine_Failure
  imports Engine_Run
begin

text \<open>
  The engine after a renderer failure. Once Track 0 is released with an unhealthy renderer, no
  operation of the engine starts a playback again: the player is only ever told to clear. The pet
  keeps its semantic life, its frames and its lifecycle.
\<close>

section \<open>A released track stays released\<close>

inductive only_cleared :: "'p AnimationPlayer \<Rightarrow> 'p \<Rightarrow> 'p \<Rightarrow> bool" for P p0 where
  untouched: "only_cleared P p0 p0"
| cleared: "only_cleared P p0 p \<Longrightarrow> only_cleared P p0 (snd (player_clear P 0 0 p))"

definition dead :: "'p AnimationPlayer \<Rightarrow> 'p \<Rightarrow> ('p, 'r) PetAnimationEngine \<Rightarrow> bool" where
  "dead P p0 e \<longleftrightarrow> (\<exists>c. en_track0 e = Some c \<and> released c \<and> only_cleared P p0 (ct_player c))"

abbreviation stays_dead ::
    "('p, 'r) engine_env \<Rightarrow> 'p \<Rightarrow> ('a, ('p, 'r) PetAnimationEngine) sres \<Rightarrow> bool" where
  "stays_dead E p0 r \<equiv> dead (env_player E) p0 (snd r)"

named_theorems inert

lemma dead_sbind:
  assumes "stays_dead E p0 r" and "\<And>v e1. dead (env_player E) p0 e1 \<Longrightarrow> stays_dead E p0 (f v e1)"
  shows "stays_dead E p0 (sbind r f)"
  using assms by (auto simp: sbind_def split: prod.splits sum.splits)

lemma dead_with_res:
  "dead (env_player E) p0 e \<Longrightarrow> (\<And>v. stays_dead E p0 (f v)) \<Longrightarrow> stays_dead E p0 (with_res r e f)"
  by (cases r) simp_all

lemmas dead_rules = dead_sbind dead_with_res

lemma dead_cong: "en_track0 e' = en_track0 e \<Longrightarrow> dead P p0 e' = dead P p0 e"
  by (simp add: dead_def)

lemma dead_plain [simp]:
  "dead P p0 (e\<lparr>en_active_action := a\<rparr>) = dead P p0 e" "dead P p0 (e\<lparr>en_execution_mode := md\<rparr>) = dead P p0 e"
  "dead P p0 (e\<lparr>en_resume_after_protected := b\<rparr>) = dead P p0 e" "dead P p0 (e\<lparr>en_ticks := n\<rparr>) = dead P p0 e"
  "dead P p0 (e\<lparr>en_fresh := n\<rparr>) = dead P p0 e" "dead P p0 (e\<lparr>en_rng := r\<rparr>) = dead P p0 e"
  "dead P p0 (e\<lparr>en_drag_session := d\<rparr>) = dead P p0 e" "dead P p0 (e\<lparr>en_motion := m\<rparr>) = dead P p0 e"
  "dead P p0 (e\<lparr>en_scheduler_state := s\<rparr>) = dead P p0 e" "dead P p0 (e\<lparr>en_resume_action := ra\<rparr>) = dead P p0 e"
  "dead P p0 (e\<lparr>en_pending := p\<rparr>) = dead P p0 e" "dead P p0 (suspend e) = dead P p0 e"
  "dead P p0 (clear_protected_continuation e) = dead P p0 e"
  "dead P p0 (e\<lparr>en_action_remaining := x\<rparr>) = dead P p0 e" "dead P p0 (e\<lparr>en_next_blink := x\<rparr>) = dead P p0 e"
  "dead P p0 (e\<lparr>en_next_random_action := x\<rparr>) = dead P p0 e" "dead P p0 (e\<lparr>en_blink_elapsed := x\<rparr>) = dead P p0 e"
  "dead P p0 (e\<lparr>en_last_applied_delta := x\<rparr>) = dead P p0 e" "dead P p0 (e\<lparr>en_animation_time := x\<rparr>) = dead P p0 e"
  "dead P p0 (new_blink_interval E e) = dead P p0 e" "dead P p0 (new_random_action_interval E e) = dead P p0 e"
  by (simp_all add: dead_def suspend_def clear_protected_continuation_def new_blink_interval_def
      new_random_action_interval_def split: prod.splits)

lemma dead_on_motion [simp]: "stays_dead E p0 (on_motion f e) = dead (env_player E) p0 e"
  by (simp add: on_motion_def split: prod.splits)

lemma dead_on_states [simp]: "stays_dead E p0 (on_states f e) = dead (env_player E) p0 e"
  by (cases "f (mm_states (en_motion e))") (simp_all add: on_states_def)

lemma dead_checked [simp]: "stays_dead E p0 (checked oc e) = dead (env_player E) p0 e"
  by (cases "assert_transaction_compatible e") (simp_all add: checked_def)

lemma dead_activate [simp]: "stays_dead E p0 (activate_autonomous E a e) = dead (env_player E) p0 e"
  by (auto simp: activate_autonomous_def Let_def with_res_def split: option.splits prod.splits sum.splits)

text \<open>With an unhealthy renderer no action is compatible, so no transaction gets past that check.\<close>

lemma unhealthy_incompatible: "h \<noteq> PlaybackHealth.HEALTHY \<Longrightarrow> assert_animation_compatible s (Some a) h \<noteq> Inr u"
  using assert_compatible_iff [of s "Some a" h] by (cases u) auto

lemma deadE:
  assumes "dead P p0 e"
  obtains c where "en_track0 e = Some c" and "released c" and "only_cleared P p0 (ct_player c)"
  using assms by (auto simp: dead_def)

lemma submit_transaction_dead:
  assumes "health (ct_state c) \<noteq> PlaybackHealth.HEALTHY"
  shows "snd (submit_transaction E i ov direct c e) = e"
  using unhealthy_incompatible [OF assms]
  by (auto simp: submit_transaction_def Let_def with_res_def split: sum.splits option.splits py_error.splits)

lemma dead_submit [inert]: "dead (env_player E) p0 e \<Longrightarrow> stays_dead E p0 (submit_production_intent E i ov e)"
proof (erule deadE)
  fix c
  assume c: "en_track0 e = Some c" "released c" "only_cleared (env_player E) p0 (ct_player c)"
  have "active_request_is_protected e = False" "health (ct_state c) \<noteq> PlaybackHealth.HEALTHY"
    using c(1,2) by (auto simp: active_request_is_protected_def released_def)
  then show ?thesis
    using c released_state [OF c(2)] submit_transaction_dead [of c E i ov _ e]
    by (auto simp: submit_production_intent_def Let_def dead_def)
qed

lemma dead_submit_new [inert]: "dead (env_player E) p0 e \<Longrightarrow> stays_dead E p0 (submit_new E a og sr ov e)"
  by (auto simp: submit_new_def new_object_def intro!: dead_rules inert)

lemma dead_submit_and_activate [inert]:
  "dead (env_player E) p0 e \<Longrightarrow> stays_dead E p0 (submit_and_activate E a ov e)"
  "dead (env_player E) p0 e \<Longrightarrow> stays_dead E p0 (recover_autonomous_relax E ov e)"
  unfolding recover_autonomous_relax_def submit_and_activate_def by (auto intro!: dead_rules inert)

lemma dead_clear:
  assumes "dead (env_player E) p0 e" and "en_track0 e1 = en_track0 e" and "en_track0 e = Some c"
    and "track0_clear E reason c e1 = (oc, e2)"
  shows "dead (env_player E) p0 e2"
proof -
  have c: "released c" "only_cleared (env_player E) p0 (ct_player c)" using assms(1,3) by (auto simp: dead_def)
  obtain oc' c' where c': "clear (env_player E) reason c = (oc', c')" "ctrl_inv c'" "ct_active_request c' = None"
      "oc' = ActionOutcome.CLEARED \<and> health (ct_state c') = health (ct_state c) \<or>
       oc' = ActionOutcome.RENDERER_STATE_UNKNOWN \<and> released c'"
    by (rule clear_result [of c "env_player E" reason]) (use c(1) in \<open>auto simp: released_def\<close>)
  have "ct_player c' = snd (player_clear (env_player E) 0 0 (ct_player c))"
    using c'(1) by (auto simp: clear_def try_clear_eq drop_playback_def Let_def split: if_splits)
  then have "released c'" "only_cleared (env_player E) p0 (ct_player c')"
    using c c'(2,3,4) only_cleared.cleared by (auto simp: released_def)
  then show ?thesis using assms(4) c'(1) by (auto simp: track0_clear_def dead_def)
qed

lemma dead_start_autonomous [inert]: "dead (env_player E) p0 e \<Longrightarrow> stays_dead E p0 (start_autonomous E e)"
  by (auto simp: start_autonomous_def intro!: inert split: option.splits)

lemma dead_resume_autonomous [inert]:
  assumes "dead (env_player E) p0 e"
  shows "stays_dead E p0 (resume_autonomous E sr e)"
proof -
  obtain c where c: "en_track0 e = Some c" "released c" using assms by (rule deadE)
  let ?e1 = "(suspend (clear_protected_continuation e))\<lparr>en_active_action := None\<rparr>"
  have "dead (env_player E) p0 ?e1" using assms by simp
  then show ?thesis
    using c by (auto simp: resume_autonomous_def Let_def released_def intro!: inert split: option.splits)
qed

lemma dead_contain_failure [inert]:
  assumes "dead (env_player E) p0 e"
  shows "stays_dead E p0 (contain_renderer_failure E e)"
proof -
  have "stays_dead E p0 (apfst Inr (track0_clear E CancelReason.RENDERER_FAILURE c e1))"
    if "dead (env_player E) p0 e1" "en_track0 e1 = Some c" for c e1
    using dead_clear [OF that(1) refl that(2)] by (cases "track0_clear E CancelReason.RENDERER_FAILURE c e1") auto
  then show ?thesis
    unfolding contain_renderer_failure_def commit_semantic_def Let_def
    using assms by (auto intro!: dead_rules split: option.splits)
qed

lemma dead_contain_mandatory:
  assumes "dead (env_player E) p0 e"
  shows "stays_dead E p0 (contain_mandatory_proposal E p reason e)"
proof -
  obtain c where c: "en_track0 e = Some c" "released c" "only_cleared (env_player E) p0 (ct_player c)"
    using assms by (rule deadE)
  obtain oc c' where c': "contain_preflight_failure (env_player E) reason c = (oc, c')" "released c'"
    by (rule contain_result [of c "env_player E" reason]) (use c(2) in \<open>auto simp: released_def\<close>)
  have "ct_player c' = snd (player_clear (env_player E) 0 0 (ct_player c))"
    using c'(1) by (auto simp: contain_preflight_failure_def try_clear_eq drop_playback_def Let_def split: if_splits)
  then have "dead (env_player E) p0 (e1\<lparr>en_track0 := Some c'\<rparr>)" for e1
    using c(3) c'(2) only_cleared.cleared by (simp add: dead_def)
  then show ?thesis
    unfolding contain_mandatory_proposal_def using c(1) c'(1) assms by (auto intro!: dead_rules)
qed

lemma dead_event_transaction:
  assumes "dead (env_player E) p0 e" and "en_track0 e = Some c"
  shows "stays_dead E p0 (event_transaction E ev p name reason c e)"
proof -
  have "health (ct_state c) \<noteq> PlaybackHealth.HEALTHY" using assms by (auto simp: dead_def released_def)
  note no = unhealthy_incompatible [OF this]
  show ?thesis
    unfolding event_transaction_def
    using assms(1) dead_contain_mandatory [OF assms(1)] no
    by (auto intro!: dead_rules split: option.splits sum.splits py_error.splits)
qed

lemma dead_handle_event [inert]:
  assumes "dead (env_player E) p0 e"
  shows "stays_dead E p0 (handle_event E ev e)"
proof -
  let ?e = "interrupted ev e"
  have d: "dead (env_player E) p0 ?e" using assms by (simp add: interrupted_def)
  obtain c where c: "en_track0 ?e = Some c" using d by (rule deadE)
  have cl: "stays_dead E p0 (case track0_clear E reason c (?e\<lparr>en_motion := m\<rparr>) of (oc, e2) \<Rightarrow> checked oc e2)" for reason m
    using dead_clear [OF d _ c, of "?e\<lparr>en_motion := m\<rparr>"] by (auto split: prod.splits)
  have tr: "stays_dead E p0 (event_transaction E ev p name reason c ?e)" for p name reason
    by (rule dead_event_transaction [OF d c])
  have "stays_dead E p0 (sbind (on_motion f ?e) (\<lambda>_ e1. case track0_clear E reason c e1 of (oc, e2) \<Rightarrow> checked oc e2))" for f reason
    using cl [of reason "snd (f (en_motion ?e))"] d by (auto simp: sbind_def on_motion_def split: prod.splits sum.splits)
  with tr show ?thesis
    unfolding handle_event_unfold using c d
    by (auto intro!: dead_with_res split: option.splits)
qed

lemma dead_new_event [inert]: "dead (env_player E) p0 e \<Longrightarrow> stays_dead E p0 (handle_new_event E mk e)"
  by (auto simp: handle_new_event_def new_object_def intro!: inert)

text \<open>A released track has no runner position, so every callback is stale.\<close>

lemma released_runner: "released c \<Longrightarrow> ct_runner c = new_runner"
  by (auto simp: released_def ctrl_inv_def split: option.splits)

lemma dead_playback_event [inert]:
  assumes "dead (env_player E) p0 e"
  shows "stays_dead E p0 (handle_playback_event E ev fc e)"
proof -
  obtain c where c: "en_track0 e = Some c" "released c" "only_cleared (env_player E) p0 (ct_player c)"
    using assms by (rule deadE)
  have run: "ct_runner c = new_runner" by (rule released_runner [OF c(2)])
  have same: "c\<lparr>ct_runner := new_runner\<rparr> = c" using run by (cases c) simp
  have no_epoch: "rn_confirmed_epoch new_runner = None" by (simp add: new_runner_def)
  have "callback_matches_snapshot ev c = Inr False" by (simp add: callback_matches_snapshot_def run new_runner_def)
  moreover have "handle_completion (env_player E) now ev None c = (Inr ActionOutcome.STALE_COMPLETION, c)" for now
    using no_epoch by (simp add: handle_completion_def runner_handle_completion_def run event_matches_current_epoch_def same Let_def)
  moreover have "dead (env_player E) p0 (with_track0 c e)" using c by (simp add: dead_def)
  ultimately show ?thesis using c(1) by (simp add: handle_playback_event_def on_track0_def)
qed

lemma dead_graceful_exit [inert]:
  assumes "dead (env_player E) p0 e"
  shows "stays_dead E p0 (engine_request_graceful_exit E e)"
proof -
  obtain c where c: "en_track0 e = Some c" "released c" "only_cleared (env_player E) p0 (ct_player c)"
    using assms by (rule deadE)
  have run: "ct_runner c = new_runner" by (rule released_runner [OF c(2)])
  have same: "c\<lparr>ct_runner := new_runner\<rparr> = c" using run by (cases c) simp
  have "request_graceful_exit new_runner = (ActionOutcome.INVALID_SEQUENCE, new_runner)"
    by (simp add: request_graceful_exit_def new_runner_def)
  then show ?thesis
    using c assms by (simp add: engine_request_graceful_exit_def on_track0_def cancel_graceful_def run same dead_def)
qed

lemma dead_requests [inert]:
  assumes "dead (env_player E) p0 e"
  shows "stays_dead E p0 (request_walk E d e)" "stays_dead E p0 (request_thinking_animation E e)"
    "stays_dead E p0 (request_reminder_animation E e)" "stays_dead E p0 (engine_start_dragging E e)"
    "stays_dead E p0 (engine_release_drag E w e)" "stays_dead E p0 (engine_pause E e)"
    "stays_dead E p0 (engine_resume E e)" "stays_dead E p0 (engine_begin_closing E e)"
  using assms
  unfolding request_walk_def request_thinking_animation_def request_reminder_animation_def engine_start_dragging_def
    engine_release_drag_def engine_pause_def engine_resume_def engine_begin_closing_def legacy_direct_def
    new_object_def Let_def
  by (auto intro!: dead_rules inert split: option.splits)

lemma dead_recovery [inert]:
  assumes "dead (env_player E) p0 e"
  shows "stays_dead E p0 (finish_relax_motion_recovery E e)" "stays_dead E p0 (boundary_turn E d e)"
proof -
  obtain c where c: "en_track0 e = Some c" "released c" using assms by (rule deadE)
  then have "\<not> relax_confirmed c" by (simp add: relax_confirmed_def released_def)
  then show "stays_dead E p0 (finish_relax_motion_recovery E e)"
    using c assms by (simp add: finish_relax_motion_recovery_def)
  let ?e1 = "(suspend (clear_protected_continuation e))\<lparr>en_active_action := None\<rparr>"
  have "stays_dead E p0 (recover_explicit_boundary E e)"
    using dead_clear [OF assms _ c(1), of ?e1 CancelReason.MOTION_OVERRIDE] c(1)
    by (auto simp: recover_explicit_boundary_def Let_def intro!: inert split: prod.splits)
  moreover have "stays_dead E p0 (commit_workspace_boundary_turn E d e)"
    using assms by (auto simp: commit_workspace_boundary_turn_def Let_def intro!: dead_rules inert)
  ultimately show "stays_dead E p0 (boundary_turn E d e)"
    using assms by (auto simp: boundary_turn_def intro!: dead_rules)
qed

lemma dead_timers [inert]:
  assumes "dead (env_player E) p0 e"
  shows "stays_dead E p0 (advance_timers E dt e)"
proof -
  have fin: "stays_dead E p0 (finish_action s e1)" if "dead (env_player E) p0 e1" for s e1
    using that by (simp add: finish_action_def)
  have act: "stays_dead E p0 (advance_action E dt e)"
    using assms fin [of "e\<lparr>en_action_remaining := max 0 (en_action_remaining e - dt)\<rparr>"]
    unfolding advance_action_def Let_def
    by (auto intro!: dead_with_res split: prod.splits sum.splits py_error.splits) (metis snd_conv)+
  have blink: "stays_dead E p0 (advance_blink E dt e1)" if "dead (env_player E) p0 e1" for e1
    using that unfolding advance_blink_def Let_def by (auto intro!: dead_rules)
  have "stays_dead E p0 (advance_random_action E dt e1)" if "dead (env_player E) p0 e1" for e1
    using that unfolding advance_random_action_def Let_def by (auto intro!: dead_rules inert split: prod.splits)
  with act blink show ?thesis unfolding advance_timers_def by (auto intro!: dead_rules)
qed

lemma dead_advance [inert]:
  assumes "dead (env_player E) p0 e"
  shows "stays_dead E p0 (advance E dt wss e)"
proof -
  have "stays_dead E p0 (advance_motion E d wss e1)" if "dead (env_player E) p0 e1" for d e1
    using that unfolding advance_motion_def by (auto intro!: dead_rules inert)
  moreover have "stays_dead E p0 (advance_turn E ms e1)" if "dead (env_player E) p0 e1" for ms e1
    using that unfolding advance_turn_def take_pending_direction_turn_def Let_def
    by (auto intro!: dead_rules inert split: option.splits)
  ultimately show ?thesis
    using assms unfolding advance_def Let_def by (auto intro!: dead_rules inert)
qed

lemma dead_exec: "dead (env_player E) p0 e \<Longrightarrow> dead (env_player E) p0 (engine_exec E op e)"
  by (cases op) (auto simp: request_action_def engine_recover_failed_close_def intro!: inert)

end
