(* ===== verification/Engine_Properties.thy ===== *)
theory Engine_Properties
  imports Engine_Failure
begin

text \<open>
  The properties of the animation engine as a whole, with the sample engine their witnesses run: an
  idle pet on one display, the sample player and registry of the controller, and the sample
  generator of the scheduler.
\<close>

section \<open>A sample engine\<close>

definition sample_env :: "(nat, nat) engine_env" where
  "sample_env = \<lparr>env_player = sample_player, env_random = sample_rng, env_clock = real\<rparr>"

definition idle_model :: PetMotionModel where
  "idle_model = new_motion_model \<lparr>px = 50, py = 960\<rparr> \<lparr>width = 100, height = 80\<rparr> default_motion_config
     \<lparr>sm_lifecycle = PetLifecycleState.ACTIVE, sm_motion = PetMotionState.IDLE,
      sm_behaviors = {PetBehaviorState.BREATHING}, sm_facing = PetFacing.RIGHT,
      sm_activity = PetActivityState.NONE, sm_epoch = 0\<rparr>"

definition sample_engine :: "nat PetTrack0Controller option \<Rightarrow> (nat, nat) PetAnimationEngine" where
  "sample_engine t0 = new_engine sample_env idle_model 0 default_animation_config t0 True True"

lemma sample_env_sel [simp]:
  "env_player sample_env = sample_player" "env_random sample_env = sample_rng" "env_clock sample_env = real"
  by (simp_all add: sample_env_def)

lemma sample_env_ok: "random_source_ok (env_random sample_env)"
  by (simp add: sample_rng_ok)

lemma idle_model_inv: "body_inv idle_model"
proof -
  have "new_state_machine 0 = Inr (mm_states idle_model)" by (simp add: new_state_machine_def idle_model_def new_motion_model_def)
  then have "motion_inv idle_model"
    unfolding idle_model_def
    by (intro motion_inv_new [of 0]) (simp_all add: size_ok_def default_motion_config_ok new_motion_model_def)
  then show ?thesis by (simp add: body_inv_def not_running_def idle_model_def new_motion_model_def)
qed

lemma sample_engine_sel [simp]:
  "en_motion (sample_engine t0) = idle_model" "en_track0 (sample_engine t0) = t0"
  "en_pending (sample_engine t0) = None" "en_scheduler_state (sample_engine t0) = None"
  "en_resume_action (sample_engine t0) = None" "en_config (sample_engine t0) = default_animation_config"
  "en_blink_elapsed (sample_engine t0) = 0"
  by (simp_all add: sample_engine_def new_engine_def new_interval_def Let_def split: prod.splits)

lemma sample_controller_free: "ct_active_request sample_controller = None"
  by (simp add: sample_controller_def new_controller_def)

lemma sample_engine_inv: "engine_inv (sample_engine (Some sample_controller))"
  by (simp add: engine_inv_def idle_model_inv track0_inv_def sample_controller_inv sample_controller_free)

lemma default_animation_config_ok: "mk_PetAnimationConfig default_animation_config = Inr default_animation_config"
  by (simp add: config_ok_iff config_positive_def default_animation_config_def)

lemma sample_engine_ready: "ready (sample_engine (Some sample_controller))"
  using sample_engine_inv
  by (simp add: ready_def default_animation_config_ok) (simp add: idle_model_def new_motion_model_def)

lemma idle_model_sel [simp]:
  "lifecycle_of idle_model = PetLifecycleState.ACTIVE" "motion_of idle_model = PetMotionState.IDLE"
  "sm_epoch (mm_states idle_model) = 0"
  by (simp_all add: idle_model_def new_motion_model_def)

section \<open>Properties\<close>

text \<open>
  C10. The frame clock of a well-used engine never fails. From a well-formed engine whose pet does not
  run, with a random source that keeps its ranges, after any sequence of operations in any order and
  whether they raised or not, in which no \<^verbatim>\<open>resume\<close> comes in the middle of a drag while production
  sequencing is off (that one breaks the snapshot) and every frame has a nonnegative elapsed time and
  a display, every such \<^verbatim>\<open>advance\<close> returns a snapshot. The applied delta is the elapsed time cut at the
  configured maximum (zero unless the pet is active), the animation time grows by exactly that, and
  every visual parameter of the frame is in its range.
\<close>

theorem engine_frames_total:
  assumes "random_source_ok (env_random E)" and "ready e0" and "engine_reach E e0 e"
    and "0 \<le> dt" and "wss \<noteq> []"
  shows "ready e \<and> (\<exists>snap e'. advance E dt wss e = (Inr snap, e') \<and> ready e' \<and> good_frame dt e snap e')"
proof -
  have "ready e"
    using assms(3)
  proof (induction rule: engine_reach.induct)
    case (run_step e op)
    then show ?case using exec_ready [OF assms(1)] by blast
  qed (rule assms(2))
  then show ?thesis
    using advance_active [OF assms(1) _ assms(4,5)] advance_paused [OF _ assms(4,5)] by blast
qed

theorem engine_frames_total_witness:
  "\<exists>snap e'. advance sample_env (1 / 20) [sample_workspace]
       (engine_exec sample_env EPause (sample_engine (Some sample_controller))) = (Inr snap, e') \<and> ready e'"
proof -
  have "engine_reach sample_env (sample_engine (Some sample_controller))
      (engine_exec sample_env EPause (sample_engine (Some sample_controller)))"
    by (rule engine_reach.run_step [OF engine_reach.run_start]) (simp add: well_used_def)
  from engine_frames_total [OF sample_env_ok sample_engine_ready this, of "1 / 20" "[sample_workspace]"]
  show ?thesis by auto
qed

text \<open>
  C11. Submitting a production action is a transaction. It never raises. Without Track 0 nothing
  happens. Otherwise it is put off or already satisfied (accepted, with motion, track and active
  action unchanged), or refused with the engine unchanged, or accepted with the action's first
  step confirmed by the player, its semantic state and epoch committed and the request owning the
  track, or it failed and everything stopped: track released, no active action, autonomy
  suspended, no horizontal speed.
\<close>

theorem engine_submit_transactional:
  assumes "engine_inv e" and "intent_source i \<in> sources_by_origin (intent_origin i)"
  shows "\<exists>oc e'. submit_production_intent E i ov e = (Inr oc, e') \<and> keeps e e' \<and>
    (if en_track0 e = None then oc = ActionOutcome.LEGACY_DIRECT \<and> e' = e
     else oc = ActionOutcome.ACCEPTED \<and> (plays i e' \<or> deferred e e') \<or>
          oc \<in> failure_outcomes \<and> stopped e' \<or>
          oc \<notin> insert ActionOutcome.ACCEPTED failure_outcomes \<and> e' = e)"
  by (rule submit_cases [OF assms, of E ov])
    (use keeps_refl [OF assms(1)] in \<open>auto simp: submit_ends_def\<close>)

theorem engine_submit_transactional_witness:
  "\<exists>oc e'. submit_production_intent sample_env
      \<lparr>intent_action = ProductionAction.SIT, intent_origin = ActionOrigin.EXPLICIT,
       intent_source = ActionSource.USER, intent_token = 3\<rparr> None (sample_engine (Some sample_controller))
    = (Inr oc, e') \<and> engine_inv e'"
  using engine_submit_transactional [OF sample_engine_inv, of
      "\<lparr>intent_action = ProductionAction.SIT, intent_origin = ActionOrigin.EXPLICIT,
       intent_source = ActionSource.USER, intent_token = 3\<rparr>" sample_env None] keeps_inv by auto

text \<open>
  C13. Mandatory events are never lost, whatever was playing and however the player answers. All three
  return, suspend autonomy and drop the pending continuation and the active action. \<^verbatim>\<open>PAUSE\<close> and
  \<^verbatim>\<open>BEGIN_CLOSING\<close> commit their lifecycle and release the track. \<^verbatim>\<open>START_FALLING\<close> commits the fall in any
  lifecycle, one epoch on, and then either the recovery of this very event owns the track with its
  first step confirmed by the player (accepted), or the track is released with an unhealthy renderer
  (degraded or unknown); it is refused only as the duplicate of the recovery that owns the track already.
\<close>

theorem engine_mandatory_events:
  assumes "random_source_ok (env_random E)" and "engine_inv e" and "en_track0 e = Some c"
  shows "(\<exists>oc e' c'. handle_event E (plain_event PetAnimationEventType.PAUSE t) e = (Inr oc, e') \<and> engine_inv e' \<and>
      lifecycle_of (en_motion e') = PetLifecycleState.PAUSED \<and> en_track0 e' = Some c' \<and>
      ct_active_request c' = None \<and> en_execution_mode e' = AutonomousExecutionMode.SUSPENDED \<and>
      en_pending e' = None \<and> en_active_action e' = None) \<and>
    (\<exists>oc e' c'. handle_event E (plain_event PetAnimationEventType.BEGIN_CLOSING t) e = (Inr oc, e') \<and> engine_inv e' \<and>
      lifecycle_of (en_motion e') = PetLifecycleState.CLOSING \<and> en_track0 e' = Some c' \<and>
      ct_active_request c' = None \<and> en_execution_mode e' = AutonomousExecutionMode.SUSPENDED \<and>
      en_pending e' = None \<and> en_active_action e' = None) \<and>
    (\<exists>oc e'. handle_event E (plain_event PetAnimationEventType.START_FALLING t) e = (Inr oc, e') \<and> engine_inv e' \<and>
      en_execution_mode e' = AutonomousExecutionMode.SUSPENDED \<and> en_pending e' = None \<and> en_active_action e' = None \<and>
      (if oc = ActionOutcome.REJECTED_DUPLICATE
       then en_motion e' = en_motion e \<and> en_track0 e' = Some c \<and> (\<exists>q. ct_active_request c = Some q \<and>
         sequence_name q = SequenceName.FALL_RECOVERY \<and> request_token q = t)
       else motion_of (en_motion e') = PetMotionState.FALLING \<and>
         lifecycle_of (en_motion e') = lifecycle_of (en_motion e) \<and>
         sm_epoch (mm_states (en_motion e')) = sm_epoch (mm_states (en_motion e)) + 1 \<and> compatible e' \<and>
         (\<exists>c'. en_track0 e' = Some c' \<and>
            (oc = ActionOutcome.ACCEPTED \<and> (\<exists>q a. owned q a c' \<and>
               sequence_name q = SequenceName.FALL_RECOVERY \<and> request_token q = t) \<or>
             oc \<in> failure_outcomes \<and> released c'))))"
proof -
  have falling: "ae_type (plain_event PetAnimationEventType.START_FALLING t) = PetAnimationEventType.START_FALLING"
    "ae_token (plain_event PetAnimationEventType.START_FALLING t) = t" by (simp_all add: plain_event_def)
  have types: "ae_type (plain_event PetAnimationEventType.PAUSE t) = PetAnimationEventType.PAUSE"
    "ae_type (plain_event PetAnimationEventType.BEGIN_CLOSING t) = PetAnimationEventType.BEGIN_CLOSING"
    by (simp_all add: plain_event_def)
  note life = lifecycle_event [OF assms(2,3), where E = E]
  show ?thesis
    using life [of "plain_event PetAnimationEventType.PAUSE t" PetLifecycleState.PAUSED]
      life [of "plain_event PetAnimationEventType.BEGIN_CLOSING t" PetLifecycleState.CLOSING]
      falling_event [OF assms falling(1)] keeps_inv types
    unfolding falling(2) fall_committed_def by (intro conjI) blast+
qed

theorem engine_mandatory_events_witness:
  "\<exists>oc e'. handle_event sample_env (plain_event PetAnimationEventType.START_FALLING 5)
      (sample_engine (Some sample_controller)) = (Inr oc, e') \<and> motion_of (en_motion e') = PetMotionState.FALLING \<and>
    en_execution_mode e' = AutonomousExecutionMode.SUSPENDED"
proof -
  let ?e = "sample_engine (Some sample_controller)"
  have "en_track0 ?e = Some sample_controller" by simp
  from engine_mandatory_events [OF sample_env_ok sample_engine_inv this, of 5]
  obtain oc e' where "handle_event sample_env (plain_event PetAnimationEventType.START_FALLING 5) ?e = (Inr oc, e')"
    "en_execution_mode e' = AutonomousExecutionMode.SUSPENDED"
    "if oc = ActionOutcome.REJECTED_DUPLICATE then \<exists>q. ct_active_request sample_controller = Some q
     else motion_of (en_motion e') = PetMotionState.FALLING" by (auto split: if_splits)
  then show ?thesis by (auto simp: sample_controller_free split: if_splits)
qed

text \<open>
  C14. A renderer failure is final. Once the track is released with an unhealthy renderer, no sequence
  of operations whatever starts a playback again: the track stays released, and all the player
  ever hears is \<^verbatim>\<open>clear\<close>.
\<close>

theorem renderer_failure_final:
  assumes "en_track0 e = Some c" and "released c"
  shows "\<exists>c'. en_track0 (fold (engine_exec E) ops e) = Some c' \<and> released c' \<and>
    only_cleared (env_player E) (ct_player c) (ct_player c')"
proof -
  have "dead (env_player E) (ct_player c) (fold (engine_exec E) ops e1)" if "dead (env_player E) (ct_player c) e1" for e1
    using that by (induction ops arbitrary: e1) (auto intro: dead_exec)
  moreover have "dead (env_player E) (ct_player c) e"
    using assms only_cleared.untouched by (auto simp: dead_def)
  ultimately show ?thesis by (auto simp: dead_def)
qed

theorem renderer_failure_final_witness:
  "\<exists>c'. en_track0 (fold (engine_exec sample_env) [EWalk PetFacing.LEFT, EStartAutonomous]
      (sample_engine (Some (snd (contain_preflight_failure sample_player CancelReason.RENDERER_FAILURE sample_controller)))))
    = Some c' \<and> released c'"
proof -
  let ?c = "snd (contain_preflight_failure sample_player CancelReason.RENDERER_FAILURE sample_controller)"
  have "released ?c"
    by (rule contain_result [OF sample_controller_inv, of sample_player CancelReason.RENDERER_FAILURE]) simp
  from renderer_failure_final [of "sample_engine (Some ?c)", OF _ this, of sample_env
      "[EWalk PetFacing.LEFT, EStartAutonomous]"] show ?thesis by (simp del: fold_simps) blast
qed

section \<open>Where the code and its intent part\<close>

text \<open>A pet in any lifecycle can be proposed to resume: the proposal never looks at where it starts.\<close>

lemma propose_resume:
  assumes "sm_valid m"
  obtains args and reason and p :: ProposedStateTransition where "event_plan fb PetAnimationEventType.RESUME fc
      = Inr (args, Some SequenceName.PRODUCTION_RELAX, reason)" and "no_running_args args"
    and "propose m args = Inr p" and "target_epoch p = sm_epoch m + 1"
    and "target_state p = \<lparr>lifecycle = PetLifecycleState.ACTIVE, motion = PetMotionState.IDLE,
      behaviors = {PetBehaviorState.BREATHING}, facing = sm_facing m, activity = PetActivityState.NONE\<rparr>"
proof -
  let ?args = "no_args\<lparr>arg_lifecycle := Some PetLifecycleState.ACTIVE,
      arg_motion := Some PetMotionState.IDLE, arg_activity := Some PetActivityState.NONE\<rparr>"
  let ?s = "\<lparr>lifecycle = PetLifecycleState.ACTIVE, motion = PetMotionState.IDLE,
      behaviors = {PetBehaviorState.BREATHING}, facing = sm_facing m, activity = PetActivityState.NONE\<rparr>"
  have mk: "mk_PetLayeredState PetLifecycleState.ACTIVE PetMotionState.IDLE {PetBehaviorState.BREATHING} (sm_facing m)
      PetActivityState.NONE = Inr ?s"
    using mk_PetLayeredState_ok [of ?s] by (simp add: layered_ok_def idle_behaviors_ok_def)
  have "propose m ?args = Inr \<lparr>source_state = raw_state m, target_state = ?s, source_epoch = sm_epoch m,
      target_epoch = sm_epoch m + 1, mandatory_for_safety = False\<rparr>"
    using mk snapshot_valid [OF assms]
    by (simp add: propose_def propose_target_def or_else_simps no_args_def behaviors_for_activity_def
        legacy_behavior_for_activity_def Let_def)
  from that [OF _ _ this] show thesis by (simp add: no_running_args_def)
qed

definition relax_playable :: "'p AnimationPlayer \<Rightarrow> 'p PetTrack0Controller \<Rightarrow> bool" where
  "relax_playable P c \<longleftrightarrow> (\<forall>q. sequence_name q = SequenceName.PRODUCTION_RELAX \<and>
     interruption_class q = InterruptClass.NORMAL_ACTION \<and> \<not> protected q \<longrightarrow>
     (\<exists>entry. preflight P q c = Inr \<lparr>pf_outcome = ActionOutcome.ACCEPTED, pf_entry = Some entry\<rparr>))"

text \<open>
  \<^verbatim>\<open>resume\<close> reopens a pet that is closing. With Track 0 sequencing it commits the \<^verbatim>\<open>ACTIVE\<close> lifecycle
  from \<^verbatim>\<open>CLOSING\<close>, while the state machine's own \<^verbatim>\<open>resume\<close>, which the engine calls without
  sequencing, refuses everything but \<^verbatim>\<open>PAUSED\<close>.
\<close>

theorem resume_reopens_closing_pet:
  assumes "random_source_ok (env_random E)" and "engine_inv e" and "en_track0 e = Some c"
    and "ct_active_request c = None" and "health (ct_state c) = PlaybackHealth.HEALTHY"
    and "relax_playable (env_player E) c" and "lifecycle_of (en_motion e) = PetLifecycleState.CLOSING"
  shows "(\<exists>oc e'. handle_event E (plain_event PetAnimationEventType.RESUME t) e = (Inr oc, e') \<and>
      lifecycle_of (en_motion e') = PetLifecycleState.ACTIVE) \<and>
    motion_resume (en_motion e) = (Inl PetStateTransitionError, en_motion e)"
proof -
  let ?ev = "plain_event PetAnimationEventType.RESUME t"
  obtain args reason p where p: "event_plan (en_relax_fallback e) PetAnimationEventType.RESUME (ae_facing ?ev)
      = Inr (args, Some SequenceName.PRODUCTION_RELAX, reason)" "no_running_args args"
      "propose (mm_states (en_motion e)) args = Inr p" "target_epoch p = sm_epoch (mm_states (en_motion e)) + 1"
      "target_state p = \<lparr>lifecycle = PetLifecycleState.ACTIVE, motion = PetMotionState.IDLE,
        behaviors = {PetBehaviorState.BREATHING}, facing = sm_facing (mm_states (en_motion e)), activity = PetActivityState.NONE\<rparr>"
    by (rule propose_resume [OF engine_inv_valid [OF assms(2)]])
  obtain entry where entry: "SEQUENCE_CATALOG SequenceName.PRODUCTION_RELAX = Some entry"
      "entry_interruption_class entry = InterruptClass.NORMAL_ACTION" "\<not> entry_protected entry"
      "first_action entry = PetActionName.IDLE"
    using production_catalog [of ProductionAction.RELAX] by (auto simp: production_protected_actions_def)
  let ?q = "event_request ?ev SequenceName.PRODUCTION_RELAX entry (target_epoch p)"
  obtain entry' where "preflight (env_player E) ?q c = Inr \<lparr>pf_outcome = ActionOutcome.ACCEPTED, pf_entry = Some entry'\<rparr>"
    using assms(6) [unfolded relax_playable_def, rule_format, of ?q] entry(2,3) by (auto simp: event_request_def)
  then have pf: "preflight (env_player E) ?q c = Inr \<lparr>pf_outcome = ActionOutcome.ACCEPTED, pf_entry = Some entry\<rparr>"
    by (cases rule: preflight_cases [OF ctrl_inv_static [OF engine_inv_ctrl [OF assms(2,3)]], of "env_player E" ?q])
      (use entry(1) in \<open>auto simp: event_request_def\<close>)
  have comp: "assert_animation_compatible (target_state p) (Some (first_action entry)) (health (ct_state c)) = Inr ()"
    using propose_target_ok [OF p(3)] by (simp add: assert_compatible_iff p(5) assms(5) entry(4) STATE_ACTION_COMPATIBILITY_def)
  have start: "handle_event E ?ev e = event_transaction E ?ev p SequenceName.PRODUCTION_RELAX reason c e"
    using p(1,3) assms(3)
    by (auto simp: handle_event_unfold propose_event_def plain_event_def interrupted_def mandatory_interruption_events_def)
  have lc: "lifecycle_of (en_motion e') = PetLifecycleState.ACTIVE" if "event_committed p e'" for e'
    using that p(5) raw_state_sel(1) unfolding event_committed_def by (metis PetLayeredState.select_convs(1))
  have "\<exists>oc e'. handle_event E ?ev e = (Inr oc, e') \<and> lifecycle_of (en_motion e') = PetLifecycleState.ACTIVE"
    using assms(1,2,3) p(3,2) entry(1)
  proof (cases rule: event_transaction_cases [where ev = ?ev and reason = reason])
    case (outranked ctx d)
    then show ?thesis using assms(4) by (auto simp: decide_def)
  next
    case (refused oc)
    then show ?thesis using comp pf by blast
  next
    case (committed oc e')
    then show ?thesis using start lc by auto
  qed (use entry(2) in auto)
  moreover have "motion_resume (en_motion e) = (Inl PetStateTransitionError, en_motion e)"
    using assms(7) by (simp add: motion_resume_def resume_def raise_if_def)
  ultimately show ?thesis by blast
qed

definition closing_engine :: "(nat, nat) PetAnimationEngine" where
  "closing_engine = (sample_engine (Some sample_controller))\<lparr>en_motion := idle_model\<lparr>mm_states :=
     \<lparr>sm_lifecycle = PetLifecycleState.CLOSING, sm_motion = PetMotionState.IDLE, sm_behaviors = {},
      sm_facing = PetFacing.RIGHT, sm_activity = PetActivityState.NONE, sm_epoch = 4\<rparr>\<rparr>\<rparr>"

lemma closing_engine_inv: "engine_inv closing_engine"
  using idle_model_inv sample_controller_inv sample_controller_free
  by (simp add: engine_inv_def closing_engine_def track0_inv_def body_inv_def motion_inv_def not_running_def
      sm_valid_def layered_ok_def raw_state_def)

lemma sample_relax_playable: "relax_playable sample_player sample_controller"
proof -
  obtain entry where "SEQUENCE_CATALOG SequenceName.PRODUCTION_RELAX = Some entry" "entry_track entry = 0"
      "entry_interruption_class entry = InterruptClass.NORMAL_ACTION" "\<not> entry_protected entry"
      "\<forall>st \<in> set (seq_steps (entry_sequence entry)). expected_track (step_action st) = 0"
    by (simp add: SEQUENCE_CATALOG_def catalog_eval expected_track_def)
  then show ?thesis
    by (auto simp: relax_playable_def preflight_def sample_player_def sequencing_enabled_def
        validate_sequence_def validate_track_sequence_def sample_controller_def new_controller_def
        any_step_registry_ok [OF sample_registry_ok(1)] sample_registry_def)
qed

theorem resume_reopens_closing_pet_witness:
  "lifecycle_of (en_motion closing_engine) = PetLifecycleState.CLOSING \<and>
   (\<exists>oc e'. handle_event sample_env (plain_event PetAnimationEventType.RESUME 9) closing_engine = (Inr oc, e') \<and>
      lifecycle_of (en_motion e') = PetLifecycleState.ACTIVE)"
proof -
  have t: "en_track0 closing_engine = Some sample_controller"
    and l: "lifecycle_of (en_motion closing_engine) = PetLifecycleState.CLOSING" by (simp_all add: closing_engine_def)
  have "health (ct_state sample_controller) = PlaybackHealth.HEALTHY"
    by (simp add: sample_controller_def new_controller_def)
  from resume_reopens_closing_pet [OF sample_env_ok closing_engine_inv t sample_controller_free this _ l, of 9]
  show ?thesis using l by (simp add: sample_relax_playable)
qed

text \<open>The two timers behind the random actions, both run out.\<close>

definition expired :: "('p, 'r) PetAnimationEngine \<Rightarrow> bool" where
  "expired e \<longleftrightarrow> en_action_remaining e \<le> 0 \<and> en_next_random_action e \<le> 0"

lemma expired_timed: "timed_as (timers e) r \<Longrightarrow> expired (snd r) = expired e"
  by (auto simp: timed_as_def timers_def expired_def)

lemma expired_plain [simp]:
  "expired (snd (on_motion f e)) = expired e" "expired (snd (on_states g e)) = expired e"
  "expired (e\<lparr>en_blink_elapsed := x\<rparr>) = expired e" "expired (e\<lparr>en_next_blink := x\<rparr>) = expired e"
  "expired (e\<lparr>en_motion := m\<rparr>) = expired e" "expired (new_blink_interval E e) = expired e"
  by (auto simp: expired_def on_motion_def on_states_def with_res_def new_blink_interval_def split: prod.splits sum.splits)

lemma expired_sbind:
  assumes "expired (snd r)" and "\<And>v e1. r = (Inr v, e1) \<Longrightarrow> expired e1 \<Longrightarrow> expired (snd (f v e1))"
  shows "expired (snd (sbind r f))"
  using assms by (auto simp: sbind_def split: prod.splits sum.splits)

lemma expired_with_res: "expired e \<Longrightarrow> (\<And>v. expired (snd (f v))) \<Longrightarrow> expired (snd (with_res r e f))"
  by (cases r) simp_all

lemma expired_random:
  assumes "production_sequencing_enabled E e" and "expired e" and "0 \<le> dt"
  shows "expired (snd (advance_random_action E dt e))"
proof -
  let ?e = "\<lambda>r. e\<lparr>en_next_random_action := en_next_random_action e - dt, en_rng := r\<rparr>"
  have e: "expired (?e r)" for r using assms(2,3) by (simp add: expired_def)
  have "expired (snd (handle_new_event E mk (?e r)))" for mk r
    using e expired_timed [OF timed_new_event [OF refl]] by blast
  moreover have "production_sequencing_enabled E (?e r)" for r
    using assms(1) by (simp add: production_sequencing_enabled_def cong: option.case_cong)
  ultimately show ?thesis
    using assms(2,3) unfolding advance_random_action_def Let_def request_walk_def request_thinking_animation_def
    by (auto intro!: expired_with_res expired_sbind split: prod.splits) (auto simp: expired_def)
qed

lemma blink_track0: "en_track0 (snd (advance_blink E dt e)) = en_track0 e"
proof -
  have "en_track0 (snd (on_states f e1)) = en_track0 e1" for f and e1 :: "('a, 'b) PetAnimationEngine"
    by (cases "f (mm_states (en_motion e1))") (simp_all add: on_states_def)
  then show ?thesis
    by (auto simp: advance_blink_def Let_def with_res_def sbind_def new_blink_interval_def on_states_def
        split: sum.splits prod.splits)
qed

lemma expired_timers:
  assumes "production_sequencing_enabled E e" and "expired e" and "0 \<le> dt"
  shows "expired (snd (advance_timers E dt e))"
proof -
  have "advance_action E dt e = (Inr (), e)" using assms(2) by (simp add: advance_action_def expired_def)
  moreover have "expired (snd (advance_blink E dt e))"
    using assms(2) unfolding advance_blink_def Let_def by (auto intro!: expired_with_res expired_sbind)
  moreover have "production_sequencing_enabled E (snd (advance_blink E dt e))"
    using assms(1) blink_track0 [of E dt e] by (simp add: production_sequencing_enabled_def)
  ultimately show ?thesis
    using expired_random [of E _ dt] assms(3) by (auto simp: advance_timers_def intro!: expired_sbind)
qed

lemma expired_motion:
  assumes "expired e"
  shows "expired (snd (advance_motion E dt wss e))" "expired (snd (advance_turn E ms e))"
proof -
  have recov: "expired (snd (finish_relax_motion_recovery E e1))" "expired (snd (recover_explicit_boundary E e1))"
    "expired (snd (commit_workspace_boundary_turn E d e1))" if "expired e1" for e1 d
    using that expired_timed [OF timed_boundary_turns(3) [OF refl]] expired_timed [OF timed_boundary_turns(1) [OF refl]]
      expired_timed [OF timed_boundary_turns(2) [OF refl]] by blast+
  show "expired (snd (advance_motion E dt wss e))"
    using assms unfolding advance_motion_def by (auto intro!: expired_with_res expired_sbind recov)
  show "expired (snd (advance_turn E ms e))"
    using assms unfolding advance_turn_def take_pending_direction_turn_def boundary_turn_def Let_def
    by (auto intro!: expired_sbind recov split: option.splits)
qed

text \<open>
  With Track 0 sequencing the interval between random actions is drawn once, at construction,
  and never again: when both timers have run out they stay so through every frame, raising or not,
  so every later frame of an idle, breathing pet draws and requests another action at once.
\<close>

theorem random_action_never_rearmed:
  assumes "production_sequencing_enabled E e" and "expired e" and "0 \<le> dt"
    and "mk_PetAnimationConfig (en_config e) = Inr (en_config e)"
  shows "expired (snd (advance E dt wss e)) \<and>
    (idle_breathing (en_motion e) \<and> engine_inv e \<longrightarrow>
      (\<exists>sel r. randrange (env_random E) 3 (en_rng e) = (sel, r) \<and>
        advance_random_action E dt e =
          sbind (let e1 = e\<lparr>en_next_random_action := en_next_random_action e - dt, en_rng := r\<rparr> in
            if sel = 0 then request_walk E PetFacing.LEFT e1
            else if sel = 1 then request_walk E PetFacing.RIGHT e1
            else request_thinking_animation E e1) (\<lambda>_ e2. (Inr (), e2))))"
proof (intro conjI impI)
  let ?dt = "min dt (maximum_delta_seconds (en_config e))"
  let ?e = "e\<lparr>en_last_applied_delta := ?dt, en_animation_time := en_animation_time e + ?dt\<rparr>"
  have dt: "0 \<le> ?dt" using assms(3,4) by (auto simp: config_ok_iff config_positive_def)
  have e: "expired ?e" "expired (e\<lparr>en_last_applied_delta := 0\<rparr>)" using assms(2) by (simp_all add: expired_def)
  have "production_sequencing_enabled E ?e"
    using assms(1) by (simp add: production_sequencing_enabled_def cong: option.case_cong)
  from expired_timers [OF this e(1) dt] show "expired (snd (advance E dt wss e))"
    using assms(2) e unfolding advance_def Let_def
    by (auto intro!: expired_with_res expired_sbind expired_motion)
next
  assume idle: "idle_breathing (en_motion e) \<and> engine_inv e"
  obtain sel r where "randrange (env_random E) 3 (en_rng e) = (sel, r)" by fastforce
  moreover have "sm_valid (mm_states (en_motion e))" using idle engine_inv_valid by blast
  ultimately show "\<exists>sel r. randrange (env_random E) 3 (en_rng e) = (sel, r) \<and>
      advance_random_action E dt e =
        sbind (let e1 = e\<lparr>en_next_random_action := en_next_random_action e - dt, en_rng := r\<rparr> in
          if sel = 0 then request_walk E PetFacing.LEFT e1
          else if sel = 1 then request_walk E PetFacing.RIGHT e1
          else request_thinking_animation E e1) (\<lambda>_ e2. (Inr (), e2))"
    using idle assms(2,3) by (auto simp: advance_random_action_def idle_breathing_def expired_def)
qed

theorem random_action_never_rearmed_witness:
  "expired (snd (advance sample_env 1 [sample_workspace] ((sample_engine (Some sample_controller))\<lparr>en_next_random_action := 0\<rparr>)))"
  by (rule random_action_never_rearmed [THEN conjunct1])
    (simp_all add: default_animation_config_ok, simp_all add: expired_def production_sequencing_enabled_def sample_player_def
      sequencing_enabled_def sample_engine_def new_engine_def Let_def split: prod.splits)

text \<open>The track is free or owned by an action that may loop.\<close>

definition loops :: "('p, 'r) PetAnimationEngine \<Rightarrow> bool" where
  "loops e \<longleftrightarrow> (\<exists>c. en_track0 e = Some c \<and> (\<forall>q. ct_active_request c = Some q \<longrightarrow>
     (\<exists>a. a \<notin> production_protected_actions \<and> sequence_name q = production_sequence a)))"

lemma loops_free: "en_track0 e = Some c \<Longrightarrow> ct_active_request c = None \<Longrightarrow> loops e"
  by (simp add: loops_def)

lemma submit_loops:
  assumes "engine_inv e" and "loops e" and "a \<notin> production_protected_actions"
    and "i = \<lparr>intent_action = a, intent_origin = ActionOrigin.AUTONOMOUS, intent_source = ActionSource.SCHEDULER, intent_token = t\<rparr>"
  shows "loops (snd (submit_production_intent E i ov e))"
proof -
  have "intent_source i \<in> sources_by_origin (intent_origin i)" using assms(4) by simp
  with assms(1) show ?thesis
  proof (cases rule: submit_cases [where E = E and ov = ov])
    case ends
    then show ?thesis
      using assms(2,3,4)
      by (auto simp: submit_ends_def loops_def plays_def stopped_def owned_def released_def)
  qed (use assms(2) in \<open>auto simp: loops_def deferred_def\<close>)
qed

lemma submit_and_activate_loops:
  assumes "engine_inv e" and "loops e" and "a \<notin> production_protected_actions"
  shows "loops (snd (submit_and_activate E a ov e))"
proof -
  let ?e = "e\<lparr>en_fresh := Suc (en_fresh e)\<rparr>"
  have "loops ?e" using assms(2) by (simp add: loops_def)
  then have sub: "loops (snd (submit_new E a ActionOrigin.AUTONOMOUS ActionSource.SCHEDULER ov e))"
    using submit_loops [OF _ _ assms(3) refl, of ?e E "en_fresh e" ov] assms(1)
    by (simp add: submit_new_def new_object_def mk_ActionIntent_def validate_action_authority_def)
  have act: "loops (snd (activate_autonomous E a e1)) = loops e1" for e1
    by (auto simp: loops_def activate_autonomous_def Let_def with_res_def suspend_def
        split: option.splits prod.splits sum.splits)
  obtain x e1 where e1: "submit_new E a ActionOrigin.AUTONOMOUS ActionSource.SCHEDULER ov e = (x, e1)" by fastforce
  have "loops e1" "loops (suspend e1)" using sub e1 by (simp_all add: loops_def)
  moreover obtain y e2 where e2: "activate_autonomous E a e1 = (y, e2)" by fastforce
  ultimately have "loops e2" using act [of e1] by simp
  with \<open>loops e1\<close> \<open>loops (suspend e1)\<close> show ?thesis
    using e1 e2 by (cases x; cases y) (simp_all add: submit_and_activate_def)
qed

lemma resume_loops:
  assumes "engine_inv e" and "en_track0 e = Some c"
  shows "loops (snd (resume_autonomous E source e))"
proof -
  let ?e1 = "(suspend (clear_protected_continuation e))\<lparr>en_active_action := None\<rparr>"
  have k1: "keeps e ?e1" using assms(1) by simp
  obtain oc c' where cl: "track0_clear E CancelReason.USER_INTERRUPT c ?e1 = (oc, ?e1\<lparr>en_track0 := Some c'\<rparr>)"
      "keeps ?e1 (?e1\<lparr>en_track0 := Some c'\<rparr>)" "ct_active_request c' = None"
    by (rule track0_clear_result [OF keeps_inv [OF k1], of c]) (simp add: assms(2))
  define e2 where "e2 = (if ct_active_request c \<noteq> None then ?e1\<lparr>en_track0 := Some c'\<rparr> else ?e1)"
  have inv: "engine_inv e2" using keeps_inv [OF k1] keeps_inv [OF cl(2)] by (simp add: e2_def)
  have lp: "loops e2" using cl(3) assms(2) by (auto simp: e2_def intro!: loops_free)
  have relax: "ProductionAction.RELAX \<notin> production_protected_actions" by (simp add: production_protected_actions_def)
  have go: "loops (snd (case en_resume_action e of None \<Rightarrow> start_autonomous E e2 | Some a \<Rightarrow> submit_and_activate E a None e2))"
    using submit_and_activate_loops [OF inv lp] relax lp assms(1)
    by (auto simp: start_autonomous_def recover_autonomous_relax_def engine_inv_def split: option.splits)
  have "loops (snd (checked oc' e2))" for oc'
    using lp by (cases "assert_transaction_compatible e2") (simp_all add: checked_def)
  with go show ?thesis
    using cl(1) assms(2) by (cases "en_resume_action e") (auto simp: resume_autonomous_def e2_def Let_def split: if_splits)
qed

text \<open>
  \<^verbatim>\<open>resume_autonomous\<close> does not wait for a protected action: it returns, and afterwards the track is
  free or owned by a looping action that the scheduler may keep. The design document has it
  wait for the protected action's completion.
\<close>

theorem resume_autonomous_ends_protected:
  assumes "random_source_ok (env_random E)" and "engine_inv e" and "en_track0 e = Some c"
  shows "\<exists>oc e'. resume_autonomous E source e = (Inr oc, e') \<and> engine_inv e' \<and> loops e'"
  using resume_loops [OF assms(2,3), of E source] resume_autonomous_returns [OF assms(1,2), of source] keeps_inv
  by (auto simp: returns_def)

theorem resume_autonomous_ends_protected_witness:
  "\<exists>oc e'. resume_autonomous sample_env ActionSource.TRAY (sample_engine (Some sample_controller)) = (Inr oc, e') \<and> loops e'"
  using resume_autonomous_ends_protected [OF sample_env_ok sample_engine_inv, of sample_controller ActionSource.TRAY] by auto

end
