(* ===== verification/Pointer_Gesture.thy ===== *)
theory Pointer_Gesture
  imports Geometry
begin

text \<open>
  The click-or-drag transaction of the pet window, \<^verbatim>\<open>presentation/pet_pointer_gesture.py\<close>: the drag
  threshold is read at the press, and each pointer event yields one semantic decision.
\<close>

section \<open>State\<close>

datatype PointerGestureState = IDLE | PENDING | DRAGGING

datatype GestureDecision =
  NONE | BEGIN_DRAG | DRAG | CLICK | CANCEL_PENDING | RELEASE_ACTIVE_DRAG | ABORT_ACTIVE_DRAG

datatype GestureCancelReason =
  POINTER_CAPTURE_LOST | WINDOW_HIDDEN | PAUSE_REQUESTED | RENDERER_DEGRADED | PLAYBACK_DEGRADED | CLOSING

record PetPointerGesture =
  pg_state :: PointerGestureState
  pg_press_local :: "Point option"
  pg_press_global :: "Point option"
  pg_session_drag_threshold :: "real option"
  pg_maximum_distance :: real

definition new_gesture :: PetPointerGesture where
  "new_gesture =
    \<lparr>pg_state = PointerGestureState.IDLE, pg_press_local = None, pg_press_global = None,
     pg_session_drag_threshold = None, pg_maximum_distance = 0\<rparr>"

section \<open>Operations\<close>

definition gesture_reset :: "PetPointerGesture \<Rightarrow> PetPointerGesture" where
  "gesture_reset g =
    g\<lparr>pg_state := PointerGestureState.IDLE, pg_press_local := None, pg_press_global := None,
      pg_session_drag_threshold := None, pg_maximum_distance := 0\<rparr>"

definition gesture_cancel ::
    "GestureCancelReason \<Rightarrow> PetPointerGesture \<Rightarrow> GestureDecision \<times> PetPointerGesture" where
  "gesture_cancel cause g =
    (if pg_state g = PointerGestureState.IDLE then (NONE, g)
     else (if pg_state g = PENDING then CANCEL_PENDING
           else if cause = POINTER_CAPTURE_LOST then RELEASE_ACTIVE_DRAG
           else ABORT_ACTIVE_DRAG, gesture_reset g))"

definition gesture_press ::
    "Point \<Rightarrow> Point \<Rightarrow> pyfloat \<Rightarrow> PetPointerGesture \<Rightarrow> (GestureDecision, PetPointerGesture) sres" where
  "gesture_press local_point global_point drag_threshold g =
    (if \<not> isfinite drag_threshold \<or> float_value drag_threshold \<le> 0
     then (Inl (ValueError ''drag threshold must be finite and positive''), g)
     else
       let g1 = (if pg_state g \<noteq> PointerGestureState.IDLE then snd (gesture_cancel CLOSING g) else g)
       in (Inr NONE,
           g1\<lparr>pg_state := PENDING, pg_press_local := Some local_point, pg_press_global := Some global_point,
              pg_session_drag_threshold := Some (float_value drag_threshold), pg_maximum_distance := 0\<rparr>))"

text \<open>The distance is the sum of the two coordinate distances, as Qt's \<^verbatim>\<open>manhattanLength\<close>.\<close>

definition gesture_distance :: "Point \<Rightarrow> Point \<Rightarrow> real" where
  "gesture_distance start p = \<bar>px p - px start\<bar> + \<bar>py p - py start\<bar>"

definition gesture_move :: "Point \<Rightarrow> PetPointerGesture \<Rightarrow> GestureDecision \<times> PetPointerGesture" where
  "gesture_move global_point g =
    (if pg_state g = PointerGestureState.IDLE then (NONE, g)
     else if pg_state g = PointerGestureState.DRAGGING then (DRAG, g)
     else case (pg_press_global g, pg_session_drag_threshold g) of
       (Some start, Some threshold) \<Rightarrow>
         let distance = gesture_distance start global_point;
             g1 = g\<lparr>pg_maximum_distance := max (pg_maximum_distance g) distance\<rparr>
         in if pg_maximum_distance g1 < threshold then (NONE, g1)
            else (BEGIN_DRAG, g1\<lparr>pg_state := PointerGestureState.DRAGGING\<rparr>)
     | _ \<Rightarrow> (NONE, g))"

definition gesture_release :: "Point \<Rightarrow> PetPointerGesture \<Rightarrow> GestureDecision \<times> PetPointerGesture" where
  "gesture_release global_point g =
    (if pg_state g = PointerGestureState.IDLE then (NONE, g)
     else
       let g1 = (if pg_state g = PENDING then snd (gesture_move global_point g) else g)
       in (if pg_state g1 = PointerGestureState.DRAGGING then RELEASE_ACTIVE_DRAG else CLICK,
           gesture_reset g1))"

section \<open>One gesture\<close>

text \<open>The decisions of the moves between a press and its release.\<close>

fun gesture_moves :: "Point list \<Rightarrow> PetPointerGesture \<Rightarrow> GestureDecision list \<times> PetPointerGesture" where
  "gesture_moves [] g = ([], g)"
| "gesture_moves (p # ps) g =
     (case gesture_move p g of (d, g1) \<Rightarrow>
      case gesture_moves ps g1 of (ds, g2) \<Rightarrow> (d # ds, g2))"

text \<open>A gesture that waits for the pointer to leave the circle around its press.\<close>

definition pending_at :: "Point \<Rightarrow> real \<Rightarrow> PetPointerGesture \<Rightarrow> bool" where
  "pending_at start t g \<longleftrightarrow> pg_state g = PENDING \<and> pg_press_global g = Some start
     \<and> pg_session_drag_threshold g = Some t \<and> pg_maximum_distance g < t"

lemma press_pending:
  assumes "0 < t"
  shows "\<exists>g1. gesture_press loc start (Finite t) g = (Inr NONE, g1) \<and> pending_at start t g1"
  using assms by (simp add: gesture_press_def pending_at_def Let_def)

lemma move_dragging: "pg_state g = PointerGestureState.DRAGGING \<Longrightarrow> gesture_move p g = (DRAG, g)"
  by (simp add: gesture_move_def)

lemma move_pending:
  assumes "pending_at start t g"
  shows "if gesture_distance start p < t
    then fst (gesture_move p g) = NONE \<and> pending_at start t (snd (gesture_move p g))
    else fst (gesture_move p g) = BEGIN_DRAG \<and> pg_state (snd (gesture_move p g)) = PointerGestureState.DRAGGING"
  using assms by (auto simp: gesture_move_def pending_at_def Let_def)

lemma moves_dragging:
  "pg_state g = PointerGestureState.DRAGGING \<Longrightarrow> gesture_moves ps g = (replicate (length ps) DRAG, g)"
  by (induction ps) (simp_all add: move_dragging)

text \<open>The decisions that the moves call for: nothing inside the circle, then one begin, then drags.\<close>

fun expected_decisions :: "Point \<Rightarrow> real \<Rightarrow> Point list \<Rightarrow> GestureDecision list" where
  "expected_decisions start t [] = []"
| "expected_decisions start t (p # ps) =
     (if gesture_distance start p < t then NONE # expected_decisions start t ps
      else BEGIN_DRAG # replicate (length ps) DRAG)"

lemma moves_pending:
  assumes "pending_at start t g"
  shows "fst (gesture_moves ps g) = expected_decisions start t ps
    \<and> (if \<forall>p\<in>set ps. gesture_distance start p < t then pending_at start t (snd (gesture_moves ps g))
       else pg_state (snd (gesture_moves ps g)) = PointerGestureState.DRAGGING)"
  using assms
proof (induction ps arbitrary: g)
  case (Cons p ps)
  obtain d g1 where m: "gesture_move p g = (d, g1)" by (cases "gesture_move p g") auto
  obtain ds g2 where ms: "gesture_moves ps g1 = (ds, g2)" by (cases "gesture_moves ps g1") auto
  show ?case
  proof (cases "gesture_distance start p < t")
    case True
    with move_pending [OF Cons.prems, of p] m have "d = NONE" "pending_at start t g1" by simp_all
    with Cons.IH [of g1] True m ms show ?thesis by (auto split: if_splits)
  next
    case False
    with move_pending [OF Cons.prems, of p] m have "d = BEGIN_DRAG" "pg_state g1 = PointerGestureState.DRAGGING"
      by simp_all
    with moves_dragging [of g1 ps] False m ms show ?thesis by simp
  qed
qed simp

lemma release_pending_gesture:
  assumes "pending_at start t g"
  shows "fst (gesture_release p g) = (if gesture_distance start p < t then CLICK else RELEASE_ACTIVE_DRAG)"
  using assms move_pending [OF assms, of p] by (auto simp: gesture_release_def pending_at_def)

lemma release_dragging:
  "pg_state g = PointerGestureState.DRAGGING \<Longrightarrow> fst (gesture_release p g) = RELEASE_ACTIVE_DRAG"
  by (simp add: gesture_release_def)

lemma release_idle: "pg_state (snd (gesture_release p g)) = PointerGestureState.IDLE"
  by (simp add: gesture_release_def gesture_reset_def Let_def)

section \<open>Click or drag\<close>

text \<open>
  Between a press and its release, the pointer clicks exactly when it never left the circle of the
  threshold read at the press, at no move and not at the release; otherwise it drags. The drag begins
  once, at the first move outside the circle, and continues at every later move, also back inside; and
  the release ends the gesture.
\<close>

theorem click_or_drag:
  assumes "0 < t" and "gesture_press loc start (Finite t) g = (r, g1)"
    and "gesture_moves ps g1 = (ds, g2)" and "gesture_release q g2 = (d, g3)"
  shows "ds = expected_decisions start t ps
    \<and> d = (if \<forall>p\<in>set (ps @ [q]). gesture_distance start p < t then CLICK else RELEASE_ACTIVE_DRAG)
    \<and> pg_state g3 = PointerGestureState.IDLE"
proof -
  have pend: "pending_at start t g1" using press_pending [OF assms(1), of loc start g] assms(2) by auto
  note moved = moves_pending [OF pend, of ps]
  have "d = (if \<forall>p\<in>set (ps @ [q]). gesture_distance start p < t then CLICK else RELEASE_ACTIVE_DRAG)"
  proof (cases "\<forall>p\<in>set ps. gesture_distance start p < t")
    case True
    with moved assms(3) have "pending_at start t g2" by simp
    with release_pending_gesture [of start t g2 q] True assms(4) show ?thesis by simp
  next
    case False
    with moved assms(3) have "pg_state g2 = PointerGestureState.DRAGGING" by simp
    with release_dragging [of g2 q] False assms(4) show ?thesis by auto
  qed
  with moved assms(3,4) release_idle [of q g2] show ?thesis by simp
qed

lemma click_or_drag_witness:
  "\<exists>g1 g2 g3. gesture_press \<lparr>px = 5, py = 5\<rparr> \<lparr>px = 100, py = 100\<rparr> (Finite 10) new_gesture = (Inr NONE, g1)
     \<and> gesture_moves [\<lparr>px = 103, py = 104\<rparr>, \<lparr>px = 110, py = 100\<rparr>, \<lparr>px = 101, py = 100\<rparr>] g1
         = ([NONE, BEGIN_DRAG, DRAG], g2)
     \<and> gesture_release \<lparr>px = 100, py = 100\<rparr> g2 = (RELEASE_ACTIVE_DRAG, g3)
     \<and> pg_state g3 = PointerGestureState.IDLE"
proof -
  let ?ps = "[\<lparr>px = 103, py = 104\<rparr>, \<lparr>px = 110, py = 100\<rparr>, \<lparr>px = 101, py = 100\<rparr>] :: Point list"
  obtain g1 where p: "gesture_press \<lparr>px = 5, py = 5\<rparr> \<lparr>px = 100, py = 100\<rparr> (Finite 10) new_gesture = (Inr NONE, g1)"
    using press_pending [of 10 "\<lparr>px = 5, py = 5\<rparr>" "\<lparr>px = 100, py = 100\<rparr>" new_gesture] by auto
  obtain ds g2 where m: "gesture_moves ?ps g1 = (ds, g2)" by (cases "gesture_moves ?ps g1") auto
  obtain d g3 where r: "gesture_release \<lparr>px = 100, py = 100\<rparr> g2 = (d, g3)"
    by (cases "gesture_release \<lparr>px = 100, py = 100\<rparr> g2") auto
  have "ds = [NONE, BEGIN_DRAG, DRAG] \<and> d = RELEASE_ACTIVE_DRAG \<and> pg_state g3 = PointerGestureState.IDLE"
    using click_or_drag [OF _ p m r] by (simp add: gesture_distance_def)
  with p m r show ?thesis by blast
qed

end
