(* ===== verification/Pet_Window.thy ===== *)
theory Pet_Window
  imports Pointer_Gesture Engine_Run
begin

text \<open>
  The pet window, \<^verbatim>\<open>presentation/qt/pet/pet_window.py\<close>: its event handlers and its frame timer over the
  pointer gesture and the animation engine. What Qt decides is an argument of the handlers: the
  displays at that moment, the positions of the pointer and the drag distance of the platform. So is
  what the renderer decides: its playback events, the layout it plans and whether it has failed.
  Painting is not modelled; a repaint changes no state.
\<close>

section \<open>The request to the renderer\<close>

text \<open>\<^verbatim>\<open>application/pet/pet_renderer_model.py\<close>\<close>

datatype PetRendererAction =
    IDLE | WALK_LEFT | WALK_RIGHT | RUN_LEFT | RUN_RIGHT | SITTING | SLEEP | SPECIAL | INTERACT | WAVE
  | HAPPY_JUMP | THINKING | READING | TYPING | REMINDING | CONFUSED | ANGRY | DRAG_STRUGGLE | FALLING
  | LANDING | PAUSED | CLOSING

record PetRendererActionRequest =
  rq_action :: PetRendererAction
  rq_facing :: PetFacing
  rq_loop :: bool
  rq_normalized_progress :: real

definition action_request_for_frame :: "PetRenderFrame \<Rightarrow> PetRendererActionRequest" where
  "action_request_for_frame fr =
    (let s = fr_state fr in
     \<lparr>rq_action =
        (if lifecycle s = PetLifecycleState.CLOSING then PetRendererAction.CLOSING
         else if lifecycle s = PetLifecycleState.PAUSED then PetRendererAction.PAUSED
         else if motion s = PetMotionState.DRAGGING then PetRendererAction.DRAG_STRUGGLE
         else if motion s = PetMotionState.FALLING then PetRendererAction.FALLING
         else if motion s = PetMotionState.LANDING then PetRendererAction.LANDING
         else if activity s = PetActivityState.SITTING then PetRendererAction.SITTING
         else if activity s = PetActivityState.SLEEPING then PetRendererAction.SLEEP
         else if activity s = PetActivityState.SPECIAL then PetRendererAction.SPECIAL
         else if activity s = PetActivityState.INTERACT then PetRendererAction.INTERACT
         else if PetBehaviorState.REMINDING \<in> behaviors s then PetRendererAction.REMINDING
         else if motion s = PetMotionState.WALKING_LEFT then PetRendererAction.WALK_LEFT
         else if motion s = PetMotionState.WALKING_RIGHT then PetRendererAction.WALK_RIGHT
         else if PetBehaviorState.THINKING \<in> behaviors s then PetRendererAction.THINKING
         else PetRendererAction.IDLE),
      rq_facing = pi_facing (fr_intent fr), rq_loop = pi_loop (fr_intent fr),
      rq_normalized_progress = min 1 (max 0 (pi_progress (fr_intent fr)))\<rparr>)"

section \<open>State\<close>

datatype window_signal = OPEN_AGENT | SAFE_EXIT | STATE_CHANGED | ACTION_PALETTE

text \<open>What the window reads of a planned layout: the body position and the facing it settled on.\<close>

record render_layout =
  rl_x :: pyfloat
  rl_y :: pyfloat
  rl_effective_facing :: PetFacing

datatype plan_result = Plan_Raises | PetRenderLayoutFailure | Planned render_layout

text \<open>The full geometry of each screen next to its available geometry.\<close>

type_synonym screens = "(Rect \<times> Rect) list"

record ('p, 'r) PetWindow =
  pw_engine :: "('p, 'r) PetAnimationEngine"
  pw_gesture :: PetPointerGesture
  pw_drag_offset :: "Point option"
  pw_right_press_pos :: "Point option"
  pw_always_on_top :: bool
  pw_default_always_on_top :: bool
  pw_default_position :: Point
  pw_exit_emitted :: bool
  pw_allow_final_close :: bool
  pw_timer_active :: bool
  pw_last_tick :: real
  pw_available_actions :: "ProductionAction set"
  pw_role_pack_id :: string
  pw_has_source :: bool
  pw_has_overflow :: bool
  pw_active_layout :: "render_layout option"
  pw_layout_workspace :: "Rect option"
  pw_layout_action :: "PetRendererAction option"
  pw_special_facing :: "PetFacing option"
  pw_moved_to :: "int \<times> int"
  pw_signals :: "window_signal list"

definition default_screen :: Rect where
  "default_screen = \<lparr>rx = 0, ry = 0, rwidth = 1920, rheight = 1080\<rparr>"

definition workspaces :: "screens \<Rightarrow> Rect list" where
  "workspaces scr = (if scr = [] then [default_screen] else map fst scr)"

definition select_workspace_display_pair :: "Point \<Rightarrow> Size \<Rightarrow> screens \<Rightarrow> (Rect \<times> Rect) res" where
  "select_workspace_display_pair p win pairs =
    (if pairs = [] then Inr (default_screen, default_screen)
     else ebind (select_workspace p win (map fst pairs)) (\<lambda>selected.
       Inr (pairs ! index_of (map fst pairs) selected)))"

text \<open>Python's \<^verbatim>\<open>round\<close>: to the nearest integer, and from the middle to the even one.\<close>

definition py_round :: "real \<Rightarrow> int" where
  "py_round x =
    (let f = \<lfloor>x\<rfloor>; d = x - of_int f
     in if d < 1 / 2 then f else if d > 1 / 2 then f + 1 else if even f then f else f + 1)"

definition move_window :: "Point \<Rightarrow> ('p, 'r) PetWindow \<Rightarrow> ('p, 'r) PetWindow" where
  "move_window p w = w\<lparr>pw_moved_to := (py_round (px p), py_round (py p))\<rparr>"

definition emit_signal :: "window_signal \<Rightarrow> ('p, 'r) PetWindow \<Rightarrow> ('p, 'r) PetWindow" where
  "emit_signal s w = w\<lparr>pw_signals := pw_signals w @ [s]\<rparr>"

section \<open>Calls into the engine\<close>

definition on_engine ::
    "(('p, 'r) PetAnimationEngine \<Rightarrow> ('a, ('p, 'r) PetAnimationEngine) sres)
      \<Rightarrow> ('p, 'r) PetWindow \<Rightarrow> ('a, ('p, 'r) PetWindow) sres" where
  "on_engine f w = (case f (pw_engine w) of (r, e) \<Rightarrow> (r, w\<lparr>pw_engine := e\<rparr>))"

text \<open>\<^verbatim>\<open>try: ... except PetStateTransitionError: ...\<close> with what follows when nothing is raised.\<close>

definition catch_transition ::
    "('a, 's) sres \<Rightarrow> ('s \<Rightarrow> ('b, 's) sres) \<Rightarrow> ('a \<Rightarrow> 's \<Rightarrow> ('b, 's) sres) \<Rightarrow> ('b, 's) sres" where
  "catch_transition r caught f =
    (case r of
       (Inl e, s) \<Rightarrow> if e = PetStateTransitionError then caught s else (Inl e, s)
     | (Inr v, s) \<Rightarrow> f v s)"

definition window_state :: "('p, 'r) PetWindow \<Rightarrow> PetLayeredState res" where
  "window_state w = mstate (en_motion (pw_engine w))"

definition window_accepts :: "('p, 'r) PetWindow \<Rightarrow> bool res" where
  "window_accepts w = accepts_interaction (en_motion (pw_engine w))"

text \<open>The clock the window shares with its engine.\<close>

definition read_clock :: "('p, 'r) engine_env \<Rightarrow> ('p, 'r) PetWindow \<Rightarrow> real \<times> ('p, 'r) PetWindow" where
  "read_clock E w =
    (env_clock E (en_ticks (pw_engine w)), w\<lparr>pw_engine := (pw_engine w)\<lparr>en_ticks := Suc (en_ticks (pw_engine w))\<rparr>\<rparr>)"

text \<open>The renderer is told the state of the current frame, which the engine may fail to give.\<close>

definition sync_renderer_state :: "('p, 'r) PetWindow \<Rightarrow> (unit, ('p, 'r) PetWindow) sres" where
  "sync_renderer_state w = with_res (frame (pw_engine w)) w (\<lambda>_. (Inr (), w))"

definition cancel_pointer_gesture ::
    "('p, 'r) engine_env \<Rightarrow> screens \<Rightarrow> GestureCancelReason \<Rightarrow> ('p, 'r) PetWindow \<Rightarrow> (unit, ('p, 'r) PetWindow) sres" where
  "cancel_pointer_gesture E scr cause w =
    (case gesture_cancel cause (pw_gesture w) of
       (d, g) \<Rightarrow>
         let w1 = w\<lparr>pw_right_press_pos := None, pw_gesture := g, pw_drag_offset := None\<rparr> in
         if d = RELEASE_ACTIVE_DRAG
         then catch_transition (on_engine (engine_release_drag E (Some (workspaces scr))) w1)
                (\<lambda>w2. (Inr (), w2)) (\<lambda>_ w2. (Inr (), w2))
         else if d = ABORT_ACTIVE_DRAG
         then sbind (on_engine (contain_renderer_failure E) w1) (\<lambda>_ w2. (Inr (), w2))
         else (Inr (), w1))"

section \<open>Requests\<close>

definition toggle_paused ::
    "('p, 'r) engine_env \<Rightarrow> screens \<Rightarrow> ('p, 'r) PetWindow \<Rightarrow> (unit, ('p, 'r) PetWindow) sres" where
  "toggle_paused E scr w =
    with_res (window_state w) w (\<lambda>s.
    if lifecycle s = PetLifecycleState.CLOSING then (Inr (), w)
    else sbind (cancel_pointer_gesture E scr PAUSE_REQUESTED w) (\<lambda>_ w1.
      catch_transition
        (with_res (window_state w1) w1 (\<lambda>s1.
         if lifecycle s1 = PetLifecycleState.PAUSED
         then sbind (on_engine (engine_resume E) w1) (\<lambda>_ w2.
              case read_clock E w2 of (now, w3) \<Rightarrow> (Inr (), w3\<lparr>pw_last_tick := now\<rparr>))
         else sbind (on_engine (engine_pause E) w1) (\<lambda>_ w2. (Inr (), w2))))
        (\<lambda>w2. (Inr (), w2))
        (\<lambda>_ w2. sbind (sync_renderer_state w2) (\<lambda>_ w3. (Inr (), emit_signal STATE_CHANGED w3)))))"

definition set_always_on_top :: "bool \<Rightarrow> ('p, 'r) PetWindow \<Rightarrow> (unit, ('p, 'r) PetWindow) sres" where
  "set_always_on_top enabled w =
    with_res (window_state w) w (\<lambda>s.
    if lifecycle s = PetLifecycleState.CLOSING \<or> enabled = pw_always_on_top w then (Inr (), w)
    else (Inr (), emit_signal STATE_CHANGED (w\<lparr>pw_always_on_top := enabled\<rparr>)))"

definition constrain_window ::
    "screens \<Rightarrow> ('p, 'r) PetWindow \<Rightarrow> (PetMotionSnapshot, ('p, 'r) PetWindow) sres" where
  "constrain_window scr w =
    sbind (on_engine (on_motion (constrain (workspaces scr))) w) (\<lambda>ms w1.
    (Inr ms, move_window (ms_position ms) w1))"

definition restore_window ::
    "Point \<Rightarrow> screens \<Rightarrow> ('p, 'r) PetWindow \<Rightarrow> (unit, ('p, 'r) PetWindow) sres" where
  "restore_window p scr w =
    sbind (on_engine (on_motion (restore_position p (workspaces scr))) w) (\<lambda>ms w1.
    (Inr (), move_window (ms_position ms) w1))"

definition reclaim_to_workspace :: "screens \<Rightarrow> ('p, 'r) PetWindow \<Rightarrow> (unit, ('p, 'r) PetWindow) sres" where
  "reclaim_to_workspace scr w =
    with_res (window_state w) w (\<lambda>s.
    if lifecycle s = PetLifecycleState.CLOSING then (Inr (), w)
    else sbind (constrain_window scr w) (\<lambda>_ w1. (Inr (), w1)))"

definition restore_persisted_position ::
    "int \<Rightarrow> int \<Rightarrow> screens \<Rightarrow> ('p, 'r) PetWindow \<Rightarrow> (unit, ('p, 'r) PetWindow) sres" where
  "restore_persisted_position x y scr w =
    with_res (window_state w) w (\<lambda>s.
    if lifecycle s = PetLifecycleState.CLOSING then (Inr (), w)
    else restore_window \<lparr>px = of_int x, py = of_int y\<rparr> scr w)"

definition persisted_presentation_state ::
    "screens \<Rightarrow> ('p, 'r) PetWindow \<Rightarrow> (int \<times> int \<times> bool, ('p, 'r) PetWindow) sres" where
  "persisted_presentation_state scr w =
    sbind (constrain_window scr w) (\<lambda>ms w1.
    (Inr (py_round (px (ms_position ms)), py_round (py (ms_position ms)), pw_always_on_top w1), w1))"

definition restore_builtin_presentation_defaults ::
    "screens \<Rightarrow> ('p, 'r) PetWindow \<Rightarrow> (unit, ('p, 'r) PetWindow) sres" where
  "restore_builtin_presentation_defaults scr w =
    restore_window (pw_default_position w) scr (w\<lparr>pw_always_on_top := pw_default_always_on_top w\<rparr>)"

definition request_safe_exit ::
    "('p, 'r) engine_env \<Rightarrow> screens \<Rightarrow> ('p, 'r) PetWindow \<Rightarrow> (unit, ('p, 'r) PetWindow) sres" where
  "request_safe_exit E scr w =
    (if pw_exit_emitted w then (Inr (), w)
     else sbind (cancel_pointer_gesture E scr GestureCancelReason.CLOSING w) (\<lambda>_ w1.
       catch_transition (on_engine (engine_begin_closing E) w1)
         (\<lambda>w2. (Inr (), w2))
         (\<lambda>_ w2. sbind (sync_renderer_state (w2\<lparr>pw_exit_emitted := True, pw_drag_offset := None\<rparr>)) (\<lambda>_ w3.
           (Inr (), emit_signal SAFE_EXIT (emit_signal STATE_CHANGED (w3\<lparr>pw_timer_active := False\<rparr>)))))))"

definition recover_from_failed_close ::
    "('p, 'r) engine_env \<Rightarrow> ('p, 'r) PetWindow \<Rightarrow> (unit, ('p, 'r) PetWindow) sres" where
  "recover_from_failed_close E w =
    with_res (window_state w) w (\<lambda>s.
    if lifecycle s \<noteq> PetLifecycleState.CLOSING then (Inr (), w)
    else sbind (on_engine engine_recover_failed_close w) (\<lambda>_ w1.
      sbind (sync_renderer_state w1) (\<lambda>_ w2.
      case read_clock E (w2\<lparr>pw_exit_emitted := False\<rparr>) of
        (now, w3) \<Rightarrow> (Inr (), emit_signal STATE_CHANGED (w3\<lparr>pw_last_tick := now, pw_timer_active := True\<rparr>)))))"

definition complete_safe_close :: "('p, 'r) PetWindow \<Rightarrow> ('p, 'r) PetWindow" where
  "complete_safe_close w = w\<lparr>pw_allow_final_close := True, pw_timer_active := False\<rparr>"

text \<open>Whether the event is accepted; the final close stops the timer once more.\<close>

definition close_event ::
    "('p, 'r) engine_env \<Rightarrow> screens \<Rightarrow> ('p, 'r) PetWindow \<Rightarrow> (bool, ('p, 'r) PetWindow) sres" where
  "close_event E scr w =
    (if pw_allow_final_close w then (Inr True, w\<lparr>pw_timer_active := False\<rparr>)
     else sbind (request_safe_exit E scr w) (\<lambda>_ w1. (Inr False, w1)))"

definition hide_event ::
    "('p, 'r) engine_env \<Rightarrow> screens \<Rightarrow> ('p, 'r) PetWindow \<Rightarrow> (unit, ('p, 'r) PetWindow) sres" where
  "hide_event E scr w = cancel_pointer_gesture E scr WINDOW_HIDDEN w"

text \<open>The three legacy animations, refused without an exception.\<close>

definition request_animation ::
    "(('p, 'r) PetAnimationEngine \<Rightarrow> (ActionOutcome, ('p, 'r) PetAnimationEngine) sres)
      \<Rightarrow> ('p, 'r) PetWindow \<Rightarrow> (bool, ('p, 'r) PetWindow) sres" where
  "request_animation f w =
    catch_transition (on_engine f w) (\<lambda>w1. (Inr False, w1))
      (\<lambda>_ w1. sbind (sync_renderer_state w1) (\<lambda>_ w2. (Inr True, w2)))"

definition window_request_reminder ::
    "('p, 'r) engine_env \<Rightarrow> ('p, 'r) PetWindow \<Rightarrow> (bool, ('p, 'r) PetWindow) sres" where
  "window_request_reminder E w = request_animation (request_reminder_animation E) w"

definition window_request_thinking ::
    "('p, 'r) engine_env \<Rightarrow> ('p, 'r) PetWindow \<Rightarrow> (bool, ('p, 'r) PetWindow) sres" where
  "window_request_thinking E w = request_animation (request_thinking_animation E) w"

definition window_request_walk ::
    "('p, 'r) engine_env \<Rightarrow> PetFacing \<Rightarrow> ('p, 'r) PetWindow \<Rightarrow> (bool, ('p, 'r) PetWindow) sres" where
  "window_request_walk E d w = request_animation (request_walk E d) w"

definition request_pet_action ::
    "('p, 'r) engine_env \<Rightarrow> ProductionAction \<Rightarrow> ActionSource \<Rightarrow> ('p, 'r) PetWindow
      \<Rightarrow> (ActionOutcome, ('p, 'r) PetWindow) sres" where
  "request_pet_action E a source w =
    with_res (window_state w) w (\<lambda>s.
    if lifecycle s = PetLifecycleState.CLOSING \<or> a \<notin> pw_available_actions w
    then (Inr ActionOutcome.INVALID_SEQUENCE, w)
    else sbind (on_engine (request_action E a source) w) (\<lambda>oc w1.
      sbind (sync_renderer_state w1) (\<lambda>_ w2. (Inr oc, emit_signal STATE_CHANGED w2))))"

definition resume_pet_autonomous ::
    "('p, 'r) engine_env \<Rightarrow> ActionSource \<Rightarrow> ('p, 'r) PetWindow \<Rightarrow> (ActionOutcome, ('p, 'r) PetWindow) sres" where
  "resume_pet_autonomous E source w =
    with_res (window_state w) w (\<lambda>s.
    if \<not> can_resume_autonomous (lifecycle s = PetLifecycleState.CLOSING) (pw_available_actions w)
    then (Inr ActionOutcome.INVALID_SEQUENCE, w)
    else sbind (on_engine (resume_autonomous E source) w) (\<lambda>oc w1.
      sbind (sync_renderer_state w1) (\<lambda>_ w2. (Inr oc, emit_signal STATE_CHANGED w2))))"

section \<open>The pointer\<close>

definition left_press ::
    "Point \<Rightarrow> Point \<Rightarrow> pyfloat \<Rightarrow> ('p, 'r) PetWindow \<Rightarrow> (bool, ('p, 'r) PetWindow) sres" where
  "left_press local_point global_point drag_distance w =
    with_res (window_accepts w) w (\<lambda>accepts.
    if \<not> accepts then (Inr False, w)
    else case gesture_press local_point global_point drag_distance (pw_gesture w) of
      (Inl (ValueError m), g) \<Rightarrow> (Inr False, w\<lparr>pw_gesture := g\<rparr>)
    | (Inl err, g) \<Rightarrow> (Inl err, w\<lparr>pw_gesture := g\<rparr>)
    | (Inr _, g) \<Rightarrow> (Inr True, w\<lparr>pw_gesture := g, pw_drag_offset := Some local_point\<rparr>))"

definition right_press :: "Point \<Rightarrow> ('p, 'r) PetWindow \<Rightarrow> (bool, ('p, 'r) PetWindow) sres" where
  "right_press global_point w =
    with_res (window_accepts w) w (\<lambda>accepts.
    if accepts then (Inr True, w\<lparr>pw_right_press_pos := Some global_point\<rparr>) else (Inr False, w))"

text \<open>What follows the decision to begin a drag: whether the handler goes on to move the pet.\<close>

definition begin_drag ::
    "('p, 'r) engine_env \<Rightarrow> ('p, 'r) PetWindow \<Rightarrow> (bool, ('p, 'r) PetWindow) sres" where
  "begin_drag E w =
    catch_transition (on_engine (engine_start_dragging E) w)
      (\<lambda>w1. (Inr False, w1\<lparr>pw_gesture := snd (gesture_cancel GestureCancelReason.CLOSING (pw_gesture w1))\<rparr>))
      (\<lambda>oc w1.
        if oc \<notin> {ActionOutcome.ACCEPTED, ActionOutcome.LEGACY_DIRECT}
        then (Inr False, w1\<lparr>pw_gesture := snd (gesture_cancel GestureCancelReason.PLAYBACK_DEGRADED (pw_gesture w1))\<rparr>)
        else sbind (sync_renderer_state w1) (\<lambda>_ w2. (Inr True, w2)))"

definition left_move ::
    "('p, 'r) engine_env \<Rightarrow> screens \<Rightarrow> Point \<Rightarrow> ('p, 'r) PetWindow \<Rightarrow> (bool, ('p, 'r) PetWindow) sres" where
  "left_move E scr global_point w =
    (case gesture_move global_point (pw_gesture w) of
       (d, g) \<Rightarrow>
         sbind (if d = BEGIN_DRAG then begin_drag E (w\<lparr>pw_gesture := g\<rparr>) else (Inr True, w\<lparr>pw_gesture := g\<rparr>)) (\<lambda>go w1.
         if \<not> go then (Inr False, w1)
         else if d \<notin> {BEGIN_DRAG, DRAG} then (Inr True, w1)
         else case pw_drag_offset w1 of
           None \<Rightarrow> (Inr False, w1)
         | Some offset \<Rightarrow>
             sbind (on_engine (on_motion (drag_to
                      \<lparr>px = px global_point - px offset, py = py global_point - py offset\<rparr> (workspaces scr))) w1) (\<lambda>ms w2.
             (Inr True, move_window (ms_position ms) w2))))"

definition left_release ::
    "('p, 'r) engine_env \<Rightarrow> screens \<Rightarrow> Point \<Rightarrow> ('p, 'r) PetWindow \<Rightarrow> (bool, ('p, 'r) PetWindow) sres" where
  "left_release E scr global_point w =
    (case gesture_release global_point (pw_gesture w) of
       (d, g) \<Rightarrow>
         let w1 = w\<lparr>pw_gesture := g, pw_drag_offset := None\<rparr> in
         if d = RELEASE_ACTIVE_DRAG
         then sbind (on_engine (engine_release_drag E (Some (workspaces scr))) w1) (\<lambda>_ w2.
              sbind (sync_renderer_state w2) (\<lambda>_ w3. (Inr True, w3)))
         else if d = CLICK
         then sbind (request_pet_action E ProductionAction.INTERACT ActionSource.USER w1) (\<lambda>_ w2. (Inr True, w2))
         else (Inr False, w1))"

definition right_release ::
    "Point \<Rightarrow> real \<Rightarrow> ('p, 'r) PetWindow \<Rightarrow> (bool, ('p, 'r) PetWindow) sres" where
  "right_release global_point drag_distance w =
    (let w1 = w\<lparr>pw_right_press_pos := None\<rparr> in
     case pw_right_press_pos w of
       None \<Rightarrow> (Inr False, w1)
     | Some press_pos \<Rightarrow>
         with_res (window_accepts w1) w1 (\<lambda>accepts.
         if accepts \<and> gesture_distance press_pos global_point \<le> drag_distance
         then (Inr True, emit_signal ACTION_PALETTE w1) else (Inr False, w1)))"

definition context_menu_event :: "('p, 'r) PetWindow \<Rightarrow> (bool, ('p, 'r) PetWindow) sres" where
  "context_menu_event w =
    with_res (window_state w) w (\<lambda>s.
    if lifecycle s = PetLifecycleState.CLOSING then (Inr False, w)
    else (Inr True, emit_signal ACTION_PALETTE (w\<lparr>pw_right_press_pos := None\<rparr>)))"

section \<open>The frame timer\<close>

text \<open>
  What the renderer decides during one tick: the playback events its source reports, or that the
  source raises; the layout it plans for a body rectangle, a workspace and, for a sitting pet, the
  display; whether it installs a layout or raises, as a closed renderer or one whose backend fails
  does; and whether its safe code is set after the frame. The layout is handed to the renderer itself
  and not to the wrapper that contains its failures, so what it raises leaves the timer's handler.
\<close>

record tick_input =
  ti_events :: "PlaybackEvent list option"
  ti_plan :: "Rect \<Rightarrow> Rect \<Rightarrow> Rect option \<Rightarrow> plan_result"
  ti_set_layout :: "render_layout \<Rightarrow> unit res"
  ti_renderer_failed :: bool

text \<open>The production character gives way to the placeholder.\<close>

definition degrade :: "('p, 'r) engine_env \<Rightarrow> ('p, 'r) PetWindow \<Rightarrow> (unit, ('p, 'r) PetWindow) sres" where
  "degrade E w =
    sbind (on_engine (contain_renderer_failure E) w) (\<lambda>_ w1.
    (Inr (), w1\<lparr>pw_has_source := False, pw_role_pack_id := ''placeholder'', pw_available_actions := {}\<rparr>))"

primrec deliver_events ::
    "('p, 'r) engine_env \<Rightarrow> PetFacing option \<Rightarrow> PlaybackEvent list \<Rightarrow> ('p, 'r) PetAnimationEngine
      \<Rightarrow> (unit, ('p, 'r) PetAnimationEngine) sres" where
  "deliver_events E fc [] e = (Inr (), e)"
| "deliver_events E fc (ev # evs) e =
     sbind (handle_playback_event E ev fc e) (\<lambda>_ e1. deliver_events E fc evs e1)"

definition poll_source ::
    "('p, 'r) engine_env \<Rightarrow> tick_input \<Rightarrow> ('p, 'r) PetWindow \<Rightarrow> (unit, ('p, 'r) PetWindow) sres" where
  "poll_source E ti w =
    (if \<not> pw_has_source w then (Inr (), w)
     else case ti_events ti of
       None \<Rightarrow> degrade E w
     | Some evs \<Rightarrow>
         (case on_engine (deliver_events E (pw_special_facing w) evs) w of
            (Inl _, w1) \<Rightarrow> degrade E w1
          | (Inr _, w1) \<Rightarrow> (Inr (), w1)))"

definition close_to :: "pyfloat \<Rightarrow> real \<Rightarrow> bool" where
  "close_to x r = (case x of Finite a \<Rightarrow> isclose a r | _ \<Rightarrow> False)"

text \<open>The failure branches of the planning: inside the \<^verbatim>\<open>try\<close> a containment that raises is repeated.\<close>

definition layout_failed ::
    "('p, 'r) engine_env \<Rightarrow> ('p, 'r) PetWindow \<Rightarrow> (render_layout option, ('p, 'r) PetWindow) sres" where
  "layout_failed E w = sbind (on_engine (contain_renderer_failure E) w) (\<lambda>_ w1. (Inr None, w1))"

definition layout_refused ::
    "('p, 'r) engine_env \<Rightarrow> ('p, 'r) PetWindow \<Rightarrow> (render_layout option, ('p, 'r) PetWindow) sres" where
  "layout_refused E w =
    (case on_engine (contain_renderer_failure E) w of
       (Inl _, w1) \<Rightarrow> layout_failed E w1
     | (Inr _, w1) \<Rightarrow> (Inr None, w1))"

definition accept_layout ::
    "PetRendererActionRequest \<Rightarrow> Rect \<Rightarrow> render_layout \<Rightarrow> ('p, 'r) PetWindow \<Rightarrow> ('p, 'r) PetWindow" where
  "accept_layout request ws l w =
    w\<lparr>pw_active_layout := Some l, pw_layout_workspace := Some ws, pw_layout_action := Some (rq_action request),
      pw_special_facing :=
        (if rq_action request = PetRendererAction.SPECIAL \<and> rl_effective_facing l \<noteq> rq_facing request
         then Some (rl_effective_facing l) else None)\<rparr>"

definition plan_render_layout ::
    "('p, 'r) engine_env \<Rightarrow> tick_input \<Rightarrow> PetRendererActionRequest \<Rightarrow> Point \<Rightarrow> Rect \<Rightarrow> Rect \<Rightarrow> Rect option
      \<Rightarrow> ('p, 'r) PetWindow \<Rightarrow> (render_layout option, ('p, 'r) PetWindow) sres" where
  "plan_render_layout E ti request position body_rect ws display w =
    (case ti_plan ti body_rect ws (if rq_action request = PetRendererAction.SITTING then display else None) of
       Plan_Raises \<Rightarrow> layout_failed E w
     | PetRenderLayoutFailure \<Rightarrow> layout_refused E w
     | Planned l \<Rightarrow>
         if close_to (rl_x l) (px position) \<and> close_to (rl_y l) (py position)
         then (Inr (Some l), accept_layout request ws l w)
         else (case on_engine (on_motion (place_for_render_layout (rl_x l) (rl_y l) ws)) w of
             (Inl _, w1) \<Rightarrow> layout_refused E w1
           | (Inr _, w1) \<Rightarrow> (Inr (Some l), accept_layout request ws l w1)))"

definition layout_workspace ::
    "screens \<Rightarrow> PetRendererActionRequest \<Rightarrow> Point \<Rightarrow> Size \<Rightarrow> (Rect \<times> Rect option) res" where
  "layout_workspace scr request position win =
    (if rq_action request = PetRendererAction.SITTING
     then ebind (select_workspace_display_pair position win scr) (\<lambda>(ws, display). Inr (ws, Some display))
     else ebind (select_workspace position win (workspaces scr)) (\<lambda>ws. Inr (ws, None)))"

definition prepare_render_layout ::
    "('p, 'r) engine_env \<Rightarrow> screens \<Rightarrow> tick_input \<Rightarrow> PetRendererActionRequest \<Rightarrow> ('p, 'r) PetWindow
      \<Rightarrow> (render_layout option, ('p, 'r) PetWindow) sres" where
  "prepare_render_layout E scr ti request w =
    (if \<not> pw_has_overflow w then (Inr None, w)
     else sbind (on_engine (on_motion msnapshot) w) (\<lambda>ms w1.
       let p = ms_position ms; win = mm_window_size (en_motion (pw_engine w1)) in
       with_res (mk_Rect (px p) (py p) (width win) (height win)) w1 (\<lambda>body_rect.
       with_res (layout_workspace scr request p win) w1 (\<lambda>(ws, display).
       if rq_action request = PetRendererAction.SPECIAL \<and> pw_layout_action w1 = Some PetRendererAction.SPECIAL
          \<and> pw_active_layout w1 \<noteq> None
       then (if Some ws = pw_layout_workspace w1 then (Inr (pw_active_layout w1), w1)
             else sbind (on_engine (contain_renderer_failure E) w1) (\<lambda>_ w2.
               sbind (on_engine (start_autonomous E) w2) (\<lambda>_ w3.
               with_res (frame (pw_engine w3)) w3 (\<lambda>fr.
               plan_render_layout E ti (action_request_for_frame fr) p body_rect ws display w3))))
       else plan_render_layout E ti request p body_rect ws display w1))))"

definition advance_animation ::
    "('p, 'r) engine_env \<Rightarrow> screens \<Rightarrow> tick_input \<Rightarrow> ('p, 'r) PetWindow \<Rightarrow> (unit, ('p, 'r) PetWindow) sres" where
  "advance_animation E scr ti w =
    (case read_clock E w of
       (now, w0) \<Rightarrow>
         let elapsed = max 0 (now - pw_last_tick w0) in
         sbind (on_engine (advance E elapsed (workspaces scr)) (w0\<lparr>pw_last_tick := now\<rparr>)) (\<lambda>snap w1.
         sbind (poll_source E ti w1) (\<lambda>_ w2.
         sbind (prepare_render_layout E scr ti (action_request_for_frame (as_frame snap)) w2) (\<lambda>layout w3.
         let w4 = move_window (mm_position (en_motion (pw_engine w3))) w3 in
         with_res (case layout of None \<Rightarrow> Inr () | Some l \<Rightarrow> ti_set_layout ti l) w4 (\<lambda>_.
         if pw_available_actions w4 \<noteq> {} \<and> ti_renderer_failed ti
         then sbind (degrade E w4) (\<lambda>_ w5. sync_renderer_state w5)
         else (Inr (), w4))))))"

section \<open>Construction\<close>

text \<open>
  \<^verbatim>\<open>PetWindow.__init__\<close> on the primary screen. \<open>renderer_ok\<close> tells whether the renderer came up; a
  renderer with an overflow surface and a playback source are optional.
\<close>

definition new_pet_window ::
    "('p, 'r) engine_env \<Rightarrow> 'r \<Rightarrow> PetAnimationConfig \<Rightarrow> 'p PetTrack0Controller \<Rightarrow> bool \<Rightarrow> bool \<Rightarrow> string
      \<Rightarrow> ProductionAction set \<Rightarrow> bool \<Rightarrow> bool \<Rightarrow> bool \<Rightarrow> Rect \<Rightarrow> (unit, ('p, 'r) PetWindow) sres" where
  "new_pet_window E rng cfg track0 scheduler on_top pack actions source overflow renderer_ok primary =
    (let initial = \<lparr>px = right primary - 160 - 32, py = bottom primary - 180\<rparr>;
         st = \<lparr>sm_lifecycle = PetLifecycleState.ACTIVE, sm_motion = PetMotionState.IDLE,
               sm_behaviors = {PetBehaviorState.BREATHING}, sm_facing = PetFacing.RIGHT,
               sm_activity = PetActivityState.NONE, sm_epoch = 0\<rparr>;
         e = new_engine E (new_motion_model initial \<lparr>width = 160, height = 180\<rparr> default_motion_config st)
               rng cfg (Some track0) scheduler (actions \<noteq> {});
         w = \<lparr>pw_engine = e, pw_gesture = new_gesture, pw_drag_offset = None, pw_right_press_pos = None,
              pw_always_on_top = on_top, pw_default_always_on_top = on_top, pw_default_position = initial,
              pw_exit_emitted = False, pw_allow_final_close = False, pw_timer_active = False, pw_last_tick = 0,
              pw_available_actions = (if renderer_ok then actions else {}),
              pw_role_pack_id = (if renderer_ok then pack else ''placeholder''),
              pw_has_source = (renderer_ok \<and> source), pw_has_overflow = (renderer_ok \<and> overflow),
              pw_active_layout = None, pw_layout_workspace = None, pw_layout_action = None,
              pw_special_facing = None, pw_moved_to = (0, 0), pw_signals = []\<rparr>
     in sbind (if renderer_ok \<and> scheduler
               then sbind (on_engine (start_autonomous E) w) (\<lambda>_ w1. (Inr (), w1)) else (Inr (), w)) (\<lambda>_ w1.
        sbind (sync_renderer_state w1) (\<lambda>_ w2.
        case read_clock E w2 of
          (now, w3) \<Rightarrow> (Inr (), (move_window initial w3)\<lparr>pw_last_tick := now, pw_timer_active := True\<rparr>))))"

section \<open>Runs\<close>

datatype window_event =
    Left_Press Point Point pyfloat | Right_Press Point | Left_Move Point | Left_Release Point
  | Right_Release Point real | Context_Menu | Hide | Close | Tick tick_input
  | Toggle_Paused | Set_Always_On_Top bool | Reclaim | Restore_Position int int | Persist | Restore_Defaults
  | Safe_Exit | Recover_Failed_Close | Complete_Close | Remind | Think | Walk PetFacing
  | Pet_Action ProductionAction ActionSource | Resume_Autonomous ActionSource

definition ignoring :: "('a, 's) sres \<Rightarrow> (unit, 's) sres" where
  "ignoring r = sbind r (\<lambda>_ s. (Inr (), s))"

text \<open>One event, with the screens at that moment. A stopped timer does not fire.\<close>

fun window_handle ::
    "('p, 'r) engine_env \<Rightarrow> screens \<Rightarrow> window_event \<Rightarrow> ('p, 'r) PetWindow \<Rightarrow> (unit, ('p, 'r) PetWindow) sres" where
  "window_handle E scr (Left_Press l g t) w = ignoring (left_press l g t w)"
| "window_handle E scr (Right_Press g) w = ignoring (right_press g w)"
| "window_handle E scr (Left_Move g) w = ignoring (left_move E scr g w)"
| "window_handle E scr (Left_Release g) w = ignoring (left_release E scr g w)"
| "window_handle E scr (Right_Release g t) w = ignoring (right_release g t w)"
| "window_handle E scr Context_Menu w = ignoring (context_menu_event w)"
| "window_handle E scr Hide w = hide_event E scr w"
| "window_handle E scr Close w = ignoring (close_event E scr w)"
| "window_handle E scr (Tick ti) w = (if pw_timer_active w then advance_animation E scr ti w else (Inr (), w))"
| "window_handle E scr Toggle_Paused w = toggle_paused E scr w"
| "window_handle E scr (Set_Always_On_Top b) w = set_always_on_top b w"
| "window_handle E scr Reclaim w = reclaim_to_workspace scr w"
| "window_handle E scr (Restore_Position x y) w = restore_persisted_position x y scr w"
| "window_handle E scr Persist w = ignoring (persisted_presentation_state scr w)"
| "window_handle E scr Restore_Defaults w = restore_builtin_presentation_defaults scr w"
| "window_handle E scr Safe_Exit w = request_safe_exit E scr w"
| "window_handle E scr Recover_Failed_Close w = recover_from_failed_close E w"
| "window_handle E scr Complete_Close w = (Inr (), complete_safe_close w)"
| "window_handle E scr Remind w = ignoring (window_request_reminder E w)"
| "window_handle E scr Think w = ignoring (window_request_thinking E w)"
| "window_handle E scr (Walk d) w = ignoring (window_request_walk E d w)"
| "window_handle E scr (Pet_Action a source) w = ignoring (request_pet_action E a source w)"
| "window_handle E scr (Resume_Autonomous source) w = ignoring (resume_pet_autonomous E source w)"

text \<open>An exception that leaves a handler is reported by Qt; the window lives on in the state it left.\<close>

definition window_exec ::
    "('p, 'r) engine_env \<Rightarrow> screens \<times> window_event \<Rightarrow> ('p, 'r) PetWindow \<Rightarrow> ('p, 'r) PetWindow" where
  "window_exec E ev w = snd (window_handle E (fst ev) (snd ev) w)"

text \<open>
  Runs of a window as Qt delivers them: the left button is pressed only when no press is open.
\<close>

inductive window_reach :: "('p, 'r) engine_env \<Rightarrow> ('p, 'r) PetWindow \<Rightarrow> ('p, 'r) PetWindow \<Rightarrow> bool" for E w0 where
  window_start: "window_reach E w0 w0"
| window_event: "window_reach E w0 w
    \<Longrightarrow> (\<And>l g t. ev = Left_Press l g t \<Longrightarrow> pg_state (pw_gesture w) = PointerGestureState.IDLE)
    \<Longrightarrow> window_reach E w0 (window_exec E (scr, ev) w)"

inductive_cases window_reachE: "window_reach E w0 w"

end
