(* ===== verification/Engine_Drag.thy ===== *)
theory Engine_Drag
  imports Engine_Run
begin

text \<open>
  Who picks the pet up: with a player that has no production sequencing, no operation of the engine
  starts a drag except the request for one, and none moves a dragged pet into another lifecycle. The
  pet window relies on it.
\<close>

text \<open>Dragged in one of the lifecycles \<open>L\<close> only; with no lifecycle, not dragged at all.\<close>

definition grounded :: "PetLifecycleState set \<Rightarrow> ('p, 'r) PetAnimationEngine \<Rightarrow> bool" where
  "grounded L e \<longleftrightarrow> (motion_of (en_motion e) = PetMotionState.DRAGGING \<longrightarrow> lifecycle_of (en_motion e) \<in> L)"

abbreviation undragged :: "('p, 'r) PetAnimationEngine \<Rightarrow> bool" where
  "undragged \<equiv> grounded {}"

text \<open>A result whose state is so.\<close>

definition calm :: "PetLifecycleState set \<Rightarrow> ('a, ('p, 'r) PetAnimationEngine) sres \<Rightarrow> bool" where
  "calm L r \<longleftrightarrow> grounded L (snd r)"

named_theorems calming

lemma calm_pair [simp]: "calm L (r, e) \<longleftrightarrow> grounded L e"
  by (simp add: calm_def)

lemma calm_sbind:
  assumes "calm L r" and "\<And>v e1. grounded L e1 \<Longrightarrow> calm L (f v e1)"
  shows "calm L (sbind r f)"
  using assms by (auto simp: calm_def sbind_def split: prod.splits sum.splits)

lemma calm_with_res: "grounded L e \<Longrightarrow> (\<And>v. r = Inr v \<Longrightarrow> calm L (f v)) \<Longrightarrow> calm L (with_res r e f)"
  by (cases r) simp_all

lemmas calm_rules = calm_sbind calm_with_res

lemma calm_caught:
  assumes "calm L r" and "\<And>e1. grounded L e1 \<Longrightarrow> grounded L (f e1)"
  shows "calm L (case r of
      (Inl PetStateTransitionError, e1) \<Rightarrow> (Inr (), e1)
    | (Inl err, e1) \<Rightarrow> (Inl err, e1)
    | (Inr v, e1) \<Rightarrow> (Inr (), f e1))"
  using assms by (auto simp: calm_def split: prod.split sum.split py_error.split)

lemma undragged_plain [simp]:
  "grounded L (e\<lparr>en_active_action := a\<rparr>) = grounded L e" "grounded L (e\<lparr>en_execution_mode := md\<rparr>) = grounded L e"
  "grounded L (e\<lparr>en_resume_after_protected := b\<rparr>) = grounded L e" "grounded L (e\<lparr>en_ticks := n\<rparr>) = grounded L e"
  "grounded L (e\<lparr>en_fresh := n\<rparr>) = grounded L e" "grounded L (e\<lparr>en_rng := r\<rparr>) = grounded L e"
  "grounded L (e\<lparr>en_drag_session := d\<rparr>) = grounded L e" "grounded L (e\<lparr>en_track0 := c\<rparr>) = grounded L e"
  "grounded L (e\<lparr>en_scheduler_state := s\<rparr>) = grounded L e" "grounded L (e\<lparr>en_resume_action := ra\<rparr>) = grounded L e"
  "grounded L (e\<lparr>en_pending := p\<rparr>) = grounded L e" "grounded L (e\<lparr>en_action_remaining := x\<rparr>) = grounded L e"
  "grounded L (e\<lparr>en_blink_elapsed := x\<rparr>) = grounded L e" "grounded L (e\<lparr>en_next_blink := x\<rparr>) = grounded L e"
  "grounded L (e\<lparr>en_next_random_action := x\<rparr>) = grounded L e" "grounded L (e\<lparr>en_last_applied_delta := x\<rparr>) = grounded L e"
  "grounded L (e\<lparr>en_animation_time := x\<rparr>) = grounded L e"
  "grounded L (suspend e) = grounded L e" "grounded L (clear_protected_continuation e) = grounded L e"
  "grounded L (new_blink_interval E e) = grounded L e" "grounded L (new_random_action_interval E e) = grounded L e"
  by (simp_all add: grounded_def suspend_def clear_protected_continuation_def new_blink_interval_def
      new_random_action_interval_def split: prod.splits)

section \<open>Transitions\<close>

lemma proposed_motion:
  "propose m a = Inr p \<Longrightarrow> motion (target_state p) = or_else (arg_motion a) (sm_motion m)"
  by (auto simp: propose_Inr_iff snapshot_def dest!: mk_PetLayeredState_Inr)

lemma propose_action_undragged:
  "propose m (target_args (semantic_target a) ov) = Inr p \<Longrightarrow> motion (target_state p) \<noteq> PetMotionState.DRAGGING"
  by (drule proposed_motion) (cases a; simp add: target_args_def no_args_def or_else_def)

lemma propose_idle_undragged:
  "propose m return_idle_args = Inr p \<Longrightarrow> motion (target_state p) \<noteq> PetMotionState.DRAGGING"
  by (drule proposed_motion) (simp add: return_idle_args_def no_args_def or_else_def)

lemmas undragged_targets = propose_action_undragged propose_idle_undragged

lemma committed_motion:
  "commit m p = Inr m' \<Longrightarrow> sm_motion m' = motion (target_state p)"
  by (auto simp: commit_def install_def ebind_eq_Inr_iff)

lemma calm_commit [calming]:
  assumes "grounded L e" and "motion (target_state p) \<noteq> PetMotionState.DRAGGING"
  shows "calm L (on_motion (commit_state_transition p) e)"
  using assms
  by (cases "commit (mm_states (en_motion e)) p")
    (auto simp: calm_def grounded_def on_motion_def commit_state_transition_def Let_def dest: committed_motion)

lemma calm_on_motion:
  assumes "motion_of (snd (f (en_motion e))) \<noteq> PetMotionState.DRAGGING"
  shows "calm L (on_motion f e)"
  using assms by (auto simp: calm_def grounded_def on_motion_def split: prod.split)

lemma calm_on_track0 [calming]: "grounded L e \<Longrightarrow> calm L (on_track0 E f c e)"
  by (simp add: on_track0_def split: prod.splits)

lemma calm_checked [calming]: "grounded L e \<Longrightarrow> calm L (checked oc e)"
  unfolding checked_def by (intro calm_with_res) simp_all

lemma calm_clear: "track0_clear E cause c e = (oc, e') \<Longrightarrow> grounded L e' = grounded L e"
  by (auto simp: track0_clear_def split: prod.splits)

lemma calm_commit_semantic [calming]: "grounded L e \<Longrightarrow> calm L (commit_semantic a e)"
  unfolding commit_semantic_def by (auto intro!: calm_rules calming dest!: undragged_targets)

lemma calm_start_or_replace [calming]: "grounded L e \<Longrightarrow> calm L (start_or_replace E cause q md c e)"
  by (auto simp: start_or_replace_def intro!: calming split: option.splits)

lemma calm_submit_finish [calming]: "grounded L e \<Longrightarrow> calm L (submit_finish i oc e)"
  unfolding submit_finish_def Let_def by (auto intro!: calm_rules calming)

lemma calm_submit_transaction [calming]: "grounded L e \<Longrightarrow> calm L (submit_transaction E i ov direct c e)"
  unfolding submit_transaction_def Let_def
  by (auto intro!: calm_rules calming dest!: undragged_targets split: option.splits sum.splits py_error.splits)

lemma calm_submit [calming]: "grounded L e \<Longrightarrow> calm L (submit_production_intent E i ov e)"
  unfolding submit_production_intent_def Let_def
  by (auto intro!: calm_rules calming split: option.splits)

lemma calm_activate [calming]: "grounded L e \<Longrightarrow> calm L (activate_autonomous E a e)"
  unfolding activate_autonomous_def Let_def
  by (auto intro!: calm_rules split: option.splits prod.splits sum.splits)

lemma calm_submit_new [calming]: "grounded L e \<Longrightarrow> calm L (submit_new E a og sr ov e)"
  by (auto simp: submit_new_def new_object_def intro!: calm_rules calming)

lemma calm_submit_and_activate [calming]:
  "grounded L e \<Longrightarrow> calm L (submit_and_activate E a ov e)"
  "grounded L e \<Longrightarrow> calm L (recover_autonomous_relax E ov e)"
  unfolding recover_autonomous_relax_def submit_and_activate_def by (auto intro!: calm_rules calming)

lemma calm_autonomous [calming]:
  "grounded L e \<Longrightarrow> calm L (start_autonomous E e)" "grounded L e \<Longrightarrow> calm L (resume_autonomous E sr e)"
  by (auto simp: start_autonomous_def intro!: calming split: option.splits)
    (auto simp: resume_autonomous_def start_autonomous_def Let_def dest!: calm_clear intro!: calming
      split: option.splits prod.splits if_splits)

lemma calm_contain_failure [calming]: "grounded L e \<Longrightarrow> calm L (contain_renderer_failure E e)"
  unfolding contain_renderer_failure_def Let_def
  by (auto simp: apfst_def map_prod_def dest!: calm_clear intro!: calm_rules calming
      split: option.splits prod.splits)

section \<open>Renderer callbacks\<close>

lemma calm_start_idle [calming]: "grounded L e \<Longrightarrow> calm L (start_idle_after_terminal E e)"
  by (auto simp: start_idle_after_terminal_def new_object_def intro!: calm_rules calming
      split: option.splits prod.splits)

lemma calm_boundary_commit [calming]: "grounded L e \<Longrightarrow> calm L (boundary_commit E d now oc e)"
  unfolding boundary_commit_def by (auto split: prod.splits sum.splits)

lemma calm_boundary_continue [calming]: "grounded L e \<Longrightarrow> calm L (boundary_continue E ev now c d e)"
  unfolding boundary_continue_def by (auto intro!: calm_rules calming split: option.splits)

lemma calm_boundary_evaluate [calming]: "grounded L e \<Longrightarrow> calm L (boundary_evaluate E ev now c s snap be e)"
  unfolding boundary_evaluate_def new_object_def by (auto intro!: calming split: prod.splits sum.splits)

lemma calm_boundary [calming]: "grounded L e \<Longrightarrow> calm L (handle_autonomous_boundary E ev e)"
  unfolding handle_autonomous_boundary_def Let_def by (auto intro!: calm_rules calming split: option.splits)

lemma calm_after_protected [calming]: "grounded L e \<Longrightarrow> calm L (after_protected E fc e)"
  unfolding after_protected_def Let_def by (auto intro!: calm_rules calming split: option.splits)

lemma calm_after_recovery [calming]: "grounded L e \<Longrightarrow> calm L (after_recovery E e)"
  unfolding after_recovery_def by (auto intro!: calming dest!: calm_clear split: option.splits prod.splits)

lemma calm_finish_callback [calming]:
  "grounded L e \<Longrightarrow> calm L (finish_callback E ev cont prot fc recovery c e)"
  unfolding finish_callback_def by (auto intro!: calm_rules calming)

lemma calm_matched_callback [calming]: "grounded L e \<Longrightarrow> calm L (matched_callback E ev fc c e)"
  unfolding matched_callback_def Let_def
  by (auto intro!: calm_rules calming dest!: undragged_targets split: option.splits)

lemma calm_playback_event [calming]: "grounded L e \<Longrightarrow> calm L (handle_playback_event E ev fc e)"
  unfolding handle_playback_event_def by (auto intro!: calm_rules calming split: option.splits)

section \<open>Motion and frames\<close>

definition never_sequenced :: "('p, 'r) engine_env \<Rightarrow> bool" where
  "never_sequenced E \<longleftrightarrow> (\<forall>p. \<not> sequencing_enabled (capabilities (env_player E) p))"

lemma never_sequenced_legacy: "never_sequenced E \<Longrightarrow> \<not> production_sequencing_enabled E e"
  by (simp add: never_sequenced_def production_sequencing_enabled_def split: option.split)

text \<open>No method of the state machine but \<open>start_dragging\<close> sets the motion \<open>DRAGGING\<close>.\<close>

definition not_picked_up :: "PetLayeredStateMachine \<Rightarrow> PetLayeredStateMachine \<Rightarrow> bool" where
  "not_picked_up st st' \<longleftrightarrow>
     (sm_motion st' = PetMotionState.DRAGGING \<longrightarrow>
      sm_motion st = PetMotionState.DRAGGING \<and> sm_lifecycle st' = sm_lifecycle st)"

lemma not_picked_up_refl [simp]: "not_picked_up st st"
  by (simp add: not_picked_up_def)

lemma not_picked_up_trans: "not_picked_up a b \<Longrightarrow> not_picked_up b c \<Longrightarrow> not_picked_up a c"
  by (simp add: not_picked_up_def)

lemma not_picked_up_exec:
  assumes "sm_exec op st = Inr st'" and "op \<noteq> StartDragging" and "\<And>p. op \<noteq> Transition p"
    and "op = Resume \<longrightarrow> sm_motion st \<noteq> PetMotionState.DRAGGING"
  shows "not_picked_up st st'"
  using assms by (cases op) (auto simp: not_picked_up_def machine_defs machine_helpers split: if_splits)

lemmas not_picked_up_ops =
  not_picked_up_exec [of Pause, simplified] not_picked_up_exec [of Resume, simplified]
  not_picked_up_exec [of BeginClosing, simplified] not_picked_up_exec [of RecoverFailedClose, simplified]
  not_picked_up_exec [of ReleaseDrag, simplified]
  not_picked_up_exec [of Land, simplified] not_picked_up_exec [of FinishLanding, simplified]
  not_picked_up_exec [of "StartWalking d" for d, simplified] not_picked_up_exec [of StopWalking, simplified]
  not_picked_up_exec [of StartThinking, simplified] not_picked_up_exec [of FinishThinking, simplified]
  not_picked_up_exec [of StartReminding, simplified] not_picked_up_exec [of FinishReminding, simplified]
  not_picked_up_exec [of StartBlinking, simplified] not_picked_up_exec [of FinishBlinking, simplified]

lemma not_picked_up_with_res:
  "not_picked_up st (mm_states m1) \<Longrightarrow> (\<And>v. r = Inr v \<Longrightarrow> not_picked_up st (mm_states (snd (f v))))
    \<Longrightarrow> not_picked_up st (mm_states (snd (with_res r m1 f)))"
  by (cases r) simp_all

lemma motion_not_picked_up:
  "not_picked_up (mm_states m) (mm_states (snd (motion_pause m)))"
  "not_picked_up (mm_states m) (mm_states (snd (motion_begin_closing m)))"
  "not_picked_up (mm_states m) (mm_states (snd (motion_recover_failed_close m)))"
  "not_picked_up (mm_states m) (mm_states (snd (motion_start_walking d m)))"
  "not_picked_up (mm_states m) (mm_states (snd (motion_stop_walking m)))"
  "not_picked_up (mm_states m) (mm_states (snd (drag_to p wss m)))"
  "not_picked_up (mm_states m) (mm_states (snd (constrain wss m)))"
  "not_picked_up (mm_states m) (mm_states (snd (place_for_render_layout x y ws m)))"
  "not_picked_up (mm_states m) (mm_states (snd (restore_position p wss m)))"
  unfolding motion_pause_def motion_begin_closing_def
    motion_recover_failed_close_def motion_start_walking_def motion_stop_walking_def
    drag_to_def constrain_def place_for_render_layout_def restore_position_def Let_def
  by (auto intro!: not_picked_up_with_res simp: not_picked_up_ops)

lemma resume_not_picked_up:
  "motion_of m \<noteq> PetMotionState.DRAGGING \<Longrightarrow> not_picked_up (mm_states m) (mm_states (snd (motion_resume m)))"
  unfolding motion_resume_def Let_def by (auto intro!: not_picked_up_with_res simp: not_picked_up_ops)

lemma update_not_picked_up: "not_picked_up (mm_states m) (mm_states (snd (update dt wss m)))"
proof -
  have "not_picked_up (mm_states m) (mm_states (snd (update_walking dt wss m)))"
    "not_picked_up (mm_states m) (mm_states (snd (update_landing dt m)))"
    "not_picked_up (mm_states m) (mm_states (snd (update_falling dt wss m)))"
    unfolding update_walking_def update_landing_def update_falling_def Let_def
    by (auto intro!: not_picked_up_with_res simp: not_picked_up_ops)
  then show ?thesis
    unfolding update_def by (auto intro!: not_picked_up_with_res motion_not_picked_up)
qed

lemma release_not_picked_up: "not_picked_up (mm_states m) (mm_states (snd (motion_release_drag wss m)))"
proof -
  have "not_picked_up (mm_states m) (mm_states (snd (finish_release ws m)))" for ws and m :: PetMotionModel
  proof (cases "release_drag (mm_states m)")
    case (Inr st)
    then have st: "not_picked_up (mm_states m) st" by (simp add: not_picked_up_ops)
    moreover have "not_picked_up (mm_states m) st'" if "land st = Inr st'" for st'
      by (rule not_picked_up_trans [OF st]) (simp add: not_picked_up_ops that)
    ultimately show ?thesis
      using Inr by (cases ws) (auto simp: finish_release_def Let_def intro!: not_picked_up_with_res)
  qed (simp add: finish_release_def)
  from this [where m = "m\<lparr>mm_position := p\<rparr>" for p] this [of m] show ?thesis
    unfolding motion_release_drag_def by (cases wss) (auto intro!: not_picked_up_with_res)
qed

lemma calm_motion [calming]:
  assumes "grounded L e" and "not_picked_up (mm_states (en_motion e)) (mm_states (snd (f (en_motion e))))"
  shows "calm L (on_motion f e)"
  using assms by (auto simp: calm_def grounded_def not_picked_up_def on_motion_def split: prod.splits)

lemma calm_states:
  assumes "grounded L e" and "\<And>st. f (mm_states (en_motion e)) = Inr st \<Longrightarrow> not_picked_up (mm_states (en_motion e)) st"
  shows "calm L (on_states f e)"
  using assms by (cases "f (mm_states (en_motion e))") (auto simp: on_states_def grounded_def not_picked_up_def)

lemmas not_picked_up_motion = motion_not_picked_up resume_not_picked_up update_not_picked_up release_not_picked_up

section \<open>Operations\<close>

lemma calm_requests:
  assumes "never_sequenced E" and "grounded L e"
  shows "calm L (request_walk E d e)" "calm L (request_thinking_animation E e)" "calm L (request_reminder_animation E e)"
    "calm L (engine_pause E e)"
    "motion_of (en_motion e) \<noteq> PetMotionState.DRAGGING \<Longrightarrow> calm L (engine_resume E e)" "calm L (engine_begin_closing E e)"
    "calm L (engine_recover_failed_close e)" "calm L (engine_release_drag E wss e)"
  unfolding request_walk_def request_thinking_animation_def request_reminder_animation_def engine_pause_def
    engine_resume_def engine_begin_closing_def engine_recover_failed_close_def engine_release_drag_def legacy_direct_def Let_def
  using assms(2)
  by (auto simp: never_sequenced_legacy [OF assms(1)] not_picked_up_ops not_picked_up_motion
      intro!: calm_rules calm_motion calm_states)

lemma calm_timers:
  assumes "never_sequenced E"
  shows "grounded L e \<Longrightarrow> calm L (advance_action E dt e)" "grounded L e \<Longrightarrow> calm L (advance_blink E dt e)"
    "grounded L e \<Longrightarrow> calm L (advance_random_action E dt e)"
proof -
  show "grounded L e \<Longrightarrow> calm L (advance_blink E dt e)"
    unfolding advance_blink_def Let_def
    by (auto simp: not_picked_up_ops intro!: calm_rules calm_states)
  show "grounded L e \<Longrightarrow> calm L (advance_random_action E dt e)"
    unfolding advance_random_action_def Let_def
    by (auto intro!: calm_rules calm_requests assms split: prod.splits)
  have fin: "calm L (finish_action s e1)" if "grounded L e1" for s and e1 :: "('a, 'b) PetAnimationEngine"
    using that unfolding finish_action_def
    by (auto simp: not_picked_up_ops not_picked_up_motion intro!: calm_motion calm_states)
  show "grounded L e \<Longrightarrow> calm L (advance_action E dt e)"
    unfolding advance_action_def Let_def by (auto intro!: calm_with_res calm_caught fin)
qed

lemma calm_boundary_turn:
  assumes "grounded L e"
  shows "calm L (boundary_turn E d e)"
proof -
  have "calm L (recover_explicit_boundary E e)"
    using assms by (auto simp: recover_explicit_boundary_def Let_def dest!: calm_clear intro!: calming
        split: option.splits prod.splits)
  moreover have "calm L (commit_workspace_boundary_turn E d e)"
    using assms by (auto simp: commit_workspace_boundary_turn_def Let_def intro!: calm_rules calming)
  ultimately show ?thesis
    using assms unfolding boundary_turn_def
    by (auto simp: not_picked_up_motion intro!: calm_sbind calm_motion)
qed

lemma calm_recovery: "grounded L e \<Longrightarrow> calm L (finish_relax_motion_recovery E e)"
  unfolding finish_relax_motion_recovery_def new_object_def Let_def
  by (auto intro!: calm_rules calming split: option.splits prod.splits sum.splits)

lemma calm_advance:
  assumes "never_sequenced E" and "grounded L e"
  shows "calm L (advance E dt wss e)"
proof -
  note snapshot = calm_motion [of _ _ msnapshot, simplified]
  have "calm L (advance_timers E x e1)" if "grounded L e1" for x and e1 :: "('a, 'b) PetAnimationEngine"
    using that unfolding advance_timers_def by (auto intro!: calm_sbind calm_timers assms(1))
  moreover have "calm L (advance_motion E x w e1)" if "grounded L e1" for x w and e1 :: "('a, 'b) PetAnimationEngine"
    using that unfolding advance_motion_def
    by (auto simp: not_picked_up_motion intro!: calm_rules calm_recovery snapshot calm_motion)
  moreover have "calm L (advance_turn E ms e1)" if "grounded L e1" for ms and e1 :: "('a, 'b) PetAnimationEngine"
  proof -
    have "grounded L (e1\<lparr>en_motion := m\<rparr>)" if "take_pending_direction_turn (en_motion e1) = (t, m)" for t m
      using that \<open>grounded L e1\<close> by (auto simp: take_pending_direction_turn_def grounded_def)
    then show ?thesis
      unfolding advance_turn_def Let_def
      by (auto intro!: calm_sbind calm_boundary_turn snapshot split: prod.split option.split)
  qed
  moreover have "calm L (animation_snapshot ms e1)" if "grounded L e1" for ms and e1 :: "('a, 'b) PetAnimationEngine"
    using that unfolding animation_snapshot_def by (auto intro!: calm_with_res)
  ultimately show ?thesis
    using assms(2) unfolding advance_def Let_def
    by (auto simp: not_picked_up_motion intro!: calm_rules calm_motion)
qed

lemma calm_placements:
  assumes "grounded L e"
  shows "calm L (on_motion (drag_to p wss) e)" "calm L (on_motion (constrain wss) e)"
    "calm L (on_motion (place_for_render_layout x y ws) e)" "calm L (on_motion (restore_position p wss) e)"
  by (simp_all add: calm_motion assms motion_not_picked_up)

text \<open>One operation of a run, of those a window asks for.\<close>

lemma undragged_exec:
  assumes "never_sequenced E" and "grounded L e" and "op \<noteq> EStartDragging" and "\<forall>ev. op \<noteq> EEvent ev"
    and "op = EResume \<longrightarrow> motion_of (en_motion e) \<noteq> PetMotionState.DRAGGING"
  shows "grounded L (engine_exec E op e)"
proof -
  have exit: "calm L (engine_request_graceful_exit E e)"
    using assms(2) by (auto simp: engine_request_graceful_exit_def intro!: calming split: option.split)
  have "calm L (request_action E a source e)" for a source
    using assms(2) by (simp add: request_action_def calm_submit_new)
  note calms = this exit calm_autonomous [OF assms(2)] calm_contain_failure [OF assms(2)]
    calm_playback_event [OF assms(2)] calm_requests [OF assms(1,2)] calm_advance [OF assms(1,2)]
    calm_placements [OF assms(2)]
  show ?thesis
    using assms(3,4,5) by (cases op) (simp_all add: calms [unfolded calm_def])
qed

text \<open>A contained failure ends a drag, with any player.\<close>

lemma contain_failure_undragged:
  assumes "engine_inv e"
  shows "grounded L (snd (contain_renderer_failure E e))"
proof -
  let ?e1 = "(suspend (clear_protected_continuation e))\<lparr>en_active_action := None\<rparr>"
  have inv1: "engine_inv ?e1"
    using assms by (simp add: engine_inv_def suspend_def clear_protected_continuation_def)
  obtain m' where m': "commit_semantic ProductionAction.RELAX ?e1 = (Inr (), ?e1\<lparr>en_motion := m'\<rparr>)"
      "motion_of m' = PetMotionState.IDLE"
    by (rule commit_semantic_result [OF inv1, of ProductionAction.RELAX]) simp
  then have "grounded L (?e1\<lparr>en_motion := m'\<rparr>)" by (simp add: grounded_def)
  then show ?thesis
    using m' unfolding contain_renderer_failure_def Let_def
    by (auto simp: apfst_def map_prod_def dest!: calm_clear split: option.splits prod.splits)
qed

section \<open>Drags without production sequencing\<close>

text \<open>A closing pet is not dragged.\<close>

abbreviation awake :: "PetLifecycleState set" where
  "awake \<equiv> {PetLifecycleState.ACTIVE, PetLifecycleState.PAUSED}"

lemma legacy_start_dragging:
  assumes "never_sequenced E" and "engine_start_dragging E e = (r, e')"
  shows "case r of Inl _ \<Rightarrow> mm_states (en_motion e') = mm_states (en_motion e)
    | Inr oc \<Rightarrow> oc = ActionOutcome.LEGACY_DIRECT \<and> grounded awake e'"
proof -
  have wake: "l \<noteq> PetLifecycleState.CLOSING \<Longrightarrow> l \<in> awake" for l by (cases l) simp_all
  show ?thesis
    using assms(2) wake [of "lifecycle_of (en_motion e)"]
    by (auto simp: engine_start_dragging_def never_sequenced_legacy [OF assms(1)] legacy_direct_def
        on_motion_def motion_start_dragging_def with_res_def start_dragging_def grounded_def bump_epoch_def
        sbind_def raise_if_def split: prod.splits sum.splits if_splits)
qed

lemma legacy_release:
  assumes "never_sequenced E" and "grounded awake e"
  shows "undragged (snd (engine_release_drag E wss e))"
proof -
  have "motion_of (snd (finish_release None m)) \<noteq> PetMotionState.DRAGGING"
    if "motion_of m = PetMotionState.DRAGGING \<longrightarrow> lifecycle_of m \<in> awake" for m
    using that
    by (auto simp: finish_release_def release_drag_def require_motion_def require_active_def raise_if_def
        bump_epoch_def set_plain_def Let_def)
  with assms(2) show ?thesis
    by (auto simp: engine_release_drag_def never_sequenced_legacy [OF assms(1)] legacy_direct_def
        on_motion_def motion_release_drag_def grounded_def sbind_def split: prod.splits sum.splits)
      (metis snd_conv)+
qed

end
