(* ===== verification/Pet_Window_Invariant.thy ===== *)
theory Pet_Window_Invariant
  imports Pet_Window Engine_Drag
begin

text \<open>
  What every handler of the pet window keeps, whether it raises or not: an engine that is ready for
  its next frame, and, with a player that has no production sequencing, a dragged pet only while the
  pointer drags. The second half is what makes a resume safe.
\<close>

section \<open>Invariant\<close>

definition always_sequenced :: "('p, 'r) engine_env \<Rightarrow> bool" where
  "always_sequenced E \<longleftrightarrow> (\<forall>p. sequencing_enabled (capabilities (env_player E) p))"

text \<open>The capabilities of a player are fixed when it is built.\<close>

definition steady_env :: "('p, 'r) engine_env \<Rightarrow> bool" where
  "steady_env E \<longleftrightarrow> random_source_ok (env_random E) \<and> (never_sequenced E \<or> always_sequenced E)"

definition held :: "('p, 'r) engine_env \<Rightarrow> PetPointerGesture \<Rightarrow> ('p, 'r) PetAnimationEngine \<Rightarrow> bool" where
  "held E g e \<longleftrightarrow> (never_sequenced E \<longrightarrow>
     grounded awake e \<and> (undragged e \<or> pg_state g = PointerGestureState.DRAGGING))"

definition fit :: "('p, 'r) PetAnimationEngine \<Rightarrow> bool" where
  "fit e \<longleftrightarrow> ready e \<and> en_track0 e \<noteq> None"

definition window_ok :: "('p, 'r) engine_env \<Rightarrow> ('p, 'r) PetWindow \<Rightarrow> bool" where
  "window_ok E w \<longleftrightarrow> fit (pw_engine w) \<and> held E (pw_gesture w) (pw_engine w)"

text \<open>A result that leaves a window in order, and one that also is no exception.\<close>

definition safe :: "('p, 'r) engine_env \<Rightarrow> ('a, ('p, 'r) PetWindow) sres \<Rightarrow> bool" where
  "safe E r \<longleftrightarrow> window_ok E (snd r)"

definition smooth :: "('p, 'r) engine_env \<Rightarrow> ('a, ('p, 'r) PetWindow) sres \<Rightarrow> bool" where
  "smooth E r \<longleftrightarrow> (\<exists>v w. r = (Inr v, w) \<and> window_ok E w)"

lemma safe_pair [simp]: "safe E (r, w) \<longleftrightarrow> window_ok E w"
  by (simp add: safe_def)

lemma smooth_Inr [simp]: "smooth E (Inr v, w) \<longleftrightarrow> window_ok E w"
  by (simp add: smooth_def)

lemma smooth_safe: "smooth E r \<Longrightarrow> safe E r"
  by (auto simp: smooth_def)

lemma safe_sbind:
  assumes "safe E r" and "\<And>v w. r = (Inr v, w) \<Longrightarrow> window_ok E w \<Longrightarrow> safe E (f v w)"
  shows "safe E (sbind r f)"
  using assms by (cases r; cases "fst r") auto

lemma smooth_sbind:
  assumes "smooth E r" and "\<And>v w. r = (Inr v, w) \<Longrightarrow> window_ok E w \<Longrightarrow> smooth E (f v w)"
  shows "smooth E (sbind r f)"
  using assms by (auto simp: smooth_def)

lemma safe_with_res: "window_ok E w \<Longrightarrow> (\<And>v. safe E (f v)) \<Longrightarrow> safe E (with_res r w f)"
  by (cases r) simp_all

lemma safe_catch:
  assumes "safe E r" and "\<And>w. window_ok E w \<Longrightarrow> safe E (caught w)"
    and "\<And>v w. window_ok E w \<Longrightarrow> safe E (f v w)"
  shows "safe E (catch_transition r caught f)"
  using assms by (cases r; cases "fst r") (auto simp: catch_transition_def)

lemmas safe_rules = safe_sbind safe_with_res safe_catch

lemma safe_ignoring: "safe E r \<Longrightarrow> safe E (ignoring r)"
  unfolding ignoring_def by (rule safe_sbind) simp_all

text \<open>The fields of the window the invariant does not look at.\<close>

lemma window_ok_plain [simp]:
  "window_ok E (w\<lparr>pw_drag_offset := a\<rparr>) = window_ok E w" "window_ok E (w\<lparr>pw_right_press_pos := a\<rparr>) = window_ok E w"
  "window_ok E (w\<lparr>pw_always_on_top := b\<rparr>) = window_ok E w" "window_ok E (w\<lparr>pw_exit_emitted := b\<rparr>) = window_ok E w"
  "window_ok E (w\<lparr>pw_allow_final_close := b\<rparr>) = window_ok E w" "window_ok E (w\<lparr>pw_timer_active := b\<rparr>) = window_ok E w"
  "window_ok E (w\<lparr>pw_last_tick := x\<rparr>) = window_ok E w" "window_ok E (w\<lparr>pw_available_actions := s\<rparr>) = window_ok E w"
  "window_ok E (w\<lparr>pw_role_pack_id := n\<rparr>) = window_ok E w" "window_ok E (w\<lparr>pw_has_source := b\<rparr>) = window_ok E w"
  "window_ok E (w\<lparr>pw_active_layout := l\<rparr>) = window_ok E w" "window_ok E (w\<lparr>pw_layout_workspace := r\<rparr>) = window_ok E w"
  "window_ok E (w\<lparr>pw_layout_action := c\<rparr>) = window_ok E w" "window_ok E (w\<lparr>pw_special_facing := d\<rparr>) = window_ok E w"
  "window_ok E (w\<lparr>pw_signals := sg\<rparr>) = window_ok E w" "window_ok E (w\<lparr>pw_moved_to := mv\<rparr>) = window_ok E w"
  by (simp_all add: window_ok_def)

lemma window_ok_moves [simp]:
  "window_ok E (move_window p w) = window_ok E w" "window_ok E (emit_signal s w) = window_ok E w"
  "window_ok E (accept_layout q ws l w) = window_ok E w"
  by (simp_all add: move_window_def emit_signal_def accept_layout_def)

lemma fit_ticks [simp]: "fit (e\<lparr>en_ticks := n\<rparr>) = fit e"
  by (simp add: fit_def ready_def)

lemma held_ticks [simp]: "held E g (e\<lparr>en_ticks := n\<rparr>) = held E g e"
  by (simp add: held_def)

lemma read_clock_ok: "read_clock E w = (now, w') \<Longrightarrow> window_ok E w' = window_ok E w"
  by (auto simp: read_clock_def window_ok_def)

lemma fit_valid: "fit e \<Longrightarrow> sm_valid (mm_states (en_motion e))"
  by (auto simp: fit_def ready_def intro: engine_inv_valid)

section \<open>Calls into the engine\<close>

lemma fit_exec:
  assumes "steady_env E" and "fit e" and "well_used E op e"
  shows "fit (engine_exec E op e)"
proof -
  have "random_source_ok (env_random E)" "engine_inv e" using assms by (simp_all add: steady_env_def fit_def ready_def)
  then show ?thesis
    using assms(2) exec_ready [of E e op] exec_keeps [of E e op] assms(3) by (simp add: fit_def keeps_def)
qed

lemma held_exec:
  assumes "held E g e" and "op \<noteq> EStartDragging" and "\<forall>ev. op \<noteq> EEvent ev"
    and "never_sequenced E \<longrightarrow> op = EResume \<longrightarrow> motion_of (en_motion e) \<noteq> PetMotionState.DRAGGING"
  shows "held E g (engine_exec E op e)"
  unfolding held_def
proof
  assume n: "never_sequenced E"
  then have "grounded awake (engine_exec E op e)"
    using undragged_exec [OF n, of awake e op] assms by (simp add: held_def)
  moreover have "undragged (engine_exec E op e)" if "undragged e"
    using undragged_exec [OF n that assms(2,3)] assms(4) n by simp
  ultimately show "grounded awake (engine_exec E op e) \<and>
      (undragged (engine_exec E op e) \<or> pg_state g = PointerGestureState.DRAGGING)"
    using assms(1) n by (auto simp: held_def)
qed

text \<open>The operations of the engine that any handler may call at any time.\<close>

definition harmless :: "engine_op \<Rightarrow> bool" where
  "harmless op \<longleftrightarrow> (case op of
      EStartDragging \<Rightarrow> False | EEvent _ \<Rightarrow> False | EResume \<Rightarrow> False
    | EAdvance dt wss \<Rightarrow> 0 \<le> dt \<and> wss \<noteq> [] | _ \<Rightarrow> True)"

lemma safe_on_engine:
  assumes "steady_env E" and "window_ok E w" and "harmless op"
    and "snd (f (pw_engine w)) = engine_exec E op (pw_engine w)"
  shows "safe E (on_engine f w)"
proof -
  have "well_used E op (pw_engine w)" using assms(3) by (auto simp: harmless_def well_used_def split: engine_op.splits)
  then have "fit (engine_exec E op (pw_engine w))" using fit_exec assms(1,2) by (auto simp: window_ok_def)
  moreover have "op \<noteq> EStartDragging" "\<forall>ev. op \<noteq> EEvent ev" "op \<noteq> EResume"
    using assms(3) by (auto simp: harmless_def)
  then have "held E (pw_gesture w) (engine_exec E op (pw_engine w))"
    using held_exec [of E "pw_gesture w" "pw_engine w" op] assms(2) by (simp add: window_ok_def)
  ultimately show ?thesis
    using assms(4) by (auto simp: on_engine_def safe_def window_ok_def split: prod.splits)
qed

lemma workspaces_nonempty [simp]: "workspaces scr \<noteq> []"
  by (simp add: workspaces_def)

lemma safe_calls:
  assumes "steady_env E" and "window_ok E w"
  shows "safe E (on_engine (contain_renderer_failure E) w)" "safe E (on_engine (start_autonomous E) w)"
    "safe E (on_engine (request_action E a source) w)" "safe E (on_engine (resume_autonomous E source) w)"
    "safe E (on_engine (engine_pause E) w)" "safe E (on_engine (engine_begin_closing E) w)"
    "safe E (on_engine engine_recover_failed_close w)" "safe E (on_engine (request_walk E d) w)"
    "safe E (on_engine (request_thinking_animation E) w)" "safe E (on_engine (request_reminder_animation E) w)"
    "safe E (on_engine (on_motion (drag_to p wss)) w)" "safe E (on_engine (on_motion (constrain wss)) w)"
    "safe E (on_engine (on_motion (restore_position p wss)) w)"
    "safe E (on_engine (on_motion (place_for_render_layout x y ws)) w)"
    "safe E (on_engine (handle_playback_event E ev fc) w)" "safe E (on_engine (engine_release_drag E wo) w)"
  by (rule safe_on_engine [OF assms, of EContainFailure] safe_on_engine [OF assms, of EStartAutonomous]
      safe_on_engine [OF assms, of "ERequestAction a source"] safe_on_engine [OF assms, of "EResumeAutonomous source"]
      safe_on_engine [OF assms, of EPause] safe_on_engine [OF assms, of EBeginClosing]
      safe_on_engine [OF assms, of ERecoverFailedClose] safe_on_engine [OF assms, of "EWalk d"]
      safe_on_engine [OF assms, of EThink] safe_on_engine [OF assms, of ERemind]
      safe_on_engine [OF assms, of "EDragTo p wss"] safe_on_engine [OF assms, of "EConstrain wss"]
      safe_on_engine [OF assms, of "ERestore p wss"] safe_on_engine [OF assms, of "EPlace x y ws"]
      safe_on_engine [OF assms, of "EPlayback ev fc"] safe_on_engine [OF assms, of "EReleaseDrag wo"];
      simp add: harmless_def)+

text \<open>A resume is safe once the pointer does not drag.\<close>

lemma safe_resume:
  assumes "steady_env E" and "window_ok E w" and "pg_state (pw_gesture w) \<noteq> PointerGestureState.DRAGGING"
  shows "safe E (on_engine (engine_resume E) w)"
proof -
  let ?e = "pw_engine w"
  have still: "never_sequenced E \<Longrightarrow> motion_of (en_motion ?e) \<noteq> PetMotionState.DRAGGING"
    using assms(2,3) by (auto simp: window_ok_def held_def grounded_def)
  have "well_used E EResume ?e"
  proof (cases "never_sequenced E")
    case False
    with assms(1,2) have "production_sequencing_enabled E ?e"
      by (auto simp: steady_env_def always_sequenced_def production_sequencing_enabled_def window_ok_def fit_def)
    then show ?thesis by (simp add: well_used_def)
  qed (simp add: well_used_def still)
  with assms(1,2) have "fit (engine_exec E EResume ?e)" by (simp add: fit_exec window_ok_def del: engine_exec.simps)
  moreover have "held E (pw_gesture w) (engine_exec E EResume ?e)"
    using held_exec [of E "pw_gesture w" ?e EResume] assms(2) still by (simp add: window_ok_def)
  ultimately show ?thesis by (auto simp: on_engine_def safe_def window_ok_def split: prod.splits)
qed

lemma smooth_sync: "window_ok E w \<Longrightarrow> smooth E (sync_renderer_state w)"
  by (rule frame_normalised [of "pw_engine w"])
    (simp_all add: window_ok_def fit_def ready_def sync_renderer_state_def)

section \<open>Handlers\<close>

text \<open>The gesture is over: the engine is safe after a containment or a release.\<close>

lemma cancel_idle: "pg_state (snd (gesture_cancel cause g)) = PointerGestureState.IDLE"
  by (simp add: gesture_cancel_def gesture_reset_def)

lemma window_ok_gesture:
  "window_ok E w \<Longrightarrow> (never_sequenced E \<Longrightarrow> undragged (pw_engine w)) \<Longrightarrow> window_ok E (w\<lparr>pw_gesture := g\<rparr>)"
  by (auto simp: window_ok_def held_def)

lemma idle_undragged:
  "window_ok E w \<Longrightarrow> pg_state (pw_gesture w) \<noteq> PointerGestureState.DRAGGING \<Longrightarrow> never_sequenced E
    \<Longrightarrow> undragged (pw_engine w)"
  by (simp add: window_ok_def held_def)

text \<open>A call after which nothing is dragged, whatever the gesture.\<close>

lemma safe_putting_down:
  assumes "steady_env E" and "fit (pw_engine w)" and "well_used E op (pw_engine w)"
    and "snd (f (pw_engine w)) = engine_exec E op (pw_engine w)"
    and "never_sequenced E \<Longrightarrow> undragged (snd (f (pw_engine w)))"
  shows "safe E (on_engine f w)"
proof -
  have "fit (snd (f (pw_engine w)))" using fit_exec [OF assms(1-3)] assms(4) by simp
  moreover have "grounded awake e" if "undragged e" for e :: "('a, 'b) PetAnimationEngine"
    using that by (simp add: grounded_def)
  ultimately show ?thesis
    using assms(5) by (auto simp: on_engine_def safe_def window_ok_def held_def split: prod.splits)
qed

lemma safe_release:
  assumes "steady_env E" and "window_ok E w" and "pw_engine w' = pw_engine w"
  shows "safe E (on_engine (engine_release_drag E wo) w')"
proof (rule safe_putting_down [OF assms(1), of _ "EReleaseDrag wo"])
  assume "never_sequenced E"
  with assms(2,3) show "undragged (snd (engine_release_drag E wo (pw_engine w')))"
    by (intro legacy_release) (simp_all add: window_ok_def held_def)
qed (use assms in \<open>simp_all add: window_ok_def well_used_def\<close>)

lemma safe_contain:
  assumes "steady_env E" and "window_ok E w" and "pw_engine w' = pw_engine w"
  shows "safe E (on_engine (contain_renderer_failure E) w')"
proof (rule safe_putting_down [OF assms(1), of _ EContainFailure])
  show "undragged (snd (contain_renderer_failure E (pw_engine w')))"
    using assms(2,3) by (intro contain_failure_undragged) (simp add: window_ok_def fit_def ready_def)
qed (use assms in \<open>simp_all add: window_ok_def well_used_def\<close>)

lemma on_engine_gesture [simp]: "pw_gesture (snd (on_engine f w)) = pw_gesture w"
  by (simp add: on_engine_def split: prod.split)

lemma safe_cancel:
  assumes "steady_env E" and "window_ok E w"
  shows "safe E (cancel_pointer_gesture E scr cause w)"
    and "pg_state (pw_gesture (snd (cancel_pointer_gesture E scr cause w))) = PointerGestureState.IDLE"
proof -
  obtain d g where d: "gesture_cancel cause (pw_gesture w) = (d, g)" by (cases "gesture_cancel cause (pw_gesture w)") auto
  let ?w = "w\<lparr>pw_right_press_pos := None, pw_gesture := g, pw_drag_offset := None\<rparr>"
  have idle: "pg_state g = PointerGestureState.IDLE" using cancel_idle [of cause "pw_gesture w"] d by simp
  have rel: "safe E (on_engine (engine_release_drag E wo) ?w)" for wo
    by (rule safe_release [OF assms]) simp
  have con: "safe E (on_engine (contain_renderer_failure E) ?w)" by (rule safe_contain [OF assms]) simp
  have other: "window_ok E ?w" if "d \<notin> {RELEASE_ACTIVE_DRAG, ABORT_ACTIVE_DRAG}"
  proof -
    have "pg_state (pw_gesture w) \<noteq> PointerGestureState.DRAGGING"
      using d that by (auto simp: gesture_cancel_def split: if_splits)
    from idle_undragged [OF assms(2) this] show ?thesis
      using assms(2) by (auto simp: window_ok_def held_def)
  qed
  show "safe E (cancel_pointer_gesture E scr cause w)"
    using d rel con other by (auto simp: cancel_pointer_gesture_def Let_def intro!: safe_rules)
  have keep: "pg_state (pw_gesture (snd (catch_transition (on_engine f ?w) (\<lambda>w2. (Inr (), w2)) (\<lambda>_ w2. (Inr (), w2)))))
      = PointerGestureState.IDLE"
    "pg_state (pw_gesture (snd (sbind (on_engine f ?w) (\<lambda>_ w2. (Inr (), w2))))) = PointerGestureState.IDLE"
    for f :: "('a, 'b) PetAnimationEngine \<Rightarrow> (ActionOutcome, ('a, 'b) PetAnimationEngine) sres"
    by (auto simp: catch_transition_def sbind_def on_engine_def idle split: prod.split sum.split)
  show "pg_state (pw_gesture (snd (cancel_pointer_gesture E scr cause w))) = PointerGestureState.IDLE"
    using d keep by (simp add: cancel_pointer_gesture_def Let_def idle)
qed

lemma safe_toggle:
  assumes "steady_env E" and "window_ok E w"
  shows "safe E (toggle_paused E scr w)"
proof -
  have clock: "safe E (case read_clock E w1 of (now, w2) \<Rightarrow> (Inr (), w2\<lparr>pw_last_tick := now\<rparr>))"
    if "window_ok E w1" for w1
    using that read_clock_ok [of E w1] by (auto split: prod.split)
  have idle: "pg_state (pw_gesture w1) \<noteq> PointerGestureState.DRAGGING"
    if "cancel_pointer_gesture E scr PAUSE_REQUESTED w = (Inr (), w1)" for w1
    using safe_cancel(2) [OF assms, of scr PAUSE_REQUESTED] that by simp
  show ?thesis
    using assms(2) safe_cancel(1) [OF assms]
    unfolding toggle_paused_def
    by (auto intro!: safe_rules safe_calls(5) safe_resume clock smooth_safe [OF smooth_sync] assms(1) idle)
qed

lemma safe_requests:
  assumes "steady_env E" and "window_ok E w"
  shows "safe E (request_safe_exit E scr w)" "safe E (recover_from_failed_close E w)"
    "safe E (request_pet_action E a source w)" "safe E (resume_pet_autonomous E source w)"
    "safe E (window_request_reminder E w)" "safe E (window_request_thinking E w)" "safe E (window_request_walk E d w)"
    "safe E (set_always_on_top b w)" "safe E (reclaim_to_workspace scr w)"
    "safe E (restore_persisted_position x y scr w)" "safe E (persisted_presentation_state scr w)"
    "safe E (restore_builtin_presentation_defaults scr w)" "safe E (context_menu_event w)"
    "safe E (right_press p w)" "safe E (right_release p t w)"
proof -
  note calls = safe_calls [OF assms(1)] and sync = smooth_safe [OF smooth_sync]
  have exit: "safe E (request_safe_exit E scr w)"
    using assms safe_cancel(1) [OF assms]
    unfolding request_safe_exit_def by (auto intro!: safe_rules calls sync)
  then show "safe E (request_safe_exit E scr w)" .
  show "safe E (recover_from_failed_close E w)"
    using assms(2) unfolding recover_from_failed_close_def
    by (auto intro!: safe_rules calls sync simp: read_clock_ok split: prod.split)
  show "safe E (request_pet_action E a source w)" "safe E (resume_pet_autonomous E source w)"
    using assms(2) unfolding request_pet_action_def resume_pet_autonomous_def
    by (auto intro!: safe_rules calls sync)
  show "safe E (window_request_reminder E w)" "safe E (window_request_thinking E w)" "safe E (window_request_walk E d w)"
    using assms(2)
    unfolding window_request_reminder_def window_request_thinking_def window_request_walk_def request_animation_def
    by (auto intro!: safe_rules calls sync)
  show "safe E (set_always_on_top b w)" "safe E (reclaim_to_workspace scr w)"
    "safe E (restore_persisted_position x y scr w)" "safe E (persisted_presentation_state scr w)"
    "safe E (restore_builtin_presentation_defaults scr w)" "safe E (context_menu_event w)"
    "safe E (right_press p w)" "safe E (right_release p t w)"
    using assms(2)
    unfolding set_always_on_top_def reclaim_to_workspace_def restore_persisted_position_def
      persisted_presentation_state_def restore_builtin_presentation_defaults_def context_menu_event_def
      right_press_def right_release_def constrain_window_def restore_window_def Let_def
    by (auto intro!: safe_rules calls split: option.split)
qed

lemma safe_left_press:
  assumes "window_ok E w" and "pg_state (pw_gesture w) = PointerGestureState.IDLE"
  shows "safe E (left_press l g t w)"
proof -
  have "window_ok E (w\<lparr>pw_gesture := g1\<rparr>)" for g1
    by (rule window_ok_gesture [OF assms(1)]) (rule idle_undragged [OF assms(1)]; simp add: assms(2))
  then show ?thesis
    using assms(1) unfolding left_press_def
    by (auto intro!: safe_with_res split: prod.split sum.split py_error.split)
qed

lemma safe_begin_drag:
  assumes "steady_env E" and "window_ok E w" and "pg_state (pw_gesture w) \<noteq> PointerGestureState.DRAGGING"
    and "pg_state g = PointerGestureState.DRAGGING"
  shows "safe E (begin_drag E (w\<lparr>pw_gesture := g\<rparr>))"
proof -
  obtain r e where r: "engine_start_dragging E (pw_engine w) = (r, e)" by (cases "engine_start_dragging E (pw_engine w)") auto
  have "fit (engine_exec E EStartDragging (pw_engine w))"
    using assms(1,2) by (intro fit_exec) (simp_all add: window_ok_def well_used_def)
  with r have fit: "fit e" by simp
  have before: "never_sequenced E \<Longrightarrow> undragged (pw_engine w)" by (rule idle_undragged [OF assms(2,3)])
  have ok: "window_ok E (w\<lparr>pw_engine := e, pw_gesture := g1\<rparr>)"
    if "never_sequenced E \<Longrightarrow> undragged e" for g1
    using fit that by (auto simp: window_ok_def held_def grounded_def)
  show ?thesis
  proof (cases r)
    case (Inl err)
    then have "undragged e" if "never_sequenced E"
      using legacy_start_dragging [OF that r] before [OF that] by (simp add: grounded_def)
    note ok = ok [OF this]
    moreover have "window_ok E (w\<lparr>pw_gesture := g, pw_engine := e\<rparr>)"
      using ok [of g] by (simp add: window_ok_def)
    ultimately show ?thesis using Inl r by (auto simp: begin_drag_def catch_transition_def on_engine_def)
  next
    case (Inr oc)
    then have started: "never_sequenced E \<longrightarrow> oc = ActionOutcome.LEGACY_DIRECT \<and> grounded awake e"
      using legacy_start_dragging [OF _ r] by auto
    then have "window_ok E (w\<lparr>pw_gesture := g, pw_engine := e\<rparr>)"
      using fit assms(4) by (auto simp: window_ok_def held_def)
    moreover have "window_ok E (w\<lparr>pw_engine := e, pw_gesture := g1\<rparr>)"
      if "oc \<notin> {ActionOutcome.ACCEPTED, ActionOutcome.LEGACY_DIRECT}" for g1
      using started that by (intro ok) auto
    ultimately show ?thesis
      using Inr r by (auto simp: begin_drag_def catch_transition_def on_engine_def
          intro!: safe_sbind smooth_safe [OF smooth_sync])
  qed
qed

lemma move_begins:
  "gesture_move p g = (BEGIN_DRAG, g1) \<Longrightarrow>
     pg_state g \<noteq> PointerGestureState.DRAGGING \<and> pg_state g1 = PointerGestureState.DRAGGING"
  by (auto simp: gesture_move_def Let_def split: if_splits option.splits)

lemma move_continues:
  "gesture_move p g = (d, g1) \<Longrightarrow> d \<noteq> BEGIN_DRAG \<Longrightarrow> pg_state g1 = pg_state g"
  by (auto simp: gesture_move_def Let_def split: if_splits option.splits)

lemma safe_left_move:
  assumes "steady_env E" and "window_ok E w"
  shows "safe E (left_move E scr p w)"
proof -
  obtain d g where d: "gesture_move p (pw_gesture w) = (d, g)" by (cases "gesture_move p (pw_gesture w)") auto
  have "safe E (if d = BEGIN_DRAG then begin_drag E (w\<lparr>pw_gesture := g\<rparr>) else (Inr True, w\<lparr>pw_gesture := g\<rparr>))"
    using safe_begin_drag [OF assms, of g] move_begins [of p "pw_gesture w" g] move_continues [OF d] d assms(2)
    by (auto simp: window_ok_def held_def)
  then show ?thesis
    using d unfolding left_move_def by (auto intro!: safe_sbind safe_calls assms(1) split: option.split)
qed

lemma safe_left_release:
  assumes "steady_env E" and "window_ok E w"
  shows "safe E (left_release E scr p w)"
proof -
  obtain d g where d: "gesture_release p (pw_gesture w) = (d, g)" by (cases "gesture_release p (pw_gesture w)") auto
  let ?w = "w\<lparr>pw_gesture := g, pw_drag_offset := None\<rparr>"
  have "window_ok E ?w" if "d \<noteq> RELEASE_ACTIVE_DRAG"
  proof -
    have "pg_state (pw_gesture w) \<noteq> PointerGestureState.DRAGGING"
      using d that by (auto simp: gesture_release_def split: if_splits)
    from idle_undragged [OF assms(2) this] assms(2) show ?thesis by (auto simp: window_ok_def held_def)
  qed
  moreover have "safe E (on_engine (engine_release_drag E wo) ?w)" for wo
    by (rule safe_release [OF assms]) simp
  ultimately show ?thesis
    using d unfolding left_release_def Let_def
    by (auto intro!: safe_sbind safe_requests assms(1) smooth_safe [OF smooth_sync])
qed

section \<open>The frame timer\<close>

text \<open>Containing a failure never raises, nor does the restart of autonomy.\<close>

lemma smooth_on_engine:
  assumes "safe E (on_engine f w)" and "\<exists>v e. f (pw_engine w) = (Inr v, e)"
  shows "smooth E (on_engine f w)"
  using assms by (auto simp: on_engine_def safe_def smooth_def split: prod.splits)

lemma fit_inv: "window_ok E w \<Longrightarrow> engine_inv (pw_engine w)"
  by (simp add: window_ok_def fit_def ready_def)

lemma smooth_contain:
  "steady_env E \<Longrightarrow> window_ok E w \<Longrightarrow> smooth E (on_engine (contain_renderer_failure E) w)"
  using contain_renderer_failure_returns [OF fit_inv, of E w E]
  by (intro smooth_on_engine safe_calls) (auto simp: returns_def)

lemma smooth_start_autonomous:
  "steady_env E \<Longrightarrow> window_ok E w \<Longrightarrow> smooth E (on_engine (start_autonomous E) w)"
  using start_autonomous_returns [OF _ fit_inv, of E E w]
  by (intro smooth_on_engine safe_calls) (auto simp: returns_def steady_env_def)

lemma smooth_degrade: "steady_env E \<Longrightarrow> window_ok E w \<Longrightarrow> smooth E (degrade E w)"
  unfolding degrade_def by (auto intro!: smooth_sbind smooth_contain)

lemma smooth_advance:
  assumes "steady_env E" and "window_ok E w" and "0 \<le> dt"
  shows "smooth E (on_engine (advance E dt (workspaces scr)) w)"
proof (rule smooth_on_engine)
  show "safe E (on_engine (advance E dt (workspaces scr)) w)"
    by (rule safe_on_engine [OF assms(1,2), of "EAdvance dt (workspaces scr)"]) (simp_all add: harmless_def assms(3))
  show "\<exists>v e. advance E dt (workspaces scr) (pw_engine w) = (Inr v, e)"
    using advance_active [of E "pw_engine w" dt "workspaces scr"] advance_paused [of "pw_engine w" dt "workspaces scr" E]
      assms by (auto simp: steady_env_def window_ok_def fit_def)
qed

text \<open>Delivering events keeps the window in order, also when one of them raises in the middle.\<close>

lemma safe_deliver:
  "steady_env E \<Longrightarrow> window_ok E w \<Longrightarrow> safe E (on_engine (deliver_events E fc evs) w)"
proof (induction evs arbitrary: w)
  case (Cons ev evs)
  obtain r e where r: "handle_playback_event E ev fc (pw_engine w) = (r, e)"
    by (cases "handle_playback_event E ev fc (pw_engine w)") auto
  then have "window_ok E (w\<lparr>pw_engine := e\<rparr>)"
    using safe_calls(15) [OF Cons.prems, of ev fc] by (simp add: on_engine_def)
  with Cons.IH [of "w\<lparr>pw_engine := e\<rparr>"] Cons.prems(1) r show ?case
    by (cases r) (auto simp: on_engine_def safe_def split: prod.splits)
qed (simp add: on_engine_def)

lemma smooth_poll: "steady_env E \<Longrightarrow> window_ok E w \<Longrightarrow> smooth E (poll_source E ti w)"
  using safe_deliver [of E w "pw_special_facing w"]
  by (auto simp: poll_source_def safe_def intro!: smooth_degrade split: option.split prod.split sum.split) (metis snd_conv)+

lemma smooth_layout_failures:
  assumes "steady_env E" and "window_ok E w"
  shows "smooth E (layout_failed E w)" "smooth E (layout_refused E w)"
proof -
  note c = smooth_contain [OF assms]
  from c show "smooth E (layout_failed E w)" unfolding layout_failed_def by (auto intro!: smooth_sbind)
  from c show "smooth E (layout_refused E w)" unfolding layout_refused_def by (auto simp: smooth_def)
qed

lemma smooth_plan:
  assumes "steady_env E" and "window_ok E w"
  shows "smooth E (plan_render_layout E ti q p body ws display w)"
proof -
  have "window_ok E w1" if "on_engine (on_motion (place_for_render_layout x y ws)) w = (r, w1)" for x y r w1
    using safe_calls(14) [OF assms, of x y ws] that by simp
  then show ?thesis
    using assms smooth_layout_failures [OF assms(1)]
    by (auto simp: plan_render_layout_def split: plan_result.split prod.split sum.split)
qed

lemma engine_size_ok: "engine_inv e \<Longrightarrow> size_ok (mm_window_size (en_motion e))"
  by (simp add: engine_inv_def body_inv_def motion_inv_def)

lemma display_pair_ok: "size_ok win \<Longrightarrow> \<exists>q. select_workspace_display_pair p win scr = Inr q"
  using select_workspace_Inr_iff [of p win "map fst scr"]
  by (auto simp: select_workspace_display_pair_def is_ok_iff)

lemma layout_workspace_ok: "size_ok win \<Longrightarrow> \<exists>q. layout_workspace scr request p win = Inr q"
  using display_pair_ok [of win p scr] select_workspace_Inr_iff [of p win "workspaces scr"]
  by (auto simp: layout_workspace_def is_ok_iff)

lemma smooth_prepare:
  assumes "steady_env E" and "window_ok E w"
  shows "smooth E (prepare_render_layout E scr ti request w)"
proof (cases "pw_has_overflow w")
  case True
  let ?e = "pw_engine w" let ?m = "en_motion ?e"
  let ?p = "mm_position ?m" and ?win = "mm_window_size ?m"
  have snap: "on_engine (on_motion msnapshot) w = (Inr (snapshot_of ?m), w)"
    using fit_valid [of ?e] assms(2) by (simp add: on_engine_def on_motion_def window_ok_def)
  have "size_ok ?win" by (rule engine_size_ok [OF fit_inv [OF assms(2)]])
  then obtain ws display where ws: "layout_workspace scr request ?p ?win = Inr (ws, display)"
    using layout_workspace_ok [of ?win scr request ?p] by auto
  have rect: "\<exists>b. mk_Rect (px ?p) (py ?p) (width ?win) (height ?win) = Inr b"
    using \<open>size_ok ?win\<close> by (simp add: mk_Rect_def size_ok_def)
  have again: "smooth E (with_res (frame (pw_engine w1)) w1 (\<lambda>fr.
      plan_render_layout E ti (action_request_for_frame fr) ?p body ws display w1))"
    if "window_ok E w1" for w1 body
    by (rule frame_normalised [of "pw_engine w1"])
      (use that smooth_plan [OF assms(1) that] in \<open>simp_all add: window_ok_def fit_def ready_def\<close>)
  show ?thesis
    using True snap ws rect assms smooth_plan [OF assms]
    by (auto simp: prepare_render_layout_def Let_def snapshot_of_def
        intro!: smooth_sbind smooth_contain smooth_start_autonomous again)
qed (use assms in \<open>simp add: prepare_render_layout_def\<close>)

text \<open>Where the layout of a frame comes from: it is the one in use, or the renderer has just planned it.\<close>

definition layout_source :: "tick_input \<Rightarrow> ('p, 'r) PetWindow \<Rightarrow> render_layout \<Rightarrow> bool" where
  "layout_source ti w l \<longleftrightarrow> pw_has_overflow w \<and>
     (pw_active_layout w = Some l \<or> (\<exists>body ws display. ti_plan ti body ws display = Planned l))"

definition same_layout :: "('p, 'r) PetWindow \<Rightarrow> ('p, 'r) PetWindow \<Rightarrow> bool" where
  "same_layout w w' \<longleftrightarrow> pw_has_overflow w' = pw_has_overflow w \<and> pw_active_layout w' = pw_active_layout w"

lemma on_engine_layout: "on_engine f w = (r, w') \<Longrightarrow> same_layout w w'"
  by (auto simp: on_engine_def same_layout_def split: prod.splits)

lemma degrade_layout: "degrade E w = (r, w') \<Longrightarrow> same_layout w w'"
  by (auto simp: degrade_def on_engine_def same_layout_def sbind_def split: prod.splits sum.splits)

lemma poll_layout: "poll_source E ti w = (r, w') \<Longrightarrow> same_layout w w'"
  by (auto simp: poll_source_def same_layout_def split: if_splits option.splits prod.splits sum.splits
      dest!: on_engine_layout degrade_layout)

lemma layout_failures_none:
  "layout_failed E w \<noteq> (Inr (Some l), w')" "layout_refused E w \<noteq> (Inr (Some l), w')"
  by (auto simp: layout_refused_def layout_failed_def sbind_def split: prod.splits sum.splits)

lemma plan_source:
  "plan_render_layout E ti q p body ws display w = (Inr (Some l), w') \<Longrightarrow>
   \<exists>body ws display. ti_plan ti body ws display = Planned l"
  by (auto simp: plan_render_layout_def layout_failures_none split: plan_result.splits if_splits prod.splits sum.splits)

lemma prepare_source:
  assumes "prepare_render_layout E scr ti request w = (Inr (Some l), w')"
  shows "layout_source ti w l"
proof -
  have has: "pw_has_overflow w" using assms by (auto simp: prepare_render_layout_def split: if_splits)
  obtain r w1 where s: "on_engine (on_motion msnapshot) w = (r, w1)" by fastforce
  have "pw_active_layout w1 = Some l \<or> (\<exists>body ws display. ti_plan ti body ws display = Planned l)"
    using assms has s
    by (auto simp: prepare_render_layout_def Let_def sbind_def with_res_def dest: plan_source
        split: if_splits prod.splits sum.splits)
  then show ?thesis using has on_engine_layout [OF s] by (auto simp: layout_source_def same_layout_def)
qed

text \<open>A frame runs to its end, or the renderer refuses to install the layout of the frame.\<close>

lemma tick_cases:
  assumes "steady_env E" and "window_ok E w"
  obtains w' where "advance_animation E scr ti w = (Inr (), w')" "window_ok E w'"
    | l err w' where "layout_source ti w l" "ti_set_layout ti l = Inl err"
      "advance_animation E scr ti w = (Inl err, w')" "window_ok E w'"
proof -
  obtain now w0 where c: "read_clock E w = (now, w0)" by (cases "read_clock E w") auto
  have w0: "window_ok E (w0\<lparr>pw_last_tick := now\<rparr>)" "same_layout w w0"
    using read_clock_ok [OF c] assms(2) c by (auto simp: read_clock_def same_layout_def)
  obtain snap w1 where w1: "on_engine (advance E (max 0 (now - pw_last_tick w0)) (workspaces scr)) (w0\<lparr>pw_last_tick := now\<rparr>)
      = (Inr snap, w1)" "window_ok E w1"
    using smooth_advance [OF assms(1) w0(1), of "max 0 (now - pw_last_tick w0)" scr] by (auto simp: smooth_def)
  obtain u2 w2 where w2: "poll_source E ti w1 = (Inr u2, w2)" "window_ok E w2"
    using smooth_poll [OF assms(1) w1(2)] by (auto simp: smooth_def)
  obtain layout w3 where w3: "prepare_render_layout E scr ti (action_request_for_frame (as_frame snap)) w2 = (Inr layout, w3)"
      "window_ok E w3"
    using smooth_prepare [OF assms(1) w2(2), of scr ti "action_request_for_frame (as_frame snap)"]
    unfolding smooth_def by blast
  let ?w4 = "move_window (mm_position (en_motion (pw_engine w3))) w3"
  have w4: "window_ok E ?w4" using w3(2) by simp
  let ?set = "case layout of None \<Rightarrow> Inr () | Some l \<Rightarrow> ti_set_layout ti l"
  have eq: "advance_animation E scr ti w = with_res ?set ?w4 (\<lambda>_.
      if pw_available_actions ?w4 \<noteq> {} \<and> ti_renderer_failed ti
      then sbind (degrade E ?w4) (\<lambda>_ w5. sync_renderer_state w5) else (Inr (), ?w4))"
    using c w1(1) w2(1) w3(1) by (simp add: advance_animation_def Let_def)
  show ?thesis
  proof (cases ?set)
    case (Inr u)
    have "smooth E (advance_animation E scr ti w)"
      unfolding eq using Inr w4 by (auto intro!: smooth_sbind smooth_degrade smooth_sync assms(1))
    then show ?thesis using that(1) by (auto simp: smooth_def)
  next
    case (Inl err)
    then obtain l where l: "layout = Some l" "ti_set_layout ti l = Inl err" by (cases layout) auto
    have "layout_source ti w2 l" using prepare_source w3(1) l(1) by blast
    moreover have "same_layout w w2"
      using w0(2) on_engine_layout [OF w1(1)] poll_layout [OF w2(1)] by (simp add: same_layout_def)
    ultimately have "layout_source ti w l" by (simp add: layout_source_def same_layout_def)
    moreover have "advance_animation E scr ti w = (Inl err, ?w4)" unfolding eq using Inl by simp
    ultimately show ?thesis using that(2) l(2) w4 by blast
  qed
qed

lemma safe_tick:
  assumes "steady_env E" and "window_ok E w"
  shows "safe E (advance_animation E scr ti w)"
  by (rule tick_cases [OF assms, of scr ti]) (simp_all add: safe_def)

section \<open>Runs\<close>

lemma safe_handle:
  assumes "steady_env E" and "window_ok E w"
    and "\<And>l g t. ev = Left_Press l g t \<Longrightarrow> pg_state (pw_gesture w) = PointerGestureState.IDLE"
  shows "safe E (window_handle E scr ev w)"
proof (cases ev)
  case (Left_Press l g t)
  then show ?thesis using safe_left_press [OF assms(2) assms(3)] by (simp add: safe_ignoring)
next
  case Close
  then show ?thesis
    using assms(2) safe_requests(1) [OF assms(1,2), of scr]
    by (auto simp: close_event_def intro!: safe_ignoring safe_sbind)
qed (use assms(2) in \<open>auto simp: complete_safe_close_def hide_event_def
      intro!: safe_ignoring safe_requests safe_left_move safe_left_release safe_toggle safe_cancel
        safe_tick assms(1)\<close>)

lemma reach_ok:
  assumes "steady_env E" and "window_ok E w0" and "window_reach E w0 w"
  shows "window_ok E w"
  using assms(3,1,2)
proof (induction rule: window_reach.induct)
  case (window_event w ev scr)
  then show ?case using safe_handle [of E w ev scr] by (simp add: window_exec_def safe_def)
qed

end
