(* ===== verification/Pet_Window_Properties.thy ===== *)
theory Pet_Window_Properties
  imports Pet_Window_Invariant Engine_Properties
begin

text \<open>
  The properties of the pet window: the one exception that can leave its frame timer, whatever the
  pointer, the menus, the renderer and the display do; and the two pointer sequences in which a handler
  raises.
\<close>

section \<open>Construction\<close>

lemma new_window_ok:
  assumes "steady_env E" and "mk_PetAnimationConfig cfg = Inr cfg"
    and "ctrl_inv track0" and "ct_active_request track0 = None"
  shows "\<exists>w. new_pet_window E rng cfg track0 scheduler on_top pack actions source overflow renderer_ok primary
    = (Inr (), w) \<and> window_ok E w \<and> pw_gesture w = new_gesture"
proof -
  define initial :: Point where "initial = \<lparr>px = right primary - 160 - 32, py = bottom primary - 180\<rparr>"
  define st where "st = \<lparr>sm_lifecycle = PetLifecycleState.ACTIVE, sm_motion = PetMotionState.IDLE,
      sm_behaviors = {PetBehaviorState.BREATHING}, sm_facing = PetFacing.RIGHT,
      sm_activity = PetActivityState.NONE, sm_epoch = 0\<rparr>"
  define m where "m = new_motion_model initial \<lparr>width = 160, height = 180\<rparr> default_motion_config st"
  define e where "e = new_engine E m rng cfg (Some track0) scheduler (actions \<noteq> {})"
  have "new_state_machine 0 = Inr st" by (simp add: new_state_machine_def st_def)
  then have "motion_inv m"
    unfolding m_def by (intro motion_inv_new) (simp_all add: size_ok_def default_motion_config_ok)
  then have body: "body_inv m" by (simp add: body_inv_def not_running_def m_def new_motion_model_def st_def)
  have sel: "en_motion e = m" "en_track0 e = Some track0" "en_pending e = None" "en_scheduler_state e = None"
    "en_resume_action e = None" "en_config e = cfg" "en_blink_elapsed e = 0"
    by (simp_all add: e_def new_engine_def Let_def split: prod.split)
  have "engine_inv e" using body assms(3,4) by (simp add: engine_inv_def sel track0_inv_idle)
  then have fit: "fit e"
    using assms(2) by (simp add: fit_def ready_def sel) (simp add: m_def new_motion_model_def)
  have down: "motion_of (en_motion e) = PetMotionState.IDLE" by (simp add: sel m_def new_motion_model_def st_def)
  have ok: "window_ok E w" if "pw_engine w = e" for w
    using fit down that by (simp add: window_ok_def held_def grounded_def)
  let ?w = "\<lparr>pw_engine = e, pw_gesture = new_gesture, pw_drag_offset = None, pw_right_press_pos = None,
              pw_always_on_top = on_top, pw_default_always_on_top = on_top, pw_default_position = initial,
              pw_exit_emitted = False, pw_allow_final_close = False, pw_timer_active = False, pw_last_tick = 0,
              pw_available_actions = (if renderer_ok then actions else {}),
              pw_role_pack_id = (if renderer_ok then pack else ''placeholder''),
              pw_has_source = (renderer_ok \<and> source), pw_has_overflow = (renderer_ok \<and> overflow),
              pw_active_layout = None, pw_layout_workspace = None, pw_layout_action = None,
              pw_special_facing = None, pw_moved_to = (0, 0), pw_signals = []\<rparr>"
  let ?start = "if renderer_ok \<and> scheduler
      then sbind (on_engine (start_autonomous E) ?w) (\<lambda>_ w1. (Inr (), w1)) else (Inr (), ?w)"
  have eq: "new_pet_window E rng cfg track0 scheduler on_top pack actions source overflow renderer_ok primary =
      sbind ?start (\<lambda>_ w1. sbind (sync_renderer_state w1) (\<lambda>_ w2.
        case read_clock E w2 of
          (now, w3) \<Rightarrow> (Inr (), (move_window initial w3)\<lparr>pw_last_tick := now, pw_timer_active := True\<rparr>)))"
    by (simp only: new_pet_window_def Let_def e_def m_def st_def initial_def)
  have "smooth E ?start" using ok [of ?w] smooth_start_autonomous [OF assms(1), of ?w] by (auto intro!: smooth_sbind)
  then obtain u w1 where w1: "?start = (Inr u, w1)" "window_ok E w1" by (auto simp only: smooth_def)
  have g1: "pw_gesture w1 = new_gesture"
    using w1(1) by (auto simp: on_engine_def sbind_def split: if_splits prod.splits sum.splits)
  obtain u2 w2 where w2: "sync_renderer_state w1 = (Inr u2, w2)" "window_ok E w2"
    using smooth_sync [OF w1(2)] by (auto simp: smooth_def)
  have g2: "w2 = w1" using w2(1) by (auto simp: sync_renderer_state_def with_res_def split: sum.splits)
  obtain now w3 where w3: "read_clock E w2 = (now, w3)" by (cases "read_clock E w2") auto
  have "window_ok E w3" "pw_gesture w3 = new_gesture"
    using read_clock_ok [OF w3] w2(2) w3 g1 g2 by (auto simp: read_clock_def)
  then show ?thesis unfolding eq w1(1) by (simp add: w2(1) w3) (simp add: move_window_def)
qed

section \<open>Properties\<close>

text \<open>
  C8. What can leave the frame timer of the pet window. With a random source that keeps its ranges and a
  player whose capabilities do not change, whatever else player and renderer do, the window comes up;
  and after any sequence of moves, releases, menu actions, requests, hides, closes, recoveries, frames
  and presses of the left button (which come only while no press is open), with exceptions in any
  handler in between, any screens and any failures of the renderer, the next frame runs to its end, or
  it raises what the renderer raised when it was handed the layout in use or the one it had just
  planned. Nothing else raises, and in either case the state of the pet can be read before and after.
\<close>

theorem window_frames_raise_only_from_layout:
  assumes "steady_env E" and "mk_PetAnimationConfig cfg = Inr cfg"
    and "ctrl_inv track0" and "ct_active_request track0 = None"
  shows "\<exists>w0. new_pet_window E rng cfg track0 scheduler on_top pack actions source overflow renderer_ok primary
      = (Inr (), w0)
    \<and> (\<forall>w scr ti. window_reach E w0 w \<longrightarrow>
         (\<exists>r w'. advance_animation E scr ti w = (r, w')
            \<and> (case r of Inr _ \<Rightarrow> True
                | Inl err \<Rightarrow> \<exists>l. layout_source ti w l \<and> ti_set_layout ti l = Inl err)
            \<and> (\<exists>s. window_state w' = Inr s \<and> layered_ok s))
         \<and> (\<exists>s. window_state w = Inr s \<and> layered_ok s))"
proof -
  obtain w0 where w0: "new_pet_window E rng cfg track0 scheduler on_top pack actions source overflow renderer_ok primary
      = (Inr (), w0)" "window_ok E w0"
    using new_window_ok [OF assms] by blast
  have readable: "\<exists>s. window_state w = Inr s \<and> layered_ok s" if "window_ok E w" for w
    using fit_valid [of "pw_engine w"] that by (auto simp: window_ok_def window_state_def sm_valid_def)
  have "(\<exists>r w'. advance_animation E scr ti w = (r, w')
        \<and> (case r of Inr _ \<Rightarrow> True | Inl err \<Rightarrow> \<exists>l. layout_source ti w l \<and> ti_set_layout ti l = Inl err)
        \<and> (\<exists>s. window_state w' = Inr s \<and> layered_ok s))
      \<and> (\<exists>s. window_state w = Inr s \<and> layered_ok s)"
    if "window_reach E w0 w" for w scr ti
  proof -
    have ok: "window_ok E w" by (rule reach_ok [OF assms(1) w0(2) that])
    show ?thesis
      by (rule tick_cases [OF assms(1) ok, of scr ti]) (use readable ok in auto)
  qed
  with w0(1) show ?thesis by blast
qed

lemma sample_env_steady: "steady_env sample_env"
  using sample_env_ok by (auto simp: steady_env_def always_sequenced_def never_sequenced_def sample_player_def)

theorem window_frames_raise_only_from_layout_witness:
  "\<exists>w0 w'. new_pet_window sample_env 0 default_animation_config sample_controller False True ''sample'' UNIV
        True True True sample_workspace = (Inr (), w0)
    \<and> advance_animation sample_env [] \<lparr>ti_events = None, ti_plan = \<lambda>_ _ _. PetRenderLayoutFailure,
          ti_set_layout = \<lambda>_. Inr (), ti_renderer_failed = True\<rparr>
        (window_exec sample_env ([], Toggle_Paused) w0) = (Inr (), w')"
proof -
  let ?ti = "\<lparr>ti_events = None, ti_plan = \<lambda>_ _ _. PetRenderLayoutFailure,
          ti_set_layout = \<lambda>_. Inr (), ti_renderer_failed = True\<rparr>"
  obtain w0 where w0: "new_pet_window sample_env 0 default_animation_config sample_controller False True ''sample'' UNIV
        True True True sample_workspace = (Inr (), w0)"
    and run: "\<And>w scr ti. window_reach sample_env w0 w \<Longrightarrow> \<exists>r w'. advance_animation sample_env scr ti w = (r, w')
      \<and> (case r of Inr _ \<Rightarrow> True | Inl err \<Rightarrow> \<exists>l. layout_source ti w l \<and> ti_set_layout ti l = Inl err)"
    using window_frames_raise_only_from_layout [OF sample_env_steady default_animation_config_ok sample_controller_inv
        sample_controller_free, of 0 False True "''sample''" UNIV True True True sample_workspace] by blast
  have "window_reach sample_env w0 (window_exec sample_env ([], Toggle_Paused) w0)"
    by (rule window_reach.window_event [OF window_reach.window_start]) simp
  from run [OF this, of "[]" ?ti] obtain r w' where
    "advance_animation sample_env [] ?ti (window_exec sample_env ([], Toggle_Paused) w0) = (r, w')"
    "case r of Inr _ \<Rightarrow> True
       | Inl err \<Rightarrow> \<exists>l. layout_source ?ti (window_exec sample_env ([], Toggle_Paused) w0) l \<and> ti_set_layout ?ti l = Inl err"
    by blast
  with w0 show ?thesis by (cases r) auto
qed

text \<open>
  A flick is neither a click nor a drag. When the button goes down and up again without a move
  event in between, and the pointer has gone at least the drag distance, the release handler asks the
  engine to end a drag that never began: it raises, the gesture is over, and nothing has happened to
  the pet.
\<close>

lemma flick_release_raises:
  assumes "window_ok E w" and "pg_state (pw_gesture w) = PointerGestureState.IDLE"
    and "lifecycle_of (en_motion (pw_engine w)) \<noteq> PetLifecycleState.CLOSING"
    and "motion_of (en_motion (pw_engine w)) \<noteq> PetMotionState.DRAGGING"
    and "en_drag_session (pw_engine w) = None" and "0 < t" and "t \<le> gesture_distance start p"
  shows "\<exists>w1 w2. left_press at_point start (Finite t) w = (Inr True, w1)
    \<and> left_release E scr p w1 = (Inl PetStateTransitionError, w2)
    \<and> pw_engine w2 = pw_engine w \<and> pg_state (pw_gesture w2) = PointerGestureState.IDLE"
proof -
  let ?e = "pw_engine w"
  have valid: "sm_valid (mm_states (en_motion ?e))" using assms(1) by (intro fit_valid) (simp add: window_ok_def)
  obtain g1 where g1: "gesture_press at_point start (Finite t) (pw_gesture w) = (Inr GestureDecision.NONE, g1)" "pending_at start t g1"
    using press_pending [OF assms(6), of at_point start "pw_gesture w"] by blast
  obtain g2 where g2: "gesture_release p g1 = (RELEASE_ACTIVE_DRAG, g2)"
    using release_pending_gesture [OF g1(2), of p] assms(7) by (cases "gesture_release p g1") auto
  have idle: "pg_state g2 = PointerGestureState.IDLE" using release_idle [of p g1] g2 by simp
  have press: "left_press at_point start (Finite t) w =
      (Inr True, w\<lparr>pw_gesture := g1, pw_drag_offset := Some at_point\<rparr>)"
    using valid assms(3) g1(1) by (simp add: left_press_def window_accepts_def accepts_interaction_def)
  have still: "finish_release None m = (Inl PetStateTransitionError, m)"
    if "motion_of m \<noteq> PetMotionState.DRAGGING" for m
    using that by (auto simp: finish_release_def release_drag_def require_motion_def require_active_def raise_if_def)
  have "engine_release_drag E wo ?e = (Inl PetStateTransitionError, ?e)" for wo
    using assms(5) still [OF assms(4)]
    by (simp add: engine_release_drag_def legacy_direct_def on_motion_def motion_release_drag_def)
  then show ?thesis
    using press g2 idle by (auto simp: left_release_def on_engine_def Let_def)
qed

lemma flick_release_raises_witness:
  "\<exists>w w1 w2. new_pet_window sample_env 0 default_animation_config sample_controller False True ''sample'' UNIV
        True True True sample_workspace = (Inr (), w)
    \<and> left_press \<lparr>px = 5, py = 5\<rparr> \<lparr>px = 100, py = 100\<rparr> (Finite 10) w = (Inr True, w1)
    \<and> left_release sample_env [] \<lparr>px = 150, py = 100\<rparr> w1 = (Inl PetStateTransitionError, w2)"
proof -
  have "\<exists>w. new_pet_window sample_env 0 default_animation_config sample_controller False True ''sample'' UNIV
        True True True sample_workspace = (Inr (), w)
      \<and> lifecycle_of (en_motion (pw_engine w)) = PetLifecycleState.ACTIVE
      \<and> motion_of (en_motion (pw_engine w)) = PetMotionState.IDLE \<and> en_drag_session (pw_engine w) = None"
    using new_window_ok [OF sample_env_steady default_animation_config_ok sample_controller_inv sample_controller_free,
        of 0 False True "''sample''" UNIV True True True sample_workspace]
    by (auto simp: new_pet_window_def new_engine_def new_motion_model_def new_interval_def sync_renderer_state_def
        read_clock_def move_window_def Let_def with_res_def split: prod.splits sum.splits)
  then obtain w where w: "new_pet_window sample_env 0 default_animation_config sample_controller False True ''sample'' UNIV
        True True True sample_workspace = (Inr (), w)"
      "lifecycle_of (en_motion (pw_engine w)) = PetLifecycleState.ACTIVE"
      "motion_of (en_motion (pw_engine w)) = PetMotionState.IDLE" "en_drag_session (pw_engine w) = None"
    by blast
  then have "window_ok sample_env w" "pg_state (pw_gesture w) = PointerGestureState.IDLE"
    using new_window_ok [OF sample_env_steady default_animation_config_ok sample_controller_inv sample_controller_free,
        of 0 False True "''sample''" UNIV True True True sample_workspace]
    by (auto simp: new_gesture_def)
  from flick_release_raises [OF this, of 10 "\<lparr>px = 100, py = 100\<rparr>" "\<lparr>px = 150, py = 100\<rparr>" "\<lparr>px = 5, py = 5\<rparr>" "[]"] w
  show ?thesis by (auto simp: gesture_distance_def)
qed

text \<open>
  C35. When the production character gives way to the placeholder in the middle of a drag, the pet is
  put down but the gesture is not told: a move of the pointer still asks the engine to drag, its handler
  raises, and the window is as before, so every further move does the same.
\<close>

theorem drag_after_degrade_raises:
  assumes "window_ok E w" and "pg_state (pw_gesture w) = PointerGestureState.DRAGGING"
    and "pw_drag_offset w = Some offset" and "degrade E w = (Inr (), w1)"
  shows "left_move E scr p w1 = (Inl PetStateTransitionError, w1)
    \<and> motion_of (en_motion (pw_engine w1)) \<noteq> PetMotionState.DRAGGING
    \<and> pg_state (pw_gesture w1) = PointerGestureState.DRAGGING"
proof -
  obtain oc e1 where e1: "contain_renderer_failure E (pw_engine w) = (Inr oc, e1)" "engine_inv e1"
    using contain_renderer_failure_returns [OF fit_inv [OF assms(1)], of E] by (auto simp: returns_def keeps_def)
  have w1: "pw_engine w1 = e1" "pw_gesture w1 = pw_gesture w" "pw_drag_offset w1 = Some offset"
    using assms(3,4) e1(1) by (auto simp: degrade_def on_engine_def)
  have down: "motion_of (en_motion e1) \<noteq> PetMotionState.DRAGGING"
    using contain_failure_undragged [OF fit_inv [OF assms(1)], of "{}" E] e1(1) by (simp add: grounded_def)
  then have drags: "on_engine (on_motion (drag_to q wss)) w1 = (Inl PetStateTransitionError, w1)" for q wss
    using engine_inv_valid [OF e1(2)] w1(1) by (simp add: drag_to_def on_engine_def on_motion_def)
  have moves: "gesture_move p (pw_gesture w1) = (DRAG, pw_gesture w1)" using assms(2) w1(2) by (simp add: move_dragging)
  have "left_move E scr p w1 = (Inl PetStateTransitionError, w1)"
    unfolding left_move_def moves using drags w1(3) by simp
  then show ?thesis using w1(1,2) down assms(2) by simp
qed

theorem drag_after_degrade_raises_witness:
  "\<exists>w0 w w1. new_pet_window sample_env 0 default_animation_config sample_controller False True ''sample'' UNIV
        True True True sample_workspace = (Inr (), w0)
    \<and> w = w0\<lparr>pw_gesture := \<lparr>pg_state = PointerGestureState.DRAGGING, pg_press_local = Some \<lparr>px = 5, py = 5\<rparr>,
          pg_press_global = Some \<lparr>px = 100, py = 100\<rparr>, pg_session_drag_threshold = Some 10,
          pg_maximum_distance = 30\<rparr>, pw_drag_offset := Some \<lparr>px = 5, py = 5\<rparr>\<rparr>
    \<and> degrade sample_env w = (Inr (), w1)
    \<and> left_move sample_env [] \<lparr>px = 140, py = 100\<rparr> w1 = (Inl PetStateTransitionError, w1)"
proof -
  obtain w0 where w0: "new_pet_window sample_env 0 default_animation_config sample_controller False True ''sample'' UNIV
        True True True sample_workspace = (Inr (), w0)" "window_ok sample_env w0"
    using new_window_ok [OF sample_env_steady default_animation_config_ok sample_controller_inv sample_controller_free]
    by blast
  define w where "w = w0\<lparr>pw_gesture := \<lparr>pg_state = PointerGestureState.DRAGGING, pg_press_local = Some \<lparr>px = 5, py = 5\<rparr>,
          pg_press_global = Some \<lparr>px = 100, py = 100\<rparr>, pg_session_drag_threshold = Some 10,
          pg_maximum_distance = 30\<rparr>, pw_drag_offset := Some \<lparr>px = 5, py = 5\<rparr>\<rparr>"
  have ok: "window_ok sample_env w" using w0(2) by (simp add: w_def window_ok_def held_def)
  then obtain w1 where w1: "degrade sample_env w = (Inr (), w1)"
    using smooth_degrade [OF sample_env_steady ok] by (auto simp: smooth_def)
  have "left_move sample_env [] \<lparr>px = 140, py = 100\<rparr> w1 = (Inl PetStateTransitionError, w1)"
    using drag_after_degrade_raises [OF ok _ _ w1, of "\<lparr>px = 5, py = 5\<rparr>" "[]" "\<lparr>px = 140, py = 100\<rparr>"]
    by (auto simp: w_def)
  with w0(1) w1 w_def show ?thesis by blast
qed

end
