(* ===== verification/Py_Text.thy ===== *)
theory Py_Text
  imports Prelude "HOL-Library.Char_ord" "HOL-Library.List_Lexorder"
begin

text \<open>
  The text operations of Python's standard library that the provider metadata code uses:
  case folding, substring tests, \<^verbatim>\<open>urllib.parse.urlsplit\<close>, the canonical form of a version 4
  \<^verbatim>\<open>uuid.UUID\<close>, and the two loops over a sequence that stop at the first exception.

  Characters are the 256 that HOL has. For those, \<^verbatim>\<open>str.casefold\<close> is the lower case letter, with
  the sharp s as two letters; the micro sign, whose folded form is outside the range, stays as it
  is. \<^verbatim>\<open>urlsplit\<close> hands a host in brackets to the address parser of \<^verbatim>\<open>ipaddress\<close>, whose rules depend
  on the interpreter's version: that check is the parameter \<open>bracket_check\<close>, which may raise.
\<close>

section \<open>Case and substrings\<close>

abbreviation code_point :: "char \<Rightarrow> nat" where
  "code_point c \<equiv> of_char c"

definition lower_char :: "char \<Rightarrow> char" where
  "lower_char c =
    (if (65 \<le> code_point c \<and> code_point c \<le> 90)
        \<or> (192 \<le> code_point c \<and> code_point c \<le> 222 \<and> code_point c \<noteq> 215)
     then char_of (code_point c + 32) else c)"

definition py_lower :: "string \<Rightarrow> string" where
  "py_lower s = map lower_char s"

definition py_casefold :: "string \<Rightarrow> string" where
  "py_casefold s = concat (map (\<lambda>c. if code_point c = 223 then ''ss'' else [lower_char c]) s)"

text \<open>\<^verbatim>\<open>marker in value\<close>.\<close>

fun py_contains :: "string \<Rightarrow> string \<Rightarrow> bool" where
  "py_contains m [] \<longleftrightarrow> m = []"
| "py_contains m (c # s) \<longleftrightarrow> take (length m) (c # s) = m \<or> py_contains m s"

definition py_rstrip_char :: "char \<Rightarrow> string \<Rightarrow> string" where
  "py_rstrip_char c s = rev (dropWhile (\<lambda>x. x = c) (rev s))"

lemma py_contains_iff: "py_contains m s \<longleftrightarrow> (\<exists>ps ss. s = ps @ m @ ss)"
proof (induction s)
  case (Cons c s)
  have "take (length m) (c # s) = m \<longleftrightarrow> (\<exists>ss. c # s = m @ ss)"
    by (metis append_eq_conv_conj append_take_drop_id)
  then show ?case
    using Cons.IH by (auto simp: Cons_eq_append_conv)
qed auto

lemma dropWhile_idem [simp]: "dropWhile P (dropWhile P xs) = dropWhile P xs"
  by (induction xs) auto

lemma length_py_strip: "length (py_strip s) \<le> length s"
  using length_dropWhile_le [of py_isspace "rev (dropWhile py_isspace s)"]
    length_dropWhile_le [of py_isspace s] by (simp add: py_strip_def)

lemma py_strip_ends: "py_strip s \<noteq> [] \<Longrightarrow> \<not> py_isspace (hd (py_strip s)) \<and> \<not> py_isspace (last (py_strip s))"
proof -
  let ?t = "dropWhile py_isspace s" and ?u = "dropWhile py_isspace (rev (dropWhile py_isspace s))"
  assume "py_strip s \<noteq> []"
  then have ne: "?u \<noteq> []" by (simp add: py_strip_def)
  then have tne: "?t \<noteq> []" by (cases ?t) simp_all
  have "\<not> py_isspace (hd ?u)" using ne by (rule hd_dropWhile)
  moreover have "last ?u = hd ?t"
  proof -
    have "rev ?t = takeWhile py_isspace (rev ?t) @ ?u" by simp
    then have "last (rev ?t) = last ?u" using ne by (metis last_appendR)
    then show ?thesis using tne by (simp add: last_rev)
  qed
  moreover have "\<not> py_isspace (hd ?t)" using tne by (rule hd_dropWhile)
  ultimately show ?thesis
    using ne by (simp add: py_strip_def hd_rev last_rev)
qed

lemma py_strip_id: "s = [] \<or> \<not> py_isspace (hd s) \<and> \<not> py_isspace (last s) \<Longrightarrow> py_strip s = s"
proof (cases s rule: rev_cases)
  case (snoc xs x)
  assume "s = [] \<or> \<not> py_isspace (hd s) \<and> \<not> py_isspace (last s)"
  then have "\<not> py_isspace (hd s)" "\<not> py_isspace x" using snoc by auto
  then have "dropWhile py_isspace s = s" by (simp add: dropWhile_eq_self_iff)
  then show ?thesis using \<open>\<not> py_isspace x\<close> snoc by (simp add: py_strip_def)
qed (simp add: py_strip_def)

lemma py_strip_idem [simp]: "py_strip (py_strip s) = py_strip s"
  using py_strip_ends py_strip_id by blast

lemma blank_py_strip [simp]: "blank (py_strip s) \<longleftrightarrow> blank s"
  by (simp add: blank_def)

section \<open>Splitting a URL\<close>

record SplitResult =
  url_scheme :: string
  url_netloc :: string
  url_path :: string
  url_query :: string
  url_fragment :: string

type_synonym bracket_check = "string \<Rightarrow> unit res"

definition is_scheme_char :: "char \<Rightarrow> bool" where
  "is_scheme_char c \<longleftrightarrow>
     (65 \<le> code_point c \<and> code_point c \<le> 90) \<or> (97 \<le> code_point c \<and> code_point c \<le> 122)
     \<or> (48 \<le> code_point c \<and> code_point c \<le> 57) \<or> c \<in> {CHR ''+'', CHR ''-'', CHR ''.''}"

definition is_ascii_alpha :: "char \<Rightarrow> bool" where
  "is_ascii_alpha c \<longleftrightarrow>
     (65 \<le> code_point c \<and> code_point c \<le> 90) \<or> (97 \<le> code_point c \<and> code_point c \<le> 122)"

text \<open>\<^verbatim>\<open>s.split(c, 1)\<close>: what is in front of the first \<open>c\<close> and what is behind it.\<close>

definition split_at :: "char \<Rightarrow> string \<Rightarrow> string \<times> string" where
  "split_at c s = (takeWhile (\<lambda>x. x \<noteq> c) s, tl (dropWhile (\<lambda>x. x \<noteq> c) s))"

definition split_scheme :: "string \<Rightarrow> string \<times> string" where
  "split_scheme url =
    (let (pre, rest) = split_at (CHR '':'') url in
     if CHR '':'' \<in> set url \<and> pre \<noteq> [] \<and> is_ascii_alpha (hd url) \<and> list_all is_scheme_char pre
     then (py_lower pre, rest) else ([], url))"

definition split_netloc :: "string \<Rightarrow> string \<times> string" where
  "split_netloc url =
    (if take 2 url = ''//''
     then (takeWhile (\<lambda>c. c \<notin> set ''/?#'') (drop 2 url), dropWhile (\<lambda>c. c \<notin> set ''/?#'') (drop 2 url))
     else ([], url))"

definition urlsplit :: "bracket_check \<Rightarrow> string \<Rightarrow> SplitResult res" where
  "urlsplit br url =
    (let cleaned = filter (\<lambda>c. code_point c \<notin> {9, 10, 13}) (dropWhile (\<lambda>c. code_point c \<le> 32) url);
         (scheme, rest) = split_scheme cleaned;
         (netloc, rest) = split_netloc rest;
         opening = CHR ''['' \<in> set netloc;
         closing = CHR '']'' \<in> set netloc
     in raise_if (opening \<noteq> closing) (ValueError ''Invalid IPv6 URL'')
        (ebind (if opening \<and> closing then br netloc else Inr ()) (\<lambda>_.
         let (rest, fragment) = (if CHR ''#'' \<in> set rest then split_at (CHR ''#'') rest else (rest, []));
             (path, query) = (if CHR ''?'' \<in> set rest then split_at (CHR ''?'') rest else (rest, []))
         in Inr \<lparr>url_scheme = scheme, url_netloc = netloc, url_path = path, url_query = query,
                 url_fragment = fragment\<rparr>)))"

text \<open>\<^verbatim>\<open>parsed.username is not None\<close>, which \<^verbatim>\<open>parsed.password is not None\<close> implies.\<close>

definition has_userinfo :: "SplitResult \<Rightarrow> bool" where
  "has_userinfo u \<longleftrightarrow> CHR ''@'' \<in> set (url_netloc u)"

section \<open>Version 4 identifiers\<close>

definition is_lower_hex :: "char \<Rightarrow> bool" where
  "is_lower_hex c \<longleftrightarrow>
     (48 \<le> code_point c \<and> code_point c \<le> 57) \<or> (97 \<le> code_point c \<and> code_point c \<le> 102)"

text \<open>
  \<^verbatim>\<open>UUID(value)\<close> succeeds, prints as \<^verbatim>\<open>value\<close> again and has version 4: 36 characters, hyphens at the
  four places, lower case digits elsewhere, the version digit 4 and the RFC 4122 variant.
\<close>

definition uuid4_text :: "string \<Rightarrow> bool" where
  "uuid4_text s \<longleftrightarrow>
     length s = 36 \<and>
     list_all (\<lambda>i. if i \<in> {8, 13, 18, 23} then s ! i = CHR ''-'' else is_lower_hex (s ! i)) [0..<36] \<and>
     s ! 14 = CHR ''4'' \<and> s ! 19 \<in> set ''89ab''"

section \<open>Loops that stop at an exception\<close>

fun traverse :: "('a \<Rightarrow> 'b res) \<Rightarrow> 'a list \<Rightarrow> 'b list res" where
  "traverse f [] = Inr []"
| "traverse f (x # xs) = ebind (f x) (\<lambda>y. ebind (traverse f xs) (\<lambda>ys. Inr (y # ys)))"

fun for_each :: "('a \<Rightarrow> unit res) \<Rightarrow> 'a list \<Rightarrow> unit res" where
  "for_each f [] = Inr ()"
| "for_each f (x # xs) = ebind (f x) (\<lambda>_. for_each f xs)"

lemma traverse_ok_iff: "traverse f xs = Inr ys \<longleftrightarrow> list_all2 (\<lambda>x y. f x = Inr y) xs ys"
  by (induction xs arbitrary: ys) (auto simp: ebind_eq_Inr_iff list_all2_Cons1)

lemma traverse_okD:
  "traverse f xs = Inr ys \<Longrightarrow> length ys = length xs \<and> (\<forall>y \<in> set ys. \<exists>x \<in> set xs. f x = Inr y)"
proof (induction xs arbitrary: ys)
  case (Cons x xs)
  then obtain v vs where "f x = Inr v" "traverse f xs = Inr vs" "ys = v # vs"
    by (auto simp: ebind_eq_Inr_iff)
  with Cons.IH [of vs] show ?case by simp
qed simp

lemma for_each_ok_iff: "for_each f xs = Inr u \<longleftrightarrow> (\<forall>x \<in> set xs. f x = Inr ())"
  by (induction xs) (auto simp: ebind_eq_Inr_iff)

lemma traverse_map_ok: "(\<And>x. x \<in> set xs \<Longrightarrow> f (g x) = Inr x) \<Longrightarrow> traverse f (map g xs) = Inr xs"
  by (induction xs) auto

lemma traverse_error: "traverse f xs = Inl e \<Longrightarrow> \<exists>x \<in> set xs. f x = Inl e"
  by (induction xs) (auto simp: ebind_eq_Inl_iff)

lemma for_each_error: "for_each f xs = Inl e \<Longrightarrow> \<exists>x \<in> set xs. f x = Inl e"
  by (induction xs) (auto simp: ebind_eq_Inl_iff)

end
