(* ===== verification/Agent_Models.thy ===== *)
theory Agent_Models
  imports Prelude
begin

text \<open>
  The Agent core's domain: \<^verbatim>\<open>domain/models.py\<close> (the parts the Agent Loop uses), the events of
  \<^verbatim>\<open>domain/events.py\<close>, the default tool policy of \<^verbatim>\<open>domain/policies.py\<close> and the tool registry
  of \<^verbatim>\<open>application/tools/tool_registry.py\<close>.

  Tool arguments are JSON-like dictionaries the core never looks into: they have an arbitrary
  type \<open>'j\<close>. Their digest (\<^verbatim>\<open>json.dumps\<close> with sorted keys, then SHA-256) is the parameter
  \<open>digest\<close>, which may raise. Time stamps are instants of \<open>int\<close> microseconds with a flag for
  time-zone awareness.
\<close>

section \<open>Models\<close>

datatype MessageRole = SYSTEM | USER | ASSISTANT | TOOL

datatype AgentState = IDLE | LISTENING | THINKING | SPEAKING | ERROR | REMINDING

datatype MemoryKind = EPISODIC | SEMANTIC | PINNED

datatype MemoryStatus = CANDIDATE | ACTIVE | SUPERSEDED | DELETED

datatype ToolRisk = SAFE | SENSITIVE_READ | SIDE_EFFECT | DESTRUCTIVE

datatype PolicyOutcome = ALLOW | REQUIRE_APPROVAL | DENY

record Datetime =
  instant :: int
  tz_aware :: bool

record ChatMessage =
  role :: MessageRole
  msg_content :: string

definition mk_ChatMessage :: "MessageRole \<Rightarrow> string \<Rightarrow> ChatMessage res" where
  "mk_ChatMessage r c =
    raise_if (blank c) (ValueError ''ChatMessage content must not be blank'')
    (Inr \<lparr>role = r, msg_content = c\<rparr>)"

record UserMessageCommand =
  cmd_turn_id :: string
  cmd_session_id :: string
  cmd_content :: string

definition mk_UserMessageCommand :: "string \<Rightarrow> string \<Rightarrow> string \<Rightarrow> UserMessageCommand res" where
  "mk_UserMessageCommand t s c =
    raise_if (t = []) (ValueError ''turn_id must not be blank'')
    (raise_if (s = []) (ValueError ''session_id must not be blank'')
    (raise_if (blank c) (ValueError ''content must not be blank'')
    (Inr \<lparr>cmd_turn_id = t, cmd_session_id = s, cmd_content = c\<rparr>)))"

record 'j ToolSpec =
  spec_name :: string
  description :: string
  input_schema :: 'j
  risk :: ToolRisk

record 'j ToolCall =
  call_id :: string
  call_name :: string
  arguments :: 'j

record ToolResult =
  result_call_id :: string
  success :: bool
  result_content :: string
  result_error_code :: string

record PolicyDecision =
  pd_outcome :: PolicyOutcome
  reason :: string
  allow_for_session :: bool

record ApprovalRecord =
  ap_turn_id :: string
  ap_call_id :: string
  ap_tool_name :: string
  ap_arguments_digest :: string
  ap_expires_at :: Datetime
  ap_consumed :: bool

definition mk_ApprovalRecord ::
    "string \<Rightarrow> string \<Rightarrow> string \<Rightarrow> string \<Rightarrow> Datetime \<Rightarrow> bool \<Rightarrow> ApprovalRecord res" where
  "mk_ApprovalRecord t c n d e consumed =
    raise_if (t = [] \<or> c = [] \<or> n = []) (ValueError ''approval identifiers must not be blank'')
    (raise_if (d = []) (ValueError ''arguments_digest must not be blank'')
    (raise_if (\<not> tz_aware e) (ValueError ''expires_at must be timezone-aware'')
    (Inr \<lparr>ap_turn_id = t, ap_call_id = c, ap_tool_name = n, ap_arguments_digest = d,
          ap_expires_at = e, ap_consumed = consumed\<rparr>)))"

type_synonym 'j digest = "'j \<Rightarrow> string res"

definition for_call ::
    "'j digest \<Rightarrow> string \<Rightarrow> 'j ToolCall \<Rightarrow> Datetime \<Rightarrow> ApprovalRecord res" where
  "for_call digest t call e =
    ebind (digest (arguments call)) (\<lambda>d. mk_ApprovalRecord t (call_id call) (call_name call) d e False)"

definition matches ::
    "'j digest \<Rightarrow> ApprovalRecord \<Rightarrow> string \<Rightarrow> 'j ToolCall \<Rightarrow> Datetime \<Rightarrow> bool res" where
  "matches digest a t call now =
    raise_if (\<not> tz_aware now) (ValueError ''now must be timezone-aware'')
    (if ap_consumed a \<or> instant now \<ge> instant (ap_expires_at a) then Inr False
     else if ap_turn_id a \<noteq> t \<or> ap_call_id a \<noteq> call_id call \<or> ap_tool_name a \<noteq> call_name call
     then Inr False
     else case digest (arguments call) of
            Inl (ValueError _) \<Rightarrow> Inr False
          | Inl e \<Rightarrow> Inl e
          | Inr d \<Rightarrow> Inr (ap_arguments_digest a = d))"

definition consume :: "ApprovalRecord \<Rightarrow> ApprovalRecord" where
  "consume a = a\<lparr>ap_consumed := True\<rparr>"

record ExecutionContext =
  ctx_turn_id :: string
  ctx_session_id :: string
  approved :: bool
  approval :: "ApprovalRecord option"

record MemoryRecord =
  mem_id :: string
  mem_kind :: MemoryKind
  mem_content :: string
  mem_status :: MemoryStatus
  mem_source_session_id :: string
  mem_pinned :: bool
  mem_updated_at :: int

definition is_retrievable :: "MemoryRecord \<Rightarrow> bool" where
  "is_retrievable m \<longleftrightarrow> mem_status m = MemoryStatus.ACTIVE"

record MemoryContext =
  mc_memory_id :: string
  mc_kind :: MemoryKind
  mc_content :: string
  mc_status :: MemoryStatus
  mc_source_session_id :: string
  mc_boundary :: string

definition from_record :: "MemoryRecord \<Rightarrow> MemoryContext" where
  "from_record m =
    \<lparr>mc_memory_id = mem_id m, mc_kind = mem_kind m, mc_content = mem_content m,
     mc_status = mem_status m, mc_source_session_id = mem_source_session_id m,
     mc_boundary = ''untrusted_memory_data''\<rparr>"

record ProviderContinuation =
  provider_name :: string
  cont_state :: string
  cont_version :: "string option"
  cont_profile_id :: "string option"

definition mk_ProviderContinuation ::
    "string \<Rightarrow> string \<Rightarrow> string option \<Rightarrow> string option \<Rightarrow> ProviderContinuation res" where
  "mk_ProviderContinuation n st v p =
    raise_if (blank n) (ValueError ''provider_name must not be blank'')
    (raise_if (case v of None \<Rightarrow> False | Some x \<Rightarrow> blank x)
       (ValueError ''version must be None or a non-blank string'')
    (Inr \<lparr>provider_name = py_strip n, cont_state = st, cont_version = map_option py_strip v,
          cont_profile_id = p\<rparr>))"

record 'j LLMRequest =
  instructions :: string
  messages :: "ChatMessage list"
  req_tools :: "'j ToolSpec list"
  req_store :: bool
  req_max_output_tokens :: int
  memory_context :: "MemoryContext list"
  req_continuation :: "ProviderContinuation option"

section \<open>Default tool policy\<close>

definition policy_decision :: "PolicyOutcome \<Rightarrow> string \<Rightarrow> bool \<Rightarrow> PolicyDecision" where
  "policy_decision oc r s = \<lparr>pd_outcome = oc, reason = r, allow_for_session = s\<rparr>"

definition default_tool_policy ::
    "'j digest \<Rightarrow> Datetime \<Rightarrow> 'j ToolSpec \<Rightarrow> 'j ToolCall \<Rightarrow> ExecutionContext \<Rightarrow> PolicyDecision res" where
  "default_tool_policy digest now spec call ctx =
    (if spec_name spec \<noteq> call_name call
     then Inr (policy_decision PolicyOutcome.DENY
            ''The registered tool does not match the requested tool.'' False)
     else if risk spec = ToolRisk.DESTRUCTIVE
     then Inr (policy_decision PolicyOutcome.DENY ''Destructive tools are disabled.'' False)
     else if risk spec = ToolRisk.SAFE
     then Inr (policy_decision PolicyOutcome.ALLOW ''Safe registered tool.'' False)
     else case approval ctx of
       Some a \<Rightarrow>
         ebind (matches digest a (ctx_turn_id ctx) call now) (\<lambda>ok.
         if ok then Inr (policy_decision PolicyOutcome.ALLOW ''The user approved this exact call.'' False)
         else Inr (policy_decision PolicyOutcome.DENY
                ''The approval does not match this tool call or is no longer valid.'' False))
     | None \<Rightarrow>
         Inr (policy_decision PolicyOutcome.REQUIRE_APPROVAL
           ''This tool requires explicit user approval.'' (risk spec = ToolRisk.SENSITIVE_READ)))"

text \<open>
  What the Agent Loop relies on: without an approval a policy allows nothing but safe tools that
  are registered under the requested name.
\<close>

locale fail_closed_policy =
  fixes pol :: "'j ToolSpec \<Rightarrow> 'j ToolCall \<Rightarrow> ExecutionContext \<Rightarrow> PolicyDecision res"
  assumes allows_only_safe: "approval ctx = None \<Longrightarrow> pol spec call ctx = Inr d \<Longrightarrow>
    pd_outcome d = PolicyOutcome.ALLOW \<Longrightarrow> spec_name spec = call_name call \<and> risk spec = ToolRisk.SAFE"

interpretation default_policy: fail_closed_policy "default_tool_policy digest now" for digest now
  by unfold_locales (auto simp: default_tool_policy_def policy_decision_def split: if_splits)

section \<open>Tools and their registry\<close>

text \<open>
  A tool answers with its specification and executes on a world \<open>'w\<close> it may change; it may raise.
\<close>

record ('j, 'w) Tool =
  tool_spec :: "'j ToolSpec"
  tool_execute :: "'j \<Rightarrow> ExecutionContext \<Rightarrow> 'w \<Rightarrow> (ToolResult, 'w) sres"

text \<open>A dictionary in insertion order; assignment to a present key keeps its place.\<close>

type_synonym ('j, 'w) ToolRegistry = "(string \<times> ('j, 'w) Tool) list"

fun dict_set :: "'k \<Rightarrow> 'v \<Rightarrow> ('k \<times> 'v) list \<Rightarrow> ('k \<times> 'v) list" where
  "dict_set k v [] = [(k, v)]"
| "dict_set k v ((k', v') # d) = (if k' = k then (k, v) # d else (k', v') # dict_set k v d)"

definition registry_register :: "('j, 'w) Tool \<Rightarrow> ('j, 'w) ToolRegistry \<Rightarrow> ('j, 'w) ToolRegistry res" where
  "registry_register tool reg =
    raise_if (spec_name (tool_spec tool) = []) (ValueError ''Tool name must not be empty.'')
    (Inr (dict_set (spec_name (tool_spec tool)) tool reg))"

definition registry_get :: "('j, 'w) ToolRegistry \<Rightarrow> string \<Rightarrow> ('j, 'w) Tool option" where
  "registry_get reg name = map_of reg name"

definition registry_contains :: "('j, 'w) ToolRegistry \<Rightarrow> string \<Rightarrow> bool" where
  "registry_contains reg name \<longleftrightarrow> map_of reg name \<noteq> None"

definition list_specs :: "('j, 'w) ToolRegistry \<Rightarrow> 'j ToolSpec list" where
  "list_specs reg = map (tool_spec \<circ> snd) reg"

lemma map_of_dict_set [simp]: "map_of (dict_set k v d) = (map_of d)(k \<mapsto> v)"
  by (induction k v d rule: dict_set.induct) auto

lemma keys_dict_set: "fst ` set (dict_set k v d) = insert k (fst ` set d)"
  by (induction k v d rule: dict_set.induct) auto

lemma distinct_dict_set: "distinct (map fst d) \<Longrightarrow> distinct (map fst (dict_set k v d))"
  using keys_dict_set by (induction k v d rule: dict_set.induct) (auto, force)

text \<open>Every tool is registered under the name of its own specification.\<close>

definition tools_ok :: "('j, 'w) ToolRegistry \<Rightarrow> bool" where
  "tools_ok reg \<longleftrightarrow> distinct (map fst reg) \<and>
     (\<forall>n t. map_of reg n = Some t \<longrightarrow> spec_name (tool_spec t) = n \<and> n \<noteq> [])"

lemma tools_ok_register: "tools_ok reg \<Longrightarrow> registry_register t reg = Inr reg' \<Longrightarrow> tools_ok reg'"
  by (auto simp: tools_ok_def registry_register_def distinct_dict_set dest: map_of_SomeD split: if_splits) blast

section \<open>Events\<close>

datatype LLMEventType = TEXT_DELTA | TOOL_CALL | COMPLETED | ERROR

record 'j LLMEvent =
  le_type :: LLMEventType
  le_text :: string
  le_tool_call :: "'j ToolCall option"
  le_error_code :: string
  le_error_message :: string
  le_continuation :: "ProviderContinuation option"

abbreviation llm_event :: "LLMEventType \<Rightarrow> 'j LLMEvent" where
  "llm_event t \<equiv> \<lparr>le_type = t, le_text = [], le_tool_call = None, le_error_code = [],
     le_error_message = [], le_continuation = None\<rparr>"

definition llm_text_delta :: "string \<Rightarrow> 'j LLMEvent res" where
  "llm_text_delta t =
    raise_if (t = []) (ValueError ''text delta must not be empty'')
    (Inr ((llm_event LLMEventType.TEXT_DELTA)\<lparr>le_text := t\<rparr>))"

definition llm_call_tool :: "'j ToolCall \<Rightarrow> 'j LLMEvent" where
  "llm_call_tool c = (llm_event LLMEventType.TOOL_CALL)\<lparr>le_tool_call := Some c\<rparr>"

definition llm_completed :: "ProviderContinuation option \<Rightarrow> 'j LLMEvent" where
  "llm_completed c = (llm_event LLMEventType.COMPLETED)\<lparr>le_continuation := c\<rparr>"

definition llm_failure :: "string \<Rightarrow> string \<Rightarrow> 'j LLMEvent res" where
  "llm_failure c m =
    raise_if (c = [] \<or> m = []) (ValueError ''provider failure requires code and message'')
    (Inr ((llm_event LLMEventType.ERROR)\<lparr>le_error_code := c, le_error_message := m\<rparr>))"

datatype AgentEventType =
    TURN_STARTED | STATE_CHANGED | TEXT_DELTA | APPROVAL_REQUIRED | TOOL_STARTED | TOOL_FINISHED
  | TURN_COMPLETED | TURN_CANCELLED | TURN_FAILED

record 'j AgentEvent =
  ae_type :: AgentEventType
  ae_turn_id :: string
  ae_state :: "AgentState option"
  ae_text :: string
  ae_tool_call :: "'j ToolCall option"
  ae_error_code :: string
  ae_error_message :: string
  ae_continuation :: "ProviderContinuation option"

abbreviation agent_event :: "AgentEventType \<Rightarrow> string \<Rightarrow> 'j AgentEvent" where
  "agent_event ty t \<equiv> \<lparr>ae_type = ty, ae_turn_id = t, ae_state = None, ae_text = [], ae_tool_call = None,
     ae_error_code = [], ae_error_message = [], ae_continuation = None\<rparr>"

definition ev_started :: "string \<Rightarrow> 'j AgentEvent" where
  "ev_started t = agent_event AgentEventType.TURN_STARTED t"

definition ev_state_changed :: "string \<Rightarrow> AgentState \<Rightarrow> 'j AgentEvent" where
  "ev_state_changed t s = (agent_event AgentEventType.STATE_CHANGED t)\<lparr>ae_state := Some s\<rparr>"

definition ev_delta :: "string \<Rightarrow> string \<Rightarrow> 'j AgentEvent" where
  "ev_delta t x = (agent_event AgentEventType.TEXT_DELTA t)\<lparr>ae_text := x\<rparr>"

definition ev_completed :: "string \<Rightarrow> string \<Rightarrow> ProviderContinuation option \<Rightarrow> 'j AgentEvent" where
  "ev_completed t x c =
    (agent_event AgentEventType.TURN_COMPLETED t)\<lparr>ae_text := x, ae_continuation := c\<rparr>"

definition ev_cancelled :: "string \<Rightarrow> 'j AgentEvent" where
  "ev_cancelled t = agent_event AgentEventType.TURN_CANCELLED t"

definition ev_tool_started :: "string \<Rightarrow> 'j ToolCall \<Rightarrow> 'j AgentEvent" where
  "ev_tool_started t c = (agent_event AgentEventType.TOOL_STARTED t)\<lparr>ae_tool_call := Some c\<rparr>"

definition ev_tool_finished :: "string \<Rightarrow> 'j ToolCall \<Rightarrow> string \<Rightarrow> 'j AgentEvent" where
  "ev_tool_finished t c x =
    (agent_event AgentEventType.TOOL_FINISHED t)\<lparr>ae_text := x, ae_tool_call := Some c\<rparr>"

definition ev_approval_required :: "string \<Rightarrow> 'j ToolCall \<Rightarrow> 'j AgentEvent" where
  "ev_approval_required t c =
    (agent_event AgentEventType.APPROVAL_REQUIRED t)\<lparr>ae_tool_call := Some c\<rparr>"

definition ev_failed :: "string \<Rightarrow> string \<Rightarrow> string \<Rightarrow> 'j AgentEvent" where
  "ev_failed t c m =
    (agent_event AgentEventType.TURN_FAILED t)\<lparr>ae_error_code := c, ae_error_message := m\<rparr>"

lemmas agent_event_defs =
  ev_started_def ev_state_changed_def ev_delta_def ev_completed_def ev_cancelled_def
  ev_tool_started_def ev_tool_finished_def ev_approval_required_def ev_failed_def

section \<open>Properties\<close>

text \<open>
  C33. The default policy fails closed. With a time-zone aware clock and a digest that fails only
  with \<^verbatim>\<open>ValueError\<close>, it never raises, and it allows a call exactly when the call names the
  registered tool, the tool is not destructive, and either the tool is safe or an approval is
  present that is unconsumed, unexpired, and made for this turn, this call, this tool and these
  arguments. The compatibility flag \<^verbatim>\<open>approved\<close> has no influence, a consumed approval allows
  nothing but safe tools, and destructive tools are always denied.
\<close>

theorem default_policy_fails_closed:
  assumes "tz_aware now" and "\<And>x e. digest x = Inl e \<Longrightarrow> \<exists>m. e = ValueError m"
  shows "\<exists>d. default_tool_policy digest now spec call ctx = Inr d \<and>
    (pd_outcome d = PolicyOutcome.ALLOW \<longleftrightarrow>
       spec_name spec = call_name call \<and> risk spec \<noteq> ToolRisk.DESTRUCTIVE \<and>
       (risk spec = ToolRisk.SAFE \<or>
        (\<exists>a. approval ctx = Some a \<and> \<not> ap_consumed a \<and>
           instant now < instant (ap_expires_at a) \<and> ap_turn_id a = ctx_turn_id ctx \<and>
           ap_call_id a = call_id call \<and> ap_tool_name a = call_name call \<and>
           digest (arguments call) = Inr (ap_arguments_digest a)))) \<and>
    (risk spec = ToolRisk.DESTRUCTIVE \<longrightarrow> pd_outcome d = PolicyOutcome.DENY) \<and>
    default_tool_policy digest now spec call (ctx\<lparr>approved := b\<rparr>) = Inr d \<and>
    (risk spec \<noteq> ToolRisk.SAFE \<longrightarrow>
       (\<forall>a d'. default_tool_policy digest now spec call (ctx\<lparr>approval := Some (consume a)\<rparr>) = Inr d' \<longrightarrow>
          pd_outcome d' = PolicyOutcome.DENY))"
proof -
  have m: "\<exists>b. matches digest a t call now = Inr b \<and>
      b = (\<not> ap_consumed a \<and> instant now < instant (ap_expires_at a) \<and> ap_turn_id a = t \<and>
           ap_call_id a = call_id call \<and> ap_tool_name a = call_name call \<and>
           digest (arguments call) = Inr (ap_arguments_digest a))" for a t
    using assms(1) assms(2) [of "arguments call"]
    by (cases "digest (arguments call)") (auto simp: matches_def)
  have c: "matches digest (consume a) t call now = Inr False" for a t
    using assms(1) by (simp add: matches_def consume_def)
  show ?thesis
  proof (cases "approval ctx")
    case None
    then show ?thesis using c
      by (auto simp: default_tool_policy_def policy_decision_def)
  next
    case (Some a)
    with m [of a "ctx_turn_id ctx"] show ?thesis using c
      by (auto simp: default_tool_policy_def policy_decision_def)
  qed
qed

definition sample_spec :: "ToolRisk \<Rightarrow> nat ToolSpec" where
  "sample_spec r = \<lparr>spec_name = ''calc'', description = [], input_schema = 0, risk = r\<rparr>"

definition sample_call :: "nat ToolCall" where
  "sample_call = \<lparr>call_id = ''c1'', call_name = ''calc'', arguments = 5\<rparr>"

theorem default_policy_fails_closed_witness:
  "\<exists>d. default_tool_policy (\<lambda>x. Inr (replicate x (CHR ''x''))) \<lparr>instant = 3, tz_aware = True\<rparr>
     (sample_spec ToolRisk.SIDE_EFFECT) sample_call
     \<lparr>ctx_turn_id = ''t'', ctx_session_id = ''s'', approved = True, approval = None\<rparr> = Inr d \<and>
     pd_outcome d \<noteq> PolicyOutcome.ALLOW"
  using default_policy_fails_closed [of "\<lparr>instant = 3, tz_aware = True\<rparr>" "\<lambda>x. Inr (replicate x (CHR ''x''))"
      "sample_spec ToolRisk.SIDE_EFFECT" sample_call
      "\<lparr>ctx_turn_id = ''t'', ctx_session_id = ''s'', approved = True, approval = None\<rparr>" True]
  by (auto simp: sample_spec_def)

end
