(* ===== verification/Provider_Profiles.thy ===== *)
theory Provider_Profiles
  imports Py_Text Agent_Models
begin

text \<open>
  The provider part of \<^verbatim>\<open>domain/models.py\<close> (identifiers, credential bindings, capabilities and
  profiles), the built-in profiles of \<^verbatim>\<open>config/provider_profiles.py\<close> and the closed policy of
  \<^verbatim>\<open>config/provider_profile_policy.py\<close>.

  The identifier classes wrap one string each: an identifier is that string, and its
  \<^verbatim>\<open>__post_init__\<close> is the \<open>mk\<close> function that checks it. \<^verbatim>\<open>dataclasses.replace\<close> runs the checks again,
  so \<open>mk_ProviderProfile\<close> takes the raw fields as a record and returns the normalised one. The
  policy's main theorem is that whatever it accepts is one of four fixed shapes: a profile that
  carries a credential talks to its provider's official origin and to nothing else.
\<close>

section \<open>Identifiers\<close>

datatype ApiProtocol = INTERNAL | RESPONSES | CHAT_COMPLETIONS | OLLAMA_CHAT

datatype ContinuationMode = NONE | REPLAY_MESSAGES | REPLAY_PROVIDER_ITEMS | SERVER_REFERENCE

type_synonym ProviderId = string
type_synonym ProfileId = string
type_synonym CredentialId = string

definition RESERVED_PROFILE_IDS :: "string set" where
  "RESERVED_PROFILE_IDS =
    {''builtin-fake-default'', ''builtin-openai-default'', ''builtin-deepseek-default'',
     ''builtin-ollama-default''}"

definition RESERVED_CREDENTIAL_IDS :: "string set" where
  "RESERVED_CREDENTIAL_IDS =
    {''builtin-openai-default'', ''builtin-openai-manual-test'', ''builtin-deepseek-manual-test''}"

definition provider_id_pattern :: "string \<Rightarrow> bool" where
  "provider_id_pattern s \<longleftrightarrow>
    (case s of
       [] \<Rightarrow> False
     | c # cs \<Rightarrow> 97 \<le> code_point c \<and> code_point c \<le> 122 \<and> length cs \<le> 63 \<and>
         list_all (\<lambda>d. (97 \<le> code_point d \<and> code_point d \<le> 122) \<or>
                       (48 \<le> code_point d \<and> code_point d \<le> 57) \<or> d = CHR ''_'') cs)"

definition mk_ProviderId :: "string \<Rightarrow> ProviderId res" where
  "mk_ProviderId v =
    raise_if (\<not> provider_id_pattern v) (ValueError ''provider_id has an invalid format'') (Inr v)"

definition validate_opaque_id :: "string \<Rightarrow> string set \<Rightarrow> string \<Rightarrow> string res" where
  "validate_opaque_id v reserved field_name =
    raise_if (v = [] \<or> length v > 64) (ValueError (field_name @ '' has an invalid format''))
    (if v \<in> reserved then Inr v
     else raise_if (\<not> uuid4_text v) (ValueError (field_name @ '' has an invalid format'')) (Inr v))"

definition mk_ProfileId :: "string \<Rightarrow> ProfileId res" where
  "mk_ProfileId v = validate_opaque_id v RESERVED_PROFILE_IDS ''profile_id''"

definition mk_CredentialId :: "string \<Rightarrow> CredentialId res" where
  "mk_CredentialId v = validate_opaque_id v RESERVED_CREDENTIAL_IDS ''credential_id''"

definition FAKE_PROVIDER_ID :: ProviderId where "FAKE_PROVIDER_ID = ''fake''"
definition OPENAI_PROVIDER_ID :: ProviderId where "OPENAI_PROVIDER_ID = ''openai''"
definition DEEPSEEK_PROVIDER_ID :: ProviderId where "DEEPSEEK_PROVIDER_ID = ''deepseek''"
definition OLLAMA_PROVIDER_ID :: ProviderId where "OLLAMA_PROVIDER_ID = ''ollama''"

definition FAKE_DEFAULT_PROFILE_ID :: ProfileId where
  "FAKE_DEFAULT_PROFILE_ID = ''builtin-fake-default''"
definition OPENAI_DEFAULT_PROFILE_ID :: ProfileId where
  "OPENAI_DEFAULT_PROFILE_ID = ''builtin-openai-default''"
definition DEEPSEEK_DEFAULT_PROFILE_ID :: ProfileId where
  "DEEPSEEK_DEFAULT_PROFILE_ID = ''builtin-deepseek-default''"
definition OLLAMA_DEFAULT_PROFILE_ID :: ProfileId where
  "OLLAMA_DEFAULT_PROFILE_ID = ''builtin-ollama-default''"

definition OPENAI_DEFAULT_CREDENTIAL_ID :: CredentialId where
  "OPENAI_DEFAULT_CREDENTIAL_ID = ''builtin-openai-default''"
definition DEEPSEEK_DEFAULT_CREDENTIAL_ID :: CredentialId where
  "DEEPSEEK_DEFAULT_CREDENTIAL_ID = ''00000000-0000-4000-8000-000000000001''"
definition OPENAI_MANUAL_TEST_CREDENTIAL_ID :: CredentialId where
  "OPENAI_MANUAL_TEST_CREDENTIAL_ID = ''builtin-openai-manual-test''"
definition DEEPSEEK_MANUAL_TEST_CREDENTIAL_ID :: CredentialId where
  "DEEPSEEK_MANUAL_TEST_CREDENTIAL_ID = ''builtin-deepseek-manual-test''"

lemmas provider_ids =
  FAKE_PROVIDER_ID_def OPENAI_PROVIDER_ID_def DEEPSEEK_PROVIDER_ID_def OLLAMA_PROVIDER_ID_def

section \<open>Bindings and profiles\<close>

definition normalize_https_origin :: "bracket_check \<Rightarrow> string \<Rightarrow> string res" where
  "normalize_https_origin br v =
    raise_if (length v > 2048) (ValueError ''allowed_origin has an invalid format'')
    (ebind (urlsplit br (py_strip v)) (\<lambda>u.
     raise_if (py_lower (url_scheme u) \<noteq> ''https'' \<or> url_netloc u = [] \<or> has_userinfo u
               \<or> url_path u \<notin> {[], ''/''} \<or> url_query u \<noteq> [] \<or> url_fragment u \<noteq> [])
       (ValueError ''allowed_origin has an invalid format'')
     (Inr (''https://'' @ py_lower (url_netloc u)))))"

record CredentialBinding =
  cb_credential_id :: CredentialId
  cb_provider_id :: ProviderId
  cb_allowed_origin :: string
  cb_display_name :: string
  cb_schema_version :: int

definition display_name_bad :: "string \<Rightarrow> bool" where
  "display_name_bad s \<longleftrightarrow> blank s \<or> length s > 128"

definition mk_CredentialBinding :: "bracket_check \<Rightarrow> CredentialBinding \<Rightarrow> CredentialBinding res" where
  "mk_CredentialBinding br b =
    raise_if (display_name_bad (cb_display_name b))
      (ValueError ''display_name must be 1 to 128 characters'')
    (raise_if (cb_schema_version b \<noteq> 1) (ValueError ''unsupported credential binding schema_version'')
    (ebind (normalize_https_origin br (cb_allowed_origin b)) (\<lambda>origin.
     Inr (b\<lparr>cb_allowed_origin := origin, cb_display_name := py_strip (cb_display_name b)\<rparr>))))"

record ProviderCapabilities =
  cap_streaming :: bool
  cap_tools :: bool
  cap_embeddings :: bool
  cap_continuation_mode :: ContinuationMode
  cap_protocol :: ApiProtocol

record ProviderProfile =
  pp_profile_id :: ProfileId
  pp_display_name :: string
  pp_provider_id :: ProviderId
  pp_protocol :: ApiProtocol
  pp_base_url :: "string option"
  pp_model :: string
  pp_credential_id :: "CredentialId option"
  pp_capabilities :: ProviderCapabilities
  pp_enabled :: bool
  pp_schema_version :: int

definition normalize_base_url :: "bracket_check \<Rightarrow> string \<Rightarrow> string res" where
  "normalize_base_url br v =
    raise_if (length v > 2048) (ValueError ''base_url has an invalid format'')
    (let normalized = py_rstrip_char (CHR ''/'') (py_strip v)
     in ebind (urlsplit br normalized) (\<lambda>u.
        raise_if (url_scheme u \<notin> {''http'', ''https''} \<or> url_netloc u = [] \<or> has_userinfo u
                  \<or> url_query u \<noteq> [] \<or> url_fragment u \<noteq> [])
          (ValueError ''base_url has an invalid format'')
        (Inr normalized)))"

definition mk_ProviderProfile :: "bracket_check \<Rightarrow> ProviderProfile \<Rightarrow> ProviderProfile res" where
  "mk_ProviderProfile br p =
    raise_if (display_name_bad (pp_display_name p))
      (ValueError ''display_name must be 1 to 128 characters'')
    (raise_if (blank (pp_model p) \<or> length (pp_model p) > 256)
      (ValueError ''model must be 1 to 256 characters'')
    (raise_if (pp_schema_version p \<noteq> 1) (ValueError ''unsupported provider profile schema_version'')
    (raise_if (cap_protocol (pp_capabilities p) \<noteq> pp_protocol p)
      (ValueError ''profile protocol and capabilities must match'')
    (ebind (case pp_base_url p of
              None \<Rightarrow> Inr None
            | Some v \<Rightarrow> ebind (normalize_base_url br v) (\<lambda>n. Inr (Some n))) (\<lambda>url.
     Inr (p\<lparr>pp_base_url := url, pp_display_name := py_strip (pp_display_name p),
            pp_model := py_strip (pp_model p)\<rparr>))))))"

definition profile_origin :: "bracket_check \<Rightarrow> ProviderProfile \<Rightarrow> string option res" where
  "profile_origin br p =
    (case pp_base_url p of
       None \<Rightarrow> Inr None
     | Some v \<Rightarrow> ebind (urlsplit br v) (\<lambda>u.
         Inr (Some (py_lower (url_scheme u) @ ''://'' @ py_lower (url_netloc u)))))"

section \<open>Built-in profiles\<close>

definition OPENAI_OFFICIAL_ORIGIN :: string where
  "OPENAI_OFFICIAL_ORIGIN = ''https://api.openai.com''"
definition OPENAI_OFFICIAL_BASE_URL :: string where
  "OPENAI_OFFICIAL_BASE_URL = ''https://api.openai.com/v1''"
definition DEEPSEEK_OFFICIAL_ORIGIN :: string where
  "DEEPSEEK_OFFICIAL_ORIGIN = ''https://api.deepseek.com''"
definition DEEPSEEK_OFFICIAL_BASE_URL :: string where
  "DEEPSEEK_OFFICIAL_BASE_URL = ''https://api.deepseek.com''"
definition DEFAULT_OLLAMA_BASE_URL :: string where
  "DEFAULT_OLLAMA_BASE_URL = ''http://127.0.0.1:11434''"
definition DEFAULT_OPENAI_MODEL :: string where "DEFAULT_OPENAI_MODEL = ''gpt-5-mini''"
definition DEFAULT_DEEPSEEK_MODEL :: string where "DEFAULT_DEEPSEEK_MODEL = ''deepseek-v4-flash''"
definition DEFAULT_OLLAMA_MODEL :: string where "DEFAULT_OLLAMA_MODEL = ''qwen3''"

definition capabilities_of :: "bool \<Rightarrow> ContinuationMode \<Rightarrow> ApiProtocol \<Rightarrow> ProviderCapabilities" where
  "capabilities_of tools mode protocol =
    \<lparr>cap_streaming = True, cap_tools = tools, cap_embeddings = False,
     cap_continuation_mode = mode, cap_protocol = protocol\<rparr>"

definition fake_default_profile :: "bracket_check \<Rightarrow> ProviderProfile res" where
  "fake_default_profile br = mk_ProviderProfile br
    \<lparr>pp_profile_id = FAKE_DEFAULT_PROFILE_ID, pp_display_name = ''Built-in Fake'',
     pp_provider_id = FAKE_PROVIDER_ID, pp_protocol = ApiProtocol.INTERNAL, pp_base_url = None,
     pp_model = ''fake'', pp_credential_id = None,
     pp_capabilities = capabilities_of False ContinuationMode.REPLAY_MESSAGES ApiProtocol.INTERNAL,
     pp_enabled = True, pp_schema_version = 1\<rparr>"

definition openai_profile ::
    "bracket_check \<Rightarrow> string \<Rightarrow> ProfileId \<Rightarrow> CredentialId \<Rightarrow> string \<Rightarrow> ProviderProfile res" where
  "openai_profile br model profile_id credential_id display_name = mk_ProviderProfile br
    \<lparr>pp_profile_id = profile_id, pp_display_name = display_name,
     pp_provider_id = OPENAI_PROVIDER_ID, pp_protocol = ApiProtocol.RESPONSES,
     pp_base_url = Some OPENAI_OFFICIAL_BASE_URL, pp_model = model,
     pp_credential_id = Some credential_id,
     pp_capabilities = capabilities_of True ContinuationMode.REPLAY_PROVIDER_ITEMS ApiProtocol.RESPONSES,
     pp_enabled = True, pp_schema_version = 1\<rparr>"

definition deepseek_profile ::
    "bracket_check \<Rightarrow> string \<Rightarrow> ProfileId \<Rightarrow> CredentialId \<Rightarrow> string \<Rightarrow> ProviderProfile res" where
  "deepseek_profile br model profile_id credential_id display_name = mk_ProviderProfile br
    \<lparr>pp_profile_id = profile_id, pp_display_name = display_name,
     pp_provider_id = DEEPSEEK_PROVIDER_ID, pp_protocol = ApiProtocol.CHAT_COMPLETIONS,
     pp_base_url = Some DEEPSEEK_OFFICIAL_BASE_URL, pp_model = model,
     pp_credential_id = Some credential_id,
     pp_capabilities = capabilities_of False ContinuationMode.REPLAY_MESSAGES ApiProtocol.CHAT_COMPLETIONS,
     pp_enabled = True, pp_schema_version = 1\<rparr>"

definition ollama_profile :: "bracket_check \<Rightarrow> string \<Rightarrow> string \<Rightarrow> ProviderProfile res" where
  "ollama_profile br model base_url = mk_ProviderProfile br
    \<lparr>pp_profile_id = OLLAMA_DEFAULT_PROFILE_ID, pp_display_name = ''Ollama'',
     pp_provider_id = OLLAMA_PROVIDER_ID, pp_protocol = ApiProtocol.OLLAMA_CHAT,
     pp_base_url = Some base_url, pp_model = model, pp_credential_id = None,
     pp_capabilities = capabilities_of False ContinuationMode.REPLAY_MESSAGES ApiProtocol.OLLAMA_CHAT,
     pp_enabled = True, pp_schema_version = 1\<rparr>"

definition builtin_credential_bindings :: "bracket_check \<Rightarrow> CredentialBinding list res" where
  "builtin_credential_bindings br = traverse (mk_CredentialBinding br)
    [\<lparr>cb_credential_id = OPENAI_DEFAULT_CREDENTIAL_ID, cb_provider_id = OPENAI_PROVIDER_ID,
      cb_allowed_origin = OPENAI_OFFICIAL_ORIGIN, cb_display_name = ''OpenAI default credential'',
      cb_schema_version = 1\<rparr>,
     \<lparr>cb_credential_id = DEEPSEEK_DEFAULT_CREDENTIAL_ID, cb_provider_id = DEEPSEEK_PROVIDER_ID,
      cb_allowed_origin = DEEPSEEK_OFFICIAL_ORIGIN, cb_display_name = ''DeepSeek default credential'',
      cb_schema_version = 1\<rparr>]"

section \<open>The closed policy\<close>

definition reject_manual_test_credential_id :: "CredentialId \<Rightarrow> unit res" where
  "reject_manual_test_credential_id c =
    raise_if (c \<in> {OPENAI_MANUAL_TEST_CREDENTIAL_ID, DEEPSEEK_MANUAL_TEST_CREDENTIAL_ID})
      (ProviderProfilePolicyError ''Manual verification credentials cannot be used by profiles.'')
    (Inr ())"

definition build_supported_profile ::
    "bracket_check \<Rightarrow> ProviderId \<Rightarrow> ProfileId \<Rightarrow> string \<Rightarrow> string \<Rightarrow> CredentialId option
      \<Rightarrow> ProviderProfile res" where
  "build_supported_profile br provider_id profile_id display_name model credential_id =
    (if provider_id = FAKE_PROVIDER_ID then
       (if credential_id \<noteq> None
        then Inl (ProviderProfilePolicyError ''The Fake provider cannot use a credential binding.'')
        else ebind (fake_default_profile br) (\<lambda>p. mk_ProviderProfile br
               (p\<lparr>pp_profile_id := profile_id, pp_display_name := display_name, pp_model := model\<rparr>)))
     else if provider_id = OPENAI_PROVIDER_ID then
       (case credential_id of
          None \<Rightarrow> Inl (ProviderProfilePolicyError ''The OpenAI profile requires a credential binding.'')
        | Some c \<Rightarrow> ebind (reject_manual_test_credential_id c) (\<lambda>_.
            openai_profile br model profile_id c display_name))
     else if provider_id = DEEPSEEK_PROVIDER_ID then
       (case credential_id of
          None \<Rightarrow> Inl (ProviderProfilePolicyError ''The DeepSeek profile requires a credential binding.'')
        | Some c \<Rightarrow> ebind (reject_manual_test_credential_id c) (\<lambda>_.
            deepseek_profile br model profile_id c display_name))
     else if provider_id = OLLAMA_PROVIDER_ID then
       (if credential_id \<noteq> None
        then Inl (ProviderProfilePolicyError ''The Ollama placeholder cannot use a credential binding.'')
        else ebind (ollama_profile br model DEFAULT_OLLAMA_BASE_URL) (\<lambda>p. mk_ProviderProfile br
               (p\<lparr>pp_profile_id := profile_id, pp_display_name := display_name\<rparr>)))
     else Inl (ProviderProfilePolicyError ''The provider profile type is not supported.''))"

definition validate_supported_profile :: "bracket_check \<Rightarrow> ProviderProfile \<Rightarrow> unit res" where
  "validate_supported_profile br p =
    ebind (build_supported_profile br (pp_provider_id p) (pp_profile_id p) (pp_display_name p)
             (pp_model p) (pp_credential_id p)) (\<lambda>expected.
    raise_if (p \<noteq> expected)
      (ProviderProfilePolicyError ''The provider profile leaves the reviewed provider boundary.'')
    (Inr ()))"

definition build_supported_credential_binding ::
    "bracket_check \<Rightarrow> ProviderId \<Rightarrow> CredentialId \<Rightarrow> string \<Rightarrow> CredentialBinding res" where
  "build_supported_credential_binding br provider_id credential_id display_name =
    ebind (reject_manual_test_credential_id credential_id) (\<lambda>_.
    ebind (if provider_id = OPENAI_PROVIDER_ID then Inr OPENAI_OFFICIAL_ORIGIN
           else if provider_id = DEEPSEEK_PROVIDER_ID then Inr DEEPSEEK_OFFICIAL_ORIGIN
           else Inl (ProviderProfilePolicyError ''The provider does not support credential bindings.''))
      (\<lambda>origin. mk_CredentialBinding br
        \<lparr>cb_credential_id = credential_id, cb_provider_id = provider_id, cb_allowed_origin = origin,
         cb_display_name = display_name, cb_schema_version = 1\<rparr>))"

definition validate_supported_credential_binding :: "bracket_check \<Rightarrow> CredentialBinding \<Rightarrow> unit res" where
  "validate_supported_credential_binding br b =
    ebind (build_supported_credential_binding br (cb_provider_id b) (cb_credential_id b)
             (cb_display_name b)) (\<lambda>expected.
    raise_if (b \<noteq> expected)
      (ProviderProfilePolicyError ''The credential binding leaves the reviewed provider boundary.'')
    (Inr ()))"

definition builtin_managed_profiles :: "bracket_check \<Rightarrow> ProviderProfile list res" where
  "builtin_managed_profiles br =
    traverse (\<lambda>p. p)
      [fake_default_profile br,
       openai_profile br DEFAULT_OPENAI_MODEL OPENAI_DEFAULT_PROFILE_ID OPENAI_DEFAULT_CREDENTIAL_ID ''OpenAI'',
       deepseek_profile br DEFAULT_DEEPSEEK_MODEL DEEPSEEK_DEFAULT_PROFILE_ID
         DEEPSEEK_DEFAULT_CREDENTIAL_ID ''DeepSeek'',
       ollama_profile br DEFAULT_OLLAMA_MODEL DEFAULT_OLLAMA_BASE_URL]"

definition builtin_managed_credential_bindings :: "bracket_check \<Rightarrow> CredentialBinding list res" where
  "builtin_managed_credential_bindings br =
    traverse (\<lambda>b. b)
      [build_supported_credential_binding br OPENAI_PROVIDER_ID OPENAI_DEFAULT_CREDENTIAL_ID
         ''OpenAI default credential'',
       build_supported_credential_binding br DEEPSEEK_PROVIDER_ID DEEPSEEK_DEFAULT_CREDENTIAL_ID
         ''DeepSeek default credential'']"

section \<open>The policy as a table\<close>

text \<open>
  What a reviewer of the policy would write down: one row per provider, with the protocol, the
  endpoint, the capabilities and whether a credential is required (otherwise it is forbidden).
\<close>

definition endpoint_table ::
    "ProviderId \<Rightarrow> (ApiProtocol \<times> string option \<times> ProviderCapabilities \<times> bool) option" where
  "endpoint_table = map_of
    [(''fake'', ApiProtocol.INTERNAL, None,
      capabilities_of False ContinuationMode.REPLAY_MESSAGES ApiProtocol.INTERNAL, False),
     (''openai'', ApiProtocol.RESPONSES, Some ''https://api.openai.com/v1'',
      capabilities_of True ContinuationMode.REPLAY_PROVIDER_ITEMS ApiProtocol.RESPONSES, True),
     (''deepseek'', ApiProtocol.CHAT_COMPLETIONS, Some ''https://api.deepseek.com'',
      capabilities_of False ContinuationMode.REPLAY_MESSAGES ApiProtocol.CHAT_COMPLETIONS, True),
     (''ollama'', ApiProtocol.OLLAMA_CHAT, Some ''http://127.0.0.1:11434'',
      capabilities_of False ContinuationMode.REPLAY_MESSAGES ApiProtocol.OLLAMA_CHAT, False)]"

definition manual_test_ids :: "CredentialId set" where
  "manual_test_ids = {''builtin-openai-manual-test'', ''builtin-deepseek-manual-test''}"

definition model_bad :: "string \<Rightarrow> bool" where
  "model_bad m \<longleftrightarrow> blank m \<or> length m > 256"

definition table_profile ::
    "ProviderId \<Rightarrow> ProfileId \<Rightarrow> string \<Rightarrow> string \<Rightarrow> CredentialId option \<Rightarrow> ProviderProfile option" where
  "table_profile provider_id profile_id display_name model credential_id =
    (case endpoint_table provider_id of
       None \<Rightarrow> None
     | Some (protocol, url, caps, needs_credential) \<Rightarrow>
         if (credential_id \<noteq> None) \<noteq> needs_credential \<or> credential_id \<in> Some ` manual_test_ids
            \<or> display_name_bad display_name \<or> model_bad model
         then None
         else Some
           \<lparr>pp_profile_id = profile_id, pp_display_name = py_strip display_name,
            pp_provider_id = provider_id, pp_protocol = protocol, pp_base_url = url,
            pp_model = py_strip model, pp_credential_id = credential_id, pp_capabilities = caps,
            pp_enabled = True, pp_schema_version = 1\<rparr>)"

lemmas endpoints =
  OPENAI_OFFICIAL_ORIGIN_def OPENAI_OFFICIAL_BASE_URL_def DEEPSEEK_OFFICIAL_ORIGIN_def
  DEEPSEEK_OFFICIAL_BASE_URL_def DEFAULT_OLLAMA_BASE_URL_def

lemma normalize_fixed_urls [simp]:
  "normalize_base_url br ''https://api.openai.com/v1'' = Inr ''https://api.openai.com/v1''"
  "normalize_base_url br ''https://api.deepseek.com'' = Inr ''https://api.deepseek.com''"
  "normalize_base_url br ''http://127.0.0.1:11434'' = Inr ''http://127.0.0.1:11434''"
  by code_simp+

lemma normalize_fixed_origins [simp]:
  "normalize_https_origin br ''https://api.openai.com'' = Inr ''https://api.openai.com''"
  "normalize_https_origin br ''https://api.deepseek.com'' = Inr ''https://api.deepseek.com''"
  by code_simp+

lemma origin_fixed_urls [simp]:
  "pp_base_url p = Some ''https://api.openai.com/v1'' \<Longrightarrow>
     profile_origin br p = Inr (Some ''https://api.openai.com'')"
  "pp_base_url p = Some ''https://api.deepseek.com'' \<Longrightarrow>
     profile_origin br p = Inr (Some ''https://api.deepseek.com'')"
  "pp_base_url p = Some ''http://127.0.0.1:11434'' \<Longrightarrow>
     profile_origin br p = Inr (Some ''http://127.0.0.1:11434'')"
  by (simp_all add: profile_origin_def, code_simp+)

lemma literal_names_ok [simp]:
  "\<not> display_name_bad ''Built-in Fake''" "\<not> display_name_bad ''Ollama''"
  "\<not> display_name_bad ''OpenAI default credential''" "\<not> display_name_bad ''DeepSeek default credential''"
  "\<not> display_name_bad ''OpenAI''" "\<not> display_name_bad ''DeepSeek''"
  "\<not> blank ''fake''" "\<not> blank ''qwen3''" "\<not> blank ''gpt-5-mini''" "\<not> blank ''deepseek-v4-flash''"
  by code_simp+

lemma literal_names_strip [simp]:
  "py_strip ''Built-in Fake'' = ''Built-in Fake''" "py_strip ''Ollama'' = ''Ollama''"
  "py_strip ''OpenAI default credential'' = ''OpenAI default credential''"
  "py_strip ''DeepSeek default credential'' = ''DeepSeek default credential''"
  "py_strip ''OpenAI'' = ''OpenAI''" "py_strip ''DeepSeek'' = ''DeepSeek''" "py_strip ''fake'' = ''fake''"
  "py_strip ''qwen3'' = ''qwen3''" "py_strip ''gpt-5-mini'' = ''gpt-5-mini''"
  "py_strip ''deepseek-v4-flash'' = ''deepseek-v4-flash''"
  by code_simp+

lemma mk_ProviderProfile_ok_iff:
  "mk_ProviderProfile br p = Inr q \<longleftrightarrow>
     \<not> display_name_bad (pp_display_name p) \<and> \<not> model_bad (pp_model p) \<and> pp_schema_version p = 1 \<and>
     cap_protocol (pp_capabilities p) = pp_protocol p \<and>
     (\<exists>url. (case pp_base_url p of None \<Rightarrow> url = None
             | Some v \<Rightarrow> \<exists>n. normalize_base_url br v = Inr n \<and> url = Some n) \<and>
        q = p\<lparr>pp_base_url := url, pp_display_name := py_strip (pp_display_name p),
             pp_model := py_strip (pp_model p)\<rparr>)"
  by (auto simp: mk_ProviderProfile_def model_bad_def ebind_eq_Inr_iff split: option.splits)

lemma capabilities_of_protocol [simp]: "cap_protocol (capabilities_of t m pr) = pr"
  by (simp add: capabilities_of_def)

lemmas profile_builders =
  fake_default_profile_def openai_profile_def deepseek_profile_def ollama_profile_def

lemma reject_manual_ok_iff [simp]:
  "reject_manual_test_credential_id c = Inr u \<longleftrightarrow> c \<notin> manual_test_ids"
  by (simp add: reject_manual_test_credential_id_def manual_test_ids_def
      OPENAI_MANUAL_TEST_CREDENTIAL_ID_def DEEPSEEK_MANUAL_TEST_CREDENTIAL_ID_def)

lemma fake_default_profile_ok:
  "fake_default_profile br = Inr
    \<lparr>pp_profile_id = FAKE_DEFAULT_PROFILE_ID, pp_display_name = ''Built-in Fake'',
     pp_provider_id = FAKE_PROVIDER_ID, pp_protocol = ApiProtocol.INTERNAL, pp_base_url = None,
     pp_model = ''fake'', pp_credential_id = None,
     pp_capabilities = capabilities_of False ContinuationMode.REPLAY_MESSAGES ApiProtocol.INTERNAL,
     pp_enabled = True, pp_schema_version = 1\<rparr>"
  by (simp add: fake_default_profile_def mk_ProviderProfile_ok_iff model_bad_def)

lemma ollama_profile_ok_iff:
  "ollama_profile br m DEFAULT_OLLAMA_BASE_URL = Inr q \<longleftrightarrow> \<not> model_bad m \<and> q =
    \<lparr>pp_profile_id = OLLAMA_DEFAULT_PROFILE_ID, pp_display_name = ''Ollama'',
     pp_provider_id = OLLAMA_PROVIDER_ID, pp_protocol = ApiProtocol.OLLAMA_CHAT,
     pp_base_url = Some ''http://127.0.0.1:11434'', pp_model = py_strip m, pp_credential_id = None,
     pp_capabilities = capabilities_of False ContinuationMode.REPLAY_MESSAGES ApiProtocol.OLLAMA_CHAT,
     pp_enabled = True, pp_schema_version = 1\<rparr>"
  by (simp add: ollama_profile_def mk_ProviderProfile_ok_iff endpoints)

lemma model_bad_strip: "\<not> model_bad m \<Longrightarrow> \<not> model_bad (py_strip m)"
  using length_py_strip [of m] by (simp add: model_bad_def)

lemma display_name_bad_strip: "\<not> display_name_bad m \<Longrightarrow> \<not> display_name_bad (py_strip m)"
  using length_py_strip [of m] by (simp add: display_name_bad_def)

lemma table_profile_eq_Some_iff:
  "table_profile pid i n m c = Some p \<longleftrightarrow>
    (\<exists>protocol url caps needs. endpoint_table pid = Some (protocol, url, caps, needs) \<and>
       (c \<noteq> None) = needs \<and> c \<notin> Some ` manual_test_ids \<and> \<not> display_name_bad n \<and> \<not> model_bad m \<and>
       p = \<lparr>pp_profile_id = i, pp_display_name = py_strip n, pp_provider_id = pid,
            pp_protocol = protocol, pp_base_url = url, pp_model = py_strip m,
            pp_credential_id = c, pp_capabilities = caps, pp_enabled = True, pp_schema_version = 1\<rparr>)"
  by (auto simp: table_profile_def split: option.splits)

lemma endpoint_table_simps [simp]:
  "endpoint_table ''fake'' = Some (ApiProtocol.INTERNAL, None,
     capabilities_of False ContinuationMode.REPLAY_MESSAGES ApiProtocol.INTERNAL, False)"
  "endpoint_table ''openai'' = Some (ApiProtocol.RESPONSES, Some ''https://api.openai.com/v1'',
     capabilities_of True ContinuationMode.REPLAY_PROVIDER_ITEMS ApiProtocol.RESPONSES, True)"
  "endpoint_table ''deepseek'' = Some (ApiProtocol.CHAT_COMPLETIONS, Some ''https://api.deepseek.com'',
     capabilities_of False ContinuationMode.REPLAY_MESSAGES ApiProtocol.CHAT_COMPLETIONS, True)"
  "endpoint_table ''ollama'' = Some (ApiProtocol.OLLAMA_CHAT, Some ''http://127.0.0.1:11434'',
     capabilities_of False ContinuationMode.REPLAY_MESSAGES ApiProtocol.OLLAMA_CHAT, False)"
  "pid \<notin> {''fake'', ''openai'', ''deepseek'', ''ollama''} \<Longrightarrow> endpoint_table pid = None"
  by (simp_all add: endpoint_table_def)

lemma build_fake:
  "build_supported_profile br ''fake'' i n m c = Inr p \<longleftrightarrow> table_profile ''fake'' i n m c = Some p"
  by (cases c) (auto simp: build_supported_profile_def table_profile_eq_Some_iff provider_ids
      fake_default_profile_ok mk_ProviderProfile_ok_iff)

lemma build_openai:
  "build_supported_profile br ''openai'' i n m c = Inr p \<longleftrightarrow> table_profile ''openai'' i n m c = Some p"
  by (cases c) (auto simp: build_supported_profile_def table_profile_eq_Some_iff provider_ids
      openai_profile_def endpoints ebind_eq_Inr_iff mk_ProviderProfile_ok_iff)

lemma build_deepseek:
  "build_supported_profile br ''deepseek'' i n m c = Inr p \<longleftrightarrow> table_profile ''deepseek'' i n m c = Some p"
  by (cases c) (auto simp: build_supported_profile_def table_profile_eq_Some_iff provider_ids
      deepseek_profile_def endpoints ebind_eq_Inr_iff mk_ProviderProfile_ok_iff)

lemma build_ollama:
  "build_supported_profile br ''ollama'' i n m c = Inr p \<longleftrightarrow> table_profile ''ollama'' i n m c = Some p"
  by (cases c) (auto simp: build_supported_profile_def table_profile_eq_Some_iff provider_ids
      ollama_profile_ok_iff ebind_eq_Inr_iff mk_ProviderProfile_ok_iff model_bad_strip)

lemma build_unknown:
  "pid \<notin> {''fake'', ''openai'', ''deepseek'', ''ollama''} \<Longrightarrow>
     build_supported_profile br pid i n m c
       = Inl (ProviderProfilePolicyError ''The provider profile type is not supported.'')"
  by (simp add: build_supported_profile_def provider_ids)

lemma build_supported_profile_eq_table:
  "build_supported_profile br pid i n m c = Inr p \<longleftrightarrow> table_profile pid i n m c = Some p"
proof (cases "pid \<in> {''fake'', ''openai'', ''deepseek'', ''ollama''}")
  case True
  then show ?thesis
    by (elim insertE) (simp_all add: build_fake build_openai build_deepseek build_ollama)
next
  case False
  then show ?thesis by (simp add: build_unknown table_profile_def)
qed

text \<open>A profile the policy accepts, and a binding it accepts.\<close>

definition supported_profile :: "ProviderProfile \<Rightarrow> bool" where
  "supported_profile p \<longleftrightarrow>
     table_profile (pp_provider_id p) (pp_profile_id p) (pp_display_name p) (pp_model p)
       (pp_credential_id p) = Some p"

lemma validate_supported_profile_iff:
  "validate_supported_profile br p = Inr u \<longleftrightarrow> supported_profile p"
  by (auto simp: validate_supported_profile_def supported_profile_def ebind_eq_Inr_iff
      build_supported_profile_eq_table)

lemma table_profile_supported: "table_profile pid i n m c = Some p \<Longrightarrow> supported_profile p"
  by (auto simp: supported_profile_def table_profile_eq_Some_iff model_bad_strip display_name_bad_strip)

lemma built_profile_supported:
  "build_supported_profile br pid i n m c = Inr p \<Longrightarrow> supported_profile p"
  by (auto simp: build_supported_profile_eq_table dest: table_profile_supported)

definition official_origin :: "ProviderId \<Rightarrow> string option" where
  "official_origin = map_of
    [(''openai'', ''https://api.openai.com''), (''deepseek'', ''https://api.deepseek.com'')]"

definition supported_binding :: "CredentialBinding \<Rightarrow> bool" where
  "supported_binding b \<longleftrightarrow>
     official_origin (cb_provider_id b) = Some (cb_allowed_origin b) \<and>
     cb_credential_id b \<notin> manual_test_ids \<and> \<not> display_name_bad (cb_display_name b) \<and>
     py_strip (cb_display_name b) = cb_display_name b \<and> cb_schema_version b = 1"

lemma mk_CredentialBinding_ok_iff:
  "mk_CredentialBinding br b = Inr q \<longleftrightarrow>
     \<not> display_name_bad (cb_display_name b) \<and> cb_schema_version b = 1 \<and>
     (\<exists>origin. normalize_https_origin br (cb_allowed_origin b) = Inr origin \<and>
        q = b\<lparr>cb_allowed_origin := origin, cb_display_name := py_strip (cb_display_name b)\<rparr>)"
  by (auto simp: mk_CredentialBinding_def ebind_eq_Inr_iff)

lemma build_binding_ok_iff:
  "build_supported_credential_binding br pid c n = Inr b \<longleftrightarrow>
     c \<notin> manual_test_ids \<and> \<not> display_name_bad n \<and>
     (\<exists>origin. official_origin pid = Some origin \<and>
        b = \<lparr>cb_credential_id = c, cb_provider_id = pid, cb_allowed_origin = origin,
             cb_display_name = py_strip n, cb_schema_version = 1\<rparr>)"
  by (auto simp: build_supported_credential_binding_def ebind_eq_Inr_iff mk_CredentialBinding_ok_iff
      provider_ids endpoints official_origin_def)

lemma built_binding_supported:
  "build_supported_credential_binding br pid c n = Inr b \<Longrightarrow> supported_binding b"
  by (auto simp: build_binding_ok_iff supported_binding_def display_name_bad_strip)

lemma validate_supported_binding_iff:
  "validate_supported_credential_binding br b = Inr u \<longleftrightarrow> supported_binding b"
proof -
  obtain c p o' n v where b: "b = \<lparr>cb_credential_id = c, cb_provider_id = p, cb_allowed_origin = o',
      cb_display_name = n, cb_schema_version = v\<rparr>" by (cases b)
  have "validate_supported_credential_binding br b = Inr u \<longleftrightarrow>
      build_supported_credential_binding br p c n = Inr b"
    by (auto simp: validate_supported_credential_binding_def b ebind_eq_Inr_iff)
  then show ?thesis
    by (auto simp: build_binding_ok_iff b supported_binding_def)
qed

lemma supported_profile_fields:
  assumes "supported_profile p"
  shows "\<exists>protocol url caps. endpoint_table (pp_provider_id p)
           = Some (protocol, url, caps, pp_credential_id p \<noteq> None) \<and>
         pp_protocol p = protocol \<and> pp_base_url p = url \<and> pp_capabilities p = caps \<and>
         pp_credential_id p \<notin> Some ` manual_test_ids \<and>
         \<not> display_name_bad (pp_display_name p) \<and> py_strip (pp_display_name p) = pp_display_name p \<and>
         \<not> model_bad (pp_model p) \<and> py_strip (pp_model p) = pp_model p \<and>
         pp_enabled p \<and> pp_schema_version p = 1"
proof -
  obtain protocol url caps where
    "endpoint_table (pp_provider_id p) = Some (protocol, url, caps, pp_credential_id p \<noteq> None)"
    "pp_credential_id p \<notin> Some ` manual_test_ids" "\<not> display_name_bad (pp_display_name p)"
    "\<not> model_bad (pp_model p)" and
    p: "p = \<lparr>pp_profile_id = pp_profile_id p, pp_display_name = py_strip (pp_display_name p),
            pp_provider_id = pp_provider_id p, pp_protocol = protocol, pp_base_url = url,
            pp_model = py_strip (pp_model p), pp_credential_id = pp_credential_id p,
            pp_capabilities = caps, pp_enabled = True, pp_schema_version = 1\<rparr>"
    using assms unfolding supported_profile_def table_profile_eq_Some_iff by blast
  moreover have "pp_protocol p = protocol" "pp_base_url p = url" "pp_capabilities p = caps"
    "py_strip (pp_display_name p) = pp_display_name p" "py_strip (pp_model p) = pp_model p"
    "pp_enabled p" "pp_schema_version p = 1"
    using p by (metis ProviderProfile.select_convs)+
  ultimately show ?thesis by blast
qed

lemma endpoint_table_cases:
  assumes "endpoint_table pid = Some row"
  obtains "pid = ''fake''" | "pid = ''openai''" | "pid = ''deepseek''" | "pid = ''ollama''"
  using assms endpoint_table_simps(5) [of pid] by fastforce

lemma credential_origin:
  assumes "supported_profile p" "pp_credential_id p = Some c"
  shows "profile_origin br p = Inr (official_origin (pp_provider_id p)) \<and>
         official_origin (pp_provider_id p) \<noteq> None \<and> c \<notin> manual_test_ids"
proof -
  obtain protocol url caps where row: "endpoint_table (pp_provider_id p) = Some (protocol, url, caps, True)"
    and url: "pp_base_url p = url" and c: "c \<notin> manual_test_ids"
    using supported_profile_fields [OF assms(1)] assms(2) by auto
  from row show ?thesis
  proof (cases rule: endpoint_table_cases)
    case 2
    with row have "url = Some ''https://api.openai.com/v1''" by simp
    with url c 2 show ?thesis by (simp add: official_origin_def)
  next
    case 3
    with row have "url = Some ''https://api.deepseek.com''" by simp
    with url c 3 show ?thesis by (simp add: official_origin_def)
  qed (use row in simp_all)
qed

lemma builtin_profiles_ok:
  "\<exists>ps. builtin_managed_profiles br = Inr ps \<and> list_all supported_profile ps \<and>
     map pp_profile_id ps = [FAKE_DEFAULT_PROFILE_ID, OPENAI_DEFAULT_PROFILE_ID,
       DEEPSEEK_DEFAULT_PROFILE_ID, OLLAMA_DEFAULT_PROFILE_ID]"
  by (simp add: builtin_managed_profiles_def fake_default_profile_ok openai_profile_def
      deepseek_profile_def ollama_profile_def mk_ProviderProfile_def endpoints provider_ids
      supported_profile_def table_profile_def manual_test_ids_def model_bad_def image_iff
      DEFAULT_OPENAI_MODEL_def DEFAULT_DEEPSEEK_MODEL_def DEFAULT_OLLAMA_MODEL_def
      OPENAI_DEFAULT_CREDENTIAL_ID_def DEEPSEEK_DEFAULT_CREDENTIAL_ID_def)

lemma builtin_bindings_agree:
  "builtin_managed_credential_bindings br = builtin_credential_bindings br"
  by (simp add: builtin_managed_credential_bindings_def builtin_credential_bindings_def
      build_supported_credential_binding_def reject_manual_test_credential_id_def provider_ids
      OPENAI_DEFAULT_CREDENTIAL_ID_def DEEPSEEK_DEFAULT_CREDENTIAL_ID_def
      OPENAI_MANUAL_TEST_CREDENTIAL_ID_def DEEPSEEK_MANUAL_TEST_CREDENTIAL_ID_def)

definition fixed_urls :: "string option set" where
  "fixed_urls = {None, Some ''https://api.openai.com/v1'', Some ''https://api.deepseek.com'',
     Some ''http://127.0.0.1:11434''}"

lemma mk_ProviderProfile_error:
  assumes "mk_ProviderProfile br p = Inl e" "pp_base_url p \<in> fixed_urls"
  shows "\<exists>t. e = ValueError t"
  using assms by (auto simp: mk_ProviderProfile_def fixed_urls_def ebind_eq_Inl_iff)

fun policy_failure :: "py_error \<Rightarrow> bool" where
  "policy_failure (ProviderProfilePolicyError _) = True"
| "policy_failure (ValueError _) = True"
| "policy_failure _ = False"

lemma mk_ProviderProfile_failure:
  "mk_ProviderProfile br p = Inl e \<Longrightarrow> pp_base_url p \<in> fixed_urls \<Longrightarrow> policy_failure e"
  using mk_ProviderProfile_error by fastforce

lemma reject_manual_failure: "reject_manual_test_credential_id c = Inl e \<Longrightarrow> policy_failure e"
  by (auto simp: reject_manual_test_credential_id_def)

lemma openai_profile_failure: "openai_profile br m i c n = Inl e \<Longrightarrow> policy_failure e"
  unfolding openai_profile_def
  by (erule mk_ProviderProfile_failure) (simp add: fixed_urls_def endpoints)

lemma deepseek_profile_failure: "deepseek_profile br m i c n = Inl e \<Longrightarrow> policy_failure e"
  unfolding deepseek_profile_def
  by (erule mk_ProviderProfile_failure) (simp add: fixed_urls_def endpoints)

lemma ollama_profile_failure: "ollama_profile br m DEFAULT_OLLAMA_BASE_URL = Inl e \<Longrightarrow> policy_failure e"
  unfolding ollama_profile_def
  by (erule mk_ProviderProfile_failure) (simp add: fixed_urls_def endpoints)

lemma build_supported_profile_failure:
  assumes "build_supported_profile br pid i n m c = Inl e"
  shows "policy_failure e"
  using assms
  by (auto simp: build_supported_profile_def ebind_eq_Inl_iff fake_default_profile_ok
      ollama_profile_ok_iff fixed_urls_def split: if_splits option.splits
      dest!: mk_ProviderProfile_failure openai_profile_failure deepseek_profile_failure
      ollama_profile_failure reject_manual_failure)

lemma build_binding_failure:
  assumes "build_supported_credential_binding br pid c n = Inl e"
  shows "policy_failure e"
  using assms
  by (auto simp: build_supported_credential_binding_def ebind_eq_Inl_iff endpoints
      mk_CredentialBinding_def split: if_splits dest!: reject_manual_failure)

lemma validate_supported_profile_failure:
  "validate_supported_profile br p = Inl e \<Longrightarrow> policy_failure e"
  by (auto simp: validate_supported_profile_def ebind_eq_Inl_iff dest: build_supported_profile_failure)

lemma validate_supported_binding_failure:
  "validate_supported_credential_binding br b = Inl e \<Longrightarrow> policy_failure e"
  by (auto simp: validate_supported_credential_binding_def ebind_eq_Inl_iff dest: build_binding_failure)

end
