(* ===== verification/Profile_Repository.thy ===== *)
theory Profile_Repository
  imports Provider_Profiles
begin

text \<open>
  The JSON document store of provider metadata,
  \<^verbatim>\<open>infrastructure/config/json_provider_profile_repository.py\<close>.

  A file is absent, unreadable, or a number of bytes that decode to a JSON value or to nothing;
  \<^verbatim>\<open>json.loads\<close> and \<^verbatim>\<open>json.dumps\<close> are taken as inverse on JSON values, and the order of an object's
  keys, which the code never looks at, is the order in which it is written down. The bytes a value
  serialises to and the optional migrator, which no module of the program provides, are parameters
  (\<open>repo_env\<close>). The outcomes of the coming writes are an input that lives in the state: a write that
  fails before or after the temporary file was made leaves the target as it was.

  Reading the file gives a snapshot with the invariant \<open>snapshot_ok\<close>; what a successful write put
  there is what the next read returns, as long as the document respects the limits of the reader.
\<close>

section \<open>JSON values\<close>

datatype json =
    JNull | JBool bool | JInt int | JFloat pyfloat | JStr string | JList "json list"
  | JObject "(string \<times> json) list"

type_synonym json_dict = "(string \<times> json) list"

text \<open>\<^verbatim>\<open>value == n\<close>: a boolean and a float compare with an integer by value.\<close>

definition equals_int :: "int \<Rightarrow> json option \<Rightarrow> bool" where
  "equals_int n v =
    (case v of
       Some (JInt i) \<Rightarrow> i = n
     | Some (JBool b) \<Rightarrow> of_bool b = n
     | Some (JFloat (Finite r)) \<Rightarrow> r = of_int n
     | _ \<Rightarrow> False)"

definition object_mapping :: "json \<Rightarrow> json_dict res" where
  "object_mapping v = (case v of JObject d \<Rightarrow> Inr d | _ \<Rightarrow> Inl (TypeError ''mapping''))"

definition object_list :: "json \<Rightarrow> json list res" where
  "object_list v = (case v of JList xs \<Rightarrow> Inr xs | _ \<Rightarrow> Inl (TypeError ''list''))"

definition require_exact_keys :: "json_dict \<Rightarrow> string set \<Rightarrow> unit res" where
  "require_exact_keys d expected = raise_if (fst ` set d \<noteq> expected) (ValueError ''keys'') (Inr ())"

definition json_item :: "json_dict \<Rightarrow> string \<Rightarrow> json res" where
  "json_item d k = (case map_of d k of None \<Rightarrow> Inl KeyError | Some v \<Rightarrow> Inr v)"

definition json_string :: "json \<Rightarrow> string res" where
  "json_string v = (case v of JStr s \<Rightarrow> Inr s | _ \<Rightarrow> Inl (TypeError ''string''))"

definition json_boolean :: "json \<Rightarrow> bool res" where
  "json_boolean v = (case v of JBool b \<Rightarrow> Inr b | _ \<Rightarrow> Inl (TypeError ''boolean''))"

definition json_integer :: "json \<Rightarrow> int res" where
  "json_integer v = (case v of JInt i \<Rightarrow> Inr i | _ \<Rightarrow> Inl (TypeError ''integer''))"

definition json_of_option :: "string option \<Rightarrow> json" where
  "json_of_option v = (case v of None \<Rightarrow> JNull | Some s \<Rightarrow> JStr s)"

text \<open>The optional strings of a document: \<^verbatim>\<open>None if raw is None else build(_string(raw))\<close>.\<close>

definition json_optional :: "(string \<Rightarrow> string res) \<Rightarrow> json \<Rightarrow> string option res" where
  "json_optional build v =
    (if v = JNull then Inr None
     else ebind (json_string v) (\<lambda>s. ebind (build s) (\<lambda>x. Inr (Some x))))"

definition json_base_url :: "json \<Rightarrow> string option res" where
  "json_base_url v =
    (case v of JNull \<Rightarrow> Inr None | JStr s \<Rightarrow> Inr (Some s) | _ \<Rightarrow> Inl (TypeError ''base_url''))"

section \<open>Enumerations by value\<close>

primrec protocol_value :: "ApiProtocol \<Rightarrow> string" where
  "protocol_value ApiProtocol.INTERNAL = ''internal''"
| "protocol_value ApiProtocol.RESPONSES = ''responses''"
| "protocol_value ApiProtocol.CHAT_COMPLETIONS = ''chat_completions''"
| "protocol_value ApiProtocol.OLLAMA_CHAT = ''ollama_chat''"

primrec mode_value :: "ContinuationMode \<Rightarrow> string" where
  "mode_value ContinuationMode.NONE = ''none''"
| "mode_value ContinuationMode.REPLAY_MESSAGES = ''replay_messages''"
| "mode_value ContinuationMode.REPLAY_PROVIDER_ITEMS = ''replay_provider_items''"
| "mode_value ContinuationMode.SERVER_REFERENCE = ''server_reference''"

definition enum_of_value :: "('e \<Rightarrow> string) \<Rightarrow> 'e list \<Rightarrow> string \<Rightarrow> 'e res" where
  "enum_of_value val members s =
    (case List.find (\<lambda>e. val e = s) members of
       None \<Rightarrow> Inl (ValueError ''not a valid member'') | Some e \<Rightarrow> Inr e)"

definition protocol_of_value :: "string \<Rightarrow> ApiProtocol res" where
  "protocol_of_value = enum_of_value protocol_value
    [ApiProtocol.INTERNAL, ApiProtocol.RESPONSES, ApiProtocol.CHAT_COMPLETIONS, ApiProtocol.OLLAMA_CHAT]"

definition mode_of_value :: "string \<Rightarrow> ContinuationMode res" where
  "mode_of_value = enum_of_value mode_value
    [ContinuationMode.NONE, ContinuationMode.REPLAY_MESSAGES, ContinuationMode.REPLAY_PROVIDER_ITEMS,
     ContinuationMode.SERVER_REFERENCE]"

section \<open>Documents\<close>

record Snapshot =
  snap_active :: "ProfileId option"
  snap_profiles :: "ProviderProfile list"
  snap_bindings :: "CredentialBinding list"

definition empty_snapshot :: Snapshot where
  "empty_snapshot = \<lparr>snap_active = None, snap_profiles = [], snap_bindings = []\<rparr>"

definition MAX_DOCUMENT_BYTES :: nat where "MAX_DOCUMENT_BYTES = 4 * 1024 * 1024"
definition MAX_RECORDS :: nat where "MAX_RECORDS = 1000"

definition ROOT_KEYS :: "string set" where
  "ROOT_KEYS = {''schema_version'', ''active_profile_id'', ''profiles'', ''credential_bindings''}"

definition PROFILE_KEYS :: "string set" where
  "PROFILE_KEYS = {''schema_version'', ''profile_id'', ''display_name'', ''provider_id'', ''protocol'',
     ''base_url'', ''model'', ''credential_id'', ''capabilities'', ''enabled''}"

definition CAPABILITY_KEYS :: "string set" where
  "CAPABILITY_KEYS =
    {''streaming'', ''tools'', ''embeddings'', ''continuation_mode'', ''protocol''}"

definition BINDING_KEYS :: "string set" where
  "BINDING_KEYS =
    {''schema_version'', ''credential_id'', ''provider_id'', ''allowed_origin'', ''display_name''}"

definition SENSITIVE_METADATA_MARKERS :: "string list" where
  "SENSITIVE_METADATA_MARKERS =
    [''api_key'', ''apikey'', ''authorization'', ''credentialblob'', ''secretvalue'', ''bearer '', ''sk-'']"

definition sensitive :: "string \<Rightarrow> bool" where
  "sensitive v \<longleftrightarrow> list_ex (\<lambda>m. py_contains m (py_casefold v)) SENSITIVE_METADATA_MARKERS"

definition reject_sensitive_metadata :: "string list \<Rightarrow> unit res" where
  "reject_sensitive_metadata vs = raise_if (list_ex sensitive vs) (ValueError ''sensitive metadata'') (Inr ())"

definition capabilities_document :: "ProviderCapabilities \<Rightarrow> json" where
  "capabilities_document c = JObject
    [(''streaming'', JBool (cap_streaming c)), (''tools'', JBool (cap_tools c)),
     (''embeddings'', JBool (cap_embeddings c)),
     (''continuation_mode'', JStr (mode_value (cap_continuation_mode c))),
     (''protocol'', JStr (protocol_value (cap_protocol c)))]"

definition profile_document :: "ProviderProfile \<Rightarrow> json" where
  "profile_document p = JObject
    [(''schema_version'', JInt (pp_schema_version p)), (''profile_id'', JStr (pp_profile_id p)),
     (''display_name'', JStr (pp_display_name p)), (''provider_id'', JStr (pp_provider_id p)),
     (''protocol'', JStr (protocol_value (pp_protocol p))),
     (''base_url'', json_of_option (pp_base_url p)), (''model'', JStr (pp_model p)),
     (''credential_id'', json_of_option (pp_credential_id p)),
     (''capabilities'', capabilities_document (pp_capabilities p)), (''enabled'', JBool (pp_enabled p))]"

definition binding_document :: "CredentialBinding \<Rightarrow> json" where
  "binding_document b = JObject
    [(''schema_version'', JInt (cb_schema_version b)), (''credential_id'', JStr (cb_credential_id b)),
     (''provider_id'', JStr (cb_provider_id b)), (''allowed_origin'', JStr (cb_allowed_origin b)),
     (''display_name'', JStr (cb_display_name b))]"

definition snapshot_document :: "Snapshot \<Rightarrow> json_dict" where
  "snapshot_document s =
    [(''schema_version'', JInt 1), (''active_profile_id'', json_of_option (snap_active s)),
     (''profiles'', JList (map profile_document (snap_profiles s))),
     (''credential_bindings'', JList (map binding_document (snap_bindings s)))]"

definition parse_capabilities :: "json \<Rightarrow> ProviderCapabilities res" where
  "parse_capabilities v =
    ebind (object_mapping v) (\<lambda>item.
    ebind (require_exact_keys item CAPABILITY_KEYS) (\<lambda>_.
    ebind (ebind (json_item item ''streaming'') json_boolean) (\<lambda>streaming.
    ebind (ebind (json_item item ''tools'') json_boolean) (\<lambda>tools.
    ebind (ebind (json_item item ''embeddings'') json_boolean) (\<lambda>embeddings.
    ebind (ebind (ebind (json_item item ''continuation_mode'') json_string) mode_of_value) (\<lambda>mode.
    ebind (ebind (ebind (json_item item ''protocol'') json_string) protocol_of_value) (\<lambda>protocol.
    Inr \<lparr>cap_streaming = streaming, cap_tools = tools, cap_embeddings = embeddings,
         cap_continuation_mode = mode, cap_protocol = protocol\<rparr>)))))))"

definition parse_profile :: "bracket_check \<Rightarrow> json \<Rightarrow> ProviderProfile res" where
  "parse_profile br v =
    ebind (object_mapping v) (\<lambda>item.
    ebind (require_exact_keys item PROFILE_KEYS) (\<lambda>_.
    ebind (ebind (json_item item ''capabilities'') parse_capabilities) (\<lambda>capabilities.
    ebind (json_item item ''credential_id'') (\<lambda>credential_raw.
    ebind (ebind (json_item item ''base_url'') json_base_url) (\<lambda>base_url.
    ebind (ebind (ebind (json_item item ''profile_id'') json_string) mk_ProfileId) (\<lambda>profile_id.
    ebind (ebind (json_item item ''display_name'') json_string) (\<lambda>display_name.
    ebind (ebind (ebind (json_item item ''provider_id'') json_string) mk_ProviderId) (\<lambda>provider_id.
    ebind (ebind (ebind (json_item item ''protocol'') json_string) protocol_of_value) (\<lambda>protocol.
    ebind (ebind (json_item item ''model'') json_string) (\<lambda>model.
    ebind (json_optional mk_CredentialId credential_raw) (\<lambda>credential_id.
    ebind (ebind (json_item item ''enabled'') json_boolean) (\<lambda>enabled.
    ebind (ebind (json_item item ''schema_version'') json_integer) (\<lambda>schema_version.
    mk_ProviderProfile br
      \<lparr>pp_profile_id = profile_id, pp_display_name = display_name, pp_provider_id = provider_id,
       pp_protocol = protocol, pp_base_url = base_url, pp_model = model,
       pp_credential_id = credential_id, pp_capabilities = capabilities, pp_enabled = enabled,
       pp_schema_version = schema_version\<rparr>)))))))))))))"

definition parse_binding :: "bracket_check \<Rightarrow> json \<Rightarrow> CredentialBinding res" where
  "parse_binding br v =
    ebind (object_mapping v) (\<lambda>item.
    ebind (require_exact_keys item BINDING_KEYS) (\<lambda>_.
    ebind (ebind (ebind (json_item item ''credential_id'') json_string) mk_CredentialId) (\<lambda>credential_id.
    ebind (ebind (ebind (json_item item ''provider_id'') json_string) mk_ProviderId) (\<lambda>provider_id.
    ebind (ebind (json_item item ''allowed_origin'') json_string) (\<lambda>allowed_origin.
    ebind (ebind (json_item item ''display_name'') json_string) (\<lambda>display_name.
    ebind (ebind (json_item item ''schema_version'') json_integer) (\<lambda>schema_version.
    mk_CredentialBinding br
      \<lparr>cb_credential_id = credential_id, cb_provider_id = provider_id,
       cb_allowed_origin = allowed_origin, cb_display_name = display_name,
       cb_schema_version = schema_version\<rparr>)))))))"

text \<open>\<^verbatim>\<open>next(... for binding in bindings if ...)\<close>, which looks at the origin only where the first two tests pass.\<close>

fun first_binding ::
    "bracket_check \<Rightarrow> ProviderProfile \<Rightarrow> CredentialId \<Rightarrow> CredentialBinding list \<Rightarrow> CredentialBinding option res" where
  "first_binding br p c [] = Inr None"
| "first_binding br p c (b # bs) =
    (if cb_credential_id b = c \<and> cb_provider_id b = pp_provider_id p
     then ebind (profile_origin br p) (\<lambda>origin.
       if origin = Some (cb_allowed_origin b) then Inr (Some b) else first_binding br p c bs)
     else first_binding br p c bs)"

definition binding_for_profile ::
    "bracket_check \<Rightarrow> ProviderProfile \<Rightarrow> CredentialBinding list \<Rightarrow> CredentialBinding option res" where
  "binding_for_profile br p bs =
    (case pp_credential_id p of None \<Rightarrow> Inr None | Some c \<Rightarrow> first_binding br p c bs)"

definition sorted_profiles :: "ProviderProfile list \<Rightarrow> ProviderProfile list" where
  "sorted_profiles ps = sort_key pp_profile_id ps"

definition sorted_bindings :: "CredentialBinding list \<Rightarrow> CredentialBinding list" where
  "sorted_bindings bs = sort_key cb_credential_id bs"

definition check_profile :: "bracket_check \<Rightarrow> CredentialBinding list \<Rightarrow> ProviderProfile \<Rightarrow> unit res" where
  "check_profile br bs p =
    ebind (validate_supported_profile br p) (\<lambda>_.
    ebind (reject_sensitive_metadata [pp_display_name p, pp_model p]) (\<lambda>_.
    ebind (binding_for_profile br p bs) (\<lambda>b.
    raise_if (pp_credential_id p \<noteq> None \<and> b = None) (ValueError ''missing binding'') (Inr ()))))"

definition check_binding :: "bracket_check \<Rightarrow> CredentialBinding \<Rightarrow> unit res" where
  "check_binding br b =
    ebind (validate_supported_credential_binding br b) (\<lambda>_.
    reject_sensitive_metadata [cb_display_name b])"

definition assemble_snapshot ::
    "bracket_check \<Rightarrow> ProfileId option \<Rightarrow> ProviderProfile list \<Rightarrow> CredentialBinding list \<Rightarrow> Snapshot res" where
  "assemble_snapshot br active profiles bindings =
    raise_if (\<not> distinct (map pp_profile_id profiles)) (ValueError ''duplicate profile'')
    (raise_if (\<not> distinct (map cb_credential_id bindings)) (ValueError ''duplicate binding'')
    (ebind (for_each (check_profile br bindings) profiles) (\<lambda>_.
     ebind (for_each (check_binding br) bindings) (\<lambda>_.
     raise_if (case active of None \<Rightarrow> False | Some i \<Rightarrow> list_all (\<lambda>p. pp_profile_id p \<noteq> i) profiles)
       (ValueError ''missing active profile'')
     (Inr \<lparr>snap_active = active, snap_profiles = sorted_profiles profiles,
           snap_bindings = sorted_bindings bindings\<rparr>)))))"

definition parse_snapshot_body :: "bracket_check \<Rightarrow> json_dict \<Rightarrow> Snapshot res" where
  "parse_snapshot_body br document =
    ebind (require_exact_keys document ROOT_KEYS) (\<lambda>_.
    ebind (ebind (json_item document ''active_profile_id'') (json_optional mk_ProfileId)) (\<lambda>active.
    ebind (ebind (json_item document ''profiles'') object_list) (\<lambda>profile_values.
    ebind (ebind (json_item document ''credential_bindings'') object_list) (\<lambda>binding_values.
    raise_if (length profile_values > MAX_RECORDS \<or> length binding_values > MAX_RECORDS)
      (ValueError ''record limit'')
    (ebind (traverse (parse_profile br) profile_values) (\<lambda>profiles.
     ebind (traverse (parse_binding br) binding_values) (\<lambda>bindings.
     assemble_snapshot br active profiles bindings)))))))"

fun parse_error_caught :: "py_error \<Rightarrow> bool" where
  "parse_error_caught (ProviderProfilePolicyError _) = True"
| "parse_error_caught KeyError = True"
| "parse_error_caught (TypeError _) = True"
| "parse_error_caught (ValueError _) = True"
| "parse_error_caught _ = False"

definition corrupted :: "py_error" where
  "corrupted = ProviderMetadataError MetadataCorrupted ''The provider metadata document is corrupted.''"

definition parse_snapshot :: "bracket_check \<Rightarrow> json_dict \<Rightarrow> Snapshot res" where
  "parse_snapshot br document =
    (case parse_snapshot_body br document of
       Inr s \<Rightarrow> Inr s
     | Inl e \<Rightarrow> if parse_error_caught e then Inl corrupted else Inl e)"

section \<open>The file\<close>

datatype disk_file = FileAbsent | FileUnreadable | FileBytes nat "json option"

text \<open>
  How a write ends: the target replaced; an exception before the temporary file exists; an
  exception after that, with the temporary file removed or left behind.
\<close>

datatype write_outcome = WriteDone | WriteFailsEarly | WriteFailsLate bool

record disk =
  metadata_file :: disk_file
  stray_temporaries :: nat
  coming_writes :: "write_outcome list"

record repo_env =
  env_bracket :: bracket_check
  env_document_bytes :: "json \<Rightarrow> nat"
  env_migrator :: "(json_dict \<Rightarrow> int \<Rightarrow> json_dict res) option"

definition migrate_document :: "repo_env \<Rightarrow> json_dict \<Rightarrow> json_dict res" where
  "migrate_document E document =
    (case env_migrator E of
       None \<Rightarrow> Inl (ProviderMetadataError MetadataSchema ''The provider metadata schema is not supported.'')
     | Some migrate \<Rightarrow>
         (case migrate document 1 of
            Inl _ \<Rightarrow> Inl (ProviderMetadataError MetadataSchema
                       ''The provider metadata migration failed safely.'')
          | Inr migrated \<Rightarrow>
              raise_if (\<not> equals_int 1 (map_of migrated ''schema_version''))
                (ProviderMetadataError MetadataSchema ''The provider metadata migration is incomplete.'')
              (Inr migrated)))"

definition read_snapshot :: "repo_env \<Rightarrow> disk \<Rightarrow> Snapshot res" where
  "read_snapshot E d =
    (case metadata_file d of
       FileAbsent \<Rightarrow> Inr empty_snapshot
     | FileUnreadable \<Rightarrow> Inl (ProviderMetadataError MetadataCorrupted
                          ''The provider metadata could not be read safely.'')
     | FileBytes n payload \<Rightarrow>
         raise_if (n > MAX_DOCUMENT_BYTES)
           (ProviderMetadataError MetadataCorrupted ''The provider metadata document is too large.'')
         (case payload of
            Some (JObject document) \<Rightarrow>
              ebind (if equals_int 1 (map_of document ''schema_version'') then Inr document
                     else migrate_document E document) (parse_snapshot (env_bracket E))
          | _ \<Rightarrow> Inl corrupted))"

definition next_write :: "disk \<Rightarrow> write_outcome" where
  "next_write d = (case coming_writes d of [] \<Rightarrow> WriteDone | w # _ \<Rightarrow> w)"

definition write_snapshot :: "repo_env \<Rightarrow> Snapshot \<Rightarrow> disk \<Rightarrow> (unit, disk) sres" where
  "write_snapshot E s d =
    (let document = JObject (snapshot_document s);
         d1 = d\<lparr>coming_writes := tl (coming_writes d)\<rparr>;
         failure = ProviderMetadataError MetadataWrite
                     ''The provider metadata could not be written atomically.''
     in case next_write d of
          WriteDone \<Rightarrow>
            (Inr (), d1\<lparr>metadata_file := FileBytes (env_document_bytes E document) (Some document)\<rparr>)
        | WriteFailsEarly \<Rightarrow> (Inl failure, d1)
        | WriteFailsLate removed \<Rightarrow>
            (Inl failure, d1\<lparr>stray_temporaries := stray_temporaries d1 + (if removed then 0 else 1)\<rparr>))"

section \<open>Operations\<close>

definition list_profiles :: "repo_env \<Rightarrow> disk \<Rightarrow> ProviderProfile list res" where
  "list_profiles E d = ebind (read_snapshot E d) (\<lambda>s. Inr (snap_profiles s))"

definition find_profile :: "ProfileId \<Rightarrow> ProviderProfile list \<Rightarrow> ProviderProfile option" where
  "find_profile i ps = List.find (\<lambda>p. pp_profile_id p = i) ps"

definition get_profile :: "repo_env \<Rightarrow> ProfileId \<Rightarrow> disk \<Rightarrow> ProviderProfile option res" where
  "get_profile E i d = ebind (read_snapshot E d) (\<lambda>s. Inr (find_profile i (snap_profiles s)))"

fun save_error_caught :: "py_error \<Rightarrow> bool" where
  "save_error_caught (ProviderProfilePolicyError _) = True"
| "save_error_caught (ValueError _) = True"
| "save_error_caught (TypeError _) = True"
| "save_error_caught _ = False"

definition as_conflict :: "string \<Rightarrow> unit res \<Rightarrow> unit res" where
  "as_conflict message r =
    (case r of
       Inr _ \<Rightarrow> Inr ()
     | Inl e \<Rightarrow> if save_error_caught e then Inl (ProviderMetadataError MetadataConflict message) else Inl e)"

definition index_where :: "('a \<Rightarrow> bool) \<Rightarrow> 'a list \<Rightarrow> nat option" where
  "index_where P xs = List.find (\<lambda>i. P (xs ! i)) [0..<length xs]"

definition place_profile :: "ProviderProfile \<Rightarrow> ProviderProfile list \<Rightarrow> ProviderProfile list res" where
  "place_profile p ps =
    (case index_where (\<lambda>q. pp_profile_id q = pp_profile_id p) ps of
       None \<Rightarrow> Inr (ps @ [p])
     | Some i \<Rightarrow>
         raise_if (pp_provider_id (ps ! i) \<noteq> pp_provider_id p)
           (ProviderMetadataError MetadataConflict ''The profile identifier belongs to another provider.'')
         (Inr (ps[i := p])))"

definition save_profile :: "repo_env \<Rightarrow> ProviderProfile \<Rightarrow> disk \<Rightarrow> (unit, disk) sres" where
  "save_profile E p d =
    with_res (as_conflict ''The provider profile cannot be persisted safely.''
        (ebind (validate_supported_profile (env_bracket E) p) (\<lambda>_.
         reject_sensitive_metadata [pp_display_name p, pp_model p]))) d (\<lambda>_.
    with_res (read_snapshot E d) d (\<lambda>s.
    with_res (binding_for_profile (env_bracket E) p (snap_bindings s)) d (\<lambda>b.
    with_res (raise_if (pp_credential_id p \<noteq> None \<and> b = None)
        (ProviderMetadataError MetadataReference ''The provider profile credential binding is missing.'')
        (Inr ())) d (\<lambda>_.
    with_res (place_profile p (snap_profiles s)) d (\<lambda>profiles.
    write_snapshot E (s\<lparr>snap_profiles := sorted_profiles profiles\<rparr>) d)))))"

definition delete_profile :: "repo_env \<Rightarrow> ProfileId \<Rightarrow> disk \<Rightarrow> (unit, disk) sres" where
  "delete_profile E i d =
    with_res (read_snapshot E d) d (\<lambda>s.
    with_res (raise_if (snap_active s = Some i)
        (ProviderMetadataError MetadataReference ''The active provider profile cannot be deleted.'')
        (Inr ())) d (\<lambda>_.
    let profiles = filter (\<lambda>p. pp_profile_id p \<noteq> i) (snap_profiles s)
    in with_res (raise_if (length profiles = length (snap_profiles s))
          (ProviderMetadataError MetadataNotFound ''The provider profile does not exist.'')
          (Inr ())) d (\<lambda>_.
       write_snapshot E (s\<lparr>snap_profiles := profiles\<rparr>) d)))"

definition get_active_profile_id :: "repo_env \<Rightarrow> disk \<Rightarrow> ProfileId option res" where
  "get_active_profile_id E d = ebind (read_snapshot E d) (\<lambda>s. Inr (snap_active s))"

definition set_active_profile_id :: "repo_env \<Rightarrow> ProfileId \<Rightarrow> disk \<Rightarrow> (unit, disk) sres" where
  "set_active_profile_id E i d =
    with_res (read_snapshot E d) d (\<lambda>s.
    case find_profile i (snap_profiles s) of
      None \<Rightarrow> (Inl (ProviderMetadataError MetadataNotFound ''The provider profile does not exist.''), d)
    | Some p \<Rightarrow>
        if \<not> pp_enabled p
        then (Inl (ProviderMetadataError MetadataConflict
                     ''A disabled provider profile cannot become active.''), d)
        else write_snapshot E (s\<lparr>snap_active := Some i\<rparr>) d)"

definition list_credential_bindings :: "repo_env \<Rightarrow> disk \<Rightarrow> CredentialBinding list res" where
  "list_credential_bindings E d = ebind (read_snapshot E d) (\<lambda>s. Inr (snap_bindings s))"

definition find_binding :: "CredentialId \<Rightarrow> CredentialBinding list \<Rightarrow> CredentialBinding option" where
  "find_binding c bs = List.find (\<lambda>b. cb_credential_id b = c) bs"

definition get_credential_binding :: "repo_env \<Rightarrow> CredentialId \<Rightarrow> disk \<Rightarrow> CredentialBinding option res" where
  "get_credential_binding E c d = ebind (read_snapshot E d) (\<lambda>s. Inr (find_binding c (snap_bindings s)))"

definition place_binding :: "CredentialBinding \<Rightarrow> CredentialBinding list \<Rightarrow> CredentialBinding list res" where
  "place_binding b bs =
    (case index_where (\<lambda>x. cb_credential_id x = cb_credential_id b) bs of
       None \<Rightarrow> Inr (bs @ [b])
     | Some i \<Rightarrow>
         raise_if (cb_provider_id (bs ! i) \<noteq> cb_provider_id b
                   \<or> cb_allowed_origin (bs ! i) \<noteq> cb_allowed_origin b)
           (ProviderMetadataError MetadataConflict ''The credential identifier is already bound.'')
         (Inr (bs[i := b])))"

definition save_credential_binding :: "repo_env \<Rightarrow> CredentialBinding \<Rightarrow> disk \<Rightarrow> (unit, disk) sres" where
  "save_credential_binding E b d =
    with_res (as_conflict ''The credential binding cannot be persisted safely.''
        (check_binding (env_bracket E) b)) d (\<lambda>_.
    with_res (read_snapshot E d) d (\<lambda>s.
    with_res (place_binding b (snap_bindings s)) d (\<lambda>bindings.
    write_snapshot E (s\<lparr>snap_bindings := sorted_bindings bindings\<rparr>) d)))"

definition delete_credential_binding :: "repo_env \<Rightarrow> CredentialId \<Rightarrow> disk \<Rightarrow> (unit, disk) sres" where
  "delete_credential_binding E c d =
    with_res (read_snapshot E d) d (\<lambda>s.
    with_res (raise_if (list_ex (\<lambda>p. pp_credential_id p = Some c) (snap_profiles s))
        (ProviderMetadataError MetadataReference ''The credential binding is still referenced.'')
        (Inr ())) d (\<lambda>_.
    let bindings = filter (\<lambda>b. cb_credential_id b \<noteq> c) (snap_bindings s)
    in with_res (raise_if (length bindings = length (snap_bindings s))
          (ProviderMetadataError MetadataNotFound ''The credential binding does not exist.'')
          (Inr ())) d (\<lambda>_.
       write_snapshot E (s\<lparr>snap_bindings := bindings\<rparr>) d)))"

end
