(* ===== verification/Profile_Store.thy ===== *)
theory Profile_Store
  imports Profile_Repository
begin

text \<open>
  Correctness of the provider metadata store: a document printed from a consistent snapshot
  parses back to it, every snapshot that can be read is consistent, every operation keeps it so,
  and seen through its lookups the store is a map from profile identifiers to profiles.
\<close>

section \<open>Consistent snapshots\<close>

definition profile_typed :: "ProviderProfile \<Rightarrow> bool" where
  "profile_typed p \<longleftrightarrow> mk_ProfileId (pp_profile_id p) = Inr (pp_profile_id p) \<and>
     (\<forall>c. pp_credential_id p = Some c \<longrightarrow> mk_CredentialId c = Inr c)"

definition binding_typed :: "CredentialBinding \<Rightarrow> bool" where
  "binding_typed b \<longleftrightarrow> mk_CredentialId (cb_credential_id b) = Inr (cb_credential_id b)"

definition profile_ok :: "ProviderProfile \<Rightarrow> bool" where
  "profile_ok p \<longleftrightarrow> profile_typed p \<and> supported_profile p \<and>
     \<not> sensitive (pp_display_name p) \<and> \<not> sensitive (pp_model p)"

definition binding_ok :: "CredentialBinding \<Rightarrow> bool" where
  "binding_ok b \<longleftrightarrow> binding_typed b \<and> supported_binding b \<and> \<not> sensitive (cb_display_name b)"

definition bound :: "CredentialBinding list \<Rightarrow> ProviderProfile \<Rightarrow> bool" where
  "bound bs p \<longleftrightarrow> (\<forall>c. pp_credential_id p = Some c \<longrightarrow>
     (\<exists>b \<in> set bs. cb_credential_id b = c \<and> cb_provider_id b = pp_provider_id p))"

definition snapshot_ok :: "Snapshot \<Rightarrow> bool" where
  "snapshot_ok s \<longleftrightarrow>
     (\<forall>p \<in> set (snap_profiles s). profile_ok p \<and> bound (snap_bindings s) p) \<and>
     (\<forall>b \<in> set (snap_bindings s). binding_ok b) \<and>
     distinct (map pp_profile_id (snap_profiles s)) \<and> sorted (map pp_profile_id (snap_profiles s)) \<and>
     distinct (map cb_credential_id (snap_bindings s)) \<and> sorted (map cb_credential_id (snap_bindings s)) \<and>
     (\<forall>i. snap_active s = Some i \<longrightarrow> i \<in> pp_profile_id ` set (snap_profiles s))"

definition within_limits :: "Snapshot \<Rightarrow> bool" where
  "within_limits s \<longleftrightarrow>
     length (snap_profiles s) \<le> MAX_RECORDS \<and> length (snap_bindings s) \<le> MAX_RECORDS"

section \<open>Printing and parsing\<close>

lemma protocol_roundtrip [simp]: "protocol_of_value (protocol_value x) = Inr x"
  by (cases x) (simp_all add: protocol_of_value_def enum_of_value_def)

lemma mode_roundtrip [simp]: "mode_of_value (mode_value x) = Inr x"
  by (cases x) (simp_all add: mode_of_value_def enum_of_value_def)

lemma json_base_url_of_option [simp]: "json_base_url (json_of_option v) = Inr v"
  by (simp add: json_base_url_def json_of_option_def split: option.splits)

lemma json_optional_of_option:
  "(\<And>s. v = Some s \<Longrightarrow> build s = Inr s) \<Longrightarrow> json_optional build (json_of_option v) = Inr v"
  by (auto simp: json_optional_def json_of_option_def json_string_def split: option.splits)

lemma json_value_simps [simp]:
  "json_string (JStr s) = Inr s" "json_boolean (JBool b) = Inr b" "json_integer (JInt i) = Inr i"
  "object_mapping (JObject d) = Inr d" "object_list (JList xs) = Inr xs"
  by (simp_all add: json_string_def json_boolean_def json_integer_def object_mapping_def object_list_def)

lemma parse_capabilities_document [simp]: "parse_capabilities (capabilities_document c) = Inr c"
  by (simp add: parse_capabilities_def capabilities_document_def require_exact_keys_def
      CAPABILITY_KEYS_def json_item_def)

lemma mk_ProviderId_supported:
  assumes "endpoint_table pid = Some row"
  shows "mk_ProviderId pid = Inr pid"
  using assms
  by (cases rule: endpoint_table_cases) (simp_all add: mk_ProviderId_def provider_id_pattern_def)

lemma mk_ProviderProfile_supported:
  assumes "supported_profile p"
  shows "mk_ProviderProfile br p = Inr p"
proof -
  obtain protocol url caps where
    row: "endpoint_table (pp_provider_id p) = Some (protocol, url, caps, pp_credential_id p \<noteq> None)"
    and fields: "pp_protocol p = protocol" "pp_base_url p = url" "pp_capabilities p = caps"
    "\<not> display_name_bad (pp_display_name p)" "py_strip (pp_display_name p) = pp_display_name p"
    "\<not> model_bad (pp_model p)" "py_strip (pp_model p) = pp_model p" "pp_schema_version p = 1"
    using supported_profile_fields [OF assms] by blast
  have "cap_protocol caps = protocol \<and> url \<in> fixed_urls"
    using row by (cases rule: endpoint_table_cases) (use row in \<open>auto simp: fixed_urls_def\<close>)
  moreover have "p\<lparr>pp_base_url := url, pp_display_name := pp_display_name p, pp_model := pp_model p\<rparr> = p"
    using fields(2) by simp
  ultimately show ?thesis
    using fields by (auto simp: mk_ProviderProfile_ok_iff fixed_urls_def split: option.splits)
qed

lemma profile_eta [simp]:
  "\<lparr>pp_profile_id = pp_profile_id p, pp_display_name = pp_display_name p,
    pp_provider_id = pp_provider_id p, pp_protocol = pp_protocol p, pp_base_url = pp_base_url p,
    pp_model = pp_model p, pp_credential_id = pp_credential_id p, pp_capabilities = pp_capabilities p,
    pp_enabled = pp_enabled p, pp_schema_version = pp_schema_version p\<rparr> = p"
  by (cases p) simp

lemma binding_eta [simp]:
  "\<lparr>cb_credential_id = cb_credential_id b, cb_provider_id = cb_provider_id b,
    cb_allowed_origin = cb_allowed_origin b, cb_display_name = cb_display_name b,
    cb_schema_version = cb_schema_version b\<rparr> = b"
  by (cases b) simp

lemma parse_profile_document:
  assumes "supported_profile p" "profile_typed p"
  shows "parse_profile br (profile_document p) = Inr p"
proof -
  have id: "mk_ProfileId (pp_profile_id p) = Inr (pp_profile_id p)"
    and cred: "json_optional mk_CredentialId (json_of_option (pp_credential_id p)) = Inr (pp_credential_id p)"
    using assms(2) by (auto simp: profile_typed_def intro: json_optional_of_option)
  have provider: "mk_ProviderId (pp_provider_id p) = Inr (pp_provider_id p)"
    using supported_profile_fields [OF assms(1)] mk_ProviderId_supported by blast
  have "parse_profile br (profile_document p) = mk_ProviderProfile br p"
    by (simp add: parse_profile_def profile_document_def require_exact_keys_def PROFILE_KEYS_def
        json_item_def id cred provider)
  then show ?thesis by (simp add: mk_ProviderProfile_supported [OF assms(1)])
qed

lemma official_origin_cases:
  assumes "official_origin pid = Some origin"
  obtains "pid = ''openai''" "origin = ''https://api.openai.com''"
  | "pid = ''deepseek''" "origin = ''https://api.deepseek.com''"
  using assms by (auto simp: official_origin_def split: if_splits)

lemma mk_CredentialBinding_supported:
  assumes "supported_binding b"
  shows "mk_CredentialBinding br b = Inr b \<and> mk_ProviderId (cb_provider_id b) = Inr (cb_provider_id b)"
proof -
  have o: "official_origin (cb_provider_id b) = Some (cb_allowed_origin b)"
    using assms by (simp add: supported_binding_def)
  then have "normalize_https_origin br (cb_allowed_origin b) = Inr (cb_allowed_origin b) \<and>
      mk_ProviderId (cb_provider_id b) = Inr (cb_provider_id b)"
    by (cases rule: official_origin_cases) (simp_all add: mk_ProviderId_def provider_id_pattern_def)
  then show ?thesis
    using assms by (simp add: mk_CredentialBinding_ok_iff supported_binding_def)
qed

lemma parse_binding_document:
  assumes "supported_binding b" "binding_typed b"
  shows "parse_binding br (binding_document b) = Inr b"
  using assms(2) mk_CredentialBinding_supported [OF assms(1), of br]
  by (simp add: parse_binding_def binding_document_def require_exact_keys_def BINDING_KEYS_def
      json_item_def binding_typed_def)

section \<open>Bindings of a profile\<close>

lemma first_binding_SomeD:
  "first_binding br p c bs = Inr (Some b) \<Longrightarrow>
     b \<in> set bs \<and> cb_credential_id b = c \<and> cb_provider_id b = pp_provider_id p \<and>
     profile_origin br p = Inr (Some (cb_allowed_origin b))"
  by (induction br p c bs rule: first_binding.induct) (auto simp: ebind_eq_Inr_iff split: if_splits)

lemma first_binding_supported:
  assumes "supported_profile p" "pp_credential_id p = Some c" "\<forall>b \<in> set bs. supported_binding b"
  shows "\<exists>r. first_binding br p c bs = Inr r \<and>
    (r \<noteq> None \<longleftrightarrow> (\<exists>b \<in> set bs. cb_credential_id b = c \<and> cb_provider_id b = pp_provider_id p))"
  using assms(3)
proof (induction bs)
  case (Cons b bs)
  have origin: "profile_origin br p = Inr (official_origin (pp_provider_id p))"
    using credential_origin [OF assms(1,2)] by simp
  from Cons show ?case by (auto simp: origin supported_binding_def)
qed simp

lemma binding_for_profile_supported:
  assumes "supported_profile p" "\<forall>b \<in> set bs. supported_binding b"
  shows "\<exists>r. binding_for_profile br p bs = Inr r \<and>
    ((pp_credential_id p \<noteq> None \<and> r = None) \<longleftrightarrow> \<not> bound bs p)"
proof (cases "pp_credential_id p")
  case (Some c)
  with first_binding_supported [OF assms(1) Some assms(2), of br] obtain r where
    "first_binding br p c bs = Inr r"
    "r \<noteq> None \<longleftrightarrow> (\<exists>b \<in> set bs. cb_credential_id b = c \<and> cb_provider_id b = pp_provider_id p)"
    by blast
  with Some show ?thesis by (cases r) (auto simp: binding_for_profile_def bound_def)
qed (simp add: binding_for_profile_def bound_def)

lemma binding_for_profile_bound:
  "binding_for_profile br p bs = Inr r \<Longrightarrow> pp_credential_id p = None \<or> r \<noteq> None \<Longrightarrow> bound bs p"
  by (auto simp: binding_for_profile_def bound_def split: option.splits dest: first_binding_SomeD)

lemma check_profile_ok_iff:
  assumes "\<forall>b \<in> set bs. supported_binding b"
  shows "check_profile br bs p = Inr () \<longleftrightarrow>
    supported_profile p \<and> \<not> sensitive (pp_display_name p) \<and> \<not> sensitive (pp_model p) \<and> bound bs p"
  using binding_for_profile_supported [OF _ assms, of p br]
  by (auto simp: check_profile_def ebind_eq_Inr_iff validate_supported_profile_iff
      reject_sensitive_metadata_def)

lemma check_profile_okD:
  "check_profile br bs p = Inr () \<Longrightarrow>
    supported_profile p \<and> \<not> sensitive (pp_display_name p) \<and> \<not> sensitive (pp_model p) \<and> bound bs p"
  by (auto simp: check_profile_def ebind_eq_Inr_iff validate_supported_profile_iff
      reject_sensitive_metadata_def intro: binding_for_profile_bound)

lemma check_binding_ok_iff:
  "check_binding br b = Inr () \<longleftrightarrow> supported_binding b \<and> \<not> sensitive (cb_display_name b)"
  by (auto simp: check_binding_def ebind_eq_Inr_iff validate_supported_binding_iff
      reject_sensitive_metadata_def)

section \<open>Snapshots\<close>

lemma sorted_profiles_id: "sorted (map pp_profile_id ps) \<Longrightarrow> sorted_profiles ps = ps"
  by (simp add: sorted_profiles_def sort_key_id_if_sorted)

lemma sorted_bindings_id: "sorted (map cb_credential_id bs) \<Longrightarrow> sorted_bindings bs = bs"
  by (simp add: sorted_bindings_def sort_key_id_if_sorted)

lemma json_optional_active:
  assumes "\<And>i. snap_active s = Some i \<Longrightarrow> mk_ProfileId i = Inr i"
  shows "json_optional mk_ProfileId (json_of_option (snap_active s)) = Inr (snap_active s)"
  using assms by (rule json_optional_of_option)

lemma snapshot_okD:
  assumes "snapshot_ok s"
  shows "p \<in> set (snap_profiles s) \<Longrightarrow> profile_ok p \<and> bound (snap_bindings s) p"
    and "b \<in> set (snap_bindings s) \<Longrightarrow> binding_ok b"
    and "distinct (map pp_profile_id (snap_profiles s))" "sorted (map pp_profile_id (snap_profiles s))"
    and "distinct (map cb_credential_id (snap_bindings s))" "sorted (map cb_credential_id (snap_bindings s))"
    and "snap_active s = Some i \<Longrightarrow> i \<in> pp_profile_id ` set (snap_profiles s)"
  using assms by (auto simp: snapshot_ok_def)

lemma parse_document_body:
  assumes ok: "snapshot_ok s" and lim: "within_limits s"
  shows "parse_snapshot_body br (snapshot_document s) = Inr s"
proof -
  have profiles: "traverse (parse_profile br) (map profile_document (snap_profiles s)) = Inr (snap_profiles s)"
    and bindings: "traverse (parse_binding br) (map binding_document (snap_bindings s)) = Inr (snap_bindings s)"
    using ok by (auto intro!: traverse_map_ok parse_profile_document parse_binding_document
        dest: snapshot_okD(1,2) simp: profile_ok_def binding_ok_def)
  have active: "json_optional mk_ProfileId (json_of_option (snap_active s)) = Inr (snap_active s)"
    using snapshot_okD(1,7) [OF ok]
    by (intro json_optional_active) (auto simp: profile_ok_def profile_typed_def)
  have sup: "\<forall>b \<in> set (snap_bindings s). supported_binding b"
    using snapshot_okD(2) [OF ok] by (simp add: binding_ok_def)
  have checks: "for_each (check_profile br (snap_bindings s)) (snap_profiles s) = Inr ()"
    "for_each (check_binding br) (snap_bindings s) = Inr ()"
    using snapshot_okD(1,2) [OF ok] check_profile_ok_iff [OF sup]
    by (auto simp: for_each_ok_iff check_binding_ok_iff profile_ok_def binding_ok_def)
  have present: "\<not> (case snap_active s of None \<Rightarrow> False
      | Some i \<Rightarrow> list_all (\<lambda>p. pp_profile_id p \<noteq> i) (snap_profiles s))"
    using snapshot_okD(7) [OF ok] by (auto simp: list_all_iff split: option.splits)
  show ?thesis
    using lim snapshot_okD(3-6) [OF ok]
    by (simp add: parse_snapshot_body_def assemble_snapshot_def snapshot_document_def
        require_exact_keys_def ROOT_KEYS_def json_item_def active profiles bindings checks present within_limits_def sorted_profiles_id
        sorted_bindings_id)
qed

lemma parse_document:
  "snapshot_ok s \<Longrightarrow> within_limits s \<Longrightarrow> parse_snapshot br (snapshot_document s) = Inr s"
  by (simp add: parse_snapshot_def parse_document_body)

lemma document_too_many:
  assumes "\<not> within_limits s" "\<And>i. snap_active s = Some i \<Longrightarrow> mk_ProfileId i = Inr i"
  shows "parse_snapshot br (snapshot_document s) = Inl corrupted"
proof -
  have "length (snap_profiles s) > MAX_RECORDS \<or> length (snap_bindings s) > MAX_RECORDS"
    using assms(1) by (auto simp: within_limits_def)
  then have "parse_snapshot_body br (snapshot_document s) = Inl (ValueError ''record limit'')"
    by (simp add: parse_snapshot_body_def snapshot_document_def require_exact_keys_def ROOT_KEYS_def
        json_item_def json_optional_active [OF assms(2)])
  then show ?thesis by (simp add: parse_snapshot_def)
qed

lemma mk_ProfileId_id: "mk_ProfileId v = Inr i \<Longrightarrow> i = v \<and> mk_ProfileId i = Inr i"
  by (auto simp: mk_ProfileId_def validate_opaque_id_def split: if_splits)

lemma mk_CredentialId_id: "mk_CredentialId v = Inr i \<Longrightarrow> i = v \<and> mk_CredentialId i = Inr i"
  by (auto simp: mk_CredentialId_def validate_opaque_id_def split: if_splits)

lemma json_optional_SomeD:
  "json_optional build v = Inr (Some x) \<Longrightarrow> \<exists>s. v = JStr s \<and> build s = Inr x"
  by (auto simp: json_optional_def ebind_eq_Inr_iff json_string_def split: if_splits json.splits)

lemma parse_profile_typed: "parse_profile br v = Inr p \<Longrightarrow> profile_typed p"
  by (auto simp: parse_profile_def ebind_eq_Inr_iff mk_ProviderProfile_ok_iff profile_typed_def
      dest!: json_optional_SomeD dest: mk_ProfileId_id mk_CredentialId_id)

lemma parse_binding_typed: "parse_binding br v = Inr b \<Longrightarrow> binding_typed b"
  by (auto simp: parse_binding_def ebind_eq_Inr_iff mk_CredentialBinding_ok_iff binding_typed_def
      dest: mk_CredentialId_id)

lemma sorted_sort_key_map: "sorted (map f (sort_key f xs))"
  by simp

lemma distinct_sort_key_map: "distinct (map f (sort_key f xs)) \<longleftrightarrow> distinct (map f xs)"
  by (simp add: distinct_map)

lemma assemble_snapshot_ok:
  assumes "assemble_snapshot br active ps bs = Inr s"
    and typed: "\<forall>p \<in> set ps. profile_typed p" "\<forall>b \<in> set bs. binding_typed b"
  shows "snapshot_ok s \<and> length (snap_profiles s) = length ps \<and> length (snap_bindings s) = length bs"
proof -
  have dist: "distinct (map pp_profile_id ps)" "distinct (map cb_credential_id bs)"
    and chk: "\<forall>p \<in> set ps. check_profile br bs p = Inr ()" "\<forall>b \<in> set bs. check_binding br b = Inr ()"
    and act: "\<not> (case active of None \<Rightarrow> False | Some i \<Rightarrow> list_all (\<lambda>p. pp_profile_id p \<noteq> i) ps)"
    and s: "s = \<lparr>snap_active = active, snap_profiles = sorted_profiles ps, snap_bindings = sorted_bindings bs\<rparr>"
    using assms(1) by (simp_all add: assemble_snapshot_def ebind_eq_Inr_iff for_each_ok_iff)
  have sets: "set (sorted_profiles ps) = set ps" "set (sorted_bindings bs) = set bs"
    by (simp_all add: sorted_profiles_def sorted_bindings_def)
  have bnd: "bound (sorted_bindings bs) p \<longleftrightarrow> bound bs p" for p
    by (simp add: bound_def sets)
  have "\<forall>p \<in> set ps. profile_ok p \<and> bound bs p" "\<forall>b \<in> set bs. binding_ok b"
    using chk typed by (auto simp: profile_ok_def binding_ok_def check_binding_ok_iff dest!: check_profile_okD)
  moreover have "i \<in> pp_profile_id ` set ps" if "active = Some i" for i
    using act that by (auto simp: list_all_iff)
  ultimately have "snapshot_ok s"
    using dist by (simp add: snapshot_ok_def s sets bnd)
      (simp add: sorted_profiles_def sorted_bindings_def distinct_sort_key_map)
  then show ?thesis by (simp add: s sorted_profiles_def sorted_bindings_def)
qed

lemma parse_body_ok:
  assumes "parse_snapshot_body br d = Inr s"
  shows "snapshot_ok s \<and> within_limits s"
proof -
  from assms obtain active pvs bvs ps bs where
    ps: "traverse (parse_profile br) pvs = Inr ps" and bs: "traverse (parse_binding br) bvs = Inr bs"
    and lim: "length pvs \<le> MAX_RECORDS" "length bvs \<le> MAX_RECORDS"
    and s: "assemble_snapshot br active ps bs = Inr s"
    by (auto simp: parse_snapshot_body_def ebind_eq_Inr_iff not_less)
  have "\<forall>p \<in> set ps. profile_typed p" "\<forall>b \<in> set bs. binding_typed b"
    using traverse_okD [OF ps] traverse_okD [OF bs] by (auto dest: parse_profile_typed parse_binding_typed)
  then have "snapshot_ok s \<and> length (snap_profiles s) = length ps \<and> length (snap_bindings s) = length bs"
    using s by (intro assemble_snapshot_ok)
  then show ?thesis
    using lim traverse_okD [OF ps] traverse_okD [OF bs] by (simp add: within_limits_def)
qed

lemma parse_snapshot_ok: "parse_snapshot br document = Inr s \<Longrightarrow> snapshot_ok s \<and> within_limits s"
  by (auto simp: parse_snapshot_def split: sum.splits if_splits dest: parse_body_ok)

lemma read_snapshot_ok:
  assumes "read_snapshot E d = Inr s"
  shows "snapshot_ok s \<and> within_limits s"
proof -
  have "snapshot_ok empty_snapshot \<and> within_limits empty_snapshot"
    by (simp add: snapshot_ok_def empty_snapshot_def within_limits_def)
  then show ?thesis
    using assms parse_snapshot_ok
    by (auto simp: read_snapshot_def ebind_eq_Inr_iff
        split: disk_file.splits option.splits json.splits if_splits)
qed

section \<open>Writes\<close>

definition stored :: "repo_env \<Rightarrow> disk \<Rightarrow> Snapshot \<Rightarrow> bool" where
  "stored E d s \<longleftrightarrow> metadata_file d =
     FileBytes (env_document_bytes E (JObject (snapshot_document s))) (Some (JObject (snapshot_document s)))"

definition document_fits :: "repo_env \<Rightarrow> Snapshot \<Rightarrow> bool" where
  "document_fits E s \<longleftrightarrow> within_limits s \<and>
     env_document_bytes E (JObject (snapshot_document s)) \<le> MAX_DOCUMENT_BYTES"

lemma current_schema: "equals_int 1 (map_of (snapshot_document s) ''schema_version'')"
  by (simp add: snapshot_document_def equals_int_def)

lemma stored_read:
  "stored E d s \<Longrightarrow> snapshot_ok s \<Longrightarrow> document_fits E s \<Longrightarrow> read_snapshot E d = Inr s"
  by (simp add: read_snapshot_def stored_def document_fits_def current_schema parse_document)

lemma stored_read_fits:
  assumes "stored E d s" "snapshot_ok s" "read_snapshot E d = Inr s'"
  shows "document_fits E s \<and> s' = s"
proof -
  have active: "\<And>i. snap_active s = Some i \<Longrightarrow> mk_ProfileId i = Inr i"
    using snapshot_okD(1,7) [OF assms(2)] by (auto simp: profile_ok_def profile_typed_def)
  have parsed: "parse_snapshot (env_bracket E) (snapshot_document s) = Inr s'"
    and small: "env_document_bytes E (JObject (snapshot_document s)) \<le> MAX_DOCUMENT_BYTES"
    using assms(1,3) by (auto simp: read_snapshot_def stored_def current_schema)
  have "within_limits s"
    using parsed document_too_many [of s "env_bracket E"] active by (cases "within_limits s") auto
  then show ?thesis using parsed small parse_document [OF assms(2)] by (simp add: document_fits_def)
qed

lemma stored_too_many:
  assumes "stored E d s" "snapshot_ok s" "\<not> within_limits s"
  shows "\<exists>m. read_snapshot E d = Inl (ProviderMetadataError MetadataCorrupted m)"
proof -
  have "\<And>i. snap_active s = Some i \<Longrightarrow> mk_ProfileId i = Inr i"
    using snapshot_okD(1,7) [OF assms(2)] by (auto simp: profile_ok_def profile_typed_def)
  then have "parse_snapshot (env_bracket E) (snapshot_document s) = Inl corrupted"
    by (intro document_too_many assms(3)) 
  then show ?thesis
    using assms(1) by (auto simp: read_snapshot_def stored_def current_schema corrupted_def raise_if_def)
qed

lemma write_snapshot_cases:
  assumes "write_snapshot E s d = (r, d')"
  shows "(r = Inr () \<and> stored E d' s) \<or>
    (\<exists>m. r = Inl (ProviderMetadataError MetadataWrite m) \<and> metadata_file d' = metadata_file d)"
  using assms by (auto simp: write_snapshot_def stored_def Let_def split: write_outcome.splits)

lemma same_file_same_read: "metadata_file d' = metadata_file d \<Longrightarrow> read_snapshot E d' = read_snapshot E d"
  by (simp add: read_snapshot_def)

section \<open>Lookups\<close>

lemma find_key_iff:
  "distinct (map f xs) \<Longrightarrow> List.find (\<lambda>x. f x = k) xs = Some v \<longleftrightarrow> v \<in> set xs \<and> f v = k"
proof (induction xs)
  case (Cons x xs)
  then show ?case by (auto simp: image_iff)
qed simp

lemma find_key_eqI:
  assumes "distinct (map f xs)" "distinct (map f ys)"
    and "\<And>v. f v = k \<Longrightarrow> v \<in> set xs \<longleftrightarrow> v \<in> set ys"
  shows "List.find (\<lambda>x. f x = k) xs = List.find (\<lambda>x. f x = k) ys"
proof (cases "List.find (\<lambda>x. f x = k) ys")
  case None
  then have "List.find (\<lambda>x. f x = k) xs = None" using assms(3) by (auto simp: find_None_iff)
  with None show ?thesis by simp
next
  case (Some v)
  then have "v \<in> set ys \<and> f v = k" using find_key_iff [OF assms(2)] by blast
  then have "List.find (\<lambda>x. f x = k) xs = Some v" using find_key_iff [OF assms(1)] assms(3) by blast
  with Some show ?thesis by simp
qed

lemma index_where_None: "index_where P xs = None \<longleftrightarrow> (\<forall>x \<in> set xs. \<not> P x)"
  unfolding index_where_def find_None_iff by (simp add: all_set_conv_all_nth)

lemma index_where_Some: "index_where P xs = Some i \<Longrightarrow> i < length xs \<and> P (xs ! i)"
  by (auto simp: index_where_def find_Some_iff)

lemma distinct_map_upd:
  "distinct (map f xs) \<Longrightarrow> i < length xs \<Longrightarrow> f x = f (xs ! i) \<Longrightarrow> map f (xs[i := x]) = map f xs"
  by (simp add: map_update list_update_same_conv)

lemma set_upd_key:
  "distinct (map f xs) \<Longrightarrow> i < length xs \<Longrightarrow> f x = f (xs ! i) \<Longrightarrow>
     set (xs[i := x]) = insert x {y \<in> set xs. f y \<noteq> f x}"
proof (induction xs arbitrary: i)
  case (Cons a xs)
  then show ?case by (cases i) (auto simp: image_iff)
qed simp

text \<open>What placing an entry does to a list with distinct keys, whichever branch is taken.\<close>

definition put_key :: "('v \<Rightarrow> 'k) \<Rightarrow> 'v \<Rightarrow> 'v set \<Rightarrow> 'v set" where
  "put_key f v vs = insert v {y \<in> vs. f y \<noteq> f v}"

lemma place_upd:
  assumes "distinct (map f xs)" "index_where (\<lambda>q. f q = f v) xs = Some i"
  shows "set (xs[i := v]) = put_key f v (set xs) \<and> distinct (map f (xs[i := v])) \<and>
         length (xs[i := v]) = length xs"
proof -
  have i: "i < length xs" "f v = f (xs ! i)" using index_where_Some [OF assms(2)] by auto
  have "distinct (map f (xs[i := v]))" using distinct_map_upd [OF assms(1) i] assms(1) by simp
  then show ?thesis using set_upd_key [OF assms(1) i] by (simp add: put_key_def)
qed

lemma place_new:
  assumes "distinct (map f xs)" "index_where (\<lambda>q. f q = f v) xs = None"
  shows "set (xs @ [v]) = put_key f v (set xs) \<and> distinct (map f (xs @ [v]))"
  using assms by (auto simp: index_where_None put_key_def)

lemma place_profile_ok:
  assumes "distinct (map pp_profile_id ps)" "place_profile p ps = Inr ps'"
  shows "set ps' = put_key pp_profile_id p (set ps) \<and> distinct (map pp_profile_id ps') \<and>
         (\<forall>q \<in> set ps. pp_profile_id q = pp_profile_id p \<longrightarrow> pp_provider_id q = pp_provider_id p)"
proof (cases "index_where (\<lambda>q. pp_profile_id q = pp_profile_id p) ps")
  case None
  with assms place_new [OF assms(1) None] show ?thesis
    by (auto simp: place_profile_def index_where_None)
next
  case (Some i)
  have uniq: "q = ps ! i" if "q \<in> set ps" "pp_profile_id q = pp_profile_id p" for q
    using index_where_Some [OF Some] that assms(1) by (auto simp: distinct_map inj_on_def)
  from assms Some place_upd [OF assms(1) Some] uniq show ?thesis
    by (auto simp: place_profile_def)
qed

lemma place_binding_ok:
  assumes "distinct (map cb_credential_id bs)" "place_binding b bs = Inr bs'"
  shows "set bs' = put_key cb_credential_id b (set bs) \<and> distinct (map cb_credential_id bs') \<and>
         (\<forall>q \<in> set bs. cb_credential_id q = cb_credential_id b \<longrightarrow> cb_provider_id q = cb_provider_id b)"
proof (cases "index_where (\<lambda>q. cb_credential_id q = cb_credential_id b) bs")
  case None
  with assms place_new [OF assms(1) None] show ?thesis
    by (auto simp: place_binding_def index_where_None)
next
  case (Some i)
  have uniq: "q = bs ! i" if "q \<in> set bs" "cb_credential_id q = cb_credential_id b" for q
    using index_where_Some [OF Some] that assms(1) by (auto simp: distinct_map inj_on_def)
  from assms Some place_upd [OF assms(1) Some] uniq show ?thesis
    by (auto simp: place_binding_def)
qed

lemma find_put_key:
  assumes "distinct (map f xs)" "distinct (map f ys)" "set ys = put_key f v (set xs)"
  shows "(\<lambda>k. List.find (\<lambda>x. f x = k) ys) = (\<lambda>k. List.find (\<lambda>x. f x = k) xs)(f v \<mapsto> v)"
proof
  fix k
  show "List.find (\<lambda>x. f x = k) ys = ((\<lambda>k. List.find (\<lambda>x. f x = k) xs)(f v \<mapsto> v)) k"
  proof (cases "k = f v")
    case True
    then have "List.find (\<lambda>x. f x = k) ys = Some v"
      using find_key_iff [OF assms(2), of k v] assms(3) by (simp add: put_key_def)
    then show ?thesis using True by simp
  next
    case False
    then show ?thesis
      using find_key_eqI [OF assms(2,1), of k] assms(3) by (auto simp: put_key_def)
  qed
qed

lemma find_filter_key:
  "(\<lambda>k. List.find (\<lambda>x. f x = k) (filter (\<lambda>x. f x \<noteq> i) xs)) = (\<lambda>k. List.find (\<lambda>x. f x = k) xs)(i := None)"
proof
  fix k
  show "List.find (\<lambda>x. f x = k) (filter (\<lambda>x. f x \<noteq> i) xs) = ((\<lambda>k. List.find (\<lambda>x. f x = k) xs)(i := None)) k"
    by (induction xs) auto
qed

section \<open>Every operation keeps the snapshot consistent\<close>

lemma snapshot_ok_save_profile:
  assumes ok: "snapshot_ok s" and p: "profile_ok p" "bound (snap_bindings s) p"
    and place: "place_profile p (snap_profiles s) = Inr ps'"
  shows "snapshot_ok (s\<lparr>snap_profiles := sorted_profiles ps'\<rparr>)"
proof -
  note ps' = place_profile_ok [OF snapshot_okD(3) [OF ok] place]
  have ids: "pp_profile_id ` set ps' = insert (pp_profile_id p) (pp_profile_id ` set (snap_profiles s))"
    using ps' by (auto simp: put_key_def image_iff)
  show ?thesis
    using ok p ps' ids
    by (auto simp: snapshot_ok_def sorted_profiles_def distinct_sort_key_map put_key_def)
qed

lemma snapshot_ok_delete_profile:
  assumes ok: "snapshot_ok s" and "snap_active s \<noteq> Some i"
  shows "snapshot_ok (s\<lparr>snap_profiles := filter (\<lambda>p. pp_profile_id p \<noteq> i) (snap_profiles s)\<rparr>)"
  using assms by (auto simp: snapshot_ok_def distinct_map_filter sorted_filter)

lemma snapshot_ok_set_active:
  assumes ok: "snapshot_ok s" and "find_profile i (snap_profiles s) = Some p"
  shows "snapshot_ok (s\<lparr>snap_active := Some i\<rparr>)"
  using assms by (auto simp: snapshot_ok_def find_profile_def find_Some_iff)

lemma snapshot_ok_save_binding:
  assumes ok: "snapshot_ok s" and b: "binding_ok b"
    and place: "place_binding b (snap_bindings s) = Inr bs'"
  shows "snapshot_ok (s\<lparr>snap_bindings := sorted_bindings bs'\<rparr>)"
proof -
  note bs' = place_binding_ok [OF snapshot_okD(5) [OF ok] place]
  have "bound (sorted_bindings bs') p" if bp: "bound (snap_bindings s) p" for p
    unfolding bound_def
  proof (intro allI impI)
    fix c assume "pp_credential_id p = Some c"
    then obtain x where x: "x \<in> set (snap_bindings s)" "cb_credential_id x = c"
      "cb_provider_id x = pp_provider_id p" using bp by (auto simp: bound_def)
    show "\<exists>y \<in> set (sorted_bindings bs'). cb_credential_id y = c \<and> cb_provider_id y = pp_provider_id p"
    proof (cases "cb_credential_id b = c")
      case True
      with x bs' show ?thesis
        by (intro bexI [of _ b]) (auto simp: sorted_bindings_def put_key_def)
    next
      case False
      with x bs' show ?thesis
        by (intro bexI [of _ x]) (auto simp: sorted_bindings_def put_key_def)
    qed
  qed
  then show ?thesis
    using ok b bs'
    by (auto simp: snapshot_ok_def sorted_bindings_def distinct_sort_key_map put_key_def)
qed

lemma snapshot_ok_delete_binding:
  assumes ok: "snapshot_ok s" and "\<not> list_ex (\<lambda>p. pp_credential_id p = Some c) (snap_profiles s)"
  shows "snapshot_ok (s\<lparr>snap_bindings := filter (\<lambda>b. cb_credential_id b \<noteq> c) (snap_bindings s)\<rparr>)"
proof -
  have "bound (filter (\<lambda>b. cb_credential_id b \<noteq> c) (snap_bindings s)) p"
    if "p \<in> set (snap_profiles s)" "bound (snap_bindings s) p" for p
    using that assms(2) by (fastforce simp: bound_def list_ex_iff)
  then show ?thesis using ok by (simp add: snapshot_ok_def distinct_map_filter sorted_filter)
qed

end
