(* ===== verification/Profile_Map.thy ===== *)
theory Profile_Map
  imports Profile_Store
begin

text \<open>
  The metadata store seen from outside: every mutation either commits one consistent snapshot or
  leaves the file as it was, and through the lookups the profiles and the credential bindings are
  two finite maps. The interface is the locale \<open>keyed_store\<close>, interpreted for both.
\<close>

section \<open>Mutations commit or leave the file alone\<close>

definition commits ::
    "repo_env \<Rightarrow> disk \<Rightarrow> unit res \<Rightarrow> disk \<Rightarrow> (Snapshot \<Rightarrow> Snapshot \<Rightarrow> bool) \<Rightarrow> bool" where
  "commits E d r d' P \<longleftrightarrow>
     (\<exists>s s'. r = Inr () \<and> read_snapshot E d = Inr s \<and> snapshot_ok s' \<and> stored E d' s' \<and> P s s') \<or>
     (\<exists>e. r = Inl e \<and> metadata_file d' = metadata_file d)"

lemma commits_Inl_same [simp]: "commits E d (Inl e) d P"
  by (simp add: commits_def)

lemma commits_write:
  "write_snapshot E s' d = (r, d') \<Longrightarrow> read_snapshot E d = Inr s \<Longrightarrow> snapshot_ok s' \<Longrightarrow> P s s' \<Longrightarrow>
     commits E d r d' P"
  by (auto simp: commits_def dest: write_snapshot_cases)

definition profile_map :: "Snapshot \<Rightarrow> ProfileId \<Rightarrow> ProviderProfile option" where
  "profile_map s = (\<lambda>i. find_profile i (snap_profiles s))"

definition binding_map :: "Snapshot \<Rightarrow> CredentialId \<Rightarrow> CredentialBinding option" where
  "binding_map s = (\<lambda>c. find_binding c (snap_bindings s))"

lemma profile_map_put:
  assumes "snapshot_ok s" "place_profile p (snap_profiles s) = Inr ps"
  shows "profile_map (s\<lparr>snap_profiles := sorted_profiles ps\<rparr>) = (profile_map s)(pp_profile_id p \<mapsto> p)"
  using find_put_key [of pp_profile_id "snap_profiles s" "sorted_profiles ps" p]
    place_profile_ok [OF snapshot_okD(3) [OF assms(1)] assms(2)] snapshot_okD(3) [OF assms(1)]
  by (simp add: profile_map_def find_profile_def sorted_profiles_def distinct_sort_key_map)

lemma binding_map_put:
  assumes "snapshot_ok s" "place_binding b (snap_bindings s) = Inr bs"
  shows "binding_map (s\<lparr>snap_bindings := sorted_bindings bs\<rparr>) = (binding_map s)(cb_credential_id b \<mapsto> b)"
  using find_put_key [of cb_credential_id "snap_bindings s" "sorted_bindings bs" b]
    place_binding_ok [OF snapshot_okD(5) [OF assms(1)] assms(2)] snapshot_okD(5) [OF assms(1)]
  by (simp add: binding_map_def find_binding_def sorted_bindings_def distinct_sort_key_map)

lemma maps_other [simp]:
  "profile_map (s\<lparr>snap_bindings := bs\<rparr>) = profile_map s"
  "profile_map (s\<lparr>snap_active := a\<rparr>) = profile_map s"
  "binding_map (s\<lparr>snap_profiles := ps\<rparr>) = binding_map s"
  "binding_map (s\<lparr>snap_active := a\<rparr>) = binding_map s"
  by (simp_all add: profile_map_def binding_map_def)

lemma as_conflict_ok [simp]: "as_conflict m r = Inr u \<longleftrightarrow> r = Inr ()"
  by (auto simp: as_conflict_def split: sum.splits if_splits)

lemma save_guard_ok:
  "ebind (validate_supported_profile br p) (\<lambda>_.
     reject_sensitive_metadata [pp_display_name p, pp_model p]) = Inr v \<Longrightarrow> profile_typed p \<Longrightarrow> profile_ok p"
  by (auto simp: ebind_eq_Inr_iff validate_supported_profile_iff reject_sensitive_metadata_def profile_ok_def)

lemma save_profile_commits:
  assumes "save_profile E p d = (r, d')" "profile_typed p"
  shows "commits E d r d' (\<lambda>s s'. profile_map s' = (profile_map s)(pp_profile_id p \<mapsto> p) \<and>
    binding_map s' = binding_map s \<and> snap_active s' = snap_active s)"
  using assms
  by (auto simp: save_profile_def with_res_eq_iff split: if_splits
      elim!: commits_write intro!: snapshot_ok_save_profile profile_map_put binding_for_profile_bound
      dest: read_snapshot_ok save_guard_ok)

lemma delete_profile_commits:
  assumes "delete_profile E i d = (r, d')"
  shows "commits E d r d' (\<lambda>s s'. profile_map s' = (profile_map s)(i := None) \<and>
    binding_map s' = binding_map s \<and> snap_active s' = snap_active s \<and> snap_active s \<noteq> Some i)"
  using assms find_filter_key [of pp_profile_id]
  by (auto simp: delete_profile_def with_res_eq_iff Let_def profile_map_def find_profile_def
      split: if_splits elim!: commits_write intro!: snapshot_ok_delete_profile dest: read_snapshot_ok)

lemma set_active_commits:
  assumes "set_active_profile_id E i d = (r, d')"
  shows "commits E d r d' (\<lambda>s s'. profile_map s' = profile_map s \<and> binding_map s' = binding_map s \<and>
    snap_active s' = Some i \<and> profile_map s i \<noteq> None)"
  using assms
  by (auto simp: set_active_profile_id_def with_res_eq_iff profile_map_def binding_map_def
      split: if_splits option.splits elim!: commits_write intro!: snapshot_ok_set_active dest: read_snapshot_ok)

lemma save_binding_commits:
  assumes "save_credential_binding E b d = (r, d')" "binding_typed b"
  shows "commits E d r d' (\<lambda>s s'. binding_map s' = (binding_map s)(cb_credential_id b \<mapsto> b) \<and>
    profile_map s' = profile_map s \<and> snap_active s' = snap_active s)"
  using assms
  by (auto simp: save_credential_binding_def with_res_eq_iff check_binding_ok_iff binding_ok_def
      elim!: commits_write intro!: snapshot_ok_save_binding binding_map_put dest: read_snapshot_ok)

lemma delete_binding_commits:
  assumes "delete_credential_binding E c d = (r, d')"
  shows "commits E d r d' (\<lambda>s s'. binding_map s' = (binding_map s)(c := None) \<and>
    profile_map s' = profile_map s \<and> snap_active s' = snap_active s)"
  using assms find_filter_key [of cb_credential_id]
  by (auto simp: delete_credential_binding_def with_res_eq_iff Let_def binding_map_def find_binding_def
      profile_map_def split: if_splits elim!: commits_write intro!: snapshot_ok_delete_binding dest: read_snapshot_ok)

section \<open>The interface of a keyed store\<close>

text \<open>
  A store whose entries carry their key. A successful mutation of a readable store that leaves it
  readable updates the lookup at one key; a mutation that raises changes no lookup.
\<close>

datatype ('k, 'v) store_op = Put 'v | Remove 'k

locale keyed_store =
  fixes readable :: "'d \<Rightarrow> bool"
    and lookup :: "'d \<Rightarrow> 'k \<Rightarrow> 'v option"
    and key :: "'v \<Rightarrow> 'k"
    and typed :: "'v \<Rightarrow> bool"
    and put :: "'v \<Rightarrow> 'd \<Rightarrow> unit res \<times> 'd"
    and remove :: "'k \<Rightarrow> 'd \<Rightarrow> unit res \<times> 'd"
  assumes put_ok: "readable d \<Longrightarrow> typed v \<Longrightarrow> put v d = (Inr (), d') \<Longrightarrow> readable d' \<Longrightarrow>
      lookup d' = (lookup d)(key v \<mapsto> v)"
    and remove_ok: "readable d \<Longrightarrow> remove k d = (Inr (), d') \<Longrightarrow> readable d' \<Longrightarrow>
      lookup d' = (lookup d)(k := None)"
    and put_raises: "typed v \<Longrightarrow> put v d = (Inl e, d') \<Longrightarrow> lookup d' = lookup d \<and> (readable d' \<longleftrightarrow> readable d)"
    and remove_raises: "remove k d = (Inl e, d') \<Longrightarrow> lookup d' = lookup d \<and> (readable d' \<longleftrightarrow> readable d)"
begin

fun apply_op :: "('k, 'v) store_op \<Rightarrow> 'd \<Rightarrow> unit res \<times> 'd" where
  "apply_op (Put v) d = put v d"
| "apply_op (Remove k) d = remove k d"

fun op_typed :: "('k, 'v) store_op \<Rightarrow> bool" where
  "op_typed (Put v) = typed v"
| "op_typed (Remove k) = True"

fun map_op :: "('k, 'v) store_op \<Rightarrow> ('k \<Rightarrow> 'v option) \<Rightarrow> ('k \<Rightarrow> 'v option)" where
  "map_op (Put v) m = m(key v \<mapsto> v)"
| "map_op (Remove k) m = m(k := None)"

text \<open>A history of calls: each call, whether it returned, and the store after it.\<close>

fun history :: "'d \<Rightarrow> (('k, 'v) store_op \<times> bool \<times> 'd) list \<Rightarrow> bool" where
  "history d [] \<longleftrightarrow> True"
| "history d ((oper, returned, d') # h) \<longleftrightarrow>
     op_typed oper \<and> (\<exists>r. apply_op oper d = (r, d') \<and> returned = is_ok r) \<and> readable d' \<and> history d' h"

definition last_store :: "'d \<Rightarrow> (('k, 'v) store_op \<times> bool \<times> 'd) list \<Rightarrow> 'd" where
  "last_store d h = (if h = [] then d else snd (snd (last h)))"

definition returned_ops :: "(('k, 'v) store_op \<times> bool \<times> 'd) list \<Rightarrow> ('k, 'v) store_op list" where
  "returned_ops h = map fst (filter (fst \<circ> snd) h)"

lemma apply_op_refines:
  assumes "readable d" "op_typed oper" "apply_op oper d = (r, d')" "readable d'"
  shows "lookup d' = (if is_ok r then map_op oper (lookup d) else lookup d)"
  using assms put_ok remove_ok put_raises remove_raises
  by (cases oper; cases r) simp_all

lemma history_refines:
  "readable d \<Longrightarrow> history d h \<Longrightarrow>
     lookup (last_store d h) = fold map_op (returned_ops h) (lookup d)"
proof (induction d h rule: history.induct)
  case (2 d oper returned d' h)
  then obtain r where r: "apply_op oper d = (r, d')" "returned = is_ok r" "op_typed oper" "readable d'"
    by auto
  have step: "lookup d' = (if returned then map_op oper (lookup d) else lookup d)"
    using apply_op_refines [OF 2(2) r(3,1,4)] r(2) by simp
  have "last_store d ((oper, returned, d') # h) = last_store d' h"
    by (simp add: last_store_def)
  moreover have "lookup (last_store d' h) = fold map_op (returned_ops h) (lookup d')"
    using 2 r by simp
  ultimately show ?case using step by (simp add: returned_ops_def)
qed (simp add: last_store_def returned_ops_def)

end

definition repo_readable :: "repo_env \<Rightarrow> disk \<Rightarrow> bool" where
  "repo_readable E d \<longleftrightarrow> is_ok (read_snapshot E d)"

definition snapshot_view :: "repo_env \<Rightarrow> disk \<Rightarrow> Snapshot" where
  "snapshot_view E d = (case read_snapshot E d of Inr s \<Rightarrow> s | Inl _ \<Rightarrow> empty_snapshot)"

lemma commits_view:
  assumes "commits E d (Inr ()) d' P" "repo_readable E d'"
  shows "P (snapshot_view E d) (snapshot_view E d')"
  using assms stored_read_fits
  by (fastforce simp: commits_def repo_readable_def is_ok_iff snapshot_view_def)

lemma commits_raises:
  assumes "commits E d (Inl e) d' P"
  shows "snapshot_view E d' = snapshot_view E d \<and> (repo_readable E d' \<longleftrightarrow> repo_readable E d)"
  using assms same_file_same_read [of d' d E] by (simp add: commits_def snapshot_view_def repo_readable_def)

interpretation profiles: keyed_store "repo_readable E" "\<lambda>d. profile_map (snapshot_view E d)"
  pp_profile_id profile_typed "save_profile E" "delete_profile E" for E
  by unfold_locales
    (auto dest!: save_profile_commits delete_profile_commits dest: commits_view commits_raises)

interpretation bindings: keyed_store "repo_readable E" "\<lambda>d. binding_map (snapshot_view E d)"
  cb_credential_id binding_typed "save_credential_binding E" "delete_credential_binding E" for E
  by unfold_locales
    (auto dest!: save_binding_commits delete_binding_commits dest: commits_view commits_raises)

lemma get_profile_view:
  "repo_readable E d \<Longrightarrow> get_profile E i d = Inr (profile_map (snapshot_view E d) i)"
  by (auto simp: repo_readable_def is_ok_iff get_profile_def snapshot_view_def profile_map_def)

lemma get_binding_view:
  "repo_readable E d \<Longrightarrow> get_credential_binding E c d = Inr (binding_map (snapshot_view E d) c)"
  by (auto simp: repo_readable_def is_ok_iff get_credential_binding_def snapshot_view_def binding_map_def)

end
