(* ===== verification/Provider_Service.thy ===== *)
theory Provider_Service
  imports Profile_Map
begin

text \<open>
  \<^verbatim>\<open>application/system/provider_profile_service.py\<close>: the managed provider handle, and the service that
  owns provider metadata and the one running provider.

  What the service only receives is a parameter (\<open>service_env\<close>): the factory that builds a provider
  adapter from the bindings and a profile, the adapter's name and protocol, and whether a turn
  coordinator was given. An adapter is a value of an arbitrary type \<open>'p\<close>. A managed provider is an
  object with one mutable flag that others keep references to, so the flags live in a store indexed
  by the object's identity, and \<^verbatim>\<open>id(provider)\<close> is that identity.

  Every \<^verbatim>\<open>await\<close> can return, raise, or be cancelled. The outcomes of the coming \<^verbatim>\<open>aclose()\<close> calls are a
  list in the state; the outcome of quiescing the active turn is an argument of the activation, and
  so is what other tasks do to the metadata file while the activation waits for it. The service's
  own fields cannot change meanwhile: every other operation that writes them needs the switch lock,
  or refuses while the lifecycle is \<open>SWITCHING\<close>. \<open>sv_closed_ids\<close> records the adapters whose
  \<^verbatim>\<open>aclose()\<close> returned.
\<close>

section \<open>Data\<close>

datatype ActiveTurnHandling = CANCEL_ACTIVE | WAIT_FOR_ACTIVE

datatype ProviderLifecycleState = INACTIVE | ACTIVE | SWITCHING | CLEANUP_PENDING | CLOSED

record ProviderActivationOptions =
  opt_timeout_seconds :: real
  opt_max_retries :: int
  opt_stream :: bool

definition mk_ProviderActivationOptions ::
    "pyfloat \<Rightarrow> int \<Rightarrow> bool \<Rightarrow> ProviderActivationOptions res" where
  "mk_ProviderActivationOptions secs retries stream =
    raise_if (\<not> isfinite secs \<or> float_value secs \<le> 0)
      (ValueError ''timeout_seconds must be a finite positive number'')
    (raise_if (retries < 0) (ValueError ''max_retries must be a non-negative integer'')
    (Inr \<lparr>opt_timeout_seconds = float_value secs, opt_max_retries = retries, opt_stream = stream\<rparr>))"

record 'p ManagedProvider =
  mp_id :: token
  mp_delegate :: 'p
  mp_profile_id :: ProfileId
  mp_expected_provider_name :: string

datatype await_outcome = AwaitReturns | AwaitRaises | AwaitCancelled

record 'p service_env =
  se_repo :: repo_env
  se_factory :: "CredentialBinding list \<Rightarrow> ProviderProfile \<Rightarrow> ProviderActivationOptions \<Rightarrow> 'p option res"
  se_name :: "'p \<Rightarrow> string res"
  se_protocol :: "'p \<Rightarrow> ApiProtocol res"
  se_has_coordinator :: bool

record 'p service =
  sv_disk :: disk
  sv_active :: "'p ManagedProvider option"
  sv_runtime_profile_id :: "ProfileId option"
  sv_runtime_snapshot :: "ProviderProfile option"
  sv_options :: "ProviderActivationOptions option"
  sv_retiring :: "(token \<times> 'p ManagedProvider) list"
  sv_candidates :: "(token \<times> 'p ManagedProvider) list"
  sv_lifecycle :: ProviderLifecycleState
  sv_closed :: bool
  sv_accepting :: "token \<Rightarrow> bool"
  sv_next_id :: token
  sv_coming_closes :: "await_outcome list"
  sv_closed_ids :: "token list"

definition new_service :: "disk \<Rightarrow> await_outcome list \<Rightarrow> 'p service" where
  "new_service d closes =
    \<lparr>sv_disk = d, sv_active = None, sv_runtime_profile_id = None, sv_runtime_snapshot = None,
     sv_options = None, sv_retiring = [], sv_candidates = [],
     sv_lifecycle = ProviderLifecycleState.INACTIVE, sv_closed = False, sv_accepting = (\<lambda>_. False),
     sv_next_id = 0, sv_coming_closes = closes, sv_closed_ids = []\<rparr>"

section \<open>The managed provider\<close>

text \<open>What the adapter's stream yields, how it ends, and how closing it ends.\<close>

record 'j delegate_stream =
  ds_events :: "'j LLMEvent list"
  ds_end :: "unit res"
  ds_close :: "unit res"

abbreviation mismatch_event :: "string \<Rightarrow> 'j LLMEvent" where
  "mismatch_event m \<equiv> (llm_event LLMEventType.ERROR)
     \<lparr>le_error_code := ''provider_continuation_mismatch'', le_error_message := m\<rparr>"

definition returned_mismatch :: "ProfileId \<Rightarrow> string \<Rightarrow> ProviderContinuation \<Rightarrow> bool" where
  "returned_mismatch profile expected c \<longleftrightarrow>
     provider_name c \<noteq> expected \<or> (cont_profile_id c \<noteq> None \<and> cont_profile_id c \<noteq> Some profile)"

fun managed_events ::
    "ProfileId \<Rightarrow> string \<Rightarrow> 'j LLMEvent list \<Rightarrow> unit res \<Rightarrow> 'j LLMEvent list \<times> unit res" where
  "managed_events profile expected [] ending = ([], ending)"
| "managed_events profile expected (ev # evs) ending =
    (let (rest, fin) = managed_events profile expected evs ending in
     case le_continuation ev of
       None \<Rightarrow> (ev # rest, fin)
     | Some c \<Rightarrow>
         if le_type ev \<noteq> LLMEventType.COMPLETED then (ev # rest, fin)
         else if returned_mismatch profile expected c
         then ([mismatch_event ''The Provider returned continuation state for a different profile.''], Inr ())
         else if cont_profile_id c = None
         then (ev\<lparr>le_continuation := Some (c\<lparr>cont_profile_id := Some profile\<rparr>)\<rparr> # rest, fin)
         else (ev # rest, fin))"

definition request_mismatch :: "ProfileId \<Rightarrow> string \<Rightarrow> ProviderContinuation option \<Rightarrow> bool" where
  "request_mismatch profile expected continuation \<longleftrightarrow>
    (case continuation of
       None \<Rightarrow> False
     | Some c \<Rightarrow> cont_profile_id c \<noteq> Some profile \<or> provider_name c \<noteq> expected)"

text \<open>
  The events a consumer reads, how the stream ends for it, and whether the adapter was asked.
\<close>

definition generate_stream ::
    "bool \<Rightarrow> 'p ManagedProvider \<Rightarrow> 'j LLMRequest \<Rightarrow> ('p \<Rightarrow> 'j LLMRequest \<Rightarrow> 'j delegate_stream)
      \<Rightarrow> 'j LLMEvent list \<times> unit res \<times> bool" where
  "generate_stream accepting mp request delegate =
    (if \<not> accepting
     then ([(llm_event LLMEventType.ERROR)\<lparr>le_error_code := ''provider_switching'',
              le_error_message := ''The Provider is not accepting new requests.''\<rparr>], Inr (), False)
     else if request_mismatch (mp_profile_id mp) (mp_expected_provider_name mp) (req_continuation request)
     then ([mismatch_event ''The continuation does not belong to the active profile.''], Inr (), False)
     else let stream = delegate (mp_delegate mp) request;
              (evs, fin) = managed_events (mp_profile_id mp) (mp_expected_provider_name mp)
                             (ds_events stream) (ds_end stream)
          in (evs, (case ds_close stream of Inl e \<Rightarrow> Inl e | Inr _ \<Rightarrow> fin), True))"

definition managed_embed :: "bool \<Rightarrow> 'e res \<Rightarrow> 'e res" where
  "managed_embed accepting delegate =
    raise_if (\<not> accepting) (ProviderProfileServiceError ''The Provider is not accepting new requests.'')
    delegate"

definition managed_revoke :: "'p ManagedProvider \<Rightarrow> 'p service \<Rightarrow> 'p service" where
  "managed_revoke mp s = s\<lparr>sv_accepting := (sv_accepting s)(mp_id mp := False)\<rparr>"

definition managed_resume :: "'p ManagedProvider \<Rightarrow> 'p service \<Rightarrow> 'p service" where
  "managed_resume mp s = s\<lparr>sv_accepting := (sv_accepting s)(mp_id mp := True)\<rparr>"

definition next_close :: "'p service \<Rightarrow> await_outcome" where
  "next_close s = (case sv_coming_closes s of [] \<Rightarrow> AwaitReturns | c # _ \<Rightarrow> c)"

definition managed_aclose :: "'p ManagedProvider \<Rightarrow> 'p service \<Rightarrow> await_outcome \<times> 'p service" where
  "managed_aclose mp s =
    (let s1 = (managed_revoke mp s)\<lparr>sv_coming_closes := tl (sv_coming_closes s)\<rparr>;
         c = next_close s
     in (c, if c = AwaitReturns then s1\<lparr>sv_closed_ids := sv_closed_ids s1 @ [mp_id mp]\<rparr> else s1))"

section \<open>Cleanup\<close>

datatype pool = Retiring | Candidates

fun pool_of :: "pool \<Rightarrow> 'p service \<Rightarrow> (token \<times> 'p ManagedProvider) list" where
  "pool_of Retiring s = sv_retiring s"
| "pool_of Candidates s = sv_candidates s"

fun set_pool :: "pool \<Rightarrow> (token \<times> 'p ManagedProvider) list \<Rightarrow> 'p service \<Rightarrow> 'p service" where
  "set_pool Retiring d s = s\<lparr>sv_retiring := d\<rparr>"
| "set_pool Candidates d s = s\<lparr>sv_candidates := d\<rparr>"

definition track :: "pool \<Rightarrow> 'p ManagedProvider \<Rightarrow> 'p service \<Rightarrow> 'p service" where
  "track k mp s = set_pool k (dict_set (mp_id mp) mp (pool_of k s)) s"

definition untrack :: "pool \<Rightarrow> 'p ManagedProvider \<Rightarrow> 'p service \<Rightarrow> 'p service" where
  "untrack k mp s = set_pool k (filter (\<lambda>e. fst e \<noteq> mp_id mp) (pool_of k s)) s"

definition clear_runtime :: "'p service \<Rightarrow> 'p service" where
  "clear_runtime s = s\<lparr>sv_active := None, sv_runtime_profile_id := None, sv_runtime_snapshot := None,
     sv_options := None\<rparr>"

definition has_pending_cleanup :: "'p service \<Rightarrow> bool" where
  "has_pending_cleanup s \<longleftrightarrow> sv_retiring s \<noteq> [] \<or> sv_candidates s \<noteq> []"

definition set_lifecycle :: "ProviderLifecycleState \<Rightarrow> 'p service \<Rightarrow> 'p service" where
  "set_lifecycle l s = s\<lparr>sv_lifecycle := l\<rparr>"

definition close_tracked_provider :: "'p ManagedProvider \<Rightarrow> pool \<Rightarrow> 'p service \<Rightarrow> (bool, 'p service) sres" where
  "close_tracked_provider mp k s =
    (case managed_aclose mp s of
       (AwaitReturns, s1) \<Rightarrow> (Inr True, untrack k mp s1)
     | (AwaitRaises, s1) \<Rightarrow> (Inr False, s1)
     | (AwaitCancelled, s1) \<Rightarrow>
         (Inl CancelledError, set_lifecycle ProviderLifecycleState.CLEANUP_PENDING s1))"

fun close_all :: "'p ManagedProvider list \<Rightarrow> pool \<Rightarrow> bool \<Rightarrow> 'p service \<Rightarrow> (bool, 'p service) sres" where
  "close_all [] k failed s = (Inr failed, s)"
| "close_all (mp # mps) k failed s =
    sbind (close_tracked_provider mp k s) (\<lambda>closed s1. close_all mps k (failed \<or> \<not> closed) s1)"

definition retry_pending_cleanup :: "'p service \<Rightarrow> (unit, 'p service) sres" where
  "retry_pending_cleanup s =
    (if \<not> has_pending_cleanup s then (Inr (), s)
     else let s1 = set_lifecycle ProviderLifecycleState.SWITCHING s in
          sbind (close_all (map snd (sv_retiring s1)) Retiring False s1) (\<lambda>failed s2.
          sbind (close_all (map snd (sv_candidates s2)) Candidates failed s2) (\<lambda>failed s3.
          if failed
          then (Inl (ProviderProfileServiceError ''Pending Provider cleanup could not be completed safely.''),
                set_lifecycle ProviderLifecycleState.CLEANUP_PENDING s3)
          else (Inr (), set_lifecycle (if sv_closed s3 then ProviderLifecycleState.CLOSED
                                       else ProviderLifecycleState.INACTIVE) s3))))"

section \<open>Activation\<close>

definition validate_continuation :: "'p service \<Rightarrow> ProfileId \<Rightarrow> ProviderContinuation \<Rightarrow> unit res" where
  "validate_continuation s profile_id c =
    raise_if (case sv_runtime_snapshot s of
                None \<Rightarrow> True
              | Some profile \<Rightarrow>
                  pp_profile_id profile \<noteq> profile_id \<or> sv_runtime_profile_id s \<noteq> Some profile_id
                  \<or> sv_active s = None \<or> cont_profile_id c \<noteq> Some profile_id
                  \<or> provider_name c \<noteq> pp_provider_id profile)
      (ProviderProfileServiceError ''The continuation does not belong to the active profile.'')
    (Inr ())"

record switching =
  sw_coordination :: await_outcome
  sw_interference :: "disk \<Rightarrow> disk"

definition publish ::
    "'p ManagedProvider \<Rightarrow> ProfileId \<Rightarrow> ProviderProfile \<Rightarrow> ProviderActivationOptions \<Rightarrow> 'p service \<Rightarrow> 'p service" where
  "publish mp profile_id profile options s =
    s\<lparr>sv_active := Some mp, sv_runtime_profile_id := Some profile_id,
      sv_runtime_snapshot := Some profile, sv_options := Some options,
      sv_lifecycle := ProviderLifecycleState.ACTIVE\<rparr>"

definition begin_switch :: "'p ManagedProvider \<Rightarrow> 'p service \<Rightarrow> 'p service" where
  "begin_switch old s =
    track Retiring old (clear_runtime (managed_revoke old (set_lifecycle ProviderLifecycleState.SWITCHING s)))"

definition restore_old ::
    "'p ManagedProvider \<Rightarrow> ProfileId \<Rightarrow> ProviderProfile \<Rightarrow> ProviderActivationOptions \<Rightarrow> 'p service \<Rightarrow> 'p service" where
  "restore_old old profile_id profile options s =
    publish old profile_id profile options (managed_resume old (untrack Retiring old s))"

definition interfere :: "(disk \<Rightarrow> disk) \<Rightarrow> 'p service \<Rightarrow> 'p service" where
  "interfere f s = s\<lparr>sv_disk := f (sv_disk s)\<rparr>"

text \<open>What the switch needs of the old activation; without all of it the switch is refused.\<close>

definition old_activation ::
    "'p service_env \<Rightarrow> ActiveTurnHandling option \<Rightarrow> 'p service
      \<Rightarrow> (ProfileId \<times> ProviderProfile \<times> ProviderActivationOptions) option" where
  "old_activation SE handling s =
    (if handling = None \<or> \<not> se_has_coordinator SE then None
     else case sv_runtime_profile_id s of
            None \<Rightarrow> None
          | Some i \<Rightarrow> (case sv_runtime_snapshot s of
              None \<Rightarrow> None
            | Some p \<Rightarrow> (case sv_options s of None \<Rightarrow> None | Some opts \<Rightarrow> Some (i, p, opts))))"

definition retire_active ::
    "'p service_env \<Rightarrow> ActiveTurnHandling option \<Rightarrow> switching \<Rightarrow> 'p service \<Rightarrow> (unit, 'p service) sres" where
  "retire_active SE handling sw s =
    (case sv_active s of
       None \<Rightarrow> (Inr (), set_lifecycle ProviderLifecycleState.SWITCHING s)
     | Some old \<Rightarrow>
         (case old_activation SE handling s of
            None \<Rightarrow> (Inl (ProviderProfileServiceError
                      ''Provider switching requires an explicit turn policy.''), s)
          | Some (old_id, old_profile, old_options) \<Rightarrow>
              let s1 = interfere (sw_interference sw) (begin_switch old s);
                  restored = restore_old old old_id old_profile old_options s1
              in (case sw_coordination sw of
                    AwaitCancelled \<Rightarrow> (Inl CancelledError, restored)
                  | AwaitRaises \<Rightarrow>
                      (Inl (ProviderProfileServiceError
                        ''The active Agent turn could not be quiesced safely.''), restored)
                  | AwaitReturns \<Rightarrow>
                      sbind (close_tracked_provider old Retiring s1) (\<lambda>closed s2.
                      if closed then (Inr (), s2)
                      else (Inl (ProviderProfileServiceError
                              ''The previous Provider could not be closed safely.''),
                            set_lifecycle ProviderLifecycleState.CLEANUP_PENDING s2)))))"

definition discard_candidate ::
    "'p ManagedProvider \<Rightarrow> string \<Rightarrow> string \<Rightarrow> 'p service \<Rightarrow> ('p ManagedProvider, 'p service) sres" where
  "discard_candidate mp not_closed discarded s =
    sbind (close_tracked_provider mp Candidates (track Candidates mp s)) (\<lambda>closed s1.
    if closed
    then (Inl (ProviderProfileServiceError discarded), set_lifecycle ProviderLifecycleState.INACTIVE s1)
    else (Inl (ProviderProfileServiceError not_closed),
          set_lifecycle ProviderLifecycleState.CLEANUP_PENDING s1))"

definition identity_failed :: "'p service_env \<Rightarrow> 'p \<Rightarrow> ProviderProfile \<Rightarrow> bool" where
  "identity_failed SE delegate profile \<longleftrightarrow>
    (case se_name SE delegate of
       Inl _ \<Rightarrow> True
     | Inr n \<Rightarrow> n \<noteq> pp_provider_id profile \<or>
         (case se_protocol SE delegate of Inl _ \<Rightarrow> True | Inr pr \<Rightarrow> pr \<noteq> pp_protocol profile))"

definition wrap_delegate ::
    "'p \<Rightarrow> ProfileId \<Rightarrow> ProviderProfile \<Rightarrow> 'p service \<Rightarrow> 'p ManagedProvider \<times> 'p service" where
  "wrap_delegate delegate profile_id profile s =
    (let mp = \<lparr>mp_id = sv_next_id s, mp_delegate = delegate, mp_profile_id = profile_id,
               mp_expected_provider_name = pp_provider_id profile\<rparr>
     in (mp, managed_resume mp (s\<lparr>sv_next_id := sv_next_id s + 1\<rparr>)))"

definition construct_provider ::
    "'p service_env \<Rightarrow> ProfileId \<Rightarrow> ProviderProfile \<Rightarrow> ProviderActivationOptions \<Rightarrow> 'p service
      \<Rightarrow> ('p ManagedProvider, 'p service) sres" where
  "construct_provider SE profile_id profile options s =
    (case ebind (list_credential_bindings (se_repo SE) (sv_disk s)) (\<lambda>bs. se_factory SE bs profile options) of
       Inr (Some delegate) \<Rightarrow>
         (case wrap_delegate delegate profile_id profile s of
            (mp, s1) \<Rightarrow>
            if identity_failed SE delegate profile
            then discard_candidate mp ''The invalid candidate Provider could not be closed safely.''
                   ''The selected Provider identity does not match the active profile.'' s1
            else case set_active_profile_id (se_repo SE) profile_id (sv_disk s1) of
                   (Inl _, d) \<Rightarrow>
                     discard_candidate mp
                       ''The candidate Provider could not be closed after active profile persistence failed.''
                       ''The active profile could not be persisted safely.'' (s1\<lparr>sv_disk := d\<rparr>)
                 | (Inr _, d) \<Rightarrow>
                     (Inr mp, publish mp profile_id profile options (s1\<lparr>sv_disk := d\<rparr>)))
     | _ \<Rightarrow> (Inl (ProviderProfileServiceError ''The selected Provider could not be constructed safely.''),
             set_lifecycle ProviderLifecycleState.INACTIVE s))"

definition activate_profile ::
    "'p service_env \<Rightarrow> ProfileId \<Rightarrow> ProviderActivationOptions \<Rightarrow> ActiveTurnHandling option
      \<Rightarrow> ProviderContinuation option \<Rightarrow> switching \<Rightarrow> 'p service \<Rightarrow> ('p ManagedProvider, 'p service) sres" where
  "activate_profile SE profile_id options handling continuation sw s0 =
    sbind (retry_pending_cleanup s0) (\<lambda>_ s.
    with_res (raise_if (sv_closed s)
        (ProviderProfileServiceError ''The Provider profile service is closed.'') (Inr ())) s (\<lambda>_.
    with_res (get_profile (se_repo SE) profile_id (sv_disk s)) s (\<lambda>found.
    case found of
      None \<Rightarrow> (Inl (ProviderProfileServiceError ''The provider profile does not exist.''), s)
    | Some profile \<Rightarrow>
        with_res (case continuation of None \<Rightarrow> Inr () | Some c \<Rightarrow> validate_continuation s profile_id c) s (\<lambda>_.
        case sv_active s of
          Some active \<Rightarrow>
            if sv_runtime_profile_id s = Some profile_id
            then (if sv_runtime_snapshot s = Some profile \<and> sv_options s = Some options
                  then (Inr active, s)
                  else (Inl (ProviderProfileServiceError
                          ''The active profile or activation options changed; switch or stop it before rebuilding.''), s))
            else sbind (retire_active SE handling sw s) (\<lambda>_ s1.
                 construct_provider SE profile_id profile options s1)
        | None \<Rightarrow>
            sbind (retire_active SE handling sw s) (\<lambda>_ s1.
            construct_provider SE profile_id profile options s1)))))"

definition service_aclose :: "'p service \<Rightarrow> (unit, 'p service) sres" where
  "service_aclose s =
    (let s1 = s\<lparr>sv_closed := True\<rparr>;
         s2 = (case sv_active s1 of None \<Rightarrow> s1 | Some mp \<Rightarrow> track Retiring mp (managed_revoke mp s1));
         s3 = clear_runtime s2
     in sbind (retry_pending_cleanup s3) (\<lambda>_ s4.
        (Inr (), set_lifecycle ProviderLifecycleState.CLOSED s4)))"

section \<open>Metadata operations\<close>

fun metadata_error :: "py_error \<Rightarrow> bool" where
  "metadata_error (ProviderMetadataError _ _) = True"
| "metadata_error _ = False"

fun policy_or_metadata_error :: "py_error \<Rightarrow> bool" where
  "policy_or_metadata_error (ProviderMetadataError _ _) = True"
| "policy_or_metadata_error (ProviderProfilePolicyError _) = True"
| "policy_or_metadata_error _ = False"

text \<open>\<^verbatim>\<open>except (...): raise e from None\<close> around a body.\<close>

definition translate :: "(py_error \<Rightarrow> bool) \<Rightarrow> py_error \<Rightarrow> ('a, 's) sres \<Rightarrow> ('a, 's) sres" where
  "translate caught e r =
    (case r of (Inl x, s) \<Rightarrow> (Inl (if caught x then e else x), s) | (Inr v, s) \<Rightarrow> (Inr v, s))"

definition on_disk :: "(disk \<Rightarrow> ('a, disk) sres) \<Rightarrow> 'p service \<Rightarrow> ('a, 'p service) sres" where
  "on_disk f s = (case f (sv_disk s) of (r, d) \<Rightarrow> (r, s\<lparr>sv_disk := d\<rparr>))"

fun ensure_bindings :: "repo_env \<Rightarrow> CredentialBinding list \<Rightarrow> disk \<Rightarrow> (unit, disk) sres" where
  "ensure_bindings E [] d = (Inr (), d)"
| "ensure_bindings E (b # bs) d =
    with_res (get_credential_binding E (cb_credential_id b) d) d (\<lambda>existing.
    case existing of
      None \<Rightarrow> sbind (save_credential_binding E b d) (\<lambda>_ d1. ensure_bindings E bs d1)
    | Some x \<Rightarrow>
        if cb_provider_id x \<noteq> cb_provider_id b \<or> cb_allowed_origin x \<noteq> cb_allowed_origin b
        then (Inl (ProviderProfileServiceError ''A built-in credential binding conflicts with metadata.''), d)
        else ensure_bindings E bs d)"

fun ensure_profiles :: "repo_env \<Rightarrow> ProviderProfile list \<Rightarrow> disk \<Rightarrow> (unit, disk) sres" where
  "ensure_profiles E [] d = (Inr (), d)"
| "ensure_profiles E (p # ps) d =
    with_res (get_profile E (pp_profile_id p) d) d (\<lambda>existing.
    case existing of
      None \<Rightarrow> sbind (save_profile E p d) (\<lambda>_ d1. ensure_profiles E ps d1)
    | Some x \<Rightarrow>
        if pp_provider_id x \<noteq> pp_provider_id p \<or> pp_protocol x \<noteq> pp_protocol p \<or> pp_base_url x \<noteq> pp_base_url p
        then (Inl (ProviderProfileServiceError ''A built-in provider profile conflicts with metadata.''), d)
        else ensure_profiles E ps d)"

definition ensure_active :: "repo_env \<Rightarrow> disk \<Rightarrow> (unit, disk) sres" where
  "ensure_active E d =
    with_res (get_active_profile_id E d) d (\<lambda>active.
    if active = None then set_active_profile_id E FAKE_DEFAULT_PROFILE_ID d else (Inr (), d))"

definition ensure_builtin_metadata :: "'p service_env \<Rightarrow> 'p service \<Rightarrow> (unit, 'p service) sres" where
  "ensure_builtin_metadata SE s =
    (let E = se_repo SE in
     translate metadata_error
       (ProviderProfileServiceError ''Built-in provider metadata could not be initialized safely.'')
       (on_disk (\<lambda>d.
          with_res (builtin_managed_credential_bindings (env_bracket E)) d (\<lambda>bs.
          sbind (ensure_bindings E bs d) (\<lambda>_ d1.
          with_res (builtin_managed_profiles (env_bracket E)) d1 (\<lambda>ps.
          sbind (ensure_profiles E ps d1) (\<lambda>_ d2. ensure_active E d2))))) s))"

definition service_create_binding ::
    "'p service_env \<Rightarrow> ProviderId \<Rightarrow> CredentialId \<Rightarrow> string \<Rightarrow> 'p service
      \<Rightarrow> (CredentialBinding, 'p service) sres" where
  "service_create_binding SE provider_id credential_id display_name s =
    (let E = se_repo SE in
     with_res (get_credential_binding E credential_id (sv_disk s)) s (\<lambda>existing.
     if existing \<noteq> None
     then (Inl (ProviderProfileServiceError ''The credential identifier is already registered.''), s)
     else translate policy_or_metadata_error
            (ProviderProfileServiceError ''The credential binding could not be created safely.'')
            (with_res (build_supported_credential_binding (env_bracket E) provider_id credential_id display_name) s
              (\<lambda>b. sbind (on_disk (save_credential_binding E b) s) (\<lambda>_ s1. (Inr b, s1))))))"

definition service_delete_binding ::
    "'p service_env \<Rightarrow> CredentialId \<Rightarrow> 'p service \<Rightarrow> (unit, 'p service) sres" where
  "service_delete_binding SE c s =
    translate metadata_error
      (ProviderProfileServiceError ''The credential binding could not be deleted safely.'')
      (on_disk (delete_credential_binding (se_repo SE) c) s)"

definition require_binding ::
    "'p service_env \<Rightarrow> ProviderId \<Rightarrow> CredentialId option \<Rightarrow> 'p service \<Rightarrow> unit res" where
  "require_binding SE provider_id credential_id s =
    (case credential_id of
       None \<Rightarrow> Inr ()
     | Some c \<Rightarrow>
         ebind (get_credential_binding (se_repo SE) c (sv_disk s)) (\<lambda>b.
         raise_if (case b of None \<Rightarrow> True | Some x \<Rightarrow> cb_provider_id x \<noteq> provider_id)
           (ProviderProfileServiceError ''The credential binding does not match the provider.'')
         (Inr ())))"

definition build_and_save ::
    "'p service_env \<Rightarrow> string \<Rightarrow> ProviderId \<Rightarrow> ProfileId \<Rightarrow> string \<Rightarrow> string \<Rightarrow> CredentialId option
      \<Rightarrow> 'p service \<Rightarrow> (ProviderProfile, 'p service) sres" where
  "build_and_save SE message provider_id profile_id display_name model credential_id s =
    translate policy_or_metadata_error (ProviderProfileServiceError message)
      (with_res (build_supported_profile (env_bracket (se_repo SE)) provider_id profile_id display_name
                   model credential_id) s
        (\<lambda>p. sbind (on_disk (save_profile (se_repo SE) p) s) (\<lambda>_ s1. (Inr p, s1))))"

text \<open>\<open>fresh\<close> is the identifier \<^verbatim>\<open>ProfileId.new()\<close> returns when the caller gives none.\<close>

definition service_create_profile ::
    "'p service_env \<Rightarrow> ProfileId \<Rightarrow> ProviderId \<Rightarrow> string \<Rightarrow> string \<Rightarrow> CredentialId option \<Rightarrow> ProfileId option
      \<Rightarrow> 'p service \<Rightarrow> (ProviderProfile, 'p service) sres" where
  "service_create_profile SE fresh provider_id display_name model credential_id profile_id s =
    (let selected = (case profile_id of None \<Rightarrow> fresh | Some i \<Rightarrow> i) in
     with_res (get_profile (se_repo SE) selected (sv_disk s)) s (\<lambda>existing.
     if existing \<noteq> None
     then (Inl (ProviderProfileServiceError ''The provider profile identifier already exists.''), s)
     else with_res (require_binding SE provider_id credential_id s) s (\<lambda>_.
          build_and_save SE ''The provider profile could not be created safely.''
            provider_id selected display_name model credential_id s)))"

definition runtime_behavior_matches :: "ProviderProfile \<Rightarrow> ProviderProfile \<Rightarrow> bool" where
  "runtime_behavior_matches profile snapshot \<longleftrightarrow>
     profile\<lparr>pp_display_name := pp_display_name snapshot\<rparr> = snapshot"

text \<open>Whether the profile that runs may be updated this way.\<close>

definition runtime_update_guard ::
    "ProviderProfile \<Rightarrow> ProviderProfile option \<Rightarrow> string option \<Rightarrow> CredentialId option \<Rightarrow> unit res" where
  "runtime_update_guard existing snapshot model selected_credential =
    (case snapshot of
       None \<Rightarrow> Inl (ProviderProfileServiceError ''The active profile differs from its runtime snapshot.'')
     | Some snap \<Rightarrow>
         raise_if (\<not> runtime_behavior_matches existing snap)
           (ProviderProfileServiceError ''The active profile differs from its runtime snapshot.'')
         (raise_if ((case model of None \<Rightarrow> False | Some m \<Rightarrow> m \<noteq> pp_model snap)
                    \<or> selected_credential \<noteq> pp_credential_id snap)
           (ProviderProfileServiceError
             ''Stop or switch the active Provider before changing its model or credential.'')
         (Inr ())))"

definition service_update_profile ::
    "'p service_env \<Rightarrow> ProfileId \<Rightarrow> string option \<Rightarrow> string option \<Rightarrow> CredentialId option
      \<Rightarrow> 'p service \<Rightarrow> (ProviderProfile, 'p service) sres" where
  "service_update_profile SE profile_id display_name model credential_id s =
    with_res (get_profile (se_repo SE) profile_id (sv_disk s)) s (\<lambda>found.
    case found of
      None \<Rightarrow> (Inl (ProviderProfileServiceError ''The provider profile does not exist.''), s)
    | Some existing \<Rightarrow>
        let selected = (if credential_id \<noteq> None then credential_id else pp_credential_id existing);
            is_runtime = (sv_runtime_profile_id s = Some profile_id)
        in with_res (raise_if (sv_lifecycle s \<in> {ProviderLifecycleState.SWITCHING, ProviderLifecycleState.CLEANUP_PENDING})
               (ProviderProfileServiceError ''Provider metadata cannot be changed during lifecycle cleanup.'')
               (Inr ())) s (\<lambda>_.
           with_res (if is_runtime then runtime_update_guard existing (sv_runtime_snapshot s) model selected
                     else Inr ()) s (\<lambda>_.
           with_res (require_binding SE (pp_provider_id existing) selected s) s (\<lambda>_.
           sbind (build_and_save SE ''The provider profile could not be updated safely.''
                    (pp_provider_id existing) (pp_profile_id existing)
                    (case display_name of None \<Rightarrow> pp_display_name existing | Some n \<Rightarrow> n)
                    (case model of None \<Rightarrow> pp_model existing | Some m \<Rightarrow> m) selected s) (\<lambda>updated s1.
           (Inr updated, if is_runtime then s1\<lparr>sv_runtime_snapshot := Some updated\<rparr> else s1))))))"

definition service_delete_profile ::
    "'p service_env \<Rightarrow> ProfileId \<Rightarrow> 'p service \<Rightarrow> (unit, 'p service) sres" where
  "service_delete_profile SE profile_id s =
    (if sv_runtime_profile_id s = Some profile_id
     then (Inl (ProviderProfileServiceError ''The active runtime profile cannot be deleted.''), s)
     else translate metadata_error
            (ProviderProfileServiceError ''The provider profile could not be deleted safely.'')
            (on_disk (delete_profile (se_repo SE) profile_id) s))"

end
