(* ===== verification/Turn_Coordinator.thy ===== *)
theory Turn_Coordinator
  imports Provider_Service
begin

text \<open>
  The coordinator of the one active turn, \<^verbatim>\<open>application/agent/active_turn_coordinator.py\<close>. A task is an
  identity; what the coordinator asks of it, whether it is done and whether it ended cancelled, is
  an argument. \<^verbatim>\<open>prepare_for_provider_switch\<close> is split at its only \<^verbatim>\<open>await\<close>: \<open>prepare_begin\<close> is the
  part before it and \<open>prepare_end\<close> the part after it. The record it waits for stays reachable for
  the waiting call after the coordinator has released it, so \<open>prepare_end\<close> takes the record.
\<close>

section \<open>The record of the active turn\<close>

record ActiveTurnRecord =
  ar_task :: token
  ar_cancelled :: bool
  ar_turn_id :: string
  ar_profile_id :: ProfileId
  ar_terminal :: bool

type_synonym coordinator = "ActiveTurnRecord option"

definition has_active_turn :: "coordinator \<Rightarrow> bool" where
  "has_active_turn co \<longleftrightarrow> co \<noteq> None"

definition current_turn_id :: "coordinator \<Rightarrow> string option" where
  "current_turn_id co = map_option ar_turn_id co"

definition current_profile_id :: "coordinator \<Rightarrow> ProfileId option" where
  "current_profile_id co = map_option ar_profile_id co"

definition bind_turn :: "token \<Rightarrow> string \<Rightarrow> ProfileId \<Rightarrow> coordinator \<Rightarrow> (unit, coordinator) sres" where
  "bind_turn task turn_id profile_id co =
    (if co \<noteq> None
     then (Inl (ActiveTurnCoordinatorError ''An Agent turn is already active.''), co)
     else (Inr (), Some \<lparr>ar_task = task, ar_cancelled = False, ar_turn_id = turn_id,
                         ar_profile_id = profile_id, ar_terminal = False\<rparr>))"

definition mark_terminal :: "string \<Rightarrow> coordinator \<Rightarrow> coordinator" where
  "mark_terminal turn_id co =
    (case co of
       None \<Rightarrow> None
     | Some r \<Rightarrow> Some (if ar_turn_id r = turn_id then r\<lparr>ar_terminal := True\<rparr> else r))"

definition release_finished_turn :: "token \<Rightarrow> bool \<Rightarrow> coordinator \<Rightarrow> coordinator" where
  "release_finished_turn task finished co =
    (case co of
       None \<Rightarrow> None
     | Some r \<Rightarrow> if ar_task r = task \<and> finished then None else Some r)"

section \<open>Quiescing the turn\<close>

definition prepare_begin ::
    "ProfileId \<Rightarrow> ActiveTurnHandling \<Rightarrow> coordinator \<Rightarrow> (ActiveTurnRecord option, coordinator) sres" where
  "prepare_begin old_profile_id handling co =
    (case co of
       None \<Rightarrow> (Inr None, None)
     | Some r \<Rightarrow>
         if ar_profile_id r \<noteq> old_profile_id
         then (Inl (ActiveTurnCoordinatorError
                 ''The active turn does not belong to the retiring profile.''), co)
         else let r1 = (if handling = ActiveTurnHandling.CANCEL_ACTIVE then r\<lparr>ar_cancelled := True\<rparr> else r)
              in (Inr (Some r1), Some r1))"

text \<open>
  After the wait: waiting for a cancelled task raises \<^verbatim>\<open>CancelledError\<close>, as does cancelling the
  waiting call itself.
\<close>

definition prepare_end :: "ActiveTurnRecord \<Rightarrow> bool \<Rightarrow> bool \<Rightarrow> unit res" where
  "prepare_end r finished cancelled =
    (if cancelled then Inl CancelledError
     else raise_if (\<not> finished \<or> \<not> ar_terminal r)
       (ActiveTurnCoordinatorError ''The active turn did not reach a safe terminal state.'') (Inr ()))"

lemma bind_turn_free [simp]:
  "bind_turn t i p None =
    (Inr (), Some \<lparr>ar_task = t, ar_cancelled = False, ar_turn_id = i, ar_profile_id = p, ar_terminal = False\<rparr>)"
  by (simp add: bind_turn_def)

lemma mark_terminal_simps [simp]:
  "mark_terminal i None = None"
  "mark_terminal (ar_turn_id r) (Some r) = Some (r\<lparr>ar_terminal := True\<rparr>)"
  by (simp_all add: mark_terminal_def)

lemma release_finished_turn_simps [simp]:
  "release_finished_turn t f None = None"
  "release_finished_turn (ar_task r) True (Some r) = None"
  by (simp_all add: release_finished_turn_def)

lemma prepare_end_Inr [simp]: "prepare_end r f c = Inr u \<longleftrightarrow> \<not> c \<and> f \<and> ar_terminal r"
  by (auto simp: prepare_end_def)

end
