(* ===== verification/Service_Lifecycle.thy ===== *)
theory Service_Lifecycle
  imports Provider_Service "HOL-Library.Multiset"
begin

text \<open>
  The lifecycle of the running provider. Every adapter the service ever constructed is in exactly
  one place: it is the active one, it waits for its cleanup, or its \<^verbatim>\<open>aclose()\<close> has returned; only
  the active one accepts requests; and between operations the lifecycle state is the one that the
  other fields determine. The invariant is kept by every operation, whatever each wait ends with.
\<close>

section \<open>The invariant\<close>

definition active_ids :: "'p service \<Rightarrow> token list" where
  "active_ids s = (case sv_active s of None \<Rightarrow> [] | Some mp \<Rightarrow> [mp_id mp])"

definition locations :: "'p service \<Rightarrow> token list" where
  "locations s = active_ids s @ map fst (sv_retiring s) @ map fst (sv_candidates s) @ sv_closed_ids s"

definition keyed :: "(token \<times> 'p ManagedProvider) list \<Rightarrow> bool" where
  "keyed d \<longleftrightarrow> (\<forall>(i, mp) \<in> set d. i = mp_id mp)"

definition runtime_coherent ::
    "'p ManagedProvider option \<Rightarrow> ProfileId option \<Rightarrow> ProviderProfile option
      \<Rightarrow> ProviderActivationOptions option \<Rightarrow> bool" where
  "runtime_coherent active profile_id snapshot options \<longleftrightarrow>
    (case active of
       None \<Rightarrow> profile_id = None \<and> snapshot = None \<and> options = None
     | Some mp \<Rightarrow> profile_id = Some (mp_profile_id mp) \<and> options \<noteq> None \<and>
         (\<exists>p. snapshot = Some p \<and> pp_profile_id p = mp_profile_id mp \<and>
            pp_provider_id p = mp_expected_provider_name mp))"

abbreviation runtime_ok :: "'p service \<Rightarrow> bool" where
  "runtime_ok s \<equiv> runtime_coherent (sv_active s) (sv_runtime_profile_id s) (sv_runtime_snapshot s) (sv_options s)"

definition slots_ok :: "'p service \<Rightarrow> bool" where
  "slots_ok s \<longleftrightarrow>
     mset (locations s) = mset [0..<sv_next_id s] \<and> keyed (sv_retiring s) \<and> keyed (sv_candidates s) \<and>
     (\<forall>t. sv_accepting s t \<longleftrightarrow> t \<in> set (active_ids s)) \<and> runtime_ok s"

definition derived_lifecycle :: "'p service \<Rightarrow> ProviderLifecycleState" where
  "derived_lifecycle s =
    (if has_pending_cleanup s then ProviderLifecycleState.CLEANUP_PENDING
     else if sv_closed s then ProviderLifecycleState.CLOSED
     else if sv_active s \<noteq> None then ProviderLifecycleState.ACTIVE
     else ProviderLifecycleState.INACTIVE)"

definition service_ok :: "'p service \<Rightarrow> bool" where
  "service_ok s \<longleftrightarrow> slots_ok s \<and> sv_lifecycle s = derived_lifecycle s \<and>
     (sv_active s \<noteq> None \<longrightarrow> \<not> has_pending_cleanup s \<and> \<not> sv_closed s)"

lemma locations_distinct: "slots_ok s \<Longrightarrow> distinct (locations s) \<and> set (locations s) = {..<sv_next_id s}"
  by (metis slots_ok_def atLeast_upt distinct_upt mset_eq_imp_distinct_iff mset_eq_setD)

lemma new_service_ok: "service_ok (new_service d closes)"
  by (simp add: service_ok_def slots_ok_def new_service_def derived_lifecycle_def locations_def
      active_ids_def keyed_def runtime_coherent_def has_pending_cleanup_def)

section \<open>Pools\<close>

lemma mset_filter_key:
  "distinct (map fst d) \<Longrightarrow> k \<in> fst ` set d \<Longrightarrow>
     mset (map fst d) = add_mset k (mset (map fst (filter (\<lambda>e. fst e \<noteq> k) d)))"
proof (induction d)
  case (Cons x d)
  show ?case
  proof (cases "fst x = k")
    case True
    then have "filter (\<lambda>e. fst e \<noteq> k) d = d"
      using Cons.prems by (intro filter_True) (auto simp: image_iff)
    with True have e: "filter (\<lambda>e. fst e \<noteq> k) (x # d) = d" by simp
    show ?thesis unfolding e using True by simp
  next
    case False
    then have e: "filter (\<lambda>e. fst e \<noteq> k) (x # d) = x # filter (\<lambda>e. fst e \<noteq> k) d"
      by simp
    from False Cons have "mset (map fst d) = add_mset k (mset (map fst (filter (\<lambda>e. fst e \<noteq> k) d)))"
      by auto
    then show ?thesis unfolding e by (simp only: list.map mset.simps add_mset_commute)
  qed
qed simp

lemma dict_set_new: "k \<notin> fst ` set d \<Longrightarrow> dict_set k v d = d @ [(k, v)]"
  by (induction k v d rule: dict_set.induct) auto

lemma keyed_filter: "keyed d \<Longrightarrow> keyed (filter P d)"
  by (auto simp: keyed_def)

lemma keyed_snoc [simp]: "keyed (d @ [(mp_id mp, mp)]) \<longleftrightarrow> keyed d"
  by (auto simp: keyed_def)

lemma set_pool_if:
  "set_pool k d s = (if k = Retiring then s\<lparr>sv_retiring := d\<rparr> else s\<lparr>sv_candidates := d\<rparr>)"
  by (cases k) simp_all

lemma set_pool_fields [simp]:
  "sv_disk (set_pool k d s) = sv_disk s" "sv_active (set_pool k d s) = sv_active s"
  "sv_runtime_profile_id (set_pool k d s) = sv_runtime_profile_id s"
  "sv_runtime_snapshot (set_pool k d s) = sv_runtime_snapshot s"
  "sv_options (set_pool k d s) = sv_options s" "sv_lifecycle (set_pool k d s) = sv_lifecycle s"
  "sv_closed (set_pool k d s) = sv_closed s" "sv_accepting (set_pool k d s) = sv_accepting s"
  "sv_next_id (set_pool k d s) = sv_next_id s" "sv_closed_ids (set_pool k d s) = sv_closed_ids s"
  "sv_coming_closes (set_pool k d s) = sv_coming_closes s"
  "active_ids (set_pool k d s) = active_ids s"
  by (simp_all add: set_pool_if active_ids_def)

lemma pool_of_set_pool [simp]: "pool_of k' (set_pool k d s) = (if k' = k then d else pool_of k' s)"
  by (cases k; cases k') simp_all

definition other_pool :: "pool \<Rightarrow> pool" where
  "other_pool k = (case k of Retiring \<Rightarrow> Candidates | Candidates \<Rightarrow> Retiring)"

lemma other_pool_neq [simp]: "other_pool k \<noteq> k" "k \<noteq> other_pool k"
  by (simp_all add: other_pool_def split: pool.splits)

lemma mset_locations:
  "mset (locations s) = mset (active_ids s) + mset (map fst (pool_of k s))
     + mset (map fst (pool_of (other_pool k) s)) + mset (sv_closed_ids s)"
  by (cases k) (simp_all add: locations_def other_pool_def)

lemma keyed_pools: "keyed (sv_retiring s) \<and> keyed (sv_candidates s) \<longleftrightarrow>
    keyed (pool_of k s) \<and> keyed (pool_of (other_pool k) s)"
  by (cases k) (auto simp: other_pool_def)

lemma pending_iff: "has_pending_cleanup s \<longleftrightarrow> pool_of k s \<noteq> [] \<or> pool_of (other_pool k) s \<noteq> []"
  by (cases k) (auto simp: has_pending_cleanup_def other_pool_def)

text \<open>What one operation on the pools leaves alone.\<close>

definition same_core :: "'p service \<Rightarrow> 'p service \<Rightarrow> bool" where
  "same_core s s' \<longleftrightarrow> sv_disk s' = sv_disk s \<and> sv_active s' = sv_active s \<and>
     sv_runtime_profile_id s' = sv_runtime_profile_id s \<and> sv_runtime_snapshot s' = sv_runtime_snapshot s \<and>
     sv_options s' = sv_options s \<and> sv_closed s' = sv_closed s \<and> sv_next_id s' = sv_next_id s"

lemma same_core_refl [simp]: "same_core s s"
  by (simp add: same_core_def)

lemma same_core_trans: "same_core s s' \<Longrightarrow> same_core s' s'' \<Longrightarrow> same_core s s''"
  by (simp add: same_core_def)

lemma same_core_lifecycle [simp]: "same_core s (set_lifecycle l s') \<longleftrightarrow> same_core s s'"
  by (simp add: same_core_def set_lifecycle_def)

lemma same_core_lifecycle_left [simp]: "same_core (set_lifecycle l s) s' \<longleftrightarrow> same_core s s'"
  by (simp add: same_core_def set_lifecycle_def)

lemma set_lifecycle_simps [simp]:
  "slots_ok (set_lifecycle l s) = slots_ok s"
  "sv_lifecycle (set_lifecycle l s) = l" "has_pending_cleanup (set_lifecycle l s) = has_pending_cleanup s"
  "sv_active (set_lifecycle l s) = sv_active s" "sv_closed (set_lifecycle l s) = sv_closed s"
  "sv_retiring (set_lifecycle l s) = sv_retiring s" "sv_candidates (set_lifecycle l s) = sv_candidates s"
  "sv_disk (set_lifecycle l s) = sv_disk s" "sv_closed_ids (set_lifecycle l s) = sv_closed_ids s"
  "sv_next_id (set_lifecycle l s) = sv_next_id s" "sv_accepting (set_lifecycle l s) = sv_accepting s"
  "derived_lifecycle (set_lifecycle l s) = derived_lifecycle s"
  "sv_runtime_profile_id (set_lifecycle l s) = sv_runtime_profile_id s"
  "sv_runtime_snapshot (set_lifecycle l s) = sv_runtime_snapshot s"
  "sv_options (set_lifecycle l s) = sv_options s" "active_ids (set_lifecycle l s) = active_ids s"
  by (simp_all add: set_lifecycle_def slots_ok_def locations_def active_ids_def
      has_pending_cleanup_def derived_lifecycle_def)

lemma pool_of_set_lifecycle [simp]: "pool_of k (set_lifecycle l s) = pool_of k s"
  by (cases k) simp_all

section \<open>Closing\<close>

lemma untrack_pool [simp]:
  "pool_of k (untrack k mp s) = filter (\<lambda>e. fst e \<noteq> mp_id mp) (pool_of k s)"
  "pool_of (other_pool k) (untrack k mp s) = pool_of (other_pool k) s"
  by (simp_all add: untrack_def)

definition in_pool :: "'p ManagedProvider \<Rightarrow> pool \<Rightarrow> 'p service \<Rightarrow> bool" where
  "in_pool mp k s \<longleftrightarrow> (mp_id mp, mp) \<in> set (pool_of k s)"

lemma pool_distinct:
  assumes "slots_ok s"
  shows "distinct (map fst (pool_of k s))"
  using locations_distinct [OF assms] by (cases k) (simp_all add: locations_def)

lemma in_pool_not_active:
  assumes "slots_ok s" "in_pool mp k s"
  shows "mp_id mp \<notin> set (active_ids s)"
proof -
  have "mp_id mp \<in> set (map fst (pool_of k s))" using assms(2) by (force simp: in_pool_def)
  then show ?thesis using locations_distinct [OF assms(1)] by (cases k) (auto simp: locations_def)
qed

lemma slots_ok_alt:
  "slots_ok s \<longleftrightarrow>
     mset (active_ids s) + mset (map fst (pool_of k s)) + mset (map fst (pool_of (other_pool k) s))
       + mset (sv_closed_ids s) = mset [0..<sv_next_id s] \<and>
     keyed (pool_of k s) \<and> keyed (pool_of (other_pool k) s) \<and>
     (\<forall>t. sv_accepting s t \<longleftrightarrow> t \<in> set (active_ids s)) \<and> runtime_ok s"
  using mset_locations [of s k] keyed_pools [of s k] by (auto simp: slots_ok_def)

lemma revoke_inactive:
  "slots_ok s \<Longrightarrow> mp_id mp \<notin> set (active_ids s) \<Longrightarrow> managed_revoke mp s = s"
  by (simp add: managed_revoke_def slots_ok_def fun_upd_idem)

lemma active_ids_cong: "sv_active s' = sv_active s \<Longrightarrow> active_ids s' = active_ids s"
  by (simp add: active_ids_def)

lemma pool_of_more [simp]:
  "pool_of k (s\<lparr>sv_coming_closes := c\<rparr>) = pool_of k s"
  "pool_of k (s\<lparr>sv_closed_ids := c'\<rparr>) = pool_of k s"
  by (cases k; simp)+

lemma slots_ok_coming [simp]: "slots_ok (s\<lparr>sv_coming_closes := c\<rparr>) = slots_ok s"
  by (simp add: slots_ok_def locations_def active_ids_def)

lemma slots_ok_released:
  assumes ok: "slots_ok s" and mp: "in_pool mp k s"
  shows "slots_ok (untrack k mp (s\<lparr>sv_closed_ids := sv_closed_ids s @ [mp_id mp]\<rparr>))"
proof -
  have "mp_id mp \<in> fst ` set (pool_of k s)" using mp by (force simp: in_pool_def)
  then have "mset (map fst (pool_of k s))
      = add_mset (mp_id mp) (mset (map fst (filter (\<lambda>e. fst e \<noteq> mp_id mp) (pool_of k s))))"
    by (rule mset_filter_key [OF pool_distinct [OF ok]])
  with ok show ?thesis
    by (simp add: slots_ok_alt [of _ k] untrack_def keyed_filter active_ids_def)
qed

definition closing_result ::
    "'p ManagedProvider \<Rightarrow> pool \<Rightarrow> 'p service \<Rightarrow> bool res \<Rightarrow> 'p service \<Rightarrow> bool" where
  "closing_result mp k s r s' \<longleftrightarrow>
     slots_ok s' \<and> same_core s s' \<and> pool_of (other_pool k) s' = pool_of (other_pool k) s \<and>
     (case r of
        Inr True \<Rightarrow> pool_of k s' = filter (\<lambda>e. fst e \<noteq> mp_id mp) (pool_of k s) \<and> sv_lifecycle s' = sv_lifecycle s
      | Inr False \<Rightarrow> pool_of k s' = pool_of k s \<and> sv_lifecycle s' = sv_lifecycle s
      | Inl e \<Rightarrow> e = CancelledError \<and> pool_of k s' = pool_of k s \<and>
          sv_lifecycle s' = ProviderLifecycleState.CLEANUP_PENDING)"

lemma close_tracked_ok:
  assumes ok: "slots_ok s" and mp: "in_pool mp k s" and c: "close_tracked_provider mp k s = (r, s')"
  shows "closing_result mp k s r s'"
proof -
  have rv: "managed_revoke mp s = s" using ok mp by (intro revoke_inactive in_pool_not_active)
  let ?s1 = "s\<lparr>sv_coming_closes := tl (sv_coming_closes s)\<rparr>"
  have rel: "slots_ok (untrack k mp (?s1\<lparr>sv_closed_ids := sv_closed_ids ?s1 @ [mp_id mp]\<rparr>))"
    using ok mp by (intro slots_ok_released) (simp_all add: in_pool_def)
  show ?thesis
  proof (cases "next_close s")
    case AwaitReturns
    with c rv have "r = Inr True" "s' = untrack k mp (?s1\<lparr>sv_closed_ids := sv_closed_ids ?s1 @ [mp_id mp]\<rparr>)"
      by (simp_all add: close_tracked_provider_def managed_aclose_def Let_def)
    then show ?thesis
      using rel by (simp add: closing_result_def same_core_def untrack_def)
  next
    case AwaitRaises
    with c rv ok show ?thesis
      by (auto simp: close_tracked_provider_def managed_aclose_def closing_result_def same_core_def Let_def)
  next
    case AwaitCancelled
    with c rv ok show ?thesis
      by (auto simp: close_tracked_provider_def managed_aclose_def closing_result_def same_core_def Let_def)
  qed
qed

definition closed_result ::
    "'p ManagedProvider list \<Rightarrow> pool \<Rightarrow> bool \<Rightarrow> 'p service \<Rightarrow> bool res \<Rightarrow> 'p service \<Rightarrow> bool" where
  "closed_result mps k failed s r s' \<longleftrightarrow>
     slots_ok s' \<and> same_core s s' \<and> pool_of (other_pool k) s' = pool_of (other_pool k) s \<and>
     (\<forall>(i, mp) \<in> set (pool_of k s). i \<notin> mp_id ` set mps \<longrightarrow> (i, mp) \<in> set (pool_of k s')) \<and>
     (case r of
        Inr f \<Rightarrow> sv_lifecycle s' = sv_lifecycle s \<and>
          (if f then failed \<or> pool_of k s' \<noteq> []
           else \<not> failed \<and> pool_of k s' = filter (\<lambda>e. fst e \<notin> mp_id ` set mps) (pool_of k s))
      | Inl e \<Rightarrow> e = CancelledError \<and> pool_of k s' \<noteq> [] \<and>
          sv_lifecycle s' = ProviderLifecycleState.CLEANUP_PENDING)"

lemma filter_pair_filter:
  "filter (\<lambda>e. fst e \<notin> A) (filter (\<lambda>e. fst e \<noteq> k) d) = filter (\<lambda>e. fst e \<notin> insert k A) d"
  by (induction d) auto

lemma close_all_ok:
  assumes "slots_ok s" "distinct (map mp_id mps)" "\<forall>mp \<in> set mps. in_pool mp k s"
    and "close_all mps k failed s = (r, s')"
  shows "closed_result mps k failed s r s'"
  using assms
proof (induction mps arbitrary: failed s)
  case Nil
  then show ?case by (auto simp: closed_result_def)
next
  case (Cons mp mps)
  obtain r1 s1 where c: "close_tracked_provider mp k s = (r1, s1)" by fastforce
  have res: "closing_result mp k s r1 s1"
    using Cons.prems c by (intro close_tracked_ok) auto
  show ?case
  proof (cases r1)
    case (Inl e)
    have "pool_of k s \<noteq> []" using Cons.prems(3) by (auto simp: in_pool_def)
    with Inl c res Cons.prems(4) show ?thesis by (auto simp: closing_result_def closed_result_def)
  next
    case (Inr closed)
    have rest: "close_all mps k (failed \<or> \<not> closed) s1 = (r, s')"
      using Cons.prems(4) c Inr by simp
    have neq: "mp_id m \<noteq> mp_id mp" if "m \<in> set mps" for m
      using Cons.prems(2) that by (metis distinct.simps(2) image_eqI list.set_map list.simps(9))
    have "\<forall>m \<in> set mps. in_pool m k s1"
      using res Inr Cons.prems(3) neq by (cases closed) (auto simp: closing_result_def in_pool_def)
    then have IH: "closed_result mps k (failed \<or> \<not> closed) s1 r s'"
      using Cons.IH [OF _ _ _ rest] res Cons.prems(2) by (simp add: closing_result_def)
    have stays: "(i, m) \<in> set (pool_of k s1)"
      if "(i, m) \<in> set (pool_of k s)" "i \<noteq> mp_id mp \<or> \<not> closed" for i m
      using res Inr that by (cases closed) (auto simp: closing_result_def)
    have kept: "\<forall>(i, m) \<in> set (pool_of k s). i \<notin> mp_id ` set (mp # mps) \<longrightarrow> (i, m) \<in> set (pool_of k s')"
      using IH stays by (fastforce simp: closed_result_def)
    have failing: "pool_of k s' \<noteq> []" if "\<not> closed"
    proof -
      have "(mp_id mp, mp) \<in> set (pool_of k s1)"
        using stays [of "mp_id mp" mp] Cons.prems(3) that by (simp add: in_pool_def)
      then show ?thesis using IH Cons.prems(2) by (force simp: closed_result_def)
    qed
    show ?thesis
      using IH res Inr kept failing
      by (cases closed) (auto simp: closed_result_def closing_result_def filter_pair_filter
          intro: same_core_trans split: sum.splits if_splits)
  qed
qed

lemma pool_members:
  assumes "slots_ok s"
  shows "distinct (map mp_id (map snd (pool_of k s)))" "\<forall>mp \<in> set (map snd (pool_of k s)). in_pool mp k s"
    "filter (\<lambda>e. fst e \<notin> mp_id ` set (map snd (pool_of k s))) (pool_of k s) = []"
proof -
  have keyed: "keyed (pool_of k s)" using assms by (simp add: slots_ok_alt [of s k])
  then have ids: "map mp_id (map snd (pool_of k s)) = map fst (pool_of k s)"
    by (auto simp: keyed_def)
  show "distinct (map mp_id (map snd (pool_of k s)))"
    unfolding ids by (rule pool_distinct [OF assms])
  show "\<forall>mp \<in> set (map snd (pool_of k s)). in_pool mp k s"
    using keyed by (auto simp: in_pool_def keyed_def)
  show "filter (\<lambda>e. fst e \<notin> mp_id ` set (map snd (pool_of k s))) (pool_of k s) = []"
    using keyed by (force simp: keyed_def filter_empty_conv)
qed

lemma close_pool_ok:
  assumes "slots_ok s" "close_all (map snd (pool_of k s)) k failed s = (r, s')"
  shows "closed_result (map snd (pool_of k s)) k failed s r s' \<and>
    (r = Inr False \<longrightarrow> pool_of k s' = [])"
  using close_all_ok [OF assms(1) pool_members(1,2) [OF assms(1)] assms(2)] pool_members(3) [OF assms(1), of k]
  by (auto simp: closed_result_def)

lemma retry_ok:
  assumes ok: "slots_ok s" and retry: "retry_pending_cleanup s = (r, s')"
  shows "slots_ok s' \<and> same_core s s' \<and>
    (r = Inr () \<and> \<not> has_pending_cleanup s' \<and>
       (if has_pending_cleanup s
        then sv_lifecycle s' = (if sv_closed s then ProviderLifecycleState.CLOSED
                                else ProviderLifecycleState.INACTIVE)
        else s' = s)
     \<or> (\<exists>e. r = Inl e) \<and> has_pending_cleanup s \<and> has_pending_cleanup s' \<and>
       sv_lifecycle s' = ProviderLifecycleState.CLEANUP_PENDING)"
proof (cases "has_pending_cleanup s")
  case False
  then show ?thesis using assms by (auto simp: retry_pending_cleanup_def)
next
  case True
  let ?s1 = "set_lifecycle ProviderLifecycleState.SWITCHING s"
  obtain r1 s2 where c1: "close_all (map snd (pool_of Retiring ?s1)) Retiring False ?s1 = (r1, s2)" by fastforce
  have res1: "closed_result (map snd (pool_of Retiring ?s1)) Retiring False ?s1 r1 s2 \<and>
      (r1 = Inr False \<longrightarrow> pool_of Retiring s2 = [])"
    using ok c1 by (intro close_pool_ok) simp_all
  show ?thesis
  proof (cases r1)
    case (Inl e)
    then show ?thesis
      using True retry c1 res1
      by (auto simp: retry_pending_cleanup_def closed_result_def has_pending_cleanup_def [of s'])
  next
    case (Inr f1)
    have ok2: "slots_ok s2" using res1 by (simp add: closed_result_def)
    obtain r2 s3 where c2: "close_all (map snd (pool_of Candidates s2)) Candidates f1 s2 = (r2, s3)" by fastforce
    have res2: "closed_result (map snd (pool_of Candidates s2)) Candidates f1 s2 r2 s3 \<and>
        (r2 = Inr False \<longrightarrow> pool_of Candidates s3 = [])"
      using ok2 c2 by (intro close_pool_ok) simp_all
    have core: "same_core s s3"
      using res1 res2 by (auto simp: closed_result_def same_core_def)
    have ret: "pool_of Retiring s3 = pool_of Retiring s2"
      using res2 by (simp add: closed_result_def other_pool_def)
    have out: "retry_pending_cleanup s = sbind (r2, s3) (\<lambda>failed s3.
          if failed
          then (Inl (ProviderProfileServiceError ''Pending Provider cleanup could not be completed safely.''),
                set_lifecycle ProviderLifecycleState.CLEANUP_PENDING s3)
          else (Inr (), set_lifecycle (if sv_closed s3 then ProviderLifecycleState.CLOSED
                                       else ProviderLifecycleState.INACTIVE) s3))"
      using True c1 c2 Inr by (simp add: retry_pending_cleanup_def)
    show ?thesis
    proof (cases r2)
      case (Inl e)
      then show ?thesis
        using out retry res2 core True by (auto simp: closed_result_def has_pending_cleanup_def [of s3])
    next
      case (Inr f2)
      have pend: "has_pending_cleanup s3 \<longleftrightarrow> f2"
        using res1 res2 ret \<open>r1 = Inr f1\<close> Inr
        by (cases f2; cases f1) (auto simp: closed_result_def has_pending_cleanup_def)
      have "slots_ok s3" using res2 by (simp add: closed_result_def)
      then show ?thesis
        using out retry Inr core pend True by (cases f2) (auto simp: same_core_def)
    qed
  qed
qed

section \<open>Switching\<close>

lemma retry_service_ok:
  assumes "service_ok s" "retry_pending_cleanup s = (r, s')"
  shows "service_ok s' \<and> same_core s s' \<and> (r = Inr () \<longrightarrow> \<not> has_pending_cleanup s')"
  using assms retry_ok [OF _ assms(2)]
  by (auto simp: service_ok_def same_core_def derived_lifecycle_def split: if_splits)

lemma service_ok_active:
  assumes "service_ok s" "sv_active s = Some mp"
  shows "sv_retiring s = []" "sv_candidates s = []" "\<not> sv_closed s" "sv_accepting s (mp_id mp)"
    "sv_lifecycle s = ProviderLifecycleState.ACTIVE" "sv_runtime_profile_id s = Some (mp_profile_id mp)"
  using assms
  by (auto simp: service_ok_def slots_ok_def has_pending_cleanup_def derived_lifecycle_def active_ids_def
      runtime_coherent_def)

lemma dict_set_empty [simp]: "dict_set k v [] = [(k, v)]"
  by simp

text \<open>The active provider withdrawn and put among the retiring ones, as a switch and a shutdown do.\<close>

definition withdrawn :: "'p ManagedProvider \<Rightarrow> 'p service \<Rightarrow> 'p service" where
  "withdrawn mp s = s\<lparr>sv_active := None, sv_runtime_profile_id := None, sv_runtime_snapshot := None,
     sv_options := None, sv_accepting := (sv_accepting s)(mp_id mp := False),
     sv_retiring := [(mp_id mp, mp)]\<rparr>"

lemma withdrawn_ok:
  assumes ok: "service_ok s" and act: "sv_active s = Some mp"
  shows "slots_ok (withdrawn mp s) \<and> in_pool mp Retiring (withdrawn mp s)"
proof -
  have "mset (locations s) = mset [0..<sv_next_id s]" "\<forall>t. sv_accepting s t \<longleftrightarrow> t = mp_id mp"
    using ok act by (auto simp: service_ok_def slots_ok_def active_ids_def)
  then show ?thesis
    using service_ok_active [OF ok act] act
    by (auto simp: slots_ok_def withdrawn_def locations_def active_ids_def keyed_def runtime_coherent_def
        in_pool_def)
qed

lemma begin_switch_eq:
  assumes "service_ok s" "sv_active s = Some old"
  shows "begin_switch old s = set_lifecycle ProviderLifecycleState.SWITCHING (withdrawn old s)"
  using service_ok_active [OF assms]
  by (simp add: begin_switch_def withdrawn_def track_def clear_runtime_def managed_revoke_def set_lifecycle_def)

lemma restore_old_eq:
  assumes "service_ok s" "sv_active s = Some old"
    and "sv_runtime_profile_id s = Some i" "sv_runtime_snapshot s = Some p" "sv_options s = Some opts"
  shows "restore_old old i p opts (interfere f (begin_switch old s)) = interfere f s"
  using service_ok_active [OF assms(1,2)] assms
  by (simp add: begin_switch_eq restore_old_def withdrawn_def publish_def managed_resume_def untrack_def
      interfere_def set_lifecycle_def fun_upd_idem)

lemma interfere_simps [simp]:
  "slots_ok (interfere f s) = slots_ok s" "service_ok (interfere f s) = service_ok s"
  "has_pending_cleanup (interfere f s) = has_pending_cleanup s" "sv_active (interfere f s) = sv_active s"
  "sv_closed (interfere f s) = sv_closed s" "in_pool mp k (interfere f s) = in_pool mp k s"
  "sv_retiring (interfere f s) = sv_retiring s" "sv_candidates (interfere f s) = sv_candidates s"
  by (cases k; simp add: interfere_def slots_ok_def service_ok_def locations_def active_ids_def
      has_pending_cleanup_def derived_lifecycle_def in_pool_def)+

lemma old_activation_Some:
  "old_activation SE handling s = Some (i, p, opts) \<longleftrightarrow>
     handling \<noteq> None \<and> se_has_coordinator SE \<and> sv_runtime_profile_id s = Some i \<and>
     sv_runtime_snapshot s = Some p \<and> sv_options s = Some opts"
  by (auto simp: old_activation_def split: option.splits)

text \<open>Ready to construct: nothing runs, nothing waits for cleanup.\<close>

definition vacant :: "'p service \<Rightarrow> bool" where
  "vacant s \<longleftrightarrow> slots_ok s \<and> sv_active s = None \<and> \<not> has_pending_cleanup s \<and> \<not> sv_closed s"

lemma close_old_ok:
  assumes ok: "service_ok s" and act: "sv_active s = Some old"
    and c: "close_tracked_provider old Retiring (interfere f (begin_switch old s)) = (r, s')"
  shows "case r of
      Inr True \<Rightarrow> vacant s'
    | Inr False \<Rightarrow> service_ok (set_lifecycle ProviderLifecycleState.CLEANUP_PENDING s')
    | Inl e \<Rightarrow> service_ok s'"
proof -
  let ?s1 = "interfere f (begin_switch old s)"
  have s1: "slots_ok ?s1" "in_pool old Retiring ?s1"
    using withdrawn_ok [OF ok act] by (simp_all add: begin_switch_eq [OF ok act] in_pool_def)
  have pools: "sv_retiring ?s1 = [(mp_id old, old)]" "sv_candidates ?s1 = []"
    and core1: "sv_active ?s1 = None" "\<not> sv_closed ?s1"
    using service_ok_active [OF ok act] by (simp_all add: begin_switch_eq [OF ok act] withdrawn_def)
  have res: "closing_result old Retiring ?s1 r s'" by (rule close_tracked_ok [OF s1 c])
  then have core: "slots_ok s'" "sv_active s' = None" "\<not> sv_closed s'" "sv_candidates s' = []"
    using core1 pools by (simp_all add: closing_result_def same_core_def other_pool_def)
  show ?thesis
  proof (cases r)
    case (Inl e)
    with res core pools show ?thesis
      by (simp add: closing_result_def service_ok_def derived_lifecycle_def has_pending_cleanup_def)
  next
    case (Inr b)
    with res core pools show ?thesis
      by (cases b) (simp_all add: closing_result_def service_ok_def vacant_def derived_lifecycle_def
          has_pending_cleanup_def)
  qed
qed

lemma retire_active_ok:
  assumes ok: "service_ok s" and np: "\<not> has_pending_cleanup s" "\<not> sv_closed s"
    and ret: "retire_active SE handling sw s = (r, s')"
  shows "if r = Inr () then vacant s' else service_ok s'"
proof (cases "sv_active s")
  case None
  then show ?thesis
    using assms by (auto simp: retire_active_def vacant_def service_ok_def)
next
  case (Some old)
  show ?thesis
  proof (cases "old_activation SE handling s")
    case None
    then show ?thesis using Some ret ok by (auto simp: retire_active_def)
  next
    case (Some b)
    then obtain i p opts where oa: "old_activation SE handling s = Some (i, p, opts)" by (cases b) auto
    then have rest: "restore_old old i p opts (interfere f (begin_switch old s)) = interfere f s" for f
      using restore_old_eq [OF ok \<open>sv_active s = Some old\<close>] by (simp add: old_activation_Some)
    obtain r1 s1 where c: "close_tracked_provider old Retiring
        (interfere (sw_interference sw) (begin_switch old s)) = (r1, s1)" by fastforce
    note closed = close_old_ok [OF ok \<open>sv_active s = Some old\<close> c]
    show ?thesis
    proof (cases "sw_coordination sw")
      case AwaitReturns
      then show ?thesis
        using ret oa \<open>sv_active s = Some old\<close> c closed
        by (cases r1) (auto simp: retire_active_def Let_def split: if_splits bool.splits)
    qed (use ret oa \<open>sv_active s = Some old\<close> rest ok in \<open>auto simp: retire_active_def Let_def\<close>)
  qed
qed

lemma close_tracked_next: "close_tracked_provider mp k s = (r, s') \<Longrightarrow> sv_next_id s' = sv_next_id s"
  by (auto simp: close_tracked_provider_def managed_aclose_def managed_revoke_def untrack_def Let_def
      split: await_outcome.splits if_splits)

lemma begin_switch_next [simp]: "sv_next_id (interfere f (begin_switch old s)) = sv_next_id s"
  by (simp add: interfere_def begin_switch_def track_def clear_runtime_def managed_revoke_def)

lemma retire_active_next: "retire_active SE handling sw s = (Inr (), s') \<Longrightarrow> sv_next_id s' = sv_next_id s"
  by (auto simp: retire_active_def Let_def sbind_def split: option.splits await_outcome.splits prod.splits
      sum.splits if_splits dest!: close_tracked_next)

section \<open>Constructing\<close>

lemma vacant_simps:
  assumes "vacant s"
  shows "sv_retiring s = []" "sv_candidates s = []" "sv_active s = None" "\<not> sv_closed s"
    "mset (sv_closed_ids s) = mset [0..<sv_next_id s]" "\<forall>t. \<not> sv_accepting s t"
    "sv_runtime_profile_id s = None" "sv_runtime_snapshot s = None" "sv_options s = None"
  using assms
  by (auto simp: vacant_def slots_ok_def has_pending_cleanup_def locations_def active_ids_def runtime_coherent_def)

lemma vacant_disk [simp]: "vacant (s\<lparr>sv_disk := d\<rparr>) = vacant s"
  by (simp add: vacant_def slots_ok_def has_pending_cleanup_def locations_def active_ids_def)

text \<open>A service with a new handle that has not been published or tracked yet.\<close>

definition wrapped :: "'p ManagedProvider \<Rightarrow> 'p service \<Rightarrow> bool" where
  "wrapped mp s \<longleftrightarrow>
     (\<exists>s0. vacant s0 \<and> mp_id mp = sv_next_id s0 \<and> s = managed_resume mp (s0\<lparr>sv_next_id := sv_next_id s0 + 1\<rparr>))"

lemma wrapped_disk: "wrapped mp s \<Longrightarrow> wrapped mp (s\<lparr>sv_disk := d\<rparr>)"
  unfolding wrapped_def by (elim exE conjE) (rule_tac x = "s0\<lparr>sv_disk := d\<rparr>" in exI, simp add: managed_resume_def)

lemma publish_ok:
  assumes "wrapped mp s" "pp_profile_id profile = profile_id" "mp_profile_id mp = profile_id"
    "mp_expected_provider_name mp = pp_provider_id profile"
  shows "service_ok (publish mp profile_id profile options s)"
proof -
  obtain s0 where v: "vacant s0" and id: "mp_id mp = sv_next_id s0"
    and s: "s = managed_resume mp (s0\<lparr>sv_next_id := sv_next_id s0 + 1\<rparr>)"
    using assms(1) by (auto simp: wrapped_def)
  show ?thesis
    using vacant_simps [OF v] id assms(2-)
    by (simp add: s publish_def managed_resume_def service_ok_def slots_ok_def locations_def active_ids_def
        keyed_def runtime_coherent_def derived_lifecycle_def has_pending_cleanup_def)
qed

lemma close_tracked_revoke:
  "close_tracked_provider mp k s = close_tracked_provider mp k (managed_revoke mp s)"
  by (simp add: close_tracked_provider_def managed_aclose_def managed_revoke_def next_close_def)

lemma discard_candidate_ok:
  assumes "wrapped mp s" "discard_candidate mp not_closed discarded s = (r, s')"
  shows "service_ok s' \<and> (\<exists>e. r = Inl e)"
proof -
  obtain s0 where v: "vacant s0" and id: "mp_id mp = sv_next_id s0"
    and s: "s = managed_resume mp (s0\<lparr>sv_next_id := sv_next_id s0 + 1\<rparr>)"
    using assms(1) by (auto simp: wrapped_def)
  let ?s1 = "managed_revoke mp (track Candidates mp s)"
  have ok: "slots_ok ?s1" "in_pool mp Candidates ?s1"
    using vacant_simps [OF v] id
    by (auto simp: s slots_ok_def locations_def active_ids_def track_def managed_revoke_def managed_resume_def keyed_def
        runtime_coherent_def in_pool_def)
  have fields: "sv_retiring ?s1 = []" "sv_candidates ?s1 = [(mp_id mp, mp)]" "sv_active ?s1 = None" "\<not> sv_closed ?s1"
    using vacant_simps [OF v] by (simp_all add: s track_def managed_revoke_def managed_resume_def)
  obtain r1 s1 where c: "close_tracked_provider mp Candidates ?s1 = (r1, s1)" by fastforce
  have res: "closing_result mp Candidates ?s1 r1 s1" by (rule close_tracked_ok [OF ok c])
  have core: "slots_ok s1" "sv_active s1 = None" "\<not> sv_closed s1" "sv_retiring s1 = []"
    using res fields by (simp_all add: closing_result_def same_core_def other_pool_def)
  have out: "discard_candidate mp not_closed discarded s = sbind (r1, s1) (\<lambda>closed s1.
    if closed
    then (Inl (ProviderProfileServiceError discarded), set_lifecycle ProviderLifecycleState.INACTIVE s1)
    else (Inl (ProviderProfileServiceError not_closed),
          set_lifecycle ProviderLifecycleState.CLEANUP_PENDING s1))"
    using c close_tracked_revoke [of mp Candidates "track Candidates mp s"] by (simp add: discard_candidate_def)
  show ?thesis
  proof (cases r1)
    case (Inl e)
    then show ?thesis
      using out assms(2) res core fields
      by (auto simp: closing_result_def service_ok_def derived_lifecycle_def has_pending_cleanup_def)
  next
    case (Inr b)
    then show ?thesis
      using out assms(2) res core fields
      by (cases b) (auto simp: closing_result_def service_ok_def derived_lifecycle_def has_pending_cleanup_def)
  qed
qed

lemma wrap_delegate_wrapped:
  assumes "vacant s" "wrap_delegate delegate profile_id profile s = (mp, s1)"
  shows "wrapped mp s1 \<and> mp_profile_id mp = profile_id \<and> mp_delegate mp = delegate \<and>
    mp_expected_provider_name mp = pp_provider_id profile \<and> mp_id mp = sv_next_id s \<and> sv_disk s1 = sv_disk s"
  using assms by (auto simp: wrap_delegate_def wrapped_def Let_def managed_resume_def)

lemma vacant_inactive: "vacant s \<Longrightarrow> service_ok (set_lifecycle ProviderLifecycleState.INACTIVE s)"
  by (auto simp: vacant_def service_ok_def derived_lifecycle_def)

definition activated ::
    "'p service_env \<Rightarrow> ProfileId \<Rightarrow> ProviderProfile \<Rightarrow> ProviderActivationOptions \<Rightarrow> 'p ManagedProvider
      \<Rightarrow> 'p service \<Rightarrow> bool" where
  "activated SE profile_id profile options mp s \<longleftrightarrow>
     sv_active s = Some mp \<and> mp_profile_id mp = profile_id \<and> sv_runtime_snapshot s = Some profile \<and>
     sv_options s = Some options \<and> se_name SE (mp_delegate mp) = Inr (pp_provider_id profile) \<and>
     se_protocol SE (mp_delegate mp) = Inr (pp_protocol profile)"

lemma construct_provider_ok:
  assumes v: "vacant s" and profile: "pp_profile_id profile = profile_id"
    and c: "construct_provider SE profile_id profile options s = (r, s')"
  shows "service_ok s' \<and> (\<forall>mp. r = Inr mp \<longrightarrow> activated SE profile_id profile options mp s' \<and>
    mp_id mp = sv_next_id s \<and> fst (set_active_profile_id (se_repo SE) profile_id (sv_disk s)) = Inr () \<and>
    sv_disk s' = snd (set_active_profile_id (se_repo SE) profile_id (sv_disk s)))"
proof -
  let ?b = "ebind (list_credential_bindings (se_repo SE) (sv_disk s)) (\<lambda>bs. se_factory SE bs profile options)"
  show ?thesis
  proof (cases "\<exists>delegate. ?b = Inr (Some delegate)")
    case False
    then have "(r, s') = (Inl (ProviderProfileServiceError ''The selected Provider could not be constructed safely.''),
             set_lifecycle ProviderLifecycleState.INACTIVE s)"
      using c by (auto simp: construct_provider_def split: sum.splits option.splits)
    then show ?thesis using vacant_inactive [OF v] by simp
  next
    case True
    then obtain delegate where b: "?b = Inr (Some delegate)" by blast
    obtain mp s1 where w: "wrap_delegate delegate profile_id profile s = (mp, s1)" by fastforce
    note wr = wrap_delegate_wrapped [OF v w]
    obtain r2 d where a: "set_active_profile_id (se_repo SE) profile_id (sv_disk s1) = (r2, d)" by fastforce
    have ident: "se_name SE delegate = Inr (pp_provider_id profile) \<and> se_protocol SE delegate = Inr (pp_protocol profile)"
      if "\<not> identity_failed SE delegate profile"
      using that by (auto simp: identity_failed_def split: sum.splits)
    have pub: "service_ok (publish mp profile_id profile options (s1\<lparr>sv_disk := d\<rparr>))"
      using wr profile by (intro publish_ok wrapped_disk) auto
    show ?thesis
    proof (cases "identity_failed SE delegate profile")
      case True
      then have "discard_candidate mp ''The invalid candidate Provider could not be closed safely.''
          ''The selected Provider identity does not match the active profile.'' s1 = (r, s')"
        using c b w by (simp add: construct_provider_def)
      then show ?thesis using discard_candidate_ok wr by blast
    next
      case False
      show ?thesis
      proof (cases r2)
        case (Inl e)
        then have "discard_candidate mp
            ''The candidate Provider could not be closed after active profile persistence failed.''
            ''The active profile could not be persisted safely.'' (s1\<lparr>sv_disk := d\<rparr>) = (r, s')"
          using c b w a False by (simp add: construct_provider_def)
        then show ?thesis using discard_candidate_ok [OF wrapped_disk] wr by blast
      next
        case (Inr u)
        then have "r = Inr mp" "s' = publish mp profile_id profile options (s1\<lparr>sv_disk := d\<rparr>)"
          using c b w a False by (simp_all add: construct_provider_def)
        then show ?thesis
          using pub wr a Inr ident [OF False] by (simp add: activated_def publish_def)
      qed
    qed
  qed
qed

end
