(* ===== verification/Service_Run.thy ===== *)
theory Service_Run
  imports Service_Lifecycle
begin

text \<open>
  Every operation of the provider service keeps the lifecycle invariant, so every sequence of
  operations does; a switch that cannot quiesce the turn changes nothing but what other tasks wrote;
  a successful one closed the old adapter first; and a shutdown whose closes return leaves no
  adapter open.
\<close>

section \<open>Activation\<close>

lemma get_profile_id: "get_profile E i d = Inr (Some p) \<Longrightarrow> pp_profile_id p = i"
  by (auto simp: get_profile_def ebind_eq_Inr_iff find_profile_def find_Some_iff)

definition serves :: "ProfileId \<Rightarrow> ProviderActivationOptions \<Rightarrow> 'p ManagedProvider \<Rightarrow> 'p service \<Rightarrow> bool" where
  "serves profile_id options mp s \<longleftrightarrow>
     sv_active s = Some mp \<and> mp_profile_id mp = profile_id \<and> sv_options s = Some options \<and>
     sv_accepting s (mp_id mp) \<and> sv_lifecycle s = ProviderLifecycleState.ACTIVE"

lemma serves_active:
  "service_ok s \<Longrightarrow> sv_active s = Some mp \<Longrightarrow> mp_profile_id mp = i \<Longrightarrow> sv_options s = Some opts \<Longrightarrow>
     serves i opts mp s"
  using service_ok_active(4,5) by (auto simp: serves_def)

lemma switch_ok:
  assumes ok: "service_ok s" "\<not> has_pending_cleanup s" "\<not> sv_closed s"
    and profile: "pp_profile_id profile = profile_id"
    and sw: "sbind (retire_active SE handling sw s) (\<lambda>_ s1. construct_provider SE profile_id profile options s1) = (r, s')"
  shows "service_ok s' \<and> (\<forall>mp. r = Inr mp \<longrightarrow> serves profile_id options mp s')"
proof -
  obtain r1 s1 where ret: "retire_active SE handling sw s = (r1, s1)" by fastforce
  note retired = retire_active_ok [OF ok ret]
  show ?thesis
  proof (cases r1)
    case (Inl e)
    with sw ret retired show ?thesis by auto
  next
    case (Inr u)
    have "vacant s1" using retired Inr by simp
    moreover have "construct_provider SE profile_id profile options s1 = (r, s')" using sw ret Inr by simp
    ultimately show ?thesis
      using construct_provider_ok [OF _ profile] by (fastforce simp: activated_def intro: serves_active)
  qed
qed

lemma activate_profile_ok:
  assumes ok: "service_ok s" and act: "activate_profile SE profile_id options handling continuation sw s = (r, s')"
  shows "service_ok s' \<and> (\<forall>mp. r = Inr mp \<longrightarrow> serves profile_id options mp s')"
proof -
  obtain r0 s0 where retry: "retry_pending_cleanup s = (r0, s0)" by fastforce
  note s0 = retry_service_ok [OF ok retry]
  show ?thesis
  proof (cases "is_ok r0 \<and> \<not> sv_closed s0")
    case False
    then show ?thesis using act retry s0 by (cases r0) (auto simp: activate_profile_def)
  next
    case True
    then have np: "service_ok s0" "\<not> has_pending_cleanup s0" "\<not> sv_closed s0" and r0: "r0 = Inr ()"
      using s0 by (auto simp: is_ok_iff)
    have sw: "service_ok s' \<and> (\<forall>mp. r = Inr mp \<longrightarrow> serves profile_id options mp s')"
      if "get_profile (se_repo SE) profile_id (sv_disk s0) = Inr (Some profile)"
        "sbind (retire_active SE handling sw s0)
           (\<lambda>_ s1. construct_provider SE profile_id profile options s1) = (r, s')" for profile
      using switch_ok [OF np get_profile_id [OF that(1)] that(2)] .
    have same: "serves profile_id options mp s0"
      if "sv_active s0 = Some mp" "sv_runtime_profile_id s0 = Some profile_id" "sv_options s0 = Some options" for mp
      using serves_active [OF np(1) that(1) _ that(3)] service_ok_active(6) [OF np(1) that(1)] that(2) by simp
    show ?thesis
      using act retry r0 np sw same
      by (auto simp: activate_profile_def with_res_eq_iff split: option.splits if_splits)
  qed
qed

section \<open>Shutdown\<close>

lemma aclose_withdraws:
  assumes "service_ok s"
  shows "\<exists>s3. service_aclose s = sbind (retry_pending_cleanup s3) (\<lambda>_ s4.
           (Inr (), set_lifecycle ProviderLifecycleState.CLOSED s4)) \<and>
         slots_ok s3 \<and> sv_active s3 = None \<and> sv_closed s3 \<and> sv_next_id s3 = sv_next_id s \<and>
         sv_coming_closes s3 = sv_coming_closes s \<and> sv_disk s3 = sv_disk s"
proof (cases "sv_active s")
  case None
  have "slots_ok (clear_runtime (s\<lparr>sv_closed := True\<rparr>))"
    using assms None by (simp add: service_ok_def slots_ok_def clear_runtime_def locations_def active_ids_def runtime_coherent_def)
  then show ?thesis
    using None by (intro exI [of _ "clear_runtime (s\<lparr>sv_closed := True\<rparr>)"])
      (simp add: service_aclose_def Let_def clear_runtime_def)
next
  case (Some mp)
  let ?s3 = "(withdrawn mp s)\<lparr>sv_closed := True\<rparr>"
  have eq: "clear_runtime (track Retiring mp (managed_revoke mp (s\<lparr>sv_closed := True\<rparr>))) = ?s3"
    using service_ok_active [OF assms Some]
    by (simp add: clear_runtime_def track_def managed_revoke_def withdrawn_def)
  have "slots_ok ?s3"
    using withdrawn_ok [OF assms Some] by (simp add: slots_ok_def locations_def active_ids_def)
  moreover have "service_aclose s = sbind (retry_pending_cleanup ?s3) (\<lambda>_ s4.
           (Inr (), set_lifecycle ProviderLifecycleState.CLOSED s4))"
    using Some eq by (simp add: service_aclose_def Let_def)
  ultimately show ?thesis
    by (intro exI [of _ ?s3]) (simp add: withdrawn_def)
qed

lemma service_aclose_ok:
  assumes ok: "service_ok s" and c: "service_aclose s = (r, s')"
  shows "service_ok s' \<and> sv_active s' = None \<and> sv_closed s'"
proof -
  obtain s3 where a: "service_aclose s = sbind (retry_pending_cleanup s3) (\<lambda>_ s4.
      (Inr (), set_lifecycle ProviderLifecycleState.CLOSED s4))"
    and s3: "slots_ok s3" "sv_active s3 = None" "sv_closed s3"
    using aclose_withdraws [OF ok] by blast
  obtain r4 s4 where retry: "retry_pending_cleanup s3 = (r4, s4)" by fastforce
  have res: "slots_ok s4 \<and> sv_active s4 = None \<and> sv_closed s4 \<and>
      (if is_ok r4 then \<not> has_pending_cleanup s4
       else has_pending_cleanup s4 \<and> sv_lifecycle s4 = ProviderLifecycleState.CLEANUP_PENDING)"
    using retry_ok [OF s3(1) retry] s3 by (auto simp: same_core_def)
  then show ?thesis
    using a c retry by (cases r4) (auto simp: service_ok_def derived_lifecycle_def)
qed

text \<open>When the closes that are left all return, a retry empties both pools.\<close>

definition closes_return :: "'p service \<Rightarrow> bool" where
  "closes_return s \<longleftrightarrow> set (sv_coming_closes s) \<subseteq> {AwaitReturns}"

lemma close_tracked_returns:
  assumes "closes_return s"
  shows "\<exists>s1. close_tracked_provider mp k s = (Inr True, s1) \<and> closes_return s1"
proof -
  have "next_close s = AwaitReturns" "set (tl (sv_coming_closes s)) \<subseteq> {AwaitReturns}"
    using assms by (cases "sv_coming_closes s"; simp add: next_close_def closes_return_def)+
  then show ?thesis
    by (cases k) (simp_all add: close_tracked_provider_def managed_aclose_def Let_def untrack_def managed_revoke_def
      closes_return_def)
qed

lemma close_all_returns:
  assumes "closes_return s"
  shows "\<exists>s1. close_all mps k False s = (Inr False, s1) \<and> closes_return s1"
  using assms
proof (induction mps arbitrary: s)
  case (Cons mp mps)
  obtain s1 where "close_tracked_provider mp k s = (Inr True, s1)" "closes_return s1"
    using close_tracked_returns [OF Cons.prems] by blast
  with Cons.IH [of s1] show ?case by simp
qed simp

lemma retry_returns:
  assumes "closes_return s"
  shows "fst (retry_pending_cleanup s) = Inr ()"
proof -
  let ?s1 = "set_lifecycle ProviderLifecycleState.SWITCHING s"
  have "closes_return ?s1" using assms by (simp add: set_lifecycle_def closes_return_def)
  then obtain s2 where s2: "close_all (map snd (sv_retiring ?s1)) Retiring False ?s1 = (Inr False, s2)"
      "closes_return s2"
    using close_all_returns by blast
  then obtain s3 where "close_all (map snd (sv_candidates s2)) Candidates False s2 = (Inr False, s3)"
    using close_all_returns by blast
  with s2 show ?thesis by (simp add: retry_pending_cleanup_def Let_def)
qed

lemma closed_everywhere:
  assumes "slots_ok s" "sv_active s = None" "\<not> has_pending_cleanup s"
  shows "mset (sv_closed_ids s) = mset [0..<sv_next_id s]"
  using assms by (simp add: slots_ok_def locations_def active_ids_def has_pending_cleanup_def)

section \<open>Metadata operations\<close>

lemma service_ok_disk [simp]: "service_ok (s\<lparr>sv_disk := d\<rparr>) = service_ok s"
  by (simp add: service_ok_def slots_ok_def locations_def active_ids_def derived_lifecycle_def has_pending_cleanup_def)

text \<open>An operation that changes the metadata file and nothing else of the service.\<close>

definition only_disk :: "'p service \<Rightarrow> ('a, 'p service) sres \<Rightarrow> bool" where
  "only_disk s res \<longleftrightarrow> (\<exists>d. snd res = s\<lparr>sv_disk := d\<rparr>)"

lemma only_disk_self [simp]: "only_disk s (r, s)"
  unfolding only_disk_def by (rule exI [of _ "sv_disk s"]) simp

lemma only_disk_on_disk [simp]: "only_disk s (on_disk f s)"
  by (auto simp: only_disk_def on_disk_def split: prod.splits)

lemma only_disk_translate [simp]: "only_disk s (translate caught e res) = only_disk s res"
  by (cases res; cases "fst res") (auto simp: only_disk_def translate_def)

lemma only_disk_if [intro!]:
  "(c \<Longrightarrow> only_disk s x) \<Longrightarrow> (\<not> c \<Longrightarrow> only_disk s y) \<Longrightarrow> only_disk s (if c then x else y)"
  by simp

lemma only_disk_with_res [intro!]: "(\<And>v. r = Inr v \<Longrightarrow> only_disk s (f v)) \<Longrightarrow> only_disk s (with_res r s f)"
  by (cases r) auto

lemma only_disk_return [intro!]: "only_disk s res \<Longrightarrow> only_disk s (sbind res (\<lambda>_ s1. (Inr v, s1)))"
  by (cases res; cases "fst res") (auto simp: only_disk_def)

lemma only_disk_ok: "only_disk s res \<Longrightarrow> service_ok s \<Longrightarrow> service_ok (snd res)"
  by (auto simp: only_disk_def)

lemma build_and_save_only_disk [simp]: "only_disk s (build_and_save SE m pid i n model c s)"
  by (auto simp: build_and_save_def)

lemma metadata_only_disk:
  "only_disk s (ensure_builtin_metadata SE s)"
  "only_disk s (service_create_binding SE pid c n s)"
  "only_disk s (service_delete_binding SE c s)"
  "only_disk s (service_create_profile SE fresh pid n m cred given s)"
  "only_disk s (service_delete_profile SE i s)"
  by (auto simp: ensure_builtin_metadata_def service_create_binding_def service_delete_binding_def
      service_create_profile_def service_delete_profile_def Let_def)

lemma built_profile_ids:
  "build_supported_profile br pid i n m c = Inr p \<Longrightarrow> pp_profile_id p = i \<and> pp_provider_id p = pid"
  by (auto simp: build_supported_profile_eq_table table_profile_eq_Some_iff)

lemma build_and_save_ids:
  "build_and_save SE msg pid i n m c s = (Inr p, s1) \<Longrightarrow> pp_profile_id p = i \<and> pp_provider_id p = pid"
  by (auto simp: build_and_save_def translate_def with_res_def sbind_def on_disk_def
      split: sum.splits prod.splits dest: built_profile_ids)

lemma runtime_guard_provider:
  "runtime_update_guard existing (Some snap) model c = Inr u \<Longrightarrow> pp_provider_id existing = pp_provider_id snap"
  by (auto simp: runtime_update_guard_def runtime_behavior_matches_def dest: arg_cong [where f = pp_provider_id])

lemma snapshot_update_ok:
  assumes ok: "service_ok s" and d: "only_disk s (r, s1)"
    and ids: "sv_runtime_profile_id s = Some (pp_profile_id updated)" "sv_runtime_snapshot s = Some snap"
      "pp_provider_id updated = pp_provider_id snap"
  shows "service_ok (s1\<lparr>sv_runtime_snapshot := Some updated\<rparr>)"
proof -
  obtain d where "s1 = s\<lparr>sv_disk := d\<rparr>" using d by (auto simp: only_disk_def)
  then show ?thesis
    using ok ids by (auto simp: service_ok_def slots_ok_def locations_def active_ids_def derived_lifecycle_def
        has_pending_cleanup_def runtime_coherent_def split: option.splits)
qed

lemma update_tail_ok:
  assumes ok: "service_ok s"
    and guard: "is_runtime \<Longrightarrow> runtime_update_guard existing (sv_runtime_snapshot s) model selected = Inr u"
    and runtime: "is_runtime \<Longrightarrow> sv_runtime_profile_id s = Some (pp_profile_id existing)"
    and tail: "sbind (build_and_save SE msg (pp_provider_id existing) (pp_profile_id existing) n m selected s)
      (\<lambda>updated s1. (Inr updated, if is_runtime then s1\<lparr>sv_runtime_snapshot := Some updated\<rparr> else s1)) = (r, s')"
  shows "service_ok s'"
proof -
  obtain r1 s1 where b: "build_and_save SE msg (pp_provider_id existing) (pp_profile_id existing) n m selected s = (r1, s1)"
    by fastforce
  have d: "only_disk s (r1, s1)"
    using build_and_save_only_disk [of s SE msg "pp_provider_id existing" "pp_profile_id existing" n m selected]
    by (simp only: b)
  show ?thesis
  proof (cases "is_ok r1 \<and> is_runtime")
    case True
    then obtain updated where r1: "r1 = Inr updated" by (auto simp: is_ok_iff)
    note ids = build_and_save_ids [OF b [unfolded r1]]
    obtain snap where snap: "sv_runtime_snapshot s = Some snap"
      using guard True by (auto simp: runtime_update_guard_def split: option.splits)
    have "service_ok (s1\<lparr>sv_runtime_snapshot := Some updated\<rparr>)"
      using snapshot_update_ok [OF ok d, of updated snap] ids snap runtime guard True
        runtime_guard_provider [of existing snap] by auto
    then show ?thesis using tail b r1 True by simp
  next
    case False
    then have "s' = s1" using tail b by (cases r1) auto
    then show ?thesis using only_disk_ok [OF d ok] by simp
  qed
qed

lemma with_res_keeps:
  "with_res x s f = (r, s') \<Longrightarrow> P s \<Longrightarrow> (\<And>v. x = Inr v \<Longrightarrow> f v = (r, s') \<Longrightarrow> P s') \<Longrightarrow> P s'"
  by (cases x) auto

lemma service_update_profile_ok:
  assumes ok: "service_ok s" and u: "service_update_profile SE profile_id name model cred s = (r, s')"
  shows "service_ok s'"
proof (rule with_res_keeps [OF u [unfolded service_update_profile_def], where P = service_ok])
  fix found
  assume found: "get_profile (se_repo SE) profile_id (sv_disk s) = Inr found"
  assume rest: "(case found of
      None \<Rightarrow> (Inl (ProviderProfileServiceError ''The provider profile does not exist.''), s)
    | Some existing \<Rightarrow>
        let selected = (if cred \<noteq> None then cred else pp_credential_id existing);
            is_runtime = (sv_runtime_profile_id s = Some profile_id)
        in with_res (raise_if (sv_lifecycle s \<in> {ProviderLifecycleState.SWITCHING, ProviderLifecycleState.CLEANUP_PENDING})
               (ProviderProfileServiceError ''Provider metadata cannot be changed during lifecycle cleanup.'')
               (Inr ())) s (\<lambda>_.
           with_res (if is_runtime then runtime_update_guard existing (sv_runtime_snapshot s) model selected
                     else Inr ()) s (\<lambda>_.
           with_res (require_binding SE (pp_provider_id existing) selected s) s (\<lambda>_.
           sbind (build_and_save SE ''The provider profile could not be updated safely.''
                    (pp_provider_id existing) (pp_profile_id existing)
                    (case name of None \<Rightarrow> pp_display_name existing | Some n \<Rightarrow> n)
                    (case model of None \<Rightarrow> pp_model existing | Some m \<Rightarrow> m) selected s) (\<lambda>updated s1.
           (Inr updated, if is_runtime then s1\<lparr>sv_runtime_snapshot := Some updated\<rparr> else s1)))))) = (r, s')"
  show "service_ok s'"
  proof (cases found)
    case None
    with rest ok show ?thesis by simp
  next
    case (Some existing)
    have id: "pp_profile_id existing = profile_id" using get_profile_id found Some by blast
    show ?thesis
      using rest unfolding Some option.case Let_def
      apply (elim with_res_keeps [where P = service_ok, OF _ ok])
      apply (rule update_tail_ok [OF ok, rotated 2])
        apply assumption
       apply simp
      apply (simp add: id)
      done
  qed
qed (rule ok)

section \<open>Sequences of operations\<close>

datatype service_op =
    Activate ProfileId ProviderActivationOptions "ActiveTurnHandling option" "ProviderContinuation option" switching
  | CloseService
  | EnsureBuiltins
  | CreateBinding ProviderId CredentialId string
  | DeleteBinding CredentialId
  | CreateProfile ProfileId ProviderId string string "CredentialId option" "ProfileId option"
  | UpdateProfile ProfileId "string option" "string option" "CredentialId option"
  | DeleteProfile ProfileId

fun service_exec :: "'p service_env \<Rightarrow> service_op \<Rightarrow> 'p service \<Rightarrow> 'p service" where
  "service_exec SE (Activate i opts handling cont sw) s = snd (activate_profile SE i opts handling cont sw s)"
| "service_exec SE CloseService s = snd (service_aclose s)"
| "service_exec SE EnsureBuiltins s = snd (ensure_builtin_metadata SE s)"
| "service_exec SE (CreateBinding pid c n) s = snd (service_create_binding SE pid c n s)"
| "service_exec SE (DeleteBinding c) s = snd (service_delete_binding SE c s)"
| "service_exec SE (CreateProfile fresh pid n m c i) s = snd (service_create_profile SE fresh pid n m c i s)"
| "service_exec SE (UpdateProfile i n m c) s = snd (service_update_profile SE i n m c s)"
| "service_exec SE (DeleteProfile i) s = snd (service_delete_profile SE i s)"

lemma service_exec_ok:
  assumes ok: "service_ok s"
  shows "service_ok (service_exec SE oper s)"
proof (cases oper)
  case (Activate i opts handling cont sw)
  then show ?thesis
    using activate_profile_ok [OF ok] by (metis service_exec.simps(1) prod.collapse)
next
  case CloseService
  then show ?thesis using service_aclose_ok [OF ok] by (metis service_exec.simps(2) prod.collapse)
next
  case (UpdateProfile i n m c)
  then show ?thesis
    using service_update_profile_ok [OF ok] by (metis service_exec.simps(7) prod.collapse)
qed (simp_all add: only_disk_ok [OF _ ok] metadata_only_disk)

definition service_run :: "'p service_env \<Rightarrow> service_op list \<Rightarrow> 'p service \<Rightarrow> 'p service" where
  "service_run SE ops s = fold (service_exec SE) ops s"

lemma service_run_ok: "service_ok s \<Longrightarrow> service_ok (service_run SE ops s)"
  by (induction ops arbitrary: s) (simp_all add: service_run_def service_exec_ok)

end
