(* ===== verification/Context_Manager.thy ===== *)
theory Context_Manager
  imports Agent_Models "HOL-Library.Product_Lexorder" "HOL-Library.Sublist"
begin

text \<open>
  The context manager of \<^verbatim>\<open>application/agent/context_manager.py\<close>: selection of recent history and
  retrievable memories and the two trimming loops that fit a request into its character budget.
\<close>

section \<open>Configuration and request building\<close>

record ContextConfig =
  max_recent_messages :: int
  max_memories :: int
  max_context_chars :: int
  max_output_tokens :: int

definition mk_ContextConfig :: "int \<Rightarrow> int \<Rightarrow> int \<Rightarrow> int \<Rightarrow> ContextConfig res" where
  "mk_ContextConfig r m c t =
    raise_if (r < 0) (ValueError ''max_recent_messages must not be negative'')
    (raise_if (m < 0) (ValueError ''max_memories must not be negative'')
    (raise_if (c \<le> 0) (ValueError ''max_context_chars must be positive'')
    (raise_if (t \<le> 0) (ValueError ''max_output_tokens must be positive'')
    (Inr \<lparr>max_recent_messages = r, max_memories = m, max_context_chars = c, max_output_tokens = t\<rparr>))))"

definition default_context_config :: ContextConfig where
  "default_context_config =
    \<lparr>max_recent_messages = 12, max_memories = 5, max_context_chars = 24000, max_output_tokens = 1024\<rparr>"

record ContextManager =
  cm_config :: ContextConfig
  cm_system_prompt :: string

definition new_context_manager :: "ContextConfig \<Rightarrow> string \<Rightarrow> ContextManager" where
  "new_context_manager c prompt = \<lparr>cm_config = c, cm_system_prompt = py_strip prompt\<rparr>"

definition context_size :: "string \<Rightarrow> ChatMessage list \<Rightarrow> MemoryRecord list \<Rightarrow> int" where
  "context_size instr msgs mems =
    int (length instr) + sum_list (map (\<lambda>m. int (length (msg_content m))) msgs)
    + sum_list (map (\<lambda>m. int (length (mem_content m))) mems)"

text \<open>\<^verbatim>\<open>history[-n:]\<close> for a positive \<open>n\<close>.\<close>

definition last_n :: "int \<Rightarrow> 'a list \<Rightarrow> 'a list" where
  "last_n n xs = drop (length xs - nat n) xs"

text \<open>
  \<^verbatim>\<open>sorted(..., key=(pinned, updated_at), reverse=True)\<close>: descending and stable, which is the
  stable ascending sort by the negated key.
\<close>

definition sort_memories :: "MemoryRecord list \<Rightarrow> MemoryRecord list" where
  "sort_memories ms = sort_key (\<lambda>m. (\<not> mem_pinned m, - mem_updated_at m)) ms"

fun trim_history ::
    "int \<Rightarrow> string \<Rightarrow> ChatMessage \<Rightarrow> MemoryRecord list \<Rightarrow> ChatMessage list \<Rightarrow> ChatMessage list" where
  "trim_history limit instr user mems [] = []"
| "trim_history limit instr user mems (h # hs) =
    (if context_size instr ((h # hs) @ [user]) mems > limit
     then trim_history limit instr user mems hs else h # hs)"

function trim_memories ::
    "int \<Rightarrow> string \<Rightarrow> ChatMessage list \<Rightarrow> MemoryRecord list \<Rightarrow> MemoryRecord list" where
  "trim_memories limit instr msgs mems =
    (if mems \<noteq> [] \<and> context_size instr msgs mems > limit
     then trim_memories limit instr msgs (butlast mems) else mems)"
  by pat_completeness auto
termination by (relation "measure (\<lambda>(_, _, _, mems). length mems)") auto

declare trim_memories.simps [simp del]

definition build_request ::
    "ContextManager \<Rightarrow> UserMessageCommand \<Rightarrow> ChatMessage list \<Rightarrow> MemoryRecord list
      \<Rightarrow> 'j ToolSpec list \<Rightarrow> ProviderContinuation option \<Rightarrow> 'j LLMRequest res" where
  "build_request cm command history memories tools continuation =
    (let c = cm_config cm;
         selected_history =
           (if max_recent_messages c \<noteq> 0 then last_n (max_recent_messages c) history else []);
         selected_memories = take (nat (max_memories c)) (sort_memories (filter is_retrievable memories))
     in ebind (mk_ChatMessage MessageRole.USER (cmd_content command)) (\<lambda>user.
        let instr = cm_system_prompt cm;
            hist = trim_history (max_context_chars c) instr user selected_memories selected_history;
            mems = trim_memories (max_context_chars c) instr (hist @ [user]) selected_memories
        in raise_if (context_size instr (hist @ [user]) mems > max_context_chars c)
             (ContextBudgetError
               ''The system instructions and current user message exceed the context budget.'')
           (Inr \<lparr>instructions = instr, messages = hist @ [user], req_tools = tools, req_store = False,
                 req_max_output_tokens = max_output_tokens c,
                 memory_context = map from_record mems, req_continuation = continuation\<rparr>)))"

section \<open>The trimming loops\<close>

lemma trim_history_suffix: "suffix (trim_history limit instr user mems hs) hs"
  by (induction hs) (auto simp: suffix_ConsI)

lemma trim_history_fits:
  "trim_history limit instr user mems hs \<noteq> [] \<Longrightarrow>
    context_size instr (trim_history limit instr user mems hs @ [user]) mems \<le> limit"
  by (induction hs) auto

text \<open>What is dropped was too much: every longer suffix exceeds the limit.\<close>

lemma trim_history_maximal:
  "suffix xs hs \<Longrightarrow> context_size instr (xs @ [user]) mems \<le> limit \<Longrightarrow>
    suffix xs (trim_history limit instr user mems hs)"
proof (induction hs)
  case (Cons h hs)
  then show ?case by (auto simp: suffix_Cons)
qed simp

lemma trim_memories_prefix: "prefix (trim_memories limit instr msgs mems) mems"
proof (induction limit instr msgs mems rule: trim_memories.induct)
  case (1 limit instr msgs mems)
  show ?case
  proof (cases "mems \<noteq> [] \<and> context_size instr msgs mems > limit")
    case True
    with 1 have "prefix (trim_memories limit instr msgs (butlast mems)) (butlast mems)" by blast
    then have "prefix (trim_memories limit instr msgs (butlast mems)) mems"
      using prefix_order.trans prefixeq_butlast by blast
    with True show ?thesis by (subst trim_memories.simps) simp
  next
    case False
    then show ?thesis by (subst trim_memories.simps) auto
  qed
qed

lemma trim_memories_result:
  "trim_memories limit instr msgs mems = [] \<or>
    context_size instr msgs (trim_memories limit instr msgs mems) \<le> limit"
proof (induction limit instr msgs mems rule: trim_memories.induct)
  case (1 limit instr msgs mems)
  then show ?case by (subst (1 2) trim_memories.simps) (auto simp: not_less)
qed

lemma trim_memories_id:
  "context_size instr msgs mems \<le> limit \<Longrightarrow> trim_memories limit instr msgs mems = mems"
  by (subst trim_memories.simps) simp

lemma context_size_mono: "context_size instr msgs [] \<le> context_size instr msgs mems"
  by (auto simp: context_size_def intro!: sum_list_nonneg)

lemma context_size_hist: "context_size instr [user] [] \<le> context_size instr (h @ [user]) mems"
  by (auto simp: context_size_def intro!: add_nonneg_nonneg sum_list_nonneg)

lemma set_sort_memories [simp]: "set (sort_memories ms) = set ms"
  by (simp add: sort_memories_def)

section \<open>Properties\<close>

abbreviation user_message :: "UserMessageCommand \<Rightarrow> ChatMessage" where
  "user_message command \<equiv> \<lparr>role = MessageRole.USER, msg_content = cmd_content command\<rparr>"

definition recent :: "ContextManager \<Rightarrow> ChatMessage list \<Rightarrow> ChatMessage list" where
  "recent cm history =
    (if max_recent_messages (cm_config cm) \<noteq> 0 then last_n (max_recent_messages (cm_config cm)) history
     else [])"

definition candidates :: "ContextManager \<Rightarrow> MemoryRecord list \<Rightarrow> MemoryRecord list" where
  "candidates cm memories =
    take (nat (max_memories (cm_config cm))) (sort_memories (filter is_retrievable memories))"

definition kept_history ::
    "ContextManager \<Rightarrow> UserMessageCommand \<Rightarrow> ChatMessage list \<Rightarrow> MemoryRecord list \<Rightarrow> ChatMessage list" where
  "kept_history cm command history memories =
    trim_history (max_context_chars (cm_config cm)) (cm_system_prompt cm) (user_message command)
      (candidates cm memories) (recent cm history)"

definition kept_memories ::
    "ContextManager \<Rightarrow> UserMessageCommand \<Rightarrow> ChatMessage list \<Rightarrow> MemoryRecord list \<Rightarrow> MemoryRecord list" where
  "kept_memories cm command history memories =
    trim_memories (max_context_chars (cm_config cm)) (cm_system_prompt cm)
      (kept_history cm command history memories @ [user_message command]) (candidates cm memories)"

lemma build_request_eq:
  assumes "\<not> blank (cmd_content command)"
  shows "build_request cm command history memories tools continuation =
    raise_if (context_size (cm_system_prompt cm)
        (kept_history cm command history memories @ [user_message command])
        (kept_memories cm command history memories) > max_context_chars (cm_config cm))
      (ContextBudgetError ''The system instructions and current user message exceed the context budget.'')
      (Inr \<lparr>instructions = cm_system_prompt cm,
            messages = kept_history cm command history memories @ [user_message command],
            req_tools = tools, req_store = False,
            req_max_output_tokens = max_output_tokens (cm_config cm),
            memory_context = map from_record (kept_memories cm command history memories),
            req_continuation = continuation\<rparr>)"
  using assms
  by (simp add: build_request_def mk_ChatMessage_def kept_history_def kept_memories_def recent_def
      candidates_def Let_def)

lemma kept_history_props:
  "suffix (kept_history cm command history memories) history"
  "length (kept_history cm command history memories) \<le> nat (max_recent_messages (cm_config cm))"
proof -
  have "suffix (recent cm history) history"
    by (auto simp: recent_def last_n_def suffix_drop)
  moreover have "length (recent cm history) \<le> nat (max_recent_messages (cm_config cm))"
    by (auto simp: recent_def last_n_def)
  moreover have "suffix (kept_history cm command history memories) (recent cm history)"
    by (simp add: kept_history_def trim_history_suffix)
  ultimately show "suffix (kept_history cm command history memories) history"
      "length (kept_history cm command history memories) \<le> nat (max_recent_messages (cm_config cm))"
    using suffix_order.trans suffix_length_le order_trans by blast+
qed

lemma kept_memories_props:
  "prefix (kept_memories cm command history memories) (candidates cm memories)"
  "kept_history cm command history memories \<noteq> [] \<Longrightarrow>
     kept_memories cm command history memories = candidates cm memories"
  using trim_history_fits
  by (auto simp: kept_memories_def trim_memories_prefix kept_history_def intro!: trim_memories_id)

lemma budget_iff:
  "context_size (cm_system_prompt cm) (kept_history cm command history memories @ [user_message command])
      (kept_memories cm command history memories) \<le> max_context_chars (cm_config cm) \<longleftrightarrow>
   int (length (cm_system_prompt cm)) + int (length (cmd_content command)) \<le> max_context_chars (cm_config cm)"
    (is "?size \<le> ?max \<longleftrightarrow> ?mandatory \<le> ?max")
proof
  have "?mandatory = context_size (cm_system_prompt cm) [user_message command] []"
    by (simp add: context_size_def)
  also have "\<dots> \<le> ?size" by (rule context_size_hist)
  finally show "?mandatory \<le> ?max" if "?size \<le> ?max" using that by simp
next
  assume m: "?mandatory \<le> ?max"
  show "?size \<le> ?max"
  proof (cases "kept_history cm command history memories = []")
    case True
    with m trim_memories_result [of ?max "cm_system_prompt cm" "[user_message command]" "candidates cm memories"]
    show ?thesis by (auto simp: kept_memories_def context_size_def)
  next
    case False
    then show ?thesis
      using kept_memories_props(2) [OF False] trim_history_fits [of ?max] by (simp add: kept_history_def)
  qed
qed

text \<open>
  C32. Request building keeps to its budget and to its trust rules. For a nonblank message it fails
  exactly when system prompt and message alone exceed the budget, then with \<^verbatim>\<open>ContextBudgetError\<close>;
  otherwise the request fits the budget, carries the system prompt unchanged, ends with the user's
  message, keeps a contiguous most recent part of the history within the configured count, and
  contains only active memories, marked as untrusted data, at most as many as configured; memories
  are given up only after the whole history.
\<close>

theorem build_request_bounded:
  assumes "\<not> blank (cmd_content command)"
  shows "(build_request cm command history memories tools cont = Inl (ContextBudgetError
        ''The system instructions and current user message exceed the context budget.'') \<longleftrightarrow>
      max_context_chars (cm_config cm) < int (length (cm_system_prompt cm)) + int (length (cmd_content command))) \<and>
    (int (length (cm_system_prompt cm)) + int (length (cmd_content command)) \<le> max_context_chars (cm_config cm) \<longrightarrow>
      (\<exists>req hist mems. build_request cm command history memories tools cont = Inr req \<and>
        instructions req = cm_system_prompt cm \<and> messages req = hist @ [user_message command] \<and>
        suffix hist history \<and> length hist \<le> nat (max_recent_messages (cm_config cm)) \<and>
        memory_context req = map from_record mems \<and>
        length mems \<le> nat (max_memories (cm_config cm)) \<and>
        (\<forall>m \<in> set mems. m \<in> set memories \<and> mem_status m = MemoryStatus.ACTIVE) \<and>
        (\<forall>m \<in> set (memory_context req). mc_boundary m = ''untrusted_memory_data'') \<and>
        context_size (instructions req) (messages req) mems \<le> max_context_chars (cm_config cm) \<and>
        (hist \<noteq> [] \<longrightarrow> mems = candidates cm memories)))"
proof -
  let ?m = "kept_memories cm command history memories"
  have "set ?m \<subseteq> set (candidates cm memories)"
    using kept_memories_props(1) by (rule set_mono_prefix)
  also have "\<dots> \<subseteq> {m \<in> set memories. is_retrievable m}"
    unfolding candidates_def by (rule order_trans [OF set_take_subset]) simp
  finally have sub: "\<forall>m \<in> set ?m. m \<in> set memories \<and> mem_status m = MemoryStatus.ACTIVE"
    by (auto simp: is_retrievable_def)
  have "length ?m \<le> length (candidates cm memories)"
    using kept_memories_props(1) by (rule prefix_length_le)
  then have len: "length ?m \<le> nat (max_memories (cm_config cm))" by (simp add: candidates_def)
  note eq = build_request_eq [OF assms, of cm history memories tools cont]
  show ?thesis
    using budget_iff [of cm command history memories] kept_history_props kept_memories_props(2)
      sub len
    by (cases "context_size (cm_system_prompt cm) (kept_history cm command history memories @ [user_message command])
        ?m \<le> max_context_chars (cm_config cm)")
      (auto simp: eq raise_if_def from_record_def)
qed

theorem build_request_bounded_witness:
  "\<exists>req. build_request (new_context_manager default_context_config ''Be brief.'')
      \<lparr>cmd_turn_id = ''t'', cmd_session_id = ''s'', cmd_content = ''hello''\<rparr> [] [] ([] :: nat ToolSpec list) None = Inr req \<and>
    messages req = [\<lparr>role = MessageRole.USER, msg_content = ''hello''\<rparr>]"
proof -
  let ?cm = "new_context_manager default_context_config ''Be brief.''"
  let ?c = "\<lparr>cmd_turn_id = ''t'', cmd_session_id = ''s'', cmd_content = ''hello''\<rparr>"
  have "\<not> blank (cmd_content ?c)" by (simp add: blank_iff py_isspace_def)
  moreover have "int (length (cm_system_prompt ?cm)) + int (length (cmd_content ?c)) \<le> max_context_chars (cm_config ?cm)"
    by (simp add: new_context_manager_def default_context_config_def py_strip_def py_isspace_def)
  ultimately show ?thesis
    using build_request_bounded [of ?c ?cm "[]" "[]" "[] :: nat ToolSpec list" None] by auto
qed

end
