(* ===== verification/Agent_Loop.thy ===== *)
theory Agent_Loop
  imports Context_Manager
begin

text \<open>
  One turn of the Agent Loop, \<^verbatim>\<open>application/agent/agent_loop.py\<close>. The generator's yields are the
  list of events it has produced; the tools act on a world \<open>'w\<close>.

  What happens at the suspension points is an explicit schedule, over which the theorems
  quantify: whether the token was cancelled before the request was built, what each wait of the
  loop saw (an event, the end of the stream, an exception of the provider, cancellation, or the
  turn's time limit), whether closing the stream raised, and whether the token was cancelled by
  the time the loop was left. A schedule that ends without any of the leaving reads is a stream
  that never answers again: the time limit ends it. A \<^verbatim>\<open>CancelledError\<close> that the provider, the policy
  or a tool raises is no \<^verbatim>\<open>Exception\<close>: no handler of the loop catches it, and it leaves the generator
  after the events yielded so far. Cancellation of the surrounding task, which destroys the
  generator, is not part of the model.
\<close>

section \<open>State\<close>

record ('j, 'w) AgentLoop =
  al_provider_name :: string
  al_context_manager :: ContextManager
  al_max_turn_seconds :: real
  al_tool_registry :: "('j, 'w) ToolRegistry option"
  al_tool_policy :: "'j ToolSpec \<Rightarrow> 'j ToolCall \<Rightarrow> ExecutionContext \<Rightarrow> PolicyDecision res"

definition mk_AgentLoop ::
    "string \<Rightarrow> ContextManager \<Rightarrow> pyfloat \<Rightarrow> ('j, 'w) ToolRegistry option
      \<Rightarrow> ('j ToolSpec \<Rightarrow> 'j ToolCall \<Rightarrow> ExecutionContext \<Rightarrow> PolicyDecision res)
      \<Rightarrow> ('j, 'w) AgentLoop res" where
  "mk_AgentLoop pname cm secs reg pol =
    raise_if (\<not> isfinite secs \<or> float_value secs \<le> 0)
      (ValueError ''max_turn_seconds must be a finite positive number'')
    (Inr \<lparr>al_provider_name = pname, al_context_manager = cm, al_max_turn_seconds = float_value secs,
          al_tool_registry = reg, al_tool_policy = pol\<rparr>)"

datatype 'j provider_read =
    ReadEvent "'j LLMEvent option" | ReadEof | ReadRaises py_error | ReadCancelled | ReadTimeout

record 'j turn_schedule =
  sch_cancelled_before :: bool
  sch_open :: "unit res"
  sch_reads :: "'j provider_read list"
  sch_close :: "unit res"
  sch_cancelled_after :: bool

record ('j, 'w) turn_io =
  io_events :: "'j AgentEvent list"
  io_executed :: "'j ToolCall list"
  io_world :: 'w

definition emit :: "'j AgentEvent list \<Rightarrow> ('j, 'w) turn_io \<Rightarrow> ('j, 'w) turn_io" where
  "emit evs io = io\<lparr>io_events := io_events io @ evs\<rparr>"

record loop_state =
  text_parts :: "string list"
  speaking :: bool
  tool_executed :: bool
  terminal_type :: "LLMEventType option"
  provider_failure :: "(string \<times> string) option"
  completed_continuation :: "ProviderContinuation option"

definition initial_loop_state :: loop_state where
  "initial_loop_state =
    \<lparr>text_parts = [], speaking = False, tool_executed = False, terminal_type = None,
     provider_failure = None, completed_continuation = None\<rparr>"

text \<open>How one pass of the loop body ends.\<close>

datatype flow = Continue | Break bool | Return | Raise py_error

definition invalid_provider_stream :: py_error where
  "invalid_provider_stream =
    ProviderError ''invalid_provider_stream'' ''The provider returned an invalid event stream.''"

section \<open>The loop body\<close>

definition exec_context :: "string \<Rightarrow> ExecutionContext" where
  "exec_context t =
    \<lparr>ctx_turn_id = t, ctx_session_id = t, approved = True, approval = None\<rparr>"

definition run_tool ::
    "('j, 'w) AgentLoop \<Rightarrow> string \<Rightarrow> ('j, 'w) Tool \<Rightarrow> 'j ToolCall \<Rightarrow> loop_state \<Rightarrow> ('j, 'w) turn_io
      \<Rightarrow> flow \<times> loop_state \<times> ('j, 'w) turn_io" where
  "run_tool L t tool call ls io =
    (case al_tool_policy L (tool_spec tool) call (exec_context t) of
       Inl e \<Rightarrow> (Raise e, ls, io)
     | Inr d \<Rightarrow>
       let io1 = emit [ev_tool_started t call] io in
       if pd_outcome d = PolicyOutcome.ALLOW then
         (case tool_execute tool (arguments call) (exec_context t) (io_world io1) of
            (r, w) \<Rightarrow>
            let io2 = io1\<lparr>io_world := w, io_executed := io_executed io1 @ [call]\<rparr> in
            case r of
              Inl e \<Rightarrow> (Raise e, ls, io2)
            | Inr tr \<Rightarrow>
                let delta_text = [CHR 0x0A] @ ''[Result: '' @ result_content tr @ '']'' @ [CHR 0x0A]
                in (Continue,
                    ls\<lparr>text_parts := text_parts ls @ [delta_text], tool_executed := True\<rparr>,
                    emit [ev_tool_finished t call (result_content tr), ev_delta t delta_text] io2))
       else if pd_outcome d = PolicyOutcome.REQUIRE_APPROVAL then
         (Return, ls,
          emit [ev_approval_required t call,
                ev_completed t (''Action paused: '' @ [CHR 0x27] @ call_name call @ [CHR 0x27]
                                 @ '' requires approval.'') None,
                ev_state_changed t AgentState.IDLE] io1)
       else
         (Return, ls,
          emit [ev_tool_finished t call (''Denied: '' @ reason d),
                ev_failed t ''tool_denied'' (reason d),
                ev_state_changed t AgentState.IDLE] io1))"

definition tool_unavailable :: "string \<Rightarrow> loop_state \<Rightarrow> ('j, 'w) turn_io \<Rightarrow> flow \<times> loop_state \<times> ('j, 'w) turn_io" where
  "tool_unavailable t ls io =
    (Return, ls,
     emit [ev_state_changed t AgentState.ERROR,
           ev_failed t ''tool_execution_not_configured''
             ''Tool execution is disabled until ToolService and user approval are connected.'',
           ev_state_changed t AgentState.IDLE] io)"

definition handle_tool_call ::
    "('j, 'w) AgentLoop \<Rightarrow> string \<Rightarrow> 'j ToolCall option \<Rightarrow> loop_state \<Rightarrow> ('j, 'w) turn_io
      \<Rightarrow> flow \<times> loop_state \<times> ('j, 'w) turn_io" where
  "handle_tool_call L t call_opt ls io =
    (case call_opt of
       None \<Rightarrow> (Raise invalid_provider_stream, ls, io)
     | Some call \<Rightarrow>
         (case al_tool_registry L of
            None \<Rightarrow> tool_unavailable t ls io
          | Some reg \<Rightarrow>
              if \<not> registry_contains reg (call_name call) then tool_unavailable t ls io
              else (case registry_get reg (call_name call) of
                      None \<Rightarrow> tool_unavailable t ls io
                    | Some tool \<Rightarrow> run_tool L t tool call ls io)))"

definition handle_text ::
    "string \<Rightarrow> 'j LLMEvent \<Rightarrow> loop_state \<Rightarrow> ('j, 'w) turn_io
      \<Rightarrow> flow \<times> loop_state \<times> ('j, 'w) turn_io" where
  "handle_text t ev ls io =
    (if le_text ev = [] then (Raise invalid_provider_stream, ls, io)
     else (Continue, ls\<lparr>speaking := True, text_parts := text_parts ls @ [le_text ev]\<rparr>,
           emit ((if speaking ls then [] else [ev_state_changed t AgentState.SPEAKING])
                 @ [ev_delta t (le_text ev)]) io))"

definition handle_llm_event ::
    "('j, 'w) AgentLoop \<Rightarrow> string \<Rightarrow> 'j LLMEvent option \<Rightarrow> loop_state \<Rightarrow> ('j, 'w) turn_io
      \<Rightarrow> flow \<times> loop_state \<times> ('j, 'w) turn_io" where
  "handle_llm_event L t event ls io =
    (case event of
       None \<Rightarrow> (Raise invalid_provider_stream, ls, io)
     | Some ev \<Rightarrow>
       if terminal_type ls \<noteq> None then (Raise invalid_provider_stream, ls, io)
       else if le_continuation ev \<noteq> None \<and> le_type ev \<noteq> LLMEventType.COMPLETED
       then (Raise invalid_provider_stream, ls, io)
       else (case le_type ev of
           LLMEventType.TEXT_DELTA \<Rightarrow> handle_text t ev ls io
         | LLMEventType.TOOL_CALL \<Rightarrow> handle_tool_call L t (le_tool_call ev) ls io
         | LLMEventType.ERROR \<Rightarrow>
             if le_error_code ev = [] \<or> le_error_message ev = []
             then (Raise invalid_provider_stream, ls, io)
             else (Continue, ls\<lparr>terminal_type := Some LLMEventType.ERROR,
                     provider_failure := Some (le_error_code ev, le_error_message ev)\<rparr>, io)
         | LLMEventType.COMPLETED \<Rightarrow>
             if (case le_continuation ev of None \<Rightarrow> False | Some c \<Rightarrow> provider_name c \<noteq> al_provider_name L)
             then (Raise (ProviderError ''provider_continuation_mismatch''
                     ''The provider returned continuation state for a different provider.''), ls, io)
             else (Continue, ls\<lparr>terminal_type := Some LLMEventType.COMPLETED,
                     completed_continuation := le_continuation ev\<rparr>, io)))"

fun read_loop ::
    "('j, 'w) AgentLoop \<Rightarrow> string \<Rightarrow> 'j provider_read list \<Rightarrow> loop_state \<Rightarrow> ('j, 'w) turn_io
      \<Rightarrow> flow \<times> loop_state \<times> ('j, 'w) turn_io" where
  "read_loop L t [] ls io = (Raise TimeoutError, ls, io)"
| "read_loop L t (ReadCancelled # rs) ls io = (Break True, ls, io)"
| "read_loop L t (ReadTimeout # rs) ls io = (Raise TimeoutError, ls, io)"
| "read_loop L t (ReadEof # rs) ls io = (Break False, ls, io)"
| "read_loop L t (ReadRaises e # rs) ls io = (Raise e, ls, io)"
| "read_loop L t (ReadEvent ev # rs) ls io =
    (case handle_llm_event L t ev ls io of
       (Continue, ls', io') \<Rightarrow> read_loop L t rs ls' io'
     | (fl, ls', io') \<Rightarrow> (fl, ls', io'))"

section \<open>The turn\<close>

definition finish_turn ::
    "string \<Rightarrow> bool \<Rightarrow> loop_state \<Rightarrow> ('j, 'w) turn_io \<Rightarrow> (unit, ('j, 'w) turn_io) sres" where
  "finish_turn t cancelled ls io =
    (if cancelled
     then (Inr (), emit [ev_cancelled t, ev_state_changed t AgentState.IDLE] io)
     else let terminal = (if terminal_type ls = None \<and> tool_executed ls
                          then Some LLMEventType.COMPLETED else terminal_type ls)
          in case terminal of
               None \<Rightarrow> (Inl invalid_provider_stream, io)
             | Some ty \<Rightarrow>
                 if ty = LLMEventType.ERROR
                 then (case provider_failure ls of
                         None \<Rightarrow> (Inl invalid_provider_stream, io)
                       | Some (c, m) \<Rightarrow> (Inl (ProviderError c m), io))
                 else (Inr (), emit [ev_state_changed t AgentState.IDLE,
                                     ev_completed t (concat (text_parts ls)) (completed_continuation ls)] io))"

definition stream_turn ::
    "('j, 'w) AgentLoop \<Rightarrow> string \<Rightarrow> 'j turn_schedule \<Rightarrow> ('j, 'w) turn_io
      \<Rightarrow> (unit, ('j, 'w) turn_io) sres" where
  "stream_turn L t sch io =
    with_res (sch_open sch) io (\<lambda>_.
    case read_loop L t (sch_reads sch) initial_loop_state io of
      (fl, ls, io') \<Rightarrow>
        with_res (sch_close sch) io' (\<lambda>_.
        case fl of
          Raise e \<Rightarrow> (Inl e, io')
        | Return \<Rightarrow> (Inr (), io')
        | Break coop \<Rightarrow> finish_turn t (coop \<or> sch_cancelled_after sch) ls io'
        | Continue \<Rightarrow> (Inr (), io')))"

definition turn_body ::
    "('j, 'w) AgentLoop \<Rightarrow> UserMessageCommand \<Rightarrow> ChatMessage list \<Rightarrow> MemoryRecord list
      \<Rightarrow> 'j ToolSpec list \<Rightarrow> ProviderContinuation option \<Rightarrow> 'j turn_schedule
      \<Rightarrow> ('j, 'w) turn_io \<Rightarrow> (unit, ('j, 'w) turn_io) sres" where
  "turn_body L command history memories tools continuation sch io =
    (let t = cmd_turn_id command in
     if sch_cancelled_before sch
     then (Inr (), emit [ev_cancelled t, ev_state_changed t AgentState.IDLE] io)
     else if (case continuation of None \<Rightarrow> False | Some c \<Rightarrow> provider_name c \<noteq> al_provider_name L)
     then (Inl (ProviderError ''provider_continuation_mismatch''
             ''The continuation does not belong to the selected provider.''), io)
     else let effective_tools =
                (if tools = [] then (case al_tool_registry L of None \<Rightarrow> tools | Some reg \<Rightarrow> list_specs reg)
                 else tools)
          in with_res (build_request (al_context_manager L) command history memories effective_tools
                         continuation) io (\<lambda>request.
             stream_turn L t sch (emit [ev_state_changed t AgentState.THINKING] io)))"

text \<open>
  The \<^verbatim>\<open>except\<close> clauses. \<open>format_g\<close> is Python's \<^verbatim>\<open>:g\<close> number format, used in one message only.
  \<^verbatim>\<open>except Exception\<close> does not catch \<^verbatim>\<open>CancelledError\<close>, which is a \<^verbatim>\<open>BaseException\<close>: raised by the
  provider, the policy or a tool it leaves the generator, and no further event is yielded.
\<close>

definition report_failure ::
    "(real \<Rightarrow> string) \<Rightarrow> ('j, 'w) AgentLoop \<Rightarrow> string \<Rightarrow> py_error \<Rightarrow> ('j, 'w) turn_io
      \<Rightarrow> (unit, ('j, 'w) turn_io) sres" where
  "report_failure format_g L t err io =
    (if err = CancelledError then (Inl err, io)
     else let (code, message) =
       (case err of
          TimeoutError \<Rightarrow> (''turn_timeout'',
            ''The Agent turn exceeded '' @ format_g (al_max_turn_seconds L) @ '' seconds.'')
        | ContextBudgetError m \<Rightarrow> (''context_budget_exceeded'', m)
        | ProviderError c m \<Rightarrow> (c, m)
        | _ \<Rightarrow> (''unexpected_agent_error'', ''The Agent turn failed unexpectedly.''))
     in (Inr (), emit [ev_state_changed t AgentState.ERROR, ev_failed t code message,
              ev_state_changed t AgentState.IDLE] io))"

text \<open>
  The generator: the result says whether it ends or which exception leaves it, the state holds
  what it has yielded and done until then.
\<close>

definition run ::
    "(real \<Rightarrow> string) \<Rightarrow> ('j, 'w) AgentLoop \<Rightarrow> UserMessageCommand \<Rightarrow> ChatMessage list
      \<Rightarrow> MemoryRecord list \<Rightarrow> 'j ToolSpec list \<Rightarrow> ProviderContinuation option
      \<Rightarrow> 'j turn_schedule \<Rightarrow> 'w \<Rightarrow> (unit, ('j, 'w) turn_io) sres" where
  "run format_g L command history memories tools continuation sch w =
    (let t = cmd_turn_id command;
         io = \<lparr>io_events = [ev_started t, ev_state_changed t AgentState.LISTENING],
               io_executed = [], io_world = w\<rparr>
     in case turn_body L command history memories tools continuation sch io of
          (Inr _, io') \<Rightarrow> (Inr (), io')
        | (Inl err, io') \<Rightarrow> report_failure format_g L t err io')"

abbreviation run_events where
  "run_events fg L command history memories tools cont sch w \<equiv>
    io_events (snd (run fg L command history memories tools cont sch w))"

abbreviation run_executed where
  "run_executed fg L command history memories tools cont sch w \<equiv>
    io_executed (snd (run fg L command history memories tools cont sch w))"

section \<open>What a pass may add\<close>

definition is_terminal :: "'j AgentEvent \<Rightarrow> bool" where
  "is_terminal e \<longleftrightarrow> ae_type e \<in>
     {AgentEventType.TURN_COMPLETED, AgentEventType.TURN_CANCELLED, AgentEventType.TURN_FAILED}"

definition deltas :: "'j AgentEvent list \<Rightarrow> string" where
  "deltas evs = concat (map ae_text (filter (\<lambda>e. ae_type e = AgentEventType.TEXT_DELTA) evs))"

definition states :: "'j AgentEvent list \<Rightarrow> AgentState option list" where
  "states evs = map ae_state (filter (\<lambda>e. ae_type e = AgentEventType.STATE_CHANGED) evs)"

definition asks_approval :: "'j AgentEvent list \<Rightarrow> bool" where
  "asks_approval evs \<longleftrightarrow> (\<exists>e \<in> set evs. ae_type e = AgentEventType.APPROVAL_REQUIRED)"

lemma event_list_simps [simp]:
  "deltas [] = []" "deltas (xs @ ys) = deltas xs @ deltas ys"
  "states [] = []" "states (xs @ ys) = states xs @ states ys"
  "\<not> asks_approval []" "asks_approval (xs @ ys) \<longleftrightarrow> asks_approval xs \<or> asks_approval ys"
  by (auto simp: deltas_def states_def asks_approval_def)

lemma event_cons_simps [simp]:
  "deltas (e # xs) = (if ae_type e = AgentEventType.TEXT_DELTA then ae_text e else []) @ deltas xs"
  "states (e # xs) = (if ae_type e = AgentEventType.STATE_CHANGED then [ae_state e] else []) @ states xs"
  "asks_approval (e # xs) \<longleftrightarrow> ae_type e = AgentEventType.APPROVAL_REQUIRED \<or> asks_approval xs"
  by (auto simp: deltas_def states_def asks_approval_def)

text \<open>A call the loop may execute: its tool is registered and the policy allows it.\<close>

definition permitted :: "('j, 'w) AgentLoop \<Rightarrow> string \<Rightarrow> 'j ToolCall \<Rightarrow> bool" where
  "permitted L t c \<longleftrightarrow>
     (\<exists>reg tool d. al_tool_registry L = Some reg \<and> registry_get reg (call_name c) = Some tool \<and>
        al_tool_policy L (tool_spec tool) c (exec_context t) = Inr d \<and>
        pd_outcome d = PolicyOutcome.ALLOW)"

definition io_adds ::
    "('j, 'w) AgentLoop \<Rightarrow> string \<Rightarrow> ('j, 'w) turn_io \<Rightarrow> 'j AgentEvent list \<Rightarrow> ('j, 'w) turn_io \<Rightarrow> bool" where
  "io_adds L t io evs io' \<longleftrightarrow>
     io_events io' = io_events io @ evs \<and> (\<forall>e \<in> set evs. ae_turn_id e = t) \<and>
     (\<exists>calls. io_executed io' = io_executed io @ calls \<and> (\<forall>c \<in> set calls. permitted L t c) \<and>
        (calls = [] \<longrightarrow> io_world io' = io_world io))"

lemma io_adds_refl [simp]: "io_adds L t io [] io"
  by (simp add: io_adds_def)

lemma io_adds_emit [simp]: "(\<forall>e \<in> set evs. ae_turn_id e = t) \<Longrightarrow> io_adds L t io evs (emit evs io)"
  by (simp add: io_adds_def emit_def)

lemma io_adds_trans: "io_adds L t io xs io' \<Longrightarrow> io_adds L t io' ys io'' \<Longrightarrow> io_adds L t io (xs @ ys) io''"
  unfolding io_adds_def by (auto simp: ball_Un)

definition terminals :: "'j AgentEvent list \<Rightarrow> nat" where
  "terminals evs = length (filter is_terminal evs)"

lemma terminals_simps [simp]:
  "terminals [] = 0" "terminals (xs @ ys) = terminals xs + terminals ys"
  "terminals (e # xs) = (if is_terminal e then Suc (terminals xs) else terminals xs)"
  by (simp_all add: terminals_def)

definition ends_idle :: "'j AgentEvent list \<Rightarrow> bool" where
  "ends_idle evs \<longleftrightarrow> (\<exists>pre. states evs = pre @ [Some AgentState.IDLE])"

definition pass_ok ::
    "('j, 'w) AgentLoop \<Rightarrow> string \<Rightarrow> loop_state \<Rightarrow> ('j, 'w) turn_io
      \<Rightarrow> flow \<times> loop_state \<times> ('j, 'w) turn_io \<Rightarrow> bool" where
  "pass_ok L t ls io res \<longleftrightarrow>
     (case res of (fl, ls', io') \<Rightarrow>
        \<exists>evs. io_adds L t io evs io' \<and>
          (if fl = Return
           then terminals evs = 1 \<and> ends_idle evs \<and>
             (\<not> asks_approval evs \<longrightarrow> (\<forall>e \<in> set evs. ae_type e \<noteq> AgentEventType.TURN_COMPLETED))
           else terminals evs = 0 \<and> \<not> asks_approval evs \<and>
             concat (text_parts ls') = concat (text_parts ls) @ deltas evs))"

lemma pass_ok_quiet: "fl \<noteq> Return \<Longrightarrow> text_parts ls' = text_parts ls \<Longrightarrow> pass_ok L t ls io (fl, ls', io)"
  unfolding pass_ok_def by (intro case_prodI exI [of _ "[]"]) simp

lemma run_tool_pass:
  assumes "al_tool_registry L = Some reg" and "registry_get reg (call_name call) = Some tool"
  shows "pass_ok L t ls io (run_tool L t tool call ls io)"
proof (cases "al_tool_policy L (tool_spec tool) call (exec_context t)")
  case (Inl e)
  then show ?thesis by (simp add: run_tool_def pass_ok_quiet)
next
  case (Inr d)
  show ?thesis
  proof (cases "pd_outcome d = PolicyOutcome.ALLOW")
    case True
    then have perm: "permitted L t call" using assms Inr by (auto simp: permitted_def)
    obtain r w where ex: "tool_execute tool (arguments call) (exec_context t) (io_world io) = (r, w)"
      by fastforce
    let ?io2 = "(emit [ev_tool_started t call] io)\<lparr>io_world := w, io_executed := io_executed io @ [call]\<rparr>"
    have two: "io_adds L t io [ev_tool_started t call] ?io2"
      using perm by (auto simp: io_adds_def emit_def agent_event_defs)
    show ?thesis
    proof (cases r)
      case (Inl e)
      with two Inr True ex show ?thesis
        by (auto simp: run_tool_def pass_ok_def emit_def is_terminal_def agent_event_defs
            intro!: exI [of _ "[ev_tool_started t call]"])
    next
      case res: (Inr tr)
      define delta where "delta = [CHR 0x0A] @ ''[Result: '' @ result_content tr @ '']'' @ [CHR 0x0A]"
      let ?more = "[ev_tool_finished t call (result_content tr), ev_delta t delta]"
      have "io_adds L t io ([ev_tool_started t call] @ ?more) (emit ?more ?io2)"
        by (rule io_adds_trans [OF two io_adds_emit]) (simp add: agent_event_defs)
      moreover have "run_tool L t tool call ls io =
          (Continue, ls\<lparr>text_parts := text_parts ls @ [delta], tool_executed := True\<rparr>, emit ?more ?io2)"
        using res Inr True ex by (simp add: run_tool_def emit_def delta_def Let_def)
      ultimately show ?thesis
        unfolding pass_ok_def
        by (intro case_prodI2 exI [of _ "[ev_tool_started t call] @ ?more"])
          (auto simp: is_terminal_def agent_event_defs)
    qed
  next
    case False
    define more where "more =
      (if pd_outcome d = PolicyOutcome.REQUIRE_APPROVAL
       then [ev_approval_required t call,
             ev_completed t (''Action paused: '' @ [CHR 0x27] @ call_name call @ [CHR 0x27]
                              @ '' requires approval.'') None, ev_state_changed t AgentState.IDLE]
       else [ev_tool_finished t call (''Denied: '' @ reason d), ev_failed t ''tool_denied'' (reason d),
             ev_state_changed t AgentState.IDLE])"
    have "io_adds L t io ([ev_tool_started t call] @ more) (emit more (emit [ev_tool_started t call] io))"
      by (rule io_adds_trans [OF io_adds_emit io_adds_emit]) (auto simp: more_def agent_event_defs)
    moreover have "run_tool L t tool call ls io = (Return, ls, emit more (emit [ev_tool_started t call] io))"
      using Inr False by (simp add: run_tool_def more_def Let_def)
    ultimately show ?thesis
      unfolding pass_ok_def
      by (intro case_prodI2 exI [of _ "[ev_tool_started t call] @ more"])
        (auto simp: more_def is_terminal_def agent_event_defs ends_idle_def)
  qed
qed

lemma tool_unavailable_pass: "pass_ok L t ls io (tool_unavailable t ls io)"
  unfolding pass_ok_def tool_unavailable_def
  by (intro case_prodI exI conjI, rule io_adds_emit)
    (auto simp: is_terminal_def agent_event_defs ends_idle_def)

lemma handle_text_pass:
  fixes L :: "('j, 'w) AgentLoop"
  shows "pass_ok L t ls io (handle_text t e ls io)"
proof (cases "le_text e = []")
  case True
  then show ?thesis by (simp add: handle_text_def pass_ok_quiet)
next
  case False
  define evs :: "'j AgentEvent list" where "evs = (if speaking ls then [] else [ev_state_changed t AgentState.SPEAKING])
    @ [ev_delta t (le_text e)]"
  have "io_adds L t io evs (emit evs io)"
    by (rule io_adds_emit) (simp add: evs_def agent_event_defs)
  then show ?thesis
    using False unfolding pass_ok_def handle_text_def evs_def [symmetric]
    by (simp, intro exI [of _ evs]) (simp add: evs_def is_terminal_def agent_event_defs)
qed

lemma handle_llm_event_pass: "pass_ok L t ls io (handle_llm_event L t ev ls io)"
proof -
  have "pass_ok L t ls io (handle_tool_call L t c ls io)" for c
    unfolding handle_tool_call_def
    by (auto intro!: pass_ok_quiet tool_unavailable_pass run_tool_pass split: option.splits)
  with handle_text_pass show ?thesis
    unfolding handle_llm_event_def
    by (auto intro!: pass_ok_quiet split: option.splits LLMEventType.splits)
qed

lemma pass_ok_trans:
  assumes "pass_ok L t ls io (Continue, ls', io')" and "pass_ok L t ls' io' res"
  shows "pass_ok L t ls io res"
proof -
  obtain xs where xs: "io_adds L t io xs io'" "terminals xs = 0" "\<not> asks_approval xs"
      "concat (text_parts ls') = concat (text_parts ls) @ deltas xs"
    using assms(1) by (auto simp: pass_ok_def)
  obtain fl ls2 io2 where res: "res = (fl, ls2, io2)" by (cases res)
  then obtain ys where ys: "io_adds L t io' ys io2"
      "if fl = Return
       then terminals ys = 1 \<and> ends_idle ys \<and>
         (\<not> asks_approval ys \<longrightarrow> (\<forall>e \<in> set ys. ae_type e \<noteq> AgentEventType.TURN_COMPLETED))
       else terminals ys = 0 \<and> \<not> asks_approval ys \<and>
         concat (text_parts ls2) = concat (text_parts ls') @ deltas ys"
    using assms(2) by (auto simp: pass_ok_def)
  have none: "\<forall>e \<in> set xs. ae_type e \<noteq> AgentEventType.TURN_COMPLETED"
    using xs(2) by (auto simp: terminals_def is_terminal_def filter_empty_conv)
  have "ends_idle ys \<Longrightarrow> ends_idle (xs @ ys)" by (auto simp: ends_idle_def)
  with xs ys none io_adds_trans [OF xs(1) ys(1)] show ?thesis
    unfolding pass_ok_def res by (intro case_prodI exI [of _ "xs @ ys"]) auto
qed

lemma read_loop_pass: "pass_ok L t ls io (read_loop L t rs ls io)"
proof (induction L t rs ls io rule: read_loop.induct)
  case (6 L t ev rs ls io)
  obtain fl ls' io' where h: "handle_llm_event L t ev ls io = (fl, ls', io')" by (cases "handle_llm_event L t ev ls io")
  then have p: "pass_ok L t ls io (fl, ls', io')" using handle_llm_event_pass by metis
  show ?case
  proof (cases fl)
    case Continue
    with 6 [OF h [symmetric] Continue refl] h p show ?thesis by (simp add: pass_ok_trans)
  qed (use h p in simp_all)
qed (simp_all add: pass_ok_quiet)

lemma read_loop_not_continue: "fst (read_loop L t rs ls io) \<noteq> Continue"
  by (induction L t rs ls io rule: read_loop.induct)
    (auto split: prod.splits flow.splits)

section \<open>Whole turns\<close>

text \<open>What the turn body adds before its handlers run.\<close>

definition body_ok ::
    "('j, 'w) AgentLoop \<Rightarrow> string \<Rightarrow> ('j, 'w) turn_io \<Rightarrow> (unit, ('j, 'w) turn_io) sres \<Rightarrow> bool" where
  "body_ok L t io res \<longleftrightarrow>
     (\<exists>evs. io_adds L t io evs (snd res) \<and>
        (if is_ok (fst res)
         then terminals evs = 1 \<and> ends_idle evs \<and>
           (\<forall>e \<in> set evs. ae_type e = AgentEventType.TURN_COMPLETED \<and> \<not> asks_approval evs \<longrightarrow>
              ae_text e = deltas evs)
         else terminals evs = 0))"

lemma body_ok_error: "body_ok L t io (Inl e, io)"
  by (auto simp: body_ok_def intro!: exI [of _ "[]"])

lemma body_ok_cancelled:
  assumes "io_adds L t io xs io'" and "terminals xs = 0"
  shows "body_ok L t io (Inr (), emit [ev_cancelled t, ev_state_changed t AgentState.IDLE] io')"
proof -
  let ?ys = "[ev_cancelled t, ev_state_changed t AgentState.IDLE] :: 'a AgentEvent list"
  have "io_adds L t io (xs @ ?ys) (emit ?ys io')"
    by (rule io_adds_trans [OF assms(1) io_adds_emit]) (simp add: agent_event_defs)
  moreover have "\<forall>e \<in> set xs. ae_type e \<noteq> AgentEventType.TURN_COMPLETED"
    using assms(2) by (auto simp: terminals_def is_terminal_def filter_empty_conv)
  ultimately show ?thesis
    using assms(2) unfolding body_ok_def
    by (intro exI [of _ "xs @ ?ys"]) (auto simp: is_terminal_def agent_event_defs ends_idle_def)
qed

lemma body_ok_completed:
  assumes "io_adds L t io xs io'" and "terminals xs = 0" and "txt0 = deltas xs"
  shows "body_ok L t io (Inr (), emit [ev_state_changed t AgentState.IDLE, ev_completed t txt0 c] io')"
proof -
  let ?ys = "[ev_state_changed t AgentState.IDLE, ev_completed t txt0 c] :: 'a AgentEvent list"
  have "io_adds L t io (xs @ ?ys) (emit ?ys io')"
    by (rule io_adds_trans [OF assms(1) io_adds_emit]) (simp add: agent_event_defs)
  moreover have "\<forall>e \<in> set xs. ae_type e \<noteq> AgentEventType.TURN_COMPLETED"
    using assms(2) by (auto simp: terminals_def is_terminal_def filter_empty_conv)
  ultimately show ?thesis
    using assms(2,3) unfolding body_ok_def
    by (intro exI [of _ "xs @ ?ys"]) (auto simp: is_terminal_def agent_event_defs ends_idle_def)
qed

lemma finish_turn_body:
  assumes "io_adds L t io xs io'" and "terminals xs = 0" and "concat (text_parts ls) = deltas xs"
  shows "body_ok L t io (finish_turn t b ls io')"
proof -
  have err: "body_ok L t io (Inl e, io')" for e
    using assms(1,2) by (auto simp: body_ok_def)
  show ?thesis
    using err body_ok_cancelled [OF assms(1,2)] body_ok_completed [OF assms]
    by (auto simp: finish_turn_def Let_def split: option.splits)
qed

lemma stream_turn_body:
  assumes "sch_close sch = Inr ()"
  shows "body_ok L t io (stream_turn L t sch io)"
proof (cases "sch_open sch")
  case (Inl e)
  then show ?thesis by (simp add: stream_turn_def body_ok_error)
next
  case (Inr u)
  obtain fl ls io' where r: "read_loop L t (sch_reads sch) initial_loop_state io = (fl, ls, io')"
    by (cases "read_loop L t (sch_reads sch) initial_loop_state io")
  with read_loop_pass [of L t initial_loop_state io "sch_reads sch"] obtain evs where
      evs: "io_adds L t io evs io'"
      "if fl = Return
       then terminals evs = 1 \<and> ends_idle evs \<and>
         (\<not> asks_approval evs \<longrightarrow> (\<forall>e \<in> set evs. ae_type e \<noteq> AgentEventType.TURN_COMPLETED))
       else terminals evs = 0 \<and> \<not> asks_approval evs \<and> concat (text_parts ls) = deltas evs"
    by (auto simp: pass_ok_def initial_loop_state_def)
  have "fl \<noteq> Continue" using read_loop_not_continue r by (metis fst_conv)
  then show ?thesis
    using r Inr assms evs finish_turn_body [OF evs(1)]
    by (cases fl) (auto simp: stream_turn_def body_ok_def)
qed

lemma body_ok_prefix:
  assumes "io_adds L t io xs io'" and "terminals xs = 0" and "deltas xs = []" and "\<not> asks_approval xs"
    and "body_ok L t io' res"
  shows "body_ok L t io res"
proof -
  obtain ys where ys: "io_adds L t io' ys (snd res)"
      "if is_ok (fst res)
       then terminals ys = 1 \<and> ends_idle ys \<and>
         (\<forall>e \<in> set ys. ae_type e = AgentEventType.TURN_COMPLETED \<and> \<not> asks_approval ys \<longrightarrow> ae_text e = deltas ys)
       else terminals ys = 0"
    using assms(5) by (auto simp: body_ok_def)
  have "\<forall>e \<in> set xs. ae_type e \<noteq> AgentEventType.TURN_COMPLETED"
    using assms(2) by (auto simp: terminals_def is_terminal_def filter_empty_conv)
  moreover have "ends_idle ys \<Longrightarrow> ends_idle (xs @ ys)" by (auto simp: ends_idle_def)
  ultimately show ?thesis
    using assms(2-4) ys io_adds_trans [OF assms(1) ys(1)]
    unfolding body_ok_def by (intro exI [of _ "xs @ ys"]) auto
qed

lemma turn_body_ok:
  assumes "sch_close sch = Inr ()"
  shows "body_ok L (cmd_turn_id command) io (turn_body L command history memories tools cont sch io)"
proof -
  let ?t = "cmd_turn_id command"
  have think: "io_adds L ?t io [ev_state_changed ?t AgentState.THINKING]
      (emit [ev_state_changed ?t AgentState.THINKING] io)"
    by (rule io_adds_emit) (simp add: agent_event_defs)
  have "body_ok L ?t io (stream_turn L ?t sch (emit [ev_state_changed ?t AgentState.THINKING] io))"
    by (rule body_ok_prefix [OF think _ _ _ stream_turn_body [OF assms]])
      (simp_all add: is_terminal_def agent_event_defs)
  then show ?thesis
    using body_ok_error body_ok_cancelled [OF io_adds_refl]
    by (auto simp: turn_body_def Let_def with_res_def split: sum.splits)
qed

lemma report_failure_cancelled [simp]: "report_failure fg L t CancelledError io = (Inl CancelledError, io)"
  by (simp add: report_failure_def)

lemma report_failure_adds:
  "err \<noteq> CancelledError \<Longrightarrow>
   \<exists>evs. report_failure fg L t err io = (Inr (), emit evs io) \<and> (\<forall>e \<in> set evs. ae_turn_id e = t) \<and>
     terminals evs = 1 \<and> ends_idle evs \<and> (\<forall>e \<in> set evs. ae_type e \<noteq> AgentEventType.TURN_COMPLETED)"
  unfolding report_failure_def
  by (cases "case err of TimeoutError \<Rightarrow> (''turn_timeout'',
            ''The Agent turn exceeded '' @ fg (al_max_turn_seconds L) @ '' seconds.'')
        | ContextBudgetError m \<Rightarrow> (''context_budget_exceeded'', m)
        | ProviderError c m \<Rightarrow> (c, m)
        | _ \<Rightarrow> (''unexpected_agent_error'', ''The Agent turn failed unexpectedly.'')")
    (auto simp: is_terminal_def agent_event_defs ends_idle_def intro!: exI)

lemma stream_turn_adds: "\<exists>evs. io_adds L t io evs (snd (stream_turn L t sch io))"
proof (cases "sch_open sch")
  case (Inl e)
  then show ?thesis by (auto simp: stream_turn_def intro!: exI [of _ "[]"])
next
  case (Inr u)
  obtain fl ls io' where r: "read_loop L t (sch_reads sch) initial_loop_state io = (fl, ls, io')"
    by (cases "read_loop L t (sch_reads sch) initial_loop_state io")
  with read_loop_pass [of L t initial_loop_state io "sch_reads sch"] obtain evs where
      evs: "io_adds L t io evs io'" by (auto simp: pass_ok_def)
  have "\<exists>xs. io_adds L t io' xs io'"
      "\<exists>xs. io_adds L t io' xs (emit [ev_cancelled t, ev_state_changed t AgentState.IDLE] io')"
      "\<exists>xs. io_adds L t io' xs (emit [ev_state_changed t AgentState.IDLE, ev_completed t x c] io')" for x c
    by (rule exI, rule io_adds_refl io_adds_emit, (simp add: agent_event_defs)?)+
  then have "\<exists>xs. io_adds L t io' xs (snd (finish_turn t b ls io'))" for b
    by (simp add: finish_turn_def Let_def split: option.splits)
  then have fin: "\<exists>xs. io_adds L t io xs (snd (finish_turn t b ls io'))" for b
    using io_adds_trans [OF evs] by blast
  show ?thesis
    using r Inr evs fin
    by (cases fl; cases "sch_close sch") (auto simp: stream_turn_def)
qed

lemma turn_body_adds:
  "\<exists>evs. io_adds L (cmd_turn_id command) io evs
     (snd (turn_body L command history memories tools cont sch io))"
proof -
  let ?t = "cmd_turn_id command"
  have think: "io_adds L ?t io [ev_state_changed ?t AgentState.THINKING]
      (emit [ev_state_changed ?t AgentState.THINKING] io)"
    by (rule io_adds_emit) (simp add: agent_event_defs)
  have canc: "\<exists>evs. io_adds L ?t io evs (emit [ev_cancelled ?t, ev_state_changed ?t AgentState.IDLE] io)"
    by (rule exI, rule io_adds_emit) (simp add: agent_event_defs)
  have "\<exists>evs. io_adds L ?t io evs (snd (stream_turn L ?t sch (emit [ev_state_changed ?t AgentState.THINKING] io)))"
    using stream_turn_adds io_adds_trans [OF think] by blast
  then show ?thesis
    using canc io_adds_refl [of L ?t io]
    by (auto simp: turn_body_def Let_def with_res_def simp del: io_adds_refl split: sum.splits)
qed

lemma run_executes_permitted:
  "(\<forall>c \<in> set (run_executed fg L command history memories tools cont sch w).
      permitted L (cmd_turn_id command) c) \<and>
   (run_executed fg L command history memories tools cont sch w = [] \<longrightarrow>
      io_world (snd (run fg L command history memories tools cont sch w)) = w)"
proof -
  let ?t = "cmd_turn_id command"
  let ?io = "\<lparr>io_events = [ev_started ?t, ev_state_changed ?t AgentState.LISTENING],
    io_executed = [], io_world = w\<rparr>"
  obtain r io' where b: "turn_body L command history memories tools cont sch ?io = (r, io')" by fastforce
  then obtain calls where calls: "io_executed io' = calls" "\<forall>c \<in> set calls. permitted L ?t c"
      "calls = [] \<longrightarrow> io_world io' = w"
    using turn_body_adds [of L command ?io history memories tools cont sch] by (auto simp: io_adds_def)
  have "io_executed (snd (report_failure fg L ?t e io')) = calls"
      "io_world (snd (report_failure fg L ?t e io')) = io_world io'" for e
    using report_failure_adds [of e fg L ?t io'] calls(1) by (cases "e = CancelledError"; auto simp: emit_def)+
  with b calls show ?thesis by (cases r) (simp_all add: run_def Let_def)
qed

text \<open>The client side of the policy contract.\<close>

context fail_closed_policy
begin

lemma permitted_safe:
  assumes "al_tool_policy L = pol" and "permitted L t c"
  shows "\<exists>reg tool. al_tool_registry L = Some reg \<and> registry_get reg (call_name c) = Some tool \<and>
    spec_name (tool_spec tool) = call_name c \<and> risk (tool_spec tool) = ToolRisk.SAFE"
proof -
  obtain reg tool d where h: "al_tool_registry L = Some reg" "registry_get reg (call_name c) = Some tool"
      "pol (tool_spec tool) c (exec_context t) = Inr d" "pd_outcome d = PolicyOutcome.ALLOW"
    using assms by (auto simp: permitted_def)
  have "approval (exec_context t) = None" by (simp add: exec_context_def)
  from allows_only_safe [OF this h(3,4)] h(1,2) show ?thesis by blast
qed

lemma run_executes_safe:
  assumes "al_tool_policy L = pol"
  shows "\<forall>c \<in> set (run_executed fg L command history memories tools cont sch w).
    \<exists>reg tool. al_tool_registry L = Some reg \<and> registry_get reg (call_name c) = Some tool \<and>
      spec_name (tool_spec tool) = call_name c \<and> risk (tool_spec tool) = ToolRisk.SAFE"
  using permitted_safe [OF assms] run_executes_permitted [of fg L command history memories tools cont sch w]
  by blast

end

text \<open>Who may raise \<^verbatim>\<open>CancelledError\<close>: the provider, its stream, the policy or a tool.\<close>

definition callee_cancelled :: "('j, 'w) AgentLoop \<Rightarrow> bool" where
  "callee_cancelled L \<longleftrightarrow>
     (\<exists>spec call ctx. al_tool_policy L spec call ctx = Inl CancelledError) \<or>
     (\<exists>reg name tool args ctx w. al_tool_registry L = Some reg \<and> registry_get reg name = Some tool \<and>
        fst (tool_execute tool args ctx w) = Inl CancelledError)"

definition raises_cancelled :: "('j, 'w) AgentLoop \<Rightarrow> 'j turn_schedule \<Rightarrow> bool" where
  "raises_cancelled L sch \<longleftrightarrow>
     sch_open sch = Inl CancelledError \<or> ReadRaises CancelledError \<in> set (sch_reads sch) \<or>
     sch_close sch = Inl CancelledError \<or> callee_cancelled L"

lemma run_tool_cancelled:
  assumes "al_tool_registry L = Some reg" "registry_get reg name = Some tool"
    "fst (run_tool L t tool call ls io) = Raise CancelledError"
  shows "callee_cancelled L"
proof (cases "al_tool_policy L (tool_spec tool) call (exec_context t)")
  case (Inl e)
  with assms(3) show ?thesis by (auto simp: run_tool_def callee_cancelled_def)
next
  case (Inr d)
  obtain r w where x: "tool_execute tool (arguments call) (exec_context t) (io_world io) = (r, w)" by fastforce
  then have "r = Inl CancelledError"
    using assms(3) Inr by (auto simp: run_tool_def Let_def emit_def split: if_splits sum.splits)
  then show ?thesis using x assms(1,2) unfolding callee_cancelled_def by (metis fst_conv)
qed

lemma handle_llm_event_cancelled:
  assumes "fst (handle_llm_event L t ev ls io) = Raise CancelledError"
  shows "callee_cancelled L"
proof -
  have "callee_cancelled L" if "fst (handle_tool_call L t c ls io) = Raise CancelledError" for c
    using that run_tool_cancelled
    by (fastforce simp: handle_tool_call_def tool_unavailable_def invalid_provider_stream_def split: option.splits if_splits)
  with assms show ?thesis
    by (auto simp: handle_llm_event_def handle_text_def invalid_provider_stream_def
        split: option.splits if_splits LLMEventType.splits)
qed

lemma read_loop_cancelled:
  "fst (read_loop L t rs ls io) = Raise CancelledError \<Longrightarrow>
   ReadRaises CancelledError \<in> set rs \<or> callee_cancelled L"
proof (induction L t rs ls io rule: read_loop.induct)
  case (6 L t ev rs ls io)
  obtain fl ls1 io1 where h: "handle_llm_event L t ev ls io = (fl, ls1, io1)" by (cases "handle_llm_event L t ev ls io")
  show ?case
  proof (cases fl)
    case Continue
    with 6 h show ?thesis by auto
  qed (use 6 h handle_llm_event_cancelled [of L t ev ls io] in auto)
qed auto

lemma turn_body_cancelled:
  assumes "fst (turn_body L command history memories tools cont sch io) = Inl CancelledError"
  shows "raises_cancelled L sch"
proof -
  have req: "build_request (al_context_manager L) command history memories ts cont \<noteq> Inl CancelledError" for ts
    by (auto simp: build_request_def mk_ChatMessage_def raise_if_def ebind_def Let_def split: sum.splits if_splits)
  have "raises_cancelled L sch" if "fst (stream_turn L t sch io) = Inl CancelledError" for t io
  proof -
    obtain fl ls io' where r: "read_loop L t (sch_reads sch) initial_loop_state io = (fl, ls, io')"
      by (cases "read_loop L t (sch_reads sch) initial_loop_state io")
    have "fst (finish_turn t b ls io') \<noteq> Inl CancelledError" for b
      by (auto simp: finish_turn_def Let_def invalid_provider_stream_def split: option.splits)
    then show ?thesis
      using that r read_loop_cancelled [of L t "sch_reads sch" initial_loop_state io]
      by (auto simp: stream_turn_def with_res_def raises_cancelled_def split: sum.splits flow.splits)
  qed
  with assms req show ?thesis
    by (auto simp: turn_body_def Let_def with_res_def split: if_splits sum.splits)
qed

lemma run_events_once:
  assumes "sch_close sch = Inr ()"
  shows "\<exists>evs. run_events fg L command history memories tools cont sch w =
      [ev_started (cmd_turn_id command), ev_state_changed (cmd_turn_id command) AgentState.LISTENING] @ evs \<and>
    (\<forall>e \<in> set evs. ae_turn_id e = cmd_turn_id command) \<and>
    (case fst (run fg L command history memories tools cont sch w) of
       Inr _ \<Rightarrow> length (filter is_terminal evs) = 1 \<and> (\<exists>pre. states evs = pre @ [Some AgentState.IDLE])
     | Inl e \<Rightarrow> e = CancelledError \<and> raises_cancelled L sch \<and> filter is_terminal evs = []) \<and>
    (\<forall>e \<in> set evs. ae_type e = AgentEventType.TURN_COMPLETED \<and> \<not> asks_approval evs \<longrightarrow>
       ae_text e = deltas evs)"
proof -
  let ?t = "cmd_turn_id command"
  let ?io = "\<lparr>io_events = [ev_started ?t, ev_state_changed ?t AgentState.LISTENING],
    io_executed = [], io_world = w\<rparr>"
  obtain r io' where b: "turn_body L command history memories tools cont sch ?io = (r, io')" by fastforce
  with turn_body_ok [OF assms, of L command ?io history memories tools cont] obtain xs where
      xs: "io_adds L ?t ?io xs io'"
      "if is_ok r then terminals xs = 1 \<and> ends_idle xs \<and>
           (\<forall>e \<in> set xs. ae_type e = AgentEventType.TURN_COMPLETED \<and> \<not> asks_approval xs \<longrightarrow>
              ae_text e = deltas xs)
       else terminals xs = 0" by (auto simp: body_ok_def)
  show ?thesis
  proof (cases r)
    case (Inr u)
    with b xs show ?thesis
      by (intro exI [of _ xs]) (auto simp: run_def Let_def io_adds_def ends_idle_def terminals_def)
  next
    case (Inl e)
    have none: "filter is_terminal xs = []" "\<forall>e \<in> set xs. ae_type e \<noteq> AgentEventType.TURN_COMPLETED"
      using xs(2) Inl by (auto simp: terminals_def is_terminal_def filter_empty_conv)
    show ?thesis
    proof (cases "e = CancelledError")
      case True
      then have "raises_cancelled L sch" using turn_body_cancelled b Inl by (metis fst_conv)
      then show ?thesis
        using b Inl xs(1) none True by (intro exI [of _ xs]) (auto simp: run_def Let_def io_adds_def)
    next
      case False
      then obtain ys where ys: "report_failure fg L ?t e io' = (Inr (), emit ys io')" "\<forall>e \<in> set ys. ae_turn_id e = ?t"
          "terminals ys = 1" "ends_idle ys" "\<forall>e \<in> set ys. ae_type e \<noteq> AgentEventType.TURN_COMPLETED"
        using report_failure_adds by blast
      have "terminals (xs @ ys) = 1" using xs(2) Inl ys(3) by simp
      then show ?thesis
        using b Inl xs(1) ys none
        by (intro exI [of _ "xs @ ys"])
          (auto simp: run_def Let_def io_adds_def emit_def ends_idle_def terminals_def)
    qed
  qed
qed

text \<open>Where the continuation of a completed turn comes from.\<close>

definition offered :: "'j provider_read list \<Rightarrow> ProviderContinuation set" where
  "offered rs = {c. \<exists>ev. ReadEvent (Some ev) \<in> set rs \<and> le_type ev = LLMEventType.COMPLETED \<and>
     le_continuation ev = Some c}"

definition keeps_only :: "ProviderContinuation set \<Rightarrow> ('j, 'w) turn_io \<Rightarrow> bool" where
  "keeps_only C io \<longleftrightarrow>
     (\<forall>e \<in> set (io_events io). \<forall>c. ae_type e = AgentEventType.TURN_COMPLETED \<and> ae_continuation e = Some c \<longrightarrow> c \<in> C)"

lemma keeps_only_emit [simp]:
  "keeps_only C (emit evs io) \<longleftrightarrow> keeps_only C io \<and>
     (\<forall>e \<in> set evs. \<forall>c. ae_type e = AgentEventType.TURN_COMPLETED \<and> ae_continuation e = Some c \<longrightarrow> c \<in> C)"
  by (auto simp: keeps_only_def emit_def)

lemma handle_llm_event_continuation:
  assumes "handle_llm_event L t ev ls io = (fl, ls', io')" "keeps_only C io"
    "\<forall>c. completed_continuation ls = Some c \<longrightarrow> c \<in> C" "offered [ReadEvent ev] \<subseteq> C"
  shows "keeps_only C io' \<and> (\<forall>c. completed_continuation ls' = Some c \<longrightarrow> c \<in> C)"
proof -
  have w: "keeps_only C (io\<lparr>io_world := x, io_executed := y\<rparr>) = keeps_only C io" for io :: "('a, 'b) turn_io" and x y
    by (simp add: keeps_only_def)
  show ?thesis
    using assms
    by (auto simp: handle_llm_event_def handle_text_def handle_tool_call_def tool_unavailable_def run_tool_def
        offered_def agent_event_defs w Let_def split: option.splits if_splits LLMEventType.splits sum.splits prod.splits)
qed

lemma read_loop_continuation:
  assumes "read_loop L t rs ls io = (fl, ls', io')" "keeps_only C io"
    "\<forall>c. completed_continuation ls = Some c \<longrightarrow> c \<in> C" "offered rs \<subseteq> C"
  shows "keeps_only C io' \<and> (\<forall>c. completed_continuation ls' = Some c \<longrightarrow> c \<in> C)"
  using assms
proof (induction L t rs ls io rule: read_loop.induct)
  case (6 L t ev rs ls io)
  obtain fl1 ls1 io1 where h: "handle_llm_event L t ev ls io = (fl1, ls1, io1)" by (cases "handle_llm_event L t ev ls io")
  have "offered [ReadEvent ev] \<subseteq> C" "offered rs \<subseteq> C" using 6(5) by (auto simp: offered_def)
  moreover note handle_llm_event_continuation [OF h 6(3,4)]
  ultimately show ?case using 6(1) [OF h [symmetric]] 6(2) h by (cases fl1) auto
qed auto

lemma run_continuation:
  "keeps_only (offered (sch_reads sch)) (snd (run fg L command history memories tools cont sch w))"
proof -
  let ?C = "offered (sch_reads sch)"
  have start: "\<forall>c. completed_continuation initial_loop_state = Some c \<longrightarrow> c \<in> ?C"
    by (simp add: initial_loop_state_def)
  have "keeps_only ?C (snd (stream_turn L t sch io))" if "keeps_only ?C io" for t io
  proof -
    obtain fl ls io' where r: "read_loop L t (sch_reads sch) initial_loop_state io = (fl, ls, io')"
      by (cases "read_loop L t (sch_reads sch) initial_loop_state io")
    note read_loop_continuation [OF r that start order_refl]
    then show ?thesis
      using that r
      by (auto simp: stream_turn_def with_res_def finish_turn_def Let_def agent_event_defs
          split: sum.splits flow.splits option.splits)
  qed
  then have body: "keeps_only ?C (snd (turn_body L command history memories tools cont sch io))" if "keeps_only ?C io" for io
    using that by (auto simp: turn_body_def Let_def with_res_def agent_event_defs split: sum.splits)
  have fail: "keeps_only ?C (snd (report_failure fg L t err io)) = keeps_only ?C io" for t err io
    by (auto simp: report_failure_def Let_def agent_event_defs case_prod_beta)
  let ?t = "cmd_turn_id command"
  let ?io = "\<lparr>io_events = [ev_started ?t, ev_state_changed ?t AgentState.LISTENING], io_executed = [], io_world = w\<rparr>"
  obtain r io' where b: "turn_body L command history memories tools cont sch ?io = (r, io')" by fastforce
  have "keeps_only ?C ?io" by (simp add: keeps_only_def agent_event_defs)
  from body [OF this] b have "keeps_only ?C io'" by simp
  then show ?thesis using b fail by (cases r) (simp_all add: run_def Let_def)
qed

section \<open>Properties\<close>

text \<open>
  C19. How every turn ends, whatever the provider sends, raises or omits, whatever the tools and the
  policy do, and whenever the turn is cancelled or times out, provided that closing the provider
  stream does not raise. The events start with the turn's start in the listening state and all carry
  the turn's id. A generator that ends has yielded exactly one completion, cancellation or failure,
  and the last state it reported is idle. The only exception that can leave it is a
  \<^verbatim>\<open>CancelledError\<close>, and only where the provider, the policy or a tool raises one; such a turn has
  reported no outcome. Unless the turn paused for an approval, a completion carries exactly the
  concatenation of the text deltas that were streamed.
\<close>

theorem turn_ends_exactly_once:
  assumes "sch_close sch = Inr ()"
  shows "\<exists>evs. run_events fg L command history memories tools cont sch w =
      [ev_started (cmd_turn_id command), ev_state_changed (cmd_turn_id command) AgentState.LISTENING] @ evs \<and>
    (\<forall>e \<in> set evs. ae_turn_id e = cmd_turn_id command) \<and>
    (case fst (run fg L command history memories tools cont sch w) of
       Inr _ \<Rightarrow> length (filter is_terminal evs) = 1 \<and> (\<exists>pre. states evs = pre @ [Some AgentState.IDLE])
     | Inl e \<Rightarrow> e = CancelledError \<and> raises_cancelled L sch \<and> filter is_terminal evs = []) \<and>
    (\<forall>e \<in> set evs. ae_type e = AgentEventType.TURN_COMPLETED \<and> \<not> asks_approval evs \<longrightarrow>
       ae_text e = deltas evs)"
  by (rule run_events_once [OF assms])

text \<open>
  C26. With the default policy the loop executes only tools that are registered under the requested
  name and declared safe, whatever the provider asks for: it carries no approval, and its flag
  \<^verbatim>\<open>approved\<close> is no evidence. A turn that executes no tool leaves the world as it was.
\<close>

theorem agent_runs_only_safe_tools:
  assumes "al_tool_policy L = default_tool_policy digest now"
  shows "(\<forall>c \<in> set (run_executed fg L command history memories tools cont sch w).
      \<exists>reg tool. al_tool_registry L = Some reg \<and> registry_get reg (call_name c) = Some tool \<and>
        spec_name (tool_spec tool) = call_name c \<and> risk (tool_spec tool) = ToolRisk.SAFE) \<and>
    (run_executed fg L command history memories tools cont sch w = [] \<longrightarrow>
       io_world (snd (run fg L command history memories tools cont sch w)) = w)"
  using default_policy.run_executes_safe [OF assms]
    run_executes_permitted [of fg L command history memories tools cont sch w] by blast

section \<open>Witnesses and a closing failure\<close>

definition sample_tool :: "ToolRisk \<Rightarrow> (nat, nat) Tool" where
  "sample_tool r = \<lparr>tool_spec = sample_spec r,
     tool_execute = (\<lambda>a ctx w. (Inr \<lparr>result_call_id = [], success = True, result_content = ''4'',
       result_error_code = []\<rparr>, w + 1))\<rparr>"

definition sample_loop :: "ToolRisk \<Rightarrow> (nat, nat) AgentLoop" where
  "sample_loop r =
    \<lparr>al_provider_name = ''fake'', al_context_manager = new_context_manager default_context_config ''Be brief.'',
     al_max_turn_seconds = 90, al_tool_registry = Some [(''calc'', sample_tool r)],
     al_tool_policy = default_tool_policy (\<lambda>a. Inr ''d'') \<lparr>instant = 0, tz_aware = True\<rparr>\<rparr>"

definition sample_command :: UserMessageCommand where
  "sample_command = \<lparr>cmd_turn_id = ''t'', cmd_session_id = ''s'', cmd_content = ''hello''\<rparr>"

definition sample_schedule :: "unit res \<Rightarrow> nat turn_schedule" where
  "sample_schedule close =
    \<lparr>sch_cancelled_before = False, sch_open = Inr (), sch_reads = [ReadEvent (Some (llm_call_tool sample_call))],
     sch_close = close, sch_cancelled_after = False\<rparr>"

lemma sample_build: "\<exists>req. build_request (al_context_manager (sample_loop r)) sample_command [] [] tools None = Inr req"
proof -
  have "\<not> blank (cmd_content sample_command)" by (simp add: sample_command_def blank_iff py_isspace_def)
  moreover have "int (length (cm_system_prompt (al_context_manager (sample_loop r)))) +
      int (length (cmd_content sample_command))
      \<le> max_context_chars (cm_config (al_context_manager (sample_loop r)))"
    by (simp add: sample_loop_def sample_command_def new_context_manager_def default_context_config_def
        py_strip_def py_isspace_def)
  ultimately show ?thesis
    using budget_iff [of "al_context_manager (sample_loop r)" sample_command "[]" "[]"]
    by (simp add: build_request_eq)
qed

lemma sample_calm: "\<not> raises_cancelled (sample_loop r) (sample_schedule (Inr ()))"
  by (auto simp: raises_cancelled_def callee_cancelled_def matches_def ebind_def sample_schedule_def sample_loop_def sample_tool_def registry_get_def
      default_tool_policy_def policy_decision_def Let_def split: if_splits option.splits sum.splits)

theorem turn_ends_exactly_once_witness:
  "\<exists>evs. run_events (\<lambda>x. ''90'') (sample_loop ToolRisk.SAFE) sample_command [] [] [] None
      (sample_schedule (Inr ())) 0 = [ev_started ''t'', ev_state_changed ''t'' AgentState.LISTENING] @ evs \<and>
    length (filter is_terminal evs) = 1"
proof -
  let ?L = "sample_loop ToolRisk.SAFE" and ?sch = "sample_schedule (Inr ())"
  have "sch_close ?sch = Inr ()" by (simp add: sample_schedule_def)
  from turn_ends_exactly_once [OF this, of "\<lambda>x. ''90''" ?L sample_command "[]" "[]" "[]" None 0]
  obtain evs where e: "run_events (\<lambda>x. ''90'') ?L sample_command [] [] [] None ?sch 0 =
      [ev_started ''t'', ev_state_changed ''t'' AgentState.LISTENING] @ evs"
    "case fst (run (\<lambda>x. ''90'') ?L sample_command [] [] [] None ?sch 0) of
       Inr _ \<Rightarrow> length (filter is_terminal evs) = 1 \<and> (\<exists>pre. states evs = pre @ [Some AgentState.IDLE])
     | Inl e \<Rightarrow> e = CancelledError \<and> raises_cancelled ?L ?sch \<and> filter is_terminal evs = []"
    by (auto simp: sample_command_def)
  with sample_calm [of ToolRisk.SAFE] show ?thesis
    by (cases "fst (run (\<lambda>x. ''90'') ?L sample_command [] [] [] None ?sch 0)") simp_all
qed

theorem agent_runs_only_safe_tools_witness:
  "run_executed (\<lambda>x. ''90'') (sample_loop ToolRisk.SIDE_EFFECT) sample_command [] [] [] None
      (sample_schedule (Inr ())) 0 = []"
  using agent_runs_only_safe_tools [of "sample_loop ToolRisk.SIDE_EFFECT" "\<lambda>a. Inr ''d''"
      "\<lparr>instant = 0, tz_aware = True\<rparr>" "\<lambda>x. ''90''" sample_command "[]" "[]" "[]" None "sample_schedule (Inr ())" 0]
  by (auto simp: sample_loop_def registry_get_def sample_tool_def sample_spec_def split: if_splits
      intro!: list.set_sel(1) equals0I simp flip: set_empty)

text \<open>
  When closing the provider stream raises after the loop has already returned, the turn ends
  twice: a tool call that needs approval is reported as completed, and the exception from
  \<^verbatim>\<open>aclose\<close> in the \<^verbatim>\<open>finally\<close> block then adds a failure of the same turn.
\<close>

theorem close_failure_ends_turn_twice:
  "filter is_terminal (run_events fg (sample_loop ToolRisk.SIDE_EFFECT) sample_command [] [] [] None
      (sample_schedule (Inl (RuntimeError m))) 0)
   = [ev_completed ''t'' (''Action paused: '' @ [CHR 0x27] @ ''calc'' @ [CHR 0x27] @ '' requires approval.'') None,
      ev_failed ''t'' ''unexpected_agent_error'' ''The Agent turn failed unexpectedly.'']"
proof -
  let ?L = "sample_loop ToolRisk.SIDE_EFFECT"
  have policy: "al_tool_policy ?L (sample_spec ToolRisk.SIDE_EFFECT) sample_call (exec_context ''t'')
      = Inr (policy_decision PolicyOutcome.REQUIRE_APPROVAL ''This tool requires explicit user approval.'' False)"
    by (simp add: sample_loop_def default_tool_policy_def sample_spec_def sample_call_def exec_context_def)
  have reg: "al_tool_registry ?L = Some [(''calc'', sample_tool ToolRisk.SIDE_EFFECT)]"
    by (simp add: sample_loop_def)
  obtain req where req: "build_request (al_context_manager ?L) sample_command [] []
      (list_specs [(''calc'', sample_tool ToolRisk.SIDE_EFFECT)]) None = Inr req"
    using sample_build by blast
  have handled: "handle_llm_event ?L ''t'' (Some (llm_call_tool sample_call)) initial_loop_state io =
      (Return, initial_loop_state,
       emit [ev_approval_required ''t'' sample_call,
             ev_completed ''t'' (''Action paused: '' @ [CHR 0x27] @ ''calc'' @ [CHR 0x27] @ '' requires approval.'') None,
             ev_state_changed ''t'' AgentState.IDLE] (emit [ev_tool_started ''t'' sample_call] io))"
    for io :: "(nat, nat) turn_io"
    using policy
    by (simp add: handle_llm_event_def llm_call_tool_def initial_loop_state_def handle_tool_call_def reg
        registry_contains_def registry_get_def sample_call_def run_tool_def sample_tool_def
        policy_decision_def Let_def)
  show ?thesis
    using req
    by (simp add: run_def turn_body_def reg stream_turn_def sample_schedule_def handled report_failure_def
        sample_command_def emit_def is_terminal_def agent_event_defs Let_def)
qed

end
