(* ===== verification/Session.thy ===== *)
theory Session
  imports Turn_Coordinator Service_Run Agent_Loop
begin

text \<open>
  The session controller, \<^verbatim>\<open>application/agent/runtime_session_controller.py\<close>: it owns the provider
  service, the coordinator, one turn at a time, and the history and continuation of each session.

  The runtime thread awaits each command before it takes the next one from its queue
  (\<^verbatim>\<open>presentation/qt/platform/runtime_thread.py\<close>, \<^verbatim>\<open>_dispatch_commands\<close>), so one command and the turn's task
  run concurrently and nothing else does. A step of the model is what happens between two
  suspension points: a part of a command (\<open>Activate\<close>, \<open>Enter\<close>, \<open>Resume\<close>, \<open>Abort\<close>, \<open>Start_Turn\<close>,
  \<open>Cancel_Turn\<close>, \<open>Shutdown\<close>) or of the turn's task (\<open>Turn\<close>); \<open>session_step\<close> is \<open>None\<close> when the step is
  not possible. A turn step and the rest of a service call touch different fields, so the service
  calls between two waits on the turn are one step each.

  The task's life: created, running (it has read history and continuation), done, and finally
  settled, when its done callback has run. A command that waits for the task is resumed after the
  callback, because \<^verbatim>\<open>asyncio.shield\<close> adds its own callback later than \<^verbatim>\<open>start_turn\<close> did; one that finds
  the task already done does not wait. What the agent loop yields is an argument of the turn's steps.
\<close>

section \<open>Data\<close>

datatype RuntimeState = READY | CLOSING | CLOSED

datatype RuntimeEventType =
    TURN_STARTED | AGENT_STATE_CHANGED | TEXT_DELTA | TURN_COMPLETED | TURN_CANCELLED | TURN_FAILED
  | TURN_SETTLED

record RuntimeEvent =
  re_type :: RuntimeEventType
  re_turn_id :: string
  re_state :: string
  re_text :: string
  re_safe_code :: string
  re_safe_message :: string

definition runtime_event :: "RuntimeEventType \<Rightarrow> string \<Rightarrow> RuntimeEvent" where
  "runtime_event ty turn_id =
    \<lparr>re_type = ty, re_turn_id = turn_id, re_state = [], re_text = [], re_safe_code = [], re_safe_message = []\<rparr>"

record RuntimeCommandResult =
  rc_success :: bool
  rc_safe_code :: string
  rc_safe_message :: string

definition rc_ok :: RuntimeCommandResult where
  "rc_ok = \<lparr>rc_success = True, rc_safe_code = ''none'', rc_safe_message = []\<rparr>"

definition rc_failure :: "string \<Rightarrow> string \<Rightarrow> RuntimeCommandResult" where
  "rc_failure code message = \<lparr>rc_success = False, rc_safe_code = code, rc_safe_message = message\<rparr>"

primrec agent_state_value :: "AgentState \<Rightarrow> string" where
  "agent_state_value AgentState.IDLE = ''idle''"
| "agent_state_value AgentState.LISTENING = ''listening''"
| "agent_state_value AgentState.THINKING = ''thinking''"
| "agent_state_value AgentState.SPEAKING = ''speaking''"
| "agent_state_value AgentState.ERROR = ''error''"
| "agent_state_value AgentState.REMINDING = ''reminding''"

datatype task_phase = Task_Created | Task_Running | Task_Done

record 'l turn_task =
  tk_id :: token
  tk_loop :: 'l
  tk_command :: UserMessageCommand
  tk_profile_id :: ProfileId
  tk_phase :: task_phase
  tk_history :: "ChatMessage list"
  tk_continuation :: "ProviderContinuation option"
  tk_saw_terminal :: bool
  tk_was_cancelled :: bool

text \<open>
  A command that waits: before it enters the service, for the turn of the old provider (with the
  service as it was when the switch began), or for the turn it cancels or shuts down. The waits for
  a turn hold the task's identity.
\<close>

datatype 'p waiting =
    Entering ProfileId ProviderActivationOptions "ActiveTurnHandling option"
  | Switching ProfileId ProviderActivationOptions "ActiveTurnHandling option" ProviderProfile "'p service" token
  | Cancelling token
  | Shutting_Down token

record ('p, 'l) session =
  ss_service :: "'p service"
  ss_coordinator :: coordinator
  ss_state :: RuntimeState
  ss_accepting :: bool
  ss_loop :: "'l option"
  ss_active_task :: "token option"
  ss_turn_idle :: bool
  ss_histories :: "string \<Rightarrow> ChatMessage list option"
  ss_continuations :: "string \<times> ProfileId \<Rightarrow> ProviderContinuation option"
  ss_agent_state :: AgentState
  ss_emitted :: "RuntimeEvent list"
  ss_task :: "'l turn_task option"
  ss_next_task :: token
  ss_settled :: "(ActiveTurnRecord \<times> bool) option"
  ss_waiting :: "'p waiting option"
  ss_results :: "RuntimeCommandResult res list"

definition new_session :: "'p service \<Rightarrow> ('p, 'l) session" where
  "new_session sv =
    \<lparr>ss_service = sv, ss_coordinator = None, ss_state = RuntimeState.READY, ss_accepting = True,
     ss_loop = None, ss_active_task = None, ss_turn_idle = True, ss_histories = (\<lambda>_. None),
     ss_continuations = (\<lambda>_. None), ss_agent_state = AgentState.IDLE, ss_emitted = [],
     ss_task = None, ss_next_task = 0, ss_settled = None, ss_waiting = None, ss_results = []\<rparr>"

record ('p, 'l) session_env =
  sx_service :: "'p service_env"
  sx_loop_factory :: "'p ManagedProvider \<Rightarrow> 'l res"

text \<open>\<^verbatim>\<open>_emit\<close>: an exception of the event sink is swallowed.\<close>

definition emit_event :: "RuntimeEvent \<Rightarrow> ('p, 'l) session \<Rightarrow> ('p, 'l) session" where
  "emit_event ev s = s\<lparr>ss_emitted := ss_emitted s @ [ev]\<rparr>"

definition history_for_session :: "string \<Rightarrow> ('p, 'l) session \<Rightarrow> ChatMessage list" where
  "history_for_session session_id s = (case ss_histories s session_id of None \<Rightarrow> [] | Some ms \<Rightarrow> ms)"

definition continuation_for :: "string \<Rightarrow> ProfileId \<Rightarrow> ('p, 'l) session \<Rightarrow> ProviderContinuation option" where
  "continuation_for session_id profile_id s = ss_continuations s (session_id, profile_id)"

primrec runtime_state_value :: "RuntimeState \<Rightarrow> string" where
  "runtime_state_value RuntimeState.READY = ''ready''"
| "runtime_state_value RuntimeState.CLOSING = ''closing''"
| "runtime_state_value RuntimeState.CLOSED = ''closed''"

primrec lifecycle_value :: "ProviderLifecycleState \<Rightarrow> string" where
  "lifecycle_value ProviderLifecycleState.INACTIVE = ''inactive''"
| "lifecycle_value ProviderLifecycleState.ACTIVE = ''active''"
| "lifecycle_value ProviderLifecycleState.SWITCHING = ''switching''"
| "lifecycle_value ProviderLifecycleState.CLEANUP_PENDING = ''cleanup_pending''"
| "lifecycle_value ProviderLifecycleState.CLOSED = ''closed''"

record RuntimeSnapshot =
  rs_runtime_state :: string
  rs_provider_lifecycle :: string
  rs_active_profile_id :: "string option"
  rs_active_turn_id :: "string option"
  rs_agent_state :: string
  rs_accepting_commands :: bool
  rs_retiring_provider_count :: nat
  rs_candidate_cleanup_pending_count :: nat
  rs_runtime_thread_id :: int

definition session_snapshot :: "int \<Rightarrow> ('p, 'l) session \<Rightarrow> RuntimeSnapshot" where
  "session_snapshot thread_id s =
    \<lparr>rs_runtime_state = runtime_state_value (ss_state s),
     rs_provider_lifecycle = lifecycle_value (sv_lifecycle (ss_service s)),
     rs_active_profile_id = sv_runtime_profile_id (ss_service s),
     rs_active_turn_id = current_turn_id (ss_coordinator s),
     rs_agent_state = agent_state_value (ss_agent_state s), rs_accepting_commands = ss_accepting s,
     rs_retiring_provider_count = length (sv_retiring (ss_service s)),
     rs_candidate_cleanup_pending_count = length (sv_candidates (ss_service s)),
     rs_runtime_thread_id = thread_id\<rparr>"

section \<open>The turn's task\<close>

definition event_state :: "'j AgentEvent \<Rightarrow> AgentState" where
  "event_state ev = (case ae_state ev of None \<Rightarrow> AgentState.ERROR | Some st \<Rightarrow> st)"

definition process_agent_event :: "'j AgentEvent \<Rightarrow> ('p, 'l) session \<Rightarrow> ('p, 'l) session" where
  "process_agent_event ev s =
    (case ae_type ev of
       AgentEventType.TURN_STARTED \<Rightarrow>
         emit_event (runtime_event RuntimeEventType.TURN_STARTED (ae_turn_id ev)) s
     | AgentEventType.STATE_CHANGED \<Rightarrow>
         emit_event ((runtime_event RuntimeEventType.AGENT_STATE_CHANGED (ae_turn_id ev))
             \<lparr>re_state := agent_state_value (event_state ev)\<rparr>) (s\<lparr>ss_agent_state := event_state ev\<rparr>)
     | AgentEventType.TEXT_DELTA \<Rightarrow>
         emit_event ((runtime_event RuntimeEventType.TEXT_DELTA (ae_turn_id ev))\<lparr>re_text := ae_text ev\<rparr>) s
     | AgentEventType.TURN_COMPLETED \<Rightarrow>
         emit_event ((runtime_event RuntimeEventType.TURN_COMPLETED (ae_turn_id ev))\<lparr>re_text := ae_text ev\<rparr>) s
     | AgentEventType.TURN_CANCELLED \<Rightarrow>
         emit_event (runtime_event RuntimeEventType.TURN_CANCELLED (ae_turn_id ev)) s
     | AgentEventType.TURN_FAILED \<Rightarrow>
         emit_event ((runtime_event RuntimeEventType.TURN_FAILED (ae_turn_id ev))
             \<lparr>re_safe_code := ae_error_code ev, re_safe_message := ae_error_message ev\<rparr>) s
     | _ \<Rightarrow> s)"

text \<open>\<^verbatim>\<open>setdefault\<close> comes first, so a message that cannot be built leaves an empty history behind.\<close>

definition commit_completed_turn ::
    "UserMessageCommand \<Rightarrow> ProfileId \<Rightarrow> 'j AgentEvent \<Rightarrow> ('p, 'l) session \<Rightarrow> (unit, ('p, 'l) session) sres" where
  "commit_completed_turn command profile_id ev s =
    (let sid = cmd_session_id command;
         history = history_for_session sid s;
         s1 = s\<lparr>ss_histories := (ss_histories s)(sid \<mapsto> history)\<rparr>
     in with_res (mk_ChatMessage MessageRole.USER (cmd_content command)) s1 (\<lambda>user.
        with_res (mk_ChatMessage MessageRole.ASSISTANT (ae_text ev)) s1 (\<lambda>assistant.
        (Inr (), s1\<lparr>ss_histories := (ss_histories s1)(sid \<mapsto> history @ [user, assistant]),
                    ss_continuations := (ss_continuations s1)((sid, profile_id) := ae_continuation ev)\<rparr>))))"

definition mark_turn :: "UserMessageCommand \<Rightarrow> ('p, 'l) session \<Rightarrow> ('p, 'l) session" where
  "mark_turn command s = s\<lparr>ss_coordinator := mark_terminal (cmd_turn_id command) (ss_coordinator s)\<rparr>"

definition fail_turn :: "string \<Rightarrow> string \<Rightarrow> UserMessageCommand \<Rightarrow> ('p, 'l) session \<Rightarrow> ('p, 'l) session" where
  "fail_turn code message command s =
    mark_turn command (emit_event ((runtime_event RuntimeEventType.TURN_FAILED (cmd_turn_id command))
      \<lparr>re_safe_code := code, re_safe_message := message\<rparr>) s)"

abbreviation "runtime_turn_failed \<equiv> fail_turn ''runtime_turn_failed'' ''The Agent turn failed safely.''"

abbreviation "invalid_agent_result \<equiv>
  fail_turn ''invalid_agent_result'' ''The Agent turn ended without a terminal result.''"

definition set_task :: "'l turn_task \<Rightarrow> ('p, 'l) session \<Rightarrow> ('p, 'l) session" where
  "set_task t s = s\<lparr>ss_task := Some t\<rparr>"

text \<open>The body of the \<^verbatim>\<open>async for\<close>.\<close>

definition handle_yield ::
    "'l turn_task \<Rightarrow> 'j AgentEvent \<Rightarrow> ('p, 'l) session \<Rightarrow> (unit, ('p, 'l) session) sres" where
  "handle_yield t ev s =
    sbind (if ae_type ev = AgentEventType.TURN_COMPLETED
           then commit_completed_turn (tk_command t) (tk_profile_id t) ev s else (Inr (), s)) (\<lambda>_ s1.
    let s2 = process_agent_event ev s1 in
    if is_terminal ev
    then (Inr (), mark_turn (tk_command t) (set_task (t\<lparr>tk_saw_terminal := True\<rparr>) s2))
    else (Inr (), s2))"

datatype 'j turn_input = Starts | Yields "'j AgentEvent" | Ends | Raises | Cancelled | Settles

definition task_starts :: "'l turn_task \<Rightarrow> ('p, 'l) session \<Rightarrow> ('p, 'l) session" where
  "task_starts t s =
    (let sid = cmd_session_id (tk_command t) in
     set_task (t\<lparr>tk_phase := Task_Running, tk_history := history_for_session sid s,
                 tk_continuation := continuation_for sid (tk_profile_id t) s\<rparr>) s)"

definition task_yields :: "'j AgentEvent \<Rightarrow> 'l turn_task \<Rightarrow> ('p, 'l) session \<Rightarrow> ('p, 'l) session" where
  "task_yields ev t s =
    (case handle_yield t ev s of
       (Inr _, s1) \<Rightarrow> s1
     | (Inl _, s1) \<Rightarrow> runtime_turn_failed (tk_command t) (set_task (t\<lparr>tk_phase := Task_Done\<rparr>) s1))"

definition task_ends :: "'l turn_task \<Rightarrow> ('p, 'l) session \<Rightarrow> ('p, 'l) session" where
  "task_ends t s =
    (let s1 = set_task (t\<lparr>tk_phase := Task_Done\<rparr>) s
     in if tk_saw_terminal t then s1 else invalid_agent_result (tk_command t) s1)"

definition task_raises :: "'l turn_task \<Rightarrow> ('p, 'l) session \<Rightarrow> ('p, 'l) session" where
  "task_raises t s = runtime_turn_failed (tk_command t) (set_task (t\<lparr>tk_phase := Task_Done\<rparr>) s)"

definition task_cancelled :: "'l turn_task \<Rightarrow> ('p, 'l) session \<Rightarrow> ('p, 'l) session" where
  "task_cancelled t s = set_task (t\<lparr>tk_phase := Task_Done, tk_was_cancelled := True\<rparr>) s"

text \<open>\<^verbatim>\<open>_on_turn_done\<close>. The released record stays with a command that waits for it.\<close>

definition on_turn_done :: "'l turn_task \<Rightarrow> ('p, 'l) session \<Rightarrow> ('p, 'l) session" where
  "on_turn_done t s =
    (let turn_id = current_turn_id (ss_coordinator s);
         s1 = s\<lparr>ss_coordinator := release_finished_turn (tk_id t) (tk_phase t = Task_Done) (ss_coordinator s),
                ss_active_task := (if ss_active_task s = Some (tk_id t) then None else ss_active_task s),
                ss_turn_idle := True, ss_task := None,
                ss_settled := map_option (\<lambda>r. (r, tk_was_cancelled t)) (ss_coordinator s)\<rparr>
     in case turn_id of
          None \<Rightarrow> s1
        | Some i \<Rightarrow> emit_event (runtime_event RuntimeEventType.TURN_SETTLED i) s1)"

definition turn_step :: "'j turn_input \<Rightarrow> ('p, 'l) session \<Rightarrow> ('p, 'l) session option" where
  "turn_step i s =
    (case ss_task s of
       None \<Rightarrow> None
     | Some t \<Rightarrow>
         (case i of
            Starts \<Rightarrow> if tk_phase t = Task_Created then Some (task_starts t s) else None
          | Yields ev \<Rightarrow> if tk_phase t = Task_Running then Some (task_yields ev t s) else None
          | Ends \<Rightarrow> if tk_phase t = Task_Running then Some (task_ends t s) else None
          | Raises \<Rightarrow> if tk_phase t = Task_Running then Some (task_raises t s) else None
          | Cancelled \<Rightarrow> if tk_phase t \<noteq> Task_Done then Some (task_cancelled t s) else None
          | Settles \<Rightarrow> if tk_phase t = Task_Done then Some (on_turn_done t s) else None))"

section \<open>Commands\<close>

definition require_ready :: "('p, 'l) session \<Rightarrow> RuntimeCommandResult option" where
  "require_ready s =
    (if ss_state s = RuntimeState.CLOSING
     then Some (rc_failure ''runtime_closing'' ''The runtime is closing and cannot accept this command.'')
     else if ss_state s = RuntimeState.CLOSED
     then Some (rc_failure ''runtime_closed'' ''The runtime is closed.'')
     else if \<not> ss_accepting s
     then Some (rc_failure ''runtime_not_ready'' ''The runtime is not accepting commands.'')
     else None)"

text \<open>A command ends with a result, or with \<^verbatim>\<open>CancelledError\<close>, and waits no longer.\<close>

definition return_result :: "RuntimeCommandResult res \<Rightarrow> ('p, 'l) session \<Rightarrow> ('p, 'l) session" where
  "return_result r s = s\<lparr>ss_results := ss_results s @ [r], ss_waiting := None\<rparr>"

definition wait_as :: "'p waiting \<Rightarrow> ('p, 'l) session \<Rightarrow> ('p, 'l) session" where
  "wait_as w s = s\<lparr>ss_waiting := Some w\<rparr>"

text \<open>\<^verbatim>\<open>except CancelledError: raise\<close>, \<^verbatim>\<open>except Exception: return failure\<close>.\<close>

definition safe_result :: "RuntimeCommandResult \<Rightarrow> 'a res \<Rightarrow> RuntimeCommandResult res" where
  "safe_result failed r =
    (case r of
       Inr _ \<Rightarrow> Inr rc_ok
     | Inl e \<Rightarrow> if e = CancelledError then Inl CancelledError else Inr failed)"

subsection \<open>Quiescing\<close>

text \<open>
  The coordinator's call up to its wait: \<open>Inl\<close> is its outcome when it does not wait, \<open>Inr\<close> the task it
  waits for.
\<close>

definition quiesce_begin ::
    "ProfileId \<Rightarrow> ActiveTurnHandling \<Rightarrow> ('p, 'l) session \<Rightarrow> (unit res + token) \<times> ('p, 'l) session" where
  "quiesce_begin profile_id handling s =
    (case prepare_begin profile_id handling (ss_coordinator s) of
       (Inl e, co) \<Rightarrow> (Inl (Inl e), s\<lparr>ss_coordinator := co\<rparr>)
     | (Inr None, co) \<Rightarrow> (Inl (Inr ()), s\<lparr>ss_coordinator := co\<rparr>)
     | (Inr (Some r), co) \<Rightarrow>
         let s1 = s\<lparr>ss_coordinator := co\<rparr> in
         (case ss_task s of
            Some t \<Rightarrow> if tk_id t = ar_task r \<and> tk_phase t \<noteq> Task_Done then (Inr (ar_task r), s1)
                      else (Inl (prepare_end r True (tk_was_cancelled t)), s1)
          | None \<Rightarrow> (Inl (prepare_end r True False), s1)))"

text \<open>The outcome once the task it waited for has settled.\<close>

definition quiesced :: "token \<Rightarrow> ('p, 'l) session \<Rightarrow> unit res option" where
  "quiesced task s =
    (case ss_settled s of
       None \<Rightarrow> None
     | Some (r, cancelled) \<Rightarrow>
         if ar_task r = task \<and> ss_task s = None then Some (prepare_end r True cancelled) else None)"

subsection \<open>Activation\<close>

text \<open>
  The service call up to the point where it retires the old provider: the provider to reuse, or the
  profile to build for. \<open>complete_switch\<close> is the rest.
\<close>

definition activate_entry ::
    "'p service_env \<Rightarrow> ProfileId \<Rightarrow> ProviderActivationOptions \<Rightarrow> 'p service
      \<Rightarrow> ('p ManagedProvider + ProviderProfile, 'p service) sres" where
  "activate_entry SE profile_id options s0 =
    sbind (retry_pending_cleanup s0) (\<lambda>_ s.
    with_res (raise_if (sv_closed s)
        (ProviderProfileServiceError ''The Provider profile service is closed.'') (Inr ())) s (\<lambda>_.
    with_res (get_profile (se_repo SE) profile_id (sv_disk s)) s (\<lambda>found.
    case found of
      None \<Rightarrow> (Inl (ProviderProfileServiceError ''The provider profile does not exist.''), s)
    | Some profile \<Rightarrow>
        (case sv_active s of
           None \<Rightarrow> (Inr (Inr profile), s)
         | Some active \<Rightarrow>
             if sv_runtime_profile_id s \<noteq> Some profile_id then (Inr (Inr profile), s)
             else if sv_runtime_snapshot s = Some profile \<and> sv_options s = Some options
             then (Inr (Inl active), s)
             else (Inl (ProviderProfileServiceError
                     ''The active profile or activation options changed; switch or stop it before rebuilding.''), s)))))"

definition complete_switch ::
    "'p service_env \<Rightarrow> ProfileId \<Rightarrow> ProviderActivationOptions \<Rightarrow> ActiveTurnHandling option \<Rightarrow> ProviderProfile
      \<Rightarrow> switching \<Rightarrow> 'p service \<Rightarrow> ('p ManagedProvider, 'p service) sres" where
  "complete_switch SE profile_id options handling profile sw s =
    sbind (retire_active SE handling sw s) (\<lambda>_ s1. construct_provider SE profile_id profile options s1)"

definition switching_of :: "unit res \<Rightarrow> (disk \<Rightarrow> disk) \<Rightarrow> switching" where
  "switching_of r f =
    \<lparr>sw_coordination = (case r of Inr _ \<Rightarrow> AwaitReturns
                              | Inl e \<Rightarrow> if e = CancelledError then AwaitCancelled else AwaitRaises),
     sw_interference = f\<rparr>"

definition activation_failed :: RuntimeCommandResult where
  "activation_failed =
    rc_failure ''provider_activation_failed'' ''The selected Provider could not be activated safely.''"

definition finish_activation ::
    "('p, 'l) session_env \<Rightarrow> ('p ManagedProvider, 'p service) sres \<Rightarrow> ('p, 'l) session \<Rightarrow> ('p, 'l) session" where
  "finish_activation X res s =
    (case res of
       (Inl e, sv) \<Rightarrow> return_result (safe_result activation_failed (Inl e :: unit res)) (s\<lparr>ss_service := sv\<rparr>)
     | (Inr mp, sv) \<Rightarrow>
         (case sx_loop_factory X mp of
            Inl e \<Rightarrow> return_result (safe_result activation_failed (Inl e :: unit res)) (s\<lparr>ss_service := sv\<rparr>)
          | Inr l \<Rightarrow> return_result (Inr rc_ok) (s\<lparr>ss_service := sv, ss_loop := Some l\<rparr>)))"

definition session_activate ::
    "ProfileId \<Rightarrow> ProviderActivationOptions \<Rightarrow> ActiveTurnHandling option \<Rightarrow> ('p, 'l) session \<Rightarrow> ('p, 'l) session" where
  "session_activate profile_id options turn_handling s =
    (case require_ready s of
       Some unavailable \<Rightarrow> return_result (Inr unavailable) s
     | None \<Rightarrow>
         if has_active_turn (ss_coordinator s) \<and> turn_handling = None
         then return_result (Inr (rc_failure ''switch_requires_turn_decision''
                ''Choose whether to cancel or wait for the active turn.'')) s
         else let effective_handling =
                    (if turn_handling = None \<and> sv_active (ss_service s) \<noteq> None
                     then Some ActiveTurnHandling.WAIT_FOR_ACTIVE else turn_handling)
              in wait_as (Entering profile_id options effective_handling) s)"

definition enter_activation ::
    "('p, 'l) session_env \<Rightarrow> (disk \<Rightarrow> disk) \<Rightarrow> ProfileId \<Rightarrow> ProviderActivationOptions \<Rightarrow> ActiveTurnHandling option
      \<Rightarrow> ('p, 'l) session \<Rightarrow> ('p, 'l) session" where
  "enter_activation X f profile_id options handling s =
    (case activate_entry (sx_service X) profile_id options (ss_service s) of
       (Inl e, sv) \<Rightarrow> finish_activation X (Inl e, sv) s
     | (Inr (Inl mp), sv) \<Rightarrow> finish_activation X (Inr mp, sv) s
     | (Inr (Inr profile), sv) \<Rightarrow>
         let complete = (\<lambda>r. complete_switch (sx_service X) profile_id options handling profile (switching_of r f) sv)
         in (case sv_active sv of
               None \<Rightarrow> finish_activation X (complete (Inr ())) s
             | Some old \<Rightarrow>
                 (case old_activation (sx_service X) handling sv of
                    None \<Rightarrow> finish_activation X (complete (Inr ())) s
                  | Some (old_id, _) \<Rightarrow>
                      (case quiesce_begin old_id (the handling) s of
                         (Inl r, s1) \<Rightarrow> finish_activation X (complete r) s1
                       | (Inr task, s1) \<Rightarrow>
                           wait_as (Switching profile_id options handling profile sv task)
                             (s1\<lparr>ss_service := begin_switch old sv\<rparr>)))))"

subsection \<open>Turns\<close>

definition start_turn :: "string \<Rightarrow> string \<Rightarrow> string \<Rightarrow> ('p, 'l) session \<Rightarrow> ('p, 'l) session" where
  "start_turn turn_id content session_id s =
    (case require_ready s of
       Some unavailable \<Rightarrow> return_result (Inr unavailable) s
     | None \<Rightarrow>
         if blank content \<or> blank session_id
         then return_result (Inr (rc_failure ''invalid_command''
                ''Message content and session identifier must not be blank.'')) s
         else if has_active_turn (ss_coordinator s)
         then return_result (Inr (rc_failure ''turn_already_running'' ''An Agent turn is already running.'')) s
         else if sv_lifecycle (ss_service s) = ProviderLifecycleState.CLEANUP_PENDING
         then return_result (Inr (rc_failure ''provider_cleanup_pending''
                ''Provider cleanup must complete before starting a turn.'')) s
         else
           (case sv_runtime_profile_id (ss_service s) of
              None \<Rightarrow> return_result (Inr (rc_failure ''provider_not_active''
                        ''Activate a Provider profile before sending a message.'')) s
            | Some profile_id \<Rightarrow>
                (case ss_loop s of
                   None \<Rightarrow> return_result (Inr (rc_failure ''provider_not_active''
                             ''Activate a Provider profile before sending a message.'')) s
                 | Some agent_loop \<Rightarrow>
                     if sv_active (ss_service s) = None
                     then return_result (Inr (rc_failure ''provider_not_active''
                            ''Activate a Provider profile before sending a message.'')) s
                     else
                       (case mk_UserMessageCommand turn_id (py_strip session_id) (py_strip content) of
                          Inl e \<Rightarrow> return_result (Inl e) s
                        | Inr command \<Rightarrow>
                            let task = ss_next_task s;
                                s1 = s\<lparr>ss_turn_idle := False, ss_next_task := task + 1\<rparr>
                            in (case bind_turn task turn_id profile_id (ss_coordinator s1) of
                                  (Inl _, co) \<Rightarrow>
                                    return_result (Inr (rc_failure ''turn_start_failed''
                                        ''The Agent turn could not be started safely.''))
                                      (s1\<lparr>ss_coordinator := co, ss_turn_idle := True\<rparr>)
                                | (Inr _, co) \<Rightarrow>
                                    return_result (Inr rc_ok)
                                      (s1\<lparr>ss_coordinator := co, ss_active_task := Some task,
                                          ss_task := Some \<lparr>tk_id = task, tk_loop = agent_loop,
                                            tk_command = command, tk_profile_id = profile_id,
                                            tk_phase = Task_Created, tk_history = [],
                                            tk_continuation = None, tk_saw_terminal = False,
                                            tk_was_cancelled = False\<rparr>\<rparr>))))))"

definition cancel_result :: "unit res \<Rightarrow> RuntimeCommandResult res" where
  "cancel_result = safe_result
    (rc_failure ''turn_cancel_failed'' ''The active Agent turn could not be cancelled safely.'')"

definition cancel_active_turn :: "('p, 'l) session \<Rightarrow> ('p, 'l) session" where
  "cancel_active_turn s =
    (case require_ready s of
       Some unavailable \<Rightarrow> return_result (Inr unavailable) s
     | None \<Rightarrow>
         (case current_profile_id (ss_coordinator s) of
            None \<Rightarrow> return_result (Inr (rc_failure ''no_active_turn''
                      ''There is no active Agent turn to cancel.'')) s
          | Some profile_id \<Rightarrow>
              (case quiesce_begin profile_id ActiveTurnHandling.CANCEL_ACTIVE s of
                 (Inl r, s1) \<Rightarrow> return_result (cancel_result r) s1
               | (Inr task, s1) \<Rightarrow> wait_as (Cancelling task) s1)))"

subsection \<open>Shutdown\<close>

definition close_service :: "('p, 'l) session \<Rightarrow> ('p, 'l) session" where
  "close_service s =
    (case service_aclose (ss_service s) of
       (Inl e, sv) \<Rightarrow>
         return_result (safe_result (rc_failure ''shutdown_provider_cleanup_failed''
             ''Provider cleanup did not complete safely.'') (Inl e :: unit res)) (s\<lparr>ss_service := sv\<rparr>)
     | (Inr _, sv) \<Rightarrow>
         return_result (Inr rc_ok)
           (s\<lparr>ss_service := sv, ss_loop := None, ss_state := RuntimeState.CLOSED,
              ss_agent_state := AgentState.IDLE\<rparr>))"

definition shutdown_after :: "unit res \<Rightarrow> ('p, 'l) session \<Rightarrow> ('p, 'l) session" where
  "shutdown_after r s =
    (case r of
       Inr _ \<Rightarrow> close_service s
     | Inl e \<Rightarrow> return_result (safe_result (rc_failure ''shutdown_turn_cleanup_failed''
                  ''The active turn could not be quiesced safely.'') (Inl e :: unit res)) s)"

definition shutdown :: "bool \<Rightarrow> ('p, 'l) session \<Rightarrow> ('p, 'l) session" where
  "shutdown cancel_active s =
    (if ss_state s = RuntimeState.CLOSED then return_result (Inr rc_ok) s
     else let s1 = s\<lparr>ss_state := RuntimeState.CLOSING, ss_accepting := False\<rparr> in
       (case current_profile_id (ss_coordinator s1) of
          None \<Rightarrow> close_service s1
        | Some profile_id \<Rightarrow>
            (case quiesce_begin profile_id (if cancel_active then ActiveTurnHandling.CANCEL_ACTIVE
                                            else ActiveTurnHandling.WAIT_FOR_ACTIVE) s1 of
               (Inl r, s2) \<Rightarrow> shutdown_after r s2
             | (Inr task, s2) \<Rightarrow> wait_as (Shutting_Down task) s2)))"

subsection \<open>Resuming\<close>

definition resume_with ::
    "('p, 'l) session_env \<Rightarrow> (disk \<Rightarrow> disk) \<Rightarrow> 'p waiting \<Rightarrow> unit res \<Rightarrow> ('p, 'l) session \<Rightarrow> ('p, 'l) session" where
  "resume_with X f w r s =
    (case w of
       Entering _ _ _ \<Rightarrow> s
     | Switching profile_id options handling profile sv _ \<Rightarrow>
         finish_activation X (complete_switch (sx_service X) profile_id options handling profile (switching_of r f) sv) s
     | Cancelling _ \<Rightarrow> return_result (cancel_result r) s
     | Shutting_Down _ \<Rightarrow> shutdown_after r s)"

fun waits_for :: "'p waiting \<Rightarrow> token option" where
  "waits_for (Entering _ _ _) = None"
| "waits_for (Switching _ _ _ _ _ task) = Some task"
| "waits_for (Cancelling task) = Some task"
| "waits_for (Shutting_Down task) = Some task"

section \<open>Steps\<close>

datatype 'j session_input =
    Turn "'j turn_input"
  | Activate ProfileId ProviderActivationOptions "ActiveTurnHandling option"
  | Enter "disk \<Rightarrow> disk"
  | Start_Turn string string string
  | Cancel_Turn
  | Shutdown bool
  | Resume "disk \<Rightarrow> disk"
  | Abort "disk \<Rightarrow> disk"

definition begin_command :: "(('p, 'l) session \<Rightarrow> ('p, 'l) session) \<Rightarrow> ('p, 'l) session \<Rightarrow> ('p, 'l) session option" where
  "begin_command c s = (if ss_waiting s = None then Some (c s) else None)"

fun session_step :: "('p, 'l) session_env \<Rightarrow> 'j session_input \<Rightarrow> ('p, 'l) session \<Rightarrow> ('p, 'l) session option" where
  "session_step X (Turn i) s = turn_step i s"
| "session_step X (Activate p opts h) s = begin_command (session_activate p opts h) s"
| "session_step X (Start_Turn i c sid) s = begin_command (start_turn i c sid) s"
| "session_step X Cancel_Turn s = begin_command cancel_active_turn s"
| "session_step X (Shutdown c) s = begin_command (shutdown c) s"
| "session_step X (Enter f) s =
    (case ss_waiting s of
       Some (Entering p opts h) \<Rightarrow> Some (enter_activation X f p opts h s)
     | _ \<Rightarrow> None)"
| "session_step X (Resume f) s =
    (case ss_waiting s of
       None \<Rightarrow> None
     | Some w \<Rightarrow>
         (case waits_for w of
            None \<Rightarrow> None
          | Some task \<Rightarrow> map_option (\<lambda>r. resume_with X f w r s) (quiesced task s)))"
| "session_step X (Abort f) s =
    (case ss_waiting s of
       None \<Rightarrow> None
     | Some w \<Rightarrow>
         (case waits_for w of
            None \<Rightarrow> None
          | Some task \<Rightarrow> Some (resume_with X f w (Inl CancelledError) s)))"

fun session_run :: "('p, 'l) session_env \<Rightarrow> 'j session_input list \<Rightarrow> ('p, 'l) session \<Rightarrow> ('p, 'l) session option" where
  "session_run X [] s = Some s"
| "session_run X (i # is) s = (case session_step X i s of None \<Rightarrow> None | Some s1 \<Rightarrow> session_run X is s1)"

lemma activate_profile_split:
  "activate_profile SE i opts h None sw s =
    sbind (activate_entry SE i opts s) (\<lambda>p s1.
      case p of Inl mp \<Rightarrow> (Inr mp, s1) | Inr profile \<Rightarrow> complete_switch SE i opts h profile sw s1)"
proof (cases "retry_pending_cleanup s")
  case (Pair r s1)
  show ?thesis
    unfolding activate_profile_def activate_entry_def complete_switch_def Pair
    by (cases r; cases "sv_closed s1"; cases "get_profile (se_repo SE) i (sv_disk s1)"; cases "sv_active s1")
      (auto split: option.splits)
qed

end
