(* ===== verification/Session_Invariant.thy ===== *)
theory Session_Invariant
  imports Session
begin

text \<open>
  The invariant of a session. \<open>turn_ok\<close> ties the coordinator's record, the controller's task and the
  idle flag together; \<open>waiting_ok\<close> says what a suspended command may rely on; \<open>agrees\<close> that a running
  turn belongs to the provider that is active, or that a switch is about to retire.
\<close>

section \<open>The invariant\<close>

definition task_ok :: "'l turn_task \<Rightarrow> ActiveTurnRecord \<Rightarrow> bool" where
  "task_ok t r \<longleftrightarrow>
     ar_task r = tk_id t \<and> ar_turn_id r = cmd_turn_id (tk_command t) \<and> ar_profile_id r = tk_profile_id t \<and>
     (tk_saw_terminal t \<longrightarrow> ar_terminal r) \<and>
     (tk_phase t = Task_Done \<and> \<not> tk_was_cancelled t \<longrightarrow> ar_terminal r) \<and>
     (tk_was_cancelled t \<longrightarrow> tk_phase t = Task_Done) \<and>
     (tk_phase t = Task_Created \<longrightarrow> \<not> tk_saw_terminal t) \<and> \<not> blank (cmd_content (tk_command t))"

definition turn_ok :: "('p, 'l) session \<Rightarrow> bool" where
  "turn_ok s \<longleftrightarrow>
    (case ss_task s of
       None \<Rightarrow> ss_coordinator s = None \<and> ss_active_task s = None \<and> ss_turn_idle s
     | Some t \<Rightarrow> (\<exists>r. ss_coordinator s = Some r \<and> task_ok t r) \<and> ss_active_task s = Some (tk_id t) \<and>
                \<not> ss_turn_idle s) \<and>
    (\<forall>r c. ss_settled s = Some (r, c) \<and> \<not> c \<longrightarrow> ar_terminal r)"

definition base_service :: "('p, 'l) session \<Rightarrow> 'p service" where
  "base_service s =
    (case ss_waiting s of Some (Switching _ _ _ _ sv _) \<Rightarrow> sv | _ \<Rightarrow> ss_service s)"

definition awaited :: "token \<Rightarrow> ('p, 'l) session \<Rightarrow> bool" where
  "awaited task s \<longleftrightarrow>
    (case ss_task s of
       Some t \<Rightarrow> tk_id t = task
     | None \<Rightarrow> (\<exists>r c. ss_settled s = Some (r, c) \<and> ar_task r = task))"

definition waiting_ok :: "('p, 'l) session \<Rightarrow> bool" where
  "waiting_ok s \<longleftrightarrow>
    (case ss_waiting s of
       None \<Rightarrow> True
     | Some (Entering _ _ _) \<Rightarrow> ss_state s = RuntimeState.READY
     | Some (Switching i opts h p sv task) \<Rightarrow>
         ss_state s = RuntimeState.READY \<and> awaited task s \<and> pp_profile_id p = i \<and>
         \<not> has_pending_cleanup sv \<and> \<not> sv_closed sv \<and>
         (\<exists>old. sv_active sv = Some old \<and> ss_service s = begin_switch old sv)
     | Some (Cancelling task) \<Rightarrow> ss_state s = RuntimeState.READY \<and> awaited task s
     | Some (Shutting_Down task) \<Rightarrow> ss_state s = RuntimeState.CLOSING \<and> awaited task s)"

definition agrees :: "('p, 'l) session \<Rightarrow> bool" where
  "agrees s \<longleftrightarrow>
    (\<forall>t. ss_task s = Some t \<and> tk_phase t \<noteq> Task_Done \<longrightarrow>
       sv_runtime_profile_id (base_service s) = Some (tk_profile_id t))"

definition mode_ok :: "('p, 'l) session \<Rightarrow> bool" where
  "mode_ok s \<longleftrightarrow>
     (ss_accepting s \<longleftrightarrow> ss_state s = RuntimeState.READY) \<and>
     (ss_state s = RuntimeState.READY \<longrightarrow> \<not> sv_closed (base_service s)) \<and>
     (ss_state s = RuntimeState.CLOSED \<longrightarrow>
        ss_loop s = None \<and> sv_lifecycle (ss_service s) = ProviderLifecycleState.CLOSED)"

definition session_ok :: "('p, 'l) session \<Rightarrow> bool" where
  "session_ok s \<longleftrightarrow>
     turn_ok s \<and> waiting_ok s \<and> agrees s \<and> mode_ok s \<and> service_ok (base_service s)"

lemma new_session_ok: "service_ok sv \<Longrightarrow> \<not> sv_closed sv \<Longrightarrow> session_ok (new_session sv)"
  by (simp add: session_ok_def turn_ok_def waiting_ok_def agrees_def mode_ok_def base_service_def new_session_def)

section \<open>Steps of the turn\<close>

text \<open>What a turn's step leaves alone, and what becomes of its task.\<close>

definition frame :: "('p, 'l) session \<Rightarrow> ('p, 'l) session \<Rightarrow> bool" where
  "frame s s' \<longleftrightarrow>
     ss_service s' = ss_service s \<and> ss_waiting s' = ss_waiting s \<and> ss_state s' = ss_state s \<and>
     ss_accepting s' = ss_accepting s \<and> ss_loop s' = ss_loop s \<and> ss_next_task s' = ss_next_task s \<and>
     ss_results s' = ss_results s"

definition same_turn :: "'l turn_task \<Rightarrow> ('p, 'l) session \<Rightarrow> bool" where
  "same_turn t s \<longleftrightarrow>
    (case ss_task s of
       Some t' \<Rightarrow> tk_id t' = tk_id t \<and> tk_profile_id t' = tk_profile_id t \<and> tk_command t' = tk_command t \<and>
         (tk_phase t' \<noteq> Task_Done \<longrightarrow> tk_phase t \<noteq> Task_Done)
     | None \<Rightarrow> tk_phase t = Task_Done \<and> (\<exists>r c. ss_settled s = Some (r, c) \<and> ar_task r = tk_id t))"

lemmas turn_defs =
  emit_event_def mark_turn_def fail_turn_def set_task_def task_starts_def task_ends_def task_raises_def
  task_cancelled_def Let_def

lemma process_agent_event_fields [simp]:
  "frame s (process_agent_event ev s)"
  "ss_task (process_agent_event ev s) = ss_task s"
  "ss_coordinator (process_agent_event ev s) = ss_coordinator s"
  "ss_active_task (process_agent_event ev s) = ss_active_task s"
  "ss_turn_idle (process_agent_event ev s) = ss_turn_idle s"
  "ss_settled (process_agent_event ev s) = ss_settled s"
  "ss_histories (process_agent_event ev s) = ss_histories s"
  "ss_continuations (process_agent_event ev s) = ss_continuations s"
  by (cases "ae_type ev"; simp add: process_agent_event_def emit_event_def frame_def)+

lemma commit_fields:
  assumes "commit_completed_turn c p ev s = (r, s')"
  shows "frame s s'" "ss_task s' = ss_task s" "ss_coordinator s' = ss_coordinator s"
    "ss_active_task s' = ss_active_task s" "ss_turn_idle s' = ss_turn_idle s" "ss_settled s' = ss_settled s"
    "ss_emitted s' = ss_emitted s"
  using assms
  by (auto simp: commit_completed_turn_def Let_def with_res_eq_iff frame_def)

lemma frame_trans: "frame s s1 \<Longrightarrow> frame s1 s2 \<Longrightarrow> frame s s2"
  by (simp add: frame_def)

definition turn_kept :: "'l turn_task \<Rightarrow> ('p, 'l) session \<Rightarrow> ('p, 'l) session \<Rightarrow> bool" where
  "turn_kept t s s' \<longleftrightarrow> turn_ok s' \<and> frame s s' \<and> same_turn t s'"

lemma task_yields_kept:
  assumes ok: "turn_ok s" and t: "ss_task s = Some t" "tk_phase t = Task_Running"
  shows "turn_kept t s (task_yields ev t s)"
proof -
  obtain r0 s0 where c: "(if ae_type ev = AgentEventType.TURN_COMPLETED
      then commit_completed_turn (tk_command t) (tk_profile_id t) ev s else (Inr (), s)) = (r0, s0)" by fastforce
  have s0: "frame s s0" "ss_task s0 = Some t" "ss_coordinator s0 = ss_coordinator s"
    "ss_active_task s0 = ss_active_task s" "ss_turn_idle s0 = ss_turn_idle s" "ss_settled s0 = ss_settled s"
    using c t(1) by (auto split: if_splits dest: commit_fields) (simp add: frame_def)
  obtain r where r: "ss_coordinator s = Some r" "task_ok t r" using ok t by (auto simp: turn_ok_def)
  have id: "ar_turn_id r = cmd_turn_id (tk_command t)" using r(2) by (simp add: task_ok_def)
  have fr: "frame s (process_agent_event ev s0)" using s0(1) by (rule frame_trans) simp
  show ?thesis
    using ok t r s0 fr
    by (cases r0) (auto simp: task_yields_def handle_yield_def c turn_kept_def turn_ok_def same_turn_def
        frame_def turn_defs task_ok_def mark_terminal_def id)
qed

lemma turn_step_kept:
  assumes ok: "turn_ok s" and step: "turn_step i s = Some s'"
  obtains t where "ss_task s = Some t" "turn_kept t s s'"
proof -
  obtain t where t: "ss_task s = Some t" using step by (auto simp: turn_step_def split: option.splits)
  obtain r where r: "ss_coordinator s = Some r" "task_ok t r" using ok t by (auto simp: turn_ok_def)
  have "turn_kept t s s'"
  proof (cases i)
    case (Yields ev)
    then show ?thesis using step t task_yields_kept [OF ok t] by (auto simp: turn_step_def split: if_splits)
  next
    case Settles
    then show ?thesis
      using step t r ok
      by (auto simp: turn_step_def on_turn_done_def turn_kept_def turn_ok_def same_turn_def frame_def
          emit_event_def task_ok_def current_turn_id_def release_finished_turn_def Let_def split: if_splits)
  qed (use step t r ok in \<open>auto simp: turn_step_def turn_kept_def turn_ok_def same_turn_def frame_def turn_defs
      task_ok_def mark_terminal_def split: if_splits\<close>)
  with t show ?thesis by (rule that)
qed

lemma turn_step_ok:
  assumes ok: "session_ok s" and step: "turn_step i s = Some s'"
  shows "session_ok s'"
proof -
  obtain t where t: "ss_task s = Some t" and k: "turn_kept t s s'"
    using ok step by (auto simp: session_ok_def elim: turn_step_kept)
  have f: "ss_service s' = ss_service s" "ss_waiting s' = ss_waiting s" "ss_state s' = ss_state s"
    "ss_accepting s' = ss_accepting s" "ss_loop s' = ss_loop s"
    using k by (auto simp: turn_kept_def frame_def)
  have b: "base_service s' = base_service s" unfolding base_service_def f by (rule refl)
  have a: "awaited task s \<Longrightarrow> awaited task s'" for task
    using k t by (auto simp: awaited_def turn_kept_def same_turn_def split: option.splits)
  have "waiting_ok s'"
    using ok a by (auto simp: session_ok_def waiting_ok_def f split: option.splits waiting.splits)
  moreover have "agrees s'"
    using ok k t by (auto simp: session_ok_def agrees_def b turn_kept_def same_turn_def)
  ultimately show ?thesis
    using ok k by (simp add: session_ok_def mode_ok_def b f turn_kept_def)
qed

section \<open>Parts of an activation\<close>

lemma close_tracked_closed: "close_tracked_provider mp k s = (r, s') \<Longrightarrow> sv_closed s' = sv_closed s"
  by (cases k) (auto simp: close_tracked_provider_def managed_aclose_def managed_revoke_def untrack_def Let_def
      set_lifecycle_def split: await_outcome.splits if_splits)

lemma discard_candidate_closed:
  "discard_candidate mp m1 m2 s = (r, s') \<Longrightarrow> sv_closed s' = sv_closed s"
  by (auto simp: discard_candidate_def sbind_def track_def split: prod.splits sum.splits if_splits
      dest!: close_tracked_closed)

lemma construct_provider_closed:
  "construct_provider SE i p opts s = (r, s') \<Longrightarrow> sv_closed s' = sv_closed s"
  by (auto simp: construct_provider_def wrap_delegate_def managed_resume_def publish_def Let_def
      split: prod.splits sum.splits option.splits if_splits dest!: discard_candidate_closed)

lemma begin_switch_closed [simp]: "sv_closed (begin_switch old s) = sv_closed s"
  by (simp add: begin_switch_def track_def clear_runtime_def managed_revoke_def)

lemma retire_active_closed: "retire_active SE h sw s = (r, s') \<Longrightarrow> sv_closed s' = sv_closed s"
  by (auto simp: retire_active_def Let_def sbind_def restore_old_def publish_def managed_resume_def untrack_def
      split: option.splits await_outcome.splits prod.splits sum.splits if_splits dest!: close_tracked_closed)

lemma complete_switch_closed: "complete_switch SE i opts h p sw s = (r, s') \<Longrightarrow> sv_closed s' = sv_closed s"
  by (auto simp: complete_switch_def sbind_def split: prod.splits sum.splits
      dest!: retire_active_closed construct_provider_closed)

lemma complete_switch_ok:
  assumes "service_ok s" "\<not> has_pending_cleanup s" "\<not> sv_closed s" "pp_profile_id p = i"
    and "complete_switch SE i opts h p sw s = (r, s')"
  shows "service_ok s' \<and> \<not> sv_closed s'"
  using switch_ok [OF assms(1-4)] assms complete_switch_closed by (fastforce simp: complete_switch_def)

text \<open>A switch that is given up leaves the old provider active.\<close>

lemma complete_switch_given_up:
  assumes ok: "service_ok s" and act: "sv_active s = Some old"
    and up: "old_activation SE h s = None \<or> sw_coordination sw \<noteq> AwaitReturns"
    and c: "complete_switch SE i opts h p sw s = (r, s')"
  shows "sv_runtime_profile_id s' = sv_runtime_profile_id s"
proof (cases "old_activation SE h s")
  case None
  then show ?thesis using c act by (auto simp: complete_switch_def retire_active_def)
next
  case (Some b)
  then obtain j q o' where oa: "old_activation SE h s = Some (j, q, o')" by (cases b) auto
  then have "restore_old old j q o' (interfere f (begin_switch old s)) = interfere f s" for f
    using restore_old_eq [OF ok act] by (simp add: old_activation_Some)
  then show ?thesis
    using c act up oa
    by (cases "sw_coordination sw") (auto simp: complete_switch_def retire_active_def Let_def interfere_def)
qed

lemma activate_entry_ok:
  assumes ok: "service_ok s" and e: "activate_entry SE i opts s = (r, s')"
  shows "service_ok s' \<and> same_core s s' \<and>
    (\<forall>p. r = Inr (Inr p) \<longrightarrow> \<not> has_pending_cleanup s' \<and> \<not> sv_closed s' \<and> pp_profile_id p = i)"
proof -
  obtain r0 s0 where retry: "retry_pending_cleanup s = (r0, s0)" by fastforce
  show ?thesis
    using e retry retry_service_ok [OF ok retry]
    by (cases r0) (auto simp: activate_entry_def with_res_eq_iff split: option.splits if_splits
        dest: get_profile_id)
qed

section \<open>Quiescing\<close>

definition running :: "('p, 'l) session \<Rightarrow> bool" where
  "running s \<longleftrightarrow> (\<exists>t. ss_task s = Some t \<and> tk_phase t \<noteq> Task_Done)"

lemma quiesce_begin_ok:
  assumes ok: "turn_ok s" and q: "quiesce_begin p h s = (x, s')"
  shows "turn_ok s' \<and> s' = s\<lparr>ss_coordinator := ss_coordinator s'\<rparr> \<and>
    (\<forall>task. x = Inr task \<longrightarrow> awaited task s') \<and>
    (x = Inl (Inr ()) \<longrightarrow> \<not> running s) \<and>
    (x \<noteq> Inl (Inr ()) \<longrightarrow> (\<exists>t. ss_task s = Some t \<and> (running s \<longrightarrow> x = Inr (tk_id t) \<or> tk_profile_id t \<noteq> p)))"
proof (cases "ss_task s")
  case None
  then show ?thesis
    using ok q by (auto simp: turn_ok_def quiesce_begin_def prepare_begin_def running_def)
next
  case (Some t)
  then obtain r where r: "ss_coordinator s = Some r" "task_ok t r" using ok by (auto simp: turn_ok_def)
  define r1 where "r1 = (if h = ActiveTurnHandling.CANCEL_ACTIVE then r\<lparr>ar_cancelled := True\<rparr> else r)"
  have r1: "task_ok t r1" "ar_task r1 = tk_id t" "ar_profile_id r = tk_profile_id t"
    using r(2) by (auto simp: r1_def task_ok_def)
  have turn: "turn_ok (s\<lparr>ss_coordinator := Some r'\<rparr>)" if "task_ok t r'" for r'
    using ok Some that by (simp add: turn_ok_def)
  have eq: "quiesce_begin p h s =
      (if tk_profile_id t \<noteq> p
       then (Inl (Inl (ActiveTurnCoordinatorError ''The active turn does not belong to the retiring profile.'')),
             s\<lparr>ss_coordinator := Some r\<rparr>)
       else (if tk_phase t \<noteq> Task_Done then Inr (tk_id t) else Inl (prepare_end r1 True (tk_was_cancelled t)),
             s\<lparr>ss_coordinator := Some r1\<rparr>))"
    using Some r(1) r1(2,3) by (simp add: quiesce_begin_def prepare_begin_def Let_def r1_def [symmetric])
  show ?thesis
  proof (cases "tk_profile_id t = p")
    case True
    then have "s' = s\<lparr>ss_coordinator := Some r1\<rparr>"
      "x = (if tk_phase t \<noteq> Task_Done then Inr (tk_id t) else Inl (prepare_end r1 True (tk_was_cancelled t)))"
      using q eq by simp_all
    then show ?thesis using turn [OF r1(1)] Some by (simp add: running_def awaited_def)
  next
    case False
    then have "s' = s\<lparr>ss_coordinator := Some r\<rparr>" "\<exists>e. x = Inl (Inl e)"
      using q eq by auto
    then show ?thesis using turn [OF r(2)] Some False by (auto simp: running_def)
  qed
qed

section \<open>Commands\<close>

lemma session_ok_idle:
  assumes "ss_waiting s = None"
  shows "session_ok s \<longleftrightarrow> turn_ok s \<and> mode_ok s \<and> service_ok (ss_service s) \<and>
    (\<forall>t. ss_task s = Some t \<and> tk_phase t \<noteq> Task_Done \<longrightarrow>
       sv_runtime_profile_id (ss_service s) = Some (tk_profile_id t))"
  using assms by (auto simp: session_ok_def waiting_ok_def agrees_def base_service_def)

lemma mode_ok_idle:
  assumes "ss_waiting s = None"
  shows "mode_ok s \<longleftrightarrow>
     (ss_accepting s \<longleftrightarrow> ss_state s = RuntimeState.READY) \<and>
     (ss_state s = RuntimeState.READY \<longrightarrow> \<not> sv_closed (ss_service s)) \<and>
     (ss_state s = RuntimeState.CLOSED \<longrightarrow>
        ss_loop s = None \<and> sv_lifecycle (ss_service s) = ProviderLifecycleState.CLOSED)"
  using assms by (simp add: mode_ok_def base_service_def)

lemma turn_ok_fields [simp]:
  "turn_ok (s\<lparr>ss_service := a\<rparr>) = turn_ok s" "turn_ok (s\<lparr>ss_loop := b\<rparr>) = turn_ok s"
  "turn_ok (s\<lparr>ss_results := c\<rparr>) = turn_ok s" "turn_ok (s\<lparr>ss_waiting := d\<rparr>) = turn_ok s"
  "turn_ok (s\<lparr>ss_state := e\<rparr>) = turn_ok s" "turn_ok (s\<lparr>ss_accepting := f\<rparr>) = turn_ok s"
  "turn_ok (s\<lparr>ss_agent_state := g\<rparr>) = turn_ok s" "turn_ok (s\<lparr>ss_next_task := n\<rparr>) = turn_ok s"
  by (simp_all add: turn_ok_def split: option.splits)

lemma coordinator_fields [simp]:
  "base_service (s\<lparr>ss_coordinator := co\<rparr>) = base_service s"
  "awaited task (s\<lparr>ss_coordinator := co\<rparr>) = awaited task s"
  by (simp_all add: base_service_def awaited_def split: option.splits waiting.splits)

lemma coordinator_ok:
  "session_ok s \<Longrightarrow> turn_ok (s\<lparr>ss_coordinator := co\<rparr>) \<Longrightarrow> session_ok (s\<lparr>ss_coordinator := co\<rparr>)"
  by (auto simp: session_ok_def waiting_ok_def agrees_def mode_ok_def split: option.splits waiting.splits)

lemma return_result_waiting [simp]: "ss_waiting (return_result r s) = None"
  by (simp add: return_result_def)

text \<open>A command may end whenever its session is in order but for the wait.\<close>

lemma return_result_ok:
  assumes "turn_ok s" "service_ok (ss_service s)"
    and "ss_accepting s \<longleftrightarrow> ss_state s = RuntimeState.READY"
    and "ss_state s = RuntimeState.READY \<longrightarrow> \<not> sv_closed (ss_service s)"
    and "ss_state s = RuntimeState.CLOSED \<longrightarrow>
        ss_loop s = None \<and> sv_lifecycle (ss_service s) = ProviderLifecycleState.CLOSED"
    and "\<And>t. ss_task s = Some t \<Longrightarrow> tk_phase t \<noteq> Task_Done \<Longrightarrow>
       sv_runtime_profile_id (ss_service s) = Some (tk_profile_id t)"
  shows "session_ok (return_result r s)"
  using assms by (simp add: session_ok_idle mode_ok_idle) (simp add: return_result_def)

lemma return_result_same:
  "session_ok s \<Longrightarrow> ss_waiting s = None \<Longrightarrow> session_ok (return_result r s)"
  by (rule return_result_ok) (auto simp: session_ok_idle mode_ok_idle)

lemma finish_activation_ok:
  assumes "turn_ok s" "ss_state s = RuntimeState.READY" "ss_accepting s" "service_ok sv" "\<not> sv_closed sv"
    and "\<And>t. ss_task s = Some t \<Longrightarrow> tk_phase t \<noteq> Task_Done \<Longrightarrow>
       sv_runtime_profile_id sv = Some (tk_profile_id t)"
  shows "session_ok (finish_activation X (r, sv) s)"
  using assms by (auto simp: finish_activation_def intro!: return_result_ok split: sum.splits)

lemma require_ready_None: "session_ok s \<Longrightarrow> require_ready s = None \<longleftrightarrow> ss_state s = RuntimeState.READY"
  by (cases "ss_state s") (auto simp: require_ready_def session_ok_def mode_ok_def)

lemma session_activate_ok:
  assumes ok: "session_ok s" and idle: "ss_waiting s = None"
  shows "session_ok (session_activate i opts h s)"
proof -
  have "session_ok (wait_as (Entering i opts h') s)" if "ss_state s = RuntimeState.READY" for h'
    using ok idle that
    by (simp add: session_ok_def wait_as_def waiting_ok_def agrees_def mode_ok_def base_service_def)
  then show ?thesis
    using ok idle require_ready_None [OF ok]
    by (auto simp: session_activate_def Let_def intro: return_result_same split: option.splits)
qed

lemma mk_UserMessageCommand_fields:
  "mk_UserMessageCommand t i c = Inr m \<Longrightarrow> cmd_turn_id m = t \<and> cmd_session_id m = i \<and> cmd_content m = c \<and> \<not> blank c"
  by (auto simp: mk_UserMessageCommand_def)

lemma start_turn_ok:
  assumes ok: "session_ok s" and idle: "ss_waiting s = None"
  shows "session_ok (start_turn i c sid s)"
proof (cases "\<exists>p l m. require_ready s = None \<and> \<not> has_active_turn (ss_coordinator s) \<and>
    sv_runtime_profile_id (ss_service s) = Some p \<and> ss_loop s = Some l \<and>
    mk_UserMessageCommand i (py_strip sid) (py_strip c) = Inr m")
  case False
  then show ?thesis
    using return_result_same [OF ok idle]
    by (auto simp: start_turn_def split: option.splits sum.splits)
next
  case True
  then obtain p l m where p: "require_ready s = None" "\<not> has_active_turn (ss_coordinator s)"
    "sv_runtime_profile_id (ss_service s) = Some p" "ss_loop s = Some l"
    "mk_UserMessageCommand i (py_strip sid) (py_strip c) = Inr m" by blast
  have ready: "ss_state s = RuntimeState.READY" using p(1) require_ready_None [OF ok] by simp
  have co: "ss_coordinator s = None" using p(2) by (simp add: has_active_turn_def)
  let ?t = "\<lparr>tk_id = ss_next_task s, tk_loop = l, tk_command = m, tk_profile_id = p, tk_phase = Task_Created,
     tk_history = [], tk_continuation = None, tk_saw_terminal = False, tk_was_cancelled = False\<rparr>"
  let ?r = "\<lparr>ar_task = ss_next_task s, ar_cancelled = False, ar_turn_id = i, ar_profile_id = p, ar_terminal = False\<rparr>"
  let ?s = "s\<lparr>ss_turn_idle := False, ss_next_task := ss_next_task s + 1, ss_coordinator := Some ?r,
              ss_active_task := Some (ss_next_task s), ss_task := Some ?t\<rparr>"
  have "turn_ok ?s"
    using ok mk_UserMessageCommand_fields [OF p(5)] by (auto simp: session_ok_def turn_ok_def task_ok_def)
  then have "session_ok (return_result (Inr rc_ok) ?s)"
    using ok idle p(3) by (intro return_result_ok) (auto simp: session_ok_idle mode_ok_idle)
  then show ?thesis
    using return_result_same [OF ok idle] p co
    by (auto simp: start_turn_def Let_def)
qed

text \<open>The session after the coordinator's call, whether the command waits or goes on.\<close>

lemma quiesce_session:
  assumes ok: "session_ok s" and q: "quiesce_begin p h s = (x, s')"
  shows "session_ok s'" "ss_waiting s' = ss_waiting s" "ss_state s' = ss_state s"
    "ss_service s' = ss_service s" "ss_task s' = ss_task s"
    "\<And>task. x = Inr task \<Longrightarrow> awaited task s'"
    "x = Inl (Inr ()) \<Longrightarrow> \<not> running s"
proof -
  have "turn_ok s" using ok by (simp add: session_ok_def)
  note q_ok = quiesce_begin_ok [OF this q]
  then have s': "s' = s\<lparr>ss_coordinator := ss_coordinator s'\<rparr>" and t: "turn_ok s'" by simp_all
  have "turn_ok (s\<lparr>ss_coordinator := ss_coordinator s'\<rparr>)" using t s' by simp
  then have "session_ok (s\<lparr>ss_coordinator := ss_coordinator s'\<rparr>)" by (rule coordinator_ok [OF ok])
  with s' show "session_ok s'" by simp
  show "ss_waiting s' = ss_waiting s" "ss_state s' = ss_state s" "ss_service s' = ss_service s" "ss_task s' = ss_task s"
    by (subst s', simp)+
qed (use quiesce_begin_ok [OF _ q] ok in \<open>simp_all add: session_ok_def\<close>)

lemma wait_turn_ok:
  assumes ok: "session_ok s" and idle: "ss_waiting s = None" and a: "awaited task s"
    and st: "w = Cancelling task \<and> ss_state s = RuntimeState.READY \<or>
      w = Shutting_Down task \<and> ss_state s = RuntimeState.CLOSING"
  shows "session_ok (wait_as w s)"
proof -
  have "base_service (wait_as w s) = ss_service s" using st by (auto simp: base_service_def wait_as_def)
  moreover have "awaited task (wait_as w s)" using a by (simp add: awaited_def wait_as_def split: option.splits)
  ultimately show ?thesis
    using ok idle st
    by (auto simp: session_ok_idle mode_ok_idle) (auto simp: session_ok_def wait_as_def waiting_ok_def agrees_def mode_ok_def)
qed

lemma cancel_active_turn_ok:
  assumes ok: "session_ok s" and idle: "ss_waiting s = None"
  shows "session_ok (cancel_active_turn s)"
proof (cases "require_ready s = None \<and> current_profile_id (ss_coordinator s) \<noteq> None")
  case False
  then show ?thesis
    using return_result_same [OF ok idle] by (auto simp: cancel_active_turn_def split: option.splits)
next
  case True
  then obtain p where p: "require_ready s = None" "current_profile_id (ss_coordinator s) = Some p" by auto
  obtain x s1 where q: "quiesce_begin p ActiveTurnHandling.CANCEL_ACTIVE s = (x, s1)" by fastforce
  note s1 = quiesce_session [OF ok q]
  show ?thesis
    using p q s1 idle require_ready_None [OF ok] return_result_same [OF s1(1)] wait_turn_ok [OF s1(1)]
    by (cases x) (auto simp: cancel_active_turn_def)
qed

section \<open>Shutdown\<close>

lemma close_service_ok:
  assumes ok: "session_ok s" "ss_state s = RuntimeState.CLOSING" and idle: "\<not> running s"
    and w: "\<forall>i opts h p sv task. ss_waiting s \<noteq> Some (Switching i opts h p sv task)"
  shows "session_ok (close_service s)"
proof -
  have b: "base_service s = ss_service s" using w by (auto simp: base_service_def split: option.splits waiting.splits)
  obtain r sv where c: "service_aclose (ss_service s) = (r, sv)" by fastforce
  have sv: "service_ok sv" "sv_closed sv" using service_aclose_ok [OF _ c] ok b by (auto simp: session_ok_def)
  have closed: "sv_lifecycle sv = ProviderLifecycleState.CLOSED" if "r = Inr ()"
    using c that by (auto simp: service_aclose_def Let_def sbind_eq_Inr_iff)
  have "turn_ok s" "\<not> ss_accepting s" using ok by (auto simp: session_ok_def mode_ok_def)
  then show ?thesis
    using ok(2) sv idle c closed
    by (cases r) (auto simp: close_service_def running_def intro!: return_result_ok)
qed

lemma shutdown_after_ok:
  assumes ok: "session_ok s" "ss_state s = RuntimeState.CLOSING" and r: "r = Inr () \<Longrightarrow> \<not> running s"
    and w: "\<forall>i opts h p sv task. ss_waiting s \<noteq> Some (Switching i opts h p sv task)"
  shows "session_ok (shutdown_after r s)"
proof (cases r)
  case (Inl e)
  have b: "base_service s = ss_service s" using w by (auto simp: base_service_def split: option.splits waiting.splits)
  then have "turn_ok s" "\<not> ss_accepting s" "service_ok (ss_service s)" "agrees s"
    using ok by (auto simp: session_ok_def mode_ok_def)
  then show ?thesis
    using ok(2) b Inl by (auto simp: shutdown_after_def agrees_def intro!: return_result_ok)
next
  case (Inr u)
  then show ?thesis using close_service_ok [OF ok _ w] r by (simp add: shutdown_after_def)
qed

lemma shutdown_ok:
  assumes ok: "session_ok s" and idle: "ss_waiting s = None"
  shows "session_ok (shutdown c s)"
proof (cases "ss_state s = RuntimeState.CLOSED")
  case True
  then show ?thesis using return_result_same [OF ok idle] by (simp add: shutdown_def)
next
  case False
  let ?s1 = "s\<lparr>ss_state := RuntimeState.CLOSING, ss_accepting := False\<rparr>"
  let ?h = "if c then ActiveTurnHandling.CANCEL_ACTIVE else ActiveTurnHandling.WAIT_FOR_ACTIVE"
  have s1: "session_ok ?s1" "ss_waiting ?s1 = None" "ss_state ?s1 = RuntimeState.CLOSING"
    using ok idle by (auto simp: session_ok_idle mode_ok_idle)
  show ?thesis
  proof (cases "current_profile_id (ss_coordinator s)")
    case None
    have "\<not> running ?s1"
      using ok None by (auto simp: session_ok_def turn_ok_def running_def current_profile_id_def split: option.splits)
    then show ?thesis
      using False None close_service_ok [OF s1(1,3)] s1(2) by (simp add: shutdown_def)
  next
    case (Some p)
    obtain x s2 where q: "quiesce_begin p ?h ?s1 = (x, s2)" by fastforce
    note s2 = quiesce_session [OF s1(1) q]
    have "session_ok (shutdown_after r s2)" if "x = Inl r" for r
      using s2 s1 that by (intro shutdown_after_ok) (auto simp: running_def)
    then show ?thesis
      using False Some q s1 s2 wait_turn_ok [OF s2(1)] by (cases x) (auto simp: shutdown_def)
  qed
qed

section \<open>Activation\<close>

lemma enter_activation_ok:
  assumes ok: "session_ok s" and w: "ss_waiting s = Some (Entering i opts h)"
  shows "session_ok (enter_activation X f i opts h s)"
proof -
  have b: "base_service s = ss_service s" using w by (simp add: base_service_def)
  have st: "turn_ok s" "ss_state s = RuntimeState.READY" "ss_accepting s" "service_ok (ss_service s)"
    "\<not> sv_closed (ss_service s)"
    and agree: "\<And>t. ss_task s = Some t \<Longrightarrow> tk_phase t \<noteq> Task_Done \<Longrightarrow>
       sv_runtime_profile_id (ss_service s) = Some (tk_profile_id t)"
    using ok w by (auto simp: session_ok_def waiting_ok_def agrees_def mode_ok_def b)
  obtain r sv where e: "activate_entry (sx_service X) i opts (ss_service s) = (r, sv)" by fastforce
  note sv = activate_entry_ok [OF st(4) e]
  have sv_id: "sv_runtime_profile_id sv = sv_runtime_profile_id (ss_service s)" "\<not> sv_closed sv"
    using sv st(5) by (auto simp: same_core_def)
  have fin: "session_ok (finish_activation X (x, sv') s')"
    if "turn_ok s'" "ss_state s' = ss_state s" "ss_accepting s' = ss_accepting s" "ss_task s' = ss_task s"
      "service_ok sv'" "\<not> sv_closed sv'"
      "running s \<Longrightarrow> sv_runtime_profile_id sv' = sv_runtime_profile_id (ss_service s)" for x sv' s'
  proof (rule finish_activation_ok)
    fix t
    assume t: "ss_task s' = Some t" "tk_phase t \<noteq> Task_Done"
    then have "ss_task s = Some t" "running s" using that(4) by (simp_all add: running_def)
    then show "sv_runtime_profile_id sv' = Some (tk_profile_id t)" using that(7) agree t(2) by simp
  qed (use that st in simp_all)
  show ?thesis
  proof (cases "\<exists>p. r = Inr (Inr p)")
    case False
    then consider (err) er where "r = Inl er" | (reuse) mp where "r = Inr (Inl mp)"
      by (cases r) (auto, metis sum.exhaust)
    then show ?thesis
      using e sv sv_id st fin [of s sv] by cases (auto simp: enter_activation_def)
  next
    case True
    then obtain p where p: "r = Inr (Inr p)" by blast
    then have np: "service_ok sv" "\<not> has_pending_cleanup sv" "\<not> sv_closed sv" "pp_profile_id p = i"
      using sv by auto
    let ?c = "\<lambda>x. complete_switch (sx_service X) i opts h p (switching_of x f) sv"
    have done_ok: "session_ok (finish_activation X (?c x) s')"
      if "turn_ok s'" "ss_state s' = ss_state s" "ss_accepting s' = ss_accepting s" "ss_task s' = ss_task s"
        "running s \<Longrightarrow> sv_active sv \<noteq> None \<and> (old_activation (sx_service X) h sv = None \<or> x \<noteq> Inr ())" for x s'
    proof -
      obtain r' sv' where c: "?c x = (r', sv')" by fastforce
      note ok' = complete_switch_ok [OF np c]
      have "sv_runtime_profile_id sv' = sv_runtime_profile_id (ss_service s)" if run: "running s"
      proof -
        obtain old where "sv_active sv = Some old" using \<open>running s \<Longrightarrow> _\<close> [OF run] by auto
        then show ?thesis
          using complete_switch_given_up [OF np(1) _ _ c] \<open>running s \<Longrightarrow> _\<close> [OF run] sv_id(1)
          by (auto simp: switching_of_def split: sum.splits)
      qed
      then show ?thesis unfolding c using fin that(1-4) ok' by blast
    qed
    have runs: "sv_active sv \<noteq> None" if "running s"
      using that agree np(1) sv_id(1) by (auto simp: running_def service_ok_def slots_ok_def runtime_coherent_def split: option.splits)
    show ?thesis
    proof (cases "\<exists>old. sv_active sv = Some old \<and> old_activation (sx_service X) h sv \<noteq> None")
      case False
      then have "session_ok (finish_activation X (?c (Inr ())) s)"
        using runs False by (intro done_ok [OF st(1) refl refl refl]) blast
      then show ?thesis
        using e p False by (auto simp: enter_activation_def Let_def split: option.splits)
    next
      case True
      then obtain old j rest where old: "sv_active sv = Some old"
        and oa: "old_activation (sx_service X) h sv = Some (j, rest)" by auto
      obtain x s1 where q: "quiesce_begin j (the h) s = (x, s1)" by fastforce
      note s1 = quiesce_session [OF ok q]
      have acc: "turn_ok s1" "ss_accepting s1 = ss_accepting s"
        using quiesce_begin_ok [OF st(1) q] s1(1,3) st(2,3) by (auto simp: session_ok_def mode_ok_def)
      have "session_ok (wait_as (Switching i opts h p sv task) (s1\<lparr>ss_service := begin_switch old sv\<rparr>))"
        if "x = Inr task" for task
      proof -
        have "awaited task (wait_as (Switching i opts h p sv task) (s1\<lparr>ss_service := begin_switch old sv\<rparr>))"
          using s1(6) [OF that] by (simp add: awaited_def wait_as_def split: option.splits)
        then show ?thesis
          using acc np old s1 st agree sv_id
          by (auto simp: session_ok_def waiting_ok_def agrees_def mode_ok_def base_service_def)
            (auto simp: wait_as_def)
      qed
      moreover have "session_ok (finish_activation X (?c y) s1)" if "x = Inl y" for y
        using that s1 acc runs by (intro done_ok) auto
      ultimately show ?thesis
        using e p old oa q by (cases x) (auto simp: enter_activation_def Let_def)
    qed
  qed
qed

lemma quiesced_idle: "quiesced task s = Some r \<Longrightarrow> \<not> running s"
  by (auto simp: quiesced_def running_def split: option.splits if_splits)

lemma resume_with_ok:
  assumes ok: "session_ok s" and w: "ss_waiting s = Some w"
    and r: "r = Inr () \<Longrightarrow> \<not> running s"
  shows "session_ok (resume_with X f w r s)"
proof (cases w)
  case (Entering i opts h)
  then show ?thesis using ok by (simp add: resume_with_def)
next
  case (Switching i opts h p sv task)
  have b: "base_service s = sv" using w Switching by (simp add: base_service_def)
  obtain old where st: "turn_ok s" "ss_state s = RuntimeState.READY" "ss_accepting s" "service_ok sv" "\<not> sv_closed sv"
    "\<not> has_pending_cleanup sv" "pp_profile_id p = i" "sv_active sv = Some old"
    and agree: "\<And>t. ss_task s = Some t \<Longrightarrow> tk_phase t \<noteq> Task_Done \<Longrightarrow>
       sv_runtime_profile_id sv = Some (tk_profile_id t)"
    using ok w Switching by (auto simp: session_ok_def waiting_ok_def agrees_def mode_ok_def b)
  obtain r' sv' where c: "complete_switch (sx_service X) i opts h p (switching_of r f) sv = (r', sv')" by fastforce
  have keep: "sv_runtime_profile_id sv' = sv_runtime_profile_id sv" if "running s"
    using that r by (intro complete_switch_given_up [OF st(4,8) _ c]) (auto simp: switching_of_def split: sum.splits)
  have "session_ok (finish_activation X (r', sv') s)"
    using complete_switch_ok [OF st(4,6,5,7) c] keep agree st(1-3)
    by (intro finish_activation_ok) (auto simp: running_def)
  then show ?thesis using Switching c by (simp add: resume_with_def)
next
  case (Cancelling task)
  have b: "base_service s = ss_service s" using w Cancelling by (simp add: base_service_def)
  have "session_ok (return_result (cancel_result r) s)"
    using ok w Cancelling
    by (intro return_result_ok) (auto simp: session_ok_def waiting_ok_def agrees_def mode_ok_def b)
  then show ?thesis using Cancelling by (simp add: resume_with_def)
next
  case (Shutting_Down task)
  then have "session_ok (shutdown_after r s)"
    using ok w r by (intro shutdown_after_ok) (auto simp: session_ok_def waiting_ok_def)
  then show ?thesis using Shutting_Down by (simp add: resume_with_def)
qed

section \<open>Every step keeps the invariant\<close>

lemma session_step_ok:
  assumes ok: "session_ok s" and step: "session_step X i s = Some s'"
  shows "session_ok s'"
proof (cases i)
  case (Turn j)
  then show ?thesis using step turn_step_ok [OF ok] by simp
next
  case (Enter f)
  then show ?thesis
    using step enter_activation_ok [OF ok] by (auto split: option.splits waiting.splits)
next
  case (Resume f)
  then obtain w task r where "ss_waiting s = Some w" "quiesced task s = Some r" "s' = resume_with X f w r s"
    using step by (auto split: option.splits)
  then show ?thesis using resume_with_ok [OF ok] quiesced_idle by blast
next
  case (Abort f)
  then obtain w where "ss_waiting s = Some w" "s' = resume_with X f w (Inl CancelledError) s"
    using step by (auto split: option.splits)
  then show ?thesis using resume_with_ok [OF ok] by blast
qed (use step ok in \<open>auto simp: begin_command_def session_activate_ok start_turn_ok cancel_active_turn_ok
    shutdown_ok split: if_splits\<close>)

lemma session_run_ok: "session_ok s \<Longrightarrow> session_run X is s = Some s' \<Longrightarrow> session_ok s'"
  by (induction "is" arbitrary: s) (auto split: option.splits dest: session_step_ok)

end
