(* ===== verification/Session_Turn.thy ===== *)
theory Session_Turn
  imports Session_Invariant
begin

text \<open>
  A whole turn of a session: the task starts, the agent loop yields its events, the generator ends
  (or is abandoned by an exception), and the done callback settles the turn. The lemmas reduce it to
  the one event that matters, the loop's first completion, cancellation or failure.
\<close>

section \<open>Running a turn\<close>

text \<open>
  \<open>fin\<close> is how the generator leaves the \<^verbatim>\<open>async for\<close>: it ends, or an exception comes out of it.
\<close>

fun feed :: "'j turn_input \<Rightarrow> 'j AgentEvent list \<Rightarrow> ('p, 'l) session \<Rightarrow> ('p, 'l) session option" where
  "feed fin [] s = turn_step fin s"
| "feed fin (ev # evs) s =
    (case turn_step (Yields ev) s of
       None \<Rightarrow> None
     | Some s1 \<Rightarrow>
         (case ss_task s1 of
            None \<Rightarrow> None
          | Some t \<Rightarrow> if tk_phase t = Task_Done then Some s1 else feed fin evs s1))"

definition begun :: "('p, 'l) session \<Rightarrow> ('p, 'l) session option" where
  "begun s =
    (case ss_task s of
       None \<Rightarrow> None
     | Some t \<Rightarrow> if tk_phase t = Task_Created then Some (task_starts t s) else Some s)"

definition turn_until :: "'j turn_input \<Rightarrow> 'j AgentEvent list \<Rightarrow> ('p, 'l) session \<Rightarrow> ('p, 'l) session option" where
  "turn_until fin evs s =
    Option.bind (begun s) (\<lambda>s1. Option.bind (feed fin evs s1) (turn_step (Settles :: 'j turn_input)))"

abbreviation whole_turn :: "'j AgentEvent list \<Rightarrow> ('p, 'l) session \<Rightarrow> ('p, 'l) session option" where
  "whole_turn \<equiv> turn_until Ends"

definition is_outcome :: "RuntimeEvent \<Rightarrow> bool" where
  "is_outcome e \<longleftrightarrow> re_type e \<in>
     {RuntimeEventType.TURN_COMPLETED, RuntimeEventType.TURN_CANCELLED, RuntimeEventType.TURN_FAILED}"

text \<open>Only the event log without outcomes and the agent state differ.\<close>

definition chatter :: "('p, 'l) session \<Rightarrow> ('p, 'l) session \<Rightarrow> bool" where
  "chatter s s' \<longleftrightarrow>
    (\<exists>xs a. s' = s\<lparr>ss_emitted := ss_emitted s @ xs, ss_agent_state := a\<rparr> \<and> (\<forall>x \<in> set xs. \<not> is_outcome x))"

lemma chatter_refl [simp]: "chatter s s"
  unfolding chatter_def by (rule exI [of _ "[]"], rule exI [of _ "ss_agent_state s"]) simp

lemma chatter_trans: "chatter s s1 \<Longrightarrow> chatter s1 s2 \<Longrightarrow> chatter s s2"
proof -
  assume "chatter s s1" "chatter s1 s2"
  then obtain xs a ys b where e: "s1 = s\<lparr>ss_emitted := ss_emitted s @ xs, ss_agent_state := a\<rparr>"
    "s2 = s1\<lparr>ss_emitted := ss_emitted s1 @ ys, ss_agent_state := b\<rparr>"
    and q: "\<forall>x \<in> set (xs @ ys). \<not> is_outcome x"
    unfolding chatter_def set_append ball_Un by blast
  have "s2 = s\<lparr>ss_emitted := ss_emitted s @ (xs @ ys), ss_agent_state := b\<rparr>" by (simp add: e)
  with q show ?thesis unfolding chatter_def by blast
qed

lemma chatter_fields:
  assumes "chatter s s'"
  shows "ss_task s' = ss_task s" "ss_coordinator s' = ss_coordinator s" "ss_histories s' = ss_histories s"
    "ss_continuations s' = ss_continuations s" "ss_active_task s' = ss_active_task s"
    "ss_turn_idle s' = ss_turn_idle s" "frame s s'" "ss_settled s' = ss_settled s"
  using assms by (auto simp: chatter_def frame_def)

lemma chatter_outcomes:
  "chatter s s' \<Longrightarrow> \<exists>xs. ss_emitted s' = ss_emitted s @ xs \<and> filter is_outcome xs = []"
  by (auto simp: chatter_def)

lemma process_chatter: "\<not> is_terminal ev \<Longrightarrow> chatter s (process_agent_event ev s)"
proof -
  have set_state: "chatter s (emit_event x (s\<lparr>ss_agent_state := a\<rparr>))" if "\<not> is_outcome x" for x a
    unfolding chatter_def
    by (rule exI [of _ "[x]"], rule exI [of _ a]) (use that in \<open>simp add: emit_event_def\<close>)
  have plain: "chatter s (emit_event x s)" if "\<not> is_outcome x" for x
    using set_state [OF that, of "ss_agent_state s"] by simp
  assume "\<not> is_terminal ev"
  then show ?thesis
    by (cases "ae_type ev")
      (auto simp: process_agent_event_def is_terminal_def is_outcome_def runtime_event_def intro!: plain set_state)
qed

lemma yield_plain:
  "\<not> is_terminal ev \<Longrightarrow> task_yields ev t s = process_agent_event ev s"
  by (auto simp: task_yields_def handle_yield_def is_terminal_def)

lemma feed_plain:
  assumes "ss_task s = Some t" "tk_phase t = Task_Running" "\<forall>e \<in> set pre. \<not> is_terminal e"
  shows "\<exists>s1. chatter s s1 \<and> feed fin (pre @ rest) s = feed fin rest s1"
  using assms
proof (induction pre arbitrary: s)
  case Nil
  then show ?case by (intro exI [of _ s]) simp
next
  case (Cons ev pre)
  let ?s1 = "process_agent_event ev s"
  have c: "chatter s ?s1" using Cons.prems(3) by (intro process_chatter) simp
  have t: "ss_task ?s1 = Some t" using Cons.prems(1) by simp
  then obtain s2 where s2: "chatter ?s1 s2" "feed fin (pre @ rest) ?s1 = feed fin rest s2"
    using Cons.IH [of ?s1] Cons.prems(2,3) by auto
  have "feed fin ((ev # pre) @ rest) s = feed fin rest s2"
    using Cons.prems t s2(2) by (simp add: turn_step_def yield_plain)
  with chatter_trans [OF c s2(1)] show ?case by blast
qed

section \<open>The outcome\<close>

text \<open>What the terminal event of the loop makes of a session whose turn is running.\<close>

definition committed :: "'l turn_task \<Rightarrow> 'j AgentEvent \<Rightarrow> RuntimeEvent \<Rightarrow> ('p, 'l) session \<Rightarrow> ('p, 'l) session \<Rightarrow> bool" where
  "committed t ev x s s' \<longleftrightarrow>
     (let sid = cmd_session_id (tk_command t) in
      if re_type x = RuntimeEventType.TURN_COMPLETED
      then ae_type ev = AgentEventType.TURN_COMPLETED \<and> \<not> blank (ae_text ev) \<and> re_text x = ae_text ev \<and>
        ss_histories s' = (ss_histories s)(sid \<mapsto> history_for_session sid s @
          [\<lparr>role = MessageRole.USER, msg_content = cmd_content (tk_command t)\<rparr>,
           \<lparr>role = MessageRole.ASSISTANT, msg_content = ae_text ev\<rparr>]) \<and>
        ss_continuations s' = (ss_continuations s)((sid, tk_profile_id t) := ae_continuation ev)
      else (ae_type ev = AgentEventType.TURN_COMPLETED \<longrightarrow> blank (ae_text ev) \<and>
          re_type x = RuntimeEventType.TURN_FAILED \<and> re_safe_code x = ''runtime_turn_failed'') \<and>
        (\<forall>i. history_for_session i s' = history_for_session i s) \<and>
        ss_continuations s' = ss_continuations s)"

lemma committed_cong:
  "ss_histories s1 = ss_histories s \<Longrightarrow> ss_continuations s1 = ss_continuations s \<Longrightarrow>
   ss_histories s2 = ss_histories s' \<Longrightarrow> ss_continuations s2 = ss_continuations s' \<Longrightarrow>
   tk_command t1 = tk_command t \<Longrightarrow> tk_profile_id t1 = tk_profile_id t \<Longrightarrow>
   committed t1 ev x s1 s2 = committed t ev x s s'"
  by (simp add: committed_def history_for_session_def Let_def)

definition concluded :: "'l turn_task \<Rightarrow> 'j AgentEvent \<Rightarrow> RuntimeEvent \<Rightarrow> ('p, 'l) session \<Rightarrow> ('p, 'l) session \<Rightarrow> bool" where
  "concluded t ev x s s' \<longleftrightarrow>
     re_turn_id x = ae_turn_id ev \<and> is_outcome x \<and> ss_emitted s' = ss_emitted s @ [x] \<and> committed t ev x s s'"

lemma commit_blank:
  "\<not> blank (cmd_content c) \<Longrightarrow> blank (ae_text ev) \<Longrightarrow> commit_completed_turn c p ev s =
    (Inl (ValueError ''ChatMessage content must not be blank''),
     s\<lparr>ss_histories := (ss_histories s)(cmd_session_id c \<mapsto> history_for_session (cmd_session_id c) s)\<rparr>)"
  by (simp add: commit_completed_turn_def mk_ChatMessage_def Let_def)

lemma commit_text:
  "\<not> blank (cmd_content c) \<Longrightarrow> \<not> blank (ae_text ev) \<Longrightarrow> commit_completed_turn c p ev s =
    (Inr (), s\<lparr>ss_histories := (ss_histories s)(cmd_session_id c \<mapsto> history_for_session (cmd_session_id c) s @
          [\<lparr>role = MessageRole.USER, msg_content = cmd_content c\<rparr>,
           \<lparr>role = MessageRole.ASSISTANT, msg_content = ae_text ev\<rparr>]),
      ss_continuations := (ss_continuations s)((cmd_session_id c, p) := ae_continuation ev)\<rparr>)"
  by (simp add: commit_completed_turn_def mk_ChatMessage_def Let_def)

lemma yield_terminal:
  assumes c: "\<not> blank (cmd_content (tk_command t))" and id: "ae_turn_id ev = cmd_turn_id (tk_command t)"
    and ev: "is_terminal ev"
  obtains x where "concluded t ev x s (task_yields ev t s)"
    "ss_task (task_yields ev t s) = Some (if ae_type ev = AgentEventType.TURN_COMPLETED \<and> blank (ae_text ev)
       then t\<lparr>tk_phase := Task_Done\<rparr> else t\<lparr>tk_saw_terminal := True\<rparr>)"
proof (cases "ae_type ev = AgentEventType.TURN_COMPLETED")
  case True
  show ?thesis
  proof (cases "blank (ae_text ev)")
    case b: True
    then show ?thesis
      using True id
      by (intro that [of "(runtime_event RuntimeEventType.TURN_FAILED (cmd_turn_id (tk_command t)))
          \<lparr>re_safe_code := ''runtime_turn_failed'', re_safe_message := ''The Agent turn failed safely.''\<rparr>"])
        (auto simp: concluded_def committed_def task_yields_def handle_yield_def is_outcome_def runtime_event_def
          commit_blank [OF c b] history_for_session_def turn_defs)
  next
    case b: False
    then show ?thesis
      using True id ev
      by (intro that [of "(runtime_event RuntimeEventType.TURN_COMPLETED (ae_turn_id ev))\<lparr>re_text := ae_text ev\<rparr>"])
        (auto simp: concluded_def committed_def task_yields_def handle_yield_def process_agent_event_def is_outcome_def runtime_event_def
          commit_text [OF c b] turn_defs)
  qed
next
  case False
  let ?x = "if ae_type ev = AgentEventType.TURN_CANCELLED
    then runtime_event RuntimeEventType.TURN_CANCELLED (ae_turn_id ev)
    else (runtime_event RuntimeEventType.TURN_FAILED (ae_turn_id ev))
      \<lparr>re_safe_code := ae_error_code ev, re_safe_message := ae_error_message ev\<rparr>"
  show ?thesis
    using False ev
    by (intro that [of ?x])
      (auto simp: concluded_def committed_def task_yields_def handle_yield_def process_agent_event_def is_terminal_def is_outcome_def
        runtime_event_def history_for_session_def turn_defs)
qed

lemma set_task_same: "ss_task s = Some t \<Longrightarrow> set_task t s = s"
  by (simp add: set_task_def)

lemma feed_ends:
  fixes post :: "'j AgentEvent list"
  assumes "ss_task s = Some t" "tk_phase t = Task_Running" "tk_saw_terminal t" "\<forall>e \<in> set post. \<not> is_terminal e"
  shows "\<exists>s1. chatter s s1 \<and> feed Ends post s = Some (set_task (t\<lparr>tk_phase := Task_Done\<rparr>) s1)"
proof -
  obtain s1 where s1: "chatter s s1" "feed Ends (post @ []) s = feed Ends ([] :: 'j AgentEvent list) s1"
    using feed_plain [OF assms(1,2,4), of Ends "[]"] by blast
  have "ss_task s1 = Some t" using chatter_fields(1) [OF s1(1)] assms(1) by simp
  then have "feed Ends post s = Some (set_task (t\<lparr>tk_phase := Task_Done\<rparr>) s1)"
    using s1(2) assms(2,3) by (simp add: turn_step_def task_ends_def)
  with s1(1) show ?thesis by blast
qed

lemma feed_outcome:
  assumes t: "ss_task s = Some t" "tk_phase t = Task_Running" "\<not> blank (cmd_content (tk_command t))"
    and pre: "\<forall>e \<in> set pre. \<not> is_terminal e" and post: "\<forall>e \<in> set post. \<not> is_terminal e"
    and ev: "is_terminal ev" "ae_turn_id ev = cmd_turn_id (tk_command t)"
  obtains s1 s2 s3 t' x where "chatter s s1" "concluded t ev x s1 s2" "chatter s2 s3"
    "feed Ends (pre @ ev # post) s = Some (set_task t' s3)" "tk_phase t' = Task_Done" "tk_id t' = tk_id t"
    "tk_was_cancelled t' = tk_was_cancelled t" "tk_command t' = tk_command t"
proof -
  obtain s1 where s1: "chatter s s1" "feed Ends (pre @ ev # post) s = feed Ends (ev # post) s1"
    using feed_plain [OF t(1,2) pre, of Ends "ev # post"] by blast
  have t1: "ss_task s1 = Some t" using chatter_fields(1) [OF s1(1)] t(1) by simp
  let ?s2 = "task_yields ev t s1"
  obtain x where x: "concluded t ev x s1 ?s2"
    "ss_task ?s2 = Some (if ae_type ev = AgentEventType.TURN_COMPLETED \<and> blank (ae_text ev)
       then t\<lparr>tk_phase := Task_Done\<rparr> else t\<lparr>tk_saw_terminal := True\<rparr>)"
    using yield_terminal [OF t(3) ev(2,1)] by blast
  show ?thesis
  proof (cases "ae_type ev = AgentEventType.TURN_COMPLETED \<and> blank (ae_text ev)")
    case True
    then have "feed Ends (ev # post) s1 = Some (set_task (t\<lparr>tk_phase := Task_Done\<rparr>) ?s2)"
      using t1 t(2) x(2) by (simp add: turn_step_def set_task_same)
    with s1 x(1) show ?thesis by (intro that [of s1 x ?s2 ?s2 "t\<lparr>tk_phase := Task_Done\<rparr>"]) simp_all
  next
    case False
    have "ss_task ?s2 = Some (t\<lparr>tk_saw_terminal := True\<rparr>)" using x(2) unfolding if_not_P [OF False] .
    from feed_ends [OF this _ _ post] t(2) obtain s3 where "chatter ?s2 s3"
      "feed Ends post ?s2 = Some (set_task (t\<lparr>tk_saw_terminal := True, tk_phase := Task_Done\<rparr>) s3)"
      by auto
    moreover have "feed Ends (ev # post) s1 = feed Ends post ?s2"
      using x(2) False t1 t(2) by (simp add: turn_step_def)
    ultimately show ?thesis
      using s1 x(1) by (intro that [of s1 x ?s2 s3 "t\<lparr>tk_saw_terminal := True, tk_phase := Task_Done\<rparr>"]) simp_all
  qed
qed

section \<open>Settling\<close>

lemma settle:
  assumes ok: "turn_ok s" and t: "ss_task s = Some t" "tk_phase t = Task_Done"
  obtains r where "ss_coordinator s = Some r" "task_ok t r"
    "turn_step (Settles :: 'j turn_input) s = Some (s\<lparr>ss_coordinator := None, ss_active_task := None, ss_turn_idle := True,
       ss_task := None, ss_settled := Some (r, tk_was_cancelled t),
       ss_emitted := ss_emitted s @ [runtime_event RuntimeEventType.TURN_SETTLED (cmd_turn_id (tk_command t))]\<rparr>)"
proof -
  obtain r where r: "ss_coordinator s = Some r" "task_ok t r" "ss_active_task s = Some (tk_id t)"
    using ok t by (auto simp: turn_ok_def)
  then show ?thesis
    using t
    by (auto simp: turn_step_def on_turn_done_def task_ok_def current_turn_id_def release_finished_turn_def emit_event_def
        intro!: that)
qed

lemma begun_running:
  assumes ok: "turn_ok s" and t: "ss_task s = Some t" "tk_phase t \<noteq> Task_Done"
  obtains s1 t1 where "begun s = Some s1" "ss_task s1 = Some t1" "tk_phase t1 = Task_Running" "turn_ok s1"
    "tk_command t1 = tk_command t" "tk_profile_id t1 = tk_profile_id t" "tk_id t1 = tk_id t"
    "tk_was_cancelled t1 = tk_was_cancelled t" "s1 = s\<lparr>ss_task := ss_task s1\<rparr>" "tk_saw_terminal t1 = tk_saw_terminal t"
proof -
  obtain r where r: "ss_coordinator s = Some r" "task_ok t r" using ok t by (auto simp: turn_ok_def)
  show ?thesis
  proof (cases "tk_phase t")
    case Task_Created
    define t1 where "t1 = t\<lparr>tk_phase := Task_Running,
      tk_history := history_for_session (cmd_session_id (tk_command t)) s,
      tk_continuation := continuation_for (cmd_session_id (tk_command t)) (tk_profile_id t) s\<rparr>"
    have "begun s = Some (s\<lparr>ss_task := Some t1\<rparr>)"
      using t Task_Created by (simp add: begun_def task_starts_def set_task_def Let_def t1_def)
    moreover have "task_ok t1 r" using r(2) Task_Created by (simp add: t1_def task_ok_def)
    then have "turn_ok (s\<lparr>ss_task := Some t1\<rparr>)" using ok r t by (simp add: turn_ok_def t1_def)
    ultimately show ?thesis by (intro that [of "s\<lparr>ss_task := Some t1\<rparr>" t1]) (simp_all add: t1_def)
  next
    case Task_Running
    have "begun s = Some s" using t Task_Running by (simp add: begun_def)
    then show ?thesis using t ok Task_Running by (intro that [of s t]) simp_all
  qed (use t in simp)
qed

lemma feed_induct:
  assumes "\<And>(i :: 'j turn_input) s s'. P s \<Longrightarrow> turn_step i s = Some s' \<Longrightarrow> P s'"
    and "P s" "feed fin (evs :: 'j AgentEvent list) s = Some s'"
  shows "P s'"
  using assms(2,3)
proof (induction evs arbitrary: s)
  case Nil
  then have "turn_step fin s = Some s'" by simp
  then show ?case using assms(1) Nil.prems(1) by blast
next
  case (Cons ev evs)
  then obtain s1 t1 where s1: "turn_step (Yields ev) s = Some s1" "s' = s1 \<or> feed fin evs s1 = Some s'"
    by (auto split: option.splits if_splits)
  have "P s1" using assms(1) Cons.prems(1) s1(1) by blast
  then show ?case using s1(2) Cons.IH by blast
qed

lemma feed_kept:
  fixes evs :: "'j AgentEvent list"
  assumes "turn_ok s" "feed fin evs s = Some s'"
  shows "turn_ok s' \<and> frame s s'"
proof (rule feed_induct [where P = "\<lambda>s'. turn_ok s' \<and> frame s s'", OF _ _ assms(2)])
  fix i :: "'j turn_input" and s1 s2
  assume P: "turn_ok s1 \<and> frame s s1" and step: "turn_step i s1 = Some s2"
  obtain t where "turn_kept t s1 s2" using turn_step_kept [OF conjunct1 [OF P] step] .
  then show "turn_ok s2 \<and> frame s s2" using P frame_trans by (auto simp: turn_kept_def)
qed (use assms(1) in \<open>simp add: frame_def\<close>)

text \<open>The session after a whole turn that ended with the loop's event \<open>ev\<close>, reported as \<open>x\<close>.\<close>

definition turn_over :: "'l turn_task \<Rightarrow> 'j AgentEvent \<Rightarrow> RuntimeEvent \<Rightarrow> ('p, 'l) session \<Rightarrow> ('p, 'l) session \<Rightarrow> bool" where
  "turn_over t ev x s s' \<longleftrightarrow>
     (\<exists>xs ys. ss_emitted s' = ss_emitted s @ xs @ x # ys @
          [runtime_event RuntimeEventType.TURN_SETTLED (cmd_turn_id (tk_command t))] \<and>
        filter is_outcome xs = [] \<and> filter is_outcome ys = []) \<and>
     is_outcome x \<and> re_turn_id x = cmd_turn_id (tk_command t) \<and>
     ss_task s' = None \<and> ss_coordinator s' = None \<and> ss_turn_idle s' \<and> frame s s' \<and>
     (\<exists>r. ss_settled s' = Some (r, False) \<and> ar_task r = tk_id t \<and> ar_terminal r) \<and>
     committed t ev x s s'"

lemma whole_turn_over:
  fixes ev :: "'j AgentEvent"
  assumes ok: "turn_ok s" and t: "ss_task s = Some t" "tk_phase t \<noteq> Task_Done"
    and pre: "\<forall>e \<in> set pre. \<not> is_terminal e" and post: "\<forall>e \<in> set post. \<not> is_terminal e"
    and ev: "is_terminal ev" "ae_turn_id ev = cmd_turn_id (tk_command t)"
  obtains s' x where "whole_turn (pre @ ev # post) s = Some s'" "turn_over t ev x s s'" "turn_ok s'"
proof -
  obtain s0 t0 where b: "begun s = Some s0" "ss_task s0 = Some t0" "tk_phase t0 = Task_Running" "turn_ok s0"
    "tk_command t0 = tk_command t" "tk_profile_id t0 = tk_profile_id t" "tk_id t0 = tk_id t"
    and s0: "s0 = s\<lparr>ss_task := ss_task s0\<rparr>"
    using begun_running [OF ok t] by metis
  have nb: "\<not> blank (cmd_content (tk_command t0))" using b(2,4) by (auto simp: turn_ok_def task_ok_def)
  obtain s1 s2 s3 t' x where f: "chatter s0 s1" "concluded t0 ev x s1 s2" "chatter s2 s3"
    "feed Ends (pre @ ev # post) s0 = Some (set_task t' s3)" "tk_phase t' = Task_Done" "tk_id t' = tk_id t0"
    "tk_was_cancelled t' = tk_was_cancelled t0" "tk_command t' = tk_command t0"
    using feed_outcome [OF b(2,3) nb pre post ev(1)] ev(2) b(5) by metis
  let ?s4 = "set_task t' s3"
  have k: "turn_ok ?s4" "frame s0 ?s4" using feed_kept [OF b(4) f(4)] by simp_all
  have t4: "ss_task ?s4 = Some t'" by (simp add: set_task_def)
  obtain r where r: "ss_coordinator ?s4 = Some r" "task_ok t' r"
    "turn_step (Settles :: 'j turn_input) ?s4 = Some (?s4\<lparr>ss_coordinator := None, ss_active_task := None, ss_turn_idle := True,
       ss_task := None, ss_settled := Some (r, tk_was_cancelled t'),
       ss_emitted := ss_emitted ?s4 @ [runtime_event RuntimeEventType.TURN_SETTLED (cmd_turn_id (tk_command t'))]\<rparr>)"
    (is "_ = Some ?s5")
    using settle [OF k(1) t4 f(5)] by blast
  have fresh: "\<not> tk_was_cancelled t'" using b(2,3,4) f(7) by (auto simp: turn_ok_def task_ok_def)
  obtain xs ys where e: "ss_emitted s1 = ss_emitted s0 @ xs" "filter is_outcome xs = []"
    "ss_emitted s3 = ss_emitted s2 @ ys" "filter is_outcome ys = []"
    using chatter_outcomes [OF f(1)] chatter_outcomes [OF f(3)] by blast
  have s_s0: "ss_emitted s0 = ss_emitted s" "ss_histories s0 = ss_histories s"
    "ss_continuations s0 = ss_continuations s" "frame s s0"
    by (subst s0, simp add: frame_def)+
  have "committed t0 ev x s1 s2 = committed t ev x s ?s5"
    using chatter_fields [OF f(1)] chatter_fields [OF f(3)] s_s0 b(5,6)
    by (intro committed_cong) (simp_all add: set_task_def)
  then have "committed t ev x s ?s5" "is_outcome x" "re_turn_id x = cmd_turn_id (tk_command t)"
    "ss_emitted s2 = ss_emitted s1 @ [x]"
    using f(2) ev(2) by (simp_all add: concluded_def)
  moreover have "frame s ?s5" using frame_trans [OF s_s0(4) k(2)] by (simp add: frame_def)
  moreover have "ar_task r = tk_id t" "ar_terminal r"
    using r(2) f(5,6) b(7) fresh by (simp_all add: task_ok_def)
  moreover have "ss_emitted ?s5 = ss_emitted s @ xs @ x # ys @
      [runtime_event RuntimeEventType.TURN_SETTLED (cmd_turn_id (tk_command t))]"
    using e s_s0(1) f(8) b(5) calculation(4) by (simp add: set_task_def)
  ultimately have "turn_over t ev x s ?s5"
    using fresh e(2,4) by (auto simp: turn_over_def)
  moreover have "whole_turn (pre @ ev # post) s = Some ?s5"
    using b(1) f(4) r(3) by (simp add: turn_until_def)
  moreover have "turn_ok ?s5" using k(1) t4 fresh r(2) f(5) by (simp add: turn_ok_def task_ok_def)
  ultimately show ?thesis using that by blast
qed

text \<open>
  The session after a turn that \<^verbatim>\<open>CancelledError\<close> left before any outcome: the task ends as cancelled,
  nothing is reported but that the turn settled, and nothing is remembered.
\<close>

definition turn_lost :: "'l turn_task \<Rightarrow> ('p, 'l) session \<Rightarrow> ('p, 'l) session \<Rightarrow> bool" where
  "turn_lost t s s' \<longleftrightarrow>
     (\<exists>xs. ss_emitted s' = ss_emitted s @ xs @ [runtime_event RuntimeEventType.TURN_SETTLED (cmd_turn_id (tk_command t))] \<and>
        filter is_outcome xs = []) \<and>
     ss_task s' = None \<and> ss_coordinator s' = None \<and> ss_turn_idle s' \<and> frame s s' \<and>
     (\<exists>r. ss_settled s' = Some (r, True) \<and> ar_task r = tk_id t) \<and>
     ss_histories s' = ss_histories s \<and> ss_continuations s' = ss_continuations s"

lemma cancelled_turn_lost:
  fixes evs :: "'j AgentEvent list"
  assumes ok: "turn_ok s" and t: "ss_task s = Some t" "tk_phase t \<noteq> Task_Done"
    and quiet: "\<forall>e \<in> set evs. \<not> is_terminal e"
  obtains s' where "turn_until Cancelled evs s = Some s'" "turn_lost t s s'"
proof -
  obtain s0 t0 where b: "begun s = Some s0" "ss_task s0 = Some t0" "tk_phase t0 = Task_Running" "turn_ok s0"
    "tk_command t0 = tk_command t" "tk_id t0 = tk_id t"
    and s0: "s0 = s\<lparr>ss_task := ss_task s0\<rparr>"
    using begun_running [OF ok t] by metis
  obtain s1 where c: "chatter s0 s1" and f: "feed Cancelled (evs @ []) s0 = feed Cancelled ([] :: 'j AgentEvent list) s1"
    using feed_plain [OF b(2,3) quiet, of Cancelled "[]"] by blast
  let ?t = "t0\<lparr>tk_phase := Task_Done, tk_was_cancelled := True\<rparr>"
  let ?s4 = "set_task ?t s1"
  have f: "feed Cancelled evs s0 = Some ?s4"
    using f chatter_fields(1) [OF c] b(2,3) by (simp add: turn_step_def task_cancelled_def)
  have k: "turn_ok ?s4" "frame s0 ?s4" using feed_kept [OF b(4) f] by simp_all
  have t4: "ss_task ?s4 = Some ?t" by (simp add: set_task_def)
  obtain r where r: "ss_coordinator ?s4 = Some r" "task_ok ?t r"
    "turn_step (Settles :: 'j turn_input) ?s4 = Some (?s4\<lparr>ss_coordinator := None, ss_active_task := None, ss_turn_idle := True,
       ss_task := None, ss_settled := Some (r, tk_was_cancelled ?t),
       ss_emitted := ss_emitted ?s4 @ [runtime_event RuntimeEventType.TURN_SETTLED (cmd_turn_id (tk_command ?t))]\<rparr>)"
    (is "_ = Some ?s5")
    using settle [OF k(1) t4] by auto
  obtain xs where e: "ss_emitted s1 = ss_emitted s0 @ xs" "filter is_outcome xs = []"
    using chatter_outcomes [OF c] by blast
  have s_s0: "ss_emitted s0 = ss_emitted s" "ss_histories s0 = ss_histories s"
    "ss_continuations s0 = ss_continuations s" "frame s s0"
    by (subst s0, simp add: frame_def)+
  have "frame s ?s5" using frame_trans [OF s_s0(4) k(2)] by (simp add: frame_def)
  moreover have "ar_task r = tk_id t" using r(2) b(6) by (simp add: task_ok_def)
  ultimately have "turn_lost t s ?s5"
    using e s_s0 b(5) chatter_fields(3,4) [OF c] by (simp add: turn_lost_def set_task_def)
  moreover have "turn_until Cancelled evs s = Some ?s5" using b(1) f r(3) by (simp add: turn_until_def)
  ultimately show ?thesis using that by blast
qed

end
