(* ===== verification/Settings_Service.thy ===== *)
theory Settings_Service
  imports Service_Run
begin

text \<open>
  The settings boundary: \<^verbatim>\<open>config/secrets.py\<close> with its two stores, and
  \<^verbatim>\<open>application/system/provider_settings_service.py\<close>, which adds credential-safe use cases to the
  provider service. What the settings service needs of a secret store is the locale \<open>secret_store\<close>;
  the in-memory store and the read-only environment store are its interpretations. A third store,
  the Windows credential manager, is outside this model.
\<close>

section \<open>Secret values and stores\<close>

definition mk_SecretValue :: "string \<Rightarrow> string res" where
  "mk_SecretValue v = raise_if (blank v) (ValueError ''secret value must not be blank'') (Inr v)"

record 'k SecretStore =
  has_secret :: "CredentialId \<Rightarrow> 'k \<Rightarrow> bool res"
  get_secret :: "CredentialId \<Rightarrow> 'k \<Rightarrow> string option res"
  set_secret :: "CredentialId \<Rightarrow> string \<Rightarrow> 'k \<Rightarrow> (unit, 'k) sres"
  delete_secret :: "CredentialId \<Rightarrow> 'k \<Rightarrow> (unit, 'k) sres"

definition InMemorySecretStore :: "(CredentialId \<Rightarrow> string option) SecretStore" where
  "InMemorySecretStore =
    \<lparr>has_secret = (\<lambda>c m. Inr (m c \<noteq> None)),
     get_secret = (\<lambda>c m. case m c of None \<Rightarrow> Inr None | Some v \<Rightarrow> ebind (mk_SecretValue v) (\<lambda>x. Inr (Some x))),
     set_secret = (\<lambda>c v m. (Inr (), m(c \<mapsto> v))),
     delete_secret = (\<lambda>c m. (Inr (), m(c := None)))\<rparr>"

text \<open>The environment store reads one variable, here the store's state (empty when unset).\<close>

definition environment_key :: "string \<Rightarrow> string option" where
  "environment_key variable = (if blank variable then None else Some (py_strip variable))"

definition EnvironmentSecretStore :: "string SecretStore" where
  "EnvironmentSecretStore =
    \<lparr>has_secret = (\<lambda>c v. Inr (c = OPENAI_DEFAULT_CREDENTIAL_ID \<and> environment_key v \<noteq> None)),
     get_secret = (\<lambda>c v. if c \<noteq> OPENAI_DEFAULT_CREDENTIAL_ID then Inr None
                         else case environment_key v of
                                None \<Rightarrow> Inr None | Some k \<Rightarrow> ebind (mk_SecretValue k) (\<lambda>x. Inr (Some x))),
     set_secret = (\<lambda>c x v. (Inl SecretStoreError, v)),
     delete_secret = (\<lambda>c v. (Inl SecretStoreError, v))\<rparr>"

text \<open>The calls for the one key of the first release are the calls at its credential.\<close>

definition has_openai_api_key :: "'k SecretStore \<Rightarrow> 'k \<Rightarrow> bool res" where
  "has_openai_api_key store = has_secret store OPENAI_DEFAULT_CREDENTIAL_ID"

definition get_openai_api_key :: "'k SecretStore \<Rightarrow> 'k \<Rightarrow> string option res" where
  "get_openai_api_key store = get_secret store OPENAI_DEFAULT_CREDENTIAL_ID"

definition set_openai_api_key :: "'k SecretStore \<Rightarrow> string \<Rightarrow> 'k \<Rightarrow> (unit, 'k) sres" where
  "set_openai_api_key store = set_secret store OPENAI_DEFAULT_CREDENTIAL_ID"

definition delete_openai_api_key :: "'k SecretStore \<Rightarrow> 'k \<Rightarrow> (unit, 'k) sres" where
  "delete_openai_api_key store = delete_secret store OPENAI_DEFAULT_CREDENTIAL_ID"

text \<open>
  What a client may rely on: the presence test agrees with reading; a store that accepted a value
  returns it, one that deleted it has it no longer; a refused change leaves the store as it was, and
  other credentials are never touched. \<open>inv\<close> is the store's own invariant.
\<close>

locale secret_store =
  fixes store :: "'k SecretStore" and inv :: "'k \<Rightarrow> bool"
  assumes has_get: "inv k \<Longrightarrow> \<exists>v. get_secret store c k = Inr v \<and> has_secret store c k = Inr (v \<noteq> None)"
    and set_ok: "inv k \<Longrightarrow> \<not> blank v \<Longrightarrow> set_secret store c v k = (Inr (), k') \<Longrightarrow>
      inv k' \<and> get_secret store c k' = Inr (Some v) \<and> (\<forall>x. x \<noteq> c \<longrightarrow> get_secret store x k' = get_secret store x k)"
    and delete_ok: "inv k \<Longrightarrow> delete_secret store c k = (Inr (), k') \<Longrightarrow>
      inv k' \<and> get_secret store c k' = Inr None \<and> (\<forall>x. x \<noteq> c \<longrightarrow> get_secret store x k' = get_secret store x k)"
    and set_refused: "set_secret store c v k = (Inl e, k') \<Longrightarrow> k' = k"
    and delete_refused: "delete_secret store c k = (Inl e, k') \<Longrightarrow> k' = k"
begin

lemma has_after_set:
  "inv k \<Longrightarrow> \<not> blank v \<Longrightarrow> set_secret store c v k = (Inr (), k') \<Longrightarrow> has_secret store c k' = Inr True"
  using set_ok [of k v c k'] has_get [of k' c] by auto

lemma not_has_after_delete:
  "inv k \<Longrightarrow> delete_secret store c k = (Inr (), k') \<Longrightarrow> has_secret store c k' = Inr False"
  using delete_ok [of k c k'] has_get [of k' c] by auto

end

interpretation in_memory: secret_store InMemorySecretStore "\<lambda>m. \<forall>c v. m c = Some v \<longrightarrow> \<not> blank v"
  by unfold_locales
    (auto simp: InMemorySecretStore_def mk_SecretValue_def split: option.splits if_splits)

interpretation environment: secret_store EnvironmentSecretStore "\<lambda>_. True"
  by unfold_locales
    (auto simp: EnvironmentSecretStore_def environment_key_def mk_SecretValue_def blank_def split: option.splits)

section \<open>Views\<close>

record ProviderCapabilitiesView =
  cv_streaming :: bool
  cv_tools :: bool
  cv_embeddings :: bool
  cv_continuation_mode :: string
  cv_protocol :: string

record ProviderProfileView =
  pv_profile_id :: string
  pv_display_name :: string
  pv_provider_id :: string
  pv_model :: string
  pv_credential_id :: "string option"
  pv_fixed_origin :: "string option"
  pv_capabilities :: ProviderCapabilitiesView
  pv_is_runtime_profile :: bool

record CredentialBindingView =
  bv_credential_id :: string
  bv_display_name :: string
  bv_provider_id :: string
  bv_fixed_origin :: string
  bv_configured :: bool

record ProviderSettingsSnapshot =
  st_profiles :: "ProviderProfileView list"
  st_credential_bindings :: "CredentialBindingView list"
  st_stored_active_profile_id :: "string option"
  st_runtime_profile_id :: "string option"
  st_provider_lifecycle :: ProviderLifecycleState
  st_runtime_state :: string
  st_active_turn :: bool
  st_cleanup_pending :: bool

definition SETTINGS_PROVIDER_IDS :: "ProviderId set" where
  "SETTINGS_PROVIDER_IDS = {FAKE_PROVIDER_ID, OPENAI_PROVIDER_ID, DEEPSEEK_PROVIDER_ID}"

definition capabilities_view :: "ProviderCapabilities \<Rightarrow> ProviderCapabilitiesView" where
  "capabilities_view c =
    \<lparr>cv_streaming = cap_streaming c, cv_tools = cap_tools c, cv_embeddings = cap_embeddings c,
     cv_continuation_mode = mode_value (cap_continuation_mode c), cv_protocol = protocol_value (cap_protocol c)\<rparr>"

definition profile_view :: "'p service_env \<Rightarrow> 'p service \<Rightarrow> ProviderProfile \<Rightarrow> ProviderProfileView res" where
  "profile_view SE s p =
    ebind (profile_origin (env_bracket (se_repo SE)) p) (\<lambda>origin.
    Inr \<lparr>pv_profile_id = pp_profile_id p, pv_display_name = pp_display_name p,
         pv_provider_id = pp_provider_id p, pv_model = pp_model p, pv_credential_id = pp_credential_id p,
         pv_fixed_origin = origin, pv_capabilities = capabilities_view (pp_capabilities p),
         pv_is_runtime_profile = (sv_runtime_profile_id s = Some (pp_profile_id p))\<rparr>)"

definition binding_view ::
    "'p service_env \<Rightarrow> 'k SecretStore \<Rightarrow> 'k \<Rightarrow> CredentialBinding \<Rightarrow> CredentialBindingView res" where
  "binding_view SE store k b =
    (case ebind (validate_supported_credential_binding (env_bracket (se_repo SE)) b)
            (\<lambda>_. has_secret store (cb_credential_id b) k) of
       Inl _ \<Rightarrow> Inl (ProviderSettingsServiceError ''credential_status_unavailable''
                  ''Credential status is unavailable.'')
     | Inr configured \<Rightarrow>
         Inr \<lparr>bv_credential_id = cb_credential_id b, bv_display_name = cb_display_name b,
              bv_provider_id = cb_provider_id b, bv_fixed_origin = cb_allowed_origin b,
              bv_configured = configured\<rparr>)"

definition settings_snapshot ::
    "'p service_env \<Rightarrow> 'k SecretStore \<Rightarrow> string \<Rightarrow> bool \<Rightarrow> 'p service \<Rightarrow> 'k \<Rightarrow> ProviderSettingsSnapshot res" where
  "settings_snapshot SE store runtime_state active_turn s k =
    (case ebind (list_profiles (se_repo SE) (sv_disk s)) (\<lambda>all_profiles.
          ebind (traverse (profile_view SE s)
                  (filter (\<lambda>p. pp_provider_id p \<in> SETTINGS_PROVIDER_IDS) all_profiles)) (\<lambda>profiles.
          ebind (list_credential_bindings (se_repo SE) (sv_disk s)) (\<lambda>all_bindings.
          ebind (traverse (binding_view SE store k) all_bindings) (\<lambda>bindings.
          ebind (get_active_profile_id (se_repo SE) (sv_disk s)) (\<lambda>stored_active.
          Inr (profiles, bindings, stored_active)))))) of
       Inl _ \<Rightarrow> Inl (ProviderSettingsServiceError ''provider_settings_unavailable''
                  ''Provider settings are unavailable.'')
     | Inr (profiles, bindings, stored_active) \<Rightarrow>
         Inr \<lparr>st_profiles = profiles, st_credential_bindings = bindings,
              st_stored_active_profile_id = stored_active, st_runtime_profile_id = sv_runtime_profile_id s,
              st_provider_lifecycle = sv_lifecycle s, st_runtime_state = runtime_state,
              st_active_turn = active_turn,
              st_cleanup_pending = (sv_lifecycle s = ProviderLifecycleState.CLEANUP_PENDING)\<rparr>)"

section \<open>Operations\<close>

abbreviation settings_error :: "string \<Rightarrow> string \<Rightarrow> py_error" where
  "settings_error \<equiv> ProviderSettingsServiceError"

definition require_mutation_allowed :: "'p service \<Rightarrow> unit res" where
  "require_mutation_allowed s =
    raise_if (sv_lifecycle s = ProviderLifecycleState.CLEANUP_PENDING)
      (settings_error ''provider_cleanup_pending'' ''Provider cleanup must complete before settings can change.'')
    (raise_if (sv_lifecycle s \<in> {ProviderLifecycleState.SWITCHING, ProviderLifecycleState.CLOSED})
      (settings_error ''provider_settings_mutation_blocked''
         ''Provider settings cannot change in the current runtime state.'')
    (Inr ()))"

definition require_settings_provider :: "ProviderId \<Rightarrow> unit res" where
  "require_settings_provider pid =
    raise_if (pid \<notin> SETTINGS_PROVIDER_IDS)
      (settings_error ''unsupported_provider_profile'' ''Only reviewed built-in Providers can be configured.'')
    (Inr ())"

fun service_error :: "py_error \<Rightarrow> bool" where
  "service_error (ProviderProfileServiceError _) = True"
| "service_error _ = False"

definition create_settings_profile ::
    "'p service_env \<Rightarrow> ProfileId \<Rightarrow> ProviderId \<Rightarrow> string \<Rightarrow> string \<Rightarrow> CredentialId option
      \<Rightarrow> 'p service \<Rightarrow> (ProviderProfile, 'p service) sres" where
  "create_settings_profile SE fresh pid display_name model cred s =
    with_res (require_mutation_allowed s) s (\<lambda>_.
    with_res (require_settings_provider pid) s (\<lambda>_.
    translate service_error
      (settings_error ''provider_profile_create_failed'' ''The Provider profile could not be created safely.'')
      (service_create_profile SE fresh pid display_name model cred None s)))"

definition update_settings_profile ::
    "'p service_env \<Rightarrow> ProfileId \<Rightarrow> string \<Rightarrow> string \<Rightarrow> CredentialId option
      \<Rightarrow> 'p service \<Rightarrow> (ProviderProfile, 'p service) sres" where
  "update_settings_profile SE profile_id display_name model cred s =
    with_res (require_mutation_allowed s) s (\<lambda>_.
    with_res (get_profile (se_repo SE) profile_id (sv_disk s)) s (\<lambda>found.
    with_res (case found of
                None \<Rightarrow> Inl (settings_error ''provider_profile_not_found'' ''The Provider profile does not exist.'')
              | Some existing \<Rightarrow>
                  raise_if (pp_provider_id existing \<notin> SETTINGS_PROVIDER_IDS)
                    (settings_error ''provider_profile_not_found'' ''The Provider profile does not exist.'')
                  (raise_if (sv_runtime_profile_id s = Some profile_id
                             \<and> (pp_model existing \<noteq> model \<or> pp_credential_id existing \<noteq> cred))
                    (settings_error ''active_profile_update_requires_switch''
                      ''Switch away from the active Profile before changing its model or credential.'')
                  (Inr ()))) s (\<lambda>_.
    translate service_error
      (settings_error ''provider_profile_update_failed'' ''The Provider profile could not be updated safely.'')
      (service_update_profile SE profile_id (Some display_name) (Some model) cred s))))"

definition delete_settings_profile ::
    "'p service_env \<Rightarrow> ProfileId \<Rightarrow> 'p service \<Rightarrow> (unit, 'p service) sres" where
  "delete_settings_profile SE profile_id s =
    with_res (require_mutation_allowed s) s (\<lambda>_.
    with_res (raise_if (sv_runtime_profile_id s = Some profile_id)
        (settings_error ''active_profile_delete_rejected'' ''The active Provider profile cannot be deleted.'')
        (Inr ())) s (\<lambda>_.
    translate service_error
      (settings_error ''provider_profile_delete_failed'' ''The Provider profile could not be deleted safely.'')
      (service_delete_profile SE profile_id s)))"

definition require_supported_binding ::
    "'p service_env \<Rightarrow> CredentialId \<Rightarrow> 'p service \<Rightarrow> CredentialBinding res" where
  "require_supported_binding SE c s =
    ebind (get_credential_binding (se_repo SE) c (sv_disk s)) (\<lambda>found.
    case found of
      None \<Rightarrow> Inl (settings_error ''credential_binding_not_found'' ''The credential binding does not exist.'')
    | Some b \<Rightarrow>
        (case validate_supported_credential_binding (env_bracket (se_repo SE)) b of
           Inr _ \<Rightarrow> Inr b
         | Inl (ProviderProfilePolicyError _) \<Rightarrow>
             Inl (settings_error ''credential_binding_rejected'' ''The credential binding is not permitted.'')
         | Inl e \<Rightarrow> Inl e))"

definition require_inactive_credential :: "CredentialId \<Rightarrow> 'p service \<Rightarrow> unit res" where
  "require_inactive_credential c s =
    raise_if (case sv_runtime_snapshot s of None \<Rightarrow> False | Some p \<Rightarrow> pp_credential_id p = Some c)
      (settings_error ''active_profile_credential_change_requires_switch''
        ''Switch away from the active Profile before changing its credential.'')
    (Inr ())"

definition credential_guards :: "'p service_env \<Rightarrow> CredentialId \<Rightarrow> 'p service \<Rightarrow> unit res" where
  "credential_guards SE c s =
    ebind (require_mutation_allowed s) (\<lambda>_.
    ebind (require_supported_binding SE c s) (\<lambda>_.
    require_inactive_credential c s))"

definition save_credential ::
    "'p service_env \<Rightarrow> 'k SecretStore \<Rightarrow> CredentialId \<Rightarrow> string \<Rightarrow> 'p service \<Rightarrow> 'k \<Rightarrow> (unit, 'k) sres" where
  "save_credential SE store c secret s k =
    with_res (credential_guards SE c s) k (\<lambda>_.
    translate (\<lambda>_. True) (settings_error ''credential_save_failed'' ''The credential could not be saved safely.'')
      (with_res (mk_SecretValue secret) k (\<lambda>v. set_secret store c v k)))"

definition delete_credential ::
    "'p service_env \<Rightarrow> 'k SecretStore \<Rightarrow> CredentialId \<Rightarrow> 'p service \<Rightarrow> 'k \<Rightarrow> (unit, 'k) sres" where
  "delete_credential SE store c s k =
    with_res (credential_guards SE c s) k (\<lambda>_.
    translate (\<lambda>_. True) (settings_error ''credential_delete_failed'' ''The credential could not be deleted safely.'')
      (delete_secret store c k))"

end
