(* ===== verification/Provider_Properties.thy ===== *)
theory Provider_Properties
  imports Settings_Service
begin

text \<open>
  What the provider metadata and the provider service promise: the policy as a table, credentials
  bound to their official origin, documents that round-trip, the store as a pair of maps, and the
  lifecycle of the running provider. The samples at the end of each section are the concrete inputs
  of the witnesses.
\<close>

section \<open>The store as maps\<close>

datatype repo_op =
    SaveProfile ProviderProfile | RemoveProfile ProfileId | MakeActive ProfileId
  | SaveBinding CredentialBinding | RemoveBinding CredentialId

fun repo_exec :: "repo_env \<Rightarrow> repo_op \<Rightarrow> disk \<Rightarrow> (unit, disk) sres" where
  "repo_exec E (SaveProfile p) d = save_profile E p d"
| "repo_exec E (RemoveProfile i) d = delete_profile E i d"
| "repo_exec E (MakeActive i) d = set_active_profile_id E i d"
| "repo_exec E (SaveBinding b) d = save_credential_binding E b d"
| "repo_exec E (RemoveBinding c) d = delete_credential_binding E c d"

fun repo_op_typed :: "repo_op \<Rightarrow> bool" where
  "repo_op_typed (SaveProfile p) = profile_typed p"
| "repo_op_typed (SaveBinding b) = binding_typed b"
| "repo_op_typed _ = True"

record metadata_maps =
  mm_profiles :: "ProfileId \<Rightarrow> ProviderProfile option"
  mm_bindings :: "CredentialId \<Rightarrow> CredentialBinding option"
  mm_active :: "ProfileId option"

fun maps_exec :: "repo_op \<Rightarrow> metadata_maps \<Rightarrow> metadata_maps" where
  "maps_exec (SaveProfile p) m = m\<lparr>mm_profiles := (mm_profiles m)(pp_profile_id p \<mapsto> p)\<rparr>"
| "maps_exec (RemoveProfile i) m = m\<lparr>mm_profiles := (mm_profiles m)(i := None)\<rparr>"
| "maps_exec (MakeActive i) m = m\<lparr>mm_active := Some i\<rparr>"
| "maps_exec (SaveBinding b) m = m\<lparr>mm_bindings := (mm_bindings m)(cb_credential_id b \<mapsto> b)\<rparr>"
| "maps_exec (RemoveBinding c) m = m\<lparr>mm_bindings := (mm_bindings m)(c := None)\<rparr>"

definition maps_of :: "repo_env \<Rightarrow> disk \<Rightarrow> metadata_maps" where
  "maps_of E d =
    \<lparr>mm_profiles = profile_map (snapshot_view E d), mm_bindings = binding_map (snapshot_view E d),
     mm_active = snap_active (snapshot_view E d)\<rparr>"

text \<open>The results and the disks of a sequence of calls, and the calls among them that returned.\<close>

fun repo_run :: "repo_env \<Rightarrow> repo_op list \<Rightarrow> disk \<Rightarrow> (bool \<times> disk) list" where
  "repo_run E [] d = []"
| "repo_run E (oper # ops) d =
    (case repo_exec E oper d of (r, d') \<Rightarrow> (is_ok r, d') # repo_run E ops d')"

lemma maps_of_put:
  assumes "repo_readable E d" "repo_op_typed oper" "repo_exec E oper d = (r, d')" "repo_readable E d'"
  shows "maps_of E d' = (if is_ok r then maps_exec oper (maps_of E d) else maps_of E d)"
proof (cases r)
  case (Inl e)
  have "snapshot_view E d' = snapshot_view E d"
    using assms(2,3) Inl
    by (cases oper) (auto dest!: save_profile_commits delete_profile_commits set_active_commits
        save_binding_commits delete_binding_commits dest: commits_raises)
  then show ?thesis using Inl by (simp add: maps_of_def)
next
  case (Inr u)
  then show ?thesis
    using assms(2-4)
    by (cases oper) (auto simp: maps_of_def dest!: save_profile_commits delete_profile_commits set_active_commits
        save_binding_commits delete_binding_commits dest!: commits_view)
qed

text \<open>
  A stored snapshot that the reader refuses: more records of a kind, or a larger document, than its limits.
\<close>

definition oversized :: "repo_env \<Rightarrow> disk \<Rightarrow> bool" where
  "oversized E d \<longleftrightarrow> (\<exists>s. stored E d s \<and> snapshot_ok s \<and> \<not> document_fits E s)"

lemma commits_readable:
  "commits E d r d' P \<Longrightarrow> repo_readable E d \<Longrightarrow> \<not> oversized E d' \<Longrightarrow> repo_readable E d'"
  using stored_read [of E d'] same_file_same_read [of d' d E]
  by (auto simp: commits_def oversized_def repo_readable_def is_ok_iff)

lemma readable_not_oversized: "repo_readable E d \<Longrightarrow> \<not> oversized E d"
  using stored_read_fits by (fastforce simp: oversized_def repo_readable_def is_ok_iff)

lemma exec_readable:
  assumes "repo_readable E d" "repo_op_typed oper" "repo_exec E oper d = (r, d')" "\<not> oversized E d'"
  shows "repo_readable E d'"
  using assms
  by (cases oper) (auto dest!: save_profile_commits delete_profile_commits set_active_commits
      save_binding_commits delete_binding_commits intro: commits_readable)

lemma run_readable:
  "repo_readable E d \<Longrightarrow> \<forall>oper \<in> set ops. repo_op_typed oper \<Longrightarrow>
   \<forall>(ok, d') \<in> set (repo_run E ops d). \<not> oversized E d' \<Longrightarrow>
   \<forall>(ok, d') \<in> set (repo_run E ops d). repo_readable E d'"
proof (induction ops arbitrary: d)
  case (Cons oper ops)
  obtain r d' where ex: "repo_exec E oper d = (r, d')" by fastforce
  have "repo_readable E d'" using exec_readable [OF Cons.prems(1) _ ex] Cons.prems(2,3) ex by simp
  then show ?case using Cons ex by simp
qed simp

lemma run_refines:
  "repo_readable E d \<Longrightarrow> \<forall>oper \<in> set ops. repo_op_typed oper \<Longrightarrow>
     \<forall>(ok, d') \<in> set (repo_run E ops d). repo_readable E d' \<Longrightarrow>
     maps_of E (if ops = [] then d else snd (last (repo_run E ops d)))
       = fold maps_exec (map snd (filter fst (zip (map fst (repo_run E ops d)) ops))) (maps_of E d)"
proof (induction ops arbitrary: d)
  case (Cons oper ops)
  obtain r d' where ex: "repo_exec E oper d = (r, d')" by fastforce
  have rd: "repo_readable E d'" using Cons.prems(3) ex by simp
  have step: "maps_of E d' = (if is_ok r then maps_exec oper (maps_of E d) else maps_of E d)"
    using maps_of_put [OF Cons.prems(1) _ ex rd] Cons.prems(2) by simp
  have IH: "maps_of E (if ops = [] then d' else snd (last (repo_run E ops d')))
       = fold maps_exec (map snd (filter fst (zip (map fst (repo_run E ops d')) ops))) (maps_of E d')"
    using Cons.prems ex by (intro Cons.IH rd) auto
  have last: "snd (last (repo_run E (oper # ops) d)) = (if ops = [] then d' else snd (last (repo_run E ops d')))"
    using ex by (cases ops) (auto split: prod.splits)
  show ?case using IH step ex last by simp
qed simp

section \<open>Samples\<close>

definition sample_repo_env :: repo_env where
  "sample_repo_env = \<lparr>env_bracket = (\<lambda>_. Inr ()), env_document_bytes = (\<lambda>_. 1000), env_migrator = None\<rparr>"

definition sample_binding :: CredentialBinding where
  "sample_binding = \<lparr>cb_credential_id = ''builtin-openai-default'', cb_provider_id = ''openai'',
     cb_allowed_origin = ''https://api.openai.com'', cb_display_name = ''OpenAI'', cb_schema_version = 1\<rparr>"

definition sample_profile :: ProviderProfile where
  "sample_profile = \<lparr>pp_profile_id = ''builtin-openai-default'', pp_display_name = ''OpenAI'',
     pp_provider_id = ''openai'', pp_protocol = ApiProtocol.RESPONSES,
     pp_base_url = Some ''https://api.openai.com/v1'', pp_model = ''gpt-5-mini'',
     pp_credential_id = Some ''builtin-openai-default'',
     pp_capabilities = capabilities_of True ContinuationMode.REPLAY_PROVIDER_ITEMS ApiProtocol.RESPONSES,
     pp_enabled = True, pp_schema_version = 1\<rparr>"

definition fake_profile :: "ProfileId \<Rightarrow> ProviderProfile" where
  "fake_profile i = \<lparr>pp_profile_id = i, pp_display_name = ''Fake'', pp_provider_id = ''fake'',
     pp_protocol = ApiProtocol.INTERNAL, pp_base_url = None, pp_model = ''fake'', pp_credential_id = None,
     pp_capabilities = capabilities_of False ContinuationMode.REPLAY_MESSAGES ApiProtocol.INTERNAL,
     pp_enabled = True, pp_schema_version = 1\<rparr>"

definition sample_snapshot :: Snapshot where
  "sample_snapshot = \<lparr>snap_active = Some ''builtin-openai-default'',
     snap_profiles = [fake_profile ''builtin-fake-default'', sample_profile], snap_bindings = [sample_binding]\<rparr>"

definition disk_with :: "Snapshot \<Rightarrow> disk" where
  "disk_with s = \<lparr>metadata_file = FileBytes 1000 (Some (JObject (snapshot_document s))),
     stray_temporaries = 0, coming_writes = []\<rparr>"

lemma literals_plain [simp]:
  "\<not> sensitive ''OpenAI''" "\<not> sensitive ''gpt-5-mini''" "\<not> sensitive ''Fake''" "\<not> sensitive ''fake''"
  "\<not> display_name_bad ''Fake''" "py_strip ''Fake'' = ''Fake''"
  by code_simp+

lemma fake_profile_ok: "mk_ProfileId i = Inr i \<Longrightarrow> profile_ok (fake_profile i)"
  by (simp add: profile_ok_def profile_typed_def supported_profile_def table_profile_def fake_profile_def
      model_bad_def)

lemma fake_profile_fields [simp]:
  "pp_profile_id (fake_profile i) = i" "pp_credential_id (fake_profile i) = None"
  by (simp_all add: fake_profile_def)

lemma sample_ids [simp]:
  "mk_ProfileId ''builtin-fake-default'' = Inr ''builtin-fake-default''"
  "mk_ProfileId ''builtin-openai-default'' = Inr ''builtin-openai-default''"
  "mk_CredentialId ''builtin-openai-default'' = Inr ''builtin-openai-default''"
  by code_simp+

lemma sample_profile_ok: "profile_ok sample_profile"
  by (simp add: profile_ok_def profile_typed_def supported_profile_def table_profile_def sample_profile_def
      manual_test_ids_def model_bad_def image_iff)

lemma sample_binding_ok: "binding_ok sample_binding"
  by (simp add: binding_ok_def binding_typed_def supported_binding_def sample_binding_def official_origin_def
      manual_test_ids_def)

lemma sample_snapshot_ok: "snapshot_ok sample_snapshot \<and> within_limits sample_snapshot"
proof -
  have "''builtin-fake-default'' \<le> ''builtin-openai-default''" by code_simp
  then show ?thesis
    using sample_profile_ok sample_binding_ok fake_profile_ok
    by (simp add: snapshot_ok_def sample_snapshot_def within_limits_def MAX_RECORDS_def)
      (simp add: bound_def sample_profile_def sample_binding_def)
qed

lemma disk_with_read:
  assumes "snapshot_ok s" "within_limits s"
  shows "read_snapshot sample_repo_env (disk_with s) = Inr s"
  using assms by (intro stored_read)
    (simp_all add: stored_def document_fits_def disk_with_def sample_repo_env_def MAX_DOCUMENT_BYTES_def)

lemma sample_read: "read_snapshot sample_repo_env (disk_with sample_snapshot) = Inr sample_snapshot"
  using sample_snapshot_ok by (intro disk_with_read) auto

text \<open>A store that is full: a thousand profiles of the built-in provider.\<close>

definition digit :: "nat \<Rightarrow> char" where
  "digit n = char_of (48 + n mod 10)"

definition numbered_id :: "nat \<Rightarrow> ProfileId" where
  "numbered_id n = ''00000000-0000-4000-8000-000000000'' @ [digit (n div 100), digit (n div 10), digit n]"

lemma digit_eq_iff: "digit m = digit n \<longleftrightarrow> m mod 10 = n mod 10"
proof -
  have "digit m = digit n \<Longrightarrow> of_char (digit m) = (of_char (digit n) :: nat)" by simp
  moreover have "(of_char (digit k) :: nat) = 48 + k mod 10" for k
    by (simp add: digit_def of_char_of take_bit_eq_mod)
  ultimately show ?thesis by (auto simp: digit_def)
qed

lemma digit_hex: "is_lower_hex (digit n)"
proof -
  have "n mod 10 \<le> 9" using mod_less_divisor [of 10 n] by linarith
  then show ?thesis by (simp add: is_lower_hex_def digit_def of_char_of take_bit_eq_mod)
qed

lemma three_digits:
  assumes "(m::nat) < 1000"
  shows "m = 100 * (m div 100 mod 10) + 10 * (m div 10 mod 10) + m mod 10"
proof -
  have "m div 100 < 10" using assms by (simp add: div_less_iff_less_mult)
  then have "m div 100 mod 10 = m div 100" by simp
  moreover have "m div 10 div 10 = m div 100" by (simp add: div_mult2_eq [symmetric])
  moreover have "m = 10 * (m div 10) + m mod 10" "m div 10 = 10 * (m div 10 div 10) + m div 10 mod 10"
    by (simp_all add: mult.commute)
  ultimately show ?thesis by linarith
qed

lemma numbered_id_inj: "inj_on numbered_id {..<1000}"
proof (rule inj_onI)
  fix m n assume "m \<in> {..<1000}" "n \<in> {..<1000}" "numbered_id m = numbered_id n"
  then have "m mod 10 = n mod 10" "m div 10 mod 10 = n div 10 mod 10" "m div 100 mod 10 = n div 100 mod 10"
    "m < 1000" "n < 1000"
    by (simp_all add: numbered_id_def digit_eq_iff)
  then show "m = n" using three_digits by metis
qed

lemma uuid4_suffix:
  assumes "is_lower_hex a" "is_lower_hex b" "is_lower_hex c"
  shows "uuid4_text (''00000000-0000-4000-8000-000000000'' @ [a, b, c])"
  using assms by (simp add: uuid4_text_def upt_conv_Cons is_lower_hex_def)

lemma numbered_id_valid: "mk_ProfileId (numbered_id n) = Inr (numbered_id n)"
  using uuid4_suffix [OF digit_hex digit_hex digit_hex, of "n div 100" "n div 10" n]
  by (simp add: mk_ProfileId_def validate_opaque_id_def numbered_id_def)

definition full_snapshot :: Snapshot where
  "full_snapshot = \<lparr>snap_active = None,
     snap_profiles = sorted_profiles (map (fake_profile \<circ> numbered_id) [0..<1000]), snap_bindings = []\<rparr>"

lemma full_snapshot_ok: "snapshot_ok full_snapshot \<and> within_limits full_snapshot \<and>
    length (snap_profiles full_snapshot) = MAX_RECORDS"
proof -
  have "distinct (map numbered_id [0..<1000])"
    using numbered_id_inj by (simp add: distinct_map atLeast0LessThan)
  moreover have "map pp_profile_id (map (fake_profile \<circ> numbered_id) [0..<1000]) = map numbered_id [0..<1000]"
    by simp
  ultimately have "distinct (map pp_profile_id (map (fake_profile \<circ> numbered_id) [0..<1000]))"
    by (simp only:)
  then show ?thesis
    by (auto simp: snapshot_ok_def full_snapshot_def sorted_profiles_def distinct_sort_key_map within_limits_def
        MAX_RECORDS_def bound_def intro!: fake_profile_ok numbered_id_valid simp del: map_map)
qed

lemma sample_write: "write_snapshot sample_repo_env s (disk_with s0) = (Inr (), disk_with s)"
  by (simp add: write_snapshot_def next_write_def disk_with_def sample_repo_env_def Let_def)

lemma sample_make_active:
  "repo_exec sample_repo_env (MakeActive ''builtin-fake-default'') (disk_with sample_snapshot)
     = (Inr (), disk_with (sample_snapshot\<lparr>snap_active := Some ''builtin-fake-default''\<rparr>)) \<and>
   repo_readable sample_repo_env (disk_with (sample_snapshot\<lparr>snap_active := Some ''builtin-fake-default''\<rparr>))"
proof -
  have found: "find_profile ''builtin-fake-default'' (snap_profiles sample_snapshot)
      = Some (fake_profile ''builtin-fake-default'')"
    by (simp add: find_profile_def sample_snapshot_def)
  have "snapshot_ok (sample_snapshot\<lparr>snap_active := Some ''builtin-fake-default''\<rparr>)"
    using sample_snapshot_ok found by (intro snapshot_ok_set_active) auto
  then have "read_snapshot sample_repo_env (disk_with (sample_snapshot\<lparr>snap_active := Some ''builtin-fake-default''\<rparr>))
      = Inr (sample_snapshot\<lparr>snap_active := Some ''builtin-fake-default''\<rparr>)"
    using sample_snapshot_ok by (intro disk_with_read) (auto simp: within_limits_def)
  then show ?thesis
    using found by (simp add: set_active_profile_id_def sample_read sample_write repo_readable_def fake_profile_def)
qed

lemma sample_find [simp]:
  "find_profile ''builtin-openai-default'' (snap_profiles sample_snapshot) = Some sample_profile"
  "find_profile (numbered_id n) (snap_profiles sample_snapshot) = None"
  by (simp_all add: find_profile_def sample_snapshot_def sample_profile_def numbered_id_def)

lemma sample_get:
  "get_profile sample_repo_env i (disk_with sample_snapshot) = Inr (find_profile i (snap_profiles sample_snapshot))"
  by (simp add: get_profile_def sample_read)

section \<open>Properties of the metadata\<close>

text \<open>
  C37. The policy is the table: building a profile succeeds exactly for the rows of the endpoint
  table with the credential rule of the row, and validation accepts exactly the profiles that
  building can return, so no caller can reach another endpoint, protocol or capability.
\<close>

theorem policy_is_table:
  "(build_supported_profile br pid i n m c = Inr p \<longleftrightarrow> table_profile pid i n m c = Some p) \<and>
   (validate_supported_profile br p = Inr () \<longleftrightarrow>
      (\<exists>pid i n m c. build_supported_profile br pid i n m c = Inr p))"
proof -
  have "build_supported_profile br (pp_provider_id p) (pp_profile_id p) (pp_display_name p) (pp_model p)
      (pp_credential_id p) = Inr p" if "supported_profile p"
    using that by (simp add: build_supported_profile_eq_table supported_profile_def)
  then have "supported_profile p \<longleftrightarrow> (\<exists>pid i n m c. build_supported_profile br pid i n m c = Inr p)"
    using built_profile_supported by blast
  then show ?thesis by (simp add: validate_supported_profile_iff) (simp add: build_supported_profile_eq_table)
qed

text \<open>
  C22. Whatever file is on the disk: every profile that can be read with a credential belongs to a
  provider with an official origin, talks to that origin, and the credential is bound, for that
  provider and that origin, and is not one of the manual test credentials.
\<close>

theorem credentials_stay_home:
  assumes "read_snapshot E d = Inr s" "p \<in> set (snap_profiles s)" "pp_credential_id p = Some c"
  shows "\<exists>origin b. official_origin (pp_provider_id p) = Some origin \<and>
    profile_origin br p = Inr (Some origin) \<and> b \<in> set (snap_bindings s) \<and>
    cb_credential_id b = c \<and> cb_provider_id b = pp_provider_id p \<and> cb_allowed_origin b = origin \<and>
    c \<notin> manual_test_ids"
proof -
  have ok: "snapshot_ok s" using read_snapshot_ok [OF assms(1)] ..
  have p: "supported_profile p" "bound (snap_bindings s) p"
    using snapshot_okD(1) [OF ok assms(2)] by (auto simp: profile_ok_def)
  obtain b where b: "b \<in> set (snap_bindings s)" "cb_credential_id b = c" "cb_provider_id b = pp_provider_id p"
    using p(2) assms(3) by (auto simp: bound_def)
  have "official_origin (cb_provider_id b) = Some (cb_allowed_origin b)"
    using snapshot_okD(2) [OF ok b(1)] by (simp add: binding_ok_def supported_binding_def)
  then show ?thesis using credential_origin [OF p(1) assms(3), of br] b by auto
qed

theorem credentials_stay_home_witness:
  "\<exists>origin b. official_origin (pp_provider_id sample_profile) = Some origin \<and>
    profile_origin (\<lambda>_. Inr ()) sample_profile = Inr (Some origin) \<and> b \<in> set (snap_bindings sample_snapshot) \<and>
    cb_credential_id b = ''builtin-openai-default'' \<and> cb_provider_id b = pp_provider_id sample_profile \<and>
    cb_allowed_origin b = origin \<and> ''builtin-openai-default'' \<notin> manual_test_ids"
  by (rule credentials_stay_home [OF sample_read])
    (simp_all add: sample_snapshot_def sample_profile_def)

text \<open>
  C38. Parser and printer fit together. What the parser returns, from whatever document, is exactly the
  valid snapshots: supported profiles and bindings without sensitive metadata, identifiers unique and in
  order, a matching binding for every credential, an active profile that exists, and at most a thousand
  records of each kind. A valid snapshot prints to a document that parses back to it; and when a write of
  a consistent snapshot returns, the next read returns it if the records and the document are within the
  reader's limits, and raises otherwise.
\<close>

theorem metadata_roundtrip:
  "((\<exists>document. parse_snapshot br document = Inr s) \<longleftrightarrow> snapshot_ok s \<and> within_limits s) \<and>
   (snapshot_ok s \<and> within_limits s \<longrightarrow> parse_snapshot br (snapshot_document s) = Inr s) \<and>
   (snapshot_ok s \<and> write_snapshot E s d0 = (Inr (), d1) \<longrightarrow>
      (if within_limits s \<and> env_document_bytes E (JObject (snapshot_document s)) \<le> MAX_DOCUMENT_BYTES
       then read_snapshot E d1 = Inr s else \<exists>e. read_snapshot E d1 = Inl e))"
proof -
  have valid: "(\<exists>document. parse_snapshot br document = Inr s) \<longleftrightarrow> snapshot_ok s \<and> within_limits s"
    using parse_snapshot_ok parse_document by blast
  have refused: "\<exists>e. read_snapshot E d1 = Inl e" if "stored E d1 s" "snapshot_ok s" "\<not> document_fits E s"
    using stored_read_fits [OF that(1,2)] that(3) by (cases "read_snapshot E d1") auto
  have "if document_fits E s then read_snapshot E d1 = Inr s else \<exists>e. read_snapshot E d1 = Inl e"
    if "snapshot_ok s" "write_snapshot E s d0 = (Inr (), d1)"
    using write_snapshot_cases [OF that(2)] stored_read [OF _ that(1)] refused that(1) by auto
  then show ?thesis using valid parse_document unfolding document_fits_def by blast
qed

theorem metadata_roundtrip_witness:
  "parse_snapshot (\<lambda>_. Inr ()) (snapshot_document sample_snapshot) = Inr sample_snapshot \<and>
   read_snapshot sample_repo_env (disk_with sample_snapshot) = Inr sample_snapshot"
  using metadata_roundtrip [of "\<lambda>_. Inr ()" sample_snapshot sample_repo_env "disk_with sample_snapshot" "disk_with sample_snapshot"]
    sample_snapshot_ok sample_write
  by (simp add: sample_repo_env_def MAX_DOCUMENT_BYTES_def)

text \<open>
  C2. The store refines two maps and a selection. Over any sequence of calls on a readable store, with
  any writes failing, in which no call stores more than the reader accepts (a thousand records of a kind,
  four mebibytes; the writer does not enforce these limits), every disk in between can be read, and
  the lookups after it are those of the maps after the calls that returned, in order; a call that
  raised changed nothing.
\<close>

theorem repository_refines_maps:
  assumes "repo_readable E d" "\<forall>oper \<in> set ops. repo_op_typed oper"
    and "\<forall>(ok, d') \<in> set (repo_run E ops d). \<not> oversized E d'" "ops \<noteq> []"
  shows "(\<forall>(ok, d') \<in> set (repo_run E ops d). repo_readable E d') \<and>
    maps_of E (snd (last (repo_run E ops d)))
      = fold maps_exec (map snd (filter fst (zip (map fst (repo_run E ops d)) ops))) (maps_of E d)"
proof -
  note readable = run_readable [OF assms(1-3)]
  show ?thesis using readable run_refines [OF assms(1,2) readable] assms(4) by simp
qed

theorem repository_refines_maps_witness:
  "maps_of sample_repo_env (disk_with (sample_snapshot\<lparr>snap_active := Some ''builtin-fake-default''\<rparr>))
     = maps_exec (MakeActive ''builtin-fake-default'') (maps_of sample_repo_env (disk_with sample_snapshot))"
  using repository_refines_maps [of sample_repo_env "disk_with sample_snapshot" "[MakeActive ''builtin-fake-default'']"]
    sample_make_active sample_read readable_not_oversized
  by (simp add: repo_readable_def)

text \<open>
  The limit of a thousand records is checked by the reader only. On a readable store that holds
  a thousand profiles, saving one more returns normally, and from then on every read raises the
  corruption error: no profile can be listed, activated or deleted any more.
\<close>

theorem record_limit_not_enforced_on_write:
  assumes "read_snapshot E d = Inr s" "length (snap_profiles s) = MAX_RECORDS"
    and "profile_ok p" "pp_credential_id p = None" "pp_profile_id p \<notin> pp_profile_id ` set (snap_profiles s)"
    and "next_write d = WriteDone"
  shows "\<exists>d' m. save_profile E p d = (Inr (), d') \<and>
    read_snapshot E d' = Inl (ProviderMetadataError MetadataCorrupted m) \<and>
    list_profiles E d' = Inl (ProviderMetadataError MetadataCorrupted m) \<and>
    (\<forall>i. delete_profile E i d' = (Inl (ProviderMetadataError MetadataCorrupted m), d') \<and>
         set_active_profile_id E i d' = (Inl (ProviderMetadataError MetadataCorrupted m), d'))"
proof -
  let ?s' = "s\<lparr>snap_profiles := sorted_profiles (snap_profiles s @ [p])\<rparr>"
  have ok: "snapshot_ok s" using read_snapshot_ok [OF assms(1)] ..
  have "index_where (\<lambda>q. pp_profile_id q = pp_profile_id p) (snap_profiles s) = None"
    using assms(5) by (auto simp: index_where_None image_iff)
  then have place: "place_profile p (snap_profiles s) = Inr (snap_profiles s @ [p])"
    by (simp add: place_profile_def)
  have "bound (snap_bindings s) p" using assms(4) by (simp add: bound_def)
  then have ok': "snapshot_ok ?s'" by (rule snapshot_ok_save_profile [OF ok assms(3) _ place])
  obtain d' where w: "write_snapshot E ?s' d = (Inr (), d')"
    using assms(6) by (simp add: write_snapshot_def Let_def)
  have "validate_supported_profile (env_bracket E) p = Inr ()"
    "reject_sensitive_metadata [pp_display_name p, pp_model p] = Inr ()"
    using assms(3) by (simp_all add: profile_ok_def validate_supported_profile_iff reject_sensitive_metadata_def)
  then have saved: "save_profile E p d = (Inr (), d')"
    using assms(1,4) place w by (simp add: save_profile_def as_conflict_def binding_for_profile_def)
  have "stored E d' ?s'" using write_snapshot_cases [OF w] by auto
  moreover have "\<not> within_limits ?s'"
    using assms(2) by (simp add: within_limits_def sorted_profiles_def)
  ultimately have "\<exists>m. read_snapshot E d' = Inl (ProviderMetadataError MetadataCorrupted m)"
    using stored_too_many ok' by blast
  then show ?thesis
    using saved by (auto simp: list_profiles_def delete_profile_def set_active_profile_id_def)
qed

theorem record_limit_not_enforced_on_write_witness:
  "\<exists>d' m. save_profile sample_repo_env (fake_profile ''builtin-fake-default'') (disk_with full_snapshot) = (Inr (), d') \<and>
    read_snapshot sample_repo_env d' = Inl (ProviderMetadataError MetadataCorrupted m)"
proof -
  have new: "pp_profile_id (fake_profile ''builtin-fake-default'') \<notin> pp_profile_id ` set (snap_profiles full_snapshot)"
    by (auto simp: full_snapshot_def sorted_profiles_def numbered_id_def)
  have "next_write (disk_with full_snapshot) = WriteDone" by (simp add: next_write_def disk_with_def)
  moreover have "read_snapshot sample_repo_env (disk_with full_snapshot) = Inr full_snapshot"
    using full_snapshot_ok by (intro disk_with_read) auto
  ultimately show ?thesis
    using record_limit_not_enforced_on_write [of sample_repo_env "disk_with full_snapshot" full_snapshot
        "fake_profile ''builtin-fake-default''"] full_snapshot_ok new
    by (auto simp: fake_profile_ok)
qed

section \<open>Properties of the service\<close>

text \<open>
  C20. Over every sequence of operations of a new service, whatever the waits end with: each adapter
  ever constructed is in exactly one place (running, waiting for cleanup, or closed), the running
  one is the only one that accepts requests, and the lifecycle state is the one its fields determine.
\<close>

theorem service_lifecycle_invariant:
  fixes s :: "'p service"
  assumes "s = service_run SE ops (new_service d closes)"
  shows "distinct (locations s) \<and> set (locations s) = {..<sv_next_id s} \<and>
    (\<forall>t. sv_accepting s t \<longleftrightarrow> (\<exists>mp. sv_active s = Some mp \<and> mp_id mp = t)) \<and>
    sv_lifecycle s = derived_lifecycle s \<and>
    (\<forall>mp. sv_active s = Some mp \<longrightarrow> sv_runtime_profile_id s = Some (mp_profile_id mp) \<and>
       \<not> has_pending_cleanup s \<and> \<not> sv_closed s)"
proof -
  have ok: "service_ok s" unfolding assms by (rule service_run_ok [OF new_service_ok])
  then have "slots_ok s" by (simp add: service_ok_def)
  then show ?thesis
    using ok locations_distinct [of s]
    by (auto simp: service_ok_def slots_ok_def active_ids_def runtime_coherent_def split: option.splits)
qed

definition sample_service_env :: "unit service_env" where
  "sample_service_env = \<lparr>se_repo = sample_repo_env, se_factory = (\<lambda>_ _ _. Inr (Some ())),
     se_name = (\<lambda>_. Inr ''fake''), se_protocol = (\<lambda>_. Inr ApiProtocol.INTERNAL), se_has_coordinator = True\<rparr>"

definition sample_options :: ProviderActivationOptions where
  "sample_options = \<lparr>opt_timeout_seconds = 30, opt_max_retries = 0, opt_stream = True\<rparr>"

definition quiet_switch :: switching where
  "quiet_switch = \<lparr>sw_coordination = AwaitReturns, sw_interference = (\<lambda>d. d)\<rparr>"

theorem service_lifecycle_invariant_witness:
  "distinct (locations (service_run sample_service_env
      [EnsureBuiltins, Activate ''builtin-fake-default'' sample_options None None quiet_switch, CloseService]
      (new_service (disk_with sample_snapshot) [AwaitRaises])))"
  using service_lifecycle_invariant [OF refl] by blast

text \<open>
  A switch that cannot quiesce the active turn changes nothing: when the coordination raises or
  is cancelled, the old provider is the active one again, accepting, with its profile and options,
  and only what other tasks wrote to the metadata file meanwhile is different.
\<close>

theorem failed_switch_changes_nothing:
  assumes "service_ok s" "sv_active s = Some old" "sw_coordination sw \<noteq> AwaitReturns"
    and "activate_profile SE i options handling continuation sw s = (r, s')"
  shows "(s' = s \<or> s' = interfere (sw_interference sw) s) \<and> (\<forall>mp. r = Inr mp \<longrightarrow> mp = old)"
proof -
  have np: "\<not> has_pending_cleanup s" "\<not> sv_closed s"
    using service_ok_active [OF assms(1,2)] by (simp_all add: has_pending_cleanup_def)
  obtain r1 s1 where ret: "retire_active SE handling sw s = (r1, s1)" by fastforce
  have "(\<exists>e. r1 = Inl e) \<and> (s1 = s \<or> s1 = interfere (sw_interference sw) s)"
  proof (cases "old_activation SE handling s")
    case None
    then show ?thesis using ret assms(2) by (auto simp: retire_active_def)
  next
    case (Some oa)
    obtain j p opts where oa: "oa = (j, p, opts)" by (cases oa)
    have "restore_old old j p opts (interfere (sw_interference sw) (begin_switch old s))
        = interfere (sw_interference sw) s"
      using Some oa by (intro restore_old_eq assms) (auto simp: old_activation_Some)
    then show ?thesis
      using ret Some oa assms(2,3)
      by (cases "sw_coordination sw") (auto simp: retire_active_def Let_def)
  qed
  then show ?thesis
    using assms(2,4) np ret
    by (auto simp: activate_profile_def retry_pending_cleanup_def with_res_eq_iff split: option.splits if_splits)
qed

text \<open>A service that runs the built-in profile.\<close>

definition sample_running :: "unit service" where
  "sample_running = publish
     \<lparr>mp_id = 0, mp_delegate = (), mp_profile_id = ''builtin-fake-default'', mp_expected_provider_name = ''fake''\<rparr>
     ''builtin-fake-default'' (fake_profile ''builtin-fake-default'') sample_options
     ((new_service (disk_with sample_snapshot) [])\<lparr>sv_next_id := 1, sv_accepting := (\<lambda>t. t = 0)\<rparr>)"

lemma sample_running_ok: "service_ok sample_running"
  by (simp add: sample_running_def publish_def new_service_def service_ok_def slots_ok_def locations_def
      active_ids_def keyed_def runtime_coherent_def derived_lifecycle_def has_pending_cleanup_def fake_profile_def)

theorem failed_switch_changes_nothing_witness:
  "snd (activate_profile sample_service_env ''builtin-openai-default'' sample_options
      (Some ActiveTurnHandling.CANCEL_ACTIVE) None \<lparr>sw_coordination = AwaitRaises, sw_interference = (\<lambda>d. d)\<rparr>
      sample_running) = sample_running"
proof -
  let ?sw = "\<lparr>sw_coordination = AwaitRaises, sw_interference = (\<lambda>d. d)\<rparr> :: switching"
  obtain old where old: "sv_active sample_running = Some old"
    by (simp add: sample_running_def publish_def)
  obtain r s' where a: "activate_profile sample_service_env ''builtin-openai-default'' sample_options
      (Some ActiveTurnHandling.CANCEL_ACTIVE) None ?sw sample_running = (r, s')" by fastforce
  have "s' = sample_running \<or> s' = interfere (sw_interference ?sw) sample_running"
    using failed_switch_changes_nothing [OF sample_running_ok old _ a] by simp
  then show ?thesis using a by (auto simp: interfere_def)
qed

text \<open>
  C21. A successful switch from a running provider to another profile: the returned handle is new,
  it is the one that runs and accepts, the old adapter's close has returned and its handle accepts
  nothing, and, as long as the store is readable, the new profile is the persisted selection.
\<close>

theorem switch_closes_old_provider:
  assumes "service_ok s" "sv_active s = Some old" "mp_profile_id old \<noteq> i"
    and "activate_profile SE i options handling continuation sw s = (Inr mp, s')"
  shows "serves i options mp s' \<and> mp_id old \<in> set (sv_closed_ids s') \<and> \<not> sv_accepting s' (mp_id old) \<and>
    (repo_readable (se_repo SE) (sv_disk s') \<longrightarrow>
       get_active_profile_id (se_repo SE) (sv_disk s') = Inr (Some i))"
proof -
  have act: "service_ok s'" "serves i options mp s'"
    using activate_profile_ok [OF assms(1,4)] by blast+
  have np: "\<not> has_pending_cleanup s" "\<not> sv_closed s" "sv_runtime_profile_id s = Some (mp_profile_id old)"
    using service_ok_active [OF assms(1,2)] by (simp_all add: has_pending_cleanup_def)
  then obtain profile s1 where profile: "get_profile (se_repo SE) i (sv_disk s) = Inr (Some profile)"
    and ret: "retire_active SE handling sw s = (Inr (), s1)"
    and con: "construct_provider SE i profile options s1 = (Inr mp, s')"
    using assms(2-4)
    by (auto simp: activate_profile_def retry_pending_cleanup_def with_res_eq_iff sbind_eq_Inr_iff
        split: option.splits if_splits)
  have vac: "vacant s1" using retire_active_ok [OF assms(1) np(1,2) ret] by simp
  note built = construct_provider_ok [OF vac get_profile_id [OF profile] con, THEN conjunct2, rule_format, OF refl]
  have slots: "slots_ok s" "slots_ok s'" using assms(1) act(1) by (simp_all add: service_ok_def)
  have lt: "mp_id old < mp_id mp"
    using locations_distinct [OF slots(1)] assms(2) built retire_active_next [OF ret]
    by (auto simp: locations_def active_ids_def)
  have "\<not> has_pending_cleanup s'" "sv_active s' = Some mp"
    using act by (auto simp: serves_def service_ok_def)
  then have "set (mp_id mp # sv_closed_ids s') = {..<sv_next_id s'}"
    using locations_distinct [OF slots(2)] by (simp add: locations_def active_ids_def has_pending_cleanup_def)
  with lt have old: "mp_id old \<in> set (sv_closed_ids s')"
    by (metis insert_iff lessThan_iff less_irrefl less_trans list.set(2))
  have quiet_switch: "\<not> sv_accepting s' (mp_id old)"
    using slots(2) \<open>sv_active s' = Some mp\<close> lt by (simp add: slots_ok_def active_ids_def)
  have "commits (se_repo SE) (sv_disk s1) (Inr ()) (sv_disk s') (\<lambda>s s'. profile_map s' = profile_map s \<and>
      binding_map s' = binding_map s \<and> snap_active s' = Some i \<and> profile_map s i \<noteq> None)"
    using built by (intro set_active_commits) (metis prod.collapse)
  then have "snap_active (snapshot_view (se_repo SE) (sv_disk s')) = Some i"
    if "repo_readable (se_repo SE) (sv_disk s')"
    using commits_view that by blast
  then show ?thesis
    using act old quiet_switch
    by (auto simp: get_active_profile_id_def repo_readable_def is_ok_iff snapshot_view_def)
qed

text \<open>A full switch of the sample service back and forth.\<close>

theorem switch_closes_old_provider_witness:
  "\<exists>mp s'. activate_profile (sample_service_env\<lparr>se_name := \<lambda>_. Inr ''openai'', se_protocol := \<lambda>_. Inr ApiProtocol.RESPONSES\<rparr>)
      ''builtin-openai-default'' sample_options (Some ActiveTurnHandling.WAIT_FOR_ACTIVE) None quiet_switch sample_running
      = (Inr mp, s') \<and> 0 \<in> set (sv_closed_ids s')"
proof -
  let ?SE = "sample_service_env\<lparr>se_name := \<lambda>_. Inr ''openai'', se_protocol := \<lambda>_. Inr ApiProtocol.RESPONSES\<rparr>"
  have found: "get_profile sample_repo_env ''builtin-openai-default'' (disk_with sample_snapshot) = Inr (Some sample_profile)"
    by (simp add: sample_get)
  have act: "set_active_profile_id sample_repo_env ''builtin-openai-default'' (disk_with sample_snapshot)
      = (Inr (), disk_with sample_snapshot)"
    by (simp add: set_active_profile_id_def sample_read sample_write)
      (simp add: sample_snapshot_def sample_profile_def)
  have "\<exists>mp s'. activate_profile ?SE ''builtin-openai-default'' sample_options
      (Some ActiveTurnHandling.WAIT_FOR_ACTIVE) None quiet_switch sample_running = (Inr mp, s')"
    using found act sample_read
    by (simp add: activate_profile_def retry_pending_cleanup_def has_pending_cleanup_def sample_running_def
        publish_def new_service_def sample_service_env_def retire_active_def old_activation_def quiet_switch_def
        begin_switch_def interfere_def track_def untrack_def clear_runtime_def managed_revoke_def set_lifecycle_def
        close_tracked_provider_def managed_aclose_def next_close_def construct_provider_def wrap_delegate_def
        identity_failed_def managed_resume_def list_credential_bindings_def Let_def sample_profile_def)
  then obtain mp s' where a: "activate_profile ?SE ''builtin-openai-default'' sample_options
      (Some ActiveTurnHandling.WAIT_FOR_ACTIVE) None quiet_switch sample_running = (Inr mp, s')" by blast
  have old: "sv_active sample_running = Some
     \<lparr>mp_id = 0, mp_delegate = (), mp_profile_id = ''builtin-fake-default'', mp_expected_provider_name = ''fake''\<rparr>"
    by (simp add: sample_running_def publish_def)
  show ?thesis
    using switch_closes_old_provider [OF sample_running_ok old _ a] a by auto
qed

text \<open>
  How closing a service ends. Nothing is active and no adapter accepts afterwards. When it returns, the
  service is closed and every adapter it ever constructed is closed, each exactly once; when it raises,
  every adapter is closed once or still waits for its cleanup, and one at least waits. It returns when all closes
  return.
\<close>

lemma aclose_outcome:
  assumes "service_ok s" "service_aclose s = (r, s')"
  shows "sv_active s' = None" "\<not> sv_accepting s' t"
    "case r of
       Inr _ \<Rightarrow> sv_lifecycle s' = ProviderLifecycleState.CLOSED \<and> mset (sv_closed_ids s') = mset [0..<sv_next_id s]
     | Inl e \<Rightarrow> sv_lifecycle s' = ProviderLifecycleState.CLEANUP_PENDING \<and> has_pending_cleanup s' \<and>
         mset (map fst (sv_retiring s') @ map fst (sv_candidates s') @ sv_closed_ids s') = mset [0..<sv_next_id s]"
    "closes_return s \<Longrightarrow> r = Inr ()"
proof -
  obtain s3 where a: "service_aclose s = sbind (retry_pending_cleanup s3) (\<lambda>_ s4.
      (Inr (), set_lifecycle ProviderLifecycleState.CLOSED s4))"
    and s3: "slots_ok s3" "sv_active s3 = None" "sv_next_id s3 = sv_next_id s" "sv_coming_closes s3 = sv_coming_closes s"
    using aclose_withdraws [OF assms(1)] by auto
  obtain r4 s4 where r: "retry_pending_cleanup s3 = (r4, s4)" by fastforce
  have s4: "slots_ok s4" "sv_active s4 = None" "sv_next_id s4 = sv_next_id s"
    "if is_ok r4 then \<not> has_pending_cleanup s4
     else has_pending_cleanup s4 \<and> sv_lifecycle s4 = ProviderLifecycleState.CLEANUP_PENDING"
    using retry_ok [OF s3(1) r] s3 by (auto simp: same_core_def)
  have s': "r = r4" "s' = (if is_ok r4 then set_lifecycle ProviderLifecycleState.CLOSED s4 else s4)"
    using a r assms(2) by (cases r4; simp)+
  show "sv_active s' = None" using service_aclose_ok [OF assms] by simp
  show "\<not> sv_accepting s' t" using s4(1,2) s' by (simp add: slots_ok_def active_ids_def)
  show "case r of
       Inr _ \<Rightarrow> sv_lifecycle s' = ProviderLifecycleState.CLOSED \<and> mset (sv_closed_ids s') = mset [0..<sv_next_id s]
     | Inl e \<Rightarrow> sv_lifecycle s' = ProviderLifecycleState.CLEANUP_PENDING \<and> has_pending_cleanup s' \<and>
         mset (map fst (sv_retiring s') @ map fst (sv_candidates s') @ sv_closed_ids s') = mset [0..<sv_next_id s]"
    using s' s4 closed_everywhere [OF s4(1,2)] by (cases r4) (simp_all add: slots_ok_def locations_def active_ids_def)
  show "r = Inr ()" if "closes_return s"
    using retry_returns [of s3] that s3(4) r s'(1) by (simp add: closes_return_def)
qed

theorem shutdown_closes_every_provider:
  assumes "service_ok s" "closes_return s"
  shows "\<exists>s'. service_aclose s = (Inr (), s') \<and> sv_lifecycle s' = ProviderLifecycleState.CLOSED \<and>
    mset (sv_closed_ids s') = mset [0..<sv_next_id s] \<and> (\<forall>t. \<not> sv_accepting s' t)"
proof -
  obtain r s' where c: "service_aclose s = (r, s')" by fastforce
  show ?thesis using aclose_outcome [OF assms(1) c] assms(2) c by auto
qed

theorem shutdown_closes_every_provider_witness:
  "\<exists>s'. service_aclose sample_running = (Inr (), s') \<and> mset (sv_closed_ids s') = {#0#}"
  using shutdown_closes_every_provider [OF sample_running_ok]
  by (auto simp: sample_running_def publish_def new_service_def closes_return_def)

definition confined :: "ProfileId \<Rightarrow> string \<Rightarrow> 'j LLMEvent \<Rightarrow> bool" where
  "confined profile expected ev \<longleftrightarrow>
    (\<forall>c. le_type ev = LLMEventType.COMPLETED \<longrightarrow> le_continuation ev = Some c \<longrightarrow>
       cont_profile_id c = Some profile \<and> provider_name c = expected)"

lemma managed_events_confined:
  "list_all (confined profile expected) (fst (managed_events profile expected evs fin))"
proof (induction evs)
  case (Cons ev evs)
  obtain rest fin' where rest: "managed_events profile expected evs fin = (rest, fin')" by fastforce
  with Cons.IH show ?case
    by (cases "le_continuation ev") (auto simp: rest confined_def returned_mismatch_def)
qed simp

lemma generate_stream_confined:
  assumes "generate_stream accepting mp request delegate = (evs, fin, asked)"
  shows "list_all (confined (mp_profile_id mp) (mp_expected_provider_name mp)) evs"
proof (cases "accepting \<and>
    \<not> request_mismatch (mp_profile_id mp) (mp_expected_provider_name mp) (req_continuation request)")
  case True
  let ?st = "delegate (mp_delegate mp) request"
  have "evs = fst (managed_events (mp_profile_id mp) (mp_expected_provider_name mp) (ds_events ?st) (ds_end ?st))"
    using assms True by (auto simp: generate_stream_def Let_def case_prod_beta)
  then show ?thesis by (simp add: managed_events_confined)
next
  case False
  then show ?thesis using assms by (auto simp: generate_stream_def confined_def split: if_splits)
qed

text \<open>
  Continuation state never crosses profiles. A revoked handle, and a request that carries the
  continuation of another profile or provider, never reach the adapter and answer with one error
  event; and every completion a consumer sees with a continuation carries the handle's own profile
  and provider, whatever the adapter returned.
\<close>

theorem continuations_confined:
  assumes "generate_stream accepting mp request delegate = (evs, fin, asked)"
  shows "(asked \<longleftrightarrow> accepting \<and>
      \<not> request_mismatch (mp_profile_id mp) (mp_expected_provider_name mp) (req_continuation request)) \<and>
    (\<not> asked \<longrightarrow> (\<exists>ev. evs = [ev] \<and> le_type ev = LLMEventType.ERROR) \<and> fin = Inr ()) \<and>
    (\<forall>ev c. ev \<in> set evs \<longrightarrow> le_type ev = LLMEventType.COMPLETED \<longrightarrow> le_continuation ev = Some c \<longrightarrow>
       cont_profile_id c = Some (mp_profile_id mp) \<and> provider_name c = mp_expected_provider_name mp)"
proof -
  have "asked \<longleftrightarrow> accepting \<and>
      \<not> request_mismatch (mp_profile_id mp) (mp_expected_provider_name mp) (req_continuation request)"
    "\<not> asked \<longrightarrow> (\<exists>ev. evs = [ev] \<and> le_type ev = LLMEventType.ERROR) \<and> fin = Inr ()"
    using assms by (auto simp: generate_stream_def Let_def case_prod_beta split: if_splits)
  then show ?thesis
    using generate_stream_confined [OF assms] by (auto simp: list_all_iff confined_def)
qed

definition plain_request :: "unit LLMRequest" where
  "plain_request = \<lparr>instructions = [], messages = [], req_tools = [], req_store = False,
     req_max_output_tokens = 100, memory_context = [], req_continuation = None\<rparr>"

definition foreign_stream :: "unit delegate_stream" where
  "foreign_stream = \<lparr>ds_events = [(llm_event LLMEventType.COMPLETED)\<lparr>le_continuation := Some
     \<lparr>provider_name = ''openai'', cont_state = ''s'', cont_version = None, cont_profile_id = None\<rparr>\<rparr>],
     ds_end = Inr (), ds_close = Inr ()\<rparr>"

theorem continuations_confined_witness:
  "\<exists>evs fin. generate_stream True
      \<lparr>mp_id = 0, mp_delegate = (), mp_profile_id = ''builtin-fake-default'', mp_expected_provider_name = ''fake''\<rparr>
      plain_request (\<lambda>_ _. foreign_stream) = (evs, fin, True) \<and>
    (\<forall>ev c. ev \<in> set evs \<longrightarrow> le_type ev = LLMEventType.COMPLETED \<longrightarrow> le_continuation ev \<noteq> Some c)"
proof -
  let ?mp = "\<lparr>mp_id = 0, mp_delegate = (), mp_profile_id = ''builtin-fake-default'', mp_expected_provider_name = ''fake''\<rparr>"
  obtain evs fin asked where g: "generate_stream True ?mp plain_request (\<lambda>_ _. foreign_stream) = (evs, fin, asked)"
    using prod_cases3 by blast
  note c = continuations_confined [OF g]
  have "asked" using c by (simp add: request_mismatch_def plain_request_def)
  moreover have "evs = [mismatch_event ''The Provider returned continuation state for a different profile.'']"
    using g by (simp add: generate_stream_def request_mismatch_def plain_request_def foreign_stream_def
        returned_mismatch_def)
  ultimately show ?thesis using g by simp
qed

text \<open>
  The settings boundary documents fixed error codes, but a display name the profile rejects
  leaves it as a plain \<^verbatim>\<open>ValueError\<close>: neither the service nor the settings service catches it, so the
  caller does not learn that creating the profile failed.
\<close>

theorem blank_name_escapes_settings_errors:
  assumes "sv_lifecycle s \<in> {ProviderLifecycleState.INACTIVE, ProviderLifecycleState.ACTIVE}"
    and "get_profile (se_repo SE) fresh (sv_disk s) = Inr None" "display_name_bad name"
  shows "create_settings_profile SE fresh FAKE_PROVIDER_ID name model None s
    = (Inl (ValueError ''display_name must be 1 to 128 characters''), s)"
proof -
  have "build_supported_profile br FAKE_PROVIDER_ID fresh name model None
      = Inl (ValueError ''display_name must be 1 to 128 characters'')" for br
    using assms(3) by (simp add: build_supported_profile_def fake_default_profile_ok mk_ProviderProfile_def)
  then show ?thesis
    using assms(1,2)
    by (auto simp: create_settings_profile_def require_mutation_allowed_def require_settings_provider_def
        SETTINGS_PROVIDER_IDS_def service_create_profile_def require_binding_def build_and_save_def translate_def)
qed

theorem blank_name_escapes_settings_errors_witness:
  "create_settings_profile sample_service_env (numbered_id 7) FAKE_PROVIDER_ID [] ''fake'' None sample_running
    = (Inl (ValueError ''display_name must be 1 to 128 characters''), sample_running)"
proof (rule blank_name_escapes_settings_errors)
  show "get_profile (se_repo sample_service_env) (numbered_id 7) (sv_disk sample_running) = Inr None"
    by (simp add: sample_service_env_def sample_running_def publish_def new_service_def sample_get)
  show "display_name_bad []" by (simp add: display_name_bad_def blank_def py_strip_def)
qed (simp add: sample_running_def publish_def)

end
