(* ===== verification/Session_Properties.thy ===== *)
theory Session_Properties
  imports Session_Turn Provider_Properties
begin

text \<open>
  Properties of the session controller together with the agent loop and the provider service.
\<close>

section \<open>Supporting lemmas\<close>

lemma one_terminal:
  assumes "length (filter is_terminal evs) = 1"
  obtains pre ev post where "evs = pre @ ev # post" "\<forall>e \<in> set pre. \<not> is_terminal e" "is_terminal ev"
    "\<forall>e \<in> set post. \<not> is_terminal e"
proof -
  obtain ev where "filter is_terminal evs = [ev]" using assms by (auto simp: length_Suc_conv)
  then obtain pre post where "evs = pre @ ev # post" "\<forall>e \<in> set pre. \<not> is_terminal e" "is_terminal ev"
    "filter is_terminal post = []" by (auto simp: filter_eq_Cons_iff)
  then show ?thesis by (intro that [of pre ev post]) (auto simp: filter_empty_conv)
qed

lemma begun_ok: "session_ok s \<Longrightarrow> begun s = Some s' \<Longrightarrow> session_ok s'"
proof -
  assume ok: "session_ok s" and b: "begun s = Some s'"
  then have "s' = s \<or> turn_step (Starts :: unit turn_input) s = Some s'"
    by (auto simp: begun_def turn_step_def split: option.splits if_splits)
  then show "session_ok s'" using ok turn_step_ok by blast
qed

lemma feed_ok:
  assumes "session_ok s" "feed fin evs s = Some s'"
  shows "session_ok s'"
  by (rule feed_induct [where P = session_ok, OF turn_step_ok assms])

lemma whole_turn_ok:
  fixes evs :: "'j AgentEvent list"
  assumes ok: "session_ok s" and w: "turn_until fin evs s = Some s'"
  shows "session_ok s'"
proof -
  obtain s1 s2 where "begun s = Some s1" "feed fin evs s1 = Some s2" "turn_step (Settles :: 'j turn_input) s2 = Some s'"
    using w by (auto simp: turn_until_def bind_eq_Some_conv)
  then show ?thesis using begun_ok [OF ok] feed_ok turn_step_ok by blast
qed

lemma turn_over_outcomes:
  "turn_over t ev x s s' \<Longrightarrow> filter is_outcome (drop (length (ss_emitted s)) (ss_emitted s')) = [x]"
  by (auto simp: turn_over_def is_outcome_def runtime_event_def)

lemma turn_over_last:
  "turn_over t ev x s s' \<Longrightarrow>
     last (ss_emitted s') = runtime_event RuntimeEventType.TURN_SETTLED (cmd_turn_id (tk_command t))"
  by (auto simp: turn_over_def)

lemma turn_over_history:
  assumes "turn_over t ev x s s'"
  shows "history_for_session i s' = history_for_session i s @
    (if re_type x = RuntimeEventType.TURN_COMPLETED \<and> i = cmd_session_id (tk_command t)
     then [\<lparr>role = MessageRole.USER, msg_content = cmd_content (tk_command t)\<rparr>,
           \<lparr>role = MessageRole.ASSISTANT, msg_content = re_text x\<rparr>] else [])"
    "re_type x = RuntimeEventType.TURN_COMPLETED \<Longrightarrow> \<not> blank (re_text x)"
  using assms by (auto simp: turn_over_def committed_def Let_def history_for_session_def split: if_splits)

text \<open>
  The agent loop, as one turn of the session runs it: its events, and how its generator ends. What
  leaves the generator as \<^verbatim>\<open>CancelledError\<close> is raised again and cancels the turn's task.
\<close>

definition loop_run ::
    "(real \<Rightarrow> string) \<Rightarrow> ('j, 'w) AgentLoop turn_task \<Rightarrow> 'j turn_schedule \<Rightarrow> 'w \<Rightarrow> ('p, ('j, 'w) AgentLoop) session
      \<Rightarrow> (unit, ('j, 'w) turn_io) sres" where
  "loop_run fg t sch w s =
    run fg (tk_loop t) (tk_command t) (history_for_session (cmd_session_id (tk_command t)) s) [] []
      (continuation_for (cmd_session_id (tk_command t)) (tk_profile_id t) s) sch w"

definition loop_events ::
    "(real \<Rightarrow> string) \<Rightarrow> ('j, 'w) AgentLoop turn_task \<Rightarrow> 'j turn_schedule \<Rightarrow> 'w \<Rightarrow> ('p, ('j, 'w) AgentLoop) session
      \<Rightarrow> 'j AgentEvent list" where
  "loop_events fg t sch w s = io_events (snd (loop_run fg t sch w s))"

definition generator_end :: "unit res \<Rightarrow> 'j turn_input" where
  "generator_end r = (case r of Inr _ \<Rightarrow> Ends | Inl e \<Rightarrow> if e = CancelledError then Cancelled else Raises)"

definition loop_turn ::
    "(real \<Rightarrow> string) \<Rightarrow> ('j, 'w) AgentLoop turn_task \<Rightarrow> 'j turn_schedule \<Rightarrow> 'w \<Rightarrow> ('p, ('j, 'w) AgentLoop) session
      \<Rightarrow> ('p, ('j, 'w) AgentLoop) session option" where
  "loop_turn fg t sch w s = turn_until (generator_end (fst (loop_run fg t sch w s))) (loop_events fg t sch w s) s"

lemma loop_events_split:
  assumes "sch_close sch = Inr ()" "fst (loop_run fg t sch w s) = Inr ()"
  obtains pre ev post where "loop_events fg t sch w s = pre @ ev # post" "\<forall>e \<in> set pre. \<not> is_terminal e"
    "is_terminal ev" "\<forall>e \<in> set post. \<not> is_terminal e" "ae_turn_id ev = cmd_turn_id (tk_command t)"
proof -
  let ?t = "cmd_turn_id (tk_command t)"
  obtain evs where e: "loop_events fg t sch w s = [ev_started ?t, ev_state_changed ?t AgentState.LISTENING] @ evs"
    "\<forall>e \<in> set evs. ae_turn_id e = ?t" "length (filter is_terminal evs) = 1"
    using run_events_once [OF assms(1), where fg = fg and L = "tk_loop t" and command = "tk_command t" and
        history = "history_for_session (cmd_session_id (tk_command t)) s" and memories = "[]" and tools = "[]" and
        cont = "continuation_for (cmd_session_id (tk_command t)) (tk_profile_id t) s" and w = w] assms(2)
    unfolding loop_events_def loop_run_def by auto
  obtain pre ev post where "evs = pre @ ev # post" "\<forall>e \<in> set pre. \<not> is_terminal e" "is_terminal ev"
    "\<forall>e \<in> set post. \<not> is_terminal e" using one_terminal [OF e(3)] .
  with e(1,2) show ?thesis
    by (intro that [of "[ev_started ?t, ev_state_changed ?t AgentState.LISTENING] @ pre" ev post])
      (auto simp: is_terminal_def agent_event_defs)
qed

lemma loop_turn_cases:
  assumes "session_ok s" "ss_task s = Some t" "tk_phase t = Task_Created" "sch_close sch = Inr ()"
  obtains s' x ev where "fst (loop_run fg t sch w s) = Inr ()" "loop_turn fg t sch w s = Some s'" "turn_over t ev x s s'"
      "ev \<in> set (loop_events fg t sch w s)"
    | s' where "fst (loop_run fg t sch w s) = Inl CancelledError" "raises_cancelled (tk_loop t) sch"
      "loop_turn fg t sch w s = Some s'" "turn_lost t s s'"
proof -
  have ok: "turn_ok s" and ph: "tk_phase t \<noteq> Task_Done" using assms(1,3) by (simp_all add: session_ok_def)
  show ?thesis
  proof (cases "fst (loop_run fg t sch w s)")
    case (Inr u)
    then have fin: "fst (loop_run fg t sch w s) = Inr ()" by simp
    obtain pre ev post where e: "loop_events fg t sch w s = pre @ ev # post" "\<forall>e \<in> set pre. \<not> is_terminal e"
      "is_terminal ev" "\<forall>e \<in> set post. \<not> is_terminal e" "ae_turn_id ev = cmd_turn_id (tk_command t)"
      using loop_events_split [OF assms(4) fin] .
    obtain s' x where "whole_turn (pre @ ev # post) s = Some s'" "turn_over t ev x s s'"
      using whole_turn_over [OF ok assms(2) ph e(2,4,3,5)] by blast
    then show ?thesis using e(1) fin that(1) by (simp add: loop_turn_def generator_end_def)
  next
    case (Inl err)
    let ?t = "cmd_turn_id (tk_command t)"
    obtain evs where e: "loop_events fg t sch w s = [ev_started ?t, ev_state_changed ?t AgentState.LISTENING] @ evs"
      "err = CancelledError" "raises_cancelled (tk_loop t) sch" "filter is_terminal evs = []"
      using run_events_once [OF assms(4), where fg = fg and L = "tk_loop t" and command = "tk_command t" and
          history = "history_for_session (cmd_session_id (tk_command t)) s" and memories = "[]" and tools = "[]" and
          cont = "continuation_for (cmd_session_id (tk_command t)) (tk_profile_id t) s" and w = w] Inl
      unfolding loop_events_def loop_run_def by auto
    then have quiet: "\<forall>e \<in> set (loop_events fg t sch w s). \<not> is_terminal e"
      by (auto simp: is_terminal_def agent_event_defs filter_empty_conv)
    obtain s' where "turn_until Cancelled (loop_events fg t sch w s) s = Some s'" "turn_lost t s s'"
      using cancelled_turn_lost [OF ok assms(2) ph quiet] .
    then show ?thesis using e Inl that(2) by (simp add: loop_turn_def generator_end_def)
  qed
qed

lemma service_aclose_next:
  assumes "service_ok s" "service_aclose s = (r, s')"
  shows "sv_next_id s' = sv_next_id s"
proof -
  obtain s3 where a: "service_aclose s = sbind (retry_pending_cleanup s3) (\<lambda>_ s4.
      (Inr (), set_lifecycle ProviderLifecycleState.CLOSED s4))"
    and s3: "slots_ok s3" "sv_next_id s3 = sv_next_id s"
    using aclose_withdraws [OF assms(1)] by auto
  obtain r4 s4 where r: "retry_pending_cleanup s3 = (r4, s4)" by fastforce
  have "sv_next_id s4 = sv_next_id s" using retry_ok [OF s3(1) r] s3(2) by (simp add: same_core_def)
  then show ?thesis using a r assms(2) by (cases r4) auto
qed

text \<open>A session that has begun to close: it stays so, and builds neither turns nor providers.\<close>

definition still_closing :: "('p, 'l) session \<Rightarrow> ('p, 'l) session \<Rightarrow> bool" where
  "still_closing s s' \<longleftrightarrow>
     ss_state s' \<noteq> RuntimeState.READY \<and> (ss_state s = RuntimeState.CLOSED \<longrightarrow> ss_state s' = RuntimeState.CLOSED) \<and>
     ss_next_task s' = ss_next_task s \<and> sv_next_id (ss_service s') = sv_next_id (ss_service s)"

lemma close_service_closing:
  "service_ok (ss_service s) \<Longrightarrow> ss_state s = RuntimeState.CLOSING \<Longrightarrow> still_closing s (close_service s)"
proof -
  assume ok: "service_ok (ss_service s)" and st: "ss_state s = RuntimeState.CLOSING"
  obtain r sv where c: "service_aclose (ss_service s) = (r, sv)" by fastforce
  show ?thesis
    using service_aclose_next [OF ok c] st c by (cases r) (simp_all add: still_closing_def close_service_def return_result_def)
qed

lemma shutdown_after_closing:
  "service_ok (ss_service s) \<Longrightarrow> ss_state s = RuntimeState.CLOSING \<Longrightarrow> still_closing s (shutdown_after r s)"
  using close_service_closing [of s]
  by (cases r) (auto simp: shutdown_after_def, simp add: still_closing_def return_result_def)

lemma shutdown_closing:
  assumes ok: "session_ok s" and w: "ss_waiting s = None"
  shows "still_closing s (shutdown c s)"
proof (cases "ss_state s = RuntimeState.CLOSED")
  case True
  then show ?thesis by (simp add: shutdown_def still_closing_def return_result_def)
next
  case False
  let ?s1 = "s\<lparr>ss_state := RuntimeState.CLOSING, ss_accepting := False\<rparr>"
  have sv: "service_ok (ss_service ?s1)" "session_ok ?s1" using ok w by (auto simp: session_ok_idle mode_ok_idle)
  have from1: "still_closing s s'" if "still_closing ?s1 s'" for s'
    using that False by (simp add: still_closing_def)
  show ?thesis
  proof (cases "current_profile_id (ss_coordinator s)")
    case None
    then show ?thesis using False from1 [OF close_service_closing] sv by (simp add: shutdown_def)
  next
    case (Some p)
    let ?h = "if c then ActiveTurnHandling.CANCEL_ACTIVE else ActiveTurnHandling.WAIT_FOR_ACTIVE"
    obtain x s2 where q: "quiesce_begin p ?h ?s1 = (x, s2)" by fastforce
    have "turn_ok ?s1" using sv(2) by (simp add: session_ok_def)
    then obtain co where s2: "s2 = ?s1\<lparr>ss_coordinator := co\<rparr>" using quiesce_begin_ok [OF _ q] by blast
    have "still_closing s (shutdown_after r s2)" for r
      using shutdown_after_closing [of s2 r] sv(1) from1 s2 by (simp add: still_closing_def)
    moreover have "still_closing s (wait_as v s2)" for v
      by (rule from1) (simp add: s2 still_closing_def wait_as_def)
    ultimately show ?thesis using False Some q by (cases x) (auto simp: shutdown_def)
  qed
qed

lemma session_step_closing:
  assumes ok: "session_ok s" and st: "ss_state s \<noteq> RuntimeState.READY" and step: "session_step X i s = Some s'"
  shows "still_closing s s'"
proof -
  have w: "ss_waiting s = None \<or> (\<exists>task. ss_waiting s = Some (Shutting_Down task) \<and> ss_state s = RuntimeState.CLOSING)"
    using ok st by (auto simp: session_ok_def waiting_ok_def split: option.splits waiting.splits)
  have refused: "still_closing s (return_result r s)" for r
    using st by (simp add: still_closing_def return_result_def)
  have nr: "\<exists>u. require_ready s = Some u"
    using st by (cases "ss_state s") (auto simp: require_ready_def)
  have sv: "service_ok (ss_service s)"
    using ok w by (auto simp: session_ok_def base_service_def)
  show ?thesis
  proof (cases i)
    case (Turn j)
    then obtain t where "turn_kept t s s'" using ok step by (auto simp: session_ok_def elim: turn_step_kept)
    then show ?thesis using st by (simp add: turn_kept_def frame_def still_closing_def)
  next
    case (Shutdown c)
    then show ?thesis
      using step shutdown_closing [OF ok] by (auto simp: begin_command_def split: if_splits)
  next
    case (Resume f)
    then show ?thesis
      using step w shutdown_after_closing [OF sv] by (auto simp: resume_with_def split: option.splits)
  next
    case (Abort f)
    then show ?thesis
      using step w shutdown_after_closing [OF sv] by (auto simp: resume_with_def)
  qed (use step w nr refused in \<open>auto simp: begin_command_def session_activate_def start_turn_def cancel_active_turn_def
      split: if_splits\<close>)
qed

lemma session_run_closing:
  "session_ok s \<Longrightarrow> ss_state s \<noteq> RuntimeState.READY \<Longrightarrow> session_run X is s = Some s' \<Longrightarrow> still_closing s s'"
proof (induction "is" arbitrary: s)
  case Nil
  then show ?case by (simp add: still_closing_def)
next
  case (Cons i "is")
  then obtain s1 where s1: "session_step X i s = Some s1" "session_run X is s1 = Some s'"
    by (auto split: option.splits)
  note c = session_step_closing [OF Cons.prems(1,2) s1(1)]
  then have "still_closing s1 s'"
    using Cons.IH [OF session_step_ok [OF Cons.prems(1) s1(1)] _ s1(2)] by (simp add: still_closing_def)
  then show ?case using c by (simp add: still_closing_def)
qed

section \<open>Properties\<close>


text \<open>A session whose built-in provider is activated and whose first turn has started.\<close>

definition sample_session_env :: "(unit, (nat, nat) AgentLoop) session_env" where
  "sample_session_env = \<lparr>sx_service = sample_service_env, sx_loop_factory = (\<lambda>_. Inr (sample_loop ToolRisk.SAFE))\<rparr>"

definition activated_session :: "(unit, (nat, nat) AgentLoop) session" where
  "activated_session = (new_session sample_running)\<lparr>ss_loop := Some (sample_loop ToolRisk.SAFE), ss_results := [Inr rc_ok]\<rparr>"

definition sample_task :: "(nat, nat) AgentLoop turn_task" where
  "sample_task = \<lparr>tk_id = 0, tk_loop = sample_loop ToolRisk.SAFE, tk_command = sample_command,
     tk_profile_id = ''builtin-fake-default'', tk_phase = Task_Created, tk_history = [], tk_continuation = None,
     tk_saw_terminal = False, tk_was_cancelled = False\<rparr>"

definition sample_session :: "(unit, (nat, nat) AgentLoop) session" where
  "sample_session = start_turn ''t'' ''hello'' ''s'' activated_session"

lemma activate_sample:
  "session_run sample_session_env [Activate ''builtin-fake-default'' sample_options None, Enter (\<lambda>d. d)]
     (new_session sample_running) = Some activated_session"
proof -
  have p: "get_profile sample_repo_env ''builtin-fake-default'' (disk_with sample_snapshot)
      = Inr (Some (fake_profile ''builtin-fake-default''))"
    by (simp add: sample_get) (simp add: sample_snapshot_def find_profile_def fake_profile_def)
  show ?thesis
    by (simp add: begin_command_def session_activate_def require_ready_def new_session_def has_active_turn_def wait_as_def
        enter_activation_def activate_entry_def sample_session_env_def sample_service_env_def retry_pending_cleanup_def
        has_pending_cleanup_def sample_running_def publish_def new_service_def p finish_activation_def return_result_def
        activated_session_def)
qed

lemma sample_text [simp]:
  "\<not> blank ''hello''" "\<not> blank ''s''" "py_strip ''hello'' = ''hello''" "py_strip ''s'' = ''s''"
  by code_simp+

lemma start_sample: "begin_command (start_turn ''t'' ''hello'' ''s'') activated_session = Some sample_session"
  by (simp add: begin_command_def sample_session_def activated_session_def new_session_def)

lemma sample_session_fields:
  "ss_task sample_session = Some sample_task" "ss_waiting sample_session = None"
  "ss_state sample_session = RuntimeState.READY" "ss_service sample_session = sample_running"
  by (simp_all add: sample_session_def activated_session_def new_session_def start_turn_def require_ready_def
      has_active_turn_def sample_running_def publish_def mk_UserMessageCommand_def return_result_def Let_def
      sample_task_def sample_command_def)

lemma sample_run:
  "session_run sample_session_env [Activate ''builtin-fake-default'' sample_options None, Enter (\<lambda>d. d),
     Start_Turn ''t'' ''hello'' ''s''] (new_session sample_running) = Some sample_session"
  using activate_sample start_sample by (auto split: option.splits)

lemma sample_running_open: "\<not> sv_closed sample_running"
  by (simp add: sample_running_def publish_def new_service_def)

lemma sample_session_ok: "session_ok sample_session"
  by (rule session_run_ok [OF new_session_ok [OF sample_running_ok sample_running_open] sample_run])


text \<open>
  C4. One turn of the session over the agent loop, whatever the provider, the policy and the tools do
  and raise, provided that closing the provider's stream does not raise (where it does, a turn can
  report two outcomes): it runs to its end, reports last that it settled, and leaves the session
  idle. A generator that ends makes it report exactly one outcome; the history of its session grows
  by the user's message and the reported answer exactly when the outcome is a completion, whose text
  is then not blank; no other history changes, and continuation state changes at most for the turn's
  own session and profile, and only on completion. The one exception that can leave the generator is
  a \<^verbatim>\<open>CancelledError\<close> that the provider, the policy or a tool raised: then the turn reports no
  outcome at all, and nothing is remembered.
\<close>

theorem turn_commits_once:
  assumes "session_ok s" "ss_task s = Some t" "tk_phase t = Task_Created" "sch_close sch = Inr ()"
  shows "\<exists>s'. loop_turn fg t sch w s = Some s' \<and>
    last (ss_emitted s') = runtime_event RuntimeEventType.TURN_SETTLED (cmd_turn_id (tk_command t)) \<and>
    \<not> has_active_turn (ss_coordinator s') \<and> ss_turn_idle s' \<and>
    (case fst (loop_run fg t sch w s) of
       Inr _ \<Rightarrow> \<exists>x. filter is_outcome (drop (length (ss_emitted s)) (ss_emitted s')) = [x] \<and>
         (re_type x = RuntimeEventType.TURN_COMPLETED \<longrightarrow> \<not> blank (re_text x)) \<and>
         (\<forall>i. history_for_session i s' = history_for_session i s @
            (if re_type x = RuntimeEventType.TURN_COMPLETED \<and> i = cmd_session_id (tk_command t)
             then [\<lparr>role = MessageRole.USER, msg_content = cmd_content (tk_command t)\<rparr>,
                   \<lparr>role = MessageRole.ASSISTANT, msg_content = re_text x\<rparr>] else [])) \<and>
         (\<forall>k. k \<noteq> (cmd_session_id (tk_command t), tk_profile_id t) \<or> re_type x \<noteq> RuntimeEventType.TURN_COMPLETED \<longrightarrow>
            ss_continuations s' k = ss_continuations s k)
     | Inl e \<Rightarrow> e = CancelledError \<and> raises_cancelled (tk_loop t) sch \<and>
         filter is_outcome (drop (length (ss_emitted s)) (ss_emitted s')) = [] \<and>
         (\<forall>i. history_for_session i s' = history_for_session i s) \<and> ss_continuations s' = ss_continuations s)"
  using loop_turn_cases [OF assms, of fg w]
proof cases
  case (1 s' x ev)
  have "ss_continuations s' k = ss_continuations s k"
    if "k \<noteq> (cmd_session_id (tk_command t), tk_profile_id t) \<or> re_type x \<noteq> RuntimeEventType.TURN_COMPLETED" for k
    using 1(3) that by (auto simp: turn_over_def committed_def Let_def split: if_splits)
  moreover have "\<not> has_active_turn (ss_coordinator s')" "ss_turn_idle s'"
    using 1(3) by (auto simp: turn_over_def has_active_turn_def)
  ultimately show ?thesis
    using 1(1,2) turn_over_outcomes [OF 1(3)] turn_over_last [OF 1(3)] turn_over_history [OF 1(3)]
    by (intro exI [of _ s']) auto
next
  case (2 s')
  then show ?thesis
    by (intro exI [of _ s']) (auto simp: turn_lost_def has_active_turn_def history_for_session_def is_outcome_def runtime_event_def)
qed

theorem turn_commits_once_witness:
  "\<exists>s' x. loop_turn (\<lambda>x. ''90'') sample_task (sample_schedule (Inr ())) 0 sample_session = Some s' \<and>
    filter is_outcome (drop (length (ss_emitted sample_session)) (ss_emitted s')) = [x] \<and>
    \<not> has_active_turn (ss_coordinator s')"
proof -
  have "tk_phase sample_task = Task_Created" "sch_close (sample_schedule (Inr ())) = Inr ()"
    "\<not> raises_cancelled (tk_loop sample_task) (sample_schedule (Inr ()))"
    using sample_calm by (simp_all add: sample_task_def) (simp add: sample_schedule_def)
  then show ?thesis
    using turn_commits_once [OF sample_session_ok sample_session_fields(1), of "sample_schedule (Inr ())" "\<lambda>x. ''90''" 0]
    by (cases "fst (loop_run (\<lambda>x. ''90'') sample_task (sample_schedule (Inr ())) 0 sample_session)") auto
qed

text \<open>
  C39. An answer of nothing but white space, or none at all, is a completed turn for the agent loop, but
  not for the session: building the assistant's message raises, so the turn is reported as failed,
  and the user's message and the provider's continuation are dropped with it.
\<close>

theorem blank_answer_fails_turn:
  fixes pre post :: "'j AgentEvent list"
  assumes "session_ok s" "ss_task s = Some t" "tk_phase t \<noteq> Task_Done"
    and "\<forall>e \<in> set pre \<union> set post. \<not> is_terminal e" "blank answer"
  shows "\<exists>s' x. whole_turn (pre @ ev_completed (cmd_turn_id (tk_command t)) answer c # post) s = Some s' \<and>
    filter is_outcome (drop (length (ss_emitted s)) (ss_emitted s')) = [x] \<and>
    re_type x = RuntimeEventType.TURN_FAILED \<and> re_safe_code x = ''runtime_turn_failed'' \<and>
    (\<forall>i. history_for_session i s' = history_for_session i s) \<and> ss_continuations s' = ss_continuations s"
proof -
  let ?ev = "ev_completed (cmd_turn_id (tk_command t)) answer c :: 'j AgentEvent"
  have ev: "is_terminal ?ev" "ae_turn_id ?ev = cmd_turn_id (tk_command t)" "ae_type ?ev = AgentEventType.TURN_COMPLETED"
    "ae_text ?ev = answer"
    by (simp_all add: is_terminal_def agent_event_defs)
  have ok: "turn_ok s" using assms(1) by (simp add: session_ok_def)
  have quiet: "\<forall>e \<in> set pre. \<not> is_terminal e" "\<forall>e \<in> set post. \<not> is_terminal e" using assms(4) by auto
  obtain s' x where w: "whole_turn (pre @ ?ev # post) s = Some s'" "turn_over t ?ev x s s'"
    using whole_turn_over [OF ok assms(2,3) quiet ev(1,2)] by blast
  have "committed t ?ev x s s'" using w(2) by (simp add: turn_over_def)
  then have "re_type x = RuntimeEventType.TURN_FAILED \<and> re_safe_code x = ''runtime_turn_failed'' \<and>
      (\<forall>i. history_for_session i s' = history_for_session i s) \<and> ss_continuations s' = ss_continuations s"
    using ev(3,4) assms(5) by (auto simp: committed_def Let_def split: if_splits)
  then show ?thesis using w turn_over_outcomes [OF w(2)] by auto
qed

theorem blank_answer_fails_turn_witness:
  "\<exists>s' x. whole_turn [ev_started ''t'' :: nat AgentEvent, ev_completed ''t'' [] None] sample_session = Some s' \<and>
    filter is_outcome (drop (length (ss_emitted sample_session)) (ss_emitted s')) = [x] \<and>
    re_type x = RuntimeEventType.TURN_FAILED"
  using blank_answer_fails_turn [OF sample_session_ok sample_session_fields(1), of "[ev_started ''t'']" "[]" "[]" None]
  by (auto simp: sample_task_def sample_command_def is_terminal_def agent_event_defs blank_def py_strip_def)



text \<open>
  C24. Closing is final. Once a shutdown has begun, whatever commands and turn steps follow and even
  when the shutdown itself fails and is repeated: the session is never ready again, a closed one
  stays closed, no further turn is started and no provider is built; activation, messages and cancellation
  are refused at once and change nothing but the list of results.
\<close>

theorem closing_is_final:
  assumes "session_ok s" "ss_state s \<noteq> RuntimeState.READY" "session_run X is s = Some s'"
  shows "ss_state s' \<noteq> RuntimeState.READY \<and> (ss_state s = RuntimeState.CLOSED \<longrightarrow> ss_state s' = RuntimeState.CLOSED) \<and>
    ss_next_task s' = ss_next_task s \<and> sv_next_id (ss_service s') = sv_next_id (ss_service s) \<and>
    (\<exists>u. \<not> rc_success u \<and>
       session_activate i opts h s' = return_result (Inr u) s' \<and> start_turn turn_id c sid s' = return_result (Inr u) s' \<and>
       cancel_active_turn s' = return_result (Inr u) s')"
proof -
  have c: "still_closing s s'" by (rule session_run_closing [OF assms])
  then obtain u where "require_ready s' = Some u" "\<not> rc_success u"
    by (cases "ss_state s'") (auto simp: require_ready_def still_closing_def rc_failure_def)
  then show ?thesis
    using c by (auto simp: still_closing_def session_activate_def start_turn_def cancel_active_turn_def)
qed

theorem closing_is_final_witness:
  "\<exists>s1. session_step sample_session_env (Shutdown True :: nat session_input) sample_session = Some s1 \<and>
    ss_state (cancel_active_turn s1) \<noteq> RuntimeState.READY"
proof -
  obtain s1 where s1: "session_step sample_session_env (Shutdown True :: nat session_input) sample_session = Some s1"
    using sample_session_fields by (simp add: begin_command_def)
  then have "session_ok s1" by (rule session_step_ok [OF sample_session_ok])
  moreover have "ss_state s1 \<noteq> RuntimeState.READY"
    using s1 sample_session_fields(2) shutdown_closing [OF sample_session_ok sample_session_fields(2)]
    by (auto simp: begin_command_def still_closing_def)
  ultimately show ?thesis
    using closing_is_final [of s1 sample_session_env "[] :: nat session_input list" s1 "[]" sample_options None "[]" "[]" "[]"] s1
    by (auto simp: return_result_def)
qed

text \<open>
  C40. Continuation state stays with its profile through the whole session: when the loop reads the
  stream of a managed provider of the turn's profile, every stored continuation still names the profile it
  is stored for after the turn, if it did before, whether the loop's generator ends or an exception
  leaves it.
\<close>

definition continuations_home :: "('p, 'l) session \<Rightarrow> bool" where
  "continuations_home s \<longleftrightarrow>
    (\<forall>sid profile_id c. continuation_for sid profile_id s = Some c \<longrightarrow> cont_profile_id c = Some profile_id)"

theorem session_continuations_home:
  assumes "session_ok s" "ss_task s = Some t" "tk_phase t = Task_Created" "sch_close sch = Inr ()"
    and "generate_stream accepting mp request delegate = (evs, fin, asked)" "mp_profile_id mp = tk_profile_id t"
    and "\<forall>ev. ReadEvent (Some ev) \<in> set (sch_reads sch) \<longrightarrow> ev \<in> set evs"
    and "continuations_home s" "loop_turn fg t sch w s = Some s'"
  shows "continuations_home s'"
  using loop_turn_cases [OF assms(1-4), of fg w]
proof cases
  case (1 s1 x ev)
  then have com: "committed t ev x s s'" and ev: "ev \<in> set (loop_events fg t sch w s)"
    using assms(9) by (simp_all add: turn_over_def)
  note ev
  moreover have "keeps_only (offered (sch_reads sch)) (snd (loop_run fg t sch w s))"
    unfolding loop_run_def by (rule run_continuation)
  ultimately have "c \<in> offered (sch_reads sch)"
    if "ae_type ev = AgentEventType.TURN_COMPLETED" "ae_continuation ev = Some c" for c
    using that unfolding loop_events_def keeps_only_def by blast
  then have "cont_profile_id c = Some (tk_profile_id t)"
    if "ae_type ev = AgentEventType.TURN_COMPLETED" "ae_continuation ev = Some c" for c
    using that assms(6,7) generate_stream_confined [OF assms(5)]
    by (fastforce simp: offered_def confined_def list_all_iff)
  then show ?thesis
    using com assms(8)
    by (auto simp: continuations_home_def continuation_for_def committed_def Let_def split: if_splits)
next
  case (2 s1)
  then show ?thesis
    using assms(8,9) by (simp add: turn_lost_def continuations_home_def continuation_for_def)
qed

text \<open>The sample's adapter completes with a continuation that does not name its profile.\<close>

definition sample_stream :: "nat delegate_stream" where
  "sample_stream = \<lparr>ds_events = [(llm_event LLMEventType.TEXT_DELTA)\<lparr>le_text := ''hi''\<rparr>,
     llm_completed (Some \<lparr>provider_name = ''fake'', cont_state = ''s'', cont_version = None, cont_profile_id = None\<rparr>)],
     ds_end = Inr (), ds_close = Inr ()\<rparr>"

definition sample_managed :: "unit ManagedProvider" where
  "sample_managed = \<lparr>mp_id = 0, mp_delegate = (), mp_profile_id = ''builtin-fake-default'',
     mp_expected_provider_name = ''fake''\<rparr>"

definition stream_schedule :: "nat LLMEvent list \<Rightarrow> nat turn_schedule" where
  "stream_schedule evs = \<lparr>sch_cancelled_before = False, sch_open = Inr (), sch_reads = map (ReadEvent \<circ> Some) evs @ [ReadEof],
     sch_close = Inr (), sch_cancelled_after = False\<rparr>"

definition first_request :: "nat LLMRequest" where
  "first_request = \<lparr>instructions = [], messages = [], req_tools = [], req_store = False,
     req_max_output_tokens = 100, memory_context = [], req_continuation = None\<rparr>"

theorem session_continuations_home_witness:
  "\<exists>evs fin s'. generate_stream True sample_managed first_request (\<lambda>_ _. sample_stream) = (evs, fin, True) \<and>
    length evs = 2 \<and>
    loop_turn (\<lambda>x. ''90'') sample_task (stream_schedule evs) 0 sample_session = Some s' \<and>
    continuations_home s'"
proof -
  obtain evs where g: "generate_stream True sample_managed first_request (\<lambda>_ _. sample_stream) = (evs, Inr (), True)"
    and len: "length evs = 2"
    by (simp add: generate_stream_def request_mismatch_def first_request_def sample_stream_def sample_managed_def
        llm_completed_def returned_mismatch_def Let_def)
  have t: "tk_phase sample_task = Task_Created" "sch_close (stream_schedule evs) = Inr ()"
    "mp_profile_id sample_managed = tk_profile_id sample_task"
    "\<forall>ev. ReadEvent (Some ev) \<in> set (sch_reads (stream_schedule evs)) \<longrightarrow> ev \<in> set evs"
    by (auto simp: sample_task_def stream_schedule_def sample_managed_def)
  have home: "continuations_home sample_session"
    by (simp add: continuations_home_def continuation_for_def sample_session_def activated_session_def new_session_def
        start_turn_def require_ready_def has_active_turn_def sample_running_def publish_def mk_UserMessageCommand_def
        return_result_def Let_def)
  obtain s' where s': "loop_turn (\<lambda>x. ''90'') sample_task (stream_schedule evs) 0 sample_session = Some s'"
    using loop_turn_cases [OF sample_session_ok sample_session_fields(1) t(1,2)] by metis
  show ?thesis
    using session_continuations_home [OF sample_session_ok sample_session_fields(1) t(1,2) g t(3,4) home s'] g len s' by blast
qed

end
