(* ===== verification/Autostart_Eligibility.thy ===== *)
theory Autostart_Eligibility
  imports Py_Text
begin

text \<open>
  Which executable may register itself to start with Windows:
  \<^verbatim>\<open>application/system/autostart_eligibility.py\<close>, \<^verbatim>\<open>application/system/startup_mode.py\<close> and the
  production diagnosis of \<^verbatim>\<open>bootstrap/autostart.py\<close>.

  A path is a \<^verbatim>\<open>pathlib.WindowsPath\<close>: drive, root and the names below it; two paths are equal when
  their texts agree up to case. The file system is a \<open>path_fs\<close>: what resolving a path and reading
  its metadata give, or the exception they raise. It does not change during one inspection.
\<close>

section \<open>Paths\<close>

record WindowsPath =
  wp_drive :: string
  wp_root :: string
  wp_tail :: "string list"

fun join_names :: "string list \<Rightarrow> string" where
  "join_names [] = []"
| "join_names [name] = name"
| "join_names (name # names) = name @ CHR 0x5C # join_names names"

definition path_str :: "WindowsPath \<Rightarrow> string" where
  "path_str p =
    (let s = wp_drive p @ wp_root p @ join_names (wp_tail p)
     in if s = [] then ''.'' else s)"

definition path_name :: "WindowsPath \<Rightarrow> string" where
  "path_name p = (if wp_tail p = [] then [] else last (wp_tail p))"

definition path_suffix :: "WindowsPath \<Rightarrow> string" where
  "path_suffix p =
    (let n = path_name p; ext = rev (takeWhile (\<lambda>c. c \<noteq> CHR ''.'') (rev n))
     in if CHR ''.'' \<in> set n \<and> ext \<noteq> [] \<and> length ext + 1 < length n then CHR ''.'' # ext else [])"

definition path_parts :: "WindowsPath \<Rightarrow> string list" where
  "path_parts p =
    (if wp_drive p @ wp_root p = [] then wp_tail p else (wp_drive p @ wp_root p) # wp_tail p)"

definition path_parent :: "WindowsPath \<Rightarrow> WindowsPath" where
  "path_parent p = p\<lparr>wp_tail := butlast (wp_tail p)\<rparr>"

definition path_is_absolute :: "WindowsPath \<Rightarrow> bool" where
  "path_is_absolute p \<longleftrightarrow> wp_drive p \<noteq> [] \<and> wp_root p \<noteq> []"

definition same_path :: "WindowsPath \<Rightarrow> WindowsPath \<Rightarrow> bool" where
  "same_path p q \<longleftrightarrow> py_lower (path_str p) = py_lower (path_str q)"

record stat_result =
  st_mode :: nat
  st_nlink :: nat
  st_file_attributes :: "nat option"

definition S_ISREG :: "nat \<Rightarrow> bool" where
  "S_ISREG mode \<longleftrightarrow> mode div 4096 mod 16 = 8"

record path_fs =
  fs_resolve :: "WindowsPath \<Rightarrow> WindowsPath res"
  fs_resolve_text :: "string \<Rightarrow> WindowsPath res"
  fs_lstat :: "WindowsPath \<Rightarrow> stat_result res"

text \<open>\<^verbatim>\<open>except (OSError, RuntimeError, ValueError)\<close>.\<close>

fun is_path_error :: "py_error \<Rightarrow> bool" where
  "is_path_error OSError = True"
| "is_path_error TimeoutError = True"
| "is_path_error (RuntimeError _) = True"
| "is_path_error (ValueError _) = True"
| "is_path_error _ = False"

section \<open>Reasons and facts\<close>

datatype AutostartEligibilityReason =
    MARKER_MISSING | MARKER_TYPE_MISMATCH | STANDALONE_MODE_INVALID | ONEFILE_MODE_INVALID
  | CONTAINING_DIR_INVALID | EXECUTABLE_UNRESOLVABLE | EXECUTABLE_PARENT_MISMATCH
  | EXECUTABLE_NOT_ABSOLUTE | EXECUTABLE_PATH_MISMATCH | EXECUTABLE_NOT_REGULAR
  | EXECUTABLE_REPARSE_POINT | EXECUTABLE_HARDLINK_INVALID | EXECUTABLE_NAME_INVALID
  | VIRTUAL_ENVIRONMENT_PATH_REJECTED | EXECUTABLE_PATH_UNSAFE | COMMAND_LENGTH_INVALID | SUPPORTED

record AutostartEligibilityResult =
  er_reason :: AutostartEligibilityReason

definition eligibility :: "AutostartEligibilityReason \<Rightarrow> AutostartEligibilityResult" where
  "eligibility r = \<lparr>er_reason = r\<rparr>"

definition supported :: "AutostartEligibilityResult \<Rightarrow> bool" where
  "supported r \<longleftrightarrow> er_reason r = SUPPORTED"

record NuitkaRuntimeFacts =
  marker_present :: bool
  marker_type_matches :: bool
  standalone_mode :: bool
  onefile_disabled :: bool
  containing_dir_valid :: bool
  nf_executable_resolvable :: bool
  executable_parent_matches :: bool

record ExecutableFacts =
  executable_resolvable :: bool
  executable_absolute :: bool
  executable_matches_resolved :: bool
  executable_regular :: bool
  executable_reparse_point :: bool
  executable_hardlink_valid :: bool
  executable_name_valid :: bool
  virtual_environment_path :: bool
  executable_path_safe :: bool
  command_length_valid :: bool

definition MAX_AUTOSTART_COMMAND_LENGTH :: nat where
  "MAX_AUTOSTART_COMMAND_LENGTH = 32767"

definition evaluate_nuitka_runtime :: "NuitkaRuntimeFacts \<Rightarrow> AutostartEligibilityResult" where
  "evaluate_nuitka_runtime facts =
    eligibility
     (if \<not> marker_present facts then MARKER_MISSING
      else if \<not> marker_type_matches facts then MARKER_TYPE_MISMATCH
      else if \<not> standalone_mode facts then STANDALONE_MODE_INVALID
      else if \<not> onefile_disabled facts then ONEFILE_MODE_INVALID
      else if \<not> containing_dir_valid facts then CONTAINING_DIR_INVALID
      else if \<not> nf_executable_resolvable facts then EXECUTABLE_UNRESOLVABLE
      else if \<not> executable_parent_matches facts then EXECUTABLE_PARENT_MISMATCH
      else SUPPORTED)"

definition evaluate_executable ::
    "AutostartEligibilityResult \<Rightarrow> ExecutableFacts \<Rightarrow> AutostartEligibilityResult" where
  "evaluate_executable runtime facts =
    (if \<not> supported runtime then runtime
     else eligibility
      (if \<not> executable_resolvable facts then EXECUTABLE_UNRESOLVABLE
       else if \<not> executable_absolute facts then EXECUTABLE_NOT_ABSOLUTE
       else if \<not> executable_matches_resolved facts then EXECUTABLE_PATH_MISMATCH
       else if executable_reparse_point facts then EXECUTABLE_REPARSE_POINT
       else if \<not> executable_regular facts then EXECUTABLE_NOT_REGULAR
       else if \<not> executable_hardlink_valid facts then EXECUTABLE_HARDLINK_INVALID
       else if \<not> executable_name_valid facts then EXECUTABLE_NAME_INVALID
       else if virtual_environment_path facts then VIRTUAL_ENVIRONMENT_PATH_REJECTED
       else if \<not> executable_path_safe facts then EXECUTABLE_PATH_UNSAFE
       else if \<not> command_length_valid facts then COMMAND_LENGTH_INVALID
       else SUPPORTED))"

definition path_text_is_safe :: "string \<Rightarrow> bool" where
  "path_text_is_safe path_text \<longleftrightarrow>
     take 2 path_text \<noteq> [CHR 0x5C, CHR 0x5C]
     \<and> CHR 0x22 \<notin> set path_text
     \<and> \<not> list_ex (\<lambda>character. code_point character < 32) path_text"

section \<open>Inspection of the running program\<close>

text \<open>
  The marker Nuitka leaves in a compiled module: the name of its type and what reading its three
  attributes gives. A missing attribute reads as \<^verbatim>\<open>None\<close>.
\<close>

datatype py_value = PyNone | PyBool bool | PyStr string | PyObject

record NuitkaMarker =
  nm_type_name :: string
  nm_standalone :: "py_value res"
  nm_onefile :: "py_value res"
  nm_containing_dir :: "py_value res"

definition read_attribute :: "bool \<Rightarrow> (NuitkaMarker \<Rightarrow> py_value res) \<Rightarrow> NuitkaMarker option \<Rightarrow> py_value" where
  "read_attribute type_matches attr marker =
    (case marker of
       None \<Rightarrow> PyNone
     | Some m \<Rightarrow> if type_matches then (case attr m of Inl _ \<Rightarrow> PyNone | Inr v \<Rightarrow> v) else PyNone)"

definition resolve_containing_dir :: "path_fs \<Rightarrow> py_value \<Rightarrow> WindowsPath option res" where
  "resolve_containing_dir fs value =
    (case value of
       PyStr text \<Rightarrow>
         (case fs_resolve_text fs text of
            Inl e \<Rightarrow> if is_path_error e then Inr None else Inl e
          | Inr p \<Rightarrow> Inr (Some p))
     | _ \<Rightarrow> Inr None)"

definition resolve_executable :: "path_fs \<Rightarrow> WindowsPath \<Rightarrow> WindowsPath option res" where
  "resolve_executable fs executable =
    (case fs_resolve fs executable of
       Inl e \<Rightarrow> if is_path_error e then Inr None else Inl e
     | Inr p \<Rightarrow> Inr (Some p))"

definition inspect_nuitka_runtime ::
    "path_fs \<Rightarrow> NuitkaMarker option \<Rightarrow> WindowsPath \<Rightarrow> AutostartEligibilityResult res" where
  "inspect_nuitka_runtime fs marker executable =
    (let present = (marker \<noteq> None);
         matches = (case marker of None \<Rightarrow> False | Some m \<Rightarrow> nm_type_name m = ''__nuitka_version__'');
         standalone_value = read_attribute matches nm_standalone marker;
         onefile_value = read_attribute matches nm_onefile marker;
         containing = read_attribute matches nm_containing_dir marker in
     ebind (resolve_containing_dir fs containing) (\<lambda>resolved_dir.
     ebind (resolve_executable fs executable) (\<lambda>resolved.
     Inr (evaluate_nuitka_runtime
       \<lparr>marker_present = present,
        marker_type_matches = matches,
        standalone_mode = (standalone_value = PyBool True),
        onefile_disabled = (onefile_value = PyBool False),
        containing_dir_valid = (resolved_dir \<noteq> None),
        nf_executable_resolvable = (resolved \<noteq> None),
        executable_parent_matches =
          (case (resolved, resolved_dir) of
             (Some r, Some d) \<Rightarrow> same_path (path_parent (path_parent r)) d
           | _ \<Rightarrow> False)\<rparr>))))"

definition unreadable_facts :: ExecutableFacts where
  "unreadable_facts =
    \<lparr>executable_resolvable = False, executable_absolute = False, executable_matches_resolved = False,
     executable_regular = False, executable_reparse_point = False, executable_hardlink_valid = False,
     executable_name_valid = False, virtual_environment_path = False, executable_path_safe = False,
     command_length_valid = False\<rparr>"

definition reparse_point :: "stat_result \<Rightarrow> bool" where
  "reparse_point metadata \<longleftrightarrow>
     (case st_file_attributes metadata of None \<Rightarrow> 0 | Some a \<Rightarrow> a) div 0x400 mod 2 = 1"

definition executable_facts ::
    "WindowsPath \<Rightarrow> WindowsPath \<Rightarrow> stat_result \<Rightarrow> nat \<Rightarrow> nat \<Rightarrow> ExecutableFacts" where
  "executable_facts executable resolved metadata command_length maximum_command_length =
    (let components = map py_casefold (path_parts resolved) in
     \<lparr>executable_resolvable = True,
      executable_absolute = path_is_absolute executable,
      executable_matches_resolved = same_path resolved executable,
      executable_regular = S_ISREG (st_mode metadata),
      executable_reparse_point = reparse_point metadata,
      executable_hardlink_valid = (st_nlink metadata = 1),
      executable_name_valid =
        (py_casefold (path_name resolved) = ''arkclaw.exe''
         \<and> py_casefold (path_suffix resolved) = ''.exe''),
      virtual_environment_path =
        (''.venv'' \<in> set components \<or> ''.venv-packaging'' \<in> set components),
      executable_path_safe = path_text_is_safe (path_str resolved),
      command_length_valid = (command_length \<le> maximum_command_length)\<rparr>)"

definition inspect_autostart_executable ::
    "path_fs \<Rightarrow> WindowsPath \<Rightarrow> AutostartEligibilityResult \<Rightarrow> nat \<Rightarrow> nat
     \<Rightarrow> AutostartEligibilityResult res" where
  "inspect_autostart_executable fs executable runtime command_length maximum_command_length =
    (case ebind (fs_resolve fs executable)
            (\<lambda>resolved. ebind (fs_lstat fs executable) (\<lambda>metadata. Inr (resolved, metadata))) of
       Inl e \<Rightarrow>
         if is_path_error e then Inr (evaluate_executable runtime unreadable_facts) else Inl e
     | Inr (resolved, metadata) \<Rightarrow>
         Inr (evaluate_executable runtime
           (executable_facts executable resolved metadata command_length maximum_command_length)))"

section \<open>Startup arguments\<close>

definition AUTOSTART_ARGUMENT :: string where
  "AUTOSTART_ARGUMENT = ''--startup''"

definition AUTOSTART_DIAGNOSTIC_ARGUMENT :: string where
  "AUTOSTART_DIAGNOSTIC_ARGUMENT = ''--diagnose-autostart-runtime''"

fun parse_startup_mode :: "string list \<Rightarrow> bool res" where
  "parse_startup_mode [] = Inr False"
| "parse_startup_mode (program # options) =
    (if options = [] then Inr False
     else if options = [AUTOSTART_ARGUMENT] then Inr True
     else Inl StartupModeArgumentError)"

definition is_autostart_runtime_diagnostic_requested :: "string list \<Rightarrow> bool" where
  "is_autostart_runtime_diagnostic_requested argv \<longleftrightarrow>
     2 \<le> length argv \<and> tl argv = [AUTOSTART_DIAGNOSTIC_ARGUMENT]"

text \<open>\<^verbatim>\<open>f'"{path}" {AUTOSTART_ARGUMENT}'\<close>.\<close>

definition startup_command :: "string \<Rightarrow> string" where
  "startup_command path_text = CHR 0x22 # path_text @ CHR 0x22 # CHR '' '' # AUTOSTART_ARGUMENT"

definition diagnose_production_autostart_eligibility ::
    "path_fs \<Rightarrow> NuitkaMarker option \<Rightarrow> WindowsPath \<Rightarrow> AutostartEligibilityResult res" where
  "diagnose_production_autostart_eligibility fs compiled candidate =
    ebind (inspect_nuitka_runtime fs compiled candidate) (\<lambda>runtime.
    if \<not> supported runtime then Inr runtime
    else inspect_autostart_executable fs candidate runtime
           (length (startup_command (path_str candidate))) MAX_AUTOSTART_COMMAND_LENGTH)"

section \<open>What the checks amount to\<close>

lemma supported_eligibility [simp]: "supported (eligibility r) \<longleftrightarrow> r = SUPPORTED"
  by (simp add: supported_def eligibility_def)

lemma evaluate_nuitka_supported:
  "supported (evaluate_nuitka_runtime f) \<longleftrightarrow>
     marker_present f \<and> marker_type_matches f \<and> standalone_mode f \<and> onefile_disabled f
     \<and> containing_dir_valid f \<and> nf_executable_resolvable f \<and> executable_parent_matches f"
  by (simp add: evaluate_nuitka_runtime_def)

lemma evaluate_executable_supported:
  "supported (evaluate_executable r f) \<longleftrightarrow>
     supported r \<and> executable_resolvable f \<and> executable_absolute f \<and> executable_matches_resolved f
     \<and> \<not> executable_reparse_point f \<and> executable_regular f \<and> executable_hardlink_valid f
     \<and> executable_name_valid f \<and> \<not> virtual_environment_path f \<and> executable_path_safe f
     \<and> command_length_valid f"
  by (simp add: evaluate_executable_def)

text \<open>The requirements of the documentation on the executable, as one predicate.\<close>

definition registrable :: "path_fs \<Rightarrow> WindowsPath \<Rightarrow> nat \<Rightarrow> bool" where
  "registrable fs executable command_length \<longleftrightarrow>
    (case (fs_resolve fs executable, fs_lstat fs executable) of
       (Inr resolved, Inr metadata) \<Rightarrow>
         path_is_absolute executable \<and> same_path resolved executable
         \<and> S_ISREG (st_mode metadata) \<and> \<not> reparse_point metadata \<and> st_nlink metadata = 1
         \<and> py_casefold (path_name resolved) = ''arkclaw.exe'' \<and> py_casefold (path_suffix resolved) = ''.exe''
         \<and> (\<forall>part\<in>set (path_parts resolved). py_casefold part \<notin> {''.venv'', ''.venv-packaging''})
         \<and> path_text_is_safe (path_str resolved) \<and> command_length \<le> MAX_AUTOSTART_COMMAND_LENGTH
     | _ \<Rightarrow> False)"

lemma inspect_supported_iff:
  "(\<exists>r. inspect_autostart_executable fs executable runtime n MAX_AUTOSTART_COMMAND_LENGTH = Inr r
        \<and> supported r)
   \<longleftrightarrow> supported runtime \<and> registrable fs executable n"
proof (cases "fs_resolve fs executable")
  case (Inl e)
  then show ?thesis
    by (simp add: inspect_autostart_executable_def registrable_def evaluate_executable_supported
        unreadable_facts_def)
next
  case resolved: (Inr p)
  show ?thesis
  proof (cases "fs_lstat fs executable")
    case (Inl e)
    with resolved show ?thesis
      by (simp add: inspect_autostart_executable_def registrable_def evaluate_executable_supported
          unreadable_facts_def)
  next
    case (Inr m)
    with resolved show ?thesis
      by (auto simp: inspect_autostart_executable_def registrable_def evaluate_executable_supported
          executable_facts_def Let_def image_iff)
  qed
qed

text \<open>
  A command line that starts with a quoted program, the way Windows splits it into arguments: up to
  the second quote, and then at blanks.
\<close>

fun blank_separated :: "string \<Rightarrow> string \<Rightarrow> string list" where
  "blank_separated word [] = (if word = [] then [] else [word])"
| "blank_separated word (c # cs) =
    (if c = CHR '' '' then (if word = [] then [] else [word]) @ blank_separated [] cs
     else blank_separated (word @ [c]) cs)"

fun windows_argv :: "string \<Rightarrow> string list" where
  "windows_argv [] = []"
| "windows_argv (c # cs) =
    (if c = CHR 0x22
     then takeWhile (\<lambda>x. x \<noteq> CHR 0x22) cs # blank_separated [] (tl (dropWhile (\<lambda>x. x \<noteq> CHR 0x22) cs))
     else blank_separated [] (c # cs))"

lemma startup_command_argv:
  assumes "path_text_is_safe p"
  shows "windows_argv (startup_command p) = [p, AUTOSTART_ARGUMENT]"
proof -
  have "\<forall>x\<in>set p. x \<noteq> CHR 0x22" using assms by (auto simp: path_text_is_safe_def)
  then have "takeWhile (\<lambda>x. x \<noteq> CHR 0x22) (p @ CHR 0x22 # q) = p"
    and "dropWhile (\<lambda>x. x \<noteq> CHR 0x22) (p @ CHR 0x22 # q) = CHR 0x22 # q" for q
    by (simp_all add: takeWhile_append dropWhile_append)
  then show ?thesis
    by (simp add: startup_command_def AUTOSTART_ARGUMENT_def)
qed

end
