(* ===== verification/Autostart_Journal.thy ===== *)
theory Autostart_Journal
  imports Prelude
begin

text \<open>
  The diagnostic journal of autostart operations,
  \<^verbatim>\<open>application/system/autostart_operation_journal.py\<close>.

  A line of the journal is its document before JSON encoding; its \<^verbatim>\<open>schema_version\<close> is always 1 and is
  left out. The disk holds the journal and the \<^verbatim>\<open>.part\<close> file next to it, and a script of what goes
  wrong with the coming writes: a fault per write, none once the script is used up.
\<close>

section \<open>Contexts and events\<close>

datatype AutostartOperationOrigin =
    SETTINGS_CHECKBOX | TRAY_ACTION | PET_MENU_ACTION | STARTUP_QUERY | STATE_REFRESH | SHUTDOWN | UNKNOWN

datatype AutostartOperationEvent =
    UI_REQUEST_ACCEPTED | UI_REQUEST_REJECTED | COMMAND_SUBMITTED | RUNTIME_COMMAND_ACCEPTED
  | SERVICE_ENABLE_ENTERED | SERVICE_DISABLE_ENTERED | BACKEND_READ_ENTERED | BACKEND_WRITE_ENTERED
  | BACKEND_WRITE_COMPLETED | BACKEND_DELETE_ENTERED | BACKEND_DELETE_COMPLETED | READBACK_COMPLETED
  | COMMAND_COMPLETED | COMMAND_FAILED | SNAPSHOT_PUBLISHED | STALE_RESULT_IGNORED
  | CONTROLLER_CLOSING | APPLICATION_CLOSING

datatype AutostartOperationRuntimeState =
    GUI | RUNTIME_READY | RUNTIME_CLOSING | RUNTIME_THREAD | SERVICE | APPLICATION | UNKNOWN

record AutostartOperationContext =
  oc_operation_id :: string
  oc_command_id :: string
  oc_origin :: AutostartOperationOrigin
  oc_requested_enabled :: "bool option"
  oc_controller_revision :: int

definition default_operation_context :: AutostartOperationContext where
  "default_operation_context =
    \<lparr>oc_operation_id = [], oc_command_id = [], oc_origin = AutostartOperationOrigin.UNKNOWN,
     oc_requested_enabled = None, oc_controller_revision = 0\<rparr>"

record journal_document =
  jd_sequence :: nat
  jd_nonce :: string
  jd_event :: AutostartOperationEvent
  jd_context :: AutostartOperationContext
  jd_runtime_state :: AutostartOperationRuntimeState
  jd_result_code :: string

section \<open>The disk\<close>

text \<open>
  Where a write of the journal can fail: opening the \<^verbatim>\<open>.part\<close> file, after some lines or while flushing,
  or in \<^verbatim>\<open>os.replace\<close>, where removing the \<^verbatim>\<open>.part\<close> file may fail as well.
\<close>

datatype write_fault = NoFault | OpenFault | StreamFault nat | ReplaceFault bool

record journal_disk =
  jf_file :: "journal_document list option"
  jf_part :: "journal_document list option"
  jf_faults :: "write_fault list"

record AutostartOperationJournal =
  jn_nonce :: string
  jn_events :: "journal_document list"
  jn_failed :: bool
  jn_disk :: journal_disk

definition new_journal :: "string \<Rightarrow> journal_disk \<Rightarrow> AutostartOperationJournal" where
  "new_journal nonce disk = \<lparr>jn_nonce = nonce, jn_events = [], jn_failed = False, jn_disk = disk\<rparr>"

definition next_fault :: "journal_disk \<Rightarrow> write_fault \<times> journal_disk" where
  "next_fault d =
    (case jf_faults d of [] \<Rightarrow> (NoFault, d) | f # fs \<Rightarrow> (f, d\<lparr>jf_faults := fs\<rparr>))"

text \<open>\<^verbatim>\<open>open("xb")\<close> fails when the file is there already.\<close>

definition write_all :: "journal_document list \<Rightarrow> journal_disk \<Rightarrow> (unit, journal_disk) sres" where
  "write_all lines disk =
    (let (fault, d) = next_fault disk in
     if fault = OpenFault \<or> jf_part d \<noteq> None then (Inl OSError, d)
     else (case fault of
             StreamFault n \<Rightarrow> (Inl OSError, d\<lparr>jf_part := Some (take n lines)\<rparr>)
           | ReplaceFault kept \<Rightarrow> (Inl OSError, d\<lparr>jf_part := if kept then Some lines else None\<rparr>)
           | _ \<Rightarrow> (Inr (), d\<lparr>jf_file := Some lines, jf_part := None\<rparr>)))"

definition journal_record ::
    "AutostartOperationEvent \<Rightarrow> AutostartOperationContext \<Rightarrow> AutostartOperationRuntimeState \<Rightarrow> string
     \<Rightarrow> AutostartOperationJournal \<Rightarrow> (unit, AutostartOperationJournal) sres" where
  "journal_record event context runtime_state result_code j =
    (if jn_failed j then (Inl AutostartOperationJournalError, j)
     else
       let document = \<lparr>jd_sequence = length (jn_events j) + 1, jd_nonce = jn_nonce j, jd_event = event,
                       jd_context = context, jd_runtime_state = runtime_state,
                       jd_result_code = result_code\<rparr>;
           events = jn_events j @ [document]
       in case write_all events (jn_disk j) of
            (Inr _, d) \<Rightarrow> (Inr (), j\<lparr>jn_events := events, jn_disk := d\<rparr>)
          | (Inl _, d) \<Rightarrow>
              (Inl AutostartOperationJournalError, j\<lparr>jn_failed := True, jn_disk := d\<rparr>))"

section \<open>The timeline\<close>

text \<open>
  The journal on disk is the recorded timeline: numbered from one without gaps, all lines with the
  nonce of the journal. Before the first line the disk holds what it held at the start.
\<close>

definition journal_ok :: "journal_document list option \<Rightarrow> AutostartOperationJournal \<Rightarrow> bool" where
  "journal_ok start j \<longleftrightarrow>
     jf_file (jn_disk j) = (if jn_events j = [] then start else Some (jn_events j))
     \<and> map jd_sequence (jn_events j) = [1..<Suc (length (jn_events j))]
     \<and> (\<forall>d\<in>set (jn_events j). jd_nonce d = jn_nonce j)"

lemma next_fault_file [simp]:
  "jf_file (snd (next_fault d)) = jf_file d" "jf_part (snd (next_fault d)) = jf_part d"
  by (simp_all add: next_fault_def split: list.split)

lemma write_all_file:
  "write_all ls d = (r, d') \<Longrightarrow>
     (r = Inr () \<and> jf_file d' = Some ls \<and> jf_part d' = None) \<or> (r = Inl OSError \<and> jf_file d' = jf_file d)"
  using next_fault_file [of d]
  by (cases "next_fault d") (auto simp: write_all_def split: if_splits write_fault.splits)

lemma journal_record_cases:
  assumes "journal_record ev c rs rc j = (r, j')"
  obtains (recorded) d where "r = Inr ()" "\<not> jn_failed j" "\<not> jn_failed j'" "jn_nonce j' = jn_nonce j"
      "d = \<lparr>jd_sequence = length (jn_events j) + 1, jd_nonce = jn_nonce j, jd_event = ev,
            jd_context = c, jd_runtime_state = rs, jd_result_code = rc\<rparr>"
      "jn_events j' = jn_events j @ [d]" "jf_file (jn_disk j') = Some (jn_events j')"
    | (failed) "r = Inl AutostartOperationJournalError" "jn_failed j'" "jn_nonce j' = jn_nonce j"
      "jn_events j' = jn_events j" "jf_file (jn_disk j') = jf_file (jn_disk j)"
proof (cases "jn_failed j")
  case True
  with assms failed show ?thesis by (simp add: journal_record_def)
next
  case False
  let ?d = "\<lparr>jd_sequence = length (jn_events j) + 1, jd_nonce = jn_nonce j, jd_event = ev,
             jd_context = c, jd_runtime_state = rs, jd_result_code = rc\<rparr>"
  obtain w d' where w: "write_all (jn_events j @ [?d]) (jn_disk j) = (w, d')" by force
  from write_all_file [OF w] show ?thesis
  proof
    assume "w = Inr () \<and> jf_file d' = Some (jn_events j @ [?d]) \<and> jf_part d' = None"
    with w False assms show ?thesis
      by (intro recorded [of ?d]) (auto simp: journal_record_def)
  next
    assume "w = Inl OSError \<and> jf_file d' = jf_file (jn_disk j)"
    with w False assms show ?thesis
      by (intro failed) (auto simp: journal_record_def)
  qed
qed

lemma journal_record_ok [inv_intros]:
  assumes "journal_ok start j" and "journal_record ev c rs rc j = (r, j')"
  shows "journal_ok start j'"
  using assms(2)
proof (cases rule: journal_record_cases)
  case (recorded d)
  with assms(1) show ?thesis by (auto simp: journal_ok_def)
next
  case failed
  with assms(1) show ?thesis by (auto simp: journal_ok_def)
qed

lemma journal_record_failed [simp]:
  "jn_failed j \<Longrightarrow> journal_record ev c rs rc j = (Inl AutostartOperationJournalError, j)"
  by (simp add: journal_record_def)

lemma journal_ok_new: "journal_ok (jf_file d) (new_journal n d)"
  by (simp add: journal_ok_def new_journal_def)

end
