(* ===== verification/Autostart_Service.thy ===== *)
theory Autostart_Service
  imports Autostart_Eligibility Autostart_Journal
begin

text \<open>
  The owner of the startup registration, \<^verbatim>\<open>application/system/autostart_service.py\<close>, and its
  persistence port on the Windows registry, \<^verbatim>\<open>infrastructure/autostart/windows_run_key.py\<close>.

  The service is a state of its own fields, the shared journal and the world behind its backend;
  the world's type is a parameter, and a backend is a record of its three operations. What the
  process sees of itself during one call (the executable, the probes, the file system) is an
  argument of the call. No call raises: every exception of a probe, of the backend and of the journal
  is caught inside.
\<close>

section \<open>Snapshots and results\<close>

datatype AutostartStatus =
    UNAVAILABLE | DISABLED | ENABLED | OCCUPIED | OWNERSHIP_LOST | INVALID_EXECUTABLE | ERROR

record AutostartSnapshot =
  as_status :: AutostartStatus
  as_safe_code :: string
  as_safe_message :: string

fun status_details :: "AutostartStatus \<Rightarrow> string \<times> string" where
  "status_details UNAVAILABLE =
    (''autostart_unavailable'', ''Autostart is unavailable on this platform or runtime.'')"
| "status_details DISABLED =
    (''autostart_disabled'', ''ArkClaw is not registered to start when you sign in.'')"
| "status_details ENABLED =
    (''autostart_enabled'', ''ArkClaw is registered to start when you sign in.'')"
| "status_details OCCUPIED =
    (''autostart_entry_occupied'', ''The ArkClaw startup entry is occupied by another value.'')"
| "status_details OWNERSHIP_LOST =
    (''autostart_ownership_lost'', ''The ArkClaw startup entry changed outside this application.'')"
| "status_details INVALID_EXECUTABLE =
    (''autostart_invalid_executable'',
     ''Autostart is available only from the packaged ArkClaw executable.'')"
| "status_details ERROR =
    (''autostart_backend_error'', ''The autostart setting could not be accessed safely.'')"

definition for_status :: "AutostartStatus \<Rightarrow> AutostartSnapshot" where
  "for_status status =
    \<lparr>as_status = status, as_safe_code = fst (status_details status),
     as_safe_message = snd (status_details status)\<rparr>"

definition snapshot_enabled :: "AutostartSnapshot \<Rightarrow> bool" where
  "snapshot_enabled s \<longleftrightarrow> as_status s = ENABLED"

definition snapshot_toggle_allowed :: "AutostartSnapshot \<Rightarrow> bool" where
  "snapshot_toggle_allowed s \<longleftrightarrow> as_status s \<in> {DISABLED, ENABLED}"

record AutostartStoredValue =
  sv_value_type :: int
  sv_command :: "string option"

definition REGISTRY_STRING_VALUE_TYPE :: int where
  "REGISTRY_STRING_VALUE_TYPE = 1"

record 'w AutostartBackend =
  read_value :: "'w \<Rightarrow> (AutostartStoredValue option, 'w) sres"
  write_value :: "string \<Rightarrow> 'w \<Rightarrow> (unit, 'w) sres"
  delete_value :: "'w \<Rightarrow> (unit, 'w) sres"

record AutostartOperationResult =
  ar_success :: bool
  ar_snapshot :: AutostartSnapshot
  ar_safe_code :: string
  ar_safe_message :: string

definition op_completed :: "AutostartSnapshot \<Rightarrow> AutostartOperationResult" where
  "op_completed snap =
    \<lparr>ar_success = True, ar_snapshot = snap, ar_safe_code = ''none'', ar_safe_message = []\<rparr>"

definition op_failed :: "AutostartSnapshot \<Rightarrow> string \<Rightarrow> string \<Rightarrow> AutostartOperationResult" where
  "op_failed snap code message =
    \<lparr>ar_success = False, ar_snapshot = snap, ar_safe_code = code, ar_safe_message = message\<rparr>"

section \<open>The service\<close>

record 'w AutostartService =
  au_backend :: "'w AutostartBackend option"
  au_platform_supported :: bool
  au_journal :: "AutostartOperationJournal option"
  au_confirmed :: bool
  au_lost :: bool
  au_snapshot :: AutostartSnapshot
  au_world :: 'w

record process_view =
  pv_executable :: "WindowsPath res"
  pv_packaged_probe :: "bool res"
  pv_eligibility_probe :: "(WindowsPath \<Rightarrow> AutostartEligibilityResult res) option"
  pv_fs :: path_fs

definition new_autostart_service ::
    "'w AutostartBackend option \<Rightarrow> bool \<Rightarrow> AutostartOperationJournal option \<Rightarrow> 'w \<Rightarrow> 'w AutostartService" where
  "new_autostart_service backend platform journal world =
    \<lparr>au_backend = backend, au_platform_supported = platform, au_journal = journal,
     au_confirmed = False, au_lost = False, au_snapshot = for_status UNAVAILABLE, au_world = world\<rparr>"

definition set_status :: "AutostartStatus \<Rightarrow> 'w AutostartService \<Rightarrow> 'w AutostartService" where
  "set_status status s = s\<lparr>au_snapshot := for_status status\<rparr>"

definition service_record ::
    "AutostartOperationEvent \<Rightarrow> AutostartOperationContext \<Rightarrow> 'w AutostartService
     \<Rightarrow> bool \<times> 'w AutostartService" where
  "service_record event context s =
    (case au_journal s of
       None \<Rightarrow> (True, s)
     | Some journal \<Rightarrow>
         (case journal_record event context SERVICE ''none'' journal of
            (Inl _, j) \<Rightarrow> (False, set_status ERROR (s\<lparr>au_journal := Some j\<rparr>))
          | (Inr _, j) \<Rightarrow> (True, s\<lparr>au_journal := Some j\<rparr>)))"

definition runtime_eligibility :: "process_view \<Rightarrow> WindowsPath \<Rightarrow> AutostartEligibilityResult res" where
  "runtime_eligibility X executable =
    (case pv_eligibility_probe X of
       None \<Rightarrow>
         ebind (pv_packaged_probe X) (\<lambda>packaged.
         Inr (eligibility (if packaged then SUPPORTED else STANDALONE_MODE_INVALID)))
     | Some probe \<Rightarrow> probe executable)"

definition eligible_command :: "process_view \<Rightarrow> string option" where
  "eligible_command X =
    (case ebind (pv_executable X) (\<lambda>executable.
          ebind (runtime_eligibility X executable) (\<lambda>runtime.
          ebind (fs_resolve (pv_fs X) executable) (\<lambda>resolved.
          let command = startup_command (path_str resolved) in
          ebind (inspect_autostart_executable (pv_fs X) executable runtime (length command)
                   MAX_AUTOSTART_COMMAND_LENGTH) (\<lambda>result.
          Inr (command, result))))) of
       Inl _ \<Rightarrow> None
     | Inr (command, result) \<Rightarrow> if supported result then Some command else None)"

definition expected_command ::
    "process_view \<Rightarrow> 'w AutostartService \<Rightarrow> ('w AutostartBackend \<times> string) option \<times> 'w AutostartService" where
  "expected_command X s =
    (case (au_platform_supported s, au_backend s) of
       (True, Some backend) \<Rightarrow>
         (case eligible_command X of
            None \<Rightarrow> (None, set_status INVALID_EXECUTABLE s)
          | Some command \<Rightarrow> (Some (backend, command), s))
     | _ \<Rightarrow> (None, set_status UNAVAILABLE s))"

datatype read_outcome = BackendFailure | JournalFailure | Stored "AutostartStoredValue option"

definition service_read ::
    "'w AutostartBackend \<Rightarrow> AutostartOperationContext \<Rightarrow> 'w AutostartService
     \<Rightarrow> read_outcome \<times> 'w AutostartService" where
  "service_read backend context s =
    (case service_record BACKEND_READ_ENTERED context s of
       (False, s1) \<Rightarrow> (JournalFailure, s1)
     | (True, s1) \<Rightarrow>
         (case read_value backend (au_world s1) of
            (Inl _, w) \<Rightarrow> (BackendFailure, set_status ERROR (s1\<lparr>au_world := w\<rparr>))
          | (Inr v, w) \<Rightarrow> (Stored v, s1\<lparr>au_world := w\<rparr>)))"

definition own_value :: "string \<Rightarrow> AutostartStoredValue \<Rightarrow> bool" where
  "own_value expected v \<longleftrightarrow>
     sv_value_type v = REGISTRY_STRING_VALUE_TYPE \<and> sv_command v = Some expected"

definition classify ::
    "AutostartStoredValue option \<Rightarrow> string \<Rightarrow> 'w AutostartService \<Rightarrow> AutostartSnapshot \<times> 'w AutostartService" where
  "classify v expected s =
    (let (status, s1) =
       (if au_lost s then (OWNERSHIP_LOST, s)
        else case v of
          None \<Rightarrow> if au_confirmed s then (OWNERSHIP_LOST, s\<lparr>au_lost := True\<rparr>) else (DISABLED, s)
        | Some value \<Rightarrow>
            if own_value expected value then (ENABLED, s\<lparr>au_confirmed := True\<rparr>)
            else if au_confirmed s then (OWNERSHIP_LOST, s\<lparr>au_lost := True\<rparr>)
            else (OCCUPIED, s))
     in (for_status status, set_status status s1))"

definition journal_failure :: "AutostartSnapshot \<Rightarrow> AutostartOperationResult" where
  "journal_failure previous =
    op_failed previous ''autostart_diagnostic_journal_failed''
      ''The autostart diagnostic journal failed safely.''"

definition failed_with :: "AutostartSnapshot \<Rightarrow> AutostartOperationResult" where
  "failed_with snap = op_failed snap (as_safe_code snap) (as_safe_message snap)"

definition report_lost :: "'w AutostartService \<Rightarrow> AutostartOperationResult \<times> 'w AutostartService" where
  "report_lost s = (failed_with (for_status OWNERSHIP_LOST), set_status OWNERSHIP_LOST s)"

text \<open>
  After a write or delete: record it, read the value back and record the readback. \<open>confirm\<close> is what
  the code does to its fields between the first record and the read.
\<close>

definition read_back ::
    "'w AutostartBackend \<Rightarrow> AutostartOperationContext \<Rightarrow> AutostartOperationEvent \<Rightarrow> AutostartSnapshot
     \<Rightarrow> string \<Rightarrow> ('w AutostartService \<Rightarrow> 'w AutostartService)
     \<Rightarrow> (AutostartStoredValue option \<Rightarrow> 'w AutostartService \<Rightarrow> AutostartOperationResult \<times> 'w AutostartService)
     \<Rightarrow> 'w AutostartService \<Rightarrow> AutostartOperationResult \<times> 'w AutostartService" where
  "read_back backend context event previous failure confirm verify s =
    (case service_record event context s of
       (False, s1) \<Rightarrow> (journal_failure previous, s1)
     | (True, s1) \<Rightarrow>
         (case service_read backend context (confirm s1) of
            (JournalFailure, s2) \<Rightarrow> (journal_failure previous, s2)
          | (BackendFailure, s2) \<Rightarrow>
              (op_failed previous failure ''The autostart setting could not be verified safely.'',
               s2\<lparr>au_snapshot := previous\<rparr>)
          | (Stored v, s2) \<Rightarrow>
              (case service_record READBACK_COMPLETED context s2 of
                 (False, s3) \<Rightarrow> (journal_failure previous, s3)
               | (True, s3) \<Rightarrow> verify v s3)))"

definition verify_enabled ::
    "string \<Rightarrow> AutostartStoredValue option \<Rightarrow> 'w AutostartService
     \<Rightarrow> AutostartOperationResult \<times> 'w AutostartService" where
  "verify_enabled expected v s =
    (let (snap, s1) = classify v expected s in
     if as_status snap \<noteq> ENABLED
     then (op_failed snap ''autostart_write_verification_failed''
             ''The autostart setting could not be verified safely.'', s1)
     else (op_completed snap, s1))"

definition enable ::
    "'w AutostartBackend \<Rightarrow> AutostartSnapshot \<Rightarrow> AutostartStoredValue option \<Rightarrow> string
     \<Rightarrow> AutostartOperationContext \<Rightarrow> 'w AutostartService \<Rightarrow> AutostartOperationResult \<times> 'w AutostartService" where
  "enable backend previous v expected context s =
    (if v \<noteq> None
     then let (snap, s1) = classify v expected s in
          if as_status snap = ENABLED then (op_completed snap, s1) else (failed_with snap, s1)
     else
       case service_record BACKEND_WRITE_ENTERED context s of
         (False, s1) \<Rightarrow> (journal_failure previous, s1)
       | (True, s1) \<Rightarrow>
           (case write_value backend expected (au_world s1) of
              (Inl _, w) \<Rightarrow>
                (op_failed previous ''autostart_write_failed''
                   ''The autostart setting could not be enabled safely.'',
                 s1\<lparr>au_world := w, au_snapshot := previous\<rparr>)
            | (Inr _, w) \<Rightarrow>
                read_back backend context BACKEND_WRITE_COMPLETED previous
                  ''autostart_write_verification_failed'' (au_confirmed_update (\<lambda>_. True))
                  (verify_enabled expected) (s1\<lparr>au_world := w\<rparr>)))"

definition verify_disabled ::
    "string \<Rightarrow> AutostartStoredValue option \<Rightarrow> 'w AutostartService
     \<Rightarrow> AutostartOperationResult \<times> 'w AutostartService" where
  "verify_disabled expected v s =
    (if v \<noteq> None then report_lost (s\<lparr>au_lost := True\<rparr>)
     else let (snap, s1) = classify None expected (s\<lparr>au_confirmed := False, au_lost := False\<rparr>)
          in (op_completed snap, s1))"

definition disable ::
    "'w AutostartBackend \<Rightarrow> AutostartSnapshot \<Rightarrow> AutostartStoredValue option \<Rightarrow> string
     \<Rightarrow> AutostartOperationContext \<Rightarrow> 'w AutostartService \<Rightarrow> AutostartOperationResult \<times> 'w AutostartService" where
  "disable backend previous v expected context s =
    (case v of
       None \<Rightarrow>
         let (snap, s1) = classify None expected s in
         if as_status snap = OWNERSHIP_LOST then (failed_with snap, s1) else (op_completed snap, s1)
     | Some value \<Rightarrow>
         if \<not> own_value expected value then report_lost (s\<lparr>au_lost := True\<rparr>)
         else
           case service_record BACKEND_DELETE_ENTERED context s of
             (False, s1) \<Rightarrow> (journal_failure previous, s1)
           | (True, s1) \<Rightarrow>
               (case delete_value backend (au_world s1) of
                  (Inl _, w) \<Rightarrow>
                    (op_failed previous ''autostart_delete_failed''
                       ''The autostart setting could not be disabled safely.'',
                     s1\<lparr>au_world := w, au_snapshot := previous\<rparr>)
                | (Inr _, w) \<Rightarrow>
                    read_back backend context BACKEND_DELETE_COMPLETED previous
                      ''autostart_delete_verification_failed'' id
                      (verify_disabled expected) (s1\<lparr>au_world := w\<rparr>)))"

definition query ::
    "process_view \<Rightarrow> AutostartOperationContext \<Rightarrow> 'w AutostartService \<Rightarrow> AutostartSnapshot \<times> 'w AutostartService" where
  "query X context s =
    (case expected_command X s of
       (None, s1) \<Rightarrow> (au_snapshot s1, s1)
     | (Some (backend, expected), s1) \<Rightarrow>
         (case service_read backend context s1 of
            (Stored v, s2) \<Rightarrow> classify v expected s2
          | (_, s2) \<Rightarrow> (au_snapshot s2, s2)))"

definition set_enabled ::
    "process_view \<Rightarrow> bool \<Rightarrow> AutostartOperationContext \<Rightarrow> 'w AutostartService
     \<Rightarrow> AutostartOperationResult \<times> 'w AutostartService" where
  "set_enabled X enabled context s =
    (let previous = au_snapshot s in
     case service_record (if enabled then SERVICE_ENABLE_ENTERED else SERVICE_DISABLE_ENTERED) context s of
       (False, s1) \<Rightarrow> (journal_failure previous, s1)
     | (True, s1) \<Rightarrow>
         (case expected_command X s1 of
            (None, s2) \<Rightarrow> (failed_with (au_snapshot s2), s2)
          | (Some (backend, expected), s2) \<Rightarrow>
              if au_lost s2 then report_lost s2
              else
                case service_read backend context s2 of
                  (JournalFailure, s3) \<Rightarrow> (journal_failure previous, s3)
                | (BackendFailure, s3) \<Rightarrow>
                    (op_failed previous ''autostart_backend_error''
                       ''The autostart setting could not be accessed safely.'',
                     s3\<lparr>au_snapshot := previous\<rparr>)
                | (Stored v, s3) \<Rightarrow>
                    if enabled then enable backend previous v expected context s3
                    else disable backend previous v expected context s3))"

section \<open>The Run key of the registry\<close>

text \<open>
  The \<^verbatim>\<open>Run\<close> key of the current user may be missing; it holds the value named \<^verbatim>\<open>ArkClaw\<close> or not. A value
  has a type and data, which \<^verbatim>\<open>winreg\<close> delivers as text or as something else. Each access consumes an
  incident: what another program does to the key just before it, and where the access itself fails.
\<close>

datatype registry_data = RegText string | RegOther

type_synonym run_key = "(int \<times> registry_data) option option"

datatype registry_fault = NoFault | KeyFault | ValueFault

record registry_incident =
  ri_meddle :: "run_key option"
  ri_fault :: registry_fault

record registry_world =
  rw_key :: run_key
  rw_script :: "registry_incident list"

definition registry_access :: "registry_world \<Rightarrow> registry_fault \<times> registry_world" where
  "registry_access w =
    (case rw_script w of
       [] \<Rightarrow> (registry_fault.NoFault, w)
     | i # is \<Rightarrow>
         (ri_fault i,
          \<lparr>rw_key = (case ri_meddle i of None \<Rightarrow> rw_key w | Some k \<Rightarrow> k), rw_script = is\<rparr>))"

definition stored_value :: "int \<times> registry_data \<Rightarrow> AutostartStoredValue" where
  "stored_value v =
    \<lparr>sv_value_type = fst v,
     sv_command = (case snd v of RegText text \<Rightarrow> Some text | RegOther \<Rightarrow> None)\<rparr>"

definition run_key_read :: "registry_world \<Rightarrow> (AutostartStoredValue option, registry_world) sres" where
  "run_key_read world =
    (let (fault, w) = registry_access world;
         failure = (Inl (AutostartBackendError ''The autostart registry value could not be read safely.''), w)
     in if fault = KeyFault then failure
        else case rw_key w of
          None \<Rightarrow> (Inr None, w)
        | Some k \<Rightarrow> if fault = ValueFault then failure else (Inr (map_option stored_value k), w))"

definition run_key_write :: "string \<Rightarrow> registry_world \<Rightarrow> (unit, registry_world) sres" where
  "run_key_write command world =
    (let (fault, w) = registry_access world;
         failure = Inl (AutostartBackendError ''The autostart registry value could not be written safely.'')
     in if fault = KeyFault then (failure, w)
        else let created = (case rw_key w of None \<Rightarrow> Some None | Some k \<Rightarrow> Some k) in
          if fault = ValueFault then (failure, w\<lparr>rw_key := created\<rparr>)
          else (Inr (), w\<lparr>rw_key := Some (Some (REGISTRY_STRING_VALUE_TYPE, RegText command))\<rparr>))"

definition run_key_delete :: "registry_world \<Rightarrow> (unit, registry_world) sres" where
  "run_key_delete world =
    (let (fault, w) = registry_access world;
         failure = (Inl (AutostartBackendError ''The autostart registry value could not be deleted safely.''), w)
     in if fault \<noteq> registry_fault.NoFault then failure
        else case rw_key w of
          Some (Some _) \<Rightarrow> (Inr (), w\<lparr>rw_key := Some None\<rparr>)
        | _ \<Rightarrow> failure)"

definition windows_run_key_backend :: "registry_world AutostartBackend" where
  "windows_run_key_backend =
    \<lparr>read_value = run_key_read, write_value = run_key_write, delete_value = run_key_delete\<rparr>"

definition create_production_autostart_service ::
    "bool \<Rightarrow> AutostartOperationJournal option \<Rightarrow> registry_world \<Rightarrow> registry_world AutostartService" where
  "create_production_autostart_service win32 journal world =
    (if \<not> win32 then new_autostart_service None False journal world
     else new_autostart_service (Some windows_run_key_backend) True journal world)"

definition production_view ::
    "bool \<Rightarrow> path_fs \<Rightarrow> NuitkaMarker option \<Rightarrow> WindowsPath \<Rightarrow> process_view" where
  "production_view win32 fs compiled executable =
    \<lparr>pv_executable = Inr executable, pv_packaged_probe = Inr False,
     pv_eligibility_probe =
       (if win32 then Some (diagnose_production_autostart_eligibility fs compiled) else None),
     pv_fs = fs\<rparr>"

end
