(* ===== verification/Autostart_Ownership.thy ===== *)
theory Autostart_Ownership
  imports Autostart_Service
begin

text \<open>
  What the autostart service does to the startup registration. For any backend at all, the calls it
  makes are guarded by what it has just read; for a backend that keeps the contract of its port, the
  registration follows the abstract toggle. The contract is the locale \<open>autostart_backend\<close>,
  interpreted on the Run key of the registry.
\<close>

section \<open>The parts of an operation\<close>

definition same_service :: "'w AutostartService \<Rightarrow> 'w AutostartService \<Rightarrow> bool" where
  "same_service s t \<longleftrightarrow>
     au_backend t = au_backend s \<and> au_platform_supported t = au_platform_supported s
     \<and> au_confirmed t = au_confirmed s \<and> au_lost t = au_lost s"

lemma same_service_refl [simp]: "same_service s s"
  by (simp add: same_service_def)

lemma set_status_fields [simp]:
  "au_backend (set_status x s) = au_backend s" "au_lost (set_status x s) = au_lost s"
  "au_platform_supported (set_status x s) = au_platform_supported s"
  "au_confirmed (set_status x s) = au_confirmed s" "au_world (set_status x s) = au_world s"
  "au_journal (set_status x s) = au_journal s" "au_snapshot (set_status x s) = for_status x"
  by (simp_all add: set_status_def)

lemma for_status_status [simp]: "as_status (for_status x) = x"
  by (simp add: for_status_def)

lemma op_success [simp]:
  "ar_success (op_completed p)" "\<not> ar_success (op_failed p c m)" "\<not> ar_success (failed_with p)"
  "\<not> ar_success (journal_failure p)" "ar_snapshot (op_completed p) = p"
  by (simp_all add: op_completed_def op_failed_def failed_with_def journal_failure_def)

lemma service_record_frame:
  assumes "service_record ev c s = (b, s')"
  shows "same_service s s'" "au_world s' = au_world s"
  using assms
  by (auto simp: service_record_def same_service_def
      split: option.splits prod.splits sum.splits)

lemma service_record_silent [simp]: "au_journal s = None \<Longrightarrow> service_record ev c s = (True, s)"
  by (simp add: service_record_def)

lemma expected_command_frame:
  assumes "expected_command X s = (r, s')"
  shows "same_service s s'" "au_world s' = au_world s" "au_journal s' = au_journal s"
  using assms by (auto simp: expected_command_def same_service_def split: option.splits bool.splits)

lemma expected_command_Some:
  "expected_command X s = (Some (b, e), s') \<longleftrightarrow>
     au_platform_supported s \<and> au_backend s = Some b \<and> eligible_command X = Some e \<and> s' = s"
  by (auto simp: expected_command_def split: option.splits bool.splits)

lemma service_read_frame:
  assumes "service_read B c s = (r, s')"
  shows "same_service s s'"
  using assms service_record_frame [of BACKEND_READ_ENTERED c s]
  by (auto simp: service_read_def same_service_def split: prod.splits sum.splits bool.splits)

lemma service_read_cases:
  assumes "service_read B c s = (r, s')"
  obtains (unread) "r = JournalFailure" "au_world s' = au_world s"
    | (failed) e w where "r = BackendFailure" "read_value B (au_world s) = (Inl e, w)" "au_world s' = w"
    | (read) v w where "r = Stored v" "read_value B (au_world s) = (Inr v, w)" "au_world s' = w"
proof -
  obtain b s1 where rec: "service_record BACKEND_READ_ENTERED c s = (b, s1)" by force
  note same = service_record_frame [OF rec]
  show ?thesis
  proof (cases b)
    case False
    with rec assms same unread show ?thesis by (simp add: service_read_def)
  next
    case True
    obtain x w where x: "read_value B (au_world s1) = (x, w)" by force
    show ?thesis
    proof (cases x)
      case (Inl e)
      with rec assms same x True show ?thesis by (intro failed) (auto simp: service_read_def)
    next
      case (Inr v)
      with rec assms same x True show ?thesis by (intro read) (auto simp: service_read_def)
    qed
  qed
qed

lemma classify_frame:
  assumes "classify v e s = (snap, s')"
  shows "au_world s' = au_world s" "au_backend s' = au_backend s"
    "au_platform_supported s' = au_platform_supported s" "au_lost s \<longrightarrow> au_lost s'"
    "au_snapshot s' = snap" "au_journal s' = au_journal s"
  using assms by (auto simp: classify_def Let_def split: if_splits option.splits)

lemma classify_enabled:
  "classify v e s = (snap, s') \<Longrightarrow>
     as_status snap = ENABLED \<longleftrightarrow> \<not> au_lost s \<and> (\<exists>x. v = Some x \<and> own_value e x)"
  by (auto simp: classify_def Let_def split: if_splits option.splits)

lemma classify_for_status: "classify v e s = (snap, s') \<Longrightarrow> snap = for_status (as_status snap)"
  by (auto simp: classify_def Let_def split: if_splits option.splits)

section \<open>Guarded calls\<close>

text \<open>A backend that also keeps a log of the calls made on it.\<close>

datatype backend_call =
    ReadCall "AutostartStoredValue option res" | WriteCall string "unit res" | DeleteCall "unit res"

definition log_call :: "('r \<Rightarrow> backend_call) \<Rightarrow> ('w \<Rightarrow> ('r, 'w) prod) \<Rightarrow> 'w \<times> backend_call list
    \<Rightarrow> 'r \<times> ('w \<times> backend_call list)" where
  "log_call entry f wl = (let (r, w) = f (fst wl) in (r, (w, snd wl @ [entry r])))"

definition logged :: "'w AutostartBackend \<Rightarrow> ('w \<times> backend_call list) AutostartBackend" where
  "logged B =
    \<lparr>read_value = log_call ReadCall (read_value B),
     write_value = (\<lambda>c. log_call (WriteCall c) (write_value B c)),
     delete_value = log_call DeleteCall (delete_value B)\<rparr>"

text \<open>
  A write of an expected command directly after a read that found nothing, a deletion directly
  after a read that found an expected command.
\<close>

fun call_permitted :: "(string \<Rightarrow> bool) \<Rightarrow> backend_call option \<Rightarrow> backend_call \<Rightarrow> bool" where
  "call_permitted E prev (ReadCall _) \<longleftrightarrow> True"
| "call_permitted E prev (WriteCall c _) \<longleftrightarrow> E c \<and> prev = Some (ReadCall (Inr None))"
| "call_permitted E prev (DeleteCall _) \<longleftrightarrow>
     (case prev of
        Some (ReadCall (Inr (Some v))) \<Rightarrow>
          sv_value_type v = REGISTRY_STRING_VALUE_TYPE
          \<and> (case sv_command v of None \<Rightarrow> False | Some c \<Rightarrow> E c)
      | _ \<Rightarrow> False)"

fun guarded :: "(string \<Rightarrow> bool) \<Rightarrow> backend_call option \<Rightarrow> backend_call list \<Rightarrow> bool" where
  "guarded E prev [] \<longleftrightarrow> True"
| "guarded E prev (c # cs) \<longleftrightarrow> call_permitted E prev c \<and> guarded E (Some c) cs"

fun is_read :: "backend_call \<Rightarrow> bool" where
  "is_read (ReadCall _) = True"
| "is_read _ = False"

definition calls :: "('w \<times> backend_call list) AutostartService \<Rightarrow> backend_call list" where
  "calls s = snd (au_world s)"

lemma guarded_append:
  "guarded E p (xs @ ys) \<longleftrightarrow> guarded E p xs \<and> guarded E (if xs = [] then p else Some (last xs)) ys"
  by (induction xs arbitrary: p) auto

lemma call_permitted_mono: "(\<And>c. E c \<Longrightarrow> E' c) \<Longrightarrow> call_permitted E p x \<Longrightarrow> call_permitted E' p x"
  by (cases x) (auto split: option.splits backend_call.splits sum.splits)

lemma guarded_mono: "(\<And>c. E c \<Longrightarrow> E' c) \<Longrightarrow> guarded E p xs \<Longrightarrow> guarded E' p xs"
  by (induction xs arbitrary: p) (auto intro: call_permitted_mono)

lemma guarded_reads: "list_all is_read xs \<Longrightarrow> guarded E p xs"
proof (induction xs arbitrary: p)
  case (Cons x xs)
  then show ?case by (cases x) auto
qed simp

lemma logged_ops:
  "read_value (logged B) wl = (r, wl') \<longleftrightarrow>
     (\<exists>w. read_value B (fst wl) = (r, w) \<and> wl' = (w, snd wl @ [ReadCall r]))"
  "write_value (logged B) c wl = (u, wl') \<longleftrightarrow>
     (\<exists>w. write_value B c (fst wl) = (u, w) \<and> wl' = (w, snd wl @ [WriteCall c u]))"
  "delete_value (logged B) wl = (u, wl') \<longleftrightarrow>
     (\<exists>w. delete_value B (fst wl) = (u, w) \<and> wl' = (w, snd wl @ [DeleteCall u]))"
  by (auto simp: logged_def log_call_def Let_def split: prod.splits)

lemma service_read_calls:
  assumes "service_read (logged B) c s = (r, s')"
  shows "r = Stored v \<Longrightarrow> calls s' = calls s @ [ReadCall (Inr v)]"
    and "\<exists>rs. calls s' = calls s @ rs \<and> list_all is_read rs"
  using assms
  by (cases rule: service_read_cases; force simp: calls_def logged_ops)+

lemma read_back_calls:
  assumes r: "read_back (logged B) c ev p f g vf s = (res, s')"
    and g: "\<And>s. au_world (g s) = au_world s"
    and vf: "\<And>v s. au_world (snd (vf v s)) = au_world s"
  shows "\<exists>rs. calls s' = calls s @ rs \<and> list_all is_read rs"
proof -
  obtain b s1 where rec: "service_record ev c s = (b, s1)" by force
  show ?thesis
  proof (cases b)
    case False
    with rec r show ?thesis
      using service_record_frame [OF rec] by (auto simp: read_back_def calls_def)
  next
    case True
    obtain x s2 where x: "service_read (logged B) c (g s1) = (x, s2)" by force
    obtain rs where rs: "calls s2 = calls s @ rs" "list_all is_read rs"
      using service_read_calls(2) [OF x] service_record_frame [OF rec] g by (auto simp: calls_def)
    have "au_world s' = au_world s2"
    proof (cases x)
      case (Stored v)
      obtain b3 s3 where rec3: "service_record READBACK_COMPLETED c s2 = (b3, s3)" by force
      show ?thesis
        using r rec True x Stored rec3 service_record_frame [OF rec3] vf [of v s3]
        by (cases b3) (auto simp: read_back_def)
    qed (use r rec True x in \<open>auto simp: read_back_def\<close>)
    with rs show ?thesis by (simp add: calls_def)
  qed
qed

lemma report_lost_world [simp]: "au_world (snd (report_lost s)) = au_world s"
  by (simp add: report_lost_def)

lemma verify_world [simp]:
  "au_world (snd (verify_enabled e v s)) = au_world s"
  "au_world (snd (verify_disabled e v s)) = au_world s"
  using classify_frame(1) [of v e s]
    classify_frame(1) [of None e "s\<lparr>au_confirmed := False, au_lost := False\<rparr>"]
  by (auto simp: verify_enabled_def verify_disabled_def Let_def split: prod.splits)

lemma enable_calls:
  assumes "enable (logged B) p v e c s = (res, s')"
  shows "\<exists>cs. calls s' = calls s @ cs
         \<and> (\<forall>E. E e \<longrightarrow> guarded E (Some (ReadCall (Inr v))) cs)"
proof (cases v)
  case (Some x)
  then have "au_world s' = au_world s"
    using assms classify_frame(1) [of v e s]
    by (auto simp: enable_def Let_def split: prod.splits if_splits)
  then show ?thesis by (simp add: calls_def)
next
  case None
  obtain b s1 where rec: "service_record BACKEND_WRITE_ENTERED c s = (b, s1)" by force
  note w1 = service_record_frame(2) [OF rec]
  obtain u w where u: "write_value (logged B) e (au_world s1) = (u, w)" by (metis surj_pair)
  have cw: "snd w = calls s @ [WriteCall e u]" using u w1 by (auto simp: logged_ops calls_def)
  consider "\<not> b" | "b" "\<exists>x. u = Inl x" | "b" "u = Inr ()" by (cases u) auto
  then show ?thesis
  proof cases
    case 1
    with assms rec w1 None show ?thesis by (simp add: enable_def calls_def)
  next
    case 2
    with assms rec None u have "au_world s' = w" by (auto simp: enable_def)
    with cw None show ?thesis by (simp add: calls_def)
  next
    case 3
    with assms rec None u have
      rb: "read_back (logged B) c BACKEND_WRITE_COMPLETED p ''autostart_write_verification_failed''
         (au_confirmed_update (\<lambda>_. True)) (verify_enabled e) (s1\<lparr>au_world := w\<rparr>) = (res, s')"
      by (simp add: enable_def)
    obtain rs where "calls s' = calls (s1\<lparr>au_world := w\<rparr>) @ rs" "list_all is_read rs"
      using read_back_calls [OF rb] by auto
    with cw None show ?thesis
      by (intro exI [of _ "WriteCall e u # rs"]) (simp add: calls_def guarded_reads)
  qed
qed

lemma disable_calls:
  assumes "disable (logged B) p v e c s = (res, s')"
  shows "\<exists>cs. calls s' = calls s @ cs
         \<and> (\<forall>E. E e \<longrightarrow> guarded E (Some (ReadCall (Inr v))) cs)"
proof (cases "\<exists>x. v = Some x \<and> own_value e x")
  case False
  then have "au_world s' = au_world s"
    using assms classify_frame(1) [of v e s]
    by (auto simp: disable_def Let_def report_lost_def split: prod.splits if_splits option.splits)
  then show ?thesis by (simp add: calls_def)
next
  case True
  then obtain x where x: "v = Some x" "own_value e x" by blast
  obtain b s1 where rec: "service_record BACKEND_DELETE_ENTERED c s = (b, s1)" by force
  note w1 = service_record_frame(2) [OF rec]
  obtain u w where u: "delete_value (logged B) (au_world s1) = (u, w)" by (metis surj_pair)
  have cw: "snd w = calls s @ [DeleteCall u]" using u w1 by (auto simp: logged_ops calls_def)
  consider "\<not> b" | "b" "\<exists>y. u = Inl y" | "b" "u = Inr ()" by (cases u) auto
  then show ?thesis
  proof cases
    case 1
    with assms rec w1 x show ?thesis by (simp add: disable_def calls_def)
  next
    case 2
    with assms rec x u have "au_world s' = w" by (auto simp: disable_def)
    with cw x show ?thesis by (simp add: calls_def own_value_def)
  next
    case 3
    with assms rec x u have
      rb: "read_back (logged B) c BACKEND_DELETE_COMPLETED p ''autostart_delete_verification_failed''
         id (verify_disabled e) (s1\<lparr>au_world := w\<rparr>) = (res, s')"
      by (simp add: disable_def)
    obtain rs where "calls s' = calls (s1\<lparr>au_world := w\<rparr>) @ rs" "list_all is_read rs"
      using read_back_calls [OF rb] by auto
    with cw x show ?thesis
      by (intro exI [of _ "DeleteCall u # rs"]) (simp add: calls_def guarded_reads own_value_def)
  qed
qed

text \<open>Where an operation of the service can end, and with which read it got there.\<close>

lemma set_enabled_cases:
  assumes "set_enabled X b c s = (res, s')"
  obtains (refused) "\<not> ar_success res" "au_world s' = au_world s" "same_service s s'"
    | (unread) B e r s2 s3 where "au_backend s = Some B" "eligible_command X = Some e"
        "\<not> au_lost s" "same_service s s2" "au_world s2 = au_world s" "service_read B c s2 = (r, s3)"
        "\<forall>v. r \<noteq> Stored v" "au_world s' = au_world s3" "same_service s s'" "\<not> ar_success res"
    | (applied) B e v s2 s3 where "au_backend s = Some B" "eligible_command X = Some e"
        "\<not> au_lost s" "same_service s s2" "au_world s2 = au_world s" "service_read B c s2 = (Stored v, s3)"
        "(if b then enable B (au_snapshot s) v e c s3 else disable B (au_snapshot s) v e c s3) = (res, s')"
proof -
  obtain ok s1 where rec:
    "service_record (if b then SERVICE_ENABLE_ENTERED else SERVICE_DISABLE_ENTERED) c s = (ok, s1)"
    by force
  note f1 = service_record_frame [OF rec]
  obtain ec s2 where ec: "expected_command X s1 = (ec, s2)" by force
  note f2 = expected_command_frame [OF ec]
  have same: "same_service s s2" "au_world s2 = au_world s"
    using f1 f2 by (auto simp: same_service_def)
  consider "\<not> ok" | "ok" "ec = None" | B e where "ok" "ec = Some (B, e)" by (cases ec) auto
  then show ?thesis
  proof cases
    case 1
    with assms rec f1 show ?thesis by (intro refused) (auto simp: set_enabled_def)
  next
    case 2
    with assms rec ec same show ?thesis by (intro refused) (auto simp: set_enabled_def)
  next
    case 3
    with ec have Be: "au_backend s = Some B" "eligible_command X = Some e" "s2 = s1"
      using f1 by (auto simp: expected_command_Some same_service_def)
    show ?thesis
    proof (cases "au_lost s2")
      case True
      with assms rec ec 3 same show ?thesis
        by (intro refused) (auto simp: set_enabled_def report_lost_def same_service_def)
    next
      case False
      obtain r s3 where rd: "service_read B c s2 = (r, s3)" by force
      note f3 = service_read_frame [OF rd]
      have lost: "\<not> au_lost s" using False same by (simp add: same_service_def)
      show ?thesis
      proof (cases "\<exists>v. r = Stored v")
        case True
        then obtain v where "r = Stored v" by blast
        with assms rec ec 3 False rd show ?thesis
          by (intro applied [OF Be(1,2) lost same, of v s3]) (simp_all add: set_enabled_def Let_def)
      next
        case nr: False
        have "same_service s s3" using f3 same by (auto simp: same_service_def)
        with nr assms rec ec 3 False rd show ?thesis
          by (intro unread [OF Be(1,2) lost same rd]; cases r)
            (auto simp: set_enabled_def same_service_def Let_def)
      qed
    qed
  qed
qed

lemma set_enabled_calls:
  assumes "set_enabled X b c s = (res, s')" and "au_backend s = Some (logged B)"
  shows "\<exists>cs. calls s' = calls s @ cs
         \<and> (\<forall>E p. (\<forall>e. eligible_command X = Some e \<longrightarrow> E e) \<longrightarrow> guarded E p cs)"
  using assms(1)
proof (cases rule: set_enabled_cases)
  case refused
  then show ?thesis by (simp add: calls_def)
next
  case (unread B' e r s2 s3)
  with assms(2) obtain rs where "calls s3 = calls s2 @ rs" "list_all is_read rs"
    using service_read_calls(2) [of B c s2 r s3] by auto
  with unread show ?thesis by (auto simp: calls_def guarded_reads)
next
  case (applied B' e v s2 s3)
  have rd: "calls s3 = calls s @ [ReadCall (Inr v)]"
    using applied assms(2) service_read_calls(1) [of B c s2 "Stored v" s3 v] by (simp add: calls_def)
  obtain cs where cs: "calls s' = calls s3 @ cs"
      "\<And>E. E e \<Longrightarrow> guarded E (Some (ReadCall (Inr v))) cs"
    using applied(1,7) assms(2) enable_calls [of B _ v e c s3 res s'] disable_calls [of B _ v e c s3 res s']
    by (cases b) auto
  show ?thesis
    using rd cs applied(2) by (intro exI [of _ "ReadCall (Inr v) # cs"]) auto
qed

lemma query_calls:
  assumes "query X c s = (res, s')" and "au_backend s = Some (logged B)"
  shows "\<exists>rs. calls s' = calls s @ rs \<and> list_all is_read rs"
proof -
  obtain ec s1 where ec: "expected_command X s = (ec, s1)" by force
  note f1 = expected_command_frame [OF ec]
  show ?thesis
  proof (cases ec)
    case None
    with assms ec f1 show ?thesis by (simp add: query_def calls_def)
  next
    case (Some Be)
    then obtain e where e: "ec = Some (logged B, e)" using ec assms(2)
      by (cases Be) (auto simp: expected_command_Some)
    obtain r s2 where rd: "service_read (logged B) c s1 = (r, s2)" by force
    have "au_world s' = au_world s2"
      using assms(1) ec e rd classify_frame(1) [of _ e s2]
      by (cases r) (auto simp: query_def)
    with service_read_calls(2) [OF rd] f1 show ?thesis by (auto simp: calls_def)
  qed
qed

section \<open>Runs of the service\<close>

definition same_config :: "'w AutostartService \<Rightarrow> 'w AutostartService \<Rightarrow> bool" where
  "same_config s t \<longleftrightarrow>
     au_backend t = au_backend s \<and> au_platform_supported t = au_platform_supported s"

lemma same_service_config: "same_service s t \<Longrightarrow> same_config s t"
  by (simp add: same_service_def same_config_def)

lemma same_config_trans: "same_config s t \<Longrightarrow> same_config t u \<Longrightarrow> same_config s u"
  by (simp add: same_config_def)

lemma classify_config: "same_config s (snd (classify v e s))"
  unfolding same_config_def using classify_frame(2,3) [OF prod.collapse [symmetric]] by blast

lemma verify_config:
  "same_config s (snd (verify_enabled e v s))" "same_config s (snd (verify_disabled e v s))"
  using classify_config [of s v e]
    classify_config [of "s\<lparr>au_confirmed := False, au_lost := False\<rparr>" None e]
  by (auto simp: verify_enabled_def verify_disabled_def report_lost_def Let_def same_config_def
      split: prod.splits)

lemma read_back_config:
  assumes g: "\<And>s. same_config s (g s)" and vf: "\<And>v s. same_config s (snd (vf v s))"
  shows "same_config s (snd (read_back B c ev p f g vf s))"
proof -
  obtain b s1 where rec: "service_record ev c s = (b, s1)" by force
  obtain x s2 where x: "service_read B c (g s1) = (x, s2)" by force
  obtain b3 s3 where rec3: "service_record READBACK_COMPLETED c s2 = (b3, s3)" by force
  have s1: "same_config s s1" using service_record_frame(1) [OF rec] by (rule same_service_config)
  have s2: "same_config s s2"
    using s1 g [of s1] service_read_frame [OF x, THEN same_service_config]
    by (meson same_config_trans)
  have s3: "same_config s s3"
    using s2 service_record_frame(1) [OF rec3, THEN same_service_config] by (rule same_config_trans)
  have "same_config s (snd (vf v s3))" for v using s3 vf by (rule same_config_trans)
  with s1 s2 s3 rec x rec3 show ?thesis
    by (cases b; cases x; cases b3) (simp_all add: read_back_def same_config_def)
qed

lemma enable_config: "same_config s (snd (enable B p v e c s))"
proof -
  obtain b s1 where rec: "service_record BACKEND_WRITE_ENTERED c s = (b, s1)" by force
  have s1: "same_config s s1" using service_record_frame(1) [OF rec] by (rule same_service_config)
  have "same_config (s1\<lparr>au_world := w\<rparr>)
          (snd (read_back B c ev q f (au_confirmed_update (\<lambda>_. True)) (verify_enabled e) (s1\<lparr>au_world := w\<rparr>)))"
    for w ev q f
    by (rule read_back_config) (simp_all add: verify_config, simp add: same_config_def)
  with s1 rec classify_config [of s v e] show ?thesis
    by (auto simp: enable_def same_config_def Let_def split: bool.split prod.split sum.split)
qed

lemma disable_config: "same_config s (snd (disable B p v e c s))"
proof -
  obtain b s1 where rec: "service_record BACKEND_DELETE_ENTERED c s = (b, s1)" by force
  have s1: "same_config s s1" using service_record_frame(1) [OF rec] by (rule same_service_config)
  have "same_config (s1\<lparr>au_world := w\<rparr>)
          (snd (read_back B c ev q f id (verify_disabled e) (s1\<lparr>au_world := w\<rparr>)))"
    for w ev q f
    by (rule read_back_config) (simp_all add: verify_config, simp add: same_config_def)
  with s1 rec classify_config [of s None e] show ?thesis
    by (auto simp: disable_def same_config_def Let_def report_lost_def
        split: bool.split prod.split sum.split option.split)
qed

lemma set_enabled_config: "same_config s (snd (set_enabled X b c s))"
proof -
  obtain res s' where se: "set_enabled X b c s = (res, s')" by force
  then show ?thesis
  proof (cases rule: set_enabled_cases)
    case (applied B e v s2 s3)
    have "same_config s s3"
      using applied(4) service_read_frame [OF applied(6)]
      by (meson same_service_config same_config_trans)
    moreover have "same_config s3 s'"
      using applied(7) enable_config [of s3 B "au_snapshot s" v e c]
        disable_config [of s3 B "au_snapshot s" v e c]
      by (cases b) auto
    ultimately show ?thesis using se by (simp add: same_config_trans)
  qed (use se in \<open>simp_all add: same_service_config\<close>)
qed

lemma query_config: "same_config s (snd (query X c s))"
proof -
  obtain ec s1 where ec: "expected_command X s = (ec, s1)" by force
  have s1: "same_config s s1" using expected_command_frame(1) [OF ec] by (rule same_service_config)
  have rd: "same_config s s2" if "service_read B c s1 = (r, s2)" for B r s2
    using s1 service_read_frame [OF that, THEN same_service_config] by (rule same_config_trans)
  show ?thesis
  proof (cases ec)
    case None
    with ec s1 show ?thesis by (simp add: query_def)
  next
    case (Some Be)
    obtain r s2 where r: "service_read (fst Be) c s1 = (r, s2)" by force
    have "same_config s (snd (classify v (snd Be) s2))" for v
      using rd [OF r] classify_config by (rule same_config_trans)
    with rd [OF r] r ec Some show ?thesis
      by (cases Be; cases r) (simp_all add: query_def)
  qed
qed

datatype autostart_op = Query | SetEnabled bool

definition service_step ::
    "process_view \<times> AutostartOperationContext \<times> autostart_op \<Rightarrow> 'w AutostartService \<Rightarrow> 'w AutostartService" where
  "service_step op s =
    (case op of
       (X, c, Query) \<Rightarrow> snd (query X c s)
     | (X, c, SetEnabled b) \<Rightarrow> snd (set_enabled X b c s))"

definition autostart_run ::
    "(process_view \<times> AutostartOperationContext \<times> autostart_op) list \<Rightarrow> 'w AutostartService \<Rightarrow> 'w AutostartService" where
  "autostart_run ops s = fold service_step ops s"

text \<open>The commands the process was entitled to register during the run.\<close>

definition entitled :: "(process_view \<times> AutostartOperationContext \<times> autostart_op) list \<Rightarrow> string \<Rightarrow> bool" where
  "entitled ops e \<longleftrightarrow> list_ex (\<lambda>op. eligible_command (fst op) = Some e) ops"

lemma service_step_config: "same_config s (service_step op s)"
  using set_enabled_config query_config by (auto simp: service_step_def split: prod.split autostart_op.split)

lemma service_step_calls:
  assumes "au_backend s = Some (logged B)"
  shows "\<exists>cs. calls (service_step op s) = calls s @ cs
         \<and> (\<forall>E p. (\<forall>e. eligible_command (fst op) = Some e \<longrightarrow> E e) \<longrightarrow> guarded E p cs)"
proof -
  obtain X c o1 where op: "op = (X, c, o1)" by (cases op)
  show ?thesis
  proof (cases o1)
    case Query
    obtain r s' where "query X c s = (r, s')" by force
    with query_calls [OF this assms] Query op show ?thesis
      by (auto simp: service_step_def intro: guarded_reads)
  next
    case (SetEnabled b)
    obtain r s' where "set_enabled X b c s = (r, s')" by force
    with set_enabled_calls [OF this assms] SetEnabled op show ?thesis
      by (simp add: service_step_def)
  qed
qed

lemma autostart_run_calls:
  assumes "au_backend s = Some (logged B)" and "\<forall>op\<in>set ops. \<forall>e. eligible_command (fst op) = Some e \<longrightarrow> E e"
    and "guarded E None (calls s)"
  shows "guarded E None (calls (autostart_run ops s))"
  using assms
proof (induction ops arbitrary: s)
  case (Cons op ops)
  obtain cs where cs: "calls (service_step op s) = calls s @ cs"
      "\<And>E p. (\<forall>e. eligible_command (fst op) = Some e \<longrightarrow> E e) \<Longrightarrow> guarded E p cs"
    using service_step_calls [OF Cons.prems(1)] by blast
  have "guarded E None (calls (service_step op s))"
    using cs Cons.prems by (simp add: guarded_append)
  moreover have "au_backend (service_step op s) = Some (logged B)"
    using service_step_config [of s op] Cons.prems(1) by (simp add: same_config_def)
  ultimately show ?case using Cons by (simp add: autostart_run_def)
qed (simp add: autostart_run_def)

section \<open>Lost ownership\<close>

lemma set_enabled_lost:
  assumes "au_lost s"
  shows "au_lost (snd (set_enabled X b c s)) \<and> au_world (snd (set_enabled X b c s)) = au_world s"
proof -
  obtain res s' where se: "set_enabled X b c s = (res, s')" by force
  then show ?thesis
    by (cases rule: set_enabled_cases) (use se assms in \<open>simp_all add: same_service_def\<close>)
qed

lemma query_lost:
  assumes "au_lost s"
  shows "au_lost (snd (query X c s))"
proof -
  obtain ec s1 where ec: "expected_command X s = (ec, s1)" by force
  have s1: "au_lost s1" using assms expected_command_frame(1) [OF ec] by (simp add: same_service_def)
  have rd: "au_lost s2" if "service_read B c s1 = (r, s2)" for B r s2
    using s1 service_read_frame [OF that] by (simp add: same_service_def)
  show ?thesis
  proof (cases ec)
    case None
    with ec s1 show ?thesis by (simp add: query_def)
  next
    case (Some Be)
    obtain r s2 where r: "service_read (fst Be) c s1 = (r, s2)" by force
    show ?thesis
      using r rd [OF r] ec Some classify_frame(4) [of _ "snd Be" s2]
      by (cases Be; cases r) (auto simp: query_def split: prod.split, metis prod.collapse)
  qed
qed

lemma autostart_run_lost:
  assumes "au_lost s" and "au_backend s = Some (logged B)"
  shows "au_lost (autostart_run ops s) \<and> (\<exists>rs. calls (autostart_run ops s) = calls s @ rs \<and> list_all is_read rs)"
  using assms
proof (induction ops arbitrary: s)
  case (Cons op ops)
  obtain X c o1 where op: "op = (X, c, o1)" by (cases op)
  let ?s = "service_step op s"
  have l: "au_lost ?s"
    using set_enabled_lost [OF Cons.prems(1)] query_lost [OF Cons.prems(1)]
    by (cases o1) (simp_all add: service_step_def op)
  have b: "au_backend ?s = Some (logged B)"
    using service_step_config [of s op] Cons.prems(2) by (simp add: same_config_def)
  have "\<exists>rs. calls ?s = calls s @ rs \<and> list_all is_read rs"
  proof (cases o1)
    case Query
    obtain r s' where "query X c s = (r, s')" by force
    with query_calls [OF this Cons.prems(2)] Query op show ?thesis by (simp add: service_step_def)
  next
    case (SetEnabled b)
    with set_enabled_lost [OF Cons.prems(1), of X b c] op show ?thesis
      by (simp add: service_step_def calls_def)
  qed
  moreover have "autostart_run (op # ops) s = autostart_run ops ?s" by (simp add: autostart_run_def)
  ultimately show ?case using Cons.IH [OF l b] by auto
qed (simp add: autostart_run_def)

end
