(* ===== verification/Autostart_Registry.thy ===== *)
theory Autostart_Registry
  imports Autostart_Ownership
begin

text \<open>
  The contract between the autostart service and its persistence port. \<open>autostart_backend\<close> says what the
  three operations do to the registered value while nobody else touches it; its client lemmas show
  that the service implements the abstract toggle \<open>toggled\<close>. \<open>reliable_backend\<close> adds that the
  operations succeed. The Run key of the registry is an instance of both.
\<close>

section \<open>The abstract toggle\<close>

definition own :: "string \<Rightarrow> AutostartStoredValue" where
  "own e = \<lparr>sv_value_type = REGISTRY_STRING_VALUE_TYPE, sv_command = Some e\<rparr>"

lemma own_value_iff: "own_value e v \<longleftrightarrow> v = own e"
  by (cases v) (simp add: own_value_def own_def)

text \<open>The registration may only go from nothing to the own command and back.\<close>

definition toggled :: "string \<Rightarrow> bool \<Rightarrow> AutostartStoredValue option \<Rightarrow> AutostartStoredValue option \<Rightarrow> bool" where
  "toggled e enabled old new \<longleftrightarrow>
     (if enabled then old = None \<and> new = Some (own e) else old = Some (own e) \<and> new = None)"

definition wanted :: "string \<Rightarrow> bool \<Rightarrow> AutostartStoredValue option" where
  "wanted e enabled = (if enabled then Some (own e) else None)"

text \<open>What one toggle leaves behind, in terms of the registered value \<open>R\<close>.\<close>

definition toggle_outcome ::
    "('w \<Rightarrow> AutostartStoredValue option) \<Rightarrow> ('w \<Rightarrow> bool) \<Rightarrow> string \<Rightarrow> bool \<Rightarrow> 'w \<Rightarrow>
     AutostartOperationResult \<Rightarrow> 'w \<Rightarrow> bool" where
  "toggle_outcome R U e enabled w res w' \<longleftrightarrow>
     U w' \<and> (R w' = R w \<or> toggled e enabled (R w) (R w'))
     \<and> (ar_success res \<longrightarrow>
          R w' = wanted e enabled \<and> ar_snapshot res = for_status (if enabled then ENABLED else DISABLED))"

locale autostart_backend =
  fixes B :: "'w AutostartBackend"
    and registered :: "'w \<Rightarrow> AutostartStoredValue option"
    and undisturbed :: "'w \<Rightarrow> bool"
  assumes read_law: "undisturbed w \<Longrightarrow> read_value B w = (r, w') \<Longrightarrow>
        undisturbed w' \<and> registered w' = registered w \<and> (\<forall>v. r = Inr v \<longrightarrow> v = registered w)"
    and write_law: "undisturbed w \<Longrightarrow> write_value B c w = (u, w') \<Longrightarrow>
        undisturbed w' \<and> registered w' = (if is_ok u then Some (own c) else registered w)"
    and delete_law: "undisturbed w \<Longrightarrow> delete_value B w = (u, w') \<Longrightarrow>
        undisturbed w' \<and> registered w' = (if is_ok u then None else registered w)"
begin

lemma service_read_registered:
  assumes "undisturbed (au_world s)" and "service_read B c s = (r, s')"
  shows "undisturbed (au_world s')" "registered (au_world s') = registered (au_world s)"
    "r = Stored v \<Longrightarrow> v = registered (au_world s)"
  using assms(2)
  by (cases rule: service_read_cases; use assms(1) read_law in fastforce)+

lemma read_back_registered:
  assumes u: "undisturbed (au_world s)" and r: "read_back B c ev p f g vf s = (res, s')"
    and g: "\<And>s. au_world (g s) = au_world s" and vf: "\<And>v s. au_world (snd (vf v s)) = au_world s"
  shows "undisturbed (au_world s')" "registered (au_world s') = registered (au_world s)"
    "ar_success res \<Longrightarrow> \<exists>s2. au_world s2 = au_world s' \<and> vf (registered (au_world s)) s2 = (res, s')"
proof -
  obtain b s1 where rec: "service_record ev c s = (b, s1)" by force
  obtain x s2 where x: "service_read B c (g s1) = (x, s2)" by force
  obtain b3 s3 where rec3: "service_record READBACK_COMPLETED c s2 = (b3, s3)" by force
  have w1: "au_world (g s1) = au_world s" using service_record_frame(2) [OF rec] g by simp
  note rd = service_read_registered [OF _ x, unfolded w1, OF u]
  have w3: "au_world s3 = au_world s2" using service_record_frame(2) [OF rec3] by simp
  consider "au_world s' = au_world s" "\<not> ar_success res" | "au_world s' = au_world s2" "\<not> ar_success res"
    | v where "x = Stored v" "vf v s3 = (res, s')"
    using r rec x rec3 w3 w1 service_record_frame(2) [OF rec]
    by (cases b; cases x; cases b3) (auto simp: read_back_def)
  then have "undisturbed (au_world s') \<and> registered (au_world s') = registered (au_world s)
      \<and> (ar_success res \<longrightarrow> (\<exists>s2. au_world s2 = au_world s' \<and> vf (registered (au_world s)) s2 = (res, s')))"
  proof cases
    case (3 v)
    then have "au_world s' = au_world s3" using vf [of v s3] by simp
    with 3 rd w3 show ?thesis by auto
  qed (use u rd in auto)
  then show "undisturbed (au_world s')" "registered (au_world s') = registered (au_world s)"
    "ar_success res \<Longrightarrow> \<exists>s2. au_world s2 = au_world s' \<and> vf (registered (au_world s)) s2 = (res, s')"
    by auto
qed

lemma verify_success:
  "ar_success (fst (verify_enabled e v s)) \<Longrightarrow>
     v = Some (own e) \<and> ar_snapshot (fst (verify_enabled e v s)) = for_status ENABLED"
  "ar_success (fst (verify_disabled e v s)) \<Longrightarrow>
     v = None \<and> ar_snapshot (fst (verify_disabled e v s)) = for_status DISABLED"
  by (auto simp: verify_enabled_def verify_disabled_def report_lost_def classify_def own_value_iff
      Let_def split: if_splits option.splits)

lemma enable_toggles:
  assumes u: "undisturbed (au_world s)" and v: "v = registered (au_world s)"
    and r: "enable B p v e c s = (res, s')"
  shows "toggle_outcome registered undisturbed e True (au_world s) res (au_world s')"
proof (cases v)
    case (Some x)
    obtain snap s1 where cl: "classify v e s = (snap, s1)" by force
    with r Some have "s' = s1" "ar_success res \<longrightarrow> as_status snap = ENABLED \<and> ar_snapshot res = snap"
      by (auto simp: enable_def split: if_splits)
    then show ?thesis
      using u v Some cl classify_frame(1) [OF cl] classify_enabled [OF cl] classify_for_status [OF cl]
      by (auto simp: toggle_outcome_def wanted_def own_value_iff)
  next
    case None
    obtain b s1 where rec: "service_record BACKEND_WRITE_ENTERED c s = (b, s1)" by force
    note w1 = service_record_frame(2) [OF rec]
    obtain a w where a: "write_value B e (au_world s1) = (a, w)" by force
    have w: "undisturbed w" "registered w = (if is_ok a then Some (own e) else None)"
      using write_law [OF _ a] u w1 v None by simp_all
    consider "\<not> b" | "b" "\<exists>x. a = Inl x" | "b" "a = Inr ()" by (cases a) auto
    then show ?thesis
    proof cases
      case 1
      with r rec None w1 u show ?thesis by (auto simp: toggle_outcome_def enable_def)
    next
      case 2
      with r rec None a w v show ?thesis by (auto simp: toggle_outcome_def enable_def)
    next
      case 3
      with r rec None a have
        rb: "read_back B c BACKEND_WRITE_COMPLETED p ''autostart_write_verification_failed''
           (au_confirmed_update (\<lambda>_. True)) (verify_enabled e) (s1\<lparr>au_world := w\<rparr>) = (res, s')"
        by (simp add: enable_def)
      note rb_facts = read_back_registered [OF _ rb, simplified, OF w(1)]
      have "ar_snapshot res = for_status ENABLED" if succ: "ar_success res"
      proof -
        obtain s2 where "verify_enabled e (registered w) s2 = (res, s')" using rb_facts(3) [OF succ] by auto
        then show ?thesis using verify_success(1) [of e "registered w" s2] succ by simp
      qed
      with rb_facts w 3 None v show ?thesis by (simp add: toggle_outcome_def toggled_def wanted_def)
    qed
qed

lemma disable_toggles:
  assumes u: "undisturbed (au_world s)" and v: "v = registered (au_world s)"
    and r: "disable B p v e c s = (res, s')" and nl: "\<not> au_lost s"
  shows "toggle_outcome registered undisturbed e False (au_world s) res (au_world s')"
proof (cases v)
    case None
    obtain snap s1 where cl: "classify None e s = (snap, s1)" by force
    with r None have "s' = s1" "ar_success res \<longrightarrow> as_status snap \<noteq> OWNERSHIP_LOST \<and> ar_snapshot res = snap"
      by (auto simp: disable_def split: if_splits)
    then show ?thesis
      using u v None cl classify_frame(1) [OF cl] nl
      by (auto simp: toggle_outcome_def wanted_def classify_def split: if_splits)
  next
    case (Some x)
    show ?thesis
    proof (cases "own_value e x")
      case False
      with r Some u show ?thesis by (auto simp: toggle_outcome_def disable_def report_lost_def)
    next
      case True
      obtain b s1 where rec: "service_record BACKEND_DELETE_ENTERED c s = (b, s1)" by force
      note w1 = service_record_frame(2) [OF rec]
      obtain a w where a: "delete_value B (au_world s1) = (a, w)" by force
      have w: "undisturbed w" "registered w = (if is_ok a then None else Some x)"
        using delete_law [OF _ a] u w1 v Some by simp_all
      consider "\<not> b" | "b" "\<exists>x. a = Inl x" | "b" "a = Inr ()" by (cases a) auto
      then show ?thesis
      proof cases
        case 1
        with r rec Some True w1 u show ?thesis by (auto simp: toggle_outcome_def disable_def)
      next
        case 2
        with r rec Some True a w v show ?thesis by (auto simp: toggle_outcome_def disable_def)
      next
        case 3
        with r rec Some True a have
          rb: "read_back B c BACKEND_DELETE_COMPLETED p ''autostart_delete_verification_failed''
             id (verify_disabled e) (s1\<lparr>au_world := w\<rparr>) = (res, s')"
          by (simp add: disable_def)
        note rb_facts = read_back_registered [OF _ rb, simplified, OF w(1)]
        have "ar_snapshot res = for_status DISABLED" if succ: "ar_success res"
        proof -
          obtain s2 where "verify_disabled e (registered w) s2 = (res, s')" using rb_facts(3) [OF succ] by auto
          then show ?thesis using verify_success(2) [of e "registered w" s2] succ by simp
        qed
        with rb_facts w 3 Some True v show ?thesis by (simp add: toggle_outcome_def toggled_def wanted_def own_value_iff)
      qed
    qed
qed

lemma set_enabled_toggles:
  assumes b: "au_backend s = Some B" and u: "undisturbed (au_world s)"
    and r: "set_enabled X enabled c s = (res, s')"
  obtains (kept) "\<not> ar_success res" "undisturbed (au_world s')"
      "registered (au_world s') = registered (au_world s)"
    | (toggled) e where "eligible_command X = Some e"
      "toggle_outcome registered undisturbed e enabled (au_world s) res (au_world s')"
  using r
proof (cases rule: set_enabled_cases)
  case refused
  with u kept show ?thesis by simp
next
  case (unread B' e r s2 s3)
  then have "service_read B c s2 = (r, s3)" "undisturbed (au_world s2)" using b u by simp_all
  from service_read_registered [OF this(2,1)] unread kept show ?thesis by simp
next
  case (applied B' e v s2 s3)
  then have rd: "service_read B c s2 = (Stored v, s3)" "undisturbed (au_world s2)" using b u by simp_all
  note s3 = service_read_registered [OF rd(2,1)]
  have v: "v = registered (au_world s3)" and s3w: "registered (au_world s3) = registered (au_world s)"
    using s3 applied(5) by simp_all
  have nl: "\<not> au_lost s3"
    using applied(3,4) service_read_frame [OF rd(1)] by (simp add: same_service_def)
  have "toggle_outcome registered undisturbed e enabled (au_world s3) res (au_world s')"
    using applied(1,7) b enable_toggles [OF s3(1) v, of "au_snapshot s" e c res s']
      disable_toggles [OF s3(1) v _ nl, of "au_snapshot s" e c res s']
    by (cases enabled) simp_all
  then show ?thesis using applied(2) s3w by (intro toggled) (auto simp: toggle_outcome_def)
qed

lemma query_keeps_registration:
  assumes b: "au_backend s = Some B" and u: "undisturbed (au_world s)" and r: "query X c s = (snap, s')"
  shows "undisturbed (au_world s')" "registered (au_world s') = registered (au_world s)"
proof -
  obtain ec s1 where ec: "expected_command X s = (ec, s1)" by force
  note f1 = expected_command_frame [OF ec]
  have "undisturbed (au_world s') \<and> registered (au_world s') = registered (au_world s)"
  proof (cases ec)
    case None
    with r ec f1 u show ?thesis by (simp add: query_def)
  next
    case (Some Be)
    then obtain e where e: "ec = Some (B, e)"
      using ec b by (cases Be) (auto simp: expected_command_Some)
    obtain x s2 where rd: "service_read B c s1 = (x, s2)" by force
    have "au_world s' = au_world s2"
      using r ec e rd classify_frame(1) [of _ e s2] by (cases x) (auto simp: query_def)
    with service_read_registered [OF _ rd] f1 u show ?thesis by simp
  qed
  then show "undisturbed (au_world s')" "registered (au_world s') = registered (au_world s)" by auto
qed

end

section \<open>A backend that does not fail\<close>

text \<open>A service that is ready to toggle: its port is there, nothing is lost, and no journal is kept.\<close>

definition service_ready :: "'w AutostartBackend \<Rightarrow> 'w AutostartService \<Rightarrow> bool" where
  "service_ready B s \<longleftrightarrow>
     au_backend s = Some B \<and> au_platform_supported s \<and> au_journal s = None \<and> \<not> au_lost s"

lemma ready_step:
  assumes "service_ready B s" and "eligible_command X = Some e"
  shows "set_enabled X enabled c s =
    (case service_read B c s of
       (JournalFailure, s3) \<Rightarrow> (journal_failure (au_snapshot s), s3)
     | (BackendFailure, s3) \<Rightarrow>
         (op_failed (au_snapshot s) ''autostart_backend_error''
            ''The autostart setting could not be accessed safely.'', s3\<lparr>au_snapshot := au_snapshot s\<rparr>)
     | (Stored v, s3) \<Rightarrow>
         if enabled then enable B (au_snapshot s) v e c s3 else disable B (au_snapshot s) v e c s3)"
  using assms by (simp add: service_ready_def set_enabled_def expected_command_def Let_def)

lemma ready_read:
  "service_ready B s \<Longrightarrow> read_value B (au_world s) = (Inr v, w) \<Longrightarrow>
     service_read B c s = (Stored v, s\<lparr>au_world := w\<rparr>)"
  by (simp add: service_ready_def service_read_def)

locale reliable_backend = autostart_backend B registered undisturbed
  for B :: "'w AutostartBackend" and registered and undisturbed +
  fixes reliable :: "'w \<Rightarrow> bool"
  assumes reliable_read: "reliable w \<Longrightarrow> \<exists>w'. read_value B w = (Inr (registered w), w') \<and> reliable w'"
    and reliable_write: "reliable w \<Longrightarrow> \<exists>w'. write_value B c w = (Inr (), w') \<and> reliable w'"
    and reliable_delete: "reliable w \<Longrightarrow> registered w \<noteq> None \<Longrightarrow>
        \<exists>w'. delete_value B w = (Inr (), w') \<and> reliable w'"
    and reliable_undisturbed: "reliable w \<Longrightarrow> undisturbed w"
begin

lemma reliable_read_obtain:
  assumes "reliable w"
  obtains w' where "read_value B w = (Inr (registered w), w')" "reliable w'" "registered w' = registered w"
  using reliable_read [OF assms] read_law [OF reliable_undisturbed [OF assms]] by blast

lemma enable_succeeds:
  assumes s: "service_ready B s" and e: "eligible_command X = Some e" and rel: "reliable (au_world s)"
    and free: "registered (au_world s) \<in> {None, Some (own e)}"
  shows "\<exists>s'. set_enabled X True c s = (op_completed (for_status ENABLED), s') \<and> service_ready B s'
           \<and> reliable (au_world s') \<and> registered (au_world s') = Some (own e)"
proof -
  obtain w1 where w1: "read_value B (au_world s) = (Inr (registered (au_world s)), w1)" "reliable w1"
      "registered w1 = registered (au_world s)"
    using reliable_read_obtain [OF rel] .
  note step = ready_step [OF s e, of True c, unfolded ready_read [OF s w1(1)]]
  show ?thesis
  proof (cases "registered (au_world s)")
    case (Some x)
    with free have "registered (au_world s) = Some (own e)" by simp
    with step s w1 show ?thesis
      by (simp add: enable_def classify_def own_value_iff service_ready_def)
  next
    case None
    obtain w2 where w2: "write_value B e w1 = (Inr (), w2)" "reliable w2"
      using reliable_write [OF w1(2)] by blast
    have r2: "registered w2 = Some (own e)"
      using write_law [OF reliable_undisturbed [OF w1(2)] w2(1)] by simp
    obtain w3 where w3: "read_value B w2 = (Inr (registered w2), w3)" "reliable w3"
        "registered w3 = registered w2"
      using reliable_read_obtain [OF w2(2)] .
    show ?thesis
      using step s None w2(1) w3 r2
      by (simp add: enable_def read_back_def verify_enabled_def service_read_def classify_def
          own_value_iff service_ready_def)
  qed
qed

lemma disable_succeeds:
  assumes s: "service_ready B s" and e: "eligible_command X = Some e" and rel: "reliable (au_world s)"
    and owned: "registered (au_world s) = Some (own e)"
  shows "\<exists>s'. set_enabled X False c s = (op_completed (for_status DISABLED), s') \<and> service_ready B s'
           \<and> reliable (au_world s') \<and> registered (au_world s') = None \<and> \<not> au_confirmed s'"
proof -
  obtain w1 where w1: "read_value B (au_world s) = (Inr (registered (au_world s)), w1)" "reliable w1"
      "registered w1 = registered (au_world s)"
    using reliable_read_obtain [OF rel] .
  note step = ready_step [OF s e, of False c, unfolded ready_read [OF s w1(1)]]
  obtain w2 where w2: "delete_value B w1 = (Inr (), w2)" "reliable w2"
    using reliable_delete [OF w1(2)] w1(3) owned by auto
  have r2: "registered w2 = None"
    using delete_law [OF reliable_undisturbed [OF w1(2)] w2(1)] by simp
  obtain w3 where w3: "read_value B w2 = (Inr (registered w2), w3)" "reliable w3"
      "registered w3 = registered w2"
    using reliable_read_obtain [OF w2(2)] .
  show ?thesis
    using step s owned w2(1) w3 r2
    by (simp add: disable_def read_back_def verify_disabled_def service_read_def classify_def
        own_value_iff service_ready_def)
qed

end

section \<open>The Run key keeps the contract\<close>

definition run_key_value :: "registry_world \<Rightarrow> AutostartStoredValue option" where
  "run_key_value w = (case rw_key w of None \<Rightarrow> None | Some k \<Rightarrow> map_option stored_value k)"

definition unmeddled :: "registry_world \<Rightarrow> bool" where
  "unmeddled w \<longleftrightarrow> list_all (\<lambda>i. ri_meddle i = None) (rw_script w)"

definition faultless :: "registry_world \<Rightarrow> bool" where
  "faultless w \<longleftrightarrow> list_all (\<lambda>i. ri_meddle i = None \<and> ri_fault i = registry_fault.NoFault) (rw_script w)"

lemma registry_access_unmeddled:
  "unmeddled w \<Longrightarrow> registry_access w = (f, w') \<Longrightarrow> unmeddled w' \<and> rw_key w' = rw_key w"
  by (auto simp: unmeddled_def registry_access_def split: list.splits)

lemma registry_access_faultless:
  "faultless w \<Longrightarrow> \<exists>w'. registry_access w = (registry_fault.NoFault, w') \<and> faultless w' \<and> rw_key w' = rw_key w"
  by (auto simp: faultless_def registry_access_def split: list.splits)

lemma stored_value_own: "stored_value (REGISTRY_STRING_VALUE_TYPE, RegText c) = own c"
  by (simp add: stored_value_def own_def)

lemmas run_key_defs = run_key_read_def run_key_write_def run_key_delete_def windows_run_key_backend_def
  run_key_value_def stored_value_own

interpretation run_key: autostart_backend windows_run_key_backend run_key_value unmeddled
proof
  fix w w' :: registry_world and r u c
  assume u: "unmeddled w"
  obtain f w1 where a: "registry_access w = (f, w1)" by force
  note acc = registry_access_unmeddled [OF u a]
  have upd: "unmeddled (w1\<lparr>rw_key := k\<rparr>)" for k using acc by (simp add: unmeddled_def)
  show "unmeddled w' \<and> run_key_value w' = run_key_value w \<and> (\<forall>v. r = Inr v \<longrightarrow> v = run_key_value w)"
    if "read_value windows_run_key_backend w = (r, w')"
    using that a acc by (auto simp: run_key_defs Let_def split: if_splits option.splits)
  show "unmeddled w' \<and> run_key_value w' = (if is_ok u then Some (own c) else run_key_value w)"
    if "write_value windows_run_key_backend c w = (u, w')"
    using that a acc upd by (auto simp: run_key_defs Let_def split: if_splits option.splits)
  show "unmeddled w' \<and> run_key_value w' = (if is_ok u then None else run_key_value w)"
    if "delete_value windows_run_key_backend w = (u, w')"
    using that a acc upd by (auto simp: run_key_defs Let_def split: if_splits option.splits)
qed

interpretation reliable_run_key: reliable_backend windows_run_key_backend run_key_value unmeddled faultless
proof
  fix w :: registry_world and c
  assume f: "faultless w"
  then obtain w1 where a: "registry_access w = (registry_fault.NoFault, w1)" "faultless w1" "rw_key w1 = rw_key w"
    using registry_access_faultless by blast
  have upd: "faultless (w1\<lparr>rw_key := k\<rparr>)" for k using a by (simp add: faultless_def)
  show "unmeddled w" using f by (auto simp: faultless_def unmeddled_def list_all_iff)
  show "\<exists>w'. read_value windows_run_key_backend w = (Inr (run_key_value w), w') \<and> faultless w'"
    using a by (auto simp: run_key_defs Let_def split: option.split)
  show "\<exists>w'. write_value windows_run_key_backend c w = (Inr (), w') \<and> faultless w'"
    using a upd by (auto simp: run_key_defs Let_def split: option.split)
  show "\<exists>w'. delete_value windows_run_key_backend w = (Inr (), w') \<and> faultless w'"
    if "run_key_value w \<noteq> None"
    using that a upd by (auto simp: run_key_defs Let_def split: option.splits)
qed

end
