(* ===== verification/Autostart_Properties.thy ===== *)
theory Autostart_Properties
  imports Autostart_Registry
begin

text \<open>
  Properties of the startup registration: which calls the service makes, what they do to the registry,
  and which texts it hands to the user interface.
\<close>

section \<open>Fixed texts\<close>

text \<open>
  Everything the service reports is one of these pairs of code and message; nothing of the registry's
  content, of a path or of an exception is among them.
\<close>

definition safe_texts :: "(string \<times> string) list" where
  "safe_texts =
    map status_details [UNAVAILABLE, DISABLED, ENABLED, OCCUPIED, OWNERSHIP_LOST, INVALID_EXECUTABLE, ERROR] @
    [(''none'', []),
     (''autostart_diagnostic_journal_failed'', ''The autostart diagnostic journal failed safely.''),
     (''autostart_write_failed'', ''The autostart setting could not be enabled safely.''),
     (''autostart_write_verification_failed'', ''The autostart setting could not be verified safely.''),
     (''autostart_delete_failed'', ''The autostart setting could not be disabled safely.''),
     (''autostart_delete_verification_failed'', ''The autostart setting could not be verified safely.'')]"

definition fixed_snapshot :: "AutostartSnapshot \<Rightarrow> bool" where
  "fixed_snapshot snap \<longleftrightarrow> snap = for_status (as_status snap)"

definition fixed_report :: "AutostartOperationResult \<times> 'w AutostartService \<Rightarrow> bool" where
  "fixed_report r \<longleftrightarrow>
     fixed_snapshot (ar_snapshot (fst r)) \<and> fixed_snapshot (au_snapshot (snd r))
     \<and> (ar_safe_code (fst r), ar_safe_message (fst r)) \<in> set safe_texts"

lemma fixed_for_status [simp]: "fixed_snapshot (for_status st)"
  by (simp add: fixed_snapshot_def)

lemma status_details_safe [simp]: "status_details st \<in> set safe_texts"
  by (cases st) (simp_all only: safe_texts_def list.map set_append list.simps Un_insert_left insert_iff simp_thms)

lemma failed_with_texts:
  "fixed_snapshot p \<Longrightarrow> (ar_safe_code (failed_with p), ar_safe_message (failed_with p)) \<in> set safe_texts"
proof -
  assume "fixed_snapshot p"
  then have "p = for_status (as_status p)" by (simp add: fixed_snapshot_def)
  then have "(as_safe_code p, as_safe_message p) = status_details (as_status p)"
    by (metis (no_types, lifting) AutostartSnapshot.select_convs(2,3) for_status_def prod.collapse)
  then show ?thesis by (simp add: failed_with_def op_failed_def)
qed

lemma result_fields [simp]:
  "ar_snapshot (op_failed p c m) = p" "ar_safe_code (op_failed p c m) = c" "ar_safe_message (op_failed p c m) = m"
  "ar_safe_code (op_completed p) = ''none''" "ar_safe_message (op_completed p) = []"
  "ar_snapshot (failed_with p) = p" "ar_snapshot (journal_failure p) = p"
  "ar_safe_code (journal_failure p) = ''autostart_diagnostic_journal_failed''"
  "ar_safe_message (journal_failure p) = ''The autostart diagnostic journal failed safely.''"
  by (simp_all add: op_failed_def op_completed_def failed_with_def journal_failure_def)

lemma text_member [simp]:
  "(''none'', []) \<in> set safe_texts"
  "(''autostart_diagnostic_journal_failed'', ''The autostart diagnostic journal failed safely.'') \<in> set safe_texts"
  "(''autostart_write_failed'', ''The autostart setting could not be enabled safely.'') \<in> set safe_texts"
  "(''autostart_write_verification_failed'', ''The autostart setting could not be verified safely.'') \<in> set safe_texts"
  "(''autostart_delete_failed'', ''The autostart setting could not be disabled safely.'') \<in> set safe_texts"
  "(''autostart_delete_verification_failed'', ''The autostart setting could not be verified safely.'') \<in> set safe_texts"
  "(''autostart_backend_error'', ''The autostart setting could not be accessed safely.'') \<in> set safe_texts"
  using status_details_safe [of ERROR] by (simp_all add: safe_texts_def)

lemma classify_fixed:
  "classify v e s = (snap, s') \<Longrightarrow> fixed_snapshot snap \<and> au_snapshot s' = snap"
  using classify_for_status [of v e s snap s'] classify_frame(5) [of v e s snap s']
  by (simp add: fixed_snapshot_def)

lemma record_fixed:
  "service_record ev c s = (b, s') \<Longrightarrow> fixed_snapshot (au_snapshot s) \<Longrightarrow> fixed_snapshot (au_snapshot s')"
  by (auto simp: service_record_def split: option.splits prod.splits sum.splits)

lemma read_fixed:
  "service_read B c s = (r, s') \<Longrightarrow> fixed_snapshot (au_snapshot s) \<Longrightarrow> fixed_snapshot (au_snapshot s')"
  using record_fixed [of BACKEND_READ_ENTERED c s]
  by (auto simp: service_read_def split: prod.splits bool.splits sum.splits)

lemma expected_fixed:
  "expected_command X s = (r, s') \<Longrightarrow> fixed_snapshot (au_snapshot s) \<Longrightarrow> fixed_snapshot (au_snapshot s')"
  by (auto simp: expected_command_def split: bool.splits option.splits)

lemma verify_fixed:
  "fixed_report (verify_enabled e v s)" "fixed_report (verify_disabled e v s)"
  using classify_fixed [of v e s] classify_fixed [of None e "s\<lparr>au_confirmed := False, au_lost := False\<rparr>"]
    failed_with_texts [of "for_status OWNERSHIP_LOST"]
  by (auto simp: fixed_report_def verify_enabled_def verify_disabled_def report_lost_def Let_def
      split: prod.splits)

lemma read_back_fixed:
  assumes p: "fixed_snapshot p" and s: "fixed_snapshot (au_snapshot s)"
    and g: "\<And>s. au_snapshot (g s) = au_snapshot s" and vf: "\<And>v s. fixed_report (vf v s)"
    and f: "(f, ''The autostart setting could not be verified safely.'') \<in> set safe_texts"
  shows "fixed_report (read_back B c ev p f g vf s)"
proof -
  obtain b s1 where rec: "service_record ev c s = (b, s1)" by force
  obtain x s2 where x: "service_read B c (g s1) = (x, s2)" by force
  obtain b3 s3 where rec3: "service_record READBACK_COMPLETED c s2 = (b3, s3)" by force
  have "fixed_snapshot (au_snapshot s1)" "fixed_snapshot (au_snapshot s2)" "fixed_snapshot (au_snapshot s3)"
    using record_fixed [OF rec s] read_fixed [OF x] record_fixed [OF rec3] g by simp_all
  with rec x rec3 p f vf show ?thesis
    by (cases b; cases x; cases b3) (simp_all add: read_back_def fixed_report_def)
qed

lemma enable_fixed:
  assumes p: "fixed_snapshot p" and s: "fixed_snapshot (au_snapshot s)"
  shows "fixed_report (enable B p v e c s)"
proof (cases v)
  case (Some x)
  obtain snap s1 where cl: "classify v e s = (snap, s1)" by force
  with classify_fixed [OF cl] failed_with_texts [of snap] Some show ?thesis
    by (simp add: enable_def fixed_report_def)
next
  case None
  obtain b s1 where rec: "service_record BACKEND_WRITE_ENTERED c s = (b, s1)" by force
  have s1: "fixed_snapshot (au_snapshot s1)" using record_fixed [OF rec s] .
  have "fixed_report (read_back B c BACKEND_WRITE_COMPLETED p ''autostart_write_verification_failed''
      (au_confirmed_update (\<lambda>_. True)) (verify_enabled e) (s1\<lparr>au_world := w\<rparr>))" for w
    by (rule read_back_fixed [OF p]) (simp_all add: s1 verify_fixed)
  with rec s1 p None show ?thesis
    by (auto simp: enable_def fixed_report_def split: bool.split prod.split sum.split)
qed

lemma disable_fixed:
  assumes p: "fixed_snapshot p" and s: "fixed_snapshot (au_snapshot s)"
  shows "fixed_report (disable B p v e c s)"
proof (cases "\<exists>x. v = Some x \<and> own_value e x")
  case False
  obtain snap s1 where cl: "classify None e s = (snap, s1)" by force
  with classify_fixed [OF cl] failed_with_texts [of snap] failed_with_texts [of "for_status OWNERSHIP_LOST"] False
  show ?thesis
    by (cases v) (auto simp: disable_def fixed_report_def report_lost_def)
next
  case True
  then obtain x where x: "v = Some x" "own_value e x" by blast
  obtain b s1 where rec: "service_record BACKEND_DELETE_ENTERED c s = (b, s1)" by force
  have s1: "fixed_snapshot (au_snapshot s1)" using record_fixed [OF rec s] .
  have "fixed_report (read_back B c BACKEND_DELETE_COMPLETED p ''autostart_delete_verification_failed''
      id (verify_disabled e) (s1\<lparr>au_world := w\<rparr>))" for w
    by (rule read_back_fixed [OF p]) (simp_all add: s1 verify_fixed)
  with rec s1 p x show ?thesis
    by (auto simp: disable_def fixed_report_def split: bool.split prod.split sum.split)
qed

lemma set_enabled_fixed:
  assumes s: "fixed_snapshot (au_snapshot s)"
  shows "fixed_report (set_enabled X enabled c s)"
proof -
  obtain ok s1 where rec:
    "service_record (if enabled then SERVICE_ENABLE_ENTERED else SERVICE_DISABLE_ENTERED) c s = (ok, s1)"
    by force
  have s1: "fixed_snapshot (au_snapshot s1)" using record_fixed [OF rec s] .
  obtain ec s2 where ec: "expected_command X s1 = (ec, s2)" by force
  have s2: "fixed_snapshot (au_snapshot s2)" using expected_fixed [OF ec s1] .
  have go: "fixed_report (enable B (au_snapshot s) v e c s3)" "fixed_report (disable B (au_snapshot s) v e c s3)"
    if "service_read B c s2 = (r, s3)" for B v e r s3
    by (rule enable_fixed disable_fixed s read_fixed [OF that s2])+
  show ?thesis
  proof (cases ok)
    case False
    with rec s s1 show ?thesis by (simp add: set_enabled_def fixed_report_def)
  next
    case True
    show ?thesis
    proof (cases ec)
      case None
      with True rec ec s2 failed_with_texts [OF s2] show ?thesis
        by (simp add: set_enabled_def fixed_report_def)
    next
      case (Some Be)
      obtain r s3 where rd: "service_read (fst Be) c s2 = (r, s3)" by force
      have s3: "fixed_snapshot (au_snapshot s3)" using read_fixed [OF rd s2] .
      show ?thesis
        using True Some rec ec rd s s3 go [OF rd] failed_with_texts [of "for_status OWNERSHIP_LOST"]
        by (cases Be; cases r)
          (auto simp: set_enabled_def Let_def report_lost_def fixed_report_def)
    qed
  qed
qed

section \<open>Runs\<close>

lemma autostart_run_Cons: "autostart_run (op # ops) s = autostart_run ops (service_step op s)"
  by (simp add: autostart_run_def)

lemma autostart_run_append: "autostart_run (xs @ ys) s = autostart_run ys (autostart_run xs s)"
  by (simp add: autostart_run_def)

lemma query_fixed:
  assumes s: "fixed_snapshot (au_snapshot s)"
  shows "fixed_snapshot (fst (query X c s)) \<and> au_snapshot (snd (query X c s)) = fst (query X c s)"
proof -
  obtain r s1 where ex: "expected_command X s = (r, s1)" by force
  have s1: "fixed_snapshot (au_snapshot s1)" using expected_fixed [OF ex s] .
  show ?thesis
  proof (cases r)
    case None
    with ex s1 show ?thesis by (simp add: query_def)
  next
    case (Some be)
    obtain B e where be: "be = (B, e)" by (cases be)
    obtain x s2 where rd: "service_read B c s1 = (x, s2)" by force
    show ?thesis
    proof (cases x)
      case (Stored v)
      obtain snap s3 where "classify v e s2 = (snap, s3)" by force
      with ex Some be rd Stored classify_fixed [OF this] show ?thesis by (simp add: query_def)
    qed (use ex Some be rd read_fixed [OF rd s1] in \<open>simp_all add: query_def\<close>)
  qed
qed

lemma autostart_run_fixed:
  "fixed_snapshot (au_snapshot s) \<Longrightarrow> fixed_snapshot (au_snapshot (autostart_run ops s))"
proof (induction ops arbitrary: s)
  case (Cons op ops)
  obtain X c o1 where op: "op = (X, c, o1)" by (cases op)
  have "fixed_snapshot (au_snapshot (service_step op s))"
    using query_fixed [OF Cons.prems, of X c] set_enabled_fixed [OF Cons.prems, of X _ c]
    by (cases o1) (simp_all add: service_step_def op fixed_report_def)
  then show ?case using Cons.IH by (simp add: autostart_run_Cons)
qed (simp add: autostart_run_def)

lemma autostart_run_config: "same_config s (autostart_run ops s)"
proof (induction ops arbitrary: s)
  case (Cons op ops)
  from same_config_trans [OF service_step_config Cons] show ?case by (simp add: autostart_run_Cons)
qed (simp add: autostart_run_def same_config_def)

lemma step_registration:
  assumes "au_backend s = Some windows_run_key_backend" and "unmeddled (au_world s)"
  shows "unmeddled (au_world (service_step op s))"
    "run_key_value (au_world (service_step op s)) = run_key_value (au_world s)
     \<or> (\<exists>e b. eligible_command (fst op) = Some e
          \<and> toggled e b (run_key_value (au_world s)) (run_key_value (au_world (service_step op s))))"
proof -
  obtain X c o1 where op: "op = (X, c, o1)" by (cases op)
  have "unmeddled (au_world (service_step op s)) \<and>
    (run_key_value (au_world (service_step op s)) = run_key_value (au_world s)
     \<or> (\<exists>e b. eligible_command (fst op) = Some e
          \<and> toggled e b (run_key_value (au_world s)) (run_key_value (au_world (service_step op s)))))"
  proof (cases o1)
    case Query
    obtain r s' where q: "query X c s = (r, s')" by force
    from run_key.query_keeps_registration [OF assms q] q Query op show ?thesis
      by (simp add: service_step_def)
  next
    case (SetEnabled b)
    obtain r s' where q: "set_enabled X b c s = (r, s')" by force
    from assms q show ?thesis
      by (cases rule: run_key.set_enabled_toggles) (use q SetEnabled op in
          \<open>auto simp: service_step_def toggle_outcome_def\<close>)
  qed
  then show "unmeddled (au_world (service_step op s))"
    "run_key_value (au_world (service_step op s)) = run_key_value (au_world s)
     \<or> (\<exists>e b. eligible_command (fst op) = Some e
          \<and> toggled e b (run_key_value (au_world s)) (run_key_value (au_world (service_step op s))))"
    by auto
qed

text \<open>A packaged executable that may register itself.\<close>

definition sample_path :: WindowsPath where
  "sample_path = \<lparr>wp_drive = ''C:'', wp_root = [CHR 0x5C], wp_tail = [''Apps'', ''ArkClaw.exe'']\<rparr>"

definition sample_view :: process_view where
  "sample_view =
    \<lparr>pv_executable = Inr sample_path, pv_packaged_probe = Inr True, pv_eligibility_probe = None,
     pv_fs = \<lparr>fs_resolve = Inr, fs_resolve_text = (\<lambda>_. Inr sample_path),
              fs_lstat = (\<lambda>_. Inr \<lparr>st_mode = 33206, st_nlink = 1, st_file_attributes = Some 32\<rparr>)\<rparr>\<rparr>"

definition registered_command :: string where
  "registered_command = startup_command (path_str sample_path)"

definition registry_with :: "(int \<times> registry_data) option \<Rightarrow> registry_world" where
  "registry_with v = \<lparr>rw_key = Some v, rw_script = []\<rparr>"

definition sample_service :: "registry_world \<Rightarrow> registry_world AutostartService" where
  "sample_service w = new_autostart_service (Some windows_run_key_backend) True None w"

lemma sample_parts:
  "path_is_absolute sample_path" "py_casefold (path_name sample_path) = ''arkclaw.exe''"
  "py_casefold (path_suffix sample_path) = ''.exe''"
  "map py_casefold (path_parts sample_path) = [[CHR ''c'', CHR '':'', CHR 0x5C], ''apps'', ''arkclaw.exe'']"
  "path_text_is_safe (path_str sample_path)"
  by code_simp+

lemma sample_eligible: "eligible_command sample_view = Some registered_command"
proof -
  have len: "length registered_command \<le> MAX_AUTOSTART_COMMAND_LENGTH"
    by (simp add: registered_command_def startup_command_def path_str_def sample_path_def AUTOSTART_ARGUMENT_def
        MAX_AUTOSTART_COMMAND_LENGTH_def)
  have "supported (evaluate_executable (eligibility SUPPORTED)
      (executable_facts sample_path sample_path \<lparr>st_mode = 33206, st_nlink = 1, st_file_attributes = Some 32\<rparr>
        (length registered_command) MAX_AUTOSTART_COMMAND_LENGTH))"
    using len unfolding evaluate_executable_supported executable_facts_def Let_def
    by (simp add: sample_parts same_path_def S_ISREG_def reparse_point_def)
  then show ?thesis
    by (simp add: eligible_command_def sample_view_def runtime_eligibility_def inspect_autostart_executable_def
        registered_command_def Let_def)
qed

section \<open>Properties\<close>

text \<open>
  C15. For every backend, whatever it answers and however its world changes, and for every sequence of
  queries and toggles of a new service, with any journal and any view of the process: each write
  writes a command the process was entitled to register and directly follows a read that found
  nothing, and each deletion directly follows a read that found such a command.
\<close>

theorem autostart_calls_guarded:
  "guarded (entitled ops) None
     (calls (autostart_run ops (new_autostart_service (Some (logged B)) platform journal (w, []))))"
  by (rule autostart_run_calls [of _ B])
    (auto simp: new_autostart_service_def calls_def entitled_def list_ex_iff)

text \<open>
  Once the service has found that its entry was changed by someone else, it stays lost for the rest
  of the process, and nothing but reads is ever asked of the backend again.
\<close>

theorem lost_registration_left_alone:
  assumes "au_lost (autostart_run ops (new_autostart_service (Some (logged B)) platform journal (w, [])))"
  shows "au_lost (autostart_run (ops @ later_ops) (new_autostart_service (Some (logged B)) platform journal (w, [])))
    \<and> (\<exists>rs. calls (autostart_run (ops @ later_ops) (new_autostart_service (Some (logged B)) platform journal (w, [])))
          = calls (autostart_run ops (new_autostart_service (Some (logged B)) platform journal (w, []))) @ rs
        \<and> list_all is_read rs)"
proof -
  let ?s = "new_autostart_service (Some (logged B)) platform journal (w, [])"
  have "au_backend (autostart_run ops ?s) = Some (logged B)"
    using autostart_run_config [of ?s ops] by (simp add: same_config_def new_autostart_service_def)
  from autostart_run_lost [OF assms this] show ?thesis by (simp add: autostart_run_append)
qed

definition lost_run :: "(process_view \<times> AutostartOperationContext \<times> autostart_op) list" where
  "lost_run = [(sample_view, default_operation_context, Query), (sample_view, default_operation_context, Query)]"

definition lost_world :: registry_world where
  "lost_world =
    \<lparr>rw_key = Some (Some (1, RegText registered_command)),
     rw_script = [\<lparr>ri_meddle = None, ri_fault = registry_fault.NoFault\<rparr>,
                  \<lparr>ri_meddle = Some (Some (Some (1, RegText ''other.exe''))), ri_fault = registry_fault.NoFault\<rparr>]\<rparr>"

lemma lost_registration_left_alone_witness:
  "au_lost (autostart_run (lost_run @ [(sample_view, default_operation_context, SetEnabled True)])
     (new_autostart_service (Some (logged windows_run_key_backend)) True None (lost_world, [])))"
proof -
  have "au_lost (autostart_run lost_run (new_autostart_service (Some (logged windows_run_key_backend)) True None (lost_world, [])))"
    by (simp add: lost_run_def autostart_run_def service_step_def query_def expected_command_def sample_eligible
        new_autostart_service_def service_read_def service_record_def logged_def log_call_def
        windows_run_key_backend_def run_key_read_def registry_access_def lost_world_def stored_value_def
        classify_def own_value_def set_status_def REGISTRY_STRING_VALUE_TYPE_def)
      (simp add: registered_command_def startup_command_def)
  from lost_registration_left_alone [OF this, of "[(sample_view, default_operation_context, SetEnabled True)]"]
  show ?thesis by simp
qed

text \<open>
  C5. While nobody else writes the Run key, and with any faults of the registry and the journal, a toggle
  leaves the registration as it was or moves it between nothing and exactly the own command; and when
  it reports success the registration is what the user asked for and so is the reported state.
\<close>

theorem toggle_refines_registration:
  assumes "au_backend s = Some windows_run_key_backend" and "unmeddled (au_world s)"
    and "set_enabled X enabled c s = (res, s')"
  shows "(run_key_value (au_world s') = run_key_value (au_world s)
      \<or> (\<exists>e. eligible_command X = Some e \<and> toggled e enabled (run_key_value (au_world s)) (run_key_value (au_world s'))))
    \<and> (ar_success res \<longrightarrow>
        (\<exists>e. eligible_command X = Some e \<and> run_key_value (au_world s') = wanted e enabled)
        \<and> ar_snapshot res = for_status (if enabled then ENABLED else DISABLED))"
  using assms
  by (cases rule: run_key.set_enabled_toggles) (auto simp: toggle_outcome_def)

lemma toggle_refines_registration_witness:
  "\<exists>res s'. set_enabled sample_view True default_operation_context (sample_service (registry_with None)) = (res, s')
     \<and> ar_success res \<and> run_key_value (au_world s') = Some (own registered_command)"
proof -
  let ?s = "sample_service (registry_with None)"
  obtain res s' where r: "set_enabled sample_view True default_operation_context ?s = (res, s')" by force
  have s: "au_backend ?s = Some windows_run_key_backend" "unmeddled (au_world ?s)"
    by (simp_all add: sample_service_def new_autostart_service_def registry_with_def unmeddled_def)
  have "service_ready windows_run_key_backend ?s" "faultless (au_world ?s)" "run_key_value (au_world ?s) = None"
    by (simp_all add: sample_service_def new_autostart_service_def registry_with_def faultless_def
        run_key_value_def service_ready_def)
  with reliable_run_key.enable_succeeds [OF _ sample_eligible, of ?s default_operation_context] r
  have ok: "ar_success res" by auto
  with toggle_refines_registration [OF s r] sample_eligible have
    "run_key_value (au_world s') = Some (own registered_command)" by (auto simp: wanted_def)
  with r ok show ?thesis by blast
qed

text \<open>
  A value of another program under the fixed name survives every sequence of queries and toggles
  of the service, with any faults of the registry and the journal.
\<close>

theorem foreign_entry_survives:
  assumes "au_backend s = Some windows_run_key_backend" and "unmeddled (au_world s)"
    and "run_key_value (au_world s) = Some v" and "\<not> (\<exists>e. entitled ops e \<and> v = own e)"
  shows "run_key_value (au_world (autostart_run ops s)) = Some v"
  using assms
proof (induction ops arbitrary: s)
  case (Cons op ops)
  let ?s = "service_step op s"
  have f: "\<not> (\<exists>e. eligible_command (fst op) = Some e \<and> v = own e)" "\<not> (\<exists>e. entitled ops e \<and> v = own e)"
    using Cons.prems(4) by (auto simp: entitled_def)
  have "run_key_value (au_world ?s) = Some v"
    using step_registration(2) [OF Cons.prems(1,2), of op] Cons.prems(3) f(1)
    by (auto simp: toggled_def split: if_splits)
  moreover have "au_backend ?s = Some windows_run_key_backend"
    using service_step_config [of s op] Cons.prems(1) by (simp add: same_config_def)
  ultimately show ?case
    using Cons.IH step_registration(1) [OF Cons.prems(1,2), of op] f(2) by (simp add: autostart_run_Cons)
qed (simp add: autostart_run_def)

lemma foreign_entry_survives_witness:
  "run_key_value (au_world (autostart_run
      [(sample_view, default_operation_context, SetEnabled False), (sample_view, default_operation_context, SetEnabled True)]
      (sample_service (registry_with (Some (1, RegText ''other.exe''))))))
   = Some (stored_value (1, RegText ''other.exe''))"
proof (rule foreign_entry_survives)
  have "entitled [(sample_view, default_operation_context, SetEnabled False),
      (sample_view, default_operation_context, SetEnabled True)] e \<longleftrightarrow> e = registered_command" for e
    by (auto simp: entitled_def sample_eligible)
  moreover have "stored_value (1, RegText ''other.exe'') \<noteq> own registered_command"
    by (simp add: stored_value_def own_def registered_command_def startup_command_def)
  ultimately show "\<not> (\<exists>e. entitled [(sample_view, default_operation_context, SetEnabled False),
      (sample_view, default_operation_context, SetEnabled True)] e \<and> stored_value (1, RegText ''other.exe'') = own e)"
    by simp
qed (simp_all add: sample_service_def new_autostart_service_def registry_with_def unmeddled_def run_key_value_def)

text \<open>
  C25. A service that has not confirmed an ownership yet, over a registry that neither fails nor is
  changed by others and holds no entry: enabling succeeds and registers a command line that Windows
  splits into the executable's path and the one argument, with which the program starts in startup
  mode; the executable meets every requirement; and disabling succeeds, leaves nothing behind and
  gives the ownership up again. An entry that vanished after its ownership was confirmed is excluded.
\<close>

theorem registration_roundtrip:
  assumes "service_ready windows_run_key_backend s" and "faultless (au_world s)"
    and "run_key_value (au_world s) = None" and "\<not> au_confirmed s" and "eligible_command X = Some e"
  shows "\<exists>s1 s2 executable resolved.
     set_enabled X True c s = (op_completed (for_status ENABLED), s1)
     \<and> run_key_value (au_world s1) = Some (own e)
     \<and> pv_executable X = Inr executable \<and> fs_resolve (pv_fs X) executable = Inr resolved
     \<and> registrable (pv_fs X) executable (length e)
     \<and> windows_argv e = [path_str resolved, AUTOSTART_ARGUMENT]
     \<and> parse_startup_mode (windows_argv e) = Inr True
     \<and> set_enabled X False d s1 = (op_completed (for_status DISABLED), s2)
     \<and> run_key_value (au_world s2) = None \<and> \<not> au_confirmed s2 \<and> \<not> au_lost s2"
proof -
  obtain s1 where s1: "set_enabled X True c s = (op_completed (for_status ENABLED), s1)"
      "service_ready windows_run_key_backend s1" "faultless (au_world s1)" "run_key_value (au_world s1) = Some (own e)"
    using reliable_run_key.enable_succeeds [OF assms(1,5,2)] assms(3) by auto
  obtain s2 where s2: "set_enabled X False d s1 = (op_completed (for_status DISABLED), s2)"
      "run_key_value (au_world s2) = None" "\<not> au_confirmed s2" "\<not> au_lost s2"
    using reliable_run_key.disable_succeeds [OF s1(2) assms(5) s1(3,4)] by (auto simp: service_ready_def)
  obtain executable runtime resolved result where
    x: "pv_executable X = Inr executable" "fs_resolve (pv_fs X) executable = Inr resolved"
      "e = startup_command (path_str resolved)"
      "inspect_autostart_executable (pv_fs X) executable runtime (length e) MAX_AUTOSTART_COMMAND_LENGTH = Inr result"
      "supported result"
    using assms(5)
    by (auto simp: eligible_command_def ebind_eq_Inr_iff Let_def split: sum.splits if_splits)
  then have "registrable (pv_fs X) executable (length e)"
    using inspect_supported_iff [of "pv_fs X" executable runtime "length e"] by blast
  moreover from this x(2) have "path_text_is_safe (path_str resolved)"
    by (simp add: registrable_def split: sum.splits)
  then have "windows_argv e = [path_str resolved, AUTOSTART_ARGUMENT]"
    unfolding x(3) by (rule startup_command_argv)
  ultimately show ?thesis using s1 s2 x(1,2) by (intro exI conjI) simp_all
qed

lemma registration_roundtrip_witness:
  "\<exists>s1. set_enabled sample_view True default_operation_context (sample_service (registry_with None))
      = (op_completed (for_status ENABLED), s1) \<and> run_key_value (au_world s1) = Some (own registered_command)"
proof -
  let ?s = "sample_service (registry_with None)"
  have "service_ready windows_run_key_backend ?s" "faultless (au_world ?s)" "run_key_value (au_world ?s) = None"
      "\<not> au_confirmed ?s"
    by (simp_all add: sample_service_def new_autostart_service_def registry_with_def faultless_def
        run_key_value_def service_ready_def)
  from registration_roundtrip [OF this sample_eligible, of default_operation_context default_operation_context]
  show ?thesis by blast
qed

text \<open>
  C36. Whatever a new service is asked to do, over any backend and journal and with any faults of
  theirs and of the probes: the state it keeps and every answer of a query is one of the fixed states
  with its fixed texts, and every result of a toggle carries such a state and either no failure or one
  of the fixed failures. No text of an exception or of a stored value is reported.
\<close>

theorem reports_are_fixed:
  "fixed_snapshot (au_snapshot (autostart_run ops (new_autostart_service B platform journal w)))
   \<and> fixed_snapshot (fst (query X c (autostart_run ops (new_autostart_service B platform journal w))))
   \<and> (let res = fst (set_enabled X enabled c (autostart_run ops (new_autostart_service B platform journal w)))
      in fixed_snapshot (ar_snapshot res) \<and> (ar_safe_code res, ar_safe_message res) \<in> set safe_texts)"
proof -
  let ?s = "autostart_run ops (new_autostart_service B platform journal w)"
  have s: "fixed_snapshot (au_snapshot ?s)"
    by (rule autostart_run_fixed) (simp add: new_autostart_service_def)
  show ?thesis
    using s query_fixed [OF s, of X c] set_enabled_fixed [OF s, of X enabled c]
    by (simp add: fixed_report_def Let_def)
qed

end
