(* ===== verification/Runtime_Thread.thy ===== *)
theory Runtime_Thread
  imports Session Settings_Service Autostart_Service
begin

text \<open>
  The worker thread that owns the runtime, \<^verbatim>\<open>presentation/qt/platform/runtime_thread.py\<close>: its gate for
  commands of the user interface, the execution of one command, the command loop, and the cleanup
  of its event loop.

  The session controller is what the thread is given by its factory; the thread knows it by the
  operations of a \<open>controller_port\<close>, whose state is a parameter. An operation stands for the whole
  awaited call. \<open>session_settings\<close> is the part of the port that the settings service provides. The
  journal of the thread and of its autostart service is one object, which the service's state holds.
  Signals are a log in the order of emission; the event loop's queue is a list.
\<close>

section \<open>Commands\<close>

datatype RuntimeThreadCommandType =
    ACTIVATE_PROFILE | SEND_MESSAGE | CANCEL_ACTIVE_TURN | REQUEST_SNAPSHOT
  | REQUEST_PROVIDER_SETTINGS | CREATE_PROVIDER_PROFILE | UPDATE_PROVIDER_PROFILE
  | DELETE_PROVIDER_PROFILE | SAVE_PROVIDER_CREDENTIAL | DELETE_PROVIDER_CREDENTIAL
  | REQUEST_AUTOSTART | SET_AUTOSTART | SHUTDOWN

record RuntimeThreadCommand =
  tc_command_id :: string
  tc_type :: RuntimeThreadCommandType
  tc_profile_id :: string
  tc_options :: "ProviderActivationOptions option"
  tc_turn_handling :: "ActiveTurnHandling option"
  tc_content :: string
  tc_session_id :: string
  tc_cancel_active :: bool
  tc_provider_id :: string
  tc_display_name :: string
  tc_model :: string
  tc_credential_id :: string
  tc_enabled :: bool
  tc_operation_id :: string
  tc_autostart_origin :: AutostartOperationOrigin
  tc_controller_revision :: int
  tc_secret :: string

text \<open>The command with the defaults of all other fields.\<close>

definition thread_command :: "string \<Rightarrow> RuntimeThreadCommandType \<Rightarrow> RuntimeThreadCommand" where
  "thread_command i ty =
    \<lparr>tc_command_id = i, tc_type = ty, tc_profile_id = [], tc_options = None, tc_turn_handling = None,
     tc_content = [], tc_session_id = [], tc_cancel_active = True, tc_provider_id = [],
     tc_display_name = [], tc_model = [], tc_credential_id = [], tc_enabled = False,
     tc_operation_id = [], tc_autostart_origin = AutostartOperationOrigin.UNKNOWN,
     tc_controller_revision = 0, tc_secret = []\<rparr>"

definition clear_sensitive :: "RuntimeThreadCommand \<Rightarrow> RuntimeThreadCommand" where
  "clear_sensitive c = c\<lparr>tc_secret := []\<rparr>"

record ThreadExitOutcome =
  eo_command_id :: string
  eo_success :: bool
  eo_safe_code :: string
  eo_safe_message :: string

section \<open>The controller the thread drives\<close>

record 'c settings_port =
  stp_create :: "ProviderId \<Rightarrow> string \<Rightarrow> string \<Rightarrow> CredentialId option \<Rightarrow> 'c \<Rightarrow> (unit, 'c) sres"
  stp_update :: "ProfileId \<Rightarrow> string \<Rightarrow> string \<Rightarrow> CredentialId option \<Rightarrow> 'c \<Rightarrow> (unit, 'c) sres"
  stp_delete :: "ProfileId \<Rightarrow> 'c \<Rightarrow> (unit, 'c) sres"
  stp_save_credential :: "CredentialId \<Rightarrow> string \<Rightarrow> 'c \<Rightarrow> (unit, 'c) sres"
  stp_delete_credential :: "CredentialId \<Rightarrow> 'c \<Rightarrow> (unit, 'c) sres"
  stp_snapshot :: "string \<Rightarrow> bool \<Rightarrow> 'c \<Rightarrow> ProviderSettingsSnapshot res"

record 'c controller_port =
  cp_activate :: "ProfileId \<Rightarrow> ProviderActivationOptions \<Rightarrow> ActiveTurnHandling option \<Rightarrow> 'c
                  \<Rightarrow> (RuntimeCommandResult, 'c) sres"
  cp_start_turn :: "string \<Rightarrow> string \<Rightarrow> 'c \<Rightarrow> (RuntimeCommandResult, 'c) sres"
  cp_cancel_active_turn :: "'c \<Rightarrow> (RuntimeCommandResult, 'c) sres"
  cp_shutdown :: "bool \<Rightarrow> 'c \<Rightarrow> (RuntimeCommandResult, 'c) sres"
  cp_snapshot :: "'c \<Rightarrow> RuntimeSnapshot"
  cp_closed :: "'c \<Rightarrow> bool"
  cp_settings :: "'c settings_port option"

text \<open>
  The settings operations of a session whose provider service is a settings service, over the
  session and the state of its secret store. \<open>fresh\<close> is the identifier a new profile gets.
\<close>

definition on_service ::
    "('p service \<Rightarrow> ('a, 'p service) sres) \<Rightarrow> ('p, 'l) session \<times> 'k \<Rightarrow> (unit, ('p, 'l) session \<times> 'k) sres" where
  "on_service f c =
    (case f (ss_service (fst c)) of
       (r, sv) \<Rightarrow> (ebind r (\<lambda>_. Inr ()), ((fst c)\<lparr>ss_service := sv\<rparr>, snd c)))"

definition on_secrets ::
    "('p service \<Rightarrow> 'k \<Rightarrow> (unit, 'k) sres) \<Rightarrow> ('p, 'l) session \<times> 'k \<Rightarrow> (unit, ('p, 'l) session \<times> 'k) sres" where
  "on_secrets f c = (case f (ss_service (fst c)) (snd c) of (r, k) \<Rightarrow> (r, (fst c, k)))"

definition session_settings ::
    "'p service_env \<Rightarrow> 'k SecretStore \<Rightarrow> ProfileId \<Rightarrow> (('p, 'l) session \<times> 'k) settings_port" where
  "session_settings SE store fresh =
    \<lparr>stp_create = (\<lambda>pid name model cred. on_service (create_settings_profile SE fresh pid name model cred)),
     stp_update = (\<lambda>pid name model cred. on_service (update_settings_profile SE pid name model cred)),
     stp_delete = (\<lambda>pid. on_service (delete_settings_profile SE pid)),
     stp_save_credential = (\<lambda>cid secret. on_secrets (save_credential SE store cid secret)),
     stp_delete_credential = (\<lambda>cid. on_secrets (delete_credential SE store cid)),
     stp_snapshot = (\<lambda>state active c. settings_snapshot SE store state active (ss_service (fst c)) (snd c))\<rparr>"

section \<open>The thread\<close>

datatype thread_signal =
    WorkerReady RuntimeSnapshot
  | SnapshotEmitted RuntimeSnapshot
  | SettingsEmitted string ProviderSettingsSnapshot
  | AutostartEmitted string AutostartSnapshot
  | CommandResult string bool string string
  | OutcomeEmitted string bool string string

record ('c, 'w) runtime_thread =
  th_controller :: 'c
  th_service :: "'w AutostartService option"
  th_attached :: bool
  th_queue :: "RuntimeThreadCommand list"
  th_ready :: bool
  th_accepting :: bool
  th_closing :: bool
  th_shutdown_in_flight :: bool
  th_startup_shutdown :: "RuntimeThreadCommand option"
  th_active_command :: "RuntimeThreadCommand option"
  th_outcome_emitted :: bool
  th_signals :: "thread_signal list"

definition new_runtime_thread :: "'c \<Rightarrow> ('c, 'w) runtime_thread" where
  "new_runtime_thread c =
    \<lparr>th_controller = c, th_service = None, th_attached = False, th_queue = [], th_ready = False,
     th_accepting = False, th_closing = False, th_shutdown_in_flight = False,
     th_startup_shutdown = None, th_active_command = None, th_outcome_emitted = False,
     th_signals = []\<rparr>"

definition thread_emit :: "thread_signal \<Rightarrow> ('c, 'w) runtime_thread \<Rightarrow> ('c, 'w) runtime_thread" where
  "thread_emit sig t = t\<lparr>th_signals := th_signals t @ [sig]\<rparr>"

subsection \<open>The gate\<close>

text \<open>
  The loop and its queue are attached together and detached before the loop is closed. \<open>alive\<close> says
  that \<^verbatim>\<open>call_soon_threadsafe\<close> does not raise.
\<close>

definition thread_submit ::
    "bool \<Rightarrow> RuntimeThreadCommand \<Rightarrow> ('c, 'w) runtime_thread \<Rightarrow> bool \<times> ('c, 'w) runtime_thread" where
  "thread_submit alive command t =
    (if \<not> th_attached t \<or> \<not> th_ready t \<or> \<not> th_accepting t \<or> th_closing t then (False, t)
     else if \<not> alive then (False, t)
     else (True, t\<lparr>th_queue := th_queue t @ [command]\<rparr>))"

definition thread_request_shutdown ::
    "bool \<Rightarrow> RuntimeThreadCommand \<Rightarrow> ('c, 'w) runtime_thread \<Rightarrow> bool \<times> ('c, 'w) runtime_thread" where
  "thread_request_shutdown alive command t =
    (if tc_type command \<noteq> RuntimeThreadCommandType.SHUTDOWN then (False, t)
     else if th_shutdown_in_flight t then (False, t)
     else if \<not> th_attached t
     then (if th_closing t then (False, t)
           else (True, t\<lparr>th_startup_shutdown := Some command, th_shutdown_in_flight := True,
                         th_closing := True, th_accepting := False\<rparr>))
     else if \<not> th_ready t then (False, t)
     else let t1 = t\<lparr>th_shutdown_in_flight := True, th_closing := True, th_accepting := False\<rparr> in
          if \<not> alive then (False, t1\<lparr>th_shutdown_in_flight := False\<rparr>)
          else (True, t1\<lparr>th_queue := th_queue t1 @ [command]\<rparr>))"

definition stop_accepting :: "('c, 'w) runtime_thread \<Rightarrow> ('c, 'w) runtime_thread" where
  "stop_accepting t =
    t\<lparr>th_ready := False, th_accepting := False, th_closing := True, th_shutdown_in_flight := True\<rparr>"

definition allow_shutdown_retry :: "('c, 'w) runtime_thread \<Rightarrow> ('c, 'w) runtime_thread" where
  "allow_shutdown_retry t =
    t\<lparr>th_shutdown_in_flight := False, th_closing := True, th_accepting := False\<rparr>"

subsection \<open>Executing a command\<close>

definition run_controller ::
    "('c \<Rightarrow> ('a, 'c) sres) \<Rightarrow> ('c, 'w) runtime_thread \<Rightarrow> ('a, ('c, 'w) runtime_thread) sres" where
  "run_controller f t = (case f (th_controller t) of (r, c) \<Rightarrow> (r, t\<lparr>th_controller := c\<rparr>))"

definition autostart_context :: "RuntimeThreadCommand \<Rightarrow> AutostartOperationContext" where
  "autostart_context command =
    \<lparr>oc_operation_id = tc_operation_id command, oc_command_id = tc_command_id command,
     oc_origin = tc_autostart_origin command,
     oc_requested_enabled =
       (if tc_type command = RuntimeThreadCommandType.SET_AUTOSTART then Some (tc_enabled command) else None),
     oc_controller_revision = tc_controller_revision command\<rparr>"

definition record_autostart ::
    "AutostartOperationEvent \<Rightarrow> AutostartOperationContext \<Rightarrow> string \<Rightarrow> 'w AutostartService
     \<Rightarrow> (unit, 'w AutostartService) sres" where
  "record_autostart event context code sv =
    (case au_journal sv of
       None \<Rightarrow> (Inr (), sv)
     | Some journal \<Rightarrow>
         (case journal_record event context RUNTIME_THREAD code journal of
            (r, j) \<Rightarrow> (r, sv\<lparr>au_journal := Some j\<rparr>)))"

definition put_service :: "'w AutostartService \<Rightarrow> ('c, 'w) runtime_thread \<Rightarrow> ('c, 'w) runtime_thread" where
  "put_service sv t = t\<lparr>th_service := Some sv\<rparr>"

text \<open>A step on the autostart service in front of the rest.\<close>

definition on_autostart ::
    "('a, 'w AutostartService) sres \<Rightarrow> ('c, 'w) runtime_thread
     \<Rightarrow> ('a \<Rightarrow> 'w AutostartService \<Rightarrow> ('c, 'w) runtime_thread \<Rightarrow> ('b, ('c, 'w) runtime_thread) sres)
     \<Rightarrow> ('b, ('c, 'w) runtime_thread) sres" where
  "on_autostart r t f =
    (case r of
       (Inl e, sv) \<Rightarrow> (Inl e, put_service sv t)
     | (Inr v, sv) \<Rightarrow> f v sv (put_service sv t))"

definition execute_request_autostart ::
    "process_view \<Rightarrow> RuntimeThreadCommand \<Rightarrow> ('c, 'w) runtime_thread
     \<Rightarrow> (RuntimeCommandResult, ('c, 'w) runtime_thread) sres" where
  "execute_request_autostart X command t =
    (case th_service t of
       None \<Rightarrow> (Inl (RuntimeError ''The autostart service is unavailable.''), t)
     | Some service \<Rightarrow>
         let context = autostart_context command in
         on_autostart (record_autostart RUNTIME_COMMAND_ACCEPTED context ''none'' service) t (\<lambda>_ sv t1.
         let (snap, sv1) = query X context sv;
             t2 = thread_emit (AutostartEmitted (tc_command_id command) snap) (put_service sv1 t1) in
         on_autostart (record_autostart SNAPSHOT_PUBLISHED context ''none'' sv1) t2 (\<lambda>_ _ t3.
         (Inr rc_ok, t3))))"

definition execute_set_autostart ::
    "process_view \<Rightarrow> RuntimeThreadCommand \<Rightarrow> ('c, 'w) runtime_thread
     \<Rightarrow> (RuntimeCommandResult, ('c, 'w) runtime_thread) sres" where
  "execute_set_autostart X command t =
    (case th_service t of
       None \<Rightarrow> (Inl (RuntimeError ''The autostart service is unavailable.''), t)
     | Some service \<Rightarrow>
         let context = autostart_context command in
         on_autostart (record_autostart RUNTIME_COMMAND_ACCEPTED context ''none'' service) t (\<lambda>_ sv t1.
         let (result, sv1) = set_enabled X (tc_enabled command) context sv;
             t2 = thread_emit (AutostartEmitted (tc_command_id command) (ar_snapshot result))
                    (put_service sv1 t1) in
         on_autostart (record_autostart SNAPSHOT_PUBLISHED context (ar_safe_code result) sv1) t2 (\<lambda>_ _ t3.
         (Inr (if ar_success result then rc_ok
               else rc_failure (ar_safe_code result) (ar_safe_message result)), t3))))"

definition require_provider_settings :: "'c controller_port \<Rightarrow> 'c settings_port res" where
  "require_provider_settings C =
    (case cp_settings C of
       None \<Rightarrow> Inl (ProviderSettingsServiceError ''provider_settings_unavailable''
                  ''Provider settings are unavailable in this runtime.'')
     | Some settings \<Rightarrow> Inr settings)"

definition publish_provider_settings ::
    "'c controller_port \<Rightarrow> RuntimeThreadCommand \<Rightarrow> ('c, 'w) runtime_thread
     \<Rightarrow> (RuntimeCommandResult, ('c, 'w) runtime_thread) sres" where
  "publish_provider_settings C command t =
    with_res (require_provider_settings C) t (\<lambda>settings.
    let runtime = cp_snapshot C (th_controller t) in
    with_res (stp_snapshot settings (rs_runtime_state runtime) (rs_active_turn_id runtime \<noteq> None)
                (th_controller t)) t (\<lambda>snap.
    (Inr rc_ok, thread_emit (SettingsEmitted (tc_command_id command) snap) t)))"

definition optional_credential :: "string \<Rightarrow> CredentialId option res" where
  "optional_credential text = (if text = [] then Inr None else ebind (mk_CredentialId text) (\<lambda>c. Inr (Some c)))"

text \<open>A settings operation followed by publishing the new settings.\<close>

definition change_settings ::
    "'c controller_port \<Rightarrow> RuntimeThreadCommand \<Rightarrow> ('c settings_port \<Rightarrow> ('c \<Rightarrow> (unit, 'c) sres) res)
     \<Rightarrow> ('c, 'w) runtime_thread \<Rightarrow> (RuntimeCommandResult, ('c, 'w) runtime_thread) sres" where
  "change_settings C command f t =
    with_res (require_provider_settings C) t (\<lambda>settings.
    with_res (f settings) t (\<lambda>operation.
    sbind (run_controller operation t) (\<lambda>_ t1. publish_provider_settings C command t1)))"

definition execute_activate ::
    "'c controller_port \<Rightarrow> RuntimeThreadCommand \<Rightarrow> ('c, 'w) runtime_thread
     \<Rightarrow> (RuntimeCommandResult, ('c, 'w) runtime_thread) sres" where
  "execute_activate C command t =
    (case tc_options command of
       None \<Rightarrow> (Inr (rc_failure ''invalid_command'' ''Provider activation options are required.''), t)
     | Some options \<Rightarrow>
         (case mk_ProfileId (tc_profile_id command) of
            Inl _ \<Rightarrow> (Inr (rc_failure ''invalid_command'' ''The Provider profile identifier is invalid.''), t)
          | Inr profile_id \<Rightarrow>
              run_controller (cp_activate C profile_id options (tc_turn_handling command)) t))"

definition execute_command ::
    "'c controller_port \<Rightarrow> process_view \<Rightarrow> RuntimeThreadCommand \<Rightarrow> ('c, 'w) runtime_thread
     \<Rightarrow> (RuntimeCommandResult, ('c, 'w) runtime_thread) sres" where
  "execute_command C X command t =
    (case tc_type command of
       RuntimeThreadCommandType.ACTIVATE_PROFILE \<Rightarrow> execute_activate C command t
     | RuntimeThreadCommandType.SEND_MESSAGE \<Rightarrow>
         run_controller (cp_start_turn C (tc_content command) (tc_session_id command)) t
     | RuntimeThreadCommandType.CANCEL_ACTIVE_TURN \<Rightarrow> run_controller (cp_cancel_active_turn C) t
     | RuntimeThreadCommandType.REQUEST_SNAPSHOT \<Rightarrow> (Inr rc_ok, t)
     | RuntimeThreadCommandType.REQUEST_PROVIDER_SETTINGS \<Rightarrow> publish_provider_settings C command t
     | RuntimeThreadCommandType.CREATE_PROVIDER_PROFILE \<Rightarrow>
         change_settings C command (\<lambda>settings.
           ebind (mk_ProviderId (tc_provider_id command)) (\<lambda>provider_id.
           ebind (optional_credential (tc_credential_id command)) (\<lambda>credential_id.
           Inr (stp_create settings provider_id (tc_display_name command) (tc_model command) credential_id)))) t
     | RuntimeThreadCommandType.UPDATE_PROVIDER_PROFILE \<Rightarrow>
         change_settings C command (\<lambda>settings.
           ebind (optional_credential (tc_credential_id command)) (\<lambda>credential_id.
           ebind (mk_ProfileId (tc_profile_id command)) (\<lambda>profile_id.
           Inr (stp_update settings profile_id (tc_display_name command) (tc_model command) credential_id)))) t
     | RuntimeThreadCommandType.DELETE_PROVIDER_PROFILE \<Rightarrow>
         change_settings C command (\<lambda>settings.
           ebind (mk_ProfileId (tc_profile_id command)) (\<lambda>profile_id. Inr (stp_delete settings profile_id))) t
     | RuntimeThreadCommandType.SAVE_PROVIDER_CREDENTIAL \<Rightarrow>
         change_settings C command (\<lambda>settings.
           ebind (mk_CredentialId (tc_credential_id command)) (\<lambda>credential_id.
           Inr (stp_save_credential settings credential_id (tc_secret command)))) t
     | RuntimeThreadCommandType.DELETE_PROVIDER_CREDENTIAL \<Rightarrow>
         change_settings C command (\<lambda>settings.
           ebind (mk_CredentialId (tc_credential_id command)) (\<lambda>credential_id.
           Inr (stp_delete_credential settings credential_id))) t
     | RuntimeThreadCommandType.REQUEST_AUTOSTART \<Rightarrow> execute_request_autostart X command t
     | RuntimeThreadCommandType.SET_AUTOSTART \<Rightarrow> execute_set_autostart X command t
     | RuntimeThreadCommandType.SHUTDOWN \<Rightarrow> run_controller (cp_shutdown C (tc_cancel_active command)) t)"

definition safe_failure :: "py_error \<Rightarrow> RuntimeCommandResult" where
  "safe_failure e =
    (case e of
       ProviderSettingsServiceError code message \<Rightarrow> rc_failure code message
     | AutostartOperationJournalError \<Rightarrow>
         rc_failure ''autostart_diagnostic_journal_failed'' ''The autostart diagnostic journal failed safely.''
     | _ \<Rightarrow> rc_failure ''runtime_command_failed'' ''The runtime command failed safely.'')"

text \<open>Only \<^verbatim>\<open>CancelledError\<close> leaves it.\<close>

definition execute_command_safely ::
    "'c controller_port \<Rightarrow> process_view \<Rightarrow> RuntimeThreadCommand \<Rightarrow> ('c, 'w) runtime_thread
     \<Rightarrow> (RuntimeCommandResult, ('c, 'w) runtime_thread) sres" where
  "execute_command_safely C X command t =
    (case execute_command C X command t of
       (Inr result, t1) \<Rightarrow> (Inr result, t1)
     | (Inl e, t1) \<Rightarrow> (if e = CancelledError then Inl CancelledError else Inr (safe_failure e), t1))"

subsection \<open>The command loop\<close>

definition cancelled_exit_outcome :: "('c, 'w) runtime_thread \<Rightarrow> ThreadExitOutcome" where
  "cancelled_exit_outcome t =
    (case th_active_command t of
       None \<Rightarrow>
         \<lparr>eo_command_id = [], eo_success = False, eo_safe_code = ''runtime_thread_cancelled'',
          eo_safe_message = ''The runtime thread was cancelled safely.''\<rparr>
     | Some command \<Rightarrow>
         if tc_type command = RuntimeThreadCommandType.SHUTDOWN
         then \<lparr>eo_command_id = tc_command_id command, eo_success = False,
               eo_safe_code = ''runtime_shutdown_cancelled'',
               eo_safe_message = ''Runtime shutdown was cancelled safely.''\<rparr>
         else \<lparr>eo_command_id = tc_command_id command, eo_success = False,
               eo_safe_code = ''runtime_command_cancelled'',
               eo_safe_message = ''The runtime command was cancelled safely.''\<rparr>)"

definition emit_result :: "RuntimeThreadCommand \<Rightarrow> RuntimeCommandResult \<Rightarrow> ('c, 'w) runtime_thread \<Rightarrow> ('c, 'w) runtime_thread" where
  "emit_result command result t =
    thread_emit (CommandResult (tc_command_id command) (rc_success result) (rc_safe_code result)
      (rc_safe_message result)) t"

definition exit_success :: "RuntimeThreadCommand \<Rightarrow> RuntimeCommandResult \<Rightarrow> ThreadExitOutcome" where
  "exit_success command result =
    \<lparr>eo_command_id = tc_command_id command, eo_success = True,
     eo_safe_code = rc_safe_code result, eo_safe_message = rc_safe_message result\<rparr>"

definition emit_snapshot :: "'c controller_port \<Rightarrow> ('c, 'w) runtime_thread \<Rightarrow> ('c, 'w) runtime_thread" where
  "emit_snapshot C t = thread_emit (SnapshotEmitted (cp_snapshot C (th_controller t))) t"

text \<open>
  One turn of the loop with the command it took from the queue: the outcome with which the loop ends,
  or nothing when it goes on; \<open>Inl\<close> when it was cancelled. The command's secret is released in every
  case.
\<close>

definition dispatch_command ::
    "'c controller_port \<Rightarrow> process_view \<Rightarrow> RuntimeThreadCommand \<Rightarrow> ('c, 'w) runtime_thread
     \<Rightarrow> (ThreadExitOutcome option, ('c, 'w) runtime_thread) sres" where
  "dispatch_command C X command t =
    (case execute_command_safely C X command (t\<lparr>th_active_command := Some command\<rparr>) of
       (Inl e, t1) \<Rightarrow> (Inl e, t1\<lparr>th_active_command := Some (clear_sensitive command)\<rparr>)
     | (Inr result, t1) \<Rightarrow>
         let t2 = emit_snapshot C (t1\<lparr>th_active_command := Some (clear_sensitive command)\<rparr>) in
         if tc_type command = RuntimeThreadCommandType.SHUTDOWN
         then (if rc_success result
               then (Inr (Some (exit_success command result)), stop_accepting (t2\<lparr>th_active_command := None\<rparr>))
               else (Inr None,
                     (allow_shutdown_retry (emit_result command result t2))\<lparr>th_active_command := None\<rparr>))
         else (Inr None, (emit_result command result t2)\<lparr>th_active_command := None\<rparr>))"

definition dispatch_next ::
    "'c controller_port \<Rightarrow> process_view \<Rightarrow> ('c, 'w) runtime_thread
     \<Rightarrow> (ThreadExitOutcome option, ('c, 'w) runtime_thread) sres option" where
  "dispatch_next C X t =
    (case th_queue t of
       [] \<Rightarrow> None
     | command # rest \<Rightarrow> Some (dispatch_command C X command (t\<lparr>th_queue := rest\<rparr>)))"

subsection \<open>Start and end of the thread\<close>

definition bootstrap_failed :: ThreadExitOutcome where
  "bootstrap_failed =
    \<lparr>eo_command_id = [], eo_success = False, eo_safe_code = ''runtime_bootstrap_failed'',
     eo_safe_message = ''The runtime thread failed to start safely.''\<rparr>"

definition thread_failed :: ThreadExitOutcome where
  "thread_failed =
    \<lparr>eo_command_id = [], eo_success = False, eo_safe_code = ''runtime_thread_failed'',
     eo_safe_message = ''The runtime thread stopped unexpectedly.''\<rparr>"

text \<open>
  The factories have run: the controller and the autostart service are there and the gate opens,
  unless a shutdown was requested before.
\<close>

definition thread_attach ::
    "'c \<Rightarrow> 'w AutostartService \<Rightarrow> ('c, 'w) runtime_thread
     \<Rightarrow> RuntimeThreadCommand option \<times> ('c, 'w) runtime_thread" where
  "thread_attach controller service t =
    (th_startup_shutdown t,
     t\<lparr>th_controller := controller, th_service := Some service, th_attached := True, th_ready := True,
       th_startup_shutdown := None,
       th_accepting := (th_accepting t \<or> th_startup_shutdown t = None \<and> \<not> th_closing t)\<rparr>)"

text \<open>
  What the thread does before its loop: announce itself, or execute the shutdown that was requested
  during the start.
\<close>

definition thread_enter ::
    "'c controller_port \<Rightarrow> process_view \<Rightarrow> RuntimeThreadCommand option \<Rightarrow> ('c, 'w) runtime_thread
     \<Rightarrow> (ThreadExitOutcome option, ('c, 'w) runtime_thread) sres" where
  "thread_enter C X startup t =
    (case startup of
       None \<Rightarrow> (Inr None, thread_emit (WorkerReady (cp_snapshot C (th_controller t))) t)
     | Some command \<Rightarrow>
         (case execute_command_safely C X command (t\<lparr>th_active_command := Some command\<rparr>) of
            (Inl e, t1) \<Rightarrow> (Inl e, t1)
          | (Inr result, t1) \<Rightarrow>
              let t2 = emit_snapshot C (t1\<lparr>th_active_command := None\<rparr>) in
              if rc_success result then (Inr (Some (exit_success command result)), t2)
              else (Inr None,
                    allow_shutdown_retry
                      (thread_emit (CommandResult (tc_command_id command) False (rc_safe_code result)
                         (rc_safe_message result)) t2))))"

definition attempt_controller_cleanup :: "'c controller_port \<Rightarrow> ('c, 'w) runtime_thread \<Rightarrow> ('c, 'w) runtime_thread" where
  "attempt_controller_cleanup C t =
    (if cp_closed C (th_controller t) then t
     else t\<lparr>th_controller := snd (cp_shutdown C True (th_controller t))\<rparr>)"

text \<open>
  The cleanup of the event loop: how each of its steps ended. \<open>pending\<close> is the number of tasks left, or
  nothing when they could not be counted. The first failure is the one reported.
\<close>

datatype step_end = Step_Ok | Step_Cancelled | Step_Raised

record loop_cleanup =
  lc_tasks :: step_end
  lc_asyncgens :: step_end
  lc_executor :: step_end
  lc_pending :: "nat option"
  lc_detached :: bool
  lc_closed :: bool

definition first_failure :: "RuntimeCommandResult option \<Rightarrow> RuntimeCommandResult option \<Rightarrow> RuntimeCommandResult option" where
  "first_failure failure next = (case failure of None \<Rightarrow> next | Some f \<Rightarrow> Some f)"

definition step_failure :: "step_end \<Rightarrow> string \<times> string \<Rightarrow> string \<times> string \<Rightarrow> RuntimeCommandResult option" where
  "step_failure e cancelled raised =
    (case e of
       Step_Ok \<Rightarrow> None
     | Step_Cancelled \<Rightarrow> Some (rc_failure (fst cancelled) (snd cancelled))
     | Step_Raised \<Rightarrow> Some (rc_failure (fst raised) (snd raised)))"

definition cleanup_failure :: "loop_cleanup \<Rightarrow> RuntimeCommandResult option" where
  "cleanup_failure l =
    fold (\<lambda>next failure. first_failure failure next)
     [step_failure (lc_tasks l)
        (''runtime_task_cleanup_cancelled'', ''Runtime task cleanup was cancelled.'')
        (''runtime_task_cleanup_failed'', ''The runtime could not cancel asynchronous work safely.''),
      step_failure (lc_asyncgens l)
        (''runtime_asyncgen_cleanup_cancelled'', ''Runtime asynchronous-generator cleanup was cancelled.'')
        (''runtime_asyncgen_cleanup_failed'', ''The runtime could not close asynchronous generators safely.''),
      step_failure (lc_executor l)
        (''runtime_executor_cleanup_cancelled'', ''Runtime executor cleanup was cancelled.'')
        (''runtime_executor_cleanup_failed'', ''The runtime could not close its executor safely.''),
      (case lc_pending l of
         None \<Rightarrow> Some (rc_failure ''runtime_task_cleanup_failed''
                   ''The runtime could not inspect pending tasks safely.'')
       | Some n \<Rightarrow> if n = 0 then None
                   else Some (rc_failure ''runtime_task_cleanup_failed''
                          ''The runtime left asynchronous work pending.'')),
      (if lc_detached l then None
       else Some (rc_failure ''runtime_loop_detach_failed''
              ''The runtime event loop could not be detached safely.'')),
      (if lc_closed l then None
       else Some (rc_failure ''runtime_loop_close_failed''
              ''The runtime event loop could not close safely.''))] None"

definition finalize_event_loop :: "('c, 'w) runtime_thread \<Rightarrow> ('c, 'w) runtime_thread" where
  "finalize_event_loop t =
    t\<lparr>th_ready := False, th_accepting := False, th_queue := [], th_attached := False,
      th_startup_shutdown := None\<rparr>"

definition emit_shutdown_outcome :: "ThreadExitOutcome \<Rightarrow> ('c, 'w) runtime_thread \<Rightarrow> ('c, 'w) runtime_thread" where
  "emit_shutdown_outcome o1 t =
    (thread_emit (OutcomeEmitted (eo_command_id o1) (eo_success o1) (eo_safe_code o1) (eo_safe_message o1)) t)
      \<lparr>th_outcome_emitted := True, th_active_command := None\<rparr>"

text \<open>The \<^verbatim>\<open>finally\<close> block of the thread's body.\<close>

definition thread_finish :: "loop_cleanup \<Rightarrow> ThreadExitOutcome \<Rightarrow> ('c, 'w) runtime_thread \<Rightarrow> ('c, 'w) runtime_thread" where
  "thread_finish l exit_outcome t =
    (let failure = cleanup_failure l;
         reported = (case failure of
            Some f \<Rightarrow> if eo_success exit_outcome
                      then exit_outcome\<lparr>eo_success := False, eo_safe_code := rc_safe_code f,
                                        eo_safe_message := rc_safe_message f\<rparr>
                      else exit_outcome
          | None \<Rightarrow> exit_outcome)
     in emit_shutdown_outcome reported (finalize_event_loop (stop_accepting t)))"

end
