(* ===== verification/Thread_Run.thy ===== *)
theory Thread_Run
  imports Runtime_Thread
begin

text \<open>
  The life of the runtime thread: it boots, enters its loop, dispatches commands, and exits, while the
  user interface submits commands at any time. \<open>thread_step\<close> is \<open>None\<close> when the step is not possible; it
  also keeps the identifiers of the commands the gate accepted, in order. The user interface hands a
  shutdown to \<^verbatim>\<open>request_shutdown\<close> and every other command to \<^verbatim>\<open>submit\<close>.
\<close>

section \<open>Steps\<close>

datatype thread_phase =
    Booting | Starting "RuntimeThreadCommand option" | Looping | Exiting ThreadExitOutcome | Finished

datatype ('c, 'w) thread_input =
    Submit bool RuntimeThreadCommand
  | Request_Shutdown bool RuntimeThreadCommand
  | Boot "('c \<times> 'w AutostartService) res"
  | Enter process_view
  | Dispatch process_view
  | Crash
  | Finish loop_cleanup

definition is_shutdown :: "RuntimeThreadCommand \<Rightarrow> bool" where
  "is_shutdown c \<longleftrightarrow> tc_type c = RuntimeThreadCommandType.SHUTDOWN"

record ('c, 'w) thread_life =
  tl_phase :: thread_phase
  tl_thread :: "('c, 'w) runtime_thread"
  tl_accepted :: "string list"

definition new_thread_life :: "'c \<Rightarrow> ('c, 'w) thread_life" where
  "new_thread_life c = \<lparr>tl_phase = Booting, tl_thread = new_runtime_thread c, tl_accepted = []\<rparr>"

definition gate_step ::
    "RuntimeThreadCommand \<Rightarrow> bool \<times> ('c, 'w) runtime_thread \<Rightarrow> ('c, 'w) thread_life \<Rightarrow> ('c, 'w) thread_life" where
  "gate_step command r s =
    s\<lparr>tl_thread := snd r, tl_accepted := tl_accepted s @ (if fst r then [tc_command_id command] else [])\<rparr>"

text \<open>Cancellation leaves the loop through the cleanup of the controller.\<close>

definition after_loop ::
    "'c controller_port \<Rightarrow> (ThreadExitOutcome option, ('c, 'w) runtime_thread) sres \<Rightarrow> ('c, 'w) thread_life
     \<Rightarrow> ('c, 'w) thread_life" where
  "after_loop C r s =
    (case r of
       (Inr None, t) \<Rightarrow> s\<lparr>tl_phase := Looping, tl_thread := t\<rparr>
     | (Inr (Some o1), t) \<Rightarrow> s\<lparr>tl_phase := Exiting o1, tl_thread := t\<rparr>
     | (Inl _, t) \<Rightarrow>
         s\<lparr>tl_phase := Exiting (cancelled_exit_outcome t), tl_thread := attempt_controller_cleanup C t\<rparr>)"

definition thread_step ::
    "'c controller_port \<Rightarrow> ('c, 'w) thread_input \<Rightarrow> ('c, 'w) thread_life \<Rightarrow> ('c, 'w) thread_life option" where
  "thread_step C i s =
    (let t = tl_thread s in
     case i of
       Submit alive command \<Rightarrow>
         if is_shutdown command then None
         else Some (gate_step command (thread_submit alive command t) s)
     | Request_Shutdown alive command \<Rightarrow>
         Some (gate_step command (thread_request_shutdown alive command t) s)
     | Boot r \<Rightarrow>
         (case tl_phase s of
            Booting \<Rightarrow>
              Some (case r of
                      Inl _ \<Rightarrow> s\<lparr>tl_phase := Exiting bootstrap_failed\<rparr>
                    | Inr (c, sv) \<Rightarrow>
                        (case thread_attach c sv t of
                           (startup, t1) \<Rightarrow> s\<lparr>tl_phase := Starting startup, tl_thread := t1\<rparr>))
          | _ \<Rightarrow> None)
     | Enter X \<Rightarrow>
         (case tl_phase s of
            Starting startup \<Rightarrow> Some (after_loop C (thread_enter C X startup t) s)
          | _ \<Rightarrow> None)
     | Dispatch X \<Rightarrow>
         (case tl_phase s of
            Looping \<Rightarrow> map_option (\<lambda>r. after_loop C r s) (dispatch_next C X t)
          | _ \<Rightarrow> None)
     | Crash \<Rightarrow>
         (case tl_phase s of
            Looping \<Rightarrow>
              Some (s\<lparr>tl_phase := Exiting thread_failed, tl_thread := attempt_controller_cleanup C t\<rparr>)
          | Starting startup \<Rightarrow>
              Some (s\<lparr>tl_phase := Exiting thread_failed, tl_thread := attempt_controller_cleanup C t\<rparr>)
          | _ \<Rightarrow> None)
     | Finish l \<Rightarrow>
         (case tl_phase s of
            Exiting o1 \<Rightarrow> Some (s\<lparr>tl_phase := Finished, tl_thread := thread_finish l o1 t\<rparr>)
          | _ \<Rightarrow> None))"

fun thread_run ::
    "'c controller_port \<Rightarrow> ('c, 'w) thread_input list \<Rightarrow> ('c, 'w) thread_life \<Rightarrow> ('c, 'w) thread_life option" where
  "thread_run C [] s = Some s"
| "thread_run C (i # is) s =
    (case thread_step C i s of None \<Rightarrow> None | Some s1 \<Rightarrow> thread_run C is s1)"

section \<open>The invariant\<close>

fun result_id :: "thread_signal \<Rightarrow> string list" where
  "result_id (CommandResult i _ _ _) = [i]"
| "result_id _ = []"

definition result_ids :: "('c, 'w) runtime_thread \<Rightarrow> string list" where
  "result_ids t = concat (map result_id (th_signals t))"

abbreviation ids :: "RuntimeThreadCommand list \<Rightarrow> string list" where
  "ids \<equiv> map tc_command_id"

abbreviation startup_list :: "RuntimeThreadCommand option \<Rightarrow> RuntimeThreadCommand list" where
  "startup_list c \<equiv> (case c of None \<Rightarrow> [] | Some x \<Rightarrow> [x])"

text \<open>
  The commands still to be executed hold at most one shutdown, in the last place, exactly while a
  shutdown is in flight; and while one is, or after one has failed, the gate stays closed.
\<close>

definition backlog_ok :: "RuntimeThreadCommand list \<Rightarrow> ('c, 'w) runtime_thread \<Rightarrow> bool" where
  "backlog_ok backlog t \<longleftrightarrow>
     list_all (\<lambda>c. \<not> is_shutdown c) (butlast backlog)
     \<and> (th_shutdown_in_flight t \<longleftrightarrow> backlog \<noteq> [] \<and> is_shutdown (last backlog))
     \<and> (th_shutdown_in_flight t \<longrightarrow> th_closing t)"

fun phase_ok :: "thread_phase \<Rightarrow> ('c, 'w) runtime_thread \<Rightarrow> string list \<Rightarrow> bool" where
  "phase_ok Booting t accepted \<longleftrightarrow>
     \<not> th_attached t \<and> \<not> th_ready t \<and> \<not> th_accepting t \<and> th_queue t = [] \<and> result_ids t = []
     \<and> backlog_ok (startup_list (th_startup_shutdown t)) t
     \<and> (th_startup_shutdown t \<noteq> None \<longrightarrow> th_shutdown_in_flight t)
     \<and> accepted = ids (startup_list (th_startup_shutdown t))"
| "phase_ok (Starting startup) t accepted \<longleftrightarrow>
     th_attached t \<and> result_ids t = []
     \<and> (startup \<noteq> None \<longrightarrow> th_queue t = [] \<and> th_shutdown_in_flight t)
     \<and> backlog_ok (startup_list startup @ th_queue t) t
     \<and> accepted = ids (startup_list startup @ th_queue t)"
| "phase_ok Looping t accepted \<longleftrightarrow>
     th_attached t \<and> backlog_ok (th_queue t) t \<and> accepted = result_ids t @ ids (th_queue t)"
| "phase_ok (Exiting o1) t accepted \<longleftrightarrow>
     (\<exists>unanswered. accepted = result_ids t @ unanswered)
     \<and> (eo_success o1 \<longrightarrow>
          th_shutdown_in_flight t \<and> th_closing t \<and> th_queue t = []
          \<and> accepted = result_ids t @ [eo_command_id o1])"
| "phase_ok Finished t accepted \<longleftrightarrow>
     \<not> th_attached t \<and> th_closing t \<and> th_shutdown_in_flight t
     \<and> (\<exists>unanswered. accepted = result_ids t @ unanswered)"

definition life_ok :: "('c, 'w) thread_life \<Rightarrow> bool" where
  "life_ok s \<longleftrightarrow> phase_ok (tl_phase s) (tl_thread s) (tl_accepted s)"

lemma result_ids_emit [simp]: "result_ids (thread_emit sig t) = result_ids t @ result_id sig"
  by (simp add: result_ids_def thread_emit_def)

lemma thread_emit_fields [simp]:
  "th_controller (thread_emit sig t) = th_controller t" "th_attached (thread_emit sig t) = th_attached t"
  "th_queue (thread_emit sig t) = th_queue t" "th_ready (thread_emit sig t) = th_ready t"
  "th_accepting (thread_emit sig t) = th_accepting t" "th_closing (thread_emit sig t) = th_closing t"
  "th_shutdown_in_flight (thread_emit sig t) = th_shutdown_in_flight t"
  "th_startup_shutdown (thread_emit sig t) = th_startup_shutdown t"
  by (simp_all add: thread_emit_def)

lemma result_ids_update [simp]:
  "result_ids (t\<lparr>th_controller := c\<rparr>) = result_ids t" "result_ids (t\<lparr>th_service := v\<rparr>) = result_ids t"
  "result_ids (t\<lparr>th_attached := b\<rparr>) = result_ids t" "result_ids (t\<lparr>th_queue := q\<rparr>) = result_ids t"
  "result_ids (t\<lparr>th_ready := b\<rparr>) = result_ids t" "result_ids (t\<lparr>th_accepting := b\<rparr>) = result_ids t"
  "result_ids (t\<lparr>th_closing := b\<rparr>) = result_ids t"
  "result_ids (t\<lparr>th_shutdown_in_flight := b\<rparr>) = result_ids t"
  "result_ids (t\<lparr>th_startup_shutdown := x\<rparr>) = result_ids t"
  "result_ids (t\<lparr>th_active_command := x\<rparr>) = result_ids t"
  "result_ids (t\<lparr>th_outcome_emitted := b\<rparr>) = result_ids t"
  by (simp_all add: result_ids_def)

text \<open>Executing a command answers nothing and leaves the gate alone.\<close>

definition gate_unchanged :: "('c, 'w) runtime_thread \<Rightarrow> ('c, 'w) runtime_thread \<Rightarrow> bool" where
  "gate_unchanged t t' \<longleftrightarrow>
     result_ids t' = result_ids t \<and> th_attached t' = th_attached t \<and> th_queue t' = th_queue t
     \<and> th_ready t' = th_ready t \<and> th_accepting t' = th_accepting t \<and> th_closing t' = th_closing t
     \<and> th_shutdown_in_flight t' = th_shutdown_in_flight t
     \<and> th_startup_shutdown t' = th_startup_shutdown t"

lemma gate_unchanged_refl [simp, intro]: "gate_unchanged t t"
  by (simp add: gate_unchanged_def)

lemma gate_unchanged_trans: "gate_unchanged t u \<Longrightarrow> gate_unchanged u v \<Longrightarrow> gate_unchanged t v"
  by (simp add: gate_unchanged_def)

lemma gate_unchanged_emit: "result_id sig = [] \<Longrightarrow> gate_unchanged t (thread_emit sig t)"
  by (simp add: gate_unchanged_def)

lemma gate_unchanged_update [simp, intro]:
  "gate_unchanged t (t\<lparr>th_controller := c\<rparr>)" "gate_unchanged t (put_service sv t)"
  "gate_unchanged t (t\<lparr>th_active_command := x\<rparr>)"
  by (auto simp: gate_unchanged_def result_ids_def put_service_def)

lemma gate_unchanged_active [simp]:
  "gate_unchanged (t\<lparr>th_active_command := x\<rparr>) t' = gate_unchanged t t'"
  "gate_unchanged t (t'\<lparr>th_active_command := x\<rparr>) = gate_unchanged t t'"
  by (simp_all add: gate_unchanged_def)

lemma run_controller_gate: "gate_unchanged t (snd (run_controller f t))"
  by (simp add: run_controller_def split: prod.split)

lemma with_res_gate:
  "(\<And>v. gate_unchanged t (snd (f v))) \<Longrightarrow> gate_unchanged t (snd (with_res r t f))"
  by (cases r) auto

lemma on_autostart_gate:
  "(\<And>v sv. gate_unchanged t (snd (f v sv (put_service sv t)))) \<Longrightarrow> gate_unchanged t (snd (on_autostart r t f))"
  by (auto simp: on_autostart_def split: prod.split sum.split)

lemma publish_gate: "gate_unchanged t (snd (publish_provider_settings C command t))"
  unfolding publish_provider_settings_def Let_def
  by (intro with_res_gate) (simp add: gate_unchanged_emit)

lemma change_settings_gate: "gate_unchanged t (snd (change_settings C command f t))"
proof -
  have "gate_unchanged t (snd (sbind (run_controller g t) (\<lambda>_ t1. publish_provider_settings C command t1)))" for g
  proof (cases "run_controller g t")
    case (Pair r t1)
    then have "gate_unchanged t t1" using run_controller_gate [of t g] by simp
    with Pair publish_gate [of t1 C command] show ?thesis
      by (cases r) (auto intro: gate_unchanged_trans)
  qed
  then show ?thesis unfolding change_settings_def by (intro with_res_gate)
qed

lemma execute_autostart_gate:
  "gate_unchanged t (snd (execute_request_autostart X command t))"
  "gate_unchanged t (snd (execute_set_autostart X command t))"
proof -
  have emit: "gate_unchanged t (snd (on_autostart r (thread_emit sig (put_service sv u)) (\<lambda>_ _ t3. (w, t3))))"
    if "result_id sig = []" "gate_unchanged t u"
    for r :: "(unit, 'b AutostartService) sres" and sig sv u and w :: "RuntimeCommandResult res"
  proof -
    have "gate_unchanged t (thread_emit sig (put_service sv u))"
      using that by (meson gate_unchanged_emit gate_unchanged_trans gate_unchanged_update(2))
    moreover have "gate_unchanged (thread_emit sig (put_service sv u))
        (snd (on_autostart r (thread_emit sig (put_service sv u)) (\<lambda>_ _ t3. (w, t3))))"
      by (rule on_autostart_gate) simp
    ultimately show ?thesis by (rule gate_unchanged_trans)
  qed
  show "gate_unchanged t (snd (execute_request_autostart X command t))"
    by (auto simp: execute_request_autostart_def Let_def split: option.split prod.split
        intro!: on_autostart_gate emit)
  show "gate_unchanged t (snd (execute_set_autostart X command t))"
    by (auto simp: execute_set_autostart_def Let_def split: option.split prod.split
        intro!: on_autostart_gate emit)
qed

lemma execute_command_gate: "gate_unchanged t (snd (execute_command C X command t))"
proof -
  have "gate_unchanged t (snd (execute_activate C command t))"
    by (simp add: execute_activate_def run_controller_gate split: option.split sum.split)
  then show ?thesis
    using change_settings_gate [of t C command] publish_gate [of t C command]
      execute_autostart_gate [of t X command]
    by (cases "tc_type command") (simp_all add: execute_command_def run_controller_gate)
qed

lemma execute_safely_gate:
  "execute_command_safely C X command t = (r, t1) \<Longrightarrow> gate_unchanged t t1"
  using execute_command_gate [of t C X command]
  by (auto simp: execute_command_safely_def split: prod.splits sum.splits)

lemma life_ok_new: "life_ok (new_thread_life c)"
  by (simp add: life_ok_def new_thread_life_def new_runtime_thread_def backlog_ok_def result_ids_def)

subsection \<open>The gate\<close>

lemma thread_submit_cases:
  assumes "thread_submit alive c t = (b, t')"
  obtains (taken) "b" "t' = t\<lparr>th_queue := th_queue t @ [c]\<rparr>" "th_attached t" "th_accepting t" "\<not> th_closing t"
    | (refused) "\<not> b" "t' = t"
  using assms by (auto simp: thread_submit_def split: if_splits)

lemma request_cases:
  assumes "thread_request_shutdown alive c t = (b, t')"
  obtains (queued) "b" "th_attached t" "is_shutdown c" "\<not> th_shutdown_in_flight t"
      "t' = t\<lparr>th_shutdown_in_flight := True, th_closing := True, th_accepting := False, th_queue := th_queue t @ [c]\<rparr>"
    | (startup) "b" "\<not> th_attached t" "is_shutdown c" "\<not> th_shutdown_in_flight t"
      "t' = t\<lparr>th_startup_shutdown := Some c, th_shutdown_in_flight := True, th_closing := True, th_accepting := False\<rparr>"
    | (closed) "\<not> b" "th_attached t" "\<not> th_shutdown_in_flight t"
      "t' = t\<lparr>th_shutdown_in_flight := False, th_closing := True, th_accepting := False\<rparr>"
    | (refused) "\<not> b" "t' = t"
proof -
  consider "\<not> is_shutdown c \<or> th_shutdown_in_flight t"
    | "is_shutdown c" "\<not> th_shutdown_in_flight t" "\<not> th_attached t"
    | "is_shutdown c" "\<not> th_shutdown_in_flight t" "th_attached t" by blast
  then show thesis
  proof cases
    case 1
    then have "\<not> b" "t' = t"
      using assms by (auto simp: thread_request_shutdown_def is_shutdown_def split: if_splits)
    then show thesis by (rule refused)
  next
    case 2
    then have "if th_closing t then \<not> b \<and> t' = t
      else b \<and> t' = t\<lparr>th_startup_shutdown := Some c, th_shutdown_in_flight := True,
                          th_closing := True, th_accepting := False\<rparr>"
      using assms by (auto simp: thread_request_shutdown_def is_shutdown_def)
    with 2 refused startup show thesis by (auto split: if_splits)
  next
    case 3
    then have "if \<not> th_ready t then \<not> b \<and> t' = t
      else if \<not> alive
      then \<not> b \<and> t' = t\<lparr>th_shutdown_in_flight := False, th_closing := True, th_accepting := False\<rparr>
      else b \<and> t' = t\<lparr>th_shutdown_in_flight := True, th_closing := True, th_accepting := False,
                          th_queue := th_queue t @ [c]\<rparr>"
      using assms by (auto simp: thread_request_shutdown_def is_shutdown_def Let_def)
    with 3 refused closed queued show thesis by (auto split: if_splits)
  qed
qed

lemma backlog_append:
  assumes "backlog_ok q t" and "\<not> th_shutdown_in_flight t"
  shows "list_all (\<lambda>c. \<not> is_shutdown c) q"
  using assms by (cases q rule: rev_cases) (auto simp: backlog_ok_def)

lemma submit_ok:
  assumes ok: "life_ok s" and r: "thread_submit alive c (tl_thread s) = (b, t')" and "\<not> is_shutdown c"
  shows "life_ok (gate_step c (b, t') s)"
  using r
proof (cases rule: thread_submit_cases)
  case taken
  let ?t = "tl_thread s"
  have bl: "backlog_ok (q @ [c]) (?t\<lparr>th_queue := q'\<rparr>)" if "backlog_ok q ?t" for q q'
    using that taken(5) assms(3) backlog_append [OF that] by (auto simp: backlog_ok_def)
  show ?thesis
  proof (cases "tl_phase s")
    case (Starting startup)
    with ok taken have "startup = None"
      by (cases startup) (auto simp: life_ok_def backlog_ok_def is_shutdown_def)
    with ok taken Starting bl [of "th_queue ?t"] show ?thesis
      by (simp add: life_ok_def gate_step_def)
  next
    case Looping
    with ok taken bl [of "th_queue ?t"] show ?thesis
      by (simp add: life_ok_def gate_step_def)
  qed (use ok taken in \<open>auto simp: life_ok_def gate_step_def\<close>)
qed (use ok in \<open>simp add: gate_step_def\<close>)

lemma request_ok:
  assumes ok: "life_ok s" and r: "thread_request_shutdown alive c (tl_thread s) = (b, t')"
  shows "life_ok (gate_step c (b, t') s)"
  using r
proof (cases rule: request_cases)
  case queued
  let ?t = "tl_thread s"
  have bl: "backlog_ok (q @ [c]) t'" if "backlog_ok q ?t" for q
    using that queued backlog_append [OF that] by (simp add: backlog_ok_def)
  show ?thesis
  proof (cases "tl_phase s")
    case (Starting startup)
    with ok queued have "startup = None"
      by (cases startup) (auto simp: life_ok_def backlog_ok_def)
    with ok queued Starting bl [of "th_queue ?t"] show ?thesis
      by (simp add: life_ok_def gate_step_def)
  next
    case Looping
    with ok queued bl [of "th_queue ?t"] show ?thesis by (simp add: life_ok_def gate_step_def)
  qed (use ok queued in \<open>auto simp: life_ok_def gate_step_def\<close>)
next
  case startup
  show ?thesis
  proof (cases "tl_phase s")
    case Booting
    with ok startup have "th_startup_shutdown (tl_thread s) = None"
      by (cases "th_startup_shutdown (tl_thread s)") (auto simp: life_ok_def backlog_ok_def)
    with ok startup Booting show ?thesis by (simp add: life_ok_def gate_step_def backlog_ok_def)
  qed (use ok startup in \<open>auto simp: life_ok_def gate_step_def\<close>)
next
  case closed
  then have bl: "backlog_ok q (tl_thread s) \<Longrightarrow> backlog_ok q t'" for q
    by (simp add: backlog_ok_def)
  have fields: "th_attached t'" "th_queue t' = th_queue (tl_thread s)" "result_ids t' = result_ids (tl_thread s)"
      "th_startup_shutdown t' = th_startup_shutdown (tl_thread s)"
    using closed by simp_all
  show ?thesis
    using ok closed(1,2,3) bl fields
    by (cases "tl_phase s") (simp_all add: life_ok_def gate_step_def)
qed (use ok in \<open>simp add: gate_step_def\<close>)

subsection \<open>Boot, loop and exit\<close>

lemma boot_ok:
  assumes ok: "life_ok s" and ph: "tl_phase s = Booting"
    and a: "thread_attach c sv (tl_thread s) = (startup, t1)"
  shows "life_ok (s\<lparr>tl_phase := Starting startup, tl_thread := t1\<rparr>)"
  using assms by (auto simp: life_ok_def thread_attach_def backlog_ok_def result_ids_def split: option.splits)

lemma cleanup_gate: "gate_unchanged t (attempt_controller_cleanup C t)"
  by (simp add: attempt_controller_cleanup_def)

lemma emit_snapshot_gate: "gate_unchanged t (emit_snapshot C t)"
  by (simp add: emit_snapshot_def gate_unchanged_emit)

lemma backlog_gate: "gate_unchanged t t' \<Longrightarrow> backlog_ok q t' = backlog_ok q t"
  by (simp add: backlog_ok_def gate_unchanged_def)

lemma gate_unchangedD:
  assumes "gate_unchanged t t'"
  shows "result_ids t' = result_ids t" "th_attached t' = th_attached t" "th_queue t' = th_queue t"
    "th_closing t' = th_closing t" "th_shutdown_in_flight t' = th_shutdown_in_flight t"
  using assms by (simp_all add: gate_unchanged_def)

lemma cancelled_not_success [simp]: "\<not> eo_success (cancelled_exit_outcome t)"
  by (simp add: cancelled_exit_outcome_def split: option.split)

text \<open>
  The backlog \<open>command # rest\<close> after its first command has been dealt with.
\<close>

lemma dispatch_ok:
  assumes acc: "tl_accepted s = result_ids t @ ids (command # th_queue t)"
    and bl: "backlog_ok (command # th_queue t) t" and att: "th_attached t"
  shows "life_ok (after_loop C (dispatch_command C X command t) s)"
proof -
  obtain r t1 where ex: "execute_command_safely C X command (t\<lparr>th_active_command := Some command\<rparr>) = (r, t1)"
    by force
  let ?t2 = "t1\<lparr>th_active_command := Some (clear_sensitive command)\<rparr>"
  have g1: "gate_unchanged t ?t2"
    using execute_safely_gate [OF ex] by simp
  have g2: "gate_unchanged t (emit_snapshot C ?t2)"
    using g1 emit_snapshot_gate by (rule gate_unchanged_trans)
  note G1 = gate_unchangedD [OF g1] and G2 = gate_unchangedD [OF g2]
  show ?thesis
  proof (cases r)
    case (Inl e)
    have "gate_unchanged t (attempt_controller_cleanup C ?t2)"
      using g1 cleanup_gate by (rule gate_unchanged_trans)
    with Inl ex acc show ?thesis
      by (auto simp: dispatch_command_def after_loop_def life_ok_def gate_unchanged_def)
  next
    case (Inr result)
    show ?thesis
    proof (cases "is_shutdown command")
      case True
      then have last: "th_queue t = []" "th_shutdown_in_flight t" "th_closing t"
        using bl by (auto simp: backlog_ok_def split: if_splits)
      have sd: "tc_type command = RuntimeThreadCommandType.SHUTDOWN" using True by (simp add: is_shutdown_def)
      have R: "result_ids (stop_accepting u) = result_ids u" "result_ids (allow_shutdown_retry u) = result_ids u"
        "result_ids (u\<lparr>th_active_command := x\<rparr>) = result_ids u" for u :: "('a, 'b) runtime_thread" and x
        by (simp_all add: result_ids_def stop_accepting_def allow_shutdown_retry_def)
      show ?thesis
      proof (cases "rc_success result")
        case True
        then show ?thesis
          using sd Inr ex acc G2 last
          by (simp add: dispatch_command_def after_loop_def life_ok_def exit_success_def R)
            (simp add: stop_accepting_def)
      next
        case False
        then show ?thesis
          using sd Inr ex acc att G2 last
          by (simp add: dispatch_command_def after_loop_def life_ok_def emit_result_def R)
            (simp add: allow_shutdown_retry_def backlog_ok_def)
      qed
    next
      case False
      have "backlog_ok (th_queue t) t"
        using bl False by (cases "th_queue t") (auto simp: backlog_ok_def)
      then have "backlog_ok (th_queue t)
          ((emit_result command result (emit_snapshot C ?t2))\<lparr>th_active_command := None\<rparr>)"
        using G2 by (simp add: backlog_ok_def emit_result_def)
      then show ?thesis
        using False Inr ex acc att G2
        by (simp add: dispatch_command_def after_loop_def life_ok_def is_shutdown_def emit_result_def Let_def)
    qed
  qed
qed

lemma thread_enter_ok:
  assumes ok: "life_ok s" and ph: "tl_phase s = Starting startup"
  shows "life_ok (after_loop C (thread_enter C X startup (tl_thread s)) s)"
proof (cases startup)
  case None
  with ok ph show ?thesis
    by (simp add: thread_enter_def after_loop_def life_ok_def backlog_ok_def)
next
  case (Some command)
  let ?t = "tl_thread s"
  have st: "th_attached ?t" "result_ids ?t = []" "th_queue ?t = []" "th_shutdown_in_flight ?t" "th_closing ?t"
      "tl_accepted s = [tc_command_id command]" "is_shutdown command"
  proof -
    show "th_attached ?t" "result_ids ?t = []" "th_queue ?t = []" "tl_accepted s = [tc_command_id command]"
      "th_shutdown_in_flight ?t" "th_closing ?t" "is_shutdown command"
      using ok ph Some by (auto simp: life_ok_def backlog_ok_def)
  qed
  obtain r t1 where ex: "execute_command_safely C X command (?t\<lparr>th_active_command := Some command\<rparr>) = (r, t1)"
    by force
  have g1: "gate_unchanged ?t t1"
    using execute_safely_gate [OF ex] by simp
  have g2: "gate_unchanged ?t (emit_snapshot C (t1\<lparr>th_active_command := None\<rparr>))"
    using gate_unchanged_trans [OF _ emit_snapshot_gate, of ?t "t1\<lparr>th_active_command := None\<rparr>" C] g1 by simp
  note G2 = gate_unchangedD [OF g2]
  show ?thesis
  proof (cases r)
    case (Inl e)
    have "gate_unchanged ?t (attempt_controller_cleanup C t1)"
      using g1 cleanup_gate by (rule gate_unchanged_trans)
    with Inl ex st Some show ?thesis
      by (auto simp: thread_enter_def after_loop_def life_ok_def gate_unchanged_def)
  next
    case (Inr result)
    then show ?thesis
      using Some ex st G2
      by (cases "rc_success result")
        (simp_all add: thread_enter_def after_loop_def life_ok_def exit_success_def allow_shutdown_retry_def
          backlog_ok_def Let_def)
  qed
qed

lemma life_ok_step:
  assumes ok: "life_ok s" and st: "thread_step C i s = Some s'"
  shows "life_ok s'"
proof (cases i)
  case (Submit alive c)
  obtain b t' where "thread_submit alive c (tl_thread s) = (b, t')" by force
  with submit_ok [OF ok this] st Submit show ?thesis by (auto simp: thread_step_def split: if_splits)
next
  case (Request_Shutdown alive c)
  obtain b t' where "thread_request_shutdown alive c (tl_thread s) = (b, t')" by force
  with request_ok [OF ok this] st Request_Shutdown show ?thesis by (auto simp: thread_step_def)
next
  case (Boot r)
  then have ph: "tl_phase s = Booting" using st by (auto simp: thread_step_def split: thread_phase.splits)
  show ?thesis
  proof (cases r)
    case (Inl e)
    with st Boot ph ok show ?thesis
      by (auto simp: thread_step_def life_ok_def bootstrap_failed_def)
  next
    case (Inr cs)
    obtain c sv where cs: "cs = (c, sv)" by (cases cs)
    obtain startup t1 where a: "thread_attach c sv (tl_thread s) = (startup, t1)" by force
    from boot_ok [OF ok ph a] Inr cs a st Boot ph show ?thesis by (simp add: thread_step_def)
  qed
next
  case (Enter X)
  then obtain startup where "tl_phase s = Starting startup"
    using st by (auto simp: thread_step_def split: thread_phase.splits)
  from thread_enter_ok [OF ok this, of C X] this st Enter show ?thesis by (auto simp: thread_step_def)
next
  case (Dispatch X)
  then have ph: "tl_phase s = Looping" using st by (auto simp: thread_step_def split: thread_phase.splits)
  with st Dispatch obtain command rest where q: "th_queue (tl_thread s) = command # rest"
    by (auto simp: thread_step_def dispatch_next_def Let_def split: list.splits)
  have "life_ok (after_loop C (dispatch_command C X command ((tl_thread s)\<lparr>th_queue := rest\<rparr>)) s)"
    using ok ph q by (intro dispatch_ok) (simp_all add: life_ok_def backlog_ok_def)
  with st Dispatch ph q show ?thesis by (auto simp: thread_step_def dispatch_next_def)
next
  case Crash
  have "result_ids (attempt_controller_cleanup C (tl_thread s)) = result_ids (tl_thread s)"
    using gate_unchangedD(1) [OF cleanup_gate] .
  with Crash st ok show ?thesis
    by (auto simp: thread_step_def Let_def life_ok_def thread_failed_def split: thread_phase.splits)
next
  case (Finish l)
  then obtain o1 where "tl_phase s = Exiting o1"
    using st by (auto simp: thread_step_def split: thread_phase.splits)
  with Finish st ok show ?thesis
    by (auto simp: thread_step_def life_ok_def thread_finish_def finalize_event_loop_def stop_accepting_def
        emit_shutdown_outcome_def Let_def)
qed

lemma life_ok_run: "life_ok s \<Longrightarrow> thread_run C is s = Some s' \<Longrightarrow> life_ok s'"
  by (induction C "is" s rule: thread_run.induct) (auto split: option.splits intro: life_ok_step)

end
