(* ===== verification/Runtime_Bridge.thy ===== *)
theory Runtime_Bridge
  imports Runtime_Thread "HOL-Library.Multiset"
begin

text \<open>
  The user interface's end of the runtime thread, \<^verbatim>\<open>presentation/qt/platform/runtime_bridge.py\<close>: every
  command gets an identifier and is answered by a signal, completed or failed.

  The identifier that \<^verbatim>\<open>_new_command_id\<close> settles on is an argument of the command: it redraws while the
  identifier is pending, so the argument is one that is not. What the thread answers to \<^verbatim>\<open>submit\<close> and
  whether starting it raises are arguments too; what the bridge asks of the thread is a log, as are
  the signals it emits. The set of pending identifiers is a list, and \<^verbatim>\<open>_fail_all_pending\<close> goes through it
  in this order; a set's order is arbitrary, and nothing below depends on it.
\<close>

section \<open>State\<close>

datatype BridgeState = NEW | STARTING | READY | CLOSING | CLOSED | FAILED

datatype bridge_signal =
    RuntimeReady
  | RuntimeStateChanged RuntimeSnapshot
  | ProviderLifecycleChanged RuntimeSnapshot
  | TurnStarted string
  | AgentStateChanged string string
  | TextDelta string string
  | TurnCompleted string string
  | TurnCancelled string
  | TurnFailed string string string
  | CommandCompleted string
  | CommandFailed string string string
  | ProviderSettingsChanged string ProviderSettingsSnapshot
  | AutostartStateChanged string AutostartSnapshot
  | RuntimeClosing
  | ShutdownFinished bool string

datatype thread_call = StartCall | SubmitCall RuntimeThreadCommand | ShutdownCall RuntimeThreadCommand

record bridge =
  br_state :: BridgeState
  br_start_command_id :: "string option"
  br_shutdown_command_id :: "string option"
  br_shutdown_outcome :: "ThreadExitOutcome option"
  br_pending :: "string list"
  br_contexts :: "string \<Rightarrow> AutostartOperationContext option"
  br_protocol_failure :: "(string \<times> string) option"
  br_journal :: "AutostartOperationJournal option"
  br_signals :: "bridge_signal list"
  br_calls :: "thread_call list"

definition new_bridge :: "AutostartOperationJournal option \<Rightarrow> bridge" where
  "new_bridge journal =
    \<lparr>br_state = BridgeState.NEW, br_start_command_id = None, br_shutdown_command_id = None,
     br_shutdown_outcome = None, br_pending = [], br_contexts = (\<lambda>_. None),
     br_protocol_failure = None, br_journal = journal, br_signals = [], br_calls = []\<rparr>"

definition signal :: "bridge_signal \<Rightarrow> bridge \<Rightarrow> bridge" where
  "signal sg b = b\<lparr>br_signals := br_signals b @ [sg]\<rparr>"

definition call_thread :: "thread_call \<Rightarrow> bridge \<Rightarrow> bridge" where
  "call_thread c b = b\<lparr>br_calls := br_calls b @ [c]\<rparr>"

definition accepting_commands :: "bridge \<Rightarrow> bool" where
  "accepting_commands b \<longleftrightarrow> br_state b = BridgeState.READY"

definition is_command_pending :: "string \<Rightarrow> bridge \<Rightarrow> bool" where
  "is_command_pending i b \<longleftrightarrow> i \<in> set (br_pending b)"

section \<open>Answering commands\<close>

definition bridge_record ::
    "AutostartOperationEvent \<Rightarrow> AutostartOperationContext \<Rightarrow> string \<Rightarrow> bridge \<Rightarrow> bool \<times> bridge" where
  "bridge_record event context code b =
    (case br_journal b of
       None \<Rightarrow> (True, b)
     | Some journal \<Rightarrow>
         (case journal_record event context
                 (if br_state b = BridgeState.CLOSING then RUNTIME_CLOSING else RUNTIME_READY) code journal of
            (Inl _, j) \<Rightarrow> (False, b\<lparr>br_journal := Some j\<rparr>)
          | (Inr _, j) \<Rightarrow> (True, b\<lparr>br_journal := Some j\<rparr>)))"

definition new_command_id :: "string \<Rightarrow> bridge \<Rightarrow> bridge" where
  "new_command_id i b = b\<lparr>br_pending := br_pending b @ [i]\<rparr>"

definition release_command :: "string \<Rightarrow> bridge \<Rightarrow> bridge" where
  "release_command i b =
    b\<lparr>br_pending := remove1 i (br_pending b), br_contexts := (br_contexts b)(i := None)\<rparr>"

definition complete_command :: "string \<Rightarrow> bridge \<Rightarrow> bridge" where
  "complete_command i b =
    (if i \<notin> set (br_pending b) then b
     else
       let (recorded, b1) =
         (case br_contexts b i of
            None \<Rightarrow> (True, b)
          | Some context \<Rightarrow> bridge_record COMMAND_COMPLETED context ''none'' b) in
       if recorded then signal (CommandCompleted i) (release_command i b1)
       else signal (CommandFailed i ''autostart_diagnostic_journal_failed''
              ''The autostart diagnostic journal failed safely.'') (release_command i b1))"

definition fail_command :: "string \<Rightarrow> string \<Rightarrow> string \<Rightarrow> bridge \<Rightarrow> bridge" where
  "fail_command i code message b =
    (if i \<notin> set (br_pending b) then b
     else
       let b1 = (case br_contexts b i of
                   None \<Rightarrow> b
                 | Some context \<Rightarrow> snd (bridge_record COMMAND_FAILED context code b)) in
       signal (CommandFailed i code message) (release_command i b1))"

definition fail_all_pending :: "string \<Rightarrow> string \<Rightarrow> bridge \<Rightarrow> bridge" where
  "fail_all_pending code message b = fold (\<lambda>i. fail_command i code message) (br_pending b) b"

section \<open>Commands\<close>

definition bridge_submit :: "bool \<Rightarrow> RuntimeThreadCommand \<Rightarrow> bridge \<Rightarrow> bridge" where
  "bridge_submit accepts command b =
    (let i = tc_command_id command in
     if br_state b = BridgeState.STARTING
     then fail_command i ''runtime_not_ready'' ''Wait for runtime_ready before sending commands.'' b
     else if br_state b = BridgeState.CLOSING
     then fail_command i ''runtime_closing'' ''The runtime is closing.'' b
     else if br_state b \<in> {BridgeState.CLOSED, BridgeState.FAILED}
     then fail_command i ''runtime_closed'' ''The runtime is closed.'' b
     else if br_state b \<noteq> BridgeState.READY
     then fail_command i ''runtime_not_ready'' ''The runtime is not ready.'' b
     else
       let (recorded, b1) =
         (case br_contexts b i of
            None \<Rightarrow> (True, b)
          | Some context \<Rightarrow> bridge_record COMMAND_SUBMITTED context ''none'' b) in
       if \<not> recorded
       then fail_command i ''autostart_diagnostic_journal_failed''
              ''The autostart diagnostic journal failed safely.'' b1
       else if \<not> accepts
       then fail_command i ''runtime_not_ready'' ''The runtime cannot accept commands.''
              (call_thread (SubmitCall command) b1)
       else call_thread (SubmitCall command) b1)"

definition start_runtime :: "bool \<Rightarrow> string \<Rightarrow> bridge \<Rightarrow> bridge" where
  "start_runtime starts i b =
    (let b1 = new_command_id i b in
     if br_state b1 \<noteq> BridgeState.NEW
     then fail_command i ''runtime_already_started'' ''The runtime has already been started.'' b1
     else let b2 = call_thread StartCall
                (b1\<lparr>br_state := BridgeState.STARTING, br_start_command_id := Some i\<rparr>) in
          if starts then b2
          else fail_command i ''runtime_start_failed'' ''The runtime thread could not be started safely.''
                 (b2\<lparr>br_state := BridgeState.FAILED, br_start_command_id := None\<rparr>))"

definition reject_command :: "string \<Rightarrow> string \<Rightarrow> bridge \<Rightarrow> bridge" where
  "reject_command i message b = fail_command i ''invalid_command'' message b"

definition bridge_activate_profile ::
    "bool \<Rightarrow> string \<Rightarrow> string \<Rightarrow> ProviderActivationOptions \<Rightarrow> ActiveTurnHandling option \<Rightarrow> bridge \<Rightarrow> bridge" where
  "bridge_activate_profile accepts i profile_id options turn_handling b =
    (let b1 = new_command_id i b in
     if blank profile_id then reject_command i ''The Provider profile identifier must not be blank.'' b1
     else bridge_submit accepts
            ((thread_command i RuntimeThreadCommandType.ACTIVATE_PROFILE)
               \<lparr>tc_profile_id := py_strip profile_id, tc_options := Some options,
                tc_turn_handling := turn_handling\<rparr>) b1)"

definition bridge_send_message :: "bool \<Rightarrow> string \<Rightarrow> string \<Rightarrow> string \<Rightarrow> bridge \<Rightarrow> bridge" where
  "bridge_send_message accepts i content session_id b =
    (let b1 = new_command_id i b in
     if blank content \<or> blank session_id
     then reject_command i ''Message content and session identifier must not be blank.'' b1
     else bridge_submit accepts
            ((thread_command i RuntimeThreadCommandType.SEND_MESSAGE)
               \<lparr>tc_content := py_strip content, tc_session_id := py_strip session_id\<rparr>) b1)"

definition bridge_cancel_active_turn :: "bool \<Rightarrow> string \<Rightarrow> bridge \<Rightarrow> bridge" where
  "bridge_cancel_active_turn accepts i b =
    bridge_submit accepts (thread_command i RuntimeThreadCommandType.CANCEL_ACTIVE_TURN) (new_command_id i b)"

definition bridge_request_snapshot :: "bool \<Rightarrow> string \<Rightarrow> bridge \<Rightarrow> bridge" where
  "bridge_request_snapshot accepts i b =
    bridge_submit accepts (thread_command i RuntimeThreadCommandType.REQUEST_SNAPSHOT) (new_command_id i b)"

definition bridge_request_provider_settings :: "bool \<Rightarrow> string \<Rightarrow> bridge \<Rightarrow> bridge" where
  "bridge_request_provider_settings accepts i b =
    bridge_submit accepts (thread_command i RuntimeThreadCommandType.REQUEST_PROVIDER_SETTINGS) (new_command_id i b)"

definition with_context ::
    "string \<Rightarrow> string \<Rightarrow> AutostartOperationOrigin \<Rightarrow> bool option \<Rightarrow> int \<Rightarrow> bridge \<Rightarrow> bridge" where
  "with_context i operation_id origin requested revision b =
    b\<lparr>br_contexts := (br_contexts b)(i \<mapsto>
      \<lparr>oc_operation_id = operation_id, oc_command_id = i, oc_origin = origin,
       oc_requested_enabled = requested, oc_controller_revision = revision\<rparr>)\<rparr>"

definition bridge_request_autostart ::
    "bool \<Rightarrow> string \<Rightarrow> string \<Rightarrow> AutostartOperationOrigin \<Rightarrow> int \<Rightarrow> bridge \<Rightarrow> bridge" where
  "bridge_request_autostart accepts i operation_id origin revision b =
    bridge_submit accepts
      ((thread_command i RuntimeThreadCommandType.REQUEST_AUTOSTART)
         \<lparr>tc_operation_id := operation_id, tc_autostart_origin := origin, tc_controller_revision := revision\<rparr>)
      (with_context i operation_id origin None revision (new_command_id i b))"

definition bridge_set_autostart_enabled ::
    "bool \<Rightarrow> string \<Rightarrow> bool \<Rightarrow> string \<Rightarrow> AutostartOperationOrigin \<Rightarrow> int \<Rightarrow> bridge \<Rightarrow> bridge" where
  "bridge_set_autostart_enabled accepts i enabled operation_id origin revision b =
    bridge_submit accepts
      ((thread_command i RuntimeThreadCommandType.SET_AUTOSTART)
         \<lparr>tc_enabled := enabled, tc_operation_id := operation_id, tc_autostart_origin := origin,
          tc_controller_revision := revision\<rparr>)
      (with_context i operation_id origin (Some enabled) revision (new_command_id i b))"

definition stripped_credential :: "string option \<Rightarrow> string" where
  "stripped_credential c = (case c of None \<Rightarrow> [] | Some x \<Rightarrow> py_strip x)"

definition bridge_create_provider_profile ::
    "bool \<Rightarrow> string \<Rightarrow> string \<Rightarrow> string \<Rightarrow> string \<Rightarrow> string option \<Rightarrow> bridge \<Rightarrow> bridge" where
  "bridge_create_provider_profile accepts i provider_id display_name model credential_id b =
    (let b1 = new_command_id i b in
     if blank provider_id \<or> blank display_name \<or> blank model
     then reject_command i ''Provider, display name, and model are required.'' b1
     else bridge_submit accepts
            ((thread_command i RuntimeThreadCommandType.CREATE_PROVIDER_PROFILE)
               \<lparr>tc_provider_id := py_strip provider_id, tc_display_name := py_strip display_name,
                tc_model := py_strip model, tc_credential_id := stripped_credential credential_id\<rparr>) b1)"

definition bridge_update_provider_profile ::
    "bool \<Rightarrow> string \<Rightarrow> string \<Rightarrow> string \<Rightarrow> string \<Rightarrow> string option \<Rightarrow> bridge \<Rightarrow> bridge" where
  "bridge_update_provider_profile accepts i profile_id display_name model credential_id b =
    (let b1 = new_command_id i b in
     if blank profile_id \<or> blank display_name \<or> blank model
     then reject_command i ''Profile, display name, and model are required.'' b1
     else bridge_submit accepts
            ((thread_command i RuntimeThreadCommandType.UPDATE_PROVIDER_PROFILE)
               \<lparr>tc_profile_id := py_strip profile_id, tc_display_name := py_strip display_name,
                tc_model := py_strip model, tc_credential_id := stripped_credential credential_id\<rparr>) b1)"

definition bridge_delete_provider_profile :: "bool \<Rightarrow> string \<Rightarrow> string \<Rightarrow> bridge \<Rightarrow> bridge" where
  "bridge_delete_provider_profile accepts i profile_id b =
    (let b1 = new_command_id i b in
     if blank profile_id then reject_command i ''The Provider profile identifier is required.'' b1
     else bridge_submit accepts
            ((thread_command i RuntimeThreadCommandType.DELETE_PROVIDER_PROFILE)
               \<lparr>tc_profile_id := py_strip profile_id\<rparr>) b1)"

definition bridge_save_provider_credential :: "bool \<Rightarrow> string \<Rightarrow> string \<Rightarrow> string \<Rightarrow> bridge \<Rightarrow> bridge" where
  "bridge_save_provider_credential accepts i credential_id secret b =
    (let b1 = new_command_id i b in
     if blank credential_id \<or> blank secret
     then reject_command i ''Credential identifier and value are required.'' b1
     else bridge_submit accepts
            ((thread_command i RuntimeThreadCommandType.SAVE_PROVIDER_CREDENTIAL)
               \<lparr>tc_credential_id := py_strip credential_id, tc_secret := secret\<rparr>) b1)"

definition bridge_delete_provider_credential :: "bool \<Rightarrow> string \<Rightarrow> string \<Rightarrow> bridge \<Rightarrow> bridge" where
  "bridge_delete_provider_credential accepts i credential_id b =
    (let b1 = new_command_id i b in
     if blank credential_id then reject_command i ''The credential identifier is required.'' b1
     else bridge_submit accepts
            ((thread_command i RuntimeThreadCommandType.DELETE_PROVIDER_CREDENTIAL)
               \<lparr>tc_credential_id := py_strip credential_id\<rparr>) b1)"

text \<open>What \<^verbatim>\<open>request_shutdown\<close> returns is ignored.\<close>

definition bridge_shutdown :: "string \<Rightarrow> bool \<Rightarrow> bridge \<Rightarrow> bridge" where
  "bridge_shutdown i cancel_active b =
    (let b1 = new_command_id i b in
     if br_state b1 = BridgeState.NEW
     then signal (ShutdownFinished True ''none'')
            (complete_command i (b1\<lparr>br_state := BridgeState.CLOSED\<rparr>))
     else if br_state b1 = BridgeState.CLOSED
     then signal (ShutdownFinished True ''runtime_already_closed'') (complete_command i b1)
     else if br_state b1 = BridgeState.FAILED
     then fail_command i ''runtime_failed'' ''The runtime has already failed.'' b1
     else if br_shutdown_command_id b1 \<noteq> None
     then fail_command i ''shutdown_in_progress'' ''Runtime shutdown is already in progress.'' b1
     else call_thread
            (ShutdownCall ((thread_command i RuntimeThreadCommandType.SHUTDOWN)\<lparr>tc_cancel_active := cancel_active\<rparr>))
            ((signal RuntimeClosing (b1\<lparr>br_state := BridgeState.CLOSING\<rparr>))
               \<lparr>br_shutdown_command_id := Some i\<rparr>))"

section \<open>Signals of the thread\<close>

text \<open>
  A value of another type than the slot expects is \<open>None\<close>. \<open>internal\<close> is the identifier the bridge makes
  up for the shutdown it requests itself.
\<close>

definition invalid_startup :: "string \<times> string" where
  "invalid_startup = (''runtime_bootstrap_failed'', ''The runtime returned an invalid startup snapshot.'')"

definition reject_worker :: "string \<Rightarrow> bridge \<Rightarrow> bridge" where
  "reject_worker internal b =
    (let b1 = b\<lparr>br_state := BridgeState.CLOSING, br_protocol_failure := Some invalid_startup\<rparr>;
         b2 = (case br_start_command_id b1 of
                 None \<Rightarrow> b1
               | Some i \<Rightarrow>
                   (fail_command i (fst invalid_startup) (snd invalid_startup) b1)\<lparr>br_start_command_id := None\<rparr>)
     in call_thread (ShutdownCall (thread_command internal RuntimeThreadCommandType.SHUTDOWN)) b2)"

text \<open>The runtime becomes ready; the listeners of \<open>RuntimeReady\<close> run before the rest.\<close>

definition worker_ready_begin :: "bridge \<Rightarrow> bridge" where
  "worker_ready_begin b = signal RuntimeReady (b\<lparr>br_state := BridgeState.READY\<rparr>)"

definition worker_ready_end :: "RuntimeSnapshot \<Rightarrow> bridge \<Rightarrow> bridge" where
  "worker_ready_end snap b =
    (let b1 = signal (ProviderLifecycleChanged snap) (signal (RuntimeStateChanged snap) b)
     in case br_start_command_id b1 of
          None \<Rightarrow> b1
        | Some i \<Rightarrow> (complete_command i b1)\<lparr>br_start_command_id := None\<rparr>)"

definition on_worker_ready :: "string \<Rightarrow> RuntimeSnapshot option \<Rightarrow> bridge \<Rightarrow> bridge" where
  "on_worker_ready internal value b =
    (case value of
       None \<Rightarrow> reject_worker internal b
     | Some snap \<Rightarrow>
         if br_state b = BridgeState.CLOSING then b
         else if br_state b \<noteq> BridgeState.STARTING then b
         else worker_ready_end snap (worker_ready_begin b))"

definition relay_runtime_event :: "RuntimeEvent option \<Rightarrow> bridge \<Rightarrow> bridge" where
  "relay_runtime_event value b =
    (case value of
       None \<Rightarrow> b
     | Some ev \<Rightarrow>
         (case re_type ev of
            RuntimeEventType.TURN_STARTED \<Rightarrow> signal (TurnStarted (re_turn_id ev)) b
          | RuntimeEventType.AGENT_STATE_CHANGED \<Rightarrow> signal (AgentStateChanged (re_turn_id ev) (re_state ev)) b
          | RuntimeEventType.TEXT_DELTA \<Rightarrow> signal (TextDelta (re_turn_id ev) (re_text ev)) b
          | RuntimeEventType.TURN_COMPLETED \<Rightarrow> signal (TurnCompleted (re_turn_id ev) (re_text ev)) b
          | RuntimeEventType.TURN_CANCELLED \<Rightarrow> signal (TurnCancelled (re_turn_id ev)) b
          | RuntimeEventType.TURN_FAILED \<Rightarrow>
              signal (TurnFailed (re_turn_id ev) (re_safe_code ev) (re_safe_message ev)) b
          | RuntimeEventType.TURN_SETTLED \<Rightarrow> b))"

definition relay_snapshot :: "RuntimeSnapshot option \<Rightarrow> bridge \<Rightarrow> bridge" where
  "relay_snapshot value b =
    (case value of
       None \<Rightarrow> b
     | Some snap \<Rightarrow> signal (ProviderLifecycleChanged snap) (signal (RuntimeStateChanged snap) b))"

definition relay_provider_settings :: "string \<Rightarrow> ProviderSettingsSnapshot option \<Rightarrow> bridge \<Rightarrow> bridge" where
  "relay_provider_settings i value b =
    (case value of
       None \<Rightarrow> b
     | Some snap \<Rightarrow> if i \<notin> set (br_pending b) then b else signal (ProviderSettingsChanged i snap) b)"

definition relay_autostart_state :: "string \<Rightarrow> AutostartSnapshot option \<Rightarrow> bridge \<Rightarrow> bridge" where
  "relay_autostart_state i value b =
    (case value of
       None \<Rightarrow> b
     | Some snap \<Rightarrow> if i \<notin> set (br_pending b) then b else signal (AutostartStateChanged i snap) b)"

definition on_command_result :: "string \<Rightarrow> bool \<Rightarrow> string \<Rightarrow> string \<Rightarrow> bridge \<Rightarrow> bridge" where
  "on_command_result i ok code message b =
    (if i \<notin> set (br_pending b) then b
     else if ok then complete_command i b
     else fail_command i code message
            (if br_shutdown_command_id b = Some i
             then signal (ShutdownFinished False code) (b\<lparr>br_shutdown_command_id := None\<rparr>) else b))"

definition on_shutdown_outcome :: "ThreadExitOutcome \<Rightarrow> bridge \<Rightarrow> bridge" where
  "on_shutdown_outcome o1 b = b\<lparr>br_shutdown_outcome := Some o1\<rparr>"

text \<open>The three ways the thread can have finished.\<close>

definition finished_badly :: "string \<Rightarrow> string \<Rightarrow> bridge \<Rightarrow> bridge" where
  "finished_badly code message b =
    signal (ShutdownFinished False code)
      ((fail_all_pending code message (b\<lparr>br_state := BridgeState.FAILED\<rparr>))
         \<lparr>br_start_command_id := None, br_shutdown_command_id := None\<rparr>)"

definition settle_start :: "bridge \<Rightarrow> bridge" where
  "settle_start b =
    (case br_start_command_id b of
       None \<Rightarrow> b
     | Some i \<Rightarrow> (complete_command i b)\<lparr>br_start_command_id := None\<rparr>)"

definition settle_commands :: "ThreadExitOutcome \<Rightarrow> bridge \<Rightarrow> bridge" where
  "settle_commands o1 b =
    (if eo_success o1
     then fail_all_pending ''runtime_closed'' ''The runtime closed before the command was processed.''
            (complete_command (eo_command_id o1) b)
     else
       let b1 = fail_command (eo_command_id o1) (eo_safe_code o1) (eo_safe_message o1) b in
       if eo_safe_code o1 \<in> {''runtime_command_cancelled'', ''runtime_shutdown_cancelled'', ''runtime_thread_cancelled''}
       then fail_all_pending ''runtime_thread_cancelled'' ''The runtime thread was cancelled safely.'' b1
       else fail_all_pending ''runtime_thread_stopped_unexpectedly''
              ''The runtime thread stopped unexpectedly.'' b1)"

definition finished_with :: "ThreadExitOutcome \<Rightarrow> bridge \<Rightarrow> bridge" where
  "finished_with o1 b =
    (let b1 = (if eo_safe_code o1 = ''runtime_bootstrap_failed''
               then (fail_all_pending (eo_safe_code o1) (eo_safe_message o1)
                       (b\<lparr>br_state := BridgeState.FAILED\<rparr>))\<lparr>br_start_command_id := None\<rparr>
               else settle_commands o1 (settle_start b))
     in signal (ShutdownFinished (eo_success o1) (eo_safe_code o1))
          (b1\<lparr>br_state := (if eo_success o1 then BridgeState.CLOSED else BridgeState.FAILED),
              br_shutdown_command_id := None\<rparr>))"

definition on_thread_finished :: "bridge \<Rightarrow> bridge" where
  "on_thread_finished b =
    (let b1 = b\<lparr>br_shutdown_outcome := None, br_protocol_failure := None\<rparr>
     in case br_protocol_failure b of
          Some (code, message) \<Rightarrow> finished_badly code message b1
        | None \<Rightarrow>
            (case br_shutdown_outcome b of
               None \<Rightarrow> finished_badly ''runtime_thread_stopped_unexpectedly''
                         ''The runtime thread stopped unexpectedly.'' b1
             | Some o1 \<Rightarrow> finished_with o1 b1))"

end
