(* ===== verification/Bridge_Run.thy ===== *)
theory Bridge_Run
  imports Runtime_Bridge
begin

text \<open>
  Runs of the bridge: requests of the user interface and signals of the thread in any order. The tally
  of a bridge counts the pending and the answered identifiers; every operation only adds the
  identifier it issues.
\<close>

section \<open>The tally\<close>

fun answer_id :: "bridge_signal \<Rightarrow> string list" where
  "answer_id (CommandCompleted i) = [i]"
| "answer_id (CommandFailed i _ _) = [i]"
| "answer_id _ = []"

definition answered :: "bridge \<Rightarrow> string list" where
  "answered b = concat (map answer_id (br_signals b))"

definition tally :: "bridge \<Rightarrow> string multiset" where
  "tally b = mset (br_pending b) + mset (answered b)"

lemma answered_signal [simp]: "answered (signal sg b) = answered b @ answer_id sg"
  by (simp add: answered_def signal_def)

lemma signal_fields [simp]:
  "br_state (signal sg b) = br_state b" "br_pending (signal sg b) = br_pending b"
  "br_contexts (signal sg b) = br_contexts b" "br_calls (signal sg b) = br_calls b"
  "br_start_command_id (signal sg b) = br_start_command_id b"
  "br_shutdown_command_id (signal sg b) = br_shutdown_command_id b"
  by (simp_all add: signal_def)

lemma call_thread_fields [simp]:
  "br_state (call_thread c b) = br_state b" "br_pending (call_thread c b) = br_pending b"
  "br_signals (call_thread c b) = br_signals b" "br_calls (call_thread c b) = br_calls b @ [c]"
  by (simp_all add: call_thread_def)

lemma answered_update [simp]:
  "answered (b\<lparr>br_state := x1\<rparr>) = answered b" "answered (b\<lparr>br_start_command_id := x2\<rparr>) = answered b"
  "answered (b\<lparr>br_shutdown_command_id := x3\<rparr>) = answered b" "answered (b\<lparr>br_shutdown_outcome := x4\<rparr>) = answered b"
  "answered (b\<lparr>br_pending := x5\<rparr>) = answered b" "answered (b\<lparr>br_contexts := x6\<rparr>) = answered b"
  "answered (b\<lparr>br_protocol_failure := x7\<rparr>) = answered b" "answered (b\<lparr>br_journal := x8\<rparr>) = answered b"
  "answered (b\<lparr>br_calls := x9\<rparr>) = answered b" "answered (call_thread c b) = answered b"
  by (simp_all add: answered_def)

lemma tally_update [simp]:
  "tally (b\<lparr>br_state := x1\<rparr>) = tally b" "tally (b\<lparr>br_start_command_id := x2\<rparr>) = tally b"
  "tally (b\<lparr>br_shutdown_command_id := x3\<rparr>) = tally b" "tally (b\<lparr>br_shutdown_outcome := x4\<rparr>) = tally b"
  "tally (b\<lparr>br_contexts := x6\<rparr>) = tally b" "tally (b\<lparr>br_protocol_failure := x7\<rparr>) = tally b"
  "tally (b\<lparr>br_journal := x8\<rparr>) = tally b" "tally (call_thread c b) = tally b"
  by (simp_all add: tally_def)

lemma tally_signal [simp]: "answer_id sg = [] \<Longrightarrow> tally (signal sg b) = tally b"
  by (simp add: tally_def)

lemma tally_new [simp]: "tally (new_command_id i b) = add_mset i (tally b)"
  by (simp add: tally_def new_command_id_def)

text \<open>Recording an event changes the journal and nothing else.\<close>

lemma bridge_record_frame:
  "bridge_record ev c rc b = (r, b') \<Longrightarrow> b' = b\<lparr>br_journal := br_journal b'\<rparr>"
  by (auto simp: bridge_record_def split: option.splits prod.splits sum.splits)

lemma release_fields [simp]:
  "br_pending (release_command i b) = remove1 i (br_pending b)" "br_state (release_command i b) = br_state b"
  "br_calls (release_command i b) = br_calls b" "answered (release_command i b) = answered b"
  "br_start_command_id (release_command i b) = br_start_command_id b"
  "br_shutdown_command_id (release_command i b) = br_shutdown_command_id b"
  by (simp_all add: release_command_def)

text \<open>An answer to a pending command, in the terms the lemmas below need.\<close>

definition answers :: "string \<Rightarrow> bridge \<Rightarrow> bridge \<Rightarrow> bool" where
  "answers i b b' \<longleftrightarrow>
     br_state b' = br_state b \<and> br_calls b' = br_calls b \<and> br_start_command_id b' = br_start_command_id b
     \<and> br_shutdown_command_id b' = br_shutdown_command_id b
     \<and> (if i \<in> set (br_pending b)
         then br_pending b' = remove1 i (br_pending b) \<and> answered b' = answered b @ [i]
         else b' = b)"

lemma fail_answers: "answers i b (fail_command i code message b)"
proof (cases "i \<in> set (br_pending b)")
  case True
  show ?thesis
  proof (cases "br_contexts b i")
    case None
    with True show ?thesis by (simp add: answers_def fail_command_def)
  next
    case (Some c)
    obtain r b1 where rec: "bridge_record COMMAND_FAILED c code b = (r, b1)" by force
    obtain j where "b1 = b\<lparr>br_journal := j\<rparr>" using bridge_record_frame [OF rec] ..
    with Some True rec show ?thesis by (simp add: answers_def fail_command_def)
  qed
qed (simp add: answers_def fail_command_def)

lemma complete_answers: "answers i b (complete_command i b)"
proof (cases "i \<in> set (br_pending b)")
  case True
  show ?thesis
  proof (cases "br_contexts b i")
    case None
    with True show ?thesis by (simp add: answers_def complete_command_def)
  next
    case (Some c)
    obtain r b1 where rec: "bridge_record COMMAND_COMPLETED c ''none'' b = (r, b1)" by force
    obtain j where "b1 = b\<lparr>br_journal := j\<rparr>" using bridge_record_frame [OF rec] ..
    with Some True rec show ?thesis by (simp add: answers_def complete_command_def)
  qed
qed (simp add: answers_def complete_command_def)

lemma answers_tally: "answers i b b' \<Longrightarrow> tally b' = tally b"
  by (auto simp: answers_def tally_def split: if_splits)

lemmas answer_tally [simp] = answers_tally [OF fail_answers] answers_tally [OF complete_answers]

lemma answer_fields [simp]:
  "br_state (fail_command i c m b) = br_state b" "br_calls (fail_command i c m b) = br_calls b"
  "br_state (complete_command i b) = br_state b" "br_calls (complete_command i b) = br_calls b"
  "br_shutdown_command_id (complete_command i b) = br_shutdown_command_id b"
  using fail_answers [of i b c m] complete_answers [of i b] by (simp_all add: answers_def)

lemma answer_pending [simp]:
  "br_pending (fail_command i c m b) = remove1 i (br_pending b)"
  "br_pending (complete_command i b) = remove1 i (br_pending b)"
  using fail_answers [of i b c m] complete_answers [of i b]
  by (auto simp: answers_def remove1_idem split: if_splits)

lemma fold_fail:
  "tally (fold (\<lambda>i. fail_command i c m) xs b) = tally b"
  "br_state (fold (\<lambda>i. fail_command i c m) xs b) = br_state b"
  "br_calls (fold (\<lambda>i. fail_command i c m) xs b) = br_calls b"
  "br_pending (fold (\<lambda>i. fail_command i c m) xs b) = fold remove1 xs (br_pending b)"
  by (induction xs arbitrary: b) simp_all

lemma fold_remove1_self: "fold remove1 xs xs = []"
  by (induction xs) simp_all

lemma fail_all [simp]:
  "tally (fail_all_pending c m b) = tally b" "br_state (fail_all_pending c m b) = br_state b"
  "br_calls (fail_all_pending c m b) = br_calls b" "br_pending (fail_all_pending c m b) = []"
  by (simp_all add: fail_all_pending_def fold_fail fold_remove1_self)

section \<open>Steps and runs\<close>

datatype bridge_request =
    ActivateProfile string ProviderActivationOptions "ActiveTurnHandling option"
  | SendMessage string string
  | CancelActiveTurn
  | RequestSnapshot
  | RequestProviderSettings
  | RequestAutostart string AutostartOperationOrigin int
  | SetAutostart bool string AutostartOperationOrigin int
  | CreateProviderProfile string string string "string option"
  | UpdateProviderProfile string string string "string option"
  | DeleteProviderProfile string
  | SaveProviderCredential string string
  | DeleteProviderCredential string

fun perform_request :: "bool \<Rightarrow> string \<Rightarrow> bridge_request \<Rightarrow> bridge \<Rightarrow> bridge" where
  "perform_request a i (ActivateProfile p opts h) = bridge_activate_profile a i p opts h"
| "perform_request a i (SendMessage c s) = bridge_send_message a i c s"
| "perform_request a i CancelActiveTurn = bridge_cancel_active_turn a i"
| "perform_request a i RequestSnapshot = bridge_request_snapshot a i"
| "perform_request a i RequestProviderSettings = bridge_request_provider_settings a i"
| "perform_request a i (RequestAutostart oid og n) = bridge_request_autostart a i oid og n"
| "perform_request a i (SetAutostart e oid og n) = bridge_set_autostart_enabled a i e oid og n"
| "perform_request a i (CreateProviderProfile p n m c) = bridge_create_provider_profile a i p n m c"
| "perform_request a i (UpdateProviderProfile p n m c) = bridge_update_provider_profile a i p n m c"
| "perform_request a i (DeleteProviderProfile p) = bridge_delete_provider_profile a i p"
| "perform_request a i (SaveProviderCredential c s) = bridge_save_provider_credential a i c s"
| "perform_request a i (DeleteProviderCredential c) = bridge_delete_provider_credential a i c"

lemmas bridge_request_defs = bridge_activate_profile_def bridge_send_message_def bridge_cancel_active_turn_def
  bridge_request_snapshot_def bridge_request_provider_settings_def bridge_request_autostart_def
  bridge_set_autostart_enabled_def bridge_create_provider_profile_def bridge_update_provider_profile_def
  bridge_delete_provider_profile_def bridge_save_provider_credential_def bridge_delete_provider_credential_def

datatype bridge_input =
    Start_Runtime bool string
  | Request bool string bridge_request
  | Shutdown string bool
  | Worker_Ready string "RuntimeSnapshot option"
  | Runtime_Event "RuntimeEvent option"
  | Snapshot "RuntimeSnapshot option"
  | Settings string "ProviderSettingsSnapshot option"
  | Autostart string "AutostartSnapshot option"
  | Command_Result string bool string string
  | Outcome ThreadExitOutcome
  | Thread_Finished

fun bridge_step :: "bridge_input \<Rightarrow> bridge \<Rightarrow> bridge" where
  "bridge_step (Start_Runtime starts i) = start_runtime starts i"
| "bridge_step (Request a i r) = perform_request a i r"
| "bridge_step (Shutdown i cancel_active) = bridge_shutdown i cancel_active"
| "bridge_step (Worker_Ready internal v) = on_worker_ready internal v"
| "bridge_step (Runtime_Event v) = relay_runtime_event v"
| "bridge_step (Snapshot v) = relay_snapshot v"
| "bridge_step (Settings i v) = relay_provider_settings i v"
| "bridge_step (Autostart i v) = relay_autostart_state i v"
| "bridge_step (Command_Result i ok code message) = on_command_result i ok code message"
| "bridge_step (Outcome o1) = on_shutdown_outcome o1"
| "bridge_step Thread_Finished = on_thread_finished"

fun issued :: "bridge_input \<Rightarrow> string list" where
  "issued (Start_Runtime _ i) = [i]"
| "issued (Request _ i _) = [i]"
| "issued (Shutdown i _) = [i]"
| "issued _ = []"

definition bridge_run :: "bridge_input list \<Rightarrow> bridge \<Rightarrow> bridge" where
  "bridge_run is b = fold bridge_step is b"

definition issued_ids :: "bridge_input list \<Rightarrow> string list" where
  "issued_ids is = concat (map issued is)"

lemma tally_submit [simp]: "tally (bridge_submit a c b) = tally b"
proof -
  have "tally b1 = tally b" if "bridge_record ev ctx rc b = (r, b1)" for ev ctx rc r b1
    using arg_cong [OF bridge_record_frame [OF that], of tally] by simp
  then show ?thesis by (auto simp: bridge_submit_def Let_def split: option.split prod.split)
qed

lemma tally_with_context [simp]: "tally (with_context i oid og r n b) = tally b"
  by (simp add: with_context_def)

lemma tally_request: "tally (perform_request a i r b) = add_mset i (tally b)"
  by (cases r) (simp_all add: bridge_request_defs reject_command_def Let_def)

lemma tally_finished [simp]: "tally (on_thread_finished b) = tally b"
  by (simp add: on_thread_finished_def finished_badly_def finished_with_def settle_commands_def
      settle_start_def Let_def split: option.split prod.split)

lemma tally_step: "tally (bridge_step i b) = tally b + mset (issued i)"
proof (cases i)
  case (Runtime_Event v)
  then show ?thesis
    by (simp add: relay_runtime_event_def split: option.split RuntimeEventType.split)
qed (simp_all add: start_runtime_def tally_request bridge_shutdown_def on_worker_ready_def reject_worker_def
  worker_ready_begin_def worker_ready_end_def relay_snapshot_def relay_provider_settings_def
  relay_autostart_state_def on_command_result_def on_shutdown_outcome_def Let_def split: option.split)

lemma tally_run: "tally (bridge_run is b) = tally b + mset (issued_ids is)"
  by (induction "is" arbitrary: b) (simp_all add: bridge_run_def issued_ids_def tally_step)

lemma pending_finished: "br_pending (on_thread_finished b) = []"
  by (simp add: on_thread_finished_def finished_badly_def finished_with_def settle_commands_def
      Let_def split: option.split prod.split)

section \<open>Leaving\<close>

text \<open>A bridge on its way out, and the calls it may still make.\<close>

definition leaving :: "bridge \<Rightarrow> bool" where
  "leaving b \<longleftrightarrow> br_state b \<in> {BridgeState.CLOSING, BridgeState.CLOSED, BridgeState.FAILED}"

fun is_shutdown_call :: "thread_call \<Rightarrow> bool" where
  "is_shutdown_call (ShutdownCall _) = True"
| "is_shutdown_call _ = False"

definition only_shutdowns :: "bridge \<Rightarrow> bridge \<Rightarrow> bool" where
  "only_shutdowns b b' \<longleftrightarrow> leaving b' \<and> (\<exists>cs. br_calls b' = br_calls b @ cs \<and> list_all is_shutdown_call cs)"

lemma submit_leaving: "leaving b \<Longrightarrow> only_shutdowns b (bridge_submit a c b)"
  by (auto simp: only_shutdowns_def leaving_def bridge_submit_def Let_def)

lemma new_command_fields [simp]:
  "br_state (new_command_id i b) = br_state b" "br_calls (new_command_id i b) = br_calls b"
  "br_shutdown_command_id (new_command_id i b) = br_shutdown_command_id b"
  "br_state (with_context i oid og r n b) = br_state b" "br_calls (with_context i oid og r n b) = br_calls b"
  by (simp_all add: new_command_id_def with_context_def)

lemma leaving_cong: "br_state b' = br_state b \<Longrightarrow> leaving b' = leaving b"
  by (simp add: leaving_def)

lemma only_shutdowns_cong:
  "br_calls b' = br_calls b \<Longrightarrow> only_shutdowns b' c = only_shutdowns b c"
  by (simp add: only_shutdowns_def)

lemma only_shutdowns_fields:
  "br_calls b' = br_calls b \<Longrightarrow> leaving b' \<Longrightarrow> only_shutdowns b b'"
  by (simp add: only_shutdowns_def)

lemma request_leaving:
  assumes "leaving b"
  shows "only_shutdowns b (perform_request a i r b)"
proof -
  have 1: "only_shutdowns b (bridge_submit a c (new_command_id i b))" for c
    using submit_leaving [of "new_command_id i b" a c] assms
    by (simp add: only_shutdowns_cong [of "new_command_id i b" b] leaving_def)
  have 2: "only_shutdowns b (bridge_submit a c (with_context i oid og q n (new_command_id i b)))" for c oid og q n
    using submit_leaving [of "with_context i oid og q n (new_command_id i b)" a c] assms
    by (simp add: only_shutdowns_cong [of "with_context i oid og q n (new_command_id i b)" b] leaving_def)
  have 3: "only_shutdowns b (reject_command i m (new_command_id i b))" for m
    using assms by (auto simp: only_shutdowns_def leaving_def reject_command_def)
  show ?thesis
    by (cases r) (simp_all add: bridge_request_defs Let_def 1 2 3)
qed

lemma finished_leaving: "only_shutdowns b (on_thread_finished b)"
proof -
  have "br_calls (settle_start b1) = br_calls b1" for b1
    by (simp add: settle_start_def split: option.split)
  then have "br_calls (settle_commands o1 (settle_start b1)) = br_calls b1" for o1 b1
    by (simp add: settle_commands_def Let_def)
  then have "br_calls (on_thread_finished b) = br_calls b"
    by (simp add: on_thread_finished_def finished_badly_def finished_with_def Let_def
        split: option.split prod.split)
  moreover have "leaving (on_thread_finished b)"
    by (simp add: on_thread_finished_def finished_badly_def finished_with_def Let_def leaving_def
        split: option.split prod.split)
  ultimately show ?thesis by (rule only_shutdowns_fields)
qed

lemma step_leaving:
  assumes "leaving b"
  shows "only_shutdowns b (bridge_step i b)"
proof (cases i)
  case (Request a j r)
  with request_leaving [OF assms] show ?thesis by simp
next
  case Thread_Finished
  with finished_leaving show ?thesis by simp
next
  case (Runtime_Event v)
  with assms show ?thesis
    by (auto simp: relay_runtime_event_def only_shutdowns_def leaving_def split: option.split RuntimeEventType.split)
qed (use assms in \<open>auto simp: only_shutdowns_def leaving_def start_runtime_def bridge_shutdown_def
  on_worker_ready_def reject_worker_def relay_snapshot_def relay_provider_settings_def
  relay_autostart_state_def on_command_result_def on_shutdown_outcome_def Let_def split: option.split\<close>)

lemma only_shutdowns_trans: "only_shutdowns b c \<Longrightarrow> only_shutdowns c d \<Longrightarrow> only_shutdowns b d"
  by (auto simp: only_shutdowns_def)

lemma run_leaving: "leaving b \<Longrightarrow> only_shutdowns b (bridge_run is b)"
proof (induction "is" arbitrary: b)
  case Nil
  then show ?case by (simp add: bridge_run_def only_shutdowns_fields)
next
  case (Cons i "is")
  have s: "only_shutdowns b (bridge_step i b)" using step_leaving [OF Cons.prems] .
  then have "leaving (bridge_step i b)" by (simp add: only_shutdowns_def)
  from only_shutdowns_trans [OF s Cons.IH [OF this]] show ?case by (simp add: bridge_run_def)
qed

end
