(* ===== verification/Autostart_Controller.thy ===== *)
theory Autostart_Controller
  imports Bridge_Run
begin

text \<open>
  The shared autostart state of all windows, \<^verbatim>\<open>presentation/qt/ui/autostart_controller.py\<close>, together with
  the bridge it talks to. Both live in the user interface's thread and use one journal, which the
  bridge's state holds.

  The bridge's signals are delivered to the controller at once; a bridge operation does not look at
  the controller, so delivering its signals in order after it is the same. Only \<open>RuntimeReady\<close> makes the
  controller call the bridge, so a start is taken in two parts around it. The identifiers of
  operations, which only label journal lines, are drawn from a list.
\<close>

section \<open>State\<close>

record PendingAutostartOperation =
  po_context :: AutostartOperationContext
  po_mutation :: bool

datatype controller_signal = StateChanged AutostartSnapshot | OperationFailed string string

record gui =
  gu_bridge :: bridge
  ui_snapshot :: AutostartSnapshot
  ui_busy :: bool
  ui_closing :: bool
  ui_last_error :: "(string \<times> string) option"
  ui_pending :: "string \<Rightarrow> PendingAutostartOperation option"
  ui_revision :: int
  ui_latest_mutation_revision :: int
  ui_latest_applied_revision :: int
  ui_signals :: "controller_signal list"
  ui_draws :: "string list"

definition new_gui :: "AutostartOperationJournal option \<Rightarrow> string list \<Rightarrow> gui" where
  "new_gui journal draws =
    \<lparr>gu_bridge = new_bridge journal, ui_snapshot = for_status UNAVAILABLE, ui_busy = False,
     ui_closing = False, ui_last_error = None, ui_pending = (\<lambda>_. None), ui_revision = 0,
     ui_latest_mutation_revision = 0, ui_latest_applied_revision = 0, ui_signals = [], ui_draws = draws\<rparr>"

definition ui_emit :: "controller_signal \<Rightarrow> gui \<Rightarrow> gui" where
  "ui_emit sg g = g\<lparr>ui_signals := ui_signals g @ [sg]\<rparr>"

definition user_toggle_allowed :: "gui \<Rightarrow> bool" where
  "user_toggle_allowed g \<longleftrightarrow>
     snapshot_toggle_allowed (ui_snapshot g) \<and> \<not> ui_busy g \<and> \<not> ui_closing g
     \<and> accepting_commands (gu_bridge g)"

definition display_message :: "gui \<Rightarrow> string" where
  "display_message g =
    (case ui_last_error g of None \<Rightarrow> as_safe_message (ui_snapshot g) | Some e \<Rightarrow> snd e)"

section \<open>Operations\<close>

definition new_context ::
    "AutostartOperationOrigin \<Rightarrow> bool option \<Rightarrow> gui \<Rightarrow> AutostartOperationContext \<times> gui" where
  "new_context origin requested g =
    (let revision = ui_revision g + 1 in
     (\<lparr>oc_operation_id = (case ui_draws g of [] \<Rightarrow> [] | u # _ \<Rightarrow> u), oc_command_id = [], oc_origin = origin,
       oc_requested_enabled = requested, oc_controller_revision = revision\<rparr>,
      g\<lparr>ui_revision := revision, ui_draws := tl (ui_draws g)\<rparr>))"

definition ui_record ::
    "AutostartOperationEvent \<Rightarrow> AutostartOperationContext \<Rightarrow> AutostartOperationRuntimeState \<Rightarrow> string
     \<Rightarrow> gui \<Rightarrow> bool \<times> gui" where
  "ui_record event context state code g =
    (case br_journal (gu_bridge g) of
       None \<Rightarrow> (True, g)
     | Some journal \<Rightarrow>
         (case journal_record event context state code journal of
            (Inl _, j) \<Rightarrow> (False, g\<lparr>gu_bridge := (gu_bridge g)\<lparr>br_journal := Some j\<rparr>\<rparr>)
          | (Inr _, j) \<Rightarrow> (True, g\<lparr>gu_bridge := (gu_bridge g)\<lparr>br_journal := Some j\<rparr>\<rparr>)))"

definition record_rejection ::
    "AutostartOperationOrigin \<Rightarrow> bool option \<Rightarrow> string \<Rightarrow> gui \<Rightarrow> gui" where
  "record_rejection origin requested code g =
    (if br_journal (gu_bridge g) = None then g
     else let (context, g1) = new_context origin requested g
          in snd (ui_record UI_REQUEST_REJECTED context GUI code g1))"

definition ui_journal_failure :: "gui \<Rightarrow> gui" where
  "ui_journal_failure g =
    (let code = ''autostart_diagnostic_journal_failed''; message = ''The autostart diagnostic journal failed safely.''
     in ui_emit (OperationFailed code message)
          (ui_emit (StateChanged (ui_snapshot g)) (g\<lparr>ui_last_error := Some (code, message)\<rparr>)))"

definition ui_begin_closing :: "gui \<Rightarrow> gui" where
  "ui_begin_closing g =
    (if ui_closing g then g
     else let (context, g1) = new_context AutostartOperationOrigin.SHUTDOWN None (g\<lparr>ui_closing := True\<rparr>);
              g2 = snd (ui_record CONTROLLER_CLOSING context AutostartOperationRuntimeState.RUNTIME_CLOSING ''none'' g1)
          in ui_emit (StateChanged (ui_snapshot g2)) g2)"

definition is_stale :: "PendingAutostartOperation \<Rightarrow> gui \<Rightarrow> bool" where
  "is_stale p g \<longleftrightarrow>
     oc_controller_revision (po_context p) < ui_latest_applied_revision g
     \<or> (\<not> po_mutation p \<and> oc_controller_revision (po_context p) < ui_latest_mutation_revision g)"

definition on_state_changed :: "string \<Rightarrow> AutostartSnapshot \<Rightarrow> gui \<Rightarrow> gui" where
  "on_state_changed i value g =
    (case ui_pending g i of
       None \<Rightarrow> g
     | Some p \<Rightarrow>
         if is_stale p g then snd (ui_record STALE_RESULT_IGNORED (po_context p) GUI ''stale_revision'' g)
         else ui_emit (StateChanged value)
                (g\<lparr>ui_latest_applied_revision := oc_controller_revision (po_context p), ui_snapshot := value\<rparr>))"

definition on_command_completed :: "string \<Rightarrow> gui \<Rightarrow> gui" where
  "on_command_completed i g =
    (case ui_pending g i of
       None \<Rightarrow> g
     | Some p \<Rightarrow>
         let g1 = g\<lparr>ui_pending := (ui_pending g)(i := None)\<rparr> in
         if po_mutation p
         then ui_emit (StateChanged (ui_snapshot g1)) (g1\<lparr>ui_busy := False, ui_last_error := None\<rparr>)
         else g1)"

definition on_command_failed :: "string \<Rightarrow> string \<Rightarrow> string \<Rightarrow> gui \<Rightarrow> gui" where
  "on_command_failed i code message g =
    (case ui_pending g i of
       None \<Rightarrow> g
     | Some p \<Rightarrow>
         let g1 = g\<lparr>ui_pending := (ui_pending g)(i := None)\<rparr>;
             g2 = (if po_mutation p
                   then ui_emit (StateChanged (ui_snapshot g1))
                          (g1\<lparr>ui_busy := False, ui_last_error := Some (code, message)\<rparr>)
                   else g1)
         in ui_emit (OperationFailed code message) g2)"

text \<open>The connections of the controller to the bridge, apart from the one to \<open>RuntimeReady\<close>.\<close>

fun deliver :: "bridge_signal \<Rightarrow> gui \<Rightarrow> gui" where
  "deliver RuntimeClosing g = ui_begin_closing g"
| "deliver (AutostartStateChanged i value) g = on_state_changed i value g"
| "deliver (CommandCompleted i) g = on_command_completed i g"
| "deliver (CommandFailed i code message) g = on_command_failed i code message g"
| "deliver _ g = g"

definition new_signals :: "bridge \<Rightarrow> bridge \<Rightarrow> bridge_signal list" where
  "new_signals b b' = drop (length (br_signals b)) (br_signals b')"

definition with_bridge :: "(bridge \<Rightarrow> bridge) \<Rightarrow> gui \<Rightarrow> gui" where
  "with_bridge f g =
    (let b' = f (gu_bridge g) in fold deliver (new_signals (gu_bridge g) b') (g\<lparr>gu_bridge := b'\<rparr>))"

definition with_command_id :: "AutostartOperationContext \<Rightarrow> string \<Rightarrow> AutostartOperationContext" where
  "with_command_id context i = context\<lparr>oc_command_id := i\<rparr>"

definition remember ::
    "string \<Rightarrow> AutostartOperationContext \<Rightarrow> bool \<Rightarrow> gui \<Rightarrow> gui" where
  "remember i context mutation g =
    g\<lparr>ui_pending := (ui_pending g)(i \<mapsto> \<lparr>po_context = with_command_id context i, po_mutation = mutation\<rparr>)\<rparr>"

definition refresh :: "bool \<Rightarrow> string \<Rightarrow> AutostartOperationOrigin \<Rightarrow> gui \<Rightarrow> gui" where
  "refresh accepts i origin g =
    (if ui_closing g \<or> \<not> accepting_commands (gu_bridge g)
     then record_rejection origin None ''controller_not_accepting'' g
     else
       let (context, g1) = new_context origin None g in
       case ui_record UI_REQUEST_ACCEPTED context GUI ''none'' g1 of
         (False, g2) \<Rightarrow> ui_journal_failure g2
       | (True, g2) \<Rightarrow>
           let g3 = with_bridge (bridge_request_autostart accepts i (oc_operation_id context) (oc_origin context)
                      (oc_controller_revision context)) g2 in
           if \<not> is_command_pending i (gu_bridge g3) then g3
           else remember i context False g3)"

definition ui_set_enabled :: "bool \<Rightarrow> string \<Rightarrow> bool \<Rightarrow> AutostartOperationOrigin \<Rightarrow> gui \<Rightarrow> gui" where
  "ui_set_enabled accepts i enabled origin g =
    (if \<not> user_toggle_allowed g \<or> enabled = snapshot_enabled (ui_snapshot g)
     then record_rejection origin (Some enabled) ''request_rejected'' g
     else
       let (context, g1) = new_context origin (Some enabled) g in
       case ui_record UI_REQUEST_ACCEPTED context GUI ''none'' g1 of
         (False, g2) \<Rightarrow> ui_journal_failure g2
       | (True, g2) \<Rightarrow>
           let g3 = with_bridge (bridge_set_autostart_enabled accepts i enabled (oc_operation_id context)
                      (oc_origin context) (oc_controller_revision context))
                      (g2\<lparr>ui_last_error := None, ui_busy := True,
                          ui_latest_mutation_revision := oc_controller_revision context\<rparr>) in
           if \<not> is_command_pending i (gu_bridge g3)
           then let code = ''autostart_runtime_unavailable'';
                    message = ''The autostart setting cannot change while runtime is closing.''
                in ui_emit (OperationFailed code message)
                     (ui_emit (StateChanged (ui_snapshot g3))
                        (g3\<lparr>ui_busy := False, ui_last_error := Some (code, message)\<rparr>))
           else let g4 = remember i context True g3 in ui_emit (StateChanged (ui_snapshot g4)) g4)"

text \<open>
  The bridge's \<^verbatim>\<open>_on_worker_ready\<close> with the controller's startup query in its middle; \<open>i\<close> is the
  identifier the query gets.
\<close>

definition gui_worker_ready :: "bool \<Rightarrow> string \<Rightarrow> string \<Rightarrow> RuntimeSnapshot option \<Rightarrow> gui \<Rightarrow> gui" where
  "gui_worker_ready accepts i internal value g =
    (case value of
       Some snap \<Rightarrow>
         if br_state (gu_bridge g) = BridgeState.STARTING
         then with_bridge (worker_ready_end snap)
                (refresh accepts i STARTUP_QUERY (with_bridge worker_ready_begin g))
         else g
     | None \<Rightarrow> with_bridge (reject_worker internal) g)"

section \<open>The combined system\<close>

datatype gui_input =
    Bridge bridge_input
  | Ready bool string string "RuntimeSnapshot option"
  | Refresh bool string AutostartOperationOrigin
  | Toggle bool string bool AutostartOperationOrigin

text \<open>The start of the worker arrives as \<open>Ready\<close>, with what the startup query needs.\<close>

fun gui_step :: "gui_input \<Rightarrow> gui \<Rightarrow> gui" where
  "gui_step (Bridge (Worker_Ready _ _)) g = g"
| "gui_step (Bridge inp) g = with_bridge (bridge_step inp) g"
| "gui_step (Ready a i internal v) g = gui_worker_ready a i internal v g"
| "gui_step (Refresh a i origin) g = refresh a i origin g"
| "gui_step (Toggle a i enabled origin) g = ui_set_enabled a i enabled origin g"

text \<open>The identifiers a step draws; the loop of \<^verbatim>\<open>_new_command_id\<close> ends with one that is not pending.\<close>

fun drawn :: "gui_input \<Rightarrow> string list" where
  "drawn (Bridge inp) = issued inp"
| "drawn (Ready _ i _ _) = [i]"
| "drawn (Refresh _ i _) = [i]"
| "drawn (Toggle _ i _ _) = [i]"

fun gui_run :: "gui_input list \<Rightarrow> gui \<Rightarrow> gui option" where
  "gui_run [] g = Some g"
| "gui_run (i # is) g =
    (if list_ex (\<lambda>c. c \<in> set (br_pending (gu_bridge g))) (drawn i) then None else gui_run is (gui_step i g))"

section \<open>What the bridge's operations add\<close>

definition later :: "bridge \<Rightarrow> bridge \<Rightarrow> bool" where
  "later b b' \<longleftrightarrow> (\<exists>sgs. br_signals b' = br_signals b @ sgs)"

lemma later_refl [simp]: "later b b"
  by (simp add: later_def)

lemma later_trans: "later b c \<Longrightarrow> later c d \<Longrightarrow> later b d"
  by (auto simp: later_def)

lemma later_signal [simp]: "later b c \<Longrightarrow> later b (signal sg c)"
  by (auto simp: later_def signal_def)

lemma later_update [simp]:
  "later b c \<Longrightarrow> later b (c\<lparr>br_state := x1\<rparr>)" "later b c \<Longrightarrow> later b (c\<lparr>br_start_command_id := x2\<rparr>)"
  "later b c \<Longrightarrow> later b (c\<lparr>br_shutdown_command_id := x3\<rparr>)" "later b c \<Longrightarrow> later b (c\<lparr>br_shutdown_outcome := x4\<rparr>)"
  "later b c \<Longrightarrow> later b (c\<lparr>br_contexts := x6\<rparr>)" "later b c \<Longrightarrow> later b (c\<lparr>br_protocol_failure := x7\<rparr>)"
  "later b c \<Longrightarrow> later b (c\<lparr>br_journal := x8\<rparr>)" "later b c \<Longrightarrow> later b (call_thread x9 c)"
  "later b c \<Longrightarrow> later b (new_command_id i c)" "later b c \<Longrightarrow> later b (release_command i c)"
  "later b c \<Longrightarrow> later b (with_context i oid og q n c)"
  by (simp_all add: later_def call_thread_def new_command_id_def release_command_def with_context_def)

lemma later_record: "later b c \<Longrightarrow> bridge_record ev ctx rc c = (r, d) \<Longrightarrow> later b d"
  using later_update(7) [of b c "br_journal d"] bridge_record_frame [of ev ctx rc c r d] by simp

lemma later_fail [simp]: "later b c \<Longrightarrow> later b (fail_command i code message c)"
  by (auto simp: fail_command_def Let_def split: option.split)
    (metis later_record later_signal later_update(10) prod.collapse)

lemma later_complete [simp]: "later b c \<Longrightarrow> later b (complete_command i c)"
  by (auto simp: complete_command_def Let_def split: option.split prod.split dest: later_record)

lemma later_fail_all [simp]: "later b c \<Longrightarrow> later b (fail_all_pending code message c)"
proof -
  have "later b c \<Longrightarrow> later b (fold (\<lambda>i. fail_command i code message) xs c)" for xs
    by (induction xs arbitrary: c) simp_all
  then show "later b c \<Longrightarrow> ?thesis" by (simp add: fail_all_pending_def)
qed

lemma later_submit [simp]: "later b c \<Longrightarrow> later b (bridge_submit a cmd c)"
  by (auto simp: bridge_submit_def Let_def split: option.split prod.split dest: later_record)

lemma later_request: "later b (perform_request a i r b)"
  by (cases r) (simp_all add: bridge_request_defs reject_command_def Let_def)

lemma later_finished: "later b (on_thread_finished b)"
  by (simp add: on_thread_finished_def finished_badly_def finished_with_def settle_commands_def
      settle_start_def Let_def split: option.split prod.split)

lemma later_step: "later b (bridge_step i b)"
proof (cases i)
  case (Runtime_Event v)
  then show ?thesis by (simp add: relay_runtime_event_def split: option.split RuntimeEventType.split)
qed (simp_all add: later_request later_finished start_runtime_def bridge_shutdown_def on_worker_ready_def
  reject_worker_def worker_ready_begin_def worker_ready_end_def relay_snapshot_def
  relay_provider_settings_def relay_autostart_state_def on_command_result_def on_shutdown_outcome_def
  Let_def split: option.split)

text \<open>A command that is no longer pending has been answered.\<close>

lemma answered_later:
  assumes "later b b'" and "tally b \<subseteq># tally b'" and "i \<in> set (br_pending b)"
  shows "i \<in> set (br_pending b') \<or> i \<in> set (concat (map answer_id (new_signals b b')))"
proof (rule ccontr)
  assume n: "\<not> ?thesis"
  obtain sgs where sgs: "br_signals b' = br_signals b @ sgs" using assms(1) by (auto simp: later_def)
  then have a: "answered b' = answered b @ concat (map answer_id sgs)" by (simp add: answered_def)
  have "count (tally b') i = count (mset (answered b)) i"
    using n sgs a by (simp add: tally_def new_signals_def not_in_iff count_mset_0_iff)
  moreover have "count (mset (answered b)) i < count (tally b) i"
    using assms(3) by (simp add: tally_def count_mset_gt_0)
  ultimately show False using mset_subset_eq_count [OF assms(2), of i] by simp
qed

end
