(* ===== verification/Gui_Invariant.thy ===== *)
theory Gui_Invariant
  imports Autostart_Controller
begin

text \<open>
  The invariant of the autostart controller over its bridge: every operation it waits for is pending
  in the bridge, it is busy exactly while one mutation is under way, and its revisions are in order.
\<close>

section \<open>The invariant\<close>

abbreviation revision_of :: "PendingAutostartOperation \<Rightarrow> int" where
  "revision_of p \<equiv> oc_controller_revision (po_context p)"

definition mutating :: "string \<Rightarrow> gui \<Rightarrow> bool" where
  "mutating i g \<longleftrightarrow> (case ui_pending g i of None \<Rightarrow> False | Some p \<Rightarrow> po_mutation p)"

text \<open>What does not mention the bridge.\<close>

definition controller_ok :: "gui \<Rightarrow> bool" where
  "controller_ok g \<longleftrightarrow>
     (\<forall>i p. ui_pending g i = Some p \<longrightarrow> revision_of p \<le> ui_revision g)
     \<and> (\<forall>i p. ui_pending g i = Some p \<and> po_mutation p \<longrightarrow> revision_of p = ui_latest_mutation_revision g)
     \<and> (\<forall>i j. mutating i g \<and> mutating j g \<longrightarrow> i = j)
     \<and> (ui_busy g \<longleftrightarrow> (\<exists>i. mutating i g))
     \<and> ui_latest_applied_revision g \<le> ui_revision g
     \<and> ui_latest_mutation_revision g \<le> ui_revision g"

definition gui_ok :: "gui \<Rightarrow> bool" where
  "gui_ok g \<longleftrightarrow>
     controller_ok g \<and> (\<forall>i. ui_pending g i \<noteq> None \<longrightarrow> i \<in> set (br_pending (gu_bridge g)))"

lemma gui_ok_new: "gui_ok (new_gui journal draws)"
  by (simp add: gui_ok_def controller_ok_def new_gui_def mutating_def)

lemma ui_emit_fields [simp]:
  "gu_bridge (ui_emit sg g) = gu_bridge g" "ui_snapshot (ui_emit sg g) = ui_snapshot g"
  "ui_busy (ui_emit sg g) = ui_busy g" "ui_closing (ui_emit sg g) = ui_closing g"
  "ui_pending (ui_emit sg g) = ui_pending g" "ui_revision (ui_emit sg g) = ui_revision g"
  "ui_latest_mutation_revision (ui_emit sg g) = ui_latest_mutation_revision g"
  "ui_latest_applied_revision (ui_emit sg g) = ui_latest_applied_revision g"
  by (simp_all add: ui_emit_def)

lemma controller_ok_cong:
  "ui_pending g' = ui_pending g \<Longrightarrow> ui_busy g' = ui_busy g \<Longrightarrow> ui_revision g \<le> ui_revision g' \<Longrightarrow>
   ui_latest_applied_revision g' = ui_latest_applied_revision g \<Longrightarrow>
   ui_latest_mutation_revision g' = ui_latest_mutation_revision g \<Longrightarrow> controller_ok g \<Longrightarrow> controller_ok g'"
  by (force simp: controller_ok_def mutating_def)

text \<open>The part of the state that recording an event leaves alone.\<close>

lemma ui_record_frame:
  assumes "ui_record ev c st rc g = (r, g')"
  shows "\<exists>j. g' = g\<lparr>gu_bridge := (gu_bridge g)\<lparr>br_journal := j\<rparr>\<rparr>"
proof (cases "br_journal (gu_bridge g)")
  case None
  with assms have "g' = g\<lparr>gu_bridge := (gu_bridge g)\<lparr>br_journal := br_journal (gu_bridge g)\<rparr>\<rparr>"
    by (simp add: ui_record_def)
  then show ?thesis by blast
next
  case (Some j)
  with assms show ?thesis by (auto simp: ui_record_def split: prod.splits sum.splits)
qed

lemma ui_record_snd:
  "ui_pending (snd (ui_record ev c st rc g)) = ui_pending g" "ui_busy (snd (ui_record ev c st rc g)) = ui_busy g"
  "ui_revision (snd (ui_record ev c st rc g)) = ui_revision g" "ui_closing (snd (ui_record ev c st rc g)) = ui_closing g"
  "ui_snapshot (snd (ui_record ev c st rc g)) = ui_snapshot g"
  "ui_latest_applied_revision (snd (ui_record ev c st rc g)) = ui_latest_applied_revision g"
  "ui_latest_mutation_revision (snd (ui_record ev c st rc g)) = ui_latest_mutation_revision g"
  "br_pending (gu_bridge (snd (ui_record ev c st rc g))) = br_pending (gu_bridge g)"
  "br_state (gu_bridge (snd (ui_record ev c st rc g))) = br_state (gu_bridge g)"
  "br_calls (gu_bridge (snd (ui_record ev c st rc g))) = br_calls (gu_bridge g)"
  "tally (gu_bridge (snd (ui_record ev c st rc g))) = tally (gu_bridge g)"
proof -
  obtain r g' where "ui_record ev c st rc g = (r, g')" by force
  with ui_record_frame [OF this] show
    "ui_pending (snd (ui_record ev c st rc g)) = ui_pending g" "ui_busy (snd (ui_record ev c st rc g)) = ui_busy g"
    "ui_revision (snd (ui_record ev c st rc g)) = ui_revision g" "ui_closing (snd (ui_record ev c st rc g)) = ui_closing g"
    "ui_snapshot (snd (ui_record ev c st rc g)) = ui_snapshot g"
    "ui_latest_applied_revision (snd (ui_record ev c st rc g)) = ui_latest_applied_revision g"
    "ui_latest_mutation_revision (snd (ui_record ev c st rc g)) = ui_latest_mutation_revision g"
    "br_pending (gu_bridge (snd (ui_record ev c st rc g))) = br_pending (gu_bridge g)"
    "br_state (gu_bridge (snd (ui_record ev c st rc g))) = br_state (gu_bridge g)"
    "br_calls (gu_bridge (snd (ui_record ev c st rc g))) = br_calls (gu_bridge g)"
    "tally (gu_bridge (snd (ui_record ev c st rc g))) = tally (gu_bridge g)"
    by auto
qed

section \<open>Delivered signals\<close>

text \<open>A delivery only removes operations and only answers remove them.\<close>

definition delivered :: "string list \<Rightarrow> gui \<Rightarrow> gui \<Rightarrow> bool" where
  "delivered ids g g' \<longleftrightarrow>
     controller_ok g' \<and> br_pending (gu_bridge g') = br_pending (gu_bridge g)
     \<and> br_state (gu_bridge g') = br_state (gu_bridge g) \<and> br_calls (gu_bridge g') = br_calls (gu_bridge g)
     \<and> (\<forall>i. ui_pending g' i = (if i \<in> set ids then None else ui_pending g i))"

lemma release_ok:
  assumes ok: "controller_ok g" and p: "ui_pending g i = Some p"
    and g': "ui_pending g' = (ui_pending g)(i := None)" "ui_busy g' = (if po_mutation p then False else ui_busy g)"
      "ui_revision g' = ui_revision g" "ui_latest_applied_revision g' = ui_latest_applied_revision g"
      "ui_latest_mutation_revision g' = ui_latest_mutation_revision g"
  shows "controller_ok g'"
proof -
  have m: "mutating j g' \<longleftrightarrow> mutating j g \<and> j \<noteq> i" for j by (simp add: mutating_def g'(1))
  have i: "mutating i g \<longleftrightarrow> po_mutation p" using p by (simp add: mutating_def)
  have "ui_busy g' \<longleftrightarrow> (\<exists>j. mutating j g')"
    using ok i g'(2) by (auto simp: controller_ok_def m)
  with ok g'(1,3,4,5) show ?thesis by (auto simp: controller_ok_def m)
qed

lemma deliver_delivered:
  assumes ok: "controller_ok g"
  shows "delivered (answer_id sg) g (deliver sg g)"
proof (cases sg)
  case (CommandCompleted i)
  show ?thesis
  proof (cases "ui_pending g i")
    case None
    with CommandCompleted ok show ?thesis by (auto simp: delivered_def on_command_completed_def)
  next
    case (Some p)
    with CommandCompleted release_ok [OF ok Some, of "deliver sg g"] show ?thesis
      by (simp add: delivered_def on_command_completed_def Let_def)
  qed
next
  case (CommandFailed i c m)
  show ?thesis
  proof (cases "ui_pending g i")
    case None
    with CommandFailed ok show ?thesis by (auto simp: delivered_def on_command_failed_def)
  next
    case (Some p)
    with CommandFailed release_ok [OF ok Some, of "deliver sg g"] show ?thesis
      by (simp add: delivered_def on_command_failed_def Let_def)
  qed
next
  case (AutostartStateChanged i v)
  show ?thesis
  proof (cases "ui_pending g i")
    case None
    with AutostartStateChanged ok show ?thesis by (simp add: delivered_def on_state_changed_def)
  next
    case (Some p)
    then have "revision_of p \<le> ui_revision g" using ok by (simp add: controller_ok_def)
    then have ap: "controller_ok (g\<lparr>ui_latest_applied_revision := revision_of p, ui_snapshot := v\<rparr>)"
      using ok unfolding controller_ok_def mutating_def by simp blast
    have "controller_ok (on_state_changed i v g)"
    proof (cases "is_stale p g")
      case True
      with Some show ?thesis
        by (intro controller_ok_cong [OF _ _ _ _ _ ok]) (simp_all add: on_state_changed_def ui_record_snd)
    next
      case False
      with Some show ?thesis
        by (intro controller_ok_cong [OF _ _ _ _ _ ap])
          (simp_all add: on_state_changed_def)
    qed
    with AutostartStateChanged Some show ?thesis
      by (simp add: delivered_def on_state_changed_def ui_record_snd)
  qed
next
  case RuntimeClosing
  have "controller_ok (ui_begin_closing g)"
    by (rule controller_ok_cong [OF _ _ _ _ _ ok])
      (simp_all add: ui_begin_closing_def new_context_def ui_record_snd Let_def)
  with RuntimeClosing ok show ?thesis
    by (simp add: delivered_def ui_begin_closing_def new_context_def ui_record_snd Let_def)
qed (use ok in \<open>simp_all add: delivered_def\<close>)

lemma fold_deliver:
  "controller_ok g \<Longrightarrow> delivered (concat (map answer_id sgs)) g (fold deliver sgs g)"
proof (induction sgs arbitrary: g)
  case (Cons sg sgs)
  note d = deliver_delivered [OF Cons.prems, of sg]
  then have "controller_ok (deliver sg g)" by (simp add: delivered_def)
  from Cons.IH [OF this] d show ?case by (auto simp: delivered_def)
qed (simp add: delivered_def)

lemma controller_ok_bridge [simp]: "controller_ok (g\<lparr>gu_bridge := b\<rparr>) = controller_ok g"
  by (simp add: controller_ok_def mutating_def)

lemma with_bridge_delivered:
  assumes "controller_ok g"
  shows "delivered (concat (map answer_id (new_signals (gu_bridge g) (f (gu_bridge g)))))
     (g\<lparr>gu_bridge := f (gu_bridge g)\<rparr>) (with_bridge f g)"
  using fold_deliver [of "g\<lparr>gu_bridge := f (gu_bridge g)\<rparr>" "new_signals (gu_bridge g) (f (gu_bridge g))"] assms
  by (simp add: with_bridge_def Let_def)

lemma with_bridge_ok:
  assumes ok: "gui_ok g" and l: "later (gu_bridge g) (f (gu_bridge g))"
    and t: "tally (gu_bridge g) \<subseteq># tally (f (gu_bridge g))"
  shows "gui_ok (with_bridge f g)"
proof -
  have c: "controller_ok g" using ok by (simp add: gui_ok_def)
  note d = with_bridge_delivered [OF c, of f]
  have "i \<in> set (br_pending (gu_bridge (with_bridge f g)))" if "ui_pending (with_bridge f g) i \<noteq> None" for i
  proof -
    from that d have ni: "i \<notin> set (concat (map answer_id (new_signals (gu_bridge g) (f (gu_bridge g)))))"
      and "ui_pending g i \<noteq> None"
      by (auto simp: delivered_def split: if_splits)
    then have "i \<in> set (br_pending (gu_bridge g))" using ok by (simp add: gui_ok_def)
    from answered_later [OF l t this] ni d show ?thesis by (simp add: delivered_def)
  qed
  with d show ?thesis by (simp add: gui_ok_def delivered_def)
qed

section \<open>Operations\<close>

text \<open>A bridge operation on behalf of one new command can only report the failure of that command.\<close>

definition reports :: "string \<Rightarrow> bridge \<Rightarrow> bridge \<Rightarrow> bool" where
  "reports i b b' \<longleftrightarrow> (\<exists>sgs. br_signals b' = br_signals b @ sgs \<and> (\<forall>sg\<in>set sgs. answer_id sg = [i]))"

lemma reports_nothing [simp]: "br_signals d = br_signals b \<Longrightarrow> reports i b d"
  by (simp add: reports_def)

lemma record_signals [simp]: "br_signals (snd (bridge_record ev c rc b)) = br_signals b"
  by (simp add: bridge_record_def split: option.split prod.split sum.split)

lemma reports_fail [simp]:
  "br_signals d = br_signals b \<Longrightarrow> reports i b (fail_command i code message d)"
  by (simp add: reports_def fail_command_def signal_def release_command_def Let_def split: option.split)

lemma submit_reports: "reports (tc_command_id c) b (bridge_submit a c b)"
proof -
  have r: "br_signals d = br_signals b" if "bridge_record ev ctx rc b = (q, d)" for ev ctx rc q d
    using record_signals [of ev ctx rc b] that by simp
  show ?thesis
    by (simp add: bridge_submit_def Let_def split: option.split prod.split) (simp add: r)
qed

lemma deliver_unknown:
  assumes "answer_id sg = [i]" and "ui_pending g i = None"
  shows "deliver sg g = g"
  using assms by (cases sg) (simp_all add: on_command_completed_def on_command_failed_def)

lemma fold_deliver_unknown:
  assumes "\<forall>sg\<in>set sgs. answer_id sg = [i]" and "ui_pending g i = None"
  shows "fold deliver sgs g = g"
  using assms by (induction sgs) (simp_all add: deliver_unknown)

lemma with_bridge_submit:
  assumes f: "f (gu_bridge g) = bridge_submit a c b" and b: "br_signals b = br_signals (gu_bridge g)"
    and n: "ui_pending g (tc_command_id c) = None"
  shows "with_bridge f g = g\<lparr>gu_bridge := f (gu_bridge g)\<rparr>"
proof -
  obtain sgs where "br_signals (f (gu_bridge g)) = br_signals (gu_bridge g) @ sgs"
      "\<forall>sg\<in>set sgs. answer_id sg = [tc_command_id c]"
    using submit_reports [of c b a] f b by (auto simp: reports_def)
  then show ?thesis
    using n by (simp add: with_bridge_def new_signals_def fold_deliver_unknown [where i = "tc_command_id c"])
qed

lemma autostart_commands:
  "\<exists>c b'. bridge_request_autostart a i oid og n b = bridge_submit a c b'
     \<and> tc_command_id c = i \<and> br_signals b' = br_signals b"
  "\<exists>c b'. bridge_set_autostart_enabled a i e oid og n b = bridge_submit a c b'
     \<and> tc_command_id c = i \<and> br_signals b' = br_signals b"
proof -
  let ?c = "(thread_command i RuntimeThreadCommandType.REQUEST_AUTOSTART)
         \<lparr>tc_operation_id := oid, tc_autostart_origin := og, tc_controller_revision := n\<rparr>"
  let ?d = "(thread_command i RuntimeThreadCommandType.SET_AUTOSTART)
         \<lparr>tc_enabled := e, tc_operation_id := oid, tc_autostart_origin := og, tc_controller_revision := n\<rparr>"
  show "\<exists>c b'. bridge_request_autostart a i oid og n b = bridge_submit a c b'
     \<and> tc_command_id c = i \<and> br_signals b' = br_signals b"
    by (rule exI [of _ ?c], rule exI [of _ "with_context i oid og None n (new_command_id i b)"])
      (simp add: bridge_request_autostart_def with_context_def new_command_id_def thread_command_def)
  show "\<exists>c b'. bridge_set_autostart_enabled a i e oid og n b = bridge_submit a c b'
     \<and> tc_command_id c = i \<and> br_signals b' = br_signals b"
    by (rule exI [of _ ?d], rule exI [of _ "with_context i oid og (Some e) n (new_command_id i b)"])
      (simp add: bridge_set_autostart_enabled_def with_context_def new_command_id_def thread_command_def)
qed

lemma with_bridge_autostart:
  assumes "ui_pending g i = None"
  shows "with_bridge (bridge_request_autostart a i oid og n) g =
           g\<lparr>gu_bridge := bridge_request_autostart a i oid og n (gu_bridge g)\<rparr>"
    and "with_bridge (bridge_set_autostart_enabled a i e oid og n) g =
           g\<lparr>gu_bridge := bridge_set_autostart_enabled a i e oid og n (gu_bridge g)\<rparr>"
proof -
  obtain c b' where "bridge_request_autostart a i oid og n (gu_bridge g) = bridge_submit a c b'"
      "tc_command_id c = i" "br_signals b' = br_signals (gu_bridge g)"
    using autostart_commands(1) by blast
  then show "with_bridge (bridge_request_autostart a i oid og n) g =
      g\<lparr>gu_bridge := bridge_request_autostart a i oid og n (gu_bridge g)\<rparr>"
    using assms by (intro with_bridge_submit [where a = a and c = c and b = b']) auto
next
  obtain c b' where "bridge_set_autostart_enabled a i e oid og n (gu_bridge g) = bridge_submit a c b'"
      "tc_command_id c = i" "br_signals b' = br_signals (gu_bridge g)"
    using autostart_commands(2) by blast
  then show "with_bridge (bridge_set_autostart_enabled a i e oid og n) g =
      g\<lparr>gu_bridge := bridge_set_autostart_enabled a i e oid og n (gu_bridge g)\<rparr>"
    using assms by (intro with_bridge_submit [where a = a and c = c and b = b']) auto
qed

lemma gui_ok_quiet:
  assumes "gui_ok g" and "ui_pending g' = ui_pending g" "ui_busy g' = ui_busy g" "ui_revision g \<le> ui_revision g'"
    "ui_latest_applied_revision g' = ui_latest_applied_revision g"
    "ui_latest_mutation_revision g' = ui_latest_mutation_revision g"
    "br_pending (gu_bridge g') = br_pending (gu_bridge g)"
  shows "gui_ok g'"
  using assms controller_ok_cong [of g' g] by (simp add: gui_ok_def)

lemma record_rejection_ok: "gui_ok g \<Longrightarrow> gui_ok (record_rejection origin q code g)"
  by (auto simp: record_rejection_def new_context_def Let_def ui_record_snd elim!: gui_ok_quiet)

lemma tally_le_autostart:
  "tally b \<subseteq># tally (bridge_request_autostart a i oid og n b)"
  "tally b \<subseteq># tally (bridge_set_autostart_enabled a i e oid og n b)"
  by (simp_all add: bridge_request_autostart_def bridge_set_autostart_enabled_def)

lemma later_autostart:
  "later b (bridge_request_autostart a i oid og n b)"
  "later b (bridge_set_autostart_enabled a i e oid og n b)"
  by (simp_all add: bridge_request_autostart_def bridge_set_autostart_enabled_def)

lemma remember_query_ok:
  assumes ok: "gui_ok g" and p: "is_command_pending i (gu_bridge g)" and n: "ui_pending g i = None"
    and r: "oc_controller_revision cx \<le> ui_revision g"
  shows "gui_ok (remember i cx False g)"
proof -
  have m: "mutating j (remember i cx False g) \<longleftrightarrow> mutating j g" for j
    using n by (simp add: mutating_def remember_def)
  show ?thesis
    using ok p r unfolding gui_ok_def controller_ok_def m
    by (auto simp: remember_def with_command_id_def is_command_pending_def)
qed

lemma refresh_ok:
  assumes ok: "gui_ok g" and fresh: "i \<notin> set (br_pending (gu_bridge g))"
  shows "gui_ok (refresh a i origin g)"
proof -
  obtain cx g1 where nc: "new_context origin None g = (cx, g1)" by force
  then have g1: "gui_ok g1" "ui_pending g1 = ui_pending g" "oc_controller_revision cx = ui_revision g1"
    using gui_ok_quiet [OF ok, of g1] by (auto simp: new_context_def Let_def)
  obtain r g2 where rec: "ui_record UI_REQUEST_ACCEPTED cx GUI ''none'' g1 = (r, g2)" by force
  then have g2: "gui_ok g2" "ui_pending g2 = ui_pending g" "ui_revision g2 = ui_revision g1"
    using gui_ok_quiet [OF g1(1), of g2] ui_record_snd [of UI_REQUEST_ACCEPTED cx GUI "''none''" g1] g1(2)
    by simp_all
  have n: "ui_pending g2 i = None" using ok fresh g2(2) by (auto simp: gui_ok_def)
  let ?f = "bridge_request_autostart a i (oc_operation_id cx) (oc_origin cx) (oc_controller_revision cx)"
  have g3: "gui_ok (with_bridge ?f g2)"
    by (rule with_bridge_ok [OF g2(1)]) (rule later_autostart tally_le_autostart)+
  have g3f: "ui_pending (with_bridge ?f g2) i = None" "ui_revision (with_bridge ?f g2) = ui_revision g2"
    using n by (simp_all add: with_bridge_autostart(1) [OF n])
  have "gui_ok (ui_journal_failure g2)"
    by (rule gui_ok_quiet [OF g2(1)]) (simp_all add: ui_journal_failure_def Let_def)
  with nc rec g3 g3f g1(3) g2(3) remember_query_ok [OF g3 _ g3f(1), of cx] record_rejection_ok [OF ok]
  show ?thesis by (simp add: refresh_def Let_def split: bool.split)
qed

lemma set_enabled_ok:
  assumes ok: "gui_ok g" and fresh: "i \<notin> set (br_pending (gu_bridge g))"
  shows "gui_ok (ui_set_enabled a i enabled origin g)"
proof (cases "\<not> user_toggle_allowed g \<or> enabled = snapshot_enabled (ui_snapshot g)")
  case True
  with record_rejection_ok [OF ok] show ?thesis by (simp add: ui_set_enabled_def)
next
  case False
  then have idle: "\<not> ui_busy g" by (simp add: user_toggle_allowed_def)
  obtain cx g1 where nc: "new_context origin (Some enabled) g = (cx, g1)" by force
  then have g1: "gui_ok g1" "ui_pending g1 = ui_pending g" "oc_controller_revision cx = ui_revision g1"
      "\<not> ui_busy g1"
    using gui_ok_quiet [OF ok, of g1] idle by (auto simp: new_context_def Let_def)
  obtain r g2 where rec: "ui_record UI_REQUEST_ACCEPTED cx GUI ''none'' g1 = (r, g2)" by force
  then have g2: "gui_ok g2" "ui_pending g2 = ui_pending g" "ui_revision g2 = ui_revision g1" "\<not> ui_busy g2"
    using gui_ok_quiet [OF g1(1), of g2] ui_record_snd [of UI_REQUEST_ACCEPTED cx GUI "''none''" g1] g1(2,4)
    by simp_all
  have n: "ui_pending g2 i = None" using ok fresh g2(2) by (auto simp: gui_ok_def)
  have free: "\<not> mutating j g2" for j using g2(1,4) by (auto simp: gui_ok_def controller_ok_def)
  let ?f = "bridge_set_autostart_enabled a i enabled (oc_operation_id cx) (oc_origin cx) (oc_controller_revision cx)"
  let ?b = "?f (gu_bridge g2)"
  have kept: "j \<in> set (br_pending ?b)" if "ui_pending g2 j \<noteq> None" for j
  proof -
    have "gui_ok (with_bridge ?f g2)"
      by (rule with_bridge_ok [OF g2(1)]) (rule later_autostart tally_le_autostart)+
    with that show ?thesis by (simp add: with_bridge_autostart(2) [OF n] gui_ok_def)
  qed
  have failed: "gui_ok (ui_journal_failure g2)"
    by (rule gui_ok_quiet [OF g2(1)]) (simp_all add: ui_journal_failure_def Let_def)
  let ?g = "g2\<lparr>ui_last_error := None, ui_busy := True, ui_latest_mutation_revision := oc_controller_revision cx\<rparr>"
  have wb: "with_bridge ?f ?g = ?g\<lparr>gu_bridge := ?b\<rparr>"
    using with_bridge_autostart(2) [of ?g i] n by simp
  have c2: "controller_ok g2" using g2(1) by (simp add: gui_ok_def)
  have gone: "gui_ok (ui_emit s1 (ui_emit s2 (?g\<lparr>gu_bridge := ?b, ui_busy := False, ui_last_error := e\<rparr>)))" for s1 s2 e
  proof -
    have "mutating j (ui_emit s1 (ui_emit s2 (?g\<lparr>gu_bridge := ?b, ui_busy := False, ui_last_error := e\<rparr>))) = mutating j g2" for j
      by (simp add: mutating_def)
    then show ?thesis
      using c2 free kept g1(3) g2(3,4) by (auto simp: gui_ok_def controller_ok_def mutating_def split: option.splits)
  qed
  have held: "gui_ok (ui_emit s1 (remember i cx True (?g\<lparr>gu_bridge := ?b\<rparr>)))"
    if "is_command_pending i ?b" for s1
  proof -
    have "mutating j (ui_emit s1 (remember i cx True (?g\<lparr>gu_bridge := ?b\<rparr>))) \<longleftrightarrow> j = i" for j
      using free [of j] n by (auto simp: mutating_def remember_def split: option.splits)
    then show ?thesis
      using c2 free kept g1(3) g2(3,4) that unfolding gui_ok_def controller_ok_def
      by (auto simp: remember_def with_command_id_def is_command_pending_def mutating_def split: option.splits)
  qed
  show ?thesis
    unfolding ui_set_enabled_def if_not_P [OF False] nc prod.case
    using failed gone held by (simp add: wb rec Let_def split: bool.split)
qed

lemma worker_ready_ok:
  assumes ok: "gui_ok g" and fresh: "i \<notin> set (br_pending (gu_bridge g))"
  shows "gui_ok (gui_worker_ready a i internal v g)"
proof (cases v)
  case None
  have "gui_ok (with_bridge (reject_worker internal) g)"
    by (rule with_bridge_ok [OF ok])
      (simp_all add: reject_worker_def Let_def split: option.split)
  with None show ?thesis by (simp add: gui_worker_ready_def)
next
  case (Some snap)
  have wb: "with_bridge worker_ready_begin g = g\<lparr>gu_bridge := worker_ready_begin (gu_bridge g)\<rparr>"
    by (simp add: with_bridge_def worker_ready_begin_def new_signals_def signal_def)
  have g1: "gui_ok (with_bridge worker_ready_begin g)"
    by (rule with_bridge_ok [OF ok]) (simp_all add: worker_ready_begin_def)
  have "i \<notin> set (br_pending (gu_bridge (with_bridge worker_ready_begin g)))"
    using fresh by (simp add: wb worker_ready_begin_def)
  from refresh_ok [OF g1 this, of a STARTUP_QUERY]
  have "gui_ok (with_bridge (worker_ready_end snap) (refresh a i STARTUP_QUERY (with_bridge worker_ready_begin g)))"
    by (rule with_bridge_ok) (simp_all add: worker_ready_end_def Let_def split: option.split)
  with Some ok show ?thesis by (simp add: gui_worker_ready_def)
qed

lemma gui_step_ok:
  assumes ok: "gui_ok g" and fresh: "\<forall>i\<in>set (drawn inp). i \<notin> set (br_pending (gu_bridge g))"
  shows "gui_ok (gui_step inp g)"
proof (cases inp)
  case (Bridge bi)
  have "gui_ok (with_bridge (bridge_step bi) g)"
    by (rule with_bridge_ok [OF ok]) (simp_all add: tally_step later_step)
  with Bridge ok show ?thesis by (cases bi) simp_all
qed (use assms refresh_ok set_enabled_ok worker_ready_ok in auto)

lemma gui_run_ok: "gui_ok g \<Longrightarrow> gui_run is g = Some g' \<Longrightarrow> gui_ok g'"
proof (induction "is" arbitrary: g)
  case (Cons i "is")
  then have "gui_ok (gui_step i g)" by (intro gui_step_ok) (auto simp: list_ex_iff split: if_splits)
  with Cons show ?case by (auto split: if_splits)
qed simp

text \<open>Once the thread has finished, nothing is awaited.\<close>

lemma finished_idle:
  assumes "gui_ok g"
  shows "ui_pending (gui_step (Bridge Thread_Finished) g) = (\<lambda>_. None)"
    "\<not> ui_busy (gui_step (Bridge Thread_Finished) g)"
proof -
  let ?g = "with_bridge on_thread_finished g"
  have ok: "gui_ok ?g"
    using gui_step_ok [OF assms, of "Bridge Thread_Finished"] by simp
  have "br_pending (gu_bridge ?g) = []"
    using with_bridge_delivered [of g on_thread_finished] assms
    by (simp add: gui_ok_def delivered_def pending_finished)
  with ok have "ui_pending ?g = (\<lambda>_. None)" by (auto simp: gui_ok_def)
  with ok show "ui_pending (gui_step (Bridge Thread_Finished) g) = (\<lambda>_. None)"
    "\<not> ui_busy (gui_step (Bridge Thread_Finished) g)"
    by (simp_all add: gui_ok_def controller_ok_def mutating_def)
qed

end
