(* ===== verification/Runtime_Properties.thy ===== *)
theory Runtime_Properties
  imports Thread_Run Gui_Invariant
begin

text \<open>
  Properties of the runtime thread, of the bridge to it, and of the autostart controller over the
  bridge.
\<close>

section \<open>Supporting lemmas\<close>

text \<open>A shutdown is remembered only by a bridge that is leaving.\<close>

definition shutdown_known :: "bridge \<Rightarrow> bool" where
  "shutdown_known b \<longleftrightarrow> (br_shutdown_command_id b \<noteq> None \<longrightarrow> leaving b)"

lemma fail_shutdown_id [simp]: "br_shutdown_command_id (fail_command i c m b) = br_shutdown_command_id b"
  using fail_answers [of i b c m] by (simp add: answers_def)

lemma call_thread_shutdown_id [simp]: "br_shutdown_command_id (call_thread c b) = br_shutdown_command_id b"
  by (simp add: call_thread_def)

lemma record_shutdown_id: "bridge_record ev c rc b = (r, d) \<Longrightarrow> br_shutdown_command_id d = br_shutdown_command_id b"
  using arg_cong [OF bridge_record_frame, of ev c rc b r d br_shutdown_command_id] by simp

lemma submit_shutdown_id [simp]: "br_shutdown_command_id (bridge_submit a c b) = br_shutdown_command_id b"
  by (auto simp: bridge_submit_def Let_def split: option.split prod.split dest: record_shutdown_id)

lemma with_context_shutdown_id [simp]:
  "br_shutdown_command_id (with_context i oid og r n b) = br_shutdown_command_id b"
  by (simp add: with_context_def)

lemma request_shutdown_id: "br_shutdown_command_id (perform_request a i r b) = br_shutdown_command_id b"
  by (cases r) (simp_all add: bridge_request_defs reject_command_def Let_def)

lemma finished_shutdown_id: "br_shutdown_command_id (on_thread_finished b) = None"
  by (simp add: on_thread_finished_def finished_badly_def finished_with_def signal_def Let_def
      split: option.split prod.split)

lemma shutdown_known_step:
  assumes "shutdown_known b"
  shows "shutdown_known (bridge_step i b)"
proof (cases "leaving b")
  case True
  with step_leaving [of b i] show ?thesis by (simp add: shutdown_known_def only_shutdowns_def)
next
  case False
  with assms have n: "br_shutdown_command_id b = None" by (simp add: shutdown_known_def)
  show ?thesis
  proof (cases i)
    case (Runtime_Event v)
    with n show ?thesis
      by (simp add: shutdown_known_def relay_runtime_event_def split: option.split RuntimeEventType.split)
  qed (use n in \<open>simp_all add: shutdown_known_def start_runtime_def request_shutdown_id finished_shutdown_id
      bridge_shutdown_def leaving_def on_worker_ready_def reject_worker_def worker_ready_begin_def
      worker_ready_end_def relay_snapshot_def relay_provider_settings_def relay_autostart_state_def
      on_command_result_def on_shutdown_outcome_def Let_def split: option.split\<close>)
qed

lemma shutdown_known_run: "shutdown_known b \<Longrightarrow> shutdown_known (bridge_run is b)"
proof (induction "is" arbitrary: b)
  case (Cons i "is")
  from Cons.IH [OF shutdown_known_step [OF Cons.prems]] show ?case by (simp add: bridge_run_def)
qed (simp add: bridge_run_def)

lemma shutdown_leaves: "shutdown_known b \<Longrightarrow> leaving (bridge_shutdown i c b)"
  by (cases "br_state b")
    (auto simp: bridge_shutdown_def shutdown_known_def leaving_def Let_def)

lemma bridge_run_append: "bridge_run (xs @ ys) b = bridge_run ys (bridge_run xs b)"
  by (simp add: bridge_run_def)

lemma shutdown_known_new: "shutdown_known (new_bridge j)"
  by (simp add: shutdown_known_def new_bridge_def)

lemma tally_new_bridge: "tally (new_bridge j) = {#}"
  by (simp add: tally_def new_bridge_def answered_def)

text \<open>A controller whose every operation succeeds, and a short life of the thread.\<close>

definition ready_snapshot :: RuntimeSnapshot where
  "ready_snapshot =
    \<lparr>rs_runtime_state = ''ready'', rs_provider_lifecycle = ''inactive'', rs_active_profile_id = None,
     rs_active_turn_id = None, rs_agent_state = ''idle'', rs_accepting_commands = True,
     rs_retiring_provider_count = 0, rs_candidate_cleanup_pending_count = 0, rs_runtime_thread_id = 1\<rparr>"

definition sample_port :: "unit controller_port" where
  "sample_port =
    \<lparr>cp_activate = (\<lambda>_ _ _ c. (Inr rc_ok, c)), cp_start_turn = (\<lambda>_ _ c. (Inr rc_ok, c)),
     cp_cancel_active_turn = (\<lambda>c. (Inr rc_ok, c)), cp_shutdown = (\<lambda>_ c. (Inr rc_ok, c)),
     cp_snapshot = (\<lambda>_. ready_snapshot), cp_closed = (\<lambda>_. False), cp_settings = None\<rparr>"

definition sample_thread_view :: process_view where
  "sample_thread_view =
    \<lparr>pv_executable = Inl OSError, pv_packaged_probe = Inr False, pv_eligibility_probe = None,
     pv_fs = \<lparr>fs_resolve = (\<lambda>_. Inl OSError), fs_resolve_text = (\<lambda>_. Inl OSError), fs_lstat = (\<lambda>_. Inl OSError)\<rparr>\<rparr>"

definition sample_life :: "(unit, unit) thread_input list" where
  "sample_life =
    [Boot (Inr ((), new_autostart_service None False None ())), Enter sample_thread_view,
     Submit True (thread_command ''a'' RuntimeThreadCommandType.REQUEST_SNAPSHOT),
     Request_Shutdown True (thread_command ''b'' RuntimeThreadCommandType.SHUTDOWN),
     Submit True (thread_command ''c'' RuntimeThreadCommandType.REQUEST_SNAPSHOT),
     Dispatch sample_thread_view, Dispatch sample_thread_view]"

section \<open>Properties\<close>

text \<open>
  C7. When the runtime thread leaves its loop with a successful shutdown, every command its gate ever
  accepted has been executed and answered, in the order of acceptance and the shutdown last; the
  queue is empty and nothing is accepted any more.
\<close>

theorem orderly_thread_shutdown:
  assumes "thread_run C is (new_thread_life c) = Some s"
    and "tl_phase s = Exiting o1" and "eo_success o1"
  shows "tl_accepted s = result_ids (tl_thread s) @ [eo_command_id o1]
    \<and> th_queue (tl_thread s) = []
    \<and> \<not> fst (thread_submit alive command (tl_thread s))
    \<and> \<not> fst (thread_request_shutdown alive command (tl_thread s))"
  using life_ok_run [OF life_ok_new assms(1)] assms(2,3)
  by (simp add: life_ok_def thread_submit_def thread_request_shutdown_def)

lemma orderly_thread_shutdown_witness:
  "\<exists>s. thread_run sample_port sample_life (new_thread_life ()) = Some s \<and> tl_accepted s = [''a'', ''b'']
     \<and> th_queue (tl_thread s) = []"
proof -
  let ?r = "thread_run sample_port sample_life (new_thread_life ())"
  have r: "(case ?r of None \<Rightarrow> False
      | Some s \<Rightarrow> tl_phase s = Exiting (exit_success (thread_command ''b'' RuntimeThreadCommandType.SHUTDOWN) rc_ok)
                 \<and> tl_accepted s = [''a'', ''b''])"
    by (simp add: sample_life_def thread_step_def new_thread_life_def new_runtime_thread_def thread_attach_def
        thread_enter_def after_loop_def gate_step_def thread_submit_def thread_request_shutdown_def
        is_shutdown_def dispatch_next_def dispatch_command_def execute_command_safely_def execute_command_def
        run_controller_def sample_port_def thread_command_def rc_ok_def emit_snapshot_def emit_result_def
        stop_accepting_def thread_emit_def)
  then obtain s where s: "?r = Some s"
      "tl_phase s = Exiting (exit_success (thread_command ''b'' RuntimeThreadCommandType.SHUTDOWN) rc_ok)"
      "tl_accepted s = [''a'', ''b'']"
    by (auto split: option.splits)
  have "eo_success (exit_success (thread_command ''b'' RuntimeThreadCommandType.SHUTDOWN) rc_ok)"
    by (simp add: exit_success_def)
  from orderly_thread_shutdown [OF s(1,2) this] s show ?thesis by blast
qed

text \<open>
  C6. Whatever the user interface requests and the thread signals, in any order: every identifier the
  bridge has issued is either still pending or has been answered by exactly one signal, and when
  the thread finishes every one has been answered exactly once.
\<close>

theorem commands_answered_once:
  assumes "distinct (issued_ids is)"
  shows "distinct (answered (bridge_run is (new_bridge journal)) @ br_pending (bridge_run is (new_bridge journal)))
    \<and> set (answered (bridge_run is (new_bridge journal)) @ br_pending (bridge_run is (new_bridge journal)))
        = set (issued_ids is)
    \<and> mset (answered (bridge_run (is @ [Thread_Finished]) (new_bridge journal))) = mset (issued_ids is)"
proof -
  let ?b = "bridge_run is (new_bridge journal)"
  have t: "mset (answered ?b @ br_pending ?b) = mset (issued_ids is)"
    using tally_run [of "is" "new_bridge journal"] unfolding tally_new_bridge by (simp add: tally_def add.commute)
  have "mset (answered (on_thread_finished ?b)) = mset (issued_ids is)"
    using tally_run [of "is" "new_bridge journal"] tally_finished [of ?b]
    unfolding tally_new_bridge by (simp add: tally_def pending_finished)
  then have "mset (answered (bridge_run (is @ [Thread_Finished]) (new_bridge journal))) = mset (issued_ids is)"
    by (simp add: bridge_run_append) (simp add: bridge_run_def)
  with t assms mset_eq_setD [OF t] mset_eq_imp_distinct_iff [OF t] show ?thesis by blast
qed

lemma commands_answered_once_witness:
  "mset (answered (bridge_run
      [Start_Runtime True ''s'', Worker_Ready ''w'' (Some ready_snapshot), Request True ''a'' RequestSnapshot,
       Request True ''b'' CancelActiveTurn, Command_Result ''a'' True ''none'' [], Thread_Finished]
      (new_bridge None))) = {#''s'', ''a'', ''b''#}"
proof -
  have "distinct (issued_ids [Start_Runtime True ''s'', Worker_Ready ''w'' (Some ready_snapshot),
      Request True ''a'' RequestSnapshot, Request True ''b'' CancelActiveTurn, Command_Result ''a'' True ''none'' []])"
    by (simp add: issued_ids_def)
  from commands_answered_once [OF this, of None] show ?thesis by (simp add: issued_ids_def)
qed

text \<open>
  From the moment the user interface asks for shutdown, whatever happened before and happens later,
  the bridge accepts no command: it is never ready again and hands nothing but shutdown requests
  to the thread.
\<close>

theorem closing_barrier:
  "only_shutdowns (bridge_run (is @ [Shutdown i cancel_active]) (new_bridge journal))
     (bridge_run js (bridge_run (is @ [Shutdown i cancel_active]) (new_bridge journal)))"
proof -
  let ?b = "bridge_run (is @ [Shutdown i cancel_active]) (new_bridge journal)"
  have "leaving ?b"
    using shutdown_leaves [OF shutdown_known_run [OF shutdown_known_new]]
    by (simp add: bridge_run_append) (simp add: bridge_run_def)
  then show ?thesis by (rule run_leaving)
qed

text \<open>
  C16. In every run of the user interface, the autostart controller is busy exactly while one toggle is
  under way, every operation it waits for is still pending in the bridge, and the result of a query
  that was sent before the last toggle is not shown; and when the runtime thread finishes, the
  controller waits for nothing and is not busy.
\<close>

theorem autostart_controller_settles:
  assumes "gui_run is (new_gui journal draws) = Some g"
  shows "(ui_busy g \<longleftrightarrow> (\<exists>i. mutating i g))
    \<and> (\<forall>i j. mutating i g \<and> mutating j g \<longrightarrow> i = j)
    \<and> (\<forall>i. ui_pending g i \<noteq> None \<longrightarrow> i \<in> set (br_pending (gu_bridge g)))
    \<and> (\<forall>i p x. ui_pending g i = Some p \<and> revision_of p < ui_latest_mutation_revision g
         \<longrightarrow> ui_snapshot (on_state_changed i x g) = ui_snapshot g)
    \<and> ui_pending (gui_step (Bridge Thread_Finished) g) = (\<lambda>_. None)
    \<and> \<not> ui_busy (gui_step (Bridge Thread_Finished) g)"
proof -
  have ok: "gui_ok g" using gui_run_ok [OF gui_ok_new assms] .
  have stale: "ui_snapshot (on_state_changed i x g) = ui_snapshot g"
    if "ui_pending g i = Some p" "revision_of p < ui_latest_mutation_revision g" for i p x
  proof -
    have "\<not> po_mutation p" using ok that by (auto simp: gui_ok_def controller_ok_def)
    with that show ?thesis by (simp add: on_state_changed_def is_stale_def ui_record_snd)
  qed
  show ?thesis
    using ok stale finished_idle [OF ok] by (auto simp: gui_ok_def controller_ok_def)
qed

definition sample_gui_run :: "gui_input list" where
  "sample_gui_run =
    [Bridge (Start_Runtime True ''s''), Ready True ''q'' ''w'' (Some ready_snapshot),
     Bridge (Autostart ''q'' (Some (for_status DISABLED))), Bridge (Command_Result ''q'' True ''none'' []),
     Toggle True ''t'' True SETTINGS_CHECKBOX]"

lemma autostart_controller_settles_witness:
  "\<exists>g. gui_run sample_gui_run (new_gui None []) = Some g \<and> ui_busy g
     \<and> \<not> ui_busy (gui_step (Bridge Thread_Finished) g)"
proof -
  let ?r = "gui_run sample_gui_run (new_gui None [])"
  have "(case ?r of None \<Rightarrow> False | Some g \<Rightarrow> ui_busy g)" by code_simp
  then obtain g where g: "?r = Some g" "ui_busy g" by (auto split: option.splits)
  from autostart_controller_settles [OF g(1)] g show ?thesis by blast
qed

end
