(* ===== verification/Conversation_Draft.thy ===== *)
theory Conversation_Draft
  imports Prelude
begin

text \<open>
  The one unsent draft of a conversation, \<^verbatim>\<open>presentation/conversation_draft_safety.py\<close>: edits and
  compositions of an input method, exact snapshots at submission, and what acceptance, rejection,
  cancellation and discarding do to the draft.

  The identity of a submission (\<^verbatim>\<open>uuid4\<close>) is an argument. A method returns its result with the model;
  the projection that most of them return is \<open>draft_snapshot\<close> of that model.
\<close>

section \<open>State\<close>

record ConversationDraftSnapshot =
  ds_text :: string
  ds_has_draft :: bool
  ds_revision :: int
  ds_caret :: int
  ds_selection :: "(int \<times> int) option"
  ds_submitted_identity :: "string option"
  ds_ime_composition :: "string option"

record SubmittedDraftSnapshot =
  su_identity :: string
  su_revision :: int
  su_text :: string

record DraftEditIntent =
  ei_text :: string
  ei_caret :: int
  ei_selection :: "(int \<times> int) option"
  ei_ime_composition :: "string option"

record ConversationDraftModel =
  dm_text :: string
  dm_revision :: int
  dm_caret :: int
  dm_selection :: "(int \<times> int) option"
  dm_ime_composition :: "string option"
  dm_submitted_identity :: "string option"
  dm_submitted :: "string \<Rightarrow> SubmittedDraftSnapshot option"

definition new_draft_model :: ConversationDraftModel where
  "new_draft_model =
    \<lparr>dm_text = [], dm_revision = 0, dm_caret = 0, dm_selection = None, dm_ime_composition = None,
     dm_submitted_identity = None, dm_submitted = (\<lambda>_. None)\<rparr>"

definition draft_snapshot :: "ConversationDraftModel \<Rightarrow> ConversationDraftSnapshot" where
  "draft_snapshot d =
    \<lparr>ds_text = dm_text d, ds_has_draft = (dm_text d \<noteq> []), ds_revision = dm_revision d,
     ds_caret = dm_caret d, ds_selection = dm_selection d,
     ds_submitted_identity = dm_submitted_identity d, ds_ime_composition = dm_ime_composition d\<rparr>"

section \<open>Operations\<close>

definition draft_edit :: "DraftEditIntent \<Rightarrow> ConversationDraftModel \<Rightarrow> ConversationDraftModel" where
  "draft_edit intent d =
    (if ei_ime_composition intent \<noteq> None
     then d\<lparr>dm_caret := ei_caret intent, dm_selection := ei_selection intent,
            dm_ime_composition := ei_ime_composition intent\<rparr>
     else
       let d1 = d\<lparr>dm_caret := ei_caret intent, dm_selection := ei_selection intent,
                  dm_ime_composition := None\<rparr> in
       if ei_text intent \<noteq> dm_text d1
       then d1\<lparr>dm_text := ei_text intent, dm_revision := dm_revision d1 + 1\<rparr> else d1)"

definition draft_submit ::
    "string \<Rightarrow> ConversationDraftModel \<Rightarrow> SubmittedDraftSnapshot option \<times> ConversationDraftModel" where
  "draft_submit identity d =
    (if dm_text d = [] then (None, d)
     else if dm_ime_composition d \<noteq> None then (None, d)
     else if dm_submitted_identity d \<noteq> None then (None, d)
     else
       let snap = \<lparr>su_identity = identity, su_revision = dm_revision d, su_text = dm_text d\<rparr> in
       (Some snap,
        d\<lparr>dm_submitted_identity := Some identity, dm_submitted := (dm_submitted d)(identity \<mapsto> snap)\<rparr>))"

definition clear_draft :: "ConversationDraftModel \<Rightarrow> ConversationDraftModel" where
  "clear_draft d = d\<lparr>dm_text := [], dm_caret := 0, dm_selection := None, dm_ime_composition := None\<rparr>"

text \<open>The correlated identity is given up, when it is the one in flight.\<close>

definition settle_identity :: "string \<Rightarrow> ConversationDraftModel \<Rightarrow> ConversationDraftModel" where
  "settle_identity identity d =
    (if dm_submitted_identity d = Some identity then d\<lparr>dm_submitted_identity := None\<rparr> else d)"

definition draft_accept :: "string \<Rightarrow> ConversationDraftModel \<Rightarrow> ConversationDraftModel" where
  "draft_accept identity d =
    (case dm_submitted d identity of
       None \<Rightarrow> d
     | Some snap \<Rightarrow>
         let d1 = d\<lparr>dm_submitted := (dm_submitted d)(identity := None)\<rparr>;
             d2 = (if dm_submitted_identity d1 = Some identity \<and> dm_revision d1 = su_revision snap
                   then clear_draft d1 else d1)
         in settle_identity identity d2)"

definition draft_reject :: "string \<Rightarrow> ConversationDraftModel \<Rightarrow> ConversationDraftModel" where
  "draft_reject identity d =
    settle_identity identity (d\<lparr>dm_submitted := (dm_submitted d)(identity := None)\<rparr>)"

definition draft_cancel :: "string \<Rightarrow> ConversationDraftModel \<Rightarrow> ConversationDraftModel" where
  "draft_cancel identity d =
    settle_identity identity (d\<lparr>dm_submitted := (dm_submitted d)(identity := None)\<rparr>)"

definition draft_discard :: "ConversationDraftModel \<Rightarrow> ConversationDraftModel" where
  "draft_discard d = (clear_draft d)\<lparr>dm_submitted_identity := None\<rparr>"

section \<open>The invariant\<close>

text \<open>
  Every captured snapshot is filed under its identity and is not newer than the draft; and while the
  revision of the one in flight is current, its text is the draft.
\<close>

definition draft_ok :: "ConversationDraftModel \<Rightarrow> bool" where
  "draft_ok d \<longleftrightarrow>
     (\<forall>i s. dm_submitted d i = Some s \<longrightarrow> su_identity s = i \<and> su_revision s \<le> dm_revision d)
     \<and> (\<forall>i. dm_submitted_identity d = Some i \<longrightarrow>
          (\<exists>s. dm_submitted d i = Some s \<and> (su_revision s = dm_revision d \<longrightarrow> su_text s = dm_text d)))"

lemma draft_ok_new [simp]: "draft_ok new_draft_model"
  by (simp add: draft_ok_def new_draft_model_def)

lemma draft_ok_edit [inv_intros]: "draft_ok d \<Longrightarrow> draft_ok (draft_edit intent d)"
  by (force simp: draft_ok_def draft_edit_def Let_def)

lemma draft_ok_submit [inv_intros]: "draft_ok d \<Longrightarrow> draft_ok (snd (draft_submit i d))"
  by (auto simp: draft_ok_def draft_submit_def Let_def)

lemma draft_ok_release:
  assumes "draft_ok d"
  shows "draft_ok (settle_identity i (d\<lparr>dm_submitted := (dm_submitted d)(i := None)\<rparr>))"
  using assms by (auto simp: draft_ok_def settle_identity_def)

lemma draft_ok_reject [inv_intros]: "draft_ok d \<Longrightarrow> draft_ok (draft_reject i d)"
  unfolding draft_reject_def by (rule draft_ok_release)

lemma draft_ok_cancel [inv_intros]: "draft_ok d \<Longrightarrow> draft_ok (draft_cancel i d)"
  unfolding draft_cancel_def by (rule draft_ok_release)

lemma draft_ok_discard [inv_intros]: "draft_ok d \<Longrightarrow> draft_ok (draft_discard d)"
  by (simp add: draft_ok_def draft_discard_def clear_draft_def)

lemma draft_ok_accept [inv_intros]: "draft_ok d \<Longrightarrow> draft_ok (draft_accept i d)"
  by (auto simp: draft_ok_def draft_accept_def settle_identity_def clear_draft_def Let_def split: option.split)

text \<open>What can happen to the text.\<close>

lemma edit_text:
  "dm_text (draft_edit intent d) = (if ei_ime_composition intent = None then ei_text intent else dm_text d)"
  by (simp add: draft_edit_def Let_def)

lemma submit_text [simp]: "dm_text (snd (draft_submit i d)) = dm_text d"
  by (simp add: draft_submit_def Let_def)

lemma settle_fields [simp]:
  "dm_text (settle_identity i d) = dm_text d" "dm_submitted (settle_identity i d) = dm_submitted d"
  "dm_revision (settle_identity i d) = dm_revision d"
  by (simp_all add: settle_identity_def)

lemma reject_text [simp]: "dm_text (draft_reject i d) = dm_text d" "dm_text (draft_cancel i d) = dm_text d"
  by (simp_all add: draft_reject_def draft_cancel_def)

lemma discard_text [simp]: "dm_text (draft_discard d) = []"
  by (simp add: draft_discard_def clear_draft_def)

lemma discard_submitted [simp]: "dm_submitted (draft_discard d) = dm_submitted d"
  by (simp add: draft_discard_def clear_draft_def)

lemma submitted_kept:
  "dm_submitted (draft_edit intent d) = dm_submitted d"
  "dm_submitted (draft_accept i d) j = Some s \<Longrightarrow> dm_submitted d j = Some s"
  "dm_submitted (draft_reject i d) j = Some s \<Longrightarrow> dm_submitted d j = Some s"
  "dm_submitted (draft_cancel i d) j = Some s \<Longrightarrow> dm_submitted d j = Some s"
  by (auto simp: draft_edit_def draft_accept_def draft_reject_def draft_cancel_def clear_draft_def Let_def
      split: option.splits if_splits)

lemma submitted_new:
  "dm_submitted (snd (draft_submit i d)) j = Some s \<Longrightarrow>
   dm_submitted d j = Some s \<or> j = i \<and> fst (draft_submit i d) = Some s"
  by (auto simp: draft_submit_def Let_def split: if_splits)

lemma accept_text:
  assumes "draft_ok d" and "dm_text (draft_accept i d) \<noteq> dm_text d"
  shows "dm_text (draft_accept i d) = []
    \<and> (\<exists>s. dm_submitted d i = Some s \<and> su_text s = dm_text d \<and> su_revision s = dm_revision d)"
  using assms
  by (auto simp: draft_ok_def draft_accept_def clear_draft_def Let_def split: option.splits if_splits)

lemma submit_result:
  "fst (draft_submit i d) = Some s \<longleftrightarrow>
     dm_text d \<noteq> [] \<and> dm_ime_composition d = None \<and> dm_submitted_identity d = None
     \<and> s = \<lparr>su_identity = i, su_revision = dm_revision d, su_text = dm_text d\<rparr>"
  by (auto simp: draft_submit_def Let_def)

end
