(* ===== verification/Frontend_Presentation.thy ===== *)
theory Frontend_Presentation
  imports Conversation_Draft
begin

text \<open>
  The presentation state of the windows, \<^verbatim>\<open>presentation/frontend_presentation.py\<close>: intents change a
  snapshot and yield ordered effects for the widgets; and its coordinator,
  \<^verbatim>\<open>presentation/qt/frontend_presentation_coordinator.py\<close>, which hands the effects to a sink.
\<close>

section \<open>State\<close>

datatype PrimaryPresentation = CHARACTER | CAPSULE | EXPANDED | WORKSPACE

datatype ForegroundOverlay = NONE | PALETTE | CONFIRMATION | CRITICAL_ERROR | AMBIENT

datatype ActionPaletteLayer = ROOT | CHARACTER | ANIMATION | SYSTEM

datatype SemanticFocusTarget = NONE | PALETTE | CONVERSATION_INPUT | WORKSPACE_CONTROL | EXTERNAL

datatype PresentationEffectKind =
    SHOW_FOREGROUND_OVERLAY | DISMISS_FOREGROUND_OVERLAY | CREATE_CONVERSATION | RESTORE_CONVERSATION
  | CLOSE_CONVERSATION | HIDE_CONVERSATION | SET_SEMANTIC_FOCUS | PALETTE_LAYER_CHANGED

record FrontendPresentationSnapshot =
  fp_primary :: PrimaryPresentation
  fp_overlay :: ForegroundOverlay
  fp_context :: "string option"
  fp_focus :: SemanticFocusTarget
  fp_focus_return :: "SemanticFocusTarget option"
  fp_layer :: ActionPaletteLayer

definition initial_presentation :: FrontendPresentationSnapshot where
  "initial_presentation =
    \<lparr>fp_primary = PrimaryPresentation.CHARACTER, fp_overlay = ForegroundOverlay.NONE, fp_context = None,
     fp_focus = SemanticFocusTarget.NONE, fp_focus_return = None, fp_layer = ROOT\<rparr>"

record PresentationEffect =
  pe_kind :: PresentationEffectKind
  pe_overlay :: "ForegroundOverlay option"
  pe_conversation_id :: "string option"
  pe_focus_target :: "SemanticFocusTarget option"
  pe_layer :: "ActionPaletteLayer option"

definition presentation_effect :: "PresentationEffectKind \<Rightarrow> PresentationEffect" where
  "presentation_effect k =
    \<lparr>pe_kind = k, pe_overlay = None, pe_conversation_id = None, pe_focus_target = None, pe_layer = None\<rparr>"

definition focus_effect :: "SemanticFocusTarget \<Rightarrow> PresentationEffect" where
  "focus_effect f = (presentation_effect SET_SEMANTIC_FOCUS)\<lparr>pe_focus_target := Some f\<rparr>"

datatype FrontendPresentationIntent =
    ConversationOpenOrRestoreIntent
  | CloseConversationIntent
  | CollapseConversationIntent
  | ShowForegroundOverlayIntent ForegroundOverlay
  | DismissForegroundOverlayIntent
  | SetPaletteLayerIntent ActionPaletteLayer

record FrontendPresentationModel =
  fm_snapshot :: FrontendPresentationSnapshot
  fm_draft :: ConversationDraftModel

definition new_presentation_model :: FrontendPresentationModel where
  "new_presentation_model = \<lparr>fm_snapshot = initial_presentation, fm_draft = new_draft_model\<rparr>"

definition CONVERSATION_CONTEXT_ID :: string where
  "CONVERSATION_CONTEXT_ID = ''arkclaw-conversation''"

definition BLOCKING_OVERLAYS :: "ForegroundOverlay set" where
  "BLOCKING_OVERLAYS = {CONFIRMATION, CRITICAL_ERROR}"

section \<open>The draft behind the presentation\<close>

definition with_draft ::
    "(ConversationDraftModel \<Rightarrow> ConversationDraftModel) \<Rightarrow> FrontendPresentationModel \<Rightarrow> FrontendPresentationModel" where
  "with_draft f m = (if fp_context (fm_snapshot m) = None then m else m\<lparr>fm_draft := f (fm_draft m)\<rparr>)"

definition apply_draft_edit :: "DraftEditIntent \<Rightarrow> FrontendPresentationModel \<Rightarrow> FrontendPresentationModel" where
  "apply_draft_edit intent m = with_draft (draft_edit intent) m"

definition submit_draft ::
    "string \<Rightarrow> FrontendPresentationModel \<Rightarrow> SubmittedDraftSnapshot option \<times> FrontendPresentationModel" where
  "submit_draft identity m =
    (if fp_context (fm_snapshot m) = None then (None, m)
     else case draft_submit identity (fm_draft m) of (r, d) \<Rightarrow> (r, m\<lparr>fm_draft := d\<rparr>))"

definition accept_draft :: "string \<Rightarrow> FrontendPresentationModel \<Rightarrow> FrontendPresentationModel" where
  "accept_draft identity m = with_draft (draft_accept identity) m"

definition reject_draft :: "string \<Rightarrow> FrontendPresentationModel \<Rightarrow> FrontendPresentationModel" where
  "reject_draft identity m = with_draft (draft_reject identity) m"

definition cancel_draft :: "string \<Rightarrow> FrontendPresentationModel \<Rightarrow> FrontendPresentationModel" where
  "cancel_draft identity m = with_draft (draft_cancel identity) m"

definition discard_draft :: "FrontendPresentationModel \<Rightarrow> FrontendPresentationModel" where
  "discard_draft m = m\<lparr>fm_draft := draft_discard (fm_draft m)\<rparr>"

section \<open>Intents\<close>

definition open_conversation ::
    "FrontendPresentationModel \<Rightarrow> PresentationEffect list \<times> FrontendPresentationModel" where
  "open_conversation m =
    (let s = fm_snapshot m in
     if fp_overlay s \<in> BLOCKING_OVERLAYS then ([], m)
     else
       let dismissed =
             (if fp_overlay s \<noteq> ForegroundOverlay.NONE
              then [(presentation_effect DISMISS_FOREGROUND_OVERLAY)\<lparr>pe_overlay := Some (fp_overlay s)\<rparr>] else []);
           (ctx, draft, opened) =
             (case fp_context s of
                None \<Rightarrow> (CONVERSATION_CONTEXT_ID, draft_discard (fm_draft m), CREATE_CONVERSATION)
              | Some existing \<Rightarrow> (existing, fm_draft m, RESTORE_CONVERSATION))
       in (dismissed
             @ [(presentation_effect opened)\<lparr>pe_conversation_id := Some ctx\<rparr>,
                focus_effect CONVERSATION_INPUT],
           \<lparr>fm_snapshot =
              \<lparr>fp_primary = PrimaryPresentation.CAPSULE, fp_overlay = ForegroundOverlay.NONE, fp_context = Some ctx,
               fp_focus = CONVERSATION_INPUT, fp_focus_return = None, fp_layer = ROOT\<rparr>,
            fm_draft = draft\<rparr>))"

definition hide_conversation ::
    "FrontendPresentationModel \<Rightarrow> PresentationEffect list \<times> FrontendPresentationModel" where
  "hide_conversation m =
    (let s = fm_snapshot m in
     case fp_context s of
       None \<Rightarrow> ([], m)
     | Some ctx \<Rightarrow>
         if fp_primary s \<noteq> PrimaryPresentation.CAPSULE then ([], m)
         else ([(presentation_effect HIDE_CONVERSATION)\<lparr>pe_conversation_id := Some ctx\<rparr>,
                focus_effect SemanticFocusTarget.NONE],
               m\<lparr>fm_snapshot := s\<lparr>fp_primary := PrimaryPresentation.CHARACTER,
                                  fp_focus := SemanticFocusTarget.NONE, fp_focus_return := None\<rparr>\<rparr>))"

definition close_conversation ::
    "FrontendPresentationModel \<Rightarrow> PresentationEffect list \<times> FrontendPresentationModel" where
  "close_conversation m = hide_conversation m"

definition collapse_conversation ::
    "FrontendPresentationModel \<Rightarrow> PresentationEffect list \<times> FrontendPresentationModel" where
  "collapse_conversation m = hide_conversation m"

definition dismiss_foreground_overlay ::
    "FrontendPresentationModel \<Rightarrow> PresentationEffect list \<times> FrontendPresentationModel" where
  "dismiss_foreground_overlay m =
    (let s = fm_snapshot m in
     if fp_overlay s = ForegroundOverlay.NONE then ([], m)
     else if fp_overlay s \<in> BLOCKING_OVERLAYS then ([], m)
     else
       let target = (case fp_focus_return s of None \<Rightarrow> fp_focus s | Some f \<Rightarrow> f) in
       ([(presentation_effect DISMISS_FOREGROUND_OVERLAY)\<lparr>pe_overlay := Some (fp_overlay s)\<rparr>,
         focus_effect target],
        m\<lparr>fm_snapshot := s\<lparr>fp_overlay := ForegroundOverlay.NONE, fp_focus := target,
                           fp_focus_return := None, fp_layer := ROOT\<rparr>\<rparr>))"

definition show_foreground_overlay ::
    "ForegroundOverlay \<Rightarrow> FrontendPresentationModel \<Rightarrow> PresentationEffect list \<times> FrontendPresentationModel" where
  "show_foreground_overlay overlay m =
    (if overlay = ForegroundOverlay.NONE then dismiss_foreground_overlay m
     else
       let s = fm_snapshot m in
       if fp_overlay s \<in> BLOCKING_OVERLAYS then ([], m)
       else if fp_overlay s = overlay then ([], m)
       else
         let next = s\<lparr>fp_overlay := overlay, fp_focus_return := Some (fp_focus s)\<rparr>;
             shown = (presentation_effect SHOW_FOREGROUND_OVERLAY)\<lparr>pe_overlay := Some overlay\<rparr>
         in if overlay = ForegroundOverlay.PALETTE
            then ([shown\<lparr>pe_layer := Some ROOT\<rparr>, focus_effect SemanticFocusTarget.PALETTE],
                  m\<lparr>fm_snapshot := next\<lparr>fp_focus := SemanticFocusTarget.PALETTE, fp_layer := ROOT\<rparr>\<rparr>)
            else ([shown], m\<lparr>fm_snapshot := next\<rparr>))"

definition set_palette_layer ::
    "ActionPaletteLayer \<Rightarrow> FrontendPresentationModel \<Rightarrow> PresentationEffect list \<times> FrontendPresentationModel" where
  "set_palette_layer layer m =
    (let s = fm_snapshot m in
     if fp_overlay s \<noteq> ForegroundOverlay.PALETTE then ([], m)
     else if fp_layer s = layer then ([], m)
     else ([(presentation_effect PALETTE_LAYER_CHANGED)\<lparr>pe_layer := Some layer\<rparr>],
           m\<lparr>fm_snapshot := s\<lparr>fp_layer := layer\<rparr>\<rparr>))"

fun dispatch_intent ::
    "FrontendPresentationIntent \<Rightarrow> FrontendPresentationModel \<Rightarrow> PresentationEffect list \<times> FrontendPresentationModel" where
  "dispatch_intent ConversationOpenOrRestoreIntent m = open_conversation m"
| "dispatch_intent CollapseConversationIntent m = collapse_conversation m"
| "dispatch_intent CloseConversationIntent m = close_conversation m"
| "dispatch_intent (ShowForegroundOverlayIntent overlay) m = show_foreground_overlay overlay m"
| "dispatch_intent DismissForegroundOverlayIntent m = dismiss_foreground_overlay m"
| "dispatch_intent (SetPaletteLayerIntent layer) m = set_palette_layer layer m"

text \<open>
  The coordinator applies the effects of an intent to its sink, in their order, after the model has
  changed. A sink may look at the model: it is given its draft.
\<close>

definition coordinate ::
    "(FrontendPresentationModel \<Rightarrow> PresentationEffect \<Rightarrow> 'k \<Rightarrow> 'k) \<Rightarrow> FrontendPresentationIntent \<Rightarrow> FrontendPresentationModel \<times> 'k
     \<Rightarrow> FrontendPresentationModel \<times> 'k" where
  "coordinate sink intent c =
    (case dispatch_intent intent (fst c) of (effects, m) \<Rightarrow> (m, fold (sink m) effects (snd c)))"

section \<open>The surface of the conversation\<close>

text \<open>
  The sink behind the conversation capsule, \<^verbatim>\<open>presentation/qt/conversation_surface_effect_sink.py\<close>: the
  widget it keeps, whether it is shown, the draft it was last told to render, and how often it was
  asked to focus its input.
\<close>

record ConversationCapsule =
  cc_context_id :: string
  cc_visible :: bool
  cc_rendered :: "ConversationDraftSnapshot option"
  cc_focus_requests :: nat

record ConversationSurface =
  sf_host :: "ConversationCapsule option"

definition new_surface :: ConversationSurface where
  "new_surface = \<lparr>sf_host = None\<rparr>"

definition render_draft :: "ConversationDraftSnapshot \<Rightarrow> ConversationSurface \<Rightarrow> ConversationSurface" where
  "render_draft d f = f\<lparr>sf_host := map_option (\<lambda>h. h\<lparr>cc_rendered := Some d\<rparr>) (sf_host f)\<rparr>"

definition ensure_host ::
    "ConversationDraftSnapshot \<Rightarrow> string option \<Rightarrow> ConversationSurface \<Rightarrow> ConversationSurface" where
  "ensure_host d conversation_id f =
    render_draft d
      (case sf_host f of
         Some h \<Rightarrow> if \<not> cc_visible h then f\<lparr>sf_host := Some (h\<lparr>cc_visible := True\<rparr>)\<rparr> else f
       | None \<Rightarrow>
           f\<lparr>sf_host := Some
              \<lparr>cc_context_id = (case conversation_id of None \<Rightarrow> ''arkclaw-conversation''
                                | Some i \<Rightarrow> if i = [] then ''arkclaw-conversation'' else i),
               cc_visible = True, cc_rendered = None, cc_focus_requests = 0\<rparr>\<rparr>)"

definition hide_host :: "ConversationSurface \<Rightarrow> ConversationSurface" where
  "hide_host f =
    (case sf_host f of
       None \<Rightarrow> f
     | Some h \<Rightarrow> if cc_visible h then f\<lparr>sf_host := Some (h\<lparr>cc_visible := False\<rparr>)\<rparr> else f)"

definition destroy_host :: "ConversationSurface \<Rightarrow> ConversationSurface" where
  "destroy_host f = f\<lparr>sf_host := None\<rparr>"

definition apply_focus :: "SemanticFocusTarget option \<Rightarrow> ConversationSurface \<Rightarrow> ConversationSurface" where
  "apply_focus target f =
    (if target \<noteq> Some CONVERSATION_INPUT then f
     else f\<lparr>sf_host := map_option (\<lambda>h. h\<lparr>cc_focus_requests := cc_focus_requests h + 1\<rparr>) (sf_host f)\<rparr>)"

definition surface_apply ::
    "FrontendPresentationModel \<Rightarrow> PresentationEffect \<Rightarrow> ConversationSurface \<Rightarrow> ConversationSurface" where
  "surface_apply m e f =
    (case pe_kind e of
       CREATE_CONVERSATION \<Rightarrow> ensure_host (draft_snapshot (fm_draft m)) (pe_conversation_id e) f
     | RESTORE_CONVERSATION \<Rightarrow> ensure_host (draft_snapshot (fm_draft m)) (pe_conversation_id e) f
     | HIDE_CONVERSATION \<Rightarrow> hide_host f
     | CLOSE_CONVERSATION \<Rightarrow> destroy_host f
     | SET_SEMANTIC_FOCUS \<Rightarrow> apply_focus (pe_focus_target e) f
     | _ \<Rightarrow> f)"

section \<open>Runs\<close>

datatype presentation_op =
    Dispatch_Intent FrontendPresentationIntent
  | Edit_Draft DraftEditIntent
  | Submit_Draft string
  | Accept_Draft string
  | Reject_Draft string
  | Cancel_Draft string
  | Discard_Draft

fun presentation_step ::
    "(FrontendPresentationModel \<Rightarrow> PresentationEffect \<Rightarrow> 'k \<Rightarrow> 'k) \<Rightarrow> presentation_op \<Rightarrow> FrontendPresentationModel \<times> 'k
     \<Rightarrow> FrontendPresentationModel \<times> 'k" where
  "presentation_step sink (Dispatch_Intent intent) c = coordinate sink intent c"
| "presentation_step sink (Edit_Draft intent) c = (apply_draft_edit intent (fst c), snd c)"
| "presentation_step sink (Submit_Draft i) c = (snd (submit_draft i (fst c)), snd c)"
| "presentation_step sink (Accept_Draft i) c = (accept_draft i (fst c), snd c)"
| "presentation_step sink (Reject_Draft i) c = (reject_draft i (fst c), snd c)"
| "presentation_step sink (Cancel_Draft i) c = (cancel_draft i (fst c), snd c)"
| "presentation_step sink Discard_Draft c = (discard_draft (fst c), snd c)"

definition presentation_run ::
    "(FrontendPresentationModel \<Rightarrow> PresentationEffect \<Rightarrow> 'k \<Rightarrow> 'k) \<Rightarrow> presentation_op list \<Rightarrow> FrontendPresentationModel \<times> 'k
     \<Rightarrow> FrontendPresentationModel \<times> 'k" where
  "presentation_run sink ops c = fold (presentation_step sink) ops c"

lemma presentation_run_simps [simp]:
  "presentation_run sink [] c = c"
  "presentation_run sink (ops @ [op]) c = presentation_step sink op (presentation_run sink ops c)"
  by (simp_all add: presentation_run_def)

end
