(* ===== verification/Presentation_Properties.thy ===== *)
theory Presentation_Properties
  imports Frontend_Presentation
begin

text \<open>
  Properties of the presentation state: the draft is only ever lost on purpose, the effects the
  windows receive keep them in step with the snapshot, and a blocking overlay stays.
\<close>

section \<open>What the windows show\<close>

text \<open>
  The effects as the specification of a screen: its overlay with the layer of the palette, the
  conversation and whether it is shown, and the semantic focus.
\<close>

record screen =
  sn_overlay :: ForegroundOverlay
  sn_layer :: ActionPaletteLayer
  sn_conversation :: "string option"
  sn_visible :: bool
  sn_focus :: SemanticFocusTarget

definition screen_apply :: "PresentationEffect \<Rightarrow> screen \<Rightarrow> screen" where
  "screen_apply e n =
    (case pe_kind e of
       SHOW_FOREGROUND_OVERLAY \<Rightarrow>
         n\<lparr>sn_overlay := (case pe_overlay e of None \<Rightarrow> sn_overlay n | Some v \<Rightarrow> v),
           sn_layer := (case pe_layer e of None \<Rightarrow> sn_layer n | Some l \<Rightarrow> l)\<rparr>
     | DISMISS_FOREGROUND_OVERLAY \<Rightarrow> n\<lparr>sn_overlay := ForegroundOverlay.NONE, sn_layer := ROOT\<rparr>
     | CREATE_CONVERSATION \<Rightarrow> n\<lparr>sn_conversation := pe_conversation_id e, sn_visible := True\<rparr>
     | RESTORE_CONVERSATION \<Rightarrow> n\<lparr>sn_conversation := pe_conversation_id e, sn_visible := True\<rparr>
     | CLOSE_CONVERSATION \<Rightarrow> n\<lparr>sn_conversation := None, sn_visible := False\<rparr>
     | HIDE_CONVERSATION \<Rightarrow> n\<lparr>sn_visible := False\<rparr>
     | SET_SEMANTIC_FOCUS \<Rightarrow> n\<lparr>sn_focus := (case pe_focus_target e of None \<Rightarrow> sn_focus n | Some f \<Rightarrow> f)\<rparr>
     | PALETTE_LAYER_CHANGED \<Rightarrow> n\<lparr>sn_layer := (case pe_layer e of None \<Rightarrow> sn_layer n | Some l \<Rightarrow> l)\<rparr>)"

definition screen_of :: "FrontendPresentationSnapshot \<Rightarrow> screen" where
  "screen_of s =
    \<lparr>sn_overlay = fp_overlay s, sn_layer = fp_layer s, sn_conversation = fp_context s,
     sn_visible = (fp_primary s = PrimaryPresentation.CAPSULE), sn_focus = fp_focus s\<rparr>"

text \<open>Both sinks together.\<close>

definition windows_apply ::
    "FrontendPresentationModel \<Rightarrow> PresentationEffect \<Rightarrow> screen \<times> ConversationSurface
     \<Rightarrow> screen \<times> ConversationSurface" where
  "windows_apply m e w = (screen_apply e (fst w), surface_apply m e (snd w))"

lemma fold_windows:
  "fold (windows_apply m) es w = (fold screen_apply es (fst w), fold (surface_apply m) es (snd w))"
  by (induction es arbitrary: w) (simp_all add: windows_apply_def)

section \<open>Invariants\<close>

definition presentation_ok :: "FrontendPresentationSnapshot \<Rightarrow> bool" where
  "presentation_ok s \<longleftrightarrow>
     fp_primary s \<in> {PrimaryPresentation.CHARACTER, PrimaryPresentation.CAPSULE}
     \<and> (fp_primary s = PrimaryPresentation.CAPSULE \<longrightarrow> fp_context s \<noteq> None)
     \<and> fp_context s \<in> {None, Some CONVERSATION_CONTEXT_ID}
     \<and> (fp_overlay s = ForegroundOverlay.NONE \<longrightarrow> fp_layer s = ROOT)"

text \<open>The widget exists when the conversation does, carries its identity and is shown with it.\<close>

definition surface_ok :: "FrontendPresentationSnapshot \<Rightarrow> ConversationSurface \<Rightarrow> bool" where
  "surface_ok s f \<longleftrightarrow>
    (case sf_host f of
       None \<Rightarrow> fp_context s = None
     | Some h \<Rightarrow> fp_context s = Some (cc_context_id h)
                \<and> (cc_visible h \<longleftrightarrow> fp_primary s = PrimaryPresentation.CAPSULE))"

lemmas intent_defs =
  open_conversation_def close_conversation_def collapse_conversation_def hide_conversation_def
  dismiss_foreground_overlay_def show_foreground_overlay_def set_palette_layer_def

lemmas effect_defs = presentation_effect_def focus_effect_def

lemmas surface_defs =
  surface_apply_def ensure_host_def render_draft_def hide_host_def destroy_host_def apply_focus_def

lemma dispatch_presentation_ok:
  assumes "presentation_ok (fm_snapshot m)" and "dispatch_intent intent m = (es, m')"
  shows "presentation_ok (fm_snapshot m')"
  using assms
  by (cases intent) (auto simp: intent_defs presentation_ok_def Let_def split: if_splits option.splits)

lemma dispatch_screen:
  assumes "presentation_ok (fm_snapshot m)" and "dispatch_intent intent m = (es, m')"
  shows "fold screen_apply es (screen_of (fm_snapshot m)) = screen_of (fm_snapshot m')"
  using assms
  by (cases intent)
    (auto simp: intent_defs effect_defs presentation_ok_def screen_apply_def screen_of_def Let_def
      split: if_splits option.splits)

lemma dispatch_surface:
  assumes "presentation_ok (fm_snapshot m)" and "surface_ok (fm_snapshot m) f"
    and "dispatch_intent intent m = (es, m')"
  shows "surface_ok (fm_snapshot m') (fold (surface_apply m') es f)"
  using assms
  by (cases intent)
    (auto simp: intent_defs effect_defs presentation_ok_def surface_ok_def surface_defs
      CONVERSATION_CONTEXT_ID_def Let_def split: if_splits option.splits)

lemma with_draft_snapshot [simp]: "fm_snapshot (with_draft f m) = fm_snapshot m"
  by (simp add: with_draft_def)

lemma draft_ops_snapshot [simp]:
  "fm_snapshot (apply_draft_edit i m) = fm_snapshot m" "fm_snapshot (snd (submit_draft k m)) = fm_snapshot m"
  "fm_snapshot (accept_draft k m) = fm_snapshot m" "fm_snapshot (reject_draft k m) = fm_snapshot m"
  "fm_snapshot (cancel_draft k m) = fm_snapshot m" "fm_snapshot (discard_draft m) = fm_snapshot m"
  by (simp_all add: apply_draft_edit_def submit_draft_def accept_draft_def reject_draft_def
      cancel_draft_def discard_draft_def with_draft_def split: prod.split)

definition in_step :: "FrontendPresentationModel \<times> screen \<times> ConversationSurface \<Rightarrow> bool" where
  "in_step c \<longleftrightarrow>
     presentation_ok (fm_snapshot (fst c))
     \<and> fst (snd c) = screen_of (fm_snapshot (fst c))
     \<and> surface_ok (fm_snapshot (fst c)) (snd (snd c))"

lemma in_step_step:
  assumes "in_step c"
  shows "in_step (presentation_step windows_apply op c)"
proof (cases op)
  case (Dispatch_Intent intent)
  obtain es m' where d: "dispatch_intent intent (fst c) = (es, m')" by force
  from assms d dispatch_presentation_ok [OF _ d] dispatch_screen [OF _ d] dispatch_surface [OF _ _ d] show ?thesis
    by (simp add: Dispatch_Intent in_step_def coordinate_def fold_windows)
qed (use assms in \<open>simp_all add: in_step_def\<close>)

section \<open>The draft\<close>

lemma with_draft_draft:
  "fm_draft (with_draft f m) = (if fp_context (fm_snapshot m) = None then fm_draft m else f (fm_draft m))"
  by (simp add: with_draft_def)

lemma submit_draft_draft:
  "fm_draft (snd (submit_draft i m))
     = (if fp_context (fm_snapshot m) = None then fm_draft m else snd (draft_submit i (fm_draft m)))"
  by (simp add: submit_draft_def split: prod.split)

text \<open>Intents leave the draft alone, apart from the first opening, which finds it empty.\<close>

definition draft_home :: "FrontendPresentationModel \<Rightarrow> bool" where
  "draft_home m \<longleftrightarrow> draft_ok (fm_draft m) \<and> (fp_context (fm_snapshot m) = None \<longrightarrow> dm_text (fm_draft m) = [])"

lemma dispatch_draft:
  assumes "draft_home m" and "dispatch_intent intent m = (es, m')"
  shows "dm_text (fm_draft m') = dm_text (fm_draft m) \<and> draft_home m'
    \<and> dm_submitted (fm_draft m') = dm_submitted (fm_draft m)"
  using assms
  by (cases intent)
    (auto simp: intent_defs draft_home_def draft_ok_discard Let_def split: if_splits option.splits)

text \<open>One step of the draft: what changes its text, and where captured snapshots come from.\<close>

lemma step_draft:
  assumes "draft_home (fst c)"
  shows "draft_home (fst (presentation_step sink op c))"
    and "dm_submitted (fm_draft (fst (presentation_step sink op c))) i = Some s \<Longrightarrow>
      dm_submitted (fm_draft (fst c)) i = Some s
      \<or> op = Submit_Draft i \<and> fst (submit_draft i (fst c)) = Some s"
proof -
  note draft_defs = apply_draft_edit_def accept_draft_def reject_draft_def cancel_draft_def
    discard_draft_def with_draft_draft submit_draft_draft
  show "draft_home (fst (presentation_step sink op c))"
  proof (cases op)
    case (Dispatch_Intent intent)
    with assms dispatch_draft [of "fst c" intent] show ?thesis
      by (auto simp: coordinate_def split: prod.split)
  qed (use assms in \<open>auto simp: draft_home_def draft_defs intro: inv_intros\<close>)
  assume s: "dm_submitted (fm_draft (fst (presentation_step sink op c))) i = Some s"
  show "dm_submitted (fm_draft (fst c)) i = Some s \<or> op = Submit_Draft i \<and> fst (submit_draft i (fst c)) = Some s"
  proof (cases op)
    case (Dispatch_Intent intent)
    with assms s dispatch_draft [of "fst c" intent] show ?thesis
      by (auto simp: coordinate_def split: prod.splits)
  next
    case (Submit_Draft j)
    with s submitted_new [of j "fm_draft (fst c)" i s] show ?thesis
      by (auto simp: submit_draft_def split: if_splits prod.splits)
  qed (use s in \<open>auto simp: draft_defs submitted_kept(1) split: if_splits dest: submitted_kept(2,3,4)\<close>)
qed

lemma draft_home_new [simp]: "draft_home new_presentation_model"
  by (simp add: draft_home_def new_presentation_model_def) (simp add: new_draft_model_def)

lemma in_step_new: "in_step (new_presentation_model, screen_of initial_presentation, new_surface)"
  by (simp add: in_step_def new_presentation_model_def initial_presentation_def presentation_ok_def
      surface_ok_def new_surface_def)

section \<open>Properties\<close>

text \<open>
  C9. Whatever intents, edits and answers arrive in whatever order, the text of the draft changes in
  three ways only: the user edits it; the user discards it; or a submission is accepted that was
  captured from exactly this text, unchanged since, and then nothing is left. No intent that opens,
  hides, covers or uncovers the conversation touches it.
\<close>

theorem draft_lost_on_purpose_only:
  "dm_text (fm_draft (fst (presentation_run sink (ops @ [op]) (new_presentation_model, k))))
      = dm_text (fm_draft (fst (presentation_run sink ops (new_presentation_model, k))))
   \<or> (\<exists>intent. op = Edit_Draft intent \<and> ei_ime_composition intent = None
        \<and> dm_text (fm_draft (fst (presentation_run sink (ops @ [op]) (new_presentation_model, k)))) = ei_text intent)
   \<or> dm_text (fm_draft (fst (presentation_run sink (ops @ [op]) (new_presentation_model, k)))) = []
     \<and> (op = Discard_Draft
        \<or> (\<exists>i ops1 ops2 snap. op = Accept_Draft i \<and> ops = ops1 @ Submit_Draft i # ops2
             \<and> fst (submit_draft i (fst (presentation_run sink ops1 (new_presentation_model, k)))) = Some snap
             \<and> su_text snap = dm_text (fm_draft (fst (presentation_run sink ops (new_presentation_model, k))))
             \<and> su_revision snap = dm_revision (fm_draft (fst (presentation_run sink ops (new_presentation_model, k))))))"
proof -
  let ?run = "\<lambda>ops. presentation_run sink ops (new_presentation_model, k)"
  have home: "draft_home (fst (?run ops))" for ops
    by (induction ops rule: rev_induct) (simp_all add: draft_home_new step_draft(1))
  have captured: "\<exists>ops1 ops2. ops = ops1 @ Submit_Draft i # ops2 \<and> fst (submit_draft i (fst (?run ops1))) = Some s"
    if "dm_submitted (fm_draft (fst (?run ops))) i = Some s" for ops i s
    using that
  proof (induction ops rule: rev_induct)
    case Nil
    then show ?case by (simp add: new_presentation_model_def new_draft_model_def)
  next
    case (snoc op ops)
    then consider "dm_submitted (fm_draft (fst (?run ops))) i = Some s"
      | "op = Submit_Draft i" "fst (submit_draft i (fst (?run ops))) = Some s"
      using step_draft(2) [OF home, of sink op ops i s] by auto
    then show ?case
    proof cases
      case 1
      with snoc.IH obtain ops1 ops2 where "ops = ops1 @ Submit_Draft i # ops2"
        "fst (submit_draft i (fst (?run ops1))) = Some s" by blast
      then have "ops @ [op] = ops1 @ Submit_Draft i # (ops2 @ [op])" by simp
      with \<open>fst (submit_draft i (fst (?run ops1))) = Some s\<close> show ?thesis by blast
    next
      case 2
      then show ?thesis by (intro exI [of _ ops] exI [of _ "[]"]) simp
    qed
  qed
  show ?thesis
  proof (cases op)
    case (Dispatch_Intent intent)
    with home [of ops] dispatch_draft [of "fst (?run ops)" intent] show ?thesis
      by (auto simp: coordinate_def split: prod.split)
  next
    case (Accept_Draft i)
    have "draft_ok (fm_draft (fst (?run ops)))" using home [of ops] by (simp add: draft_home_def)
    with accept_text [of "fm_draft (fst (?run ops))" i] captured [of ops i] Accept_Draft show ?thesis
      by (simp add: accept_draft_def with_draft_draft) metis
  qed (auto simp: apply_draft_edit_def reject_draft_def cancel_draft_def discard_draft_def
      with_draft_draft submit_draft_draft edit_text)
qed

text \<open>
  C17. After any run, the screen that results from the effects alone, in the order they were handed
  out, is the one the snapshot describes; and the capsule widget exists exactly when a conversation
  does, belongs to it, and is shown exactly while the snapshot presents it.
\<close>

theorem effects_follow_snapshot:
  assumes "presentation_run windows_apply ops (new_presentation_model, screen_of initial_presentation, new_surface)
    = (m, screen, surface)"
  shows "screen = screen_of (fm_snapshot m)
    \<and> (sf_host surface = None \<longleftrightarrow> fp_context (fm_snapshot m) = None)
    \<and> (\<forall>h. sf_host surface = Some h \<longrightarrow>
         fp_context (fm_snapshot m) = Some (cc_context_id h)
         \<and> (cc_visible h \<longleftrightarrow> fp_primary (fm_snapshot m) = PrimaryPresentation.CAPSULE))"
proof -
  have "in_step (presentation_run windows_apply ops (new_presentation_model, screen_of initial_presentation, new_surface))"
    by (induction ops rule: rev_induct) (simp_all add: in_step_new in_step_step)
  with assms show ?thesis by (auto simp: in_step_def surface_ok_def split: option.splits)
qed

lemma effects_follow_snapshot_witness:
  "\<exists>m screen surface. presentation_run windows_apply
      [Dispatch_Intent (ShowForegroundOverlayIntent ForegroundOverlay.PALETTE),
       Dispatch_Intent (SetPaletteLayerIntent ANIMATION), Dispatch_Intent ConversationOpenOrRestoreIntent,
       Dispatch_Intent CollapseConversationIntent, Dispatch_Intent ConversationOpenOrRestoreIntent]
      (new_presentation_model, screen_of initial_presentation, new_surface) = (m, screen, surface)
    \<and> screen = screen_of (fm_snapshot m) \<and> sn_visible screen"
proof -
  let ?ops = "[Dispatch_Intent (ShowForegroundOverlayIntent ForegroundOverlay.PALETTE),
       Dispatch_Intent (SetPaletteLayerIntent ANIMATION), Dispatch_Intent ConversationOpenOrRestoreIntent,
       Dispatch_Intent CollapseConversationIntent, Dispatch_Intent ConversationOpenOrRestoreIntent]"
  let ?r = "presentation_run windows_apply ?ops (new_presentation_model, screen_of initial_presentation, new_surface)"
  obtain m screen surface where r: "?r = (m, screen, surface)" by (cases ?r) auto
  have "sn_visible (fst (snd ?r))" by code_simp
  with r effects_follow_snapshot [OF r] show ?thesis by auto
qed

text \<open>
  A confirmation or a critical error is never left again: whatever intents follow, the overlay stays.
\<close>

theorem blocking_overlay_stays:
  assumes "fp_overlay (fm_snapshot (fst c)) \<in> BLOCKING_OVERLAYS"
  shows "fp_overlay (fm_snapshot (fst (presentation_run sink ops c))) = fp_overlay (fm_snapshot (fst c))"
  using assms
proof (induction ops rule: rev_induct)
  case (snoc op ops)
  let ?c = "presentation_run sink ops c"
  have b: "fp_overlay (fm_snapshot (fst ?c)) \<in> BLOCKING_OVERLAYS" using snoc by simp
  have "fp_overlay (fm_snapshot (snd (dispatch_intent intent (fst ?c)))) = fp_overlay (fm_snapshot (fst ?c))" for intent
    using b by (cases intent) (auto simp: intent_defs BLOCKING_OVERLAYS_def Let_def split: option.split)
  then have "fp_overlay (fm_snapshot (fst (presentation_step sink op ?c))) = fp_overlay (fm_snapshot (fst ?c))"
    by (cases op) (simp_all add: coordinate_def split: prod.split, metis snd_conv)
  with snoc show ?case by simp
qed simp

end
