(* ===== verification/Conversation_Anchor.thy ===== *)
theory Conversation_Anchor
  imports Prelude
begin

text \<open>
  The placement of the conversation capsule next to the character,
  \<^verbatim>\<open>presentation/conversation_anchor.py\<close>: an ordered list of candidate rectangles, and when none is legal,
  a binary search for the largest scale at which one is. Integers, with Python's floor division.
\<close>

section \<open>Placement\<close>

record AnchorRect =
  an_x :: int
  an_y :: int
  an_width :: int
  an_height :: int

definition an_right :: "AnchorRect \<Rightarrow> int" where
  "an_right r = an_x r + an_width r"

definition an_bottom :: "AnchorRect \<Rightarrow> int" where
  "an_bottom r = an_y r + an_height r"

datatype AnchorSide = UPPER | BELOW | LEFT | RIGHT

record AnchorPlacement =
  ap_side :: AnchorSide
  ap_rect :: AnchorRect
  ap_fallback :: "string list"
  ap_reduced :: bool

record AnchorCandidate =
  ac_side :: AnchorSide
  ac_x :: int
  ac_y :: int

definition ordered_candidates :: "AnchorRect \<Rightarrow> AnchorRect \<Rightarrow> int \<Rightarrow> int \<Rightarrow> AnchorCandidate list" where
  "ordered_candidates anchor work_area w h =
    (let x_alignments = [an_right anchor - w, an_x anchor + an_width anchor div 2 - w div 2, an_x anchor];
         y_alignments = [an_bottom anchor - h, an_y anchor + an_height anchor div 2 - h div 2, an_y anchor];
         left_clearance = an_x anchor - an_x work_area;
         right_clearance = an_right work_area - an_right anchor;
         side_order = (if left_clearance > right_clearance then [LEFT, RIGHT] else [RIGHT, LEFT])
     in map (\<lambda>x. \<lparr>ac_side = UPPER, ac_x = x, ac_y = an_y anchor - h\<rparr>) x_alignments
        @ map (\<lambda>x. \<lparr>ac_side = BELOW, ac_x = x, ac_y = an_bottom anchor\<rparr>) x_alignments
        @ concat (map (\<lambda>side.
            let x = (if side = LEFT then an_x anchor - w else an_right anchor) in
            map (\<lambda>y. \<lparr>ac_side = side, ac_x = x, ac_y = y\<rparr>) y_alignments) side_order))"

definition is_valid :: "AnchorCandidate \<Rightarrow> AnchorRect \<Rightarrow> AnchorRect \<Rightarrow> int \<Rightarrow> int \<Rightarrow> bool" where
  "is_valid c anchor work_area w h \<longleftrightarrow>
    (if ac_x c < an_x work_area \<or> ac_y c < an_y work_area then False
     else if ac_x c + w > an_right work_area then False
     else if ac_y c + h > an_bottom work_area then False
     else ac_x c + w \<le> an_x anchor \<or> an_right anchor \<le> ac_x c
          \<or> ac_y c + h \<le> an_y anchor \<or> an_bottom anchor \<le> ac_y c)"

definition first_valid_candidate ::
    "AnchorRect \<Rightarrow> AnchorRect \<Rightarrow> int \<Rightarrow> int \<Rightarrow> AnchorCandidate option" where
  "first_valid_candidate anchor work_area w h =
    find (\<lambda>c. is_valid c anchor work_area w h) (ordered_candidates anchor work_area w h)"

definition to_placement :: "AnchorCandidate \<Rightarrow> int \<Rightarrow> int \<Rightarrow> AnchorPlacement" where
  "to_placement c w h =
    \<lparr>ap_side = ac_side c, ap_rect = \<lparr>an_x = ac_x c, an_y = ac_y c, an_width = w, an_height = h\<rparr>,
     ap_fallback = [], ap_reduced = False\<rparr>"

definition max_scale_percent :: "int \<Rightarrow> int \<Rightarrow> AnchorRect \<Rightarrow> int" where
  "max_scale_percent w h work_area =
    max 1 (min 100 (min ((an_width work_area * 100) div w) ((an_height work_area * 100) div h)))"

definition scaled :: "int \<Rightarrow> int \<Rightarrow> int" where
  "scaled n percent = max 1 ((n * percent) div 100)"

text \<open>The loop: the interval still to be searched and the best candidate so far with its size.\<close>

function search_size ::
    "(int \<Rightarrow> (AnchorCandidate \<times> int \<times> int) option) \<Rightarrow> int \<Rightarrow> int \<Rightarrow> (AnchorCandidate \<times> int \<times> int) option
     \<Rightarrow> (AnchorCandidate \<times> int \<times> int) option" where
  "search_size probe low high best =
    (if low > high then best
     else let mid = (low + high) div 2 in
       case probe mid of
         None \<Rightarrow> search_size probe low (mid - 1) best
       | Some found \<Rightarrow> search_size probe (mid + 1) high (Some found))"
  by pat_completeness auto
termination by (relation "measure (\<lambda>(probe, low, high, best). nat (high - low + 1))") auto

declare search_size.simps [simp del]

definition reduced_at ::
    "AnchorRect \<Rightarrow> AnchorRect \<Rightarrow> int \<Rightarrow> int \<Rightarrow> int \<Rightarrow> (AnchorCandidate \<times> int \<times> int) option" where
  "reduced_at anchor work_area w h percent =
    map_option (\<lambda>c. (c, scaled w percent, scaled h percent))
      (first_valid_candidate anchor work_area (scaled w percent) (scaled h percent))"

datatype placement_error =
    Capsule_Size_Not_Positive | Work_Area_Not_Positive | Anchor_Blocks_Every_Placement

text \<open>The only exception is \<^verbatim>\<open>AnchorPlacementUnavailable\<close>, with one of three messages.\<close>

definition place_conversation_capsule ::
    "AnchorRect \<Rightarrow> int \<times> int \<Rightarrow> AnchorRect \<Rightarrow> placement_error + AnchorPlacement" where
  "place_conversation_capsule anchor dims work_area =
    (let (w, h) = dims in
     if w \<le> 0 \<or> h \<le> 0 then Inl Capsule_Size_Not_Positive
     else if an_width work_area \<le> 0 \<or> an_height work_area \<le> 0 then Inl Work_Area_Not_Positive
     else case first_valid_candidate anchor work_area w h of
       Some c \<Rightarrow> Inr (to_placement c w h)
     | None \<Rightarrow>
         (case search_size (reduced_at anchor work_area w h) 1 (max_scale_percent w h work_area) None of
            None \<Rightarrow> Inl Anchor_Blocks_Every_Placement
          | Some (c, rw, rh) \<Rightarrow> Inr ((to_placement c rw rh)\<lparr>ap_fallback := [''reduce-size''], ap_reduced := True\<rparr>)))"

section \<open>Legal rectangles\<close>

text \<open>Inside the work area, and with no point in common with the anchor.\<close>

definition covers :: "AnchorRect \<Rightarrow> int \<Rightarrow> int \<Rightarrow> bool" where
  "covers r x y \<longleftrightarrow> an_x r \<le> x \<and> x < an_right r \<and> an_y r \<le> y \<and> y < an_bottom r"

definition legal :: "AnchorRect \<Rightarrow> AnchorRect \<Rightarrow> AnchorRect \<Rightarrow> bool" where
  "legal anchor work_area r \<longleftrightarrow>
     an_x work_area \<le> an_x r \<and> an_right r \<le> an_right work_area
     \<and> an_y work_area \<le> an_y r \<and> an_bottom r \<le> an_bottom work_area
     \<and> \<not> (\<exists>x y. covers r x y \<and> covers anchor x y)"

lemma is_valid_legal:
  "is_valid c anchor work_area w h \<Longrightarrow> legal anchor work_area (ap_rect (to_placement c w h))"
  by (auto simp: is_valid_def legal_def covers_def to_placement_def an_right_def an_bottom_def split: if_splits)

text \<open>Whether any candidate is legal at a size.\<close>

definition capsule_fits :: "AnchorRect \<Rightarrow> AnchorRect \<Rightarrow> int \<Rightarrow> int \<Rightarrow> bool" where
  "capsule_fits anchor work_area w h \<longleftrightarrow> first_valid_candidate anchor work_area w h \<noteq> None"

lemma capsule_fits_iff:
  "capsule_fits anchor work_area w h \<longleftrightarrow>
    (\<exists>c\<in>set (ordered_candidates anchor work_area w h). is_valid c anchor work_area w h)"
  by (auto simp: capsule_fits_def first_valid_candidate_def find_None_iff)

text \<open>
  In each direction a candidate is aligned with the anchor in one of three ways or beside it in one of
  two; it is legal when it is aligned in one direction and beside the anchor in the other.
\<close>

definition aligned :: "int \<Rightarrow> int \<Rightarrow> int \<Rightarrow> int \<Rightarrow> int \<Rightarrow> bool" where
  "aligned lo hi a n w \<longleftrightarrow>
     lo \<le> a + n - w \<and> a + n \<le> hi
     \<or> lo \<le> a + n div 2 - w div 2 \<and> a + n div 2 - w div 2 + w \<le> hi
     \<or> lo \<le> a \<and> a + w \<le> hi"

definition beside :: "int \<Rightarrow> int \<Rightarrow> int \<Rightarrow> int \<Rightarrow> int \<Rightarrow> bool" where
  "beside lo hi a n w \<longleftrightarrow> lo \<le> a - w \<and> a \<le> hi \<or> lo \<le> a + n \<and> a + n + w \<le> hi"

lemma bex_grid:
  assumes "\<And>x y. x \<in> X \<Longrightarrow> y \<in> Y \<Longrightarrow> P (f x y) \<longleftrightarrow> H x \<and> V y"
  shows "(\<exists>c\<in>(\<lambda>(x, y). f x y) ` (X \<times> Y). P c) \<longleftrightarrow> (\<exists>x\<in>X. H x) \<and> (\<exists>y\<in>Y. V y)"
  using assms by auto

lemma capsule_fits_directions:
  "capsule_fits anchor work_area w h \<longleftrightarrow>
     aligned (an_x work_area) (an_right work_area) (an_x anchor) (an_width anchor) w
       \<and> beside (an_y work_area) (an_bottom work_area) (an_y anchor) (an_height anchor) h
     \<or> beside (an_x work_area) (an_right work_area) (an_x anchor) (an_width anchor) w
       \<and> aligned (an_y work_area) (an_bottom work_area) (an_y anchor) (an_height anchor) h"
proof -
  define X where "X = {an_right anchor - w, an_x anchor + an_width anchor div 2 - w div 2, an_x anchor}"
  define Y where "Y = {an_bottom anchor - h, an_y anchor + an_height anchor div 2 - h div 2, an_y anchor}"
  define H where "H x \<longleftrightarrow> an_x work_area \<le> x \<and> x + w \<le> an_right work_area" for x
  define V where "V y \<longleftrightarrow> an_y work_area \<le> y \<and> y + h \<le> an_bottom work_area" for y
  let ?P = "\<lambda>c. is_valid c anchor work_area w h"
  let ?c = "\<lambda>side x y. \<lparr>ac_side = side, ac_x = x, ac_y = y\<rparr>"
  let ?G = "\<lambda>side X Y. (\<lambda>(x, y). ?c side x y) ` (X \<times> Y)"
  have valid: "?P (?c side x y) \<longleftrightarrow> H x \<and> V y"
    if "x + w = an_x anchor \<or> x = an_right anchor \<or> y + h = an_y anchor \<or> y = an_bottom anchor" for side x y
    using that by (auto simp: is_valid_def H_def V_def)
  have cands: "set (ordered_candidates anchor work_area w h) =
      (?G UPPER X {an_y anchor - h} \<union> ?G BELOW X {an_bottom anchor})
      \<union> (?G LEFT {an_x anchor - w} Y \<union> ?G RIGHT {an_right anchor} Y)"
    by (auto simp: ordered_candidates_def X_def Y_def Let_def)
  have "capsule_fits anchor work_area w h \<longleftrightarrow>
      ((\<exists>x\<in>X. H x) \<and> (\<exists>y\<in>{an_y anchor - h}. V y) \<or> (\<exists>x\<in>X. H x) \<and> (\<exists>y\<in>{an_bottom anchor}. V y))
      \<or> ((\<exists>x\<in>{an_x anchor - w}. H x) \<and> (\<exists>y\<in>Y. V y) \<or> (\<exists>x\<in>{an_right anchor}. H x) \<and> (\<exists>y\<in>Y. V y))"
    unfolding capsule_fits_iff cands bex_Un
    by (intro arg_cong2 [where f = "(\<or>)"] bex_grid valid) auto
  moreover have "(\<exists>x\<in>X. H x) \<longleftrightarrow> aligned (an_x work_area) (an_right work_area) (an_x anchor) (an_width anchor) w"
    "(\<exists>y\<in>Y. V y) \<longleftrightarrow> aligned (an_y work_area) (an_bottom work_area) (an_y anchor) (an_height anchor) h"
    by (auto simp: X_def Y_def H_def V_def aligned_def an_right_def an_bottom_def)
  moreover have "(\<exists>x\<in>{an_x anchor - w}. H x) \<or> (\<exists>x\<in>{an_right anchor}. H x) \<longleftrightarrow>
      beside (an_x work_area) (an_right work_area) (an_x anchor) (an_width anchor) w"
    "(\<exists>y\<in>{an_y anchor - h}. V y) \<or> (\<exists>y\<in>{an_bottom anchor}. V y) \<longleftrightarrow>
      beside (an_y work_area) (an_bottom work_area) (an_y anchor) (an_height anchor) h"
    by (auto simp: H_def V_def beside_def an_right_def an_bottom_def)
  ultimately show ?thesis by blast
qed

lemma aligned_mono:
  assumes "aligned lo hi a n w" and "w' \<le> w"
  shows "aligned lo hi a n w'"
proof -
  have "w' div 2 \<le> w div 2" "w' - w' div 2 \<le> w - w div 2" using assms(2) by presburger+
  with assms show ?thesis unfolding aligned_def by linarith
qed

lemma beside_mono: "beside lo hi a n w \<Longrightarrow> w' \<le> w \<Longrightarrow> beside lo hi a n w'"
  unfolding beside_def by linarith

lemma capsule_fits_mono:
  assumes "capsule_fits anchor work_area w h" and "w' \<le> w" and "h' \<le> h"
  shows "capsule_fits anchor work_area w' h'"
  using assms(1) aligned_mono beside_mono assms(2,3) unfolding capsule_fits_directions by blast

lemma scaled_mono:
  assumes "0 < n" and "p \<le> q"
  shows "scaled n p \<le> scaled n q"
proof -
  have "(n * p) div 100 \<le> (n * q) div 100"
    using assms by (intro zdiv_mono1 mult_left_mono) auto
  then show ?thesis by (simp add: scaled_def)
qed

lemma scaled_100 [simp]: "0 < n \<Longrightarrow> scaled n 100 = n"
  by (simp add: scaled_def)

lemma reduced_at_mono:
  assumes "0 < w" and "0 < h" and "reduced_at anchor work_area w h q \<noteq> None" and "p \<le> q"
  shows "reduced_at anchor work_area w h p \<noteq> None"
  using capsule_fits_mono [OF _ scaled_mono [OF assms(1,4)] scaled_mono [OF assms(2,4)], of anchor work_area] assms(3)
  by (simp add: reduced_at_def capsule_fits_def)

text \<open>Over a probe that fails for everything above a failure, the search finds the last success.\<close>

definition hits :: "(int \<Rightarrow> 'a option) \<Rightarrow> int \<Rightarrow> int \<Rightarrow> int set" where
  "hits probe low high = {q. low \<le> q \<and> q \<le> high \<and> probe q \<noteq> None}"

lemma finite_hits: "finite (hits probe low high)"
  by (rule finite_subset [of _ "{low..high}"]) (auto simp: hits_def)

lemma Max_hits: "hits probe low high \<noteq> {} \<Longrightarrow> Max (hits probe low high) \<in> hits probe low high"
  by (rule Max_in [OF finite_hits])

lemma search_size_eq:
  assumes "\<And>p q. probe q \<noteq> None \<Longrightarrow> p \<le> q \<Longrightarrow> probe p \<noteq> None"
  shows "search_size probe low high best =
    (if hits probe low high = {} then best else probe (Max (hits probe low high)))"
  using assms
proof (induction probe low high best rule: search_size.induct)
  case (1 probe low high best)
  show ?case
  proof (cases "low > high")
    case True
    then have "hits probe low high = {}" by (auto simp: hits_def)
    with True show ?thesis by (simp add: search_size.simps)
  next
    case False
    define mid where "mid = (low + high) div 2"
    have mid: "low \<le> mid" "mid \<le> high" using False by (simp_all add: mid_def)
    show ?thesis
    proof (cases "probe mid")
      case None
      have "q \<le> mid - 1" if "probe q \<noteq> None" for q
        using 1(3) [OF that, of mid] None by (cases "mid \<le> q") auto
      then have "hits probe low high = hits probe low (mid - 1)"
        using mid unfolding hits_def by force
      with 1(1) [OF False mid_def None 1(3)] False None show ?thesis
        by (subst search_size.simps) (simp add: mid_def [symmetric])
    next
      case (Some f)
      have step: "search_size probe low high best =
          (if hits probe (mid + 1) high = {} then Some f else probe (Max (hits probe (mid + 1) high)))"
        using False Some 1(2) [OF False mid_def Some 1(3)]
        by (subst search_size.simps) (simp add: mid_def [symmetric])
      have here: "mid \<in> hits probe low high" using mid Some unfolding hits_def by blast
      show ?thesis
      proof (cases "hits probe (mid + 1) high = {}")
        case True
        have "Max (hits probe low high) = mid"
        proof (rule Max_eqI [OF finite_hits _ here])
          fix q assume "q \<in> hits probe low high"
          then have "q \<in> hits probe (mid + 1) high" if "mid < q" using that unfolding hits_def by simp
          with True show "q \<le> mid" by force
        qed
        with step True here Some show ?thesis by auto
      next
        case False
        note top = Max_hits [OF False]
        have "Max (hits probe low high) = Max (hits probe (mid + 1) high)"
        proof (rule Max_eqI [OF finite_hits])
          show "Max (hits probe (mid + 1) high) \<in> hits probe low high"
            using top mid by (auto simp: hits_def)
          fix q assume q: "q \<in> hits probe low high"
          show "q \<le> Max (hits probe (mid + 1) high)"
          proof (cases "mid < q")
            case True
            with q have "q \<in> hits probe (mid + 1) high" unfolding hits_def by simp
            then show ?thesis by (rule Max_ge [OF finite_hits])
          next
            case notabove: False
            have "mid + 1 \<le> Max (hits probe (mid + 1) high)" using top unfolding hits_def by blast
            with notabove show ?thesis by linarith
          qed
        qed
        with step False here show ?thesis by auto
      qed
    qed
  qed
qed

text \<open>
  What the limit of the search leaves out: sizes whose unrounded width or height exceeds the work
  area. Of those only the ones can fit that rounding cuts to exactly its width or height.
\<close>

lemma capsule_fits_within:
  assumes "capsule_fits anchor work_area w h"
  shows "w \<le> an_width work_area" "h \<le> an_height work_area"
  using assms by (auto simp: capsule_fits_iff is_valid_def an_right_def an_bottom_def split: if_splits)

lemma above_quotient: "0 < n \<Longrightarrow> (m * 100) div n < q \<Longrightarrow> m * 100 < n * (q :: int)"
proof -
  assume n: "0 < n" and q: "(m * 100) div n < q"
  have "n * ((m * 100) div n + 1) \<le> n * q" using n q by (intro mult_left_mono) simp_all
  moreover have "m * 100 < n * ((m * 100) div n) + n"
    using pos_mod_bound [OF n, of "m * 100"] mult_div_mod_eq [of n "m * 100"] by linarith
  ultimately show ?thesis by (simp add: distrib_left)
qed

lemma scaled_fills: "m * 100 < n * q \<Longrightarrow> scaled n q \<le> m \<Longrightarrow> scaled n q = m"
proof -
  assume "m * 100 < n * q" "scaled n q \<le> m"
  then have "m \<le> (n * q) div 100" by linarith
  with \<open>scaled n q \<le> m\<close> show ?thesis by (simp add: scaled_def)
qed

lemma above_limit:
  assumes "0 < w" and "0 < h" and "max_scale_percent w h work_area < q" and "q \<le> 100"
    and "capsule_fits anchor work_area (scaled w q) (scaled h q)"
  shows "an_width work_area * 100 < w * q \<and> scaled w q = an_width work_area
    \<or> an_height work_area * 100 < h * q \<and> scaled h q = an_height work_area"
proof -
  have "(an_width work_area * 100) div w < q \<or> (an_height work_area * 100) div h < q"
    using assms(3,4) by (auto simp: max_scale_percent_def)
  then have "an_width work_area * 100 < w * q \<or> an_height work_area * 100 < h * q"
    using above_quotient assms(1,2) by blast
  then show ?thesis using scaled_fills capsule_fits_within [OF assms(5)] by blast
qed

section \<open>The placement\<close>

text \<open>
  C18. A capsule of positive size in a positive work area is placed legally: inside the work area and
  clear of the character. It keeps its size, at the first legal candidate, whenever one is legal;
  otherwise it is shrunk to a percentage of it, and a larger percentage at which a candidate would be
  legal too is missed only if the size before rounding down exceeds the work area and the rounded one
  is exactly as wide, or as high, as the work area. (The function promises the largest size without
  that exception.) The placement is refused only when not even one percent of the size fits.
\<close>

theorem capsule_placement:
  assumes "0 < w" and "0 < h" and "0 < an_width work_area" and "0 < an_height work_area"
  shows "case place_conversation_capsule anchor (w, h) work_area of
      Inl e \<Rightarrow> e = Anchor_Blocks_Every_Placement \<and> \<not> capsule_fits anchor work_area w h
             \<and> (\<forall>q. 1 \<le> q \<longrightarrow> \<not> capsule_fits anchor work_area (scaled w q) (scaled h q))
    | Inr p \<Rightarrow> legal anchor work_area (ap_rect p) \<and>
        (if ap_reduced p
         then \<not> capsule_fits anchor work_area w h \<and>
           (\<exists>percent. 1 \<le> percent \<and> percent \<le> 100
              \<and> an_width (ap_rect p) = scaled w percent \<and> an_height (ap_rect p) = scaled h percent
              \<and> (\<forall>q. percent < q \<and> q \<le> 100 \<and> capsule_fits anchor work_area (scaled w q) (scaled h q) \<longrightarrow>
                   an_width work_area * 100 < w * q \<and> scaled w q = an_width work_area
                   \<or> an_height work_area * 100 < h * q \<and> scaled h q = an_height work_area))
         else \<exists>c. first_valid_candidate anchor work_area w h = Some c \<and> p = to_placement c w h)"
proof (cases "first_valid_candidate anchor work_area w h")
  case (Some c)
  then have "is_valid c anchor work_area w h"
    by (auto simp: first_valid_candidate_def find_Some_iff)
  with Some assms is_valid_legal show ?thesis
    by (simp add: place_conversation_capsule_def) (simp add: to_placement_def)
next
  case None
  then have nofit: "\<not> capsule_fits anchor work_area w h" by (simp add: capsule_fits_def)
  let ?p = "reduced_at anchor work_area w h" and ?m = "max_scale_percent w h work_area"
  let ?best = "Max (hits ?p 1 ?m)"
  have probe: "?p q = None \<longleftrightarrow> \<not> capsule_fits anchor work_area (scaled w q) (scaled h q)" for q
    by (simp add: reduced_at_def capsule_fits_def)
  have search: "search_size ?p 1 ?m None = (if hits ?p 1 ?m = {} then None else ?p ?best)"
    by (rule search_size_eq) (rule reduced_at_mono [OF assms(1,2)])
  show ?thesis
  proof (cases "hits ?p 1 ?m = {}")
    case True
    have "1 \<le> ?m" by (simp add: max_scale_percent_def)
    with True have "?p 1 = None" unfolding hits_def by blast
    then have "\<not> capsule_fits anchor work_area (scaled w q) (scaled h q)" if "1 \<le> q" for q
      using reduced_at_mono [OF assms(1,2) _ that, of anchor work_area] probe [of q] by blast
    with True None nofit assms search show ?thesis by (simp add: place_conversation_capsule_def)
  next
    case False
    have best: "1 \<le> ?best" "?best \<le> ?m" "?p ?best \<noteq> None"
      using Max_hits [OF False] unfolding hits_def by blast+
    then obtain c where c: "first_valid_candidate anchor work_area (scaled w ?best) (scaled h ?best) = Some c"
      by (auto simp: reduced_at_def)
    then have "is_valid c anchor work_area (scaled w ?best) (scaled h ?best)"
      by (auto simp: first_valid_candidate_def find_Some_iff)
    from is_valid_legal [OF this] have "legal anchor work_area
        (ap_rect ((to_placement c (scaled w ?best) (scaled h ?best))\<lparr>ap_fallback := [''reduce-size''], ap_reduced := True\<rparr>))" by simp
    moreover have "?p ?best = Some (c, scaled w ?best, scaled h ?best)" using c by (simp add: reduced_at_def)
    with None assms search False have "place_conversation_capsule anchor (w, h) work_area =
        Inr ((to_placement c (scaled w ?best) (scaled h ?best))\<lparr>ap_fallback := [''reduce-size''], ap_reduced := True\<rparr>)"
      by (simp add: place_conversation_capsule_def)
    moreover have "\<not> capsule_fits anchor work_area (scaled w q) (scaled h q)" if "?best < q" "q \<le> ?m" for q
    proof -
      have "q \<notin> hits ?p 1 ?m" using Max_ge [OF finite_hits, of q ?p 1 ?m] that(1) by linarith
      moreover have "1 \<le> q" using that(1) best(1) by linarith
      ultimately have "?p q = None" using that(2) unfolding hits_def by blast
      then show ?thesis using probe by blast
    qed
    then have "an_width work_area * 100 < w * q \<and> scaled w q = an_width work_area
        \<or> an_height work_area * 100 < h * q \<and> scaled h q = an_height work_area"
      if "?best < q" "q \<le> 100" "capsule_fits anchor work_area (scaled w q) (scaled h q)" for q
      using above_limit [OF assms(1,2), of work_area q anchor] that by force
    moreover have "?m \<le> 100" by (simp add: max_scale_percent_def)
    ultimately show ?thesis using nofit best
      by (simp add: to_placement_def) (intro exI [of _ ?best], simp)
  qed
qed

lemma capsule_placement_witness:
  "case place_conversation_capsule \<lparr>an_x = 0, an_y = 100, an_width = 10, an_height = 10\<rparr> (30, 10)
      \<lparr>an_x = 0, an_y = 0, an_width = 10, an_height = 300\<rparr> of
     Inl e \<Rightarrow> False
   | Inr p \<Rightarrow> ap_reduced p \<and> ap_rect p = \<lparr>an_x = 1, an_y = 97, an_width = 9, an_height = 3\<rparr>
       \<and> legal \<lparr>an_x = 0, an_y = 100, an_width = 10, an_height = 10\<rparr>
           \<lparr>an_x = 0, an_y = 0, an_width = 10, an_height = 300\<rparr> (ap_rect p)"
proof -
  let ?a = "\<lparr>an_x = 0, an_y = 100, an_width = 10, an_height = 10\<rparr> :: AnchorRect"
  let ?w = "\<lparr>an_x = 0, an_y = 0, an_width = 10, an_height = 300\<rparr> :: AnchorRect"
  have "place_conversation_capsule ?a (30, 10) ?w =
      Inr \<lparr>ap_side = UPPER, ap_rect = \<lparr>an_x = 1, an_y = 97, an_width = 9, an_height = 3\<rparr>,
        ap_fallback = [''reduce-size''], ap_reduced = True\<rparr>"
    by code_simp
  with capsule_placement [of 30 10 ?w ?a] show ?thesis by simp
qed

text \<open>
  The limit excludes sizes that fit: 34 percent of the width of 30 rounds down to the width of the work
  area, but the limit is 33 percent.
\<close>

lemma larger_scale_missed:
  "max_scale_percent 30 10 \<lparr>an_x = 0, an_y = 0, an_width = 10, an_height = 300\<rparr> = 33"
  "capsule_fits \<lparr>an_x = 0, an_y = 100, an_width = 10, an_height = 10\<rparr>
     \<lparr>an_x = 0, an_y = 0, an_width = 10, an_height = 300\<rparr> (scaled 30 34) (scaled 10 34)"
  by (simp_all add: max_scale_percent_def capsule_fits_directions aligned_def beside_def scaled_def an_right_def an_bottom_def)

end
