(* ===== verification/Spec2Isabelle.thy ===== *)
theory Spec2Isabelle
  imports
    Engine_Properties Pet_Window_Properties Session_Properties Autostart_Properties Runtime_Properties
    Presentation_Properties Conversation_Anchor
begin

text \<open>
  ArkClaw, a desktop pet with an agent runtime: a verification library of its framework-free core.
  All paths below are relative to \<^verbatim>\<open>src/src/arkclaw\<close>.

  \<^bold>\<open>The program.\<close> The pet part keeps a layered state (lifecycle, motion, activity, behaviours,
  facing), moves a window over the user's displays, and plays animations on Track 0 of a renderer.
  An action reaches the renderer as follows. A production action is requested by the user, a system
  rule or the autonomous scheduler; it has an origin and a source that must fit. Its semantic target
  is proposed to the state machine, its catalog sequence is arbitrated against the playing one,
  the Track 0 controller plays the sequence step by step, driven by player callbacks and guarded by
  a watchdog, and the proposal is committed. The pet window feeds the pointer, its menus and a frame
  timer into this engine, and reacts to a renderer that fails. The agent part builds a bounded request from the user's
  message, history and memories, streams a provider's events, and runs tools under a policy. The
  provider it talks to is chosen by a profile: profiles and the credentials they may use are kept in a
  metadata document, and a service activates one at a time and closes the ones it replaced. A session
  controller runs one turn at a time, keeps the history, and orders turns, switches and shutdown. It
  lives in a thread of its own: a bridge in the user interface's thread issues commands to it and
  answers each by a signal. One of the services behind the thread registers the packaged program for
  start at sign-in, in a registry entry it must share with other programs, and a controller shows
  that registration to all windows. A presentation model decides which surface is shown and keeps the
  user's draft; it tells the widgets by ordered effects, and the conversation capsule is placed next to
  the pet.

  \<^bold>\<open>Theories.\<close>
  \<^item> \<open>Prelude\<close>: exceptions as values (\<open>'a res\<close>, and \<open>('a, 's) sres\<close> for methods that may raise after
    a mutation), Python indexing, whitespace, finite floats, extremum selection and clamping.
  \<^item> \<open>Action_Sequence\<close> (\<^verbatim>\<open>application/pet/pet_action_sequence.py\<close>): action and sequence names, steps,
    sequences and catalog entries with their validation, the catalog, the animation registry.
    Shown: the catalog is total and well formed, the registry constructor accepts exactly the
    registries of its contract, appending a step keeps validity.
  \<^item> \<open>Layered_State\<close> (\<^verbatim>\<open>pet_state.py\<close>): the state matrix, priorities, compatibility of states and
    actions, and the state machine \<open>PetLayeredStateMachine\<close> with proposals, commits and all
    transition methods. Shown: which states are reachable, that snapshots do not raise (and the one
    run of calls after which they do), that of two racing proposals exactly one commits. The contract
    of a state authority is the locale \<open>state_authority\<close>.
  \<^item> \<open>Production_Actions\<close> (\<^verbatim>\<open>pet_production_actions.py\<close>): authority rule, intents, semantic targets.
    Shown: every action can be proposed and committed from every valid active machine.
  \<^item> \<open>Geometry\<close> (\<^verbatim>\<open>pet_geometry.py\<close>): clamping and display selection, the locale
    \<open>workspace_geometry\<close>. Shown: optimality of the selected display, that clamping is inside,
    nearest and idempotent, that a dragged window stays recoverable.
  \<^item> \<open>Motion\<close> (\<^verbatim>\<open>pet_motion.py\<close>): position, velocities and landing timer above the state machine. Shown:
    one frame update never raises and keeps the invariant, the window stays on screen, a fall ends
    after a bounded number of frames, every run of operations keeps the invariant.
  \<^item> \<open>Track0_Arbiter\<close>, \<open>Track0_Runner\<close>, \<open>Track0_Controller\<close> (\<^verbatim>\<open>pet_track0.py\<close>): the priority matrix, the
    sequence runner, and the controller with its watchdog. Locales \<open>priority_arbiter\<close> and
    \<open>step_runner\<close> are the contracts between them. Shown: the highest class wins, sequences reach
    their terminal, the controller refines the abstract slot \<open>slot_step\<close> for every player, callbacks
    of finished playbacks are ignored for ever, the watchdog's bounds, and that a graceful exit in a
    step before the loop disarms it.
  \<^item> \<open>Scheduler\<close> (\<^verbatim>\<open>pet_autonomous_scheduler.py\<close>): weight and dwell tables, evaluation of boundaries.
    Shown: evaluation is total and sound, a forced move happens, the weighted choice is exact.
  \<^item> \<open>Animation_Engine\<close> and \<open>Animation_Frame\<close> (\<^verbatim>\<open>pet_animation.py\<close>): the engine that joins the parts above. The
    first has its state, production transactions, semantic events and renderer callbacks, the
    second its public requests, the frame clock and the render frame. \<open>Engine_Transactions\<close> and
    \<open>Engine_Events\<close> analyse the transactions over the two ends of a hand-over (\<open>owned\<close>, \<open>released\<close>) and
    prove that each operation keeps \<open>engine_inv\<close> (\<open>keeps\<close>, \<open>returns\<close>); \<open>Engine_Clock\<close> that transactions
    leave the timers alone and every frame returns; \<open>Engine_Run\<close> has runs of all operations;
    \<open>Engine_Failure\<close> the engine after a renderer failure; \<open>Engine_Properties\<close> the properties. Shown:
    frames are total and normalised after any well-used run, submissions are transactions, mandatory
    events are never lost, a renderer failure is final; and three places where the code and its intent
    part.
  \<^item> \<open>Pointer_Gesture\<close> (\<^verbatim>\<open>presentation/pet_pointer_gesture.py\<close>) and \<open>Pet_Window\<close>
    (\<^verbatim>\<open>presentation/qt/pet/pet_window.py\<close>): the click-or-drag transaction, and the handlers and the frame
    timer of the window over it and the engine. \<open>Engine_Drag\<close> shows who can start a drag,
    \<open>Pet_Window_Invariant\<close> that every handler keeps the invariant \<open>window_ok\<close>, also when it raises;
    \<open>Pet_Window_Properties\<close> has the properties. Shown: a gesture is a click or one drag, by the
    threshold read at its press; the frame timer raises nothing but what the renderer raises when it
    is handed a layout, the one call there that has no guard; and the two pointer sequences in which a
    handler raises.
  \<^item> \<open>Agent_Models\<close> (\<^verbatim>\<open>domain/models.py\<close>, \<^verbatim>\<open>domain/events.py\<close>, \<^verbatim>\<open>domain/policies.py\<close>,
    \<^verbatim>\<open>application/tools/tool_registry.py\<close>): models, events, the default tool policy and the locale
    \<open>fail_closed_policy\<close>. Shown: the policy allows exactly what it should.
  \<^item> \<open>Context_Manager\<close> (\<^verbatim>\<open>application/agent/context_manager.py\<close>): request building with its two
    trimming loops. Shown: the request fits its budget and keeps the trust rules.
  \<^item> \<open>Agent_Loop\<close> (\<^verbatim>\<open>application/agent/agent_loop.py\<close>): one turn. Shown: it ends exactly once, except
    that a \<^verbatim>\<open>CancelledError\<close> raised by a callee leaves it without an outcome; with the default policy
    only safe tools run; and the one way in which it ends twice.

  \<^item> \<open>Py_Text\<close>: the text operations of Python's library that the provider code calls.
  \<^item> \<open>Provider_Profiles\<close> (\<^verbatim>\<open>domain/models.py\<close>, \<^verbatim>\<open>config/provider_profiles.py\<close>,
    \<^verbatim>\<open>config/provider_profile_policy.py\<close>): identifiers, credential bindings, profiles and the policy of
    supported ones, shown equal to a table of endpoints.
  \<^item> \<open>Profile_Repository\<close>, \<open>Profile_Store\<close>, \<open>Profile_Map\<close>
    (\<^verbatim>\<open>infrastructure/config/json_provider_profile_repository.py\<close>): JSON documents, their parser, and the
    repository over a disk whose writes may fail; that the parser returns exactly the valid snapshots
    within the limits, and their round trip; the locale
    \<open>keyed_store\<close>, interpreted for profiles and for bindings.
  \<^item> \<open>Provider_Service\<close>, \<open>Service_Lifecycle\<close>, \<open>Service_Run\<close>
    (\<^verbatim>\<open>application/system/provider_profile_service.py\<close>): the revocable provider handle, activation,
    cleanup and shutdown, the invariant \<open>service_ok\<close> and runs of all operations.
  \<^item> \<open>Settings_Service\<close> (\<^verbatim>\<open>application/system/provider_settings_service.py\<close>, \<^verbatim>\<open>config/secrets.py\<close>): settings
    views and mutations, the secret stores and their locale \<open>secret_store\<close>.
  \<^item> \<open>Provider_Properties\<close>: the properties of the five entries above. Shown: credentials only go to the
    origin they are bound to, the repository refines two maps under failing writes as long as nothing
    oversized is stored, at every moment
    at most one provider accepts requests, a switch closes the old provider or changes nothing,
    shutdown closes all of them unless a close raises, continuations stay with their profile; and two errors.

  \<^item> \<open>Turn_Coordinator\<close> and \<open>Session\<close> (\<^verbatim>\<open>application/agent/active_turn_coordinator.py\<close>,
    \<^verbatim>\<open>application/agent/runtime_session_controller.py\<close>): the controller that joins the agent loop and the
    provider service, as a step function over what happens between two suspension points.
    \<open>Session_Invariant\<close> has the invariant \<open>session_ok\<close> and that every step keeps it, \<open>Session_Turn\<close> reduces
    a whole turn to its outcome, \<open>Session_Properties\<close> has the properties. Shown: one turn at a time and always
    against the active provider, a turn reports one outcome and extends its history exactly on
    completion (or reports none, where a \<^verbatim>\<open>CancelledError\<close> left the loop), a shutdown waits for the turn and
    closes everything or reports the cleanup that failed, closing is final, continuations stay with
    their profile; and that a blank answer is reported as a failure.

  \<^item> \<open>Autostart_Eligibility\<close> (\<^verbatim>\<open>application/system/autostart_eligibility.py\<close>, \<^verbatim>\<open>startup_mode.py\<close>,
    \<^verbatim>\<open>bootstrap/autostart.py\<close>): which executable may be registered, shown equal to the documented list of
    requirements, and the startup arguments, with the way Windows splits a command line.
  \<^item> \<open>Autostart_Journal\<close> (\<^verbatim>\<open>autostart_operation_journal.py\<close>): the journal over a disk that fails in
    every step; what is on disk is a gap-free timeline.
  \<^item> \<open>Autostart_Service\<close> (\<^verbatim>\<open>autostart_service.py\<close>, \<^verbatim>\<open>infrastructure/autostart/windows_run_key.py\<close>): the
    service over any backend, and the registry backend. \<open>Autostart_Ownership\<close> logs the calls the service
    makes and follows runs of queries and toggles; \<open>Autostart_Registry\<close> has the locales
    \<open>autostart_backend\<close> (what reads, writes and deletions do to the registered value while nobody else
    writes) and \<open>reliable_backend\<close> (they succeed), interpreted on the registry;
    \<open>Autostart_Properties\<close> the properties. Shown: every write and deletion directly follows a read that
    permits it, a lost registration is left alone, toggles refine the abstract registration, foreign
    values survive, what is registered starts the program in startup mode, reports are fixed texts.
  \<^item> \<open>Runtime_Thread\<close> (\<^verbatim>\<open>presentation/qt/platform/runtime_thread.py\<close>): gate, commands, loop and cleanup of
    the runtime's thread; \<open>Thread_Run\<close> its life as steps interleaved with submissions, and the invariant
    \<open>life_ok\<close>.
  \<^item> \<open>Runtime_Bridge\<close> (\<^verbatim>\<open>runtime_bridge.py\<close>): commands, relays and the end of the thread;
    \<open>Bridge_Run\<close> runs of the bridge and the balance of issued and answered identifiers.
  \<^item> \<open>Autostart_Controller\<close> (\<^verbatim>\<open>presentation/qt/ui/autostart_controller.py\<close>): the controller over the bridge,
    with the bridge's signals delivered to it; \<open>Gui_Invariant\<close> the invariant \<open>gui_ok\<close> of both.
    \<open>Runtime_Properties\<close> has the properties of these three. Shown: a successful shutdown of the thread
    leaves no accepted command unanswered, every identifier of the bridge is answered exactly once,
    after a shutdown request nothing else reaches the thread, the controller is busy exactly while a
    toggle is under way and settles when the thread ends.

  \<^item> \<open>Conversation_Draft\<close> (\<^verbatim>\<open>presentation/conversation_draft_safety.py\<close>) and \<open>Frontend_Presentation\<close>
    (\<^verbatim>\<open>presentation/frontend_presentation.py\<close>, \<^verbatim>\<open>presentation/qt/frontend_presentation_coordinator.py\<close>,
    \<^verbatim>\<open>conversation_surface_effect_sink.py\<close>): the draft and its submissions, intents and their effects,
    and the capsule behind them. \<open>Presentation_Properties\<close> has the properties. Shown: a draft is only
    lost on purpose, the effects reproduce the snapshot on the screen; and that a blocking overlay is
    never left.
  \<^item> \<open>Conversation_Anchor\<close> (\<^verbatim>\<open>presentation/conversation_anchor.py\<close>): the placement of the capsule. Shown:
    it is legal, of full size whenever that is possible, else of the largest percentage that is legal
    but for sizes that only rounding down makes fit; the search is equal to the maximum over all
    percentages up to its limit.

  \<^bold>\<open>Conventions.\<close> A dataclass is a record, its validating \<^verbatim>\<open>__post_init__\<close> the \<open>mk_\<close> function; an enum is a
  datatype whose constructors are written with the type's name; a method takes and returns the state
  of its object. Python integers are \<open>int\<close>. Coordinates, durations and times are \<open>real\<close>: finite
  and without rounding, so the theorems on motion and deadlines are about exact arithmetic. Object
  identities are \<open>token\<close> numbers. No definition uses fuel: every loop is a total function, and the
  runs \<open>update_n\<close> and \<open>drive\<close> count frames and callbacks, with bounds proved sufficient.

  \<^bold>\<open>Parameters.\<close> The animation player, the random generator, the tools, the argument digest (JSON and
  SHA-256) and Python's \<^verbatim>\<open>:g\<close> format are parameters. Of the player and the tools nothing is assumed;
  of the generator its documented ranges (\<open>random_source_ok\<close>); of the digest, where the policy is
  characterised, that it fails with \<^verbatim>\<open>ValueError\<close> only. Clocks and fresh objects are arguments. On the
  provider side the address parser behind \<^verbatim>\<open>urlsplit\<close>, the length of a written document, the document
  migrator, the factory with the name and protocol of its adapters, the outcomes of file writes and
  of awaited calls, and what other tasks do to the disk during an await are parameters, of which
  nothing is assumed beyond what a statement says. For autostart they are the file system and the facts
  of the process (a view per call), the registry with what other programs write to it and which of
  its calls fail (a script), and the faults of journal writes; for the thread, the bridge and the
  controller the session controller (a port of operations), the identifiers drawn, whether the event
  loop takes a callback, and how each step of its cleanup ends. For the pet window they are the screens,
  the pointer and what the renderer decides in a frame; that the capabilities of a player do not change
  and that the left button is pressed only when no press is open are hypotheses.

  \<^bold>\<open>Not modelled.\<close> Of the runtime thread, the recovery at its outermost boundary and the cancellation of
  left-over tasks, which swallow every exception around calls that are parameters here. The built-in
  tools, which are thin shells around Python's expression parser, clock and platform modules: the
  agent loop is verified for arbitrary tools. Role packs, render layout and external assets, and the
  dashboard's presentation models, which describe files and format state for widgets and change nothing
  that the modelled parts keep. Of the pet window painting, the overlay and the menus; of the conversation
  sink the events Qt processes while it moves the focus. Other Qt widgets and styling, native and OpenGL rendering, the network adapters of
  the providers, the settings and credential adapters, the bootstrap code and the packaging scripts are
  input/output or glue around third-party libraries.
\<close>

end
